(* ===== verification/Prelude.thy ===== *)
theory Prelude
  imports Complex_Main "HOL-Library.Char_ord" "HOL-Library.List_Lexorder" "HOL-Library.Product_Lexorder"
begin

text \<open>
  What every theory of the development shares: the Python string operations the backend uses,
  dictionaries that keep insertion order (as Python's do) with the interface through which the
  stateful components use them, JSON values for the free-form \<open>metadata\<close> and
  \<open>evidence\<close> fields, and results of operations that may raise after having changed the
  state.
\<close>

named_theorems dict_simps \<open>look-ups after updates of the store's dictionaries\<close>
named_theorems outcome_simps \<open>sequencing of operations that may raise\<close>

section \<open>Strings\<close>

text \<open>
  A Python \<open>str\<close> is a list of characters here; every text the backend inspects (branch
  names, repository names, paths, commands, markers) is ASCII, and \<open>lower\<close> and
  \<open>strip\<close> are written for that range.
\<close>

definition py_isspace :: "char \<Rightarrow> bool" where
  "py_isspace c \<longleftrightarrow> c \<in> set [CHR 0x09, CHR 0x0A, CHR 0x0B, CHR 0x0C, CHR 0x0D,
     CHR 0x1C, CHR 0x1D, CHR 0x1E, CHR 0x1F, CHR 0x20]"

definition py_lstrip :: "string \<Rightarrow> string" where
  "py_lstrip s = dropWhile py_isspace s"

definition py_rstrip :: "string \<Rightarrow> string" where
  "py_rstrip s = rev (dropWhile py_isspace (rev s))"

definition py_strip :: "string \<Rightarrow> string" where
  "py_strip s = py_rstrip (py_lstrip s)"

definition py_rstrip_char :: "char \<Rightarrow> string \<Rightarrow> string" where
  "py_rstrip_char c s = rev (dropWhile (\<lambda>d. d = c) (rev s))"

definition py_strip_char :: "char \<Rightarrow> string \<Rightarrow> string" where
  "py_strip_char c s = py_rstrip_char c (dropWhile (\<lambda>d. d = c) s)"

definition lower_char :: "char \<Rightarrow> char" where
  "lower_char c =
     (if 65 \<le> (of_char c :: nat) \<and> (of_char c :: nat) \<le> 90 then char_of ((of_char c :: nat) + 32) else c)"

definition py_lower :: "string \<Rightarrow> string" where
  "py_lower s = map lower_char s"

definition upper_char :: "char \<Rightarrow> char" where
  "upper_char c =
     (if 97 \<le> (of_char c :: nat) \<and> (of_char c :: nat) \<le> 122 then char_of ((of_char c :: nat) - 32) else c)"

definition py_upper :: "string \<Rightarrow> string" where
  "py_upper s = map upper_char s"

fun py_startswith :: "string \<Rightarrow> string \<Rightarrow> bool" where
  "py_startswith s [] = True"
| "py_startswith [] (c # p) = False"
| "py_startswith (d # s) (c # p) = (d = c \<and> py_startswith s p)"

definition py_endswith :: "string \<Rightarrow> string \<Rightarrow> bool" where
  "py_endswith s p = py_startswith (rev s) (rev p)"

text \<open>\<open>py_in m s\<close> is Python's \<open>m in s\<close> on strings.\<close>

fun py_in :: "string \<Rightarrow> string \<Rightarrow> bool" where
  "py_in m [] = (m = [])"
| "py_in m (c # s) = (py_startswith (c # s) m \<or> py_in m s)"

definition contains_any :: "string \<Rightarrow> string list \<Rightarrow> bool" where
  "contains_any s ms = list_ex (\<lambda>m. py_in m s) ms"

fun py_split_char :: "char \<Rightarrow> string \<Rightarrow> string list" where
  "py_split_char d [] = [[]]"
| "py_split_char d (c # s) =
     (if c = d then [] # py_split_char d s
      else (case py_split_char d s of [] \<Rightarrow> [[c]] | w # ws \<Rightarrow> (c # w) # ws))"

fun py_join :: "string \<Rightarrow> string list \<Rightarrow> string" where
  "py_join sep [] = []"
| "py_join sep [w] = w"
| "py_join sep (w # v # ws) = w @ sep @ py_join sep (v # ws)"

definition py_replace_char :: "char \<Rightarrow> char \<Rightarrow> string \<Rightarrow> string" where
  "py_replace_char a b s = map (\<lambda>c. if c = a then b else c) s"

text \<open>Python's \<open>x or y\<close> on optional strings: both \<open>None\<close> and the empty string are false.\<close>

definition str_or :: "string \<Rightarrow> string \<Rightarrow> string" where
  "str_or a b = (if a = [] then b else a)"

definition opt_str :: "string option \<Rightarrow> string" where
  "opt_str x = (case x of None \<Rightarrow> [] | Some v \<Rightarrow> v)"

definition truthy :: "string option \<Rightarrow> bool" where
  "truthy x = (case x of None \<Rightarrow> False | Some v \<Rightarrow> v \<noteq> [])"

text \<open>\<open>str.title\<close>: a letter is a capital exactly where a word begins.\<close>

definition is_letter :: "char \<Rightarrow> bool" where
  "is_letter c \<longleftrightarrow> upper_char c \<noteq> lower_char c"

fun py_title_from :: "bool \<Rightarrow> string \<Rightarrow> string" where
  "py_title_from inside [] = []"
| "py_title_from inside (c # s) =
     (if inside then lower_char c else upper_char c) # py_title_from (is_letter c) s"

definition py_title :: "string \<Rightarrow> string" where
  "py_title s = py_title_from False s"

fun nat_digits :: "nat \<Rightarrow> string" where
  "nat_digits n = (if n < 10 then [char_of (48 + n)]
     else nat_digits (n div 10) @ [char_of (48 + n mod 10)])"

declare nat_digits.simps [simp del]

definition int_str :: "int \<Rightarrow> string" where
  "int_str i = (if i < 0 then CHR ''-'' # nat_digits (nat (- i)) else nat_digits (nat i))"

lemma py_startswith_iff: "py_startswith s p \<longleftrightarrow> (\<exists>r. s = p @ r)"
  by (induction s p rule: py_startswith.induct) auto

lemma py_in_iff: "py_in m s \<longleftrightarrow> (\<exists>u v. s = u @ m @ v)"
proof (induction s)
  case Nil
  then show ?case by auto
next
  case (Cons c s)
  have "(\<exists>u v. c # s = u @ m @ v) \<longleftrightarrow> (\<exists>v. c # s = m @ v) \<or> (\<exists>u v. s = u @ m @ v)"
    by (metis append_Cons append_Nil append_eq_Cons_conv)
  with Cons.IH show ?case by (simp add: py_startswith_iff)
qed

lemma truthy_simps [simp]: "\<not> truthy None" "truthy (Some v) \<longleftrightarrow> v \<noteq> []"
  by (simp_all add: truthy_def)

lemma truthyE: "truthy x \<Longrightarrow> (\<And>v. x = Some v \<Longrightarrow> v \<noteq> [] \<Longrightarrow> P) \<Longrightarrow> P"
  by (cases x) auto

lemma opt_str_simps [simp]: "opt_str None = []" "opt_str (Some v) = v"
  by (simp_all add: opt_str_def)

lemma dropWhile_head: "dropWhile P xs = y # ys \<Longrightarrow> \<not> P y"
  using hd_dropWhile [of P xs] by simp

lemma py_lstrip_head: "py_lstrip s = c # r \<Longrightarrow> \<not> py_isspace c"
  unfolding py_lstrip_def by (rule dropWhile_head)

lemma py_split_char_not_Nil [simp]: "py_split_char d s \<noteq> []"
  by (induction s) (auto split: list.splits)

lemma py_split_char_no_sep: "w \<in> set (py_split_char d s) \<Longrightarrow> d \<notin> set w"
proof (induction s arbitrary: w)
  case Nil
  then show ?case by simp
next
  case (Cons c s)
  then show ?case by (auto split: list.splits if_splits)
qed

lemma py_split_char_join: "py_join [d] (py_split_char d s) = s"
proof (induction s)
  case Nil
  then show ?case by simp
next
  case (Cons c s)
  then show ?case
    by (cases "py_split_char d s"; cases "tl (py_split_char d s)") (auto split: list.splits)
qed

lemma py_split_char_id: "d \<notin> set w \<Longrightarrow> py_split_char d w = [w]"
  by (induction w) auto

lemma py_split_char_append:
  "d \<notin> set w \<Longrightarrow> py_split_char d (w @ d # s) = w # py_split_char d s"
  by (induction w) auto

lemma py_split_join:
  "ws \<noteq> [] \<Longrightarrow> (\<And>w. w \<in> set ws \<Longrightarrow> d \<notin> set w) \<Longrightarrow> py_split_char d (py_join [d] ws) = ws"
proof (induction "[d]" ws rule: py_join.induct)
  case 1
  then show ?case by simp
next
  case (2 w)
  then show ?case by (simp add: py_split_char_id)
next
  case (3 w v ws)
  then show ?case by (simp add: py_split_char_append)
qed


section \<open>Dictionaries\<close>

text \<open>
  A Python \<open>dict\<close> iterates in insertion order, and assigning to a present key keeps its
  position; \<open>next(... for x in d.values())\<close> and the stable \<open>sorted\<close> depend on it.
  So a dictionary is an association list, updated in place or extended at its end.
\<close>

type_synonym ('k, 'v) dict = "('k \<times> 'v) list"

fun dict_get :: "('k, 'v) dict \<Rightarrow> 'k \<Rightarrow> 'v option" where
  "dict_get [] k = None"
| "dict_get ((k', v) # d) k = (if k' = k then Some v else dict_get d k)"

fun dict_set :: "'k \<Rightarrow> 'v \<Rightarrow> ('k, 'v) dict \<Rightarrow> ('k, 'v) dict" where
  "dict_set k v [] = [(k, v)]"
| "dict_set k v ((k', v') # d) = (if k' = k then (k, v) # d else (k', v') # dict_set k v d)"

definition dict_pop :: "'k \<Rightarrow> ('k, 'v) dict \<Rightarrow> ('k, 'v) dict" where
  "dict_pop k d = filter (\<lambda>(k', v). k' \<noteq> k) d"

definition dict_vals :: "('k, 'v) dict \<Rightarrow> 'v list" where
  "dict_vals d = map snd d"

definition keyed :: "('v \<Rightarrow> 'k) \<Rightarrow> ('k, 'v) dict \<Rightarrow> bool" where
  "keyed key d \<longleftrightarrow> distinct (map fst d) \<and> list_all (\<lambda>(k, v). key v = k) d"

lemma dict_get_set [simp, dict_simps]:
  "dict_get (dict_set k v d) j = (if j = k then Some v else dict_get d j)"
  by (induction k v d rule: dict_set.induct) auto

lemma dict_get_pop [simp, dict_simps]:
  "dict_get (dict_pop k d) j = (if j = k then None else dict_get d j)"
  unfolding dict_pop_def by (induction d) auto

lemma dict_get_None_iff: "dict_get d k = None \<longleftrightarrow> k \<notin> set (map fst d)"
proof (induction d)
  case Nil
  then show ?case by simp
next
  case (Cons p d)
  then show ?case by (cases p) auto
qed

lemma dict_set_new: "dict_get d k = None \<Longrightarrow> dict_set k v d = d @ [(k, v)]"
  by (induction k v d rule: dict_set.induct) (auto split: if_splits)

lemma fst_dict_set:
  "map fst (dict_set k v d) = (if dict_get d k = None then map fst d @ [k] else map fst d)"
  by (induction k v d rule: dict_set.induct) auto

lemma dict_set_set: "dict_set k v (dict_set k u d) = dict_set k v d"
  by (induction k u d rule: dict_set.induct) auto

lemma keyed_Nil [simp]: "keyed key []"
  by (simp add: keyed_def)

lemma keyed_Cons:
  "keyed key ((k, v) # d) \<longleftrightarrow> key v = k \<and> dict_get d k = None \<and> keyed key d"
  by (auto simp: keyed_def dict_get_None_iff)

lemma keyed_set: "keyed key d \<Longrightarrow> keyed key (dict_set (key x) x d)"
proof (induction d)
  case Nil
  then show ?case by (simp add: keyed_def)
next
  case (Cons p d)
  then show ?case by (cases p) (auto simp: keyed_Cons)
qed

lemma keyed_get_iff:
  "keyed key d \<Longrightarrow> dict_get d k = Some x \<longleftrightarrow> x \<in> set (dict_vals d) \<and> key x = k"
proof (induction d)
  case Nil
  then show ?case by (simp add: dict_vals_def)
next
  case (Cons p d)
  then show ?case by (cases p) (auto simp: keyed_Cons dict_vals_def)
qed

lemma keyed_vals_set_old:
  "keyed key d \<Longrightarrow> dict_get d (key x) \<noteq> None \<Longrightarrow>
    dict_vals (dict_set (key x) x d) = map (\<lambda>y. if key y = key x then x else y) (dict_vals d)"
proof (induction d)
  case Nil
  then show ?case by simp
next
  case (Cons p d)
  obtain k v where p: "p = (k, v)" by (cases p)
  show ?case
  proof (cases "k = key x")
    case True
    with Cons.prems p have d: "keyed key d" "dict_get d (key x) = None" and v: "key v = key x"
      by (auto simp: keyed_Cons)
    have "y \<in> set (dict_vals d) \<Longrightarrow> key y \<noteq> key x" for y
      using keyed_get_iff [OF d(1), of "key x" y] d(2) by auto
    then have "map (\<lambda>y. if key y = key x then x else y) (dict_vals d) = dict_vals d"
      by (intro map_idI) auto
    then show ?thesis using True p v by (simp add: dict_vals_def)
  next
    case False
    with Cons p show ?thesis by (auto simp: keyed_Cons dict_vals_def)
  qed
qed

lemma keyed_vals_set_new:
  "dict_get d (key x) = None \<Longrightarrow> dict_vals (dict_set (key x) x d) = dict_vals d @ [x]"
  by (simp add: dict_set_new dict_vals_def)

lemma keyed_distinct_vals: "keyed key d \<Longrightarrow> distinct (dict_vals d)"
proof (induction d)
  case Nil
  then show ?case by (simp add: dict_vals_def)
next
  case (Cons p d)
  obtain k v where p: "p = (k, v)" by (cases p)
  with Cons.prems have "key v = k" "dict_get d k = None" "keyed key d" by (auto simp: keyed_Cons)
  then have "v \<notin> set (dict_vals d)" using keyed_get_iff [of key d k v] by auto
  with Cons p show ?case by (auto simp: keyed_Cons dict_vals_def)
qed

subsection \<open>The interface of a table of entities\<close>

text \<open>
  The store keeps every entity under its own \<open>id\<close>. The components rely on the laws below
  and on nothing else of the representation.
\<close>

locale entity_table =
  fixes key :: "'e \<Rightarrow> 'k"
    and get :: "'t \<Rightarrow> 'k \<Rightarrow> 'e option"
    and put :: "'e \<Rightarrow> 't \<Rightarrow> 't"
    and vals :: "'t \<Rightarrow> 'e list"
    and wf :: "'t \<Rightarrow> bool"
  assumes get_put: "get (put x t) k = (if k = key x then Some x else get t k)"
    and wf_put: "wf t \<Longrightarrow> wf (put x t)"
    and get_iff: "wf t \<Longrightarrow> get t k = Some x \<longleftrightarrow> x \<in> set (vals t) \<and> key x = k"
    and vals_put_old: "wf t \<Longrightarrow> get t (key x) \<noteq> None \<Longrightarrow>
      vals (put x t) = map (\<lambda>y. if key y = key x then x else y) (vals t)"
    and vals_put_new: "wf t \<Longrightarrow> get t (key x) = None \<Longrightarrow> vals (put x t) = vals t @ [x]"
begin

lemma get_mem: "wf t \<Longrightarrow> get t k = Some x \<Longrightarrow> x \<in> set (vals t)"
  by (simp add: get_iff)

lemma get_key: "wf t \<Longrightarrow> get t k = Some x \<Longrightarrow> key x = k"
  by (simp add: get_iff)

lemma vals_unique: "wf t \<Longrightarrow> x \<in> set (vals t) \<Longrightarrow> y \<in> set (vals t) \<Longrightarrow> key x = key y \<Longrightarrow> x = y"
  by (metis get_iff option.inject)

lemma get_self: "wf t \<Longrightarrow> x \<in> set (vals t) \<Longrightarrow> get t (key x) = Some x"
  by (simp add: get_iff)

lemma vals_put:
  "wf t \<Longrightarrow> vals (put x t) =
    (if get t (key x) = None then vals t @ [x]
     else map (\<lambda>y. if key y = key x then x else y) (vals t))"
  by (simp add: vals_put_old vals_put_new)

lemma in_vals_put:
  "wf t \<Longrightarrow> y \<in> set (vals (put x t)) \<longleftrightarrow> y = x \<or> (y \<in> set (vals t) \<and> key y \<noteq> key x)"
  using get_iff [OF wf_put, of t x "key y" y] get_iff [of t "key y" y]
  by (auto simp: get_put split: if_splits)

lemma filter_put_other:
  assumes "wf t" "\<not> P x" "\<And>y. get t (key x) = Some y \<Longrightarrow> \<not> P y"
  shows "filter P (vals (put x t)) = filter P (vals t)"
proof (cases "get t (key x)")
  case None
  with assms show ?thesis by (simp add: vals_put)
next
  case (Some z)
  have "filter P (map (\<lambda>y. if key y = key x then x else y) ys) = filter P ys"
    if "set ys \<subseteq> set (vals t)" for ys
    using that
  proof (induction ys)
    case Nil
    then show ?case by simp
  next
    case (Cons y ys)
    have "key y = key x \<Longrightarrow> \<not> P y" using Cons.prems assms(1,3) get_self by fastforce
    with Cons assms(2) show ?case by auto
  qed
  then show ?thesis using assms(1) Some by (simp add: vals_put)
qed

lemma filter_put_old:
  assumes "wf t" "get t (key x) = Some z" "P x \<longleftrightarrow> P z"
  shows "filter P (vals (put x t)) = map (\<lambda>y. if key y = key x then x else y) (filter P (vals t))"
proof -
  have "filter P (map (\<lambda>y. if key y = key x then x else y) ys) =
      map (\<lambda>y. if key y = key x then x else y) (filter P ys)"
    if "set ys \<subseteq> set (vals t)" for ys
    using that
  proof (induction ys)
    case Nil
    then show ?case by simp
  next
    case (Cons y ys)
    have "key y = key x \<Longrightarrow> y = z"
      using Cons.prems assms(1,2) get_self by fastforce
    with Cons assms(3) show ?case by auto
  qed
  then show ?thesis using assms by (simp add: vals_put)
qed

end

text \<open>The association lists provide the interface, whatever the entity's key.\<close>

lemma dict_entity_table:
  "entity_table key dict_get (\<lambda>x. dict_set (key x) x) dict_vals (keyed key)"
  by unfold_locales (simp_all add: keyed_set keyed_get_iff keyed_vals_set_old keyed_vals_set_new)

section \<open>JSON values\<close>

text \<open>
  The free-form dictionaries (\<open>metadata\<close>, \<open>evidence\<close>, audit \<open>details\<close>).
  \<open>JTime\<close> is a \<open>datetime\<close> or the text \<open>isoformat\<close> gives for it; a \<open>float\<close> is the
  rational it denotes.
\<close>

datatype json =
    JNull
  | JBool bool
  | JInt int
  | JNum rat
  | JStr string
  | JTime int
  | JList "json list"
  | JObj "(string \<times> json) list"

type_synonym jdict = "(string, json) dict"

definition json_opt_str :: "string option \<Rightarrow> json" where
  "json_opt_str x = (case x of None \<Rightarrow> JNull | Some v \<Rightarrow> JStr v)"

definition json_opt_time :: "int option \<Rightarrow> json" where
  "json_opt_time x = (case x of None \<Rightarrow> JNull | Some v \<Rightarrow> JTime v)"

definition json_strs :: "string list \<Rightarrow> json" where
  "json_strs xs = JList (map JStr xs)"

text \<open>\<open>str(d.get(k) or "")\<close>, for the string values the backend stores under such keys.\<close>

definition json_get_str :: "jdict \<Rightarrow> string \<Rightarrow> string" where
  "json_get_str d k = (case dict_get d k of Some (JStr v) \<Rightarrow> v | _ \<Rightarrow> [])"

fun json_truthy :: "json \<Rightarrow> bool" where
  "json_truthy JNull = False"
| "json_truthy (JBool b) = b"
| "json_truthy (JInt i) = (i \<noteq> 0)"
| "json_truthy (JNum q) = (q \<noteq> 0)"
| "json_truthy (JStr v) = (v \<noteq> [])"
| "json_truthy (JTime t) = True"
| "json_truthy (JList xs) = (xs \<noteq> [])"
| "json_truthy (JObj d) = (d \<noteq> [])"

section \<open>Operations that may raise\<close>

text \<open>
  An exception does not undo the changes made to the objects of the store before it was raised,
  so the outcome of an operation is a result or an error, and in both cases a state.
\<close>

type_synonym ('e, 'a, 's) outcome = "('e + 'a) \<times> 's"

definition ret :: "'a \<Rightarrow> 's \<Rightarrow> ('e, 'a, 's) outcome" where
  "ret a s = (Inr a, s)"

definition raise :: "'e \<Rightarrow> 's \<Rightarrow> ('e, 'a, 's) outcome" where
  "raise e s = (Inl e, s)"

definition bindE :: "('e, 'a, 's) outcome \<Rightarrow> ('a \<Rightarrow> 's \<Rightarrow> ('e, 'b, 's) outcome) \<Rightarrow> ('e, 'b, 's) outcome" where
  "bindE r k = (case r of (Inl e, s) \<Rightarrow> (Inl e, s) | (Inr a, s) \<Rightarrow> k a s)"

text \<open>Sequences of pure steps that may raise.\<close>

definition sum_map :: "('a \<Rightarrow> 'b) \<Rightarrow> 'e + 'a \<Rightarrow> 'e + 'b" where
  "sum_map f r = (case r of Inl e \<Rightarrow> Inl e | Inr a \<Rightarrow> Inr (f a))"

lemma sum_map_Inr_iff: "sum_map f r = Inr b \<longleftrightarrow> (\<exists>a. r = Inr a \<and> b = f a)"
  by (cases r) (auto simp: sum_map_def)

definition sum_then :: "'e + 'a \<Rightarrow> ('a \<Rightarrow> 'e + 'b) \<Rightarrow> 'e + 'b" where
  "sum_then r k = (case r of Inl e \<Rightarrow> Inl e | Inr a \<Rightarrow> k a)"

lemma sum_then_simps [simp]: "sum_then (Inl e) k = Inl e" "sum_then (Inr a) k = k a"
  by (simp_all add: sum_then_def)

lemma sum_then_Inr_iff: "sum_then r k = Inr b \<longleftrightarrow> (\<exists>a. r = Inr a \<and> k a = Inr b)"
  by (cases r) simp_all

text \<open>A pure step that may raise, inside an operation on the state.\<close>

definition liftE :: "'e + 'a \<Rightarrow> ('a \<Rightarrow> 's \<Rightarrow> ('e, 'b, 's) outcome) \<Rightarrow> 's \<Rightarrow> ('e, 'b, 's) outcome" where
  "liftE r k s = (case r of Inl e \<Rightarrow> raise e s | Inr a \<Rightarrow> k a s)"

lemma liftE_simps [simp, outcome_simps]:
  "liftE (Inl e) k s = raise e s"
  "liftE (Inr a) k s = k a s"
  by (simp_all add: liftE_def)

lemma liftE_eq_iff:
  "liftE r k s = (x, t) \<longleftrightarrow>
     (\<exists>e. r = Inl e \<and> x = Inl e \<and> t = s) \<or> (\<exists>a. r = Inr a \<and> k a s = (x, t))"
  by (cases r) (auto simp: raise_def)

lemma bindE_simps [simp, outcome_simps]:
  "bindE (Inl e, s) k = (Inl e, s)"
  "bindE (Inr a, s) k = k a s"
  "bindE (ret a s) k = k a s"
  "bindE (raise e s) k = (Inl e, s)"
  by (simp_all add: bindE_def ret_def raise_def)

lemma bindE_Inr_iff:
  "bindE r k = (Inr b, t) \<longleftrightarrow> (\<exists>a s. r = (Inr a, s) \<and> k a s = (Inr b, t))"
  by (cases r; cases "fst r") (auto simp: bindE_def)

lemma bindE_split:
  "P (bindE r k) \<longleftrightarrow> (\<forall>e s. r = (Inl e, s) \<longrightarrow> P (Inl e, s)) \<and> (\<forall>a s. r = (Inr a, s) \<longrightarrow> P (k a s))"
  by (cases r; cases "fst r") (auto simp: bindE_def)

lemma ret_eq_iff [simp, outcome_simps]: "ret a s = (x, t) \<longleftrightarrow> x = Inr a \<and> t = s"
  by (auto simp: ret_def)

lemma raise_eq_iff [simp, outcome_simps]: "raise e s = (x, t) \<longleftrightarrow> x = Inl e \<and> t = s"
  by (auto simp: raise_def)

lemma snd_ret [simp]: "snd (ret a s) = s" and fst_ret [simp]: "fst (ret a s) = Inr a"
  by (simp_all add: ret_def)

lemma snd_raise [simp]: "snd (raise e s) = s" and fst_raise [simp]: "fst (raise e s) = Inl e"
  by (simp_all add: raise_def)

text \<open>
  \<open>outcome_ok P Q r\<close>: the state satisfies \<open>P\<close> if \<open>r\<close> raised, and \<open>Q\<close> with the value if it
  returned. The equations compute what has to hold of the first state of a sequence.
\<close>

definition outcome_ok :: "('s \<Rightarrow> bool) \<Rightarrow> ('a \<Rightarrow> 's \<Rightarrow> bool) \<Rightarrow> ('e, 'a, 's) outcome \<Rightarrow> bool" where
  "outcome_ok P Q r = (case r of (Inl e, s) \<Rightarrow> P s | (Inr a, s) \<Rightarrow> Q a s)"

named_theorems wp \<open>what a sequence of operations needs for an assertion to hold after it\<close>

lemma outcome_ok_ret [wp]: "outcome_ok P Q (ret a s) \<longleftrightarrow> Q a s"
  by (simp add: outcome_ok_def ret_def)

lemma outcome_ok_raise [wp]: "outcome_ok P Q (raise e s) \<longleftrightarrow> P s"
  by (simp add: outcome_ok_def raise_def)

lemma outcome_ok_pair [wp]:
  "outcome_ok P Q (Inr a, s) \<longleftrightarrow> Q a s" "outcome_ok P Q (Inl e, s) \<longleftrightarrow> P s"
  by (simp_all add: outcome_ok_def)

lemma outcome_ok_bindE [wp]:
  "outcome_ok P Q (bindE r k) \<longleftrightarrow> outcome_ok P (\<lambda>a s. outcome_ok P Q (k a s)) r"
  by (cases r; cases "fst r") (auto simp: outcome_ok_def bindE_def)

lemma outcome_ok_liftE [wp]:
  "outcome_ok P Q (liftE r k s) \<longleftrightarrow>
     (\<forall>e. r = Inl e \<longrightarrow> P s) \<and> (\<forall>a. r = Inr a \<longrightarrow> outcome_ok P Q (k a s))"
  by (cases r) (simp_all add: wp)

lemma outcome_ok_mono:
  "outcome_ok P Q r \<Longrightarrow> (\<And>s. P s \<Longrightarrow> P' s) \<Longrightarrow> (\<And>a s. Q a s \<Longrightarrow> Q' a s) \<Longrightarrow> outcome_ok P' Q' r"
  by (cases r; cases "fst r") (auto simp: outcome_ok_def)

lemma outcome_ok_snd: "outcome_ok P (\<lambda>_. P) r \<longleftrightarrow> P (snd r)"
  by (cases r; cases "fst r") (auto simp: outcome_ok_def)

lemma outcome_okD:
  "outcome_ok P Q r \<Longrightarrow> r = (Inl e, s) \<Longrightarrow> P s"
  "outcome_ok P Q r \<Longrightarrow> r = (Inr a, s) \<Longrightarrow> Q a s"
  by (simp_all add: outcome_ok_def)

section \<open>Sorting\<close>

lemma insort_key_map:
  "(\<And>y. y \<in> insert x (set ys) \<Longrightarrow> f (g y) = f y) \<Longrightarrow>
     insort_key f (g x) (map g ys) = map g (insort_key f x ys)"
  by (induction ys) auto

lemma sort_key_map:
  "(\<And>x. x \<in> set xs \<Longrightarrow> f (g x) = f x) \<Longrightarrow> sort_key f (map g xs) = map g (sort_key f xs)"
proof (induction xs)
  case Nil
  then show ?case by simp
next
  case (Cons x xs)
  then have "sort_key f (map g (x # xs)) = insort_key f (g x) (map g (sort_key f xs))" by simp
  also have "\<dots> = map g (insort_key f x (sort_key f xs))"
    using Cons.prems by (intro insort_key_map) auto
  finally show ?case by simp
qed

lemma insort_key_snoc: "f a \<le> f x \<Longrightarrow> insort_key f a (ys @ [x]) = insort_key f a ys @ [x]"
  by (induction ys) auto

lemma sort_key_snoc: "(\<And>y. y \<in> set xs \<Longrightarrow> f y \<le> f x) \<Longrightarrow> sort_key f (xs @ [x]) = sort_key f xs @ [x]"
proof (induction xs)
  case (Cons a xs)
  then have "sort_key f (xs @ [x]) = sort_key f xs @ [x]" "f a \<le> f x" by simp_all
  then show ?case by (simp add: insort_key_snoc)
qed simp

end
