(* ===== verification/PyModels.thy ===== *)
theory PyModels
  imports Prelude
begin

text \<open>
  The data classes and enumerations of \<open>models.py\<close> and \<open>agent_task_models.py\<close> that the
  modelled components use: one \<open>datatype\<close> per \<open>StrEnum\<close>, with its text, and one
  \<open>record\<close> per pydantic model. Field names carry a prefix for their class, since a record's
  fields are global in HOL.
\<close>

section \<open>Enumerations\<close>

datatype RiskLevel = LOW | MEDIUM | HIGH | CRITICAL | BLOCKED

fun RiskLevel_value :: "RiskLevel \<Rightarrow> string" where
  "RiskLevel_value RiskLevel.LOW = ''LOW''"
| "RiskLevel_value RiskLevel.MEDIUM = ''MEDIUM''"
| "RiskLevel_value RiskLevel.HIGH = ''HIGH''"
| "RiskLevel_value RiskLevel.CRITICAL = ''CRITICAL''"
| "RiskLevel_value RiskLevel.BLOCKED = ''BLOCKED''"

datatype ApprovalStatus =
    REQUESTED | APPROVED | DENIED | EXPIRED | EXECUTING | READY_FOR_PR | FAILED | MERGED
  | CANCELLED | PENDING_REVIEW | REJECTED | REVISION_REQUESTED | BLOCKED | APPLIED
  | TESTS_RUNNING | TESTS_PASSED | TESTS_FAILED

fun ApprovalStatus_value :: "ApprovalStatus \<Rightarrow> string" where
  "ApprovalStatus_value ApprovalStatus.REQUESTED = ''REQUESTED''"
| "ApprovalStatus_value ApprovalStatus.APPROVED = ''APPROVED''"
| "ApprovalStatus_value ApprovalStatus.DENIED = ''DENIED''"
| "ApprovalStatus_value ApprovalStatus.EXPIRED = ''EXPIRED''"
| "ApprovalStatus_value ApprovalStatus.EXECUTING = ''EXECUTING''"
| "ApprovalStatus_value ApprovalStatus.READY_FOR_PR = ''READY_FOR_PR''"
| "ApprovalStatus_value ApprovalStatus.FAILED = ''FAILED''"
| "ApprovalStatus_value ApprovalStatus.MERGED = ''MERGED''"
| "ApprovalStatus_value ApprovalStatus.CANCELLED = ''CANCELLED''"
| "ApprovalStatus_value ApprovalStatus.PENDING_REVIEW = ''PENDING_REVIEW''"
| "ApprovalStatus_value ApprovalStatus.REJECTED = ''REJECTED''"
| "ApprovalStatus_value ApprovalStatus.REVISION_REQUESTED = ''REVISION_REQUESTED''"
| "ApprovalStatus_value ApprovalStatus.BLOCKED = ''BLOCKED''"
| "ApprovalStatus_value ApprovalStatus.APPLIED = ''APPLIED''"
| "ApprovalStatus_value ApprovalStatus.TESTS_RUNNING = ''TESTS_RUNNING''"
| "ApprovalStatus_value ApprovalStatus.TESTS_PASSED = ''TESTS_PASSED''"
| "ApprovalStatus_value ApprovalStatus.TESTS_FAILED = ''TESTS_FAILED''"

datatype MCPPendingStatus =
    WAITING_FOR_APPROVAL | FORWARDING | FORWARDED | BLOCKED_BY_DECISION | ORPHANED | DEAD_LETTER

fun MCPPendingStatus_value :: "MCPPendingStatus \<Rightarrow> string" where
  "MCPPendingStatus_value MCPPendingStatus.WAITING_FOR_APPROVAL = ''WAITING_FOR_APPROVAL''"
| "MCPPendingStatus_value MCPPendingStatus.FORWARDING = ''FORWARDING''"
| "MCPPendingStatus_value MCPPendingStatus.FORWARDED = ''FORWARDED''"
| "MCPPendingStatus_value MCPPendingStatus.BLOCKED_BY_DECISION = ''BLOCKED_BY_DECISION''"
| "MCPPendingStatus_value MCPPendingStatus.ORPHANED = ''ORPHANED''"
| "MCPPendingStatus_value MCPPendingStatus.DEAD_LETTER = ''DEAD_LETTER''"

datatype UserRole = OWNER | MAINTAINER | REVIEWER

fun UserRole_value :: "UserRole \<Rightarrow> string" where
  "UserRole_value OWNER = ''OWNER''"
| "UserRole_value MAINTAINER = ''MAINTAINER''"
| "UserRole_value REVIEWER = ''REVIEWER''"

datatype AgentProvider = CODEX | CHATGPT | CLAUDE | CURSOR | GITHUB_ACTIONS | MANUAL | OTHER

fun AgentProvider_value :: "AgentProvider \<Rightarrow> string" where
  "AgentProvider_value AgentProvider.CODEX = ''CODEX''"
| "AgentProvider_value AgentProvider.CHATGPT = ''CHATGPT''"
| "AgentProvider_value AgentProvider.CLAUDE = ''CLAUDE''"
| "AgentProvider_value AgentProvider.CURSOR = ''CURSOR''"
| "AgentProvider_value AgentProvider.GITHUB_ACTIONS = ''GITHUB_ACTIONS''"
| "AgentProvider_value AgentProvider.MANUAL = ''MANUAL''"
| "AgentProvider_value AgentProvider.OTHER = ''OTHER''"

datatype AgentTaskStatus =
    RECEIVED | PLANNING | WAITING_FOR_APPROVAL | APPROVED | DENIED | EXECUTING | TESTING
  | READY_FOR_PR | FAILED | CANCELLED | DONE

fun AgentTaskStatus_value :: "AgentTaskStatus \<Rightarrow> string" where
  "AgentTaskStatus_value AgentTaskStatus.RECEIVED = ''RECEIVED''"
| "AgentTaskStatus_value AgentTaskStatus.PLANNING = ''PLANNING''"
| "AgentTaskStatus_value AgentTaskStatus.WAITING_FOR_APPROVAL = ''WAITING_FOR_APPROVAL''"
| "AgentTaskStatus_value AgentTaskStatus.APPROVED = ''APPROVED''"
| "AgentTaskStatus_value AgentTaskStatus.DENIED = ''DENIED''"
| "AgentTaskStatus_value AgentTaskStatus.EXECUTING = ''EXECUTING''"
| "AgentTaskStatus_value AgentTaskStatus.TESTING = ''TESTING''"
| "AgentTaskStatus_value AgentTaskStatus.READY_FOR_PR = ''READY_FOR_PR''"
| "AgentTaskStatus_value AgentTaskStatus.FAILED = ''FAILED''"
| "AgentTaskStatus_value AgentTaskStatus.CANCELLED = ''CANCELLED''"
| "AgentTaskStatus_value AgentTaskStatus.DONE = ''DONE''"

datatype AgentTaskRequestedAction =
    CREATE_WORK_ORDER | CREATE_APPROVAL | REVIEW_ARCHITECTURE | GENERATE_DOCS | OTHER

datatype AgentTaskEventType =
    TASK_CREATED | PLAN_RECEIVED | APPROVAL_CREATED | APPROVED | DENIED | EXECUTION_STARTED
  | TESTS_STARTED | TESTS_PASSED | TESTS_FAILED | PR_CREATED | RESULT_READY | FAILED | CANCELLED
  | DONE | NOTE

section \<open>Approvals\<close>

record FileChange =
  fc_path :: string
  fc_change_type :: string
  fc_diff :: string
  fc_new_content :: "string option"

record WorkOrderCreate =
  wo_project_id :: string
  wo_idea_id :: "string option"
  wo_goal :: string
  wo_context :: string
  wo_tasks :: "string list"
  wo_affected_areas :: "string list"
  wo_required_tests :: "string list"
  wo_rollback_plan :: string

record RiskAssessment =
  ra_level :: RiskLevel
  ra_reasons :: "string list"
  ra_blocked :: bool
  ra_required_actions :: "string list"

record ApprovalRequestCreate =
  appr_project_id :: string
  appr_work_order_id :: "string option"
  appr_title :: string
  appr_summary :: string
  appr_agent_name :: string
  appr_target_branch :: string
  appr_files :: "FileChange list"
  appr_test_plan :: "string list"
  appr_rollback_plan :: string
  appr_source_provider :: "AgentProvider option"
  appr_source_agent_id :: "string option"
  appr_source_agent_name :: "string option"
  appr_source_session_id :: "string option"
  appr_source_task_url :: "string option"

text \<open>
  \<open>ApprovalRequest\<close> extends \<open>ApprovalRequestCreate\<close> as the class does; its validator
  replaces a missing \<open>source_provider\<close> by \<open>MANUAL\<close>, so there it is always present.
\<close>

record ApprovalRequest = ApprovalRequestCreate +
  appr_id :: string
  appr_status :: ApprovalStatus
  appr_risk :: RiskAssessment
  appr_created_by_user_id :: "string option"
  appr_verified_source :: bool
  appr_approved_payload_hash :: "string option"
  appr_approved_at :: "int option"
  appr_approved_by_user_id :: "string option"
  appr_created_at :: int
  appr_updated_at :: int

section \<open>MCP pending requests, audit events, users\<close>

record MCPPendingRequest =
  mp_id :: string
  mp_project_id :: string
  mp_approval_request_id :: string
  mp_server_name :: string
  mp_tool_name :: string
  mp_arguments :: jdict
  mp_session_id :: "string option"
  mp_requested_by :: string
  mp_status :: MCPPendingStatus
  mp_attempts :: int
  mp_max_attempts :: int
  mp_lease_owner :: "string option"
  mp_lease_expires_at :: "int option"
  mp_last_error :: "string option"
  mp_created_at :: int
  mp_updated_at :: int

record AuditEvent =
  au_id :: string
  au_event_type :: string
  au_actor :: string
  au_entity_id :: string
  au_details :: jdict
  au_created_at :: int

record AuthUser =
  user_id :: string
  user_email :: string
  user_display_name :: string
  user_role :: UserRole
  user_email_verified :: bool

section \<open>Agent tasks\<close>

record AgentTaskCreate =
  task_provider :: AgentProvider
  task_project_id :: "string option"
  task_title :: string
  task_goal :: string
  task_context :: string
  task_source_url :: "string option"
  task_source_session_id :: "string option"
  task_source_task_id :: "string option"
  task_requested_action :: AgentTaskRequestedAction
  task_repository :: "string option"
  task_branch_preference :: "string option"
  task_risk_hint :: "RiskLevel option"
  task_requires_approval :: bool
  task_metadata :: jdict

record AgentTask = AgentTaskCreate +
  task_id :: string
  task_status :: AgentTaskStatus
  task_external_agent_id :: "string option"
  task_external_agent_name :: "string option"
  task_approval_request_id :: "string option"
  task_worker_lease_owner :: "string option"
  task_worker_lease_expires_at :: "int option"
  task_worker_lease_token :: "string option"
  task_created_by_user_id :: "string option"
  task_created_at :: int
  task_updated_at :: int

record AgentTaskEvent =
  te_id :: string
  te_task_id :: string
  te_event_type :: AgentTaskEventType
  te_message :: string
  te_status :: "AgentTaskStatus option"
  te_metadata :: jdict
  te_actor :: string
  te_created_at :: int

end
