(* ===== verification/AppModels.thy ===== *)
theory AppModels
  imports PyModels
begin

text \<open>
  Registered agents and connectors: \<open>ExternalAgent\<close> of \<open>models.py\<close> and the classes of
  \<open>connector_models.py\<close>. A connector's \<open>config\<close> is the free-form dictionary in which the
  webhook code keeps the secret's hash, the rate-limit window and the nonce history.
\<close>

datatype AgentAuthType =
    API_KEY | WEBHOOK_SECRET | MANUAL

fun AgentAuthType_value :: "AgentAuthType \<Rightarrow> string" where
  "AgentAuthType_value AgentAuthType.API_KEY = ''API_KEY''"
| "AgentAuthType_value AgentAuthType.WEBHOOK_SECRET = ''WEBHOOK_SECRET''"
| "AgentAuthType_value AgentAuthType.MANUAL = ''MANUAL''"

datatype AgentAction =
    CREATE_APPROVAL | CREATE_WORK_ORDER | CREATE_AGENT_TASK | APPEND_AGENT_TASK_EVENT | READ_AGENT_TASK | EXECUTE_GITHUB

fun AgentAction_value :: "AgentAction \<Rightarrow> string" where
  "AgentAction_value AgentAction.CREATE_APPROVAL = ''CREATE_APPROVAL''"
| "AgentAction_value AgentAction.CREATE_WORK_ORDER = ''CREATE_WORK_ORDER''"
| "AgentAction_value AgentAction.CREATE_AGENT_TASK = ''CREATE_AGENT_TASK''"
| "AgentAction_value AgentAction.APPEND_AGENT_TASK_EVENT = ''APPEND_AGENT_TASK_EVENT''"
| "AgentAction_value AgentAction.READ_AGENT_TASK = ''READ_AGENT_TASK''"
| "AgentAction_value AgentAction.EXECUTE_GITHUB = ''EXECUTE_GITHUB''"

record ExternalAgent =
  xa_id :: string
  xa_provider :: AgentProvider
  xa_display_name :: string
  xa_auth_type :: AgentAuthType
  xa_allowed_project_ids :: "string list"
  xa_allowed_repositories :: "string list"
  xa_allowed_actions :: "AgentAction list"
  xa_created_by_user_id :: "string option"
  xa_enabled :: bool
  xa_secret_hash :: "string option"
  xa_created_at :: int
  xa_updated_at :: int

datatype ConnectorType =
    GENERIC_HTTP | WEBHOOK | MCP | LOCAL_BRIDGE | GPT_ACTIONS | CUSTOM

fun ConnectorType_value :: "ConnectorType \<Rightarrow> string" where
  "ConnectorType_value ConnectorType.GENERIC_HTTP = ''GENERIC_HTTP''"
| "ConnectorType_value ConnectorType.WEBHOOK = ''WEBHOOK''"
| "ConnectorType_value ConnectorType.MCP = ''MCP''"
| "ConnectorType_value ConnectorType.LOCAL_BRIDGE = ''LOCAL_BRIDGE''"
| "ConnectorType_value ConnectorType.GPT_ACTIONS = ''GPT_ACTIONS''"
| "ConnectorType_value ConnectorType.CUSTOM = ''CUSTOM''"

datatype ConnectorProviderLabel =
    OPENCLAW | ANTIGRAVITY | GEMINI | CLAUDE | CURSOR | CHATGPT
  | CODEX | CUSTOM

fun ConnectorProviderLabel_value :: "ConnectorProviderLabel \<Rightarrow> string" where
  "ConnectorProviderLabel_value ConnectorProviderLabel.OPENCLAW = ''OPENCLAW''"
| "ConnectorProviderLabel_value ConnectorProviderLabel.ANTIGRAVITY = ''ANTIGRAVITY''"
| "ConnectorProviderLabel_value ConnectorProviderLabel.GEMINI = ''GEMINI''"
| "ConnectorProviderLabel_value ConnectorProviderLabel.CLAUDE = ''CLAUDE''"
| "ConnectorProviderLabel_value ConnectorProviderLabel.CURSOR = ''CURSOR''"
| "ConnectorProviderLabel_value ConnectorProviderLabel.CHATGPT = ''CHATGPT''"
| "ConnectorProviderLabel_value ConnectorProviderLabel.CODEX = ''CODEX''"
| "ConnectorProviderLabel_value ConnectorProviderLabel.CUSTOM = ''CUSTOM''"

datatype ConnectorAuthType =
    NONE | API_KEY | BEARER | HMAC

fun ConnectorAuthType_value :: "ConnectorAuthType \<Rightarrow> string" where
  "ConnectorAuthType_value ConnectorAuthType.NONE = ''NONE''"
| "ConnectorAuthType_value ConnectorAuthType.API_KEY = ''API_KEY''"
| "ConnectorAuthType_value ConnectorAuthType.BEARER = ''BEARER''"
| "ConnectorAuthType_value ConnectorAuthType.HMAC = ''HMAC''"

datatype ConnectorStatus =
    ENABLED | DISABLED

fun ConnectorStatus_value :: "ConnectorStatus \<Rightarrow> string" where
  "ConnectorStatus_value ConnectorStatus.ENABLED = ''ENABLED''"
| "ConnectorStatus_value ConnectorStatus.DISABLED = ''DISABLED''"

datatype ConnectorHealthStatus =
    UNKNOWN | HEALTHY | DEGRADED | FAILING | DISABLED

fun ConnectorHealthStatus_value :: "ConnectorHealthStatus \<Rightarrow> string" where
  "ConnectorHealthStatus_value ConnectorHealthStatus.UNKNOWN = ''UNKNOWN''"
| "ConnectorHealthStatus_value ConnectorHealthStatus.HEALTHY = ''HEALTHY''"
| "ConnectorHealthStatus_value ConnectorHealthStatus.DEGRADED = ''DEGRADED''"
| "ConnectorHealthStatus_value ConnectorHealthStatus.FAILING = ''FAILING''"
| "ConnectorHealthStatus_value ConnectorHealthStatus.DISABLED = ''DISABLED''"

record AgentConnector =
  conn_id :: string
  conn_name :: string
  conn_type :: ConnectorType
  conn_provider_label :: ConnectorProviderLabel
  conn_endpoint_url :: "string option"
  conn_callback_url :: "string option"
  conn_auth_type :: ConnectorAuthType
  conn_status :: ConnectorStatus
  conn_health_status :: ConnectorHealthStatus
  conn_allowed_project_ids :: "string list"
  conn_allowed_repositories :: "string list"
  conn_allowed_actions :: "AgentAction list"
  conn_rate_limit_per_minute :: int
  conn_secret_ref :: "string option"
  conn_last_used_at :: "int option"
  conn_last_health_check_at :: "int option"
  conn_failed_auth_count :: int
  conn_last_error :: "string option"
  conn_created_by_user_id :: "string option"
  conn_config :: jdict
  conn_created_at :: int
  conn_updated_at :: int

chapter \<open>Projects, work and administration\<close>

text \<open>
  The remaining data classes the store keeps: users, sessions and invites, projects, ideas, work
  orders and test runs, child servers, notifications and devices of \<open>models.py\<close>, and the
  credential records of \<open>agent_credential_models.py\<close>.
\<close>

section \<open>Users\<close>

datatype NotificationStatus = UNREAD | READ

datatype InviteStatus = PENDING | ACCEPTED | EXPIRED | REVOKED

record User =
  usr_id :: string
  usr_email :: string
  usr_display_name :: string
  usr_role :: UserRole
  usr_password_hash :: string
  usr_password_salt :: string
  usr_disabled :: bool
  usr_email_verified :: bool
  usr_email_verification_hash :: "string option"
  usr_email_verification_salt :: "string option"
  usr_email_verification_expires_at :: "int option"
  usr_email_verification_sent_at :: "int option"
  usr_created_at :: int
  usr_updated_at :: int

record SessionToken =
  ses_id :: string
  ses_user_id :: string
  ses_token_hash :: string
  ses_created_at :: int
  ses_expires_at :: int
  ses_revoked :: bool

record Invite =
  inv_id :: string
  inv_email :: string
  inv_role :: UserRole
  inv_token_hash :: string
  inv_status :: InviteStatus
  inv_expires_at :: int
  inv_created_by_user_id :: string
  inv_accepted_by_user_id :: "string option"
  inv_created_at :: int
  inv_updated_at :: int

section \<open>Projects and work\<close>

datatype ProjectMode = STRICT | MANUAL | ASSISTED | LOW_RISK_AUTO | LOCKDOWN

fun ProjectMode_value :: "ProjectMode \<Rightarrow> string" where
  "ProjectMode_value ProjectMode.STRICT = ''STRICT''"
| "ProjectMode_value ProjectMode.MANUAL = ''MANUAL''"
| "ProjectMode_value ASSISTED = ''ASSISTED''"
| "ProjectMode_value LOW_RISK_AUTO = ''LOW_RISK_AUTO''"
| "ProjectMode_value LOCKDOWN = ''LOCKDOWN''"

datatype WorkOrderSourceType = MANUAL | AGENT_TASK | CONNECTOR | MCP

fun WorkOrderSourceType_value :: "WorkOrderSourceType \<Rightarrow> string" where
  "WorkOrderSourceType_value WorkOrderSourceType.MANUAL = ''MANUAL''"
| "WorkOrderSourceType_value AGENT_TASK = ''AGENT_TASK''"
| "WorkOrderSourceType_value CONNECTOR = ''CONNECTOR''"
| "WorkOrderSourceType_value MCP = ''MCP''"

record ProjectCreate =
  proj_name :: string
  proj_description :: string
  proj_mode :: ProjectMode
  proj_rules :: "string list"

record Project = ProjectCreate +
  proj_id :: string
  proj_created_at :: int

record IdeaCreate =
  idea_project_id :: "string option"
  idea_title :: string
  idea_raw_text :: string

record Idea = IdeaCreate +
  idea_id :: string
  idea_created_at :: int

record WorkOrder = WorkOrderCreate +
  wo_id :: string
  wo_risk_level :: RiskLevel
  wo_source_type :: WorkOrderSourceType
  wo_source_provider :: AgentProvider
  wo_source_agent_id :: "string option"
  wo_source_agent_name :: "string option"
  wo_source_task_id :: "string option"
  wo_source_session_id :: "string option"
  wo_created_by_user_id :: "string option"
  wo_verified_source :: bool
  wo_created_at :: int

record TestRunCreate =
  tr_approval_request_id :: string
  tr_command :: string
  tr_status :: string
  tr_output_summary :: string

record TestRun = TestRunCreate +
  tr_id :: string
  tr_created_at :: int

record MCPToolDefinition =
  tool_name :: string
  tool_description :: string
  tool_input_schema :: jdict
  tool_mutating :: bool

record MCPChildServerCreate =
  srv_project_id :: string
  srv_name :: string
  srv_description :: string
  srv_transport :: string
  srv_endpoint :: string
  srv_enabled :: bool
  srv_tools :: "MCPToolDefinition list"

record MCPChildServer = MCPChildServerCreate +
  srv_id :: string
  srv_created_at :: int
  srv_updated_at :: int

section \<open>Notifications and devices\<close>

record Notification =
  note_id :: string
  note_title :: string
  note_body :: string
  note_entity_type :: string
  note_entity_id :: string
  note_user_id :: "string option"
  note_status :: NotificationStatus
  note_push_status :: string
  note_push_error :: "string option"
  note_created_at :: int

record DeviceRegistration =
  dev_id :: string
  dev_user_id :: "string option"
  dev_platform :: string
  dev_token :: string
  dev_app_version :: string
  dev_created_at :: int
  dev_updated_at :: int

section \<open>Credentials of external agents\<close>

record AgentCredentialRecord =
  cred_id :: string
  cred_agent_id :: string
  cred_token_expires_at :: "int option"
  cred_token_revoked_at :: "int option"
  cred_token_rotated_at :: "int option"
  cred_last_used_at :: "int option"
  cred_failed_auth_count :: int
  cred_last_auth_failed_at :: "int option"
  cred_rate_limit_per_minute :: int
  cred_rate_limit_window_started_at :: "int option"
  cred_rate_limit_request_count :: int
  cred_created_at :: int
  cred_updated_at :: int

end
