(* ===== verification/RunModels.thy ===== *)
theory RunModels
  imports PyModels
begin

text \<open>
  The data of a Mission Control run, from \<open>agent_run_models.py\<close>: the enumerations of run, step
  and decision states, the run with its lease, the step with its attempts and evidence, the
  events of the run's history and the injected faults.
\<close>

datatype AgentRunStatus =
    SCHEDULED | RUNNING | EVALUATING | RETRY_WAIT | PAUSED | NEEDS_HUMAN | BLOCKED | SUCCEEDED
  | FAILED | CANCELLED

fun AgentRunStatus_value :: "AgentRunStatus \<Rightarrow> string" where
  "AgentRunStatus_value AgentRunStatus.SCHEDULED = ''SCHEDULED''"
| "AgentRunStatus_value AgentRunStatus.RUNNING = ''RUNNING''"
| "AgentRunStatus_value AgentRunStatus.EVALUATING = ''EVALUATING''"
| "AgentRunStatus_value AgentRunStatus.RETRY_WAIT = ''RETRY_WAIT''"
| "AgentRunStatus_value AgentRunStatus.PAUSED = ''PAUSED''"
| "AgentRunStatus_value AgentRunStatus.NEEDS_HUMAN = ''NEEDS_HUMAN''"
| "AgentRunStatus_value AgentRunStatus.BLOCKED = ''BLOCKED''"
| "AgentRunStatus_value AgentRunStatus.SUCCEEDED = ''SUCCEEDED''"
| "AgentRunStatus_value AgentRunStatus.FAILED = ''FAILED''"
| "AgentRunStatus_value AgentRunStatus.CANCELLED = ''CANCELLED''"

datatype AgentRunStepType =
    VALIDATE_SCOPE | CREATE_BRANCH | APPLY_CHANGES | RUN_VALIDATION | CREATE_PULL_REQUEST
  | VERIFY_RESULT | SEAL_EVIDENCE

fun AgentRunStepType_value :: "AgentRunStepType \<Rightarrow> string" where
  "AgentRunStepType_value VALIDATE_SCOPE = ''VALIDATE_SCOPE''"
| "AgentRunStepType_value CREATE_BRANCH = ''CREATE_BRANCH''"
| "AgentRunStepType_value APPLY_CHANGES = ''APPLY_CHANGES''"
| "AgentRunStepType_value RUN_VALIDATION = ''RUN_VALIDATION''"
| "AgentRunStepType_value CREATE_PULL_REQUEST = ''CREATE_PULL_REQUEST''"
| "AgentRunStepType_value VERIFY_RESULT = ''VERIFY_RESULT''"
| "AgentRunStepType_value SEAL_EVIDENCE = ''SEAL_EVIDENCE''"

datatype AgentRunStepStatus =
    PENDING | READY | RUNNING | RETRY_WAIT | PAUSED | NEEDS_HUMAN | BLOCKED | SUCCEEDED | FAILED
  | CANCELLED | SKIPPED

fun AgentRunStepStatus_value :: "AgentRunStepStatus \<Rightarrow> string" where
  "AgentRunStepStatus_value AgentRunStepStatus.PENDING = ''PENDING''"
| "AgentRunStepStatus_value AgentRunStepStatus.READY = ''READY''"
| "AgentRunStepStatus_value AgentRunStepStatus.RUNNING = ''RUNNING''"
| "AgentRunStepStatus_value AgentRunStepStatus.RETRY_WAIT = ''RETRY_WAIT''"
| "AgentRunStepStatus_value AgentRunStepStatus.PAUSED = ''PAUSED''"
| "AgentRunStepStatus_value AgentRunStepStatus.NEEDS_HUMAN = ''NEEDS_HUMAN''"
| "AgentRunStepStatus_value AgentRunStepStatus.BLOCKED = ''BLOCKED''"
| "AgentRunStepStatus_value AgentRunStepStatus.SUCCEEDED = ''SUCCEEDED''"
| "AgentRunStepStatus_value AgentRunStepStatus.FAILED = ''FAILED''"
| "AgentRunStepStatus_value AgentRunStepStatus.CANCELLED = ''CANCELLED''"
| "AgentRunStepStatus_value AgentRunStepStatus.SKIPPED = ''SKIPPED''"

datatype VerificationDecision =
    PASS | RETRY_TRANSIENT | NEEDS_REVISION | NEEDS_HUMAN | BLOCK_POLICY | FAIL_PERMANENT

fun VerificationDecision_value :: "VerificationDecision \<Rightarrow> string" where
  "VerificationDecision_value VerificationDecision.PASS = ''PASS''"
| "VerificationDecision_value VerificationDecision.RETRY_TRANSIENT = ''RETRY_TRANSIENT''"
| "VerificationDecision_value VerificationDecision.NEEDS_REVISION = ''NEEDS_REVISION''"
| "VerificationDecision_value VerificationDecision.NEEDS_HUMAN = ''NEEDS_HUMAN''"
| "VerificationDecision_value VerificationDecision.BLOCK_POLICY = ''BLOCK_POLICY''"
| "VerificationDecision_value VerificationDecision.FAIL_PERMANENT = ''FAIL_PERMANENT''"

datatype AgentRunEventType =
    RUN_CREATED | RUN_STATE_CHANGED | RUN_LEASE_ACQUIRED | RUN_HEARTBEAT | RUN_LEASE_RELEASED
  | CAPABILITY_LEASE_ATTACHED | TRUST_POLICY_EVALUATED | STEP_READY | STEP_STARTED
  | STEP_HEARTBEAT | STEP_SUCCEEDED | STEP_RETRY_SCHEDULED | STEP_NEEDS_HUMAN | STEP_BLOCKED
  | STEP_FAILED | STEP_CANCELLED | STALE_LEASE_RECOVERED | DUPLICATE_DELIVERY_IGNORED
  | EVIDENCE_RECORDED | FAULT_INJECTED | OPERATOR_ACTION

definition DEFAULT_AGENT_RUN_STEPS :: "AgentRunStepType list" where
  "DEFAULT_AGENT_RUN_STEPS =
     [VALIDATE_SCOPE, CREATE_BRANCH, APPLY_CHANGES, RUN_VALIDATION, CREATE_PULL_REQUEST,
      VERIFY_RESULT, SEAL_EVIDENCE]"

record AgentRunCreate =
  rc_task_id :: string
  rc_capability_lease_id :: "string option"
  rc_max_attempts_per_step :: int
  rc_correlation_id :: "string option"
  rc_metadata :: jdict

record AgentRun =
  run_id :: string
  run_task_id :: string
  run_approval_request_id :: "string option"
  run_capability_lease_id :: "string option"
  run_project_id :: "string option"
  run_repository :: "string option"
  run_objective :: string
  run_correlation_id :: string
  run_status :: AgentRunStatus
  run_current_step_id :: "string option"
  run_current_step_index :: int
  run_max_attempts_per_step :: int
  run_pause_requested :: bool
  run_cancel_requested :: bool
  run_lease_owner :: "string option"
  run_lease_token :: "string option"
  run_lease_expires_at :: "int option"
  run_heartbeat_at :: "int option"
  run_started_at :: "int option"
  run_completed_at :: "int option"
  run_final_evidence_hash :: "string option"
  run_last_error :: "string option"
  run_metadata :: jdict
  run_created_at :: int
  run_updated_at :: int

record AgentRunStep =
  step_id :: string
  step_run_id :: string
  step_task_id :: string
  step_sequence :: int
  step_type :: AgentRunStepType
  step_status :: AgentRunStepStatus
  step_attempt_count :: int
  step_max_attempts :: int
  step_idempotency_key :: string
  step_lease_owner :: "string option"
  step_lease_token :: "string option"
  step_lease_expires_at :: "int option"
  step_heartbeat_at :: "int option"
  step_next_retry_at :: "int option"
  step_started_at :: "int option"
  step_completed_at :: "int option"
  step_duration_ms :: "int option"
  step_decision :: "VerificationDecision option"
  step_reason :: string
  step_last_error :: "string option"
  step_evidence :: jdict
  step_evidence_hash :: "string option"
  step_output_reference :: "string option"
  step_created_at :: int
  step_updated_at :: int

record AgentRunEvent =
  ev_id :: string
  ev_run_id :: string
  ev_task_id :: string
  ev_step_id :: "string option"
  ev_correlation_id :: string
  ev_event_type :: AgentRunEventType
  ev_previous_status :: "string option"
  ev_new_status :: "string option"
  ev_message :: string
  ev_reason :: string
  ev_actor :: string
  ev_attempt_number :: "int option"
  ev_input_evidence_hash :: "string option"
  ev_output_evidence_hash :: "string option"
  ev_metadata :: jdict
  ev_created_at :: int

datatype AgentRunFaultKind =
    WORKER_CRASH | GITHUB_TIMEOUT | DUPLICATE_CALLBACK | LOST_ACKNOWLEDGEMENT
  | VALIDATION_TIMEOUT | INVALID_AGENT_OUTPUT | STALE_LEASE | DATABASE_DISCONNECT
  | CONTAINER_FAILURE | FORBIDDEN_FILE_MUTATION

fun AgentRunFaultKind_value :: "AgentRunFaultKind \<Rightarrow> string" where
  "AgentRunFaultKind_value WORKER_CRASH = ''WORKER_CRASH''"
| "AgentRunFaultKind_value GITHUB_TIMEOUT = ''GITHUB_TIMEOUT''"
| "AgentRunFaultKind_value DUPLICATE_CALLBACK = ''DUPLICATE_CALLBACK''"
| "AgentRunFaultKind_value LOST_ACKNOWLEDGEMENT = ''LOST_ACKNOWLEDGEMENT''"
| "AgentRunFaultKind_value VALIDATION_TIMEOUT = ''VALIDATION_TIMEOUT''"
| "AgentRunFaultKind_value INVALID_AGENT_OUTPUT = ''INVALID_AGENT_OUTPUT''"
| "AgentRunFaultKind_value STALE_LEASE = ''STALE_LEASE''"
| "AgentRunFaultKind_value DATABASE_DISCONNECT = ''DATABASE_DISCONNECT''"
| "AgentRunFaultKind_value CONTAINER_FAILURE = ''CONTAINER_FAILURE''"
| "AgentRunFaultKind_value FORBIDDEN_FILE_MUTATION = ''FORBIDDEN_FILE_MUTATION''"

record AgentRunFaultConfig =
  fault_id :: string
  fault_run_id :: "string option"
  fault_step_type :: "AgentRunStepType option"
  fault_kind :: AgentRunFaultKind
  fault_enabled :: bool
  fault_remaining_uses :: int
  fault_message :: string
  fault_created_by :: string
  fault_created_at :: int

record AgentRunStepExecutionResult =
  res_success :: bool
  res_decision :: VerificationDecision
  res_reason :: string
  res_evidence :: jdict
  res_output_reference :: "string option"

end
