(* ===== verification/TrustModels.thy ===== *)
theory TrustModels
  imports PyModels
begin

text \<open>
  The data of the trust control plane, from \<open>trust_models.py\<close> and
  \<open>trust_action_authorization_models.py\<close>: capability leases and their scope, proposed actions,
  policy decisions, human authorizations, consumption records, reviewer attestations, credential
  grants and the events of the flight recorder. A \<open>float\<close> field is a rational number.
\<close>

datatype CapabilityLeaseMode = STRICT | BOUNDED | SUPERVISED

fun CapabilityLeaseMode_value :: "CapabilityLeaseMode \<Rightarrow> string" where
  "CapabilityLeaseMode_value STRICT = ''STRICT''"
| "CapabilityLeaseMode_value BOUNDED = ''BOUNDED''"
| "CapabilityLeaseMode_value SUPERVISED = ''SUPERVISED''"

datatype CapabilityLeaseStatus = ACTIVE | EXPIRED | REVOKED | CONSUMED

fun CapabilityLeaseStatus_value :: "CapabilityLeaseStatus \<Rightarrow> string" where
  "CapabilityLeaseStatus_value CapabilityLeaseStatus.ACTIVE = ''ACTIVE''"
| "CapabilityLeaseStatus_value CapabilityLeaseStatus.EXPIRED = ''EXPIRED''"
| "CapabilityLeaseStatus_value CapabilityLeaseStatus.REVOKED = ''REVOKED''"
| "CapabilityLeaseStatus_value CapabilityLeaseStatus.CONSUMED = ''CONSUMED''"

datatype CapabilityActionType =
    READ_REPOSITORY | CREATE_BRANCH | MODIFY_FILES | RUN_COMMAND | ACCESS_NETWORK
  | CREATE_PULL_REQUEST | DEPLOY | READ_SECRET | WRITE_DATABASE | CUSTOM

fun CapabilityActionType_value :: "CapabilityActionType \<Rightarrow> string" where
  "CapabilityActionType_value CapabilityActionType.READ_REPOSITORY = ''READ_REPOSITORY''"
| "CapabilityActionType_value CapabilityActionType.CREATE_BRANCH = ''CREATE_BRANCH''"
| "CapabilityActionType_value CapabilityActionType.MODIFY_FILES = ''MODIFY_FILES''"
| "CapabilityActionType_value CapabilityActionType.RUN_COMMAND = ''RUN_COMMAND''"
| "CapabilityActionType_value CapabilityActionType.ACCESS_NETWORK = ''ACCESS_NETWORK''"
| "CapabilityActionType_value CapabilityActionType.CREATE_PULL_REQUEST = ''CREATE_PULL_REQUEST''"
| "CapabilityActionType_value CapabilityActionType.DEPLOY = ''DEPLOY''"
| "CapabilityActionType_value CapabilityActionType.READ_SECRET = ''READ_SECRET''"
| "CapabilityActionType_value CapabilityActionType.WRITE_DATABASE = ''WRITE_DATABASE''"
| "CapabilityActionType_value CapabilityActionType.CUSTOM = ''CUSTOM''"

record CapabilityScope =
  scope_repository :: string
  scope_branch :: string
  scope_allowed_actions :: "CapabilityActionType list"
  scope_allowed_path_prefixes :: "string list"
  scope_allowed_commands :: "string list"
  scope_allowed_network_domains :: "string list"
  scope_max_runtime_seconds :: int
  scope_max_cost_usd :: rat
  scope_max_retries :: int
  scope_max_pull_requests :: int
  scope_allow_auto_merge :: bool
  scope_metadata :: jdict

record CapabilityLeaseCreate =
  lc_approval_request_id :: string
  lc_agent_id :: "string option"
  lc_provider :: AgentProvider
  lc_mode :: CapabilityLeaseMode
  lc_scope :: CapabilityScope
  lc_expires_in_seconds :: int
  lc_required_reviewer_count :: int
  lc_prevent_self_approval :: bool

record CapabilityLease =
  lease_id :: string
  lease_approval_request_id :: string
  lease_approved_payload_hash :: string
  lease_agent_id :: "string option"
  lease_provider :: AgentProvider
  lease_mode :: CapabilityLeaseMode
  lease_scope :: CapabilityScope
  lease_issued_by_user_id :: string
  lease_required_reviewer_count :: int
  lease_prevent_self_approval :: bool
  lease_status :: CapabilityLeaseStatus
  lease_issued_at :: int
  lease_expires_at :: int
  lease_revoked_at :: "int option"
  lease_revoked_by_user_id :: "string option"
  lease_revocation_reason :: string
  lease_receipt_nonce :: string
  lease_receipt_signature :: string
  lease_consumed_pull_requests :: int
  lease_consumed_retries :: int
  lease_consumed_runtime_seconds :: int
  lease_consumed_cost_usd :: rat
  lease_created_at :: int
  lease_updated_at :: int

datatype ReviewerAttestationDecision = APPROVE | DENY

fun ReviewerAttestationDecision_value :: "ReviewerAttestationDecision \<Rightarrow> string" where
  "ReviewerAttestationDecision_value APPROVE = ''APPROVE''"
| "ReviewerAttestationDecision_value DENY = ''DENY''"

record ReviewerAttestationCreate =
  rac_approval_request_id :: string
  rac_decision :: ReviewerAttestationDecision
  rac_reason :: string

record ReviewerAttestation =
  att_id :: string
  att_approval_request_id :: string
  att_approval_payload_hash :: string
  att_reviewer_user_id :: string
  att_reviewer_role :: UserRole
  att_decision :: ReviewerAttestationDecision
  att_reason :: string
  att_signature :: string
  att_created_at :: int

record ProposedAction =
  act_id :: string
  act_lease_id :: "string option"
  act_provider :: AgentProvider
  act_agent_id :: "string option"
  act_run_id :: "string option"
  act_task_id :: "string option"
  act_project_id :: "string option"
  act_action_type :: CapabilityActionType
  act_repository :: "string option"
  act_branch :: "string option"
  act_paths :: "string list"
  act_command :: "string option"
  act_network_domains :: "string list"
  act_estimated_runtime_seconds :: int
  act_estimated_cost_usd :: rat
  act_retry_number :: int
  act_metadata :: jdict
  act_created_at :: int

record ActionConsumption =
  con_actual_runtime_seconds :: int
  con_actual_cost_usd :: rat
  con_pull_requests_created :: int
  con_retry_consumed :: bool
  con_output_reference :: "string option"
  con_evidence :: jdict

datatype PolicyDecisionType = ALLOW | REQUIRE_APPROVAL | BLOCK

fun PolicyDecisionType_value :: "PolicyDecisionType \<Rightarrow> string" where
  "PolicyDecisionType_value PolicyDecisionType.ALLOW = ''ALLOW''"
| "PolicyDecisionType_value PolicyDecisionType.REQUIRE_APPROVAL = ''REQUIRE_APPROVAL''"
| "PolicyDecisionType_value PolicyDecisionType.BLOCK = ''BLOCK''"

record PolicyDecision =
  dec_id :: string
  dec_proposed_action_id :: string
  dec_lease_id :: "string option"
  dec_decision :: PolicyDecisionType
  dec_risk_level :: RiskLevel
  dec_reasons :: "string list"
  dec_obligations :: "string list"
  dec_evaluated_policy_version :: string
  dec_evaluated_at :: int

datatype ActionAuthorizationDecision = ALLOW | BLOCK

fun ActionAuthorizationDecision_value :: "ActionAuthorizationDecision \<Rightarrow> string" where
  "ActionAuthorizationDecision_value ActionAuthorizationDecision.ALLOW = ''ALLOW''"
| "ActionAuthorizationDecision_value ActionAuthorizationDecision.BLOCK = ''BLOCK''"

record ActionAuthorizationCreate =
  aac_decision :: ActionAuthorizationDecision
  aac_reason :: string

record ActionAuthorization =
  auth_id :: string
  auth_action_id :: string
  auth_action_payload_hash :: string
  auth_policy_decision_id :: string
  auth_reviewer_user_id :: string
  auth_reviewer_role :: UserRole
  auth_decision :: ActionAuthorizationDecision
  auth_reason :: string
  auth_signature :: string
  auth_created_at :: int

datatype TrustEventType =
    ATTESTATION_RECORDED | LEASE_ISSUED | LEASE_REVOKED | LEASE_EXPIRED | ACTION_RECEIVED
  | ACTION_ALLOWED | ACTION_REQUIRES_APPROVAL | ACTION_BLOCKED | ACTION_CONSUMED
  | CREDENTIAL_GRANT_ISSUED | CREDENTIAL_GRANT_REVOKED | RUN_EXCEPTION

fun TrustEventType_value :: "TrustEventType \<Rightarrow> string" where
  "TrustEventType_value ATTESTATION_RECORDED = ''ATTESTATION_RECORDED''"
| "TrustEventType_value LEASE_ISSUED = ''LEASE_ISSUED''"
| "TrustEventType_value LEASE_REVOKED = ''LEASE_REVOKED''"
| "TrustEventType_value LEASE_EXPIRED = ''LEASE_EXPIRED''"
| "TrustEventType_value ACTION_RECEIVED = ''ACTION_RECEIVED''"
| "TrustEventType_value ACTION_ALLOWED = ''ACTION_ALLOWED''"
| "TrustEventType_value ACTION_REQUIRES_APPROVAL = ''ACTION_REQUIRES_APPROVAL''"
| "TrustEventType_value ACTION_BLOCKED = ''ACTION_BLOCKED''"
| "TrustEventType_value ACTION_CONSUMED = ''ACTION_CONSUMED''"
| "TrustEventType_value CREDENTIAL_GRANT_ISSUED = ''CREDENTIAL_GRANT_ISSUED''"
| "TrustEventType_value CREDENTIAL_GRANT_REVOKED = ''CREDENTIAL_GRANT_REVOKED''"
| "TrustEventType_value RUN_EXCEPTION = ''RUN_EXCEPTION''"

record TrustEvent =
  tev_id :: string
  tev_sequence :: int
  tev_event_type :: TrustEventType
  tev_entity_type :: string
  tev_entity_id :: string
  tev_actor :: string
  tev_correlation_id :: "string option"
  tev_payload :: jdict
  tev_previous_hash :: "string option"
  tev_event_hash :: string
  tev_created_at :: int

record FlightRecorderVerification =
  frv_valid :: bool
  frv_event_count :: int
  frv_first_invalid_sequence :: "int option"
  frv_reason :: string

datatype CredentialGrantType = GITHUB_APP_INSTALLATION | OIDC_FEDERATION | INTERNAL_CAPABILITY_TOKEN

record CredentialGrant =
  grant_id :: string
  grant_lease_id :: string
  grant_type :: CredentialGrantType
  grant_audience :: string
  grant_subject :: string
  grant_scope :: "string list"
  grant_issued_at :: int
  grant_expires_at :: int
  grant_revoked :: bool
  grant_revoked_at :: "int option"
  grant_token_hash :: string
  grant_metadata :: jdict

record CredentialGrantCreate =
  gc_lease_id :: string
  gc_grant_type :: CredentialGrantType
  gc_audience :: string
  gc_subject :: string
  gc_scope :: "string list"
  gc_expires_in_seconds :: int

end
