(* ===== verification/Store.thy ===== *)
theory Store
  imports AppModels RunModels TrustModels
begin

text \<open>
  The state every component shares (\<open>store.py\<close>): the dictionaries of entities the process keeps
  in memory, the copy of them that the last \<open>persist()\<close> wrote to the database, the clock that
  \<open>_now()\<close> reads, and the number of identifiers drawn so far. The environment a deployment
  supplies (hash functions, random identifiers, the signing key, settings) is a parameter.
  The process holds the store's lock during an operation, so an operation is one step.
\<close>

section \<open>The environment\<close>

text \<open>
  \<open>uuid_hex12 n\<close> is \<open>uuid4().hex[:12]\<close> at the n-th draw and \<open>token_urlsafe n\<close> and \<open>token_hex n\<close>
  are the secrets the \<open>secrets\<close> module returns there; \<open>sha256\<close> and \<open>hmac_sha256\<close> are the hexadecimal digests of \<open>hashlib\<close> and
  \<open>hmac\<close>; \<open>time_text\<close> and \<open>float_repr\<close> are the texts the JSON encoder writes for a \<open>datetime\<close>
  and for a \<open>float\<close>. Nothing is assumed of them here: a theorem that needs, say, identifiers
  not yet in use names that as a hypothesis.
\<close>

record env =
  uuid_hex12 :: "nat \<Rightarrow> string"
  token_urlsafe :: "nat \<Rightarrow> string"
  token_hex :: "nat \<Rightarrow> string"
  sha256 :: "string \<Rightarrow> string"
  hmac_sha256 :: "string \<Rightarrow> string \<Rightarrow> string"
  signing_key :: string
  time_text :: "int \<Rightarrow> string"
  float_repr :: "rat \<Rightarrow> string"
  trust_enforcement :: bool

section \<open>Errors\<close>

text \<open>The exceptions of the modelled components, with their messages.\<close>

datatype pyerror =
    ValueError string
  | KeyError string
  | PermissionError string
  | AgentRunConflict string
  | InvalidAgentRunTransition string
  | TrustControlConflict string
  | AgentRunTrustConflict string
  | RunCapabilityConflict string
  | ActionAuthorizationConflict string
  | NotImplementedError string
  | ValidationError string
  | RuntimeError string
  | OSError string string
  | HTTPException int string

fun pyerror_message :: "pyerror \<Rightarrow> string" where
  "pyerror_message (ValueError m) = m"
| "pyerror_message (KeyError m) = m"
| "pyerror_message (PermissionError m) = m"
| "pyerror_message (AgentRunConflict m) = m"
| "pyerror_message (InvalidAgentRunTransition m) = m"
| "pyerror_message (TrustControlConflict m) = m"
| "pyerror_message (AgentRunTrustConflict m) = m"
| "pyerror_message (RunCapabilityConflict m) = m"
| "pyerror_message (ActionAuthorizationConflict m) = m"
| "pyerror_message (NotImplementedError m) = m"
| "pyerror_message (ValidationError m) = m"
| "pyerror_message (RuntimeError m) = m"
| "pyerror_message (OSError c m) = m"
| "pyerror_message (HTTPException c m) = m"

text \<open>The name of the class; an \<open>OSError\<close> carries that of its subclass.\<close>

fun pyerror_class :: "pyerror \<Rightarrow> string" where
  "pyerror_class (ValueError m) = ''ValueError''"
| "pyerror_class (KeyError m) = ''KeyError''"
| "pyerror_class (PermissionError m) = ''PermissionError''"
| "pyerror_class (AgentRunConflict m) = ''AgentRunConflict''"
| "pyerror_class (InvalidAgentRunTransition m) = ''InvalidAgentRunTransition''"
| "pyerror_class (TrustControlConflict m) = ''TrustControlConflict''"
| "pyerror_class (AgentRunTrustConflict m) = ''AgentRunTrustConflict''"
| "pyerror_class (RunCapabilityConflict m) = ''RunCapabilityConflict''"
| "pyerror_class (ActionAuthorizationConflict m) = ''ActionAuthorizationConflict''"
| "pyerror_class (NotImplementedError m) = ''NotImplementedError''"
| "pyerror_class (ValidationError m) = ''ValidationError''"
| "pyerror_class (RuntimeError m) = ''RuntimeError''"
| "pyerror_class (OSError c m) = c"
| "pyerror_class (HTTPException c m) = ''HTTPException''"

section \<open>The store\<close>

record store =
  agent_tasks :: "(string, AgentTask) dict"
  agent_task_events :: "(string, AgentTaskEvent) dict"
  agent_runs :: "(string, AgentRun) dict"
  agent_run_steps :: "(string, AgentRunStep) dict"
  agent_run_events :: "(string, AgentRunEvent) dict"
  agent_run_faults :: "(string, AgentRunFaultConfig) dict"
  capability_leases :: "(string, CapabilityLease) dict"
  reviewer_attestations :: "(string, ReviewerAttestation) dict"
  proposed_actions :: "(string, ProposedAction) dict"
  policy_decisions :: "(string, PolicyDecision) dict"
  action_authorizations :: "(string, ActionAuthorization) dict"
  action_consumptions :: "(string, ActionConsumption) dict"
  credential_grants :: "(string, CredentialGrant) dict"
  trust_events :: "(string, TrustEvent) dict"
  approval_requests :: "(string, ApprovalRequest) dict"
  mcp_pending_requests :: "(string, MCPPendingRequest) dict"
  external_agents :: "(string, ExternalAgent) dict"
  agent_connectors :: "(string, AgentConnector) dict"
  users :: "(string, User) dict"
  sessions :: "(string, SessionToken) dict"
  invites :: "(string, Invite) dict"
  external_agent_credentials :: "(string, AgentCredentialRecord) dict"
  device_registrations :: "(string, DeviceRegistration) dict"
  projects :: "(string, Project) dict"
  mcp_child_servers :: "(string, MCPChildServer) dict"
  ideas :: "(string, Idea) dict"
  work_orders :: "(string, WorkOrder) dict"
  test_runs :: "(string, TestRun) dict"
  notifications :: "(string, Notification) dict"
  audit_events :: "AuditEvent list"

text \<open>The rows of the database, as the entities they hold.\<close>

datatype db = DB (rows: store)

record sys = store +
  clock :: int
  draws :: nat
  disk :: db

type_synonym 'a result = "(pyerror, 'a, sys) outcome"

definition empty_store :: store where
  "empty_store = \<lparr>agent_tasks = [], agent_task_events = [], agent_runs = [], agent_run_steps = [],
     agent_run_events = [], agent_run_faults = [], capability_leases = [],
     reviewer_attestations = [], proposed_actions = [], policy_decisions = [],
     action_authorizations = [], action_consumptions = [], credential_grants = [],
     trust_events = [], approval_requests = [], mcp_pending_requests = [],
     external_agents = [], agent_connectors = [], users = [], sessions = [], invites = [],
     external_agent_credentials = [], device_registrations = [], projects = [], mcp_child_servers = [],
     ideas = [], work_orders = [], test_runs = [], notifications = [], audit_events = []\<rparr>"

definition sys_of :: "store \<Rightarrow> int \<Rightarrow> nat \<Rightarrow> store \<Rightarrow> sys" where
  "sys_of m t n d = store.extend m \<lparr>clock = t, draws = n, disk = DB d\<rparr>"

text \<open>
  \<open>persist\<close> deletes every row and writes every entity again, in one transaction: afterwards the
  database holds exactly the store in memory.
\<close>

definition persist :: "sys \<Rightarrow> sys" where
  "persist s = s\<lparr>disk := DB (store.truncate s)\<rparr>"

definition durable :: "sys \<Rightarrow> bool" where
  "durable s \<longleftrightarrow> disk s = DB (store.truncate s)"

text \<open>
  \<open>load\<close> reads each kind of entity with \<open>ORDER BY entity_id\<close>: a restart keeps the entities and
  sorts each dictionary by its key.
\<close>

definition by_key :: "(string, 'v) dict \<Rightarrow> (string, 'v) dict" where
  "by_key d = sort_key fst d"

definition load_store :: "store \<Rightarrow> store" where
  "load_store d = \<lparr>agent_tasks = by_key (agent_tasks d),
     agent_task_events = by_key (agent_task_events d),
     agent_runs = by_key (agent_runs d),
     agent_run_steps = by_key (agent_run_steps d),
     agent_run_events = by_key (agent_run_events d),
     agent_run_faults = by_key (agent_run_faults d),
     capability_leases = by_key (capability_leases d),
     reviewer_attestations = by_key (reviewer_attestations d),
     proposed_actions = by_key (proposed_actions d),
     policy_decisions = by_key (policy_decisions d),
     action_authorizations = by_key (action_authorizations d),
     action_consumptions = by_key (action_consumptions d),
     credential_grants = by_key (credential_grants d),
     trust_events = by_key (trust_events d),
     approval_requests = by_key (approval_requests d),
     mcp_pending_requests = by_key (mcp_pending_requests d),
     external_agents = by_key (external_agents d),
     agent_connectors = by_key (agent_connectors d),
     users = by_key (users d),
     sessions = by_key (sessions d),
     invites = by_key (invites d),
     external_agent_credentials = by_key (external_agent_credentials d),
     device_registrations = by_key (device_registrations d),
     projects = by_key (projects d),
     mcp_child_servers = by_key (mcp_child_servers d),
     ideas = by_key (ideas d),
     work_orders = by_key (work_orders d),
     test_runs = by_key (test_runs d),
     notifications = by_key (notifications d),
     audit_events = sort_key au_id (audit_events d)\<rparr>"

definition load :: "sys \<Rightarrow> sys" where
  "load s = sys_of (load_store (rows (disk s))) (clock s) (draws s) (rows (disk s))"

definition reset :: "sys \<Rightarrow> sys" where
  "reset s = sys_of empty_store (clock s) (draws s) empty_store"

section \<open>Identifiers and secrets\<close>

definition new_id :: "env \<Rightarrow> string \<Rightarrow> sys \<Rightarrow> string" where
  "new_id E prefix s = prefix @ ''_'' @ uuid_hex12 E (draws s)"

definition drawn :: "sys \<Rightarrow> sys" where
  "drawn s = s\<lparr>draws := Suc (draws s)\<rparr>"

section \<open>Writing entities\<close>

definition put_task :: "AgentTask \<Rightarrow> sys \<Rightarrow> sys" where
  "put_task x s = s\<lparr>agent_tasks := dict_set (task_id x) x (agent_tasks s)\<rparr>"

definition put_task_event :: "AgentTaskEvent \<Rightarrow> sys \<Rightarrow> sys" where
  "put_task_event x s = s\<lparr>agent_task_events := dict_set (te_id x) x (agent_task_events s)\<rparr>"

definition put_run :: "AgentRun \<Rightarrow> sys \<Rightarrow> sys" where
  "put_run x s = s\<lparr>agent_runs := dict_set (run_id x) x (agent_runs s)\<rparr>"

definition put_step :: "AgentRunStep \<Rightarrow> sys \<Rightarrow> sys" where
  "put_step x s = s\<lparr>agent_run_steps := dict_set (step_id x) x (agent_run_steps s)\<rparr>"

definition put_run_event :: "AgentRunEvent \<Rightarrow> sys \<Rightarrow> sys" where
  "put_run_event x s = s\<lparr>agent_run_events := dict_set (ev_id x) x (agent_run_events s)\<rparr>"

definition put_fault :: "AgentRunFaultConfig \<Rightarrow> sys \<Rightarrow> sys" where
  "put_fault x s = s\<lparr>agent_run_faults := dict_set (fault_id x) x (agent_run_faults s)\<rparr>"

definition put_lease :: "CapabilityLease \<Rightarrow> sys \<Rightarrow> sys" where
  "put_lease x s = s\<lparr>capability_leases := dict_set (lease_id x) x (capability_leases s)\<rparr>"

definition put_attestation :: "ReviewerAttestation \<Rightarrow> sys \<Rightarrow> sys" where
  "put_attestation x s = s\<lparr>reviewer_attestations := dict_set (att_id x) x (reviewer_attestations s)\<rparr>"

definition put_action :: "ProposedAction \<Rightarrow> sys \<Rightarrow> sys" where
  "put_action x s = s\<lparr>proposed_actions := dict_set (act_id x) x (proposed_actions s)\<rparr>"

definition put_decision :: "PolicyDecision \<Rightarrow> sys \<Rightarrow> sys" where
  "put_decision x s = s\<lparr>policy_decisions := dict_set (dec_id x) x (policy_decisions s)\<rparr>"

definition put_authorization :: "ActionAuthorization \<Rightarrow> sys \<Rightarrow> sys" where
  "put_authorization x s = s\<lparr>action_authorizations := dict_set (auth_id x) x (action_authorizations s)\<rparr>"

definition put_grant :: "CredentialGrant \<Rightarrow> sys \<Rightarrow> sys" where
  "put_grant x s = s\<lparr>credential_grants := dict_set (grant_id x) x (credential_grants s)\<rparr>"

definition put_trust_event :: "TrustEvent \<Rightarrow> sys \<Rightarrow> sys" where
  "put_trust_event x s = s\<lparr>trust_events := dict_set (tev_id x) x (trust_events s)\<rparr>"

definition put_approval :: "ApprovalRequest \<Rightarrow> sys \<Rightarrow> sys" where
  "put_approval x s = s\<lparr>approval_requests := dict_set (appr_id x) x (approval_requests s)\<rparr>"

definition put_pending :: "MCPPendingRequest \<Rightarrow> sys \<Rightarrow> sys" where
  "put_pending x s = s\<lparr>mcp_pending_requests := dict_set (mp_id x) x (mcp_pending_requests s)\<rparr>"

definition put_connector :: "AgentConnector \<Rightarrow> sys \<Rightarrow> sys" where
  "put_connector x s = s\<lparr>agent_connectors := dict_set (conn_id x) x (agent_connectors s)\<rparr>"

definition put_agent :: "ExternalAgent \<Rightarrow> sys \<Rightarrow> sys" where
  "put_agent x s = s\<lparr>external_agents := dict_set (xa_id x) x (external_agents s)\<rparr>"

definition put_user :: "User \<Rightarrow> sys \<Rightarrow> sys" where
  "put_user x s = s\<lparr>users := dict_set (usr_id x) x (users s)\<rparr>"

definition put_session :: "SessionToken \<Rightarrow> sys \<Rightarrow> sys" where
  "put_session x s = s\<lparr>sessions := dict_set (ses_id x) x (sessions s)\<rparr>"

definition put_invite :: "Invite \<Rightarrow> sys \<Rightarrow> sys" where
  "put_invite x s = s\<lparr>invites := dict_set (inv_id x) x (invites s)\<rparr>"

definition put_agent_credential :: "AgentCredentialRecord \<Rightarrow> sys \<Rightarrow> sys" where
  "put_agent_credential x s = s\<lparr>external_agent_credentials := dict_set (cred_agent_id x) x (external_agent_credentials s)\<rparr>"

definition put_device :: "DeviceRegistration \<Rightarrow> sys \<Rightarrow> sys" where
  "put_device x s = s\<lparr>device_registrations := dict_set (dev_id x) x (device_registrations s)\<rparr>"

definition put_project :: "Project \<Rightarrow> sys \<Rightarrow> sys" where
  "put_project x s = s\<lparr>projects := dict_set (proj_id x) x (projects s)\<rparr>"

definition put_server :: "MCPChildServer \<Rightarrow> sys \<Rightarrow> sys" where
  "put_server x s = s\<lparr>mcp_child_servers := dict_set (srv_id x) x (mcp_child_servers s)\<rparr>"

definition put_idea :: "Idea \<Rightarrow> sys \<Rightarrow> sys" where
  "put_idea x s = s\<lparr>ideas := dict_set (idea_id x) x (ideas s)\<rparr>"

definition put_work_order :: "WorkOrder \<Rightarrow> sys \<Rightarrow> sys" where
  "put_work_order x s = s\<lparr>work_orders := dict_set (wo_id x) x (work_orders s)\<rparr>"

definition put_test_run :: "TestRun \<Rightarrow> sys \<Rightarrow> sys" where
  "put_test_run x s = s\<lparr>test_runs := dict_set (tr_id x) x (test_runs s)\<rparr>"

definition put_notification :: "Notification \<Rightarrow> sys \<Rightarrow> sys" where
  "put_notification x s = s\<lparr>notifications := dict_set (note_id x) x (notifications s)\<rparr>"

text \<open>The consumption of an action is kept under the action's identifier.\<close>

definition put_consumption :: "string \<Rightarrow> ActionConsumption \<Rightarrow> sys \<Rightarrow> sys" where
  "put_consumption k x s = s\<lparr>action_consumptions := dict_set k x (action_consumptions s)\<rparr>"

text \<open>\<open>AuditEvent(...)\<close> appended to the audit log: the same three lines in every module.\<close>

definition add_audit :: "env \<Rightarrow> string \<Rightarrow> string \<Rightarrow> jdict \<Rightarrow> string \<Rightarrow> sys \<Rightarrow> sys" where
  "add_audit E event_type entity_id details actor s =
     drawn (s\<lparr>audit_events := audit_events s @
       [\<lparr>au_id = new_id E ''audit'' s, au_event_type = event_type, au_actor = actor,
         au_entity_id = entity_id, au_details = details, au_created_at = clock s\<rparr>]\<rparr>)"

section \<open>Laws of the store\<close>

text \<open>Each dictionary of entities is a table in the sense of the prelude.\<close>

interpretation runs: entity_table run_id dict_get "\<lambda>x. dict_set (run_id x) x" dict_vals "keyed run_id"
  by (rule dict_entity_table)

interpretation steps: entity_table step_id dict_get "\<lambda>x. dict_set (step_id x) x" dict_vals "keyed step_id"
  by (rule dict_entity_table)

interpretation leases: entity_table lease_id dict_get "\<lambda>x. dict_set (lease_id x) x" dict_vals "keyed lease_id"
  by (rule dict_entity_table)

interpretation tasks: entity_table task_id dict_get "\<lambda>x. dict_set (task_id x) x" dict_vals "keyed task_id"
  by (rule dict_entity_table)

interpretation pendings: entity_table mp_id dict_get "\<lambda>x. dict_set (mp_id x) x" dict_vals "keyed mp_id"
  by (rule dict_entity_table)

named_theorems store_simps \<open>what writing one part of the store does to each part\<close>

lemma put_task_simps [simp, store_simps]:
  "agent_tasks (put_task x s) = dict_set (task_id x) x (agent_tasks s)"
  "agent_task_events (put_task x s) = agent_task_events s"
  "agent_runs (put_task x s) = agent_runs s"
  "agent_run_steps (put_task x s) = agent_run_steps s"
  "agent_run_events (put_task x s) = agent_run_events s"
  "agent_run_faults (put_task x s) = agent_run_faults s"
  "capability_leases (put_task x s) = capability_leases s"
  "reviewer_attestations (put_task x s) = reviewer_attestations s"
  "proposed_actions (put_task x s) = proposed_actions s"
  "policy_decisions (put_task x s) = policy_decisions s"
  "action_authorizations (put_task x s) = action_authorizations s"
  "action_consumptions (put_task x s) = action_consumptions s"
  "credential_grants (put_task x s) = credential_grants s"
  "trust_events (put_task x s) = trust_events s"
  "approval_requests (put_task x s) = approval_requests s"
  "mcp_pending_requests (put_task x s) = mcp_pending_requests s"
  "external_agents (put_task x s) = external_agents s"
  "agent_connectors (put_task x s) = agent_connectors s"
  "users (put_task x s) = users s"
  "sessions (put_task x s) = sessions s"
  "invites (put_task x s) = invites s"
  "external_agent_credentials (put_task x s) = external_agent_credentials s"
  "device_registrations (put_task x s) = device_registrations s"
  "projects (put_task x s) = projects s"
  "mcp_child_servers (put_task x s) = mcp_child_servers s"
  "ideas (put_task x s) = ideas s"
  "work_orders (put_task x s) = work_orders s"
  "test_runs (put_task x s) = test_runs s"
  "notifications (put_task x s) = notifications s"
  "audit_events (put_task x s) = audit_events s"
  "clock (put_task x s) = clock s"
  "draws (put_task x s) = draws s"
  "disk (put_task x s) = disk s"
  by (simp_all add: put_task_def)

lemma put_task_event_simps [simp, store_simps]:
  "agent_tasks (put_task_event x s) = agent_tasks s"
  "agent_task_events (put_task_event x s) = dict_set (te_id x) x (agent_task_events s)"
  "agent_runs (put_task_event x s) = agent_runs s"
  "agent_run_steps (put_task_event x s) = agent_run_steps s"
  "agent_run_events (put_task_event x s) = agent_run_events s"
  "agent_run_faults (put_task_event x s) = agent_run_faults s"
  "capability_leases (put_task_event x s) = capability_leases s"
  "reviewer_attestations (put_task_event x s) = reviewer_attestations s"
  "proposed_actions (put_task_event x s) = proposed_actions s"
  "policy_decisions (put_task_event x s) = policy_decisions s"
  "action_authorizations (put_task_event x s) = action_authorizations s"
  "action_consumptions (put_task_event x s) = action_consumptions s"
  "credential_grants (put_task_event x s) = credential_grants s"
  "trust_events (put_task_event x s) = trust_events s"
  "approval_requests (put_task_event x s) = approval_requests s"
  "mcp_pending_requests (put_task_event x s) = mcp_pending_requests s"
  "external_agents (put_task_event x s) = external_agents s"
  "agent_connectors (put_task_event x s) = agent_connectors s"
  "users (put_task_event x s) = users s"
  "sessions (put_task_event x s) = sessions s"
  "invites (put_task_event x s) = invites s"
  "external_agent_credentials (put_task_event x s) = external_agent_credentials s"
  "device_registrations (put_task_event x s) = device_registrations s"
  "projects (put_task_event x s) = projects s"
  "mcp_child_servers (put_task_event x s) = mcp_child_servers s"
  "ideas (put_task_event x s) = ideas s"
  "work_orders (put_task_event x s) = work_orders s"
  "test_runs (put_task_event x s) = test_runs s"
  "notifications (put_task_event x s) = notifications s"
  "audit_events (put_task_event x s) = audit_events s"
  "clock (put_task_event x s) = clock s"
  "draws (put_task_event x s) = draws s"
  "disk (put_task_event x s) = disk s"
  by (simp_all add: put_task_event_def)

lemma put_run_simps [simp, store_simps]:
  "agent_tasks (put_run x s) = agent_tasks s"
  "agent_task_events (put_run x s) = agent_task_events s"
  "agent_runs (put_run x s) = dict_set (run_id x) x (agent_runs s)"
  "agent_run_steps (put_run x s) = agent_run_steps s"
  "agent_run_events (put_run x s) = agent_run_events s"
  "agent_run_faults (put_run x s) = agent_run_faults s"
  "capability_leases (put_run x s) = capability_leases s"
  "reviewer_attestations (put_run x s) = reviewer_attestations s"
  "proposed_actions (put_run x s) = proposed_actions s"
  "policy_decisions (put_run x s) = policy_decisions s"
  "action_authorizations (put_run x s) = action_authorizations s"
  "action_consumptions (put_run x s) = action_consumptions s"
  "credential_grants (put_run x s) = credential_grants s"
  "trust_events (put_run x s) = trust_events s"
  "approval_requests (put_run x s) = approval_requests s"
  "mcp_pending_requests (put_run x s) = mcp_pending_requests s"
  "external_agents (put_run x s) = external_agents s"
  "agent_connectors (put_run x s) = agent_connectors s"
  "users (put_run x s) = users s"
  "sessions (put_run x s) = sessions s"
  "invites (put_run x s) = invites s"
  "external_agent_credentials (put_run x s) = external_agent_credentials s"
  "device_registrations (put_run x s) = device_registrations s"
  "projects (put_run x s) = projects s"
  "mcp_child_servers (put_run x s) = mcp_child_servers s"
  "ideas (put_run x s) = ideas s"
  "work_orders (put_run x s) = work_orders s"
  "test_runs (put_run x s) = test_runs s"
  "notifications (put_run x s) = notifications s"
  "audit_events (put_run x s) = audit_events s"
  "clock (put_run x s) = clock s"
  "draws (put_run x s) = draws s"
  "disk (put_run x s) = disk s"
  by (simp_all add: put_run_def)

lemma put_step_simps [simp, store_simps]:
  "agent_tasks (put_step x s) = agent_tasks s"
  "agent_task_events (put_step x s) = agent_task_events s"
  "agent_runs (put_step x s) = agent_runs s"
  "agent_run_steps (put_step x s) = dict_set (step_id x) x (agent_run_steps s)"
  "agent_run_events (put_step x s) = agent_run_events s"
  "agent_run_faults (put_step x s) = agent_run_faults s"
  "capability_leases (put_step x s) = capability_leases s"
  "reviewer_attestations (put_step x s) = reviewer_attestations s"
  "proposed_actions (put_step x s) = proposed_actions s"
  "policy_decisions (put_step x s) = policy_decisions s"
  "action_authorizations (put_step x s) = action_authorizations s"
  "action_consumptions (put_step x s) = action_consumptions s"
  "credential_grants (put_step x s) = credential_grants s"
  "trust_events (put_step x s) = trust_events s"
  "approval_requests (put_step x s) = approval_requests s"
  "mcp_pending_requests (put_step x s) = mcp_pending_requests s"
  "external_agents (put_step x s) = external_agents s"
  "agent_connectors (put_step x s) = agent_connectors s"
  "users (put_step x s) = users s"
  "sessions (put_step x s) = sessions s"
  "invites (put_step x s) = invites s"
  "external_agent_credentials (put_step x s) = external_agent_credentials s"
  "device_registrations (put_step x s) = device_registrations s"
  "projects (put_step x s) = projects s"
  "mcp_child_servers (put_step x s) = mcp_child_servers s"
  "ideas (put_step x s) = ideas s"
  "work_orders (put_step x s) = work_orders s"
  "test_runs (put_step x s) = test_runs s"
  "notifications (put_step x s) = notifications s"
  "audit_events (put_step x s) = audit_events s"
  "clock (put_step x s) = clock s"
  "draws (put_step x s) = draws s"
  "disk (put_step x s) = disk s"
  by (simp_all add: put_step_def)

lemma put_run_event_simps [simp, store_simps]:
  "agent_tasks (put_run_event x s) = agent_tasks s"
  "agent_task_events (put_run_event x s) = agent_task_events s"
  "agent_runs (put_run_event x s) = agent_runs s"
  "agent_run_steps (put_run_event x s) = agent_run_steps s"
  "agent_run_events (put_run_event x s) = dict_set (ev_id x) x (agent_run_events s)"
  "agent_run_faults (put_run_event x s) = agent_run_faults s"
  "capability_leases (put_run_event x s) = capability_leases s"
  "reviewer_attestations (put_run_event x s) = reviewer_attestations s"
  "proposed_actions (put_run_event x s) = proposed_actions s"
  "policy_decisions (put_run_event x s) = policy_decisions s"
  "action_authorizations (put_run_event x s) = action_authorizations s"
  "action_consumptions (put_run_event x s) = action_consumptions s"
  "credential_grants (put_run_event x s) = credential_grants s"
  "trust_events (put_run_event x s) = trust_events s"
  "approval_requests (put_run_event x s) = approval_requests s"
  "mcp_pending_requests (put_run_event x s) = mcp_pending_requests s"
  "external_agents (put_run_event x s) = external_agents s"
  "agent_connectors (put_run_event x s) = agent_connectors s"
  "users (put_run_event x s) = users s"
  "sessions (put_run_event x s) = sessions s"
  "invites (put_run_event x s) = invites s"
  "external_agent_credentials (put_run_event x s) = external_agent_credentials s"
  "device_registrations (put_run_event x s) = device_registrations s"
  "projects (put_run_event x s) = projects s"
  "mcp_child_servers (put_run_event x s) = mcp_child_servers s"
  "ideas (put_run_event x s) = ideas s"
  "work_orders (put_run_event x s) = work_orders s"
  "test_runs (put_run_event x s) = test_runs s"
  "notifications (put_run_event x s) = notifications s"
  "audit_events (put_run_event x s) = audit_events s"
  "clock (put_run_event x s) = clock s"
  "draws (put_run_event x s) = draws s"
  "disk (put_run_event x s) = disk s"
  by (simp_all add: put_run_event_def)

lemma put_fault_simps [simp, store_simps]:
  "agent_tasks (put_fault x s) = agent_tasks s"
  "agent_task_events (put_fault x s) = agent_task_events s"
  "agent_runs (put_fault x s) = agent_runs s"
  "agent_run_steps (put_fault x s) = agent_run_steps s"
  "agent_run_events (put_fault x s) = agent_run_events s"
  "agent_run_faults (put_fault x s) = dict_set (fault_id x) x (agent_run_faults s)"
  "capability_leases (put_fault x s) = capability_leases s"
  "reviewer_attestations (put_fault x s) = reviewer_attestations s"
  "proposed_actions (put_fault x s) = proposed_actions s"
  "policy_decisions (put_fault x s) = policy_decisions s"
  "action_authorizations (put_fault x s) = action_authorizations s"
  "action_consumptions (put_fault x s) = action_consumptions s"
  "credential_grants (put_fault x s) = credential_grants s"
  "trust_events (put_fault x s) = trust_events s"
  "approval_requests (put_fault x s) = approval_requests s"
  "mcp_pending_requests (put_fault x s) = mcp_pending_requests s"
  "external_agents (put_fault x s) = external_agents s"
  "agent_connectors (put_fault x s) = agent_connectors s"
  "users (put_fault x s) = users s"
  "sessions (put_fault x s) = sessions s"
  "invites (put_fault x s) = invites s"
  "external_agent_credentials (put_fault x s) = external_agent_credentials s"
  "device_registrations (put_fault x s) = device_registrations s"
  "projects (put_fault x s) = projects s"
  "mcp_child_servers (put_fault x s) = mcp_child_servers s"
  "ideas (put_fault x s) = ideas s"
  "work_orders (put_fault x s) = work_orders s"
  "test_runs (put_fault x s) = test_runs s"
  "notifications (put_fault x s) = notifications s"
  "audit_events (put_fault x s) = audit_events s"
  "clock (put_fault x s) = clock s"
  "draws (put_fault x s) = draws s"
  "disk (put_fault x s) = disk s"
  by (simp_all add: put_fault_def)

lemma put_lease_simps [simp, store_simps]:
  "agent_tasks (put_lease x s) = agent_tasks s"
  "agent_task_events (put_lease x s) = agent_task_events s"
  "agent_runs (put_lease x s) = agent_runs s"
  "agent_run_steps (put_lease x s) = agent_run_steps s"
  "agent_run_events (put_lease x s) = agent_run_events s"
  "agent_run_faults (put_lease x s) = agent_run_faults s"
  "capability_leases (put_lease x s) = dict_set (lease_id x) x (capability_leases s)"
  "reviewer_attestations (put_lease x s) = reviewer_attestations s"
  "proposed_actions (put_lease x s) = proposed_actions s"
  "policy_decisions (put_lease x s) = policy_decisions s"
  "action_authorizations (put_lease x s) = action_authorizations s"
  "action_consumptions (put_lease x s) = action_consumptions s"
  "credential_grants (put_lease x s) = credential_grants s"
  "trust_events (put_lease x s) = trust_events s"
  "approval_requests (put_lease x s) = approval_requests s"
  "mcp_pending_requests (put_lease x s) = mcp_pending_requests s"
  "external_agents (put_lease x s) = external_agents s"
  "agent_connectors (put_lease x s) = agent_connectors s"
  "users (put_lease x s) = users s"
  "sessions (put_lease x s) = sessions s"
  "invites (put_lease x s) = invites s"
  "external_agent_credentials (put_lease x s) = external_agent_credentials s"
  "device_registrations (put_lease x s) = device_registrations s"
  "projects (put_lease x s) = projects s"
  "mcp_child_servers (put_lease x s) = mcp_child_servers s"
  "ideas (put_lease x s) = ideas s"
  "work_orders (put_lease x s) = work_orders s"
  "test_runs (put_lease x s) = test_runs s"
  "notifications (put_lease x s) = notifications s"
  "audit_events (put_lease x s) = audit_events s"
  "clock (put_lease x s) = clock s"
  "draws (put_lease x s) = draws s"
  "disk (put_lease x s) = disk s"
  by (simp_all add: put_lease_def)

lemma put_attestation_simps [simp, store_simps]:
  "agent_tasks (put_attestation x s) = agent_tasks s"
  "agent_task_events (put_attestation x s) = agent_task_events s"
  "agent_runs (put_attestation x s) = agent_runs s"
  "agent_run_steps (put_attestation x s) = agent_run_steps s"
  "agent_run_events (put_attestation x s) = agent_run_events s"
  "agent_run_faults (put_attestation x s) = agent_run_faults s"
  "capability_leases (put_attestation x s) = capability_leases s"
  "reviewer_attestations (put_attestation x s) = dict_set (att_id x) x (reviewer_attestations s)"
  "proposed_actions (put_attestation x s) = proposed_actions s"
  "policy_decisions (put_attestation x s) = policy_decisions s"
  "action_authorizations (put_attestation x s) = action_authorizations s"
  "action_consumptions (put_attestation x s) = action_consumptions s"
  "credential_grants (put_attestation x s) = credential_grants s"
  "trust_events (put_attestation x s) = trust_events s"
  "approval_requests (put_attestation x s) = approval_requests s"
  "mcp_pending_requests (put_attestation x s) = mcp_pending_requests s"
  "external_agents (put_attestation x s) = external_agents s"
  "agent_connectors (put_attestation x s) = agent_connectors s"
  "users (put_attestation x s) = users s"
  "sessions (put_attestation x s) = sessions s"
  "invites (put_attestation x s) = invites s"
  "external_agent_credentials (put_attestation x s) = external_agent_credentials s"
  "device_registrations (put_attestation x s) = device_registrations s"
  "projects (put_attestation x s) = projects s"
  "mcp_child_servers (put_attestation x s) = mcp_child_servers s"
  "ideas (put_attestation x s) = ideas s"
  "work_orders (put_attestation x s) = work_orders s"
  "test_runs (put_attestation x s) = test_runs s"
  "notifications (put_attestation x s) = notifications s"
  "audit_events (put_attestation x s) = audit_events s"
  "clock (put_attestation x s) = clock s"
  "draws (put_attestation x s) = draws s"
  "disk (put_attestation x s) = disk s"
  by (simp_all add: put_attestation_def)

lemma put_action_simps [simp, store_simps]:
  "agent_tasks (put_action x s) = agent_tasks s"
  "agent_task_events (put_action x s) = agent_task_events s"
  "agent_runs (put_action x s) = agent_runs s"
  "agent_run_steps (put_action x s) = agent_run_steps s"
  "agent_run_events (put_action x s) = agent_run_events s"
  "agent_run_faults (put_action x s) = agent_run_faults s"
  "capability_leases (put_action x s) = capability_leases s"
  "reviewer_attestations (put_action x s) = reviewer_attestations s"
  "proposed_actions (put_action x s) = dict_set (act_id x) x (proposed_actions s)"
  "policy_decisions (put_action x s) = policy_decisions s"
  "action_authorizations (put_action x s) = action_authorizations s"
  "action_consumptions (put_action x s) = action_consumptions s"
  "credential_grants (put_action x s) = credential_grants s"
  "trust_events (put_action x s) = trust_events s"
  "approval_requests (put_action x s) = approval_requests s"
  "mcp_pending_requests (put_action x s) = mcp_pending_requests s"
  "external_agents (put_action x s) = external_agents s"
  "agent_connectors (put_action x s) = agent_connectors s"
  "users (put_action x s) = users s"
  "sessions (put_action x s) = sessions s"
  "invites (put_action x s) = invites s"
  "external_agent_credentials (put_action x s) = external_agent_credentials s"
  "device_registrations (put_action x s) = device_registrations s"
  "projects (put_action x s) = projects s"
  "mcp_child_servers (put_action x s) = mcp_child_servers s"
  "ideas (put_action x s) = ideas s"
  "work_orders (put_action x s) = work_orders s"
  "test_runs (put_action x s) = test_runs s"
  "notifications (put_action x s) = notifications s"
  "audit_events (put_action x s) = audit_events s"
  "clock (put_action x s) = clock s"
  "draws (put_action x s) = draws s"
  "disk (put_action x s) = disk s"
  by (simp_all add: put_action_def)

lemma put_decision_simps [simp, store_simps]:
  "agent_tasks (put_decision x s) = agent_tasks s"
  "agent_task_events (put_decision x s) = agent_task_events s"
  "agent_runs (put_decision x s) = agent_runs s"
  "agent_run_steps (put_decision x s) = agent_run_steps s"
  "agent_run_events (put_decision x s) = agent_run_events s"
  "agent_run_faults (put_decision x s) = agent_run_faults s"
  "capability_leases (put_decision x s) = capability_leases s"
  "reviewer_attestations (put_decision x s) = reviewer_attestations s"
  "proposed_actions (put_decision x s) = proposed_actions s"
  "policy_decisions (put_decision x s) = dict_set (dec_id x) x (policy_decisions s)"
  "action_authorizations (put_decision x s) = action_authorizations s"
  "action_consumptions (put_decision x s) = action_consumptions s"
  "credential_grants (put_decision x s) = credential_grants s"
  "trust_events (put_decision x s) = trust_events s"
  "approval_requests (put_decision x s) = approval_requests s"
  "mcp_pending_requests (put_decision x s) = mcp_pending_requests s"
  "external_agents (put_decision x s) = external_agents s"
  "agent_connectors (put_decision x s) = agent_connectors s"
  "users (put_decision x s) = users s"
  "sessions (put_decision x s) = sessions s"
  "invites (put_decision x s) = invites s"
  "external_agent_credentials (put_decision x s) = external_agent_credentials s"
  "device_registrations (put_decision x s) = device_registrations s"
  "projects (put_decision x s) = projects s"
  "mcp_child_servers (put_decision x s) = mcp_child_servers s"
  "ideas (put_decision x s) = ideas s"
  "work_orders (put_decision x s) = work_orders s"
  "test_runs (put_decision x s) = test_runs s"
  "notifications (put_decision x s) = notifications s"
  "audit_events (put_decision x s) = audit_events s"
  "clock (put_decision x s) = clock s"
  "draws (put_decision x s) = draws s"
  "disk (put_decision x s) = disk s"
  by (simp_all add: put_decision_def)

lemma put_authorization_simps [simp, store_simps]:
  "agent_tasks (put_authorization x s) = agent_tasks s"
  "agent_task_events (put_authorization x s) = agent_task_events s"
  "agent_runs (put_authorization x s) = agent_runs s"
  "agent_run_steps (put_authorization x s) = agent_run_steps s"
  "agent_run_events (put_authorization x s) = agent_run_events s"
  "agent_run_faults (put_authorization x s) = agent_run_faults s"
  "capability_leases (put_authorization x s) = capability_leases s"
  "reviewer_attestations (put_authorization x s) = reviewer_attestations s"
  "proposed_actions (put_authorization x s) = proposed_actions s"
  "policy_decisions (put_authorization x s) = policy_decisions s"
  "action_authorizations (put_authorization x s) = dict_set (auth_id x) x (action_authorizations s)"
  "action_consumptions (put_authorization x s) = action_consumptions s"
  "credential_grants (put_authorization x s) = credential_grants s"
  "trust_events (put_authorization x s) = trust_events s"
  "approval_requests (put_authorization x s) = approval_requests s"
  "mcp_pending_requests (put_authorization x s) = mcp_pending_requests s"
  "external_agents (put_authorization x s) = external_agents s"
  "agent_connectors (put_authorization x s) = agent_connectors s"
  "users (put_authorization x s) = users s"
  "sessions (put_authorization x s) = sessions s"
  "invites (put_authorization x s) = invites s"
  "external_agent_credentials (put_authorization x s) = external_agent_credentials s"
  "device_registrations (put_authorization x s) = device_registrations s"
  "projects (put_authorization x s) = projects s"
  "mcp_child_servers (put_authorization x s) = mcp_child_servers s"
  "ideas (put_authorization x s) = ideas s"
  "work_orders (put_authorization x s) = work_orders s"
  "test_runs (put_authorization x s) = test_runs s"
  "notifications (put_authorization x s) = notifications s"
  "audit_events (put_authorization x s) = audit_events s"
  "clock (put_authorization x s) = clock s"
  "draws (put_authorization x s) = draws s"
  "disk (put_authorization x s) = disk s"
  by (simp_all add: put_authorization_def)

lemma put_grant_simps [simp, store_simps]:
  "agent_tasks (put_grant x s) = agent_tasks s"
  "agent_task_events (put_grant x s) = agent_task_events s"
  "agent_runs (put_grant x s) = agent_runs s"
  "agent_run_steps (put_grant x s) = agent_run_steps s"
  "agent_run_events (put_grant x s) = agent_run_events s"
  "agent_run_faults (put_grant x s) = agent_run_faults s"
  "capability_leases (put_grant x s) = capability_leases s"
  "reviewer_attestations (put_grant x s) = reviewer_attestations s"
  "proposed_actions (put_grant x s) = proposed_actions s"
  "policy_decisions (put_grant x s) = policy_decisions s"
  "action_authorizations (put_grant x s) = action_authorizations s"
  "action_consumptions (put_grant x s) = action_consumptions s"
  "credential_grants (put_grant x s) = dict_set (grant_id x) x (credential_grants s)"
  "trust_events (put_grant x s) = trust_events s"
  "approval_requests (put_grant x s) = approval_requests s"
  "mcp_pending_requests (put_grant x s) = mcp_pending_requests s"
  "external_agents (put_grant x s) = external_agents s"
  "agent_connectors (put_grant x s) = agent_connectors s"
  "users (put_grant x s) = users s"
  "sessions (put_grant x s) = sessions s"
  "invites (put_grant x s) = invites s"
  "external_agent_credentials (put_grant x s) = external_agent_credentials s"
  "device_registrations (put_grant x s) = device_registrations s"
  "projects (put_grant x s) = projects s"
  "mcp_child_servers (put_grant x s) = mcp_child_servers s"
  "ideas (put_grant x s) = ideas s"
  "work_orders (put_grant x s) = work_orders s"
  "test_runs (put_grant x s) = test_runs s"
  "notifications (put_grant x s) = notifications s"
  "audit_events (put_grant x s) = audit_events s"
  "clock (put_grant x s) = clock s"
  "draws (put_grant x s) = draws s"
  "disk (put_grant x s) = disk s"
  by (simp_all add: put_grant_def)

lemma put_trust_event_simps [simp, store_simps]:
  "agent_tasks (put_trust_event x s) = agent_tasks s"
  "agent_task_events (put_trust_event x s) = agent_task_events s"
  "agent_runs (put_trust_event x s) = agent_runs s"
  "agent_run_steps (put_trust_event x s) = agent_run_steps s"
  "agent_run_events (put_trust_event x s) = agent_run_events s"
  "agent_run_faults (put_trust_event x s) = agent_run_faults s"
  "capability_leases (put_trust_event x s) = capability_leases s"
  "reviewer_attestations (put_trust_event x s) = reviewer_attestations s"
  "proposed_actions (put_trust_event x s) = proposed_actions s"
  "policy_decisions (put_trust_event x s) = policy_decisions s"
  "action_authorizations (put_trust_event x s) = action_authorizations s"
  "action_consumptions (put_trust_event x s) = action_consumptions s"
  "credential_grants (put_trust_event x s) = credential_grants s"
  "trust_events (put_trust_event x s) = dict_set (tev_id x) x (trust_events s)"
  "approval_requests (put_trust_event x s) = approval_requests s"
  "mcp_pending_requests (put_trust_event x s) = mcp_pending_requests s"
  "external_agents (put_trust_event x s) = external_agents s"
  "agent_connectors (put_trust_event x s) = agent_connectors s"
  "users (put_trust_event x s) = users s"
  "sessions (put_trust_event x s) = sessions s"
  "invites (put_trust_event x s) = invites s"
  "external_agent_credentials (put_trust_event x s) = external_agent_credentials s"
  "device_registrations (put_trust_event x s) = device_registrations s"
  "projects (put_trust_event x s) = projects s"
  "mcp_child_servers (put_trust_event x s) = mcp_child_servers s"
  "ideas (put_trust_event x s) = ideas s"
  "work_orders (put_trust_event x s) = work_orders s"
  "test_runs (put_trust_event x s) = test_runs s"
  "notifications (put_trust_event x s) = notifications s"
  "audit_events (put_trust_event x s) = audit_events s"
  "clock (put_trust_event x s) = clock s"
  "draws (put_trust_event x s) = draws s"
  "disk (put_trust_event x s) = disk s"
  by (simp_all add: put_trust_event_def)

lemma put_approval_simps [simp, store_simps]:
  "agent_tasks (put_approval x s) = agent_tasks s"
  "agent_task_events (put_approval x s) = agent_task_events s"
  "agent_runs (put_approval x s) = agent_runs s"
  "agent_run_steps (put_approval x s) = agent_run_steps s"
  "agent_run_events (put_approval x s) = agent_run_events s"
  "agent_run_faults (put_approval x s) = agent_run_faults s"
  "capability_leases (put_approval x s) = capability_leases s"
  "reviewer_attestations (put_approval x s) = reviewer_attestations s"
  "proposed_actions (put_approval x s) = proposed_actions s"
  "policy_decisions (put_approval x s) = policy_decisions s"
  "action_authorizations (put_approval x s) = action_authorizations s"
  "action_consumptions (put_approval x s) = action_consumptions s"
  "credential_grants (put_approval x s) = credential_grants s"
  "trust_events (put_approval x s) = trust_events s"
  "approval_requests (put_approval x s) = dict_set (appr_id x) x (approval_requests s)"
  "mcp_pending_requests (put_approval x s) = mcp_pending_requests s"
  "external_agents (put_approval x s) = external_agents s"
  "agent_connectors (put_approval x s) = agent_connectors s"
  "users (put_approval x s) = users s"
  "sessions (put_approval x s) = sessions s"
  "invites (put_approval x s) = invites s"
  "external_agent_credentials (put_approval x s) = external_agent_credentials s"
  "device_registrations (put_approval x s) = device_registrations s"
  "projects (put_approval x s) = projects s"
  "mcp_child_servers (put_approval x s) = mcp_child_servers s"
  "ideas (put_approval x s) = ideas s"
  "work_orders (put_approval x s) = work_orders s"
  "test_runs (put_approval x s) = test_runs s"
  "notifications (put_approval x s) = notifications s"
  "audit_events (put_approval x s) = audit_events s"
  "clock (put_approval x s) = clock s"
  "draws (put_approval x s) = draws s"
  "disk (put_approval x s) = disk s"
  by (simp_all add: put_approval_def)

lemma put_pending_simps [simp, store_simps]:
  "agent_tasks (put_pending x s) = agent_tasks s"
  "agent_task_events (put_pending x s) = agent_task_events s"
  "agent_runs (put_pending x s) = agent_runs s"
  "agent_run_steps (put_pending x s) = agent_run_steps s"
  "agent_run_events (put_pending x s) = agent_run_events s"
  "agent_run_faults (put_pending x s) = agent_run_faults s"
  "capability_leases (put_pending x s) = capability_leases s"
  "reviewer_attestations (put_pending x s) = reviewer_attestations s"
  "proposed_actions (put_pending x s) = proposed_actions s"
  "policy_decisions (put_pending x s) = policy_decisions s"
  "action_authorizations (put_pending x s) = action_authorizations s"
  "action_consumptions (put_pending x s) = action_consumptions s"
  "credential_grants (put_pending x s) = credential_grants s"
  "trust_events (put_pending x s) = trust_events s"
  "approval_requests (put_pending x s) = approval_requests s"
  "mcp_pending_requests (put_pending x s) = dict_set (mp_id x) x (mcp_pending_requests s)"
  "external_agents (put_pending x s) = external_agents s"
  "agent_connectors (put_pending x s) = agent_connectors s"
  "users (put_pending x s) = users s"
  "sessions (put_pending x s) = sessions s"
  "invites (put_pending x s) = invites s"
  "external_agent_credentials (put_pending x s) = external_agent_credentials s"
  "device_registrations (put_pending x s) = device_registrations s"
  "projects (put_pending x s) = projects s"
  "mcp_child_servers (put_pending x s) = mcp_child_servers s"
  "ideas (put_pending x s) = ideas s"
  "work_orders (put_pending x s) = work_orders s"
  "test_runs (put_pending x s) = test_runs s"
  "notifications (put_pending x s) = notifications s"
  "audit_events (put_pending x s) = audit_events s"
  "clock (put_pending x s) = clock s"
  "draws (put_pending x s) = draws s"
  "disk (put_pending x s) = disk s"
  by (simp_all add: put_pending_def)

lemma put_connector_simps [simp, store_simps]:
  "agent_tasks (put_connector x s) = agent_tasks s"
  "agent_task_events (put_connector x s) = agent_task_events s"
  "agent_runs (put_connector x s) = agent_runs s"
  "agent_run_steps (put_connector x s) = agent_run_steps s"
  "agent_run_events (put_connector x s) = agent_run_events s"
  "agent_run_faults (put_connector x s) = agent_run_faults s"
  "capability_leases (put_connector x s) = capability_leases s"
  "reviewer_attestations (put_connector x s) = reviewer_attestations s"
  "proposed_actions (put_connector x s) = proposed_actions s"
  "policy_decisions (put_connector x s) = policy_decisions s"
  "action_authorizations (put_connector x s) = action_authorizations s"
  "action_consumptions (put_connector x s) = action_consumptions s"
  "credential_grants (put_connector x s) = credential_grants s"
  "trust_events (put_connector x s) = trust_events s"
  "approval_requests (put_connector x s) = approval_requests s"
  "mcp_pending_requests (put_connector x s) = mcp_pending_requests s"
  "external_agents (put_connector x s) = external_agents s"
  "agent_connectors (put_connector x s) = dict_set (conn_id x) x (agent_connectors s)"
  "users (put_connector x s) = users s"
  "sessions (put_connector x s) = sessions s"
  "invites (put_connector x s) = invites s"
  "external_agent_credentials (put_connector x s) = external_agent_credentials s"
  "device_registrations (put_connector x s) = device_registrations s"
  "projects (put_connector x s) = projects s"
  "mcp_child_servers (put_connector x s) = mcp_child_servers s"
  "ideas (put_connector x s) = ideas s"
  "work_orders (put_connector x s) = work_orders s"
  "test_runs (put_connector x s) = test_runs s"
  "notifications (put_connector x s) = notifications s"
  "audit_events (put_connector x s) = audit_events s"
  "clock (put_connector x s) = clock s"
  "draws (put_connector x s) = draws s"
  "disk (put_connector x s) = disk s"
  by (simp_all add: put_connector_def)

lemma put_agent_simps [simp, store_simps]:
  "agent_tasks (put_agent x s) = agent_tasks s"
  "agent_task_events (put_agent x s) = agent_task_events s"
  "agent_runs (put_agent x s) = agent_runs s"
  "agent_run_steps (put_agent x s) = agent_run_steps s"
  "agent_run_events (put_agent x s) = agent_run_events s"
  "agent_run_faults (put_agent x s) = agent_run_faults s"
  "capability_leases (put_agent x s) = capability_leases s"
  "reviewer_attestations (put_agent x s) = reviewer_attestations s"
  "proposed_actions (put_agent x s) = proposed_actions s"
  "policy_decisions (put_agent x s) = policy_decisions s"
  "action_authorizations (put_agent x s) = action_authorizations s"
  "action_consumptions (put_agent x s) = action_consumptions s"
  "credential_grants (put_agent x s) = credential_grants s"
  "trust_events (put_agent x s) = trust_events s"
  "approval_requests (put_agent x s) = approval_requests s"
  "mcp_pending_requests (put_agent x s) = mcp_pending_requests s"
  "external_agents (put_agent x s) = dict_set (xa_id x) x (external_agents s)"
  "agent_connectors (put_agent x s) = agent_connectors s"
  "users (put_agent x s) = users s"
  "sessions (put_agent x s) = sessions s"
  "invites (put_agent x s) = invites s"
  "external_agent_credentials (put_agent x s) = external_agent_credentials s"
  "device_registrations (put_agent x s) = device_registrations s"
  "projects (put_agent x s) = projects s"
  "mcp_child_servers (put_agent x s) = mcp_child_servers s"
  "ideas (put_agent x s) = ideas s"
  "work_orders (put_agent x s) = work_orders s"
  "test_runs (put_agent x s) = test_runs s"
  "notifications (put_agent x s) = notifications s"
  "audit_events (put_agent x s) = audit_events s"
  "clock (put_agent x s) = clock s"
  "draws (put_agent x s) = draws s"
  "disk (put_agent x s) = disk s"
  by (simp_all add: put_agent_def)

lemma put_user_simps [simp, store_simps]:
  "agent_tasks (put_user x s) = agent_tasks s"
  "agent_task_events (put_user x s) = agent_task_events s"
  "agent_runs (put_user x s) = agent_runs s"
  "agent_run_steps (put_user x s) = agent_run_steps s"
  "agent_run_events (put_user x s) = agent_run_events s"
  "agent_run_faults (put_user x s) = agent_run_faults s"
  "capability_leases (put_user x s) = capability_leases s"
  "reviewer_attestations (put_user x s) = reviewer_attestations s"
  "proposed_actions (put_user x s) = proposed_actions s"
  "policy_decisions (put_user x s) = policy_decisions s"
  "action_authorizations (put_user x s) = action_authorizations s"
  "action_consumptions (put_user x s) = action_consumptions s"
  "credential_grants (put_user x s) = credential_grants s"
  "trust_events (put_user x s) = trust_events s"
  "approval_requests (put_user x s) = approval_requests s"
  "mcp_pending_requests (put_user x s) = mcp_pending_requests s"
  "external_agents (put_user x s) = external_agents s"
  "agent_connectors (put_user x s) = agent_connectors s"
  "users (put_user x s) = dict_set (usr_id x) x (users s)"
  "sessions (put_user x s) = sessions s"
  "invites (put_user x s) = invites s"
  "external_agent_credentials (put_user x s) = external_agent_credentials s"
  "device_registrations (put_user x s) = device_registrations s"
  "projects (put_user x s) = projects s"
  "mcp_child_servers (put_user x s) = mcp_child_servers s"
  "ideas (put_user x s) = ideas s"
  "work_orders (put_user x s) = work_orders s"
  "test_runs (put_user x s) = test_runs s"
  "notifications (put_user x s) = notifications s"
  "audit_events (put_user x s) = audit_events s"
  "clock (put_user x s) = clock s"
  "draws (put_user x s) = draws s"
  "disk (put_user x s) = disk s"
  by (simp_all add: put_user_def)

lemma put_session_simps [simp, store_simps]:
  "agent_tasks (put_session x s) = agent_tasks s"
  "agent_task_events (put_session x s) = agent_task_events s"
  "agent_runs (put_session x s) = agent_runs s"
  "agent_run_steps (put_session x s) = agent_run_steps s"
  "agent_run_events (put_session x s) = agent_run_events s"
  "agent_run_faults (put_session x s) = agent_run_faults s"
  "capability_leases (put_session x s) = capability_leases s"
  "reviewer_attestations (put_session x s) = reviewer_attestations s"
  "proposed_actions (put_session x s) = proposed_actions s"
  "policy_decisions (put_session x s) = policy_decisions s"
  "action_authorizations (put_session x s) = action_authorizations s"
  "action_consumptions (put_session x s) = action_consumptions s"
  "credential_grants (put_session x s) = credential_grants s"
  "trust_events (put_session x s) = trust_events s"
  "approval_requests (put_session x s) = approval_requests s"
  "mcp_pending_requests (put_session x s) = mcp_pending_requests s"
  "external_agents (put_session x s) = external_agents s"
  "agent_connectors (put_session x s) = agent_connectors s"
  "users (put_session x s) = users s"
  "sessions (put_session x s) = dict_set (ses_id x) x (sessions s)"
  "invites (put_session x s) = invites s"
  "external_agent_credentials (put_session x s) = external_agent_credentials s"
  "device_registrations (put_session x s) = device_registrations s"
  "projects (put_session x s) = projects s"
  "mcp_child_servers (put_session x s) = mcp_child_servers s"
  "ideas (put_session x s) = ideas s"
  "work_orders (put_session x s) = work_orders s"
  "test_runs (put_session x s) = test_runs s"
  "notifications (put_session x s) = notifications s"
  "audit_events (put_session x s) = audit_events s"
  "clock (put_session x s) = clock s"
  "draws (put_session x s) = draws s"
  "disk (put_session x s) = disk s"
  by (simp_all add: put_session_def)

lemma put_invite_simps [simp, store_simps]:
  "agent_tasks (put_invite x s) = agent_tasks s"
  "agent_task_events (put_invite x s) = agent_task_events s"
  "agent_runs (put_invite x s) = agent_runs s"
  "agent_run_steps (put_invite x s) = agent_run_steps s"
  "agent_run_events (put_invite x s) = agent_run_events s"
  "agent_run_faults (put_invite x s) = agent_run_faults s"
  "capability_leases (put_invite x s) = capability_leases s"
  "reviewer_attestations (put_invite x s) = reviewer_attestations s"
  "proposed_actions (put_invite x s) = proposed_actions s"
  "policy_decisions (put_invite x s) = policy_decisions s"
  "action_authorizations (put_invite x s) = action_authorizations s"
  "action_consumptions (put_invite x s) = action_consumptions s"
  "credential_grants (put_invite x s) = credential_grants s"
  "trust_events (put_invite x s) = trust_events s"
  "approval_requests (put_invite x s) = approval_requests s"
  "mcp_pending_requests (put_invite x s) = mcp_pending_requests s"
  "external_agents (put_invite x s) = external_agents s"
  "agent_connectors (put_invite x s) = agent_connectors s"
  "users (put_invite x s) = users s"
  "sessions (put_invite x s) = sessions s"
  "invites (put_invite x s) = dict_set (inv_id x) x (invites s)"
  "external_agent_credentials (put_invite x s) = external_agent_credentials s"
  "device_registrations (put_invite x s) = device_registrations s"
  "projects (put_invite x s) = projects s"
  "mcp_child_servers (put_invite x s) = mcp_child_servers s"
  "ideas (put_invite x s) = ideas s"
  "work_orders (put_invite x s) = work_orders s"
  "test_runs (put_invite x s) = test_runs s"
  "notifications (put_invite x s) = notifications s"
  "audit_events (put_invite x s) = audit_events s"
  "clock (put_invite x s) = clock s"
  "draws (put_invite x s) = draws s"
  "disk (put_invite x s) = disk s"
  by (simp_all add: put_invite_def)

lemma put_agent_credential_simps [simp, store_simps]:
  "agent_tasks (put_agent_credential x s) = agent_tasks s"
  "agent_task_events (put_agent_credential x s) = agent_task_events s"
  "agent_runs (put_agent_credential x s) = agent_runs s"
  "agent_run_steps (put_agent_credential x s) = agent_run_steps s"
  "agent_run_events (put_agent_credential x s) = agent_run_events s"
  "agent_run_faults (put_agent_credential x s) = agent_run_faults s"
  "capability_leases (put_agent_credential x s) = capability_leases s"
  "reviewer_attestations (put_agent_credential x s) = reviewer_attestations s"
  "proposed_actions (put_agent_credential x s) = proposed_actions s"
  "policy_decisions (put_agent_credential x s) = policy_decisions s"
  "action_authorizations (put_agent_credential x s) = action_authorizations s"
  "action_consumptions (put_agent_credential x s) = action_consumptions s"
  "credential_grants (put_agent_credential x s) = credential_grants s"
  "trust_events (put_agent_credential x s) = trust_events s"
  "approval_requests (put_agent_credential x s) = approval_requests s"
  "mcp_pending_requests (put_agent_credential x s) = mcp_pending_requests s"
  "external_agents (put_agent_credential x s) = external_agents s"
  "agent_connectors (put_agent_credential x s) = agent_connectors s"
  "users (put_agent_credential x s) = users s"
  "sessions (put_agent_credential x s) = sessions s"
  "invites (put_agent_credential x s) = invites s"
  "external_agent_credentials (put_agent_credential x s) = dict_set (cred_agent_id x) x (external_agent_credentials s)"
  "device_registrations (put_agent_credential x s) = device_registrations s"
  "projects (put_agent_credential x s) = projects s"
  "mcp_child_servers (put_agent_credential x s) = mcp_child_servers s"
  "ideas (put_agent_credential x s) = ideas s"
  "work_orders (put_agent_credential x s) = work_orders s"
  "test_runs (put_agent_credential x s) = test_runs s"
  "notifications (put_agent_credential x s) = notifications s"
  "audit_events (put_agent_credential x s) = audit_events s"
  "clock (put_agent_credential x s) = clock s"
  "draws (put_agent_credential x s) = draws s"
  "disk (put_agent_credential x s) = disk s"
  by (simp_all add: put_agent_credential_def)

lemma put_device_simps [simp, store_simps]:
  "agent_tasks (put_device x s) = agent_tasks s"
  "agent_task_events (put_device x s) = agent_task_events s"
  "agent_runs (put_device x s) = agent_runs s"
  "agent_run_steps (put_device x s) = agent_run_steps s"
  "agent_run_events (put_device x s) = agent_run_events s"
  "agent_run_faults (put_device x s) = agent_run_faults s"
  "capability_leases (put_device x s) = capability_leases s"
  "reviewer_attestations (put_device x s) = reviewer_attestations s"
  "proposed_actions (put_device x s) = proposed_actions s"
  "policy_decisions (put_device x s) = policy_decisions s"
  "action_authorizations (put_device x s) = action_authorizations s"
  "action_consumptions (put_device x s) = action_consumptions s"
  "credential_grants (put_device x s) = credential_grants s"
  "trust_events (put_device x s) = trust_events s"
  "approval_requests (put_device x s) = approval_requests s"
  "mcp_pending_requests (put_device x s) = mcp_pending_requests s"
  "external_agents (put_device x s) = external_agents s"
  "agent_connectors (put_device x s) = agent_connectors s"
  "users (put_device x s) = users s"
  "sessions (put_device x s) = sessions s"
  "invites (put_device x s) = invites s"
  "external_agent_credentials (put_device x s) = external_agent_credentials s"
  "device_registrations (put_device x s) = dict_set (dev_id x) x (device_registrations s)"
  "projects (put_device x s) = projects s"
  "mcp_child_servers (put_device x s) = mcp_child_servers s"
  "ideas (put_device x s) = ideas s"
  "work_orders (put_device x s) = work_orders s"
  "test_runs (put_device x s) = test_runs s"
  "notifications (put_device x s) = notifications s"
  "audit_events (put_device x s) = audit_events s"
  "clock (put_device x s) = clock s"
  "draws (put_device x s) = draws s"
  "disk (put_device x s) = disk s"
  by (simp_all add: put_device_def)

lemma put_project_simps [simp, store_simps]:
  "agent_tasks (put_project x s) = agent_tasks s"
  "agent_task_events (put_project x s) = agent_task_events s"
  "agent_runs (put_project x s) = agent_runs s"
  "agent_run_steps (put_project x s) = agent_run_steps s"
  "agent_run_events (put_project x s) = agent_run_events s"
  "agent_run_faults (put_project x s) = agent_run_faults s"
  "capability_leases (put_project x s) = capability_leases s"
  "reviewer_attestations (put_project x s) = reviewer_attestations s"
  "proposed_actions (put_project x s) = proposed_actions s"
  "policy_decisions (put_project x s) = policy_decisions s"
  "action_authorizations (put_project x s) = action_authorizations s"
  "action_consumptions (put_project x s) = action_consumptions s"
  "credential_grants (put_project x s) = credential_grants s"
  "trust_events (put_project x s) = trust_events s"
  "approval_requests (put_project x s) = approval_requests s"
  "mcp_pending_requests (put_project x s) = mcp_pending_requests s"
  "external_agents (put_project x s) = external_agents s"
  "agent_connectors (put_project x s) = agent_connectors s"
  "users (put_project x s) = users s"
  "sessions (put_project x s) = sessions s"
  "invites (put_project x s) = invites s"
  "external_agent_credentials (put_project x s) = external_agent_credentials s"
  "device_registrations (put_project x s) = device_registrations s"
  "projects (put_project x s) = dict_set (proj_id x) x (projects s)"
  "mcp_child_servers (put_project x s) = mcp_child_servers s"
  "ideas (put_project x s) = ideas s"
  "work_orders (put_project x s) = work_orders s"
  "test_runs (put_project x s) = test_runs s"
  "notifications (put_project x s) = notifications s"
  "audit_events (put_project x s) = audit_events s"
  "clock (put_project x s) = clock s"
  "draws (put_project x s) = draws s"
  "disk (put_project x s) = disk s"
  by (simp_all add: put_project_def)

lemma put_server_simps [simp, store_simps]:
  "agent_tasks (put_server x s) = agent_tasks s"
  "agent_task_events (put_server x s) = agent_task_events s"
  "agent_runs (put_server x s) = agent_runs s"
  "agent_run_steps (put_server x s) = agent_run_steps s"
  "agent_run_events (put_server x s) = agent_run_events s"
  "agent_run_faults (put_server x s) = agent_run_faults s"
  "capability_leases (put_server x s) = capability_leases s"
  "reviewer_attestations (put_server x s) = reviewer_attestations s"
  "proposed_actions (put_server x s) = proposed_actions s"
  "policy_decisions (put_server x s) = policy_decisions s"
  "action_authorizations (put_server x s) = action_authorizations s"
  "action_consumptions (put_server x s) = action_consumptions s"
  "credential_grants (put_server x s) = credential_grants s"
  "trust_events (put_server x s) = trust_events s"
  "approval_requests (put_server x s) = approval_requests s"
  "mcp_pending_requests (put_server x s) = mcp_pending_requests s"
  "external_agents (put_server x s) = external_agents s"
  "agent_connectors (put_server x s) = agent_connectors s"
  "users (put_server x s) = users s"
  "sessions (put_server x s) = sessions s"
  "invites (put_server x s) = invites s"
  "external_agent_credentials (put_server x s) = external_agent_credentials s"
  "device_registrations (put_server x s) = device_registrations s"
  "projects (put_server x s) = projects s"
  "mcp_child_servers (put_server x s) = dict_set (srv_id x) x (mcp_child_servers s)"
  "ideas (put_server x s) = ideas s"
  "work_orders (put_server x s) = work_orders s"
  "test_runs (put_server x s) = test_runs s"
  "notifications (put_server x s) = notifications s"
  "audit_events (put_server x s) = audit_events s"
  "clock (put_server x s) = clock s"
  "draws (put_server x s) = draws s"
  "disk (put_server x s) = disk s"
  by (simp_all add: put_server_def)

lemma put_idea_simps [simp, store_simps]:
  "agent_tasks (put_idea x s) = agent_tasks s"
  "agent_task_events (put_idea x s) = agent_task_events s"
  "agent_runs (put_idea x s) = agent_runs s"
  "agent_run_steps (put_idea x s) = agent_run_steps s"
  "agent_run_events (put_idea x s) = agent_run_events s"
  "agent_run_faults (put_idea x s) = agent_run_faults s"
  "capability_leases (put_idea x s) = capability_leases s"
  "reviewer_attestations (put_idea x s) = reviewer_attestations s"
  "proposed_actions (put_idea x s) = proposed_actions s"
  "policy_decisions (put_idea x s) = policy_decisions s"
  "action_authorizations (put_idea x s) = action_authorizations s"
  "action_consumptions (put_idea x s) = action_consumptions s"
  "credential_grants (put_idea x s) = credential_grants s"
  "trust_events (put_idea x s) = trust_events s"
  "approval_requests (put_idea x s) = approval_requests s"
  "mcp_pending_requests (put_idea x s) = mcp_pending_requests s"
  "external_agents (put_idea x s) = external_agents s"
  "agent_connectors (put_idea x s) = agent_connectors s"
  "users (put_idea x s) = users s"
  "sessions (put_idea x s) = sessions s"
  "invites (put_idea x s) = invites s"
  "external_agent_credentials (put_idea x s) = external_agent_credentials s"
  "device_registrations (put_idea x s) = device_registrations s"
  "projects (put_idea x s) = projects s"
  "mcp_child_servers (put_idea x s) = mcp_child_servers s"
  "ideas (put_idea x s) = dict_set (idea_id x) x (ideas s)"
  "work_orders (put_idea x s) = work_orders s"
  "test_runs (put_idea x s) = test_runs s"
  "notifications (put_idea x s) = notifications s"
  "audit_events (put_idea x s) = audit_events s"
  "clock (put_idea x s) = clock s"
  "draws (put_idea x s) = draws s"
  "disk (put_idea x s) = disk s"
  by (simp_all add: put_idea_def)

lemma put_work_order_simps [simp, store_simps]:
  "agent_tasks (put_work_order x s) = agent_tasks s"
  "agent_task_events (put_work_order x s) = agent_task_events s"
  "agent_runs (put_work_order x s) = agent_runs s"
  "agent_run_steps (put_work_order x s) = agent_run_steps s"
  "agent_run_events (put_work_order x s) = agent_run_events s"
  "agent_run_faults (put_work_order x s) = agent_run_faults s"
  "capability_leases (put_work_order x s) = capability_leases s"
  "reviewer_attestations (put_work_order x s) = reviewer_attestations s"
  "proposed_actions (put_work_order x s) = proposed_actions s"
  "policy_decisions (put_work_order x s) = policy_decisions s"
  "action_authorizations (put_work_order x s) = action_authorizations s"
  "action_consumptions (put_work_order x s) = action_consumptions s"
  "credential_grants (put_work_order x s) = credential_grants s"
  "trust_events (put_work_order x s) = trust_events s"
  "approval_requests (put_work_order x s) = approval_requests s"
  "mcp_pending_requests (put_work_order x s) = mcp_pending_requests s"
  "external_agents (put_work_order x s) = external_agents s"
  "agent_connectors (put_work_order x s) = agent_connectors s"
  "users (put_work_order x s) = users s"
  "sessions (put_work_order x s) = sessions s"
  "invites (put_work_order x s) = invites s"
  "external_agent_credentials (put_work_order x s) = external_agent_credentials s"
  "device_registrations (put_work_order x s) = device_registrations s"
  "projects (put_work_order x s) = projects s"
  "mcp_child_servers (put_work_order x s) = mcp_child_servers s"
  "ideas (put_work_order x s) = ideas s"
  "work_orders (put_work_order x s) = dict_set (wo_id x) x (work_orders s)"
  "test_runs (put_work_order x s) = test_runs s"
  "notifications (put_work_order x s) = notifications s"
  "audit_events (put_work_order x s) = audit_events s"
  "clock (put_work_order x s) = clock s"
  "draws (put_work_order x s) = draws s"
  "disk (put_work_order x s) = disk s"
  by (simp_all add: put_work_order_def)

lemma put_test_run_simps [simp, store_simps]:
  "agent_tasks (put_test_run x s) = agent_tasks s"
  "agent_task_events (put_test_run x s) = agent_task_events s"
  "agent_runs (put_test_run x s) = agent_runs s"
  "agent_run_steps (put_test_run x s) = agent_run_steps s"
  "agent_run_events (put_test_run x s) = agent_run_events s"
  "agent_run_faults (put_test_run x s) = agent_run_faults s"
  "capability_leases (put_test_run x s) = capability_leases s"
  "reviewer_attestations (put_test_run x s) = reviewer_attestations s"
  "proposed_actions (put_test_run x s) = proposed_actions s"
  "policy_decisions (put_test_run x s) = policy_decisions s"
  "action_authorizations (put_test_run x s) = action_authorizations s"
  "action_consumptions (put_test_run x s) = action_consumptions s"
  "credential_grants (put_test_run x s) = credential_grants s"
  "trust_events (put_test_run x s) = trust_events s"
  "approval_requests (put_test_run x s) = approval_requests s"
  "mcp_pending_requests (put_test_run x s) = mcp_pending_requests s"
  "external_agents (put_test_run x s) = external_agents s"
  "agent_connectors (put_test_run x s) = agent_connectors s"
  "users (put_test_run x s) = users s"
  "sessions (put_test_run x s) = sessions s"
  "invites (put_test_run x s) = invites s"
  "external_agent_credentials (put_test_run x s) = external_agent_credentials s"
  "device_registrations (put_test_run x s) = device_registrations s"
  "projects (put_test_run x s) = projects s"
  "mcp_child_servers (put_test_run x s) = mcp_child_servers s"
  "ideas (put_test_run x s) = ideas s"
  "work_orders (put_test_run x s) = work_orders s"
  "test_runs (put_test_run x s) = dict_set (tr_id x) x (test_runs s)"
  "notifications (put_test_run x s) = notifications s"
  "audit_events (put_test_run x s) = audit_events s"
  "clock (put_test_run x s) = clock s"
  "draws (put_test_run x s) = draws s"
  "disk (put_test_run x s) = disk s"
  by (simp_all add: put_test_run_def)

lemma put_notification_simps [simp, store_simps]:
  "agent_tasks (put_notification x s) = agent_tasks s"
  "agent_task_events (put_notification x s) = agent_task_events s"
  "agent_runs (put_notification x s) = agent_runs s"
  "agent_run_steps (put_notification x s) = agent_run_steps s"
  "agent_run_events (put_notification x s) = agent_run_events s"
  "agent_run_faults (put_notification x s) = agent_run_faults s"
  "capability_leases (put_notification x s) = capability_leases s"
  "reviewer_attestations (put_notification x s) = reviewer_attestations s"
  "proposed_actions (put_notification x s) = proposed_actions s"
  "policy_decisions (put_notification x s) = policy_decisions s"
  "action_authorizations (put_notification x s) = action_authorizations s"
  "action_consumptions (put_notification x s) = action_consumptions s"
  "credential_grants (put_notification x s) = credential_grants s"
  "trust_events (put_notification x s) = trust_events s"
  "approval_requests (put_notification x s) = approval_requests s"
  "mcp_pending_requests (put_notification x s) = mcp_pending_requests s"
  "external_agents (put_notification x s) = external_agents s"
  "agent_connectors (put_notification x s) = agent_connectors s"
  "users (put_notification x s) = users s"
  "sessions (put_notification x s) = sessions s"
  "invites (put_notification x s) = invites s"
  "external_agent_credentials (put_notification x s) = external_agent_credentials s"
  "device_registrations (put_notification x s) = device_registrations s"
  "projects (put_notification x s) = projects s"
  "mcp_child_servers (put_notification x s) = mcp_child_servers s"
  "ideas (put_notification x s) = ideas s"
  "work_orders (put_notification x s) = work_orders s"
  "test_runs (put_notification x s) = test_runs s"
  "notifications (put_notification x s) = dict_set (note_id x) x (notifications s)"
  "audit_events (put_notification x s) = audit_events s"
  "clock (put_notification x s) = clock s"
  "draws (put_notification x s) = draws s"
  "disk (put_notification x s) = disk s"
  by (simp_all add: put_notification_def)

lemma put_consumption_simps [simp, store_simps]:
  "agent_tasks (put_consumption k x s) = agent_tasks s"
  "agent_task_events (put_consumption k x s) = agent_task_events s"
  "agent_runs (put_consumption k x s) = agent_runs s"
  "agent_run_steps (put_consumption k x s) = agent_run_steps s"
  "agent_run_events (put_consumption k x s) = agent_run_events s"
  "agent_run_faults (put_consumption k x s) = agent_run_faults s"
  "capability_leases (put_consumption k x s) = capability_leases s"
  "reviewer_attestations (put_consumption k x s) = reviewer_attestations s"
  "proposed_actions (put_consumption k x s) = proposed_actions s"
  "policy_decisions (put_consumption k x s) = policy_decisions s"
  "action_authorizations (put_consumption k x s) = action_authorizations s"
  "action_consumptions (put_consumption k x s) = dict_set k x (action_consumptions s)"
  "credential_grants (put_consumption k x s) = credential_grants s"
  "trust_events (put_consumption k x s) = trust_events s"
  "approval_requests (put_consumption k x s) = approval_requests s"
  "mcp_pending_requests (put_consumption k x s) = mcp_pending_requests s"
  "external_agents (put_consumption k x s) = external_agents s"
  "agent_connectors (put_consumption k x s) = agent_connectors s"
  "users (put_consumption k x s) = users s"
  "sessions (put_consumption k x s) = sessions s"
  "invites (put_consumption k x s) = invites s"
  "external_agent_credentials (put_consumption k x s) = external_agent_credentials s"
  "device_registrations (put_consumption k x s) = device_registrations s"
  "projects (put_consumption k x s) = projects s"
  "mcp_child_servers (put_consumption k x s) = mcp_child_servers s"
  "ideas (put_consumption k x s) = ideas s"
  "work_orders (put_consumption k x s) = work_orders s"
  "test_runs (put_consumption k x s) = test_runs s"
  "notifications (put_consumption k x s) = notifications s"
  "audit_events (put_consumption k x s) = audit_events s"
  "clock (put_consumption k x s) = clock s"
  "draws (put_consumption k x s) = draws s"
  "disk (put_consumption k x s) = disk s"
  by (simp_all add: put_consumption_def)

lemma drawn_simps [simp, store_simps]:
  "agent_tasks (drawn s) = agent_tasks s"
  "agent_task_events (drawn s) = agent_task_events s"
  "agent_runs (drawn s) = agent_runs s"
  "agent_run_steps (drawn s) = agent_run_steps s"
  "agent_run_events (drawn s) = agent_run_events s"
  "agent_run_faults (drawn s) = agent_run_faults s"
  "capability_leases (drawn s) = capability_leases s"
  "reviewer_attestations (drawn s) = reviewer_attestations s"
  "proposed_actions (drawn s) = proposed_actions s"
  "policy_decisions (drawn s) = policy_decisions s"
  "action_authorizations (drawn s) = action_authorizations s"
  "action_consumptions (drawn s) = action_consumptions s"
  "credential_grants (drawn s) = credential_grants s"
  "trust_events (drawn s) = trust_events s"
  "approval_requests (drawn s) = approval_requests s"
  "mcp_pending_requests (drawn s) = mcp_pending_requests s"
  "external_agents (drawn s) = external_agents s"
  "agent_connectors (drawn s) = agent_connectors s"
  "users (drawn s) = users s"
  "sessions (drawn s) = sessions s"
  "invites (drawn s) = invites s"
  "external_agent_credentials (drawn s) = external_agent_credentials s"
  "device_registrations (drawn s) = device_registrations s"
  "projects (drawn s) = projects s"
  "mcp_child_servers (drawn s) = mcp_child_servers s"
  "ideas (drawn s) = ideas s"
  "work_orders (drawn s) = work_orders s"
  "test_runs (drawn s) = test_runs s"
  "notifications (drawn s) = notifications s"
  "audit_events (drawn s) = audit_events s"
  "clock (drawn s) = clock s"
  "draws (drawn s) = Suc (draws s)"
  "disk (drawn s) = disk s"
  by (simp_all add: drawn_def)

lemma add_audit_simps [simp, store_simps]:
  "agent_tasks (add_audit E ty ent d a s) = agent_tasks s"
  "agent_task_events (add_audit E ty ent d a s) = agent_task_events s"
  "agent_runs (add_audit E ty ent d a s) = agent_runs s"
  "agent_run_steps (add_audit E ty ent d a s) = agent_run_steps s"
  "agent_run_events (add_audit E ty ent d a s) = agent_run_events s"
  "agent_run_faults (add_audit E ty ent d a s) = agent_run_faults s"
  "capability_leases (add_audit E ty ent d a s) = capability_leases s"
  "reviewer_attestations (add_audit E ty ent d a s) = reviewer_attestations s"
  "proposed_actions (add_audit E ty ent d a s) = proposed_actions s"
  "policy_decisions (add_audit E ty ent d a s) = policy_decisions s"
  "action_authorizations (add_audit E ty ent d a s) = action_authorizations s"
  "action_consumptions (add_audit E ty ent d a s) = action_consumptions s"
  "credential_grants (add_audit E ty ent d a s) = credential_grants s"
  "trust_events (add_audit E ty ent d a s) = trust_events s"
  "approval_requests (add_audit E ty ent d a s) = approval_requests s"
  "mcp_pending_requests (add_audit E ty ent d a s) = mcp_pending_requests s"
  "external_agents (add_audit E ty ent d a s) = external_agents s"
  "agent_connectors (add_audit E ty ent d a s) = agent_connectors s"
  "users (add_audit E ty ent d a s) = users s"
  "sessions (add_audit E ty ent d a s) = sessions s"
  "invites (add_audit E ty ent d a s) = invites s"
  "external_agent_credentials (add_audit E ty ent d a s) = external_agent_credentials s"
  "device_registrations (add_audit E ty ent d a s) = device_registrations s"
  "projects (add_audit E ty ent d a s) = projects s"
  "mcp_child_servers (add_audit E ty ent d a s) = mcp_child_servers s"
  "ideas (add_audit E ty ent d a s) = ideas s"
  "work_orders (add_audit E ty ent d a s) = work_orders s"
  "test_runs (add_audit E ty ent d a s) = test_runs s"
  "notifications (add_audit E ty ent d a s) = notifications s"
  "clock (add_audit E ty ent d a s) = clock s"
  "draws (add_audit E ty ent d a s) = Suc (draws s)"
  "disk (add_audit E ty ent d a s) = disk s"
  by (simp_all add: add_audit_def)

lemma persist_simps [simp, store_simps]:
  "agent_tasks (persist s) = agent_tasks s"
  "agent_task_events (persist s) = agent_task_events s"
  "agent_runs (persist s) = agent_runs s"
  "agent_run_steps (persist s) = agent_run_steps s"
  "agent_run_events (persist s) = agent_run_events s"
  "agent_run_faults (persist s) = agent_run_faults s"
  "capability_leases (persist s) = capability_leases s"
  "reviewer_attestations (persist s) = reviewer_attestations s"
  "proposed_actions (persist s) = proposed_actions s"
  "policy_decisions (persist s) = policy_decisions s"
  "action_authorizations (persist s) = action_authorizations s"
  "action_consumptions (persist s) = action_consumptions s"
  "credential_grants (persist s) = credential_grants s"
  "trust_events (persist s) = trust_events s"
  "approval_requests (persist s) = approval_requests s"
  "mcp_pending_requests (persist s) = mcp_pending_requests s"
  "external_agents (persist s) = external_agents s"
  "agent_connectors (persist s) = agent_connectors s"
  "users (persist s) = users s"
  "sessions (persist s) = sessions s"
  "invites (persist s) = invites s"
  "external_agent_credentials (persist s) = external_agent_credentials s"
  "device_registrations (persist s) = device_registrations s"
  "projects (persist s) = projects s"
  "mcp_child_servers (persist s) = mcp_child_servers s"
  "ideas (persist s) = ideas s"
  "work_orders (persist s) = work_orders s"
  "test_runs (persist s) = test_runs s"
  "notifications (persist s) = notifications s"
  "audit_events (persist s) = audit_events s"
  "clock (persist s) = clock s"
  "draws (persist s) = draws s"
  by (simp_all add: persist_def)

lemma durable_persist [simp]: "durable (persist s)"
  by (simp add: durable_def persist_def store.defs)

end
