(* ===== verification/TrustCrypto.thy ===== *)
theory TrustCrypto
  imports Store
begin

text \<open>
  \<open>trust_crypto.py\<close> and \<open>canonical_evidence_hash\<close>: the canonical JSON text of a payload
  (\<open>json.dumps\<close> with sorted keys, compact separators and \<open>default=str\<close>), its SHA-256 digest and
  its HMAC signature. The digests themselves are the environment's.
\<close>

section \<open>Canonical JSON\<close>

definition hex_digit :: "nat \<Rightarrow> char" where
  "hex_digit n = (if n < 10 then char_of (48 + n) else char_of (87 + n))"

definition json_escape :: "char \<Rightarrow> string" where
  "json_escape c =
     (let n = (of_char c :: nat) in
      if n = 34 then [char_of (92 :: nat), c]
      else if n = 92 then [c, c]
      else if n = 10 then char_of (92 :: nat) # ''n''
      else if n = 13 then char_of (92 :: nat) # ''r''
      else if n = 9 then char_of (92 :: nat) # ''t''
      else if n = 12 then char_of (92 :: nat) # ''f''
      else if n = 8 then char_of (92 :: nat) # ''b''
      else if 32 \<le> n \<and> n \<le> 126 then [c]
      else char_of (92 :: nat) # ''u00'' @ [hex_digit (n div 16), hex_digit (n mod 16)])"

definition json_quote :: "string \<Rightarrow> string" where
  "json_quote s = char_of (34 :: nat) # concat (map json_escape s) @ [char_of (34 :: nat)]"

fun canonical_json :: "env \<Rightarrow> json \<Rightarrow> string" where
  "canonical_json E JNull = ''null''"
| "canonical_json E (JBool b) = (if b then ''true'' else ''false'')"
| "canonical_json E (JInt i) = int_str i"
| "canonical_json E (JNum q) = float_repr E q"
| "canonical_json E (JStr v) = json_quote v"
| "canonical_json E (JTime t) = json_quote (time_text E t)"
| "canonical_json E (JList xs) =
     ''['' @ py_join '','' (map (canonical_json E) xs) @ '']''"
| "canonical_json E (JObj d) =
     ''{'' @ py_join '','' (map (\<lambda>(k, t). json_quote k @ '':'' @ t)
        (sort_key fst (map (\<lambda>(k, v). (k, canonical_json E v)) d))) @ ''}''"

section \<open>str and repr\<close>

text \<open>
  Python's \<open>repr\<close> of a JSON value (single quotes unless the text has one and no double quote)
  and its \<open>str\<close>.
\<close>

definition repr_char :: "char \<Rightarrow> char \<Rightarrow> string" where
  "repr_char q c =
     (let n = (of_char c :: nat) in
      if c = q \<or> n = 92 then [char_of (92 :: nat), c]
      else if n = 10 then char_of (92 :: nat) # ''n''
      else if n = 13 then char_of (92 :: nat) # ''r''
      else if n = 9 then char_of (92 :: nat) # ''t''
      else if 32 \<le> n \<and> n \<le> 126 then [c]
      else char_of (92 :: nat) # ''x'' @ [hex_digit (n div 16), hex_digit (n mod 16)])"

definition str_repr :: "string \<Rightarrow> string" where
  "str_repr s =
     (let q = (if CHR 0x27 \<in> set s \<and> CHR 0x22 \<notin> set s then CHR 0x22 else CHR 0x27)
      in q # concat (map (repr_char q) s) @ [q])"

fun py_repr :: "env \<Rightarrow> json \<Rightarrow> string" where
  "py_repr E JNull = ''None''"
| "py_repr E (JBool b) = (if b then ''True'' else ''False'')"
| "py_repr E (JInt i) = int_str i"
| "py_repr E (JNum q) = float_repr E q"
| "py_repr E (JStr v) = str_repr v"
| "py_repr E (JTime t) = time_text E t"
| "py_repr E (JList xs) = ''['' @ py_join '', '' (map (py_repr E) xs) @ '']''"
| "py_repr E (JObj d) =
     ''{'' @ py_join '', '' (map (\<lambda>(k, v). str_repr k @ '': '' @ py_repr E v) d) @ ''}''"

definition py_str :: "env \<Rightarrow> json \<Rightarrow> string" where
  "py_str E v = (case v of JStr s \<Rightarrow> s | _ \<Rightarrow> py_repr E v)"

text \<open>\<open>str(d.get(k) or "")\<close>\<close>

definition json_or_str :: "env \<Rightarrow> jdict \<Rightarrow> string \<Rightarrow> string" where
  "json_or_str E d k =
     (case dict_get d k of None \<Rightarrow> [] | Some v \<Rightarrow> if json_truthy v then py_str E v else [])"

section \<open>Digests and signatures\<close>

definition sha256_hex :: "env \<Rightarrow> json \<Rightarrow> string" where
  "sha256_hex E payload = sha256 E (canonical_json E payload)"

definition canonical_evidence_hash :: "env \<Rightarrow> json \<Rightarrow> string" where
  "canonical_evidence_hash E payload = sha256 E (canonical_json E payload)"

definition sign_payload :: "env \<Rightarrow> json \<Rightarrow> string" where
  "sign_payload E payload = hmac_sha256 E (signing_key E) (canonical_json E payload)"

definition verify_payload_signature :: "env \<Rightarrow> json \<Rightarrow> string \<Rightarrow> bool" where
  "verify_payload_signature E payload sig \<longleftrightarrow> sign_payload E payload = sig"

lemma verify_sign [simp]: "verify_payload_signature E p (sign_payload E p)"
  by (simp add: verify_payload_signature_def)

text \<open>The canonical text does not depend on the order in which a dictionary was filled.\<close>

lemma canonical_json_perm:
  assumes "distinct (map fst d)" "distinct (map fst d')" "set d = set d'"
  shows "canonical_json E (JObj d) = canonical_json E (JObj d')"
proof -
  let ?f = "map (\<lambda>(k, v). (k, canonical_json E v))"
  have f: "map fst (?f x) = map fst x" for x :: "(string \<times> json) list" by (induction x) auto
  have g: "distinct (map fst (sort_key fst y)) = distinct (map fst y)" for y :: "(string \<times> string) list"
    by (simp add: distinct_map)
  have d: "distinct (map fst (sort_key fst (?f x)))" if "distinct (map fst x)"
    for x :: "(string \<times> json) list"
    using that by (simp only: g f)
  have s: "set (sort_key fst (?f d)) = set (sort_key fst (?f d'))" using assms(3) by simp
  have "inj_on fst (set (sort_key fst (?f d)) \<union> set (sort_key fst (?f d')))"
    using d [OF assms(1)] s by (simp add: distinct_map)
  then have "sort_key fst (?f d) = sort_key fst (?f d')"
    using d [OF assms(1)] d [OF assms(2)] s by (intro map_sorted_distinct_set_unique) auto
  then show ?thesis by simp
qed

end
