(* ===== verification/ApprovalLifecycle.thy ===== *)
theory ApprovalLifecycle
  imports TrustCrypto "HOL-Library.Multiset"
begin

text \<open>
  \<open>approval_lifecycle.py\<close>: the statuses an approval request may take, the table of permitted
  changes, and the dashboard's buckets; and \<open>approval_integrity.py\<close>: the content that is sealed
  when a request is approved.
\<close>

section \<open>Tables\<close>

definition LEGACY_STATUS_MAP :: "(ApprovalStatus, ApprovalStatus) dict" where
  "LEGACY_STATUS_MAP =
     [(PENDING_REVIEW, ApprovalStatus.REQUESTED),
      (REJECTED, ApprovalStatus.DENIED),
      (APPLIED, ApprovalStatus.EXECUTING),
      (ApprovalStatus.TESTS_RUNNING, ApprovalStatus.EXECUTING),
      (ApprovalStatus.TESTS_FAILED, ApprovalStatus.FAILED),
      (ApprovalStatus.TESTS_PASSED, MERGED)]"

definition VALID_TRANSITIONS :: "(ApprovalStatus, ApprovalStatus list) dict" where
  "VALID_TRANSITIONS =
     [(ApprovalStatus.REQUESTED,
        [ApprovalStatus.APPROVED, ApprovalStatus.DENIED, ApprovalStatus.EXPIRED, ApprovalStatus.CANCELLED]),
      (ApprovalStatus.APPROVED, [ApprovalStatus.EXECUTING, ApprovalStatus.CANCELLED]),
      (ApprovalStatus.EXECUTING, [ApprovalStatus.READY_FOR_PR, ApprovalStatus.FAILED]),
      (ApprovalStatus.READY_FOR_PR, [MERGED, ApprovalStatus.FAILED, ApprovalStatus.CANCELLED]),
      (ApprovalStatus.FAILED, [ApprovalStatus.APPROVED, ApprovalStatus.CANCELLED]),
      (ApprovalStatus.DENIED, []),
      (ApprovalStatus.EXPIRED, []),
      (MERGED, []),
      (ApprovalStatus.CANCELLED, []),
      (ApprovalStatus.BLOCKED, [ApprovalStatus.CANCELLED]),
      (REVISION_REQUESTED, [ApprovalStatus.REQUESTED, ApprovalStatus.CANCELLED]),
      (PENDING_REVIEW,
        [ApprovalStatus.APPROVED, ApprovalStatus.DENIED, ApprovalStatus.EXPIRED, ApprovalStatus.CANCELLED]),
      (REJECTED, []),
      (APPLIED, [ApprovalStatus.READY_FOR_PR, ApprovalStatus.FAILED]),
      (ApprovalStatus.TESTS_RUNNING, [ApprovalStatus.READY_FOR_PR, ApprovalStatus.FAILED]),
      (ApprovalStatus.TESTS_PASSED, [MERGED]),
      (ApprovalStatus.TESTS_FAILED, [ApprovalStatus.APPROVED, ApprovalStatus.CANCELLED])]"

definition DASHBOARD_BUCKETS :: "(string, ApprovalStatus list) dict" where
  "DASHBOARD_BUCKETS =
     [(''action_required'', [ApprovalStatus.REQUESTED, ApprovalStatus.BLOCKED, REVISION_REQUESTED]),
      (''approved_waiting'', [ApprovalStatus.APPROVED]),
      (''executing'', [ApprovalStatus.EXECUTING]),
      (''ready_for_pr'', [ApprovalStatus.READY_FOR_PR]),
      (''failed'', [ApprovalStatus.FAILED]),
      (''completed'', [MERGED]),
      (''history'', [ApprovalStatus.DENIED, ApprovalStatus.EXPIRED, ApprovalStatus.CANCELLED])]"

section \<open>Operations\<close>

definition canonical_status :: "ApprovalStatus \<Rightarrow> ApprovalStatus" where
  "canonical_status st = (case dict_get LEGACY_STATUS_MAP st of None \<Rightarrow> st | Some c \<Rightarrow> c)"

definition can_transition :: "ApprovalStatus \<Rightarrow> ApprovalStatus \<Rightarrow> bool" where
  "can_transition previous new \<longleftrightarrow>
     (case dict_get VALID_TRANSITIONS (canonical_status previous) of
        None \<Rightarrow> False
      | Some sts \<Rightarrow> canonical_status new \<in> set sts)"

definition dashboard_bucket_for :: "ApprovalStatus \<Rightarrow> string" where
  "dashboard_bucket_for st =
     (case find (\<lambda>(bucket, sts). canonical_status st \<in> set sts) DASHBOARD_BUCKETS of
        Some (bucket, sts) \<Rightarrow> bucket
      | None \<Rightarrow> ''history'')"

definition add_to_bucket :: "ApprovalRequest \<Rightarrow> (string, ApprovalRequest list) dict \<Rightarrow> (string, ApprovalRequest list) dict" where
  "add_to_bucket a grouped =
     (let b = dashboard_bucket_for (appr_status a) in
      dict_set b ((case dict_get grouped b of None \<Rightarrow> [] | Some xs \<Rightarrow> xs) @ [a]) grouped)"

definition grouped_approvals :: "ApprovalRequest list \<Rightarrow> (string, ApprovalRequest list) dict" where
  "grouped_approvals approvals = fold add_to_bucket approvals (map (\<lambda>(b, sts). (b, [])) DASHBOARD_BUCKETS)"

section \<open>The sealed content\<close>

definition file_snapshot :: "FileChange \<Rightarrow> json" where
  "file_snapshot fc =
     JObj [(''path'', JStr (fc_path fc)), (''change_type'', JStr (fc_change_type fc)),
           (''diff'', JStr (fc_diff fc)), (''new_content'', json_opt_str (fc_new_content fc))]"

definition approval_payload_snapshot :: "ApprovalRequest \<Rightarrow> json" where
  "approval_payload_snapshot a =
     JObj [(''project_id'', JStr (appr_project_id a)),
           (''work_order_id'', json_opt_str (appr_work_order_id a)),
           (''title'', JStr (appr_title a)),
           (''summary'', JStr (appr_summary a)),
           (''agent_name'', JStr (appr_agent_name a)),
           (''target_branch'', JStr (appr_target_branch a)),
           (''files'', JList (map file_snapshot (appr_files a))),
           (''test_plan'', json_strs (appr_test_plan a)),
           (''rollback_plan'', JStr (appr_rollback_plan a)),
           (''source_provider'', json_opt_str (map_option AgentProvider_value (appr_source_provider a))),
           (''source_agent_id'', json_opt_str (appr_source_agent_id a)),
           (''source_agent_name'', json_opt_str (appr_source_agent_name a)),
           (''source_session_id'', json_opt_str (appr_source_session_id a)),
           (''source_task_url'', json_opt_str (appr_source_task_url a))]"

definition compute_approval_payload_hash :: "env \<Rightarrow> ApprovalRequest \<Rightarrow> string" where
  "compute_approval_payload_hash E a =
     ''sha256:'' @ sha256 E (canonical_json E (approval_payload_snapshot a))"

section \<open>Lemmas\<close>

lemma canonical_status_eqs [simp]:
  "canonical_status PENDING_REVIEW = ApprovalStatus.REQUESTED"
  "canonical_status REJECTED = ApprovalStatus.DENIED"
  "canonical_status APPLIED = ApprovalStatus.EXECUTING"
  "canonical_status ApprovalStatus.TESTS_RUNNING = ApprovalStatus.EXECUTING"
  "canonical_status ApprovalStatus.TESTS_FAILED = ApprovalStatus.FAILED"
  "canonical_status ApprovalStatus.TESTS_PASSED = MERGED"
  by (simp_all add: canonical_status_def LEGACY_STATUS_MAP_def)

lemma canonical_status_idem [simp]: "canonical_status (canonical_status st) = canonical_status st"
  by (cases st) (simp_all add: canonical_status_def LEGACY_STATUS_MAP_def)

lemma can_transition_canonical:
  "can_transition (canonical_status a) (canonical_status b) = can_transition a b"
  by (simp add: can_transition_def split: option.splits)

lemma no_transition_out:
  "canonical_status a \<in> {ApprovalStatus.DENIED, ApprovalStatus.EXPIRED, MERGED, ApprovalStatus.CANCELLED} \<Longrightarrow>
    \<not> can_transition a b"
  by (auto simp: can_transition_def VALID_TRANSITIONS_def)

lemma dashboard_bucket_known: "dashboard_bucket_for st \<in> set (map fst DASHBOARD_BUCKETS)"
  by (cases st) (simp_all add: dashboard_bucket_for_def DASHBOARD_BUCKETS_def canonical_status_def LEGACY_STATUS_MAP_def)

text \<open>The groups keep the order of the requests, and each request is in exactly one of them.\<close>

lemma fold_add_to_bucket:
  "dict_get (fold add_to_bucket as g) b =
     (case dict_get g b of
        Some xs \<Rightarrow> Some (xs @ filter (\<lambda>a. dashboard_bucket_for (appr_status a) = b) as)
      | None \<Rightarrow> (let ys = filter (\<lambda>a. dashboard_bucket_for (appr_status a) = b) as in
                 if ys = [] then None else Some ys))"
proof (induction as arbitrary: g)
  case Nil
  then show ?case by (simp split: option.splits)
next
  case (Cons a as)
  then show ?case by (auto simp: add_to_bucket_def Let_def split: option.splits)
qed

lemma grouped_approvals_get:
  "dict_get (grouped_approvals as) b =
     (if b \<in> set (map fst DASHBOARD_BUCKETS)
      then Some (filter (\<lambda>a. dashboard_bucket_for (appr_status a) = b) as) else None)"
proof -
  have g: "dict_get (map (\<lambda>(b, sts). (b, [])) d) b = (if b \<in> set (map fst d) then Some [] else None)"
    for d :: "(string, ApprovalStatus list) dict"
    by (induction d) (auto split: prod.splits)
  show ?thesis
    using dashboard_bucket_known by (auto simp: grouped_approvals_def fold_add_to_bucket g Let_def filter_empty_conv)
qed

text \<open>The sealed hash covers the content and nothing of the lifecycle.\<close>

lemma payload_hash_lifecycle [simp]:
  "compute_approval_payload_hash E (a\<lparr>appr_status := st\<rparr>) = compute_approval_payload_hash E a"
  "compute_approval_payload_hash E (a\<lparr>appr_approved_payload_hash := h\<rparr>) = compute_approval_payload_hash E a"
  "compute_approval_payload_hash E (a\<lparr>appr_approved_at := t\<rparr>) = compute_approval_payload_hash E a"
  "compute_approval_payload_hash E (a\<lparr>appr_approved_by_user_id := u\<rparr>) = compute_approval_payload_hash E a"
  "compute_approval_payload_hash E (a\<lparr>appr_updated_at := t'\<rparr>) = compute_approval_payload_hash E a"
  by (simp_all add: compute_approval_payload_hash_def approval_payload_snapshot_def)

end
