(* ===== verification/RiskEngine.thy ===== *)
theory RiskEngine
  imports PyModels
begin

text \<open>
  \<open>risk_engine.py\<close>: the risk level of an approval request and of a work order, from the target
  branch, the changed paths and the words of the goal.
\<close>

section \<open>The markers\<close>

definition BLOCKED_BRANCHES :: "string list" where
  "BLOCKED_BRANCHES = [''main'', ''master'', ''production'', ''release'']"

definition BLOCKED_PATH_MARKERS :: "string list" where
  "BLOCKED_PATH_MARKERS =
     [''.env'', ''secret'', ''credential'', ''token'', ''.pem'', ''.key'', ''id_rsa'', ''secrets.yaml'']"

definition CRITICAL_PATH_MARKERS :: "string list" where
  "CRITICAL_PATH_MARKERS =
     [''execution'', ''broker'', ''order'', ''payment'', ''risk_manager'', ''auth'', ''policy'']"

definition HIGH_PATH_MARKERS :: "string list" where
  "HIGH_PATH_MARKERS = [''database'', ''migration'', ''deploy'', ''workflow'', ''ci'', ''security'']"

definition LOW_PATH_MARKERS :: "string list" where
  "LOW_PATH_MARKERS = [''readme'', ''docs/'', ''examples/'']"

definition has_marker :: "string list \<Rightarrow> string \<Rightarrow> bool" where
  "has_marker markers path \<longleftrightarrow> list_ex (\<lambda>m. py_in m path) markers"

section \<open>Approval requests\<close>

definition blocked_assessment :: "string \<Rightarrow> string \<Rightarrow> RiskAssessment" where
  "blocked_assessment reason action =
     \<lparr>ra_level = RiskLevel.BLOCKED, ra_reasons = [reason], ra_blocked = True, ra_required_actions = [action]\<rparr>"

text \<open>The level and the reasons after one file that is not blocked.\<close>

definition assess_file :: "FileChange \<Rightarrow> RiskLevel \<times> string list \<Rightarrow> RiskLevel \<times> string list" where
  "assess_file fc acc =
     (let (highest, reasons) = acc; path = py_lower (fc_path fc) in
      if has_marker CRITICAL_PATH_MARKERS path then
        (RiskLevel.CRITICAL, reasons @ [''Critical path touched: '' @ fc_path fc])
      else if has_marker HIGH_PATH_MARKERS path \<and> highest \<noteq> RiskLevel.CRITICAL then
        (RiskLevel.HIGH, reasons @ [''High-risk path touched: '' @ fc_path fc])
      else if has_marker LOW_PATH_MARKERS path then
        (highest, reasons @ [''Low-risk documentation/example path touched: '' @ fc_path fc])
      else if highest = RiskLevel.LOW then
        (RiskLevel.MEDIUM, reasons @ [''Application code or unknown path touched: '' @ fc_path fc])
      else acc)"

definition file_block :: "FileChange \<Rightarrow> RiskAssessment option" where
  "file_block fc =
     (if has_marker BLOCKED_PATH_MARKERS (py_lower (fc_path fc)) then
        Some (blocked_assessment (''Sensitive file path is blocked: '' @ fc_path fc)
          ''Remove secrets or credential files from the request.'')
      else if py_strip (fc_diff fc) = [] then
        Some (blocked_assessment (''Missing diff for file: '' @ fc_path fc)
          ''Provide a visible diff before approval.'')
      else None)"

fun assess_files :: "FileChange list \<Rightarrow> RiskLevel \<times> string list \<Rightarrow> RiskAssessment + RiskLevel \<times> string list" where
  "assess_files [] acc = Inr acc"
| "assess_files (fc # fcs) acc =
     (case file_block fc of
        Some r \<Rightarrow> Inl r
      | None \<Rightarrow> assess_files fcs (assess_file fc acc))"

definition plan_actions :: "ApprovalRequestCreate \<Rightarrow> RiskLevel \<Rightarrow> string list" where
  "plan_actions payload highest =
     (if highest \<in> {RiskLevel.HIGH, RiskLevel.CRITICAL} then
        (if appr_test_plan payload = [] then [''Add a test plan before approval.''] else [])
      @ (if py_strip (appr_rollback_plan payload) = [] then [''Add a rollback plan before approval.''] else [])
      else [])"

definition assess_approval_request :: "ApprovalRequestCreate \<Rightarrow> RiskAssessment" where
  "assess_approval_request payload =
     (if py_strip (py_lower (appr_target_branch payload)) \<in> set BLOCKED_BRANCHES then
        blocked_assessment
          (''Direct edits to protected branch '' @ [CHR 0x27] @ appr_target_branch payload @ [CHR 0x27] @ '' are blocked.'')
          ''Create a feature branch before requesting approval.''
      else if appr_files payload = [] then
        blocked_assessment ''Approval request has no file changes.'' ''Attach at least one file diff.''
      else case assess_files (appr_files payload) (RiskLevel.LOW, []) of
        Inl r \<Rightarrow> r
      | Inr (highest, reasons) \<Rightarrow>
          \<lparr>ra_level = highest,
           ra_reasons = (if reasons = [] then [''No risky markers found; defaulted to LOW.''] else reasons),
           ra_blocked = False, ra_required_actions = plan_actions payload highest\<rparr>)"

definition assess_work_order :: "WorkOrderCreate \<Rightarrow> RiskLevel" where
  "assess_work_order payload =
     (let text = py_lower (py_join '' '' ([wo_goal payload, wo_context payload] @ wo_tasks payload @
            wo_affected_areas payload)) in
      if has_marker [''execution'', ''broker'', ''payment'', ''auth'', ''security''] text then RiskLevel.CRITICAL
      else if has_marker [''database'', ''deploy'', ''policy'', ''risk''] text then RiskLevel.HIGH
      else if has_marker [''dashboard'', ''api'', ''config''] text then RiskLevel.MEDIUM
      else RiskLevel.LOW)"

section \<open>The level does not depend on the order of the files\<close>

text \<open>
  The class of one file, and the level a set of files deserves: the highest class among them, where
  documentation alone stays LOW.
\<close>

definition file_class :: "FileChange \<Rightarrow> RiskLevel" where
  "file_class fc =
     (let path = py_lower (fc_path fc) in
      if has_marker CRITICAL_PATH_MARKERS path then RiskLevel.CRITICAL
      else if has_marker HIGH_PATH_MARKERS path then RiskLevel.HIGH
      else if has_marker LOW_PATH_MARKERS path then RiskLevel.LOW
      else RiskLevel.MEDIUM)"

definition highest_class :: "FileChange set \<Rightarrow> RiskLevel" where
  "highest_class fcs =
     (if RiskLevel.CRITICAL \<in> file_class ` fcs then RiskLevel.CRITICAL
      else if RiskLevel.HIGH \<in> file_class ` fcs then RiskLevel.HIGH
      else if RiskLevel.MEDIUM \<in> file_class ` fcs then RiskLevel.MEDIUM
      else RiskLevel.LOW)"

lemma file_class_not_blocked: "file_class fc \<noteq> RiskLevel.BLOCKED"
  by (simp add: file_class_def Let_def)

lemma highest_class_simps [simp]: "highest_class {} = RiskLevel.LOW" "highest_class A \<noteq> RiskLevel.BLOCKED"
  by (simp_all add: highest_class_def)

lemma highest_class_insert:
  "highest_class (insert fc A) =
     (let c = file_class fc; h = highest_class A in
      if c = RiskLevel.CRITICAL \<or> h = RiskLevel.CRITICAL then RiskLevel.CRITICAL
      else if c = RiskLevel.HIGH \<or> h = RiskLevel.HIGH then RiskLevel.HIGH
      else if c = RiskLevel.MEDIUM \<or> h = RiskLevel.MEDIUM then RiskLevel.MEDIUM else RiskLevel.LOW)"
  by (simp add: highest_class_def Let_def)

lemma assess_file_step:
  "h \<noteq> RiskLevel.BLOCKED \<Longrightarrow> fst (assess_file fc (h, reasons)) =
     (let c = file_class fc in
      if c = RiskLevel.CRITICAL \<or> h = RiskLevel.CRITICAL then RiskLevel.CRITICAL
      else if c = RiskLevel.HIGH \<or> h = RiskLevel.HIGH then RiskLevel.HIGH
      else if c = RiskLevel.MEDIUM \<or> h = RiskLevel.MEDIUM then RiskLevel.MEDIUM else RiskLevel.LOW)"
  by (cases h) (simp_all add: assess_file_def file_class_def Let_def)

lemma assess_file_class:
  "fst (assess_file fc (highest_class A, reasons)) = highest_class (insert fc A)"
  by (simp add: assess_file_step highest_class_insert Let_def)

lemma assess_files_class:
  "assess_files fcs (highest_class A, reasons) = Inr (level, reasons') \<Longrightarrow> level = highest_class (A \<union> set fcs)"
proof (induction fcs arbitrary: A reasons)
  case Nil
  then show ?case by simp
next
  case (Cons fc fcs)
  obtain rs where "assess_file fc (highest_class A, reasons) = (highest_class (insert fc A), rs)"
    using assess_file_class [of fc A reasons] by (metis prod.collapse)
  then show ?case using Cons.prems Cons.IH [of "insert fc A" rs] by (auto split: option.splits)
qed

lemma assess_files_block:
  "(\<exists>r. assess_files fcs acc = Inl r) \<longleftrightarrow> (\<exists>fc \<in> set fcs. file_block fc \<noteq> None)"
  by (induction fcs arbitrary: acc) (auto split: option.splits)

lemma assess_files_Inl: "assess_files fcs acc = Inl r \<Longrightarrow> ra_level r = RiskLevel.BLOCKED \<and> ra_blocked r \<and> ra_required_actions r \<noteq> []"
  by (induction fcs arbitrary: acc)
    (auto simp: file_block_def blocked_assessment_def split: option.splits if_splits)

text \<open>When a request is blocked outright.\<close>

definition blocked_request :: "ApprovalRequestCreate \<Rightarrow> bool" where
  "blocked_request payload \<longleftrightarrow>
     py_strip (py_lower (appr_target_branch payload)) \<in> set BLOCKED_BRANCHES \<or> appr_files payload = [] \<or>
     (\<exists>fc \<in> set (appr_files payload).
        has_marker BLOCKED_PATH_MARKERS (py_lower (fc_path fc)) \<or> py_strip (fc_diff fc) = [])"

lemma assess_approval_level:
  "ra_level (assess_approval_request payload) =
     (if blocked_request payload then RiskLevel.BLOCKED else highest_class (set (appr_files payload)))"
  "ra_blocked (assess_approval_request payload) \<longleftrightarrow> blocked_request payload"
proof -
  have b: "(\<exists>r. assess_files (appr_files payload) (RiskLevel.LOW, []) = Inl r) \<longleftrightarrow>
      (\<exists>fc \<in> set (appr_files payload). has_marker BLOCKED_PATH_MARKERS (py_lower (fc_path fc)) \<or>
         py_strip (fc_diff fc) = [])"
    by (auto simp: assess_files_block file_block_def)
  show "ra_level (assess_approval_request payload) =
      (if blocked_request payload then RiskLevel.BLOCKED else highest_class (set (appr_files payload)))"
    "ra_blocked (assess_approval_request payload) \<longleftrightarrow> blocked_request payload"
    using b assess_files_Inl [of "appr_files payload" "(RiskLevel.LOW, [])"]
      assess_files_class [of "appr_files payload" "{}" "[]"]
    by (auto simp: assess_approval_request_def blocked_request_def blocked_assessment_def
        split: sum.splits prod.splits)
qed

end
