(* ===== verification/Notifications.thy ===== *)
theory Notifications
  imports TrustCrypto
begin

text \<open>
  \<open>notifications.py\<close> and \<open>agent_task_notifications.py\<close>: the notifications the operations leave
  for the operator, the devices they are pushed to, and the record of how the push went. The push
  service is outside: its replies are a parameter.
\<close>

section \<open>The push service\<close>

text \<open>
  \<open>fcm_server_key\<close> is the environment variable, stripped. \<open>fcm_post n token title body data\<close> is
  what the n-th request of a dispatch gets: the text of the \<open>httpx\<close> error, or the status code and
  the text of the response. The data carry the notification's own identifier, so every request of
  every dispatch has its own reply.
\<close>

datatype fcm_reply = NetworkError string | Response int string

record push_service =
  fcm_server_key :: string
  fcm_post :: "nat \<Rightarrow> string \<Rightarrow> string \<Rightarrow> string \<Rightarrow> jdict \<Rightarrow> fcm_reply"

section \<open>Sending\<close>

definition SKIPPED_PUSH :: string where
  "SKIPPED_PUSH = ''SKIPPED_FCM_SERVER_KEY_NOT_CONFIGURED''"

definition send_fcm_to_token ::
    "push_service \<Rightarrow> nat \<Rightarrow> string \<Rightarrow> string \<Rightarrow> string \<Rightarrow> jdict \<Rightarrow> string option" where
  "send_fcm_to_token F n token title body data =
     (if fcm_server_key F = [] then Some SKIPPED_PUSH
      else case fcm_post F n token title body data of
        NetworkError e \<Rightarrow> Some (''FCM_NETWORK_ERROR: '' @ e)
      | Response code response \<Rightarrow>
          if code \<ge> 400 then Some (''FCM_ERROR_'' @ int_str code @ '': '' @ take 300 response) else None)"

definition target_devices :: "Notification \<Rightarrow> sys \<Rightarrow> DeviceRegistration list" where
  "target_devices n s =
     filter (\<lambda>d. note_user_id n = None \<or> note_user_id n = dev_user_id d) (dict_vals (device_registrations s))"

definition push_replies :: "push_service \<Rightarrow> Notification \<Rightarrow> sys \<Rightarrow> string option list" where
  "push_replies F n s =
     map (\<lambda>(i, d). send_fcm_to_token F i (dev_token d) (note_title n) (note_body n)
         [(''notification_id'', JStr (note_id n)), (''entity_type'', JStr (note_entity_type n)),
          (''entity_id'', JStr (note_entity_id n))])
       (enumerate 0 (target_devices n s))"

text \<open>The errors of the loop, and whether a push was skipped.\<close>

definition push_errors :: "string option list \<Rightarrow> string list" where
  "push_errors replies = filter (\<lambda>e. e \<noteq> [] \<and> e \<noteq> SKIPPED_PUSH) (List.map_filter id replies)"

definition push_skipped :: "string option list \<Rightarrow> bool" where
  "push_skipped replies \<longleftrightarrow> Some SKIPPED_PUSH \<in> set replies"

definition dispatch_push :: "push_service \<Rightarrow> Notification \<Rightarrow> sys \<Rightarrow> Notification" where
  "dispatch_push F n s =
     (if target_devices n s = [] then n\<lparr>note_push_status := ''NO_DEVICE''\<rparr>
      else
        let replies = push_replies F n s; errors = push_errors replies in
        if errors \<noteq> [] then n\<lparr>note_push_status := ''FAILED'', note_push_error := Some (py_join '' | '' errors)\<rparr>
        else if push_skipped replies then
          n\<lparr>note_push_status := ''SKIPPED'', note_push_error := Some ''FCM_SERVER_KEY is not configured''\<rparr>
        else n\<lparr>note_push_status := ''SENT'', note_push_error := None\<rparr>)"

definition create_notification ::
    "env \<Rightarrow> push_service \<Rightarrow> string \<Rightarrow> string \<Rightarrow> string \<Rightarrow> string \<Rightarrow> string option \<Rightarrow> sys \<Rightarrow> Notification \<times> sys" where
  "create_notification E F title body entity_type entity_id uid s =
     (let n = \<lparr>note_id = new_id E ''notification'' s, note_title = title, note_body = body,
            note_entity_type = entity_type, note_entity_id = entity_id, note_user_id = uid,
            note_status = UNREAD, note_push_status = ''PENDING'', note_push_error = None,
            note_created_at = clock s\<rparr>;
          n = dispatch_push F n s
      in (n, put_notification n (drawn s)))"

section \<open>Routes\<close>

definition list_notifications :: "AuthUser \<Rightarrow> sys \<Rightarrow> Notification list" where
  "list_notifications user s =
     rev (sort_key note_created_at
       (rev (filter (\<lambda>n. note_user_id n = None \<or> note_user_id n = Some (user_id user))
          (dict_vals (notifications s)))))"

record DeviceRegistrationRequest =
  drq_token :: string
  drq_platform :: string
  drq_app_version :: string

definition register_device ::
    "env \<Rightarrow> DeviceRegistrationRequest \<Rightarrow> AuthUser \<Rightarrow> sys \<Rightarrow> DeviceRegistration \<times> sys" where
  "register_device E payload user s =
     (case find (\<lambda>d. dev_token d = drq_token payload \<and> dev_user_id d = Some (user_id user))
             (dict_vals (device_registrations s)) of
        Some d \<Rightarrow>
          let d = d\<lparr>dev_platform := drq_platform payload, dev_app_version := drq_app_version payload,
                dev_updated_at := clock s\<rparr>
          in (d, persist (put_device d s))
      | None \<Rightarrow>
          let d = \<lparr>dev_id = new_id E ''device'' s, dev_user_id = Some (user_id user),
                dev_platform = drq_platform payload, dev_token = drq_token payload,
                dev_app_version = drq_app_version payload, dev_created_at = clock s,
                dev_updated_at = clock s\<rparr>
          in (d, persist (put_device d (drawn s))))"

definition mark_notification_read :: "string \<Rightarrow> AuthUser \<Rightarrow> sys \<Rightarrow> Notification result" where
  "mark_notification_read nid user s =
     (case dict_get (notifications s) nid of
        None \<Rightarrow> raise (HTTPException 404 ''Notification not found'') s
      | Some n \<Rightarrow>
          if note_user_id n \<noteq> None \<and> note_user_id n \<noteq> Some (user_id user) then
            raise (HTTPException 404 ''Notification not found'') s
          else
            let n = n\<lparr>note_status := READ\<rparr> in ret n (persist (put_notification n s)))"

section \<open>Notifications about agent tasks\<close>

definition notify_agent_task_approval_created ::
    "env \<Rightarrow> push_service \<Rightarrow> AgentTask \<Rightarrow> ApprovalRequest \<Rightarrow> sys \<Rightarrow> Notification \<times> sys" where
  "notify_agent_task_approval_created E F task approval s =
     create_notification E F (''Agent task approval needed: '' @ task_title task)
       (RiskLevel_value (ra_level (appr_risk approval)) @ '' risk approval is waiting for review from '' @
          AgentProvider_value (task_provider task) @ ''.'')
       ''agent_task'' (task_id task) (task_created_by_user_id task) s"

definition approval_decision_text :: "AgentTask \<Rightarrow> ApprovalRequest \<Rightarrow> string \<times> string" where
  "approval_decision_text task approval =
     (if appr_status approval = ApprovalStatus.APPROVED then
        (''Agent task approved: '' @ task_title task,
         ''Worker can now continue after the linked approval decision.'')
      else if appr_status approval = ApprovalStatus.DENIED then
        (''Agent task denied: '' @ task_title task,
         ''Linked approval was denied. Worker must not continue.'')
      else if appr_status approval = REVISION_REQUESTED then
        (''Agent task needs revision: '' @ task_title task,
         ''Linked approval requested revision before work can continue.'')
      else
        (''Agent task updated: '' @ task_title task,
         ''Linked approval moved to '' @ ApprovalStatus_value (appr_status approval) @ ''.''))"

definition notify_agent_task_approval_decision ::
    "env \<Rightarrow> push_service \<Rightarrow> AgentTask \<Rightarrow> ApprovalRequest \<Rightarrow> sys \<Rightarrow> Notification \<times> sys" where
  "notify_agent_task_approval_decision E F task approval s =
     (let (title, body) = approval_decision_text task approval in
      create_notification E F title body ''agent_task'' (task_id task) (task_created_by_user_id task) s)"

definition worker_status_text :: "AgentTask \<Rightarrow> (string \<times> string) option" where
  "worker_status_text task =
     (if task_status task = AgentTaskStatus.EXECUTING then
        Some (''Agent task executing: '' @ task_title task, ''Worker has started processing the approved task.'')
      else if task_status task = AgentTaskStatus.READY_FOR_PR then
        Some (''Agent task ready for PR review: '' @ task_title task,
          ''Worker reported a pull request or review-ready result.'')
      else if task_status task = AgentTaskStatus.FAILED then
        Some (''Agent task failed: '' @ task_title task,
          ''Worker reported a failure. Review the task timeline for evidence.'')
      else if task_status task = AgentTaskStatus.DONE then
        Some (''Agent task done: '' @ task_title task,
          ''Worker reported completion. Review the task timeline for final evidence.'')
      else None)"

definition notify_agent_task_worker_status ::
    "env \<Rightarrow> push_service \<Rightarrow> AgentTask \<Rightarrow> sys \<Rightarrow> Notification option \<times> sys" where
  "notify_agent_task_worker_status E F task s =
     (case worker_status_text task of
        None \<Rightarrow> (None, s)
      | Some (title, body) \<Rightarrow>
          let (n, s) = create_notification E F title body ''agent_task'' (task_id task)
                (task_created_by_user_id task) s
          in (Some n, s))"

section \<open>Lemmas\<close>

text \<open>A notification changes the notifications and draws one identifier, whatever the push service does.\<close>

lemma snd_create_notification:
  "\<exists>n. snd (create_notification E F t b ty i u s) = put_notification n (drawn s)"
  unfolding create_notification_def Let_def snd_conv by (rule exI, rule refl)

text \<open>What a state shares with another up to notifications, audit, identifiers and the disk.\<close>

definition quiet :: "(sys \<Rightarrow> 'a) \<Rightarrow> bool" where
  "quiet f \<longleftrightarrow> (\<forall>s n. f (put_notification n (drawn s)) = f s)"

lemma quiet_create_notification:
  "quiet f \<Longrightarrow> f (snd (create_notification E F t b ty i u s)) = f s"
  using snd_create_notification [of E F t b ty i u s] by (auto simp: quiet_def)

lemma quiet_intros [simp]:
  "quiet agent_tasks" "quiet agent_task_events" "quiet agent_runs" "quiet agent_run_steps"
  "quiet agent_run_events" "quiet capability_leases" "quiet approval_requests" "quiet projects"
  "quiet work_orders" "quiet ideas" "quiet external_agents" "quiet external_agent_credentials"
  "quiet mcp_pending_requests" "quiet agent_run_faults" "quiet trust_events" "quiet clock"
  "quiet disk" "quiet audit_events" "quiet agent_connectors" "quiet test_runs"
  "quiet mcp_child_servers" "quiet users"
  by (simp_all add: quiet_def drawn_def)

lemmas create_notification_frame [simp] = quiet_create_notification [OF quiet_intros(1)]
  quiet_create_notification [OF quiet_intros(2)] quiet_create_notification [OF quiet_intros(3)]
  quiet_create_notification [OF quiet_intros(4)] quiet_create_notification [OF quiet_intros(5)]
  quiet_create_notification [OF quiet_intros(6)] quiet_create_notification [OF quiet_intros(7)]
  quiet_create_notification [OF quiet_intros(8)] quiet_create_notification [OF quiet_intros(9)]
  quiet_create_notification [OF quiet_intros(10)] quiet_create_notification [OF quiet_intros(11)]
  quiet_create_notification [OF quiet_intros(12)] quiet_create_notification [OF quiet_intros(13)]
  quiet_create_notification [OF quiet_intros(16)]

text \<open>A push is reported as sent exactly if every device of the recipient accepted it.\<close>

lemma send_fcm_None_iff:
  "send_fcm_to_token F n token title body data = None \<longleftrightarrow>
     fcm_server_key F \<noteq> [] \<and>
     (\<exists>code r. fcm_post F n token title body data = Response code r \<and> code < 400)"
  by (auto simp: send_fcm_to_token_def split: fcm_reply.splits)

lemma send_fcm_not_Nil: "send_fcm_to_token F n token title body data \<noteq> Some []"
  by (auto simp: send_fcm_to_token_def SKIPPED_PUSH_def split: fcm_reply.splits)

lemma push_replies_not_Nil: "Some [] \<notin> set (push_replies F n s)"
  by (auto simp: push_replies_def send_fcm_not_Nil [symmetric])

lemma push_errors_Nil_iff:
  "Some [] \<notin> set replies \<Longrightarrow> push_errors replies = [] \<longleftrightarrow> set replies \<subseteq> {None, Some SKIPPED_PUSH}"
  by (auto simp: push_errors_def map_filter_def filter_empty_conv)

lemma dispatch_sent_iff:
  assumes "note_push_status n = ''PENDING''"
  shows "note_push_status (dispatch_push F n s) = ''SENT'' \<longleftrightarrow>
      target_devices n s \<noteq> [] \<and> set (push_replies F n s) = {None}"
proof -
  have e: "push_replies F n s = [] \<longleftrightarrow> target_devices n s = []" 
    by (simp add: push_replies_def enumerate_eq_zip)
  have "push_errors (push_replies F n s) = [] \<and> \<not> push_skipped (push_replies F n s) \<longleftrightarrow>
      set (push_replies F n s) \<subseteq> {None}"
    using push_errors_Nil_iff [OF push_replies_not_Nil] by (auto simp: push_skipped_def)
  with assms e show ?thesis
    by (cases "push_replies F n s") (auto simp: dispatch_push_def Let_def)
qed

end
