(* ===== verification/RunStateMachine.thy ===== *)
theory RunStateMachine
  imports TrustCrypto
begin

text \<open>
  \<open>agent_run_state_machine.py\<close>: the transitions a run and a step may take, the functions that
  make them, and the run status derived from its steps. A transition reads the clock once and
  returns the changed record, or the exception's message.
\<close>

section \<open>Transition tables\<close>

definition TERMINAL_RUN_STATUSES :: "AgentRunStatus list" where
  "TERMINAL_RUN_STATUSES =
     [AgentRunStatus.BLOCKED, AgentRunStatus.SUCCEEDED, AgentRunStatus.FAILED,
      AgentRunStatus.CANCELLED]"

definition TERMINAL_STEP_STATUSES :: "AgentRunStepStatus list" where
  "TERMINAL_STEP_STATUSES =
     [AgentRunStepStatus.BLOCKED, AgentRunStepStatus.SUCCEEDED, AgentRunStepStatus.FAILED,
      AgentRunStepStatus.CANCELLED, AgentRunStepStatus.SKIPPED]"

fun RUN_TRANSITIONS :: "AgentRunStatus \<Rightarrow> AgentRunStatus list" where
  "RUN_TRANSITIONS AgentRunStatus.SCHEDULED =
     [AgentRunStatus.RUNNING, AgentRunStatus.PAUSED, AgentRunStatus.NEEDS_HUMAN,
      AgentRunStatus.CANCELLED, AgentRunStatus.BLOCKED, AgentRunStatus.FAILED]"
| "RUN_TRANSITIONS AgentRunStatus.RUNNING =
     [AgentRunStatus.SCHEDULED, AgentRunStatus.EVALUATING, AgentRunStatus.RETRY_WAIT,
      AgentRunStatus.PAUSED, AgentRunStatus.NEEDS_HUMAN, AgentRunStatus.BLOCKED,
      AgentRunStatus.SUCCEEDED, AgentRunStatus.FAILED, AgentRunStatus.CANCELLED]"
| "RUN_TRANSITIONS AgentRunStatus.EVALUATING =
     [AgentRunStatus.RUNNING, AgentRunStatus.RETRY_WAIT, AgentRunStatus.NEEDS_HUMAN,
      AgentRunStatus.BLOCKED, AgentRunStatus.SUCCEEDED, AgentRunStatus.FAILED,
      AgentRunStatus.CANCELLED]"
| "RUN_TRANSITIONS AgentRunStatus.RETRY_WAIT =
     [AgentRunStatus.SCHEDULED, AgentRunStatus.RUNNING, AgentRunStatus.PAUSED,
      AgentRunStatus.NEEDS_HUMAN, AgentRunStatus.BLOCKED, AgentRunStatus.FAILED,
      AgentRunStatus.CANCELLED]"
| "RUN_TRANSITIONS AgentRunStatus.PAUSED =
     [AgentRunStatus.SCHEDULED, AgentRunStatus.RUNNING, AgentRunStatus.CANCELLED]"
| "RUN_TRANSITIONS AgentRunStatus.NEEDS_HUMAN =
     [AgentRunStatus.SCHEDULED, AgentRunStatus.RUNNING, AgentRunStatus.BLOCKED,
      AgentRunStatus.FAILED, AgentRunStatus.CANCELLED]"
| "RUN_TRANSITIONS AgentRunStatus.BLOCKED = []"
| "RUN_TRANSITIONS AgentRunStatus.SUCCEEDED = []"
| "RUN_TRANSITIONS AgentRunStatus.FAILED = []"
| "RUN_TRANSITIONS AgentRunStatus.CANCELLED = []"

fun STEP_TRANSITIONS :: "AgentRunStepStatus \<Rightarrow> AgentRunStepStatus list" where
  "STEP_TRANSITIONS AgentRunStepStatus.PENDING =
     [AgentRunStepStatus.READY, AgentRunStepStatus.PAUSED, AgentRunStepStatus.NEEDS_HUMAN,
      AgentRunStepStatus.BLOCKED, AgentRunStepStatus.CANCELLED, AgentRunStepStatus.SKIPPED]"
| "STEP_TRANSITIONS AgentRunStepStatus.READY =
     [AgentRunStepStatus.RUNNING, AgentRunStepStatus.PAUSED, AgentRunStepStatus.NEEDS_HUMAN,
      AgentRunStepStatus.BLOCKED, AgentRunStepStatus.CANCELLED, AgentRunStepStatus.SKIPPED]"
| "STEP_TRANSITIONS AgentRunStepStatus.RUNNING =
     [AgentRunStepStatus.SUCCEEDED, AgentRunStepStatus.RETRY_WAIT,
      AgentRunStepStatus.NEEDS_HUMAN, AgentRunStepStatus.BLOCKED, AgentRunStepStatus.FAILED,
      AgentRunStepStatus.CANCELLED]"
| "STEP_TRANSITIONS AgentRunStepStatus.RETRY_WAIT =
     [AgentRunStepStatus.READY, AgentRunStepStatus.NEEDS_HUMAN, AgentRunStepStatus.BLOCKED,
      AgentRunStepStatus.FAILED, AgentRunStepStatus.CANCELLED]"
| "STEP_TRANSITIONS AgentRunStepStatus.PAUSED =
     [AgentRunStepStatus.READY, AgentRunStepStatus.CANCELLED]"
| "STEP_TRANSITIONS AgentRunStepStatus.NEEDS_HUMAN =
     [AgentRunStepStatus.READY, AgentRunStepStatus.BLOCKED, AgentRunStepStatus.FAILED,
      AgentRunStepStatus.CANCELLED]"
| "STEP_TRANSITIONS AgentRunStepStatus.BLOCKED = []"
| "STEP_TRANSITIONS AgentRunStepStatus.SUCCEEDED = []"
| "STEP_TRANSITIONS AgentRunStepStatus.FAILED = []"
| "STEP_TRANSITIONS AgentRunStepStatus.CANCELLED = []"
| "STEP_TRANSITIONS AgentRunStepStatus.SKIPPED = []"

definition can_transition_run :: "AgentRunStatus \<Rightarrow> AgentRunStatus \<Rightarrow> bool" where
  "can_transition_run current target \<longleftrightarrow> target = current \<or> target \<in> set (RUN_TRANSITIONS current)"

definition can_transition_step :: "AgentRunStepStatus \<Rightarrow> AgentRunStepStatus \<Rightarrow> bool" where
  "can_transition_step current target \<longleftrightarrow> target = current \<or> target \<in> set (STEP_TRANSITIONS current)"

section \<open>Making a transition\<close>

text \<open>The assignments of \<open>transition_run\<close>, once the transition is known to be legal.\<close>

definition enter_run :: "int \<Rightarrow> AgentRunStatus \<Rightarrow> string \<Rightarrow> AgentRun \<Rightarrow> AgentRun" where
  "enter_run now target reason run =
     (let run = run\<lparr>run_status := target, run_updated_at := now\<rparr>;
          run = (if target = AgentRunStatus.RUNNING \<and> run_started_at run = None
                 then run\<lparr>run_started_at := Some now\<rparr> else run);
          run = (if target \<in> set TERMINAL_RUN_STATUSES
                 then run\<lparr>run_completed_at := Some now, run_lease_owner := None,
                   run_lease_token := None, run_lease_expires_at := None\<rparr> else run)
      in if reason \<noteq> [] \<and> target \<in> set [AgentRunStatus.FAILED, AgentRunStatus.BLOCKED]
         then run\<lparr>run_last_error := Some reason\<rparr> else run)"

definition transition_run ::
    "int \<Rightarrow> AgentRun \<Rightarrow> AgentRunStatus \<Rightarrow> string \<Rightarrow>
      pyerror + ((AgentRunStatus \<times> AgentRunStatus) \<times> AgentRun)" where
  "transition_run now run target reason =
     (let previous = run_status run in
      if target = previous then Inr ((previous, target), run)
      else if \<not> can_transition_run previous target then
        Inl (InvalidAgentRunTransition (''Illegal AgentRun transition: '' @
          AgentRunStatus_value previous @ '' -> '' @ AgentRunStatus_value target))
      else Inr ((previous, target), enter_run now target reason run))"

text \<open>
  A duration in milliseconds is the exact quotient of microseconds; the source computes it with
  \<open>float\<close> arithmetic.
\<close>

definition enter_step :: "int \<Rightarrow> AgentRunStepStatus \<Rightarrow> string \<Rightarrow> AgentRunStep \<Rightarrow> AgentRunStep" where
  "enter_step now target reason step =
     (let step = step\<lparr>step_status := target, step_updated_at := now\<rparr>;
          step = (if target = AgentRunStepStatus.RUNNING then
                    step\<lparr>step_started_at :=
                       (if step_started_at step = None then Some now else step_started_at step),
                     step_attempt_count := step_attempt_count step + 1\<rparr>
                  else step);
          step = (if target \<in> set TERMINAL_STEP_STATUSES then
                    step\<lparr>step_completed_at := Some now,
                      step_duration_ms := (case step_started_at step of
                         None \<Rightarrow> step_duration_ms step
                       | Some t \<Rightarrow> Some (max 0 ((now - t) div 1000))),
                      step_lease_owner := None, step_lease_token := None,
                      step_lease_expires_at := None\<rparr>
                  else step)
      in if reason \<noteq> [] then
           step\<lparr>step_reason := reason,
             step_last_error :=
               (if target \<in> set [AgentRunStepStatus.FAILED, AgentRunStepStatus.BLOCKED]
                then Some reason else step_last_error step)\<rparr>
         else step)"

definition transition_step ::
    "int \<Rightarrow> AgentRunStep \<Rightarrow> AgentRunStepStatus \<Rightarrow> string \<Rightarrow>
      pyerror + ((AgentRunStepStatus \<times> AgentRunStepStatus) \<times> AgentRunStep)" where
  "transition_step now step target reason =
     (let previous = step_status step in
      if target = previous then Inr ((previous, target), step)
      else if \<not> can_transition_step previous target then
        Inl (InvalidAgentRunTransition (''Illegal AgentRunStep transition: '' @
          AgentRunStepStatus_value previous @ '' -> '' @ AgentRunStepStatus_value target))
      else Inr ((previous, target), enter_step now target reason step))"

section \<open>The status derived from the steps\<close>

definition derive_run_status :: "AgentRunStep list \<Rightarrow> bool \<Rightarrow> bool \<Rightarrow> AgentRunStatus" where
  "derive_run_status steps pause_requested cancel_requested =
     (let has = (\<lambda>st. list_ex (\<lambda>step. step_status step = st) steps) in
      if cancel_requested then AgentRunStatus.CANCELLED
      else if has AgentRunStepStatus.BLOCKED then AgentRunStatus.BLOCKED
      else if has AgentRunStepStatus.NEEDS_HUMAN then AgentRunStatus.NEEDS_HUMAN
      else if has AgentRunStepStatus.FAILED then AgentRunStatus.FAILED
      else if pause_requested \<or> has AgentRunStepStatus.PAUSED then AgentRunStatus.PAUSED
      else if steps \<noteq> [] \<and> list_all (\<lambda>step. step_status step \<in>
          set [AgentRunStepStatus.SUCCEEDED, AgentRunStepStatus.SKIPPED]) steps
        then AgentRunStatus.SUCCEEDED
      else if has AgentRunStepStatus.RETRY_WAIT then AgentRunStatus.RETRY_WAIT
      else if has AgentRunStepStatus.RUNNING then AgentRunStatus.RUNNING
      else AgentRunStatus.SCHEDULED)"

section \<open>Laws\<close>

definition run_terminal :: "AgentRunStatus \<Rightarrow> bool" where
  "run_terminal st \<longleftrightarrow> st \<in> set TERMINAL_RUN_STATUSES"

text \<open>A step that is neither waiting for its turn nor finished.\<close>

definition step_live :: "AgentRunStepStatus \<Rightarrow> bool" where
  "step_live st \<longleftrightarrow> st \<noteq> AgentRunStepStatus.PENDING \<and> st \<notin> set TERMINAL_STEP_STATUSES"

lemma run_terminal_simps [simp]:
  "run_terminal AgentRunStatus.BLOCKED" "run_terminal AgentRunStatus.SUCCEEDED"
  "run_terminal AgentRunStatus.FAILED" "run_terminal AgentRunStatus.CANCELLED"
  "\<not> run_terminal AgentRunStatus.SCHEDULED" "\<not> run_terminal AgentRunStatus.RUNNING"
  "\<not> run_terminal AgentRunStatus.EVALUATING" "\<not> run_terminal AgentRunStatus.RETRY_WAIT"
  "\<not> run_terminal AgentRunStatus.PAUSED" "\<not> run_terminal AgentRunStatus.NEEDS_HUMAN"
  by (simp_all add: run_terminal_def TERMINAL_RUN_STATUSES_def)

lemma step_live_simps [simp]:
  "\<not> step_live AgentRunStepStatus.PENDING" "step_live AgentRunStepStatus.READY"
  "step_live AgentRunStepStatus.RUNNING" "step_live AgentRunStepStatus.RETRY_WAIT"
  "step_live AgentRunStepStatus.PAUSED" "step_live AgentRunStepStatus.NEEDS_HUMAN"
  "\<not> step_live AgentRunStepStatus.BLOCKED" "\<not> step_live AgentRunStepStatus.SUCCEEDED"
  "\<not> step_live AgentRunStepStatus.FAILED" "\<not> step_live AgentRunStepStatus.CANCELLED"
  "\<not> step_live AgentRunStepStatus.SKIPPED"
  by (simp_all add: step_live_def TERMINAL_STEP_STATUSES_def)

lemma enter_run_simps [simp]:
  "run_status (enter_run now t reason r) = t"
  "run_id (enter_run now t reason r) = run_id r"
  "run_task_id (enter_run now t reason r) = run_task_id r"
  "run_correlation_id (enter_run now t reason r) = run_correlation_id r"
  "run_current_step_id (enter_run now t reason r) = run_current_step_id r"
  "run_pause_requested (enter_run now t reason r) = run_pause_requested r"
  "run_cancel_requested (enter_run now t reason r) = run_cancel_requested r"
  "run_max_attempts_per_step (enter_run now t reason r) = run_max_attempts_per_step r"
  by (simp_all add: enter_run_def Let_def)

lemma enter_step_simps [simp]:
  "step_status (enter_step now t reason st) = t"
  "step_id (enter_step now t reason st) = step_id st"
  "step_run_id (enter_step now t reason st) = step_run_id st"
  "step_task_id (enter_step now t reason st) = step_task_id st"
  "step_sequence (enter_step now t reason st) = step_sequence st"
  "step_type (enter_step now t reason st) = step_type st"
  "step_max_attempts (enter_step now t reason st) = step_max_attempts st"
  "step_next_retry_at (enter_step now t reason st) = step_next_retry_at st"
  "step_evidence (enter_step now t reason st) = step_evidence st"
  "step_evidence_hash (enter_step now t reason st) = step_evidence_hash st"
  "step_decision (enter_step now t reason st) = step_decision st"
  by (simp_all add: enter_step_def Let_def)

lemma enter_step_attempts [simp]:
  "step_attempt_count (enter_step now t reason st) =
     step_attempt_count st + (if t = AgentRunStepStatus.RUNNING then 1 else 0)"
  by (simp add: enter_step_def Let_def)

lemma transition_run_cases:
  "transition_run now r t reason = Inr (x, r') \<longleftrightarrow>
     x = (run_status r, t) \<and> can_transition_run (run_status r) t \<and>
     r' = (if t = run_status r then r else enter_run now t reason r)"
  by (auto simp: transition_run_def Let_def can_transition_run_def)

lemma transition_step_cases:
  "transition_step now st t reason = Inr (x, st') \<longleftrightarrow>
     x = (step_status st, t) \<and> can_transition_step (step_status st) t \<and>
     st' = (if t = step_status st then st else enter_step now t reason st)"
  by (auto simp: transition_step_def Let_def can_transition_step_def)

lemma transition_run_error_iff:
  "(\<exists>e. transition_run now r t reason = Inl e) \<longleftrightarrow> \<not> can_transition_run (run_status r) t"
  by (auto simp: transition_run_def Let_def can_transition_run_def)

lemma transition_step_error_iff:
  "(\<exists>e. transition_step now st t reason = Inl e) \<longleftrightarrow> \<not> can_transition_step (step_status st) t"
  by (auto simp: transition_step_def Let_def can_transition_step_def)

lemma terminal_run_stuck: "run_terminal st \<Longrightarrow> can_transition_run st t \<longleftrightarrow> t = st"
  by (cases st) (auto simp: can_transition_run_def)

lemma terminal_step_stuck:
  "st \<in> set TERMINAL_STEP_STATUSES \<Longrightarrow> can_transition_step st t \<longleftrightarrow> t = st"
  by (cases st) (auto simp: can_transition_step_def TERMINAL_STEP_STATUSES_def)

lemma into_SUCCEEDED:
  "can_transition_step st AgentRunStepStatus.SUCCEEDED \<longleftrightarrow>
     st = AgentRunStepStatus.RUNNING \<or> st = AgentRunStepStatus.SUCCEEDED"
  by (cases st) (auto simp: can_transition_step_def)

lemma into_READY:
  "can_transition_step st AgentRunStepStatus.READY \<longleftrightarrow>
     st = AgentRunStepStatus.PENDING \<or> (step_live st \<and> st \<noteq> AgentRunStepStatus.RUNNING)"
  by (cases st) (auto simp: can_transition_step_def)

lemma into_RUNNING:
  "can_transition_step st AgentRunStepStatus.RUNNING \<longleftrightarrow>
     st = AgentRunStepStatus.READY \<or> st = AgentRunStepStatus.RUNNING"
  by (cases st) (auto simp: can_transition_step_def)

lemma into_CANCELLED:
  "can_transition_step st AgentRunStepStatus.CANCELLED \<longleftrightarrow>
     st = AgentRunStepStatus.PENDING \<or> step_live st \<or> st = AgentRunStepStatus.CANCELLED"
  by (cases st) (auto simp: can_transition_step_def)

lemma into_RETRY_WAIT:
  "can_transition_step st AgentRunStepStatus.RETRY_WAIT \<longleftrightarrow>
     st = AgentRunStepStatus.RUNNING \<or> st = AgentRunStepStatus.RETRY_WAIT"
  by (cases st) (auto simp: can_transition_step_def)

lemma run_into_CANCELLED: "\<not> run_terminal st \<Longrightarrow> can_transition_run st AgentRunStatus.CANCELLED"
  by (cases st) (auto simp: can_transition_run_def)

lemma run_into_SUCCEEDED:
  "can_transition_run st AgentRunStatus.SUCCEEDED \<longleftrightarrow>
     st \<in> {AgentRunStatus.RUNNING, AgentRunStatus.EVALUATING, AgentRunStatus.SUCCEEDED}"
  by (cases st) (auto simp: can_transition_run_def)

end
