(* ===== verification/RunVerifier.thy ===== *)
theory RunVerifier
  imports TrustCrypto
begin

text \<open>
  \<open>agent_run_verifier.py\<close>: how the outcome of a step is classified. A failed execution is judged by
  the text of its reason: the markers are tried in the order policy, revision, human, transient,
  and a reason without a marker is a permanent failure.
\<close>

section \<open>Markers\<close>

definition TRANSIENT_MARKERS :: "string list" where
  "TRANSIENT_MARKERS = [''timeout'', ''timed out'', ''temporarily unavailable'',
     ''connection reset'', ''connection refused'', ''rate limit'', ''http 429'', ''http 500'',
     ''http 502'', ''http 503'', ''http 504'', ''worker lost'', ''lease expired'',
     ''container startup'']"

definition POLICY_BLOCK_MARKERS :: "string list" where
  "POLICY_BLOCK_MARKERS = [''protected branch'', ''direct main'', ''branch must not be main'',
     ''secret'', ''credential'', ''approval signature'', ''approved payload hash'',
     ''outside approved scope'', ''forbidden file'', ''unapproved mutation'']"

definition REVISION_MARKERS :: "string list" where
  "REVISION_MARKERS = [''tests failed'', ''validation failed'', ''objective incomplete'',
     ''scope change'', ''additional files'', ''patch does not match'', ''regression'']"

definition HUMAN_MARKERS :: "string list" where
  "HUMAN_MARKERS = [''needs human'', ''manual review'', ''ambiguous'', ''conflicting payload'',
     ''already exists'', ''lost acknowledgement'']"

definition v_contains_any :: "string \<Rightarrow> string list \<Rightarrow> bool" where
  "v_contains_any reason markers = contains_any (py_lower reason) markers"

section \<open>Classification\<close>

definition classify_execution_result ::
    "bool \<Rightarrow> string \<Rightarrow> jdict \<Rightarrow> bool \<Rightarrow> AgentRunStepExecutionResult" where
  "classify_execution_result success reason evidence duplicate_safe =
     (if success then
        \<lparr>res_success = True, res_decision = VerificationDecision.PASS,
          res_reason = str_or reason ''Execution contract passed.'',
          res_evidence = evidence, res_output_reference = None\<rparr>
      else if duplicate_safe \<and>
          v_contains_any reason [''already exists'', ''duplicate'', ''already applied''] then
        \<lparr>res_success = True, res_decision = VerificationDecision.PASS,
          res_reason =
            ''Duplicate delivery matched previously verified side effects and was treated as idempotent.'',
          res_evidence = dict_set ''original_reason'' (JStr reason)
            (dict_set ''duplicate_safe'' (JBool True) evidence),
          res_output_reference = None\<rparr>
      else
        let decision =
              (if v_contains_any reason POLICY_BLOCK_MARKERS then VerificationDecision.BLOCK_POLICY
               else if v_contains_any reason REVISION_MARKERS then VerificationDecision.NEEDS_REVISION
               else if v_contains_any reason HUMAN_MARKERS then VerificationDecision.NEEDS_HUMAN
               else if v_contains_any reason TRANSIENT_MARKERS then VerificationDecision.RETRY_TRANSIENT
               else VerificationDecision.FAIL_PERMANENT)
        in \<lparr>res_success = False, res_decision = decision,
             res_reason = str_or reason ''Execution contract failed without a reason.'',
             res_evidence = evidence, res_output_reference = None\<rparr>)"

section \<open>The scope contract\<close>

definition scope_contract_reasons :: "AgentTask \<Rightarrow> ApprovalRequest option \<Rightarrow> string list" where
  "scope_contract_reasons task approval =
     (let repository = py_strip (opt_str (task_repository task));
          branch = py_strip (opt_str (task_branch_preference task));
          approval_status = (case approval of None \<Rightarrow> [] | Some a \<Rightarrow> ApprovalStatus_value (appr_status a));
          files = (case approval of None \<Rightarrow> [] | Some a \<Rightarrow> appr_files a);
          test_plan = (case approval of None \<Rightarrow> [] | Some a \<Rightarrow> appr_test_plan a)
      in (if approval = None then [''Linked approval is required.'']
          else if py_upper approval_status \<noteq> ''APPROVED'' then
            [''Linked approval must be APPROVED, got '' @ str_or approval_status ''missing'' @ ''.'']
          else [])
       @ (if repository = [] \<or> \<not> py_in ''/'' repository
          then [''Agent task repository must use owner/name format.''] else [])
       @ (if branch = [] then [''Feature branch preference is required.'']
          else if branch \<in> set [''main'', ''master'']
          then [''Protected branch policy: branch must not be main or master.''] else [])
       @ (if files = [] then [''Approved file plan is empty.''] else [])
       @ (if test_plan = [] then [''Approved validation plan is empty.''] else []))"

definition scope_contract_evidence :: "AgentTask \<Rightarrow> ApprovalRequest option \<Rightarrow> jdict" where
  "scope_contract_evidence task approval =
     [(''repository'', JStr (py_strip (opt_str (task_repository task)))),
      (''branch'', JStr (py_strip (opt_str (task_branch_preference task)))),
      (''approval_status'', JStr (case approval of None \<Rightarrow> []
         | Some a \<Rightarrow> ApprovalStatus_value (appr_status a))),
      (''file_count'', JInt (case approval of None \<Rightarrow> 0 | Some a \<Rightarrow> int (length (appr_files a)))),
      (''test_count'', JInt (case approval of None \<Rightarrow> 0 | Some a \<Rightarrow> int (length (appr_test_plan a))))]"

definition validate_scope_contract ::
    "AgentTask \<Rightarrow> ApprovalRequest option \<Rightarrow> AgentRunStepExecutionResult" where
  "validate_scope_contract task approval =
     (let reasons = scope_contract_reasons task approval;
          evidence = scope_contract_evidence task approval
      in if reasons \<noteq> []
         then classify_execution_result False (py_join '' '' reasons) evidence False
         else classify_execution_result True
           ''Approval, repository, feature branch, file plan, and validation plan satisfy the execution scope contract.''
           evidence False)"

section \<open>Laws\<close>

lemma ApprovalStatus_value_APPROVED:
  "py_upper (ApprovalStatus_value st) = ''APPROVED'' \<longleftrightarrow> st = ApprovalStatus.APPROVED"
  by (cases st) (simp_all add: py_upper_def upper_char_def)

lemma classify_success_iff:
  "res_success (classify_execution_result ok reason ev dup) \<longleftrightarrow>
     ok \<or> (dup \<and> v_contains_any reason [''already exists'', ''duplicate'', ''already applied''])"
  by (simp add: classify_execution_result_def Let_def)

lemma classify_PASS_iff:
  "res_decision (classify_execution_result ok reason ev dup) = VerificationDecision.PASS \<longleftrightarrow>
     ok \<or> (dup \<and> v_contains_any reason [''already exists'', ''duplicate'', ''already applied''])"
  by (simp add: classify_execution_result_def Let_def)

lemma classify_failed_decision:
  "res_decision (classify_execution_result False reason ev False) =
     (if v_contains_any reason POLICY_BLOCK_MARKERS then VerificationDecision.BLOCK_POLICY
      else if v_contains_any reason REVISION_MARKERS then VerificationDecision.NEEDS_REVISION
      else if v_contains_any reason HUMAN_MARKERS then VerificationDecision.NEEDS_HUMAN
      else if v_contains_any reason TRANSIENT_MARKERS then VerificationDecision.RETRY_TRANSIENT
      else VerificationDecision.FAIL_PERMANENT)"
  by (simp add: classify_execution_result_def Let_def)

lemma v_contains_any_append:
  "v_contains_any r ms \<Longrightarrow> v_contains_any (u @ r @ v) ms"
  unfolding v_contains_any_def contains_any_def list_ex_iff py_in_iff py_lower_def map_append
  by (metis append.assoc)

text \<open>
  A policy marker decides the classification whatever else the reason says: adding text around a
  reason that has one never weakens a block into a retry.
\<close>

lemma classify_policy_dominates:
  "v_contains_any reason POLICY_BLOCK_MARKERS \<Longrightarrow>
     res_decision (classify_execution_result False (u @ reason @ v) ev False) = VerificationDecision.BLOCK_POLICY"
  by (simp add: classify_failed_decision v_contains_any_append)

lemma scope_contract_reasons_Nil_iff:
  "scope_contract_reasons task approval = [] \<longleftrightarrow>
     (\<exists>a. approval = Some a \<and> appr_status a = ApprovalStatus.APPROVED \<and>
        appr_files a \<noteq> [] \<and> appr_test_plan a \<noteq> []) \<and>
     py_in ''/'' (py_strip (opt_str (task_repository task))) \<and>
     py_strip (opt_str (task_branch_preference task)) \<notin> {[], ''main'', ''master''}"
proof -
  have "py_in ''/'' s \<Longrightarrow> s \<noteq> []" for s by (cases s) auto
  then show ?thesis
    by (cases approval) (auto simp: scope_contract_reasons_def Let_def ApprovalStatus_value_APPROVED)
qed

chapter \<open>Injected faults\<close>

text \<open>
  \<open>agent_run_faults.py\<close>: the faults an operator injects to test recovery. A configured fault is
  used up to its remaining count, oldest first, and the use is persisted before it is raised.
\<close>

definition fault_message_text :: "AgentRunFaultConfig \<Rightarrow> string" where
  "fault_message_text fault =
     str_or (fault_message fault)
       (py_title (py_replace_char CHR ''_'' CHR '' '' (AgentRunFaultKind_value (fault_kind fault))))"

definition fault_matches :: "string \<Rightarrow> AgentRunStepType \<Rightarrow> AgentRunFaultConfig \<Rightarrow> bool" where
  "fault_matches rid ty fault \<longleftrightarrow>
     fault_enabled fault \<and> fault_remaining_uses fault > 0
     \<and> (fault_run_id fault = None \<or> fault_run_id fault = Some rid)
     \<and> (fault_step_type fault = None \<or> fault_step_type fault = Some ty)"

definition matching_fault :: "string \<Rightarrow> AgentRunStepType \<Rightarrow> sys \<Rightarrow> AgentRunFaultConfig option" where
  "matching_fault rid ty s =
     (case sort_key fault_created_at
        (filter (fault_matches rid ty) (dict_vals (agent_run_faults s)))
      of [] \<Rightarrow> None | fault # _ \<Rightarrow> Some fault)"

definition consume_fault :: "string \<Rightarrow> AgentRunStepType \<Rightarrow> sys \<Rightarrow> AgentRunFaultConfig option \<times> sys" where
  "consume_fault rid ty s =
     (case matching_fault rid ty s of
        None \<Rightarrow> (None, s)
      | Some fault \<Rightarrow>
          let fault = fault\<lparr>fault_remaining_uses := fault_remaining_uses fault - 1\<rparr>;
              fault = (if fault_remaining_uses fault \<le> 0 then fault\<lparr>fault_enabled := False\<rparr> else fault)
          in (Some fault, persist (put_fault fault s)))"

fun default_fault_reason :: "AgentRunFaultKind \<Rightarrow> string" where
  "default_fault_reason WORKER_CRASH = ''Worker lost during execution; lease expired.''"
| "default_fault_reason GITHUB_TIMEOUT = ''GitHub request timed out temporarily.''"
| "default_fault_reason DUPLICATE_CALLBACK =
     ''Duplicate callback delivered for the same idempotency key.''"
| "default_fault_reason LOST_ACKNOWLEDGEMENT =
     ''Lost acknowledgement after a possible side effect; manual reconciliation required.''"
| "default_fault_reason VALIDATION_TIMEOUT = ''Validation timed out.''"
| "default_fault_reason INVALID_AGENT_OUTPUT = ''Invalid agent output requires revision.''"
| "default_fault_reason STALE_LEASE = ''Worker lease expired before completion.''"
| "default_fault_reason DATABASE_DISCONNECT = ''Database connection temporarily unavailable.''"
| "default_fault_reason CONTAINER_FAILURE = ''Container startup temporarily unavailable.''"
| "default_fault_reason FORBIDDEN_FILE_MUTATION =
     ''Forbidden file mutation outside approved scope.''"

lemma consume_fault_frame:
  assumes "consume_fault rid ty s = (f, s')"
  shows "agent_runs s' = agent_runs s" "agent_run_steps s' = agent_run_steps s"
    "clock s' = clock s"
  using assms by (auto simp: consume_fault_def Let_def split: option.splits)

lemma matching_fault_Some:
  assumes "matching_fault rid ty s = Some f"
  shows "f \<in> set (dict_vals (agent_run_faults s))" "fault_matches rid ty f"
proof -
  let ?xs = "filter (fault_matches rid ty) (dict_vals (agent_run_faults s))"
  obtain zs where "sort_key fault_created_at ?xs = f # zs"
    using assms by (auto simp: matching_fault_def split: list.splits)
  then have "f \<in> set ?xs" by (metis list.set_intros(1) set_sort)
  then show "f \<in> set (dict_vals (agent_run_faults s))" "fault_matches rid ty f" by auto
qed

text \<open>A fault is raised only while it has uses left, and each time one fewer remains.\<close>

lemma consume_fault_uses:
  assumes "consume_fault rid ty s = (Some f, s')"
  shows "0 \<le> fault_remaining_uses f" "dict_get (agent_run_faults s') (fault_id f) = Some f"
    "fault_enabled f \<longleftrightarrow> fault_remaining_uses f > 0"
proof -
  obtain g where g: "matching_fault rid ty s = Some g"
    using assms by (auto simp: consume_fault_def split: option.splits)
  have "fault_enabled g" "fault_remaining_uses g > 0"
    using matching_fault_Some(2) [OF g] by (simp_all add: fault_matches_def)
  then show "0 \<le> fault_remaining_uses f" "dict_get (agent_run_faults s') (fault_id f) = Some f"
    "fault_enabled f \<longleftrightarrow> fault_remaining_uses f > 0"
    using assms g by (auto simp: consume_fault_def Let_def split: if_splits)
qed

end
