(* ===== verification/RunSupervisor.thy ===== *)
theory RunSupervisor
  imports RunStateMachine RunVerifier
begin

text \<open>
  \<open>agent_run_supervisor.py\<close>: creating a run and its seven steps, the run lease, choosing and
  executing the next step, applying its classified result, and the operator's pause, resume,
  cancel and retry, and the watchdog. The source mutates the run and step objects the store
  holds; here an operation threads their records and writes each change through
  (\<open>put_run\<close>, \<open>put_step\<close>), so the state an exception leaves behind is the state at that line.
\<close>

section \<open>Looking up steps and events\<close>

definition run_steps :: "string \<Rightarrow> sys \<Rightarrow> AgentRunStep list" where
  "run_steps rid s =
     sort_key step_sequence (filter (\<lambda>step. step_run_id step = rid) (dict_vals (agent_run_steps s)))"

definition run_events :: "string \<Rightarrow> sys \<Rightarrow> AgentRunEvent list" where
  "run_events rid s =
     sort_key ev_created_at (filter (\<lambda>ev. ev_run_id ev = rid) (dict_vals (agent_run_events s)))"

text \<open>The optional arguments of \<open>_append_event\<close>, with their defaults.\<close>

record event_args =
  arg_step :: "AgentRunStep option"
  arg_previous :: "string option"
  arg_new :: "string option"
  arg_message :: string
  arg_reason :: string
  arg_actor :: string
  arg_metadata :: jdict
  arg_input_hash :: "string option"
  arg_output_hash :: "string option"

definition no_args :: event_args where
  "no_args = \<lparr>arg_step = None, arg_previous = None, arg_new = None, arg_message = [],
     arg_reason = [], arg_actor = ''system'', arg_metadata = [], arg_input_hash = None,
     arg_output_hash = None\<rparr>"

definition append_event :: "env \<Rightarrow> AgentRun \<Rightarrow> AgentRunEventType \<Rightarrow> event_args \<Rightarrow> sys \<Rightarrow> sys" where
  "append_event E run ty a s =
     put_run_event
       \<lparr>ev_id = new_id E ''agent_run_event'' s, ev_run_id = run_id run, ev_task_id = run_task_id run,
        ev_step_id = map_option step_id (arg_step a), ev_correlation_id = run_correlation_id run,
        ev_event_type = ty, ev_previous_status = arg_previous a, ev_new_status = arg_new a,
        ev_message = arg_message a, ev_reason = arg_reason a, ev_actor = arg_actor a,
        ev_attempt_number = map_option step_attempt_count (arg_step a),
        ev_input_evidence_hash = arg_input_hash a, ev_output_evidence_hash = arg_output_hash a,
        ev_metadata = arg_metadata a, ev_created_at = clock s\<rparr>
       (drawn s)"

text \<open>The arguments most calls share: the statuses before and after, a message and an actor.\<close>

definition step_args ::
    "AgentRunStep \<Rightarrow> AgentRunStepStatus \<times> AgentRunStepStatus \<Rightarrow> string \<Rightarrow> string \<Rightarrow> string \<Rightarrow> event_args" where
  "step_args step pn message reason actor =
     no_args\<lparr>arg_step := Some step, arg_previous := Some (AgentRunStepStatus_value (fst pn)),
       arg_new := Some (AgentRunStepStatus_value (snd pn)), arg_message := message,
       arg_reason := reason, arg_actor := actor\<rparr>"

definition run_args ::
    "AgentRunStatus \<times> AgentRunStatus \<Rightarrow> string \<Rightarrow> string \<Rightarrow> string \<Rightarrow> event_args" where
  "run_args pn message reason actor =
     no_args\<lparr>arg_previous := Some (AgentRunStatus_value (fst pn)),
       arg_new := Some (AgentRunStatus_value (snd pn)), arg_message := message,
       arg_reason := reason, arg_actor := actor\<rparr>"

definition run_change_metadata :: "AgentRunStatus \<times> AgentRunStatus \<Rightarrow> jdict" where
  "run_change_metadata pn =
     [(''run_previous_status'', JStr (AgentRunStatus_value (fst pn))),
      (''run_new_status'', JStr (AgentRunStatus_value (snd pn)))]"

definition current_step :: "AgentRun \<Rightarrow> sys \<Rightarrow> AgentRunStep option" where
  "current_step run s = dict_get (agent_run_steps s) (opt_str (run_current_step_id run))"

section \<open>Creating a run\<close>

fun create_run_steps ::
    "env \<Rightarrow> AgentRunCreate \<Rightarrow> string \<Rightarrow> nat \<Rightarrow> AgentRunStepType list \<Rightarrow> AgentRun \<Rightarrow> sys \<Rightarrow> AgentRun \<times> sys" where
  "create_run_steps E payload actor index [] run s = (run, s)"
| "create_run_steps E payload actor index (ty # tys) run s =
     (let step = \<lparr>step_id = new_id E ''agent_run_step'' s, step_run_id = run_id run,
            step_task_id = run_task_id run, step_sequence = int index, step_type = ty,
            step_status = (if index = 0 then AgentRunStepStatus.READY else AgentRunStepStatus.PENDING),
            step_attempt_count = 0, step_max_attempts = rc_max_attempts_per_step payload,
            step_idempotency_key = run_id run @ '':'' @ nat_digits index @ '':'' @
              AgentRunStepType_value ty,
            step_lease_owner = None, step_lease_token = None, step_lease_expires_at = None,
            step_heartbeat_at = None, step_next_retry_at = None, step_started_at = None,
            step_completed_at = None, step_duration_ms = None, step_decision = None,
            step_reason = [], step_last_error = None, step_evidence = [],
            step_evidence_hash = None, step_output_reference = None,
            step_created_at = clock s, step_updated_at = clock s\<rparr>;
          s = put_step step (drawn s)
      in if index = 0 then
           let run = run\<lparr>run_current_step_id := Some (step_id step)\<rparr>;
               s = append_event E run STEP_READY
                 (no_args\<lparr>arg_step := Some step,
                    arg_new := Some (AgentRunStepStatus_value (step_status step)),
                    arg_message := ''First Mission Control step is ready.'',
                    arg_actor := actor\<rparr>) (put_run run s)
           in create_run_steps E payload actor (Suc index) tys run s
         else create_run_steps E payload actor (Suc index) tys run s)"

definition run_open :: "AgentRunStatus \<Rightarrow> bool" where
  "run_open st \<longleftrightarrow>
     st \<notin> set [AgentRunStatus.FAILED, AgentRunStatus.CANCELLED, AgentRunStatus.BLOCKED]"

definition new_agent_run ::
    "env \<Rightarrow> AgentRunCreate \<Rightarrow> AgentTask \<Rightarrow> ApprovalRequest \<Rightarrow> string \<Rightarrow> sys \<Rightarrow> AgentRun" where
  "new_agent_run E payload task approval correlation s =
     \<lparr>run_id = new_id E ''agent_run'' s, run_task_id = task_id task,
      run_approval_request_id = Some (appr_id approval),
      run_capability_lease_id = None, run_project_id = task_project_id task,
      run_repository = task_repository task, run_objective = task_goal task,
      run_correlation_id = correlation, run_status = AgentRunStatus.SCHEDULED,
      run_current_step_id = None, run_current_step_index = 0,
      run_max_attempts_per_step = rc_max_attempts_per_step payload,
      run_pause_requested = False, run_cancel_requested = False,
      run_lease_owner = None, run_lease_token = None,
      run_lease_expires_at = None, run_heartbeat_at = None,
      run_started_at = None, run_completed_at = None,
      run_final_evidence_hash = None, run_last_error = None,
      run_metadata =
        dict_set ''branch_preference'' (json_opt_str (task_branch_preference task))
        (dict_set ''source_session_id'' (json_opt_str (task_source_session_id task))
        (dict_set ''source_task_id'' (json_opt_str (task_source_task_id task))
        (dict_set ''provider'' (JStr (AgentProvider_value (task_provider task)))
          (rc_metadata payload)))),
      run_created_at = clock s, run_updated_at = clock s\<rparr>"

text \<open>From line 128 on: the run, its steps, the two events, the audit entry.\<close>

definition store_agent_run ::
    "env \<Rightarrow> AgentRunCreate \<Rightarrow> AgentTask \<Rightarrow> ApprovalRequest \<Rightarrow> string \<Rightarrow> sys \<Rightarrow> AgentRun \<times> sys" where
  "store_agent_run E payload task approval actor s =
     (let (correlation, s) =
            (if truthy (rc_correlation_id payload)
             then (opt_str (rc_correlation_id payload), s)
             else (''corr_'' @ token_hex E (draws s), drawn s));
          run = new_agent_run E payload task approval correlation s;
          (run, s) = create_run_steps E payload actor 0 DEFAULT_AGENT_RUN_STEPS run
            (put_run run (drawn s));
          s = append_event E run RUN_CREATED
            (no_args\<lparr>arg_new := Some (AgentRunStatus_value (run_status run)),
               arg_message := ''Durable Mission Control run created from an approved AgentTask.'',
               arg_actor := actor, arg_metadata := [(''step_count'', JInt 7)]\<rparr>) s;
          s = add_audit E ''agent_run.created'' (run_id run)
            [(''task_id'', JStr (run_task_id run)),
             (''approval_request_id'', json_opt_str (run_approval_request_id run)),
             (''correlation_id'', JStr (run_correlation_id run)),
             (''step_count'', JInt 7)] actor s
      in (run, persist s))"

definition open_runs_of :: "string \<Rightarrow> sys \<Rightarrow> AgentRun list" where
  "open_runs_of tid s =
     filter (\<lambda>run. run_task_id run = tid \<and> run_open (run_status run)) (dict_vals (agent_runs s))"

definition create_agent_run :: "env \<Rightarrow> AgentRunCreate \<Rightarrow> string \<Rightarrow> sys \<Rightarrow> AgentRun result" where
  "create_agent_run E payload actor s =
     (case dict_get (agent_tasks s) (rc_task_id payload) of
        None \<Rightarrow> raise (ValueError ''Agent task not found.'') s
      | Some task \<Rightarrow>
          if task_status task \<noteq> AgentTaskStatus.APPROVED then
            raise (AgentRunConflict (''Agent task must be APPROVED before a run is created; got '' @
              AgentTaskStatus_value (task_status task) @ ''.'')) s
          else
            case dict_get (approval_requests s) (opt_str (task_approval_request_id task)) of
              None \<Rightarrow>
                raise (AgentRunConflict ''A linked APPROVED approval is required before a run is created.'') s
            | Some approval \<Rightarrow>
                if appr_status approval \<noteq> ApprovalStatus.APPROVED then
                  raise (AgentRunConflict ''A linked APPROVED approval is required before a run is created.'') s
                else
                  let existing = open_runs_of (task_id task) s in
                  if existing \<noteq> [] then ret (last (sort_key run_created_at existing)) s
                  else
                    let (run, s) = store_agent_run E payload task approval actor s in ret run s)"

section \<open>The run lease\<close>

definition seconds :: "int \<Rightarrow> int" where
  "seconds n = n * 1000000"

definition acquire_run_lease :: "env \<Rightarrow> AgentRun \<Rightarrow> string \<Rightarrow> int \<Rightarrow> sys \<Rightarrow> (string \<times> AgentRun) result" where
  "acquire_run_lease E run worker_id lease_seconds s =
     (let now = clock s;
          held = (case run_lease_expires_at run of
                    None \<Rightarrow> False
                  | Some t \<Rightarrow> truthy (run_lease_owner run) \<and> t > now)
      in if held \<and> run_lease_owner run \<noteq> Some worker_id then
           raise (AgentRunConflict (''Run is leased by '' @ opt_str (run_lease_owner run) @ '' until '' @
             (case run_lease_expires_at run of None \<Rightarrow> [] | Some t \<Rightarrow> time_text E t) @ ''.'')) s
         else if held \<and> truthy (run_lease_token run) then
           ret (opt_str (run_lease_token run), run) s
         else
           let token = token_urlsafe E (draws s);
               run = run\<lparr>run_lease_owner := Some worker_id, run_lease_token := Some token,
                 run_heartbeat_at := Some now,
                 run_lease_expires_at := Some (now + seconds lease_seconds),
                 run_updated_at := now\<rparr>;
               s = append_event E run RUN_LEASE_ACQUIRED
                 (no_args\<lparr>arg_message := ''Worker acquired the durable run lease.'',
                    arg_actor := worker_id,
                    arg_metadata := [(''lease_seconds'', JInt lease_seconds)]\<rparr>)
                 (put_run run (drawn s))
           in ret (token, run) (persist s))"

definition heartbeat_run :: "env \<Rightarrow> AgentRun \<Rightarrow> string \<Rightarrow> string \<Rightarrow> int \<Rightarrow> sys \<Rightarrow> AgentRun result" where
  "heartbeat_run E run worker_id lease_token lease_seconds s =
     (if run_lease_owner run \<noteq> Some worker_id \<or> run_lease_token run \<noteq> Some lease_token then
        raise (AgentRunConflict ''Run heartbeat rejected because lease owner or token does not match.'') s
      else
        let now = clock s;
            run = run\<lparr>run_heartbeat_at := Some now,
              run_lease_expires_at := Some (now + seconds lease_seconds), run_updated_at := now\<rparr>;
            s = put_run run s;
            (current, s) =
              (case current_step run s of
                 None \<Rightarrow> (None, s)
               | Some step \<Rightarrow>
                   if step_lease_owner step = Some worker_id \<and> step_lease_token step = Some lease_token
                   then let step = step\<lparr>step_heartbeat_at := Some now,
                              step_lease_expires_at := run_lease_expires_at run,
                              step_updated_at := now\<rparr>
                        in (Some step, put_step step s)
                   else (Some step, s));
            s = append_event E run RUN_HEARTBEAT
              (no_args\<lparr>arg_step := current,
                 arg_message := ''Worker renewed the Mission Control lease.'', arg_actor := worker_id,
                 arg_metadata := [(''lease_seconds'', JInt lease_seconds)]\<rparr>) s
        in ret run (persist s))"

definition release_run_lease :: "env \<Rightarrow> AgentRun \<Rightarrow> string \<Rightarrow> string option \<Rightarrow> sys \<Rightarrow> AgentRun \<times> sys" where
  "release_run_lease E run worker_id lease_token s =
     (if truthy lease_token \<and> run_lease_token run \<noteq> lease_token then (run, s)
      else
        let run = run\<lparr>run_lease_owner := None, run_lease_token := None,
              run_lease_expires_at := None, run_updated_at := clock s\<rparr>
        in (run, persist (append_event E run RUN_LEASE_RELEASED
             (no_args\<lparr>arg_message := ''Worker released the Mission Control lease.'',
                arg_actor := worker_id\<rparr>) (put_run run s))))"

section \<open>Choosing a step\<close>

definition retry_due :: "int \<Rightarrow> AgentRunStep \<Rightarrow> bool" where
  "retry_due now step \<longleftrightarrow>
     step_status step = AgentRunStepStatus.RETRY_WAIT \<and>
     (case step_next_retry_at step of None \<Rightarrow> False | Some t \<Rightarrow> t \<le> now)"

fun ready_step_in :: "env \<Rightarrow> AgentRun \<Rightarrow> int \<Rightarrow> AgentRunStep list \<Rightarrow> sys \<Rightarrow> AgentRunStep option result" where
  "ready_step_in E run now [] s = ret None s"
| "ready_step_in E run now (step # rest) s =
     bindE
       (if retry_due now step then
          liftE (transition_step now step AgentRunStepStatus.READY ''Retry backoff elapsed.'')
            (\<lambda>(pn, step) s. ret step (append_event E run STEP_READY
               (step_args step pn ''Retry backoff elapsed; step is ready again.'' [] ''system'')
               (put_step step s))) s
        else ret step s)
       (\<lambda>step s.
          if step_status step = AgentRunStepStatus.READY then ret (Some step) s
          else if step_status step \<notin> set [AgentRunStepStatus.SUCCEEDED, AgentRunStepStatus.SKIPPED]
          then ret None s
          else ready_step_in E run now rest s)"

definition ready_step :: "env \<Rightarrow> AgentRun \<Rightarrow> sys \<Rightarrow> AgentRunStep option result" where
  "ready_step E run s = ready_step_in E run (clock s) (run_steps (run_id run) s) s"

definition next_pending_step ::
    "env \<Rightarrow> AgentRun \<Rightarrow> AgentRunStep \<Rightarrow> sys \<Rightarrow> (AgentRunStep option \<times> AgentRun) result" where
  "next_pending_step E run completed s =
     (case find (\<lambda>step. step_sequence step > step_sequence completed
                  \<and> step_status step = AgentRunStepStatus.PENDING) (run_steps (run_id run) s) of
        None \<Rightarrow> ret (None, run) s
      | Some step \<Rightarrow>
          liftE (transition_step (clock s) step AgentRunStepStatus.READY [])
            (\<lambda>(pn, step) s.
               let run = run\<lparr>run_current_step_id := Some (step_id step),
                     run_current_step_index := step_sequence step\<rparr>
               in ret (Some step, run) (append_event E run STEP_READY
                    (step_args step pn ''Previous step passed; next step is ready.'' [] ''system'')
                    (put_run run (put_step step s)))) s)"

section \<open>Applying a result\<close>

definition retry_delay_seconds :: "int \<Rightarrow> int" where
  "retry_delay_seconds attempt_count = min 300 (2 ^ nat (max 1 attempt_count))"

definition decision_metadata :: "AgentRunStepExecutionResult \<Rightarrow> jdict" where
  "decision_metadata res = [(''decision'', JStr (VerificationDecision_value (res_decision res)))]"

text \<open>
  The four outcomes other than \<open>PASS\<close> change the step, then the run, then record one event; they
  differ in the two targets, the reasons, the event and its metadata.
\<close>

definition apply_failure ::
    "env \<Rightarrow> AgentRun \<Rightarrow> AgentRunStep \<Rightarrow> AgentRunStepStatus \<Rightarrow> string \<Rightarrow> AgentRunStatus \<Rightarrow> string \<Rightarrow>
     (AgentRunStep \<Rightarrow> AgentRunStep) \<Rightarrow> AgentRunEventType \<Rightarrow> string \<Rightarrow> string \<Rightarrow>
     (AgentRunStep \<Rightarrow> jdict) \<Rightarrow> bool \<Rightarrow> sys \<Rightarrow> (AgentRun \<times> AgentRunStep) result" where
  "apply_failure E run step step_target step_reason_text run_target reason schedule ty message actor
       metadata with_hash s =
     liftE (transition_step (clock s) step step_target step_reason_text)
       (\<lambda>(pn, step) s.
          let step = schedule step; s = put_step step s in
          liftE (transition_run (clock s) run run_target reason)
            (\<lambda>(rpn, run) s.
               ret (run, step) (append_event E run ty
                 ((step_args step pn message reason actor)
                    \<lparr>arg_metadata := metadata step @ run_change_metadata rpn,
                     arg_output_hash := (if with_hash then step_evidence_hash step else None)\<rparr>)
                 (put_run run s))) s) s"

definition apply_execution_result ::
    "env \<Rightarrow> AgentRun \<Rightarrow> AgentRunStep \<Rightarrow> AgentRunStepExecutionResult \<Rightarrow> string \<Rightarrow> sys \<Rightarrow>
      (AgentRun \<times> AgentRunStep) result" where
  "apply_execution_result E run step res actor s =
     (let now = clock s;
          reason = res_reason res;
          step = step\<lparr>step_decision := Some (res_decision res), step_reason := reason,
            step_evidence := res_evidence res,
            step_evidence_hash := Some (canonical_evidence_hash E (JObj (res_evidence res))),
            step_output_reference := res_output_reference res, step_updated_at := now\<rparr>;
          s = put_step step s
      in case res_decision res of
        VerificationDecision.PASS \<Rightarrow>
          liftE (transition_step now step AgentRunStepStatus.SUCCEEDED reason)
            (\<lambda>(pn, step) s.
               let s = append_event E run STEP_SUCCEEDED
                     ((step_args step pn reason [] actor)
                        \<lparr>arg_output_hash := step_evidence_hash step,
                         arg_metadata := decision_metadata res @
                           [(''output_reference'', json_opt_str (res_output_reference res))]\<rparr>)
                     (put_step step s)
               in bindE (next_pending_step E run step s)
                 (\<lambda>(nxt, run) s.
                    if nxt = None then
                      liftE (transition_run now run AgentRunStatus.SUCCEEDED [])
                        (\<lambda>(rpn, run) s. ret (run, step) (append_event E run RUN_STATE_CHANGED
                           (run_args rpn ''Every Mission Control step passed.'' [] actor)
                           (put_run run s))) s
                    else
                      let run = run\<lparr>run_status := AgentRunStatus.RUNNING, run_updated_at := now\<rparr>
                      in ret (run, step) (put_run run s))) s
      | VerificationDecision.RETRY_TRANSIENT \<Rightarrow>
          if step_attempt_count step < step_max_attempts step then
            apply_failure E run step AgentRunStepStatus.RETRY_WAIT reason
              AgentRunStatus.RETRY_WAIT reason
              (\<lambda>step. step\<lparr>step_next_retry_at :=
                 Some (now + seconds (retry_delay_seconds (step_attempt_count step)))\<rparr>)
              STEP_RETRY_SCHEDULED ''Transient failure scheduled for bounded retry.'' actor
              (\<lambda>step. decision_metadata res @
                 [(''next_retry_at'', json_opt_time (step_next_retry_at step))]) True s
          else
            apply_failure E run step AgentRunStepStatus.NEEDS_HUMAN
              (''Retry budget exhausted. '' @ reason) AgentRunStatus.NEEDS_HUMAN reason (\<lambda>step. step)
              STEP_NEEDS_HUMAN ''Retry budget exhausted; operator action is required.'' actor
              (\<lambda>step. []) False s
      | VerificationDecision.NEEDS_REVISION \<Rightarrow>
          apply_failure E run step AgentRunStepStatus.NEEDS_HUMAN reason
            AgentRunStatus.NEEDS_HUMAN reason (\<lambda>step. step) STEP_NEEDS_HUMAN
            ''Execution requires an operator decision or revised plan.'' actor
            (\<lambda>step. decision_metadata res) False s
      | VerificationDecision.NEEDS_HUMAN \<Rightarrow>
          apply_failure E run step AgentRunStepStatus.NEEDS_HUMAN reason
            AgentRunStatus.NEEDS_HUMAN reason (\<lambda>step. step) STEP_NEEDS_HUMAN
            ''Execution requires an operator decision or revised plan.'' actor
            (\<lambda>step. decision_metadata res) False s
      | VerificationDecision.BLOCK_POLICY \<Rightarrow>
          apply_failure E run step AgentRunStepStatus.BLOCKED reason
            AgentRunStatus.BLOCKED reason (\<lambda>step. step) STEP_BLOCKED
            ''Policy violation blocked the run permanently.'' actor (\<lambda>step. []) False s
      | VerificationDecision.FAIL_PERMANENT \<Rightarrow>
          apply_failure E run step AgentRunStepStatus.FAILED reason
            AgentRunStatus.FAILED reason (\<lambda>step. step) STEP_FAILED
            ''Execution failed permanently.'' actor (\<lambda>step. []) False s)"

end
