(* ===== verification/AgentTasks.thy ===== *)
theory AgentTasks
  imports RiskEngine Notifications RunSupervisor
begin

text \<open>
  \<open>agent_task_routes.py\<close>, \<open>agent_task_cancel.py\<close> and \<open>agent_task_retry.py\<close>: the tasks agents
  hand in, their events, the approval a task asks for, and what the decision on that approval does
  to the task and, when it was approved, to the durable run it starts.
\<close>

section \<open>Texts of the enumerations\<close>

fun AgentTaskRequestedAction_value :: "AgentTaskRequestedAction \<Rightarrow> string" where
  "AgentTaskRequestedAction_value AgentTaskRequestedAction.CREATE_WORK_ORDER = ''CREATE_WORK_ORDER''"
| "AgentTaskRequestedAction_value AgentTaskRequestedAction.CREATE_APPROVAL = ''CREATE_APPROVAL''"
| "AgentTaskRequestedAction_value AgentTaskRequestedAction.REVIEW_ARCHITECTURE = ''REVIEW_ARCHITECTURE''"
| "AgentTaskRequestedAction_value AgentTaskRequestedAction.GENERATE_DOCS = ''GENERATE_DOCS''"
| "AgentTaskRequestedAction_value AgentTaskRequestedAction.OTHER = ''OTHER''"

fun AgentTaskEventType_value :: "AgentTaskEventType \<Rightarrow> string" where
  "AgentTaskEventType_value TASK_CREATED = ''TASK_CREATED''"
| "AgentTaskEventType_value PLAN_RECEIVED = ''PLAN_RECEIVED''"
| "AgentTaskEventType_value APPROVAL_CREATED = ''APPROVAL_CREATED''"
| "AgentTaskEventType_value AgentTaskEventType.APPROVED = ''APPROVED''"
| "AgentTaskEventType_value AgentTaskEventType.DENIED = ''DENIED''"
| "AgentTaskEventType_value EXECUTION_STARTED = ''EXECUTION_STARTED''"
| "AgentTaskEventType_value TESTS_STARTED = ''TESTS_STARTED''"
| "AgentTaskEventType_value AgentTaskEventType.TESTS_PASSED = ''TESTS_PASSED''"
| "AgentTaskEventType_value AgentTaskEventType.TESTS_FAILED = ''TESTS_FAILED''"
| "AgentTaskEventType_value PR_CREATED = ''PR_CREATED''"
| "AgentTaskEventType_value RESULT_READY = ''RESULT_READY''"
| "AgentTaskEventType_value AgentTaskEventType.FAILED = ''FAILED''"
| "AgentTaskEventType_value AgentTaskEventType.CANCELLED = ''CANCELLED''"
| "AgentTaskEventType_value AgentTaskEventType.DONE = ''DONE''"
| "AgentTaskEventType_value NOTE = ''NOTE''"

definition json_status :: "AgentTaskStatus option \<Rightarrow> json" where
  "json_status st = json_opt_str (map_option AgentTaskStatus_value st)"

section \<open>Events\<close>

definition task_events :: "string \<Rightarrow> sys \<Rightarrow> AgentTaskEvent list" where
  "task_events tid s = filter (\<lambda>ev. te_task_id ev = tid) (dict_vals (agent_task_events s))"

text \<open>The optional arguments of \<open>append_system_task_event\<close> are always given here.\<close>

definition set_task_status :: "AgentTaskStatus option \<Rightarrow> AgentTask \<Rightarrow> sys \<Rightarrow> AgentTask \<times> sys" where
  "set_task_status status task s =
     (case status of
        None \<Rightarrow> (task, s)
      | Some st \<Rightarrow>
          let task = task\<lparr>task_status := st, task_updated_at := clock s\<rparr> in (task, put_task task s))"

definition new_task_event ::
    "env \<Rightarrow> AgentTask \<Rightarrow> AgentTaskEventType \<Rightarrow> string \<Rightarrow> AgentTaskStatus option \<Rightarrow> string \<Rightarrow> jdict \<Rightarrow> sys \<Rightarrow> AgentTaskEvent" where
  "new_task_event E task event_type message status actor metadata s =
     \<lparr>te_id = new_id E ''agent_task_event'' s, te_task_id = task_id task, te_event_type = event_type,
      te_message = message, te_status = status, te_metadata = metadata, te_actor = actor,
      te_created_at = clock s\<rparr>"

definition append_system_task_event ::
    "env \<Rightarrow> push_service \<Rightarrow> AgentTask \<Rightarrow> AgentTaskEventType \<Rightarrow> string \<Rightarrow> AgentTaskStatus option \<Rightarrow>
     string \<Rightarrow> jdict \<Rightarrow> bool \<Rightarrow> sys \<Rightarrow> (AgentTaskEvent \<times> AgentTask) \<times> sys" where
  "append_system_task_event E F task event_type message status actor metadata notify s =
     (let (task, s) = set_task_status status task s;
          ev = new_task_event E task event_type message status actor metadata s;
          s = put_task_event ev (drawn s)
      in if notify \<and> status \<noteq> None then
           (case notify_agent_task_worker_status E F task s of
              (None, s) \<Rightarrow> ((ev, task), s)
            | (Some n, s) \<Rightarrow>
                let ev = ev\<lparr>te_metadata := dict_set ''notification_id'' (JStr (note_id n)) (te_metadata ev)\<rparr>
                in ((ev, task), put_task_event ev s))
         else ((ev, task), s))"

section \<open>The decision on a linked approval\<close>

definition linked_tasks :: "string \<Rightarrow> sys \<Rightarrow> AgentTask list" where
  "linked_tasks aid s =
     filter (\<lambda>task. task_approval_request_id task = Some aid) (dict_vals (agent_tasks s))"

definition decision_outcome ::
    "AgentTask \<Rightarrow> ApprovalRequest \<Rightarrow> ApprovalStatus \<Rightarrow> AgentTaskEventType \<times> AgentTaskStatus \<times> string" where
  "decision_outcome task approval previous =
     (if appr_status approval = ApprovalStatus.APPROVED then
        (AgentTaskEventType.APPROVED, AgentTaskStatus.APPROVED, ''Linked approval was approved.'')
      else if appr_status approval = ApprovalStatus.DENIED then
        (AgentTaskEventType.DENIED, AgentTaskStatus.DENIED, ''Linked approval was denied.'')
      else if appr_status approval = REVISION_REQUESTED then
        (NOTE, PLANNING, ''Linked approval requested revision.'')
      else
        (NOTE, task_status task,
         ''Linked approval moved from '' @ ApprovalStatus_value previous @ '' to '' @
         ApprovalStatus_value (appr_status approval) @ ''.''))"

definition schedule_run ::
    "env \<Rightarrow> AgentTask \<Rightarrow> AgentTaskEvent \<Rightarrow> ApprovalRequest \<Rightarrow> string \<Rightarrow> sys \<Rightarrow> AgentTask option result" where
  "schedule_run E task ev approval actor s =
     bindE (create_agent_run E
         \<lparr>rc_task_id = task_id task, rc_capability_lease_id = None, rc_max_attempts_per_step = 3,
          rc_correlation_id = None,
          rc_metadata = [(''scheduled_from'', JStr ''approval_decision''),
            (''approval_decision_actor'', JStr actor)]\<rparr> actor s) (\<lambda>run s.
       let ev = ev\<lparr>te_metadata :=
             dict_set ''agent_run_status'' (JStr (AgentRunStatus_value (run_status run)))
               (dict_set ''agent_run_id'' (JStr (run_id run)) (te_metadata ev))\<rparr>;
           s = add_audit E ''agent_task.run_scheduled'' (task_id task)
             [(''agent_run_id'', JStr (run_id run)),
              (''approval_request_id'', JStr (appr_id approval)),
              (''run_status'', JStr (AgentRunStatus_value (run_status run)))] actor (put_task_event ev s)
       in ret (Some task) s)"

definition propagate_approval_decision_to_agent_task ::
    "env \<Rightarrow> push_service \<Rightarrow> ApprovalRequest \<Rightarrow> ApprovalStatus \<Rightarrow> string \<Rightarrow> sys \<Rightarrow> AgentTask option result" where
  "propagate_approval_decision_to_agent_task E F approval previous actor s =
     (case linked_tasks (appr_id approval) s of
        [] \<Rightarrow> ret None s
      | task # _ \<Rightarrow>
          let (event_type, status, message) = decision_outcome task approval previous;
              (n, s) = notify_agent_task_approval_decision E F task approval s;
              ((ev, task), s) = append_system_task_event E F task event_type message (Some status) actor
                [(''approval_request_id'', JStr (appr_id approval)),
                 (''previous_status'', JStr (ApprovalStatus_value previous)),
                 (''new_status'', JStr (ApprovalStatus_value (appr_status approval))),
                 (''notification_id'', JStr (note_id n))] False s;
              s = add_audit E ''agent_task.approval_decision_propagated'' (task_id task)
                [(''approval_request_id'', JStr (appr_id approval)),
                 (''previous_status'', JStr (ApprovalStatus_value previous)),
                 (''new_status'', JStr (ApprovalStatus_value (appr_status approval))),
                 (''task_status'', JStr (AgentTaskStatus_value (task_status task))),
                 (''notification_id'', JStr (note_id n))] actor s
          in if status = AgentTaskStatus.APPROVED then schedule_run E task ev approval actor s
             else ret (Some task) s)"

section \<open>Creating and listing tasks\<close>

definition create_agent_task ::
    "env \<Rightarrow> push_service \<Rightarrow> AgentTaskCreate \<Rightarrow> AuthUser \<Rightarrow> sys \<Rightarrow> AgentTask result" where
  "create_agent_task E F payload user s =
     (if truthy (task_project_id payload) \<and> dict_get (projects s) (opt_str (task_project_id payload)) = None then
        raise (HTTPException 404 ''Project not found'') s
      else
        let task = AgentTaskCreate.extend payload
              \<lparr>task_id = new_id E ''agent_task'' s, task_status = AgentTaskStatus.RECEIVED,
               task_external_agent_id = None, task_external_agent_name = None,
               task_approval_request_id = None, task_worker_lease_owner = None,
               task_worker_lease_expires_at = None, task_worker_lease_token = None,
               task_created_by_user_id = Some (user_id user), task_created_at = clock s,
               task_updated_at = clock s\<rparr>;
            s = put_task task (drawn s);
            ((ev, task), s) = append_system_task_event E F task TASK_CREATED ''Agent task received by Aixion.''
              (Some (task_status task)) (user_email user)
              [(''provider'', JStr (AgentProvider_value (task_provider task))),
               (''requested_action'', JStr (AgentTaskRequestedAction_value (task_requested_action task)))] False s;
            s = add_audit E ''agent_task.created'' (task_id task)
              [(''provider'', JStr (AgentProvider_value (task_provider task))),
               (''project_id'', json_opt_str (task_project_id task)),
               (''status'', JStr (AgentTaskStatus_value (task_status task))),
               (''requested_action'', JStr (AgentTaskRequestedAction_value (task_requested_action task))),
               (''requires_approval'', JBool (task_requires_approval task))] (user_email user) s
        in ret task (persist s))"

definition list_agent_tasks ::
    "AgentProvider option \<Rightarrow> AgentTaskStatus option \<Rightarrow> string option \<Rightarrow> nat \<Rightarrow> sys \<Rightarrow> AgentTask list" where
  "list_agent_tasks provider status project limit s =
     take limit (rev (sort_key task_updated_at (rev
       (filter (\<lambda>task. project = None \<or> task_project_id task = project)
         (filter (\<lambda>task. status = None \<or> Some (task_status task) = status)
           (filter (\<lambda>task. provider = None \<or> Some (task_provider task) = provider)
             (dict_vals (agent_tasks s))))))))"

definition task_or_404 :: "string \<Rightarrow> sys \<Rightarrow> AgentTask result" where
  "task_or_404 tid s =
     (case dict_get (agent_tasks s) tid of
        None \<Rightarrow> raise (HTTPException 404 ''Agent task not found'') s
      | Some task \<Rightarrow> ret task s)"

definition list_agent_task_events :: "string \<Rightarrow> sys \<Rightarrow> AgentTaskEvent list result" where
  "list_agent_task_events tid s =
     bindE (task_or_404 tid s) (\<lambda>task s. ret (sort_key te_created_at (task_events tid s)) s)"

section \<open>Cancelling\<close>

definition CANCELLABLE_STATUSES :: "AgentTaskStatus list" where
  "CANCELLABLE_STATUSES =
     [AgentTaskStatus.RECEIVED, PLANNING, AgentTaskStatus.WAITING_FOR_APPROVAL, AgentTaskStatus.APPROVED,
      AgentTaskStatus.EXECUTING, TESTING, AgentTaskStatus.FAILED]"

definition TERMINAL_OR_REVIEW_STATUSES :: "AgentTaskStatus list" where
  "TERMINAL_OR_REVIEW_STATUSES =
     [AgentTaskStatus.CANCELLED, AgentTaskStatus.DENIED, AgentTaskStatus.DONE, AgentTaskStatus.READY_FOR_PR]"

record AgentTaskCancelSummary =
  cs_task_id :: string
  cs_current_status :: AgentTaskStatus
  cs_cancel_allowed :: bool
  cs_reason :: string

definition cancel_summary :: "AgentTask \<Rightarrow> AgentTaskCancelSummary" where
  "cancel_summary task =
     (let st = task_status task;
          (allowed, reason) =
            (if st \<in> set CANCELLABLE_STATUSES then (True, ''Agent task can be cancelled.'')
             else if st = AgentTaskStatus.READY_FOR_PR then
               (False, ''READY_FOR_PR tasks require PR/branch cleanup, not simple cancellation.'')
             else if st \<in> set TERMINAL_OR_REVIEW_STATUSES then
               (False, ''Agent task is already terminal or review-ready: '' @ AgentTaskStatus_value st @ ''.'')
             else (False, ''Agent task cannot be cancelled from status: '' @ AgentTaskStatus_value st @ ''.''))
      in \<lparr>cs_task_id = task_id task, cs_current_status = st, cs_cancel_allowed = allowed, cs_reason = reason\<rparr>)"

definition get_agent_task_cancel_summary :: "string \<Rightarrow> sys \<Rightarrow> AgentTaskCancelSummary result" where
  "get_agent_task_cancel_summary tid s = bindE (task_or_404 tid s) (\<lambda>task s. ret (cancel_summary task) s)"

definition clear_worker_lease :: "AgentTaskStatus \<Rightarrow> int \<Rightarrow> AgentTask \<Rightarrow> AgentTask" where
  "clear_worker_lease st now task =
     task\<lparr>task_status := st, task_worker_lease_owner := None, task_worker_lease_expires_at := None,
       task_worker_lease_token := None, task_updated_at := now\<rparr>"

definition append_cancel_requested_event ::
    "env \<Rightarrow> AgentTask \<Rightarrow> string \<Rightarrow> string \<Rightarrow> sys \<Rightarrow> (AgentTaskEvent \<times> AgentTask) \<times> sys" where
  "append_cancel_requested_event E task actor reason s =
     (let previous = task_status task;
          task = clear_worker_lease AgentTaskStatus.CANCELLED (clock s) task;
          s = put_task task s;
          ev = new_task_event E task AgentTaskEventType.CANCELLED ''Agent task cancelled by operator.''
            (Some (task_status task)) actor
            [(''operation_type'', JStr ''agent_task_cancel_requested''),
             (''previous_status'', JStr (AgentTaskStatus_value previous)),
             (''new_status'', JStr (AgentTaskStatus_value (task_status task))),
             (''reason'', JStr reason), (''worker_lease_cleared'', JBool True),
             (''approval_decision_changed'', JBool False), (''worker_cleanup_performed'', JBool False)] s
      in ((ev, task), put_task_event ev (drawn s)))"

text \<open>\<open>event.metadata.get(k)\<close> inside a dictionary of details.\<close>

definition json_get :: "jdict \<Rightarrow> string \<Rightarrow> json" where
  "json_get d k = (case dict_get d k of None \<Rightarrow> JNull | Some v \<Rightarrow> v)"

definition audit_cancel_requested :: "env \<Rightarrow> AgentTask \<Rightarrow> string \<Rightarrow> AgentTaskEvent \<Rightarrow> sys \<Rightarrow> sys" where
  "audit_cancel_requested E task actor ev s =
     add_audit E ''agent_task.cancelled'' (task_id task)
       [(''event_id'', JStr (te_id ev)),
        (''approval_request_id'', json_opt_str (task_approval_request_id task)),
        (''task_status'', JStr (AgentTaskStatus_value (task_status task))),
        (''previous_status'', json_get (te_metadata ev) ''previous_status''),
        (''worker_lease_cleared'', JBool True), (''approval_decision_changed'', JBool False),
        (''worker_cleanup_performed'', JBool False)] actor s"

definition cancel_agent_task ::
    "env \<Rightarrow> string \<Rightarrow> string \<Rightarrow> AuthUser \<Rightarrow> sys \<Rightarrow> AgentTaskEvent result" where
  "cancel_agent_task E tid reason user s =
     bindE (task_or_404 tid s) (\<lambda>task s.
       let summary = cancel_summary task in
       if \<not> cs_cancel_allowed summary then raise (HTTPException 409 (cs_reason summary)) s
       else
         let ((ev, task), s) = append_cancel_requested_event E task (user_email user) reason s;
             s = audit_cancel_requested E task (user_email user) ev s
         in ret ev (persist s))"

section \<open>Retrying\<close>

definition RETRY_REQUESTED_OPERATION :: string where
  "RETRY_REQUESTED_OPERATION = ''agent_task_retry_requested''"

record AgentTaskRetrySummary =
  ts_task_id :: string
  ts_retry_count :: nat
  ts_max_retries :: nat
  ts_retry_allowed :: bool
  ts_reason :: string

definition count_retry_requests :: "string \<Rightarrow> sys \<Rightarrow> nat" where
  "count_retry_requests tid s =
     length (filter (\<lambda>ev. te_task_id ev = tid \<and>
         dict_get (te_metadata ev) ''operation_type'' = Some (JStr RETRY_REQUESTED_OPERATION))
       (dict_vals (agent_task_events s)))"

definition retry_summary :: "AgentTask \<Rightarrow> nat \<Rightarrow> sys \<Rightarrow> AgentTaskRetrySummary" where
  "retry_summary task max_retries s =
     (let count = count_retry_requests (task_id task) s;
          (allowed, reason) =
            (if task_status task \<noteq> AgentTaskStatus.FAILED then
               (False, ''Only FAILED agent tasks can be retried.'')
             else if \<not> truthy (task_approval_request_id task) then
               (False, ''Agent task has no linked approval request.'')
             else if count \<ge> max_retries then
               (False, ''Retry limit reached: '' @ nat_digits count @ '' >= '' @ nat_digits max_retries @ ''.'')
             else (True, ''Agent task can be retried.''))
      in \<lparr>ts_task_id = task_id task, ts_retry_count = count, ts_max_retries = max_retries,
          ts_retry_allowed = allowed, ts_reason = reason\<rparr>)"

definition get_agent_task_retry_summary :: "string \<Rightarrow> nat \<Rightarrow> sys \<Rightarrow> AgentTaskRetrySummary result" where
  "get_agent_task_retry_summary tid max_retries s =
     (if max_retries > 10 then raise (ValidationError ''max_retries'') s
      else bindE (task_or_404 tid s) (\<lambda>task s. ret (retry_summary task max_retries s) s))"

definition append_retry_requested_event ::
    "env \<Rightarrow> AgentTask \<Rightarrow> string \<Rightarrow> string \<Rightarrow> nat \<Rightarrow> nat \<Rightarrow> sys \<Rightarrow> (AgentTaskEvent \<times> AgentTask) \<times> sys" where
  "append_retry_requested_event E task actor reason count max_retries s =
     (let task = clear_worker_lease AgentTaskStatus.APPROVED (clock s) task;
          s = put_task task s;
          ev = new_task_event E task NOTE ''Agent task retry requested by operator.''
            (Some (task_status task)) actor
            [(''operation_type'', JStr RETRY_REQUESTED_OPERATION),
             (''retry_count'', JInt (int count + 1)), (''previous_retry_count'', JInt (int count)),
             (''max_retries'', JInt (int max_retries)), (''reason'', JStr reason),
             (''worker_lease_cleared'', JBool True)] s
      in ((ev, task), put_task_event ev (drawn s)))"

definition audit_retry_requested :: "env \<Rightarrow> AgentTask \<Rightarrow> string \<Rightarrow> AgentTaskEvent \<Rightarrow> sys \<Rightarrow> sys" where
  "audit_retry_requested E task actor ev s =
     add_audit E ''agent_task.retry_requested'' (task_id task)
       [(''event_id'', JStr (te_id ev)),
        (''approval_request_id'', json_opt_str (task_approval_request_id task)),
        (''task_status'', JStr (AgentTaskStatus_value (task_status task))),
        (''retry_count'', json_get (te_metadata ev) ''retry_count''),
        (''max_retries'', json_get (te_metadata ev) ''max_retries''),
        (''worker_lease_cleared'', JBool True)] actor s"

text \<open>The request's validator bounds \<open>max_retries\<close> by 10.\<close>

definition retry_agent_task ::
    "env \<Rightarrow> string \<Rightarrow> string \<Rightarrow> nat \<Rightarrow> AuthUser \<Rightarrow> sys \<Rightarrow> AgentTaskEvent result" where
  "retry_agent_task E tid reason max_retries user s =
     (if max_retries > 10 then raise (ValidationError ''max_retries'') s
      else bindE (task_or_404 tid s) (\<lambda>task s.
        let summary = retry_summary task max_retries s in
        if \<not> ts_retry_allowed summary then raise (HTTPException 409 (ts_reason summary)) s
        else
          let ((ev, task), s) = append_retry_requested_event E task (user_email user) reason
                (ts_retry_count summary) max_retries s;
              s = audit_retry_requested E task (user_email user) ev s
          in ret ev (persist s)))"

section \<open>Events and approvals of a task\<close>

record AgentTaskEventCreate =
  tec_event_type :: AgentTaskEventType
  tec_message :: string
  tec_status :: "AgentTaskStatus option"
  tec_metadata :: jdict

definition append_agent_task_event ::
    "env \<Rightarrow> push_service \<Rightarrow> string \<Rightarrow> AgentTaskEventCreate \<Rightarrow> AuthUser \<Rightarrow> sys \<Rightarrow> AgentTaskEvent result" where
  "append_agent_task_event E F tid payload user s =
     bindE (task_or_404 tid s) (\<lambda>task s.
       let ((ev, task), s) = append_system_task_event E F task (tec_event_type payload) (tec_message payload)
             (tec_status payload) (user_email user) (tec_metadata payload) True s;
           s = add_audit E ''agent_task.event_recorded'' (task_id task)
             [(''event_type'', JStr (AgentTaskEventType_value (te_event_type ev))),
              (''status'', json_status (te_status ev)), (''message'', JStr (te_message ev)),
              (''notification_id'', json_get (te_metadata ev) ''notification_id'')] (user_email user) s
       in ret ev (persist s))"

definition task_approval_request ::
    "env \<Rightarrow> AgentTask \<Rightarrow> ApprovalRequestCreate \<Rightarrow> AuthUser \<Rightarrow> sys \<Rightarrow> ApprovalRequest" where
  "task_approval_request E task payload user s =
     (let risk = assess_approval_request payload in
      ApprovalRequestCreate.extend
        (payload\<lparr>appr_source_provider := Some (task_provider task),
           appr_source_agent_id := task_external_agent_id task,
           appr_source_agent_name := Some (if truthy (task_external_agent_name task)
             then opt_str (task_external_agent_name task) else AgentProvider_value (task_provider task)),
           appr_source_session_id := task_source_session_id task,
           appr_source_task_url := task_source_url task\<rparr>)
        \<lparr>appr_id = new_id E ''approval'' s,
         appr_status = (if ra_blocked risk then ApprovalStatus.BLOCKED else ApprovalStatus.REQUESTED),
         appr_risk = risk, appr_created_by_user_id = Some (user_id user),
         appr_verified_source = (task_provider task \<noteq> AgentProvider.MANUAL \<or> task_external_agent_id task \<noteq> None),
         appr_approved_payload_hash = None, appr_approved_at = None, appr_approved_by_user_id = None,
         appr_created_at = clock s, appr_updated_at = clock s\<rparr>)"

definition create_agent_task_approval ::
    "env \<Rightarrow> push_service \<Rightarrow> string \<Rightarrow> ApprovalRequestCreate \<Rightarrow> AuthUser \<Rightarrow> sys \<Rightarrow> ApprovalRequest result" where
  "create_agent_task_approval E F tid payload user s =
     bindE (task_or_404 tid s) (\<lambda>task s.
       if truthy (task_approval_request_id task) then
         raise (HTTPException 409 ''Agent task already has a linked approval'') s
       else if dict_get (projects s) (appr_project_id payload) = None then
         raise (HTTPException 404 ''Project not found'') s
       else if truthy (task_project_id task) \<and> Some (appr_project_id payload) \<noteq> task_project_id task then
         raise (HTTPException 409 ''Approval project must match agent task project'') s
       else if truthy (appr_work_order_id payload) \<and>
           dict_get (work_orders s) (opt_str (appr_work_order_id payload)) = None then
         raise (HTTPException 404 ''Work order not found'') s
       else
         let request = task_approval_request E task payload user s;
             s = put_approval request (drawn s);
             task = task\<lparr>task_approval_request_id := Some (appr_id request),
               task_status := AgentTaskStatus.WAITING_FOR_APPROVAL, task_updated_at := clock s\<rparr>;
             (n, s) = notify_agent_task_approval_created E F task request (put_task task s);
             ((ev, task), s) = append_system_task_event E F task APPROVAL_CREATED
               ''Approval request created for agent task.'' (Some (task_status task)) (user_email user)
               [(''approval_request_id'', JStr (appr_id request)),
                (''risk_level'', JStr (RiskLevel_value (ra_level (appr_risk request)))),
                (''notification_id'', JStr (note_id n))] False s;
             s = add_audit E ''agent_task.approval_created'' (task_id task)
               [(''approval_request_id'', JStr (appr_id request)),
                (''project_id'', JStr (appr_project_id request)),
                (''risk_level'', JStr (RiskLevel_value (ra_level (appr_risk request)))),
                (''approval_status'', JStr (ApprovalStatus_value (appr_status request))),
                (''task_status'', JStr (AgentTaskStatus_value (task_status task))),
                (''notification_id'', JStr (note_id n))] (user_email user) s
         in ret request (persist s))"

end
