(* ===== verification/ApprovalRoutes.thy ===== *)
theory ApprovalRoutes
  imports ApprovalLifecycle AgentTasks
begin

text \<open>
  \<open>main.py\<close>: projects, ideas, work orders, approval requests and their decisions, and test runs.
  Every route checks the role of its caller first (\<open>auth.py\<close>); here the caller is the user those
  dependencies return.
\<close>

section \<open>Projects, ideas and work orders\<close>

definition create_project :: "env \<Rightarrow> ProjectCreate \<Rightarrow> AuthUser \<Rightarrow> sys \<Rightarrow> Project \<times> sys" where
  "create_project E payload user s =
     (let project = ProjectCreate.extend payload
            \<lparr>proj_id = new_id E ''project'' s, proj_created_at = clock s\<rparr>;
          s = add_audit E ''project.created'' (proj_id project)
            [(''name'', JStr (proj_name project)), (''mode'', JStr (ProjectMode_value (proj_mode project)))]
            (user_email user) (put_project project (drawn s))
      in (project, persist s))"

definition create_idea :: "env \<Rightarrow> IdeaCreate \<Rightarrow> AuthUser \<Rightarrow> sys \<Rightarrow> Idea result" where
  "create_idea E payload user s =
     (if truthy (idea_project_id payload) \<and> dict_get (projects s) (opt_str (idea_project_id payload)) = None then
        raise (HTTPException 404 ''Project not found'') s
      else
        let idea = IdeaCreate.extend payload \<lparr>idea_id = new_id E ''idea'' s, idea_created_at = clock s\<rparr>;
            s = add_audit E ''idea.created'' (idea_id idea)
              [(''title'', JStr (idea_title idea)), (''project_id'', json_opt_str (idea_project_id idea))]
              (user_email user) (put_idea idea (drawn s))
        in ret idea (persist s))"

definition create_work_order :: "env \<Rightarrow> WorkOrderCreate \<Rightarrow> AuthUser \<Rightarrow> sys \<Rightarrow> WorkOrder result" where
  "create_work_order E payload user s =
     (if dict_get (projects s) (wo_project_id payload) = None then
        raise (HTTPException 404 ''Project not found'') s
      else if truthy (wo_idea_id payload) \<and> dict_get (ideas s) (opt_str (wo_idea_id payload)) = None then
        raise (HTTPException 404 ''Idea not found'') s
      else
        let w = WorkOrderCreate.extend payload
              \<lparr>wo_id = new_id E ''work'' s, wo_risk_level = assess_work_order payload,
               wo_source_type = WorkOrderSourceType.MANUAL, wo_source_provider = AgentProvider.MANUAL,
               wo_source_agent_id = None, wo_source_agent_name = None, wo_source_task_id = None,
               wo_source_session_id = None, wo_created_by_user_id = Some (user_id user),
               wo_verified_source = False, wo_created_at = clock s\<rparr>;
            s = add_audit E ''work_order.created'' (wo_id w)
              [(''project_id'', JStr (wo_project_id w)),
               (''risk_level'', JStr (RiskLevel_value (wo_risk_level w))),
               (''source_type'', JStr (WorkOrderSourceType_value (wo_source_type w))),
               (''source_provider'', JStr (AgentProvider_value (wo_source_provider w))),
               (''source_agent_id'', json_opt_str (wo_source_agent_id w)),
               (''source_agent_name'', json_opt_str (wo_source_agent_name w)),
               (''created_by_user_id'', json_opt_str (wo_created_by_user_id w)),
               (''verified_source'', JBool (wo_verified_source w))]
              (user_email user) (put_work_order w (drawn s))
        in ret w (persist s))"

section \<open>Approval requests\<close>

text \<open>\<open>ApprovalRequest(...)\<close> from a payload: a missing provider becomes \<open>MANUAL\<close>.\<close>

definition new_approval_request ::
    "env \<Rightarrow> ApprovalRequestCreate \<Rightarrow> ApprovalStatus \<Rightarrow> RiskAssessment \<Rightarrow> string option \<Rightarrow> bool \<Rightarrow> sys \<Rightarrow>
     ApprovalRequest" where
  "new_approval_request E payload status risk creator verified s =
     ApprovalRequestCreate.extend
       (payload\<lparr>appr_source_provider :=
          Some (case appr_source_provider payload of None \<Rightarrow> AgentProvider.MANUAL | Some p \<Rightarrow> p)\<rparr>)
       \<lparr>appr_id = new_id E ''approval'' s, appr_status = status, appr_risk = risk,
        appr_created_by_user_id = creator, appr_verified_source = verified,
        appr_approved_payload_hash = None, appr_approved_at = None, appr_approved_by_user_id = None,
        appr_created_at = clock s, appr_updated_at = clock s\<rparr>"

definition provider_json :: "AgentProvider option \<Rightarrow> json" where
  "provider_json p = json_opt_str (map_option AgentProvider_value p)"

definition create_approval_request ::
    "env \<Rightarrow> push_service \<Rightarrow> ApprovalRequestCreate \<Rightarrow> AuthUser \<Rightarrow> sys \<Rightarrow> ApprovalRequest result" where
  "create_approval_request E F payload user s =
     (if dict_get (projects s) (appr_project_id payload) = None then
        raise (HTTPException 404 ''Project not found'') s
      else if truthy (appr_work_order_id payload) \<and>
          dict_get (work_orders s) (opt_str (appr_work_order_id payload)) = None then
        raise (HTTPException 404 ''Work order not found'') s
      else
        let risk = assess_approval_request payload;
            status = (if ra_blocked risk then ApprovalStatus.BLOCKED else ApprovalStatus.REQUESTED);
            request = new_approval_request E payload status risk (Some (user_id user)) False s;
            s = add_audit E ''approval.created'' (appr_id request)
              [(''project_id'', JStr (appr_project_id request)),
               (''risk_level'', JStr (RiskLevel_value (ra_level (appr_risk request)))),
               (''status'', JStr (ApprovalStatus_value (appr_status request))),
               (''blocked'', JBool (ra_blocked (appr_risk request))),
               (''source_provider'', provider_json (appr_source_provider request)),
               (''source_agent_id'', json_opt_str (appr_source_agent_id request)),
               (''source_agent_name'', json_opt_str (appr_source_agent_name request)),
               (''verified_source'', JBool (appr_verified_source request)),
               (''created_by_user_id'', json_opt_str (appr_created_by_user_id request))]
              (user_email user) (put_approval request (drawn s));
            (n, s) = create_notification E F (''Approval needed: '' @ appr_title request)
              (RiskLevel_value (ra_level (appr_risk request)) @ '' risk request on '' @ appr_target_branch request)
              ''approval_request'' (appr_id request) None s
        in ret request (persist s))"

definition get_approval_request :: "string \<Rightarrow> sys \<Rightarrow> ApprovalRequest result" where
  "get_approval_request aid s =
     (case dict_get (approval_requests s) aid of
        None \<Rightarrow> raise (HTTPException 404 ''Approval request not found'') s
      | Some request \<Rightarrow> ret request s)"

definition list_grouped_approval_requests :: "sys \<Rightarrow> (string, ApprovalRequest list) dict" where
  "list_grouped_approval_requests s = grouped_approvals (dict_vals (approval_requests s))"

section \<open>Decisions\<close>

record DecisionCreate =
  dc_decision :: string
  dc_reason :: string

text \<open>
  The request after the decision, or the exception. The detail of the 409 for open actions is a
  dictionary with this message and the actions; here it is the message.
\<close>

definition decided_request ::
    "env \<Rightarrow> string \<Rightarrow> AuthUser \<Rightarrow> int \<Rightarrow> ApprovalRequest \<Rightarrow> pyerror + ApprovalRequest" where
  "decided_request E decision user now request =
     (if appr_status request = ApprovalStatus.BLOCKED then
        Inl (HTTPException 409 ''Blocked requests cannot be approved from mobile'')
      else if decision = ''approve'' then
        (if ra_required_actions (appr_risk request) \<noteq> [] then
           Inl (HTTPException 409 ''Request cannot be approved until required actions are satisfied.'')
         else
           Inr (request\<lparr>appr_approved_payload_hash := Some (compute_approval_payload_hash E request),
              appr_approved_at := Some now, appr_approved_by_user_id := Some (user_id user),
              appr_status := ApprovalStatus.APPROVED\<rparr>))
      else if decision \<in> set [''reject'', ''deny'', ''denied''] then
        Inr (request\<lparr>appr_status := ApprovalStatus.DENIED\<rparr>)
      else if decision \<in> set [''revise'', ''request_revision'', ''revision''] then
        Inr (request\<lparr>appr_status := REVISION_REQUESTED\<rparr>)
      else Inl (HTTPException 400 ''Decision must be approve, deny, reject, or revise''))"

definition decision_details :: "string \<Rightarrow> string \<Rightarrow> ApprovalStatus \<Rightarrow> ApprovalRequest \<Rightarrow> jdict" where
  "decision_details decision reason previous request =
     [(''decision'', JStr decision), (''reason'', JStr reason),
      (''previous_status'', JStr (ApprovalStatus_value previous)),
      (''new_status'', JStr (ApprovalStatus_value (appr_status request))),
      (''approved_payload_hash'', json_opt_str (appr_approved_payload_hash request)),
      (''source_provider'', provider_json (appr_source_provider request)),
      (''source_agent_id'', json_opt_str (appr_source_agent_id request)),
      (''verified_source'', JBool (appr_verified_source request))]"

definition decide_approval ::
    "env \<Rightarrow> push_service \<Rightarrow> string \<Rightarrow> DecisionCreate \<Rightarrow> AuthUser \<Rightarrow> sys \<Rightarrow> ApprovalRequest result" where
  "decide_approval E F aid payload user s =
     bindE (get_approval_request aid s) (\<lambda>request s.
       let decision = py_strip (py_lower (dc_decision payload)); previous = appr_status request in
       liftE (decided_request E decision user (clock s) request) (\<lambda>request s.
         let request = request\<lparr>appr_updated_at := clock s\<rparr>;
             s = add_audit E ''approval.decision'' (appr_id request)
               (decision_details decision (dc_reason payload) previous request)
               (user_email user) (put_approval request s)
         in bindE (propagate_approval_decision_to_agent_task E F request previous (user_email user) s) (\<lambda>task s.
              let (n, s) = create_notification E F
                    (''Approval '' @ py_lower (ApprovalStatus_value (appr_status request)) @ '': '' @
                      appr_title request)
                    (str_or (dc_reason payload) ''Decision recorded from mobile review.'')
                    ''approval_request'' (appr_id request) None s
              in ret request (persist s))) s)"

definition approve_approval ::
    "env \<Rightarrow> push_service \<Rightarrow> string \<Rightarrow> AuthUser \<Rightarrow> sys \<Rightarrow> ApprovalRequest result" where
  "approve_approval E F aid user s =
     decide_approval E F aid \<lparr>dc_decision = ''approve'', dc_reason = []\<rparr> user s"

definition deny_approval ::
    "env \<Rightarrow> push_service \<Rightarrow> string \<Rightarrow> DecisionCreate \<Rightarrow> AuthUser \<Rightarrow> sys \<Rightarrow> ApprovalRequest result" where
  "deny_approval E F aid payload user s =
     decide_approval E F aid \<lparr>dc_decision = ''deny'', dc_reason = dc_reason payload\<rparr> user s"

section \<open>Test runs\<close>

definition create_test_run :: "env \<Rightarrow> TestRunCreate \<Rightarrow> AuthUser \<Rightarrow> sys \<Rightarrow> TestRun result" where
  "create_test_run E payload user s =
     (if dict_get (approval_requests s) (tr_approval_request_id payload) = None then
        raise (HTTPException 404 ''Approval request not found'') s
      else
        let t = TestRunCreate.extend payload \<lparr>tr_id = new_id E ''test'' s, tr_created_at = clock s\<rparr>;
            s = add_audit E ''test_run.recorded'' (tr_id t)
              [(''approval_request_id'', JStr (tr_approval_request_id t)),
               (''status'', JStr (tr_status t)), (''command'', JStr (tr_command t))]
              (user_email user) (put_test_run t (drawn s))
        in ret t (persist s))"

end
