(* ===== verification/ExternalAgents.thy ===== *)
theory ExternalAgents
  imports ApprovalRoutes
begin

text \<open>
  \<open>agent_auth.py\<close>: the credentials of external agents (issued, rotated, revoked, expiring), the
  authentication of a request by its two headers, the rate limit over a window of a minute, and the
  check of what an agent may do. The agent and its credential record are objects of the store; an
  operation reads them again where the code holds a reference.
\<close>

section \<open>Credentials\<close>

datatype AgentCredentialState = ACTIVE | DISABLED | EXPIRED | MANUAL | NOT_CONFIGURED | REVOKED

fun AgentCredentialState_value :: "AgentCredentialState \<Rightarrow> string" where
  "AgentCredentialState_value AgentCredentialState.ACTIVE = ''ACTIVE''"
| "AgentCredentialState_value AgentCredentialState.DISABLED = ''DISABLED''"
| "AgentCredentialState_value AgentCredentialState.EXPIRED = ''EXPIRED''"
| "AgentCredentialState_value AgentCredentialState.MANUAL = ''MANUAL''"
| "AgentCredentialState_value NOT_CONFIGURED = ''NOT_CONFIGURED''"
| "AgentCredentialState_value AgentCredentialState.REVOKED = ''REVOKED''"

text \<open>
  \<open>ExternalAgentPublic\<close> is the agent without its secret, and the status a view of the credential
  record.
\<close>

record ExternalAgentPublic =
  xp_id :: string
  xp_provider :: AgentProvider
  xp_display_name :: string
  xp_auth_type :: AgentAuthType
  xp_allowed_project_ids :: "string list"
  xp_allowed_repositories :: "string list"
  xp_allowed_actions :: "AgentAction list"
  xp_created_by_user_id :: "string option"
  xp_enabled :: bool
  xp_created_at :: int
  xp_updated_at :: int

record AgentCredentialStatus =
  cst_agent_id :: string
  cst_auth_type :: AgentAuthType
  cst_credential_state :: AgentCredentialState
  cst_token_present :: bool
  cst_token_expires_at :: "int option"
  cst_token_revoked_at :: "int option"
  cst_token_rotated_at :: "int option"
  cst_last_used_at :: "int option"
  cst_failed_auth_count :: int
  cst_last_auth_failed_at :: "int option"
  cst_rate_limit_per_minute :: int
  cst_rate_limit_window_started_at :: "int option"
  cst_rate_limit_request_count :: int

record AgentCreateWithCredentialPolicy =
  ac_provider :: AgentProvider
  ac_display_name :: string
  ac_auth_type :: AgentAuthType
  ac_allowed_project_ids :: "string list"
  ac_allowed_repositories :: "string list"
  ac_allowed_actions :: "AgentAction list"
  ac_enabled :: bool
  ac_token_expires_at :: "int option"
  ac_rate_limit_per_minute :: int

text \<open>The token and its hash.\<close>

definition issue_agent_token :: "env \<Rightarrow> sys \<Rightarrow> (string \<times> string) \<times> sys" where
  "issue_agent_token E s =
     (let token = ''aixion_agent_'' @ token_urlsafe E (draws s) in ((token, sha256 E token), drawn s))"

definition new_credential ::
    "env \<Rightarrow> string \<Rightarrow> int option \<Rightarrow> int \<Rightarrow> sys \<Rightarrow> AgentCredentialRecord" where
  "new_credential E aid expires limit s =
     \<lparr>cred_id = new_id E ''agent_credential'' s, cred_agent_id = aid, cred_token_expires_at = expires,
      cred_token_revoked_at = None, cred_token_rotated_at = None, cred_last_used_at = None,
      cred_failed_auth_count = 0, cred_last_auth_failed_at = None, cred_rate_limit_per_minute = limit,
      cred_rate_limit_window_started_at = None, cred_rate_limit_request_count = 0,
      cred_created_at = clock s, cred_updated_at = clock s\<rparr>"

definition credential_for :: "env \<Rightarrow> string \<Rightarrow> sys \<Rightarrow> AgentCredentialRecord \<times> sys" where
  "credential_for E aid s =
     (case dict_get (external_agent_credentials s) aid of
        Some c \<Rightarrow> (c, s)
      | None \<Rightarrow> let c = new_credential E aid None 60 s in (c, put_agent_credential c (drawn s)))"

definition state_of_credential :: "ExternalAgent \<Rightarrow> AgentCredentialRecord \<Rightarrow> int \<Rightarrow> AgentCredentialState" where
  "state_of_credential agent c now =
     (if \<not> xa_enabled agent then AgentCredentialState.DISABLED
      else if xa_auth_type agent = AgentAuthType.MANUAL then AgentCredentialState.MANUAL
      else if cred_token_revoked_at c \<noteq> None then AgentCredentialState.REVOKED
      else if \<not> truthy (xa_secret_hash agent) then NOT_CONFIGURED
      else if (case cred_token_expires_at c of None \<Rightarrow> False | Some t \<Rightarrow> t \<le> now) then AgentCredentialState.EXPIRED
      else AgentCredentialState.ACTIVE)"

definition credential_state :: "env \<Rightarrow> ExternalAgent \<Rightarrow> sys \<Rightarrow> AgentCredentialState \<times> sys" where
  "credential_state E agent s =
     (let (c, s) = credential_for E (xa_id agent) s in (state_of_credential agent c (clock s), s))"

definition to_credential_status :: "env \<Rightarrow> ExternalAgent \<Rightarrow> sys \<Rightarrow> AgentCredentialStatus \<times> sys" where
  "to_credential_status E agent s =
     (let (c, s) = credential_for E (xa_id agent) s in
      (\<lparr>cst_agent_id = xa_id agent, cst_auth_type = xa_auth_type agent,
        cst_credential_state = state_of_credential agent c (clock s),
        cst_token_present = truthy (xa_secret_hash agent),
        cst_token_expires_at = cred_token_expires_at c, cst_token_revoked_at = cred_token_revoked_at c,
        cst_token_rotated_at = cred_token_rotated_at c, cst_last_used_at = cred_last_used_at c,
        cst_failed_auth_count = cred_failed_auth_count c,
        cst_last_auth_failed_at = cred_last_auth_failed_at c,
        cst_rate_limit_per_minute = cred_rate_limit_per_minute c,
        cst_rate_limit_window_started_at = cred_rate_limit_window_started_at c,
        cst_rate_limit_request_count = cred_rate_limit_request_count c\<rparr>, s))"

definition to_public_agent :: "ExternalAgent \<Rightarrow> ExternalAgentPublic" where
  "to_public_agent a =
     \<lparr>xp_id = xa_id a, xp_provider = xa_provider a, xp_display_name = xa_display_name a,
      xp_auth_type = xa_auth_type a, xp_allowed_project_ids = xa_allowed_project_ids a,
      xp_allowed_repositories = xa_allowed_repositories a, xp_allowed_actions = xa_allowed_actions a,
      xp_created_by_user_id = xa_created_by_user_id a, xp_enabled = xa_enabled a,
      xp_created_at = xa_created_at a, xp_updated_at = xa_updated_at a\<rparr>"

section \<open>Registering, rotating, revoking\<close>

text \<open>The answer has the raw token, which the store never keeps.\<close>

definition registered_agent ::
    "env \<Rightarrow> AgentCreateWithCredentialPolicy \<Rightarrow> AuthUser \<Rightarrow> string option \<Rightarrow> sys \<Rightarrow> ExternalAgent" where
  "registered_agent E payload user secret s =
     \<lparr>xa_id = new_id E ''agent'' s, xa_provider = ac_provider payload,
      xa_display_name = py_strip (ac_display_name payload), xa_auth_type = ac_auth_type payload,
      xa_allowed_project_ids = ac_allowed_project_ids payload,
      xa_allowed_repositories = ac_allowed_repositories payload,
      xa_allowed_actions = ac_allowed_actions payload, xa_created_by_user_id = Some (user_id user),
      xa_enabled = ac_enabled payload, xa_secret_hash = secret, xa_created_at = clock s,
      xa_updated_at = clock s\<rparr>"

definition register_external_agent ::
    "env \<Rightarrow> AgentCreateWithCredentialPolicy \<Rightarrow> AuthUser \<Rightarrow> sys \<Rightarrow>
     (ExternalAgentPublic \<times> string option) result" where
  "register_external_agent E payload user s =
     (if ac_rate_limit_per_minute payload < 1 \<or> ac_rate_limit_per_minute payload > 1000 then
        raise (ValidationError ''rate_limit_per_minute'') s
      else
        let ((token, secret), s) =
              (if ac_auth_type payload \<in> set [AgentAuthType.API_KEY, AgentAuthType.WEBHOOK_SECRET]
               then let ((token, hash), s) = issue_agent_token E s in ((Some token, Some hash), s)
               else ((None, None), s));
            agent = registered_agent E payload user secret s;
            s = put_agent agent (drawn s);
            s = put_agent_credential (new_credential E (xa_id agent) (ac_token_expires_at payload)
                  (ac_rate_limit_per_minute payload) s) (drawn s)
        in ret (to_public_agent agent, token) (persist s))"

definition rotate_external_agent_token ::
    "env \<Rightarrow> ExternalAgent \<Rightarrow> int option \<Rightarrow> int option \<Rightarrow> sys \<Rightarrow> (ExternalAgentPublic \<times> string option) result" where
  "rotate_external_agent_token E agent expires limit s =
     (if xa_auth_type agent = AgentAuthType.MANUAL then
        raise (HTTPException 400 ''Manual agents do not have rotatable tokens'') s
      else
        let ((token, hash), s) = issue_agent_token E s;
            now = clock s;
            (c, s) = credential_for E (xa_id agent) s;
            agent = agent\<lparr>xa_secret_hash := Some hash, xa_updated_at := now\<rparr>;
            c = c\<lparr>cred_token_expires_at := expires, cred_token_revoked_at := None,
              cred_token_rotated_at := Some now, cred_rate_limit_window_started_at := None,
              cred_rate_limit_request_count := 0,
              cred_rate_limit_per_minute := (case limit of None \<Rightarrow> cred_rate_limit_per_minute c | Some l \<Rightarrow> l),
              cred_updated_at := now\<rparr>
        in ret (to_public_agent agent, Some token) (put_agent_credential c (put_agent agent s)))"

definition revoke_external_agent_token :: "env \<Rightarrow> ExternalAgent \<Rightarrow> sys \<Rightarrow> ExternalAgentPublic result" where
  "revoke_external_agent_token E agent s =
     (if xa_auth_type agent = AgentAuthType.MANUAL then
        raise (HTTPException 400 ''Manual agents do not have revokable tokens'') s
      else
        let now = clock s;
            (c, s) = credential_for E (xa_id agent) s;
            agent = agent\<lparr>xa_secret_hash := None, xa_updated_at := now\<rparr>;
            c = c\<lparr>cred_token_revoked_at := Some now, cred_updated_at := now\<rparr>
        in ret (to_public_agent agent) (put_agent_credential c (put_agent agent s)))"

section \<open>Authentication\<close>

definition note_failure :: "env \<Rightarrow> ExternalAgent option \<Rightarrow> sys \<Rightarrow> sys" where
  "note_failure E agent s =
     (case agent of
        None \<Rightarrow> s
      | Some a \<Rightarrow>
          let (c, s) = credential_for E (xa_id a) s in
          put_agent_credential (c\<lparr>cred_failed_auth_count := cred_failed_auth_count c + 1,
            cred_last_auth_failed_at := Some (clock s), cred_updated_at := clock s\<rparr>) s)"

definition audit_agent_auth_failure ::
    "env \<Rightarrow> string option \<Rightarrow> string \<Rightarrow> ExternalAgent option \<Rightarrow> sys \<Rightarrow> sys" where
  "audit_agent_auth_failure E aid reason agent s =
     persist (add_audit E ''agent.auth_failed'' (str_or (opt_str aid) ''unknown_agent'')
       [(''agent_id'', json_opt_str aid), (''reason'', JStr reason)] ''external-agent-auth''
       (note_failure E agent s))"

definition audit_agent_rate_limit :: "env \<Rightarrow> ExternalAgent \<Rightarrow> AgentCredentialRecord \<Rightarrow> sys \<Rightarrow> sys" where
  "audit_agent_rate_limit E agent c s =
     persist (add_audit E ''agent.rate_limited'' (xa_id agent)
       [(''agent_id'', JStr (xa_id agent)), (''limit'', JInt (cred_rate_limit_per_minute c)),
        (''window_started_at'', json_opt_time (cred_rate_limit_window_started_at c)),
        (''request_count'', JInt (cred_rate_limit_request_count c))] (''agent:'' @ xa_id agent) s)"

definition window_over :: "AgentCredentialRecord \<Rightarrow> int \<Rightarrow> bool" where
  "window_over c now \<longleftrightarrow>
     (case cred_rate_limit_window_started_at c of None \<Rightarrow> True | Some t \<Rightarrow> t + seconds 60 \<le> now)"

definition enforce_agent_rate_limit :: "env \<Rightarrow> ExternalAgent \<Rightarrow> sys \<Rightarrow> unit result" where
  "enforce_agent_rate_limit E agent s =
     (let (c, s) = credential_for E (xa_id agent) s; now = clock s in
      if window_over c now then
        ret () (put_agent_credential (c\<lparr>cred_rate_limit_window_started_at := Some now,
          cred_rate_limit_request_count := 1, cred_updated_at := now\<rparr>) s)
      else if cred_rate_limit_request_count c \<ge> cred_rate_limit_per_minute c then
        let c = c\<lparr>cred_updated_at := now\<rparr> in
        raise (HTTPException 429 ''External agent rate limit exceeded'')
          (audit_agent_rate_limit E agent c (put_agent_credential c s))
      else
        ret () (put_agent_credential (c\<lparr>cred_rate_limit_request_count := cred_rate_limit_request_count c + 1,
          cred_updated_at := now\<rparr>) s))"

text \<open>Why an agent with a credential record is refused: the reason and the detail.\<close>

definition credential_refusal ::
    "env \<Rightarrow> ExternalAgent \<Rightarrow> AgentCredentialRecord \<Rightarrow> string \<Rightarrow> int \<Rightarrow> (string \<times> string) option" where
  "credential_refusal E agent c token now =
     (if \<not> truthy (xa_secret_hash agent) \<or> cred_token_revoked_at c \<noteq> None then
        Some (''token_revoked_or_missing'', ''External agent token is revoked or not configured'')
      else if (case cred_token_expires_at c of None \<Rightarrow> False | Some t \<Rightarrow> t \<le> now) then
        Some (''token_expired'', ''External agent token expired'')
      else if opt_str (xa_secret_hash agent) \<noteq> sha256 E token then
        Some (''invalid_token'', ''Invalid external agent token'')
      else None)"

definition refuse_401 ::
    "env \<Rightarrow> string option \<Rightarrow> string \<Rightarrow> string \<Rightarrow> ExternalAgent option \<Rightarrow> sys \<Rightarrow> 'a result" where
  "refuse_401 E aid reason detail agent s =
     raise (HTTPException 401 detail) (audit_agent_auth_failure E aid reason agent s)"

definition touch_credential :: "env \<Rightarrow> ExternalAgent \<Rightarrow> sys \<Rightarrow> sys" where
  "touch_credential E agent s =
     (let (c, s) = credential_for E (xa_id agent) s in
      put_agent_credential (c\<lparr>cred_last_used_at := Some (clock s), cred_updated_at := clock s\<rparr>) s)"

definition require_external_agent ::
    "env \<Rightarrow> string option \<Rightarrow> string option \<Rightarrow> sys \<Rightarrow> ExternalAgent result" where
  "require_external_agent E aid token s =
     (if \<not> truthy aid \<or> \<not> truthy token then
        refuse_401 E aid ''missing_credentials'' ''Missing external agent credentials'' None s
      else case dict_get (external_agents s) (opt_str aid) of
        None \<Rightarrow> refuse_401 E aid ''unknown_agent'' ''External agent is not active'' None s
      | Some agent \<Rightarrow>
          if \<not> xa_enabled agent then
            refuse_401 E (Some (xa_id agent)) ''agent_disabled'' ''External agent is not active'' (Some agent) s
          else if xa_auth_type agent = AgentAuthType.MANUAL then
            refuse_401 E (Some (xa_id agent)) ''manual_agent_token_auth''
              ''Manual agents cannot authenticate through agent token'' (Some agent) s
          else
            let (c, s) = credential_for E (xa_id agent) s in
            (case credential_refusal E agent c (opt_str token) (clock s) of
               Some (reason, detail) \<Rightarrow> refuse_401 E (Some (xa_id agent)) reason detail (Some agent) s
             | None \<Rightarrow>
                 bindE (enforce_agent_rate_limit E agent s) (\<lambda>_ s.
                   ret agent (persist (touch_credential E agent s)))))"

section \<open>Authorization\<close>

definition assert_agent_can ::
    "ExternalAgent \<Rightarrow> AgentAction \<Rightarrow> string option \<Rightarrow> string option \<Rightarrow> sys \<Rightarrow> unit result" where
  "assert_agent_can agent action project repository s =
     (if action \<notin> set (xa_allowed_actions agent) then
        raise (HTTPException 403 (''Agent is not allowed to perform '' @ AgentAction_value action)) s
      else if truthy project \<and> xa_allowed_project_ids agent \<noteq> [] \<and>
          opt_str project \<notin> set (xa_allowed_project_ids agent) then
        raise (HTTPException 403 ''Agent is not allowed for this project'') s
      else if truthy repository \<and> xa_allowed_repositories agent \<noteq> [] \<and>
          opt_str repository \<notin> set (xa_allowed_repositories agent) then
        raise (HTTPException 403 ''Agent is not allowed for this repository'') s
      else ret () s)"

section \<open>Lemmas\<close>

lemma credential_for_frame [simp]:
  "clock (snd (credential_for E aid s)) = clock s"
  "external_agents (snd (credential_for E aid s)) = external_agents s"
  "agent_tasks (snd (credential_for E aid s)) = agent_tasks s"
  "dict_get (external_agent_credentials (snd (credential_for E aid s))) aid = Some (fst (credential_for E aid s))"
  by (simp_all add: credential_for_def Let_def new_credential_def drawn_def split: option.splits)

lemma assert_agent_can_iff:
  "fst (assert_agent_can agent action project repository s) = Inr u \<longleftrightarrow>
     action \<in> set (xa_allowed_actions agent) \<and>
     (truthy project \<and> xa_allowed_project_ids agent \<noteq> [] \<longrightarrow> opt_str project \<in> set (xa_allowed_project_ids agent)) \<and>
     (truthy repository \<and> xa_allowed_repositories agent \<noteq> [] \<longrightarrow>
        opt_str repository \<in> set (xa_allowed_repositories agent))"
  by (auto simp: assert_agent_can_def)

chapter \<open>Routes of external agents\<close>

text \<open>
  \<open>agent_routes.py\<close>: what the owner does with external agents (register, rotate, revoke), and what
  an authenticated agent may do: ask for approvals, create work orders and tasks, and report events
  of its own tasks. An agent's route gets the agent that \<open>require_external_agent\<close> returned.
\<close>

section \<open>The owner's routes\<close>

definition agent_or_404 :: "string \<Rightarrow> sys \<Rightarrow> ExternalAgent result" where
  "agent_or_404 aid s =
     (case dict_get (external_agents s) aid of
        None \<Rightarrow> raise (HTTPException 404 ''External agent not found'') s
      | Some agent \<Rightarrow> ret agent s)"

definition credential_state_json :: "AgentCredentialState \<Rightarrow> json" where
  "credential_state_json st = JStr (AgentCredentialState_value st)"

definition create_agent ::
    "env \<Rightarrow> AgentCreateWithCredentialPolicy \<Rightarrow> AuthUser \<Rightarrow> sys \<Rightarrow> (ExternalAgentPublic \<times> string option) result" where
  "create_agent E payload user s =
     bindE (register_external_agent E payload user s) (\<lambda>(agent, token) s.
     bindE (agent_or_404 (xp_id agent) s) (\<lambda>stored s.
       let (status, s) = to_credential_status E stored s;
           s = add_audit E ''agent.registered'' (xp_id agent)
             [(''provider'', JStr (AgentProvider_value (xp_provider agent))),
              (''display_name'', JStr (xp_display_name agent)),
              (''auth_type'', JStr (AgentAuthType_value (xp_auth_type agent))),
              (''allowed_project_ids'', json_strs (xp_allowed_project_ids agent)),
              (''allowed_repositories'', json_strs (xp_allowed_repositories agent)),
              (''allowed_actions'', json_strs (map AgentAction_value (xp_allowed_actions agent))),
              (''credential_state'', credential_state_json (cst_credential_state status))] (user_email user) s
       in ret (agent, token) (persist s)))"

definition list_agents :: "sys \<Rightarrow> ExternalAgentPublic list" where
  "list_agents s = map to_public_agent (dict_vals (external_agents s))"

definition get_agent :: "string \<Rightarrow> sys \<Rightarrow> ExternalAgentPublic result" where
  "get_agent aid s = bindE (agent_or_404 aid s) (\<lambda>agent s. ret (to_public_agent agent) s)"

definition get_agent_credentials :: "env \<Rightarrow> string \<Rightarrow> sys \<Rightarrow> AgentCredentialStatus result" where
  "get_agent_credentials E aid s =
     bindE (agent_or_404 aid s) (\<lambda>agent s. let (status, s) = to_credential_status E agent s in ret status s)"

text \<open>
  The routes look the agent up once and pass the object on; after rotating or revoking, the object
  is the one the store holds then.
\<close>

definition agent_now :: "ExternalAgent \<Rightarrow> sys \<Rightarrow> ExternalAgent" where
  "agent_now agent s =
     (case dict_get (external_agents s) (xa_id agent) of None \<Rightarrow> agent | Some a \<Rightarrow> a)"

definition rotate_agent_token ::
    "env \<Rightarrow> string \<Rightarrow> int option \<Rightarrow> int option \<Rightarrow> AuthUser \<Rightarrow> sys \<Rightarrow> (ExternalAgentPublic \<times> string option) result" where
  "rotate_agent_token E aid expires limit user s =
     bindE (agent_or_404 aid s) (\<lambda>agent s.
     bindE (rotate_external_agent_token E agent expires limit s) (\<lambda>response s.
       let (status, s) = to_credential_status E (agent_now agent s) s;
           s = add_audit E ''agent.token_rotated'' (xa_id agent)
             [(''credential_state'', credential_state_json (cst_credential_state status)),
              (''token_expires_at'', json_opt_time (cst_token_expires_at status)),
              (''token_rotated_at'', json_opt_time (cst_token_rotated_at status)),
              (''rate_limit_per_minute'', JInt (cst_rate_limit_per_minute status))] (user_email user) s
       in ret response (persist s)))"

definition revoke_agent_token :: "env \<Rightarrow> string \<Rightarrow> AuthUser \<Rightarrow> sys \<Rightarrow> ExternalAgentPublic result" where
  "revoke_agent_token E aid user s =
     bindE (agent_or_404 aid s) (\<lambda>agent s.
     bindE (revoke_external_agent_token E agent s) (\<lambda>public_agent s.
       let (status, s) = to_credential_status E (agent_now agent s) s;
           s = add_audit E ''agent.token_revoked'' (xa_id agent)
             [(''credential_state'', credential_state_json (cst_credential_state status)),
              (''token_revoked_at'', json_opt_time (cst_token_revoked_at status))] (user_email user) s
       in ret public_agent (persist s)))"

section \<open>The agent's routes\<close>

definition agent_actor :: "ExternalAgent \<Rightarrow> string" where
  "agent_actor agent = ''agent:'' @ xa_id agent"

text \<open>A payload under the identity of the agent that sent it.\<close>

definition agent_approval_request ::
    "env \<Rightarrow> ExternalAgent \<Rightarrow> ApprovalRequestCreate \<Rightarrow> sys \<Rightarrow> ApprovalRequest" where
  "agent_approval_request E agent payload s =
     (let risk = assess_approval_request payload in
      new_approval_request E
        (payload\<lparr>appr_source_provider := Some (xa_provider agent), appr_source_agent_id := Some (xa_id agent),
           appr_source_agent_name := Some (xa_display_name agent)\<rparr>)
        (if ra_blocked risk then ApprovalStatus.BLOCKED else PENDING_REVIEW) risk None True s)"

definition create_agent_approval ::
    "env \<Rightarrow> push_service \<Rightarrow> ApprovalRequestCreate \<Rightarrow> ExternalAgent \<Rightarrow> sys \<Rightarrow> ApprovalRequest result" where
  "create_agent_approval E F payload agent s =
     bindE (assert_agent_can agent AgentAction.CREATE_APPROVAL (Some (appr_project_id payload)) None s) (\<lambda>_ s.
       if dict_get (projects s) (appr_project_id payload) = None then
         raise (HTTPException 404 ''Project not found'') s
       else if truthy (appr_work_order_id payload) \<and>
           dict_get (work_orders s) (opt_str (appr_work_order_id payload)) = None then
         raise (HTTPException 404 ''Work order not found'') s
       else
         let request = agent_approval_request E agent payload s;
             s = add_audit E ''approval.created_by_agent'' (appr_id request)
               [(''project_id'', JStr (appr_project_id request)),
                (''risk_level'', JStr (RiskLevel_value (ra_level (appr_risk request)))),
                (''status'', JStr (ApprovalStatus_value (appr_status request))),
                (''blocked'', JBool (ra_blocked (appr_risk request))),
                (''source_provider'', provider_json (appr_source_provider request)),
                (''source_agent_id'', json_opt_str (appr_source_agent_id request)),
                (''source_agent_name'', json_opt_str (appr_source_agent_name request)),
                (''source_session_id'', json_opt_str (appr_source_session_id request)),
                (''source_task_url'', json_opt_str (appr_source_task_url request)),
                (''verified_source'', JBool (appr_verified_source request))]
               (agent_actor agent) (put_approval request (drawn s));
             (n, s) = create_notification E F
               (''Approval from '' @ AgentProvider_value (xa_provider agent) @ '': '' @ appr_title request)
               (RiskLevel_value (ra_level (appr_risk request)) @ '' risk request from '' @
                  xa_display_name agent @ '' on '' @ appr_target_branch request)
               ''approval_request'' (appr_id request) None s
         in ret request (persist s))"

record AgentWorkOrderCreate = WorkOrderCreate +
  awo_source_task_id :: "string option"
  awo_source_session_id :: "string option"

definition agent_work_order :: "env \<Rightarrow> AgentWorkOrderCreate \<Rightarrow> ExternalAgent \<Rightarrow> sys \<Rightarrow> WorkOrder" where
  "agent_work_order E payload agent s =
     WorkOrderCreate.extend (WorkOrderCreate.truncate payload)
       \<lparr>wo_id = new_id E ''work'' s, wo_risk_level = assess_work_order (WorkOrderCreate.truncate payload),
        wo_source_type = WorkOrderSourceType.AGENT_TASK, wo_source_provider = xa_provider agent,
        wo_source_agent_id = Some (xa_id agent), wo_source_agent_name = Some (xa_display_name agent),
        wo_source_task_id = awo_source_task_id payload,
        wo_source_session_id = awo_source_session_id payload, wo_created_by_user_id = None,
        wo_verified_source = True, wo_created_at = clock s\<rparr>"

definition create_agent_work_order ::
    "env \<Rightarrow> AgentWorkOrderCreate \<Rightarrow> ExternalAgent \<Rightarrow> sys \<Rightarrow> WorkOrder result" where
  "create_agent_work_order E payload agent s =
     bindE (assert_agent_can agent AgentAction.CREATE_WORK_ORDER (Some (wo_project_id payload)) None s) (\<lambda>_ s.
       if dict_get (projects s) (wo_project_id payload) = None then
         raise (HTTPException 404 ''Project not found'') s
       else if truthy (wo_idea_id payload) \<and> dict_get (ideas s) (opt_str (wo_idea_id payload)) = None then
         raise (HTTPException 404 ''Idea not found'') s
       else
         let w = agent_work_order E payload agent s;
             s = add_audit E ''work_order.created_by_agent'' (wo_id w)
               [(''project_id'', JStr (wo_project_id w)),
                (''risk_level'', JStr (RiskLevel_value (wo_risk_level w))),
                (''source_type'', JStr (WorkOrderSourceType_value (wo_source_type w))),
                (''source_provider'', JStr (AgentProvider_value (wo_source_provider w))),
                (''source_agent_id'', json_opt_str (wo_source_agent_id w)),
                (''source_agent_name'', json_opt_str (wo_source_agent_name w)),
                (''source_task_id'', json_opt_str (wo_source_task_id w)),
                (''source_session_id'', json_opt_str (wo_source_session_id w)),
                (''verified_source'', JBool (wo_verified_source w))]
               (agent_actor agent) (put_work_order w (drawn s))
         in ret w (persist s))"

definition agent_owned_task :: "env \<Rightarrow> AgentTaskCreate \<Rightarrow> ExternalAgent \<Rightarrow> sys \<Rightarrow> AgentTask" where
  "agent_owned_task E payload agent s =
     AgentTaskCreate.extend
       (payload\<lparr>task_provider := xa_provider agent,
          task_metadata := dict_set ''external_agent_scoped'' (JBool True) (task_metadata payload)\<rparr>)
       \<lparr>task_id = new_id E ''agent_task'' s, task_status = AgentTaskStatus.RECEIVED,
        task_external_agent_id = Some (xa_id agent),
        task_external_agent_name = Some (xa_display_name agent), task_approval_request_id = None,
        task_worker_lease_owner = None, task_worker_lease_expires_at = None,
        task_worker_lease_token = None, task_created_by_user_id = None, task_created_at = clock s,
        task_updated_at = clock s\<rparr>"

definition create_scoped_agent_task ::
    "env \<Rightarrow> AgentTaskCreate \<Rightarrow> ExternalAgent \<Rightarrow> sys \<Rightarrow> AgentTask result" where
  "create_scoped_agent_task E payload agent s =
     bindE (assert_agent_can agent CREATE_AGENT_TASK (task_project_id payload) (task_repository payload) s) (\<lambda>_ s.
       if truthy (task_project_id payload) \<and> dict_get (projects s) (opt_str (task_project_id payload)) = None then
         raise (HTTPException 404 ''Project not found'') s
       else
         let task = agent_owned_task E payload agent s;
             s = put_task task (drawn s);
             action = JStr (AgentTaskRequestedAction_value (task_requested_action task));
             ev = new_task_event E task TASK_CREATED ''Agent task received from scoped external agent.''
               (Some (task_status task)) (agent_actor agent)
               [(''provider'', JStr (AgentProvider_value (xa_provider agent))),
                (''agent_id'', JStr (xa_id agent)), (''requested_action'', action)] s;
             s = add_audit E ''agent_task.created_by_agent'' (task_id task)
               [(''provider'', JStr (AgentProvider_value (xa_provider agent))),
                (''agent_id'', JStr (xa_id agent)),
                (''project_id'', json_opt_str (task_project_id task)),
                (''repository'', json_opt_str (task_repository task)),
                (''requested_action'', action),
                (''requires_approval'', JBool (task_requires_approval task))]
               (agent_actor agent) (put_task_event ev (drawn s))
         in ret task (persist s))"

definition assert_agent_owns_task :: "ExternalAgent \<Rightarrow> AgentTask \<Rightarrow> sys \<Rightarrow> unit result" where
  "assert_agent_owns_task agent task s =
     (if task_external_agent_id task \<noteq> Some (xa_id agent) then
        raise (HTTPException 403 ''Agent is not allowed for this task'') s
      else ret () s)"

text \<open>The permission, the task and its owner: the first lines of the three routes on a task.\<close>

definition owned_task :: "ExternalAgent \<Rightarrow> AgentAction \<Rightarrow> string \<Rightarrow> sys \<Rightarrow> AgentTask result" where
  "owned_task agent action tid s =
     bindE (assert_agent_can agent action None None s) (\<lambda>_ s.
     bindE (task_or_404 tid s) (\<lambda>task s.
     bindE (assert_agent_owns_task agent task s) (\<lambda>_ s. ret task s)))"

definition get_agent_owned_task :: "string \<Rightarrow> ExternalAgent \<Rightarrow> sys \<Rightarrow> AgentTask result" where
  "get_agent_owned_task tid agent s = owned_task agent READ_AGENT_TASK tid s"

definition list_agent_owned_task_events ::
    "string \<Rightarrow> ExternalAgent \<Rightarrow> sys \<Rightarrow> AgentTaskEvent list result" where
  "list_agent_owned_task_events tid agent s =
     bindE (owned_task agent READ_AGENT_TASK tid s) (\<lambda>task s.
       ret (sort_key te_created_at (task_events tid s)) s)"

definition append_agent_owned_task_event ::
    "env \<Rightarrow> string \<Rightarrow> AgentTaskEventCreate \<Rightarrow> ExternalAgent \<Rightarrow> sys \<Rightarrow> AgentTaskEvent result" where
  "append_agent_owned_task_event E tid payload agent s =
     bindE (owned_task agent APPEND_AGENT_TASK_EVENT tid s) (\<lambda>task s.
       let (task, s) = set_task_status (tec_status payload) task s;
           ev = new_task_event E task (tec_event_type payload) (tec_message payload) (tec_status payload)
             (agent_actor agent)
             (dict_set ''external_agent_scoped'' (JBool True)
               (dict_set ''agent_id'' (JStr (xa_id agent)) (tec_metadata payload))) s;
           s = add_audit E ''agent_task.event_recorded_by_agent'' (task_id task)
             [(''event_type'', JStr (AgentTaskEventType_value (te_event_type ev))),
              (''status'', json_status (te_status ev)), (''agent_id'', JStr (xa_id agent))]
             (agent_actor agent) (put_task_event ev (drawn s))
       in ret ev (persist s))"

section \<open>Lemmas\<close>

text \<open>An agent reads and reports only on tasks it owns, and only with the permission.\<close>

lemma owned_task_Inr:
  "owned_task agent action tid s = (Inr task, s') \<longleftrightarrow>
     s' = s \<and> action \<in> set (xa_allowed_actions agent) \<and> dict_get (agent_tasks s) tid = Some task \<and>
     task_external_agent_id task = Some (xa_id agent)"
  by (auto simp: owned_task_def bindE_Inr_iff assert_agent_can_def task_or_404_def
      assert_agent_owns_task_def split: if_splits option.splits)

end
