(* ===== verification/WorkerClaims.thy ===== *)
theory WorkerClaims
  imports ExternalAgents
begin

text \<open>
  \<open>agent_worker_claims.py\<close>: how a worker takes an approved task. The claim reads the task from the
  database under \<open>BEGIN IMMEDIATE\<close>, writes the lease to that row, and replaces the task in memory
  by what it read; the transaction is one step.
\<close>

definition TERMINAL_STATUSES :: "AgentTaskStatus list" where
  "TERMINAL_STATUSES =
     [AgentTaskStatus.DENIED, AgentTaskStatus.FAILED, AgentTaskStatus.CANCELLED, AgentTaskStatus.DONE]"

record AgentWorkerClaimResult =
  cl_success :: bool
  cl_task :: "AgentTask option"
  cl_task_id :: "string option"
  cl_worker_id :: string
  cl_lease_token :: "string option"
  cl_reason :: string
  cl_lease_expires_at :: "int option"
  cl_generated_at :: int

definition is_lease_available :: "AgentTask \<Rightarrow> int \<Rightarrow> bool" where
  "is_lease_available task now \<longleftrightarrow>
     \<not> truthy (task_worker_lease_owner task) \<or>
     (case task_worker_lease_expires_at task of None \<Rightarrow> False | Some t \<Rightarrow> t \<le> now)"

definition claim_eligibility_failure ::
    "env \<Rightarrow> AgentTask option \<Rightarrow> string option \<Rightarrow> int \<Rightarrow> string option" where
  "claim_eligibility_failure E task tid now =
     (case task of
        None \<Rightarrow> Some (''Agent task not found or unavailable: '' @ str_or (opt_str tid) ''first-approved'')
      | Some t \<Rightarrow>
          if task_status t \<in> set TERMINAL_STATUSES then
            Some (''Agent task is terminal: '' @ AgentTaskStatus_value (task_status t))
          else if task_status t \<noteq> AgentTaskStatus.APPROVED then
            Some (''Agent task is not approved: '' @ AgentTaskStatus_value (task_status t))
          else if \<not> truthy (task_approval_request_id t) then
            Some ''Agent task is approved but missing approval_request_id''
          else if \<not> is_lease_available t now then
            Some (''Agent task already leased by '' @ opt_str (task_worker_lease_owner t) @ '' until '' @
              (case task_worker_lease_expires_at t of None \<Rightarrow> ''None'' | Some x \<Rightarrow> time_text E x))
          else None)"

text \<open>\<open>_claim_loaded_task\<close>, and the row and the entry in memory that follow it.\<close>

definition claim_loaded_task ::
    "env \<Rightarrow> AgentTask \<Rightarrow> string \<Rightarrow> int \<Rightarrow> sys \<Rightarrow> AgentWorkerClaimResult \<times> sys" where
  "claim_loaded_task E task worker_id lease_seconds s =
     (let token = new_id E ''agent_task_lease'' s;
          expires = clock s + seconds lease_seconds;
          task = task\<lparr>task_worker_lease_owner := Some worker_id, task_worker_lease_token := Some token,
            task_worker_lease_expires_at := Some expires, task_updated_at := clock s\<rparr>
      in (\<lparr>cl_success = True, cl_task = Some task, cl_task_id = Some (task_id task),
           cl_worker_id = worker_id, cl_lease_token = Some token, cl_reason = ''Agent task claimed.'',
           cl_lease_expires_at = Some expires, cl_generated_at = clock s\<rparr>, drawn s))"

definition update_task_row :: "AgentTask \<Rightarrow> sys \<Rightarrow> sys" where
  "update_task_row task s =
     s\<lparr>disk := DB ((rows (disk s))\<lparr>agent_tasks := dict_set (task_id task) task (agent_tasks (rows (disk s)))\<rparr>)\<rparr>"

definition store_claim :: "AgentWorkerClaimResult \<Rightarrow> sys \<Rightarrow> sys" where
  "store_claim r s =
     (case cl_task r of None \<Rightarrow> s | Some task \<Rightarrow> put_task task (update_task_row task s))"

definition refused_claim ::
    "AgentTask option \<Rightarrow> string option \<Rightarrow> string \<Rightarrow> string \<Rightarrow> int \<Rightarrow> AgentWorkerClaimResult" where
  "refused_claim task tid worker_id reason now =
     \<lparr>cl_success = False, cl_task = task, cl_task_id = tid, cl_worker_id = worker_id,
      cl_lease_token = None, cl_reason = reason, cl_lease_expires_at = None, cl_generated_at = now\<rparr>"

definition claim_agent_task_for_worker ::
    "env \<Rightarrow> string \<Rightarrow> string \<Rightarrow> int \<Rightarrow> sys \<Rightarrow> AgentWorkerClaimResult \<times> sys" where
  "claim_agent_task_for_worker E tid worker_id lease_seconds s =
     (let row = dict_get (agent_tasks (rows (disk s))) tid in
      case (claim_eligibility_failure E row (Some tid) (clock s), row) of
        (None, Some task) \<Rightarrow>
          let (r, s) = claim_loaded_task E task worker_id lease_seconds s in (r, store_claim r s)
      | (failure, _) \<Rightarrow>
          (refused_claim row (Some (case row of None \<Rightarrow> tid | Some t \<Rightarrow> task_id t)) worker_id
             (str_or (opt_str failure) ''Agent task not eligible for claim.'') (clock s), s))"

definition claim_candidates :: "env \<Rightarrow> sys \<Rightarrow> AgentTask list" where
  "claim_candidates E s =
     filter (\<lambda>task. claim_eligibility_failure E (Some task) (Some (task_id task)) (clock s) = None)
       (dict_vals (by_key (agent_tasks (rows (disk s)))))"

definition claim_first_approved_agent_task_for_worker ::
    "env \<Rightarrow> string \<Rightarrow> int \<Rightarrow> sys \<Rightarrow> AgentWorkerClaimResult \<times> sys" where
  "claim_first_approved_agent_task_for_worker E worker_id lease_seconds s =
     (case sort_key task_updated_at (claim_candidates E s) of
        [] \<Rightarrow> (refused_claim None None worker_id
                ''No approved, linked, lease-available agent task found.'' (clock s), s)
      | task # _ \<Rightarrow>
          let (r, s) = claim_loaded_task E task worker_id lease_seconds s in (r, store_claim r s))"

section \<open>Lemmas\<close>

definition claimable :: "AgentTask \<Rightarrow> int \<Rightarrow> bool" where
  "claimable task now \<longleftrightarrow>
     task_status task = AgentTaskStatus.APPROVED \<and> truthy (task_approval_request_id task) \<and>
     is_lease_available task now"

lemma eligible_iff: "claim_eligibility_failure E (Some task) tid now = None \<longleftrightarrow> claimable task now"
  by (auto simp: claim_eligibility_failure_def claimable_def TERMINAL_STATUSES_def)

lemma eligibility_None: "claim_eligibility_failure E None tid now \<noteq> None"
  by (simp add: claim_eligibility_failure_def)

lemma claim_success_iff:
  "cl_success (fst (claim_agent_task_for_worker E tid w n s)) \<longleftrightarrow>
     (\<exists>task. dict_get (agent_tasks (rows (disk s))) tid = Some task \<and> claimable task (clock s))"
  unfolding eligible_iff [of E _ "Some tid", symmetric] using eligibility_None [of E "Some tid" "clock s"]
  by (cases "dict_get (agent_tasks (rows (disk s))) tid")
    (auto simp: claim_agent_task_for_worker_def claim_loaded_task_def refused_claim_def Let_def
      split: option.splits)

lemma claim_rows:
  assumes "dict_get (agent_tasks (rows (disk s))) tid = Some task" "task_id task = tid" "claimable task (clock s)"
    "claim_agent_task_for_worker E tid w n s = (r, s')"
  shows "\<exists>task'. task' = task\<lparr>task_worker_lease_owner := Some w, task_worker_lease_token := cl_lease_token r,
        task_worker_lease_expires_at := Some (clock s + seconds n), task_updated_at := clock s\<rparr> \<and>
      dict_get (agent_tasks (rows (disk s'))) tid = Some task' \<and> dict_get (agent_tasks s') tid = Some task'"
proof -
  have "claim_eligibility_failure E (Some task) (Some tid) (clock s) = None"
    using assms(3) by (simp add: eligible_iff)
  then show ?thesis
    using assms by (auto simp: claim_agent_task_for_worker_def claim_loaded_task_def store_claim_def
        update_task_row_def Let_def drawn_def)
qed

lemma leased_not_claimable:
  "task_worker_lease_owner task = Some w \<Longrightarrow> w \<noteq> [] \<Longrightarrow> task_worker_lease_expires_at task = Some t \<Longrightarrow>
    now < t \<Longrightarrow> \<not> claimable task now"
  by (simp add: claimable_def is_lease_available_def)

text \<open>The candidate taken is the one that waited longest.\<close>

lemma claim_first_oldest:
  assumes "sort_key task_updated_at (claim_candidates E s) = task # rest"
  shows "claimable task (clock s) \<and> task \<in> set (dict_vals (agent_tasks (rows (disk s)))) \<and>
    (\<forall>t \<in> set (claim_candidates E s). task_updated_at task \<le> task_updated_at t)"
proof -
  have set_eq: "set (claim_candidates E s) = insert task (set rest)"
    using assms by (metis list.simps(15) set_sort)
  have "sorted (map task_updated_at (task # rest))"
    using sorted_sort_key [of task_updated_at "claim_candidates E s"] assms by simp
  then have "\<forall>t \<in> set (claim_candidates E s). task_updated_at task \<le> task_updated_at t"
    using set_eq by auto
  moreover have "task \<in> set (claim_candidates E s)" using set_eq by simp
  ultimately show ?thesis
    by (auto simp: claim_candidates_def eligible_iff dict_vals_def by_key_def)
qed

end
