(* ===== verification/RunExecution.thy ===== *)
theory RunExecution
  imports RunSupervisor
begin

text \<open>
  The rest of \<open>agent_run_supervisor.py\<close>: the operator's actions, the watchdog and
  \<open>execute_next_step\<close>; and the guards its HTTP routes put before them
  (\<open>agent_run_routes.py\<close>). The execution is the composition of what happens before the executor
  is called (\<open>start_step\<close>), the executor, a parameter as in the source, and what happens after it
  returned (\<open>finish_step\<close>), because other requests may be served while the executor runs.
\<close>

section \<open>Operator actions\<close>

definition pause_agent_run :: "env \<Rightarrow> AgentRun \<Rightarrow> string \<Rightarrow> string \<Rightarrow> sys \<Rightarrow> AgentRun result" where
  "pause_agent_run E run actor reason s =
     (if run_status run \<in> set [AgentRunStatus.BLOCKED, AgentRunStatus.SUCCEEDED,
           AgentRunStatus.FAILED, AgentRunStatus.CANCELLED] then
        raise (AgentRunConflict ''Terminal run cannot be paused.'') s
      else
        let run = run\<lparr>run_pause_requested := True\<rparr>; s = put_run run s in
        if run_status run \<noteq> AgentRunStatus.PAUSED then
          liftE (transition_run (clock s) run AgentRunStatus.PAUSED reason)
            (\<lambda>(pn, run) s. ret run (persist (append_event E run OPERATOR_ACTION
               (run_args pn ''Operator paused the run.'' reason actor) (put_run run s)))) s
        else ret run (persist s))"

definition resume_agent_run :: "env \<Rightarrow> AgentRun \<Rightarrow> string \<Rightarrow> string \<Rightarrow> sys \<Rightarrow> AgentRun result" where
  "resume_agent_run E run actor reason s =
     (if run_status run \<notin> set [AgentRunStatus.PAUSED, AgentRunStatus.NEEDS_HUMAN,
           AgentRunStatus.RETRY_WAIT] then
        raise (AgentRunConflict (''Run cannot resume from '' @ AgentRunStatus_value (run_status run) @ ''.'')) s
      else
        let run = run\<lparr>run_pause_requested := False\<rparr>; s = put_run run s in
        bindE
          (case current_step run s of
             None \<Rightarrow> ret () s
           | Some step \<Rightarrow>
               if step_status step \<in> set [AgentRunStepStatus.PAUSED, AgentRunStepStatus.NEEDS_HUMAN,
                    AgentRunStepStatus.RETRY_WAIT] then
                 liftE (transition_step (clock s) step AgentRunStepStatus.READY
                     (str_or reason ''Operator resumed step.''))
                   (\<lambda>(pn, step) s.
                      let step = step\<lparr>step_next_retry_at := None\<rparr>
                      in ret () (append_event E run STEP_READY
                           (step_args step pn ''Operator returned the current step to READY.'' reason actor)
                           (put_step step s))) s
               else ret () s)
          (\<lambda>_ s. liftE (transition_run (clock s) run AgentRunStatus.SCHEDULED reason)
             (\<lambda>(pn, run) s. ret run (persist (append_event E run OPERATOR_ACTION
                (run_args pn ''Operator resumed the run.'' reason actor) (put_run run s)))) s))"

fun cancel_steps ::
    "env \<Rightarrow> AgentRun \<Rightarrow> string \<Rightarrow> string \<Rightarrow> AgentRunStep list \<Rightarrow> sys \<Rightarrow> unit result" where
  "cancel_steps E run actor reason [] s = ret () s"
| "cancel_steps E run actor reason (step # rest) s =
     (if step_status step \<notin> set [AgentRunStepStatus.SUCCEEDED, AgentRunStepStatus.BLOCKED,
           AgentRunStepStatus.FAILED, AgentRunStepStatus.CANCELLED, AgentRunStepStatus.SKIPPED] then
        liftE (transition_step (clock s) step AgentRunStepStatus.CANCELLED
            (str_or reason ''Run cancelled.''))
          (\<lambda>(pn, step) s. cancel_steps E run actor reason rest
             (append_event E run STEP_CANCELLED
                (step_args step pn ''Pending work was cancelled.'' reason actor)
                (put_step step s))) s
      else cancel_steps E run actor reason rest s)"

definition cancel_agent_run :: "env \<Rightarrow> AgentRun \<Rightarrow> string \<Rightarrow> string \<Rightarrow> sys \<Rightarrow> AgentRun result" where
  "cancel_agent_run E run actor reason s =
     (if run_status run = AgentRunStatus.CANCELLED then ret run s
      else if run_status run \<in> set [AgentRunStatus.BLOCKED, AgentRunStatus.SUCCEEDED,
           AgentRunStatus.FAILED] then
        raise (AgentRunConflict ''Completed terminal run cannot be cancelled.'') s
      else
        let run = run\<lparr>run_cancel_requested := True\<rparr>; s = put_run run s in
        bindE (cancel_steps E run actor reason (run_steps (run_id run) s) s)
          (\<lambda>_ s. liftE (transition_run (clock s) run AgentRunStatus.CANCELLED reason)
             (\<lambda>(pn, run) s. ret run (persist (append_event E run OPERATOR_ACTION
                (run_args pn ''Operator cancelled the run.'' reason actor) (put_run run s)))) s))"

definition retry_agent_run_step ::
    "env \<Rightarrow> AgentRun \<Rightarrow> AgentRunStep \<Rightarrow> string \<Rightarrow> string \<Rightarrow> sys \<Rightarrow> (AgentRun \<times> AgentRunStep) result" where
  "retry_agent_run_step E run step actor reason s =
     (if step_run_id step \<noteq> run_id run then raise (AgentRunConflict ''Step does not belong to run.'') s
      else if step_status step \<notin> set [AgentRunStepStatus.RETRY_WAIT, AgentRunStepStatus.NEEDS_HUMAN,
           AgentRunStepStatus.FAILED] then
        raise (AgentRunConflict (''Step cannot be retried from '' @
          AgentRunStepStatus_value (step_status step) @ ''.'')) s
      else if step_attempt_count step \<ge> step_max_attempts step then
        raise (AgentRunConflict ''Step retry budget is exhausted.'') s
      else
        let step = (if step_status step = AgentRunStepStatus.FAILED
                    then step\<lparr>step_status := AgentRunStepStatus.NEEDS_HUMAN\<rparr> else step);
            s = put_step step s
        in liftE (transition_step (clock s) step AgentRunStepStatus.READY
              (str_or reason ''Operator approved retry.''))
          (\<lambda>(pn, step) s.
             let step = step\<lparr>step_next_retry_at := None\<rparr>;
                 run = run\<lparr>run_current_step_id := Some (step_id step),
                   run_current_step_index := step_sequence step, run_pause_requested := False\<rparr>;
                 s = put_run run (put_step step s)
             in bindE
               (if run_status run \<in> set [AgentRunStatus.NEEDS_HUMAN, AgentRunStatus.RETRY_WAIT] then
                  liftE (transition_run (clock s) run AgentRunStatus.SCHEDULED reason)
                    (\<lambda>(_, run) s. ret run (put_run run s)) s
                else ret run s)
               (\<lambda>run s. ret (run, step) (persist (append_event E run OPERATOR_ACTION
                  (step_args step pn ''Operator approved a bounded step retry.'' reason actor) s)))) s)"

section \<open>The watchdog\<close>

definition lease_stale :: "int \<Rightarrow> AgentRun \<Rightarrow> bool" where
  "lease_stale now run \<longleftrightarrow> (case run_lease_expires_at run of None \<Rightarrow> False | Some t \<Rightarrow> t \<le> now)"

definition recover_step ::
    "env \<Rightarrow> string \<Rightarrow> string option \<Rightarrow> AgentRun \<Rightarrow> AgentRunStep \<Rightarrow> sys \<Rightarrow> unit result" where
  "recover_step E actor expired_owner run current s =
     (let now = clock s;
          current = current\<lparr>step_lease_owner := None, step_lease_token := None,
            step_lease_expires_at := None\<rparr>;
          s = put_step current s;
          note = (\<lambda>run current pn s. append_event E run STALE_LEASE_RECOVERED
            ((step_args current pn
               ''Watchdog recovered an expired worker lease without claiming completion.'' [] actor)
              \<lparr>arg_metadata := [(''expired_owner'', json_opt_str expired_owner)]\<rparr>) s)
      in if step_attempt_count current < step_max_attempts current then
           liftE (transition_step now current AgentRunStepStatus.RETRY_WAIT ''Worker lease expired.'')
             (\<lambda>(pn, current) s.
                let current = current\<lparr>step_next_retry_at := Some now\<rparr>; s = put_step current s in
                if run_status run = AgentRunStatus.RUNNING then
                  liftE (transition_run now run AgentRunStatus.RETRY_WAIT ''Worker lease expired.'')
                    (\<lambda>(_, run) s. ret () (note run current pn (put_run run s))) s
                else ret () (note run current pn s)) s
         else
           liftE (transition_step now current AgentRunStepStatus.NEEDS_HUMAN
               ''Worker lease expired and retry budget is exhausted.'')
             (\<lambda>(pn, current) s.
                let s = put_step current s in
                if run_status run \<in> set [AgentRunStatus.RUNNING, AgentRunStatus.RETRY_WAIT] then
                  liftE (transition_run now run AgentRunStatus.NEEDS_HUMAN (step_reason current))
                    (\<lambda>(_, run) s. ret () (note run current pn (put_run run s))) s
                else ret () (note run current pn s)) s)"

fun recover_runs :: "env \<Rightarrow> string \<Rightarrow> AgentRun list \<Rightarrow> nat \<Rightarrow> sys \<Rightarrow> nat result" where
  "recover_runs E actor [] recovered s = ret recovered s"
| "recover_runs E actor (run # rest) recovered s =
     (if \<not> lease_stale (clock s) run then recover_runs E actor rest recovered s
      else
        let expired_owner = run_lease_owner run;
            run = run\<lparr>run_lease_owner := None, run_lease_token := None,
              run_lease_expires_at := None, run_heartbeat_at := None\<rparr>;
            s = put_run run s
        in bindE
          (case current_step run s of
             None \<Rightarrow> ret () s
           | Some current \<Rightarrow>
               if step_status current = AgentRunStepStatus.RUNNING
               then recover_step E actor expired_owner run current s
               else ret () s)
          (\<lambda>_ s. recover_runs E actor rest (Suc recovered) s))"

definition recover_stale_leases :: "env \<Rightarrow> string \<Rightarrow> sys \<Rightarrow> nat result" where
  "recover_stale_leases E actor s =
     bindE (recover_runs E actor (dict_vals (agent_runs s)) 0 s)
       (\<lambda>recovered s.
          if recovered \<noteq> 0 then
            ret recovered (persist (add_audit E ''agent_run.stale_leases_recovered'' ''agent_runs''
              [(''count'', JInt (int recovered))] actor s))
          else ret recovered s)"

section \<open>Executing the next step\<close>

text \<open>What the executor does: it returns a result or raises, and it may change the store.\<close>

datatype step_outcome =
    Result AgentRunStepExecutionResult
  | InjectedFault AgentRunFaultConfig
  | Exn string string

type_synonym executor = "AgentRun \<Rightarrow> AgentRunStep \<Rightarrow> int \<Rightarrow> sys \<Rightarrow> step_outcome \<times> sys"

definition plain_result :: "bool \<Rightarrow> VerificationDecision \<Rightarrow> string \<Rightarrow> AgentRunStepExecutionResult" where
  "plain_result success decision reason =
     \<lparr>res_success = success, res_decision = decision, res_reason = reason, res_evidence = [],
      res_output_reference = None\<rparr>"

definition classify_injected_fault :: "AgentRunFaultConfig \<Rightarrow> AgentRunStepExecutionResult" where
  "classify_injected_fault fault =
     classify_execution_result False
       (str_or (fault_message fault) (default_fault_reason (fault_kind fault)))
       [(''fault_kind'', JStr (AgentRunFaultKind_value (fault_kind fault)))] False"

text \<open>
  The first part ends early with a result when no step is due yet, and otherwise hands over the
  run and the step it has put to \<open>RUNNING\<close> under the lease.
\<close>

definition begin_attempt ::
    "env \<Rightarrow> AgentRun \<Rightarrow> AgentRunStep \<Rightarrow> string \<Rightarrow> string \<Rightarrow> sys \<Rightarrow> (AgentRun \<times> AgentRunStep) result" where
  "begin_attempt E run step worker_id lease_token s =
     liftE (transition_step (clock s) step AgentRunStepStatus.RUNNING [])
       (\<lambda>(pn, step) s.
          let now = clock s;
              step = step\<lparr>step_lease_owner := Some worker_id, step_lease_token := Some lease_token,
                step_lease_expires_at := run_lease_expires_at run, step_heartbeat_at := Some now\<rparr>;
              run = run\<lparr>run_current_step_id := Some (step_id step),
                run_current_step_index := step_sequence step\<rparr>;
              s = put_run run (put_step step s)
          in bindE
            (if run_status run \<in> set [AgentRunStatus.SCHEDULED, AgentRunStatus.RETRY_WAIT] then
               liftE (transition_run now run AgentRunStatus.RUNNING [])
                 (\<lambda>(rpn, run) s. ret run (append_event E run RUN_STATE_CHANGED
                    (run_args rpn ''Mission Control worker started or resumed execution.'' [] worker_id)
                    (put_run run s))) s
             else ret run s)
            (\<lambda>run s. ret (run, step) (persist (append_event E run STEP_STARTED
               ((step_args step pn
                   (''Executing '' @ AgentRunStepType_value (step_type step) @ ''.'') [] worker_id)
                 \<lparr>arg_input_hash := Some (canonical_evidence_hash E (JObj
                    [(''run_id'', JStr (run_id run)), (''task_id'', JStr (run_task_id run)),
                     (''step_type'', JStr (AgentRunStepType_value (step_type step))),
                     (''attempt'', JInt (step_attempt_count step))])),
                  arg_metadata := [(''idempotency_key'', JStr (step_idempotency_key step))]\<rparr>) s)))) s"

definition start_step ::
    "env \<Rightarrow> string \<Rightarrow> string \<Rightarrow> int \<Rightarrow> sys \<Rightarrow>
      (AgentRunStepExecutionResult + AgentRun \<times> AgentRunStep) result" where
  "start_step E rid worker_id lease_seconds s =
     (case dict_get (agent_runs s) rid of
        None \<Rightarrow> raise (ValueError ''Agent run not found.'') s
      | Some run \<Rightarrow>
          if run_status run \<in> set [AgentRunStatus.BLOCKED, AgentRunStatus.SUCCEEDED,
               AgentRunStatus.FAILED, AgentRunStatus.CANCELLED] then
            raise (AgentRunConflict (''Terminal run cannot execute: '' @
              AgentRunStatus_value (run_status run) @ ''.'')) s
          else if run_pause_requested run \<or> run_status run = AgentRunStatus.PAUSED then
            raise (AgentRunConflict ''Paused run cannot execute until resumed.'') s
          else if run_cancel_requested run then
            bindE (cancel_agent_run E run worker_id ''Cancellation was already requested.'' s)
              (\<lambda>_ s. raise (AgentRunConflict ''Cancelled run cannot execute.'') s)
          else
            bindE (acquire_run_lease E run worker_id lease_seconds s)
              (\<lambda>(lease_token, run) s. bindE (ready_step E run s)
                (\<lambda>ready s.
                  case ready of
                    None \<Rightarrow>
                      let (run, s) = release_run_lease E run worker_id (Some lease_token) s in
                      if run_status run = AgentRunStatus.RETRY_WAIT then
                        ret (Inl (plain_result False VerificationDecision.RETRY_TRANSIENT
                          ''No step is ready because retry backoff has not elapsed.'')) s
                      else raise (AgentRunConflict ''No executable step is ready.'') s
                  | Some step \<Rightarrow>
                      if step_status step = AgentRunStepStatus.SUCCEEDED then
                        let s = append_event E run DUPLICATE_DELIVERY_IGNORED
                              (no_args\<lparr>arg_step := Some step,
                                 arg_message :=
                                   ''Duplicate step delivery ignored because the step already succeeded.'',
                                 arg_actor := worker_id\<rparr>) s;
                            (run, s) = release_run_lease E run worker_id (Some lease_token) s
                        in ret (Inl ((plain_result True VerificationDecision.PASS
                             ''Duplicate delivery ignored; verified step result already exists.'')
                             \<lparr>res_evidence := step_evidence step,
                              res_output_reference := step_output_reference step\<rparr>)) s
                      else bindE (begin_attempt E run step worker_id lease_token s)
                             (\<lambda>rs s. ret (Inr rs) s))))"

text \<open>
  The executor's call, inside the \<open>try\<close>: a configured fault is raised before it, and every
  exception becomes a classified result.
\<close>

definition run_executor ::
    "env \<Rightarrow> AgentRun \<Rightarrow> AgentRunStep \<Rightarrow> string \<Rightarrow> int \<Rightarrow> executor \<Rightarrow> sys \<Rightarrow>
      AgentRunStepExecutionResult \<times> sys" where
  "run_executor E run step worker_id timeout_seconds executor s =
     (let (fault, s) = consume_fault (run_id run) (step_type step) s;
          (outcome, s) = (case fault of Some f \<Rightarrow> (InjectedFault f, s)
                          | None \<Rightarrow> executor run step timeout_seconds s)
      in case outcome of
           Result res \<Rightarrow> (res, s)
         | InjectedFault f \<Rightarrow>
             (classify_injected_fault f,
              append_event E run FAULT_INJECTED
                (no_args\<lparr>arg_step := Some step,
                   arg_message := ''Controlled fault was injected for reliability validation.'',
                   arg_reason := fault_message_text f, arg_actor := worker_id,
                   arg_metadata := [(''fault_kind'', JStr (AgentRunFaultKind_value (fault_kind f)))]\<rparr>) s)
         | Exn exn_type message \<Rightarrow>
             (classify_execution_result False message [(''exception_type'', JStr exn_type)] False, s))"

text \<open>After the executor, the run and step are what the store holds now.\<close>

definition run_now :: "AgentRun \<Rightarrow> sys \<Rightarrow> AgentRun" where
  "run_now run s = (case dict_get (agent_runs s) (run_id run) of None \<Rightarrow> run | Some r \<Rightarrow> r)"

definition step_now :: "AgentRunStep \<Rightarrow> sys \<Rightarrow> AgentRunStep" where
  "step_now step s = (case dict_get (agent_run_steps s) (step_id step) of None \<Rightarrow> step | Some x \<Rightarrow> x)"

definition finish_step ::
    "env \<Rightarrow> AgentRun \<Rightarrow> AgentRunStep \<Rightarrow> AgentRunStepExecutionResult \<Rightarrow> string \<Rightarrow> sys \<Rightarrow>
      AgentRunStepExecutionResult result" where
  "finish_step E run step res worker_id s =
     bindE (apply_execution_result E (run_now run s) (step_now step s) res worker_id s)
       (\<lambda>(run, step) s.
          let step = step\<lparr>step_lease_owner := None, step_lease_token := None,
                step_lease_expires_at := None\<rparr>;
              run = run\<lparr>run_lease_owner := None, run_lease_token := None,
                run_lease_expires_at := None, run_updated_at := clock s\<rparr>;
              s = add_audit E ''agent_run.step_completed'' (run_id run)
                [(''task_id'', JStr (run_task_id run)), (''step_id'', JStr (step_id step)),
                 (''step_type'', JStr (AgentRunStepType_value (step_type step))),
                 (''decision'', JStr (VerificationDecision_value (res_decision res))),
                 (''run_status'', JStr (AgentRunStatus_value (run_status run))),
                 (''attempt_count'', JInt (step_attempt_count step)),
                 (''evidence_hash'', json_opt_str (step_evidence_hash step))]
                worker_id (put_run run (put_step step s))
          in ret res (persist s))"

definition execute_next_step ::
    "env \<Rightarrow> string \<Rightarrow> string \<Rightarrow> int \<Rightarrow> int \<Rightarrow> executor \<Rightarrow> sys \<Rightarrow> AgentRunStepExecutionResult result" where
  "execute_next_step E rid worker_id lease_seconds timeout_seconds executor s =
     bindE (start_step E rid worker_id lease_seconds s)
       (\<lambda>started s.
          case started of
            Inl res \<Rightarrow> ret res s
          | Inr (run, step) \<Rightarrow>
              let (res, s) = run_executor E run step worker_id timeout_seconds executor s
              in finish_step E run step res worker_id s)"

section \<open>Recomputing the status\<close>

definition recompute_run_status :: "AgentRun \<Rightarrow> sys \<Rightarrow> AgentRunStatus \<times> sys" where
  "recompute_run_status run s =
     (let derived = derive_run_status (run_steps (run_id run) s) (run_pause_requested run)
            (run_cancel_requested run) in
      if derived \<noteq> run_status run then
        case transition_run (clock s) run derived [] of
          Inr (_, run) \<Rightarrow> (run_status run, put_run run s)
        | Inl _ \<Rightarrow>
            let run = run\<lparr>run_status := derived, run_updated_at := clock s\<rparr>
            in (run_status run, put_run run s)
      else (run_status run, s))"

section \<open>The routes' guards\<close>

definition MAX_VALIDATION_COMMANDS :: int where
  "MAX_VALIDATION_COMMANDS = 12"

definition safe_lease_seconds :: "int \<Rightarrow> int \<Rightarrow> sys \<Rightarrow> int result" where
  "safe_lease_seconds lease_seconds timeout_seconds s =
     (let required = timeout_seconds * MAX_VALIDATION_COMMANDS + 60 in
      if required > 3600 then
        raise (HTTPException 422 (''timeout_seconds is too large for the bounded Mission Control lease. '' @
          ''Maximum safe value is '' @ int_str ((3600 - 60) div MAX_VALIDATION_COMMANDS) @ ''.'')) s
      else ret (max lease_seconds required) s)"

definition at_step_boundary :: "AgentRun \<Rightarrow> sys \<Rightarrow> bool" where
  "at_step_boundary run s \<longleftrightarrow>
     (case current_step run s of None \<Rightarrow> True | Some step \<Rightarrow> step_status step \<noteq> AgentRunStepStatus.RUNNING)
     \<and> run_lease_owner run = None \<and> run_lease_token run = None"

definition require_step_boundary :: "AgentRun \<Rightarrow> string \<Rightarrow> sys \<Rightarrow> unit result" where
  "require_step_boundary run action s =
     (if \<not> at_step_boundary run s then
        raise (HTTPException 409 (''Cannot '' @ action @ '' while a governed step is in flight. '' @
          ''Wait for the step boundary or recover an expired lease first.'')) s
      else ret () s)"

text \<open>The route turns the supervisor's conflict into a 409; any other exception passes.\<close>

definition conflict_409 :: "'a result \<Rightarrow> 'a result" where
  "conflict_409 r =
     (case r of (Inl (AgentRunConflict m), s) \<Rightarrow> (Inl (HTTPException 409 m), s) | _ \<Rightarrow> r)"

definition run_or_404 :: "string \<Rightarrow> sys \<Rightarrow> AgentRun result" where
  "run_or_404 rid s =
     (case dict_get (agent_runs s) rid of
        None \<Rightarrow> raise (HTTPException 404 ''Agent run not found'') s
      | Some run \<Rightarrow> ret run s)"

definition pause_run :: "env \<Rightarrow> string \<Rightarrow> string \<Rightarrow> string \<Rightarrow> sys \<Rightarrow> AgentRun result" where
  "pause_run E rid actor reason s =
     bindE (run_or_404 rid s) (\<lambda>run s. bindE (require_step_boundary run ''pause the run'' s)
       (\<lambda>_ s. conflict_409 (pause_agent_run E run actor reason s)))"

definition resume_run :: "env \<Rightarrow> string \<Rightarrow> string \<Rightarrow> string \<Rightarrow> sys \<Rightarrow> AgentRun result" where
  "resume_run E rid actor reason s =
     bindE (run_or_404 rid s) (\<lambda>run s. conflict_409 (resume_agent_run E run actor reason s))"

definition cancel_run :: "env \<Rightarrow> string \<Rightarrow> string \<Rightarrow> string \<Rightarrow> sys \<Rightarrow> AgentRun result" where
  "cancel_run E rid actor reason s =
     bindE (run_or_404 rid s) (\<lambda>run s. bindE (require_step_boundary run ''cancel the run'' s)
       (\<lambda>_ s. conflict_409 (cancel_agent_run E run actor reason s)))"

definition retry_run ::
    "env \<Rightarrow> string \<Rightarrow> string option \<Rightarrow> string \<Rightarrow> string \<Rightarrow> sys \<Rightarrow> (AgentRun \<times> AgentRunStep) result" where
  "retry_run E rid requested_step actor reason s =
     bindE (run_or_404 rid s) (\<lambda>run s.
       if run_status run \<in> set TERMINAL_RUN_STATUSES then
         raise (HTTPException 409 (''Terminal run '' @ AgentRunStatus_value (run_status run) @
           '' cannot be retried. Create a revised approval and a new run instead.'')) s
       else bindE
         (if truthy requested_step then
            (case dict_get (agent_run_steps s) (opt_str requested_step) of
               None \<Rightarrow> raise (HTTPException 404 ''Agent run step not found'') s
             | Some step \<Rightarrow> ret step s)
          else
            (case current_step run s of
               None \<Rightarrow> raise (HTTPException 409 ''Run has no current step to retry'') s
             | Some step \<Rightarrow> ret step s))
         (\<lambda>step s.
            if step_status step \<in> set [AgentRunStepStatus.RUNNING, AgentRunStepStatus.BLOCKED,
                 AgentRunStepStatus.SUCCEEDED, AgentRunStepStatus.FAILED,
                 AgentRunStepStatus.CANCELLED, AgentRunStepStatus.SKIPPED] then
              raise (HTTPException 409 (''Step '' @ AgentRunStepStatus_value (step_status step) @
                '' is not eligible for bounded retry.'')) s
            else conflict_409 (retry_agent_run_step E run step actor reason s)))"

definition heartbeat_agent_run :: "env \<Rightarrow> string \<Rightarrow> string \<Rightarrow> string \<Rightarrow> int \<Rightarrow> sys \<Rightarrow> AgentRun result" where
  "heartbeat_agent_run E rid worker_id lease_token lease_seconds s =
     bindE (run_or_404 rid s)
       (\<lambda>run s. conflict_409 (heartbeat_run E run worker_id lease_token lease_seconds s))"

end
