(* ===== verification/MissionInvariant.thy ===== *)
theory MissionInvariant
  imports RunExecution
begin

text \<open>
  The invariant of Mission Control's runs and steps, and the primitive updates that keep it. For
  every run in the store: its steps have distinct sequence numbers; they have succeeded up to a
  frontier step, behind which every step is still pending, or every one is cancelled; a terminal
  run has no live step, a succeeded one only succeeded steps, and only a cancelled one has
  cancelled steps; and a step waits for an automatic retry only within its attempt budget.
\<close>

section \<open>The shape of a pipeline\<close>

definition homogeneous :: "AgentRunStepStatus list \<Rightarrow> bool" where
  "homogeneous xs \<longleftrightarrow> list_all (\<lambda>x. x = AgentRunStepStatus.PENDING) xs
     \<or> list_all (\<lambda>x. x = AgentRunStepStatus.CANCELLED) xs"

fun shape :: "AgentRunStepStatus list \<Rightarrow> bool" where
  "shape [] = True"
| "shape (x # xs) = (if x = AgentRunStepStatus.SUCCEEDED then shape xs else homogeneous xs)"

lemma homogeneous_shape: "homogeneous xs \<Longrightarrow> shape xs"
  by (cases xs) (auto simp: homogeneous_def)

lemma shape_frontier:
  assumes "shape (a @ x # b)" "x \<notin> {AgentRunStepStatus.SUCCEEDED, AgentRunStepStatus.PENDING, AgentRunStepStatus.CANCELLED}"
  shows "list_all (\<lambda>y. y = AgentRunStepStatus.SUCCEEDED) a" "homogeneous b"
  using assms by (induction a) (auto simp: homogeneous_def split: if_splits)

lemma shape_replace:
  assumes "list_all (\<lambda>y. y = AgentRunStepStatus.SUCCEEDED) a" "homogeneous b"
  shows "shape (a @ x # b)"
  using assms(1) by (induction a) (use assms(2) in \<open>auto simp: homogeneous_shape\<close>)

lemma shape_all_SUCCEEDED: "list_all (\<lambda>y. y = AgentRunStepStatus.SUCCEEDED) a \<Longrightarrow> shape (a @ b) = shape b"
  by (induction a) auto

lemma shape_cancel:
  assumes "shape xs"
    and c: "\<And>x. c x = (if x \<in> set TERMINAL_STEP_STATUSES then x else AgentRunStepStatus.CANCELLED)"
  shows "shape (map c xs)"
  using assms(1)
proof (induction xs)
  case Nil
  then show ?case by simp
next
  case (Cons x xs)
  have S: "c AgentRunStepStatus.SUCCEEDED = AgentRunStepStatus.SUCCEEDED"
    by (simp add: c TERMINAL_STEP_STATUSES_def)
  show ?case
  proof (cases "x = AgentRunStepStatus.SUCCEEDED")
    case True
    with Cons S show ?thesis by simp
  next
    case False
    then have "homogeneous xs" using Cons.prems by simp
    then have "homogeneous (map c xs)"
      by (auto simp: homogeneous_def list_all_iff c TERMINAL_STEP_STATUSES_def)
    moreover have "c x \<noteq> AgentRunStepStatus.SUCCEEDED" using False by (simp add: c)
    ultimately show ?thesis by simp
  qed
qed

section \<open>The invariant\<close>

definition retry_in_budget :: "AgentRunStep \<Rightarrow> bool" where
  "retry_in_budget st \<longleftrightarrow>
     (step_status st = AgentRunStepStatus.RETRY_WAIT \<longrightarrow> step_attempt_count st < step_max_attempts st)"

definition run_ok :: "AgentRunStatus \<Rightarrow> AgentRunStep list \<Rightarrow> bool" where
  "run_ok status L \<longleftrightarrow>
     distinct (map step_sequence L) \<and> shape (map step_status L)
     \<and> (run_terminal status \<longrightarrow> list_all (\<lambda>st. \<not> step_live (step_status st)) L)
     \<and> (status = AgentRunStatus.SUCCEEDED \<longrightarrow>
          list_all (\<lambda>st. step_status st = AgentRunStepStatus.SUCCEEDED) L)
     \<and> (list_ex (\<lambda>st. step_status st = AgentRunStepStatus.CANCELLED) L \<longrightarrow>
          status = AgentRunStatus.CANCELLED)
     \<and> list_all retry_in_budget L"

definition mission_inv :: "sys \<Rightarrow> bool" where
  "mission_inv s \<longleftrightarrow>
     keyed run_id (agent_runs s) \<and> keyed step_id (agent_run_steps s)
     \<and> (\<forall>st \<in> set (dict_vals (agent_run_steps s)). dict_get (agent_runs s) (step_run_id st) \<noteq> None)
     \<and> (\<forall>r \<in> set (dict_vals (agent_runs s)). run_ok (run_status r) (run_steps (run_id r) s))"

text \<open>
  The executions in flight: for a run under execution, the step its worker was given, which is
  one of the run's steps, was started, and has not succeeded yet.
\<close>

definition flight_ok :: "(string \<times> string) list \<Rightarrow> sys \<Rightarrow> bool" where
  "flight_ok F s \<longleftrightarrow> distinct (map fst F) \<and>
     (\<forall>(rid, sid) \<in> set F. dict_get (agent_runs s) rid \<noteq> None \<and>
        (\<exists>st. dict_get (agent_run_steps s) sid = Some st \<and> step_run_id st = rid
           \<and> step_status st \<noteq> AgentRunStepStatus.PENDING
           \<and> step_status st \<noteq> AgentRunStepStatus.SUCCEEDED))"

text \<open>
  Besides the executions in flight, an observer may have noted terminal runs and terminal steps:
  they are never revived, so what was noted stays true.
\<close>

definition frozen_ok :: "(string \<times> AgentRunStatus) list \<Rightarrow> (string \<times> AgentRunStepStatus) list \<Rightarrow> sys \<Rightarrow> bool" where
  "frozen_ok R S s \<longleftrightarrow>
     (\<forall>(rid, status) \<in> set R. run_terminal status \<and>
        (\<exists>r. dict_get (agent_runs s) rid = Some r \<and> run_status r = status)) \<and>
     (\<forall>(sid, status) \<in> set S. status \<in> set TERMINAL_STEP_STATUSES \<and>
        (\<exists>st. dict_get (agent_run_steps s) sid = Some st \<and> step_status st = status))"

record watch =
  flights :: "(string \<times> string) list"
  frozen_runs :: "(string \<times> AgentRunStatus) list"
  frozen_steps :: "(string \<times> AgentRunStepStatus) list"

definition minv :: "watch \<Rightarrow> sys \<Rightarrow> bool" where
  "minv F s \<longleftrightarrow> mission_inv s \<and> flight_ok (flights F) s \<and> frozen_ok (frozen_runs F) (frozen_steps F) s"

definition cur_run :: "AgentRun \<Rightarrow> sys \<Rightarrow> bool" where
  "cur_run r s \<longleftrightarrow> dict_get (agent_runs s) (run_id r) = Some r"

definition cur_step :: "AgentRunStep \<Rightarrow> sys \<Rightarrow> bool" where
  "cur_step st s \<longleftrightarrow> dict_get (agent_run_steps s) (step_id st) = Some st"

text \<open>Only the two dictionaries matter.\<close>

lemma minv_cong:
  assumes "agent_runs s' = agent_runs s" "agent_run_steps s' = agent_run_steps s"
  shows "minv F s' = minv F s" "cur_run r s' = cur_run r s" "cur_step st s' = cur_step st s"
    "run_steps rid s' = run_steps rid s" "current_step r s' = current_step r s"
  using assms by (simp_all add: minv_def mission_inv_def flight_ok_def frozen_ok_def run_steps_def cur_run_def
      cur_step_def current_step_def)

lemma append_event_frame [simp]:
  "agent_runs (append_event E r ty a s) = agent_runs s"
  "agent_run_steps (append_event E r ty a s) = agent_run_steps s"
  "agent_tasks (append_event E r ty a s) = agent_tasks s"
  "agent_run_faults (append_event E r ty a s) = agent_run_faults s"
  "clock (append_event E r ty a s) = clock s"
  "disk (append_event E r ty a s) = disk s"
  by (simp_all add: append_event_def)

lemma minv_frame [simp]:
  "minv F (append_event E r ty a s) = minv F s"
  "minv F (persist s) = minv F s"
  "minv F (drawn s) = minv F s"
  "minv F (add_audit E ev ent d ac s) = minv F s"
  "cur_run q (append_event E r ty a s) = cur_run q s"
  "cur_run q (persist s) = cur_run q s"
  "cur_run q (drawn s) = cur_run q s"
  "cur_run q (put_step x s) = cur_run q s"
  "cur_step x (append_event E r ty a s) = cur_step x s"
  "cur_step x (persist s) = cur_step x s"
  "cur_step x (drawn s) = cur_step x s"
  "cur_step x (put_run q s) = cur_step x s"
  "run_steps rid (append_event E r ty a s) = run_steps rid s"
  "run_steps rid (persist s) = run_steps rid s"
  "run_steps rid (drawn s) = run_steps rid s"
  "run_steps rid (put_run q s) = run_steps rid s"
  "current_step q (append_event E r ty a s) = current_step q s"
  "current_step q (persist s) = current_step q s"
  "current_step q (drawn s) = current_step q s"
  "current_step q (put_run q' s) = current_step q s"
  by (simp_all add: minv_def mission_inv_def flight_ok_def frozen_ok_def run_steps_def cur_run_def cur_step_def
      current_step_def)

lemma cur_put [simp]: "cur_run r (put_run r s)" "cur_step st (put_step st s)"
  by (simp_all add: cur_run_def cur_step_def)

section \<open>Replacing a step\<close>

lemma run_steps_mem:
  "keyed step_id (agent_run_steps s) \<Longrightarrow>
     st \<in> set (run_steps rid s) \<longleftrightarrow> dict_get (agent_run_steps s) (step_id st) = Some st \<and> step_run_id st = rid"
  by (auto simp: run_steps_def steps.get_iff)

lemma run_steps_put:
  assumes k: "keyed step_id (agent_run_steps s)"
    and g: "dict_get (agent_run_steps s) (step_id st') = Some st"
    and e: "step_run_id st' = step_run_id st" "step_sequence st' = step_sequence st"
  shows "run_steps rid (put_step st' s) =
     map (\<lambda>y. if step_id y = step_id st' then st' else y) (run_steps rid s)"
proof -
  let ?g = "\<lambda>y. if step_id y = step_id st' then st' else y"
  let ?f = "filter (\<lambda>step. step_run_id step = rid)"
  have "?f (dict_vals (dict_set (step_id st') st' (agent_run_steps s))) =
      map ?g (?f (dict_vals (agent_run_steps s)))"
    by (rule steps.filter_put_old [OF k g]) (simp add: e)
  moreover
  have seq: "step_sequence (?g y) = step_sequence y"
    if "y \<in> set (?f (dict_vals (agent_run_steps s)))" for y
    using that steps.get_self [OF k, of y] g e by auto
  have "sort_key step_sequence (map ?g (?f (dict_vals (agent_run_steps s)))) =
      map ?g (sort_key step_sequence (?f (dict_vals (agent_run_steps s))))"
    by (rule sort_key_map) (rule seq)
  ultimately show ?thesis unfolding run_steps_def by simp
qed

lemma run_steps_put_split:
  assumes k: "keyed step_id (agent_run_steps s)"
    and g: "dict_get (agent_run_steps s) (step_id st') = Some st"
    and e: "step_run_id st' = step_run_id st" "step_sequence st' = step_sequence st"
    and d: "distinct (map step_sequence (run_steps (step_run_id st) s))"
  obtains pre post where "run_steps (step_run_id st) s = pre @ st # post"
    "run_steps (step_run_id st) (put_step st' s) = pre @ st' # post"
proof -
  have i: "step_id st = step_id st'" using steps.get_key [OF k g] .
  then have "st \<in> set (run_steps (step_run_id st) s)" using g run_steps_mem [OF k] by simp
  then obtain pre post where L: "run_steps (step_run_id st) s = pre @ st # post"
    by (meson split_list)
  have "step_id y \<noteq> step_id st'" if "y \<in> set pre \<union> set post" for y
  proof
    assume y: "step_id y = step_id st'"
    from that L have "y \<in> set (run_steps (step_run_id st) s)" by auto
    then have "y = st" using run_steps_mem [OF k] g y by simp
    with that d L show False by auto
  qed
  then have "map (\<lambda>y. if step_id y = step_id st' then st' else y) (pre @ st # post) = pre @ st' # post"
    using i by (simp add: map_idI)
  with that L run_steps_put [OF k g e, of "step_run_id st"] show ?thesis by simp
qed

lemma run_steps_put_other:
  assumes "keyed step_id (agent_run_steps s)"
    "dict_get (agent_run_steps s) (step_id st') = Some st"
    "step_run_id st' = step_run_id st" "step_sequence st' = step_sequence st" "rid \<noteq> step_run_id st"
  shows "run_steps rid (put_step st' s) = run_steps rid s"
proof -
  have "step_id y \<noteq> step_id st'" if "y \<in> set (run_steps rid s)" for y
    using that run_steps_mem [OF assms(1)] assms(2,5) by auto
  then show ?thesis using run_steps_put [OF assms(1-4), of rid] by (simp add: map_idI)
qed

text \<open>The general rule for writing a step back: only its own run has to be looked at again.\<close>

lemma minv_put_step:
  assumes I: "minv F s"
    and g: "dict_get (agent_run_steps s) (step_id st') = Some st"
    and e: "step_run_id st' = step_run_id st" "step_sequence st' = step_sequence st"
    and ok: "\<And>r pre post. dict_get (agent_runs s) (step_run_id st) = Some r \<Longrightarrow>
      run_steps (step_run_id st) s = pre @ st # post \<Longrightarrow>
      run_ok (run_status r) (pre @ st # post) \<Longrightarrow> run_ok (run_status r) (pre @ st' # post)"
    and fl: "step_status st' \<notin> {AgentRunStepStatus.PENDING, AgentRunStepStatus.SUCCEEDED}
      \<or> step_status st' = step_status st \<or> step_run_id st \<notin> fst ` set (flights F)"
    and stays: "step_status st \<in> set TERMINAL_STEP_STATUSES \<longrightarrow> step_status st' = step_status st"
  shows "minv F (put_step st' s)"
proof -
  have k: "keyed step_id (agent_run_steps s)" and kr: "keyed run_id (agent_runs s)"
    and own: "\<And>x. x \<in> set (dict_vals (agent_run_steps s)) \<Longrightarrow> dict_get (agent_runs s) (step_run_id x) \<noteq> None"
    and runs: "\<And>r. r \<in> set (dict_vals (agent_runs s)) \<Longrightarrow> run_ok (run_status r) (run_steps (run_id r) s)"
    using I by (auto simp: minv_def mission_inv_def)
  have i: "step_id st = step_id st'" using steps.get_key [OF k g] .
  have mem: "st \<in> set (dict_vals (agent_run_steps s))" using steps.get_mem [OF k g] .
  have "run_ok (run_status r) (run_steps (run_id r) (put_step st' s))"
    if r: "r \<in> set (dict_vals (agent_runs s))" for r
  proof (cases "run_id r = step_run_id st")
    case True
    have d: "distinct (map step_sequence (run_steps (step_run_id st) s))"
      using runs [OF r] True by (simp add: run_ok_def)
    obtain pre post where L: "run_steps (step_run_id st) s = pre @ st # post"
      "run_steps (step_run_id st) (put_step st' s) = pre @ st' # post"
      using run_steps_put_split [OF k g e d] .
    have "dict_get (agent_runs s) (step_run_id st) = Some r" using runs.get_self [OF kr r] True by simp
    from ok [OF this L(1)] runs [OF r] L True show ?thesis by simp
  next
    case False
    then show ?thesis using runs [OF r] run_steps_put_other [OF k g e] by simp
  qed
  moreover have "dict_get (agent_runs s) (step_run_id x) \<noteq> None"
    if "x \<in> set (dict_vals (dict_set (step_id st') st' (agent_run_steps s)))" for x
    using that own own [OF mem] e steps.in_vals_put [OF k, of x st'] by auto
  ultimately have "mission_inv (put_step st' s)"
    using kr steps.wf_put [OF k] by (auto simp: mission_inv_def)
  moreover have "flight_ok (flights F) (put_step st' s)"
  proof -
    have F: "distinct (map fst (flights F))" and old: "\<And>rid sid. (rid, sid) \<in> set (flights F) \<Longrightarrow>
        dict_get (agent_runs s) rid \<noteq> None \<and>
        (\<exists>x. dict_get (agent_run_steps s) sid = Some x \<and> step_run_id x = rid
           \<and> step_status x \<noteq> AgentRunStepStatus.PENDING \<and> step_status x \<noteq> AgentRunStepStatus.SUCCEEDED)"
      using I by (auto simp: minv_def flight_ok_def)
    have "\<exists>x. dict_get (agent_run_steps (put_step st' s)) sid = Some x \<and> step_run_id x = rid
           \<and> step_status x \<noteq> AgentRunStepStatus.PENDING \<and> step_status x \<noteq> AgentRunStepStatus.SUCCEEDED"
      if m: "(rid, sid) \<in> set (flights F)" for rid sid
    proof (cases "sid = step_id st'")
      case True
      with old [OF m] g have "step_run_id st = rid" "step_status st \<noteq> AgentRunStepStatus.PENDING"
        "step_status st \<noteq> AgentRunStepStatus.SUCCEEDED" by auto
      moreover have "rid \<in> fst ` set (flights F)" using m by force
      ultimately show ?thesis using fl e True by auto
    next
      case False
      with old [OF m] show ?thesis by auto
    qed
    note new = this
    show ?thesis unfolding flight_ok_def
    proof (intro conjI ballI)
      show "distinct (map fst (flights F))" by (rule F)
      fix p assume "p \<in> set (flights F)"
      with old [of "fst p" "snd p"] new [of "fst p" "snd p"]
      show "case p of (rid, sid) \<Rightarrow> dict_get (agent_runs (put_step st' s)) rid \<noteq> None \<and>
        (\<exists>x. dict_get (agent_run_steps (put_step st' s)) sid = Some x \<and> step_run_id x = rid
           \<and> step_status x \<noteq> AgentRunStepStatus.PENDING \<and> step_status x \<noteq> AgentRunStepStatus.SUCCEEDED)"
        by (cases p) simp
    qed
  qed
  moreover have "frozen_ok (frozen_runs F) (frozen_steps F) (put_step st' s)"
    using I g stays by (fastforce simp: minv_def frozen_ok_def)
  ultimately show ?thesis by (simp add: minv_def)
qed

subsection \<open>Steps\<close>

lemma run_ok_replace:
  assumes ok: "run_ok status (pre @ st # post)"
    and live: "step_live (step_status st)"
    and new: "step_live (step_status st') \<or> step_status st' \<in> {AgentRunStepStatus.BLOCKED, AgentRunStepStatus.FAILED}"
    and seq: "step_sequence st' = step_sequence st" and budget: "retry_in_budget st'"
  shows "run_ok status (pre @ st' # post)"
proof -
  have "step_status st \<notin> {AgentRunStepStatus.SUCCEEDED, AgentRunStepStatus.PENDING, AgentRunStepStatus.CANCELLED}"
    using live by auto
  moreover have "shape (map step_status pre @ step_status st # map step_status post)"
    using ok by (simp add: run_ok_def)
  ultimately have a: "list_all (\<lambda>y. y = AgentRunStepStatus.SUCCEEDED) (map step_status pre)"
    and b: "homogeneous (map step_status post)"
    using shape_frontier by metis+
  have "\<not> run_terminal status" using ok live by (auto simp: run_ok_def)
  moreover have "step_status st' \<noteq> AgentRunStepStatus.CANCELLED" using new by auto
  ultimately show ?thesis
    using ok shape_replace [OF a b, of "step_status st'"] seq budget by (auto simp: run_ok_def)
qed

lemma minv_put_live:
  assumes "minv F s" "dict_get (agent_run_steps s) (step_id st') = Some st"
    "step_run_id st' = step_run_id st" "step_sequence st' = step_sequence st"
    "step_live (step_status st)"
    "step_live (step_status st') \<or> step_status st' \<in> {AgentRunStepStatus.BLOCKED, AgentRunStepStatus.FAILED}"
    "retry_in_budget st'"
  shows "minv F (put_step st' s)"
proof (rule minv_put_step [OF assms(1-4)])
  show "run_ok (run_status r) (pre @ st' # post)"
    if "run_ok (run_status r) (pre @ st # post)" for r pre post
    using run_ok_replace [OF that assms(5,6,4,7)] .
  show "step_status st' \<notin> {AgentRunStepStatus.PENDING, AgentRunStepStatus.SUCCEEDED}
      \<or> step_status st' = step_status st \<or> step_run_id st \<notin> fst ` set (flights F)"
    using assms(6) by auto
  show "step_status st \<in> set TERMINAL_STEP_STATUSES \<longrightarrow> step_status st' = step_status st"
    using assms(5) by (simp add: step_live_def)
qed

text \<open>A change that leaves status and attempts alone: leases, evidence, reasons, timestamps.\<close>

lemma minv_put_same:
  assumes "minv F s" "dict_get (agent_run_steps s) (step_id st') = Some st"
    "step_run_id st' = step_run_id st" "step_sequence st' = step_sequence st"
    "step_status st' = step_status st" "step_attempt_count st' = step_attempt_count st"
    "step_max_attempts st' = step_max_attempts st"
  shows "minv F (put_step st' s)"
  using assms(4-7)
  by (intro minv_put_step [OF assms(1-3)]) (auto simp: run_ok_def retry_in_budget_def)

lemma minv_step_run:
  assumes "minv F s" "cur_step st s"
  obtains r pre post where "dict_get (agent_runs s) (step_run_id st) = Some r" "cur_run r s"
    "run_id r = step_run_id st" "run_steps (run_id r) s = pre @ st # post"
    "run_ok (run_status r) (pre @ st # post)"
proof -
  have k: "keyed step_id (agent_run_steps s)" "keyed run_id (agent_runs s)"
    using assms(1) by (auto simp: minv_def mission_inv_def)
  have m: "st \<in> set (dict_vals (agent_run_steps s))"
    using assms(2) steps.get_mem [OF k(1)] by (auto simp: cur_step_def)
  then obtain r where r: "dict_get (agent_runs s) (step_run_id st) = Some r"
    using assms(1) by (auto simp: minv_def mission_inv_def)
  then have i: "run_id r = step_run_id st" and rm: "r \<in> set (dict_vals (agent_runs s))"
    using runs.get_key [OF k(2)] runs.get_mem [OF k(2)] by auto
  have "st \<in> set (run_steps (run_id r) s)"
    using run_steps_mem [OF k(1)] assms(2) i by (simp add: cur_step_def)
  then obtain pre post where L: "run_steps (run_id r) s = pre @ st # post" by (meson split_list)
  moreover have "run_ok (run_status r) (run_steps (run_id r) s)"
    using assms(1) rm by (auto simp: minv_def mission_inv_def)
  ultimately show ?thesis using that [OF r] r i by (simp add: cur_run_def)
qed

lemma minv_run_ok:
  "minv F s \<Longrightarrow> cur_run r s \<Longrightarrow> run_ok (run_status r) (run_steps (run_id r) s)"
  unfolding minv_def mission_inv_def cur_run_def using runs.get_mem by blast

lemma minv_live_run:
  assumes "minv F s" "cur_step st s" "step_live (step_status st)" "cur_run r s" "run_id r = step_run_id st"
  shows "\<not> run_terminal (run_status r)"
proof -
  obtain r' pre post where "dict_get (agent_runs s) (step_run_id st) = Some r'"
    "run_ok (run_status r') (pre @ st # post)"
    using minv_step_run [OF assms(1,2)] by metis
  then show ?thesis using assms(3-5) by (auto simp: cur_run_def run_ok_def)
qed

subsection \<open>Runs\<close>

lemma minv_put_run:
  assumes I: "minv F s" and g: "dict_get (agent_runs s) (run_id r') = Some r"
    and ok: "run_ok (run_status r) (run_steps (run_id r') s) \<Longrightarrow> run_ok (run_status r') (run_steps (run_id r') s)"
    and stays: "run_terminal (run_status r) \<longrightarrow> run_status r' = run_status r"
  shows "minv F (put_run r' s)"
proof -
  have k: "keyed run_id (agent_runs s)" using I by (auto simp: minv_def mission_inv_def)
  have "run_id r = run_id r'" using runs.get_key [OF k g] .
  moreover have "r \<in> set (dict_vals (agent_runs s))" using runs.get_mem [OF k g] .
  ultimately have "run_ok (run_status r') (run_steps (run_id r') s)"
    using I ok by (auto simp: minv_def mission_inv_def)
  then have "mission_inv (put_run r' s)"
    using I runs.wf_put [OF k] by (auto simp: minv_def mission_inv_def runs.in_vals_put [OF k])
  moreover have "flight_ok (flights F) (put_run r' s)"
    using I by (auto simp: minv_def flight_ok_def)
  moreover have "frozen_ok (frozen_runs F) (frozen_steps F) (put_run r' s)"
    using I g stays by (fastforce simp: minv_def frozen_ok_def)
  ultimately show ?thesis by (simp add: minv_def)
qed

lemma minv_put_run_same:
  "minv F s \<Longrightarrow> dict_get (agent_runs s) (run_id r') = Some r \<Longrightarrow> run_status r' = run_status r \<Longrightarrow>
     minv F (put_run r' s)"
  by (erule (1) minv_put_run) auto

lemma run_ok_nonterminal:
  "run_ok st L \<Longrightarrow> \<not> run_terminal st \<Longrightarrow> \<not> run_terminal st' \<Longrightarrow> run_ok st' L"
  by (auto simp: run_ok_def)

lemma minv_put_run_open:
  "minv F s \<Longrightarrow> dict_get (agent_runs s) (run_id r') = Some r \<Longrightarrow> \<not> run_terminal (run_status r) \<Longrightarrow>
     \<not> run_terminal (run_status r') \<Longrightarrow> minv F (put_run r' s)"
  by (erule (1) minv_put_run) (erule (2) run_ok_nonterminal, simp)

lemma run_ok_close:
  assumes "run_ok st L" "st' \<in> {AgentRunStatus.BLOCKED, AgentRunStatus.FAILED}" "\<not> run_terminal st"
    "list_all (\<lambda>x. \<not> step_live (step_status x)) L"
  shows "run_ok st' L"
  using assms by (auto simp: run_ok_def)

text \<open>Behind a blocked or failed step nothing is live.\<close>

lemma run_ok_no_live:
  assumes "run_ok status (pre @ st # post)"
    "step_status st \<in> {AgentRunStepStatus.BLOCKED, AgentRunStepStatus.FAILED, AgentRunStepStatus.SKIPPED}"
  shows "list_all (\<lambda>x. \<not> step_live (step_status x)) (pre @ st # post)"
proof -
  have "shape (map step_status pre @ step_status st # map step_status post)"
    using assms(1) by (simp add: run_ok_def)
  with assms(2) have "list_all (\<lambda>y. y = AgentRunStepStatus.SUCCEEDED) (map step_status pre)"
    "homogeneous (map step_status post)"
    by (auto dest: shape_frontier)
  then show ?thesis using assms(2) by (auto simp: homogeneous_def list_all_iff)
qed

end
