(* ===== verification/Samples.thy ===== *)
theory Samples
  imports Store
begin

text \<open>
  Concrete inputs for the witnesses of the properties: an environment whose identifiers and
  secrets are the decimal digits of the draw and whose digests are injective texts, an approved
  task with its approval, and a store that holds just these.
\<close>

definition sample_env :: env where
  "sample_env = \<lparr>uuid_hex12 = nat_digits, token_urlsafe = (\<lambda>n. ''t'' @ nat_digits n),
     token_hex = nat_digits, sha256 = (\<lambda>m. m), hmac_sha256 = (\<lambda>k m. k @ m),
     signing_key = ''key'', time_text = int_str, float_repr = (\<lambda>q. int_str \<lfloor>q\<rfloor>),
     trust_enforcement = True\<rparr>"

definition sample_task :: AgentTask where
  "sample_task = \<lparr>task_provider = AgentProvider.CODEX, task_project_id = Some ''p1'',
     task_title = ''Title'', task_goal = ''Goal'', task_context = [], task_source_url = None,
     task_source_session_id = None, task_source_task_id = None,
     task_requested_action = AgentTaskRequestedAction.CREATE_WORK_ORDER, task_repository = Some ''o/r'',
     task_branch_preference = Some ''feature/x'', task_risk_hint = None,
     task_requires_approval = True, task_metadata = [], task_id = ''task1'',
     task_status = AgentTaskStatus.APPROVED, task_external_agent_id = None,
     task_external_agent_name = None, task_approval_request_id = Some ''appr1'',
     task_worker_lease_owner = None, task_worker_lease_expires_at = None,
     task_worker_lease_token = None, task_created_by_user_id = None, task_created_at = 0,
     task_updated_at = 0\<rparr>"

definition sample_file :: FileChange where
  "sample_file = \<lparr>fc_path = ''src/a.py'', fc_change_type = ''modify'', fc_diff = ''+x'',
     fc_new_content = None\<rparr>"

definition sample_approval :: ApprovalRequest where
  "sample_approval = \<lparr>appr_project_id = ''p1'', appr_work_order_id = None, appr_title = ''T'',
     appr_summary = ''S'', appr_agent_name = ''A'', appr_target_branch = ''feature/x'',
     appr_files = [sample_file], appr_test_plan = [''pytest''], appr_rollback_plan = ''revert'',
     appr_source_provider = Some AgentProvider.CODEX, appr_source_agent_id = None,
     appr_source_agent_name = None, appr_source_session_id = None, appr_source_task_url = None,
     appr_id = ''appr1'', appr_status = ApprovalStatus.APPROVED,
     appr_risk = \<lparr>ra_level = RiskLevel.LOW, ra_reasons = [], ra_blocked = False, ra_required_actions = []\<rparr>,
     appr_created_by_user_id = Some ''author'', appr_verified_source = True,
     appr_approved_payload_hash = Some ''h'', appr_approved_at = Some 0,
     appr_approved_by_user_id = Some ''u1'', appr_created_at = 0, appr_updated_at = 0\<rparr>"

definition sample_store :: store where
  "sample_store = empty_store\<lparr>agent_tasks := [(''task1'', sample_task)],
     approval_requests := [(''appr1'', sample_approval)]\<rparr>"

definition sample_sys :: sys where
  "sample_sys = sys_of sample_store 1000000 0 empty_store"

definition sample_run_create :: AgentRunCreate where
  "sample_run_create = \<lparr>rc_task_id = ''task1'', rc_capability_lease_id = None,
     rc_max_attempts_per_step = 3, rc_correlation_id = Some ''c1'', rc_metadata = []\<rparr>"

lemma sample_sys_simps [simp]:
  "agent_runs sample_sys = []" "agent_run_steps sample_sys = []" "draws sample_sys = 0"
  "clock sample_sys = 1000000"
  by (simp_all add: sample_sys_def sys_of_def sample_store_def empty_store_def store.defs)

text \<open>A run with one step under execution, for the operations on a single step.\<close>

definition sample_step :: "AgentRunStepStatus \<Rightarrow> int \<Rightarrow> AgentRunStep" where
  "sample_step status attempts = \<lparr>step_id = ''s1'', step_run_id = ''r1'', step_task_id = ''task1'',
     step_sequence = 0, step_type = VALIDATE_SCOPE, step_status = status,
     step_attempt_count = attempts, step_max_attempts = 3, step_idempotency_key = ''k'',
     step_lease_owner = None, step_lease_token = None, step_lease_expires_at = None,
     step_heartbeat_at = None, step_next_retry_at = None, step_started_at = None,
     step_completed_at = None, step_duration_ms = None, step_decision = None, step_reason = [],
     step_last_error = None, step_evidence = [], step_evidence_hash = None,
     step_output_reference = None, step_created_at = 0, step_updated_at = 0\<rparr>"

definition sample_run :: "AgentRunStatus \<Rightarrow> AgentRun" where
  "sample_run status = \<lparr>run_id = ''r1'', run_task_id = ''task1'',
     run_approval_request_id = Some ''appr1'', run_capability_lease_id = None,
     run_project_id = None, run_repository = Some ''o/r'', run_objective = ''Goal'',
     run_correlation_id = ''c1'', run_status = status, run_current_step_id = Some ''s1'',
     run_current_step_index = 0, run_max_attempts_per_step = 3, run_pause_requested = False,
     run_cancel_requested = False, run_lease_owner = None, run_lease_token = None,
     run_lease_expires_at = None, run_heartbeat_at = None, run_started_at = None,
     run_completed_at = None, run_final_evidence_hash = None, run_last_error = None,
     run_metadata = [], run_created_at = 0, run_updated_at = 0\<rparr>"

definition sample_run_sys :: "AgentRunStatus \<Rightarrow> AgentRunStepStatus \<Rightarrow> int \<Rightarrow> sys" where
  "sample_run_sys rstatus sstatus attempts =
     put_step (sample_step sstatus attempts) (put_run (sample_run rstatus) sample_sys)"

definition sample_result :: "VerificationDecision \<Rightarrow> AgentRunStepExecutionResult" where
  "sample_result d = \<lparr>res_success = (d = VerificationDecision.PASS), res_decision = d,
     res_reason = ''reason'', res_evidence = [], res_output_reference = None\<rparr>"

lemma sample_step_simps [simp]:
  "step_id (sample_step st n) = ''s1''" "step_run_id (sample_step st n) = ''r1''"
  "step_status (sample_step st n) = st" "step_attempt_count (sample_step st n) = n"
  "step_max_attempts (sample_step st n) = 3" "step_sequence (sample_step st n) = 0"
  "run_id (sample_run st') = ''r1''" "run_status (sample_run st') = st'"
  "run_current_step_id (sample_run st') = Some ''s1''" "run_lease_owner (sample_run st') = None"
  "run_pause_requested (sample_run st') = False" "run_cancel_requested (sample_run st') = False"
  "run_lease_token (sample_run st') = None" "run_lease_expires_at (sample_run st') = None"
  "res_decision (sample_result d) = d"
  by (simp_all add: sample_step_def sample_run_def sample_result_def)

text \<open>The identifiers of the sample environment do not repeat.\<close>

lemma nat_digits_value: "foldl (\<lambda>a c. 10 * a + (of_char c - 48)) 0 (nat_digits n) = n"
proof (induction n rule: nat_digits.induct)
  case (1 n)
  have v: "(of_char (char_of (48 + d) :: char) :: nat) = 48 + d" if "d < 10" for d :: nat
    using that by simp
  show ?case
    using 1 v [of n] v [of "n mod 10"] by (subst nat_digits.simps) simp
qed

lemma sample_env_inj: "inj (uuid_hex12 sample_env)"
  using nat_digits_value by (auto simp: sample_env_def intro!: injI) metis

end
