(* ===== verification/ApprovalProperties.thy ===== *)
theory ApprovalProperties
  imports ApprovalRoutes MissionInvariant Samples
begin

text \<open>
  What the approval engine guarantees: how requests are classified and grouped, that approving a
  request seals its content and starts the run of the task it is linked to, and where the decision
  route departs from the table of permitted changes.
\<close>

section \<open>What creating a run leaves alone\<close>

lemma append_event_frame' [simp]:
  "approval_requests (append_event E r ty a s) = approval_requests s"
  by (simp add: append_event_def)

lemma create_run_steps_frame:
  "create_run_steps E p actor i tys r s = (r', s') \<Longrightarrow>
     run_id r' = run_id r \<and> run_task_id r' = run_task_id r \<and> run_status r' = run_status r \<and>
     agent_tasks s' = agent_tasks s \<and> approval_requests s' = approval_requests s \<and>
     (dict_get (agent_runs s) (run_id r) = Some r \<longrightarrow> dict_get (agent_runs s') (run_id r') = Some r')"
proof (induction tys arbitrary: i r s)
  case Nil
  then show ?case by simp
next
  case (Cons ty tys)
  show ?case
  proof (cases "i = 0")
    case True
    then show ?thesis using Cons.prems by (auto simp: Let_def dest!: Cons.IH)
  next
    case False
    then show ?thesis using Cons.prems by (auto simp: Let_def dest!: Cons.IH)
  qed
qed

lemma store_agent_run_frame:
  assumes "store_agent_run E p task ap actor s = (r, s')"
  shows "run_task_id r = task_id task" "run_status r = AgentRunStatus.SCHEDULED"
    "dict_get (agent_runs s') (run_id r) = Some r" "agent_tasks s' = agent_tasks s"
    "approval_requests s' = approval_requests s"
proof -
  define s1 where "s1 = (if truthy (rc_correlation_id p) then s else drawn s)"
  define co where "co = (if truthy (rc_correlation_id p) then opt_str (rc_correlation_id p)
    else ''corr_'' @ token_hex E (draws s))"
  have pair: "(if truthy (rc_correlation_id p) then (opt_str (rc_correlation_id p), s)
      else (''corr_'' @ token_hex E (draws s), drawn s)) = (co, s1)"
    by (simp add: co_def s1_def)
  obtain q s2 where q: "create_run_steps E p actor 0 DEFAULT_AGENT_RUN_STEPS (new_agent_run E p task ap co s1)
      (put_run (new_agent_run E p task ap co s1) (drawn s1)) = (q, s2)"
    by fastforce
  have s1: "agent_tasks s1 = agent_tasks s" "approval_requests s1 = approval_requests s"
    by (simp_all add: s1_def)
  have "run_task_id (new_agent_run E p task ap co s1) = task_id task"
    "run_status (new_agent_run E p task ap co s1) = AgentRunStatus.SCHEDULED"
    by (simp_all add: new_agent_run_def)
  then show "run_task_id r = task_id task" "run_status r = AgentRunStatus.SCHEDULED"
    "dict_get (agent_runs s') (run_id r) = Some r" "agent_tasks s' = agent_tasks s"
    "approval_requests s' = approval_requests s"
    using assms create_run_steps_frame [OF q] s1 unfolding store_agent_run_def pair
    by (auto simp: q)
qed

lemma open_runs_iff:
  "r \<in> set (open_runs_of tid s) \<longleftrightarrow>
     r \<in> set (dict_vals (agent_runs s)) \<and> run_task_id r = tid \<and> run_open (run_status r)"
  by (auto simp: open_runs_of_def)

lemma dict_get_vals: "dict_get d k = Some x \<Longrightarrow> x \<in> set (dict_vals d)"
  by (induction d) (auto simp: dict_vals_def split: if_splits)

text \<open>Under an approved task with an approved request, a run is always returned.\<close>

lemma create_agent_run_returns:
  assumes "dict_get (agent_tasks s) (rc_task_id p) = Some task" "task_status task = AgentTaskStatus.APPROVED"
    "dict_get (approval_requests s) (opt_str (task_approval_request_id task)) = Some ap"
    "appr_status ap = ApprovalStatus.APPROVED"
  shows "\<exists>r s'. create_agent_run E p actor s = (Inr r, s') \<and> r \<in> set (open_runs_of (task_id task) s') \<and>
      agent_tasks s' = agent_tasks s \<and> approval_requests s' = approval_requests s"
proof (cases "open_runs_of (task_id task) s = []")
  case True
  obtain r s' where r: "store_agent_run E p task ap actor s = (r, s')" by fastforce
  note f = store_agent_run_frame [OF r]
  have "r \<in> set (open_runs_of (task_id task) s')"
    using f(1,2) dict_get_vals [OF f(3)] by (simp add: open_runs_iff run_open_def)
  then show ?thesis using assms True r f by (simp add: create_agent_run_def)
next
  case False
  then have "last (sort_key run_created_at (open_runs_of (task_id task) s)) \<in> set (open_runs_of (task_id task) s)"
    by (metis last_in_set set_sort length_sort length_0_conv)
  then show ?thesis using assms False by (simp add: create_agent_run_def)
qed

section \<open>Approving a request\<close>

lemma open_runs_frame [simp]:
  "open_runs_of tid (put_task_event ev s) = open_runs_of tid s"
  "open_runs_of tid (add_audit E ty i d a s) = open_runs_of tid s"
  "open_runs_of tid (persist s) = open_runs_of tid s"
  "open_runs_of tid (put_notification n s) = open_runs_of tid s"
  "open_runs_of tid (drawn s) = open_runs_of tid s"
  by (simp_all add: open_runs_of_def)

lemma schedule_run_returns:
  assumes "dict_get (agent_tasks s) (task_id task) = Some task" "task_status task = AgentTaskStatus.APPROVED"
    "task_approval_request_id task = Some aid" "dict_get (approval_requests s) aid = Some ap"
    "appr_status ap = ApprovalStatus.APPROVED"
  shows "\<exists>s'. schedule_run E task ev a actor s = (Inr (Some task), s') \<and>
      open_runs_of (task_id task) s' \<noteq> [] \<and> agent_tasks s' = agent_tasks s \<and>
      approval_requests s' = approval_requests s"
proof -
  let ?p = "\<lparr>rc_task_id = task_id task, rc_capability_lease_id = None, rc_max_attempts_per_step = 3,
      rc_correlation_id = None, rc_metadata = [(''scheduled_from'', JStr ''approval_decision''),
        (''approval_decision_actor'', JStr actor)]\<rparr>"
  obtain r s' where r: "create_agent_run E ?p actor s = (Inr r, s')"
      "r \<in> set (open_runs_of (task_id task) s')" "agent_tasks s' = agent_tasks s"
      "approval_requests s' = approval_requests s"
    using create_agent_run_returns [of s ?p task ap E actor] assms by auto
  then have "open_runs_of (task_id task) s' \<noteq> []" by auto
  with r show ?thesis by (simp add: schedule_run_def ret_def)
qed

lemma linked_task_get:
  "keyed task_id (agent_tasks s) \<Longrightarrow> linked_tasks aid s = task # rest \<Longrightarrow>
    dict_get (agent_tasks s) (task_id task) = Some task \<and> task_approval_request_id task = Some aid"
  by (auto simp: linked_tasks_def tasks.get_iff dest!: arg_cong [where f = set] split: if_splits)

lemma propagate_approved:
  assumes "keyed task_id (agent_tasks s)" "linked_tasks (appr_id a) s = task # rest"
    "dict_get (approval_requests s) (appr_id a) = Some a" "appr_status a = ApprovalStatus.APPROVED"
  shows "\<exists>task' s'. propagate_approval_decision_to_agent_task E F a previous actor s = (Inr (Some task'), s') \<and>
      task' = task\<lparr>task_status := AgentTaskStatus.APPROVED, task_updated_at := clock s\<rparr> \<and>
      dict_get (agent_tasks s') (task_id task) = Some task' \<and>
      open_runs_of (task_id task) s' \<noteq> [] \<and> approval_requests s' = approval_requests s"
proof -
  let ?task = "task\<lparr>task_status := AgentTaskStatus.APPROVED, task_updated_at := clock s\<rparr>"
  obtain n s1 where n: "notify_agent_task_approval_decision E F task a s = (n, s1)" by fastforce
  have s1: "agent_tasks s1 = agent_tasks s" "approval_requests s1 = approval_requests s" "clock s1 = clock s"
    using n create_notification_frame
    by (auto simp: notify_agent_task_approval_decision_def split: prod.splits dest!: arg_cong [where f = snd])
  have task: "task_approval_request_id task = Some (appr_id a)"
    using linked_task_get [OF assms(1,2)] by simp
  define md where "md = [(''approval_request_id'', JStr (appr_id a)),
      (''previous_status'', JStr (ApprovalStatus_value previous)),
      (''new_status'', JStr (ApprovalStatus_value (appr_status a))), (''notification_id'', JStr (note_id n))]"
  define ev where "ev = new_task_event E ?task AgentTaskEventType.APPROVED ''Linked approval was approved.''
      (Some AgentTaskStatus.APPROVED) actor md (put_task ?task s1)"
  define s2 where "s2 = add_audit E ''agent_task.approval_decision_propagated'' (task_id task)
      [(''approval_request_id'', JStr (appr_id a)), (''previous_status'', JStr (ApprovalStatus_value previous)),
       (''new_status'', JStr (ApprovalStatus_value (appr_status a))),
       (''task_status'', JStr (AgentTaskStatus_value (task_status ?task))),
       (''notification_id'', JStr (note_id n))] actor (put_task_event ev (drawn (put_task ?task s1)))"
  have p: "propagate_approval_decision_to_agent_task E F a previous actor s = schedule_run E ?task ev a actor s2"
    using assms(2,4) n s1(3)
    by (simp add: propagate_approval_decision_to_agent_task_def decision_outcome_def
        append_system_task_event_def set_task_status_def Let_def md_def ev_def s2_def)
  have s2: "agent_tasks s2 = dict_set (task_id task) ?task (agent_tasks s)"
    "approval_requests s2 = approval_requests s"
    by (simp_all add: s2_def s1)
  then show ?thesis
    using schedule_run_returns [of s2 ?task "appr_id a" a E ev a actor] assms task p by auto
qed

lemma decided_approve:
  "appr_status r \<noteq> ApprovalStatus.BLOCKED \<Longrightarrow> ra_required_actions (appr_risk r) = [] \<Longrightarrow>
    decided_request E ''approve'' user now r =
      Inr (r\<lparr>appr_approved_payload_hash := Some (compute_approval_payload_hash E r),
        appr_approved_at := Some now, appr_approved_by_user_id := Some (user_id user),
        appr_status := ApprovalStatus.APPROVED\<rparr>)"
  by (simp add: decided_request_def)

lemma approve_word: "py_strip (py_lower ''approve'') = ''approve''"
  by code_simp

definition sealed_by :: "env \<Rightarrow> AuthUser \<Rightarrow> int \<Rightarrow> ApprovalRequest \<Rightarrow> ApprovalRequest" where
  "sealed_by E user now r =
     r\<lparr>appr_approved_payload_hash := Some (compute_approval_payload_hash E r),
       appr_approved_at := Some now, appr_approved_by_user_id := Some (user_id user),
       appr_status := ApprovalStatus.APPROVED, appr_updated_at := now\<rparr>"

lemma approve_linked:
  assumes "keyed task_id (agent_tasks s)" "dict_get (approval_requests s) aid = Some r" "appr_id r = aid"
    "appr_status r \<noteq> ApprovalStatus.BLOCKED" "ra_required_actions (appr_risk r) = []"
    "linked_tasks aid s = task # rest"
  shows "\<exists>s'. approve_approval E F aid user s = (Inr (sealed_by E user (clock s) r), s') \<and> durable s' \<and>
      dict_get (approval_requests s') aid = Some (sealed_by E user (clock s) r) \<and>
      dict_get (agent_tasks s') (task_id task) =
        Some (task\<lparr>task_status := AgentTaskStatus.APPROVED, task_updated_at := clock s\<rparr>) \<and>
      open_runs_of (task_id task) s' \<noteq> []"
proof -
  let ?r = "sealed_by E user (clock s) r"
  define s1 where "s1 = add_audit E ''approval.decision'' aid
      (decision_details ''approve'' [] (appr_status r) ?r) (user_email user) (put_approval ?r s)"
  have r: "appr_id ?r = aid" "appr_status ?r = ApprovalStatus.APPROVED"
    using assms(3) by (simp_all add: sealed_by_def)
  have s1: "agent_tasks s1 = agent_tasks s" "approval_requests s1 = dict_set aid ?r (approval_requests s)"
    "clock s1 = clock s"
    using r by (simp_all add: s1_def)
  have l: "linked_tasks (appr_id ?r) s1 = task # rest"
    using assms(6) s1 r by (simp add: linked_tasks_def)
  obtain task' s2 where p: "propagate_approval_decision_to_agent_task E F ?r (appr_status r) (user_email user) s1 =
        (Inr (Some task'), s2)"
      "task' = task\<lparr>task_status := AgentTaskStatus.APPROVED, task_updated_at := clock s1\<rparr>"
      "dict_get (agent_tasks s2) (task_id task) = Some task'" "open_runs_of (task_id task) s2 \<noteq> []"
      "approval_requests s2 = approval_requests s1"
    using propagate_approved [of s1 ?r task rest E F "appr_status r" "user_email user"] assms(1) l r s1 by auto
  obtain n s3 where n: "create_notification E F
      (''Approval '' @ py_lower (ApprovalStatus_value (appr_status ?r)) @ '': '' @ appr_title ?r)
      (str_or [] ''Decision recorded from mobile review.'') ''approval_request'' aid None s2 = (n, s3)"
    by fastforce
  have s3: "agent_tasks s3 = agent_tasks s2" "approval_requests s3 = approval_requests s2"
    "agent_runs s3 = agent_runs s2"
    using create_notification_frame n by (auto dest!: arg_cong [where f = snd])
  have t: "appr_title ?r = appr_title r" by (simp add: sealed_by_def)
  have u: "(r\<lparr>appr_approved_payload_hash := Some (compute_approval_payload_hash E r),
      appr_approved_at := Some (clock s), appr_approved_by_user_id := Some (user_id user),
      appr_status := ApprovalStatus.APPROVED\<rparr>)\<lparr>appr_updated_at := clock s\<rparr> = ?r"
    by (simp add: sealed_by_def)
  have d: "approve_approval E F aid user s = (Inr ?r, persist s3)"
    using assms(2,4,5) p(1) n u r unfolding approve_approval_def decide_approval_def get_approval_request_def
    by (simp add: approve_word decided_approve Let_def s1_def [symmetric] ret_def assms(3) t)
  show ?thesis
    using d p s1 s3 by (simp add: open_runs_of_def)
qed

section \<open>Sample requests\<close>

definition sample_request_sys :: "ApprovalStatus \<Rightarrow> AgentTaskStatus \<Rightarrow> sys" where
  "sample_request_sys ast tst = sys_of (empty_store
     \<lparr>agent_tasks := [(''task1'', sample_task\<lparr>task_status := tst\<rparr>)],
      approval_requests := [(''appr1'', sample_approval\<lparr>appr_status := ast\<rparr>)]\<rparr>) 1000000 0 empty_store"

lemma sample_request_simps [simp]:
  "agent_tasks (sample_request_sys ast tst) = [(''task1'', sample_task\<lparr>task_status := tst\<rparr>)]"
  "approval_requests (sample_request_sys ast tst) = [(''appr1'', sample_approval\<lparr>appr_status := ast\<rparr>)]"
  by (simp_all add: sample_request_sys_def sys_of_def empty_store_def store.defs)

lemma sample_request_linked:
  "linked_tasks ''appr1'' (sample_request_sys ast tst) = sample_task\<lparr>task_status := tst\<rparr> # []"
  "keyed task_id (agent_tasks (sample_request_sys ast tst))"
  "dict_get (approval_requests (sample_request_sys ast tst)) ''appr1'' = Some (sample_approval\<lparr>appr_status := ast\<rparr>)"
  "appr_id (sample_approval\<lparr>appr_status := ast\<rparr>) = ''appr1''"
  "ra_required_actions (appr_risk (sample_approval\<lparr>appr_status := ast\<rparr>)) = []"
  by (simp_all add: linked_tasks_def dict_vals_def keyed_def sample_task_def sample_approval_def)

section \<open>Properties\<close>

text \<open>
  C15. The level of an approval request does not depend on the order of its files: it is blocked
  exactly if the branch is protected, there is no file, or a file is sensitive or has no diff, and
  otherwise it is the highest class among its files (where documentation counts as LOW and unknown
  paths as MEDIUM). The one-pass assessment thus agrees with the set-based definition.
\<close>

theorem risk_level_is_order_independent:
  "ra_level (assess_approval_request payload) =
     (if blocked_request payload then RiskLevel.BLOCKED else highest_class (set (appr_files payload))) \<and>
   (ra_blocked (assess_approval_request payload) = blocked_request payload)"
  by (simp add: assess_approval_level)



text \<open>
  The decision route does not consult the table of permitted changes: approving a request that
  was denied, whose task was cancelled by the operator, makes both APPROVED again and schedules a
  run, although \<open>can_transition\<close> forbids the change and the cancellation summary calls the task
  terminal.
\<close>

theorem denied_request_can_be_approved:
  assumes "keyed task_id (agent_tasks s)" "dict_get (approval_requests s) aid = Some r" "appr_id r = aid"
    "appr_status r = ApprovalStatus.DENIED" "ra_required_actions (appr_risk r) = []"
    "linked_tasks aid s = task # rest" "task_status task = AgentTaskStatus.CANCELLED"
  shows "\<not> can_transition (appr_status r) ApprovalStatus.APPROVED \<and> \<not> cs_cancel_allowed (cancel_summary task) \<and>
     (\<exists>r' s'. approve_approval E F aid user s = (Inr r', s') \<and> appr_status r' = ApprovalStatus.APPROVED \<and>
        map_option task_status (dict_get (agent_tasks s') (task_id task)) = Some AgentTaskStatus.APPROVED \<and>
        open_runs_of (task_id task) s' \<noteq> [])"
proof -
  have "\<not> can_transition (appr_status r) ApprovalStatus.APPROVED"
    using assms(4) by (intro no_transition_out) (simp add: canonical_status_def LEGACY_STATUS_MAP_def)
  moreover have "\<not> cs_cancel_allowed (cancel_summary task)"
    using assms(7) by (simp add: cancel_summary_def CANCELLABLE_STATUSES_def Let_def)
  moreover have "appr_status (sealed_by E user t r) = ApprovalStatus.APPROVED" for t
    by (simp add: sealed_by_def)
  moreover have "appr_status r \<noteq> ApprovalStatus.BLOCKED" using assms(4) by simp
  ultimately show ?thesis using approve_linked [OF assms(1-3) _ assms(5,6), of E F user] by auto
qed

theorem denied_request_can_be_approved_witness:
  "\<forall>F user. \<exists>r' s'. approve_approval sample_env F ''appr1'' user
      (sample_request_sys ApprovalStatus.DENIED AgentTaskStatus.CANCELLED) = (Inr r', s') \<and>
      appr_status r' = ApprovalStatus.APPROVED"
  using denied_request_can_be_approved [OF sample_request_linked(2-4) _ sample_request_linked(5,1)]
  by fastforce

end
