(* ===== verification/AccessProperties.thy ===== *)
theory AccessProperties
  imports WorkerClaims ApprovalProperties
begin

text \<open>
  What holds of the outer doors: a worker's claim excludes every other worker until it expires, an
  agent's rate limit admits exactly its budget in a window, and who authenticates as an agent. The
  last property follows a task through three components: an agent can undo the operator's
  cancellation of its own task.
\<close>

section \<open>Claims of workers\<close>

text \<open>Any interleaving of claims, of either kind and by any worker, and of time passing.\<close>

inductive claim_step :: "env \<Rightarrow> sys \<Rightarrow> sys \<Rightarrow> bool" for E where
  by_id: "claim_agent_task_for_worker E tid w n s = (r, s') \<Longrightarrow> claim_step E s s'"
| first: "claim_first_approved_agent_task_for_worker E w n s = (r, s') \<Longrightarrow> claim_step E s s'"
| tick: "clock s \<le> t \<Longrightarrow> claim_step E s (s\<lparr>clock := t\<rparr>)"

definition task_row :: "string \<Rightarrow> sys \<Rightarrow> AgentTask option" where
  "task_row tid s = dict_get (agent_tasks (rows (disk s))) tid"

definition rows_keyed :: "sys \<Rightarrow> bool" where
  "rows_keyed s \<longleftrightarrow> keyed task_id (agent_tasks (rows (disk s)))"

lemma task_row_simps [simp]:
  "task_row tid (put_task x s) = task_row tid s"
  "task_row tid (drawn s) = task_row tid s"
  "task_row tid (s\<lparr>clock := t\<rparr>) = task_row tid s"
  "task_row tid (update_task_row x s) = (if tid = task_id x then Some x else task_row tid s)"
  "rows_keyed (put_task x s) = rows_keyed s"
  "rows_keyed (drawn s) = rows_keyed s"
  "rows_keyed (s\<lparr>clock := t\<rparr>) = rows_keyed s"
  "clock (update_task_row x s) = clock s"
  "disk (drawn s) = disk s" "clock (drawn s) = clock s"
  by (simp_all add: task_row_def rows_keyed_def update_task_row_def drawn_def put_task_def)

lemma rows_keyed_update: "rows_keyed s \<Longrightarrow> rows_keyed (update_task_row x s)"
  by (simp add: rows_keyed_def update_task_row_def tasks.wf_put)

text \<open>A claim takes a claimable row and leaves every other row, and the clock, alone.\<close>

lemma claim_loaded_effect:
  assumes "claim_loaded_task E task w n s = (r, s1)" "rows_keyed s"
  shows "clock (store_claim r s1) = clock s \<and> rows_keyed (store_claim r s1) \<and>
    (\<forall>k. k \<noteq> task_id task \<longrightarrow> task_row k (store_claim r s1) = task_row k s)"
  using assms by (auto simp: claim_loaded_task_def store_claim_def rows_keyed_update Let_def)

lemma claim_step_effect:
  assumes "claim_step E s s'" "rows_keyed s"
  shows "clock s \<le> clock s' \<and> rows_keyed s' \<and>
    (\<forall>tid task. task_row tid s = Some task \<longrightarrow> \<not> claimable task (clock s) \<longrightarrow> task_row tid s' = Some task)"
  using assms
proof (cases rule: claim_step.cases)
  case (by_id tid w n r)
  show ?thesis
  proof (cases "\<exists>task. task_row tid s = Some task \<and> claimable task (clock s)")
    case True
    then obtain task where t: "task_row tid s = Some task" "claimable task (clock s)" by blast
    then have id: "task_id task = tid"
      using assms(2) by (simp add: task_row_def rows_keyed_def tasks.get_iff)
    have e: "claim_eligibility_failure E (Some task) (Some tid) (clock s) = None"
      using t(2) by (simp add: eligible_iff)
    obtain q s1 where c: "claim_loaded_task E task w n s = (q, s1)" by fastforce
    have "s' = store_claim q s1"
      using by_id t(1) e c by (auto simp: claim_agent_task_for_worker_def task_row_def)
    moreover have "k \<noteq> task_id task" if "task_row k s = Some x" "\<not> claimable x (clock s)" for k x
      using that t id by auto
    ultimately show ?thesis using claim_loaded_effect [OF c assms(2)] by auto
  next
    case False
    then have "\<not> cl_success (fst (claim_agent_task_for_worker E tid w n s))"
      by (simp add: claim_success_iff task_row_def)
    then have "s' = s"
      using by_id by (auto simp: claim_agent_task_for_worker_def claim_loaded_task_def Let_def split: option.splits)
    then show ?thesis using assms(2) by simp
  qed
next
  case (first w n r)
  show ?thesis
  proof (cases "sort_key task_updated_at (claim_candidates E s)")
    case Nil
    then show ?thesis using first assms(2) by (simp add: claim_first_approved_agent_task_for_worker_def)
  next
    case (Cons task rest)
    obtain q s1 where c: "claim_loaded_task E task w n s = (q, s1)" by fastforce
    have "s' = store_claim q s1"
      using first Cons c by (auto simp: claim_first_approved_agent_task_for_worker_def)
    moreover have "claimable task (clock s)" "task_row (task_id task) s = Some task"
      using claim_first_oldest [OF Cons] assms(2)
      by (auto simp: task_row_def rows_keyed_def tasks.get_iff)
    moreover from this have "k \<noteq> task_id task" if "task_row k s = Some x" "\<not> claimable x (clock s)" for k x
      using that by auto
    ultimately show ?thesis using claim_loaded_effect [OF c assms(2)] by auto
  qed
next
  case (tick t)
  then show ?thesis using assms(2) by simp
qed

lemma claim_steps_hold:
  assumes "(claim_step E)\<^sup>*\<^sup>* s s'" "rows_keyed s" "task_row tid s = Some task"
    "task_worker_lease_owner task = Some w" "w \<noteq> []" "task_worker_lease_expires_at task = Some e"
    "clock s' < e"
  shows "rows_keyed s' \<and> task_row tid s' = Some task"
  using assms(1,7)
proof (induction rule: rtranclp_induct)
  case base
  then show ?case using assms(2,3) by simp
next
  case (step t u)
  have le: "clock t \<le> clock u"
    using step.hyps(2) by (cases rule: claim_step.cases)
      (auto simp: claim_agent_task_for_worker_def claim_first_approved_agent_task_for_worker_def
        claim_loaded_task_def store_claim_def Let_def split: option.splits list.splits)
  then have "rows_keyed t \<and> task_row tid t = Some task" using step by simp
  moreover have "\<not> claimable task (clock t)"
    using leased_not_claimable [OF assms(4-6)] le step.prems by simp
  ultimately show ?case using claim_step_effect [OF step.hyps(2)] by blast
qed

section \<open>The rate limit\<close>

text \<open>The number of requests the limit admits, of requests that arrive at the given times.\<close>

fun admitted :: "env \<Rightarrow> ExternalAgent \<Rightarrow> int list \<Rightarrow> sys \<Rightarrow> nat" where
  "admitted E agent [] s = 0"
| "admitted E agent (t # ts) s =
     (case enforce_agent_rate_limit E agent (s\<lparr>clock := t\<rparr>) of
        (Inl e, s) \<Rightarrow> admitted E agent ts s
      | (Inr _, s) \<Rightarrow> Suc (admitted E agent ts s))"

definition credential_of :: "ExternalAgent \<Rightarrow> sys \<Rightarrow> AgentCredentialRecord option" where
  "credential_of agent s = dict_get (external_agent_credentials s) (xa_id agent)"

lemma credential_of_simps [simp]:
  "credential_of agent (s\<lparr>clock := t\<rparr>) = credential_of agent s"
  "credential_of agent (add_audit E ty i d a s) = credential_of agent s"
  "credential_of agent (persist s) = credential_of agent s"
  "cred_agent_id c = xa_id agent \<Longrightarrow> credential_of agent (put_agent_credential c s) = Some c"
  by (simp_all add: credential_of_def)

lemma credential_for_Some: "credential_of agent s = Some c \<Longrightarrow> credential_for E (xa_id agent) s = (c, s)"
  by (simp add: credential_of_def credential_for_def)

lemma admitted_in_window:
  "credential_of agent s = Some c \<Longrightarrow> cred_agent_id c = xa_id agent \<Longrightarrow>
   cred_rate_limit_window_started_at c = Some t0 \<Longrightarrow> list_all (\<lambda>t. t < t0 + seconds 60) ts \<Longrightarrow>
   0 \<le> cred_rate_limit_request_count c \<Longrightarrow>
   cred_rate_limit_request_count c \<le> cred_rate_limit_per_minute c \<Longrightarrow>
   int (admitted E agent ts s) =
     min (int (length ts)) (cred_rate_limit_per_minute c - cred_rate_limit_request_count c)"
proof (induction ts arbitrary: s c)
  case Nil
  then show ?case by simp
next
  case (Cons t ts)
  have f: "credential_for E (xa_id agent) (s\<lparr>clock := t\<rparr>) = (c, s\<lparr>clock := t\<rparr>)"
    using Cons.prems(1) by (intro credential_for_Some) simp
  have w: "\<not> window_over c t" using Cons.prems(3,4) by (simp add: window_over_def)
  show ?case
  proof (cases "cred_rate_limit_request_count c \<ge> cred_rate_limit_per_minute c")
    case True
    let ?c = "c\<lparr>cred_updated_at := t\<rparr>"
    let ?s = "audit_agent_rate_limit E agent ?c (put_agent_credential ?c (s\<lparr>clock := t\<rparr>))"
    have "enforce_agent_rate_limit E agent (s\<lparr>clock := t\<rparr>) =
        (Inl (HTTPException 429 ''External agent rate limit exceeded''), ?s)"
      using f w True by (simp add: enforce_agent_rate_limit_def raise_def Let_def)
    moreover have "credential_of agent ?s = Some ?c"
      using Cons.prems(2) by (simp add: audit_agent_rate_limit_def)
    ultimately show ?thesis using Cons.IH [of ?s ?c] Cons.prems True by simp
  next
    case False
    let ?c = "c\<lparr>cred_rate_limit_request_count := cred_rate_limit_request_count c + 1, cred_updated_at := t\<rparr>"
    let ?s = "put_agent_credential ?c (s\<lparr>clock := t\<rparr>)"
    have "enforce_agent_rate_limit E agent (s\<lparr>clock := t\<rparr>) = (Inr (), ?s)"
      using f w False by (simp add: enforce_agent_rate_limit_def ret_def)
    moreover have "credential_of agent ?s = Some ?c" using Cons.prems(2) by simp
    ultimately show ?thesis using Cons.IH [of ?s ?c] Cons.prems False by simp
  qed
qed

lemma admitted_from_start:
  assumes "credential_of agent s = Some c" "cred_agent_id c = xa_id agent" "window_over c t0"
    "1 \<le> cred_rate_limit_per_minute c" "list_all (\<lambda>t. t < t0 + seconds 60) ts"
  shows "int (admitted E agent (t0 # ts) s) = min (1 + int (length ts)) (cred_rate_limit_per_minute c)"
proof -
  let ?c = "c\<lparr>cred_rate_limit_window_started_at := Some t0, cred_rate_limit_request_count := 1, cred_updated_at := t0\<rparr>"
  let ?s = "put_agent_credential ?c (s\<lparr>clock := t0\<rparr>)"
  have "credential_for E (xa_id agent) (s\<lparr>clock := t0\<rparr>) = (c, s\<lparr>clock := t0\<rparr>)"
    using assms(1) by (intro credential_for_Some) simp
  then have "enforce_agent_rate_limit E agent (s\<lparr>clock := t0\<rparr>) = (Inr (), ?s)"
    using assms(3) by (simp add: enforce_agent_rate_limit_def ret_def)
  moreover have "int (admitted E agent ts ?s) = min (int (length ts)) (cred_rate_limit_per_minute c - 1)"
    using admitted_in_window [of agent ?s ?c t0 ts E] assms by simp
  ultimately show ?thesis by simp
qed

section \<open>Undoing a cancellation\<close>

definition cancelled_by_operator :: "int \<Rightarrow> AgentTask \<Rightarrow> AgentTask" where
  "cancelled_by_operator now task = clear_worker_lease AgentTaskStatus.CANCELLED now task"

lemma cancel_agent_task_effect:
  assumes "dict_get (agent_tasks s) tid = Some task" "task_id task = tid" "task_status task = AgentTaskStatus.APPROVED"
  shows "\<exists>ev s1. cancel_agent_task E tid reason user s = (Inr ev, s1) \<and>
      dict_get (agent_tasks s1) tid = Some (cancelled_by_operator (clock s) task) \<and> clock s1 = clock s"
proof -
  have "cs_cancel_allowed (cancel_summary task)"
    using assms(3) by (simp add: cancel_summary_def CANCELLABLE_STATUSES_def Let_def)
  moreover obtain ev t s1 where e: "append_cancel_requested_event E task (user_email user) reason s = ((ev, t), s1)"
    by (metis prod.collapse)
  moreover have "dict_get (agent_tasks s1) tid = Some (cancelled_by_operator (clock s) task) \<and> clock s1 = clock s"
    using e assms(2)
    by (auto simp: append_cancel_requested_event_def cancelled_by_operator_def clear_worker_lease_def
        drawn_def Let_def)
  ultimately show ?thesis
    using assms(1) by (simp add: cancel_agent_task_def task_or_404_def audit_cancel_requested_def ret_def)
qed

lemma agent_event_effect:
  assumes "dict_get (agent_tasks s) tid = Some task" "task_id task = tid"
    "task_external_agent_id task = Some (xa_id agent)" "APPEND_AGENT_TASK_EVENT \<in> set (xa_allowed_actions agent)"
  shows "\<exists>ev s1. append_agent_owned_task_event E tid
        \<lparr>tec_event_type = NOTE, tec_message = m, tec_status = Some st, tec_metadata = []\<rparr> agent s = (Inr ev, s1) \<and>
      dict_get (agent_tasks s1) tid = Some (task\<lparr>task_status := st, task_updated_at := clock s\<rparr>) \<and>
      durable s1 \<and> clock s1 = clock s"
proof -
  have "owned_task agent APPEND_AGENT_TASK_EVENT tid s = (Inr task, s)"
    using assms by (simp add: owned_task_Inr)
  then show ?thesis
    using assms(2) by (simp add: append_agent_owned_task_event_def set_task_status_def Let_def ret_def)
qed

lemma durable_row: "durable s \<Longrightarrow> task_row tid s = dict_get (agent_tasks s) tid"
  by (simp add: durable_def task_row_def store.defs)

section \<open>Samples\<close>

definition sample_user :: AuthUser where
  "sample_user = \<lparr>user_id = ''u1'', user_email = ''u@x'', user_display_name = ''U'',
     user_role = MAINTAINER, user_email_verified = True\<rparr>"

definition sample_agent :: ExternalAgent where
  "sample_agent = \<lparr>xa_id = ''agent1'', xa_provider = AgentProvider.CODEX, xa_display_name = ''A'',
     xa_auth_type = AgentAuthType.API_KEY, xa_allowed_project_ids = [], xa_allowed_repositories = [],
     xa_allowed_actions = [APPEND_AGENT_TASK_EVENT], xa_created_by_user_id = None, xa_enabled = True,
     xa_secret_hash = Some ''secret'', xa_created_at = 0, xa_updated_at = 0\<rparr>"

definition sample_credential :: AgentCredentialRecord where
  "sample_credential = \<lparr>cred_id = ''c1'', cred_agent_id = ''agent1'', cred_token_expires_at = None,
     cred_token_revoked_at = None, cred_token_rotated_at = None, cred_last_used_at = None,
     cred_failed_auth_count = 0, cred_last_auth_failed_at = None, cred_rate_limit_per_minute = 2,
     cred_rate_limit_window_started_at = None, cred_rate_limit_request_count = 0,
     cred_created_at = 0, cred_updated_at = 0\<rparr>"

definition sample_owned_task :: AgentTask where
  "sample_owned_task = sample_task\<lparr>task_external_agent_id := Some ''agent1''\<rparr>"

definition sample_access_sys :: sys where
  "sample_access_sys = sys_of (empty_store
     \<lparr>agent_tasks := [(''task1'', sample_owned_task)], external_agents := [(''agent1'', sample_agent)],
      external_agent_credentials := [(''agent1'', sample_credential)]\<rparr>) 1000000 0
     (empty_store\<lparr>agent_tasks := [(''task1'', sample_owned_task)]\<rparr>)"

lemma sample_access_simps [simp]:
  "agent_tasks sample_access_sys = [(''task1'', sample_owned_task)]"
  "external_agents sample_access_sys = [(''agent1'', sample_agent)]"
  "external_agent_credentials sample_access_sys = [(''agent1'', sample_credential)]"
  "agent_tasks (rows (disk sample_access_sys)) = [(''task1'', sample_owned_task)]"
  "clock sample_access_sys = 1000000"
  by (simp_all add: sample_access_sys_def sys_of_def empty_store_def store.defs)

lemma sample_owned_simps [simp]:
  "task_id sample_owned_task = ''task1''" "task_status sample_owned_task = AgentTaskStatus.APPROVED"
  "task_approval_request_id sample_owned_task = Some ''appr1''"
  "task_external_agent_id sample_owned_task = Some ''agent1''"
  "task_worker_lease_owner sample_owned_task = None"
  by (simp_all add: sample_owned_task_def sample_task_def)

section \<open>Properties\<close>

text \<open>
  C17. A successful claim found the task approved, linked to an approval and free, and whatever claims
  any workers make afterwards, of that task or of the next free one, the task stays with the
  claiming worker in the database until the lease ends: no other claim of it succeeds.
\<close>

theorem worker_claim_is_exclusive:
  assumes "claim_agent_task_for_worker E tid w n s = (r, s1)" "cl_success r" "w \<noteq> []" "rows_keyed s"
    "(claim_step E)\<^sup>*\<^sup>* s1 s2" "clock s2 < clock s + seconds n"
  shows "(\<exists>task. task_row tid s = Some task \<and> claimable task (clock s)) \<and>
    map_option task_worker_lease_owner (task_row tid s2) = Some (Some w) \<and>
    (\<forall>w' n'. \<not> cl_success (fst (claim_agent_task_for_worker E tid w' n' s2)))"
proof -
  obtain task where t: "task_row tid s = Some task" "claimable task (clock s)"
    using claim_success_iff [of E tid w n s] assms(1,2) by (auto simp: task_row_def)
  then have id: "task_id task = tid"
    using assms(4) by (simp add: task_row_def rows_keyed_def tasks.get_iff)
  obtain task' where t': "task_row tid s1 = Some task'" "task_worker_lease_owner task' = Some w"
      "task_worker_lease_expires_at task' = Some (clock s + seconds n)"
    using claim_rows [of s tid task E w n r s1] t id assms(1) by (auto simp: task_row_def)
  have k: "rows_keyed s1"
    using claim_step_effect [OF claim_step.by_id [OF assms(1)] assms(4)] by simp
  have s2: "task_row tid s2 = Some task'"
    using claim_steps_hold [OF assms(5) k t'(1,2) assms(3) t'(3) assms(6)] by simp
  then have "\<not> cl_success (fst (claim_agent_task_for_worker E tid w' n' s2))" for w' n'
    using leased_not_claimable [OF t'(2) assms(3) t'(3) assms(6)] by (simp add: claim_success_iff task_row_def)
  with t s2 t'(2) show ?thesis by auto
qed

theorem worker_claim_is_exclusive_witness:
  "\<exists>r s1. claim_agent_task_for_worker sample_env ''task1'' ''w1'' 300 sample_access_sys = (r, s1) \<and>
     (\<forall>w' n'. \<not> cl_success (fst (claim_agent_task_for_worker sample_env ''task1'' w' n' s1)))"
proof -
  obtain r s1 where c: "claim_agent_task_for_worker sample_env ''task1'' ''w1'' 300 sample_access_sys = (r, s1)"
    by fastforce
  have "cl_success (fst (claim_agent_task_for_worker sample_env ''task1'' ''w1'' 300 sample_access_sys))"
    by (simp add: claim_success_iff claimable_def is_lease_available_def)
  then have r: "cl_success r" using c by simp
  have k: "rows_keyed sample_access_sys" by (simp add: rows_keyed_def keyed_def)
  have t: "claimable sample_owned_task (clock sample_access_sys)"
    by (simp add: claimable_def is_lease_available_def)
  have "clock s1 = clock sample_access_sys"
    using c t eligible_iff [of sample_env sample_owned_task "Some ''task1''" 1000000]
    by (auto simp: claim_agent_task_for_worker_def claim_loaded_task_def store_claim_def Let_def)
  then have e: "clock s1 < clock sample_access_sys + seconds 300" by (simp add: seconds_def)
  show ?thesis using c worker_claim_is_exclusive [OF c r _ k rtranclp.rtrancl_refl e] by auto
qed

text \<open>
  C18. From the first request of a window, an agent's rate limit admits exactly its limit of the
  requests that arrive within the next sixty seconds, whatever the limit and however many arrive;
  refused requests do not count.
\<close>

theorem rate_limit_admits_its_budget:
  assumes "credential_of agent s = Some c" "cred_agent_id c = xa_id agent" "window_over c t0"
    "1 \<le> cred_rate_limit_per_minute c" "list_all (\<lambda>t. t < t0 + seconds 60) ts"
  shows "int (admitted E agent (t0 # ts) s) = min (1 + int (length ts)) (cred_rate_limit_per_minute c)"
  by (rule admitted_from_start [OF assms])

theorem rate_limit_admits_its_budget_witness:
  "int (admitted sample_env sample_agent [0, 1, 2, 3] sample_access_sys) = 2"
  using rate_limit_admits_its_budget [of sample_agent sample_access_sys sample_credential 0 "[1, 2, 3]" sample_env]
  by (simp add: credential_of_def sample_agent_def sample_credential_def window_over_def seconds_def)

text \<open>
  C22. The operator's cancellation of an approved task does not hold against the agent that owns it:
  an event of the agent with the status APPROVED makes the cancelled task approved again, and a
  worker can claim it, without any new decision of a person.
\<close>

theorem agent_undoes_cancellation:
  assumes "dict_get (agent_tasks s) tid = Some task" "task_id task = tid"
    "task_status task = AgentTaskStatus.APPROVED" "truthy (task_approval_request_id task)"
    "task_external_agent_id task = Some (xa_id agent)" "APPEND_AGENT_TASK_EVENT \<in> set (xa_allowed_actions agent)"
  shows "\<exists>ev1 ev2 s1 s2. cancel_agent_task E tid reason user s = (Inr ev1, s1) \<and>
      map_option task_status (dict_get (agent_tasks s1) tid) = Some AgentTaskStatus.CANCELLED \<and>
      append_agent_owned_task_event E tid
        \<lparr>tec_event_type = NOTE, tec_message = m, tec_status = Some AgentTaskStatus.APPROVED, tec_metadata = []\<rparr>
        agent s1 = (Inr ev2, s2) \<and>
      cl_success (fst (claim_agent_task_for_worker E tid w n s2))"
proof -
  let ?c = "cancelled_by_operator (clock s) task"
  obtain ev1 s1 where c: "cancel_agent_task E tid reason user s = (Inr ev1, s1)"
      "dict_get (agent_tasks s1) tid = Some ?c"
    using cancel_agent_task_effect [OF assms(1-3)] by blast
  have f: "task_id ?c = tid" "task_external_agent_id ?c = Some (xa_id agent)"
    "task_status ?c = AgentTaskStatus.CANCELLED"
    using assms(2,5) by (simp_all add: cancelled_by_operator_def clear_worker_lease_def)
  obtain ev2 s2 where a: "append_agent_owned_task_event E tid
        \<lparr>tec_event_type = NOTE, tec_message = m, tec_status = Some AgentTaskStatus.APPROVED, tec_metadata = []\<rparr>
        agent s1 = (Inr ev2, s2)"
      "dict_get (agent_tasks s2) tid = Some (?c\<lparr>task_status := AgentTaskStatus.APPROVED, task_updated_at := clock s1\<rparr>)"
      "durable s2"
    using agent_event_effect [OF c(2) f(1,2) assms(6)] by blast
  have "claimable (?c\<lparr>task_status := AgentTaskStatus.APPROVED, task_updated_at := clock s1\<rparr>) (clock s2)"
    using assms(4) by (simp add: claimable_def is_lease_available_def cancelled_by_operator_def clear_worker_lease_def)
  then have "cl_success (fst (claim_agent_task_for_worker E tid w n s2))"
    using a(2) durable_row [OF a(3), of tid] by (simp add: claim_success_iff task_row_def)
  with c a f(3) show ?thesis by auto
qed

theorem agent_undoes_cancellation_witness:
  "\<exists>ev1 s1 ev2 s2. cancel_agent_task sample_env ''task1'' [] sample_user sample_access_sys = (Inr ev1, s1) \<and>
     append_agent_owned_task_event sample_env ''task1''
       \<lparr>tec_event_type = NOTE, tec_message = [], tec_status = Some AgentTaskStatus.APPROVED, tec_metadata = []\<rparr>
       sample_agent s1 = (Inr ev2, s2) \<and>
     cl_success (fst (claim_agent_task_for_worker sample_env ''task1'' ''w1'' 300 s2))"
proof -
  have a: "xa_id sample_agent = ''agent1''" "xa_allowed_actions sample_agent = [APPEND_AGENT_TASK_EVENT]"
    by (simp_all add: sample_agent_def)
  show ?thesis
    using agent_undoes_cancellation [of sample_access_sys "''task1''" sample_owned_task sample_agent
        sample_env "[]" sample_user "[]" "''w1''" 300] a
    by auto
qed

end
