(* ===== verification/PyLib.thy ===== *)
theory PyLib
  imports Prelude
begin

text \<open>
  The parts of Python's standard library that the guards of the backend are written with:
  \<open>PurePosixPath\<close> (its parts, text, name and stem) and \<open>shlex.split\<close> in POSIX mode. Both are
  computed on character lists as the library computes them (Python 3.12).
\<close>

section \<open>PurePosixPath\<close>

definition posix_root :: "string \<Rightarrow> string" where
  "posix_root s =
     (if py_startswith s ''//'' \<and> \<not> py_startswith s ''///'' then ''//''
      else if py_startswith s ''/'' then ''/'' else [])"

text \<open>The components after the root: empty components and \<open>.\<close> are dropped, \<open>..\<close> is kept.\<close>

definition path_components :: "string \<Rightarrow> string list" where
  "path_components s = filter (\<lambda>w. w \<noteq> [] \<and> w \<noteq> ''.'') (py_split_char (CHR ''/'') s)"

definition path_parts :: "string \<Rightarrow> string list" where
  "path_parts s =
     (if posix_root s = [] then path_components s else posix_root s # path_components s)"

definition path_str :: "string \<Rightarrow> string" where
  "path_str s =
     (let t = posix_root s @ py_join ''/'' (path_components s) in if t = [] then ''.'' else t)"

definition path_name :: "string \<Rightarrow> string" where
  "path_name s = (let ws = path_components s in if ws = [] then [] else last ws)"

text \<open>The name up to its last dot, unless that dot is its first or its last character.\<close>

definition path_stem :: "string \<Rightarrow> string" where
  "path_stem s =
     (let name = path_name s;
          suffix = takeWhile (\<lambda>c. c \<noteq> CHR ''.'') (rev name);
          rest = dropWhile (\<lambda>c. c \<noteq> CHR ''.'') (rev name)
      in if length rest \<le> 1 \<or> suffix = [] then name else rev (tl rest))"

lemma py_split_char_append_sep:
  "py_split_char d (a @ d # b) = py_split_char d a @ py_split_char d b"
  by (induction a) (auto split: list.splits)

lemma path_components_append:
  "path_components (a @ ''/'' @ b) = path_components a @ path_components b"
  by (simp add: path_components_def py_split_char_append_sep)

lemma path_components_ok:
  "w \<in> set (path_components s) \<Longrightarrow> w \<noteq> [] \<and> w \<noteq> ''.'' \<and> CHR ''/'' \<notin> set w"
  using py_split_char_no_sep by (auto simp: path_components_def)

lemma posix_root_Nil_iff: "posix_root s = [] \<longleftrightarrow> \<not> py_startswith s ''/''"
proof -
  have "py_startswith s ''//'' \<Longrightarrow> py_startswith s ''/''" by (auto simp: py_startswith_iff)
  then show ?thesis by (auto simp: posix_root_def)
qed

text \<open>A list of proper components is what its joined text consists of.\<close>

definition proper_components :: "string list \<Rightarrow> bool" where
  "proper_components ws \<longleftrightarrow> list_all (\<lambda>w. w \<noteq> [] \<and> w \<noteq> ''.'' \<and> CHR ''/'' \<notin> set w) ws"

lemma proper_path_components: "proper_components (path_components s)"
  using path_components_ok by (auto simp: proper_components_def list_all_iff)

lemma path_components_join:
  assumes "proper_components ws"
  shows "path_components (py_join ''/'' ws) = ws"
proof (cases "ws = []")
  case True
  then show ?thesis by (simp add: path_components_def)
next
  case False
  with assms have "py_split_char (CHR ''/'') (py_join ''/'' ws) = ws"
    by (intro py_split_join) (auto simp: proper_components_def list_all_iff)
  with assms show ?thesis
    by (simp add: path_components_def proper_components_def list_all_iff)
qed

lemma py_join_append:
  "a \<noteq> [] \<Longrightarrow> b \<noteq> [] \<Longrightarrow> py_join sep (a @ b) = py_join sep a @ sep @ py_join sep b"
proof (induction sep a rule: py_join.induct)
  case (2 sep w)
  then show ?case by (cases b) auto
qed auto

text \<open>Text prefixes up to a separator are exactly prefixes of the lists of components.\<close>

lemma join_prefix_iff:
  assumes "proper_components as" "proper_components bs" "as \<noteq> []" "bs \<noteq> []"
  shows "py_join ''/'' bs = py_join ''/'' as \<or>
      py_startswith (py_join ''/'' bs) (py_join ''/'' as @ ''/'') \<longleftrightarrow> (\<exists>cs. bs = as @ cs)"
proof
  assume "py_join ''/'' bs = py_join ''/'' as \<or>
      py_startswith (py_join ''/'' bs) (py_join ''/'' as @ ''/'')"
  then show "\<exists>cs. bs = as @ cs"
  proof
    assume "py_join ''/'' bs = py_join ''/'' as"
    then have "bs = as" using path_components_join assms by metis
    then show ?thesis by simp
  next
    assume "py_startswith (py_join ''/'' bs) (py_join ''/'' as @ ''/'')"
    then obtain r where "py_join ''/'' bs = py_join ''/'' as @ ''/'' @ r"
      by (auto simp: py_startswith_iff)
    then have "path_components (py_join ''/'' bs) =
        path_components (py_join ''/'' as) @ path_components r"
      by (simp add: path_components_append [simplified])
    then show ?thesis using path_components_join assms by auto
  qed
next
  assume "\<exists>cs. bs = as @ cs"
  then obtain cs where cs: "bs = as @ cs" ..
  show "py_join ''/'' bs = py_join ''/'' as \<or>
      py_startswith (py_join ''/'' bs) (py_join ''/'' as @ ''/'')"
  proof (cases "cs = []")
    case True
    then show ?thesis using cs by simp
  next
    case False
    then show ?thesis using cs assms(3) py_join_append [of as cs "''/''"]
      by (auto simp: py_startswith_iff)
  qed
qed

section \<open>shlex.split\<close>

text \<open>
  The states of the lexer in POSIX mode with \<open>whitespace_split\<close> and no comment characters:
  between tokens, inside a word, inside quotes (with the quote), and after an escape (with the
  state to return to). \<open>quoted\<close> records that the token had quotes, so that \<open>''\<close> is a token.
\<close>

datatype lex_state = LexSpace | LexWord | LexQuote char | LexEscape "char option"

definition shlex_space :: "char \<Rightarrow> bool" where
  "shlex_space c \<longleftrightarrow> c \<in> set [CHR '' '', CHR 0x09, CHR 0x0D, CHR 0x0A]"

definition shlex_quote :: "char \<Rightarrow> bool" where
  "shlex_quote c \<longleftrightarrow> c \<in> set [CHR 0x27, CHR 0x22]"

definition shlex_emit :: "string \<Rightarrow> bool \<Rightarrow> string list" where
  "shlex_emit token quoted = (if token \<noteq> [] \<or> quoted then [token] else [])"

fun shlex_from :: "lex_state \<Rightarrow> string \<Rightarrow> bool \<Rightarrow> string \<Rightarrow> string list + string" where
  "shlex_from (LexQuote q) token quoted [] = Inr ''No closing quotation''"
| "shlex_from (LexEscape q) token quoted [] = Inr ''No escaped character''"
| "shlex_from LexSpace token quoted [] = Inl (shlex_emit token quoted)"
| "shlex_from LexWord token quoted [] = Inl (shlex_emit token quoted)"
| "shlex_from LexSpace token quoted (c # s) =
     (if shlex_space c then shlex_from LexSpace token quoted s
      else if c = CHR 0x5C then shlex_from (LexEscape None) token quoted s
      else if shlex_quote c then shlex_from (LexQuote c) token True s
      else shlex_from LexWord [c] quoted s)"
| "shlex_from (LexQuote q) token quoted (c # s) =
     (if c = q then shlex_from LexWord token True s
      else if c = CHR 0x5C \<and> q = CHR 0x22 then shlex_from (LexEscape (Some q)) token True s
      else shlex_from (LexQuote q) (token @ [c]) True s)"
| "shlex_from (LexEscape q) token quoted (c # s) =
     (case q of
        None \<Rightarrow> shlex_from LexWord (token @ [c]) quoted s
      | Some q \<Rightarrow>
          shlex_from (LexQuote q)
            (if c \<noteq> CHR 0x5C \<and> c \<noteq> q then token @ [CHR 0x5C, c] else token @ [c]) quoted s)"
| "shlex_from LexWord token quoted (c # s) =
     (if shlex_space c then
        (case shlex_from LexSpace [] False s of
           Inl tokens \<Rightarrow> Inl (shlex_emit token quoted @ tokens)
         | Inr e \<Rightarrow> Inr e)
      else if shlex_quote c then shlex_from (LexQuote c) token quoted s
      else if c = CHR 0x5C then shlex_from (LexEscape None) token quoted s
      else shlex_from LexWord (token @ [c]) quoted s)"

text \<open>\<open>Inl\<close> the tokens, or \<open>Inr\<close> the message of the \<open>ValueError\<close>.\<close>

definition shlex_split :: "string \<Rightarrow> string list + string" where
  "shlex_split s = shlex_from LexSpace [] False s"

text \<open>A text without quotes and escapes always parses.\<close>

definition plain_char :: "char \<Rightarrow> bool" where
  "plain_char c \<longleftrightarrow> \<not> shlex_quote c \<and> c \<noteq> CHR 0x5C"

lemma shlex_from_plain:
  "list_all plain_char s \<Longrightarrow> (\<exists>ws. shlex_from LexSpace [] False s = Inl ws) \<and>
     (\<forall>token. \<exists>ws. shlex_from LexWord token False s = Inl ws)"
proof (induction s)
  case Nil
  then show ?case by simp
next
  case (Cons c s)
  then have c: "\<not> shlex_quote c" "c \<noteq> CHR 0x5C" by (simp_all add: plain_char_def)
  from Cons obtain ws where ws: "shlex_from LexSpace [] False s = Inl ws" by auto
  from Cons have "\<exists>ws. shlex_from LexWord token False s = Inl ws" for token by simp
  with c ws show ?case by simp
qed

lemma shlex_split_plain:
  assumes "list_all plain_char s"
  shows "\<exists>ws. shlex_split s = Inl ws"
  using shlex_from_plain [OF assms] by (simp add: shlex_split_def)

end
