(* ===== verification/TrustPolicy.thy ===== *)
theory TrustPolicy
  imports TrustCrypto PyLib
begin

text \<open>
  \<open>trust_policy.py\<close>: whether a proposed action is inside a capability lease. The decision
  procedure collects a reason for every violated condition; \<open>within_lease\<close> states the same
  contract without reasons, on path components instead of texts, and the procedure is shown to
  implement it.
\<close>

section \<open>Constants\<close>

definition POLICY_VERSION :: string where
  "POLICY_VERSION = ''trust-policy-v1''"

definition PROTECTED_BRANCHES :: "string list" where
  "PROTECTED_BRANCHES = [''main'', ''master'', ''refs/heads/main'', ''refs/heads/master'']"

definition SENSITIVE_PATH_STEMS :: "string list" where
  "SENSITIVE_PATH_STEMS =
     [''.env'', ''.git'', ''.ssh'', ''credentials'', ''private_key'', ''secrets'', ''id_rsa'']"

definition SHELL_META :: "string list" where
  "SHELL_META = [''&&'', ''||'', '';'', ''|'', ''>'', ''>>'', ''<'', [CHR 0x60], ''$('']"

definition HIGH_RISK_ACTIONS :: "CapabilityActionType list" where
  "HIGH_RISK_ACTIONS = [CapabilityActionType.DEPLOY, CapabilityActionType.READ_SECRET,
     CapabilityActionType.WRITE_DATABASE]"

definition REPOSITORY_ACTIONS :: "CapabilityActionType list" where
  "REPOSITORY_ACTIONS = [CapabilityActionType.READ_REPOSITORY, CapabilityActionType.CREATE_BRANCH,
     CapabilityActionType.MODIFY_FILES, CapabilityActionType.RUN_COMMAND,
     CapabilityActionType.ACCESS_NETWORK, CapabilityActionType.CREATE_PULL_REQUEST]"

section \<open>Payloads\<close>

definition scope_payload :: "CapabilityScope \<Rightarrow> json" where
  "scope_payload c = JObj
     [(''repository'', JStr (scope_repository c)),
      (''branch'', JStr (scope_branch c)),
      (''allowed_actions'', JList (map (JStr \<circ> CapabilityActionType_value) (scope_allowed_actions c))),
      (''allowed_path_prefixes'', json_strs (scope_allowed_path_prefixes c)),
      (''allowed_commands'', json_strs (scope_allowed_commands c)),
      (''allowed_network_domains'', json_strs (scope_allowed_network_domains c)),
      (''max_runtime_seconds'', JInt (scope_max_runtime_seconds c)),
      (''max_cost_usd'', JNum (scope_max_cost_usd c)),
      (''max_retries'', JInt (scope_max_retries c)),
      (''max_pull_requests'', JInt (scope_max_pull_requests c)),
      (''allow_auto_merge'', JBool (scope_allow_auto_merge c)),
      (''metadata'', JObj (scope_metadata c))]"

definition lease_receipt_payload :: "CapabilityLease \<Rightarrow> json" where
  "lease_receipt_payload l = JObj
     [(''id'', JStr (lease_id l)),
      (''approval_request_id'', JStr (lease_approval_request_id l)),
      (''approved_payload_hash'', JStr (lease_approved_payload_hash l)),
      (''agent_id'', json_opt_str (lease_agent_id l)),
      (''provider'', JStr (AgentProvider_value (lease_provider l))),
      (''mode'', JStr (CapabilityLeaseMode_value (lease_mode l))),
      (''scope'', scope_payload (lease_scope l)),
      (''issued_by_user_id'', JStr (lease_issued_by_user_id l)),
      (''required_reviewer_count'', JInt (lease_required_reviewer_count l)),
      (''prevent_self_approval'', JBool (lease_prevent_self_approval l)),
      (''issued_at'', JTime (lease_issued_at l)),
      (''expires_at'', JTime (lease_expires_at l)),
      (''receipt_nonce'', JStr (lease_receipt_nonce l))]"

definition policy_decision ::
    "env \<Rightarrow> sys \<Rightarrow> ProposedAction \<Rightarrow> PolicyDecisionType \<Rightarrow> RiskLevel \<Rightarrow> string list \<Rightarrow> string list \<Rightarrow> PolicyDecision" where
  "policy_decision E s action decision risk reasons obligations =
     \<lparr>dec_id = new_id E ''decision'' s, dec_proposed_action_id = act_id action,
      dec_lease_id = act_lease_id action, dec_decision = decision, dec_risk_level = risk,
      dec_reasons = reasons, dec_obligations = obligations,
      dec_evaluated_policy_version = POLICY_VERSION, dec_evaluated_at = clock s\<rparr>"

section \<open>Paths, commands and domains\<close>

definition clean_path :: "string \<Rightarrow> string option" where
  "clean_path value =
     (let candidate = py_replace_char (CHR 0x5C) (CHR ''/'') (py_strip value)
      in if candidate = [] \<or> py_startswith candidate ''/'' then None
         else if ''..'' \<in> set (path_parts candidate) \<or> path_str candidate = ''.'' then None
         else Some (path_str candidate))"

definition is_sensitive_path_part :: "string \<Rightarrow> bool" where
  "is_sensitive_path_part part =
     (let lowered = py_lower part
      in py_startswith lowered ''.env'' \<or> lowered \<in> set [''.git'', ''.ssh''] \<or>
         path_stem lowered \<in> set SENSITIVE_PATH_STEMS)"

definition prefix_covers :: "string \<Rightarrow> string \<Rightarrow> bool" where
  "prefix_covers clean prefix =
     (case clean_path (py_rstrip_char (CHR ''/'') prefix) of
        None \<Rightarrow> False
      | Some p \<Rightarrow> p \<noteq> [] \<and> (clean = p \<or> py_startswith clean (p @ ''/'')))"

definition path_allowed :: "string \<Rightarrow> string list \<Rightarrow> bool" where
  "path_allowed path prefixes =
     (case clean_path path of
        None \<Rightarrow> False
      | Some clean \<Rightarrow>
          \<not> list_ex is_sensitive_path_part (path_parts clean) \<and> list_ex (prefix_covers clean) prefixes)"

definition command_allowed :: "string \<Rightarrow> string list \<Rightarrow> bool" where
  "command_allowed command allowed =
     (let cleaned = py_strip command
      in if cleaned = [] then False
         else case shlex_split cleaned of
                Inr e \<Rightarrow> False
              | Inl tokens \<Rightarrow>
                  if tokens = [] then False
                  else if contains_any cleaned SHELL_META then cleaned \<in> set (map py_strip allowed)
                  else cleaned \<in> set (map py_strip allowed))"

definition domain_base :: "string \<Rightarrow> string" where
  "domain_base d = py_rstrip_char (CHR ''.'') (py_lower (py_strip d))"

definition domain_allowed :: "string \<Rightarrow> string list \<Rightarrow> bool" where
  "domain_allowed domain allowed =
     (let candidate = domain_base domain
      in if candidate = [] \<or> py_in ''/'' candidate \<or> py_in '':'' candidate then False
         else list_ex (\<lambda>configured.
           let base = domain_base configured
           in candidate = base \<or> py_endswith candidate (''.'' @ base)) allowed)"

section \<open>The decision\<close>

text \<open>The reasons against an action under a lease, in the order in which the code collects them.\<close>

definition identity_reasons :: "env \<Rightarrow> int \<Rightarrow> ProposedAction \<Rightarrow> CapabilityLease \<Rightarrow> string list" where
  "identity_reasons E now action lease =
     (if Some (lease_id lease) \<noteq> act_lease_id action
      then [''Action lease identifier does not match the evaluated lease.''] else [])
   @ (if lease_status lease \<noteq> CapabilityLeaseStatus.ACTIVE
      then [''Capability lease is not active: '' @ CapabilityLeaseStatus_value (lease_status lease) @ ''.'']
      else [])
   @ (if lease_expires_at lease \<le> now then [''Capability lease has expired.''] else [])
   @ (if \<not> verify_payload_signature E (lease_receipt_payload lease) (lease_receipt_signature lease)
      then [''Capability lease receipt signature is invalid.''] else [])
   @ (if truthy (lease_agent_id lease) \<and> act_agent_id action \<noteq> lease_agent_id lease
      then [''Agent identity does not match the lease subject.''] else [])
   @ (if lease_agent_id lease = None \<and> act_agent_id action \<noteq> None
      then [''An unbound lease cannot be adopted by an agent identity.''] else [])
   @ (if act_provider action \<noteq> lease_provider lease
      then [''Agent provider does not match the lease provider.''] else [])
   @ (if act_action_type action \<notin> set (scope_allowed_actions (lease_scope lease))
      then [''Action type '' @ CapabilityActionType_value (act_action_type action) @
        '' is outside the approved lease.'']
      else [])"

definition target_reasons :: "env \<Rightarrow> ProposedAction \<Rightarrow> CapabilityLease \<Rightarrow> string list" where
  "target_reasons E action lease =
     (let scope = lease_scope lease;
          expected_run_id = json_or_str E (scope_metadata scope) ''run_id'';
          expected_task_id = json_or_str E (scope_metadata scope) ''task_id''
      in (if act_action_type action \<in> set REPOSITORY_ACTIONS then
            (if act_repository action \<noteq> Some (scope_repository scope)
             then [''Repository does not match the approved capability scope.''] else [])
          @ (if act_branch action \<noteq> Some (scope_branch scope)
             then [''Branch does not match the approved capability scope.''] else [])
          else [])
       @ (if py_lower (opt_str (act_branch action)) \<in> set PROTECTED_BRANCHES
          then [''Protected branches cannot receive agent mutations.''] else [])
       @ (if (case dict_get (act_metadata action) ''auto_merge'' of None \<Rightarrow> False | Some v \<Rightarrow> json_truthy v)
              \<or> scope_allow_auto_merge scope
          then [''Auto-merge is prohibited by the Aixion trust policy.''] else [])
       @ (if expected_run_id \<noteq> [] \<and> act_run_id action \<noteq> Some expected_run_id
          then [''Run identity does not match the capability lease.''] else [])
       @ (if expected_task_id \<noteq> [] \<and> act_task_id action \<noteq> Some expected_task_id
          then [''Task identity does not match the capability lease.''] else []))"

definition content_reasons :: "ProposedAction \<Rightarrow> CapabilityScope \<Rightarrow> string list" where
  "content_reasons action scope =
     (let invalid_paths = filter (\<lambda>path. \<not> path_allowed path (scope_allowed_path_prefixes scope))
            (act_paths action);
          invalid_domains = filter (\<lambda>domain. \<not> domain_allowed domain (scope_allowed_network_domains scope))
            (act_network_domains action)
      in (if act_action_type action = CapabilityActionType.MODIFY_FILES \<and> act_paths action = []
          then [''File mutation requires at least one explicit approved path.''] else [])
       @ (if invalid_paths \<noteq> []
          then [''Paths outside approved scope: '' @ py_join '', '' (sort invalid_paths)] else [])
       @ (if act_action_type action = CapabilityActionType.RUN_COMMAND \<and> \<not> truthy (act_command action)
          then [''Command execution requires one explicit approved command.''] else [])
       @ (if truthy (act_command action) \<and>
             \<not> command_allowed (opt_str (act_command action)) (scope_allowed_commands scope)
          then [''Command is not covered by the exact approved command allowlist.''] else [])
       @ (if act_action_type action = CapabilityActionType.ACCESS_NETWORK \<and> act_network_domains action = []
          then [''Network access requires at least one explicit approved domain.''] else [])
       @ (if invalid_domains \<noteq> []
          then [''Network domains outside approved scope: '' @ py_join '', '' invalid_domains] else []))"

definition budget_reasons :: "ProposedAction \<Rightarrow> CapabilityLease \<Rightarrow> string list" where
  "budget_reasons action lease =
     (let scope = lease_scope lease
      in (if lease_consumed_runtime_seconds lease + act_estimated_runtime_seconds action
               > scope_max_runtime_seconds scope
          then [''Projected runtime exceeds the capability budget.''] else [])
       @ (if lease_consumed_cost_usd lease + act_estimated_cost_usd action > scope_max_cost_usd scope
          then [''Projected cost exceeds the capability budget.''] else [])
       @ (if act_retry_number action > scope_max_retries scope
          then [''Retry number exceeds the capability retry budget.''] else [])
       @ (if act_action_type action = CapabilityActionType.CREATE_PULL_REQUEST \<and>
             lease_consumed_pull_requests lease \<ge> scope_max_pull_requests scope
          then [''Pull-request capability budget is exhausted.''] else []))"

definition lease_reasons :: "env \<Rightarrow> int \<Rightarrow> ProposedAction \<Rightarrow> CapabilityLease \<Rightarrow> string list" where
  "lease_reasons E now action lease =
     identity_reasons E now action lease @ target_reasons E action lease @
     content_reasons action (lease_scope lease) @ budget_reasons action lease"

definition evaluate_proposed_action ::
    "env \<Rightarrow> ProposedAction \<Rightarrow> CapabilityLease option \<Rightarrow> sys \<Rightarrow> PolicyDecision" where
  "evaluate_proposed_action E action lease s =
     (case lease of
        None \<Rightarrow>
          if act_action_type action \<in> set HIGH_RISK_ACTIONS then
            policy_decision E s action PolicyDecisionType.BLOCK RiskLevel.CRITICAL
              [''High-risk actions require an active signed capability lease.''] []
          else
            policy_decision E s action PolicyDecisionType.REQUIRE_APPROVAL RiskLevel.HIGH
              [''No capability lease was supplied.'']
              [''Create a scoped approval and issue a short-lived capability lease.'']
      | Some lease \<Rightarrow>
          let reasons = lease_reasons E (clock s) action lease
          in if reasons \<noteq> [] then
               policy_decision E s action PolicyDecisionType.BLOCK RiskLevel.CRITICAL reasons
                 [''Revise the approval scope and issue a new capability lease.'']
             else if lease_mode lease = STRICT then
               policy_decision E s action PolicyDecisionType.REQUIRE_APPROVAL RiskLevel.HIGH
                 [''Strict mode requires a human decision for every meaningful action.'']
                 [''Approve this exact action without broadening the lease.'']
             else if lease_mode lease = SUPERVISED \<and> act_action_type action \<in> set HIGH_RISK_ACTIONS then
               policy_decision E s action PolicyDecisionType.REQUIRE_APPROVAL RiskLevel.CRITICAL
                 [''Supervised mode escalates high-risk actions to a human reviewer.'']
                 [''Require an owner or maintainer decision before execution.'']
             else
               policy_decision E s action PolicyDecisionType.ALLOW
                 (if act_action_type action \<in> set HIGH_RISK_ACTIONS then RiskLevel.HIGH else RiskLevel.LOW)
                 [''Action is inside the signed, active and budgeted capability lease.'']
                 [''Record the executed payload and consumption against the lease.''])"

section \<open>The contract of the policy\<close>

text \<open>
  A normalised path names something inside the repository: it is relative, has at least one
  component and never climbs.
\<close>

definition path_norm :: "string \<Rightarrow> string" where
  "path_norm value = py_replace_char (CHR 0x5C) (CHR ''/'') (py_strip value)"

definition inside :: "string \<Rightarrow> bool" where
  "inside v \<longleftrightarrow> posix_root v = [] \<and> path_components v \<noteq> [] \<and> ''..'' \<notin> set (path_components v)"

text \<open>
  A path is covered when it is inside, has no sensitive component, and the components of an
  approved prefix are a prefix of its components.
\<close>

definition path_within :: "string \<Rightarrow> string list \<Rightarrow> bool" where
  "path_within path prefixes \<longleftrightarrow>
     inside (path_norm path) \<and>
     (\<forall>w \<in> set (path_components (path_norm path)). \<not> is_sensitive_path_part w) \<and>
     (\<exists>p \<in> set prefixes. \<exists>rest.
        inside (path_norm (py_rstrip_char (CHR ''/'') p)) \<and>
        path_components (path_norm path) =
          path_components (path_norm (py_rstrip_char (CHR ''/'') p)) @ rest)"

text \<open>A host is covered when it is an approved domain or a subdomain of one.\<close>

definition domain_within :: "string \<Rightarrow> string list \<Rightarrow> bool" where
  "domain_within domain allowed \<longleftrightarrow>
     domain_base domain \<noteq> [] \<and> CHR ''/'' \<notin> set (domain_base domain) \<and>
     CHR '':'' \<notin> set (domain_base domain) \<and>
     (\<exists>d \<in> set allowed. domain_base domain = domain_base d \<or>
        (\<exists>host. domain_base domain = host @ ''.'' @ domain_base d))"

definition command_within :: "string \<Rightarrow> string list \<Rightarrow> bool" where
  "command_within command allowed \<longleftrightarrow>
     py_strip command \<in> py_strip ` set allowed \<and>
     (\<exists>tokens. tokens \<noteq> [] \<and> shlex_split (py_strip command) = Inl tokens)"

definition binds_subject :: "env \<Rightarrow> int \<Rightarrow> ProposedAction \<Rightarrow> CapabilityLease \<Rightarrow> bool" where
  "binds_subject E now action lease \<longleftrightarrow>
     act_lease_id action = Some (lease_id lease) \<and>
     lease_status lease = CapabilityLeaseStatus.ACTIVE \<and> now < lease_expires_at lease \<and>
     lease_receipt_signature lease = sign_payload E (lease_receipt_payload lease) \<and>
     (lease_agent_id lease = Some [] \<or> act_agent_id action = lease_agent_id lease) \<and>
     act_provider action = lease_provider lease \<and>
     act_action_type action \<in> set (scope_allowed_actions (lease_scope lease))"

definition targets_scope :: "env \<Rightarrow> ProposedAction \<Rightarrow> CapabilityLease \<Rightarrow> bool" where
  "targets_scope E action lease \<longleftrightarrow>
     (let scope = lease_scope lease;
          run = json_or_str E (scope_metadata scope) ''run_id'';
          task = json_or_str E (scope_metadata scope) ''task_id''
      in (act_action_type action \<in> set REPOSITORY_ACTIONS \<longrightarrow>
            act_repository action = Some (scope_repository scope) \<and>
            act_branch action = Some (scope_branch scope)) \<and>
         py_lower (opt_str (act_branch action)) \<notin> set PROTECTED_BRANCHES \<and>
         \<not> scope_allow_auto_merge scope \<and>
         (\<forall>v. dict_get (act_metadata action) ''auto_merge'' = Some v \<longrightarrow> \<not> json_truthy v) \<and>
         (run = [] \<or> act_run_id action = Some run) \<and> (task = [] \<or> act_task_id action = Some task))"

definition content_covered :: "ProposedAction \<Rightarrow> CapabilityScope \<Rightarrow> bool" where
  "content_covered action scope \<longleftrightarrow>
     (\<forall>p \<in> set (act_paths action). path_within p (scope_allowed_path_prefixes scope)) \<and>
     (\<forall>d \<in> set (act_network_domains action). domain_within d (scope_allowed_network_domains scope)) \<and>
     (truthy (act_command action) \<longrightarrow>
        command_within (opt_str (act_command action)) (scope_allowed_commands scope)) \<and>
     (act_action_type action = CapabilityActionType.MODIFY_FILES \<longrightarrow> act_paths action \<noteq> []) \<and>
     (act_action_type action = CapabilityActionType.RUN_COMMAND \<longrightarrow> truthy (act_command action)) \<and>
     (act_action_type action = CapabilityActionType.ACCESS_NETWORK \<longrightarrow> act_network_domains action \<noteq> [])"

definition within_budget :: "ProposedAction \<Rightarrow> CapabilityLease \<Rightarrow> bool" where
  "within_budget action lease \<longleftrightarrow>
     lease_consumed_runtime_seconds lease + act_estimated_runtime_seconds action
       \<le> scope_max_runtime_seconds (lease_scope lease) \<and>
     lease_consumed_cost_usd lease + act_estimated_cost_usd action \<le> scope_max_cost_usd (lease_scope lease) \<and>
     act_retry_number action \<le> scope_max_retries (lease_scope lease) \<and>
     (act_action_type action = CapabilityActionType.CREATE_PULL_REQUEST \<longrightarrow>
        lease_consumed_pull_requests lease < scope_max_pull_requests (lease_scope lease))"

definition within_lease :: "env \<Rightarrow> int \<Rightarrow> ProposedAction \<Rightarrow> CapabilityLease \<Rightarrow> bool" where
  "within_lease E now action lease \<longleftrightarrow>
     binds_subject E now action lease \<and> targets_scope E action lease \<and>
     content_covered action (lease_scope lease) \<and> within_budget action lease"

text \<open>The decision an action deserves under a lease, without reasons or obligations.\<close>

definition policy_verdict :: "env \<Rightarrow> int \<Rightarrow> ProposedAction \<Rightarrow> CapabilityLease \<Rightarrow> PolicyDecisionType" where
  "policy_verdict E now action lease =
     (if \<not> within_lease E now action lease then PolicyDecisionType.BLOCK
      else if lease_mode lease = STRICT \<or>
        lease_mode lease = SUPERVISED \<and> act_action_type action \<in> set HIGH_RISK_ACTIONS
      then PolicyDecisionType.REQUIRE_APPROVAL
      else PolicyDecisionType.ALLOW)"

section \<open>The procedure implements the contract\<close>

lemma py_join_Nil_iff: "proper_components ws \<Longrightarrow> py_join ''/'' ws = [] \<longleftrightarrow> ws = []"
  using path_components_join [of ws] by (auto simp: path_components_def)

lemma path_str_dot: "posix_root v = [] \<Longrightarrow> path_str v = ''.'' \<longleftrightarrow> path_components v = []"
proof -
  assume root: "posix_root v = []"
  have "path_components ''.'' = []" by (simp add: path_components_def)
  then have "py_join ''/'' (path_components v) = ''.'' \<Longrightarrow> path_components v = []"
    using path_components_join [OF proper_path_components, of v] by metis
  then show ?thesis
    using root py_join_Nil_iff [OF proper_path_components, of v] by (auto simp: path_str_def Let_def)
qed

lemma clean_path_eq:
  "clean_path value =
     (if inside (path_norm value) then Some (py_join ''/'' (path_components (path_norm value))) else None)"
proof -
  let ?v = "path_norm value"
  have nil: "?v = [] \<Longrightarrow> path_components ?v = []" by (simp add: path_components_def)
  show ?thesis
  proof (cases "?v = [] \<or> py_startswith ?v ''/''")
    case True
    then show ?thesis
      using nil by (auto simp: clean_path_def path_norm_def [symmetric] inside_def posix_root_Nil_iff Let_def)
  next
    case False
    then have root: "posix_root ?v = []" by (simp add: posix_root_Nil_iff)
    have "path_components ?v \<noteq> [] \<Longrightarrow> path_str ?v = py_join ''/'' (path_components ?v)"
      using root py_join_Nil_iff [OF proper_path_components, of ?v] by (simp add: path_str_def Let_def)
    with False root path_str_dot [OF root] show ?thesis
      by (auto simp: clean_path_def path_norm_def [symmetric] inside_def path_parts_def Let_def)
  qed
qed

lemma path_parts_clean:
  assumes "inside v"
  shows "path_parts (py_join ''/'' (path_components v)) = path_components v"
proof -
  have p: "proper_components (path_components v)" by (rule proper_path_components)
  obtain w ws where w: "path_components v = w # ws" using assms by (cases "path_components v") (auto simp: inside_def)
  with p have "w \<noteq> []" "CHR ''/'' \<notin> set w" by (auto simp: proper_components_def)
  then have "\<not> py_startswith (py_join ''/'' (w # ws)) ''/''"
    by (cases w; cases ws) auto
  then show ?thesis
    using p by (simp add: path_parts_def posix_root_Nil_iff path_components_join w)
qed

lemma prefix_covers_iff:
  assumes "inside v"
  shows "prefix_covers (py_join ''/'' (path_components v)) p \<longleftrightarrow>
    (\<exists>rest. inside (path_norm (py_rstrip_char (CHR ''/'') p)) \<and>
       path_components v = path_components (path_norm (py_rstrip_char (CHR ''/'') p)) @ rest)"
proof (cases "inside (path_norm (py_rstrip_char (CHR ''/'') p))")
  case True
  let ?q = "path_norm (py_rstrip_char (CHR ''/'') p)"
  have ne: "path_components ?q \<noteq> []" "path_components v \<noteq> []" using True assms by (auto simp: inside_def)
  show ?thesis
    using True ne py_join_Nil_iff [OF proper_path_components, of ?q]
      join_prefix_iff [OF proper_path_components proper_path_components ne]
    by (simp add: prefix_covers_def clean_path_eq)
next
  case False
  then show ?thesis by (simp add: prefix_covers_def clean_path_eq)
qed

lemma path_allowed_iff: "path_allowed path prefixes \<longleftrightarrow> path_within path prefixes"
  by (auto simp: path_allowed_def path_within_def clean_path_eq path_parts_clean prefix_covers_iff
      list_ex_iff)

lemma py_in_char: "py_in [c] s \<longleftrightarrow> c \<in> set s"
  by (auto simp: py_in_iff in_set_conv_decomp)

lemma py_endswith_iff: "py_endswith s p \<longleftrightarrow> (\<exists>u. s = u @ p)"
proof -
  have "rev s = rev p @ r \<longleftrightarrow> s = rev r @ p" for r
    by (metis rev_append rev_rev_ident)
  then show ?thesis unfolding py_endswith_def py_startswith_iff by (metis rev_rev_ident)
qed

lemma domain_allowed_iff: "domain_allowed domain allowed \<longleftrightarrow> domain_within domain allowed"
  by (auto simp: domain_allowed_def domain_within_def Let_def py_in_char list_ex_iff py_endswith_iff)

lemma command_allowed_iff: "command_allowed command allowed \<longleftrightarrow> command_within command allowed"
proof -
  have "shlex_split [] = Inl []" by (simp add: shlex_split_def shlex_emit_def)
  then show ?thesis
    by (auto simp: command_allowed_def command_within_def Let_def split: sum.splits)
qed

lemma identity_reasons_iff: "identity_reasons E now action lease = [] \<longleftrightarrow> binds_subject E now action lease"
  by (cases "lease_agent_id lease")
    (auto simp: identity_reasons_def binds_subject_def verify_payload_signature_def)

lemma target_reasons_iff: "target_reasons E action lease = [] \<longleftrightarrow> targets_scope E action lease"
  by (auto simp: target_reasons_def targets_scope_def Let_def split: option.splits)

lemma content_reasons_iff: "content_reasons action scope = [] \<longleftrightarrow> content_covered action scope"
  by (auto simp: content_reasons_def content_covered_def Let_def path_allowed_iff domain_allowed_iff
      command_allowed_iff filter_empty_conv)

lemma budget_reasons_iff: "budget_reasons action lease = [] \<longleftrightarrow> within_budget action lease"
  by (auto simp: budget_reasons_def within_budget_def Let_def)

lemma lease_reasons_iff: "lease_reasons E now action lease = [] \<longleftrightarrow> within_lease E now action lease"
  by (simp add: lease_reasons_def within_lease_def identity_reasons_iff target_reasons_iff
      content_reasons_iff budget_reasons_iff)

lemma policy_decision_simps [simp]:
  "dec_id (policy_decision E s a d r rs os) = new_id E ''decision'' s"
  "dec_proposed_action_id (policy_decision E s a d r rs os) = act_id a"
  "dec_lease_id (policy_decision E s a d r rs os) = act_lease_id a"
  "dec_decision (policy_decision E s a d r rs os) = d"
  "dec_risk_level (policy_decision E s a d r rs os) = r"
  "dec_evaluated_policy_version (policy_decision E s a d r rs os) = POLICY_VERSION"
  "dec_evaluated_at (policy_decision E s a d r rs os) = clock s"
  by (simp_all add: policy_decision_def)

lemma evaluate_with_lease:
  "dec_decision (evaluate_proposed_action E action (Some lease) s) = policy_verdict E (clock s) action lease"
  by (simp add: evaluate_proposed_action_def policy_verdict_def lease_reasons_iff Let_def)

lemma evaluate_simps [simp]:
  "dec_id (evaluate_proposed_action E action lease s) = new_id E ''decision'' s"
  "dec_proposed_action_id (evaluate_proposed_action E action lease s) = act_id action"
  "dec_evaluated_policy_version (evaluate_proposed_action E action lease s) = POLICY_VERSION"
  "dec_evaluated_at (evaluate_proposed_action E action lease s) = clock s"
  by (simp_all add: evaluate_proposed_action_def Let_def split: option.splits)

end
