(* ===== verification/FlightRecorder.thy ===== *)
theory FlightRecorder
  imports TrustCrypto
begin

text \<open>
  \<open>trust_flight_recorder.py\<close>: the append-only, hash-chained log of trust events and its
  verification.
\<close>

section \<open>Appending and verifying\<close>

definition event_material :: "TrustEvent \<Rightarrow> json" where
  "event_material e = JObj
     [(''sequence'', JInt (tev_sequence e)),
      (''event_type'', JStr (TrustEventType_value (tev_event_type e))),
      (''entity_type'', JStr (tev_entity_type e)),
      (''entity_id'', JStr (tev_entity_id e)),
      (''actor'', JStr (tev_actor e)),
      (''correlation_id'', json_opt_str (tev_correlation_id e)),
      (''payload'', JObj (tev_payload e)),
      (''previous_hash'', json_opt_str (tev_previous_hash e)),
      (''created_at'', JTime (tev_created_at e))]"

definition ordered_events :: "sys \<Rightarrow> TrustEvent list" where
  "ordered_events s = sort_key tev_sequence (dict_vals (trust_events s))"

definition new_trust_event ::
    "env \<Rightarrow> TrustEventType \<Rightarrow> string \<Rightarrow> string \<Rightarrow> string \<Rightarrow> string option \<Rightarrow> jdict \<Rightarrow> sys \<Rightarrow> TrustEvent" where
  "new_trust_event E event_type entity_type entity_id actor correlation_id payload s =
     (let ordered = ordered_events s;
          previous = (if ordered = [] then None else Some (last ordered));
          event = \<lparr>tev_id = new_id E ''trust_event'' s,
            tev_sequence = (case previous of None \<Rightarrow> 1 | Some p \<Rightarrow> tev_sequence p + 1),
            tev_event_type = event_type, tev_entity_type = entity_type, tev_entity_id = entity_id,
            tev_actor = actor, tev_correlation_id = correlation_id, tev_payload = payload,
            tev_previous_hash = map_option tev_event_hash previous,
            tev_event_hash = ''pending'', tev_created_at = clock s\<rparr>
      in event\<lparr>tev_event_hash := sha256_hex E (event_material event)\<rparr>)"

definition append_trust_event ::
    "env \<Rightarrow> TrustEventType \<Rightarrow> string \<Rightarrow> string \<Rightarrow> string \<Rightarrow> string option \<Rightarrow> jdict \<Rightarrow> bool \<Rightarrow> sys \<Rightarrow> TrustEvent \<times> sys" where
  "append_trust_event E event_type entity_type entity_id actor correlation_id payload persisted s =
     (let event = new_trust_event E event_type entity_type entity_id actor correlation_id payload s;
          s = put_trust_event event (drawn s)
      in (event, if persisted then persist s else s))"

text \<open>The call every component makes: no commit of its own, the event itself not used.\<close>

definition record_trust_event ::
    "env \<Rightarrow> TrustEventType \<Rightarrow> string \<Rightarrow> string \<Rightarrow> string \<Rightarrow> string option \<Rightarrow> jdict \<Rightarrow> sys \<Rightarrow> sys" where
  "record_trust_event E event_type entity_type entity_id actor correlation_id payload s =
     snd (append_trust_event E event_type entity_type entity_id actor correlation_id payload False s)"

fun verify_events ::
    "env \<Rightarrow> int \<Rightarrow> int \<Rightarrow> string option \<Rightarrow> TrustEvent list \<Rightarrow> FlightRecorderVerification" where
  "verify_events E count expected_sequence expected_previous [] =
     \<lparr>frv_valid = True, frv_event_count = count, frv_first_invalid_sequence = None, frv_reason = []\<rparr>"
| "verify_events E count expected_sequence expected_previous (event # events) =
     (if tev_sequence event \<noteq> expected_sequence then
        \<lparr>frv_valid = False, frv_event_count = count,
         frv_first_invalid_sequence = Some (tev_sequence event),
         frv_reason = ''Expected sequence '' @ int_str expected_sequence @ '', got '' @
           int_str (tev_sequence event) @ ''.''\<rparr>
      else if tev_previous_hash event \<noteq> expected_previous then
        \<lparr>frv_valid = False, frv_event_count = count,
         frv_first_invalid_sequence = Some (tev_sequence event),
         frv_reason = ''Hash-chain predecessor mismatch.''\<rparr>
      else if sha256_hex E (event_material event) \<noteq> tev_event_hash event then
        \<lparr>frv_valid = False, frv_event_count = count,
         frv_first_invalid_sequence = Some (tev_sequence event),
         frv_reason = ''Event payload hash mismatch.''\<rparr>
      else verify_events E count (expected_sequence + 1) (Some (tev_event_hash event)) events)"

definition verify_flight_recorder :: "env \<Rightarrow> sys \<Rightarrow> FlightRecorderVerification" where
  "verify_flight_recorder E s =
     verify_events E (int (length (ordered_events s))) 1 None (ordered_events s)"

section \<open>Hash chains\<close>

fun chain :: "env \<Rightarrow> int \<Rightarrow> string option \<Rightarrow> TrustEvent list \<Rightarrow> bool" where
  "chain E n prev [] = True"
| "chain E n prev (e # es) =
     (tev_sequence e = n \<and> tev_previous_hash e = prev \<and>
      tev_event_hash e = sha256_hex E (event_material e) \<and> chain E (n + 1) (Some (tev_event_hash e)) es)"

lemma verify_events_iff: "frv_valid (verify_events E c n prev es) \<longleftrightarrow> chain E n prev es"
  by (induction es arbitrary: n prev) auto

lemma verify_iff: "frv_valid (verify_flight_recorder E s) \<longleftrightarrow> chain E 1 None (ordered_events s)"
  by (simp add: verify_flight_recorder_def verify_events_iff)

text \<open>The hash the next event has to refer to.\<close>

definition head_hash :: "string option \<Rightarrow> TrustEvent list \<Rightarrow> string option" where
  "head_hash prev es = (if es = [] then prev else Some (tev_event_hash (last es)))"

lemma chain_append:
  "chain E n prev (xs @ ys) \<longleftrightarrow>
     chain E n prev xs \<and> chain E (n + int (length xs)) (head_hash prev xs) ys"
  by (induction xs arbitrary: n prev) (auto simp: head_hash_def algebra_simps)

lemma chain_sequence:
  "chain E n prev es \<Longrightarrow> i < length es \<Longrightarrow> tev_sequence (es ! i) = n + int i"
proof (induction es arbitrary: n prev i)
  case Nil
  then show ?case by simp
next
  case (Cons e es)
  then show ?case by (cases i) auto
qed

lemma chain_last_sequence:
  "chain E n prev es \<Longrightarrow> es \<noteq> [] \<Longrightarrow> tev_sequence (last es) = n + int (length es) - 1"
  using chain_sequence [of E n prev es "length es - 1"]
  by (cases es rule: rev_cases) (auto simp: last_conv_nth)

lemma chain_le_last:
  assumes "chain E n prev es" "e \<in> set es"
  shows "tev_sequence e \<le> tev_sequence (last es)"
proof -
  obtain i where "i < length es" "e = es ! i" using assms(2) by (auto simp: in_set_conv_nth)
  then show ?thesis
    using chain_sequence [OF assms(1), of i] chain_last_sequence [OF assms(1)] by force
qed

interpretation trust_log: entity_table tev_id dict_get "\<lambda>x. dict_set (tev_id x) x" dict_vals "keyed tev_id"
  by (rule dict_entity_table)

lemma new_trust_event_simps [simp]:
  "tev_id (new_trust_event E ty ety eid a c p s) = new_id E ''trust_event'' s"
  "tev_event_type (new_trust_event E ty ety eid a c p s) = ty"
  "tev_entity_type (new_trust_event E ty ety eid a c p s) = ety"
  "tev_entity_id (new_trust_event E ty ety eid a c p s) = eid"
  "tev_actor (new_trust_event E ty ety eid a c p s) = a"
  "tev_payload (new_trust_event E ty ety eid a c p s) = p"
  "tev_created_at (new_trust_event E ty ety eid a c p s) = clock s"
  by (simp_all add: new_trust_event_def Let_def)

lemma new_trust_event_chain:
  "tev_event_hash (new_trust_event E ty ety eid a c p s) =
     sha256_hex E (event_material (new_trust_event E ty ety eid a c p s))"
  "ordered_events s = [] \<Longrightarrow> tev_sequence (new_trust_event E ty ety eid a c p s) = 1"
  "ordered_events s \<noteq> [] \<Longrightarrow>
     tev_sequence (new_trust_event E ty ety eid a c p s) = tev_sequence (last (ordered_events s)) + 1"
  "tev_previous_hash (new_trust_event E ty ety eid a c p s) = head_hash None (ordered_events s)"
  by (simp_all add: new_trust_event_def Let_def event_material_def head_hash_def)

lemma append_trust_event_log:
  assumes "chain E 1 None (ordered_events s)"
    and fresh: "dict_get (trust_events s) (new_id E ''trust_event'' s) = None"
    and r: "r = append_trust_event E ty ety eid a c p b s"
  shows "ordered_events (snd r) = ordered_events s @ [fst r]"
    and "chain E 1 None (ordered_events (snd r))"
proof -
  let ?e = "new_trust_event E ty ety eid a c p s"
  have vals: "dict_vals (trust_events (snd r)) = dict_vals (trust_events s) @ [?e]"
    using fresh by (simp add: r append_trust_event_def Let_def dict_set_new dict_vals_def)
  have le: "tev_sequence y \<le> tev_sequence ?e" if "y \<in> set (dict_vals (trust_events s))" for y
  proof -
    have y: "y \<in> set (ordered_events s)" using that by (simp add: ordered_events_def)
    then have ne: "ordered_events s \<noteq> []" by auto
    from chain_le_last [OF assms(1) y] new_trust_event_chain(3) [OF ne] show ?thesis by simp
  qed
  have fst: "fst r = ?e" by (simp add: r append_trust_event_def Let_def)
  show o: "ordered_events (snd r) = ordered_events s @ [fst r]"
    unfolding ordered_events_def vals fst using le by (intro sort_key_snoc) auto
  have "tev_sequence ?e = 1 + int (length (ordered_events s))"
    using new_trust_event_chain(2,3) chain_last_sequence [OF assms(1)] by (cases "ordered_events s = []") auto
  with assms(1) show "chain E 1 None (ordered_events (snd r))"
    unfolding o fst by (simp add: chain_append new_trust_event_chain)
qed

text \<open>Replacing an event of a chain by one with the same place but another content breaks it.\<close>

lemma chain_replace:
  assumes "inj (sha256 E)" "chain E n prev (xs @ e # ys)" "chain E n prev (xs @ e' # ys)"
    and "ys \<noteq> [] \<or> tev_event_hash e' = tev_event_hash e"
  shows "canonical_json E (event_material e') = canonical_json E (event_material e)"
proof -
  have h: "tev_event_hash e = sha256_hex E (event_material e)"
    "tev_event_hash e' = sha256_hex E (event_material e')"
    using assms(2,3) by (auto simp: chain_append)
  have "tev_event_hash e' = tev_event_hash e"
    using assms(2-4) by (cases ys) (auto simp: chain_append)
  with h assms(1) show ?thesis by (simp add: sha256_hex_def inj_eq)
qed

lemma ordered_put_event:
  assumes "keyed tev_id (trust_events s)" "dict_get (trust_events s) (tev_id e') = Some e"
    "tev_sequence e' = tev_sequence e"
  shows "ordered_events (put_trust_event e' s) =
    map (\<lambda>y. if tev_id y = tev_id e' then e' else y) (ordered_events s)"
proof -
  have "tev_sequence (if tev_id y = tev_id e' then e' else y) = tev_sequence y"
    if "y \<in> set (dict_vals (trust_events s))" for y
    using trust_log.get_self [OF assms(1) that] assms(2,3) by auto
  then show ?thesis
    using assms(1,2) unfolding ordered_events_def
    by (simp add: trust_log.vals_put sort_key_map)
qed

lemma put_event_split:
  assumes "keyed tev_id (trust_events s)" "dict_get (trust_events s) (tev_id e') = Some e"
    "tev_sequence e' = tev_sequence e"
  obtains xs ys where "ordered_events s = xs @ e # ys"
    "ordered_events (put_trust_event e' s) = xs @ e' # ys"
proof -
  have id: "tev_id e = tev_id e'" using trust_log.get_key [OF assms(1,2)] .
  have mem: "e \<in> set (ordered_events s)"
    using trust_log.get_mem [OF assms(1,2)] by (simp add: ordered_events_def)
  then obtain xs ys where o: "ordered_events s = xs @ e # ys" by (auto simp: in_set_conv_decomp)
  have dist: "distinct (dict_vals (trust_events s))"
    using assms(1) by (rule keyed_distinct_vals)
  then have "distinct (ordered_events s)" by (simp add: ordered_events_def)
  with o have nin: "e \<notin> set xs" "e \<notin> set ys" by auto
  have other: "tev_id y \<noteq> tev_id e'" if "y \<in> set xs \<union> set ys" for y
  proof
    assume "tev_id y = tev_id e'"
    moreover have "y \<in> set (dict_vals (trust_events s))"
      using that o by (metis Un_iff ordered_events_def set_ConsD set_append set_sort list.set_intros(2))
    ultimately have "y = e"
      using trust_log.get_self [OF assms(1)] assms(2) by fastforce
    with that nin show False by auto
  qed
  then have "map (\<lambda>y. if tev_id y = tev_id e' then e' else y) zs = zs"
    if "set zs \<subseteq> set xs \<union> set ys" for zs
    using that by (intro map_idI) auto
  then have "ordered_events (put_trust_event e' s) = xs @ e' # ys"
    using ordered_put_event [OF assms] o id by simp
  with o that show thesis by blast
qed

section \<open>What appending changes\<close>

lemma record_trust_event_eq:
  "record_trust_event E ty ety eid a c p s =
     put_trust_event (new_trust_event E ty ety eid a c p s) (drawn s)"
  by (simp add: record_trust_event_def append_trust_event_def Let_def)

lemma record_trust_event_simps [simp, store_simps]:
  "agent_tasks (record_trust_event E ty ety eid a c p s) = agent_tasks s"
  "agent_task_events (record_trust_event E ty ety eid a c p s) = agent_task_events s"
  "agent_runs (record_trust_event E ty ety eid a c p s) = agent_runs s"
  "agent_run_steps (record_trust_event E ty ety eid a c p s) = agent_run_steps s"
  "agent_run_events (record_trust_event E ty ety eid a c p s) = agent_run_events s"
  "agent_run_faults (record_trust_event E ty ety eid a c p s) = agent_run_faults s"
  "capability_leases (record_trust_event E ty ety eid a c p s) = capability_leases s"
  "reviewer_attestations (record_trust_event E ty ety eid a c p s) = reviewer_attestations s"
  "proposed_actions (record_trust_event E ty ety eid a c p s) = proposed_actions s"
  "policy_decisions (record_trust_event E ty ety eid a c p s) = policy_decisions s"
  "action_authorizations (record_trust_event E ty ety eid a c p s) = action_authorizations s"
  "action_consumptions (record_trust_event E ty ety eid a c p s) = action_consumptions s"
  "credential_grants (record_trust_event E ty ety eid a c p s) = credential_grants s"
  "approval_requests (record_trust_event E ty ety eid a c p s) = approval_requests s"
  "mcp_pending_requests (record_trust_event E ty ety eid a c p s) = mcp_pending_requests s"
  "external_agents (record_trust_event E ty ety eid a c p s) = external_agents s"
  "agent_connectors (record_trust_event E ty ety eid a c p s) = agent_connectors s"
  "audit_events (record_trust_event E ty ety eid a c p s) = audit_events s"
  "clock (record_trust_event E ty ety eid a c p s) = clock s"
  "draws (record_trust_event E ty ety eid a c p s) = Suc (draws s)"
  "disk (record_trust_event E ty ety eid a c p s) = disk s"
  by (simp_all add: record_trust_event_eq)

end
