(* ===== verification/TrustService.thy ===== *)
theory TrustService
  imports TrustPolicy FlightRecorder
begin

text \<open>
  \<open>trust_service.py\<close>: reviewer attestations, issuing, expiring and revoking capability leases,
  and the gateway that evaluates a proposed action. Lease objects are threaded and written
  through, as runs and steps are; one operation reads one instant of the clock.
\<close>

definition seconds_us :: "int \<Rightarrow> int" where
  "seconds_us n = n * 1000000"

text \<open>\<open>a or b\<close> on optional strings.\<close>

definition opt_or :: "string option \<Rightarrow> string option \<Rightarrow> string option" where
  "opt_or a b = (if truthy a then a else b)"

section \<open>Reviewer attestations\<close>

definition linked_task_for_approval :: "string \<Rightarrow> sys \<Rightarrow> AgentTask option" where
  "linked_task_for_approval aid s =
     List.find (\<lambda>task. task_approval_request_id task = Some aid) (dict_vals (agent_tasks s))"

definition attests ::
    "string \<Rightarrow> string \<Rightarrow> ReviewerAttestationDecision \<Rightarrow> ReviewerAttestation \<Rightarrow> bool" where
  "attests aid payload_hash decision att \<longleftrightarrow>
     att_approval_request_id att = aid \<and> att_approval_payload_hash att = payload_hash \<and>
     att_decision att = decision"

text \<open>The set of reviewers, as a list without repetition.\<close>

definition approval_reviewer_ids :: "ApprovalRequest \<Rightarrow> string \<Rightarrow> sys \<Rightarrow> string list" where
  "approval_reviewer_ids approval payload_hash s =
     remdups ((if truthy (appr_approved_by_user_id approval)
               then [opt_str (appr_approved_by_user_id approval)] else []) @
       map att_reviewer_user_id
         (filter (attests (appr_id approval) payload_hash APPROVE) (dict_vals (reviewer_attestations s))))"

definition has_denial :: "string \<Rightarrow> string \<Rightarrow> sys \<Rightarrow> bool" where
  "has_denial aid payload_hash s =
     list_ex (attests aid payload_hash DENY) (dict_vals (reviewer_attestations s))"

definition attestation_material ::
    "string \<Rightarrow> string \<Rightarrow> AuthUser \<Rightarrow> ReviewerAttestationCreate \<Rightarrow> json" where
  "attestation_material aid payload_hash user payload = JObj
     [(''approval_request_id'', JStr aid),
      (''approval_payload_hash'', JStr payload_hash),
      (''reviewer_user_id'', JStr (user_id user)),
      (''reviewer_role'', JStr (UserRole_value (user_role user))),
      (''decision'', JStr (ReviewerAttestationDecision_value (rac_decision payload))),
      (''reason'', JStr (rac_reason payload))]"

definition new_attestation ::
    "env \<Rightarrow> string \<Rightarrow> string \<Rightarrow> AuthUser \<Rightarrow> ReviewerAttestationCreate \<Rightarrow> sys \<Rightarrow> ReviewerAttestation" where
  "new_attestation E aid payload_hash user payload s =
     \<lparr>att_id = new_id E ''attestation'' s, att_approval_request_id = aid,
      att_approval_payload_hash = payload_hash, att_reviewer_user_id = user_id user,
      att_reviewer_role = user_role user, att_decision = rac_decision payload,
      att_reason = rac_reason payload,
      att_signature = sign_payload E (attestation_material aid payload_hash user payload),
      att_created_at = clock s\<rparr>"

definition existing_attestation ::
    "string \<Rightarrow> string \<Rightarrow> string \<Rightarrow> sys \<Rightarrow> ReviewerAttestation option" where
  "existing_attestation aid payload_hash uid s =
     List.find (\<lambda>item. att_approval_request_id item = aid \<and> att_reviewer_user_id item = uid \<and>
         att_approval_payload_hash item = payload_hash)
       (dict_vals (reviewer_attestations s))"

definition record_reviewer_attestation ::
    "env \<Rightarrow> ReviewerAttestationCreate \<Rightarrow> AuthUser \<Rightarrow> sys \<Rightarrow> ReviewerAttestation result" where
  "record_reviewer_attestation E payload user s =
     (case dict_get (approval_requests s) (rac_approval_request_id payload) of
        None \<Rightarrow> raise (ValueError ''Approval request not found.'') s
      | Some approval \<Rightarrow>
          if \<not> truthy (appr_approved_payload_hash approval) then
            raise (TrustControlConflict ''Approval payload must be sealed before attestation.'') s
          else if appr_created_by_user_id approval = Some (user_id user) then
            raise (TrustControlConflict ''The approval creator cannot attest their own request.'') s
          else
            let payload_hash = opt_str (appr_approved_payload_hash approval)
            in case existing_attestation (appr_id approval) payload_hash (user_id user) s of
                 Some item \<Rightarrow>
                   if att_decision item \<noteq> rac_decision payload \<or> att_reason item \<noteq> rac_reason payload then
                     raise (TrustControlConflict ''Reviewer attestation is immutable once recorded.'') s
                   else ret item s
               | None \<Rightarrow>
                   let att = new_attestation E (appr_id approval) payload_hash user payload s;
                       s = record_trust_event E ATTESTATION_RECORDED ''approval_request'' (appr_id approval)
                         (user_email user) None
                         [(''attestation_id'', JStr (att_id att)),
                          (''decision'', JStr (ReviewerAttestationDecision_value (att_decision att))),
                          (''reviewer_role'', JStr (UserRole_value (att_reviewer_role att))),
                          (''approval_payload_hash'', JStr payload_hash)]
                         (put_attestation att (drawn s))
                   in ret att (persist s))"

section \<open>Issuing a lease\<close>

definition norm_path :: "string \<Rightarrow> string" where
  "norm_path p = py_replace_char (CHR 0x5C) (CHR ''/'') (py_strip p)"

definition outside_paths :: "CapabilityScope \<Rightarrow> ApprovalRequest \<Rightarrow> string list" where
  "outside_paths scope approval =
     sort (remdups (filter (\<lambda>path. path \<notin> set (map (norm_path \<circ> fc_path) (appr_files approval)))
       (map (\<lambda>item. py_rstrip_char (CHR ''/'') (norm_path item)) (scope_allowed_path_prefixes scope))))"

definition outside_commands :: "CapabilityScope \<Rightarrow> ApprovalRequest \<Rightarrow> string list" where
  "outside_commands scope approval =
     sort (filter (\<lambda>command. py_strip command \<notin>
         set (filter (\<lambda>c. c \<noteq> []) (map py_strip (appr_test_plan approval))))
       (scope_allowed_commands scope))"

definition validate_scope_against_approval ::
    "CapabilityScope \<Rightarrow> ApprovalRequest \<Rightarrow> sys \<Rightarrow> pyerror + unit" where
  "validate_scope_against_approval scope approval s =
     (case linked_task_for_approval (appr_id approval) s of
        None \<Rightarrow> Inl (TrustControlConflict ''Capability leases require a linked AgentTask.'')
      | Some task \<Rightarrow>
          if Some (scope_repository scope) \<noteq> task_repository task then
            Inl (TrustControlConflict ''Lease repository must match the approved AgentTask repository.'')
          else if scope_branch scope \<noteq> appr_target_branch approval \<or>
              Some (scope_branch scope) \<noteq> task_branch_preference task then
            Inl (TrustControlConflict ''Lease branch must match the approved target branch.'')
          else if outside_paths scope approval \<noteq> [] then
            Inl (TrustControlConflict (''Lease path scope exceeds approved files: '' @
              py_join '', '' (outside_paths scope approval)))
          else if outside_commands scope approval \<noteq> [] then
            Inl (TrustControlConflict (''Lease command scope exceeds the approved test plan: '' @
              py_join '', '' (outside_commands scope approval)))
          else if scope_allow_auto_merge scope then
            Inl (TrustControlConflict ''Auto-merge cannot be granted by a capability lease.'')
          else Inr ())"

definition lease_create_payload :: "CapabilityLeaseCreate \<Rightarrow> json" where
  "lease_create_payload p = JObj
     [(''approval_request_id'', JStr (lc_approval_request_id p)),
      (''agent_id'', json_opt_str (lc_agent_id p)),
      (''provider'', JStr (AgentProvider_value (lc_provider p))),
      (''mode'', JStr (CapabilityLeaseMode_value (lc_mode p))),
      (''scope'', scope_payload (lc_scope p)),
      (''expires_in_seconds'', JInt (lc_expires_in_seconds p)),
      (''required_reviewer_count'', JInt (lc_required_reviewer_count p)),
      (''prevent_self_approval'', JBool (lc_prevent_self_approval p))]"

definition request_fingerprint :: "env \<Rightarrow> CapabilityLeaseCreate \<Rightarrow> string" where
  "request_fingerprint E payload = sha256_hex E (lease_create_payload payload)"

definition lease_live :: "CapabilityLease \<Rightarrow> int \<Rightarrow> bool" where
  "lease_live lease now \<longleftrightarrow> lease_status lease = CapabilityLeaseStatus.ACTIVE \<and> lease_expires_at lease > now"

definition active_lease_for :: "string \<Rightarrow> string option \<Rightarrow> sys \<Rightarrow> CapabilityLease option" where
  "active_lease_for aid agent s =
     List.find (\<lambda>lease. lease_approval_request_id lease = aid \<and> lease_agent_id lease = agent \<and>
         lease_live lease (clock s))
       (dict_vals (capability_leases s))"

definition fingerprinted_scope :: "env \<Rightarrow> CapabilityLeaseCreate \<Rightarrow> CapabilityScope" where
  "fingerprinted_scope E payload =
     (lc_scope payload)\<lparr>scope_metadata :=
        dict_set ''request_fingerprint'' (JStr (request_fingerprint E payload))
          (scope_metadata (lc_scope payload))\<rparr>"

text \<open>The nonce is drawn before the identifier, which is the default of the first field.\<close>

definition new_lease ::
    "env \<Rightarrow> CapabilityLeaseCreate \<Rightarrow> ApprovalRequest \<Rightarrow> AuthUser \<Rightarrow> sys \<Rightarrow> CapabilityLease" where
  "new_lease E payload approval user s =
     (let lease = \<lparr>lease_id = new_id E ''lease'' (drawn s),
            lease_approval_request_id = appr_id approval,
            lease_approved_payload_hash = opt_str (appr_approved_payload_hash approval),
            lease_agent_id = lc_agent_id payload, lease_provider = lc_provider payload,
            lease_mode = lc_mode payload, lease_scope = fingerprinted_scope E payload,
            lease_issued_by_user_id = user_id user,
            lease_required_reviewer_count = lc_required_reviewer_count payload,
            lease_prevent_self_approval = lc_prevent_self_approval payload,
            lease_status = CapabilityLeaseStatus.ACTIVE, lease_issued_at = clock s,
            lease_expires_at = clock s + seconds_us (lc_expires_in_seconds payload),
            lease_revoked_at = None, lease_revoked_by_user_id = None, lease_revocation_reason = [],
            lease_receipt_nonce = token_urlsafe E (draws s),
            lease_receipt_signature = ''pending'',
            lease_consumed_pull_requests = 0, lease_consumed_retries = 0,
            lease_consumed_runtime_seconds = 0, lease_consumed_cost_usd = 0,
            lease_created_at = clock s, lease_updated_at = clock s\<rparr>
      in lease\<lparr>lease_receipt_signature := sign_payload E (lease_receipt_payload lease)\<rparr>)"

text \<open>
  The correlation identifier of the event is taken from the scope's free-form metadata; a value
  that is neither a string nor null does not validate as \<open>TrustEvent.correlation_id\<close>, after the
  lease has been stored in memory.
\<close>

definition metadata_correlation :: "jdict \<Rightarrow> pyerror + string option" where
  "metadata_correlation d =
     (case dict_get d ''correlation_id'' of
        None \<Rightarrow> Inr None
      | Some JNull \<Rightarrow> Inr None
      | Some (JStr v) \<Rightarrow> Inr (Some v)
      | Some v \<Rightarrow> Inl (ValidationError ''correlation_id: Input should be a valid string''))"

definition lease_issued_event :: "CapabilityLease \<Rightarrow> jdict" where
  "lease_issued_event lease =
     [(''approval_request_id'', JStr (lease_approval_request_id lease)),
      (''provider'', JStr (AgentProvider_value (lease_provider lease))),
      (''agent_id'', json_opt_str (lease_agent_id lease)),
      (''mode'', JStr (CapabilityLeaseMode_value (lease_mode lease))),
      (''repository'', JStr (scope_repository (lease_scope lease))),
      (''branch'', JStr (scope_branch (lease_scope lease))),
      (''expires_at'', JTime (lease_expires_at lease)),
      (''required_reviewer_count'', JInt (lease_required_reviewer_count lease))]"

definition store_new_lease ::
    "env \<Rightarrow> CapabilityLeaseCreate \<Rightarrow> ApprovalRequest \<Rightarrow> AuthUser \<Rightarrow> sys \<Rightarrow> CapabilityLease result" where
  "store_new_lease E payload approval user s =
     (let lease = new_lease E payload approval user s
      in liftE (metadata_correlation (scope_metadata (lease_scope lease)))
           (\<lambda>correlation s.
              let s = record_trust_event E LEASE_ISSUED ''capability_lease'' (lease_id lease)
                    (user_email user) correlation (lease_issued_event lease) s
              in ret lease (persist s))
           (put_lease lease (drawn (drawn s))))"

definition issue_capability_lease ::
    "env \<Rightarrow> CapabilityLeaseCreate \<Rightarrow> AuthUser \<Rightarrow> sys \<Rightarrow> CapabilityLease result" where
  "issue_capability_lease E payload user s =
     (case dict_get (approval_requests s) (lc_approval_request_id payload) of
        None \<Rightarrow> raise (ValueError ''Approval request not found.'') s
      | Some approval \<Rightarrow>
          let payload_hash = opt_str (appr_approved_payload_hash approval);
              reviewers = approval_reviewer_ids approval payload_hash s
          in if appr_status approval \<noteq> ApprovalStatus.APPROVED then
               raise (TrustControlConflict ''Capability leases require an APPROVED request.'') s
             else if \<not> truthy (appr_approved_payload_hash approval) then
               raise (TrustControlConflict ''Approved payload hash is required before lease issuance.'') s
             else if truthy (lc_agent_id payload) \<and>
                 dict_get (external_agents s) (opt_str (lc_agent_id payload)) = None then
               raise (ValueError ''External agent not found.'') s
             else if has_denial (appr_id approval) payload_hash s then
               raise (TrustControlConflict ''A reviewer denied this exact approval payload.'') s
             else liftE (validate_scope_against_approval (lc_scope payload) approval s)
               (\<lambda>_ s.
                 if lc_prevent_self_approval payload \<and>
                    appr_created_by_user_id approval \<in> Some ` set reviewers then
                   raise (TrustControlConflict ''Self-approved work cannot receive a capability lease.'') s
                 else if int (length reviewers) < lc_required_reviewer_count payload then
                   raise (TrustControlConflict (''Lease requires '' @
                     int_str (lc_required_reviewer_count payload) @ '' distinct reviewers; only '' @
                     int_str (int (length reviewers)) @ '' are recorded.'')) s
                 else
                   case active_lease_for (appr_id approval) (lc_agent_id payload) s of
                     Some active \<Rightarrow>
                       if dict_get (scope_metadata (lease_scope active)) ''request_fingerprint'' =
                          Some (JStr (request_fingerprint E payload))
                       then ret active s
                       else raise (TrustControlConflict
                         ''An active lease already exists for this approval and agent.'') s
                   | None \<Rightarrow> store_new_lease E payload approval user s) s)"

section \<open>Expiry and revocation\<close>

definition expire_lease :: "int \<Rightarrow> CapabilityLease \<Rightarrow> CapabilityLease" where
  "expire_lease now lease =
     lease\<lparr>lease_status := CapabilityLeaseStatus.EXPIRED, lease_updated_at := now\<rparr>"

definition refresh_lease_status :: "env \<Rightarrow> CapabilityLease \<Rightarrow> sys \<Rightarrow> CapabilityLease \<times> sys" where
  "refresh_lease_status E lease s =
     (if lease_status lease = CapabilityLeaseStatus.ACTIVE \<and> lease_expires_at lease \<le> clock s then
        let lease = expire_lease (clock s) lease;
            s = record_trust_event E LEASE_EXPIRED ''capability_lease'' (lease_id lease) ''system'' None
              [(''expires_at'', JTime (lease_expires_at lease))] (put_lease lease s)
        in (lease, persist s)
      else (lease, s))"

definition revoke_grant :: "string \<Rightarrow> int \<Rightarrow> CredentialGrant \<Rightarrow> CredentialGrant" where
  "revoke_grant lid now grant =
     (if grant_lease_id grant = lid \<and> \<not> grant_revoked grant
      then grant\<lparr>grant_revoked := True, grant_revoked_at := Some now\<rparr> else grant)"

definition revoke_grants :: "string \<Rightarrow> sys \<Rightarrow> sys" where
  "revoke_grants lid s =
     s\<lparr>credential_grants := map (\<lambda>(k, g). (k, revoke_grant lid (clock s) g)) (credential_grants s)\<rparr>"

definition mark_revoked :: "int \<Rightarrow> string \<Rightarrow> string \<Rightarrow> CapabilityLease \<Rightarrow> CapabilityLease" where
  "mark_revoked now uid reason lease =
     lease\<lparr>lease_status := CapabilityLeaseStatus.REVOKED,
       lease_revoked_at := Some now, lease_revoked_by_user_id := Some uid,
       lease_revocation_reason := reason, lease_updated_at := now\<rparr>"

definition revoke_capability_lease ::
    "env \<Rightarrow> CapabilityLease \<Rightarrow> AuthUser \<Rightarrow> string \<Rightarrow> sys \<Rightarrow> CapabilityLease result" where
  "revoke_capability_lease E lease user reason s =
     (let (lease, s) = refresh_lease_status E lease s
      in if lease_status lease \<in> {CapabilityLeaseStatus.REVOKED, CapabilityLeaseStatus.EXPIRED} then
           ret lease s
         else if lease_status lease \<noteq> CapabilityLeaseStatus.ACTIVE then
           raise (TrustControlConflict (''Lease cannot be revoked from '' @
             CapabilityLeaseStatus_value (lease_status lease) @ ''.'')) s
         else
           let lease = mark_revoked (clock s) (user_id user) reason lease;
               s = record_trust_event E LEASE_REVOKED ''capability_lease'' (lease_id lease)
                 (user_email user) None [(''reason'', JStr reason)]
                 (revoke_grants (lease_id lease) (put_lease lease s))
           in ret lease (persist s))"

section \<open>The gateway\<close>

definition lease_of_action :: "ProposedAction \<Rightarrow> sys \<Rightarrow> CapabilityLease option" where
  "lease_of_action action s = dict_get (capability_leases s) (opt_str (act_lease_id action))"

definition decision_event_type :: "PolicyDecisionType \<Rightarrow> TrustEventType" where
  "decision_event_type d =
     (case d of PolicyDecisionType.ALLOW \<Rightarrow> ACTION_ALLOWED
      | PolicyDecisionType.REQUIRE_APPROVAL \<Rightarrow> ACTION_REQUIRES_APPROVAL
      | PolicyDecisionType.BLOCK \<Rightarrow> ACTION_BLOCKED)"

text \<open>The lease the action names, refreshed if there is one.\<close>

definition refreshed_lease :: "env \<Rightarrow> ProposedAction \<Rightarrow> sys \<Rightarrow> CapabilityLease option \<times> sys" where
  "refreshed_lease E action s =
     (case lease_of_action action s of
        None \<Rightarrow> (None, s)
      | Some lease \<Rightarrow> let (lease, s) = refresh_lease_status E lease s in (Some lease, s))"

definition receive_action :: "env \<Rightarrow> ProposedAction \<Rightarrow> string \<Rightarrow> sys \<Rightarrow> sys" where
  "receive_action E action actor s =
     record_trust_event E ACTION_RECEIVED ''proposed_action'' (act_id action) actor
       (opt_or (act_run_id action) (act_task_id action))
       [(''provider'', JStr (AgentProvider_value (act_provider action))),
        (''agent_id'', json_opt_str (act_agent_id action)),
        (''action_type'', JStr (CapabilityActionType_value (act_action_type action))),
        (''lease_id'', json_opt_str (act_lease_id action))]
       (put_action action s)"

definition record_decision :: "env \<Rightarrow> ProposedAction \<Rightarrow> PolicyDecision \<Rightarrow> string \<Rightarrow> sys \<Rightarrow> sys" where
  "record_decision E action decision actor s =
     persist (record_trust_event E (decision_event_type (dec_decision decision)) ''proposed_action''
       (act_id action) actor (opt_or (act_run_id action) (act_task_id action))
       [(''decision_id'', JStr (dec_id decision)),
        (''decision'', JStr (PolicyDecisionType_value (dec_decision decision))),
        (''risk_level'', JStr (RiskLevel_value (dec_risk_level decision))),
        (''reasons'', json_strs (dec_reasons decision)),
        (''obligations'', json_strs (dec_obligations decision))]
       (put_decision decision (drawn s)))"

definition evaluate_gateway_action ::
    "env \<Rightarrow> ProposedAction \<Rightarrow> string \<Rightarrow> sys \<Rightarrow> (PolicyDecision \<times> CapabilityLease option) \<times> sys" where
  "evaluate_gateway_action E action actor s =
     (let (lease, s) = refreshed_lease E action s;
          s = receive_action E action actor s;
          decision = evaluate_proposed_action E action lease s
      in ((decision, lease), record_decision E action decision actor s))"

definition consumption_event :: "env \<Rightarrow> CapabilityLease \<Rightarrow> ActionConsumption \<Rightarrow> jdict" where
  "consumption_event E lease c =
     [(''lease_id'', JStr (lease_id lease)),
      (''actual_runtime_seconds'', JInt (con_actual_runtime_seconds c)),
      (''actual_cost_usd'', JNum (con_actual_cost_usd c)),
      (''pull_requests_created'', JInt (con_pull_requests_created c)),
      (''retry_consumed'', JBool (con_retry_consumed c)),
      (''output_reference'', json_opt_str (con_output_reference c)),
      (''evidence_hash'', JStr (sha256_hex E (JObj (con_evidence c))))]"

text \<open>
  Python's equality of JSON values: dictionaries compare without their order, and \<open>True\<close>, \<open>1\<close>
  and \<open>1.0\<close> are equal.
\<close>

fun json_norm :: "json \<Rightarrow> json" where
  "json_norm (JBool b) = JNum (if b then 1 else 0)"
| "json_norm (JInt i) = JNum (of_int i)"
| "json_norm (JList xs) = JList (map json_norm xs)"
| "json_norm (JObj d) = JObj (sort_key fst (map (\<lambda>(k, v). (k, json_norm v)) d))"
| "json_norm v = v"

definition json_eq :: "json \<Rightarrow> json \<Rightarrow> bool" where
  "json_eq a b \<longleftrightarrow> json_norm a = json_norm b"

definition same_consumption :: "ActionConsumption \<Rightarrow> ActionConsumption \<Rightarrow> bool" where
  "same_consumption a b \<longleftrightarrow>
     a\<lparr>con_evidence := []\<rparr> = b\<lparr>con_evidence := []\<rparr> \<and> json_eq (JObj (con_evidence a)) (JObj (con_evidence b))"

text \<open>The lease after a consumption is charged to it.\<close>

definition charge_lease :: "ActionConsumption \<Rightarrow> int \<Rightarrow> CapabilityLease \<Rightarrow> CapabilityLease" where
  "charge_lease c now lease =
     lease\<lparr>lease_consumed_runtime_seconds := lease_consumed_runtime_seconds lease + con_actual_runtime_seconds c,
       lease_consumed_cost_usd := lease_consumed_cost_usd lease + con_actual_cost_usd c,
       lease_consumed_pull_requests := lease_consumed_pull_requests lease + con_pull_requests_created c,
       lease_consumed_retries := lease_consumed_retries lease + (if con_retry_consumed c then 1 else 0),
       lease_updated_at := now\<rparr>"

definition first_decision :: "string \<Rightarrow> sys \<Rightarrow> PolicyDecision option" where
  "first_decision aid s =
     List.find (\<lambda>item. dec_proposed_action_id item = aid) (dict_vals (policy_decisions s))"

text \<open>Charging a stored action: the last part of both consumption operations.\<close>

definition charge_action ::
    "env \<Rightarrow> ProposedAction \<Rightarrow> CapabilityLease \<Rightarrow> ActionConsumption \<Rightarrow> string \<Rightarrow> jdict \<Rightarrow> sys \<Rightarrow> sys" where
  "charge_action E action lease consumption actor payload s =
     persist (record_trust_event E ACTION_CONSUMED ''proposed_action'' (act_id action) actor
       (opt_or (act_run_id action) (act_task_id action)) payload
       (put_consumption (act_id action) consumption
          (put_lease (charge_lease consumption (clock s) lease) s)))"

definition consume_gateway_action ::
    "env \<Rightarrow> string \<Rightarrow> ActionConsumption \<Rightarrow> string \<Rightarrow> sys \<Rightarrow> ActionConsumption result" where
  "consume_gateway_action E aid consumption actor s =
     (case dict_get (proposed_actions s) aid of
        None \<Rightarrow> raise (ValueError ''Proposed action not found.'') s
      | Some action \<Rightarrow>
          if map_option dec_decision (first_decision (act_id action) s) \<noteq> Some PolicyDecisionType.ALLOW then
            raise (TrustControlConflict ''Only an ALLOW decision can be consumed.'') s
          else
            case dict_get (action_consumptions s) (act_id action) of
              Some recorded \<Rightarrow>
                if \<not> same_consumption recorded consumption then
                  raise (TrustControlConflict ''Action consumption is immutable once recorded.'') s
                else ret recorded s
            | None \<Rightarrow>
                case lease_of_action action s of
                  None \<Rightarrow> raise (TrustControlConflict ''Allowed action is missing its capability lease.'') s
                | Some lease \<Rightarrow>
                    let (lease, s) = refresh_lease_status E lease s
                    in if lease_status lease \<noteq> CapabilityLeaseStatus.ACTIVE then
                         raise (TrustControlConflict ''Capability lease is no longer active.'') s
                       else
                         ret consumption (charge_action E action lease consumption actor
                           (consumption_event E lease consumption) s))"

section \<open>What these operations leave alone\<close>

lemma refresh_lease_status_frame [simp, store_simps]:
  "agent_tasks (snd (refresh_lease_status E lease s)) = agent_tasks s"
  "agent_task_events (snd (refresh_lease_status E lease s)) = agent_task_events s"
  "agent_runs (snd (refresh_lease_status E lease s)) = agent_runs s"
  "agent_run_steps (snd (refresh_lease_status E lease s)) = agent_run_steps s"
  "agent_run_events (snd (refresh_lease_status E lease s)) = agent_run_events s"
  "agent_run_faults (snd (refresh_lease_status E lease s)) = agent_run_faults s"
  "reviewer_attestations (snd (refresh_lease_status E lease s)) = reviewer_attestations s"
  "proposed_actions (snd (refresh_lease_status E lease s)) = proposed_actions s"
  "policy_decisions (snd (refresh_lease_status E lease s)) = policy_decisions s"
  "action_authorizations (snd (refresh_lease_status E lease s)) = action_authorizations s"
  "action_consumptions (snd (refresh_lease_status E lease s)) = action_consumptions s"
  "credential_grants (snd (refresh_lease_status E lease s)) = credential_grants s"
  "approval_requests (snd (refresh_lease_status E lease s)) = approval_requests s"
  "mcp_pending_requests (snd (refresh_lease_status E lease s)) = mcp_pending_requests s"
  "external_agents (snd (refresh_lease_status E lease s)) = external_agents s"
  "agent_connectors (snd (refresh_lease_status E lease s)) = agent_connectors s"
  "audit_events (snd (refresh_lease_status E lease s)) = audit_events s"
  "clock (snd (refresh_lease_status E lease s)) = clock s"
  by (simp_all add: refresh_lease_status_def Let_def)

lemma revoke_grants_frame [simp, store_simps]:
  "agent_tasks (revoke_grants lid s) = agent_tasks s"
  "agent_task_events (revoke_grants lid s) = agent_task_events s"
  "agent_runs (revoke_grants lid s) = agent_runs s"
  "agent_run_steps (revoke_grants lid s) = agent_run_steps s"
  "agent_run_events (revoke_grants lid s) = agent_run_events s"
  "agent_run_faults (revoke_grants lid s) = agent_run_faults s"
  "capability_leases (revoke_grants lid s) = capability_leases s"
  "reviewer_attestations (revoke_grants lid s) = reviewer_attestations s"
  "proposed_actions (revoke_grants lid s) = proposed_actions s"
  "policy_decisions (revoke_grants lid s) = policy_decisions s"
  "action_authorizations (revoke_grants lid s) = action_authorizations s"
  "action_consumptions (revoke_grants lid s) = action_consumptions s"
  "approval_requests (revoke_grants lid s) = approval_requests s"
  "mcp_pending_requests (revoke_grants lid s) = mcp_pending_requests s"
  "external_agents (revoke_grants lid s) = external_agents s"
  "agent_connectors (revoke_grants lid s) = agent_connectors s"
  "audit_events (revoke_grants lid s) = audit_events s"
  "clock (revoke_grants lid s) = clock s"
  by (simp_all add: revoke_grants_def)

lemma refreshed_lease_frame [simp, store_simps]:
  "agent_tasks (snd (refreshed_lease E action s)) = agent_tasks s"
  "agent_task_events (snd (refreshed_lease E action s)) = agent_task_events s"
  "agent_runs (snd (refreshed_lease E action s)) = agent_runs s"
  "agent_run_steps (snd (refreshed_lease E action s)) = agent_run_steps s"
  "agent_run_events (snd (refreshed_lease E action s)) = agent_run_events s"
  "agent_run_faults (snd (refreshed_lease E action s)) = agent_run_faults s"
  "reviewer_attestations (snd (refreshed_lease E action s)) = reviewer_attestations s"
  "proposed_actions (snd (refreshed_lease E action s)) = proposed_actions s"
  "policy_decisions (snd (refreshed_lease E action s)) = policy_decisions s"
  "action_authorizations (snd (refreshed_lease E action s)) = action_authorizations s"
  "action_consumptions (snd (refreshed_lease E action s)) = action_consumptions s"
  "credential_grants (snd (refreshed_lease E action s)) = credential_grants s"
  "approval_requests (snd (refreshed_lease E action s)) = approval_requests s"
  "mcp_pending_requests (snd (refreshed_lease E action s)) = mcp_pending_requests s"
  "external_agents (snd (refreshed_lease E action s)) = external_agents s"
  "agent_connectors (snd (refreshed_lease E action s)) = agent_connectors s"
  "audit_events (snd (refreshed_lease E action s)) = audit_events s"
  "clock (snd (refreshed_lease E action s)) = clock s"
  by (simp_all add: refreshed_lease_def split_beta split: option.split)

lemma receive_action_frame [simp, store_simps]:
  "agent_tasks (receive_action E action actor s) = agent_tasks s"
  "agent_task_events (receive_action E action actor s) = agent_task_events s"
  "agent_runs (receive_action E action actor s) = agent_runs s"
  "agent_run_steps (receive_action E action actor s) = agent_run_steps s"
  "agent_run_events (receive_action E action actor s) = agent_run_events s"
  "agent_run_faults (receive_action E action actor s) = agent_run_faults s"
  "capability_leases (receive_action E action actor s) = capability_leases s"
  "reviewer_attestations (receive_action E action actor s) = reviewer_attestations s"
  "policy_decisions (receive_action E action actor s) = policy_decisions s"
  "action_authorizations (receive_action E action actor s) = action_authorizations s"
  "action_consumptions (receive_action E action actor s) = action_consumptions s"
  "credential_grants (receive_action E action actor s) = credential_grants s"
  "approval_requests (receive_action E action actor s) = approval_requests s"
  "mcp_pending_requests (receive_action E action actor s) = mcp_pending_requests s"
  "external_agents (receive_action E action actor s) = external_agents s"
  "agent_connectors (receive_action E action actor s) = agent_connectors s"
  "audit_events (receive_action E action actor s) = audit_events s"
  "clock (receive_action E action actor s) = clock s"
  by (simp_all add: receive_action_def)

lemma record_decision_frame [simp, store_simps]:
  "agent_tasks (record_decision E action d actor s) = agent_tasks s"
  "agent_task_events (record_decision E action d actor s) = agent_task_events s"
  "agent_runs (record_decision E action d actor s) = agent_runs s"
  "agent_run_steps (record_decision E action d actor s) = agent_run_steps s"
  "agent_run_events (record_decision E action d actor s) = agent_run_events s"
  "agent_run_faults (record_decision E action d actor s) = agent_run_faults s"
  "capability_leases (record_decision E action d actor s) = capability_leases s"
  "reviewer_attestations (record_decision E action d actor s) = reviewer_attestations s"
  "proposed_actions (record_decision E action d actor s) = proposed_actions s"
  "action_authorizations (record_decision E action d actor s) = action_authorizations s"
  "action_consumptions (record_decision E action d actor s) = action_consumptions s"
  "credential_grants (record_decision E action d actor s) = credential_grants s"
  "approval_requests (record_decision E action d actor s) = approval_requests s"
  "mcp_pending_requests (record_decision E action d actor s) = mcp_pending_requests s"
  "external_agents (record_decision E action d actor s) = external_agents s"
  "agent_connectors (record_decision E action d actor s) = agent_connectors s"
  "audit_events (record_decision E action d actor s) = audit_events s"
  "clock (record_decision E action d actor s) = clock s"
  by (simp_all add: record_decision_def)

lemma charge_action_frame [simp, store_simps]:
  "agent_tasks (charge_action E action lease c actor payload s) = agent_tasks s"
  "agent_task_events (charge_action E action lease c actor payload s) = agent_task_events s"
  "agent_runs (charge_action E action lease c actor payload s) = agent_runs s"
  "agent_run_steps (charge_action E action lease c actor payload s) = agent_run_steps s"
  "agent_run_events (charge_action E action lease c actor payload s) = agent_run_events s"
  "agent_run_faults (charge_action E action lease c actor payload s) = agent_run_faults s"
  "reviewer_attestations (charge_action E action lease c actor payload s) = reviewer_attestations s"
  "proposed_actions (charge_action E action lease c actor payload s) = proposed_actions s"
  "policy_decisions (charge_action E action lease c actor payload s) = policy_decisions s"
  "action_authorizations (charge_action E action lease c actor payload s) = action_authorizations s"
  "credential_grants (charge_action E action lease c actor payload s) = credential_grants s"
  "approval_requests (charge_action E action lease c actor payload s) = approval_requests s"
  "mcp_pending_requests (charge_action E action lease c actor payload s) = mcp_pending_requests s"
  "external_agents (charge_action E action lease c actor payload s) = external_agents s"
  "agent_connectors (charge_action E action lease c actor payload s) = agent_connectors s"
  "audit_events (charge_action E action lease c actor payload s) = audit_events s"
  "clock (charge_action E action lease c actor payload s) = clock s"
  by (simp_all add: charge_action_def)

text \<open>The refreshed lease, and when refreshing changes it.\<close>

definition expiring :: "int \<Rightarrow> CapabilityLease \<Rightarrow> bool" where
  "expiring now lease \<longleftrightarrow> lease_status lease = CapabilityLeaseStatus.ACTIVE \<and> lease_expires_at lease \<le> now"

definition refreshed :: "int \<Rightarrow> CapabilityLease \<Rightarrow> CapabilityLease" where
  "refreshed now lease =
     (if expiring now lease then expire_lease now lease else lease)"

lemma expire_lease_simps [simp]:
  "lease_id (expire_lease now l) = lease_id l"
  "lease_approval_request_id (expire_lease now l) = lease_approval_request_id l"
  "lease_agent_id (expire_lease now l) = lease_agent_id l"
  "lease_expires_at (expire_lease now l) = lease_expires_at l"
  "lease_scope (expire_lease now l) = lease_scope l"
  "lease_status (expire_lease now l) = CapabilityLeaseStatus.EXPIRED"
  by (simp_all add: expire_lease_def)

lemma refreshed_simps [simp]:
  "lease_id (refreshed now l) = lease_id l"
  "lease_approval_request_id (refreshed now l) = lease_approval_request_id l"
  "lease_agent_id (refreshed now l) = lease_agent_id l"
  "lease_expires_at (refreshed now l) = lease_expires_at l"
  "lease_scope (refreshed now l) = lease_scope l"
  "lease_live (refreshed now l) t \<longleftrightarrow> lease_live l t \<and> \<not> expiring now l"
  by (auto simp: refreshed_def lease_live_def expiring_def)

lemma refreshed_active:
  "lease_status (refreshed now l) = CapabilityLeaseStatus.ACTIVE \<longleftrightarrow> lease_live l now"
  by (auto simp: refreshed_def expiring_def lease_live_def)

lemma refresh_lease_status_eq:
  "refresh_lease_status E lease s =
     (refreshed (clock s) lease,
      if expiring (clock s) lease
      then persist (record_trust_event E LEASE_EXPIRED ''capability_lease'' (lease_id lease) ''system'' None
        [(''expires_at'', JTime (lease_expires_at lease))] (put_lease (refreshed (clock s) lease) s))
      else s)"
  by (auto simp: refresh_lease_status_def refreshed_def expiring_def Let_def)

lemma refresh_lease_status_leases [simp]:
  "fst (refresh_lease_status E lease s) = refreshed (clock s) lease"
  "capability_leases (snd (refresh_lease_status E lease s)) =
     (if expiring (clock s) lease
      then dict_set (lease_id lease) (refreshed (clock s) lease) (capability_leases s)
      else capability_leases s)"
  by (simp_all add: refresh_lease_status_eq)

end
