(* ===== verification/TrustCredentials.thy ===== *)
theory TrustCredentials
  imports TrustService
begin

text \<open>
  Short-lived credentials under a capability lease: \<open>issue_credential_grant\<close> of
  \<open>trust_service.py\<close> and \<open>trust_credentials.py\<close> (introspection and revocation). Only the hash of
  a bearer token is stored.
\<close>

section \<open>Issuing\<close>

definition CredentialGrantType_value :: "CredentialGrantType \<Rightarrow> string" where
  "CredentialGrantType_value g =
     (case g of GITHUB_APP_INSTALLATION \<Rightarrow> ''GITHUB_APP_INSTALLATION''
      | OIDC_FEDERATION \<Rightarrow> ''OIDC_FEDERATION''
      | INTERNAL_CAPABILITY_TOKEN \<Rightarrow> ''INTERNAL_CAPABILITY_TOKEN'')"

definition issue_bearer_token :: "env \<Rightarrow> sys \<Rightarrow> string \<times> string" where
  "issue_bearer_token E s = (let raw = token_urlsafe E (draws s) in (raw, sha256 E raw))"

definition verify_bearer_token :: "env \<Rightarrow> string \<Rightarrow> string \<Rightarrow> bool" where
  "verify_bearer_token E raw expected_hash \<longleftrightarrow> sha256 E raw = expected_hash"

text \<open>The token is drawn before the identifier of the grant.\<close>

definition new_grant :: "env \<Rightarrow> CredentialGrantCreate \<Rightarrow> CapabilityLease \<Rightarrow> AuthUser \<Rightarrow> sys \<Rightarrow> CredentialGrant" where
  "new_grant E payload lease user s =
     \<lparr>grant_id = new_id E ''credential_grant'' (drawn s), grant_lease_id = lease_id lease,
      grant_type = gc_grant_type payload, grant_audience = gc_audience payload,
      grant_subject = gc_subject payload, grant_scope = gc_scope payload, grant_issued_at = clock s,
      grant_expires_at = clock s + seconds_us (gc_expires_in_seconds payload),
      grant_revoked = False, grant_revoked_at = None,
      grant_token_hash = snd (issue_bearer_token E s),
      grant_metadata = [(''issued_by_user_id'', JStr (user_id user))]\<rparr>"

definition grant_issued_event :: "CapabilityLease \<Rightarrow> CredentialGrant \<Rightarrow> jdict" where
  "grant_issued_event lease grant =
     [(''lease_id'', JStr (lease_id lease)),
      (''grant_type'', JStr (CredentialGrantType_value (grant_type grant))),
      (''audience'', JStr (grant_audience grant)),
      (''subject'', JStr (grant_subject grant)),
      (''scope'', json_strs (grant_scope grant)),
      (''expires_at'', JTime (grant_expires_at grant))]"

definition issue_credential_grant ::
    "env \<Rightarrow> CredentialGrantCreate \<Rightarrow> AuthUser \<Rightarrow> sys \<Rightarrow> (CredentialGrant \<times> string) result" where
  "issue_credential_grant E payload user s =
     (case dict_get (capability_leases s) (gc_lease_id payload) of
        None \<Rightarrow> raise (ValueError ''Capability lease not found.'') s
      | Some lease \<Rightarrow>
          let (lease, s) = refresh_lease_status E lease s;
              remaining_seconds = (lease_expires_at lease - clock s) div 1000000
          in if lease_status lease \<noteq> CapabilityLeaseStatus.ACTIVE then
               raise (TrustControlConflict ''Credentials require an active capability lease.'') s
             else if gc_grant_type payload \<noteq> INTERNAL_CAPABILITY_TOKEN then
               raise (NotImplementedError
                 ''External GitHub App and OIDC brokers require deployment-specific issuer integration.'') s
             else if gc_expires_in_seconds payload > remaining_seconds then
               raise (TrustControlConflict ''Credential grant cannot outlive its capability lease.'') s
             else
               let raw_token = fst (issue_bearer_token E s);
                   grant = new_grant E payload lease user s;
                   s = record_trust_event E CREDENTIAL_GRANT_ISSUED ''credential_grant'' (grant_id grant)
                     (user_email user) None (grant_issued_event lease grant)
                     (put_grant grant (drawn (drawn s)))
               in ret (grant, raw_token) (persist s))"

section \<open>Introspection\<close>

record CredentialIntrospectionRequest =
  cir_bearer_token :: string
  cir_audience :: string
  cir_required_scope :: "string list"

record CredentialIntrospectionResult =
  cirr_active :: bool
  cirr_grant_id :: "string option"
  cirr_lease_id :: "string option"
  cirr_subject :: "string option"
  cirr_audience :: "string option"
  cirr_scope :: "string list"
  cirr_expires_at :: "int option"
  cirr_reason :: string

definition inactive :: "string \<Rightarrow> CredentialIntrospectionResult" where
  "inactive reason =
     \<lparr>cirr_active = False, cirr_grant_id = None, cirr_lease_id = None, cirr_subject = None,
      cirr_audience = None, cirr_scope = [], cirr_expires_at = None, cirr_reason = reason\<rparr>"

definition missing_scope :: "CredentialIntrospectionRequest \<Rightarrow> CredentialGrant \<Rightarrow> string list" where
  "missing_scope payload grant =
     sort (remdups (filter (\<lambda>x. x \<notin> set (grant_scope grant)) (cir_required_scope payload)))"

definition introspect_grant ::
    "CredentialIntrospectionRequest \<Rightarrow> CredentialGrant \<Rightarrow> sys \<Rightarrow> CredentialIntrospectionResult" where
  "introspect_grant payload grant s =
     (if grant_revoked grant then inactive ''Credential grant was revoked.''
      else if grant_expires_at grant \<le> clock s then inactive ''Credential grant expired.''
      else if (case dict_get (capability_leases s) (grant_lease_id grant) of
                 None \<Rightarrow> True
               | Some lease \<Rightarrow> lease_status lease \<noteq> CapabilityLeaseStatus.ACTIVE \<or>
                   lease_expires_at lease \<le> clock s)
      then inactive ''Capability lease is not active.''
      else if grant_audience grant \<noteq> cir_audience payload then inactive ''Credential audience mismatch.''
      else if missing_scope payload grant \<noteq> [] then
        inactive (''Credential scope is missing: '' @ py_join '', '' (missing_scope payload grant))
      else
        \<lparr>cirr_active = True, cirr_grant_id = Some (grant_id grant),
         cirr_lease_id = Some (grant_lease_id grant), cirr_subject = Some (grant_subject grant),
         cirr_audience = Some (grant_audience grant), cirr_scope = grant_scope grant,
         cirr_expires_at = Some (grant_expires_at grant), cirr_reason = []\<rparr>)"

text \<open>The loop skips grants whose hash is not the token's and answers from the first one whose is.\<close>

fun introspect_grants ::
    "env \<Rightarrow> CredentialIntrospectionRequest \<Rightarrow> CredentialGrant list \<Rightarrow> sys \<Rightarrow> CredentialIntrospectionResult" where
  "introspect_grants E payload [] s = inactive ''Credential token is invalid.''"
| "introspect_grants E payload (grant # grants) s =
     (if \<not> verify_bearer_token E (cir_bearer_token payload) (grant_token_hash grant)
      then introspect_grants E payload grants s
      else introspect_grant payload grant s)"

definition introspect_credential ::
    "env \<Rightarrow> CredentialIntrospectionRequest \<Rightarrow> sys \<Rightarrow> CredentialIntrospectionResult" where
  "introspect_credential E payload s = introspect_grants E payload (dict_vals (credential_grants s)) s"

section \<open>Revocation of one grant\<close>

definition revoke_credential_grant ::
    "env \<Rightarrow> string \<Rightarrow> AuthUser \<Rightarrow> string \<Rightarrow> sys \<Rightarrow> CredentialGrant result" where
  "revoke_credential_grant E gid user reason s =
     (case dict_get (credential_grants s) gid of
        None \<Rightarrow> raise (ValueError ''Credential grant not found.'') s
      | Some canonical \<Rightarrow>
          if grant_revoked canonical then ret canonical s
          else
            let canonical = canonical\<lparr>grant_revoked := True, grant_revoked_at := Some (clock s),
                  grant_metadata := dict_set ''revocation_reason'' (JStr reason)
                    (dict_set ''revoked_by_user_id'' (JStr (user_id user)) (grant_metadata canonical))\<rparr>;
                s = record_trust_event E CREDENTIAL_GRANT_REVOKED ''credential_grant'' (grant_id canonical)
                  (user_email user) None
                  [(''lease_id'', JStr (grant_lease_id canonical)), (''reason'', JStr reason)]
                  (put_grant canonical s)
            in ret canonical (persist s))"

section \<open>When a credential is active\<close>

text \<open>The grant that answers for a token: the first whose stored hash is the token's.\<close>

definition grant_of_token :: "env \<Rightarrow> string \<Rightarrow> sys \<Rightarrow> CredentialGrant option" where
  "grant_of_token E token s =
     List.find (\<lambda>g. verify_bearer_token E token (grant_token_hash g)) (dict_vals (credential_grants s))"

definition credential_usable :: "CredentialIntrospectionRequest \<Rightarrow> CredentialGrant \<Rightarrow> sys \<Rightarrow> bool" where
  "credential_usable payload grant s \<longleftrightarrow>
     \<not> grant_revoked grant \<and> clock s < grant_expires_at grant \<and>
     (\<exists>lease. dict_get (capability_leases s) (grant_lease_id grant) = Some lease \<and> lease_live lease (clock s)) \<and>
     grant_audience grant = cir_audience payload \<and> set (cir_required_scope payload) \<subseteq> set (grant_scope grant)"

lemma introspect_grants_find:
  "introspect_grants E payload gs s =
     (case List.find (\<lambda>g. verify_bearer_token E (cir_bearer_token payload) (grant_token_hash g)) gs of
        None \<Rightarrow> inactive ''Credential token is invalid.''
      | Some g \<Rightarrow> introspect_grant payload g s)"
  by (induction gs) auto

lemma missing_scope_Nil: "missing_scope payload grant = [] \<longleftrightarrow> set (cir_required_scope payload) \<subseteq> set (grant_scope grant)"
proof -
  have "missing_scope payload grant = [] \<longleftrightarrow> set (missing_scope payload grant) = {}" by simp
  also have "\<dots> \<longleftrightarrow> set (cir_required_scope payload) \<subseteq> set (grant_scope grant)"
    unfolding missing_scope_def by auto
  finally show ?thesis .
qed

lemma introspect_grant_active: "cirr_active (introspect_grant payload grant s) \<longleftrightarrow> credential_usable payload grant s"
  by (auto simp: introspect_grant_def inactive_def credential_usable_def missing_scope_Nil lease_live_def
      split: option.splits)

lemma introspect_active_iff:
  "cirr_active (introspect_credential E payload s) \<longleftrightarrow>
     (\<exists>g. grant_of_token E (cir_bearer_token payload) s = Some g \<and> credential_usable payload g s)"
  by (auto simp: introspect_credential_def introspect_grants_find grant_of_token_def
      introspect_grant_active inactive_def split: option.splits)

end
