(* ===== verification/TrustAuthorization.thy ===== *)
theory TrustAuthorization
  imports TrustService RunSupervisor
begin

text \<open>
  Human decisions on proposed actions (\<open>trust_action_authorization.py\<close>), the decision in force for
  an action (\<open>trust_decisions.py\<close>) and charging an action to its lease (\<open>trust_consumption.py\<close>).
\<close>

section \<open>The decision in force\<close>

definition decision_key :: "PolicyDecision \<Rightarrow> int \<times> string" where
  "decision_key d = (dec_evaluated_at d, dec_id d)"

text \<open>Python's \<open>max\<close> keeps the first of several maximal elements.\<close>

fun py_max :: "('a \<Rightarrow> 'k::linorder) \<Rightarrow> 'a list \<Rightarrow> 'a option" where
  "py_max f [] = None"
| "py_max f (x # xs) =
     (case py_max f xs of None \<Rightarrow> Some x | Some y \<Rightarrow> if f x < f y then Some y else Some x)"

definition latest_policy_decision :: "string \<Rightarrow> sys \<Rightarrow> PolicyDecision option" where
  "latest_policy_decision aid s =
     py_max decision_key (filter (\<lambda>item. dec_proposed_action_id item = aid) (dict_vals (policy_decisions s)))"

section \<open>Signed authorizations\<close>

definition REVIEWER_ROLES :: "UserRole list" where
  "REVIEWER_ROLES = [REVIEWER, MAINTAINER, OWNER]"

definition action_payload :: "ProposedAction \<Rightarrow> jdict" where
  "action_payload a =
     [(''id'', JStr (act_id a)),
      (''lease_id'', json_opt_str (act_lease_id a)),
      (''provider'', JStr (AgentProvider_value (act_provider a))),
      (''agent_id'', json_opt_str (act_agent_id a)),
      (''run_id'', json_opt_str (act_run_id a)),
      (''task_id'', json_opt_str (act_task_id a)),
      (''project_id'', json_opt_str (act_project_id a)),
      (''action_type'', JStr (CapabilityActionType_value (act_action_type a))),
      (''repository'', json_opt_str (act_repository a)),
      (''branch'', json_opt_str (act_branch a)),
      (''paths'', json_strs (act_paths a)),
      (''command'', json_opt_str (act_command a)),
      (''network_domains'', json_strs (act_network_domains a)),
      (''estimated_runtime_seconds'', JInt (act_estimated_runtime_seconds a)),
      (''estimated_cost_usd'', JNum (act_estimated_cost_usd a)),
      (''retry_number'', JInt (act_retry_number a)),
      (''metadata'', JObj (act_metadata a)),
      (''created_at'', JTime (act_created_at a))]"

definition action_payload_hash :: "env \<Rightarrow> ProposedAction \<Rightarrow> string" where
  "action_payload_hash E action = sha256_hex E (JObj (action_payload action))"

definition authorization_signature_payload :: "ActionAuthorization \<Rightarrow> json" where
  "authorization_signature_payload a = JObj
     [(''action_id'', JStr (auth_action_id a)),
      (''action_payload_hash'', JStr (auth_action_payload_hash a)),
      (''policy_decision_id'', JStr (auth_policy_decision_id a)),
      (''reviewer_user_id'', JStr (auth_reviewer_user_id a)),
      (''reviewer_role'', JStr (UserRole_value (auth_reviewer_role a))),
      (''decision'', JStr (ActionAuthorizationDecision_value (auth_decision a))),
      (''reason'', JStr (auth_reason a))]"

definition verify_action_authorization :: "env \<Rightarrow> ActionAuthorization \<Rightarrow> ProposedAction \<Rightarrow> bool" where
  "verify_action_authorization E authorization action \<longleftrightarrow>
     auth_action_id authorization = act_id action \<and>
     auth_action_payload_hash authorization = action_payload_hash E action \<and>
     verify_payload_signature E (authorization_signature_payload authorization) (auth_signature authorization)"

section \<open>The effect of a decision on the run\<close>

definition decide_step ::
    "int \<Rightarrow> ActionAuthorizationDecision \<Rightarrow> string \<Rightarrow> AgentRunStep \<Rightarrow> pyerror + AgentRunStep" where
  "decide_step now decision reason step =
     (if step_status step = AgentRunStepStatus.NEEDS_HUMAN then
        map_sum id snd (if decision = ActionAuthorizationDecision.ALLOW
          then transition_step now step AgentRunStepStatus.READY ''Exact trust action approval recorded.''
          else transition_step now step AgentRunStepStatus.BLOCKED reason)
      else Inr step)"

definition decide_run ::
    "int \<Rightarrow> ActionAuthorizationDecision \<Rightarrow> string \<Rightarrow> AgentRun \<Rightarrow> pyerror + AgentRun" where
  "decide_run now decision reason run =
     (if run_status run = AgentRunStatus.NEEDS_HUMAN then
        map_sum id snd (if decision = ActionAuthorizationDecision.ALLOW
          then transition_run now run AgentRunStatus.SCHEDULED ''Exact trust action approval recorded.''
          else transition_run now run AgentRunStatus.BLOCKED reason)
      else Inr run)"

definition decision_event ::
    "env \<Rightarrow> string \<Rightarrow> ActionAuthorizationDecision \<Rightarrow> string \<Rightarrow> string \<Rightarrow> AgentRun \<Rightarrow> AgentRunStep \<Rightarrow> sys \<Rightarrow> sys" where
  "decision_event E aid decision actor reason run step s =
     append_event E run OPERATOR_ACTION
       (no_args\<lparr>arg_step := Some step,
          arg_message := (if decision = ActionAuthorizationDecision.ALLOW
            then ''Exact human action approval returned the run to the scheduler.''
            else ''Exact human action denial permanently blocked the run.''),
          arg_reason := reason, arg_actor := actor,
          arg_metadata := [(''action_id'', JStr aid),
            (''authorization_decision'', JStr (ActionAuthorizationDecision_value decision))]\<rparr>) s"

text \<open>The run and the step an action was proposed for, when both are stored and belong together.\<close>

definition governed_step :: "env \<Rightarrow> ProposedAction \<Rightarrow> sys \<Rightarrow> (AgentRun \<times> AgentRunStep) option" where
  "governed_step E action s =
     (if \<not> truthy (act_run_id action) then None
      else case dict_get (agent_runs s) (opt_str (act_run_id action)) of
        None \<Rightarrow> None
      | Some run \<Rightarrow>
          (case dict_get (agent_run_steps s) (json_or_str E (act_metadata action) ''step_id'') of
             None \<Rightarrow> None
           | Some step \<Rightarrow> if step_run_id step \<noteq> run_id run then None else Some (run, step)))"

definition apply_durable_run_decision ::
    "env \<Rightarrow> string \<Rightarrow> ActionAuthorizationDecision \<Rightarrow> string \<Rightarrow> string \<Rightarrow> sys \<Rightarrow> unit result" where
  "apply_durable_run_decision E aid decision actor reason s =
     (case dict_get (proposed_actions s) aid of
        None \<Rightarrow> ret () s
      | Some action \<Rightarrow>
          (case governed_step E action s of
             None \<Rightarrow> ret () s
           | Some (run, step) \<Rightarrow>
               liftE (decide_step (clock s) decision reason step)
                 (\<lambda>step s. liftE (decide_run (clock s) decision reason run)
                    (\<lambda>run s. ret ()
                       (decision_event E (act_id action) decision actor reason run step (put_run run s)))
                    (put_step step s)) s))"

section \<open>Recording a human decision\<close>

definition authorization_of :: "string \<Rightarrow> sys \<Rightarrow> ActionAuthorization option" where
  "authorization_of aid s =
     List.find (\<lambda>item. auth_action_id item = aid) (dict_vals (action_authorizations s))"

definition new_authorization ::
    "env \<Rightarrow> ProposedAction \<Rightarrow> PolicyDecision \<Rightarrow> ActionAuthorizationCreate \<Rightarrow> AuthUser \<Rightarrow> sys \<Rightarrow> ActionAuthorization" where
  "new_authorization E action current payload user s =
     (let authorization =
        \<lparr>auth_id = new_id E ''action_authorization'' s, auth_action_id = act_id action,
         auth_action_payload_hash = action_payload_hash E action,
         auth_policy_decision_id = dec_id current, auth_reviewer_user_id = user_id user,
         auth_reviewer_role = user_role user, auth_decision = aac_decision payload,
         auth_reason = aac_reason payload, auth_signature = ''pending'', auth_created_at = clock s\<rparr>
      in authorization\<lparr>auth_signature :=
           sign_payload E (authorization_signature_payload authorization)\<rparr>)"

definition effective_type :: "ActionAuthorizationDecision \<Rightarrow> PolicyDecisionType" where
  "effective_type d =
     (if d = ActionAuthorizationDecision.ALLOW then PolicyDecisionType.ALLOW else PolicyDecisionType.BLOCK)"

definition effective_decision ::
    "env \<Rightarrow> ProposedAction \<Rightarrow> PolicyDecision \<Rightarrow> ActionAuthorizationCreate \<Rightarrow> sys \<Rightarrow> PolicyDecision" where
  "effective_decision E action current payload s =
     \<lparr>dec_id = new_id E ''decision'' s, dec_proposed_action_id = act_id action,
      dec_lease_id = act_lease_id action, dec_decision = effective_type (aac_decision payload),
      dec_risk_level = dec_risk_level current,
      dec_reasons =
        (if effective_type (aac_decision payload) = PolicyDecisionType.ALLOW
         then [''A human reviewer allowed this exact proposed action.'']
         else [''A human reviewer denied this exact proposed action.'']),
      dec_obligations =
        (if effective_type (aac_decision payload) = PolicyDecisionType.ALLOW
         then [''Execute only the immutable action payload and record consumption evidence.'']
         else [''Do not execute; revise the action or capability lease.'']),
      dec_evaluated_policy_version = dec_evaluated_policy_version current @ ''+human-decision'',
      dec_evaluated_at = clock s\<rparr>"

text \<open>An existing authorization is checked, its effect is applied again, and it is returned.\<close>

definition replay_authorization ::
    "env \<Rightarrow> string \<Rightarrow> ActionAuthorization \<Rightarrow> ProposedAction \<Rightarrow> AuthUser \<Rightarrow> sys \<Rightarrow> ActionAuthorization result" where
  "replay_authorization E aid existing action user s =
     (if \<not> verify_action_authorization E existing action then
        raise (ActionAuthorizationConflict
          ''Stored action authorization no longer matches the immutable action payload.'') s
      else bindE (apply_durable_run_decision E aid (auth_decision existing) (user_email user)
             (auth_reason existing) s)
           (\<lambda>_ s. ret existing (persist s)))"

definition store_authorization ::
    "env \<Rightarrow> string \<Rightarrow> ProposedAction \<Rightarrow> PolicyDecision \<Rightarrow> ActionAuthorizationCreate \<Rightarrow> AuthUser \<Rightarrow> sys \<Rightarrow>
      ActionAuthorization result" where
  "store_authorization E aid action current payload user s =
     (let authorization = new_authorization E action current payload user s;
          s = put_authorization authorization (drawn s);
          effective = effective_decision E action current payload s;
          s = record_trust_event E
            (if dec_decision effective = PolicyDecisionType.ALLOW then ACTION_ALLOWED else ACTION_BLOCKED)
            ''proposed_action'' (act_id action) (user_email user)
            (opt_or (act_run_id action) (act_task_id action))
            [(''authorization_id'', JStr (auth_id authorization)),
             (''action_payload_hash'', JStr (auth_action_payload_hash authorization)),
             (''prior_policy_decision_id'', JStr (dec_id current)),
             (''effective_policy_decision_id'', JStr (dec_id effective)),
             (''decision'', JStr (PolicyDecisionType_value (dec_decision effective))),
             (''reason'', JStr (aac_reason payload))]
            (put_decision effective (drawn s))
      in bindE (apply_durable_run_decision E aid (aac_decision payload) (user_email user)
             (aac_reason payload) s)
           (\<lambda>_ s. ret authorization (persist s)))"

definition record_action_authorization ::
    "env \<Rightarrow> string \<Rightarrow> ActionAuthorizationCreate \<Rightarrow> AuthUser \<Rightarrow> sys \<Rightarrow> ActionAuthorization result" where
  "record_action_authorization E aid payload user s =
     (if user_role user \<notin> set REVIEWER_ROLES then
        raise (ActionAuthorizationConflict ''A reviewer role is required for action decisions.'') s
      else case dict_get (proposed_actions s) aid of
        None \<Rightarrow> raise (ValueError ''Proposed action not found.'') s
      | Some action \<Rightarrow>
          (case latest_policy_decision aid s of
             None \<Rightarrow> raise (ActionAuthorizationConflict ''Action has no policy decision.'') s
           | Some current \<Rightarrow>
               if dec_decision current = PolicyDecisionType.BLOCK then
                 raise (ActionAuthorizationConflict
                   ''A policy-blocked action cannot be overridden; revise scope and create a new action.'') s
               else if dec_decision current = PolicyDecisionType.ALLOW then
                 (case authorization_of aid s of
                    Some existing \<Rightarrow> replay_authorization E aid existing action user s
                  | None \<Rightarrow> raise (ActionAuthorizationConflict ''Action is already allowed by policy.'') s)
               else
                 (case authorization_of aid s of
                    Some existing \<Rightarrow>
                      if auth_decision existing \<noteq> aac_decision payload \<or>
                         auth_reason existing \<noteq> aac_reason payload then
                        raise (ActionAuthorizationConflict ''Action authorization is immutable once recorded.'') s
                      else replay_authorization E aid existing action user s
                  | None \<Rightarrow> store_authorization E aid action current payload user s)))"

section \<open>Charging an action\<close>

definition verify_human_allow :: "env \<Rightarrow> ProposedAction \<Rightarrow> sys \<Rightarrow> pyerror + unit" where
  "verify_human_allow E action s =
     (case authorization_of (act_id action) s of
        None \<Rightarrow> Inl (TrustControlConflict ''Human-authorized ALLOW is missing its signed exact-action decision.'')
      | Some authorization \<Rightarrow>
          if auth_decision authorization \<noteq> ActionAuthorizationDecision.ALLOW then
            Inl (TrustControlConflict ''Human authorization does not allow this action.'')
          else if \<not> verify_action_authorization E authorization action then
            Inl (TrustControlConflict ''Human authorization signature or exact action payload hash is invalid.'')
          else Inr ())"

definition budget_conflict :: "ActionConsumption \<Rightarrow> CapabilityLease \<Rightarrow> string option" where
  "budget_conflict c lease =
     (let scope = lease_scope lease in
      if lease_consumed_runtime_seconds lease + con_actual_runtime_seconds c > scope_max_runtime_seconds scope
      then Some ''Actual runtime would exceed the capability budget.''
      else if lease_consumed_cost_usd lease + con_actual_cost_usd c > scope_max_cost_usd scope
      then Some ''Actual cost would exceed the capability budget.''
      else if lease_consumed_pull_requests lease + con_pull_requests_created c > scope_max_pull_requests scope
      then Some ''Actual pull-request count exceeds the capability budget.''
      else if lease_consumed_retries lease + (if con_retry_consumed c then 1 else 0) > scope_max_retries scope
      then Some ''Actual retry count exceeds the capability budget.''
      else None)"

text \<open>A decision made by a person has to be backed by the signed authorization.\<close>

definition verify_effective_allow :: "env \<Rightarrow> ProposedAction \<Rightarrow> sys \<Rightarrow> pyerror + PolicyDecision" where
  "verify_effective_allow E action s =
     (case latest_policy_decision (act_id action) s of
        None \<Rightarrow> Inl (TrustControlConflict ''Only an effective ALLOW decision can be consumed.'')
      | Some decision \<Rightarrow>
          if dec_decision decision \<noteq> PolicyDecisionType.ALLOW then
            Inl (TrustControlConflict ''Only an effective ALLOW decision can be consumed.'')
          else if py_in ''+human-decision'' (dec_evaluated_policy_version decision) then
            map_sum id (\<lambda>_. decision) (verify_human_allow E action s)
          else Inr decision)"

definition consume_effective_action ::
    "env \<Rightarrow> string \<Rightarrow> ActionConsumption \<Rightarrow> string \<Rightarrow> sys \<Rightarrow> ActionConsumption result" where
  "consume_effective_action E aid consumption actor s =
     (case dict_get (proposed_actions s) aid of
        None \<Rightarrow> raise (ValueError ''Proposed action not found.'') s
      | Some action \<Rightarrow>
          liftE (verify_effective_allow E action s)
            (\<lambda>decision s.
              case dict_get (action_consumptions s) (act_id action) of
                Some existing \<Rightarrow>
                  if \<not> same_consumption existing consumption then
                    raise (TrustControlConflict ''Action consumption is immutable once recorded.'') s
                  else ret existing s
              | None \<Rightarrow>
                  (case lease_of_action action s of
                     None \<Rightarrow> raise (TrustControlConflict ''Allowed action is missing its capability lease.'') s
                   | Some lease \<Rightarrow>
                       let (lease, s) = refresh_lease_status E lease s
                       in if lease_status lease \<noteq> CapabilityLeaseStatus.ACTIVE then
                            raise (TrustControlConflict ''Capability lease is no longer active.'') s
                          else case budget_conflict consumption lease of
                            Some m \<Rightarrow> raise (TrustControlConflict m) s
                          | None \<Rightarrow>
                              ret consumption (charge_action E action lease consumption actor
                                (dict_set ''effective_policy_decision_id'' (JStr (dec_id decision))
                                   (consumption_event E lease consumption)) s))) s)"

end
