(* ===== verification/TrustScope.thy ===== *)
theory TrustScope
  imports TrustModels
begin

text \<open>
  The validators of \<open>CapabilityScope\<close>, \<open>ProposedAction\<close> and \<open>ActionConsumption\<close> in
  \<open>trust_models.py\<close>: constructing such a value normalises it or raises. Pydantic collects every
  message into one \<open>ValidationError\<close>; its layout is not modelled, the messages are.
\<close>

definition V1_ALLOWED_CAPABILITY_ACTIONS :: "CapabilityActionType list" where
  "V1_ALLOWED_CAPABILITY_ACTIONS =
     [CapabilityActionType.READ_REPOSITORY, CapabilityActionType.CREATE_BRANCH,
      CapabilityActionType.MODIFY_FILES, CapabilityActionType.RUN_COMMAND,
      CapabilityActionType.ACCESS_NETWORK, CapabilityActionType.CREATE_PULL_REQUEST]"

text \<open>Keeping the first occurrence of each element, as \<open>dict.fromkeys\<close> does.\<close>

fun py_unique_from :: "'a list \<Rightarrow> 'a list \<Rightarrow> 'a list" where
  "py_unique_from seen [] = []"
| "py_unique_from seen (x # xs) =
     (if x \<in> set seen then py_unique_from seen xs else x # py_unique_from (x # seen) xs)"

definition py_unique :: "'a list \<Rightarrow> 'a list" where
  "py_unique xs = py_unique_from [] xs"

definition normalize_strings :: "string list \<Rightarrow> string list" where
  "normalize_strings values = py_unique (filter (\<lambda>v. v \<noteq> []) (map py_strip values))"

definition validate_repository :: "string \<Rightarrow> string + string" where
  "validate_repository value =
     (let cleaned = py_strip value
      in if \<not> py_in ''/'' cleaned \<or> py_startswith cleaned ''/'' \<or> py_endswith cleaned ''/''
         then Inl ''repository must use owner/name format'' else Inr cleaned)"

definition validate_branch :: "string \<Rightarrow> string + string" where
  "validate_branch value =
     (let cleaned = py_strip value
      in if cleaned = [] then Inl ''branch is required''
         else if cleaned \<in> set [''main'', ''master'']
         then Inl ''protected branches cannot be leased for mutation'' else Inr cleaned)"

definition validate_v1_actions ::
    "CapabilityActionType list \<Rightarrow> string + CapabilityActionType list" where
  "validate_v1_actions values =
     (let normalized = py_unique values;
          unsupported = sort (map CapabilityActionType_value
            (filter (\<lambda>v. v \<notin> set V1_ALLOWED_CAPABILITY_ACTIONS) normalized))
      in if unsupported \<noteq> [] then
           Inl (''V1 capability leases cannot grant high-risk or custom actions: '' @
             py_join '', '' unsupported)
         else Inr normalized)"

definition scope_bounds :: "CapabilityScope \<Rightarrow> string list" where
  "scope_bounds c =
     concat (map (\<lambda>(ok, m). if ok then [] else [m])
       [(1 \<le> length (scope_allowed_actions c) \<and> length (scope_allowed_actions c) \<le> 10, ''allowed_actions''),
        (length (scope_allowed_path_prefixes c) \<le> 100, ''allowed_path_prefixes''),
        (length (scope_allowed_commands c) \<le> 50, ''allowed_commands''),
        (length (scope_allowed_network_domains c) \<le> 20, ''allowed_network_domains''),
        (1 \<le> scope_max_runtime_seconds c \<and> scope_max_runtime_seconds c \<le> 3600, ''max_runtime_seconds''),
        (0 \<le> scope_max_cost_usd c \<and> scope_max_cost_usd c \<le> 10, ''max_cost_usd''),
        (0 \<le> scope_max_retries c \<and> scope_max_retries c \<le> 3, ''max_retries''),
        (0 \<le> scope_max_pull_requests c \<and> scope_max_pull_requests c \<le> 1, ''max_pull_requests'')])"

definition sum_errors :: "(string + 'a) \<Rightarrow> string list" where
  "sum_errors r = (case r of Inl m \<Rightarrow> [m] | Inr _ \<Rightarrow> [])"

definition sum_value :: "'a \<Rightarrow> (string + 'a) \<Rightarrow> 'a" where
  "sum_value d r = (case r of Inl _ \<Rightarrow> d | Inr v \<Rightarrow> v)"

text \<open>Constructing a scope: the normalised value, or the messages.\<close>

definition make_scope :: "CapabilityScope \<Rightarrow> string list + CapabilityScope" where
  "make_scope c =
     (let repository = validate_repository (scope_repository c);
          branch = validate_branch (scope_branch c);
          actions = validate_v1_actions (scope_allowed_actions c);
          errors = sum_errors repository @ sum_errors branch @ sum_errors actions @ scope_bounds c
      in if errors \<noteq> [] then Inl errors
         else Inr (c\<lparr>scope_repository := sum_value [] repository, scope_branch := sum_value [] branch,
           scope_allowed_actions := sum_value [] actions,
           scope_allowed_path_prefixes := normalize_strings (scope_allowed_path_prefixes c),
           scope_allowed_commands := normalize_strings (scope_allowed_commands c),
           scope_allowed_network_domains := normalize_strings (scope_allowed_network_domains c)\<rparr>))"

definition action_bounds :: "ProposedAction \<Rightarrow> string list" where
  "action_bounds a =
     concat (map (\<lambda>(ok, m). if ok then [] else [m])
       [(length (act_paths a) \<le> 100, ''paths''),
        ((case act_command a of None \<Rightarrow> True | Some c \<Rightarrow> length c \<le> 4000), ''command''),
        (length (act_network_domains a) \<le> 20, ''network_domains''),
        (0 \<le> act_estimated_runtime_seconds a \<and> act_estimated_runtime_seconds a \<le> 3600,
         ''estimated_runtime_seconds''),
        (0 \<le> act_estimated_cost_usd a \<and> act_estimated_cost_usd a \<le> 10, ''estimated_cost_usd''),
        (0 \<le> act_retry_number a \<and> act_retry_number a \<le> 3, ''retry_number'')])"

definition consumption_bounds :: "ActionConsumption \<Rightarrow> string list" where
  "consumption_bounds c =
     concat (map (\<lambda>(ok, m). if ok then [] else [m])
       [(0 \<le> con_actual_runtime_seconds c \<and> con_actual_runtime_seconds c \<le> 3600, ''actual_runtime_seconds''),
        (0 \<le> con_actual_cost_usd c \<and> con_actual_cost_usd c \<le> 10, ''actual_cost_usd''),
        (0 \<le> con_pull_requests_created c \<and> con_pull_requests_created c \<le> 1, ''pull_requests_created''),
        ((case con_output_reference c of None \<Rightarrow> True | Some r \<Rightarrow> length r \<le> 4000), ''output_reference'')])"

section \<open>What a scope grants\<close>

lemma set_py_unique_from: "set (py_unique_from seen xs) = set xs - set seen"
  by (induction xs arbitrary: seen) auto

lemma set_py_unique [simp]: "set (py_unique xs) = set xs"
  by (simp add: py_unique_def set_py_unique_from)

lemma distinct_py_unique_from: "distinct (py_unique_from seen xs)"
  by (induction xs arbitrary: seen) (auto simp: set_py_unique_from)

lemma distinct_py_unique [simp]: "distinct (py_unique xs)"
  by (simp add: py_unique_def distinct_py_unique_from)

lemma sort_Nil_iff [simp]: "sort xs = [] \<longleftrightarrow> xs = []"
  by (metis set_empty set_sort)

lemma validate_v1_actions_ok:
  "validate_v1_actions vs = Inr ws \<Longrightarrow> set ws \<subseteq> set V1_ALLOWED_CAPABILITY_ACTIONS"
  by (auto simp: validate_v1_actions_def Let_def filter_empty_conv split: if_splits)

lemma make_scope_actions:
  "make_scope c = Inr c' \<Longrightarrow> set (scope_allowed_actions c') \<subseteq> set V1_ALLOWED_CAPABILITY_ACTIONS"
  using validate_v1_actions_ok [of "scope_allowed_actions c"]
  by (auto simp: make_scope_def Let_def sum_errors_def sum_value_def split: if_splits sum.splits)

lemma make_scope_bounds:
  assumes "make_scope c = Inr c'"
  shows "scope_bounds c = []" "scope_max_retries c' = scope_max_retries c"
    "scope_max_runtime_seconds c' = scope_max_runtime_seconds c"
    "scope_max_pull_requests c' = scope_max_pull_requests c" "scope_max_cost_usd c' = scope_max_cost_usd c"
    "scope_metadata c' = scope_metadata c"
  using assms by (auto simp: make_scope_def Let_def split: if_splits)

lemma scope_bounds_Nil:
  "scope_bounds c = [] \<Longrightarrow> 0 \<le> scope_max_retries c \<and> scope_max_retries c \<le> 3 \<and>
     1 \<le> scope_max_runtime_seconds c \<and> scope_max_runtime_seconds c \<le> 3600 \<and>
     0 \<le> scope_max_cost_usd c \<and> scope_max_cost_usd c \<le> 10 \<and>
     0 \<le> scope_max_pull_requests c \<and> scope_max_pull_requests c \<le> 1"
  by (simp add: scope_bounds_def split: if_splits)

end
