(* ===== verification/TrustInvariant.thy ===== *)
theory TrustInvariant
  imports TrustCredentials TrustAuthorization TrustScope
begin

text \<open>
  The trust plane as a state machine: issuing, revoking and expiring leases, evaluating and charging
  actions, issuing and revoking credentials, attestations and human decisions, with the clock
  moving on in between, in any order. The invariant: at most one live lease per approval and agent,
  no lease charged beyond its budget, and no credential outside its lease.
\<close>

section \<open>The invariant\<close>

definition unique_live :: "sys \<Rightarrow> bool" where
  "unique_live s \<longleftrightarrow>
     (\<forall>l1 \<in> set (dict_vals (capability_leases s)). \<forall>l2 \<in> set (dict_vals (capability_leases s)).
        lease_live l1 (clock s) \<longrightarrow> lease_live l2 (clock s) \<longrightarrow>
        lease_approval_request_id l1 = lease_approval_request_id l2 \<longrightarrow>
        lease_agent_id l1 = lease_agent_id l2 \<longrightarrow> l1 = l2)"

definition charged_within :: "CapabilityLease \<Rightarrow> bool" where
  "charged_within l \<longleftrightarrow>
     lease_consumed_runtime_seconds l \<le> scope_max_runtime_seconds (lease_scope l) \<and>
     lease_consumed_cost_usd l \<le> scope_max_cost_usd (lease_scope l) \<and>
     lease_consumed_pull_requests l \<le> scope_max_pull_requests (lease_scope l) \<and>
     lease_consumed_retries l \<le> scope_max_retries (lease_scope l)"

definition grant_within :: "sys \<Rightarrow> CredentialGrant \<Rightarrow> bool" where
  "grant_within s g \<longleftrightarrow>
     (\<exists>l. dict_get (capability_leases s) (grant_lease_id g) = Some l \<and>
        grant_expires_at g \<le> lease_expires_at l \<and>
        (lease_status l = CapabilityLeaseStatus.REVOKED \<longrightarrow> grant_revoked g))"

definition tinv :: "sys \<Rightarrow> bool" where
  "tinv s \<longleftrightarrow>
     keyed lease_id (capability_leases s) \<and> keyed grant_id (credential_grants s) \<and> unique_live s \<and>
     (\<forall>l \<in> set (dict_vals (capability_leases s)). charged_within l) \<and>
     (\<forall>g \<in> set (dict_vals (credential_grants s)). grant_within s g)"

interpretation grants: entity_table grant_id dict_get "\<lambda>x. dict_set (grant_id x) x" dict_vals "keyed grant_id"
  by (rule dict_entity_table)

text \<open>Only leases, grants and the clock matter.\<close>

lemma tinv_cong:
  assumes "capability_leases s' = capability_leases s" "credential_grants s' = credential_grants s"
    "clock s' = clock s"
  shows "tinv s' = tinv s"
  using assms by (simp add: tinv_def unique_live_def grant_within_def)

lemma tinv_frame [simp]:
  "tinv (persist s) = tinv s" "tinv (drawn s) = tinv s"
  "tinv (record_trust_event E ty ety eid a c p s) = tinv s"
  "tinv (put_attestation x1 s) = tinv s" "tinv (put_action x2 s) = tinv s"
  "tinv (put_decision x3 s) = tinv s" "tinv (put_authorization x4 s) = tinv s"
  "tinv (put_consumption k x5 s) = tinv s" "tinv (put_run x6 s) = tinv s" "tinv (put_step x7 s) = tinv s"
  "tinv (append_event E r ety' ar s) = tinv s"
  by (rule tinv_cong; simp add: append_event_def)+

text \<open>
  Replacing a lease by a later version of itself: same subject, lifetime and scope, not brought
  back to life, charged within its budget, and not newly revoked.
\<close>

definition later_version :: "CapabilityLease \<Rightarrow> CapabilityLease \<Rightarrow> bool" where
  "later_version l l' \<longleftrightarrow>
     lease_id l' = lease_id l \<and> lease_approval_request_id l' = lease_approval_request_id l \<and>
     lease_agent_id l' = lease_agent_id l \<and> lease_expires_at l' = lease_expires_at l \<and>
     (lease_status l' = CapabilityLeaseStatus.ACTIVE \<longrightarrow> lease_status l = CapabilityLeaseStatus.ACTIVE) \<and>
     charged_within l'"

lemma unique_live_put:
  assumes k: "keyed lease_id (capability_leases s)" and u: "unique_live s"
    and g: "dict_get (capability_leases s) (lease_id l') = Some l" and v: "later_version l l'"
  shows "unique_live (put_lease l' s)"
proof -
  have l: "l \<in> set (dict_vals (capability_leases s))" "lease_id l = lease_id l'"
    using g leases.get_iff [OF k] by auto
  have live: "lease_live l' t \<Longrightarrow> lease_live l t" for t using v by (auto simp: later_version_def lease_live_def)
  have mem: "x = l' \<or> (x \<in> set (dict_vals (capability_leases s)) \<and> x \<noteq> l)"
    if "x \<in> set (dict_vals (capability_leases (put_lease l' s)))" for x
  proof -
    have "x = l' \<or> x \<in> set (dict_vals (capability_leases s)) \<and> lease_id x \<noteq> lease_id l'"
      using leases.in_vals_put [OF k, of x l'] that by (simp only: put_lease_simps)
    then show ?thesis using l(2) by blast
  qed
  show ?thesis
    unfolding unique_live_def
  proof (intro ballI impI)
    fix a b
    assume ab: "a \<in> set (dict_vals (capability_leases (put_lease l' s)))"
      "b \<in> set (dict_vals (capability_leases (put_lease l' s)))"
      "lease_live a (clock (put_lease l' s))" "lease_live b (clock (put_lease l' s))"
      "lease_approval_request_id a = lease_approval_request_id b" "lease_agent_id a = lease_agent_id b"
    have c: "lease_live a (clock s)" "lease_live b (clock s)" using ab(3,4) by simp_all
    have u': "\<And>x y. x \<in> set (dict_vals (capability_leases s)) \<Longrightarrow> y \<in> set (dict_vals (capability_leases s)) \<Longrightarrow>
        lease_live x (clock s) \<Longrightarrow> lease_live y (clock s) \<Longrightarrow>
        lease_approval_request_id x = lease_approval_request_id y \<Longrightarrow> lease_agent_id x = lease_agent_id y \<Longrightarrow> x = y"
      using u unfolding unique_live_def by blast
    have e: "lease_approval_request_id l' = lease_approval_request_id l" "lease_agent_id l' = lease_agent_id l"
      using v by (auto simp: later_version_def)
    from mem [OF ab(1)] mem [OF ab(2)] show "a = b"
    proof (elim disjE conjE)
      assume "a = l'" "b = l'"
      then show ?thesis by simp
    next
      assume "a = l'" "b \<in> set (dict_vals (capability_leases s))" "b \<noteq> l"
      then show ?thesis using u' [OF l(1), of b] live c ab(5,6) e by metis
    next
      assume "b = l'" "a \<in> set (dict_vals (capability_leases s))" "a \<noteq> l"
      then show ?thesis using u' [OF l(1), of a] live c ab(5,6) e by metis
    next
      assume "a \<in> set (dict_vals (capability_leases s))" "b \<in> set (dict_vals (capability_leases s))"
      then show ?thesis using u' c ab(5,6) by blast
    qed
  qed
qed

lemma put_lease_table:
  assumes "keyed lease_id (capability_leases s)"
  shows "keyed lease_id (capability_leases (put_lease l s))"
    and "x \<in> set (dict_vals (capability_leases (put_lease l s))) \<Longrightarrow>
      x = l \<or> x \<in> set (dict_vals (capability_leases s))"
  using leases.wf_put [OF assms, of l] leases.in_vals_put [OF assms, of x l] by auto

lemma tinv_put_lease:
  assumes I: "tinv s" and g: "dict_get (capability_leases s) (lease_id l') = Some l"
    and v: "later_version l l'"
    and r: "lease_status l' = CapabilityLeaseStatus.REVOKED \<Longrightarrow> lease_status l = CapabilityLeaseStatus.REVOKED"
  shows "tinv (put_lease l' s)"
proof -
  have k: "keyed lease_id (capability_leases s)" using I by (simp add: tinv_def)
  have "grant_within (put_lease l' s) x" if "grant_within s x" for x
    using that g v r by (auto simp: grant_within_def later_version_def)
  then have "\<forall>x \<in> set (dict_vals (credential_grants (put_lease l' s))). grant_within (put_lease l' s) x"
    using I by (simp add: tinv_def)
  moreover have "\<forall>x \<in> set (dict_vals (capability_leases (put_lease l' s))). charged_within x"
    using put_lease_table(2) [OF k, of _ l'] I v unfolding tinv_def later_version_def by blast
  moreover have "unique_live (put_lease l' s)" "keyed grant_id (credential_grants (put_lease l' s))"
    using I unique_live_put [OF k _ g v] by (auto simp: tinv_def)
  ultimately show ?thesis
    using put_lease_table(1) [OF k] unfolding tinv_def by blast
qed

lemma tinv_lease:
  assumes "tinv s" "dict_get (capability_leases s) k = Some l"
  shows "lease_id l = k" "charged_within l" "l \<in> set (dict_vals (capability_leases s))"
  using assms leases.get_iff [of "capability_leases s" k l] by (auto simp: tinv_def)

section \<open>Expiry\<close>

lemma later_expired: "charged_within l \<Longrightarrow> later_version l (expire_lease t l)"
  by (simp add: later_version_def charged_within_def expire_lease_def)

lemma refresh_tinv:
  assumes I: "tinv s" and g: "dict_get (capability_leases s) (lease_id l) = Some l"
  shows "tinv (snd (refresh_lease_status E l s))"
    and "dict_get (capability_leases (snd (refresh_lease_status E l s))) (lease_id l) =
      Some (refreshed (clock s) l)"
proof -
  have "tinv (put_lease (expire_lease (clock s) l) s)"
    by (rule tinv_put_lease [OF I _ later_expired]) (use g tinv_lease(2) [OF I g] in simp_all)
  then show "tinv (snd (refresh_lease_status E l s))"
    using I by (simp add: refresh_lease_status_eq refreshed_def)
  show "dict_get (capability_leases (snd (refresh_lease_status E l s))) (lease_id l) =
      Some (refreshed (clock s) l)"
    using g by (simp add: refreshed_def)
qed

section \<open>Revocation\<close>

lemma revoke_grant_simps [simp]:
  "grant_id (revoke_grant lid t g) = grant_id g" "grant_lease_id (revoke_grant lid t g) = grant_lease_id g"
  "grant_expires_at (revoke_grant lid t g) = grant_expires_at g"
  "grant_token_hash (revoke_grant lid t g) = grant_token_hash g"
  "grant_revoked (revoke_grant lid t g) \<longleftrightarrow> grant_revoked g \<or> grant_lease_id g = lid"
  by (auto simp: revoke_grant_def)

lemma revoke_grants_grants [simp]:
  "credential_grants (revoke_grants lid s) =
     map (\<lambda>(k, g). (k, revoke_grant lid (clock s) g)) (credential_grants s)"
  by (simp add: revoke_grants_def)

lemma dict_vals_map: "dict_vals (map (\<lambda>(k, v). (k, f v)) d) = map f (dict_vals d)"
  by (induction d) (auto simp: dict_vals_def)

lemma keyed_map:
  assumes "\<And>v. key (f v) = key v" "keyed key d"
  shows "keyed key (map (\<lambda>(k, v). (k, f v)) d)"
proof -
  have "map fst (map (\<lambda>(k, v). (k, f v)) d) = map fst d" by (induction d) auto
  then show ?thesis using assms by (auto simp: keyed_def list_all_iff simp del: map_map)
qed

lemma mark_revoked_simps [simp]:
  "lease_id (mark_revoked t u r l) = lease_id l" "lease_status (mark_revoked t u r l) = CapabilityLeaseStatus.REVOKED"
  "lease_approval_request_id (mark_revoked t u r l) = lease_approval_request_id l"
  "lease_agent_id (mark_revoked t u r l) = lease_agent_id l"
  "lease_expires_at (mark_revoked t u r l) = lease_expires_at l"
  "charged_within (mark_revoked t u r l) = charged_within l"
  by (simp_all add: mark_revoked_def charged_within_def)

lemma revoke_put_tinv:
  assumes I: "tinv s" and g: "dict_get (capability_leases s) (lease_id l) = Some l"
  shows "tinv (revoke_grants (lease_id l) (put_lease (mark_revoked t u r l) s))"
proof -
  let ?l = "mark_revoked t u r l" and ?s = "revoke_grants (lease_id l) (put_lease (mark_revoked t u r l) s)"
  have k: "keyed lease_id (capability_leases s)" "keyed grant_id (credential_grants s)"
    using I by (auto simp: tinv_def)
  have v: "later_version l ?l" using tinv_lease(2) [OF I g] by (simp add: later_version_def)
  have u: "unique_live (put_lease ?l s)"
    using unique_live_put [OF k(1) _ _ v] g I by (simp add: tinv_def)
  have "grant_within ?s (revoke_grant (lease_id l) t' x)" if "grant_within s x" for x t'
    using that g by (auto simp: grant_within_def)
  then have grants: "\<forall>x \<in> set (dict_vals (credential_grants ?s)). grant_within ?s x"
    using I by (auto simp: dict_vals_map tinv_def)
  have e: "capability_leases ?s = capability_leases (put_lease ?l s)" "clock ?s = clock (put_lease ?l s)"
    by simp_all
  have "\<forall>x \<in> set (dict_vals (capability_leases ?s)). charged_within x"
    using put_lease_table(2) [OF k(1), of _ ?l] I v unfolding e tinv_def later_version_def by blast
  moreover have "unique_live ?s" using u unfolding unique_live_def e .
  moreover have "keyed lease_id (capability_leases ?s)"
    using put_lease_table(1) [OF k(1)] unfolding e .
  moreover have "keyed grant_id (credential_grants ?s)" using k(2) by (simp add: keyed_map)
  ultimately show ?thesis using grants unfolding tinv_def by blast
qed

lemma revoke_tinv:
  assumes I: "tinv s" and g: "dict_get (capability_leases s) (lease_id l) = Some l"
  shows "outcome_ok tinv (\<lambda>_. tinv) (revoke_capability_lease E l user reason s)"
proof -
  let ?s = "snd (refresh_lease_status E l s)" and ?l = "refreshed (clock s) l"
  have r: "tinv ?s" "dict_get (capability_leases ?s) (lease_id ?l) = Some ?l"
    using refresh_tinv [OF I g, of E] by simp_all
  show ?thesis
    using r(1) revoke_put_tinv [OF r]
    by (simp add: revoke_capability_lease_def split_beta Let_def wp)
qed

section \<open>Issuing\<close>

text \<open>The identifiers that the next few draws give are new.\<close>

definition fresh_trust :: "env \<Rightarrow> sys \<Rightarrow> bool" where
  "fresh_trust E s \<longleftrightarrow>
     list_all (\<lambda>n. dict_get (capability_leases s) (''lease'' @ ''_'' @ uuid_hex12 E n) = None \<and>
         dict_get (credential_grants s) (''credential_grant'' @ ''_'' @ uuid_hex12 E n) = None)
       [draws s..<draws s + 4]"

lemma fresh_trustD:
  assumes "fresh_trust E s" "n < 4"
  shows "dict_get (capability_leases s) (''lease'' @ ''_'' @ uuid_hex12 E (draws s + n)) = None"
    "dict_get (credential_grants s) (''credential_grant'' @ ''_'' @ uuid_hex12 E (draws s + n)) = None"
  using assms by (auto simp: fresh_trust_def list_all_iff)

lemma new_lease_simps [simp]:
  "lease_id (new_lease E p a u s) = new_id E ''lease'' (drawn s)"
  "lease_approval_request_id (new_lease E p a u s) = appr_id a"
  "lease_approved_payload_hash (new_lease E p a u s) = opt_str (appr_approved_payload_hash a)"
  "lease_agent_id (new_lease E p a u s) = lc_agent_id p"
  "lease_provider (new_lease E p a u s) = lc_provider p"
  "lease_mode (new_lease E p a u s) = lc_mode p"
  "lease_scope (new_lease E p a u s) = fingerprinted_scope E p"
  "lease_status (new_lease E p a u s) = CapabilityLeaseStatus.ACTIVE"
  "lease_expires_at (new_lease E p a u s) = clock s + seconds_us (lc_expires_in_seconds p)"
  by (simp_all add: new_lease_def Let_def)

lemma fingerprinted_scope_simps [simp]:
  "scope_repository (fingerprinted_scope E p) = scope_repository (lc_scope p)"
  "scope_branch (fingerprinted_scope E p) = scope_branch (lc_scope p)"
  "scope_allowed_actions (fingerprinted_scope E p) = scope_allowed_actions (lc_scope p)"
  "scope_allowed_path_prefixes (fingerprinted_scope E p) = scope_allowed_path_prefixes (lc_scope p)"
  "scope_allowed_commands (fingerprinted_scope E p) = scope_allowed_commands (lc_scope p)"
  "scope_max_runtime_seconds (fingerprinted_scope E p) = scope_max_runtime_seconds (lc_scope p)"
  "scope_max_cost_usd (fingerprinted_scope E p) = scope_max_cost_usd (lc_scope p)"
  "scope_max_retries (fingerprinted_scope E p) = scope_max_retries (lc_scope p)"
  "scope_max_pull_requests (fingerprinted_scope E p) = scope_max_pull_requests (lc_scope p)"
  "scope_allow_auto_merge (fingerprinted_scope E p) = scope_allow_auto_merge (lc_scope p)"
  by (simp_all add: fingerprinted_scope_def)

lemma new_lease_charged: "scope_bounds (lc_scope p) = [] \<Longrightarrow> charged_within (new_lease E p a u s)"
  using scope_bounds_Nil [of "lc_scope p"]
  by (simp add: charged_within_def new_lease_def Let_def)

lemma new_lease_signed:
  "verify_payload_signature E (lease_receipt_payload (new_lease E p a u s))
     (lease_receipt_signature (new_lease E p a u s))"
  by (simp add: new_lease_def Let_def lease_receipt_payload_def)

lemma active_lease_None:
  "active_lease_for aid agent s = None \<longleftrightarrow>
     (\<forall>l \<in> set (dict_vals (capability_leases s)).
        \<not> (lease_approval_request_id l = aid \<and> lease_agent_id l = agent \<and> lease_live l (clock s)))"
  by (auto simp: active_lease_for_def find_None_iff)

lemma put_new_lease_tinv:
  assumes I: "tinv s" and new: "dict_get (capability_leases s) (lease_id l) = None"
    and none: "active_lease_for (lease_approval_request_id l) (lease_agent_id l) s = None"
    and c: "charged_within l"
  shows "tinv (put_lease l s)"
proof -
  have k: "keyed lease_id (capability_leases s)" using I by (simp add: tinv_def)
  have vals: "dict_vals (capability_leases (put_lease l s)) = dict_vals (capability_leases s) @ [l]"
    using leases.vals_put_new [OF k new] by simp
  have "unique_live (put_lease l s)"
    using I none unfolding tinv_def unique_live_def vals active_lease_None
    by (simp add: ball_Un) metis
  moreover have "grant_within (put_lease l s) g" if "grant_within s g" for g
    using that new by (auto simp: grant_within_def)
  moreover have "keyed grant_id (credential_grants (put_lease l s))" using I by (simp add: tinv_def)
  ultimately show ?thesis
    using I c put_lease_table(1) [OF k] unfolding tinv_def vals by (simp add: ball_Un)
qed

lemma store_new_lease_tinv:
  assumes I: "tinv s" and f: "fresh_trust E s" and b: "scope_bounds (lc_scope p) = []"
    and none: "active_lease_for (appr_id a) (lc_agent_id p) s = None"
  shows "outcome_ok tinv (\<lambda>_. tinv) (store_new_lease E p a u s)"
proof -
  have "tinv (put_lease (new_lease E p a u s) (drawn (drawn s)))"
    by (rule put_new_lease_tinv)
      (use I none new_lease_charged [OF b] fresh_trustD(1) [OF f, of 1] in
        \<open>simp_all add: active_lease_for_def new_id_def\<close>)
  then show ?thesis by (simp add: store_new_lease_def Let_def wp)
qed

lemma issue_tinv:
  assumes I: "tinv s" and f: "fresh_trust E s" and b: "scope_bounds (lc_scope p) = []"
  shows "outcome_ok tinv (\<lambda>_. tinv) (issue_capability_lease E p u s)"
  using I store_new_lease_tinv [OF I f b]
  by (auto simp: issue_capability_lease_def Let_def wp split: option.split)

section \<open>The gateway and charging\<close>

lemma refreshed_lease_tinv:
  assumes I: "tinv s"
  shows "tinv (snd (refreshed_lease E a s))"
proof (cases "lease_of_action a s")
  case None
  then show ?thesis using I by (simp add: refreshed_lease_def)
next
  case (Some l)
  then have "dict_get (capability_leases s) (lease_id l) = Some l"
    using tinv_lease(1) [OF I] by (auto simp: lease_of_action_def)
  then show ?thesis using refresh_tinv(1) [OF I] Some by (simp add: refreshed_lease_def split_beta)
qed

lemma receive_action_tinv [simp]: "tinv (receive_action E a actor s) = tinv s"
  by (simp add: receive_action_def)

lemma record_decision_tinv [simp]: "tinv (record_decision E a d actor s) = tinv s"
  by (simp add: record_decision_def)

lemma evaluate_gateway_tinv: "tinv s \<Longrightarrow> tinv (snd (evaluate_gateway_action E a actor s))"
  using refreshed_lease_tinv by (simp add: evaluate_gateway_action_def split_beta Let_def)

lemma charge_lease_simps [simp]:
  "lease_id (charge_lease c t l) = lease_id l" "lease_status (charge_lease c t l) = lease_status l"
  "lease_approval_request_id (charge_lease c t l) = lease_approval_request_id l"
  "lease_agent_id (charge_lease c t l) = lease_agent_id l"
  "lease_expires_at (charge_lease c t l) = lease_expires_at l"
  by (simp_all add: charge_lease_def)

lemma budget_conflict_None: "budget_conflict c l = None \<longleftrightarrow> charged_within (charge_lease c t l)"
  by (simp add: budget_conflict_def charged_within_def charge_lease_def Let_def)

lemma charge_action_tinv:
  assumes I: "tinv s" and g: "dict_get (capability_leases s) (lease_id l) = Some l"
    and b: "budget_conflict c l = None"
  shows "tinv (charge_action E a l c actor p s)"
proof -
  have "later_version l (charge_lease c (clock s) l)"
    using b budget_conflict_None by (auto simp: later_version_def)
  then have "tinv (put_lease (charge_lease c (clock s) l) s)"
    using g by (intro tinv_put_lease [OF I]) auto
  then show ?thesis by (simp add: charge_action_def)
qed

lemma consume_effective_tinv:
  assumes I: "tinv s"
  shows "outcome_ok tinv (\<lambda>_. tinv) (consume_effective_action E aid c actor s)"
proof -
  have "tinv (charge_action E a (refreshed (clock s) l) c actor p (snd (refresh_lease_status E l s))) \<and>
      tinv (snd (refresh_lease_status E l s))"
    if "lease_of_action a s = Some l" "budget_conflict c (refreshed (clock s) l) = None" for a l p
  proof -
    have g: "dict_get (capability_leases s) (lease_id l) = Some l"
      using that(1) tinv_lease(1) [OF I] by (auto simp: lease_of_action_def)
    show ?thesis
      using refresh_tinv [OF I g, of E] that(2) by (auto intro!: charge_action_tinv)
  qed
  moreover have "tinv (snd (refresh_lease_status E l s))" if "lease_of_action a s = Some l" for a l
    using that refresh_tinv(1) [OF I] tinv_lease(1) [OF I] by (auto simp: lease_of_action_def)
  ultimately show ?thesis
    using I by (auto simp: consume_effective_action_def split_beta Let_def wp split: option.split)
qed

section \<open>Credentials\<close>

lemma put_grant_tinv:
  assumes I: "tinv s" and w: "grant_within s g"
  shows "tinv (put_grant g s)"
proof -
  have k: "keyed grant_id (credential_grants s)" using I by (simp add: tinv_def)
  have kp: "keyed grant_id (credential_grants (put_grant g s))" using grants.wf_put [OF k, of g] by simp
  have mem: "x = g \<or> x \<in> set (dict_vals (credential_grants s))"
    if "x \<in> set (dict_vals (credential_grants (put_grant g s)))" for x
    using that grants.in_vals_put [OF k, of x g] by (simp only: put_grant_simps) blast
  have e: "grant_within (put_grant g s) x = grant_within s x" for x by (simp add: grant_within_def)
  have "\<forall>x \<in> set (dict_vals (credential_grants (put_grant g s))). grant_within (put_grant g s) x"
    using mem I w unfolding e tinv_def by blast
  then show ?thesis using I kp by (simp add: tinv_def unique_live_def)
qed

lemma issue_grant_tinv:
  assumes I: "tinv s"
  shows "outcome_ok tinv (\<lambda>_. tinv) (issue_credential_grant E payload user s)"
proof (cases "dict_get (capability_leases s) (gc_lease_id payload)")
  case None
  then show ?thesis using I by (simp add: issue_credential_grant_def wp)
next
  case (Some l)
  let ?s = "snd (refresh_lease_status E l s)" and ?l = "refreshed (clock s) l"
  have g: "dict_get (capability_leases s) (lease_id l) = Some l" using Some tinv_lease(1) [OF I] by auto
  have r: "tinv ?s" "dict_get (capability_leases ?s) (lease_id ?l) = Some ?l"
    using refresh_tinv [OF I g, of E] by simp_all
  have "tinv (put_grant (new_grant E payload ?l user ?s) (drawn (drawn ?s)))"
    if "lease_status ?l = CapabilityLeaseStatus.ACTIVE"
      "gc_expires_in_seconds payload \<le> (lease_expires_at l - clock s) div 1000000"
  proof (rule put_grant_tinv)
    show "tinv (drawn (drawn ?s))" using r(1) by simp
    have "gc_expires_in_seconds payload * 1000000 \<le> lease_expires_at l - clock s"
      using that(2) by linarith
    then show "grant_within (drawn (drawn ?s)) (new_grant E payload ?l user ?s)"
      using r(2) that(1) by (simp add: grant_within_def new_grant_def seconds_us_def)
  qed
  then show ?thesis
    using Some r(1) by (simp add: issue_credential_grant_def split_beta Let_def wp not_less)
qed

lemma revoke_credential_tinv:
  assumes I: "tinv s"
  shows "outcome_ok tinv (\<lambda>_. tinv) (revoke_credential_grant E gid user reason s)"
proof -
  have "tinv (put_grant g' s)"
    if "dict_get (credential_grants s) gid = Some g" "grant_lease_id g' = grant_lease_id g"
      "grant_expires_at g' = grant_expires_at g" "grant_revoked g'" for g g'
  proof (rule put_grant_tinv [OF I])
    have "grant_within s g"
      using that(1) I grants.get_mem [of "credential_grants s" gid g] by (auto simp: tinv_def)
    then show "grant_within s g'" using that by (auto simp: grant_within_def)
  qed
  then show ?thesis
    using I by (auto simp: revoke_credential_grant_def Let_def wp split: option.split)
qed

section \<open>Attestations and human decisions\<close>

lemma attest_tinv: "tinv s \<Longrightarrow> outcome_ok tinv (\<lambda>_. tinv) (record_reviewer_attestation E p u s)"
  by (simp add: record_reviewer_attestation_def Let_def wp split: option.split)

lemma decide_tinv: "tinv s \<Longrightarrow> outcome_ok tinv (\<lambda>_. tinv) (record_action_authorization E aid p u s)"
  by (simp add: record_action_authorization_def replay_authorization_def store_authorization_def
      apply_durable_run_decision_def decision_event_def Let_def wp split_beta split: option.split)

end
