(* ===== verification/TrustMission.thy ===== *)
theory TrustMission
  imports TrustInvariant
begin

text \<open>
  The trust plane as a state machine: every operation of the trust service, the credential broker
  and the human decisions as a step, with the clock moving on in between. Two invariants hold in
  every reachable state: the one of theory \<open>TrustInvariant\<close> on leases and credentials, and the
  integrity of the flight recorder.
\<close>

section \<open>The flight recorder stays verified\<close>

text \<open>
  \<open>recorder_ok E n s\<close>: the log is a hash chain, and the identifiers of events drawn up to the
  \<open>n\<close>-th draw are new and distinct.
\<close>

definition recorder_ok :: "env \<Rightarrow> nat \<Rightarrow> sys \<Rightarrow> bool" where
  "recorder_ok E n s \<longleftrightarrow>
     chain E 1 None (ordered_events s) \<and>
     distinct (map (uuid_hex12 E) [draws s..<n]) \<and>
     (\<forall>i \<in> set [draws s..<n]. dict_get (trust_events s) (''trust_event'' @ ''_'' @ uuid_hex12 E i) = None)"

lemma recorder_ok_cong:
  assumes "trust_events s' = trust_events s" "draws s' = draws s"
  shows "recorder_ok E n s' = recorder_ok E n s"
  using assms by (simp add: recorder_ok_def ordered_events_def)

lemma recorder_ok_frame [simp]:
  "recorder_ok E n (persist s) = recorder_ok E n s"
  "recorder_ok E n (put_attestation x1 s) = recorder_ok E n s"
  "recorder_ok E n (put_action x2 s) = recorder_ok E n s"
  "recorder_ok E n (put_decision x3 s) = recorder_ok E n s"
  "recorder_ok E n (put_authorization x4 s) = recorder_ok E n s"
  "recorder_ok E n (put_consumption k x5 s) = recorder_ok E n s"
  "recorder_ok E n (put_run x6 s) = recorder_ok E n s"
  "recorder_ok E n (put_step x7 s) = recorder_ok E n s"
  "recorder_ok E n (put_lease x8 s) = recorder_ok E n s"
  "recorder_ok E n (put_grant x9 s) = recorder_ok E n s"
  "recorder_ok E n (revoke_grants k s) = recorder_ok E n s"
  by (rule recorder_ok_cong; simp add: revoke_grants_def)+

lemma recorder_ok_drawn [intro!]: "recorder_ok E n s \<Longrightarrow> recorder_ok E n (drawn s)"
  by (cases "draws s < n") (auto simp: recorder_ok_def ordered_events_def upt_conv_Cons)

lemma recorder_ok_event [intro!]: "recorder_ok E n s \<Longrightarrow> recorder_ok E n (append_event E r ty ar s)"
  using recorder_ok_drawn [of E n s] recorder_ok_cong [of "append_event E r ty ar s" "drawn s" E n]
  by (simp add: append_event_def)

lemma recorder_ok_append [intro!]:
  assumes R: "recorder_ok E n s" and n: "draws s < n"
  shows "recorder_ok E n (record_trust_event E ty ety eid a c p s)"
proof -
  let ?s = "record_trust_event E ty ety eid a c p s"
  have up: "[draws s..<n] = draws s # [Suc (draws s)..<n]" using n by (simp add: upt_conv_Cons)
  have fresh: "dict_get (trust_events s) (new_id E ''trust_event'' s) = None"
    using R up by (simp add: recorder_ok_def new_id_def)
  have "chain E 1 None (ordered_events ?s)"
    using append_trust_event_log(2) [OF _ fresh refl] R
    unfolding recorder_ok_def record_trust_event_def by blast
  moreover have "trust_events ?s =
      dict_set (new_id E ''trust_event'' s) (new_trust_event E ty ety eid a c p s) (trust_events s)"
    by (simp add: record_trust_event_eq)
  moreover have "uuid_hex12 E (draws s) \<notin> uuid_hex12 E ` set [Suc (draws s)..<n]"
    using R unfolding recorder_ok_def up by simp
  then have "uuid_hex12 E i \<noteq> uuid_hex12 E (draws s)" if "i \<in> set [Suc (draws s)..<n]" for i
    using that by (metis imageI)
  ultimately show ?thesis
    using R up by (auto simp: recorder_ok_def new_id_def)
qed

lemma recorder_ok_less: "recorder_ok E n s \<Longrightarrow> m \<le> n \<Longrightarrow> recorder_ok E m s"
  by (auto simp: recorder_ok_def distinct_map intro: inj_on_subset)

lemma revoke_grants_draws [simp]: "draws (revoke_grants k s) = draws s"
  by (simp add: revoke_grants_def)

lemma refresh_recorder:
  assumes "recorder_ok E n s" "draws s < n"
  shows "recorder_ok E n (snd (refresh_lease_status E l s))"
    and "draws (snd (refresh_lease_status E l s)) \<le> Suc (draws s)"
  using assms by (auto simp: refresh_lease_status_def Let_def)

text \<open>The operations, with as many draws reserved as they need.\<close>

lemma attest_recorder:
  "recorder_ok E n s \<Longrightarrow> draws s + 4 \<le> n \<Longrightarrow>
     outcome_ok (recorder_ok E n) (\<lambda>_. recorder_ok E n) (record_reviewer_attestation E p u s)"
  by (auto simp: record_reviewer_attestation_def Let_def wp split: option.split)

lemma issue_recorder:
  "recorder_ok E n s \<Longrightarrow> draws s + 4 \<le> n \<Longrightarrow>
     outcome_ok (recorder_ok E n) (\<lambda>_. recorder_ok E n) (issue_capability_lease E p u s)"
  by (auto simp: issue_capability_lease_def store_new_lease_def Let_def wp split: option.split)

lemma revoke_recorder:
  assumes "recorder_ok E n s" "draws s + 4 \<le> n"
  shows "outcome_ok (recorder_ok E n) (\<lambda>_. recorder_ok E n) (revoke_capability_lease E l u reason s)"
proof -
  have "recorder_ok E n (snd (refresh_lease_status E l s))" "draws (snd (refresh_lease_status E l s)) < n"
    using assms refresh_recorder(1) [OF assms(1)] refresh_recorder(2) [OF assms(1), of l] by auto
  then show ?thesis by (auto simp: revoke_capability_lease_def split_beta Let_def wp)
qed

lemma refreshed_lease_recorder:
  assumes "recorder_ok E n s" "draws s < n"
  shows "recorder_ok E n (snd (refreshed_lease E a s))"
    and "draws (snd (refreshed_lease E a s)) \<le> Suc (draws s)"
  using assms refresh_recorder by (auto simp: refreshed_lease_def split_beta split: option.split)

lemma evaluate_recorder:
  assumes "recorder_ok E n s" "draws s + 4 \<le> n"
  shows "recorder_ok E n (snd (evaluate_gateway_action E a actor s))"
proof -
  let ?s = "snd (refreshed_lease E a s)"
  have "recorder_ok E n ?s" "draws ?s + 3 \<le> n"
    using assms refreshed_lease_recorder(1) [OF assms(1)] refreshed_lease_recorder(2) [OF assms(1), of a] by auto
  then have "recorder_ok E n (receive_action E a actor ?s)" "draws (receive_action E a actor ?s) + 2 \<le> n"
    by (auto simp: receive_action_def)
  then show ?thesis
    by (auto simp: evaluate_gateway_action_def split_beta Let_def record_decision_def)
qed

lemma consume_recorder:
  assumes "recorder_ok E n s" "draws s + 4 \<le> n"
  shows "outcome_ok (recorder_ok E n) (\<lambda>_. recorder_ok E n) (consume_effective_action E aid c actor s)"
proof -
  have "recorder_ok E n (snd (refresh_lease_status E l s))" "draws (snd (refresh_lease_status E l s)) < n" for l
    using assms refresh_recorder(1) [OF assms(1)] refresh_recorder(2) [OF assms(1), of l] by auto
  then show ?thesis
    using assms by (auto simp: consume_effective_action_def charge_action_def split_beta Let_def wp
        split: option.split)
qed

lemma grant_recorder:
  assumes "recorder_ok E n s" "draws s + 4 \<le> n"
  shows "outcome_ok (recorder_ok E n) (\<lambda>_. recorder_ok E n) (issue_credential_grant E p u s)"
proof -
  have "recorder_ok E n (snd (refresh_lease_status E l s))" "Suc (Suc (draws (snd (refresh_lease_status E l s)))) < n" for l
    using assms refresh_recorder(1) [OF assms(1)] refresh_recorder(2) [OF assms(1), of l] by auto
  then show ?thesis
    using assms by (auto simp: issue_credential_grant_def split_beta Let_def wp split: option.split)
qed

lemma revoke_grant_recorder:
  "recorder_ok E n s \<Longrightarrow> draws s + 4 \<le> n \<Longrightarrow>
     outcome_ok (recorder_ok E n) (\<lambda>_. recorder_ok E n) (revoke_credential_grant E gid u reason s)"
  by (auto simp: revoke_credential_grant_def Let_def wp split: option.split)

lemma apply_decision_recorder:
  "recorder_ok E n s \<Longrightarrow>
     outcome_ok (recorder_ok E n) (\<lambda>_. recorder_ok E n) (apply_durable_run_decision E aid d actor reason s)"
  by (auto simp: apply_durable_run_decision_def decision_event_def wp split: option.split)

lemma decide_recorder:
  assumes "recorder_ok E n s" "draws s + 4 \<le> n"
  shows "outcome_ok (recorder_ok E n) (\<lambda>_. recorder_ok E n) (record_action_authorization E aid p u s)"
proof -
  show ?thesis
    using assms by (auto simp: record_action_authorization_def replay_authorization_def
        store_authorization_def Let_def wp intro!: apply_decision_recorder split: option.split)
qed

section \<open>What is written once\<close>

text \<open>The terms of a lease: everything but its status, its revocation and its consumption.\<close>

definition lease_terms :: "CapabilityLease \<Rightarrow> CapabilityLease" where
  "lease_terms l =
     l\<lparr>lease_status := CapabilityLeaseStatus.ACTIVE, lease_revoked_at := None,
       lease_revoked_by_user_id := None, lease_revocation_reason := [], lease_consumed_pull_requests := 0,
       lease_consumed_retries := 0, lease_consumed_runtime_seconds := 0, lease_consumed_cost_usd := 0,
       lease_updated_at := 0\<rparr>"

text \<open>\<open>holds l s\<close>: the store has a later version of \<open>l\<close>, on the same terms and not revived.\<close>

definition holds :: "CapabilityLease \<Rightarrow> sys \<Rightarrow> bool" where
  "holds l s \<longleftrightarrow>
     (\<exists>l'. dict_get (capability_leases s) (lease_id l) = Some l' \<and> lease_terms l' = lease_terms l \<and>
        (lease_status l \<noteq> CapabilityLeaseStatus.ACTIVE \<longrightarrow> lease_status l' = lease_status l))"

lemma lease_terms_simps [simp]:
  "lease_terms (expire_lease t l) = lease_terms l" "lease_terms (mark_revoked t u r l) = lease_terms l"
  "lease_terms (charge_lease c t l) = lease_terms l" "lease_terms (refreshed t l) = lease_terms l"
  by (simp_all add: lease_terms_def expire_lease_def mark_revoked_def charge_lease_def refreshed_def)

lemma holds_cong: "capability_leases s' = capability_leases s \<Longrightarrow> holds l s' = holds l s"
  by (simp add: holds_def)

lemma holds_frame [simp]:
  "holds l (persist s) = holds l s" "holds l (drawn s) = holds l s"
  "holds l (record_trust_event E ty ety eid a c p s) = holds l s"
  "holds l (put_attestation x1 s) = holds l s" "holds l (put_action x2 s) = holds l s"
  "holds l (put_decision x3 s) = holds l s" "holds l (put_authorization x4 s) = holds l s"
  "holds l (put_consumption k x5 s) = holds l s" "holds l (put_run x6 s) = holds l s"
  "holds l (put_step x7 s) = holds l s" "holds l (put_grant x8 s) = holds l s"
  "holds l (append_event E r ety' ar s) = holds l s" "holds l (revoke_grants k s) = holds l s"
  by (rule holds_cong; simp add: append_event_def revoke_grants_def)+

lemma holds_put:
  assumes "holds l s" "dict_get (capability_leases s) (lease_id l') = Some l''"
    "lease_terms l' = lease_terms l''"
    "lease_status l'' \<noteq> CapabilityLeaseStatus.ACTIVE \<Longrightarrow> lease_status l' = lease_status l''"
  shows "holds l (put_lease l' s)"
  using assms by (auto simp: holds_def)

lemma holds_put_new:
  assumes "holds l s" "dict_get (capability_leases s) (lease_id l') = None"
  shows "holds l (put_lease l' s)"
  using assms by (auto simp: holds_def)

lemma refresh_holds:
  assumes "holds l s" "dict_get (capability_leases s) (lease_id q) = Some q"
  shows "holds l (snd (refresh_lease_status E q s))"
  using assms holds_put [OF assms(1), of "expire_lease (clock s) q" q]
  by (auto simp: refresh_lease_status_eq expiring_def refreshed_def)

lemma attest_holds:
  "holds l s \<Longrightarrow> outcome_ok (holds l) (\<lambda>_. holds l) (record_reviewer_attestation E p u s)"
  by (simp add: record_reviewer_attestation_def Let_def wp split: option.split)

lemma issue_holds:
  assumes "holds l s" "dict_get (capability_leases s) (''lease'' @ ''_'' @ uuid_hex12 E (Suc (draws s))) = None"
  shows "outcome_ok (holds l) (\<lambda>_. holds l) (issue_capability_lease E p u s)"
proof -
  have "holds l (put_lease (new_lease E p a u s) (drawn (drawn s)))" for a
    using assms by (intro holds_put_new) (simp_all add: new_id_def)
  then show ?thesis
    using assms(1)
    by (auto simp: issue_capability_lease_def store_new_lease_def Let_def wp split: option.split)
qed

lemma revoke_holds:
  assumes "holds l s" "dict_get (capability_leases s) (lease_id q) = Some q"
  shows "outcome_ok (holds l) (\<lambda>_. holds l) (revoke_capability_lease E q u reason s)"
proof -
  let ?s = "snd (refresh_lease_status E q s)" and ?q = "refreshed (clock s) q"
  have h: "holds l ?s" by (rule refresh_holds [OF assms])
  have "dict_get (capability_leases ?s) (lease_id ?q) = Some ?q" using assms(2) by (auto simp: refreshed_def)
  then have "lease_status ?q = CapabilityLeaseStatus.ACTIVE \<Longrightarrow> holds l (put_lease (mark_revoked t w r ?q) ?s)"
    for t w r by (intro holds_put [OF h, of _ ?q]) auto
  then show ?thesis using h by (auto simp: revoke_capability_lease_def split_beta Let_def wp)
qed

lemma evaluate_holds:
  assumes "holds l s" "keyed lease_id (capability_leases s)"
  shows "holds l (snd (evaluate_gateway_action E a actor s))"
proof -
  have "dict_get (capability_leases s) (lease_id q) = Some q" if "lease_of_action a s = Some q" for q
    using that leases.get_key [OF assms(2)] by (auto simp: lease_of_action_def)
  then have "holds l (snd (refreshed_lease E a s))"
    using assms(1) refresh_holds by (auto simp: refreshed_lease_def split_beta split: option.split)
  then show ?thesis
    by (simp add: evaluate_gateway_action_def split_beta Let_def record_decision_def receive_action_def)
qed

lemma consume_holds:
  assumes "holds l s" "keyed lease_id (capability_leases s)"
  shows "outcome_ok (holds l) (\<lambda>_. holds l) (consume_effective_action E aid c actor s)"
proof -
  have k: "dict_get (capability_leases s) (lease_id q) = Some q" if "lease_of_action a s = Some q" for a q
    using that leases.get_key [OF assms(2)] by (auto simp: lease_of_action_def)
  have r: "holds l (snd (refresh_lease_status E q s))" if "lease_of_action a s = Some q" for a q
    using refresh_holds [OF assms(1) k [OF that]] .
  have "holds l (put_lease (charge_lease c t (refreshed (clock s) q)) (snd (refresh_lease_status E q s)))"
    if "lease_of_action a s = Some q" for a q t
    using k [OF that] by (intro holds_put [OF r [OF that]]) (auto simp: refreshed_def)
  then show ?thesis
    using r assms(1)
    by (auto simp: consume_effective_action_def charge_action_def split_beta Let_def wp split: option.split)
qed

lemma grant_holds:
  assumes "holds l s" "keyed lease_id (capability_leases s)"
  shows "outcome_ok (holds l) (\<lambda>_. holds l) (issue_credential_grant E p u s)"
proof -
  have "holds l (snd (refresh_lease_status E q s))" if "dict_get (capability_leases s) k = Some q" for k q
    using that leases.get_key [OF assms(2)] by (auto intro!: refresh_holds [OF assms(1)])
  then show ?thesis
    using assms(1) by (auto simp: issue_credential_grant_def split_beta Let_def wp split: option.split)
qed

lemma revoke_grant_holds:
  "holds l s \<Longrightarrow> outcome_ok (holds l) (\<lambda>_. holds l) (revoke_credential_grant E gid u reason s)"
  by (simp add: revoke_credential_grant_def Let_def wp split: option.split)

lemma decide_holds:
  "holds l s \<Longrightarrow> outcome_ok (holds l) (\<lambda>_. holds l) (record_action_authorization E aid p u s)"
  by (simp add: record_action_authorization_def replay_authorization_def store_authorization_def
      apply_durable_run_decision_def decision_event_def Let_def wp split_beta split: option.split)

section \<open>The step relation\<close>

text \<open>Identifiers are drawn afresh: none of the next draws names a stored lease, credential or event.\<close>

definition fresh_draws :: "env \<Rightarrow> sys \<Rightarrow> bool" where
  "fresh_draws E s \<longleftrightarrow>
     fresh_trust E s \<and> distinct (map (uuid_hex12 E) [draws s..<draws s + 4]) \<and>
     list_all (\<lambda>n. dict_get (trust_events s) (''trust_event'' @ ''_'' @ uuid_hex12 E n) = None)
       [draws s..<draws s + 4]"

text \<open>
  \<open>other\<close> stands for the rest of the program: it may change approvals, tasks, runs and everything
  else, and time may pass, but it writes no lease, credential, consumption or trust event.
\<close>

inductive trust_step :: "env \<Rightarrow> sys \<Rightarrow> sys \<Rightarrow> bool" for E where
  other: "clock s \<le> clock s' \<Longrightarrow> capability_leases s' = capability_leases s \<Longrightarrow>
    credential_grants s' = credential_grants s \<Longrightarrow> action_consumptions s' = action_consumptions s \<Longrightarrow>
    trust_events s' = trust_events s \<Longrightarrow> trust_step E s s'"
| attest: "fresh_draws E s \<Longrightarrow> record_reviewer_attestation E payload user s = (x, s') \<Longrightarrow> trust_step E s s'"
| issue: "fresh_draws E s \<Longrightarrow> scope_bounds (lc_scope request) = [] \<Longrightarrow>
    issue_capability_lease E request user s = (y, s') \<Longrightarrow> trust_step E s s'"
| refresh: "fresh_draws E s \<Longrightarrow> dict_get (capability_leases s) lid = Some l \<Longrightarrow>
    refresh_lease_status E l s = (l', s') \<Longrightarrow> trust_step E s s'"
| revoke: "fresh_draws E s \<Longrightarrow> dict_get (capability_leases s) lid = Some l \<Longrightarrow>
    revoke_capability_lease E l user reason s = (y, s') \<Longrightarrow> trust_step E s s'"
| evaluate: "fresh_draws E s \<Longrightarrow> evaluate_gateway_action E action actor s = (d, s') \<Longrightarrow> trust_step E s s'"
| consume: "fresh_draws E s \<Longrightarrow> consume_effective_action E aid c actor s = (z, s') \<Longrightarrow> trust_step E s s'"
| grant: "fresh_draws E s \<Longrightarrow> issue_credential_grant E gpayload user s = (g, s') \<Longrightarrow> trust_step E s s'"
| revoke_grant: "fresh_draws E s \<Longrightarrow> revoke_credential_grant E gid user reason s = (g', s') \<Longrightarrow>
    trust_step E s s'"
| decide: "fresh_draws E s \<Longrightarrow> record_action_authorization E aid decision user s = (au, s') \<Longrightarrow>
    trust_step E s s'"

definition trust_init :: "sys \<Rightarrow> bool" where
  "trust_init s \<longleftrightarrow> capability_leases s = [] \<and> credential_grants s = [] \<and> action_consumptions s = [] \<and>
     trust_events s = []"

definition trust_reachable :: "env \<Rightarrow> sys \<Rightarrow> bool" where
  "trust_reachable E s \<longleftrightarrow> (\<exists>s0. trust_init s0 \<and> (trust_step E)\<^sup>*\<^sup>* s0 s)"

lemma outcome_snd: "outcome_ok P (\<lambda>_. P) r \<Longrightarrow> r = (x, s') \<Longrightarrow> P s'"
  by (cases x) (auto simp: outcome_ok_def)

lemma fresh_recorder:
  "fresh_draws E s \<Longrightarrow> chain E 1 None (ordered_events s) \<Longrightarrow> recorder_ok E (draws s + 4) s"
  by (simp add: fresh_draws_def recorder_ok_def list_all_iff)

lemma recorder_chain: "recorder_ok E n s \<Longrightarrow> chain E 1 None (ordered_events s)"
  by (simp add: recorder_ok_def)

lemma tinv_other:
  assumes "tinv s" "clock s \<le> clock s'" "capability_leases s' = capability_leases s"
    "credential_grants s' = credential_grants s"
  shows "tinv s'"
proof -
  have "lease_live l (clock s') \<Longrightarrow> lease_live l (clock s)" for l
    using assms(2) by (auto simp: lease_live_def)
  then have "unique_live s \<Longrightarrow> unique_live s'"
    unfolding unique_live_def assms(3) by blast
  then show ?thesis using assms by (simp add: tinv_def grant_within_def)
qed

text \<open>What every step keeps: the invariant, the chain, and the lease terms.\<close>

lemma trust_step_tinv:
  assumes "trust_step E s s'" "tinv s"
  shows "tinv s'"
  using assms(1)
proof cases
  case other
  then show ?thesis using tinv_other assms(2) by blast
next
  case (attest payload user x)
  from outcome_snd [OF attest_tinv [OF assms(2)] attest(2)] show ?thesis .
next
  case (issue request user y)
  then have "fresh_trust E s" by (simp add: fresh_draws_def)
  from outcome_snd [OF issue_tinv [OF assms(2) this issue(2)] issue(3)] show ?thesis .
next
  case (refresh lid l l')
  then show ?thesis using refresh_tinv(1) [OF assms(2), of l E] tinv_lease(1) [OF assms(2) refresh(2)] by simp
next
  case (revoke lid l user reason y)
  then have "dict_get (capability_leases s) (lease_id l) = Some l" using tinv_lease(1) [OF assms(2)] by simp
  from outcome_snd [OF revoke_tinv [OF assms(2) this] revoke(3)] show ?thesis .
next
  case (evaluate action actor d)
  then show ?thesis using evaluate_gateway_tinv [OF assms(2), of E action actor] by simp
next
  case (consume aid c actor z)
  from outcome_snd [OF consume_effective_tinv [OF assms(2)] consume(2)] show ?thesis .
next
  case (grant gpayload user g)
  from outcome_snd [OF issue_grant_tinv [OF assms(2)] grant(2)] show ?thesis .
next
  case (revoke_grant gid user reason g')
  from outcome_snd [OF revoke_credential_tinv [OF assms(2)] revoke_grant(2)] show ?thesis .
next
  case (decide aid decision user au)
  from outcome_snd [OF decide_tinv [OF assms(2)] decide(2)] show ?thesis .
qed

lemma trust_step_chain:
  assumes "trust_step E s s'" "chain E 1 None (ordered_events s)"
  shows "chain E 1 None (ordered_events s')"
  using assms(1)
proof cases
  case other
  then show ?thesis using assms(2) by (simp add: ordered_events_def)
next
  case (attest payload user x)
  from recorder_chain [OF outcome_snd [OF attest_recorder [OF fresh_recorder [OF attest(1) assms(2)]] attest(2)]]
  show ?thesis by simp
next
  case (issue request user y)
  from recorder_chain [OF outcome_snd [OF issue_recorder [OF fresh_recorder [OF issue(1) assms(2)]] issue(3)]]
  show ?thesis by simp
next
  case (refresh lid l l')
  from recorder_chain [OF refresh_recorder(1) [OF fresh_recorder [OF refresh(1) assms(2)], of l]]
  show ?thesis using refresh(3) by simp
next
  case (revoke lid l user reason y)
  from recorder_chain [OF outcome_snd [OF revoke_recorder [OF fresh_recorder [OF revoke(1) assms(2)]] revoke(3)]]
  show ?thesis by simp
next
  case (evaluate action actor d)
  from recorder_chain [OF evaluate_recorder [OF fresh_recorder [OF evaluate(1) assms(2)], of action actor]]
  show ?thesis using evaluate(2) by simp
next
  case (consume aid c actor z)
  from recorder_chain [OF outcome_snd [OF consume_recorder [OF fresh_recorder [OF consume(1) assms(2)]] consume(2)]]
  show ?thesis by simp
next
  case (grant gpayload user g)
  from recorder_chain [OF outcome_snd [OF grant_recorder [OF fresh_recorder [OF grant(1) assms(2)]] grant(2)]]
  show ?thesis by simp
next
  case (revoke_grant gid user reason g')
  from recorder_chain [OF outcome_snd [OF revoke_grant_recorder [OF fresh_recorder [OF revoke_grant(1) assms(2)]]
      revoke_grant(2)]]
  show ?thesis by simp
next
  case (decide aid decision user au)
  from recorder_chain [OF outcome_snd [OF decide_recorder [OF fresh_recorder [OF decide(1) assms(2)]] decide(2)]]
  show ?thesis by simp
qed

lemma trust_step_holds:
  assumes "trust_step E s s'" "keyed lease_id (capability_leases s)" "holds l s"
  shows "holds l s'"
  using assms(1)
proof cases
  case other
  then show ?thesis using assms(3) holds_cong by blast
next
  case (attest payload user x)
  from outcome_snd [OF attest_holds [OF assms(3)] attest(2)] show ?thesis .
next
  case (issue request user y)
  then have "dict_get (capability_leases s) (''lease'' @ ''_'' @ uuid_hex12 E (Suc (draws s))) = None"
    using fresh_trustD(1) [of E s 1] by (simp add: fresh_draws_def)
  from outcome_snd [OF issue_holds [OF assms(3) this] issue(3)] show ?thesis .
next
  case (refresh lid q q')
  then show ?thesis using refresh_holds [OF assms(3), of q E] leases.get_key [OF assms(2) refresh(2)] by simp
next
  case (revoke lid q user reason y)
  then have "dict_get (capability_leases s) (lease_id q) = Some q" using leases.get_key [OF assms(2)] by simp
  from outcome_snd [OF revoke_holds [OF assms(3) this] revoke(3)] show ?thesis .
next
  case (evaluate action actor d)
  then show ?thesis using evaluate_holds [OF assms(3,2), of E action actor] by simp
next
  case (consume aid c actor z)
  from outcome_snd [OF consume_holds [OF assms(3,2)] consume(2)] show ?thesis .
next
  case (grant gpayload user g)
  from outcome_snd [OF grant_holds [OF assms(3,2)] grant(2)] show ?thesis .
next
  case (revoke_grant gid user reason g')
  from outcome_snd [OF revoke_grant_holds [OF assms(3)] revoke_grant(2)] show ?thesis .
next
  case (decide aid decision user au)
  from outcome_snd [OF decide_holds [OF assms(3)] decide(2)] show ?thesis .
qed

lemma trust_init_ok: "trust_init s \<Longrightarrow> tinv s \<and> chain E 1 None (ordered_events s)"
  by (simp add: trust_init_def tinv_def unique_live_def dict_vals_def ordered_events_def keyed_def)

lemma trust_steps_ok:
  "(trust_step E)\<^sup>*\<^sup>* s s' \<Longrightarrow> tinv s \<Longrightarrow> chain E 1 None (ordered_events s) \<Longrightarrow>
     tinv s' \<and> chain E 1 None (ordered_events s')"
  by (induction rule: rtranclp_induct) (auto intro: trust_step_tinv trust_step_chain)

lemma trust_steps_holds:
  assumes "(trust_step E)\<^sup>*\<^sup>* s s'" "tinv s" "holds l s"
  shows "holds l s'"
proof -
  have "tinv s' \<and> holds l s'"
    using assms by (induction rule: rtranclp_induct)
      (auto intro: trust_step_tinv trust_step_holds simp: tinv_def [THEN iffD1])
  then show ?thesis by simp
qed

lemma trust_reachable_ok:
  "trust_reachable E s \<Longrightarrow> tinv s" "trust_reachable E s \<Longrightarrow> chain E 1 None (ordered_events s)"
  using trust_steps_ok trust_init_ok unfolding trust_reachable_def by blast+

section \<open>Consumptions are written once\<close>

definition consumed :: "string \<Rightarrow> ActionConsumption \<Rightarrow> sys \<Rightarrow> bool" where
  "consumed aid c s \<longleftrightarrow> dict_get (action_consumptions s) aid = Some c"

lemma consumed_cong: "action_consumptions s' = action_consumptions s \<Longrightarrow> consumed aid c s' = consumed aid c s"
  by (simp add: consumed_def)

lemma consumed_frame [simp]:
  "consumed aid c (persist s) = consumed aid c s" "consumed aid c (drawn s) = consumed aid c s"
  "consumed aid c (record_trust_event E ty ety eid a co p s) = consumed aid c s"
  "consumed aid c (put_attestation x1 s) = consumed aid c s" "consumed aid c (put_action x2 s) = consumed aid c s"
  "consumed aid c (put_decision x3 s) = consumed aid c s"
  "consumed aid c (put_authorization x4 s) = consumed aid c s"
  "consumed aid c (put_lease x5 s) = consumed aid c s" "consumed aid c (put_run x6 s) = consumed aid c s"
  "consumed aid c (put_step x7 s) = consumed aid c s" "consumed aid c (put_grant x8 s) = consumed aid c s"
  "consumed aid c (append_event E r ety' ar s) = consumed aid c s"
  "consumed aid c (revoke_grants k s) = consumed aid c s"
  by (rule consumed_cong; simp add: append_event_def revoke_grants_def)+

lemma refresh_consumed [simp]:
  "consumed aid c (snd (refresh_lease_status E q s)) = consumed aid c s"
  "consumed aid c (snd (refreshed_lease E a s)) = consumed aid c s"
  by (simp_all add: refresh_lease_status_eq refreshed_lease_def split_beta split: option.split)

lemma put_consumption_consumed:
  assumes "consumed aid c s" "dict_get (action_consumptions s) k = None"
    "action_consumptions s' = action_consumptions s"
  shows "consumed aid c (put_consumption k d s')"
  using assms by (auto simp: consumed_def)

lemma trust_step_consumed:
  assumes "trust_step E s s'" "consumed aid c s"
  shows "consumed aid c s'"
  using assms(1)
proof cases
  case other
  then show ?thesis using assms(2) consumed_cong by blast
next
  case (attest payload user x)
  have "outcome_ok (consumed aid c) (\<lambda>_. consumed aid c) (record_reviewer_attestation E payload user s)"
    using assms(2) by (simp add: record_reviewer_attestation_def Let_def wp split: option.split)
  from outcome_snd [OF this attest(2)] show ?thesis .
next
  case (issue request user y)
  have "outcome_ok (consumed aid c) (\<lambda>_. consumed aid c) (issue_capability_lease E request user s)"
    using assms(2)
    by (simp add: issue_capability_lease_def store_new_lease_def Let_def wp split: option.split)
  from outcome_snd [OF this issue(3)] show ?thesis .
next
  case (refresh lid q q')
  then show ?thesis using assms(2) refresh_consumed(1) [of aid c E q s] by simp
next
  case (revoke lid q user reason y)
  have "outcome_ok (consumed aid c) (\<lambda>_. consumed aid c) (revoke_capability_lease E q user reason s)"
    using assms(2) by (simp add: revoke_capability_lease_def split_beta Let_def wp)
  from outcome_snd [OF this revoke(3)] show ?thesis .
next
  case (evaluate action actor d)
  have "consumed aid c (snd (evaluate_gateway_action E action actor s))"
    using assms(2)
    by (simp add: evaluate_gateway_action_def split_beta Let_def record_decision_def receive_action_def)
  then show ?thesis using evaluate(2) by simp
next
  case (consume k d actor z)
  have "outcome_ok (consumed aid c) (\<lambda>_. consumed aid c) (consume_effective_action E k d actor s)"
    using assms(2) consumed_def
    by (auto simp: consume_effective_action_def charge_action_def split_beta Let_def wp split: option.split)
  from outcome_snd [OF this consume(2)] show ?thesis .
next
  case (grant gpayload user g)
  have "outcome_ok (consumed aid c) (\<lambda>_. consumed aid c) (issue_credential_grant E gpayload user s)"
    using assms(2) by (simp add: issue_credential_grant_def split_beta Let_def wp split: option.split)
  from outcome_snd [OF this grant(2)] show ?thesis .
next
  case (revoke_grant gid user reason g')
  have "outcome_ok (consumed aid c) (\<lambda>_. consumed aid c) (revoke_credential_grant E gid user reason s)"
    using assms(2) by (simp add: revoke_credential_grant_def Let_def wp split: option.split)
  from outcome_snd [OF this revoke_grant(2)] show ?thesis .
next
  case (decide k decision user au)
  have "outcome_ok (consumed aid c) (\<lambda>_. consumed aid c) (record_action_authorization E k decision user s)"
    using assms(2)
    by (simp add: record_action_authorization_def replay_authorization_def store_authorization_def
      apply_durable_run_decision_def decision_event_def Let_def wp split_beta split: option.split)
  from outcome_snd [OF this decide(2)] show ?thesis .
qed

end
