(* ===== verification/TrustProperties.thy ===== *)
theory TrustProperties
  imports TrustMission Samples
begin

text \<open>
  The properties of the trust plane: the policy decision and its contract, the flight recorder,
  leases and their budgets, credentials, and human decisions. Each is a few steps over the lemmas
  of the components, and is applied to a concrete lease in its witness.
\<close>

section \<open>Sample lease\<close>

definition sample_scope :: CapabilityScope where
  "sample_scope = \<lparr>scope_repository = ''o/r'', scope_branch = ''feature/x'',
     scope_allowed_actions = [CapabilityActionType.CREATE_BRANCH, CapabilityActionType.MODIFY_FILES],
     scope_allowed_path_prefixes = [''src/a.py''], scope_allowed_commands = [''pytest''],
     scope_allowed_network_domains = [], scope_max_runtime_seconds = 900, scope_max_cost_usd = 5,
     scope_max_retries = 3, scope_max_pull_requests = 1, scope_allow_auto_merge = False,
     scope_metadata = []\<rparr>"

definition sample_lease_create :: "CapabilityLeaseMode \<Rightarrow> CapabilityLeaseCreate" where
  "sample_lease_create mode = \<lparr>lc_approval_request_id = ''appr1'', lc_agent_id = None,
     lc_provider = AgentProvider.CODEX, lc_mode = mode, lc_scope = sample_scope,
     lc_expires_in_seconds = 900, lc_required_reviewer_count = 1, lc_prevent_self_approval = True\<rparr>"

definition sample_user :: AuthUser where
  "sample_user = \<lparr>user_id = ''u1'', user_email = ''u@x'', user_display_name = ''U'',
     user_role = OWNER, user_email_verified = True\<rparr>"

definition sample_lease :: CapabilityLease where
  "sample_lease = new_lease sample_env (sample_lease_create BOUNDED) sample_approval sample_user sample_sys"

definition sample_action :: ProposedAction where
  "sample_action = \<lparr>act_id = ''a1'', act_lease_id = Some (lease_id sample_lease),
     act_provider = AgentProvider.CODEX, act_agent_id = None, act_run_id = None, act_task_id = None,
     act_project_id = None, act_action_type = CapabilityActionType.CREATE_BRANCH,
     act_repository = Some ''o/r'', act_branch = Some ''feature/x'', act_paths = [],
     act_command = None, act_network_domains = [], act_estimated_runtime_seconds = 10,
     act_estimated_cost_usd = 0, act_retry_number = 0, act_metadata = [], act_created_at = 0\<rparr>"

lemma sample_within: "within_lease sample_env 1000000 sample_action sample_lease"
  by (simp add: within_lease_def binds_subject_def targets_scope_def content_covered_def within_budget_def
      sample_lease_def new_lease_def Let_def sample_action_def sample_lease_create_def sample_scope_def
      fingerprinted_scope_def lease_receipt_payload_def seconds_us_def PROTECTED_BRANCHES_def
      py_lower_def json_or_str_def)

text \<open>The sample lease is what issuing returns, and its state is reachable.\<close>

definition sample_lease_sys :: sys where
  "sample_lease_sys =
     snd (issue_capability_lease sample_env (sample_lease_create BOUNDED) sample_user sample_sys)"

lemma sample_sys_tables:
  "dict_get (approval_requests sample_sys) ''appr1'' = Some sample_approval"
  "external_agents sample_sys = []" "reviewer_attestations sample_sys = []"
  "capability_leases sample_sys = []" "proposed_actions sample_sys = []"
  "credential_grants sample_sys = []" "trust_events sample_sys = []"
  "policy_decisions sample_sys = []" "action_consumptions sample_sys = []"
  "agent_tasks sample_sys = [(''task1'', sample_task)]"
  "approval_requests sample_sys = [(''appr1'', sample_approval)]"
  by (simp_all add: sample_sys_def sys_of_def store.defs sample_store_def empty_store_def)

text \<open>Whatever its metadata, a request for the sample scope passes every check.\<close>

lemma sample_issue_stores:
  "issue_capability_lease sample_env
     ((sample_lease_create BOUNDED)\<lparr>lc_scope := sample_scope\<lparr>scope_metadata := md\<rparr>\<rparr>) sample_user sample_sys =
   store_new_lease sample_env
     ((sample_lease_create BOUNDED)\<lparr>lc_scope := sample_scope\<lparr>scope_metadata := md\<rparr>\<rparr>) sample_approval
     sample_user sample_sys"
proof -
  note f = sample_sys_tables
  have o: "outside_paths sample_scope sample_approval = []" "outside_commands sample_scope sample_approval = []"
    by code_simp+
  then have o': "outside_paths (sample_scope\<lparr>scope_metadata := md\<rparr>) sample_approval = []"
    "outside_commands (sample_scope\<lparr>scope_metadata := md\<rparr>) sample_approval = []"
    by (simp_all add: outside_paths_def outside_commands_def)
  have v: "validate_scope_against_approval (sample_scope\<lparr>scope_metadata := md\<rparr>) sample_approval sample_sys = Inr ()"
    by (simp add: validate_scope_against_approval_def linked_task_for_approval_def f o' dict_vals_def)
      (simp add: sample_scope_def sample_approval_def sample_task_def)
  have r: "approval_reviewer_ids sample_approval ''h'' sample_sys = [''u1'']"
    by (simp add: approval_reviewer_ids_def f sample_approval_def dict_vals_def)
  have a: "appr_id sample_approval = ''appr1''" "appr_status sample_approval = ApprovalStatus.APPROVED"
    "appr_approved_payload_hash sample_approval = Some ''h''"
    "appr_created_by_user_id sample_approval = Some ''author''" by (simp_all add: sample_approval_def)
  show ?thesis
    using v r by (simp add: issue_capability_lease_def f a sample_lease_create_def has_denial_def
        active_lease_for_def liftE_def Let_def dict_vals_def)
qed

lemma sample_issue:
  "issue_capability_lease sample_env (sample_lease_create BOUNDED) sample_user sample_sys =
     (Inr sample_lease, sample_lease_sys)"
  "capability_leases sample_lease_sys = [(lease_id sample_lease, sample_lease)]"
  "clock sample_lease_sys = 1000000" "proposed_actions sample_lease_sys = []"
  "draws sample_lease_sys = 3" "credential_grants sample_lease_sys = []"
  "map fst (trust_events sample_lease_sys) = [''trust_event_2'']"
  "lease_id sample_lease = ''lease_1''"
  "policy_decisions sample_lease_sys = []" "action_consumptions sample_lease_sys = []"
  "agent_tasks sample_lease_sys = [(''task1'', sample_task)]"
  "approval_requests sample_lease_sys = [(''appr1'', sample_approval)]"
proof -
  have u: "uuid_hex12 sample_env 2 = ''2''" "uuid_hex12 sample_env (Suc (Suc 0)) = ''2''"
    "uuid_hex12 sample_env (Suc 0) = ''1''" by code_simp+
  note f = sample_sys_tables
  have "(sample_lease_create BOUNDED)\<lparr>lc_scope := sample_scope\<lparr>scope_metadata := []\<rparr>\<rparr> = sample_lease_create BOUNDED"
    by (simp add: sample_lease_create_def sample_scope_def)
  with sample_issue_stores [of "[]"] have s: "issue_capability_lease sample_env (sample_lease_create BOUNDED) sample_user sample_sys =
      store_new_lease sample_env (sample_lease_create BOUNDED) sample_approval sample_user sample_sys"
    by simp
  have n: "store_new_lease sample_env (sample_lease_create BOUNDED) sample_approval sample_user sample_sys =
      (Inr sample_lease, persist (record_trust_event sample_env LEASE_ISSUED ''capability_lease''
        (lease_id sample_lease) (user_email sample_user) None (lease_issued_event sample_lease)
        (put_lease sample_lease (drawn (drawn sample_sys)))))"
    by (simp add: store_new_lease_def Let_def liftE_def ret_def metadata_correlation_def sample_lease_def
        fingerprinted_scope_def sample_lease_create_def sample_scope_def)
  show "issue_capability_lease sample_env (sample_lease_create BOUNDED) sample_user sample_sys =
      (Inr sample_lease, sample_lease_sys)" 
    "capability_leases sample_lease_sys = [(lease_id sample_lease, sample_lease)]"
    "clock sample_lease_sys = 1000000" "proposed_actions sample_lease_sys = []"
    "draws sample_lease_sys = 3" "credential_grants sample_lease_sys = []"
    "map fst (trust_events sample_lease_sys) = [''trust_event_2'']"
    "lease_id sample_lease = ''lease_1''"
    "policy_decisions sample_lease_sys = []" "action_consumptions sample_lease_sys = []"
    "agent_tasks sample_lease_sys = [(''task1'', sample_task)]"
    "approval_requests sample_lease_sys = [(''appr1'', sample_approval)]"
    by (simp_all add: sample_lease_sys_def s n f u record_trust_event_eq new_id_def sample_lease_def)
qed

lemma sample_reachable: "trust_reachable sample_env sample_lease_sys"
proof -
  have e: "capability_leases sample_sys = []" "credential_grants sample_sys = []"
    "action_consumptions sample_sys = []" "trust_events sample_sys = []"
    by (simp_all add: sample_sys_def sys_of_def store.defs sample_store_def empty_store_def)
  have u: "[draws sample_sys..<draws sample_sys + 4] = [0, 1, 2, 3]" by (simp add: upt_rec)
  have "distinct (map (uuid_hex12 sample_env) [0, 1, 2, 3])" by code_simp
  then have "fresh_draws sample_env sample_sys"
    unfolding fresh_draws_def fresh_trust_def u by (simp add: e)
  moreover have "scope_bounds (lc_scope (sample_lease_create BOUNDED)) = []"
    by (simp add: scope_bounds_def sample_lease_create_def sample_scope_def)
  ultimately have "trust_step sample_env sample_sys sample_lease_sys"
    using sample_issue(1) by (rule trust_step.issue)
  moreover have "trust_init sample_sys" by (simp add: trust_init_def e)
  ultimately show ?thesis unfolding trust_reachable_def by blast
qed

section \<open>The policy\<close>

text \<open>
  C4. The policy decides as its contract says: without a lease a high-risk action is blocked and
  any other needs approval; with a lease the action is blocked unless it is within the signed,
  live, budgeted scope, needs approval in strict mode and for high-risk actions in supervised
  mode, and is allowed otherwise.
\<close>

theorem policy_decides_by_contract:
  "dec_decision (evaluate_proposed_action E action lease s) =
     (case lease of
        None \<Rightarrow> if act_action_type action \<in> set HIGH_RISK_ACTIONS then PolicyDecisionType.BLOCK
                else PolicyDecisionType.REQUIRE_APPROVAL
      | Some l \<Rightarrow> policy_verdict E (clock s) action l)"
  by (cases lease) (simp_all add: evaluate_with_lease, simp add: evaluate_proposed_action_def)

text \<open>
  C14. The string test on paths is confinement: a path is accepted exactly when it is relative,
  does not climb, has no sensitive component, and lies at or below an approved prefix, component
  by component.
\<close>

theorem path_allowed_is_confinement:
  "path_allowed path prefixes \<longleftrightarrow> path_within path prefixes"
  by (rule path_allowed_iff)

section \<open>The flight recorder\<close>




definition sample_event :: TrustEvent where
  "sample_event = new_trust_event sample_env LEASE_ISSUED ''lease'' ''l1'' ''actor'' None [] sample_sys"

definition rewritten_event :: TrustEvent where
  "rewritten_event = sample_event\<lparr>tev_actor := ''other''\<rparr>"

definition two_events :: sys where
  "two_events = record_trust_event sample_env LEASE_REVOKED ''lease'' ''l1'' ''actor'' None []
     (record_trust_event sample_env LEASE_ISSUED ''lease'' ''l1'' ''actor'' None [] sample_sys)"

definition event_text :: "string \<Rightarrow> json" where
  "event_text actor = JObj
     [(''sequence'', JInt 1), (''event_type'', JStr ''LEASE_ISSUED''), (''entity_type'', JStr ''lease''),
      (''entity_id'', JStr ''l1''), (''actor'', JStr actor), (''correlation_id'', JNull),
      (''payload'', JObj []), (''previous_hash'', JNull), (''created_at'', JTime 1000000)]"
lemma event_text_canonical:
  "\<exists>rest. canonical_json E (event_text actor) =
     ''{'' @ json_quote ''actor'' @ '':'' @ json_quote actor @ rest"
proof -
  have s: "sort_key fst [(''sequence'', a1), (''event_type'', a2), (''entity_type'', a3), (''entity_id'', a4),
     (''actor'', a5), (''correlation_id'', a6), (''payload'', a7), (''previous_hash'', a8), (''created_at'', a9)] =
     [(''actor'', a5), (''correlation_id'', a6), (''created_at'', a9), (''entity_id'', a4), (''entity_type'', a3),
      (''event_type'', a2), (''payload'', a7), (''previous_hash'', a8), (''sequence'', a1)]"
    for a1 a2 a3 a4 a5 a6 a7 a8 a9 :: string by simp
  show ?thesis
    unfolding event_text_def canonical_json.simps(5,8) list.map prod.case s py_join.simps append_assoc
    by blast
qed

lemma event_text_differs:
  "canonical_json E (event_text ''actor'') \<noteq> canonical_json E (event_text ''other'')"
proof -
  have q: "json_quote ''actor'' = CHR 0x22 # ''actor'' @ [CHR 0x22]" "json_quote ''other'' = CHR 0x22 # ''other'' @ [CHR 0x22]"
    by code_simp+
  obtain r r' where "canonical_json E (event_text ''actor'') = ''{'' @ json_quote ''actor'' @ '':'' @ json_quote ''actor'' @ r"
    "canonical_json E (event_text ''other'') = ''{'' @ json_quote ''actor'' @ '':'' @ json_quote ''other'' @ r'"
    using event_text_canonical by meson
  then show ?thesis unfolding q by simp
qed

section \<open>Leases\<close>


lemma sample_lease_stored: "sample_lease \<in> set (dict_vals (capability_leases sample_lease_sys))"
  "lease_live sample_lease 1000000"
  by (simp_all add: sample_issue dict_vals_def)
    (simp add: sample_lease_def lease_live_def sample_lease_create_def seconds_us_def)


text \<open>
  C11. No sequence of operations charges a lease beyond its budget: in every reachable state the
  runtime, cost, pull requests and retries consumed on a lease are within the maxima of its scope.
\<close>

theorem lease_budget_holds:
  assumes "trust_reachable E s" "l \<in> set (dict_vals (capability_leases s))"
  shows "lease_consumed_runtime_seconds l \<le> scope_max_runtime_seconds (lease_scope l) \<and>
    lease_consumed_cost_usd l \<le> scope_max_cost_usd (lease_scope l) \<and>
    lease_consumed_pull_requests l \<le> scope_max_pull_requests (lease_scope l) \<and>
    lease_consumed_retries l \<le> scope_max_retries (lease_scope l)"
  using trust_reachable_ok(1) [OF assms(1)] assms(2) by (auto simp: tinv_def charged_within_def)

lemma lease_budget_holds_witness:
  "lease_consumed_retries sample_lease \<le> scope_max_retries (lease_scope sample_lease)"
  using lease_budget_holds [OF sample_reachable sample_lease_stored(1)] by blast

text \<open>
  A lease that has expired or was revoked stays so and keeps its approved terms (approval,
  payload hash, agent, scope, lifetime, receipt), whatever operations follow.
\<close>

theorem ended_lease_stays_ended:
  assumes "trust_reachable E s" "(trust_step E)\<^sup>*\<^sup>* s s'" "dict_get (capability_leases s) lid = Some l"
    "lease_status l \<noteq> CapabilityLeaseStatus.ACTIVE"
  shows "\<exists>l'. dict_get (capability_leases s') lid = Some l' \<and> lease_status l' = lease_status l \<and>
    lease_terms l' = lease_terms l"
proof -
  note I = trust_reachable_ok(1) [OF assms(1)]
  have "lease_id l = lid" using tinv_lease(1) [OF I assms(3)] .
  with assms(3) have "holds l s" by (simp add: holds_def)
  from trust_steps_holds [OF assms(2) I this] assms(4) \<open>lease_id l = lid\<close> show ?thesis by (auto simp: holds_def)
qed

definition approved_scope :: "CapabilityScope \<Rightarrow> ApprovalRequest \<Rightarrow> AgentTask \<Rightarrow> bool" where
  "approved_scope scope approval task \<longleftrightarrow>
     task_repository task = Some (scope_repository scope) \<and>
     appr_target_branch approval = scope_branch scope \<and>
     task_branch_preference task = Some (scope_branch scope) \<and>
     (\<forall>p \<in> set (scope_allowed_path_prefixes scope).
        \<exists>f \<in> set (appr_files approval). py_rstrip_char (CHR ''/'') (norm_path p) = norm_path (fc_path f)) \<and>
     (\<forall>c \<in> set (scope_allowed_commands scope).
        \<exists>d \<in> set (appr_test_plan approval). py_strip c = py_strip d \<and> py_strip c \<noteq> []) \<and>
     \<not> scope_allow_auto_merge scope"

lemma validate_scope_approved:
  "validate_scope_against_approval scope approval s = Inr () \<Longrightarrow>
     \<exists>task. linked_task_for_approval (appr_id approval) s = Some task \<and> approved_scope scope approval task"
  by (auto simp: validate_scope_against_approval_def approved_scope_def outside_paths_def outside_commands_def
      sort_Nil_iff filter_empty_conv split: option.splits if_splits)



text \<open>The sample lease, revoked: a reachable state for the next witnesses.\<close>

definition sample_revoked_sys :: sys where
  "sample_revoked_sys =
     snd (revoke_capability_lease sample_env sample_lease sample_user ''done'' sample_lease_sys)"

lemma sample_lease_get: "dict_get (capability_leases sample_lease_sys) (lease_id sample_lease) = Some sample_lease"
  by (simp add: sample_issue)

lemma sample_refresh: "refresh_lease_status sample_env sample_lease sample_lease_sys = (sample_lease, sample_lease_sys)"
  using sample_lease_stored(2)
  by (simp add: refresh_lease_status_def sample_issue lease_live_def not_le [symmetric])

lemma sample_revoked:
  "revoke_capability_lease sample_env sample_lease sample_user ''done'' sample_lease_sys =
     (Inr (mark_revoked 1000000 ''u1'' ''done'' sample_lease), sample_revoked_sys)"
  "dict_get (capability_leases sample_revoked_sys) (lease_id sample_lease) =
     Some (mark_revoked 1000000 ''u1'' ''done'' sample_lease)"
  using sample_lease_stored(2)
  by (simp_all add: sample_revoked_sys_def revoke_capability_lease_def sample_refresh Let_def ret_def
      lease_live_def sample_issue sample_user_def)

lemma sample_fresh: "fresh_draws sample_env sample_lease_sys"
proof -
  have u: "[draws sample_lease_sys..<draws sample_lease_sys + 4] = [3, 4, 5, 6]"
    by (simp add: sample_issue upt_rec)
  have d: "uuid_hex12 sample_env 3 = ''3''" "uuid_hex12 sample_env 4 = ''4''"
    "uuid_hex12 sample_env 5 = ''5''" "uuid_hex12 sample_env 6 = ''6''" by code_simp+
  have t: "dict_get (trust_events sample_lease_sys) k = None" if "k \<noteq> ''trust_event_2''" for k
    using that sample_issue(7) by (auto simp: dict_get_None_iff)
  show ?thesis
    unfolding fresh_draws_def fresh_trust_def u by (simp add: d t sample_issue)
qed

lemma sample_revoke_step: "trust_step sample_env sample_lease_sys sample_revoked_sys"
  by (rule trust_step.revoke [OF sample_fresh sample_lease_get sample_revoked(1)])

lemma sample_revoked_reachable: "trust_reachable sample_env sample_revoked_sys"
  using sample_reachable sample_revoke_step unfolding trust_reachable_def
  by (meson rtranclp.rtrancl_into_rtrancl)

lemma ended_lease_stays_ended_witness:
  "\<exists>l'. dict_get (capability_leases sample_revoked_sys) ''lease_1'' = Some l' \<and>
     lease_status l' = CapabilityLeaseStatus.REVOKED"
  using ended_lease_stays_ended [OF sample_revoked_reachable rtranclp.rtrancl_refl sample_revoked(2)]
  unfolding sample_issue(8) mark_revoked_simps(2) by blast

section \<open>Credentials\<close>

text \<open>
  Introspection answers active exactly for a token whose grant is usable: not revoked, not
  expired, under a live lease, for the audience asked about and with every scope asked for.
\<close>

theorem credential_active_iff_usable:
  "cirr_active (introspect_credential E q s) \<longleftrightarrow>
     (\<exists>g. grant_of_token E (cir_bearer_token q) s = Some g \<and> credential_usable q g s)"
  by (rule introspect_active_iff)

lemma revoked_not_active:
  assumes "tinv s" "dict_get (capability_leases s) lid = Some l"
    "revoke_capability_lease E l user reason s = (Inr l', s')"
  shows "\<exists>q. dict_get (capability_leases s') lid = Some q \<and> lease_status q \<noteq> CapabilityLeaseStatus.ACTIVE"
proof -
  have "lease_id l = lid" using tinv_lease(1) [OF assms(1,2)] .
  then show ?thesis
    using assms(2,3) by (auto simp: revoke_capability_lease_def split_beta Let_def ret_def raise_def
        refreshed_def expiring_def split: if_splits)
qed

text \<open>
  C7. Revoking a lease ends its credentials for good: after a successful revocation, and whatever
  operations follow, no token of a grant under the lease is ever reported active again.
\<close>

theorem revocation_ends_credentials:
  assumes "trust_reachable E s" "dict_get (capability_leases s) lid = Some l"
    "revoke_capability_lease E l user reason s = (Inr l', s')" "(trust_step E)\<^sup>*\<^sup>* s' s''"
    "grant_of_token E (cir_bearer_token q) s'' = Some g" "grant_lease_id g = lid"
  shows "\<not> cirr_active (introspect_credential E q s'')"
proof -
  note I = trust_reachable_ok(1) [OF assms(1)]
  have "dict_get (capability_leases s) (lease_id l) = Some l" using tinv_lease(1) [OF I assms(2)] assms(2) by simp
  from outcome_snd [OF revoke_tinv [OF I this] assms(3)] have I': "tinv s'" .
  obtain r where r: "dict_get (capability_leases s') lid = Some r" "lease_status r \<noteq> CapabilityLeaseStatus.ACTIVE"
    using revoked_not_active [OF I assms(2,3)] by blast
  have "lease_id r = lid" using tinv_lease(1) [OF I' r(1)] .
  then have "holds r s''" using r(1) by (intro trust_steps_holds [OF assms(4) I']) (simp add: holds_def)
  then show ?thesis
    using r(2) \<open>lease_id r = lid\<close> assms(5,6)
    by (auto simp: introspect_active_iff credential_usable_def holds_def lease_live_def)
qed

text \<open>A grant under the sample lease, and the state after the lease is revoked.\<close>

definition sample_grant_create :: CredentialGrantCreate where
  "sample_grant_create = \<lparr>gc_lease_id = ''lease_1'', gc_grant_type = INTERNAL_CAPABILITY_TOKEN,
     gc_audience = ''api'', gc_subject = ''agent'', gc_scope = [''read''], gc_expires_in_seconds = 60\<rparr>"

definition sample_grant :: CredentialGrant where
  "sample_grant = new_grant sample_env sample_grant_create sample_lease sample_user sample_lease_sys"

definition sample_granted_sys :: sys where
  "sample_granted_sys = snd (issue_credential_grant sample_env sample_grant_create sample_user sample_lease_sys)"

definition sample_withdrawn_sys :: sys where
  "sample_withdrawn_sys =
     snd (revoke_capability_lease sample_env sample_lease sample_user ''done'' sample_granted_sys)"

lemma sample_granted:
  "issue_credential_grant sample_env sample_grant_create sample_user sample_lease_sys =
     (Inr (sample_grant, token_urlsafe sample_env 3), sample_granted_sys)"
  "capability_leases sample_granted_sys = [(''lease_1'', sample_lease)]" "clock sample_granted_sys = 1000000"
  "credential_grants sample_granted_sys = [(grant_id sample_grant, sample_grant)]"
proof -
  have l: "lease_status sample_lease = CapabilityLeaseStatus.ACTIVE"
    "lease_expires_at sample_lease = 901000000"
    by (simp_all add: sample_lease_def sample_lease_create_def seconds_us_def)
  show "issue_credential_grant sample_env sample_grant_create sample_user sample_lease_sys =
     (Inr (sample_grant, token_urlsafe sample_env 3), sample_granted_sys)"
    "capability_leases sample_granted_sys = [(''lease_1'', sample_lease)]" "clock sample_granted_sys = 1000000"
    "credential_grants sample_granted_sys = [(grant_id sample_grant, sample_grant)]"
    using sample_lease_get
    by (simp_all add: sample_granted_sys_def issue_credential_grant_def sample_grant_create_def sample_refresh
        sample_issue l Let_def ret_def issue_bearer_token_def sample_grant_def)
qed

lemma sample_granted_reachable: "trust_reachable sample_env sample_granted_sys"
  using sample_reachable trust_step.grant [OF sample_fresh sample_granted(1)] unfolding trust_reachable_def
  by (meson rtranclp.rtrancl_into_rtrancl)

lemma sample_withdrawn:
  "revoke_capability_lease sample_env sample_lease sample_user ''done'' sample_granted_sys =
     (Inr (mark_revoked 1000000 ''u1'' ''done'' sample_lease), sample_withdrawn_sys)"
  "credential_grants sample_withdrawn_sys =
     [(grant_id sample_grant, revoke_grant ''lease_1'' 1000000 sample_grant)]"
  using sample_lease_stored(2)
  by (simp_all add: sample_withdrawn_sys_def revoke_capability_lease_def refresh_lease_status_def
      sample_granted sample_issue(8) Let_def ret_def lease_live_def sample_user_def not_le [symmetric])

definition sample_query :: CredentialIntrospectionRequest where
  "sample_query = \<lparr>cir_bearer_token = token_urlsafe sample_env 3, cir_audience = ''api'',
     cir_required_scope = [''read'']\<rparr>"

lemma sample_grant_simps [simp]:
  "grant_token_hash sample_grant = sha256 sample_env (token_urlsafe sample_env 3)"
  "grant_lease_id sample_grant = ''lease_1''"
  by (simp_all add: sample_grant_def new_grant_def issue_bearer_token_def Let_def sample_issue(5,8))

lemma sample_query_grant:
  "grant_of_token sample_env (cir_bearer_token sample_query) sample_withdrawn_sys =
     Some (revoke_grant ''lease_1'' 1000000 sample_grant)"
  by (simp add: grant_of_token_def sample_withdrawn(2) dict_vals_def verify_bearer_token_def sample_query_def)

lemma revocation_ends_credentials_witness:
  "\<not> cirr_active (introspect_credential sample_env sample_query sample_withdrawn_sys)"
proof -
  have "dict_get (capability_leases sample_granted_sys) ''lease_1'' = Some sample_lease"
    by (simp add: sample_granted)
  moreover have "grant_lease_id (revoke_grant ''lease_1'' 1000000 sample_grant) = ''lease_1''"
    by simp
  ultimately show ?thesis
    by (rule revocation_ends_credentials [OF sample_granted_reachable _ sample_withdrawn(1)
        rtranclp.rtrancl_refl sample_query_grant])
qed

section \<open>Human decisions and consumption\<close>

text \<open>
  An action whose decision in force is BLOCK cannot be released: neither a human decision nor
  a consumption succeeds, and the state is left as it was.
\<close>

theorem block_is_not_overridden:
  assumes "latest_policy_decision aid s = Some d" "dec_decision d = PolicyDecisionType.BLOCK"
    "dict_get (proposed_actions s) aid = Some a" "act_id a = aid"
  shows "\<exists>e e'. record_action_authorization E aid payload user s = (Inl e, s) \<and>
    consume_effective_action E aid c actor s = (Inl e', s)"
  using assms by (simp add: record_action_authorization_def consume_effective_action_def
      verify_effective_allow_def liftE_def raise_def)

definition sample_decision :: "PolicyDecisionType \<Rightarrow> PolicyDecision" where
  "sample_decision d = \<lparr>dec_id = ''d1'', dec_proposed_action_id = ''a1'', dec_lease_id = Some ''lease_1'',
     dec_decision = d, dec_risk_level = RiskLevel.LOW, dec_reasons = [], dec_obligations = [],
     dec_evaluated_policy_version = POLICY_VERSION, dec_evaluated_at = 0\<rparr>"

definition sample_decided_sys :: "PolicyDecisionType \<Rightarrow> sys" where
  "sample_decided_sys d = put_decision (sample_decision d) (put_action sample_action sample_lease_sys)"

lemma sample_decided:
  "latest_policy_decision ''a1'' (sample_decided_sys d) = Some (sample_decision d)"
  "dict_get (proposed_actions (sample_decided_sys d)) ''a1'' = Some sample_action"
  "act_id sample_action = ''a1''" "dec_decision (sample_decision d) = d"
  "action_consumptions (sample_decided_sys d) = []" "clock (sample_decided_sys d) = 1000000"
  "lease_of_action sample_action (sample_decided_sys d) = Some sample_lease"
proof -
  have e: "policy_decisions sample_lease_sys = []" "action_consumptions sample_lease_sys = []"
    by (simp_all add: sample_issue(9,10))
  show "act_id sample_action = ''a1''" "dec_decision (sample_decision d) = d"
    by (simp_all add: sample_action_def sample_decision_def)
  then show "dict_get (proposed_actions (sample_decided_sys d)) ''a1'' = Some sample_action"
    by (simp add: sample_decided_sys_def sample_issue(4))
  show "latest_policy_decision ''a1'' (sample_decided_sys d) = Some (sample_decision d)"
    by (simp add: sample_decided_sys_def latest_policy_decision_def e dict_vals_def)
      (simp add: sample_decision_def)
  show "action_consumptions (sample_decided_sys d) = []" "clock (sample_decided_sys d) = 1000000"
    by (simp_all add: sample_decided_sys_def e sample_issue)
  show "lease_of_action sample_action (sample_decided_sys d) = Some sample_lease"
    using sample_lease_get by (simp add: lease_of_action_def sample_decided_sys_def sample_action_def sample_issue(8))
qed

definition sample_consumption :: ActionConsumption where
  "sample_consumption = \<lparr>con_actual_runtime_seconds = 5, con_actual_cost_usd = 0,
     con_pull_requests_created = 0, con_retry_consumed = False, con_output_reference = None,
     con_evidence = []\<rparr>"

lemma block_is_not_overridden_witness:
  "\<exists>e e'. record_action_authorization sample_env ''a1''
        \<lparr>aac_decision = ActionAuthorizationDecision.ALLOW, aac_reason = ''please''\<rparr> sample_user
        (sample_decided_sys PolicyDecisionType.BLOCK) = (Inl e, sample_decided_sys PolicyDecisionType.BLOCK) \<and>
     consume_effective_action sample_env ''a1'' sample_consumption ''agent'' (sample_decided_sys PolicyDecisionType.BLOCK) =
       (Inl e', sample_decided_sys PolicyDecisionType.BLOCK)"
  by (rule block_is_not_overridden [OF sample_decided(1) sample_decided(4) sample_decided(2,3)])

text \<open>
  C13. A first consumption is charged only on an effective ALLOW: the decision in force allows the
  action, a decision made by a person is backed by a signed authorization of this exact payload,
  the lease is live, and the charge stays within its budget and is recorded.
\<close>

theorem consumption_is_authorized:
  assumes "consume_effective_action E aid c actor s = (Inr c', s')"
    "dict_get (proposed_actions s) aid = Some a" "act_id a = aid"
    "dict_get (action_consumptions s) aid = None"
  shows "\<exists>d l. latest_policy_decision aid s = Some d \<and> dec_decision d = PolicyDecisionType.ALLOW \<and>
    (py_in ''+human-decision'' (dec_evaluated_policy_version d) \<longrightarrow>
      (\<exists>au. authorization_of aid s = Some au \<and> auth_decision au = ActionAuthorizationDecision.ALLOW \<and>
        verify_action_authorization E au a)) \<and>
    lease_of_action a s = Some l \<and> lease_live l (clock s) \<and> charged_within (charge_lease c (clock s) l) \<and>
    c' = c \<and> dict_get (action_consumptions s') aid = Some c"
proof -
  obtain d where d: "verify_effective_allow E a s = Inr d"
    using assms by (cases "verify_effective_allow E a s") (simp_all add: consume_effective_action_def liftE_def)
  note c = consume_effective_action_def liftE_def raise_def ret_def split_beta Let_def assms(2-4) d
  obtain l where l: "lease_of_action a s = Some l"
    using assms(1) by (cases "lease_of_action a s") (simp_all add: c)
  have live: "lease_live l (clock s)"
    using assms(1) l refreshed_active by (cases "lease_live l (clock s)") (simp_all add: c)
  have budget: "budget_conflict c (refreshed (clock s) l) = None"
    using assms(1) l live refreshed_active
    by (cases "budget_conflict c (refreshed (clock s) l)") (simp_all add: c)
  have "c' = c" "dict_get (action_consumptions s') aid = Some c"
    using assms(1) l live budget refreshed_active by (auto simp: c charge_action_def)
  note v = live budget this
  have "refreshed (clock s) l = l" using v(1) by (auto simp: refreshed_def expiring_def lease_live_def)
  then have "charged_within (charge_lease c (clock s) l)" using v(2) budget_conflict_None by auto
  moreover have "latest_policy_decision aid s = Some d \<and> dec_decision d = PolicyDecisionType.ALLOW \<and>
    (py_in ''+human-decision'' (dec_evaluated_policy_version d) \<longrightarrow>
      (\<exists>au. authorization_of aid s = Some au \<and> auth_decision au = ActionAuthorizationDecision.ALLOW \<and>
        verify_action_authorization E au a))"
    using d assms(3) by (auto simp: verify_effective_allow_def verify_human_allow_def
        split: option.splits if_splits sum.splits)
  ultimately show ?thesis using l v by blast
qed

definition sample_consumed_sys :: sys where
  "sample_consumed_sys = snd (consume_effective_action sample_env ''a1'' sample_consumption ''agent''
     (sample_decided_sys PolicyDecisionType.ALLOW))"

lemma sample_consumed:
  "consume_effective_action sample_env ''a1'' sample_consumption ''agent'' (sample_decided_sys PolicyDecisionType.ALLOW) =
     (Inr sample_consumption, sample_consumed_sys)"
  "dict_get (action_consumptions sample_consumed_sys) ''a1'' = Some sample_consumption"
proof -
  let ?s = "sample_decided_sys PolicyDecisionType.ALLOW"
  have v: "verify_effective_allow sample_env sample_action ?s = Inr (sample_decision PolicyDecisionType.ALLOW)"
  proof -
    have "\<not> py_in ''+human-decision'' POLICY_VERSION" by code_simp
    then show ?thesis by (simp add: verify_effective_allow_def sample_decided, simp add: sample_decision_def)
  qed
  have r: "refresh_lease_status sample_env sample_lease ?s = (sample_lease, ?s)"
    using sample_lease_stored(2)
    by (simp add: refresh_lease_status_def sample_decided lease_live_def not_le [symmetric])
  have b: "budget_conflict sample_consumption sample_lease = None"
    by (simp add: budget_conflict_def sample_lease_def new_lease_def Let_def sample_lease_create_def
        sample_scope_def fingerprinted_scope_def sample_consumption_def)
  have "lease_status sample_lease = CapabilityLeaseStatus.ACTIVE" by (simp add: sample_lease_def)
  note c = consume_effective_action_def sample_decided v r b this
  show "consume_effective_action sample_env ''a1'' sample_consumption ''agent'' ?s =
      (Inr sample_consumption, sample_consumed_sys)"
    by (simp add: sample_consumed_sys_def c liftE_def ret_def)
  show "dict_get (action_consumptions sample_consumed_sys) ''a1'' = Some sample_consumption"
    by (simp add: sample_consumed_sys_def c liftE_def ret_def charge_action_def)
qed

lemma consumption_is_authorized_witness:
  "\<exists>l. lease_of_action sample_action (sample_decided_sys PolicyDecisionType.ALLOW) = Some l \<and>
     charged_within (charge_lease sample_consumption 1000000 l)"
  using consumption_is_authorized [OF sample_consumed(1) sample_decided(2,3)] sample_decided(5,6) by auto

text \<open>
  A consumption is recorded once: no sequence of operations of the trust plane changes or
  removes it.
\<close>

theorem consumption_is_immutable:
  assumes "(trust_step E)\<^sup>*\<^sup>* s s'" "dict_get (action_consumptions s) aid = Some c"
  shows "dict_get (action_consumptions s') aid = Some c"
proof -
  have "consumed aid c s'"
    using assms(1)
  proof (induction rule: rtranclp_induct)
    case base
    show ?case using assms(2) by (simp add: consumed_def)
  qed (rule trust_step_consumed)
  then show ?thesis by (simp add: consumed_def)
qed

lemma consumption_is_immutable_witness:
  "dict_get (action_consumptions (sample_consumed_sys\<lparr>clock := clock sample_consumed_sys + 1\<rparr>)) ''a1'' =
     Some sample_consumption"
proof (rule consumption_is_immutable [OF r_into_rtranclp sample_consumed(2)])
  show "trust_step sample_env sample_consumed_sys (sample_consumed_sys\<lparr>clock := clock sample_consumed_sys + 1\<rparr>)"
    by (rule trust_step.other) simp_all
qed

end
