(* ===== verification/Settings.thy ===== *)
theory Settings
  imports TrustCrypto PyLib
begin

text \<open>
  \<open>settings.py\<close>: the settings are read from the environment of the process, with defaults by profile,
  and a production profile refuses to start on an unsafe combination.
\<close>

type_synonym environ = "(string, string) dict"

record Settings =
  cfg_profile :: string
  cfg_auth_enabled :: bool
  cfg_db_path :: string
  cfg_trust_enforcement :: bool
  cfg_github_token_configured :: bool
  cfg_github_app_configured :: bool
  cfg_fcm_server_key_configured :: bool
  cfg_lease_signing_key_configured :: bool
  cfg_public_base_url :: "string option"
  cfg_allow_unauthenticated_external_agent_demo :: bool
  cfg_validation_errors :: "string list"

definition VALID_PROFILES :: "string list" where
  "VALID_PROFILES = [''local'', ''demo'', ''test'', ''production'']"

definition REQUIRED_PRODUCTION_ENV_VARS :: "string list" where
  "REQUIRED_PRODUCTION_ENV_VARS = [''AIXION_DB_PATH'', ''AIXION_LEASE_SIGNING_KEY'', ''FCM_SERVER_KEY'']"

definition UNSAFE_PRODUCTION_DB_NAMES :: "string list" where
  "UNSAFE_PRODUCTION_DB_NAMES = [''aixion_control_tower_demo.sqlite3'', ''aixion_control_tower_test.sqlite3'']"

text \<open>The defaults of a profile: authentication, trust enforcement and the database.\<close>

definition PROFILE_DEFAULTS :: "(string, string \<times> string \<times> string) dict" where
  "PROFILE_DEFAULTS =
     [(''local'', ''true'', ''false'', ''runtime/aixion_control_tower.sqlite3''),
      (''demo'', ''false'', ''false'', ''runtime/aixion_control_tower_demo.sqlite3''),
      (''test'', ''false'', ''false'', ''runtime/aixion_control_tower_test.sqlite3''),
      (''production'', ''true'', ''true'', ''runtime/aixion_control_tower.sqlite3'')]"

definition is_production :: "Settings \<Rightarrow> bool" where
  "is_production c \<longleftrightarrow> cfg_profile c = ''production''"

definition parse_bool :: "string \<Rightarrow> string \<Rightarrow> pyerror + bool" where
  "parse_bool value field_name =
     (let normalized = py_lower (py_strip value) in
      if normalized \<in> set [''1'', ''true'', ''yes'', ''y'', ''on''] then Inr True
      else if normalized \<in> set [''0'', ''false'', ''no'', ''n'', ''off''] then Inr False
      else Inl (ValueError (field_name @ '' must be a boolean value, got '' @ str_repr value)))"

definition getenv :: "environ \<Rightarrow> string \<Rightarrow> string \<Rightarrow> string" where
  "getenv env name fallback = (case dict_get env name of None \<Rightarrow> fallback | Some v \<Rightarrow> v)"

definition profile_from_env :: "environ \<Rightarrow> pyerror + string" where
  "profile_from_env env =
     (let profile = py_lower (py_strip (getenv env ''AIXION_PROFILE'' ''local'')) in
      if profile \<notin> set VALID_PROFILES
      then Inl (ValueError (''AIXION_PROFILE must be one of: '' @ py_join '', '' (sort VALID_PROFILES)))
      else Inr profile)"

definition env_present :: "environ \<Rightarrow> string \<Rightarrow> bool" where
  "env_present env name \<longleftrightarrow> py_strip (getenv env name []) \<noteq> []"

definition optional_env :: "environ \<Rightarrow> string \<Rightarrow> string option" where
  "optional_env env name =
     (let value = py_strip (getenv env name []) in if value = [] then None else Some value)"

definition github_app_configured :: "environ \<Rightarrow> bool" where
  "github_app_configured env \<longleftrightarrow>
     list_all (env_present env)
       [''AIXION_GITHUB_APP_ID'', ''AIXION_GITHUB_APP_INSTALLATION_ID'', ''AIXION_GITHUB_APP_PRIVATE_KEY'']"

definition production_validation_errors :: "environ \<Rightarrow> Settings \<Rightarrow> string list" where
  "production_validation_errors env c =
     (if \<not> is_production c then []
      else
        let missing = sort (filter (\<lambda>name. \<not> env_present env name) REQUIRED_PRODUCTION_ENV_VARS) in
        (if missing \<noteq> []
         then [''Missing required production environment variables: '' @ py_join '', '' missing] else []) @
        (if \<not> cfg_auth_enabled c then [''AIXION_AUTH_ENABLED must not be false in production''] else []) @
        (if \<not> cfg_trust_enforcement c then [''AIXION_TRUST_ENFORCEMENT must not be false in production''] else []) @
        (if path_name (cfg_db_path c) \<in> set UNSAFE_PRODUCTION_DB_NAMES
         then [''AIXION_DB_PATH must not point at demo or test database files in production''] else []) @
        (if \<not> cfg_github_token_configured c \<and> \<not> cfg_github_app_configured c
         then [''Production requires either GITHUB_TOKEN or a complete Aixion GitHub App configuration''] else []))"

definition get_settings :: "environ \<Rightarrow> pyerror + Settings" where
  "get_settings env =
     sum_then (profile_from_env env) (\<lambda>profile.
       let (auth_default, trust_default, db_default) =
             (case dict_get PROFILE_DEFAULTS profile of Some d \<Rightarrow> d | None \<Rightarrow> ([], [], []))
       in sum_then (parse_bool (getenv env ''AIXION_AUTH_ENABLED'' auth_default) ''AIXION_AUTH_ENABLED'') (\<lambda>auth.
          sum_then (parse_bool (getenv env ''AIXION_TRUST_ENFORCEMENT'' trust_default) ''AIXION_TRUST_ENFORCEMENT'')
            (\<lambda>trust.
          sum_then (parse_bool (getenv env ''AIXION_ALLOW_UNAUTHENTICATED_EXTERNAL_AGENT_DEMO'' ''false'')
              ''AIXION_ALLOW_UNAUTHENTICATED_EXTERNAL_AGENT_DEMO'') (\<lambda>demo.
            let c = \<lparr>cfg_profile = profile, cfg_auth_enabled = auth,
                  cfg_db_path = getenv env ''AIXION_DB_PATH'' db_default, cfg_trust_enforcement = trust,
                  cfg_github_token_configured = env_present env ''GITHUB_TOKEN'',
                  cfg_github_app_configured = github_app_configured env,
                  cfg_fcm_server_key_configured = env_present env ''FCM_SERVER_KEY'',
                  cfg_lease_signing_key_configured = env_present env ''AIXION_LEASE_SIGNING_KEY'',
                  cfg_public_base_url = optional_env env ''AIXION_PUBLIC_BASE_URL'',
                  cfg_allow_unauthenticated_external_agent_demo = demo, cfg_validation_errors = []\<rparr>
            in Inr (c\<lparr>cfg_validation_errors := production_validation_errors env c\<rparr>)))))"

definition validate_startup_environment :: "environ \<Rightarrow> pyerror + Settings" where
  "validate_startup_environment env =
     sum_then (get_settings env) (\<lambda>c.
       if cfg_validation_errors c \<noteq> []
       then Inl (RuntimeError (''Invalid Aixion production environment: '' @
              py_join ''; '' (cfg_validation_errors c)))
       else Inr c)"

section \<open>What a started backend can rely on\<close>

lemma get_settings_read:
  assumes "get_settings env = Inr c"
  shows "cfg_validation_errors c = production_validation_errors env (c\<lparr>cfg_validation_errors := []\<rparr>) \<and>
    cfg_profile c \<in> set VALID_PROFILES \<and>
    cfg_github_token_configured c = env_present env ''GITHUB_TOKEN'' \<and>
    cfg_github_app_configured c = github_app_configured env \<and>
    cfg_lease_signing_key_configured c = env_present env ''AIXION_LEASE_SIGNING_KEY''"
  using assms
  by (auto simp: get_settings_def sum_then_def profile_from_env_def Let_def split: sum.splits prod.splits if_splits)

text \<open>
  C31. A production backend does not start unguarded. When the startup check returns settings of the
  production profile, authentication and trust enforcement are on, the database is not a demo or test
  file, the database path, the signing key of the leases and the push key are given and not blank, and
  GitHub is reachable with a token or with a complete application; otherwise the check raises.
\<close>

theorem production_starts_guarded:
  assumes "validate_startup_environment env = Inr c" "is_production c"
  shows "cfg_auth_enabled c \<and> cfg_trust_enforcement c \<and>
    path_name (cfg_db_path c) \<notin> set UNSAFE_PRODUCTION_DB_NAMES \<and>
    list_all (env_present env) REQUIRED_PRODUCTION_ENV_VARS \<and> cfg_lease_signing_key_configured c \<and>
    (env_present env ''GITHUB_TOKEN'' \<or> github_app_configured env)"
proof -
  have c: "get_settings env = Inr c" "cfg_validation_errors c = []"
    using assms(1) by (auto simp: validate_startup_environment_def sum_then_def split: sum.splits if_splits)
  with get_settings_read [OF c(1)] assms(2)
  have "production_validation_errors env (c\<lparr>cfg_validation_errors := []\<rparr>) = []" by simp
  with assms(2) get_settings_read [OF c(1)] show ?thesis
    by (auto simp: production_validation_errors_def is_production_def Let_def list_all_iff filter_empty_conv
        REQUIRED_PRODUCTION_ENV_VARS_def simp flip: set_empty split: if_splits)
qed

lemma production_starts_guarded_witness:
  "\<exists>c. validate_startup_environment
      [(''AIXION_PROFILE'', '' Production ''), (''AIXION_DB_PATH'', ''/data/tower.sqlite3''),
       (''AIXION_LEASE_SIGNING_KEY'', ''k''), (''FCM_SERVER_KEY'', ''f''), (''GITHUB_TOKEN'', ''t'')] = Inr c \<and>
    cfg_auth_enabled c \<and> cfg_trust_enforcement c"
proof -
  let ?env = "[(''AIXION_PROFILE'', '' Production ''), (''AIXION_DB_PATH'', ''/data/tower.sqlite3''),
    (''AIXION_LEASE_SIGNING_KEY'', ''k''), (''FCM_SERVER_KEY'', ''f''), (''GITHUB_TOKEN'', ''t'')]"
  have "case validate_startup_environment ?env of Inr c \<Rightarrow> is_production c | Inl _ \<Rightarrow> False" by code_simp
  then obtain c where c: "validate_startup_environment ?env = Inr c" "is_production c" by (auto split: sum.splits)
  from production_starts_guarded [OF c] c(1) show ?thesis by blast
qed

end
