(* ===== verification/Operations.thy ===== *)
theory Operations
  imports TrustProperties Settings
begin

text \<open>
  Operating the backend: the migrations of the database (\<open>database_migrations.py\<close>), the recovery snapshot
  (\<open>recovery_routes.py\<close>), the readiness of the runtime (\<open>ops_routes.py\<close>) and the release validation
  (\<open>release_validation.py\<close>, \<open>release_demo_evidence.py\<close>, and the report of \<open>demo_smoke_validation.py\<close>).
  The role checks are outside.
\<close>

section \<open>Migrations\<close>

text \<open>The part of the database migrations know: their own table, if there is one, and whether there is a \<open>kv_store\<close>.\<close>

record migration_row =
  mg_migration_id :: string
  mg_name :: string
  mg_applied_at :: string

record schema =
  sch_migrations :: "migration_row list option"
  sch_kv_store :: bool

record Migration =
  mig_id :: string
  mig_name :: string
  mig_apply :: "schema \<Rightarrow> schema"

definition ensure_migration_table :: "schema \<Rightarrow> schema" where
  "ensure_migration_table d = (if sch_migrations d = None then d\<lparr>sch_migrations := Some []\<rparr> else d)"

definition baseline_kv_store :: "schema \<Rightarrow> schema" where
  "baseline_kv_store d = d\<lparr>sch_kv_store := True\<rparr>"

definition MIGRATIONS :: "Migration list" where
  "MIGRATIONS =
     [\<lparr>mig_id = ''0001_baseline_kv_store'', mig_name = ''Create baseline key-value persistence table'',
       mig_apply = baseline_kv_store\<rparr>]"

definition known_migration_ids :: "string list" where
  "known_migration_ids = map mig_id MIGRATIONS"

definition migration_rows :: "schema \<Rightarrow> migration_row list" where
  "migration_rows d = (case sch_migrations d of None \<Rightarrow> [] | Some listed \<Rightarrow> listed)"

definition get_applied_migrations :: "schema \<Rightarrow> migration_row list" where
  "get_applied_migrations d = sort_key mg_migration_id (migration_rows d)"

definition fail_on_unknown_migrations :: "string list \<Rightarrow> pyerror option" where
  "fail_on_unknown_migrations applied =
     (let unknown = sort (filter (\<lambda>i. i \<notin> set known_migration_ids) (remdups applied)) in
      if unknown = [] then None
      else Some (RuntimeError
        (''Database schema contains migrations newer than this backend understands: '' @ py_join '', '' unknown @
         ''. Refusing to start because running old code against a newer database can corrupt state.'')))"

definition record_migration :: "string \<Rightarrow> Migration \<Rightarrow> schema \<Rightarrow> schema" where
  "record_migration now migration d =
     d\<lparr>sch_migrations := Some (migration_rows d @
        [\<lparr>mg_migration_id = mig_id migration, mg_name = mig_name migration, mg_applied_at = now\<rparr>])\<rparr>"

fun apply_migrations :: "string \<Rightarrow> string list \<Rightarrow> Migration list \<Rightarrow> schema \<Rightarrow> schema" where
  "apply_migrations now applied [] d = d"
| "apply_migrations now applied (migration # migrations) d =
     apply_migrations now applied migrations
       (if mig_id migration \<in> set applied then d else record_migration now migration (mig_apply migration d))"

definition run_migrations :: "string \<Rightarrow> schema \<Rightarrow> (pyerror, unit, schema) outcome" where
  "run_migrations now d =
     (let d = ensure_migration_table d;
          applied = map mg_migration_id (migration_rows d)
      in case fail_on_unknown_migrations applied of
           Some e \<Rightarrow> raise e d
         | None \<Rightarrow> ret () (apply_migrations now applied MIGRATIONS d))"

lemma fail_on_unknown_iff: "fail_on_unknown_migrations applied = None \<longleftrightarrow> set applied \<subseteq> set known_migration_ids"
proof -
  have "(filter (\<lambda>i. i \<notin> set known_migration_ids) (remdups applied) = []) = (set applied \<subseteq> set known_migration_ids)"
    by (auto simp: filter_empty_conv)
  moreover have "(sort xs = []) = (xs = [])" for xs :: "string list" by (metis set_empty set_sort)
  ultimately show ?thesis by (simp add: fail_on_unknown_migrations_def Let_def)
qed

lemma run_migrations_unfold:
  "run_migrations now d =
    (if set (map mg_migration_id (migration_rows d)) \<subseteq> set known_migration_ids then
       (if ''0001_baseline_kv_store'' \<in> set (map mg_migration_id (migration_rows d)) then ret () (ensure_migration_table d)
        else ret () \<lparr>sch_migrations = Some (migration_rows d @ [\<lparr>mg_migration_id = ''0001_baseline_kv_store'',
          mg_name = ''Create baseline key-value persistence table'', mg_applied_at = now\<rparr>]), sch_kv_store = True\<rparr>)
     else raise (the (fail_on_unknown_migrations (map mg_migration_id (migration_rows d)))) (ensure_migration_table d))"
proof -
  have r: "migration_rows (ensure_migration_table d) = migration_rows d"
    by (simp add: migration_rows_def ensure_migration_table_def)
  show ?thesis
    using fail_on_unknown_iff [of "map mg_migration_id (migration_rows d)"]
    by (cases "fail_on_unknown_migrations (map mg_migration_id (migration_rows d))"; cases d)
       (auto simp: run_migrations_def Let_def r MIGRATIONS_def record_migration_def baseline_kv_store_def
         migration_rows_def ensure_migration_table_def split: option.splits if_splits)
qed

text \<open>A database that was migrated has the known migrations.\<close>

lemma run_migrations_rows:
  assumes "run_migrations now d = (Inr (), d')"
  shows "migration_rows d' = migration_rows d @
    (if ''0001_baseline_kv_store'' \<in> set (map mg_migration_id (migration_rows d)) then []
     else [\<lparr>mg_migration_id = ''0001_baseline_kv_store'',
       mg_name = ''Create baseline key-value persistence table'', mg_applied_at = now\<rparr>])"
proof -
  have "migration_rows (ensure_migration_table d) = migration_rows d"
    by (simp add: migration_rows_def ensure_migration_table_def)
  moreover have "migration_rows \<lparr>sch_migrations = Some xs, sch_kv_store = True\<rparr> = xs" for xs
    by (simp add: migration_rows_def)
  ultimately show ?thesis
    using assms unfolding run_migrations_unfold ret_def raise_def by (simp split: if_splits) fastforce+
qed

lemma run_migrations_ids:
  assumes "run_migrations now d = (Inr (), d')"
  shows "set known_migration_ids \<subseteq> set (map mg_migration_id (migration_rows d'))"
  unfolding run_migrations_rows [OF assms] by (simp add: known_migration_ids_def MIGRATIONS_def)

text \<open>
  Migrating a database is safe and idempotent. A database with a migration this backend does not know is
  refused with its rows and tables as they are (but for the empty table of migrations). Any other is brought
  to exactly the known migrations, the rows it had are kept in place, and migrating it again, at any later
  time, changes nothing.
\<close>

theorem migrations_are_idempotent:
  "if set (map mg_migration_id (migration_rows d)) \<subseteq> set known_migration_ids
   then \<exists>d'. run_migrations now d = (Inr (), d') \<and> run_migrations later d' = (Inr (), d') \<and>
     set (map mg_migration_id (migration_rows d')) = set known_migration_ids \<and>
     (\<exists>new. migration_rows d' = migration_rows d @ new) \<and>
     (sch_kv_store d' \<or> sch_kv_store d' = sch_kv_store d)
   else \<exists>e. run_migrations now d = (Inl e, ensure_migration_table d) \<and>
     migration_rows (ensure_migration_table d) = migration_rows d \<and>
     sch_kv_store (ensure_migration_table d) = sch_kv_store d"
proof -
  have k: "set known_migration_ids = {''0001_baseline_kv_store''}" by (simp add: known_migration_ids_def MIGRATIONS_def)
  have r: "migration_rows (ensure_migration_table d) = migration_rows d" "sch_kv_store (ensure_migration_table d) = sch_kv_store d"
    "ensure_migration_table (ensure_migration_table d) = ensure_migration_table d"
    by (simp_all add: migration_rows_def ensure_migration_table_def)
  have n: "ensure_migration_table \<lparr>sch_migrations = Some listed, sch_kv_store = True\<rparr> = \<lparr>sch_migrations = Some listed, sch_kv_store = True\<rparr>"
    "migration_rows \<lparr>sch_migrations = Some listed, sch_kv_store = True\<rparr> = listed" for listed
    by (simp_all add: ensure_migration_table_def migration_rows_def)
  show ?thesis
    using r n by (auto simp: run_migrations_unfold [of now d] run_migrations_unfold [of later] k ret_def raise_def)
qed

section \<open>The recovery snapshot\<close>

definition RECOVERY_FORMAT_VERSION :: string where
  "RECOVERY_FORMAT_VERSION = ''aixion-control-tower-recovery-v1''"

record RecoverySnapshot =
  snap_format_version :: string
  snap_generated_at :: int
  snap_applied_migrations :: "migration_row list"
  snap_counts :: "(string, nat) dict"
  snap_excluded_sensitive_collections :: "string list"
  snap_entities :: "(string, jdict list) dict"

record RecoveryValidationResponse =
  rv_valid :: bool
  rv_format_version :: string
  rv_counts :: "(string, nat) dict"
  rv_errors :: "string list"
  rv_warnings :: "string list"

text \<open>
  The data classes are pydantic models: what \<open>model_dump\<close> gives for an entity, and the text of the error with
  which \<open>model_validate\<close> of a collection's model refuses a value, if it does.
\<close>

record pydantic =
  dump_project :: "Project \<Rightarrow> jdict"
  dump_server :: "MCPChildServer \<Rightarrow> jdict"
  dump_idea :: "Idea \<Rightarrow> jdict"
  dump_work_order :: "WorkOrder \<Rightarrow> jdict"
  dump_approval :: "ApprovalRequest \<Rightarrow> jdict"
  dump_pending :: "MCPPendingRequest \<Rightarrow> jdict"
  dump_test_run :: "TestRun \<Rightarrow> jdict"
  dump_notification :: "Notification \<Rightarrow> jdict"
  dump_audit :: "AuditEvent \<Rightarrow> jdict"
  invalid :: "string \<Rightarrow> jdict \<Rightarrow> string option"

definition SAFE_ENTITY_MODELS :: "string list" where
  "SAFE_ENTITY_MODELS =
     [''projects'', ''mcp_child_servers'', ''ideas'', ''work_orders'', ''approval_requests'',
      ''mcp_pending_requests'', ''test_runs'', ''notifications'', ''audit_events'']"

definition safe_entities :: "pydantic \<Rightarrow> sys \<Rightarrow> (string, jdict list) dict" where
  "safe_entities M s =
     [(''projects'', map (dump_project M) (dict_vals (projects s))),
      (''mcp_child_servers'', map (dump_server M) (dict_vals (mcp_child_servers s))),
      (''ideas'', map (dump_idea M) (dict_vals (ideas s))),
      (''work_orders'', map (dump_work_order M) (dict_vals (work_orders s))),
      (''approval_requests'', map (dump_approval M) (dict_vals (approval_requests s))),
      (''mcp_pending_requests'', map (dump_pending M) (dict_vals (mcp_pending_requests s))),
      (''test_runs'', map (dump_test_run M) (dict_vals (test_runs s))),
      (''notifications'', map (dump_notification M) (dict_vals (notifications s))),
      (''audit_events'', map (dump_audit M) (audit_events s))]"

definition safe_counts :: "sys \<Rightarrow> (string, nat) dict" where
  "safe_counts s =
     [(''projects'', length (projects s)), (''mcp_child_servers'', length (mcp_child_servers s)),
      (''ideas'', length (ideas s)), (''work_orders'', length (work_orders s)),
      (''approval_requests'', length (approval_requests s)),
      (''mcp_pending_requests'', length (mcp_pending_requests s)), (''test_runs'', length (test_runs s)),
      (''notifications'', length (notifications s)), (''audit_events'', length (audit_events s))]"

definition export_recovery_snapshot :: "pydantic \<Rightarrow> schema \<Rightarrow> sys \<Rightarrow> RecoverySnapshot" where
  "export_recovery_snapshot M d s =
     \<lparr>snap_format_version = RECOVERY_FORMAT_VERSION, snap_generated_at = clock s,
      snap_applied_migrations = get_applied_migrations d, snap_counts = safe_counts s,
      snap_excluded_sensitive_collections =
        [''users'', ''sessions'', ''invites'', ''external_agents'', ''device_registrations''],
      snap_entities = safe_entities M s\<rparr>"

text \<open>The items of one collection, from a position on.\<close>

fun item_errors :: "pydantic \<Rightarrow> string \<Rightarrow> nat \<Rightarrow> jdict list \<Rightarrow> string list" where
  "item_errors M name i [] = []"
| "item_errors M name i (item # items) =
     (case invalid M name item of
        None \<Rightarrow> []
      | Some text \<Rightarrow> [name @ ''['' @ int_str (int i) @ ''] is invalid: '' @ text]) @
     item_errors M name (i + 1) items"

definition raw_items :: "RecoverySnapshot \<Rightarrow> string \<Rightarrow> jdict list" where
  "raw_items snap name = (case dict_get (snap_entities snap) name of None \<Rightarrow> [] | Some items \<Rightarrow> items)"

definition snapshot_errors :: "pydantic \<Rightarrow> RecoverySnapshot \<Rightarrow> string list" where
  "snapshot_errors M snap =
     (if snap_format_version snap \<noteq> RECOVERY_FORMAT_VERSION
      then [''Unsupported recovery format_version: '' @ snap_format_version snap] else []) @
     concat (map (\<lambda>name. item_errors M name 0 (raw_items snap name)) SAFE_ENTITY_MODELS) @
     map (\<lambda>name. ''Unknown entity collection: '' @ name)
       (sort (filter (\<lambda>name. name \<notin> set SAFE_ENTITY_MODELS) (remdups (map fst (snap_entities snap)))))"

definition snapshot_warnings :: "RecoverySnapshot \<Rightarrow> string list" where
  "snapshot_warnings snap =
     (if snap_applied_migrations snap = []
      then [''Snapshot has no migration metadata; restore should not proceed without manual DB inspection.''] else []) @
     (if snap_excluded_sensitive_collections snap \<noteq> []
      then [''Snapshot excludes auth/session/device/agent secrets and is not a full credential restore artifact.''] else [])"

text \<open>The request model admits lists of dictionaries only, so the check that a collection is a list never fails.\<close>

definition validate_recovery_snapshot :: "pydantic \<Rightarrow> RecoverySnapshot \<Rightarrow> RecoveryValidationResponse" where
  "validate_recovery_snapshot M snap =
     (let errors = snapshot_errors M snap in
      \<lparr>rv_valid = (errors = []), rv_format_version = snap_format_version snap,
       rv_counts = map (\<lambda>name. (name, length (raw_items snap name))) SAFE_ENTITY_MODELS,
       rv_errors = errors, rv_warnings = snapshot_warnings snap\<rparr>)"

text \<open>pydantic accepts what it dumped.\<close>

definition accepts_dumps :: "pydantic \<Rightarrow> bool" where
  "accepts_dumps M \<longleftrightarrow>
     (\<forall>x. invalid M ''projects'' (dump_project M x) = None) \<and>
     (\<forall>x. invalid M ''mcp_child_servers'' (dump_server M x) = None) \<and>
     (\<forall>x. invalid M ''ideas'' (dump_idea M x) = None) \<and>
     (\<forall>x. invalid M ''work_orders'' (dump_work_order M x) = None) \<and>
     (\<forall>x. invalid M ''approval_requests'' (dump_approval M x) = None) \<and>
     (\<forall>x. invalid M ''mcp_pending_requests'' (dump_pending M x) = None) \<and>
     (\<forall>x. invalid M ''test_runs'' (dump_test_run M x) = None) \<and>
     (\<forall>x. invalid M ''notifications'' (dump_notification M x) = None) \<and>
     (\<forall>x. invalid M ''audit_events'' (dump_audit M x) = None)"

lemma item_errors_none: "(\<And>x. invalid M name (f x) = None) \<Longrightarrow> item_errors M name i (map f xs) = []"
  by (induction xs arbitrary: i) simp_all

lemma item_errors_iff: "item_errors M name i items = [] \<longleftrightarrow> list_all (\<lambda>item. invalid M name item = None) items"
  by (induction items arbitrary: i) (auto split: option.splits)

lemma exported_snapshot_errors:
  assumes "accepts_dumps M"
  shows "snapshot_errors M (export_recovery_snapshot M d s) = []"
proof -
  have "concat (map (\<lambda>name. item_errors M name 0 (raw_items (export_recovery_snapshot M d s) name)) SAFE_ENTITY_MODELS) = []"
    using assms
    by (simp add: raw_items_def export_recovery_snapshot_def safe_entities_def SAFE_ENTITY_MODELS_def accepts_dumps_def
        item_errors_none)
  moreover have "filter (\<lambda>name. name \<notin> set SAFE_ENTITY_MODELS) (remdups (map fst (safe_entities M s))) = []"
    by (simp add: safe_entities_def SAFE_ENTITY_MODELS_def)
  moreover have "snap_entities (export_recovery_snapshot M d s) = safe_entities M s"
    "snap_format_version (export_recovery_snapshot M d s) = RECOVERY_FORMAT_VERSION"
    by (simp_all add: export_recovery_snapshot_def)
  ultimately show ?thesis by (simp only: snapshot_errors_def) simp
qed

lemma exported_counts:
  "map (\<lambda>name. (name, length (raw_items (export_recovery_snapshot M d s) name))) SAFE_ENTITY_MODELS = safe_counts s"
  by (simp add: raw_items_def export_recovery_snapshot_def safe_entities_def SAFE_ENTITY_MODELS_def safe_counts_def dict_vals_def)

text \<open>
  A recovery snapshot that is exported validates, whatever the store holds: no error, and for every
  collection the number of entities the store has, which is the number the snapshot claims.
\<close>

theorem exported_snapshot_validates:
  assumes "accepts_dumps M"
  shows "rv_valid (validate_recovery_snapshot M (export_recovery_snapshot M d s)) \<and>
    rv_errors (validate_recovery_snapshot M (export_recovery_snapshot M d s)) = [] \<and>
    rv_counts (validate_recovery_snapshot M (export_recovery_snapshot M d s)) = safe_counts s \<and>
    snap_counts (export_recovery_snapshot M d s) = safe_counts s"
  using exported_snapshot_errors [OF assms] exported_counts
  by (simp add: validate_recovery_snapshot_def Let_def export_recovery_snapshot_def [of M d s, THEN arg_cong [of _ _ snap_counts]])

definition trusting_pydantic :: pydantic where
  "trusting_pydantic =
     \<lparr>dump_project = (\<lambda>x. [(''id'', JStr (proj_id x))]), dump_server = (\<lambda>x. []), dump_idea = (\<lambda>x. []),
      dump_work_order = (\<lambda>x. []), dump_approval = (\<lambda>x. [(''id'', JStr (appr_id x))]), dump_pending = (\<lambda>x. []),
      dump_test_run = (\<lambda>x. []), dump_notification = (\<lambda>x. []), dump_audit = (\<lambda>x. []),
      invalid = (\<lambda>name item. if name = ''projects'' \<and> item = [] then Some ''Field required'' else None)\<rparr>"

lemma trusting_pydantic_accepts: "accepts_dumps trusting_pydantic"
  by (simp add: accepts_dumps_def trusting_pydantic_def)

lemma exported_snapshot_validates_witness:
  "rv_valid (validate_recovery_snapshot trusting_pydantic
     (export_recovery_snapshot trusting_pydantic \<lparr>sch_migrations = None, sch_kv_store = True\<rparr> sample_sys))"
  using exported_snapshot_validates [OF trusting_pydantic_accepts] by blast

section \<open>Readiness\<close>

record RuntimeReadinessResponse =
  rr_status :: string
  rr_generated_at :: int
  rr_profile :: string
  rr_auth_enabled :: bool
  rr_trust_enforcement :: bool
  rr_lease_signing_key_configured :: bool
  rr_db_reachable :: bool
  rr_migrations_applied :: bool
  rr_expected_migration_ids :: "string list"
  rr_applied_migration_ids :: "string list"
  rr_recovery_snapshot_available :: bool
  rr_recovery_format_version :: string
  rr_github_token_configured :: bool
  rr_github_app_configured :: bool
  rr_fcm_server_key_configured :: bool
  rr_flight_recorder_valid :: bool
  rr_flight_recorder_event_count :: int
  rr_active_capability_leases :: nat
  rr_errors :: "string list"
  rr_warnings :: "string list"

text \<open>The database as the probe finds it: what the connection raised, or the schema.\<close>

type_synonym probed = "string + schema"

definition applied_ids :: "probed \<Rightarrow> string list" where
  "applied_ids db = (case db of Inl _ \<Rightarrow> [] | Inr d \<Rightarrow> sort (map mg_migration_id (get_applied_migrations d)))"

definition missing_migrations :: "schema \<Rightarrow> string list" where
  "missing_migrations d =
     sort (filter (\<lambda>i. i \<notin> set (map mg_migration_id (get_applied_migrations d))) known_migration_ids)"

definition database_errors :: "probed \<Rightarrow> string list" where
  "database_errors db =
     (case db of
        Inl text \<Rightarrow> [''Database readiness check failed: '' @ text]
      | Inr d \<Rightarrow>
          if missing_migrations d = [] then []
          else [''Missing database migrations: '' @ py_join '', '' (missing_migrations d)])"

definition migrations_applied :: "probed \<Rightarrow> bool" where
  "migrations_applied db = (case db of Inl _ \<Rightarrow> False | Inr d \<Rightarrow> missing_migrations d = [])"

definition snapshot_available :: "pydantic \<Rightarrow> probed \<Rightarrow> sys \<Rightarrow> bool" where
  "snapshot_available M db s =
     (case db of
        Inl _ \<Rightarrow> False
      | Inr d \<Rightarrow> missing_migrations d = [] \<and>
          snap_format_version (export_recovery_snapshot M d s) = RECOVERY_FORMAT_VERSION)"

definition guard_errors :: "Settings \<Rightarrow> string list" where
  "guard_errors c =
     (if is_production c \<and> \<not> cfg_trust_enforcement c
      then [''Production trust enforcement is disabled.''] else []) @
     (if is_production c \<and> \<not> cfg_lease_signing_key_configured c
      then [''Production capability lease signing key is not configured.''] else [])"

definition readiness_warnings :: "Settings \<Rightarrow> string list" where
  "readiness_warnings c =
     (if \<not> cfg_github_token_configured c \<and> \<not> cfg_github_app_configured c
      then [''Neither GitHub token nor GitHub App credentials are configured; GitHub execution will not be available.'']
      else []) @
     (if \<not> cfg_fcm_server_key_configured c
      then [''FCM server key is not configured; push notifications will not be available.''] else [])"

definition active_leases :: "sys \<Rightarrow> nat" where
  "active_leases s =
     length (filter (\<lambda>l. lease_status l = CapabilityLeaseStatus.ACTIVE \<and> lease_expires_at l > clock s)
       (dict_vals (capability_leases s)))"

definition build_runtime_readiness ::
    "env \<Rightarrow> pydantic \<Rightarrow> Settings \<Rightarrow> probed \<Rightarrow> sys \<Rightarrow> RuntimeReadinessResponse" where
  "build_runtime_readiness E M c db s =
     (let flight = verify_flight_recorder E s;
          errors = cfg_validation_errors c @ database_errors db @
            (if frv_valid flight then []
             else [''Trust flight recorder failed hash-chain verification: '' @ frv_reason flight]) @
            guard_errors c;
          reachable = (case db of Inl _ \<Rightarrow> False | Inr _ \<Rightarrow> True);
          ready = (reachable \<and> migrations_applied db \<and> snapshot_available M db s \<and> frv_valid flight \<and> errors = [])
      in \<lparr>rr_status = (if ready then ''ready'' else ''not_ready''), rr_generated_at = clock s,
          rr_profile = cfg_profile c, rr_auth_enabled = cfg_auth_enabled c,
          rr_trust_enforcement = cfg_trust_enforcement c,
          rr_lease_signing_key_configured = cfg_lease_signing_key_configured c, rr_db_reachable = reachable,
          rr_migrations_applied = migrations_applied db,
          rr_expected_migration_ids = sort known_migration_ids, rr_applied_migration_ids = applied_ids db,
          rr_recovery_snapshot_available = snapshot_available M db s,
          rr_recovery_format_version = RECOVERY_FORMAT_VERSION,
          rr_github_token_configured = cfg_github_token_configured c,
          rr_github_app_configured = cfg_github_app_configured c,
          rr_fcm_server_key_configured = cfg_fcm_server_key_configured c,
          rr_flight_recorder_valid = frv_valid flight,
          rr_flight_recorder_event_count = frv_event_count flight,
          rr_active_capability_leases = active_leases s, rr_errors = errors, rr_warnings = readiness_warnings c\<rparr>)"

end
