(* ===== verification/AuditRoutes.thy ===== *)
theory AuditRoutes
  imports TrustCrypto Samples
begin

text \<open>
  \<open>audit_routes.py\<close>: querying the audit log, and exporting it with the values under sensitive keys
  redacted. The role checks and the two recovery routes, which only pass on to \<open>recovery_routes.py\<close>, are
  outside.
\<close>

definition AUDIT_EXPORT_MAX_LIMIT :: nat where "AUDIT_EXPORT_MAX_LIMIT = 1000"

definition AUDIT_RETENTION_POLICY_VERSION :: string where
  "AUDIT_RETENTION_POLICY_VERSION = ''aixion-audit-retention-v1''"

definition REDACTED_DETAIL_VALUE :: string where "REDACTED_DETAIL_VALUE = ''[REDACTED]''"

definition SENSITIVE_DETAIL_KEY_MARKERS :: "string list" where
  "SENSITIVE_DETAIL_KEY_MARKERS =
     [''password'', ''secret'', ''token'', ''apikey'', ''authorization'', ''credential'', ''serverkey'']"

record AuditRetentionPolicy =
  rp_policy_version :: string
  rp_online_days :: nat
  rp_archive_days :: nat
  rp_deletion_job_enabled :: bool
  rp_notes :: "string list"

definition retention_policy :: AuditRetentionPolicy where
  "retention_policy =
     \<lparr>rp_policy_version = AUDIT_RETENTION_POLICY_VERSION, rp_online_days = 365, rp_archive_days = 2555,
      rp_deletion_job_enabled = False,
      rp_notes =
        [''Retention is documented but not automatically enforced in this MVP foundation.'',
         ''Audit deletion must not be enabled until legal, incident, and recovery requirements are explicit.'']\<rparr>"

section \<open>Redaction\<close>

definition normalize_detail_key :: "string \<Rightarrow> string" where
  "normalize_detail_key key = filter (\<lambda>c. c \<notin> set ''_-'') (py_lower (py_strip key))"

definition is_sensitive_detail_key :: "string \<Rightarrow> bool" where
  "is_sensitive_detail_key key \<longleftrightarrow> contains_any (normalize_detail_key key) SENSITIVE_DETAIL_KEY_MARKERS"

fun redact_details :: "json \<Rightarrow> json" where
  "redact_details (JObj d) =
     JObj (map (\<lambda>(k, v). (k, if is_sensitive_detail_key k then JStr REDACTED_DETAIL_VALUE else redact_details v)) d)"
| "redact_details (JList xs) = JList (map redact_details xs)"
| "redact_details v = v"

definition redact_dict :: "jdict \<Rightarrow> jdict" where
  "redact_dict d =
     map (\<lambda>(k, v). (k, if is_sensitive_detail_key k then JStr REDACTED_DETAIL_VALUE else redact_details v)) d"

lemma redact_details_JObj: "redact_details (JObj d) = JObj (redact_dict d)"
  by (simp add: redact_dict_def)

definition redact_audit_event :: "AuditEvent \<Rightarrow> AuditEvent" where
  "redact_audit_event ev = ev\<lparr>au_details := redact_dict (au_details ev)\<rparr>"

section \<open>Queries\<close>

record audit_filter =
  fl_event_type :: "string option"
  fl_entity_id :: "string option"
  fl_actor :: "string option"
  fl_detail_key :: "string option"
  fl_detail_value :: "string option"
  fl_created_after :: "int option"
  fl_created_before :: "int option"

text \<open>A criterion that is not given is met.\<close>

definition given :: "'a option \<Rightarrow> ('a \<Rightarrow> bool) \<Rightarrow> bool" where
  "given v P = (case v of None \<Rightarrow> True | Some x \<Rightarrow> P x)"

lemma given_simps [simp]: "given None P" "given (Some x) P = P x"
  by (simp_all add: given_def)

definition detail_matches :: "env \<Rightarrow> audit_filter \<Rightarrow> AuditEvent \<Rightarrow> bool" where
  "detail_matches E f ev =
     given (fl_detail_key f) (\<lambda>k.
       case dict_get (au_details ev) k of
         None \<Rightarrow> False
       | Some v \<Rightarrow> given (fl_detail_value f) (\<lambda>t. py_str E v = t))"

definition matches_filter :: "env \<Rightarrow> audit_filter \<Rightarrow> AuditEvent \<Rightarrow> bool" where
  "matches_filter E f ev \<longleftrightarrow>
     given (fl_event_type f) (\<lambda>t. au_event_type ev = t) \<and>
     given (fl_entity_id f) (\<lambda>t. au_entity_id ev = t) \<and>
     given (fl_actor f) (\<lambda>t. au_actor ev = t) \<and>
     detail_matches E f ev \<and>
     given (fl_created_after f) (\<lambda>t. t \<le> au_created_at ev) \<and>
     given (fl_created_before f) (\<lambda>t. au_created_at ev \<le> t)"

text \<open>The latest first; Python's sort is stable, also in reverse.\<close>

definition filter_audit_events :: "env \<Rightarrow> audit_filter \<Rightarrow> sys \<Rightarrow> AuditEvent list" where
  "filter_audit_events E f s = rev (sort_key au_created_at (rev (filter (matches_filter E f) (audit_events s))))"

definition filter_summary :: "audit_filter \<Rightarrow> jdict" where
  "filter_summary f =
     filter (\<lambda>(k, v). v \<noteq> JNull)
       [(''event_type'', json_opt_str (fl_event_type f)), (''entity_id'', json_opt_str (fl_entity_id f)),
        (''actor'', json_opt_str (fl_actor f)), (''detail_key'', json_opt_str (fl_detail_key f)),
        (''detail_value'', json_opt_str (fl_detail_value f)),
        (''created_after'', json_opt_time (fl_created_after f)),
        (''created_before'', json_opt_time (fl_created_before f))]"

record AuditExportResponse =
  xp_generated_at :: int
  xp_count :: nat
  xp_limit :: nat
  xp_truncated :: bool
  xp_filters :: jdict
  xp_retention_policy :: AuditRetentionPolicy
  xp_events :: "AuditEvent list"

text \<open>A limit outside of its bounds is refused before the handler runs.\<close>

definition query_audit_events :: "env \<Rightarrow> audit_filter \<Rightarrow> nat \<Rightarrow> sys \<Rightarrow> AuditEvent list result" where
  "query_audit_events E f limit s =
     (if limit < 1 \<or> 500 < limit then raise (HTTPException 422 []) s
      else ret (take limit (filter_audit_events E (f\<lparr>fl_created_after := None, fl_created_before := None\<rparr>) s)) s)"

definition export_audit_events :: "env \<Rightarrow> audit_filter \<Rightarrow> nat \<Rightarrow> sys \<Rightarrow> AuditExportResponse result" where
  "export_audit_events E f limit s =
     (if limit < 1 \<or> AUDIT_EXPORT_MAX_LIMIT < limit then raise (HTTPException 422 []) s
      else
        let events = filter_audit_events E f s;
            exported = map redact_audit_event (take limit events)
        in ret \<lparr>xp_generated_at = clock s, xp_count = length exported, xp_limit = limit,
             xp_truncated = (limit < length events), xp_filters = filter_summary f,
             xp_retention_policy = retention_policy, xp_events = exported\<rparr> s)"

definition get_audit_event :: "string \<Rightarrow> sys \<Rightarrow> AuditEvent result" where
  "get_audit_event i s =
     (case find (\<lambda>ev. au_id ev = i) (audit_events s) of
        None \<Rightarrow> raise (HTTPException 404 ''Audit event not found'') s
      | Some ev \<Rightarrow> ret ev s)"

section \<open>What an export reveals\<close>

text \<open>Two values that differ below sensitive keys only, at any depth.\<close>

inductive same_public :: "json \<Rightarrow> json \<Rightarrow> bool" where
  same: "same_public v v"
| object: "map fst d = map fst d' \<Longrightarrow>
     (\<And>i. i < length d \<Longrightarrow> is_sensitive_detail_key (fst (d ! i)) \<or> same_public (snd (d ! i)) (snd (d' ! i))) \<Longrightarrow>
     same_public (JObj d) (JObj d')"
| listed: "length xs = length ys \<Longrightarrow> (\<And>i. i < length xs \<Longrightarrow> same_public (xs ! i) (ys ! i)) \<Longrightarrow>
     same_public (JList xs) (JList ys)"

lemma redact_same_public: "same_public v w \<Longrightarrow> redact_details v = redact_details w"
proof (induction rule: same_public.induct)
  case (object d d')
  have l: "length d = length d'" using object(1) by (metis length_map)
  have "fst (d ! i) = fst (d' ! i)" if "i < length d" for i
    using object(1) that l by (metis nth_map)
  then have "redact_dict d ! i = redact_dict d' ! i" if "i < length d" for i
    using object(2) that l by (fastforce simp: redact_dict_def split: prod.splits)
  then have "redact_dict d = redact_dict d'" using l by (intro nth_equalityI) (simp_all add: redact_dict_def)
  then show ?case by (simp only: redact_details_JObj)
next
  case (listed xs ys)
  then show ?case by (simp add: list_eq_iff_nth_eq)
qed simp

text \<open>Redaction is done once, keeps the keys, and keeps every value without a sensitive key above it.\<close>

lemma redact_details_idem: "redact_details (redact_details v) = redact_details v"
  by (induction v rule: redact_details.induct) (auto split: prod.splits)

lemma redact_dict_idem: "redact_dict (redact_dict d) = redact_dict d"
  using redact_details_idem [of "JObj d"] by (simp only: redact_details_JObj json.inject)

lemma redact_dict_keys [simp]: "map fst (redact_dict d) = map fst d"
  by (induction d) (auto simp: redact_dict_def)

lemma redact_audit_event_simps [simp]:
  "au_id (redact_audit_event ev) = au_id ev" "au_event_type (redact_audit_event ev) = au_event_type ev"
  "au_actor (redact_audit_event ev) = au_actor ev" "au_entity_id (redact_audit_event ev) = au_entity_id ev"
  "au_created_at (redact_audit_event ev) = au_created_at ev"
  "au_details (redact_audit_event ev) = redact_dict (au_details ev)"
  by (simp_all add: redact_audit_event_def)

lemma redact_dict_get: "(dict_get (redact_dict d) k = None) = (dict_get d k = None)"
  by (simp add: dict_get_None_iff)

text \<open>Without a criterion on a value, the filter sees the redacted event as the event itself.\<close>

lemma matches_filter_redacted:
  assumes "fl_detail_value f = None"
  shows "matches_filter E f (redact_audit_event ev) = matches_filter E f ev"
proof -
  have "detail_matches E f (redact_audit_event ev) = detail_matches E f ev"
    using assms redact_dict_get [of "au_details ev"]
    by (simp add: detail_matches_def given_def split: option.split) (metis option.distinct(1))
  then show ?thesis by (simp add: matches_filter_def)
qed

lemma filter_redacted:
  assumes "fl_detail_value f = None"
  shows "map redact_audit_event (filter_audit_events E f s) =
    rev (sort_key au_created_at (rev (filter (matches_filter E f) (map redact_audit_event (audit_events s)))))"
proof -
  have "filter (matches_filter E f) (map redact_audit_event xs) = map redact_audit_event (filter (matches_filter E f) xs)" for xs
    by (induction xs) (simp_all add: matches_filter_redacted [OF assms])
  then show ?thesis by (simp add: filter_audit_events_def rev_map sort_key_map)
qed

definition same_public_event :: "AuditEvent \<Rightarrow> AuditEvent \<Rightarrow> bool" where
  "same_public_event e e' \<longleftrightarrow>
     au_id e = au_id e' \<and> au_event_type e = au_event_type e' \<and> au_actor e = au_actor e' \<and>
     au_entity_id e = au_entity_id e' \<and> au_created_at e = au_created_at e' \<and>
     same_public (JObj (au_details e)) (JObj (au_details e'))"

lemma redact_same_event: "same_public_event e e' \<Longrightarrow> redact_audit_event e = redact_audit_event e'"
  using redact_same_public [of "JObj (au_details e)" "JObj (au_details e')"]
  by (cases e; cases e') (auto simp: same_public_event_def redact_audit_event_def redact_dict_def)

text \<open>
  C38. An export of the audit log reveals no secret. Take two backends whose logs differ in values below
  sensitive keys only, at whatever depth. As long as the export does not select by the value of a detail,
  both answer it alike, the counts included: nothing in the answer depends on a redacted value. And what
  is exported are the selected events with everything but those values, the latest first.
\<close>

theorem export_reveals_no_secret:
  assumes "list_all2 same_public_event (audit_events s) (audit_events t)" "clock s = clock t"
    "fl_detail_value f = None"
  shows "fst (export_audit_events E f limit s) = fst (export_audit_events E f limit t) \<and>
    snd (export_audit_events E f limit s) = s \<and>
    (\<forall>r. fst (export_audit_events E f limit s) = Inr r \<longrightarrow>
      xp_events r = take limit (map redact_audit_event (filter_audit_events E f s)) \<and>
      sorted (rev (map au_created_at (xp_events r))))"
proof -
  have "map redact_audit_event (audit_events s) = map redact_audit_event (audit_events t)"
    using assms(1) by (auto simp: list_all2_conv_all_nth list_eq_iff_nth_eq intro: redact_same_event)
  then have e: "map redact_audit_event (filter_audit_events E f s) = map redact_audit_event (filter_audit_events E f t)"
    by (simp only: filter_redacted [OF assms(3)])
  then have l: "length (filter_audit_events E f s) = length (filter_audit_events E f t)"
    by (metis length_map)
  have taken: "map redact_audit_event (take limit (filter_audit_events E f s)) =
      map redact_audit_event (take limit (filter_audit_events E f t))" using e by (metis take_map)
  have sorted: "sorted (rev (map au_created_at (filter_audit_events E f s)))"
    by (simp add: filter_audit_events_def rev_map)
  have "sorted (rev (map au_created_at (map redact_audit_event (take limit (filter_audit_events E f s)))))"
  proof -
    have "map au_created_at (map redact_audit_event xs) = map au_created_at xs" for xs by (simp add: comp_def)
    moreover have "sorted (rev (take limit (map au_created_at (filter_audit_events E f s))))"
      using sorted by (metis rev_take sorted_wrt_drop)
    ultimately show ?thesis by (simp only: take_map)
  qed
  moreover have "take limit (map redact_audit_event xs) = map redact_audit_event (take limit xs)" for xs
    by (rule take_map)
  ultimately show ?thesis
    using taken l assms(2)
    by (simp add: export_audit_events_def Let_def ret_def raise_def del: map_map)
qed

text \<open>Two logs with one event each, whose tokens differ at two depths.\<close>

definition logged :: "string \<Rightarrow> sys" where
  "logged secret =
     sample_sys\<lparr>audit_events :=
       [\<lparr>au_id = ''e1'', au_event_type = ''agent.token_issued'', au_actor = ''system'', au_entity_id = ''a1'',
         au_details = [(''Access-Token'', JStr secret), (''agent'', JObj [(''name'', JStr ''codex''), (''api_key'', JStr secret)])],
         au_created_at = 0\<rparr>]\<rparr>"

definition everything :: audit_filter where
  "everything = \<lparr>fl_event_type = None, fl_entity_id = None, fl_actor = None, fl_detail_key = None,
     fl_detail_value = None, fl_created_after = None, fl_created_before = None\<rparr>"

lemma export_reveals_no_secret_witness:
  "\<exists>r. fst (export_audit_events sample_env everything 10 (logged ''one'')) = Inr r \<and>
     fst (export_audit_events sample_env everything 10 (logged ''two'')) = Inr r"
proof -
  have keys: "is_sensitive_detail_key ''Access-Token''" "is_sensitive_detail_key ''api_key''" by code_simp+
  have inner: "same_public (JObj [(''name'', JStr ''codex''), (''api_key'', JStr ''one'')])
      (JObj [(''name'', JStr ''codex''), (''api_key'', JStr ''two'')])"
    by (rule same_public.object) (auto simp: less_Suc_eq numeral_2_eq_2 keys intro: same_public.same)
  have "same_public (JObj [(''Access-Token'', JStr ''one''), (''agent'', JObj [(''name'', JStr ''codex''), (''api_key'', JStr ''one'')])])
      (JObj [(''Access-Token'', JStr ''two''), (''agent'', JObj [(''name'', JStr ''codex''), (''api_key'', JStr ''two'')])])"
    by (rule same_public.object) (auto simp: less_Suc_eq numeral_2_eq_2 keys inner)
  then have "list_all2 same_public_event (audit_events (logged ''one'')) (audit_events (logged ''two''))"
    by (simp add: logged_def same_public_event_def)
  moreover have "clock (logged ''one'') = clock (logged ''two'')" by (simp add: logged_def)
  moreover have "fl_detail_value everything = None" by (simp add: everything_def)
  ultimately have "fst (export_audit_events sample_env everything 10 (logged ''one'')) =
      fst (export_audit_events sample_env everything 10 (logged ''two''))"
    by (rule export_reveals_no_secret [THEN conjunct1])
  moreover have "\<exists>r. fst (export_audit_events sample_env everything 10 (logged ''one'')) = Inr r"
    by (simp add: export_audit_events_def Let_def ret_def AUDIT_EXPORT_MAX_LIMIT_def)
  ultimately show ?thesis by auto
qed

text \<open>
  Selecting by the value of a detail happens before the redaction, so whether an export is empty tells
  whether a redacted value was guessed.
\<close>

lemma export_confirms_a_guess:
  assumes "audit_events s = [ev]" "au_details ev = [(''token'', JStr secret)]"
    "f = \<lparr>fl_event_type = None, fl_entity_id = None, fl_actor = None, fl_detail_key = Some ''token'',
      fl_detail_value = Some guess, fl_created_after = None, fl_created_before = None\<rparr>"
  shows "(\<exists>r. fst (export_audit_events E f 1 s) = Inr r \<and> (xp_count r = 1 \<longleftrightarrow> guess = secret))"
  using assms by (simp add: export_audit_events_def Let_def ret_def AUDIT_EXPORT_MAX_LIMIT_def filter_audit_events_def
      matches_filter_def detail_matches_def py_str_def)

end
