(* ===== verification/DemoData.thy ===== *)
theory DemoData
  imports ApprovalRoutes Settings
begin

text \<open>
  \<open>demo_data.py\<close> and the seed route of \<open>main.py\<close>: deterministic data for demonstrations. The command line is
  left out.
\<close>

section \<open>Deterministic demo data\<close>

definition DEMO_PROJECT_ID :: string where "DEMO_PROJECT_ID = ''project_demo_aixion_control''"
definition DEMO_IDEA_ID :: string where "DEMO_IDEA_ID = ''idea_demo_mobile_approval''"
definition DEMO_WORK_ORDER_ID :: string where "DEMO_WORK_ORDER_ID = ''work_demo_mobile_approval''"
definition DEMO_APPROVAL_ID :: string where "DEMO_APPROVAL_ID = ''approval_demo_runtime_guard''"
definition DEMO_TEST_RUN_ID :: string where "DEMO_TEST_RUN_ID = ''test_demo_runtime_guard''"
definition DEMO_NOTIFICATION_ID :: string where "DEMO_NOTIFICATION_ID = ''notification_demo_runtime_guard''"
definition DEMO_AUDIT_EVENT_ID :: string where "DEMO_AUDIT_EVENT_ID = ''audit_demo_seeded''"
definition SAFE_RESET_PROFILES :: "string list" where "SAFE_RESET_PROFILES = [''demo'', ''test'']"

record DemoDataResult =
  ddr_action :: string
  ddr_profile :: string
  ddr_counts :: "(string, nat) dict"
  ddr_message :: string

definition demo_counts :: "sys \<Rightarrow> (string, nat) dict" where
  "demo_counts s =
     [(''projects'', length (projects s)), (''ideas'', length (ideas s)), (''work_orders'', length (work_orders s)),
      (''approval_requests'', length (approval_requests s)), (''test_runs'', length (test_runs s)),
      (''notifications'', length (notifications s)), (''audit_events'', length (audit_events s))]"

definition demo_reset_error :: "string \<Rightarrow> pyerror option" where
  "demo_reset_error profile =
     (if profile \<notin> set SAFE_RESET_PROFILES then
        Some (RuntimeError (''Demo reset is allowed only for profiles: '' @ py_join '', '' (sort SAFE_RESET_PROFILES) @
          ''. Current profile: '' @ profile))
      else None)"

definition demo_project :: "int \<Rightarrow> Project" where
  "demo_project now =
     \<lparr>proj_name = ''Aixion Demo Control Tower'',
      proj_description = ''Seeded demo project for mobile approval console validation.'', proj_mode = ProjectMode.STRICT,
      proj_rules =
        [''Mutating agent work requires mobile approval.'',
         ''Risky execution must include tests and rollback plan.'',
         ''Secrets must never be exposed in readiness or audit views.''],
      proj_id = DEMO_PROJECT_ID, proj_created_at = now\<rparr>"

definition demo_idea :: "int \<Rightarrow> Idea" where
  "demo_idea now =
     \<lparr>idea_project_id = Some DEMO_PROJECT_ID, idea_title = ''Add runtime guard visibility'',
      idea_raw_text = ''Expose backend readiness to the mobile operator before approving risky work.'',
      idea_id = DEMO_IDEA_ID, idea_created_at = now\<rparr>"

definition manual_work_order :: "WorkOrderCreate \<Rightarrow> string \<Rightarrow> RiskLevel \<Rightarrow> int \<Rightarrow> WorkOrder" where
  "manual_work_order payload i risk now =
     WorkOrderCreate.extend payload
       \<lparr>wo_id = i, wo_risk_level = risk, wo_source_type = WorkOrderSourceType.MANUAL,
        wo_source_provider = AgentProvider.MANUAL, wo_source_agent_id = None, wo_source_agent_name = None,
        wo_source_task_id = None, wo_source_session_id = None, wo_created_by_user_id = None,
        wo_verified_source = False, wo_created_at = now\<rparr>"

definition demo_work_order :: "int \<Rightarrow> WorkOrder" where
  "demo_work_order now =
     manual_work_order
       \<lparr>wo_project_id = DEMO_PROJECT_ID, wo_idea_id = Some DEMO_IDEA_ID,
        wo_goal = ''Validate mobile-controlled approval before backend execution.'',
        wo_context = ''This seeded work order shows why a human operator must approve risky agent work.'',
        wo_tasks =
          [''Inspect backend readiness.'', ''Review proposed file change.'',
           ''Confirm test plan and rollback plan.'', ''Approve or deny from Android.''],
        wo_affected_areas = [''backend/runtime'', ''android/operator-ui''],
        wo_required_tests = [''python -m pytest'', ''./gradlew test assembleDebug''],
        wo_rollback_plan = ''Reject the approval or revert the feature branch before execution.''\<rparr>
       DEMO_WORK_ORDER_ID RiskLevel.HIGH now"

definition demo_payload :: ApprovalRequestCreate where
  "demo_payload =
     \<lparr>appr_project_id = DEMO_PROJECT_ID, appr_work_order_id = Some DEMO_WORK_ORDER_ID,
      appr_title = ''Demo: approve runtime guard visibility'',
      appr_summary = ''Seeded approval request showing mobile review before risky backend/operator changes.'',
      appr_agent_name = ''demo-builder-agent'', appr_target_branch = ''feature/demo-runtime-guard'',
      appr_files =
        [\<lparr>fc_path = ''docs/demo/runtime-readiness.md'', fc_change_type = ''update'',
          fc_diff = ''+ Document runtime readiness checks for demo operator flow.'',
          fc_new_content = Some (''Runtime readiness must be checked before risky agent execution.'' @ [CHR 0x0A])\<rparr>],
      appr_test_plan = [''python -m pytest'', ''./gradlew test assembleDebug''],
      appr_rollback_plan = ''Deny the approval or revert demo-runtime-guard branch.'',
      appr_source_provider = None, appr_source_agent_id = None, appr_source_agent_name = None,
      appr_source_session_id = None, appr_source_task_url = None\<rparr>"

definition seeded_approval :: "ApprovalRequestCreate \<Rightarrow> string \<Rightarrow> string option \<Rightarrow> bool \<Rightarrow> int \<Rightarrow> ApprovalRequest" where
  "seeded_approval payload i creator verified now =
     ApprovalRequestCreate.extend (payload\<lparr>appr_source_provider := Some AgentProvider.MANUAL\<rparr>)
       \<lparr>appr_id = i, appr_status = ApprovalStatus.REQUESTED, appr_risk = assess_approval_request payload,
        appr_created_by_user_id = creator, appr_verified_source = verified, appr_approved_payload_hash = None,
        appr_approved_at = None, appr_approved_by_user_id = None, appr_created_at = now, appr_updated_at = now\<rparr>"

definition demo_approval :: "int \<Rightarrow> ApprovalRequest" where
  "demo_approval now = seeded_approval demo_payload DEMO_APPROVAL_ID (Some ''demo_seed'') True now"

definition demo_test_run :: "int \<Rightarrow> TestRun" where
  "demo_test_run now =
     \<lparr>tr_approval_request_id = DEMO_APPROVAL_ID, tr_command = ''python -m pytest && ./gradlew test assembleDebug'',
      tr_status = ''PENDING'', tr_output_summary = ''Seeded demo test evidence placeholder.'',
      tr_id = DEMO_TEST_RUN_ID, tr_created_at = now\<rparr>"

definition demo_notification :: "int \<Rightarrow> Notification" where
  "demo_notification now =
     \<lparr>note_id = DEMO_NOTIFICATION_ID, note_title = ''Demo approval ready'',
      note_body = ''A seeded runtime guard approval is waiting for mobile review.'',
      note_entity_type = ''approval_request'', note_entity_id = DEMO_APPROVAL_ID, note_user_id = None,
      note_status = NotificationStatus.UNREAD, note_push_status = ''PENDING'', note_push_error = None,
      note_created_at = now\<rparr>"

definition demo_audit :: "int \<Rightarrow> AuditEvent" where
  "demo_audit now =
     \<lparr>au_id = DEMO_AUDIT_EVENT_ID, au_event_type = ''demo.seeded'', au_actor = ''demo-seed'',
      au_entity_id = DEMO_PROJECT_ID,
      au_details = [(''project_id'', JStr DEMO_PROJECT_ID), (''approval_request_id'', JStr DEMO_APPROVAL_ID),
        (''safe_demo_data'', JBool True)], au_created_at = now\<rparr>"

definition put_demo :: "sys \<Rightarrow> sys" where
  "put_demo s =
     (let now = clock s;
          s = put_notification (demo_notification now) (put_test_run (demo_test_run now)
            (put_approval (demo_approval now) (put_work_order (demo_work_order now)
            (put_idea (demo_idea now) (put_project (demo_project now) s)))))
      in s\<lparr>audit_events := filter (\<lambda>ev. au_id ev \<noteq> DEMO_AUDIT_EVENT_ID) (audit_events s) @ [demo_audit now]\<rparr>)"

definition seed_demo_data :: "Settings \<Rightarrow> bool \<Rightarrow> sys \<Rightarrow> DemoDataResult result" where
  "seed_demo_data c force s =
     (case (if force then demo_reset_error (cfg_profile c) else None) of
        Some e \<Rightarrow> raise e s
      | None \<Rightarrow>
          let s = persist (put_demo (if force then reset s else s))
          in ret \<lparr>ddr_action = ''seed'', ddr_profile = cfg_profile c, ddr_counts = demo_counts s,
               ddr_message = ''Seeded deterministic demo data.''\<rparr> s)"

definition reset_demo_data :: "Settings \<Rightarrow> sys \<Rightarrow> DemoDataResult result" where
  "reset_demo_data c s =
     (case demo_reset_error (cfg_profile c) of
        Some e \<Rightarrow> raise e s
      | None \<Rightarrow>
          let s = reset s
          in ret \<lparr>ddr_action = ''reset'', ddr_profile = cfg_profile c, ddr_counts = demo_counts s,
               ddr_message = ''Reset demo/test data store.''\<rparr> s)"

section \<open>The seed route\<close>

text \<open>It does nothing when there is a project; the identifiers are drawn in the order of the constructors.\<close>

definition tradebot_project :: "string \<Rightarrow> int \<Rightarrow> Project" where
  "tradebot_project i now =
     \<lparr>proj_name = ''Tradebot'', proj_description = ''Options trading signal and execution control system.'',
      proj_mode = ProjectMode.STRICT,
      proj_rules = [''Execution changes require tests'', ''No direct main branch edits''],
      proj_id = i, proj_created_at = now\<rparr>"

definition mcp_shield_project :: "string \<Rightarrow> int \<Rightarrow> Project" where
  "mcp_shield_project i now =
     \<lparr>proj_name = ''MCP Shield'', proj_description = ''Policy, audit, and tool-call risk gateway.'',
      proj_mode = ProjectMode.STRICT,
      proj_rules = [''Policy changes require audit tests'', ''Auth changes require high-risk approval''],
      proj_id = i, proj_created_at = now\<rparr>"

definition stale_feed_idea :: "string \<Rightarrow> string \<Rightarrow> int \<Rightarrow> Idea" where
  "stale_feed_idea project i now =
     \<lparr>idea_project_id = Some project, idea_title = ''Improve stale feed handling'',
      idea_raw_text = ''Make sure stale market data never becomes executable.'',
      idea_id = i, idea_created_at = now\<rparr>"

definition stale_feed_order :: "string \<Rightarrow> string \<Rightarrow> string \<Rightarrow> int \<Rightarrow> WorkOrder" where
  "stale_feed_order project idea i now =
     manual_work_order
       \<lparr>wo_project_id = project, wo_idea_id = Some idea,
        wo_goal = ''Improve stale feed handling and execution gating.'',
        wo_context = ''Tradebot execution changes are critical and require evidence before approval.'',
        wo_tasks = [''Inspect feed freshness'', ''Update execution gate'', ''Add regression tests''],
        wo_affected_areas = [''core/feed'', ''core/execution''],
        wo_required_tests = [''pytest tests/test_execution_gate.py''],
        wo_rollback_plan = ''Revert feature branch commit and rerun execution regression tests.''\<rparr>
       i RiskLevel.CRITICAL now"

definition stale_guard_code :: string where
  "stale_guard_code =
     ''return ExecutionDecision(allowed=False, reason='' @ [CHR 0x22] @ ''STALE_LTP_BLOCK'' @ [CHR 0x22] @ '')''"

definition stale_guard_payload :: "string \<Rightarrow> string \<Rightarrow> ApprovalRequestCreate" where
  "stale_guard_payload project order =
     \<lparr>appr_project_id = project, appr_work_order_id = Some order, appr_title = ''Update stale LTP execution guard'',
      appr_summary = ''Blocks stale market data from becoming executable trades.'',
      appr_agent_name = ''builder-agent'', appr_target_branch = ''feature/stale-ltp-guard'',
      appr_files =
        [\<lparr>fc_path = ''core/execution_gate.py'', fc_change_type = ''update'',
          fc_diff = ''+ if stale_ltp:'' @ [CHR 0x0A] @ ''+     '' @ stale_guard_code,
          fc_new_content = Some (''if stale_ltp:'' @ [CHR 0x0A] @ ''    '' @ stale_guard_code @ [CHR 0x0A])\<rparr>],
      appr_test_plan = [''pytest tests/test_execution_gate.py''],
      appr_rollback_plan = ''Revert the feature branch commit and rerun execution regression tests.'',
      appr_source_provider = None, appr_source_agent_id = None, appr_source_agent_name = None,
      appr_source_session_id = None, appr_source_task_url = None\<rparr>"

definition store_counts :: "sys \<Rightarrow> (string, nat) dict" where
  "store_counts s =
     [(''users'', length (users s)), (''sessions'', length (sessions s)), (''invites'', length (invites s)),
      (''agents'', length (external_agents s)), (''connectors'', length (agent_connectors s)),
      (''devices'', length (device_registrations s)), (''agent_tasks'', length (agent_tasks s)),
      (''agent_runs'', length (agent_runs s)), (''capability_leases'', length (capability_leases s)),
      (''proposed_actions'', length (proposed_actions s)), (''policy_decisions'', length (policy_decisions s)),
      (''trust_events'', length (trust_events s)), (''projects'', length (projects s)), (''ideas'', length (ideas s)),
      (''work_orders'', length (work_orders s)), (''approvals'', length (approval_requests s)),
      (''test_runs'', length (test_runs s)), (''notifications'', length (notifications s)),
      (''audit_events'', length (audit_events s))]"

definition seed_route :: "env \<Rightarrow> push_service \<Rightarrow> sys \<Rightarrow> (string, nat) dict \<times> sys" where
  "seed_route E F s =
     (if projects s \<noteq> [] then (store_counts s, s)
      else
        let tradebot = new_id E ''project'' s; s = drawn s;
            mcp = new_id E ''project'' s;
            s = put_project (mcp_shield_project mcp (clock s))
              (put_project (tradebot_project tradebot (clock s)) (drawn s));
            idea = new_id E ''idea'' s; s = put_idea (stale_feed_idea tradebot idea (clock s)) (drawn s);
            order = new_id E ''work'' s;
            s = put_work_order (stale_feed_order tradebot idea order (clock s)) (drawn s);
            approval = new_id E ''approval'' s;
            s = put_approval (seeded_approval (stale_guard_payload tradebot order) approval None False (clock s)) (drawn s);
            test = new_id E ''test'' s;
            s = put_test_run \<lparr>tr_approval_request_id = approval, tr_command = ''pytest tests/test_execution_gate.py'',
                  tr_status = ''PENDING'', tr_output_summary = ''Seeded test evidence placeholder.'',
                  tr_id = test, tr_created_at = clock s\<rparr> (drawn s);
            (n, s) = create_notification E F ''Approval needed: stale LTP guard''
              ''Tradebot has a critical approval request waiting for review.'' ''approval_request'' approval None s;
            s = add_audit E ''demo.seeded'' tradebot
              [(''projects'', json_strs [''Tradebot'', ''MCP Shield''])] ''system'' s;
        s = persist s
        in (store_counts s, s))"

section \<open>Lemmas\<close>

text \<open>Nothing is wiped outside of the demo and test profiles.\<close>

lemma demo_wipes_demo_profiles_only:
  assumes "cfg_profile c \<notin> set SAFE_RESET_PROFILES"
  shows "(\<exists>e. reset_demo_data c s = (Inl e, s)) \<and> (\<exists>e. seed_demo_data c True s = (Inl e, s))"
  using assms by (simp add: reset_demo_data_def seed_demo_data_def demo_reset_error_def raise_def)

text \<open>Seeding again changes nothing but the times: the collections have the same keys.\<close>

lemma seed_keys:
  "map fst (dict_set k v (dict_set k u d)) = map fst (dict_set k u d)"
  by (simp add: fst_dict_set dict_get_None_iff [symmetric])

lemma seeding_twice:
  "demo_counts (put_demo (put_demo s)) = demo_counts (put_demo s)"
  by (simp add: demo_counts_def put_demo_def put_notification_def put_test_run_def put_approval_def
      put_work_order_def put_idea_def put_project_def demo_notification_def demo_test_run_def demo_approval_def
      seeded_approval_def demo_work_order_def manual_work_order_def demo_idea_def demo_project_def dict_set_set
      demo_audit_def Let_def ApprovalRequestCreate.defs WorkOrderCreate.defs)

end
