(* ===== verification/ReleaseValidation.thy ===== *)
theory ReleaseValidation
  imports Operations AuditRoutes DemoData
begin

text \<open>
  \<open>release_validation.py\<close> and \<open>release_demo_evidence.py\<close>: the summary on which a release of the backend is
  decided, and the evidence of the demo run in it, which is read back from the report that
  \<open>demo_smoke_validation.py\<close> renders. Of the files of the repository only their texts matter.
\<close>

section \<open>The report of the smoke run\<close>

record SmokeCheck =
  sck_name :: string
  sck_passed :: bool
  sck_detail :: string

record SmokeValidationSummary =
  smoke_base_url :: string
  smoke_generated_at :: int
  smoke_checks :: "SmokeCheck list"

definition smoke_passed :: "SmokeValidationSummary \<Rightarrow> bool" where
  "smoke_passed summary = list_all sck_passed (smoke_checks summary)"

definition failed_checks :: "SmokeValidationSummary \<Rightarrow> SmokeCheck list" where
  "failed_checks summary = filter (\<lambda>c. \<not> sck_passed c) (smoke_checks summary)"

text \<open>Lines of a text, and a text in backticks.\<close>

definition newline :: string where "newline = [CHR 0x0A]"

definition in_ticks :: "string \<Rightarrow> string" where "in_ticks t = [CHR 0x60] @ t @ [CHR 0x60]"

definition check_row :: "SmokeCheck \<Rightarrow> string" where
  "check_row c =
     ''| '' @ sck_name c @ '' | '' @ (if sck_passed c then ''PASS'' else ''FAIL'') @ '' | '' @ sck_detail c @ '' |''"

definition smoke_decision :: "SmokeValidationSummary \<Rightarrow> string" where
  "smoke_decision summary = (if smoke_passed summary then ''PASS'' else ''FAIL'')"

definition smoke_head :: "env \<Rightarrow> SmokeValidationSummary \<Rightarrow> string" where
  "smoke_head E summary =
     py_join newline
       [''# Backend Demo Smoke Validation Summary'', [],
        ''Generated at: '' @ in_ticks (time_text E (smoke_generated_at summary)), [],
        ''Base URL: '' @ in_ticks (smoke_base_url summary), [], []]"

definition smoke_tail :: "SmokeValidationSummary \<Rightarrow> string" where
  "smoke_tail summary =
     py_join newline
       [[], [], ''| Check | Result | Detail |'', ''| --- | --- | --- |'',
        py_join newline (map check_row (smoke_checks summary)), [],
        ''## Operator note'', [],
        ''This smoke summary proves the core demo API flow responds end-to-end. It does not replace full CI,'',
        ''manual release review, Android validation, incident runbooks, production monitoring, or database backups.'',
        []]"

definition render_smoke_summary_markdown :: "env \<Rightarrow> SmokeValidationSummary \<Rightarrow> string" where
  "render_smoke_summary_markdown E summary =
     smoke_head E summary @ (''Smoke decision: **'' @ smoke_decision summary @ ''**'') @ smoke_tail summary"

section \<open>Evidence of the demo\<close>

definition DEFAULT_SMOKE_REPORT_PATH :: string where
  "DEFAULT_SMOKE_REPORT_PATH = ''docs/release_reports/backend_demo_smoke_summary.md''"

definition DEMO_DATA_DOC_PATH :: string where "DEMO_DATA_DOC_PATH = ''docs/DEMO_DATA_SEEDING.md''"
definition DEMO_SMOKE_DOC_PATH :: string where "DEMO_SMOKE_DOC_PATH = ''docs/DEMO_SMOKE_VALIDATION.md''"
definition DEMO_READINESS_RUNBOOK_PATH :: string where "DEMO_READINESS_RUNBOOK_PATH = ''docs/DEMO_READINESS_RUNBOOK.md''"
definition KNOWN_LIMITATIONS_PATH :: string where "KNOWN_LIMITATIONS_PATH = ''docs/KNOWN_LIMITATIONS.md''"

definition DEMO_DOCUMENTS :: "string list" where
  "DEMO_DOCUMENTS = [DEMO_DATA_DOC_PATH, DEMO_SMOKE_DOC_PATH, DEMO_READINESS_RUNBOOK_PATH, KNOWN_LIMITATIONS_PATH]"

record DemoReleaseEvidence =
  dre_seed_available :: bool
  dre_seed_project_id :: string
  dre_seed_approval_id :: string
  dre_seed_doc_path :: string
  dre_report_path :: string
  dre_report_available :: bool
  dre_report_decision :: "string option"
  dre_smoke_doc_path :: string
  dre_runbook_path :: string
  dre_limitations_path :: string
  dre_warnings :: "string list"

text \<open>The texts of the files of the repository, by their path from its root.\<close>

type_synonym files = "string \<Rightarrow> string option"

definition smoke_report_decision :: "files \<Rightarrow> string option" where
  "smoke_report_decision files =
     (case files DEFAULT_SMOKE_REPORT_PATH of
        None \<Rightarrow> None
      | Some content \<Rightarrow>
          Some (if py_in ''Smoke decision: **PASS**'' content then ''PASS''
            else if py_in ''Smoke decision: **FAIL**'' content then ''FAIL''
            else ''UNKNOWN''))"

definition build_demo_release_evidence :: "files \<Rightarrow> DemoReleaseEvidence" where
  "build_demo_release_evidence files =
     (let decision = smoke_report_decision files in
      \<lparr>dre_seed_available = True, dre_seed_project_id = DEMO_PROJECT_ID, dre_seed_approval_id = DEMO_APPROVAL_ID,
       dre_seed_doc_path = DEMO_DATA_DOC_PATH, dre_report_path = DEFAULT_SMOKE_REPORT_PATH,
       dre_report_available = (decision \<noteq> None), dre_report_decision = decision,
       dre_smoke_doc_path = DEMO_SMOKE_DOC_PATH, dre_runbook_path = DEMO_READINESS_RUNBOOK_PATH,
       dre_limitations_path = KNOWN_LIMITATIONS_PATH,
       dre_warnings =
         (case decision of
            None \<Rightarrow> [''Demo smoke report not found; run scripts/run_demo_smoke_validation.py before demo sign-off.'']
          | Some d \<Rightarrow>
              if d = ''PASS'' then []
              else [''Demo smoke report decision is '' @ d @ ''; review before demo sign-off.'']) @
         map (\<lambda>path. ''Demo/release documentation missing: '' @ path)
           (filter (\<lambda>path. files path = None) DEMO_DOCUMENTS)\<rparr>)"

section \<open>Reading the report back\<close>

lemma py_in_skip: "c \<notin> set u \<Longrightarrow> py_in (c # p) (u @ v) = py_in (c # p) v"
  by (induction u) auto

lemma py_in_suffix: "py_in (p @ q) s \<Longrightarrow> py_in q s"
  by (auto simp: py_in_iff) (metis append.assoc)

lemma py_in_earlier: "py_in m u \<Longrightarrow> py_in m (u @ v)"
  by (simp only: py_in_iff) (elim exE, simp, metis append.assoc)

lemma py_in_later: "py_in m v \<Longrightarrow> py_in m (u @ v)"
  by (simp only: py_in_iff) (elim exE, simp, metis append.assoc)

lemma py_in_join: "py_in m x \<Longrightarrow> x \<in> set xs \<Longrightarrow> py_in m (py_join d xs)"
  by (induction d xs rule: py_join.induct) (auto intro: py_in_earlier py_in_later)

lemma no_star_startswith: "CHR ''*'' \<notin> set v \<Longrightarrow> py_startswith v p \<Longrightarrow> CHR ''*'' \<notin> set p"
  by (auto simp: py_startswith_iff)

lemma py_join_star: "c \<notin> set d \<Longrightarrow> list_all (\<lambda>x. c \<notin> set x) xs \<Longrightarrow> c \<notin> set (py_join d xs)"
  by (induction d xs rule: py_join.induct) auto

lemma failed_report:
  assumes "CHR ''*'' \<notin> set u" "CHR ''*'' \<notin> set v"
  shows "\<not> py_in ''Smoke decision: **PASS**'' (u @ (''Smoke decision: **FAIL**'') @ v)"
proof
  assume "py_in ''Smoke decision: **PASS**'' (u @ ''Smoke decision: **FAIL**'' @ v)"
  then have "py_in (''Smoke decision: '' @ ''**PASS**'') ((u @ ''Smoke decision: '') @ ''**FAIL**'' @ v)" by simp
  then have "py_in ''**PASS**'' ((u @ ''Smoke decision: '') @ ''**FAIL**'' @ v)" by (rule py_in_suffix)
  then have "py_in ''**PASS**'' (''**FAIL**'' @ v)"
    by (subst (asm) py_in_skip) (use assms(1) in auto)
  moreover have "\<not> py_startswith v ''PASS**''" "\<not> py_startswith v ''*PASS**''"
    using no_star_startswith [OF assms(2), of "''PASS**''"] no_star_startswith [OF assms(2), of "''*PASS**''"] by auto
  moreover have "\<not> py_in ''**PASS**'' v" using assms(2) by (auto simp: py_in_iff)
  ultimately show False by simp
qed

definition starless :: "env \<Rightarrow> SmokeValidationSummary \<Rightarrow> bool" where
  "starless E summary \<longleftrightarrow>
     list_all (\<lambda>t. CHR ''*'' \<notin> set t)
       (time_text E (smoke_generated_at summary) # smoke_base_url summary #
        map sck_name (smoke_checks summary) @ map sck_detail (smoke_checks summary))"

lemma starless_head: "starless E summary \<Longrightarrow> CHR ''*'' \<notin> set (smoke_head E summary)"
  unfolding smoke_head_def by (rule py_join_star) (auto simp: starless_def newline_def in_ticks_def)

lemma starless_tail: "starless E summary \<Longrightarrow> CHR ''*'' \<notin> set (smoke_tail summary)"
proof -
  assume s: "starless E summary"
  have "CHR ''*'' \<notin> set (py_join newline (map check_row (smoke_checks summary)))"
    by (rule py_join_star) (use s in \<open>auto simp: starless_def newline_def list_all_iff check_row_def\<close>)
  moreover have "CHR ''*'' \<notin> set newline" by (simp add: newline_def)
  ultimately show ?thesis unfolding smoke_tail_def by (intro py_join_star) simp_all
qed

text \<open>
  The evidence of a release says what the smoke run found: when the report that the run rendered is the
  one in the repository and its texts have no asterisk, the decision read back is PASS if every check passed
  and FAIL otherwise, and without a warning about it exactly if every check passed.
\<close>

theorem smoke_report_reads_back:
  assumes "files DEFAULT_SMOKE_REPORT_PATH = Some (render_smoke_summary_markdown E summary)" "starless E summary"
  shows "dre_report_decision (build_demo_release_evidence files) = Some (if failed_checks summary = [] then ''PASS'' else ''FAIL'') \<and>
    (list_all (\<lambda>path. files path \<noteq> None) DEMO_DOCUMENTS \<longrightarrow>
      (dre_warnings (build_demo_release_evidence files) = [] \<longleftrightarrow> failed_checks summary = []))"
proof -
  have f: "failed_checks summary = [] \<longleftrightarrow> smoke_passed summary"
    by (auto simp: failed_checks_def smoke_passed_def filter_empty_conv list_all_iff)
  have "smoke_report_decision files = Some (if smoke_passed summary then ''PASS'' else ''FAIL'')"
  proof (cases "smoke_passed summary")
    case True
    have "py_in ''Smoke decision: **PASS**'' (render_smoke_summary_markdown E summary)"
      unfolding py_in_iff render_smoke_summary_markdown_def smoke_decision_def using True
      by (intro exI [of _ "smoke_head E summary"] exI [of _ "smoke_tail summary"]) simp
    with True show ?thesis by (simp add: smoke_report_decision_def assms(1))
  next
    case False
    have "py_in ''Smoke decision: **FAIL**'' (render_smoke_summary_markdown E summary)"
      unfolding py_in_iff render_smoke_summary_markdown_def smoke_decision_def using False
      by (intro exI [of _ "smoke_head E summary"] exI [of _ "smoke_tail summary"]) simp
    moreover have "\<not> py_in ''Smoke decision: **PASS**'' (render_smoke_summary_markdown E summary)"
      using failed_report [OF starless_head starless_tail, OF assms(2) assms(2)] False
      by (simp add: render_smoke_summary_markdown_def smoke_decision_def)
    ultimately show ?thesis using False by (simp add: smoke_report_decision_def assms(1))
  qed
  then show ?thesis
    using f by (auto simp: build_demo_release_evidence_def Let_def list_all_iff filter_empty_conv)
qed

definition failed_run :: SmokeValidationSummary where
  "failed_run = \<lparr>smoke_base_url = ''http://127.0.0.1:8000'', smoke_generated_at = 0,
     smoke_checks = [\<lparr>sck_name = ''health'', sck_passed = False, sck_detail = ''HTTP 503: {}''\<rparr>]\<rparr>"

lemma smoke_report_reads_back_witness:
  "dre_report_decision (build_demo_release_evidence
     (\<lambda>path. Some (render_smoke_summary_markdown (sample_env\<lparr>time_text := \<lambda>_. ''now''\<rparr>) failed_run))) = Some ''FAIL''"
  using smoke_report_reads_back [of "\<lambda>path. Some (render_smoke_summary_markdown (sample_env\<lparr>time_text := \<lambda>_. ''now''\<rparr>) failed_run)"
      "sample_env\<lparr>time_text := \<lambda>_. ''now''\<rparr>" failed_run]
  by (simp add: starless_def failed_run_def failed_checks_def)

text \<open>
  The texts matter: the detail of a failed check is what the server answered, and an answer with the words
  of a passed report in it makes a failed report read as passed.
\<close>

lemma failed_report_reads_as_passed:
  assumes "sck_detail c = ''Smoke decision: **PASS**''" "c \<in> set (smoke_checks summary)"
    "files DEFAULT_SMOKE_REPORT_PATH = Some (render_smoke_summary_markdown E summary)"
  shows "smoke_report_decision files = Some ''PASS''"
proof -
  have row: "py_in ''Smoke decision: **PASS**'' (check_row c)"
    unfolding py_in_iff check_row_def assms(1)
    by (intro exI [of _ "''| '' @ sck_name c @ '' | '' @ (if sck_passed c then ''PASS'' else ''FAIL'') @ '' | ''"] exI [of _ "'' |''"]) simp
  have "py_in ''Smoke decision: **PASS**'' (smoke_tail summary)"
    unfolding smoke_tail_def
    by (rule py_in_join [OF py_in_join [OF row, of "map check_row (smoke_checks summary)" newline]]) (use assms(2) in auto)
  then have "py_in ''Smoke decision: **PASS**'' (render_smoke_summary_markdown E summary)"
    unfolding render_smoke_summary_markdown_def by (intro py_in_later)
  then show ?thesis by (simp add: smoke_report_decision_def assms(3))
qed

section \<open>The release summary\<close>

record BackendReleaseValidationSummary =
  rel_generated_at :: int
  rel_decision :: string
  rel_profile :: string
  rel_auth_enabled :: bool
  rel_readiness_status :: string
  rel_db_reachable :: bool
  rel_migrations_applied :: bool
  rel_expected_migration_ids :: "string list"
  rel_applied_migration_ids :: "string list"
  rel_recovery_snapshot_available :: bool
  rel_recovery_format_version :: string
  rel_recovery_snapshot_valid :: bool
  rel_recovery_warnings :: "string list"
  rel_recovery_errors :: "string list"
  rel_audit_retention_policy_version :: string
  rel_audit_online_retention_days :: nat
  rel_audit_archive_retention_days :: nat
  rel_audit_deletion_job_enabled :: bool
  rel_audit_export_max_limit :: nat
  rel_demo_evidence :: DemoReleaseEvidence
  rel_github_token_configured :: bool
  rel_fcm_server_key_configured :: bool
  rel_warnings :: "string list"
  rel_errors :: "string list"

text \<open>The snapshot is exported again here; when the database cannot be reached, that raises.\<close>

definition build_backend_release_validation_summary ::
    "env \<Rightarrow> pydantic \<Rightarrow> files \<Rightarrow> Settings \<Rightarrow> probed \<Rightarrow> sys \<Rightarrow> string + BackendReleaseValidationSummary" where
  "build_backend_release_validation_summary E M files c db s =
     (let readiness = build_runtime_readiness E M c db s;
          policy = retention_policy;
          evidence = build_demo_release_evidence files
      in case db of
           Inl text \<Rightarrow> Inl text
         | Inr d \<Rightarrow>
             let recovery = validate_recovery_snapshot M (export_recovery_snapshot M d s);
                 errors = rr_errors readiness @ rv_errors recovery;
                 warnings = rr_warnings readiness @ rv_warnings recovery @ dre_warnings evidence
             in Inr \<lparr>rel_generated_at = clock s,
                  rel_decision =
                    (if rr_status readiness = ''ready'' \<and> rv_valid recovery \<and> errors = []
                     then ''PASS'' else ''REVIEW_REQUIRED''),
                  rel_profile = cfg_profile c, rel_auth_enabled = cfg_auth_enabled c,
                  rel_readiness_status = rr_status readiness, rel_db_reachable = rr_db_reachable readiness,
                  rel_migrations_applied = rr_migrations_applied readiness,
                  rel_expected_migration_ids = rr_expected_migration_ids readiness,
                  rel_applied_migration_ids = rr_applied_migration_ids readiness,
                  rel_recovery_snapshot_available = rr_recovery_snapshot_available readiness,
                  rel_recovery_format_version = RECOVERY_FORMAT_VERSION,
                  rel_recovery_snapshot_valid = rv_valid recovery,
                  rel_recovery_warnings = rv_warnings recovery, rel_recovery_errors = rv_errors recovery,
                  rel_audit_retention_policy_version = rp_policy_version policy,
                  rel_audit_online_retention_days = rp_online_days policy,
                  rel_audit_archive_retention_days = rp_archive_days policy,
                  rel_audit_deletion_job_enabled = rp_deletion_job_enabled policy,
                  rel_audit_export_max_limit = AUDIT_EXPORT_MAX_LIMIT, rel_demo_evidence = evidence,
                  rel_github_token_configured = rr_github_token_configured readiness,
                  rel_fcm_server_key_configured = rr_fcm_server_key_configured readiness,
                  rel_warnings = warnings, rel_errors = errors\<rparr>)"

definition markdown_list :: "string list \<Rightarrow> string" where
  "markdown_list values =
     (if values = [] then ''- none'' else py_join newline (map (\<lambda>v. ''- '' @ v) values))"

definition markdown_code_list :: "string list \<Rightarrow> string" where
  "markdown_code_list values =
     (if values = [] then ''- none'' else py_join newline (map (\<lambda>v. ''- '' @ in_ticks v) values))"

definition bool_text :: "bool \<Rightarrow> string" where
  "bool_text b = (if b then ''True'' else ''False'')"

text \<open>An item of a report: a label and a value in backticks.\<close>

definition item :: "string \<Rightarrow> string \<Rightarrow> string" where
  "item label v = ''- '' @ label @ '': '' @ in_ticks v"

definition report_readiness :: "BackendReleaseValidationSummary \<Rightarrow> string list" where
  "report_readiness r =
     [''## Runtime readiness'', [],
      item ''Profile'' (rel_profile r), item ''Auth enabled'' (bool_text (rel_auth_enabled r)),
      item ''Readiness status'' (rel_readiness_status r),
      item ''Database reachable'' (bool_text (rel_db_reachable r)),
      item ''GitHub token configured'' (bool_text (rel_github_token_configured r)),
      item ''FCM server key configured'' (bool_text (rel_fcm_server_key_configured r)), [],
      ''## Database migrations'', [],
      item ''Migrations applied'' (bool_text (rel_migrations_applied r)), [],
      ''Expected migrations:'', [], markdown_code_list (rel_expected_migration_ids r), [],
      ''Applied migrations:'', [], markdown_code_list (rel_applied_migration_ids r), []]"

definition report_recovery :: "BackendReleaseValidationSummary \<Rightarrow> string list" where
  "report_recovery r =
     [''## Recovery snapshot validation'', [],
      item ''Recovery snapshot available'' (bool_text (rel_recovery_snapshot_available r)),
      item ''Recovery format version'' (rel_recovery_format_version r),
      item ''Recovery snapshot valid'' (bool_text (rel_recovery_snapshot_valid r)), [],
      ''Recovery warnings:'', [], markdown_list (rel_recovery_warnings r), [],
      ''Recovery errors:'', [], markdown_list (rel_recovery_errors r), []]"

definition report_audit :: "BackendReleaseValidationSummary \<Rightarrow> string list" where
  "report_audit r =
     [''## Audit export and retention'', [],
      item ''Retention policy version'' (rel_audit_retention_policy_version r),
      item ''Recommended online retention days'' (int_str (int (rel_audit_online_retention_days r))),
      item ''Recommended archive retention days'' (int_str (int (rel_audit_archive_retention_days r))),
      item ''Audit deletion job enabled'' (bool_text (rel_audit_deletion_job_enabled r)),
      item ''Audit export max limit'' (int_str (int (rel_audit_export_max_limit r))), []]"

definition report_demo :: "BackendReleaseValidationSummary \<Rightarrow> string list" where
  "report_demo r =
     (let evidence = rel_demo_evidence r in
      [''## Demo readiness evidence'', [],
       item ''Demo seed tooling available'' (bool_text (dre_seed_available evidence)),
       item ''Demo seed project id'' (dre_seed_project_id evidence),
       item ''Demo seed approval id'' (dre_seed_approval_id evidence),
       item ''Demo seed docs'' (dre_seed_doc_path evidence),
       item ''Demo smoke report path'' (dre_report_path evidence),
       item ''Demo smoke report available'' (bool_text (dre_report_available evidence)),
       item ''Demo smoke report decision'' (str_or (opt_str (dre_report_decision evidence)) ''not available''),
       item ''Demo smoke docs'' (dre_smoke_doc_path evidence),
       item ''Demo readiness runbook'' (dre_runbook_path evidence),
       item ''Known limitations'' (dre_limitations_path evidence), []])"

definition render_backend_release_validation_markdown :: "env \<Rightarrow> BackendReleaseValidationSummary \<Rightarrow> string" where
  "render_backend_release_validation_markdown E r =
     py_join newline
       ([''# Backend Release Validation Summary'', [],
         ''Generated at: '' @ in_ticks (time_text E (rel_generated_at r)), [],
         ''Release decision: **'' @ rel_decision r @ ''**'', []] @
        report_readiness r @ report_recovery r @ report_audit r @ report_demo r @
        [''## Overall warnings'', [], markdown_list (rel_warnings r), [],
         ''## Overall errors'', [], markdown_list (rel_errors r), [],
         ''## Operator note'', [],
         ''This report is a release validation summary, not a deployment artifact. It does not replace CI,'',
         ''manual release review, incident runbooks, database backups, or production monitoring.'', []])"

section \<open>When a release passes\<close>

lemma missing_migrations_iff:
  "missing_migrations d = [] \<longleftrightarrow> set known_migration_ids \<subseteq> set (map mg_migration_id (migration_rows d))"
  by (auto simp: missing_migrations_def filter_empty_conv get_applied_migrations_def)

text \<open>
  A release passes exactly when the backend is fit: the database is there and has every known
  migration, the flight recorder verifies, the settings have no error and, in production, trust enforcement
  and a signing key, and the snapshot validates. A PASS reports no error.
\<close>

theorem release_decision_is_exact:
  "(\<exists>r. build_backend_release_validation_summary E M files c db s = Inr r \<and> rel_decision r = ''PASS'') \<longleftrightarrow>
   (\<exists>d. db = Inr d \<and> set known_migration_ids \<subseteq> set (map mg_migration_id (migration_rows d)) \<and>
     frv_valid (verify_flight_recorder E s) \<and> cfg_validation_errors c = [] \<and> guard_errors c = [] \<and>
     rv_valid (validate_recovery_snapshot M (export_recovery_snapshot M d s)))"
  by (cases db) (auto simp: build_backend_release_validation_summary_def build_runtime_readiness_def Let_def
      snapshot_available_def migrations_applied_def database_errors_def missing_migrations_iff
      validate_recovery_snapshot_def export_recovery_snapshot_def)

text \<open>
  A backend that came up is ready and releasable. When the startup check accepted the environment, the
  migrations ran, the trust plane is in a reachable state and pydantic accepts its own dumps, then the
  readiness probe says ready and the release validation says PASS, at every later point.
\<close>

theorem started_backend_is_releasable:
  assumes "validate_startup_environment environ = Inr c" "run_migrations now d0 = (Inr (), d)"
    "trust_reachable E s" "accepts_dumps M"
  shows "rr_status (build_runtime_readiness E M c (Inr d) s) = ''ready'' \<and>
    (\<exists>r. build_backend_release_validation_summary E M files c (Inr d) s = Inr r \<and> rel_decision r = ''PASS'' \<and> rel_errors r = [])"
proof -
  have c: "cfg_validation_errors c = []" "get_settings environ = Inr c"
    using assms(1) by (auto simp: validate_startup_environment_def sum_then_def split: sum.splits if_splits)
  have g: "guard_errors c = []"
  proof (cases "is_production c")
    case True
    then have "production_validation_errors environ (c\<lparr>cfg_validation_errors := []\<rparr>) = []"
      using get_settings_read [OF c(2)] c(1) by simp
    with True get_settings_read [OF c(2)] show ?thesis
      by (auto simp: production_validation_errors_def is_production_def Let_def guard_errors_def filter_empty_conv
          REQUIRED_PRODUCTION_ENV_VARS_def simp flip: set_empty split: if_splits)
  qed (simp add: guard_errors_def)
  have m: "missing_migrations d = []"
    using run_migrations_ids [OF assms(2)] by (simp only: missing_migrations_iff)
  have f: "frv_valid (verify_flight_recorder E s)"
    using trust_reachable_ok(2) [OF assms(3)] by (simp add: verify_iff)
  note v = exported_snapshot_errors [OF assms(4), of d s]
  show ?thesis
    using c(1) g m f v
    by (simp add: build_backend_release_validation_summary_def build_runtime_readiness_def Let_def
        snapshot_available_def migrations_applied_def database_errors_def validate_recovery_snapshot_def)
      (simp add: export_recovery_snapshot_def)
qed

lemma started_backend_is_releasable_witness:
  "\<exists>c d. rr_status (build_runtime_readiness sample_env trusting_pydantic c (Inr d) sample_lease_sys) = ''ready''"
proof -
  have "case validate_startup_environment [] of Inr c \<Rightarrow> True | Inl _ \<Rightarrow> False" by code_simp
  then obtain c where c: "validate_startup_environment [] = Inr c" by (auto split: sum.splits)
  obtain d where d: "run_migrations ''now'' \<lparr>sch_migrations = None, sch_kv_store = False\<rparr> = (Inr (), d)"
    by (simp add: run_migrations_unfold migration_rows_def ret_def)
  from started_backend_is_releasable [OF c d sample_reachable trusting_pydantic_accepts, of "\<lambda>_. None"]
  show ?thesis by blast
qed

end
