(* ===== verification/WorkerCommon.thy ===== *)
theory WorkerCommon
  imports WorkerClaims
begin

text \<open>
  What the workers of \<open>agent_worker_*.py\<close> share: taking a task, the end of a worker (audit, release of
  the lease, persisting), and the outside world as the workers see it. Every worker module repeats
  \<open>_audit\<close>, \<open>_release_task\<close> and \<open>_linked_approval\<close>; they are written once here.
\<close>

section \<open>Taking and releasing a task\<close>

definition take_task :: "env \<Rightarrow> string option \<Rightarrow> bool \<Rightarrow> string \<Rightarrow> int \<Rightarrow> sys \<Rightarrow> AgentWorkerClaimResult \<times> sys" where
  "take_task E tid first_approved worker_id lease_seconds s =
     (if first_approved \<and> \<not> truthy tid
      then claim_first_approved_agent_task_for_worker E worker_id lease_seconds s
      else claim_agent_task_for_worker E (opt_str tid) worker_id lease_seconds s)"

definition PROVIDE_TASK :: string where
  "PROVIDE_TASK = ''Provide task_id or set first_approved=true.''"

definition lease_details :: "string \<Rightarrow> string option \<Rightarrow> jdict" where
  "lease_details worker_id lease_token =
     [(''worker_id'', JStr worker_id), (''lease_token'', json_opt_str lease_token)]"

definition release_task :: "env \<Rightarrow> AgentTask \<Rightarrow> string option \<Rightarrow> string \<Rightarrow> sys \<Rightarrow> AgentTask \<times> sys" where
  "release_task E task lease_token worker_id s =
     (if truthy lease_token \<and> task_worker_lease_token task \<noteq> lease_token then
        (task, add_audit E ''agent_worker.lease_release_skipped'' (task_id task)
           (lease_details worker_id lease_token @
              [(''current_lease_token'', json_opt_str (task_worker_lease_token task))]) worker_id s)
      else
        let task = task\<lparr>task_worker_lease_owner := None, task_worker_lease_expires_at := None,
              task_worker_lease_token := None, task_updated_at := clock s\<rparr>
        in (task, add_audit E ''agent_worker.task_released'' (task_id task)
              (lease_details worker_id lease_token) worker_id (put_task task s)))"

definition linked_approval :: "AgentTask \<Rightarrow> sys \<Rightarrow> ApprovalRequest option" where
  "linked_approval task s =
     (if \<not> truthy (task_approval_request_id task) then None
      else dict_get (approval_requests s) (opt_str (task_approval_request_id task)))"

text \<open>The end of every worker: what it did is audited, the lease released and the store saved.\<close>

definition close_worker ::
    "env \<Rightarrow> string \<Rightarrow> jdict \<Rightarrow> AgentTask \<Rightarrow> string option \<Rightarrow> string \<Rightarrow> sys \<Rightarrow> AgentTask \<times> sys" where
  "close_worker E event details task lease_token worker_id s =
     (let s = add_audit E event (task_id task) details worker_id s;
          (task, s) = release_task E task lease_token worker_id s
      in (task, persist s))"

text \<open>An event of the task with the status it has.\<close>

definition worker_note ::
    "env \<Rightarrow> AgentTask \<Rightarrow> AgentTaskEventType \<Rightarrow> string \<Rightarrow> string \<Rightarrow> jdict \<Rightarrow> sys \<Rightarrow> AgentTaskEvent \<times> sys" where
  "worker_note E task event_type message worker_id metadata s =
     (let ev = new_task_event E task event_type message (Some (task_status task)) worker_id metadata s
      in (ev, put_task_event ev (drawn s)))"

section \<open>The outside world\<close>

text \<open>
  The workers talk to GitHub over HTTP and start processes. What they have asked so far is a list, the
  latest last; the answers are parameters that may depend on all of it. A request that fails has the
  text of the exception, and so has a body that is not JSON.
\<close>

record HttpRequest =
  rq_method :: string
  rq_url :: string
  rq_params :: "(string, string) dict"
  rq_json :: json

record HttpReply =
  hr_status :: int
  hr_text :: string
  hr_json :: "string + json"

datatype ProcessReply =
    Completed int string string int
  | TimedOut string string int
  | NotStarted string string

text \<open>A process has its arguments, its working directory and its time limit in seconds.\<close>

datatype outside =
    Http HttpRequest
  | Process "string list" "string option" "int option"
  | RemoveTree string

record world =
  http_reply :: "outside list \<Rightarrow> HttpRequest \<Rightarrow> string + HttpReply"
  process_reply :: "outside list \<Rightarrow> string list \<Rightarrow> string option \<Rightarrow> int option \<Rightarrow> ProcessReply"
  resolve_path :: "string \<Rightarrow> string"
  directory_exists :: "outside list \<Rightarrow> string \<Rightarrow> bool"
  new_directory :: "string option \<Rightarrow> string \<Rightarrow> string"
  github_token :: string

type_synonym 'a asked = "(string + 'a) \<times> outside list"

type_synonym wsys = "sys \<times> outside list"

definition ask :: "world \<Rightarrow> HttpRequest \<Rightarrow> outside list \<Rightarrow> HttpReply asked" where
  "ask W request w = (http_reply W w request, w @ [Http request])"

definition start_process ::
    "world \<Rightarrow> string list \<Rightarrow> string option \<Rightarrow> int option \<Rightarrow> outside list \<Rightarrow> ProcessReply \<times> outside list" where
  "start_process W args cwd timeout w = (process_reply W w args cwd timeout, w @ [Process args cwd timeout])"

section \<open>Lemmas\<close>

lemma release_task_simps [simp]:
  "agent_task_events (snd (release_task E task lease worker s)) = agent_task_events s"
  "approval_requests (snd (release_task E task lease worker s)) = approval_requests s"
  "clock (snd (release_task E task lease worker s)) = clock s"
  "task_id (fst (release_task E task lease worker s)) = task_id task"
  "task_status (fst (release_task E task lease worker s)) = task_status task"
  by (simp_all add: release_task_def Let_def)

lemma saved_rows [simp]:
  "agent_tasks (rows (disk (persist s))) = agent_tasks s"
  "approval_requests (rows (disk (persist s))) = approval_requests s"
  by (simp_all add: persist_def store.truncate_def)

text \<open>A worker that still holds its lease leaves the task free for the next claim.\<close>

lemma close_worker_frees:
  assumes "task_worker_lease_token task = lease" "close_worker E event details task lease worker s = (task', s')"
  shows "dict_get (agent_tasks s') (task_id task) = Some task' \<and>
    dict_get (agent_tasks (rows (disk s'))) (task_id task) = Some task' \<and>
    task_worker_lease_owner task' = None \<and> task_status task' = task_status task \<and>
    task_approval_request_id task' = task_approval_request_id task \<and> task_id task' = task_id task"
  using assms by (auto simp: close_worker_def release_task_def Let_def split: if_splits)

end
