(* ===== verification/BackendClients.thy ===== *)
theory BackendClients
  imports ReleaseValidation WorkerCommon
begin

text \<open>
  The programs that drive the backend over HTTP: the scheduler \<open>scripts/run_mission_control_worker.py\<close>, which
  executes the runs that are due, and the smoke run of \<open>demo_smoke_validation.py\<close>. What they were answered
  so far is a log; the next answer is a parameter that may depend on all of it. The command lines and the
  endless loop around \<open>run_once\<close> are left out. A round of the scheduler reads before it tries runs and
  executes at most one; a smoke run that passes was answered by every endpoint it names.
\<close>

section \<open>Requests\<close>

text \<open>A request without a bearer token has the empty one. A reply is an \<open>httpx\<close> error or a response.\<close>

record api_request = HttpRequest +
  rq_bearer :: string

type_synonym api_reply = "string + HttpReply"

type_synonym api_log = "(api_request \<times> api_reply) list"

type_synonym api = "api_log \<Rightarrow> api_request \<Rightarrow> api_reply"

type_synonym 'a client = "api_log \<Rightarrow> (string, 'a, api_log) outcome"

definition exchange :: "api \<Rightarrow> api_request \<Rightarrow> api_log \<Rightarrow> api_reply \<times> api_log" where
  "exchange A q w = (let r = A w q in (r, w @ [(q, r)]))"

definition succeeded :: "HttpReply \<Rightarrow> bool" where
  "succeeded reply \<longleftrightarrow> 200 \<le> hr_status reply \<and> hr_status reply < 300"

definition status_error :: "HttpReply \<Rightarrow> string" where
  "status_error reply = ''HTTP status '' @ int_str (hr_status reply)"

text \<open>A request whose response must be a success (\<open>raise_for_status\<close>), and its JSON.\<close>

definition expect :: "api \<Rightarrow> api_request \<Rightarrow> HttpReply client" where
  "expect A q w =
     (case exchange A q w of
        (Inl e, w) \<Rightarrow> raise e w
      | (Inr reply, w) \<Rightarrow> if succeeded reply then ret reply w else raise (status_error reply) w)"

definition expect_json :: "api \<Rightarrow> api_request \<Rightarrow> json client" where
  "expect_json A q w = bindE (expect A q w) (\<lambda>reply. liftE (hr_json reply) ret)"

definition json_field :: "json \<Rightarrow> string \<Rightarrow> json" where
  "json_field v k = (case v of JObj d \<Rightarrow> (case dict_get d k of None \<Rightarrow> JNull | Some x \<Rightarrow> x) | _ \<Rightarrow> JNull)"

definition text_or_empty :: "json \<Rightarrow> string" where
  "text_or_empty v = (case v of JStr t \<Rightarrow> t | _ \<Rightarrow> [])"

definition json_items :: "json \<Rightarrow> json list" where
  "json_items v = (case v of JList xs \<Rightarrow> xs | _ \<Rightarrow> [])"

section \<open>The scheduler\<close>

text \<open>
  What the scheduler is started with: its identity and bounds, the bearer token, the time, and how a time is
  read from its ISO text.
\<close>

record scheduler =
  sd_worker_id :: string
  sd_lease_seconds :: int
  sd_timeout_seconds :: int
  sd_token :: string
  sd_now :: int
  sd_read_time :: "string \<Rightarrow> string + int"

definition sd_get :: "scheduler \<Rightarrow> string \<Rightarrow> (string, string) dict \<Rightarrow> api_request" where
  "sd_get D path params =
     \<lparr>rq_method = ''GET'', rq_url = path, rq_params = params, rq_json = JNull, rq_bearer = sd_token D\<rparr>"

definition sd_post :: "scheduler \<Rightarrow> string \<Rightarrow> json \<Rightarrow> api_request" where
  "sd_post D path body =
     \<lparr>rq_method = ''POST'', rq_url = path, rq_params = [], rq_json = body, rq_bearer = sd_token D\<rparr>"

definition parse_datetime :: "scheduler \<Rightarrow> json \<Rightarrow> string + int option" where
  "parse_datetime D v =
     (case v of
        JNull \<Rightarrow> Inr None
      | JStr t \<Rightarrow> if t = [] then Inr None else sum_map Some (sd_read_time D t)
      | _ \<Rightarrow> Inl ''not a text'')"

definition run_path :: "json \<Rightarrow> string" where
  "run_path run = ''/agent/runs/'' @ text_or_empty (json_field run ''id'')"

text \<open>Whether the step a detailed run waits at may be retried now.\<close>

definition step_due :: "scheduler \<Rightarrow> json \<Rightarrow> string + bool" where
  "step_due D detail =
     (let current = json_field (json_field detail ''run'') ''current_step_id'' in
      case find (\<lambda>step. json_field step ''id'' = current) (json_items (json_field detail ''steps'')) of
        None \<Rightarrow> Inr False
      | Some step \<Rightarrow>
          sum_map (\<lambda>t. case t of None \<Rightarrow> True | Some t \<Rightarrow> t \<le> sd_now D)
            (parse_datetime D (json_field step ''next_retry_at'')))"

definition retry_is_ready :: "api \<Rightarrow> scheduler \<Rightarrow> json \<Rightarrow> bool client" where
  "retry_is_ready A D run w =
     (if json_field run ''status'' \<noteq> JStr ''RETRY_WAIT'' then ret True w
      else bindE (expect_json A (sd_get D (run_path run) []) w) (\<lambda>detail. liftE (step_due D detail) ret))"

fun ready_runs :: "api \<Rightarrow> scheduler \<Rightarrow> json list \<Rightarrow> json list client" where
  "ready_runs A D [] w = ret [] w"
| "ready_runs A D (run # runs) w =
     bindE (retry_is_ready A D run w) (\<lambda>ready w.
       bindE (ready_runs A D runs w) (\<lambda>rest. ret (if ready then run # rest else rest)))"

fun candidate_runs :: "api \<Rightarrow> scheduler \<Rightarrow> string list \<Rightarrow> json list client" where
  "candidate_runs A D [] w = ret [] w"
| "candidate_runs A D (st # sts) w =
     bindE (expect_json A (sd_get D ''/agent/runs'' [(''status'', st), (''limit'', ''500'')]) w) (\<lambda>v w.
       bindE (candidate_runs A D sts w) (\<lambda>rest. ret (json_items v @ rest)))"

definition run_key :: "json \<Rightarrow> string \<times> string" where
  "run_key run = (text_or_empty (json_field run ''created_at''), text_or_empty (json_field run ''id''))"

definition eligible_runs :: "api \<Rightarrow> scheduler \<Rightarrow> json list client" where
  "eligible_runs A D w =
     bindE (candidate_runs A D [''SCHEDULED'', ''RUNNING'', ''RETRY_WAIT''] w) (\<lambda>candidates w.
       bindE (ready_runs A D candidates w) (\<lambda>ready. ret (sort_key run_key ready)))"

definition execute_request :: "scheduler \<Rightarrow> json \<Rightarrow> api_request" where
  "execute_request D run =
     sd_post D (run_path run @ ''/execute-next'')
       (JObj [(''worker_id'', JStr (sd_worker_id D)), (''lease_seconds'', JInt (sd_lease_seconds D)),
         (''timeout_seconds'', JInt (sd_timeout_seconds D))])"

text \<open>The first run the backend lets it execute; a conflict is another worker's run.\<close>

fun execute_first :: "api \<Rightarrow> scheduler \<Rightarrow> json list \<Rightarrow> nat client" where
  "execute_first A D [] w = ret 0 w"
| "execute_first A D (run # runs) w =
     (case exchange A (execute_request D run) w of
        (Inl e, w) \<Rightarrow> raise e w
      | (Inr reply, w) \<Rightarrow>
          if hr_status reply = 409 then execute_first A D runs w
          else if succeeded reply then ret 1 w
          else raise (status_error reply) w)"

definition recover_request :: "scheduler \<Rightarrow> api_request" where
  "recover_request D = sd_post D ''/agent/runs/watchdog/recover-stale'' JNull"

definition run_once :: "api \<Rightarrow> scheduler \<Rightarrow> nat client" where
  "run_once A D w =
     bindE (expect A (recover_request D) w) (\<lambda>_ w.
     bindE (eligible_runs A D w) (\<lambda>runs. execute_first A D runs))"

subsection \<open>What a round does\<close>

text \<open>A client that only reads appends \<open>GET\<close> exchanges to the log.\<close>

definition reads :: "api_log \<Rightarrow> api_log \<Rightarrow> bool" where
  "reads w w' \<longleftrightarrow> (\<exists>new. w' = w @ new \<and> list_all (\<lambda>(q, r). rq_method q = ''GET'') new)"

lemma reads_refl: "reads w w" by (simp add: reads_def)

lemma reads_trans: "reads w w' \<Longrightarrow> reads w' w'' \<Longrightarrow> reads w w''"
  by (auto simp: reads_def)

lemma reads_set: "reads w w' \<Longrightarrow> set w \<subseteq> set w'"
  by (auto simp: reads_def)

text \<open>What the log shows of a run: it was in a listing, and if it waits for a retry, its step was due.\<close>

definition answered :: "(api_request \<times> api_reply) set \<Rightarrow> api_request \<Rightarrow> json \<Rightarrow> bool" where
  "answered L q v \<longleftrightarrow> (\<exists>reply. (q, Inr reply) \<in> L \<and> hr_json reply = Inr v)"

definition listing :: "scheduler \<Rightarrow> string \<Rightarrow> api_request" where
  "listing D st = sd_get D ''/agent/runs'' [(''status'', st), (''limit'', ''500'')]"

definition listed_in :: "scheduler \<Rightarrow> (api_request \<times> api_reply) set \<Rightarrow> json \<Rightarrow> bool" where
  "listed_in D L run \<longleftrightarrow>
     (\<exists>st v. st \<in> set [''SCHEDULED'', ''RUNNING'', ''RETRY_WAIT''] \<and> answered L (listing D st) v \<and> run \<in> set (json_items v))"

definition due_in :: "scheduler \<Rightarrow> (api_request \<times> api_reply) set \<Rightarrow> json \<Rightarrow> bool" where
  "due_in D L run \<longleftrightarrow>
     json_field run ''status'' \<noteq> JStr ''RETRY_WAIT'' \<or>
     (\<exists>detail. answered L (sd_get D (run_path run) []) detail \<and> step_due D detail = Inr True)"

lemma answered_mono: "answered L q v \<Longrightarrow> L \<subseteq> L' \<Longrightarrow> answered L' q v"
  by (auto simp: answered_def)

lemma listed_in_mono: "listed_in D L run \<Longrightarrow> L \<subseteq> L' \<Longrightarrow> listed_in D L' run"
  unfolding listed_in_def using answered_mono by blast

lemma due_in_mono: "due_in D L run \<Longrightarrow> L \<subseteq> L' \<Longrightarrow> due_in D L' run"
  unfolding due_in_def using answered_mono by blast

lemma expect_log: "expect A q w = (x, w') \<Longrightarrow> w' = w @ [(q, A w q)] \<and> (\<forall>r. x = Inr r \<longrightarrow> A w q = Inr r \<and> succeeded r)"
  by (auto simp: expect_def exchange_def Let_def ret_def raise_def split: sum.splits if_splits)

lemma expect_json_log:
  assumes "expect_json A q w = (x, w')"
  shows "w' = w @ [(q, A w q)] \<and> (\<forall>v. x = Inr v \<longrightarrow> answered (set w') q v)"
proof -
  obtain y w1 where y: "expect A q w = (y, w1)" by fastforce
  show ?thesis using assms y expect_log [OF y]
    by (cases y) (auto simp: expect_json_def bindE_def liftE_def ret_def raise_def answered_def split: sum.splits)
qed

lemma get_reads:
  assumes "expect_json A (sd_get D p ps) w = (x, w')"
  shows "reads w w' \<and> (\<forall>v. x = Inr v \<longrightarrow> answered (set w') (sd_get D p ps) v)"
  using expect_json_log [OF assms] by (auto simp: reads_def sd_get_def)

lemma retry_is_ready_reads:
  assumes "retry_is_ready A D run w = (x, w')"
  shows "reads w w' \<and> (x = Inr True \<longrightarrow> due_in D (set w') run)"
proof (cases "json_field run ''status'' = JStr ''RETRY_WAIT''")
  case True
  obtain y w1 where y: "expect_json A (sd_get D (run_path run) []) w = (y, w1)" by fastforce
  show ?thesis
    using assms True y get_reads [OF y]
    by (cases y) (auto simp: retry_is_ready_def bindE_def liftE_def ret_def raise_def due_in_def split: sum.splits)
qed (use assms in \<open>auto simp: retry_is_ready_def ret_def due_in_def reads_refl\<close>)

lemma ready_runs_reads:
  "ready_runs A D runs w = (x, w') \<Longrightarrow>
    reads w w' \<and> (\<forall>rs. x = Inr rs \<longrightarrow> set rs \<subseteq> set runs \<and> (\<forall>r \<in> set rs. due_in D (set w') r))"
proof (induction runs arbitrary: x w w')
  case (Cons run runs)
  obtain b w1 where b: "retry_is_ready A D run w = (b, w1)" by fastforce
  obtain y w2 where y: "ready_runs A D runs w1 = (y, w2)" by fastforce
  note r = retry_is_ready_reads [OF b] and i = Cons.IH [OF y]
  show ?case
  proof (cases "\<exists>c rs. b = Inr c \<and> y = Inr rs")
    case True
    then obtain c rs where cr: "b = Inr c" "y = Inr rs" by blast
    then have x: "x = Inr (if c then run # rs else rs)" "w' = w2" using Cons.prems b y by (auto simp: bindE_def ret_def)
    have "c \<Longrightarrow> due_in D (set w2) run" using r cr(1) due_in_mono reads_set i by blast
    with x cr r i show ?thesis by (auto intro: reads_trans split: if_splits)
  next
    case False
    then show ?thesis using Cons.prems b y r i by (cases b; cases y) (auto simp: bindE_def ret_def intro: reads_trans)
  qed
qed (auto simp: ret_def reads_refl)

lemma candidate_runs_reads:
  "candidate_runs A D sts w = (x, w') \<Longrightarrow> set sts \<subseteq> set [''SCHEDULED'', ''RUNNING'', ''RETRY_WAIT''] \<Longrightarrow>
    reads w w' \<and> (\<forall>rs. x = Inr rs \<longrightarrow> (\<forall>r \<in> set rs. listed_in D (set w') r))"
proof (induction sts arbitrary: x w w')
  case (Cons st sts)
  obtain v w1 where v: "expect_json A (listing D st) w = (v, w1)" by fastforce
  obtain y w2 where y: "candidate_runs A D sts w1 = (y, w2)" by fastforce
  have g: "reads w w1 \<and> (\<forall>u. v = Inr u \<longrightarrow> answered (set w1) (listing D st) u)"
    using get_reads v unfolding listing_def by blast
  have i: "reads w1 w2 \<and> (\<forall>rs. y = Inr rs \<longrightarrow> (\<forall>r \<in> set rs. listed_in D (set w2) r))"
    using Cons.IH [OF y] Cons.prems(2) by simp
  show ?case
  proof (cases "\<exists>u rs. v = Inr u \<and> y = Inr rs")
    case True
    then obtain u rs where ur: "v = Inr u" "y = Inr rs" by blast
    then have x: "x = Inr (json_items u @ rs)" "w' = w2"
      using Cons.prems(1) v y by (auto simp: bindE_def ret_def listing_def)
    have "answered (set w2) (listing D st) u" using g i ur(1) answered_mono reads_set by blast
    then have "listed_in D (set w2) r" if "r \<in> set (json_items u)" for r
      using that Cons.prems(2) unfolding listed_in_def by (intro exI [of _ st] exI [of _ u]) simp
    with x ur g i show ?thesis by (auto intro: reads_trans)
  next
    case False
    then show ?thesis using Cons.prems(1) v y g i
      by (cases v; cases y) (auto simp: bindE_def ret_def listing_def intro: reads_trans)
  qed
qed (auto simp: ret_def reads_refl)

lemma eligible_runs_reads:
  assumes "eligible_runs A D w = (Inr rs, w')"
  shows "reads w w' \<and> sorted (map run_key rs) \<and> (\<forall>r \<in> set rs. listed_in D (set w') r \<and> due_in D (set w') r)"
proof -
  obtain c w1 where c: "candidate_runs A D [''SCHEDULED'', ''RUNNING'', ''RETRY_WAIT''] w = (c, w1)" by fastforce
  then obtain cs where cs: "c = Inr cs" using assms by (cases c) (auto simp: eligible_runs_def bindE_def simp del: candidate_runs.simps)
  obtain y w2 where y: "ready_runs A D cs w1 = (y, w2)" by fastforce
  then obtain ys where ys: "y = Inr ys" "rs = sort_key run_key ys" "w' = w2"
    using assms c cs by (cases y) (auto simp: eligible_runs_def bindE_def ret_def simp del: candidate_runs.simps)
  have 1: "reads w w1 \<and> (\<forall>r \<in> set cs. listed_in D (set w1) r)" using candidate_runs_reads [OF c] cs by simp
  have 2: "reads w1 w2 \<and> set ys \<subseteq> set cs \<and> (\<forall>r \<in> set ys. due_in D (set w2) r)" using ready_runs_reads [OF y] ys(1) by simp
  have "listed_in D (set w2) r" if "r \<in> set ys" for r
    using that 1 2 listed_in_mono reads_set by (metis subsetD)
  with 1 2 ys show ?thesis by (auto intro: reads_trans)
qed

text \<open>The attempts: runs tried in order, every one but the last refused with a conflict.\<close>

definition conflicted :: "api_request \<times> api_reply \<Rightarrow> bool" where
  "conflicted x \<longleftrightarrow> (\<exists>reply. snd x = Inr reply \<and> hr_status reply = 409)"

lemma execute_first_log:
  "execute_first A D runs w = (x, w') \<Longrightarrow>
    \<exists>tried. w' = w @ tried \<and> map fst tried = map (execute_request D) (take (length tried) runs) \<and>
      (\<forall>n. x = Inr n \<longrightarrow>
        n = 0 \<and> length tried = length runs \<and> list_all conflicted tried \<or>
        n = 1 \<and> tried \<noteq> [] \<and> list_all conflicted (butlast tried) \<and>
          (\<exists>reply. snd (last tried) = Inr reply \<and> succeeded reply))"
proof (induction runs arbitrary: w)
  case Nil
  then show ?case by (intro exI [of _ "[]"]) (auto simp: ret_def)
next
  case (Cons run runs)
  let ?q = "execute_request D run" let ?e = "(execute_request D run, A w (execute_request D run))"
  show ?case
  proof (cases "\<exists>reply. A w ?q = Inr reply \<and> hr_status reply = 409")
    case True
    then have "execute_first A D runs (w @ [?e]) = (x, w')"
      using Cons.prems by (auto simp: exchange_def Let_def)
    from Cons.IH [OF this] obtain tried where t: "w' = (w @ [?e]) @ tried"
        "map fst tried = map (execute_request D) (take (length tried) runs)"
        "\<forall>n. x = Inr n \<longrightarrow>
          n = 0 \<and> length tried = length runs \<and> list_all conflicted tried \<or>
          n = 1 \<and> tried \<noteq> [] \<and> list_all conflicted (butlast tried) \<and> (\<exists>reply. snd (last tried) = Inr reply \<and> succeeded reply)"
      by blast
    have "conflicted ?e" using True by (simp add: conflicted_def)
    then have "list_all conflicted tried \<Longrightarrow> list_all conflicted (?e # tried)"
        "tried \<noteq> [] \<Longrightarrow> list_all conflicted (butlast tried) \<Longrightarrow> list_all conflicted (butlast (?e # tried))"
      by simp_all
    moreover have "map fst (?e # tried) = map (execute_request D) (take (length (?e # tried)) (run # runs))"
      using t(2) by simp
    moreover have "w' = w @ (?e # tried)" using t(1) by simp
    moreover have "tried \<noteq> [] \<Longrightarrow> last (?e # tried) = last tried" by simp
    ultimately show ?thesis using t(3) by (intro exI [of _ "?e # tried"]) (metis length_Cons list.distinct(1))
  next
    case False
    then have "w' = w @ [?e]" "x = Inr n \<Longrightarrow> n = 1 \<and> (\<exists>reply. A w ?q = Inr reply \<and> succeeded reply)" for n
      using Cons.prems by (auto simp: exchange_def Let_def ret_def raise_def split: sum.splits if_splits)
    then show ?thesis by (intro exI [of _ "[?e]"]) auto
  qed
qed

text \<open>
  C40. A round of the scheduler recovers first and executes at most one run, one that is due. Whatever the
  backend answers, a round sends the recovery of stale leases, then only reads, and then tries runs, each
  once, in the order of creation; every run it tries was listed by the backend, and if it waits for a retry,
  the backend had shown its step to be due. The round answers 1 exactly when the last one tried was accepted,
  every earlier one having been refused with a conflict, and 0 only when every run it found was refused.
\<close>

theorem scheduler_round_executes_one:
  assumes "run_once A D w = (Inr n, w')"
  shows "\<exists>recovery reading tried runs. w' = w @ recovery # reading @ tried \<and> fst recovery = recover_request D \<and>
    list_all (\<lambda>(q, r). rq_method q = ''GET'') reading \<and> sorted (map run_key runs) \<and>
    list_all (\<lambda>r. listed_in D (set (w @ recovery # reading)) r \<and> due_in D (set (w @ recovery # reading)) r) runs \<and>
    map fst tried = map (execute_request D) (take (length tried) runs) \<and>
    (n = 0 \<and> length tried = length runs \<and> list_all conflicted tried \<or>
     n = 1 \<and> tried \<noteq> [] \<and> list_all conflicted (butlast tried) \<and>
       (\<exists>reply. snd (last tried) = Inr reply \<and> succeeded reply))"
proof -
  let ?q = "recover_request D"
  obtain y w1 where y: "expect A ?q w = (y, w1)" by fastforce
  obtain z w2 where z: "eligible_runs A D w1 = (z, w2)" by fastforce
  from assms y z obtain runs where r: "z = Inr runs" "execute_first A D runs w2 = (Inr n, w')"
    by (cases y; cases z) (auto simp: run_once_def bindE_def)
  have w1: "w1 = w @ [(?q, A w ?q)]" using expect_log [OF y] by blast
  note e = eligible_runs_reads [OF z [unfolded r(1)]]
  then obtain reading where reading: "w2 = w1 @ reading" "list_all (\<lambda>(q, r). rq_method q = ''GET'') reading"
    by (auto simp: reads_def)
  obtain tried where t: "w' = w2 @ tried" "map fst tried = map (execute_request D) (take (length tried) runs)"
      "n = 0 \<and> length tried = length runs \<and> list_all conflicted tried \<or>
       n = 1 \<and> tried \<noteq> [] \<and> list_all conflicted (butlast tried) \<and> (\<exists>reply. snd (last tried) = Inr reply \<and> succeeded reply)"
    using execute_first_log [OF r(2)] by blast
  have "list_all (\<lambda>r. listed_in D (set w2) r \<and> due_in D (set w2) r) runs" using e by (simp add: list_all_iff)
  then show ?thesis
    using w1 reading t e by (intro exI [of _ "(?q, A w ?q)"] exI [of _ reading] exI [of _ tried] exI [of _ runs]) simp
qed

text \<open>A backend with two scheduled runs, the first of which another worker holds.\<close>

definition busy_backend :: api where
  "busy_backend w q =
     Inr (if rq_url q = ''/agent/runs'' \<and> dict_get (rq_params q) ''status'' = Some ''SCHEDULED''
       then \<lparr>hr_status = 200, hr_text = [], hr_json = Inr (JList
          [JObj [(''id'', JStr ''r2''), (''status'', JStr ''SCHEDULED''), (''created_at'', JStr ''2'')],
           JObj [(''id'', JStr ''r1''), (''status'', JStr ''SCHEDULED''), (''created_at'', JStr ''1'')]])\<rparr>
       else if rq_url q = ''/agent/runs/r1/execute-next'' then \<lparr>hr_status = 409, hr_text = [], hr_json = Inr JNull\<rparr>
       else \<lparr>hr_status = 200, hr_text = [], hr_json = Inr (JList [])\<rparr>)"

definition sample_scheduler :: scheduler where
  "sample_scheduler = \<lparr>sd_worker_id = ''w'', sd_lease_seconds = 300, sd_timeout_seconds = 120, sd_token = [],
     sd_now = 0, sd_read_time = (\<lambda>_. Inr 0)\<rparr>"

lemma scheduler_round_executes_one_witness:
  "\<exists>log tried. run_once busy_backend sample_scheduler [] = (Inr 1, log) \<and> tried \<noteq> [] \<and>
     list_all conflicted (butlast tried) \<and> (\<exists>reply. snd (last tried) = Inr reply \<and> succeeded reply)"
proof -
  have "case fst (run_once busy_backend sample_scheduler []) of Inl _ \<Rightarrow> False | Inr n \<Rightarrow> n = 1" by code_simp
  then obtain log where r: "run_once busy_backend sample_scheduler [] = (Inr 1, log)"
    by (cases "run_once busy_backend sample_scheduler []") (auto split: sum.splits)
  from scheduler_round_executes_one [OF r] r show ?thesis by auto
qed


section \<open>The smoke run\<close>

text \<open>
  A validator has its account, the environment and the time in the names it makes. Its state is the bearer
  token, the checks so far, and the log. The address it talks to is part of the API.
\<close>

record smoke_validator =
  sv_email :: string
  sv_password :: string
  sv_env :: env
  sv_timestamp :: string

record smoke_state =
  ss_token :: string
  ss_checks :: "SmokeCheck list"
  ss_log :: api_log

type_synonym 'a smoke = "smoke_state \<Rightarrow> (string, 'a, smoke_state) outcome"

definition smoke_check :: "string \<Rightarrow> bool \<Rightarrow> string \<Rightarrow> bool smoke" where
  "smoke_check name passed detail s =
     ret passed (s\<lparr>ss_checks := ss_checks s @ [\<lparr>sck_name = name, sck_passed = passed, sck_detail = detail\<rparr>]\<rparr>)"

definition smoke_request ::
    "api \<Rightarrow> string \<Rightarrow> string \<Rightarrow> json \<Rightarrow> (string, string) dict \<Rightarrow> bool \<Rightarrow> smoke_state \<Rightarrow> api_reply \<times> smoke_state" where
  "smoke_request A method path payload params auth s =
     (case exchange A \<lparr>rq_method = method, rq_url = path, rq_params = params, rq_json = payload,
             rq_bearer = (if auth then ss_token s else [])\<rparr> (ss_log s) of
        (reply, l) \<Rightarrow> (reply, s\<lparr>ss_log := l\<rparr>))"

definition is_ok :: "api_reply \<Rightarrow> bool" where
  "is_ok r = (case r of Inl _ \<Rightarrow> False | Inr reply \<Rightarrow> hr_status reply = 200)"

definition response_detail :: "smoke_validator \<Rightarrow> api_reply \<Rightarrow> string" where
  "response_detail V r =
     (case r of
        Inl e \<Rightarrow> if e = [] then ''no response'' else e
      | Inr reply \<Rightarrow> ''HTTP '' @ int_str (hr_status reply) @ '': '' @
          (case hr_json reply of Inl _ \<Rightarrow> take 200 (hr_text reply) | Inr body \<Rightarrow> py_str (sv_env V) body))"

text \<open>The object a response carries; what is not an object reads as an empty one.\<close>

definition reply_object :: "api_reply \<Rightarrow> string + jdict" where
  "reply_object r =
     (case r of
        Inl _ \<Rightarrow> Inr []
      | Inr reply \<Rightarrow> sum_map (\<lambda>v. case v of JObj d \<Rightarrow> d | _ \<Rightarrow> []) (hr_json reply))"

definition ok_object :: "api_reply \<Rightarrow> string + jdict" where
  "ok_object r = (if is_ok r then reply_object r else Inr [])"

definition shown :: "smoke_validator \<Rightarrow> jdict \<Rightarrow> string \<Rightarrow> string" where
  "shown V d k = py_str (sv_env V) (json_field (JObj d) k)"

definition validate_health :: "api \<Rightarrow> smoke_validator \<Rightarrow> bool smoke" where
  "validate_health A V s =
     (case smoke_request A ''GET'' ''/health'' JNull [] False s of
        (r, s) \<Rightarrow> smoke_check ''health'' (is_ok r)
          (if is_ok r then ''health endpoint reachable'' else response_detail V r) s)"

definition token_from :: "smoke_validator \<Rightarrow> api_reply \<Rightarrow> string \<Rightarrow> bool smoke" where
  "token_from V r detail s =
     liftE (reply_object r) (\<lambda>d s.
       let token = (case dict_get d ''access_token'' of None \<Rightarrow> [] | Some v \<Rightarrow> py_str (sv_env V) v)
       in smoke_check ''auth_context'' (token \<noteq> []) detail (s\<lparr>ss_token := token\<rparr>)) s"

definition sign_in :: "api \<Rightarrow> smoke_validator \<Rightarrow> bool smoke" where
  "sign_in A V s =
     (let login = [(''email'', JStr (sv_email V)), (''password'', JStr (sv_password V))] in
      case smoke_request A ''POST'' ''/auth/register'' (JObj (login @ [(''display_name'', JStr ''Smoke Owner'')])) [] False s of
        (r, s) \<Rightarrow>
          if is_ok r then token_from V r ''bootstrap smoke owner registered'' s
          else (case smoke_request A ''POST'' ''/auth/login'' (JObj login) [] False s of
             (r, s) \<Rightarrow>
               if is_ok r then token_from V r ''existing smoke owner logged in'' s
               else smoke_check ''auth_context'' False (response_detail V r) s))"

definition validate_auth_context :: "api \<Rightarrow> smoke_validator \<Rightarrow> bool smoke" where
  "validate_auth_context A V s =
     (case smoke_request A ''GET'' ''/auth/me'' JNull [] False s of
        (r, s) \<Rightarrow>
          if is_ok r then
            liftE (reply_object r) (\<lambda>user. smoke_check ''auth_context'' True
              (''auth bypass/dev user: '' @
               (case dict_get user ''email'' of None \<Rightarrow> ''unknown'' | Some v \<Rightarrow> py_str (sv_env V) v))) s
          else if ss_token s \<noteq> [] then
            (case smoke_request A ''GET'' ''/auth/me'' JNull [] True s of
               (r, s) \<Rightarrow> smoke_check ''auth_context'' (is_ok r)
                 (if is_ok r then ''provided bearer token accepted'' else response_detail V r) s)
          else sign_in A V s)"

definition validate_readiness :: "api \<Rightarrow> smoke_validator \<Rightarrow> bool smoke" where
  "validate_readiness A V s =
     (case smoke_request A ''GET'' ''/ops/readiness'' JNull [] True s of
        (r, s) \<Rightarrow> liftE (ok_object r) (\<lambda>d.
          smoke_check ''runtime_readiness'' (is_ok r \<and> json_field (JObj d) ''status'' = JStr ''ready'')
            (if d \<noteq> [] then ''status='' @ shown V d ''status'' @ '' profile='' @ shown V d ''profile''
             else response_detail V r)) s)"

definition smoke_project :: "smoke_validator \<Rightarrow> json" where
  "smoke_project V =
     JObj [(''name'', JStr (''Smoke Demo Project '' @ sv_timestamp V)),
       (''description'', JStr ''Generated by backend demo smoke validation.''),
       (''mode'', JStr ''STRICT''), (''rules'', json_strs [''Smoke validation changes require review''])]"

definition smoke_work_order :: "json \<Rightarrow> json" where
  "smoke_work_order project_id =
     JObj [(''project_id'', project_id), (''goal'', JStr ''Validate backend demo smoke flow.''),
       (''context'', JStr ''Smoke validation should create a project, work order, and approval request.''),
       (''tasks'', json_strs [''Create project'', ''Create work order'', ''Create approval'']),
       (''affected_areas'', json_strs [''backend/demo'']),
       (''required_tests'', json_strs [''python -m pytest'']),
       (''rollback_plan'', JStr ''Delete smoke data from demo/test environment if needed.'')]"

definition smoke_approval :: "json \<Rightarrow> json \<Rightarrow> json" where
  "smoke_approval project_id work_order_id =
     JObj [(''project_id'', project_id), (''work_order_id'', work_order_id),
       (''title'', JStr ''Smoke validation approval''),
       (''summary'', JStr ''Validates core approval creation for the demo flow.''),
       (''agent_name'', JStr ''smoke-validator''), (''target_branch'', JStr ''feature/smoke-validation''),
       (''files'', JList [JObj [(''path'', JStr ''docs/smoke-validation.md''), (''change_type'', JStr ''update''),
          (''diff'', JStr ''+ smoke validation evidence''),
          (''new_content'', JStr (''smoke validation evidence'' @ newline))]]),
       (''test_plan'', json_strs [''python -m pytest'']),
       (''rollback_plan'', JStr ''Do not merge the smoke validation branch.'')]"

text \<open>One object of the demo flow is created: its identifier, or the check fails and the flow ends.\<close>

definition create_object ::
    "api \<Rightarrow> smoke_validator \<Rightarrow> string \<Rightarrow> json \<Rightarrow> string \<Rightarrow> (json \<Rightarrow> bool smoke) \<Rightarrow> bool smoke" where
  "create_object A V path payload failure k s =
     (case smoke_request A ''POST'' path payload [] True s of
        (r, s) \<Rightarrow>
          if \<not> is_ok r then smoke_check ''core_demo_flow'' False (failure @ '': '' @ response_detail V r) s
          else liftE (reply_object r) (\<lambda>d. k (json_field (JObj d) ''id'')) s)"

definition validate_core_demo_flow :: "api \<Rightarrow> smoke_validator \<Rightarrow> bool smoke" where
  "validate_core_demo_flow A V =
     create_object A V ''/projects'' (smoke_project V) ''project create failed'' (\<lambda>p.
     create_object A V ''/work-orders'' (smoke_work_order p) ''work order create failed'' (\<lambda>w.
     create_object A V ''/approvals'' (smoke_approval p w) ''approval create failed'' (\<lambda>a.
       smoke_check ''core_demo_flow'' True
         (''project='' @ py_str (sv_env V) p @ '' work_order='' @ py_str (sv_env V) w @
          '' approval='' @ py_str (sv_env V) a))))"

definition validate_audit_export :: "api \<Rightarrow> smoke_validator \<Rightarrow> bool smoke" where
  "validate_audit_export A V s =
     (case smoke_request A ''GET'' ''/audit/export'' JNull [(''limit'', ''10'')] True s of
        (r, s) \<Rightarrow> liftE (ok_object r) (\<lambda>d.
          smoke_check ''audit_export'' (is_ok r \<and> dict_get d ''retention_policy'' \<noteq> None)
            (if d \<noteq> [] then ''count='' @ shown V d ''count'' @ '' truncated='' @ shown V d ''truncated''
             else response_detail V r)) s)"

text \<open>\<open>len(payload.get("errors", []))\<close>\<close>

definition errors_length :: "jdict \<Rightarrow> string + nat" where
  "errors_length d =
     (case dict_get d ''errors'' of
        None \<Rightarrow> Inr 0
      | Some (JList xs) \<Rightarrow> Inr (length xs)
      | Some (JStr t) \<Rightarrow> Inr (length t)
      | Some (JObj o1) \<Rightarrow> Inr (length o1)
      | Some _ \<Rightarrow> Inl ''no length'')"

definition validation_detail :: "smoke_validator \<Rightarrow> api_reply \<Rightarrow> jdict \<Rightarrow> string + string" where
  "validation_detail V r d =
     (if d = [] then Inr (response_detail V r)
      else sum_map (\<lambda>n. ''valid='' @ shown V d ''valid'' @ '' errors='' @ int_str (int n)) (errors_length d))"

definition smoke_validate_recovery :: "api \<Rightarrow> smoke_validator \<Rightarrow> bool smoke" where
  "smoke_validate_recovery A V s =
     (case smoke_request A ''GET'' ''/ops/recovery/export'' JNull [] True s of
        (r, s) \<Rightarrow>
          if \<not> is_ok r then smoke_check ''recovery_snapshot'' False (''export failed: '' @ response_detail V r) s
          else liftE (reply_object r) (\<lambda>snapshot s.
            case smoke_request A ''POST'' ''/ops/recovery/validate'' (JObj [(''snapshot'', JObj snapshot)]) [] True s of
              (r, s) \<Rightarrow> liftE (ok_object r) (\<lambda>d. liftE (validation_detail V r d) (\<lambda>detail.
                smoke_check ''recovery_snapshot'' (is_ok r \<and> json_field (JObj d) ''valid'' = JBool True) detail)) s) s)"

definition smoke_run :: "api \<Rightarrow> smoke_validator \<Rightarrow> unit smoke" where
  "smoke_run A V s =
     bindE (validate_health A V s) (\<lambda>healthy s.
       if \<not> healthy then ret () s
       else bindE (validate_auth_context A V s) (\<lambda>signed s.
         if \<not> signed then ret () s
         else bindE (validate_readiness A V s) (\<lambda>_ s.
              bindE (validate_core_demo_flow A V s) (\<lambda>_ s.
              bindE (validate_audit_export A V s) (\<lambda>_ s.
              bindE (smoke_validate_recovery A V s) (\<lambda>_. ret ()))))))"

subsection \<open>What a passed run shows\<close>

definition served :: "api_log \<Rightarrow> string \<Rightarrow> string \<Rightarrow> bool" where
  "served L method path \<longleftrightarrow>
     (\<exists>(q, r) \<in> set L. rq_method q = method \<and> rq_url q = path \<and> is_ok r)"

text \<open>A check of a name was made, and when it passed, what was exchanged has the property \<open>P\<close>.\<close>

definition checked :: "string \<Rightarrow> (api_log \<Rightarrow> bool) \<Rightarrow> smoke_state \<Rightarrow> smoke_state \<Rightarrow> bool \<Rightarrow> bool" where
  "checked name P s s' passed \<longleftrightarrow>
     (\<exists>detail new. ss_checks s' = ss_checks s @ [\<lparr>sck_name = name, sck_passed = passed, sck_detail = detail\<rparr>] \<and>
        ss_log s' = ss_log s @ new \<and> (passed \<longrightarrow> P new))"

lemmas smoke_defs = smoke_request_def smoke_check_def exchange_def Let_def ret_def raise_def liftE_def

lemma served_append [simp]: "served (L @ L') m p \<longleftrightarrow> served L m p \<or> served L' m p"
  by (auto simp: served_def)

lemma served_Cons [simp]: "served (x # L) m p \<longleftrightarrow> rq_method (fst x) = m \<and> rq_url (fst x) = p \<and> is_ok (snd x) \<or> served L m p"
  by (auto simp: served_def)

lemma validate_health_checked:
  "validate_health A V s = (Inr b, s') \<Longrightarrow> checked ''health'' (\<lambda>L. served L ''GET'' ''/health'') s s' b"
  by (auto simp: validate_health_def smoke_defs checked_def)

definition signed_in :: "api_log \<Rightarrow> bool" where
  "signed_in L \<longleftrightarrow> served L ''GET'' ''/auth/me'' \<or> served L ''POST'' ''/auth/register'' \<or> served L ''POST'' ''/auth/login''"

lemma sign_in_checked:
  "sign_in A V s = (Inr b, s') \<Longrightarrow> checked ''auth_context'' signed_in s s' b"
  by (auto simp: sign_in_def token_from_def smoke_defs checked_def signed_in_def split: if_splits sum.splits)

lemma validate_auth_checked:
  assumes "validate_auth_context A V s = (Inr b, s')"
  shows "checked ''auth_context'' signed_in s s' b"
proof -
  obtain r s1 where r: "smoke_request A ''GET'' ''/auth/me'' JNull [] False s = (r, s1)" by fastforce
  show ?thesis
  proof (cases "\<not> is_ok r \<and> ss_token s1 = []")
    case True
    then have "checked ''auth_context'' signed_in s1 s' b"
      using assms r sign_in_checked by (simp add: validate_auth_context_def)
    moreover have "ss_checks s1 = ss_checks s" "\<exists>new. ss_log s1 = ss_log s @ new" using r by (auto simp: smoke_defs)
    ultimately show ?thesis by (auto simp: checked_def signed_in_def)
  next
    case False
    then show ?thesis
      using assms r by (auto simp: validate_auth_context_def smoke_defs checked_def signed_in_def split: if_splits sum.splits)
  qed
qed

lemma validate_readiness_checked:
  "validate_readiness A V s = (Inr b, s') \<Longrightarrow> checked ''runtime_readiness'' (\<lambda>L. served L ''GET'' ''/ops/readiness'') s s' b"
  by (auto simp: validate_readiness_def smoke_defs checked_def split: sum.splits)

lemma validate_audit_checked:
  "validate_audit_export A V s = (Inr b, s') \<Longrightarrow> checked ''audit_export'' (\<lambda>L. served L ''GET'' ''/audit/export'') s s' b"
  by (auto simp: validate_audit_export_def smoke_defs checked_def split: sum.splits)

text \<open>An object was created from a payload and answered with an identifier.\<close>

definition created :: "api_log \<Rightarrow> string \<Rightarrow> json \<Rightarrow> json \<Rightarrow> bool" where
  "created L path payload v \<longleftrightarrow>
     (\<exists>(q, r) \<in> set L. rq_method q = ''POST'' \<and> rq_url q = path \<and> rq_json q = payload \<and> is_ok r \<and>
        (\<exists>d. reply_object r = Inr d \<and> v = json_field (JObj d) ''id''))"

lemma created_Cons: "created L path payload v \<Longrightarrow> created (x # L) path payload v"
  by (auto simp: created_def)

lemma create_object_checked:
  assumes "create_object A V path payload failure k s = (Inr b, s')"
    and k: "\<And>v s. k v s = (Inr b, s') \<Longrightarrow> checked ''core_demo_flow'' (P v) s s' b"
    and P: "\<And>v x L. P v L \<Longrightarrow> P v (x # L)"
  shows "checked ''core_demo_flow'' (\<lambda>L. \<exists>v. created L path payload v \<and> P v L) s s' b"
proof -
  obtain r s1 where r: "smoke_request A ''POST'' path payload [] True s = (r, s1)" by fastforce
  show ?thesis
  proof (cases "is_ok r")
    case True
    then obtain d where d: "reply_object r = Inr d" "k (json_field (JObj d) ''id'') s1 = (Inr b, s')"
      using assms(1) r by (auto simp: create_object_def liftE_def raise_def split: sum.splits)
    from k [OF d(2)] r True d(1) P show ?thesis by (fastforce simp: smoke_defs checked_def created_def)
  qed (use assms(1) r in \<open>auto simp: create_object_def smoke_defs checked_def\<close>)
qed

definition flow_created :: "smoke_validator \<Rightarrow> api_log \<Rightarrow> bool" where
  "flow_created V L \<longleftrightarrow>
     (\<exists>p. created L ''/projects'' (smoke_project V) p \<and>
        (\<exists>w. created L ''/work-orders'' (smoke_work_order p) w \<and>
           (\<exists>a. created L ''/approvals'' (smoke_approval p w) a)))"

lemma validate_flow_checked:
  assumes "validate_core_demo_flow A V s = (Inr b, s')"
  shows "checked ''core_demo_flow'' (flow_created V) s s' b"
proof -
  have "checked ''core_demo_flow'' (\<lambda>L. \<exists>p. created L ''/projects'' (smoke_project V) p \<and>
      (\<exists>w. created L ''/work-orders'' (smoke_work_order p) w \<and>
        (\<exists>a. created L ''/approvals'' (smoke_approval p w) a \<and> True))) s s' b"
    using assms unfolding validate_core_demo_flow_def
    by (elim create_object_checked) (auto simp: smoke_check_def checked_def intro: created_Cons)
  then show ?thesis by (simp add: flow_created_def [abs_def])
qed

lemma validate_recovery_checked:
  "smoke_validate_recovery A V s = (Inr b, s') \<Longrightarrow>
    checked ''recovery_snapshot'' (\<lambda>L. served L ''GET'' ''/ops/recovery/export'' \<and> served L ''POST'' ''/ops/recovery/validate'') s s' b"
  by (auto simp: smoke_validate_recovery_def smoke_defs checked_def split: if_splits sum.splits)

text \<open>
  A smoke run that passes has exercised the API. When a fresh validator ends with nothing failed, its six
  checks are all there, in their order, and the backend answered 200 to the health check, to one of the three
  ways to sign in, to the readiness report, to the creation of a project, of a work order in it and of an
  approval for both, to the audit export, and to the export and the validation of a recovery snapshot.
\<close>

theorem passed_smoke_run_exercised_the_api:
  assumes "smoke_run A V \<lparr>ss_token = token, ss_checks = [], ss_log = []\<rparr> = (Inr (), s)"
    and "smoke_passed \<lparr>smoke_base_url = url, smoke_generated_at = t, smoke_checks = ss_checks s\<rparr>"
  shows "map sck_name (ss_checks s) =
      [''health'', ''auth_context'', ''runtime_readiness'', ''core_demo_flow'', ''audit_export'', ''recovery_snapshot''] \<and>
    signed_in (ss_log s) \<and> flow_created V (ss_log s) \<and>
    list_all (\<lambda>(m, p). served (ss_log s) m p)
      [(''GET'', ''/health''), (''GET'', ''/ops/readiness''), (''GET'', ''/audit/export''),
       (''GET'', ''/ops/recovery/export''), (''POST'', ''/ops/recovery/validate'')]"
proof -
  let ?s = "\<lparr>ss_token = token, ss_checks = [], ss_log = []\<rparr>"
  from assms(1) obtain h s1 where h: "validate_health A V ?s = (Inr h, s1)" "h \<or> s1 = s"
    by (auto simp: smoke_run_def bindE_Inr_iff ret_def split: if_splits)
  note h1 = validate_health_checked [OF h(1)]
  with h(2) assms(2) have "h" by (auto simp: checked_def smoke_passed_def)
  with assms(1) h(1) obtain a s2 where a: "validate_auth_context A V s1 = (Inr a, s2)" "a \<or> s2 = s"
    by (auto simp: smoke_run_def bindE_Inr_iff ret_def split: if_splits)
  note a1 = validate_auth_checked [OF a(1)]
  with h1 a(2) assms(2) have "a" by (auto simp: checked_def smoke_passed_def)
  with assms(1) h(1) a(1) \<open>h\<close> obtain b3 s3 b4 s4 b5 s5 b6 where r:
      "validate_readiness A V s2 = (Inr b3, s3)" "validate_core_demo_flow A V s3 = (Inr b4, s4)"
      "validate_audit_export A V s4 = (Inr b5, s5)" "smoke_validate_recovery A V s5 = (Inr b6, s)"
    by (auto simp: smoke_run_def bindE_Inr_iff ret_def)
  have "ss_checks ?s = []" "ss_log ?s = []" by simp_all
  with h1 a1 validate_readiness_checked [OF r(1)] validate_flow_checked [OF r(2)] validate_audit_checked [OF r(3)]
    validate_recovery_checked [OF r(4)]
  obtain d1 d2 d3 d4 d5 d6 n1 n2 n3 n4 n5 n6 where c: "ss_checks s =
      [\<lparr>sck_name = ''health'', sck_passed = h, sck_detail = d1\<rparr>, \<lparr>sck_name = ''auth_context'', sck_passed = a, sck_detail = d2\<rparr>,
       \<lparr>sck_name = ''runtime_readiness'', sck_passed = b3, sck_detail = d3\<rparr>, \<lparr>sck_name = ''core_demo_flow'', sck_passed = b4, sck_detail = d4\<rparr>,
       \<lparr>sck_name = ''audit_export'', sck_passed = b5, sck_detail = d5\<rparr>, \<lparr>sck_name = ''recovery_snapshot'', sck_passed = b6, sck_detail = d6\<rparr>]"
      and l: "ss_log s = n1 @ n2 @ n3 @ n4 @ n5 @ n6"
      and n: "h \<longrightarrow> served n1 ''GET'' ''/health''" "a \<longrightarrow> signed_in n2" "b3 \<longrightarrow> served n3 ''GET'' ''/ops/readiness''"
        "b4 \<longrightarrow> flow_created V n4" "b5 \<longrightarrow> served n5 ''GET'' ''/audit/export''"
        "b6 \<longrightarrow> served n6 ''GET'' ''/ops/recovery/export'' \<and> served n6 ''POST'' ''/ops/recovery/validate''"
    by (simp only: checked_def) (elim exE conjE, simp)
  have all: "h" "a" "b3" "b4" "b5" "b6" using assms(2) c by (simp_all add: smoke_passed_def)
  have "flow_created V (ss_log s)"
    using n(4) all(4) unfolding l flow_created_def created_def by fastforce
  with all n l c show ?thesis by (simp add: signed_in_def) blast
qed

definition ready_backend :: api where
  "ready_backend w q =
     Inr \<lparr>hr_status = 200, hr_text = [], hr_json = Inr (JObj
       [(''id'', JStr ''x1''), (''status'', JStr ''ready''), (''retention_policy'', JStr ''30 days''), (''valid'', JBool True)])\<rparr>"

definition sample_validator :: smoke_validator where
  "sample_validator = \<lparr>sv_email = ''a@b.c'', sv_password = ''pw'', sv_env = sample_env, sv_timestamp = ''20260101''\<rparr>"

definition passes :: "bool smoke \<Rightarrow> bool" where
  "passes f \<longleftrightarrow> (\<forall>s. \<exists>s'. f s = (Inr True, s') \<and>
     (list_all sck_passed (ss_checks s) \<longrightarrow> list_all sck_passed (ss_checks s')))"

lemma ready_backend_passes:
  "passes (validate_health ready_backend V)" "passes (validate_auth_context ready_backend V)"
  "passes (validate_readiness ready_backend V)" "passes (validate_audit_export ready_backend V)"
  "passes (validate_core_demo_flow ready_backend V)" "passes (smoke_validate_recovery ready_backend V)"
  by (auto simp: passes_def validate_health_def validate_auth_context_def validate_readiness_def validate_audit_export_def
      validate_core_demo_flow_def create_object_def smoke_validate_recovery_def validation_detail_def errors_length_def
      smoke_defs ready_backend_def is_ok_def ok_object_def reply_object_def sum_map_def json_field_def)

lemma passed_smoke_run_exercised_the_api_witness:
  "\<exists>s. smoke_run ready_backend sample_validator \<lparr>ss_token = [], ss_checks = [], ss_log = []\<rparr> = (Inr (), s) \<and>
    length (ss_checks s) = 6 \<and> flow_created sample_validator (ss_log s) \<and> served (ss_log s) ''POST'' ''/ops/recovery/validate''"
proof -
  note p = ready_backend_passes [of sample_validator, unfolded passes_def]
  let ?A = ready_backend and ?V = sample_validator and ?s = "\<lparr>ss_token = [], ss_checks = [], ss_log = []\<rparr>"
  obtain s1 where 1: "validate_health ?A ?V ?s = (Inr True, s1)" "list_all sck_passed (ss_checks s1)"
    using p(1) [rule_format, of ?s] by auto
  obtain s2 where 2: "validate_auth_context ?A ?V s1 = (Inr True, s2)" "list_all sck_passed (ss_checks s2)"
    using p(2) [rule_format, of s1] 1(2) by auto
  obtain s3 where 3: "validate_readiness ?A ?V s2 = (Inr True, s3)" "list_all sck_passed (ss_checks s3)"
    using p(3) [rule_format, of s2] 2(2) by auto
  obtain s4 where 4: "validate_core_demo_flow ?A ?V s3 = (Inr True, s4)" "list_all sck_passed (ss_checks s4)"
    using p(5) [rule_format, of s3] 3(2) by auto
  obtain s5 where 5: "validate_audit_export ?A ?V s4 = (Inr True, s5)" "list_all sck_passed (ss_checks s5)"
    using p(4) [rule_format, of s4] 4(2) by auto
  obtain s where 6: "smoke_validate_recovery ?A ?V s5 = (Inr True, s)" "list_all sck_passed (ss_checks s)"
    using p(6) [rule_format, of s5] 5(2) by auto
  have r: "smoke_run ?A ?V ?s = (Inr (), s)" by (simp add: smoke_run_def 1(1) 2(1) 3(1) 4(1) 5(1) 6(1) bindE_def ret_def)
  from 6(2) have "smoke_passed \<lparr>smoke_base_url = [], smoke_generated_at = 0, smoke_checks = ss_checks s\<rparr>"
    by (simp add: smoke_passed_def)
  note e = passed_smoke_run_exercised_the_api [OF r this]
  then have "length (map sck_name (ss_checks s)) = 6" by simp
  with r e show ?thesis by auto
qed

end
