(* ===== verification/ConnectorCredentials.thy ===== *)
theory ConnectorCredentials
  imports AgentTasks
begin

text \<open>
  \<open>connector_credentials.py\<close>: the shared secret of a connector, of which the store keeps a hash in
  the free-form \<open>config\<close>, and the counters that authentication and health checks keep. The operations
  change the connector object; here they return it, and the callers write it to the store.
\<close>

record ConnectorCredentialStatus =
  ccs_connector_id :: string
  ccs_auth_type :: ConnectorAuthType
  ccs_secret_configured :: bool
  ccs_secret_revoked_at :: "int option"
  ccs_secret_rotated_at :: "int option"
  ccs_last_used_at :: "int option"
  ccs_last_health_check_at :: "int option"
  ccs_failed_auth_count :: int
  ccs_last_error :: "string option"
  ccs_health_status :: ConnectorHealthStatus
  ccs_status :: ConnectorStatus

section \<open>Values of the configuration\<close>

definition config_get :: "AgentConnector \<Rightarrow> string \<Rightarrow> json" where
  "config_get c k = (case dict_get (conn_config c) k of None \<Rightarrow> JNull | Some v \<Rightarrow> v)"

definition config_set :: "string \<Rightarrow> json \<Rightarrow> AgentConnector \<Rightarrow> AgentConnector" where
  "config_set k v c = c\<lparr>conn_config := dict_set k v (conn_config c)\<rparr>"

text \<open>A string that \<open>datetime.fromisoformat\<close> reads is a \<open>JTime\<close>; any other value gives \<open>None\<close>.\<close>

definition parse_optional_datetime :: "json \<Rightarrow> int option" where
  "parse_optional_datetime v = (case v of JTime t \<Rightarrow> Some t | _ \<Rightarrow> None)"

definition hash_connector_secret :: "env \<Rightarrow> string \<Rightarrow> string" where
  "hash_connector_secret E secret = sha256 E secret"

definition safe_equal :: "string \<Rightarrow> string \<Rightarrow> bool" where
  "safe_equal l r \<longleftrightarrow> l = r"

section \<open>Secrets\<close>

text \<open>The raw secret, the reference and the hint, and the connector that keeps only the hash.\<close>

definition issue_connector_secret ::
    "env \<Rightarrow> AgentConnector \<Rightarrow> sys \<Rightarrow> ((string \<times> string \<times> string) \<times> AgentConnector) \<times> sys" where
  "issue_connector_secret E c s =
     (let raw = ''aixion_connector_'' @ token_urlsafe E (draws s);
          ref = ''connector_secret_'' @ new_id E ''secret'' (drawn s);
          hint = drop (length raw - 8) raw;
          c = c\<lparr>conn_secret_ref := Some ref\<rparr>;
          c = config_set ''secret_rotated_at'' (JTime (clock s))
             (config_set ''secret_revoked_at'' JNull
             (config_set ''secret_hint'' (JStr hint)
             (config_set ''secret_hash'' (JStr (hash_connector_secret E raw)) c)));
          c = c\<lparr>conn_updated_at := clock s\<rparr>
      in (((raw, ref, hint), c), drawn (drawn s)))"

definition revoke_connector_secret :: "int \<Rightarrow> AgentConnector \<Rightarrow> AgentConnector" where
  "revoke_connector_secret now c =
     (config_set ''secret_revoked_at'' (JTime now)
       (config_set ''secret_hint'' JNull
       (config_set ''secret_hash'' JNull (c\<lparr>conn_secret_ref := None\<rparr>))))\<lparr>conn_updated_at := now\<rparr>"

definition secret_configured :: "AgentConnector \<Rightarrow> bool" where
  "secret_configured c \<longleftrightarrow> truthy (conn_secret_ref c) \<and> json_truthy (config_get c ''secret_hash'')"

definition verify_connector_secret :: "env \<Rightarrow> AgentConnector \<Rightarrow> string \<Rightarrow> bool" where
  "verify_connector_secret E c secret \<longleftrightarrow>
     json_truthy (config_get c ''secret_hash'') \<and>
     safe_equal (py_str E (config_get c ''secret_hash'')) (hash_connector_secret E secret)"

section \<open>Counters\<close>

definition record_connector_auth_success :: "int \<Rightarrow> AgentConnector \<Rightarrow> AgentConnector" where
  "record_connector_auth_success now c =
     (let c = c\<lparr>conn_last_used_at := Some now, conn_last_error := None\<rparr>;
          c = (if conn_status c = ConnectorStatus.ENABLED
               then c\<lparr>conn_health_status := ConnectorHealthStatus.HEALTHY\<rparr> else c)
      in c\<lparr>conn_updated_at := now\<rparr>)"

definition record_connector_auth_failure :: "string \<Rightarrow> int \<Rightarrow> AgentConnector \<Rightarrow> AgentConnector" where
  "record_connector_auth_failure reason now c =
     (let c = c\<lparr>conn_failed_auth_count := conn_failed_auth_count c + 1, conn_last_error := Some reason\<rparr>;
          c = (if conn_status c = ConnectorStatus.ENABLED
               then c\<lparr>conn_health_status :=
                 (if conn_failed_auth_count c < 3 then ConnectorHealthStatus.DEGRADED
                  else ConnectorHealthStatus.FAILING)\<rparr> else c)
      in c\<lparr>conn_updated_at := now\<rparr>)"

definition mark_connector_health_check :: "bool \<Rightarrow> string \<Rightarrow> int \<Rightarrow> AgentConnector \<Rightarrow> AgentConnector" where
  "mark_connector_health_check healthy reason now c =
     c\<lparr>conn_last_health_check_at := Some now, conn_last_error := Some (if healthy then [] else reason),
       conn_health_status :=
         (if conn_status c = ConnectorStatus.DISABLED then ConnectorHealthStatus.DISABLED
          else if healthy then ConnectorHealthStatus.HEALTHY else ConnectorHealthStatus.DEGRADED),
       conn_updated_at := now\<rparr>"

definition connector_credential_status :: "AgentConnector \<Rightarrow> ConnectorCredentialStatus" where
  "connector_credential_status c =
     \<lparr>ccs_connector_id = conn_id c, ccs_auth_type = conn_auth_type c,
      ccs_secret_configured = secret_configured c,
      ccs_secret_revoked_at = parse_optional_datetime (config_get c ''secret_revoked_at''),
      ccs_secret_rotated_at = parse_optional_datetime (config_get c ''secret_rotated_at''),
      ccs_last_used_at = conn_last_used_at c, ccs_last_health_check_at = conn_last_health_check_at c,
      ccs_failed_auth_count = conn_failed_auth_count c, ccs_last_error = conn_last_error c,
      ccs_health_status = conn_health_status c, ccs_status = conn_status c\<rparr>"

section \<open>Lemmas\<close>

lemma config_get_set [simp]:
  "config_get (config_set k v c) j = (if j = k then v else config_get c j)"
  by (simp add: config_get_def config_set_def)

lemma config_set_simps [simp]:
  "conn_secret_ref (config_set k v c) = conn_secret_ref c" "conn_status (config_set k v c) = conn_status c"
  "conn_auth_type (config_set k v c) = conn_auth_type c" "conn_id (config_set k v c) = conn_id c"
  "conn_rate_limit_per_minute (config_set k v c) = conn_rate_limit_per_minute c"
  by (simp_all add: config_set_def)

lemma config_get_update [simp]:
  "config_get (c\<lparr>conn_updated_at := t\<rparr>) k = config_get c k"
  "config_get (c\<lparr>conn_secret_ref := r\<rparr>) k = config_get c k"
  by (simp_all add: config_get_def)

lemma counters_keep [simp]:
  "conn_config (record_connector_auth_success now c) = conn_config c"
  "conn_config (record_connector_auth_failure reason now c) = conn_config c"
  "conn_config (mark_connector_health_check healthy reason now c) = conn_config c"
  "conn_id (record_connector_auth_success now c) = conn_id c"
  "conn_id (record_connector_auth_failure reason now c) = conn_id c"
  by (simp_all add: record_connector_auth_success_def record_connector_auth_failure_def
      mark_connector_health_check_def Let_def)

text \<open>An issued secret is the one that verifies, and a revoked one verifies nothing.\<close>

lemma issued_secret_verifies:
  assumes "issue_connector_secret E c s = (((raw, ref, hint), c'), s')" "sha256 E raw \<noteq> []"
  shows "secret_configured c'"
    "verify_connector_secret E c' secret \<longleftrightarrow> sha256 E secret = sha256 E raw"
  using assms
  by (auto simp: issue_connector_secret_def secret_configured_def verify_connector_secret_def safe_equal_def
      hash_connector_secret_def py_str_def Let_def)

lemma revoked_secret_verifies_nothing:
  "\<not> secret_configured (revoke_connector_secret now c)"
  "\<not> verify_connector_secret E (revoke_connector_secret now c) secret"
  by (simp_all add: revoke_connector_secret_def secret_configured_def verify_connector_secret_def)

end
