(* ===== verification/SchemaMapper.thy ===== *)
theory SchemaMapper
  imports ConnectorCredentials
begin

text \<open>
  \<open>connector_schema_mapper.py\<close>: a connector may map the fields of a sender's payload to those of the
  webhook payload, by paths into the sender's JSON. The mapper is kept as JSON in the connector's
  \<open>config\<close> and validated each time it is read. An exception is a text on the left; where the
  text is the one pydantic or \<open>enum\<close> words, it is empty, because every caller replaces it.
\<close>

definition MAX_MAPPER_FIELDS :: nat where "MAX_MAPPER_FIELDS = 32"

definition MAX_PATH_LENGTH :: nat where "MAX_PATH_LENGTH = 120"

definition ALLOWED_TARGET_FIELDS :: "string list" where
  "ALLOWED_TARGET_FIELDS =
     [''action'', ''project_id'', ''title'', ''goal'', ''context'', ''source_url'', ''source_session_id'',
      ''source_task_id'', ''requested_action'', ''repository'', ''branch_preference'', ''risk_hint'',
      ''requires_approval'', ''metadata'', ''task_id'', ''event_type'', ''message'', ''status'']"

record ConnectorSchemaMapperConfig =
  sm_enabled :: bool
  sm_default_action :: AgentAction
  sm_field_paths :: "(string, string) dict"
  sm_defaults :: jdict

record ConnectorSchemaMapperStatus =
  sms_connector_id :: string
  sms_mapper :: "ConnectorSchemaMapperConfig option"
  sms_mapper_enabled :: bool

section \<open>Enumerations by value\<close>

definition enum_of :: "('e \<Rightarrow> string) \<Rightarrow> 'e list \<Rightarrow> string \<Rightarrow> string + 'e" where
  "enum_of val members text = (case find (\<lambda>e. val e = text) members of None \<Rightarrow> Inl [] | Some e \<Rightarrow> Inr e)"

definition agent_actions :: "AgentAction list" where
  "agent_actions = [AgentAction.CREATE_APPROVAL, AgentAction.CREATE_WORK_ORDER, AgentAction.CREATE_AGENT_TASK,
     AgentAction.APPEND_AGENT_TASK_EVENT, AgentAction.READ_AGENT_TASK, AgentAction.EXECUTE_GITHUB]"

definition requested_actions :: "AgentTaskRequestedAction list" where
  "requested_actions = [AgentTaskRequestedAction.CREATE_WORK_ORDER, AgentTaskRequestedAction.CREATE_APPROVAL,
     AgentTaskRequestedAction.REVIEW_ARCHITECTURE, AgentTaskRequestedAction.GENERATE_DOCS,
     AgentTaskRequestedAction.OTHER]"

definition task_event_types :: "AgentTaskEventType list" where
  "task_event_types = [AgentTaskEventType.TASK_CREATED, AgentTaskEventType.PLAN_RECEIVED,
     AgentTaskEventType.APPROVAL_CREATED, AgentTaskEventType.APPROVED, AgentTaskEventType.DENIED,
     AgentTaskEventType.EXECUTION_STARTED, AgentTaskEventType.TESTS_STARTED, AgentTaskEventType.TESTS_PASSED,
     AgentTaskEventType.TESTS_FAILED, AgentTaskEventType.PR_CREATED, AgentTaskEventType.RESULT_READY,
     AgentTaskEventType.FAILED, AgentTaskEventType.CANCELLED, AgentTaskEventType.DONE, AgentTaskEventType.NOTE]"

definition task_statuses :: "AgentTaskStatus list" where
  "task_statuses = [AgentTaskStatus.RECEIVED, AgentTaskStatus.PLANNING, AgentTaskStatus.WAITING_FOR_APPROVAL,
     AgentTaskStatus.APPROVED, AgentTaskStatus.DENIED, AgentTaskStatus.EXECUTING, AgentTaskStatus.TESTING,
     AgentTaskStatus.READY_FOR_PR, AgentTaskStatus.FAILED, AgentTaskStatus.CANCELLED, AgentTaskStatus.DONE]"

definition risk_levels :: "RiskLevel list" where
  "risk_levels = [RiskLevel.LOW, RiskLevel.MEDIUM, RiskLevel.HIGH, RiskLevel.CRITICAL, RiskLevel.BLOCKED]"

section \<open>Validation of a mapper\<close>

definition validate_path :: "string \<Rightarrow> string option" where
  "validate_path path =
     (let clean = py_strip path in
      if clean = [] then Some ''Connector mapper path cannot be empty''
      else if length clean > MAX_PATH_LENGTH then Some ''Connector mapper path is too long''
      else if list_ex (\<lambda>part. part \<in> set [[], ''__'', ''constructor'', ''prototype'']) (py_split_char (CHR ''.'') clean)
        then Some (''Connector mapper path is unsafe: '' @ path)
      else None)"

fun check_field_paths :: "(string, string) dict \<Rightarrow> string option" where
  "check_field_paths [] = None"
| "check_field_paths ((target, path) # ps) =
     (if target \<notin> set ALLOWED_TARGET_FIELDS then Some (''Unsupported connector mapper target field: '' @ target)
      else case validate_path path of Some e \<Rightarrow> Some e | None \<Rightarrow> check_field_paths ps)"

definition validate_field_paths :: "(string, string) dict \<Rightarrow> string option" where
  "validate_field_paths paths =
     (if length paths > MAX_MAPPER_FIELDS then Some ''Connector schema mapper has too many mapped fields''
      else check_field_paths paths)"

definition validate_defaults :: "jdict \<Rightarrow> string option" where
  "validate_defaults d =
     (case find (\<lambda>target. target \<notin> set ALLOWED_TARGET_FIELDS) (map fst d) of
        None \<Rightarrow> None
      | Some target \<Rightarrow> Some (''Unsupported connector mapper default field: '' @ target))"

definition make_mapper :: "ConnectorSchemaMapperConfig \<Rightarrow> string + ConnectorSchemaMapperConfig" where
  "make_mapper mapper =
     (case validate_field_paths (sm_field_paths mapper) of
        Some e \<Rightarrow> Inl e
      | None \<Rightarrow> (case validate_defaults (sm_defaults mapper) of Some e \<Rightarrow> Inl e | None \<Rightarrow> Inr mapper))"

text \<open>\<open>model_validate\<close> of the JSON in the configuration, and \<open>model_dump\<close>.\<close>

fun json_str_entries :: "jdict \<Rightarrow> string + (string, string) dict" where
  "json_str_entries [] = Inr []"
| "json_str_entries ((k, JStr v) # d) = sum_map (Cons (k, v)) (json_str_entries d)"
| "json_str_entries ((k, _) # d) = Inl []"

definition json_bool_text :: "string \<Rightarrow> string + bool" where
  "json_bool_text t =
     (if py_lower t \<in> set [''1'', ''on'', ''t'', ''true'', ''y'', ''yes''] then Inr True
      else if py_lower t \<in> set [''0'', ''off'', ''f'', ''false'', ''n'', ''no''] then Inr False
      else Inl [])"

text \<open>A field of type \<open>bool\<close> in pydantic's lax mode.\<close>

definition json_lax_bool :: "json \<Rightarrow> string + bool" where
  "json_lax_bool v =
     (case v of
        JBool b \<Rightarrow> Inr b
      | JInt i \<Rightarrow> if i = 0 then Inr False else if i = 1 then Inr True else Inl []
      | JNum q \<Rightarrow> if q = 0 then Inr False else if q = 1 then Inr True else Inl []
      | JStr t \<Rightarrow> json_bool_text t
      | _ \<Rightarrow> Inl [])"

definition json_enum :: "('e \<Rightarrow> string) \<Rightarrow> 'e list \<Rightarrow> json \<Rightarrow> string + 'e" where
  "json_enum val members v = (case v of JStr t \<Rightarrow> enum_of val members t | _ \<Rightarrow> Inl [])"

definition with_default :: "jdict \<Rightarrow> string \<Rightarrow> 'a \<Rightarrow> (json \<Rightarrow> string + 'a) \<Rightarrow> string + 'a" where
  "with_default d k a parse = (case dict_get d k of None \<Rightarrow> Inr a | Some v \<Rightarrow> parse v)"

definition json_object :: "json \<Rightarrow> string + jdict" where
  "json_object v = (case v of JObj d \<Rightarrow> Inr d | _ \<Rightarrow> Inl [])"

definition mapper_of_json :: "json \<Rightarrow> string + ConnectorSchemaMapperConfig" where
  "mapper_of_json v =
     sum_then (json_object v) (\<lambda>d.
     sum_then (with_default d ''enabled'' True json_lax_bool) (\<lambda>enabled.
     sum_then (with_default d ''default_action'' AgentAction.CREATE_AGENT_TASK
        (json_enum AgentAction_value agent_actions)) (\<lambda>action.
     sum_then (with_default d ''field_paths'' [] (\<lambda>v. sum_then (json_object v) json_str_entries)) (\<lambda>paths.
     sum_then (with_default d ''defaults'' [] json_object) (\<lambda>defaults.
       make_mapper \<lparr>sm_enabled = enabled, sm_default_action = action, sm_field_paths = paths,
         sm_defaults = defaults\<rparr>)))))"

definition mapper_json :: "ConnectorSchemaMapperConfig \<Rightarrow> json" where
  "mapper_json mapper =
     JObj [(''enabled'', JBool (sm_enabled mapper)),
           (''default_action'', JStr (AgentAction_value (sm_default_action mapper))),
           (''field_paths'', JObj (map (\<lambda>(k, p). (k, JStr p)) (sm_field_paths mapper))),
           (''defaults'', JObj (sm_defaults mapper))]"

section \<open>Mapping a payload\<close>

fun get_path_parts :: "json \<Rightarrow> string list \<Rightarrow> json" where
  "get_path_parts current [] = current"
| "get_path_parts (JObj d) (part # parts) =
     (case dict_get d part of None \<Rightarrow> JNull | Some v \<Rightarrow> get_path_parts v parts)"
| "get_path_parts _ (part # parts) = JNull"

definition get_path :: "json \<Rightarrow> string \<Rightarrow> json" where
  "get_path payload path = get_path_parts payload (py_split_char (CHR ''.'') path)"

definition STRING_FIELDS :: "string list" where
  "STRING_FIELDS =
     [''project_id'', ''title'', ''goal'', ''context'', ''source_url'', ''source_session_id'', ''source_task_id'',
      ''repository'', ''branch_preference'', ''task_id'', ''message'']"

definition coerce_enum :: "env \<Rightarrow> ('e \<Rightarrow> string) \<Rightarrow> 'e list \<Rightarrow> json \<Rightarrow> string + json" where
  "coerce_enum E val members v = sum_map (\<lambda>e. JStr (val e)) (enum_of val members (py_str E v))"

definition coerce_value :: "env \<Rightarrow> string \<Rightarrow> json \<Rightarrow> string + json" where
  "coerce_value E field v =
     (if v = JNull then Inr JNull
      else if field = ''action'' then coerce_enum E AgentAction_value agent_actions v
      else if field = ''requested_action'' then coerce_enum E AgentTaskRequestedAction_value requested_actions v
      else if field = ''event_type'' then coerce_enum E AgentTaskEventType_value task_event_types v
      else if field = ''status'' then coerce_enum E AgentTaskStatus_value task_statuses v
      else if field = ''risk_hint'' then coerce_enum E RiskLevel_value risk_levels v
      else if field = ''requires_approval'' then
        (case v of
           JBool b \<Rightarrow> Inr v
         | JStr t \<Rightarrow> Inr (JBool (py_lower (py_strip t) \<in> set [''true'', ''1'', ''yes'', ''y'']))
         | _ \<Rightarrow> Inr (JBool (json_truthy v)))
      else if field = ''metadata'' then
        (case v of JObj d \<Rightarrow> Inr v | _ \<Rightarrow> Inl ''Connector mapper metadata must resolve to an object'')
      else if field \<in> set STRING_FIELDS then Inr (JStr (py_str E v))
      else Inr v)"

fun apply_defaults :: "env \<Rightarrow> jdict \<Rightarrow> jdict \<Rightarrow> string + jdict" where
  "apply_defaults E [] normalized = Inr normalized"
| "apply_defaults E ((target, v) # ds) normalized =
     sum_then (coerce_value E target v) (\<lambda>w. apply_defaults E ds (dict_set target w normalized))"

fun apply_paths :: "env \<Rightarrow> json \<Rightarrow> (string, string) dict \<Rightarrow> jdict \<Rightarrow> string + jdict" where
  "apply_paths E payload [] normalized = Inr normalized"
| "apply_paths E payload ((target, path) # ps) normalized =
     (let v = get_path payload path in
      if v = JNull then apply_paths E payload ps normalized
      else sum_then (coerce_value E target v) (\<lambda>w. apply_paths E payload ps (dict_set target w normalized)))"

definition mapper_from_connector :: "AgentConnector \<Rightarrow> string + ConnectorSchemaMapperConfig option" where
  "mapper_from_connector c =
     (let raw = config_get c ''schema_mapper''
      in if \<not> json_truthy raw then Inr None else sum_map Some (mapper_of_json raw))"

definition map_payload :: "env \<Rightarrow> ConnectorSchemaMapperConfig option \<Rightarrow> json \<Rightarrow> string + json" where
  "map_payload E mapper payload =
     (case mapper of
        None \<Rightarrow> Inr payload
      | Some m \<Rightarrow>
          if \<not> sm_enabled m then Inr payload
          else sum_map JObj
            (sum_then (apply_defaults E (sm_defaults m) [(''action'', JStr (AgentAction_value (sm_default_action m)))])
               (apply_paths E payload (sm_field_paths m))))"

definition normalize_connector_payload ::
    "env \<Rightarrow> AgentConnector \<Rightarrow> json \<Rightarrow> ConnectorSchemaMapperConfig option \<Rightarrow> string + json" where
  "normalize_connector_payload E c payload mapper =
     sum_then (case mapper of Some m \<Rightarrow> Inr (Some m) | None \<Rightarrow> mapper_from_connector c)
       (\<lambda>active. map_payload E active payload)"

definition mapper_active :: "ConnectorSchemaMapperConfig option \<Rightarrow> bool" where
  "mapper_active mapper = (case mapper of None \<Rightarrow> False | Some m \<Rightarrow> sm_enabled m)"

definition get_connector_schema_mapper_status :: "AgentConnector \<Rightarrow> string + ConnectorSchemaMapperStatus" where
  "get_connector_schema_mapper_status c =
     sum_map (\<lambda>mapper. \<lparr>sms_connector_id = conn_id c, sms_mapper = mapper,
        sms_mapper_enabled = mapper_active mapper\<rparr>) (mapper_from_connector c)"

definition set_connector_schema_mapper ::
    "AgentConnector \<Rightarrow> ConnectorSchemaMapperConfig \<Rightarrow> (string + ConnectorSchemaMapperStatus) \<times> AgentConnector" where
  "set_connector_schema_mapper c mapper =
     (let c = config_set ''schema_mapper'' (mapper_json mapper) c
      in (get_connector_schema_mapper_status c, c))"

definition preview_warnings :: "ConnectorSchemaMapperConfig option \<Rightarrow> jdict \<Rightarrow> string list" where
  "preview_warnings mapper normalized =
     (if \<not> mapper_active mapper
      then [''No enabled schema mapper is configured; preview returned original payload.''] else [])
   @ (if dict_get normalized ''action'' = None then [''Normalized payload has no action field.''] else [])
   @ (let empty = (\<lambda>k. case dict_get normalized k of None \<Rightarrow> True | Some v \<Rightarrow> \<not> json_truthy v)
      in if dict_get normalized ''action'' = Some (JStr ''CREATE_AGENT_TASK'') \<and> (empty ''title'' \<or> empty ''goal'')
         then [''CREATE_AGENT_TASK payload should include title and goal.''] else [])"

text \<open>The normalized payload, whether a mapper is enabled, and the warnings.\<close>

definition preview_connector_schema_mapping ::
    "env \<Rightarrow> AgentConnector \<Rightarrow> jdict \<Rightarrow> ConnectorSchemaMapperConfig option \<Rightarrow> string + (json \<times> bool \<times> string list)" where
  "preview_connector_schema_mapping E c sample mapper =
     sum_then (case mapper of Some m \<Rightarrow> Inr (Some m) | None \<Rightarrow> mapper_from_connector c) (\<lambda>active.
     sum_then (normalize_connector_payload E c (JObj sample) active) (\<lambda>normalized.
       Inr (normalized, mapper_active active,
         preview_warnings active (case normalized of JObj d \<Rightarrow> d | _ \<Rightarrow> []))))"

section \<open>Lemmas\<close>

lemma enum_of_member:
  assumes "distinct (map val members)" "e \<in> set members"
  shows "enum_of val members (val e) = Inr e"
proof -
  have "find (\<lambda>x. val x = val e) members = Some e"
    using assms by (induction members) force+
  then show ?thesis by (simp add: enum_of_def)
qed

lemma agent_action_round_trip: "enum_of AgentAction_value agent_actions (AgentAction_value a) = Inr a"
  by (cases a) (simp_all add: enum_of_def agent_actions_def)

lemma json_str_entries_map: "json_str_entries (map (\<lambda>(k, p). (k, JStr p)) ps) = Inr ps"
  by (induction ps) (auto simp: sum_map_def)

text \<open>A mapper that is set is read back as it was.\<close>

lemma mapper_round_trip: "make_mapper mapper = Inr mapper \<Longrightarrow> mapper_of_json (mapper_json mapper) = Inr mapper"
  by (cases mapper) (simp add: mapper_of_json_def mapper_json_def json_object_def with_default_def json_lax_bool_def
      json_enum_def agent_action_round_trip json_str_entries_map)

lemma set_mapper_status:
  "make_mapper mapper = Inr mapper \<Longrightarrow> mapper_from_connector (snd (set_connector_schema_mapper c mapper)) = Inr (Some mapper)"
  by (simp add: set_connector_schema_mapper_def mapper_from_connector_def Let_def mapper_round_trip sum_map_def)
    (simp add: mapper_json_def)

text \<open>A mapped payload has no field the mapper may not set.\<close>

lemma fst_dict_set_subset: "set (map fst (dict_set k v d)) \<subseteq> insert k (set (map fst d))"
  by (auto simp: fst_dict_set simp del: set_map split: if_splits)

lemma apply_defaults_fields:
  "apply_defaults E ds d = Inr d' \<Longrightarrow> set (map fst d') \<subseteq> set (map fst ds) \<union> set (map fst d)"
proof (induction E ds d rule: apply_defaults.induct)
  case (2 E target v ds normalized)
  then obtain w where "coerce_value E target v = Inr w" "apply_defaults E ds (dict_set target w normalized) = Inr d'"
    by (auto simp: sum_then_Inr_iff)
  with 2(1) [of w] fst_dict_set_subset [of target w normalized] show ?case by auto
qed simp

lemma apply_paths_fields:
  "apply_paths E p ps d = Inr d' \<Longrightarrow> set (map fst d') \<subseteq> set (map fst ps) \<union> set (map fst d)"
proof (induction ps arbitrary: d)
  case (Cons a ps)
  obtain target path where a: "a = (target, path)" by (cases a)
  show ?case
  proof (cases "get_path p path = JNull")
    case True
    with Cons a show ?thesis by (auto simp: Let_def)
  next
    case False
    then obtain w where "apply_paths E p ps (dict_set target w d) = Inr d'"
      using Cons.prems a by (auto simp: Let_def sum_then_Inr_iff)
    with Cons.IH [of "dict_set target w d"] a fst_dict_set_subset [of target w d] show ?thesis by auto
  qed
qed simp

lemma check_field_paths_targets: "check_field_paths ps = None \<Longrightarrow> set (map fst ps) \<subseteq> set ALLOWED_TARGET_FIELDS"
  by (induction ps rule: check_field_paths.induct) (auto split: if_splits option.splits)

lemma mapped_fields_allowed:
  assumes "make_mapper m = Inr m" "sm_enabled m" "map_payload E (Some m) payload = Inr (JObj d)"
  shows "set (map fst d) \<subseteq> set ALLOWED_TARGET_FIELDS"
proof -
  have f: "set (map fst (sm_field_paths m)) \<subseteq> set ALLOWED_TARGET_FIELDS"
      "set (map fst (sm_defaults m)) \<subseteq> set ALLOWED_TARGET_FIELDS"
    using assms(1) check_field_paths_targets
    by (auto simp: make_mapper_def validate_field_paths_def validate_defaults_def find_None_iff
        split: option.splits if_splits)
  obtain d1 where d1: "apply_defaults E (sm_defaults m) [(''action'', JStr (AgentAction_value (sm_default_action m)))] = Inr d1"
      "apply_paths E payload (sm_field_paths m) d1 = Inr d"
    using assms(2,3) by (auto simp: map_payload_def sum_map_Inr_iff sum_then_Inr_iff)
  have "''action'' \<in> set ALLOWED_TARGET_FIELDS" by (simp add: ALLOWED_TARGET_FIELDS_def)
  with f apply_defaults_fields [OF d1(1)] apply_paths_fields [OF d1(2)] show ?thesis
    by (simp del: set_map) blast
qed

end
