(* ===== verification/ConnectorWebhook.thy ===== *)
theory ConnectorWebhook
  imports SchemaMapper
begin

text \<open>
  \<open>connector_webhook.py\<close>: what a connector may send. A request is authenticated by a bearer secret or
  by an HMAC over its timestamp, nonce and body, counted against the connector's rate limit, mapped to
  the webhook payload, and creates a task or appends an event to one of the connector's own tasks. The
  connector is an object of the store; every change is written there.
\<close>

definition MAX_WEBHOOK_METADATA_KEYS :: nat where "MAX_WEBHOOK_METADATA_KEYS = 50"

definition HMAC_SIGNATURE_VERSION :: string where "HMAC_SIGNATURE_VERSION = ''v1''"

definition HMAC_TIMESTAMP_TOLERANCE_SECONDS :: int where "HMAC_TIMESTAMP_TOLERANCE_SECONDS = 300"

definition HMAC_NONCE_TTL_SECONDS :: int where "HMAC_NONCE_TTL_SECONDS = 600"

definition HMAC_MAX_TRACKED_NONCES :: nat where "HMAC_MAX_TRACKED_NONCES = 200"

definition CONNECTOR_RATE_LIMIT_WINDOW :: int where "CONNECTOR_RATE_LIMIT_WINDOW = seconds 60"

text \<open>
  A request: its headers, its body, what \<open>request.json()\<close> reads of it, and the text of the exception
  that decoding, mapping or validating it raises, if one does.
\<close>

record WebhookRequest =
  wr_body :: string
  wr_json :: "json option"
  wr_error :: string
  wr_authorization :: "string option"
  wr_signature :: "string option"
  wr_signature_version :: "string option"
  wr_timestamp :: "string option"
  wr_nonce :: "string option"

record ConnectorWebhookPayload =
  wp_action :: AgentAction
  wp_project_id :: "string option"
  wp_title :: "string option"
  wp_goal :: "string option"
  wp_context :: string
  wp_source_url :: "string option"
  wp_source_session_id :: "string option"
  wp_source_task_id :: "string option"
  wp_requested_action :: AgentTaskRequestedAction
  wp_repository :: "string option"
  wp_branch_preference :: "string option"
  wp_risk_hint :: "RiskLevel option"
  wp_requires_approval :: bool
  wp_metadata :: jdict
  wp_task_id :: "string option"
  wp_event_type :: AgentTaskEventType
  wp_message :: string
  wp_status :: "AgentTaskStatus option"

record ConnectorWebhookResponse =
  wx_accepted :: bool
  wx_action :: AgentAction
  wx_connector_id :: string
  wx_task_id :: "string option"
  wx_event_id :: "string option"
  wx_message :: string

section \<open>Integers from text and JSON\<close>

text \<open>\<open>int(text)\<close>: digits with single underscores between them, a sign, and white space around.\<close>

definition digit_value :: "char \<Rightarrow> int option" where
  "digit_value c = (let n = (of_char c :: nat) in if 48 \<le> n \<and> n \<le> 57 then Some (int n - 48) else None)"

fun read_digits :: "int \<Rightarrow> bool \<Rightarrow> string \<Rightarrow> int option" where
  "read_digits acc after_digit [] = (if after_digit then Some acc else None)"
| "read_digits acc after_digit (c # cs) =
     (case digit_value c of
        Some d \<Rightarrow> read_digits (10 * acc + d) True cs
      | None \<Rightarrow> if c = CHR ''_'' \<and> after_digit then read_digits acc False cs else None)"

definition py_int :: "string \<Rightarrow> int option" where
  "py_int text =
     (case py_strip text of
        [] \<Rightarrow> None
      | c # cs \<Rightarrow>
          if c = CHR ''-'' then map_option uminus (read_digits 0 False cs)
          else if c = CHR ''+'' then read_digits 0 False cs
          else read_digits 0 False (c # cs))"

text \<open>\<open>int(value)\<close> of a JSON value; \<open>None\<close> where it raises.\<close>

definition json_int :: "json \<Rightarrow> int option" where
  "json_int v =
     (case v of
        JInt i \<Rightarrow> Some i
      | JBool b \<Rightarrow> Some (if b then 1 else 0)
      | JNum q \<Rightarrow> Some (if q < 0 then \<lceil>q\<rceil> else \<lfloor>q\<rfloor>)
      | JStr t \<Rightarrow> py_int t
      | _ \<Rightarrow> None)"

section \<open>Authentication by HMAC\<close>

definition body_hash :: "env \<Rightarrow> string \<Rightarrow> string" where
  "body_hash E body = sha256 E body"

definition hmac_v1_signing_payload :: "env \<Rightarrow> string \<Rightarrow> string \<Rightarrow> string \<Rightarrow> string" where
  "hmac_v1_signing_payload E timestamp nonce body =
     HMAC_SIGNATURE_VERSION @ ''.'' @ timestamp @ ''.'' @ nonce @ ''.'' @ body_hash E body"

definition expected_hmac_v1_signature :: "env \<Rightarrow> string \<Rightarrow> string \<Rightarrow> string \<Rightarrow> string \<Rightarrow> string" where
  "expected_hmac_v1_signature E secret_hash timestamp nonce body =
     hmac_sha256 E secret_hash (hmac_v1_signing_payload E timestamp nonce body)"

definition removeprefix :: "string \<Rightarrow> string \<Rightarrow> string" where
  "removeprefix prefix text = (if py_startswith text prefix then drop (length prefix) text else text)"

definition extract_hmac_signature :: "string \<Rightarrow> string" where
  "extract_hmac_signature header =
     (let signature = py_strip header; prefix = HMAC_SIGNATURE_VERSION @ ''=''
      in if py_startswith signature prefix then py_strip (removeprefix prefix signature) else signature)"

definition unauthorized :: "string \<Rightarrow> pyerror" where
  "unauthorized detail = HTTPException 401 detail"

definition parse_unix_timestamp :: "string option \<Rightarrow> pyerror + int" where
  "parse_unix_timestamp timestamp =
     (if \<not> truthy timestamp then Inl (unauthorized ''Missing connector HMAC timestamp'')
      else case py_int (opt_str timestamp) of
        None \<Rightarrow> Inl (unauthorized ''Invalid connector HMAC timestamp'')
      | Some t \<Rightarrow> Inr t)"

definition live_nonces :: "int \<Rightarrow> jdict \<Rightarrow> (string \<times> int) list" where
  "live_nonces now history =
     List.map_filter (\<lambda>(nonce, seen).
       case json_int seen of
         None \<Rightarrow> None
       | Some t \<Rightarrow> if now - t \<le> HMAC_NONCE_TTL_SECONDS then Some (nonce, t) else None) history"

definition clean_hmac_nonce_history :: "AgentConnector \<Rightarrow> int \<Rightarrow> (string, int) dict" where
  "clean_hmac_nonce_history c now =
     (let cleaned = live_nonces now
            (case config_get c ''hmac_nonce_history'' of JObj d \<Rightarrow> d | _ \<Rightarrow> [])
      in if length cleaned > HMAC_MAX_TRACKED_NONCES
         then drop (length cleaned - HMAC_MAX_TRACKED_NONCES) (sort_key snd cleaned)
         else cleaned)"

definition nonce_history_json :: "(string, int) dict \<Rightarrow> json" where
  "nonce_history_json h = JObj (map (\<lambda>(nonce, t). (nonce, JInt t)) h)"

definition assert_hmac_v1_not_replayed ::
    "AgentConnector \<Rightarrow> string \<Rightarrow> int \<Rightarrow> int \<Rightarrow> (pyerror, unit, AgentConnector) outcome" where
  "assert_hmac_v1_not_replayed c nonce now_epoch now =
     (let history = clean_hmac_nonce_history c now_epoch in
      if dict_get history nonce \<noteq> None then
        raise (unauthorized ''Connector HMAC nonce has already been used'')
          ((config_set ''hmac_nonce_history'' (nonce_history_json history) c)\<lparr>conn_updated_at := now\<rparr>)
      else
        ret () ((config_set ''hmac_nonce_history'' (nonce_history_json (dict_set nonce now_epoch history)) c)
                  \<lparr>conn_updated_at := now\<rparr>))"

definition epoch :: "sys \<Rightarrow> int" where
  "epoch s = clock s div 1000000"

definition authenticate_hmac_v1 ::
    "env \<Rightarrow> WebhookRequest \<Rightarrow> string \<Rightarrow> AgentConnector \<Rightarrow> int \<Rightarrow> int \<Rightarrow> (pyerror, unit, AgentConnector) outcome" where
  "authenticate_hmac_v1 E r stored_hash c now_epoch now =
     (if wr_signature_version r \<noteq> Some HMAC_SIGNATURE_VERSION then
        raise (unauthorized ''Unsupported connector HMAC signature version'') c
      else if \<not> truthy (wr_signature r) then raise (unauthorized ''Missing connector HMAC signature'') c
      else if \<not> truthy (wr_nonce r) \<or> length (opt_str (wr_nonce r)) > 128 then
        raise (unauthorized ''Invalid connector HMAC nonce'') c
      else liftE (parse_unix_timestamp (wr_timestamp r)) (\<lambda>timestamp c.
        if \<bar>now_epoch - timestamp\<bar> > HMAC_TIMESTAMP_TOLERANCE_SECONDS then
          raise (unauthorized ''Connector HMAC timestamp is stale'') c
        else if \<not> safe_equal (extract_hmac_signature (opt_str (wr_signature r)))
            (expected_hmac_v1_signature E stored_hash (int_str timestamp) (opt_str (wr_nonce r)) (wr_body r)) then
          raise (unauthorized ''Invalid connector HMAC signature'') c
        else assert_hmac_v1_not_replayed c (opt_str (wr_nonce r)) now_epoch now) c)"

section \<open>Authentication of a request\<close>

text \<open>The failure is counted and stored before the exception leaves.\<close>

definition refuse_connector :: "string \<Rightarrow> string \<Rightarrow> AgentConnector \<Rightarrow> sys \<Rightarrow> 'a result" where
  "refuse_connector reason detail c s =
     raise (unauthorized detail) (persist (put_connector (record_connector_auth_failure reason (clock s) c) s))"

definition authenticate_connector :: "env \<Rightarrow> WebhookRequest \<Rightarrow> AgentConnector \<Rightarrow> sys \<Rightarrow> AgentConnector result" where
  "authenticate_connector E r c s =
     (if conn_status c \<noteq> ConnectorStatus.ENABLED then
        refuse_connector ''connector disabled'' ''Connector is disabled'' c s
      else if conn_auth_type c = ConnectorAuthType.NONE then
        raise (unauthorized ''Connector webhook auth type NONE is not allowed'') s
      else if \<not> secret_configured c then
        refuse_connector ''missing connector secret'' ''Connector secret is not configured'' c s
      else
        let stored_hash = py_str E (config_get c ''secret_hash'');
            accept = (\<lambda>c. let c = record_connector_auth_success (clock s) c in ret c (put_connector c s))
        in if conn_auth_type c = ConnectorAuthType.HMAC then
             (case authenticate_hmac_v1 E r stored_hash c (epoch s) (clock s) of
                (Inr _, c) \<Rightarrow> accept c
              | (Inl e, c) \<Rightarrow> refuse_connector (pyerror_message e) (pyerror_message e) c s)
           else if \<not> (truthy (wr_authorization r) \<and> py_startswith (opt_str (wr_authorization r)) ''Bearer '') then
             refuse_connector ''missing bearer token'' ''Missing connector bearer token'' c s
           else if \<not> safe_equal stored_hash
               (hash_connector_secret E (py_strip (removeprefix ''Bearer '' (opt_str (wr_authorization r))))) then
             refuse_connector ''invalid bearer token'' ''Invalid connector bearer token'' c s
           else accept c)"

section \<open>Rate limit\<close>

definition rate_count :: "AgentConnector \<Rightarrow> pyerror + int" where
  "rate_count c =
     (let v = config_get c ''rate_limit_request_count''
      in if \<not> json_truthy v then Inr 0
         else case json_int v of None \<Rightarrow> Inl (ValueError ''invalid literal for int()'') | Some i \<Rightarrow> Inr i)"

definition set_rate_count :: "int \<Rightarrow> int \<Rightarrow> AgentConnector \<Rightarrow> AgentConnector" where
  "set_rate_count n now c =
     (config_set ''rate_limit_request_count'' (JInt n) c)\<lparr>conn_updated_at := now\<rparr>"

definition connector_actor :: "AgentConnector \<Rightarrow> string" where
  "connector_actor c = ''connector:'' @ conn_id c"

definition enforce_connector_rate_limit :: "env \<Rightarrow> AgentConnector \<Rightarrow> sys \<Rightarrow> AgentConnector result" where
  "enforce_connector_rate_limit E c s =
     (let now = clock s;
          window = parse_optional_datetime (config_get c ''rate_limit_window_started_at'')
      in liftE (rate_count c) (\<lambda>count s.
           if (case window of None \<Rightarrow> True | Some w \<Rightarrow> w + CONNECTOR_RATE_LIMIT_WINDOW \<le> now) then
             let c = set_rate_count 1 now (config_set ''rate_limit_window_started_at'' (JTime now) c)
             in ret c (put_connector c s)
           else if count \<ge> conn_rate_limit_per_minute c then
             let c = set_rate_count (count + 1) now c;
                 s = add_audit E ''connector.webhook_rate_limited'' (conn_id c)
                   [(''connector_id'', JStr (conn_id c)), (''limit'', JInt (conn_rate_limit_per_minute c)),
                    (''request_count'', JInt (count + 1))] (connector_actor c) (put_connector c s)
             in raise (HTTPException 429 ''Connector webhook rate limit exceeded'') (persist s)
           else let c = set_rate_count (count + 1) now c in ret c (put_connector c s)) s)"

section \<open>The payload\<close>

definition json_string :: "json \<Rightarrow> string + string" where
  "json_string v = (case v of JStr t \<Rightarrow> Inr t | _ \<Rightarrow> Inl [])"

definition json_optional :: "(json \<Rightarrow> string + 'a) \<Rightarrow> json \<Rightarrow> string + 'a option" where
  "json_optional parse v = (if v = JNull then Inr None else sum_map Some (parse v))"

definition optional_text :: "jdict \<Rightarrow> string \<Rightarrow> string + string option" where
  "optional_text d k = with_default d k None (json_optional json_string)"

text \<open>\<open>ConnectorWebhookPayload.model_validate\<close>; the text of the pydantic error is the request's.\<close>

definition validate_webhook_payload :: "json \<Rightarrow> string + ConnectorWebhookPayload" where
  "validate_webhook_payload v =
     sum_then (json_object v) (\<lambda>d.
     sum_then (with_default d ''action'' AgentAction.CREATE_AGENT_TASK (json_enum AgentAction_value agent_actions)) (\<lambda>action.
     sum_then (optional_text d ''project_id'') (\<lambda>project.
     sum_then (optional_text d ''title'') (\<lambda>title.
     sum_then (optional_text d ''goal'') (\<lambda>goal.
     sum_then (with_default d ''context'' [] json_string) (\<lambda>context.
     sum_then (optional_text d ''source_url'') (\<lambda>url.
     sum_then (optional_text d ''source_session_id'') (\<lambda>session.
     sum_then (optional_text d ''source_task_id'') (\<lambda>source.
     sum_then (with_default d ''requested_action'' AgentTaskRequestedAction.CREATE_WORK_ORDER
        (json_enum AgentTaskRequestedAction_value requested_actions)) (\<lambda>requested.
     sum_then (optional_text d ''repository'') (\<lambda>repository.
     sum_then (optional_text d ''branch_preference'') (\<lambda>branch.
     sum_then (with_default d ''risk_hint'' None (json_optional (json_enum RiskLevel_value risk_levels))) (\<lambda>risk.
     sum_then (with_default d ''requires_approval'' True json_lax_bool) (\<lambda>approval.
     sum_then (with_default d ''metadata'' [] json_object) (\<lambda>metadata.
     sum_then (optional_text d ''task_id'') (\<lambda>tid.
     sum_then (with_default d ''event_type'' AgentTaskEventType.NOTE
        (json_enum AgentTaskEventType_value task_event_types)) (\<lambda>event_type.
     sum_then (with_default d ''message'' [] json_string) (\<lambda>message.
     sum_then (with_default d ''status'' None (json_optional (json_enum AgentTaskStatus_value task_statuses))) (\<lambda>status.
       Inr \<lparr>wp_action = action, wp_project_id = project, wp_title = title, wp_goal = goal, wp_context = context,
         wp_source_url = url, wp_source_session_id = session, wp_source_task_id = source,
         wp_requested_action = requested, wp_repository = repository, wp_branch_preference = branch,
         wp_risk_hint = risk, wp_requires_approval = approval, wp_metadata = metadata, wp_task_id = tid,
         wp_event_type = event_type, wp_message = message, wp_status = status\<rparr>)))))))))))))))))))"

section \<open>What a connector may do\<close>

definition provider_for_connector :: "AgentConnector \<Rightarrow> AgentProvider" where
  "provider_for_connector c =
     (case conn_provider_label c of
        ConnectorProviderLabel.CHATGPT \<Rightarrow> AgentProvider.CHATGPT
      | ConnectorProviderLabel.CLAUDE \<Rightarrow> AgentProvider.CLAUDE
      | ConnectorProviderLabel.CURSOR \<Rightarrow> AgentProvider.CURSOR
      | ConnectorProviderLabel.CODEX \<Rightarrow> AgentProvider.CODEX
      | _ \<Rightarrow> AgentProvider.OTHER)"

definition assert_connector_action :: "AgentConnector \<Rightarrow> AgentAction \<Rightarrow> pyerror + unit" where
  "assert_connector_action c action =
     (if action \<notin> set (conn_allowed_actions c)
      then Inl (HTTPException 403 (''Connector is not allowed to perform '' @ AgentAction_value action))
      else Inr ())"

text \<open>A scope that is empty allows everything, and so does a missing value.\<close>

definition out_of_scope :: "string option \<Rightarrow> string list \<Rightarrow> bool" where
  "out_of_scope v allowed \<longleftrightarrow> truthy v \<and> allowed \<noteq> [] \<and> opt_str v \<notin> set allowed"

definition assert_connector_scope :: "AgentConnector \<Rightarrow> string option \<Rightarrow> string option \<Rightarrow> pyerror + unit" where
  "assert_connector_scope c project repository =
     (if out_of_scope project (conn_allowed_project_ids c)
      then Inl (HTTPException 403 ''Connector is not allowed for this project'')
      else if out_of_scope repository (conn_allowed_repositories c)
      then Inl (HTTPException 403 ''Connector is not allowed for this repository'')
      else Inr ())"

definition connector_tags :: "AgentConnector \<Rightarrow> jdict" where
  "connector_tags c =
     [(''connector_id'', JStr (conn_id c)), (''connector_name'', JStr (conn_name c)),
      (''connector_provider_label'', JStr (ConnectorProviderLabel_value (conn_provider_label c))),
      (''connector_type'', JStr (ConnectorType_value (conn_type c))), (''connector_webhook'', JBool True)]"

definition dict_update :: "('k, 'v) dict \<Rightarrow> ('k, 'v) dict \<Rightarrow> ('k, 'v) dict" where
  "dict_update d new = fold (\<lambda>(k, v). dict_set k v) new d"

definition safe_metadata :: "AgentConnector \<Rightarrow> ConnectorWebhookPayload \<Rightarrow> pyerror + jdict" where
  "safe_metadata c p =
     (if length (wp_metadata p) > MAX_WEBHOOK_METADATA_KEYS
      then Inl (HTTPException 400 ''Connector metadata has too many keys'')
      else Inr (dict_update (wp_metadata p) (connector_tags c)))"

definition connector_task ::
    "env \<Rightarrow> AgentConnector \<Rightarrow> ConnectorWebhookPayload \<Rightarrow> jdict \<Rightarrow> sys \<Rightarrow> AgentTask" where
  "connector_task E c p metadata s =
     \<lparr>task_provider = provider_for_connector c, task_project_id = wp_project_id p,
      task_title = py_strip (opt_str (wp_title p)), task_goal = py_strip (opt_str (wp_goal p)),
      task_context = wp_context p, task_source_url = wp_source_url p,
      task_source_session_id = wp_source_session_id p, task_source_task_id = wp_source_task_id p,
      task_requested_action = wp_requested_action p, task_repository = wp_repository p,
      task_branch_preference = wp_branch_preference p, task_risk_hint = wp_risk_hint p,
      task_requires_approval = wp_requires_approval p, task_metadata = metadata,
      task_id = new_id E ''agent_task'' s, task_status = AgentTaskStatus.RECEIVED,
      task_external_agent_id = Some (conn_id c), task_external_agent_name = Some (conn_name c),
      task_approval_request_id = None, task_worker_lease_owner = None, task_worker_lease_expires_at = None,
      task_worker_lease_token = None, task_created_by_user_id = None, task_created_at = clock s,
      task_updated_at = clock s\<rparr>"

definition create_task_from_connector ::
    "env \<Rightarrow> AgentConnector \<Rightarrow> ConnectorWebhookPayload \<Rightarrow> sys \<Rightarrow> ConnectorWebhookResponse result" where
  "create_task_from_connector E c p s =
     liftE (assert_connector_action c AgentAction.CREATE_AGENT_TASK) (\<lambda>_ s.
       if \<not> truthy (wp_project_id p) then
         raise (HTTPException 400 ''project_id is required for CREATE_AGENT_TASK'') s
       else if dict_get (projects s) (opt_str (wp_project_id p)) = None then
         raise (HTTPException 404 ''Project not found'') s
       else if \<not> truthy (wp_title p) \<or> \<not> truthy (wp_goal p) then
         raise (HTTPException 400 ''title and goal are required for CREATE_AGENT_TASK'') s
       else liftE (assert_connector_scope c (wp_project_id p) (wp_repository p)) (\<lambda>_ s.
         liftE (safe_metadata c p) (\<lambda>metadata s.
           let task = connector_task E c p metadata s;
               s = put_task task (drawn s);
               ev = new_task_event E task TASK_CREATED ''AgentTask created by generic connector webhook.''
                 (Some (task_status task)) (connector_actor c)
                 [(''connector_id'', JStr (conn_id c)), (''connector_webhook'', JBool True)] s;
               s = put_task_event ev (drawn s);
               s = add_audit E ''connector.webhook_task_created'' (task_id task)
                 [(''connector_id'', JStr (conn_id c)), (''project_id'', json_opt_str (task_project_id task)),
                  (''repository'', json_opt_str (task_repository task)),
                  (''requested_action'', JStr (AgentTaskRequestedAction_value (task_requested_action task)))]
                 (connector_actor c) s
           in ret \<lparr>wx_accepted = True, wx_action = AgentAction.CREATE_AGENT_TASK, wx_connector_id = conn_id c,
                wx_task_id = Some (task_id task), wx_event_id = Some (te_id ev),
                wx_message = ''AgentTask created''\<rparr> s) s) s) s"

definition connector_owns_task :: "AgentConnector \<Rightarrow> AgentTask \<Rightarrow> bool" where
  "connector_owns_task c task \<longleftrightarrow>
     task_external_agent_id task = Some (conn_id c) \<or>
     dict_get (task_metadata task) ''connector_id'' = Some (JStr (conn_id c))"

text \<open>The status is written before the metadata of the event is checked.\<close>

definition append_task_event_from_connector ::
    "env \<Rightarrow> AgentConnector \<Rightarrow> ConnectorWebhookPayload \<Rightarrow> sys \<Rightarrow> ConnectorWebhookResponse result" where
  "append_task_event_from_connector E c p s =
     liftE (assert_connector_action c AgentAction.APPEND_AGENT_TASK_EVENT) (\<lambda>_ s.
       if \<not> truthy (wp_task_id p) then
         raise (HTTPException 400 ''task_id is required for APPEND_AGENT_TASK_EVENT'') s
       else case dict_get (agent_tasks s) (opt_str (wp_task_id p)) of
         None \<Rightarrow> raise (HTTPException 404 ''Agent task not found'') s
       | Some task \<Rightarrow>
           if \<not> connector_owns_task c task then
             raise (HTTPException 403 ''Connector is not allowed for this task'') s
           else liftE (assert_connector_scope c (task_project_id task) (task_repository task)) (\<lambda>_ s.
             let (task, s) = set_task_status (wp_status p) task s
             in liftE (safe_metadata c p) (\<lambda>metadata s.
                  let ev = new_task_event E task (wp_event_type p) (wp_message p) (wp_status p)
                        (connector_actor c) metadata s;
                      s = put_task_event ev (drawn s);
                      s = add_audit E ''connector.webhook_task_event_appended'' (task_id task)
                        [(''connector_id'', JStr (conn_id c)),
                         (''event_type'', JStr (AgentTaskEventType_value (te_event_type ev))),
                         (''status'', json_opt_str (map_option AgentTaskStatus_value (te_status ev)))]
                        (connector_actor c) s
                  in ret \<lparr>wx_accepted = True, wx_action = AgentAction.APPEND_AGENT_TASK_EVENT,
                       wx_connector_id = conn_id c, wx_task_id = Some (task_id task),
                       wx_event_id = Some (te_id ev), wx_message = ''AgentTask event appended''\<rparr> s) s) s) s"

definition perform_webhook_action ::
    "env \<Rightarrow> AgentConnector \<Rightarrow> ConnectorWebhookPayload \<Rightarrow> sys \<Rightarrow> ConnectorWebhookResponse result" where
  "perform_webhook_action E c p s =
     (if wp_action p = AgentAction.CREATE_AGENT_TASK then create_task_from_connector E c p s
      else if wp_action p = AgentAction.APPEND_AGENT_TASK_EVENT then append_task_event_from_connector E c p s
      else raise (HTTPException 403
        (''Connector webhook action is not supported: '' @ AgentAction_value (wp_action p))) s)"

section \<open>The webhook\<close>

definition read_payload :: "env \<Rightarrow> AgentConnector \<Rightarrow> WebhookRequest \<Rightarrow> string + ConnectorWebhookPayload" where
  "read_payload E c r =
     (case wr_json r of
        None \<Rightarrow> Inl []
      | Some v \<Rightarrow> sum_then (normalize_connector_payload E c v None) validate_webhook_payload)"

text \<open>A refused webhook counts as a failure of the connector and is audited.\<close>

definition refuse_webhook ::
    "env \<Rightarrow> string \<Rightarrow> jdict \<Rightarrow> AgentConnector \<Rightarrow> pyerror \<Rightarrow> sys \<Rightarrow> 'a result" where
  "refuse_webhook E reason details c e s =
     raise e (persist (add_audit E ''connector.webhook_refused'' (conn_id c) details (connector_actor c)
       (put_connector (record_connector_auth_failure reason (clock s) c) s)))"

text \<open>The payload is read and the action performed; the connector is authenticated and counted by then.\<close>

definition process_webhook ::
    "env \<Rightarrow> WebhookRequest \<Rightarrow> AgentConnector \<Rightarrow> sys \<Rightarrow> ConnectorWebhookResponse result" where
  "process_webhook E r c s =
     (case read_payload E c r of
        Inl _ \<Rightarrow>
          refuse_webhook E ''invalid webhook payload''
            [(''reason'', JStr ''invalid webhook payload''), (''error'', JStr (wr_error r))] c
            (HTTPException 400 ''Invalid connector webhook payload'') s
      | Inr p \<Rightarrow>
          (case perform_webhook_action E c p s of
             (Inr response, s) \<Rightarrow> ret response (persist s)
           | (Inl e, s) \<Rightarrow>
               refuse_webhook E (pyerror_message e)
                 [(''reason'', JStr (pyerror_message e)), (''action'', JStr (AgentAction_value (wp_action p)))] c e s))"

definition handle_connector_webhook ::
    "env \<Rightarrow> AgentConnector \<Rightarrow> WebhookRequest \<Rightarrow> sys \<Rightarrow> ConnectorWebhookResponse result" where
  "handle_connector_webhook E c r s =
     bindE (authenticate_connector E r c s) (\<lambda>c s.
     bindE (enforce_connector_rate_limit E c s) (\<lambda>c s. process_webhook E r c s))"

definition connector_webhook :: "env \<Rightarrow> string \<Rightarrow> WebhookRequest \<Rightarrow> sys \<Rightarrow> ConnectorWebhookResponse result" where
  "connector_webhook E cid r s =
     (case dict_get (agent_connectors s) cid of
        None \<Rightarrow> raise (HTTPException 404 ''Connector not found'') s
      | Some c \<Rightarrow> handle_connector_webhook E c r s)"

end
