(* ===== verification/WebhookProperties.thy ===== *)
theory WebhookProperties
  imports ConnectorWebhook Samples
begin

text \<open>
  What the webhook of a connector guarantees: exactly when the replay of a signed request is refused,
  how many requests a window admits, and what a refused request has changed.
\<close>

section \<open>The history of nonces\<close>

definition seen_nonces :: "AgentConnector \<Rightarrow> (string \<times> int) list" where
  "seen_nonces c =
     (case config_get c ''hmac_nonce_history'' of
        JObj d \<Rightarrow> List.map_filter (\<lambda>(nonce, seen). map_option (Pair nonce) (json_int seen)) d
      | _ \<Rightarrow> [])"

definition is_live :: "int \<Rightarrow> string \<times> int \<Rightarrow> bool" where
  "is_live now e \<longleftrightarrow> now - snd e \<le> HMAC_NONCE_TTL_SECONDS"

definition last_tracked :: "(string \<times> int) list \<Rightarrow> (string \<times> int) list" where
  "last_tracked h = drop (length h - HMAC_MAX_TRACKED_NONCES) h"

definition in_order :: "(string \<times> int) list \<Rightarrow> int \<Rightarrow> bool" where
  "in_order h t \<longleftrightarrow> sorted (map snd h) \<and> (\<forall>e \<in> set h. snd e \<le> t)"

lemma live_nonces_filter:
  "live_nonces now d =
     filter (is_live now) (List.map_filter (\<lambda>(nonce, seen). map_option (Pair nonce) (json_int seen)) d)"
  by (induction d) (auto simp: live_nonces_def map_filter_simps is_live_def split: option.splits prod.splits)

lemma clean_history:
  assumes "in_order (seen_nonces c) t"
  shows "clean_hmac_nonce_history c now = last_tracked (filter (is_live now) (seen_nonces c))"
proof -
  have l: "live_nonces now (case config_get c ''hmac_nonce_history'' of JObj d \<Rightarrow> d | _ \<Rightarrow> []) =
      filter (is_live now) (seen_nonces c)"
    by (simp add: seen_nonces_def live_nonces_filter map_filter_simps split: json.splits)
  have "sorted (map snd (filter (is_live now) (seen_nonces c)))"
    using assms by (simp add: in_order_def sorted_filter)
  then have "sort_key snd (filter (is_live now) (seen_nonces c)) = filter (is_live now) (seen_nonces c)"
    by (rule sort_key_id_if_sorted)
  then show ?thesis by (simp add: clean_hmac_nonce_history_def l last_tracked_def Let_def)
qed

lemma seen_history_json:
  "seen_nonces (config_set ''hmac_nonce_history'' (nonce_history_json h) c) = h"
proof -
  have "List.map_filter (\<lambda>(nonce, seen). map_option (Pair nonce) (json_int seen)) (map (\<lambda>(nonce, t). (nonce, JInt t)) h) = h"
    by (induction h) (auto simp: map_filter_simps json_int_def)
  then show ?thesis by (simp add: seen_nonces_def nonce_history_json_def)
qed

lemma seen_nonces_update [simp]: "seen_nonces (c\<lparr>conn_updated_at := t\<rparr>) = seen_nonces c"
  by (simp add: seen_nonces_def)

text \<open>A nonce is accepted when it is not among the tracked ones, and is then the last of them.\<close>

lemma assert_accepts:
  assumes "in_order (seen_nonces c) now"
  shows "fst (assert_hmac_v1_not_replayed c nonce now t) = Inr () \<longleftrightarrow>
    nonce \<notin> fst ` set (last_tracked (filter (is_live now) (seen_nonces c)))"
  by (simp add: assert_hmac_v1_not_replayed_def clean_history [OF assms] Let_def dict_get_None_iff
      ret_def raise_def flip: not_None_eq)

lemma assert_records:
  assumes "in_order (seen_nonces c) now" "assert_hmac_v1_not_replayed c nonce now t = (Inr (), c')"
  shows "seen_nonces c' = last_tracked (filter (is_live now) (seen_nonces c)) @ [(nonce, now)]"
proof -
  have n: "dict_get (clean_hmac_nonce_history c now) nonce = None"
    using assms(2) by (simp add: assert_hmac_v1_not_replayed_def Let_def split: if_splits)
  then have "seen_nonces c' = dict_set nonce now (clean_hmac_nonce_history c now)"
    using assms(2) by (auto simp: assert_hmac_v1_not_replayed_def Let_def seen_history_json)
  with n show ?thesis by (simp add: dict_set_new clean_history [OF assms(1)])
qed

lemma in_order_mono: "in_order h t \<Longrightarrow> t \<le> t' \<Longrightarrow> in_order h t'"
  by (force simp: in_order_def)

lemma in_order_record:
  assumes "in_order h t" "t \<le> now"
  shows "in_order (last_tracked (filter (is_live now) h) @ [(nonce, now)]) now"
proof -
  have "sorted (map snd (last_tracked (filter (is_live now) h)))"
    using assms by (simp add: in_order_def last_tracked_def sorted_filter sorted_wrt_drop drop_map [symmetric])
  moreover have "\<forall>e \<in> set (last_tracked (filter (is_live now) h)). snd e \<le> now"
    using assms by (fastforce simp: in_order_def last_tracked_def dest!: in_set_dropD)
  ultimately show ?thesis by (auto simp: in_order_def sorted_append)
qed

text \<open>What cleaning keeps of a history in which the nonce is followed by \<open>post\<close>, all of them live.\<close>

lemma filter_live_split:
  assumes "h = pre @ (nonce, t0) # post" "\<forall>e \<in> set post. t0 \<le> snd e" "now - t0 \<le> HMAC_NONCE_TTL_SECONDS"
  shows "filter (is_live now) h = filter (is_live now) pre @ (nonce, t0) # post"
proof -
  have "filter (is_live now) post = post"
    using assms(2,3) by (intro filter_True) (force simp: is_live_def)
  with assms(1,3) show ?thesis by (simp add: is_live_def)
qed

lemma last_tracked_keeps:
  "length post < HMAC_MAX_TRACKED_NONCES \<Longrightarrow>
    \<exists>pre'. last_tracked (pre @ (nonce, t0) # post) = pre' @ (nonce, t0) # post \<and> set pre' \<subseteq> set pre"
  by (intro exI [of _ "drop (length pre + Suc (length post) - HMAC_MAX_TRACKED_NONCES) pre"])
    (auto simp: last_tracked_def dest: in_set_dropD)

lemma last_tracked_drops:
  assumes "HMAC_MAX_TRACKED_NONCES \<le> length post"
  shows "set (last_tracked (pre @ (nonce, t0) # post)) \<subseteq> set post"
proof -
  have "last_tracked (pre @ (nonce, t0) # post) = drop (length post - HMAC_MAX_TRACKED_NONCES) post"
    using assms by (simp add: last_tracked_def Suc_diff_le drop_Cons')
  then show ?thesis by (simp add: set_drop_subset)
qed

section \<open>Accepted requests\<close>

text \<open>
  A sequence of requests, each with the second and the instant it comes at, that a connector accepts one after the
  other. In between everything of the connector but the history may change.
\<close>

definition same_history :: "AgentConnector \<Rightarrow> AgentConnector \<Rightarrow> bool" where
  "same_history c c' \<longleftrightarrow> config_get c' ''hmac_nonce_history'' = config_get c ''hmac_nonce_history''"

lemma same_history_seen: "same_history c c' \<Longrightarrow> seen_nonces c' = seen_nonces c"
  by (simp add: same_history_def seen_nonces_def)

inductive accepted ::
    "env \<Rightarrow> string \<Rightarrow> AgentConnector \<Rightarrow> (WebhookRequest \<times> int \<times> int) list \<Rightarrow> AgentConnector \<Rightarrow> bool"
  for E secret_hash where
  none: "same_history c c' \<Longrightarrow> accepted E secret_hash c [] c'"
| more: "same_history c c1 \<Longrightarrow> authenticate_hmac_v1 E r secret_hash c1 t n = (Inr (), c2) \<Longrightarrow>
    accepted E secret_hash c2 rs c' \<Longrightarrow> accepted E secret_hash c ((r, t, n) # rs) c'"

definition nonce_of :: "WebhookRequest \<Rightarrow> string" where
  "nonce_of r = opt_str (wr_nonce r)"

text \<open>The checks of a signed request that do not look at the connector.\<close>

definition well_signed :: "env \<Rightarrow> WebhookRequest \<Rightarrow> string \<Rightarrow> int \<Rightarrow> bool" where
  "well_signed E r secret_hash ts \<longleftrightarrow>
     wr_signature_version r = Some HMAC_SIGNATURE_VERSION \<and> truthy (wr_signature r) \<and>
     truthy (wr_nonce r) \<and> length (nonce_of r) \<le> 128 \<and> parse_unix_timestamp (wr_timestamp r) = Inr ts \<and>
     extract_hmac_signature (opt_str (wr_signature r)) =
       expected_hmac_v1_signature E secret_hash (int_str ts) (nonce_of r) (wr_body r)"

lemma authenticate_iff:
  "authenticate_hmac_v1 E r secret_hash c now t = (Inr (), c') \<longleftrightarrow>
     (\<exists>ts. well_signed E r secret_hash ts \<and> \<bar>now - ts\<bar> \<le> HMAC_TIMESTAMP_TOLERANCE_SECONDS \<and>
        assert_hmac_v1_not_replayed c (nonce_of r) now t = (Inr (), c'))"
  by (auto simp: authenticate_hmac_v1_def well_signed_def liftE_def nonce_of_def safe_equal_def
      split: sum.splits)

lemma well_signed_unique: "well_signed E r h ts \<Longrightarrow> well_signed E r h ts' \<Longrightarrow> ts = ts'"
  by (simp add: well_signed_def)

lemma accepted_records:
  assumes "authenticate_hmac_v1 E r secret_hash c now t = (Inr (), c')" "in_order (seen_nonces c) t0" "t0 \<le> now"
  shows "seen_nonces c' = last_tracked (filter (is_live now) (seen_nonces c)) @ [(nonce_of r, now)]"
    "in_order (seen_nonces c') now" "nonce_of r \<notin> fst ` set (last_tracked (filter (is_live now) (seen_nonces c)))"
proof -
  have a: "assert_hmac_v1_not_replayed c (nonce_of r) now t = (Inr (), c')"
    using assms(1) by (auto simp: authenticate_iff)
  have o: "in_order (seen_nonces c) now" by (rule in_order_mono [OF assms(2,3)])
  show s: "seen_nonces c' = last_tracked (filter (is_live now) (seen_nonces c)) @ [(nonce_of r, now)]"
    by (rule assert_records [OF o a])
  show "in_order (seen_nonces c') now" unfolding s by (rule in_order_record [OF assms(2,3)])
  show "nonce_of r \<notin> fst ` set (last_tracked (filter (is_live now) (seen_nonces c)))"
    using assert_accepts [OF o, of "nonce_of r" t] a by simp
qed

text \<open>While fewer than the tracked number of others follow, the nonce stays, with all of them behind it.\<close>

lemma accepted_tracked:
  assumes "accepted E secret_hash c rs c'" "in_order (seen_nonces c) t1" "t0 \<le> t1"
    "seen_nonces c = pre @ (nonce, t0) # post" "nonce \<notin> fst ` set pre" "\<forall>e \<in> set post. t0 \<le> snd e"
    "sorted (t1 # map (fst \<circ> snd) rs)" "\<forall>(r, t, n) \<in> set rs. t - t0 \<le> HMAC_NONCE_TTL_SECONDS"
    "length post + length rs \<le> HMAC_MAX_TRACKED_NONCES"
  shows "\<exists>pre' t2. seen_nonces c' = pre' @ (nonce, t0) # post @ map (\<lambda>(r, t, n). (nonce_of r, t)) rs \<and>
    nonce \<notin> fst ` set pre' \<and> in_order (seen_nonces c') t2 \<and> t2 = last (t1 # map (fst \<circ> snd) rs)"
  using assms
proof (induction arbitrary: pre post t1 rule: accepted.induct)
  case (none c c')
  then show ?case by (auto simp: same_history_seen)
next
  case (more c c1 r t n c2 rs c')
  note seen = same_history_seen [OF more.hyps(1)]
  have "t1 \<le> t" using more.prems(6) by simp
  note rec = accepted_records [OF more.hyps(2) more.prems(1) [folded seen] this]
  have live: "filter (is_live t) (seen_nonces c1) = filter (is_live t) pre @ (nonce, t0) # post"
    using filter_live_split [OF more.prems(3,5), of t] more.prems(7) seen by simp
  have "length post < HMAC_MAX_TRACKED_NONCES" using more.prems(8) by simp
  from last_tracked_keeps [OF this, of "filter (is_live t) pre" nonce t0] obtain pre' where
    p: "last_tracked (filter (is_live t) pre @ (nonce, t0) # post) = pre' @ (nonce, t0) # post"
      "set pre' \<subseteq> set pre" by auto
  have s2: "seen_nonces c2 = pre' @ (nonce, t0) # (post @ [(nonce_of r, t)])"
    using rec(1) live p(1) by simp
  have "\<exists>q t2. seen_nonces c' = q @ (nonce, t0) # (post @ [(nonce_of r, t)]) @ map (\<lambda>(r, t, n). (nonce_of r, t)) rs \<and>
      nonce \<notin> fst ` set q \<and> in_order (seen_nonces c') t2 \<and> t2 = last (t # map (fst \<circ> snd) rs)"
    using more.prems p(2) rec(2) \<open>t1 \<le> t\<close> by (intro more.IH [OF rec(2) _ s2]) auto
  then show ?case by (cases "rs = []") (auto simp: comp_def)
qed

text \<open>A nonce that is no longer tracked is not brought back by others.\<close>

lemma accepted_untracked:
  assumes "accepted E secret_hash c rs c'" "in_order (seen_nonces c) t1"
    "\<forall>now \<ge> t1. nonce \<notin> fst ` set (last_tracked (filter (is_live now) (seen_nonces c)))"
    "sorted (t1 # map (fst \<circ> snd) rs)" "\<forall>(r, t, n) \<in> set rs. nonce_of r \<noteq> nonce"
  shows "\<exists>t2. t2 = last (t1 # map (fst \<circ> snd) rs) \<and> in_order (seen_nonces c') t2 \<and>
    (\<forall>now \<ge> t2. nonce \<notin> fst ` set (last_tracked (filter (is_live now) (seen_nonces c'))))"
  using assms
proof (induction arbitrary: t1 rule: accepted.induct)
  case (none c c')
  then show ?case by (simp add: same_history_seen)
next
  case (more c c1 r t n c2 rs c')
  note seen = same_history_seen [OF more.hyps(1)]
  have t: "t1 \<le> t" using more.prems(3) by simp
  note rec = accepted_records [OF more.hyps(2) more.prems(1) [folded seen] t]
  have "nonce \<notin> fst ` set (seen_nonces c2)"
    using rec(1) more.prems(2,4) seen t by auto
  then have "\<forall>now \<ge> t. nonce \<notin> fst ` set (last_tracked (filter (is_live now) (seen_nonces c2)))"
    by (fastforce simp: last_tracked_def dest!: in_set_dropD)
  with more.IH [OF rec(2)] more.prems(3,4) show ?case by auto
qed

lemma accepted_append:
  assumes "accepted E secret_hash c rs c'" "rs = rs1 @ rs2"
  shows "\<exists>cm. accepted E secret_hash c rs1 cm \<and> accepted E secret_hash cm rs2 c'"
  using assms
proof (induction arbitrary: rs1 rule: accepted.induct)
  case (none c c')
  then show ?case by (auto intro!: accepted.none exI [of _ c] simp: same_history_def)
next
  case (more c c1 r t n c2 rs c')
  show ?case
  proof (cases rs1)
    case Nil
    have "accepted E secret_hash c ((r, t, n) # rs) c'" by (rule accepted.more [OF more.hyps])
    with Nil more.prems show ?thesis by (auto intro!: exI [of _ c] accepted.none simp: same_history_def)
  next
    case (Cons a rs1')
    with more.prems more.IH [of rs1'] more.hyps show ?thesis by (auto intro: accepted.more)
  qed
qed

lemma untracked_after:
  assumes "h = pre @ (nonce, t0) # post" "nonce \<notin> fst ` set pre" "nonce \<notin> fst ` set post"
    "\<forall>e \<in> set post. t0 \<le> snd e" "HMAC_MAX_TRACKED_NONCES \<le> length post"
  shows "nonce \<notin> fst ` set (last_tracked (filter (is_live now) h))"
proof (cases "now - t0 \<le> HMAC_NONCE_TTL_SECONDS")
  case True
  have "set (last_tracked (filter (is_live now) h)) \<subseteq> set post"
    unfolding filter_live_split [OF assms(1,4) True] by (rule last_tracked_drops [OF assms(5)])
  with assms(3) show ?thesis by blast
next
  case False
  then have "nonce \<notin> fst ` set (filter (is_live now) h)"
    using assms(1-3) by (auto simp: is_live_def)
  then show ?thesis by (auto simp: last_tracked_def dest!: in_set_dropD)
qed

lemma sorted_last: "sorted (xs @ [t]) \<Longrightarrow> xs \<noteq> [] \<Longrightarrow> last xs \<le> t"
  by (simp add: sorted_append)

abbreviation nonces :: "(WebhookRequest \<times> int \<times> int) list \<Rightarrow> (string \<times> int) list" where
  "nonces rs \<equiv> map (\<lambda>(r, t, n). (nonce_of r, t)) rs"

lemma few_others:
  assumes "accepted E secret_hash c1 rs c2" "in_order (seen_nonces c1) t0" "seen_nonces c1 = pre @ [(nonce, t0)]"
    "nonce \<notin> fst ` set pre" "sorted (t0 # map (fst \<circ> snd) rs @ [t])" "t - t0 \<le> HMAC_NONCE_TTL_SECONDS"
    "length rs < HMAC_MAX_TRACKED_NONCES"
  shows "in_order (seen_nonces c2) t \<and> nonce \<in> fst ` set (last_tracked (filter (is_live t) (seen_nonces c2)))"
proof -
  have srt: "sorted (t0 # map (fst \<circ> snd) rs)" and times: "\<forall>e \<in> set (nonces rs). t0 \<le> snd e"
    and ttl: "\<forall>(r', t', n') \<in> set rs. t' - t0 \<le> HMAC_NONCE_TTL_SECONDS"
    using assms(5,6) by (fastforce simp: sorted_append)+
  obtain q t2 where q: "seen_nonces c2 = q @ (nonce, t0) # nonces rs"
      "in_order (seen_nonces c2) t2" "t2 = last (t0 # map (fst \<circ> snd) rs)"
    using accepted_tracked [OF assms(1,2) order.refl assms(3,4) _ srt ttl] assms(7) by auto
  have "t2 \<le> t" unfolding q(3) by (rule sorted_last) (use assms(5) in simp_all)
  moreover have "filter (is_live t) (seen_nonces c2) = filter (is_live t) q @ (nonce, t0) # nonces rs"
    by (rule filter_live_split [OF q(1) times assms(6)])
  moreover obtain q' where "last_tracked (filter (is_live t) q @ (nonce, t0) # nonces rs) = q' @ (nonce, t0) # nonces rs"
    using last_tracked_keeps [of "nonces rs" "filter (is_live t) q" nonce t0] assms(7) by auto
  ultimately show ?thesis using in_order_mono [OF q(2)] by force
qed

lemma many_others:
  assumes "accepted E secret_hash c1 rs c2" "in_order (seen_nonces c1) t0" "seen_nonces c1 = pre @ [(nonce, t0)]"
    "nonce \<notin> fst ` set pre" "sorted (t0 # map (fst \<circ> snd) rs @ [t])" "t - t0 \<le> HMAC_NONCE_TTL_SECONDS"
    "\<forall>(r', t', n') \<in> set rs. nonce_of r' \<noteq> nonce" "HMAC_MAX_TRACKED_NONCES \<le> length rs"
  shows "in_order (seen_nonces c2) t \<and> nonce \<notin> fst ` set (last_tracked (filter (is_live t) (seen_nonces c2)))"
proof -
  let ?k = "HMAC_MAX_TRACKED_NONCES"
  have split: "rs = take ?k rs @ drop ?k rs" "length (take ?k rs) = ?k" using assms(8) by simp_all
  obtain cm where cm: "accepted E secret_hash c1 (take ?k rs) cm" "accepted E secret_hash cm (drop ?k rs) c2"
    using accepted_append [OF assms(1) split(1)] by auto
  have times: "\<forall>e \<in> set (nonces (take ?k rs)). t0 \<le> snd e"
    and srt: "sorted (t0 # map (fst \<circ> snd) (take ?k rs))"
    and ttl: "\<forall>(r', t', n') \<in> set (take ?k rs). t' - t0 \<le> HMAC_NONCE_TTL_SECONDS"
    and others: "nonce \<notin> fst ` set (nonces (take ?k rs))" "\<forall>(r', t', n') \<in> set (drop ?k rs). nonce_of r' \<noteq> nonce"
    using assms(5-7) by (fastforce simp: sorted_append sorted_wrt_take take_map [symmetric]
        dest: in_set_takeD in_set_dropD)+
  obtain q t2 where q: "seen_nonces cm = q @ (nonce, t0) # nonces (take ?k rs)" "nonce \<notin> fst ` set q"
      "in_order (seen_nonces cm) t2" "t2 = last (t0 # map (fst \<circ> snd) (take ?k rs))"
    using accepted_tracked [OF cm(1) assms(2) order.refl assms(3,4) _ srt ttl] split(2)
    by auto
  have gone: "\<forall>now \<ge> t2. nonce \<notin> fst ` set (last_tracked (filter (is_live now) (seen_nonces cm)))"
    using untracked_after [OF q(1,2) others(1) times] split(2) by simp
  have srt2: "sorted (t2 # map (fst \<circ> snd) (drop ?k rs) @ [t])"
  proof -
    have "sorted ((t0 # map (fst \<circ> snd) (take ?k rs)) @ map (fst \<circ> snd) (drop ?k rs) @ [t])"
      using assms(5) by (metis append_assoc append_Cons append_take_drop_id map_append)
    then show ?thesis unfolding q(4) by (subst (asm) append_butlast_last_id [symmetric]) (auto simp: sorted_append)
  qed
  then have "sorted (t2 # map (fst \<circ> snd) (drop ?k rs))" by (simp add: sorted_append)
  from accepted_untracked [OF cm(2) q(3) gone this others(2)] obtain t3 where
    t3: "t3 = last (t2 # map (fst \<circ> snd) (drop ?k rs))" "in_order (seen_nonces c2) t3"
      "\<forall>now \<ge> t3. nonce \<notin> fst ` set (last_tracked (filter (is_live now) (seen_nonces c2)))" by blast
  have "t3 \<le> t" unfolding t3(1) by (rule sorted_last) (use srt2 in simp_all)
  with t3(2,3) in_order_mono show ?thesis by blast
qed

text \<open>
  C25. The replay guard, exactly. After a signed request has been accepted, and others with other nonces
  after it, sending the same request again is accepted precisely if its timestamp is still fresh and
  at least 200 others were accepted since: below that the nonce is always still known, whatever else
  happened to the connector, because the history is kept as long as a timestamp can stay fresh.
\<close>

theorem replay_is_refused_while_tracked:
  assumes "in_order (seen_nonces c) t0" "authenticate_hmac_v1 E r secret_hash c t0 n0 = (Inr (), c1)"
    "accepted E secret_hash c1 rs c2" "sorted (t0 # map (fst \<circ> snd) rs @ [t])"
    "\<forall>(r', t', n') \<in> set rs. nonce_of r' \<noteq> nonce_of r" "well_signed E r secret_hash ts"
  shows "fst (authenticate_hmac_v1 E r secret_hash c2 t n) = Inr () \<longleftrightarrow>
    \<bar>t - ts\<bar> \<le> HMAC_TIMESTAMP_TOLERANCE_SECONDS \<and> HMAC_MAX_TRACKED_NONCES \<le> length rs"
proof -
  let ?N = "nonce_of r"
  have auth: "fst (authenticate_hmac_v1 E r secret_hash c2 t n) = Inr () \<longleftrightarrow>
      \<bar>t - ts\<bar> \<le> HMAC_TIMESTAMP_TOLERANCE_SECONDS \<and> fst (assert_hmac_v1_not_replayed c2 ?N t n) = Inr ()"
    using authenticate_iff [of E r secret_hash c2 t n "snd (authenticate_hmac_v1 E r secret_hash c2 t n)"]
      authenticate_iff [of E r secret_hash c2 t n "snd (assert_hmac_v1_not_replayed c2 ?N t n)"] assms(6)
    by (metis fst_conv prod.collapse well_signed_unique)
  have "\<bar>t0 - ts\<bar> \<le> HMAC_TIMESTAMP_TOLERANCE_SECONDS"
    using assms(2,6) by (auto simp: authenticate_iff dest: well_signed_unique)
  then have ttl: "t - t0 \<le> HMAC_NONCE_TTL_SECONDS" if "\<bar>t - ts\<bar> \<le> HMAC_TIMESTAMP_TOLERANCE_SECONDS"
    using that by (simp add: HMAC_NONCE_TTL_SECONDS_def HMAC_TIMESTAMP_TOLERANCE_SECONDS_def)
  note rec = accepted_records [OF assms(2,1) order.refl]
  note others = assms(3) rec(2,1,3) assms(4) ttl
  show ?thesis
    using few_others [OF others] many_others [OF others assms(5)] assert_accepts [of c2 t ?N n] auth by fastforce
qed

text \<open>A connector that signs, and a request it sends at the epoch.\<close>

definition hmac_connector :: AgentConnector where
  "hmac_connector =
     \<lparr>conn_id = ''c1'', conn_name = ''C'', conn_type = ConnectorType.GENERIC_HTTP,
      conn_provider_label = ConnectorProviderLabel.CODEX, conn_endpoint_url = None, conn_callback_url = None,
      conn_auth_type = ConnectorAuthType.HMAC, conn_status = ConnectorStatus.ENABLED,
      conn_health_status = ConnectorHealthStatus.UNKNOWN, conn_allowed_project_ids = [],
      conn_allowed_repositories = [],
      conn_allowed_actions = [AgentAction.CREATE_AGENT_TASK, AgentAction.APPEND_AGENT_TASK_EVENT],
      conn_rate_limit_per_minute = 60, conn_secret_ref = Some ''ref'', conn_last_used_at = None,
      conn_last_health_check_at = None, conn_failed_auth_count = 0, conn_last_error = None,
      conn_created_by_user_id = None, conn_config = [(''secret_hash'', JStr ''k'')], conn_created_at = 0,
      conn_updated_at = 0\<rparr>"

definition signed_request :: WebhookRequest where
  "signed_request =
     \<lparr>wr_body = ''b'', wr_json = None, wr_error = [], wr_authorization = None,
      wr_signature = Some ''kv1.0.n.b'', wr_signature_version = Some ''v1'', wr_timestamp = Some ''0'',
      wr_nonce = Some ''n''\<rparr>"

lemma zero_text: "int_str 0 = ''0''"
  by code_simp

lemma signed_request_ok: "well_signed sample_env signed_request ''k'' 0"
  by (simp add: well_signed_def signed_request_def nonce_of_def HMAC_SIGNATURE_VERSION_def parse_unix_timestamp_def
      py_int_def py_strip_def py_rstrip_def py_lstrip_def py_isspace_def digit_value_def extract_hmac_signature_def
      expected_hmac_v1_signature_def hmac_v1_signing_payload_def body_hash_def sample_env_def zero_text removeprefix_def Let_def)

lemma hmac_connector_fresh: "seen_nonces hmac_connector = []"
  by (simp add: seen_nonces_def config_get_def hmac_connector_def)

lemma replay_is_refused_while_tracked_witness:
  "\<exists>c1. authenticate_hmac_v1 sample_env signed_request ''k'' hmac_connector 0 0 = (Inr (), c1) \<and>
    fst (authenticate_hmac_v1 sample_env signed_request ''k'' c1 10 10000000) \<noteq> Inr ()"
proof -
  have o: "in_order (seen_nonces hmac_connector) 0" by (simp add: hmac_connector_fresh in_order_def)
  have "fst (assert_hmac_v1_not_replayed hmac_connector (nonce_of signed_request) 0 0) = Inr ()"
    by (simp add: assert_accepts [OF o] hmac_connector_fresh last_tracked_def)
  then obtain c1 where "assert_hmac_v1_not_replayed hmac_connector (nonce_of signed_request) 0 0 = (Inr (), c1)"
    by (metis prod.collapse)
  with signed_request_ok have a: "authenticate_hmac_v1 sample_env signed_request ''k'' hmac_connector 0 0 = (Inr (), c1)"
    by (auto simp: authenticate_iff HMAC_TIMESTAMP_TOLERANCE_SECONDS_def)
  have n: "accepted sample_env ''k'' c1 [] c1" by (rule accepted.none) (simp add: same_history_def)
  show ?thesis
    using replay_is_refused_while_tracked [OF o a n _ _ signed_request_ok, of 10 10000000] a
    by (auto simp: HMAC_MAX_TRACKED_NONCES_def)
qed

section \<open>What a webhook changes\<close>

lemma authenticate_keeps:
  "agent_tasks (snd (authenticate_connector E r c s)) = agent_tasks s \<and>
   agent_task_events (snd (authenticate_connector E r c s)) = agent_task_events s \<and>
   draws (snd (authenticate_connector E r c s)) = draws s"
  by (auto simp: authenticate_connector_def refuse_connector_def Let_def split: prod.splits sum.splits)

lemma rate_limit_keeps:
  "agent_tasks (snd (enforce_connector_rate_limit E c s)) = agent_tasks s \<and>
   agent_task_events (snd (enforce_connector_rate_limit E c s)) = agent_task_events s"
  by (auto simp: enforce_connector_rate_limit_def liftE_def Let_def split: sum.splits)

text \<open>Authentication and the rate limit change the counters and the configuration only.\<close>

definition same_grants :: "AgentConnector \<Rightarrow> AgentConnector \<Rightarrow> bool" where
  "same_grants c c' \<longleftrightarrow> conn_id c' = conn_id c \<and> conn_secret_ref c' = conn_secret_ref c \<and>
     conn_allowed_actions c' = conn_allowed_actions c \<and> conn_allowed_project_ids c' = conn_allowed_project_ids c \<and>
     conn_allowed_repositories c' = conn_allowed_repositories c \<and>
     config_get c' ''schema_mapper'' = config_get c ''schema_mapper''"

lemma same_grants_refl [simp]: "same_grants c c"
  by (simp add: same_grants_def)

lemma same_grants_trans: "same_grants c d \<Longrightarrow> same_grants d e \<Longrightarrow> same_grants c e"
  by (simp add: same_grants_def)

lemma same_grants_steps [simp]:
  "k \<noteq> ''schema_mapper'' \<Longrightarrow> same_grants c (config_set k v d) \<longleftrightarrow> same_grants c d"
  "same_grants c (d\<lparr>conn_updated_at := t\<rparr>) \<longleftrightarrow> same_grants c d"
  "same_grants c (set_rate_count n t d) \<longleftrightarrow> same_grants c d"
  "same_grants c (record_connector_auth_success t d) \<longleftrightarrow> same_grants c d"
  by (simp_all add: same_grants_def set_rate_count_def record_connector_auth_success_def config_get_def
      config_set_def Let_def)

lemma hmac_grants: "same_grants c (snd (authenticate_hmac_v1 E r h c now t))"
  by (auto simp: authenticate_hmac_v1_def assert_hmac_v1_not_replayed_def liftE_def Let_def split: sum.splits)

lemma authenticate_returns:
  assumes "authenticate_connector E r c s = (Inr c', s')"
  shows "same_grants c c' \<and> conn_status c = ConnectorStatus.ENABLED \<and> secret_configured c \<and>
    s' = put_connector c' s"
proof -
  have h: "authenticate_hmac_v1 E r h c now t = (Inr u, d) \<Longrightarrow> same_grants c d" for h now t u d
    using hmac_grants [of c E r h now t] by simp
  show ?thesis
    using assms h
    by (auto simp: authenticate_connector_def refuse_connector_def Let_def split: if_splits prod.splits sum.splits)
qed

lemma rate_limit_returns:
  "enforce_connector_rate_limit E c s = (Inr c', s') \<Longrightarrow> same_grants c c' \<and> s' = put_connector c' s"
  by (auto simp: enforce_connector_rate_limit_def liftE_def Let_def split: sum.splits if_splits)

text \<open>What may become of a task: nothing, a new status in the connector's scope, or a task of its own.\<close>

definition own_change :: "AgentConnector \<Rightarrow> int \<Rightarrow> AgentTask option \<Rightarrow> AgentTask option \<Rightarrow> bool" where
  "own_change c now old new \<longleftrightarrow> new = old \<or>
     (case old of
        Some task \<Rightarrow>
          connector_owns_task c task \<and> AgentAction.APPEND_AGENT_TASK_EVENT \<in> set (conn_allowed_actions c) \<and>
          \<not> out_of_scope (task_project_id task) (conn_allowed_project_ids c) \<and>
          \<not> out_of_scope (task_repository task) (conn_allowed_repositories c) \<and>
          (\<exists>st. new = Some (task\<lparr>task_status := st, task_updated_at := now\<rparr>))
      | None \<Rightarrow>
          AgentAction.CREATE_AGENT_TASK \<in> set (conn_allowed_actions c) \<and>
          (\<exists>task. new = Some task \<and> connector_owns_task c task \<and> task_status task = AgentTaskStatus.RECEIVED \<and>
             task_approval_request_id task = None \<and> task_worker_lease_owner task = None \<and>
             \<not> out_of_scope (task_project_id task) (conn_allowed_project_ids c) \<and>
             \<not> out_of_scope (task_repository task) (conn_allowed_repositories c)))"

lemma own_change_refl [simp]: "own_change c now t t"
  by (simp add: own_change_def)

lemma own_change_grants: "same_grants c c' \<Longrightarrow> own_change c' now old new = own_change c now old new"
  by (simp add: own_change_def same_grants_def connector_owns_task_def split: option.splits)

lemma scope_InrD:
  "assert_connector_scope c project repository = Inr u \<Longrightarrow>
    \<not> out_of_scope project (conn_allowed_project_ids c) \<and> \<not> out_of_scope repository (conn_allowed_repositories c)"
  "assert_connector_action c action = Inr u \<Longrightarrow> action \<in> set (conn_allowed_actions c)"
  by (auto simp: assert_connector_scope_def assert_connector_action_def split: if_splits)

lemma create_own:
  assumes "dict_get (agent_tasks s) (new_id E ''agent_task'' s) = None"
  shows "own_change c (clock s) (dict_get (agent_tasks s) tid)
    (dict_get (agent_tasks (snd (create_task_from_connector E c p s))) tid)"
proof -
  have new: "own_change c (clock s) None (Some (connector_task E c p m s))"
    if "assert_connector_action c AgentAction.CREATE_AGENT_TASK = Inr u"
      "assert_connector_scope c (wp_project_id p) (wp_repository p) = Inr v" for u v m
    using scope_InrD(2) [OF that(1)] scope_InrD(1) [OF that(2)]
    by (simp add: own_change_def connector_task_def connector_owns_task_def)
  have i: "task_id (connector_task E c p m s) = new_id E ''agent_task'' s" for m
    by (simp add: connector_task_def)
  show ?thesis
    using assms new by (auto simp: create_task_from_connector_def liftE_def Let_def i drawn_def split: sum.splits)
qed

lemma append_own:
  assumes "keyed task_id (agent_tasks s)"
  shows "own_change c (clock s) (dict_get (agent_tasks s) tid)
    (dict_get (agent_tasks (snd (append_task_event_from_connector E c p s))) tid)"
proof (cases "dict_get (agent_tasks s) (opt_str (wp_task_id p))")
  case None
  then show ?thesis by (simp add: append_task_event_from_connector_def liftE_def split: sum.splits)
next
  case (Some task)
  have k: "task_id task = opt_str (wp_task_id p)" using keyed_get_iff [OF assms] Some by blast
  have new: "own_change c (clock s) (Some task) (Some (task\<lparr>task_status := st, task_updated_at := clock s\<rparr>))"
    if "assert_connector_action c AgentAction.APPEND_AGENT_TASK_EVENT = Inr u" "connector_owns_task c task"
      "assert_connector_scope c (task_project_id task) (task_repository task) = Inr v" for u v st
    using scope_InrD(2) [OF that(1)] scope_InrD(1) [OF that(3)] that(2) by (auto simp: own_change_def)
  show ?thesis
    using new k Some
    by (auto simp: append_task_event_from_connector_def liftE_def set_task_status_def Let_def drawn_def
        split: sum.splits option.splits)
qed

lemma perform_own:
  assumes "keyed task_id (agent_tasks s)" "dict_get (agent_tasks s) (new_id E ''agent_task'' s) = None"
  shows "own_change c (clock s) (dict_get (agent_tasks s) tid)
    (dict_get (agent_tasks (snd (perform_webhook_action E c p s))) tid)"
  using create_own [OF assms(2)] append_own [OF assms(1)] by (simp add: perform_webhook_action_def)

lemma process_tasks:
  "agent_tasks (snd (process_webhook E r c s)) = agent_tasks s \<or>
   (\<exists>p. read_payload E c r = Inr p \<and>
      agent_tasks (snd (process_webhook E r c s)) = agent_tasks (snd (perform_webhook_action E c p s)))"
proof (cases "read_payload E c r")
  case (Inl e)
  then show ?thesis by (simp add: process_webhook_def refuse_webhook_def)
next
  case (Inr p)
  obtain y s1 where "perform_webhook_action E c p s = (y, s1)" by (cases "perform_webhook_action E c p s")
  with Inr show ?thesis by (cases y) (simp_all add: process_webhook_def refuse_webhook_def)
qed

lemma handle_tasks:
  assumes "handle_connector_webhook E c r s = (x, s')"
  shows "agent_tasks s' = agent_tasks s \<or>
    (\<exists>c2 s2 p. same_grants c c2 \<and> conn_status c = ConnectorStatus.ENABLED \<and> secret_configured c \<and>
       agent_tasks s2 = agent_tasks s \<and> clock s2 = clock s \<and> draws s2 = draws s \<and>
       agent_tasks s' = agent_tasks (snd (perform_webhook_action E c2 p s2)))"
proof -
  obtain a s1 where A: "authenticate_connector E r c s = (a, s1)" by (cases "authenticate_connector E r c s")
  show ?thesis
  proof (cases a)
    case (Inl e)
    with assms A authenticate_keeps [of E r c s] show ?thesis by (simp add: handle_connector_webhook_def)
  next
    case (Inr c1)
    note a = authenticate_returns [OF A [unfolded Inr]]
    obtain b s2 where B: "enforce_connector_rate_limit E c1 s1 = (b, s2)"
      by (cases "enforce_connector_rate_limit E c1 s1")
    show ?thesis
    proof (cases b)
      case (Inl e)
      with assms A B \<open>a = Inr c1\<close> rate_limit_keeps [of E c1 s1] a show ?thesis
        by (simp add: handle_connector_webhook_def)
    next
      case (Inr c2)
      note b = rate_limit_returns [OF B [unfolded Inr]]
      have "s' = snd (process_webhook E r c2 s2)"
        using assms A B \<open>a = Inr c1\<close> Inr by (simp add: handle_connector_webhook_def)
      moreover have "same_grants c c2" using a b by (simp add: same_grants_def)
      moreover have "agent_tasks s2 = agent_tasks s" "clock s2 = clock s" "draws s2 = draws s" using a b by simp_all
      ultimately show ?thesis using process_tasks [of E r c2 s2] a by metis
    qed
  qed
qed

text \<open>
  C26. A connector stays in its lane. Whatever a webhook request contains and however it ends, it
  changes no task but the connector's own: a task that exists keeps all but its status, and that changes only
  for a task of the connector inside its projects and repositories; a new task is the connector's,
  RECEIVED and without an approval; and without an enabled connector with a secret nothing changes.
\<close>

theorem webhook_changes_own_tasks_only:
  assumes "dict_get (agent_connectors s) cid = Some c" "connector_webhook E cid r s = (x, s')"
    "keyed task_id (agent_tasks s)" "dict_get (agent_tasks s) (new_id E ''agent_task'' s) = None"
  shows "own_change c (clock s) (dict_get (agent_tasks s) tid) (dict_get (agent_tasks s') tid) \<and>
    (conn_status c = ConnectorStatus.ENABLED \<and> secret_configured c \<or> agent_tasks s' = agent_tasks s)"
proof -
  have w: "handle_connector_webhook E c r s = (x, s')" using assms(1,2) by (simp add: connector_webhook_def)
  show ?thesis
  proof (rule disjE [OF handle_tasks [OF w]])
    assume "\<exists>c2 s2 p. same_grants c c2 \<and> conn_status c = ConnectorStatus.ENABLED \<and> secret_configured c \<and>
       agent_tasks s2 = agent_tasks s \<and> clock s2 = clock s \<and> draws s2 = draws s \<and>
       agent_tasks s' = agent_tasks (snd (perform_webhook_action E c2 p s2))"
    then obtain c2 s2 p where p: "same_grants c c2" "conn_status c = ConnectorStatus.ENABLED" "secret_configured c"
        "agent_tasks s2 = agent_tasks s" "clock s2 = clock s" "draws s2 = draws s"
        "agent_tasks s' = agent_tasks (snd (perform_webhook_action E c2 p s2))" by blast
    have "own_change c2 (clock s2) (dict_get (agent_tasks s2) tid)
        (dict_get (agent_tasks (snd (perform_webhook_action E c2 p s2))) tid)"
      using assms(3,4) p(4-6) by (intro perform_own) (simp_all add: new_id_def)
    then show ?thesis using own_change_grants [OF p(1)] p by simp
  qed simp
qed

definition bearer_connector :: AgentConnector where
  "bearer_connector = hmac_connector\<lparr>conn_auth_type := ConnectorAuthType.BEARER\<rparr>"

definition webhook_sys :: sys where
  "webhook_sys = sys_of (empty_store\<lparr>agent_connectors := [(''c1'', bearer_connector)],
     agent_tasks := [(''task1'', sample_task), (''t2'', sample_task\<lparr>task_id := ''t2'', task_external_agent_id := Some ''c1''\<rparr>)]\<rparr>)
     1000000 0 empty_store"

lemma webhook_sys_parts:
  "agent_connectors webhook_sys = [(''c1'', bearer_connector)]"
  "agent_tasks webhook_sys =
     [(''task1'', sample_task), (''t2'', sample_task\<lparr>task_id := ''t2'', task_external_agent_id := Some ''c1''\<rparr>)]"
  "clock webhook_sys = 1000000" "draws webhook_sys = 0"
  by (simp_all add: webhook_sys_def sys_of_def empty_store_def store.defs)

text \<open>Any request with the connector's bearer secret is authenticated and within the limit there.\<close>

lemma bearer_call_admitted:
  assumes "wr_authorization r = Some ''Bearer k''"
  obtains c1 s1 c2 s2 where "dict_get (agent_connectors webhook_sys) ''c1'' = Some bearer_connector"
    "authenticate_connector sample_env r bearer_connector webhook_sys = (Inr c1, s1)"
    "enforce_connector_rate_limit sample_env c1 s1 = (Inr c2, s2)" "config_get c2 ''schema_mapper'' = JNull"
proof -
  define c1 where "c1 = record_connector_auth_success 1000000 bearer_connector"
  have bearer: "py_strip (removeprefix ''Bearer '' ''Bearer k'') = ''k''" by code_simp
  have a: "authenticate_connector sample_env r bearer_connector webhook_sys = (Inr c1, put_connector c1 webhook_sys)"
    using assms
    by (simp add: authenticate_connector_def hmac_connector_def bearer_connector_def secret_configured_def
        config_get_def bearer hash_connector_secret_def sample_env_def safe_equal_def py_str_def webhook_sys_parts
        c1_def ret_def Let_def)
  define c2 where "c2 = set_rate_count 1 1000000 (config_set ''rate_limit_window_started_at'' (JTime 1000000) c1)"
  have g: "config_get c1 k = config_get hmac_connector k" for k
    by (simp add: c1_def bearer_connector_def config_get_def)
  have b: "enforce_connector_rate_limit sample_env c1 (put_connector c1 webhook_sys) =
      (Inr c2, put_connector c2 (put_connector c1 webhook_sys))"
    using g by (simp add: enforce_connector_rate_limit_def rate_count_def config_get_def hmac_connector_def
        parse_optional_datetime_def webhook_sys_parts c2_def ret_def Let_def)
  have "config_get c2 ''schema_mapper'' = JNull"
    by (simp add: c2_def set_rate_count_def g, simp add: config_get_def hmac_connector_def)
  with a b show thesis by (intro that) (simp_all add: webhook_sys_parts)
qed

lemma webhook_changes_own_tasks_only_witness:
  "dict_get (agent_tasks (snd (connector_webhook sample_env ''c1'' signed_request webhook_sys))) ''task1'' = Some sample_task"
proof -
  have c: "dict_get (agent_connectors webhook_sys) ''c1'' = Some bearer_connector" by (simp add: webhook_sys_parts)
  have k: "keyed task_id (agent_tasks webhook_sys)" by (simp add: webhook_sys_parts keyed_Cons sample_task_def)
  have n: "dict_get (agent_tasks webhook_sys) (new_id sample_env ''agent_task'' webhook_sys) = None"
    by (simp add: webhook_sys_parts new_id_def)
  have "\<not> connector_owns_task bearer_connector sample_task" by (simp add: connector_owns_task_def sample_task_def bearer_connector_def)
  then show ?thesis
    using webhook_changes_own_tasks_only [of webhook_sys "''c1''" bearer_connector sample_env signed_request _ _ "''task1''",
        OF c surjective_pairing k n]
    by (simp add: own_change_def webhook_sys_parts)
qed

text \<open>
  A refused event has an effect. If the metadata of an event are too many, the webhook answers 400
  and records no event, but the status the event names has been given to the task, in memory and, by
  the persisting that follows the refusal, in the database.
\<close>

theorem refused_event_changes_status:
  assumes "dict_get (agent_connectors s) cid = Some c" "authenticate_connector E r c s = (Inr c1, s1)"
    "enforce_connector_rate_limit E c1 s1 = (Inr c2, s2)" "read_payload E c2 r = Inr p"
    "wp_action p = AgentAction.APPEND_AGENT_TASK_EVENT" "wp_action p \<in> set (conn_allowed_actions c)"
    "dict_get (agent_tasks s) (opt_str (wp_task_id p)) = Some task" "task_id task = opt_str (wp_task_id p)"
    "truthy (wp_task_id p)" "connector_owns_task c task" "wp_status p = Some st"
    "assert_connector_scope c (task_project_id task) (task_repository task) = Inr ()"
    "length (wp_metadata p) > MAX_WEBHOOK_METADATA_KEYS" "connector_webhook E cid r s = (x, s')"
  shows "x = Inl (HTTPException 400 ''Connector metadata has too many keys'') \<and>
    agent_task_events s' = agent_task_events s \<and> durable s' \<and>
    dict_get (agent_tasks s') (opt_str (wp_task_id p)) =
      Some (task\<lparr>task_status := st, task_updated_at := clock s\<rparr>)"
proof -
  note a = authenticate_returns [OF assms(2)] and b = rate_limit_returns [OF assms(3)]
  have g: "same_grants c c2" using a b by (simp add: same_grants_def)
  have same: "agent_tasks s2 = agent_tasks s" "clock s2 = clock s" "agent_task_events s2 = agent_task_events s"
    using a b by simp_all
  have "assert_connector_action c2 AgentAction.APPEND_AGENT_TASK_EVENT = Inr ()" "connector_owns_task c2 task"
    "assert_connector_scope c2 (task_project_id task) (task_repository task) = Inr ()"
    using g assms(5,6,10) scope_InrD(1) [OF assms(12)]
    by (simp_all add: same_grants_def assert_connector_action_def connector_owns_task_def assert_connector_scope_def)
  then have "perform_webhook_action E c2 p s2 =
      (Inl (HTTPException 400 ''Connector metadata has too many keys''),
       put_task (task\<lparr>task_status := st, task_updated_at := clock s\<rparr>) s2)"
    using assms(5,7-9,11,13) same
    by (simp add: perform_webhook_action_def append_task_event_from_connector_def set_task_status_def
        safe_metadata_def raise_def Let_def)
  then have "process_webhook E r c2 s2 = (x, s')"
    "x = Inl (HTTPException 400 ''Connector metadata has too many keys'') \<and>
     s' = snd (process_webhook E r c2 s2)"
    using assms(1-4,14)
    by (auto simp: connector_webhook_def handle_connector_webhook_def process_webhook_def refuse_webhook_def)
  with \<open>perform_webhook_action E c2 p s2 = _\<close> assms(4,8) same show ?thesis
    by (auto simp: process_webhook_def refuse_webhook_def)
qed

text \<open>An event for the task \<open>t2\<close> with a status and one metadata key too many.\<close>

definition many_keys :: jdict where
  "many_keys = map (\<lambda>n. (nat_digits n, JNull)) [0..<51]"

definition event_request :: WebhookRequest where
  "event_request = signed_request\<lparr>wr_authorization := Some ''Bearer k'',
     wr_json := Some (JObj [(''action'', JStr ''APPEND_AGENT_TASK_EVENT''), (''task_id'', JStr ''t2''),
       (''status'', JStr ''DONE''), (''metadata'', JObj many_keys)])\<rparr>"

definition event_payload :: ConnectorWebhookPayload where
  "event_payload =
     \<lparr>wp_action = AgentAction.APPEND_AGENT_TASK_EVENT, wp_project_id = None, wp_title = None, wp_goal = None,
      wp_context = [], wp_source_url = None, wp_source_session_id = None, wp_source_task_id = None,
      wp_requested_action = AgentTaskRequestedAction.CREATE_WORK_ORDER, wp_repository = None,
      wp_branch_preference = None, wp_risk_hint = None, wp_requires_approval = True, wp_metadata = many_keys,
      wp_task_id = Some ''t2'', wp_event_type = AgentTaskEventType.NOTE, wp_message = [],
      wp_status = Some AgentTaskStatus.DONE\<rparr>"

lemma event_payload_read:
  assumes "config_get c ''schema_mapper'' = JNull"
  shows "read_payload E c event_request = Inr event_payload"
proof -
  have "normalize_connector_payload E c v None = Inr v" for v
    using assms by (simp add: normalize_connector_payload_def mapper_from_connector_def map_payload_def)
  moreover have "enum_of AgentAction_value agent_actions ''APPEND_AGENT_TASK_EVENT'' = Inr AgentAction.APPEND_AGENT_TASK_EVENT"
    "enum_of AgentTaskStatus_value task_statuses ''DONE'' = Inr AgentTaskStatus.DONE"
    by (simp_all add: enum_of_def agent_actions_def task_statuses_def)
  ultimately show ?thesis
    by (simp add: read_payload_def event_request_def validate_webhook_payload_def json_object_def with_default_def
        json_enum_def optional_text_def json_optional_def json_string_def sum_map_def event_payload_def)
qed

lemma refused_event_changes_status_witness:
  "fst (connector_webhook sample_env ''c1'' event_request webhook_sys) =
     Inl (HTTPException 400 ''Connector metadata has too many keys'') \<and>
   map_option task_status (dict_get (agent_tasks (snd (connector_webhook sample_env ''c1'' event_request webhook_sys))) ''t2'') =
     Some AgentTaskStatus.DONE"
proof -
  let ?t = "sample_task\<lparr>task_id := ''t2'', task_external_agent_id := Some ''c1''\<rparr>"
  obtain c1 s1 c2 s2 where c: "dict_get (agent_connectors webhook_sys) ''c1'' = Some bearer_connector"
    and a: "authenticate_connector sample_env event_request bearer_connector webhook_sys = (Inr c1, s1)"
    and b: "enforce_connector_rate_limit sample_env c1 s1 = (Inr c2, s2)"
    and g: "config_get c2 ''schema_mapper'' = JNull"
    by (rule bearer_call_admitted [of event_request]) (simp add: event_request_def)
  have r: "read_payload sample_env c2 event_request = Inr event_payload" by (rule event_payload_read [OF g])
  have "length (wp_metadata event_payload) > MAX_WEBHOOK_METADATA_KEYS"
    by (simp add: event_payload_def many_keys_def MAX_WEBHOOK_METADATA_KEYS_def)
  moreover have "wp_action event_payload = AgentAction.APPEND_AGENT_TASK_EVENT" "wp_task_id event_payload = Some ''t2''"
    "wp_status event_payload = Some AgentTaskStatus.DONE" by (simp_all add: event_payload_def)
  moreover have "connector_owns_task bearer_connector ?t" "conn_allowed_actions bearer_connector = [AgentAction.CREATE_AGENT_TASK, AgentAction.APPEND_AGENT_TASK_EVENT]"
    "assert_connector_scope bearer_connector (task_project_id ?t) (task_repository ?t) = Inr ()"
    by (simp_all add: connector_owns_task_def hmac_connector_def bearer_connector_def assert_connector_scope_def
        out_of_scope_def)
  ultimately show ?thesis
    using refused_event_changes_status [OF c a b r _ _ _ _ _ _ _ _ _ surjective_pairing, of ?t "AgentTaskStatus.DONE"]
    by (simp add: webhook_sys_parts)
qed

end
