(* ===== verification/ConnectorRoutes.thy ===== *)
theory ConnectorRoutes
  imports ConnectorWebhook
begin

text \<open>
  \<open>connector_routes.py\<close> and the rest of \<open>connector_models.py\<close>: how an owner creates, changes, enables,
  disables and inspects connectors, and issues or revokes their secrets. What leaves the backend is the
  public view of a connector, without the values of the secret. The role check is outside: the routes
  take the owner.
\<close>

section \<open>Validation\<close>

definition validate_name :: "string \<Rightarrow> string + string" where
  "validate_name name =
     (let cleaned = py_strip name in
      if cleaned = [] then Inl ''Connector name is required''
      else if length cleaned > 120 then Inl ''Connector name is too long''
      else Inr cleaned)"

definition validate_url :: "string option \<Rightarrow> string + string option" where
  "validate_url url =
     (case url of
        None \<Rightarrow> Inr None
      | Some v \<Rightarrow>
          let cleaned = py_strip v in
          if cleaned = [] then Inr None
          else if length cleaned > 500 then Inl ''Connector URL is too long''
          else if \<not> (py_startswith cleaned ''https://'' \<or> py_startswith cleaned ''http://localhost''
              \<or> py_startswith cleaned ''http://127.0.0.1'') then
            Inl ''Connector URL must be https or local development HTTP''
          else Inr (Some cleaned))"

definition valid_rate :: "int \<Rightarrow> bool" where
  "valid_rate n \<longleftrightarrow> 1 \<le> n \<and> n \<le> 1000"

record ConnectorCreate =
  cc_name :: string
  cc_type :: ConnectorType
  cc_provider_label :: ConnectorProviderLabel
  cc_endpoint_url :: "string option"
  cc_callback_url :: "string option"
  cc_auth_type :: ConnectorAuthType
  cc_allowed_project_ids :: "string list"
  cc_allowed_repositories :: "string list"
  cc_allowed_actions :: "AgentAction list"
  cc_rate_limit_per_minute :: int
  cc_enabled :: bool
  cc_config :: jdict

text \<open>What the constructor makes of the fields it is given.\<close>

definition make_connector_create :: "ConnectorCreate \<Rightarrow> string + ConnectorCreate" where
  "make_connector_create p =
     sum_then (validate_name (cc_name p)) (\<lambda>name.
     sum_then (validate_url (cc_endpoint_url p)) (\<lambda>endpoint.
     sum_then (validate_url (cc_callback_url p)) (\<lambda>callback.
       if valid_rate (cc_rate_limit_per_minute p)
       then Inr (p\<lparr>cc_name := name, cc_endpoint_url := endpoint, cc_callback_url := callback\<rparr>)
       else Inl ''Input should be between 1 and 1000'')))"

text \<open>
  An update: \<open>None\<close> is a field that is not set. The fields that may be null in the connector, and
  \<open>enabled\<close> and \<open>config\<close>, where a null has a meaning, have a second layer. An explicit null for another
  field is outside the model: it would leave the connector without a value it must have.
\<close>

record ConnectorUpdate =
  cu_name :: "string option"
  cu_type :: "ConnectorType option"
  cu_provider_label :: "ConnectorProviderLabel option"
  cu_endpoint_url :: "string option option"
  cu_callback_url :: "string option option"
  cu_auth_type :: "ConnectorAuthType option"
  cu_allowed_project_ids :: "string list option"
  cu_allowed_repositories :: "string list option"
  cu_allowed_actions :: "AgentAction list option"
  cu_rate_limit_per_minute :: "int option"
  cu_enabled :: "bool option option"
  cu_config :: "jdict option option"

section \<open>Views\<close>

record ConnectorPublic =
  cp_id :: string
  cp_name :: string
  cp_type :: ConnectorType
  cp_provider_label :: ConnectorProviderLabel
  cp_endpoint_url :: "string option"
  cp_callback_url :: "string option"
  cp_auth_type :: ConnectorAuthType
  cp_status :: ConnectorStatus
  cp_health_status :: ConnectorHealthStatus
  cp_allowed_project_ids :: "string list"
  cp_allowed_repositories :: "string list"
  cp_allowed_actions :: "AgentAction list"
  cp_rate_limit_per_minute :: int
  cp_secret_configured :: bool
  cp_last_used_at :: "int option"
  cp_last_health_check_at :: "int option"
  cp_failed_auth_count :: int
  cp_last_error :: "string option"
  cp_config :: jdict
  cp_created_at :: int
  cp_updated_at :: int

definition SECRET_KEYS :: "string list" where
  "SECRET_KEYS = [''secret_hash'', ''secret_hint'', ''secret_revoked_at'', ''secret_rotated_at'']"

definition safe_config :: "jdict \<Rightarrow> jdict" where
  "safe_config config = filter (\<lambda>(k, v). k \<notin> set SECRET_KEYS) config"

definition connector_to_public :: "AgentConnector \<Rightarrow> ConnectorPublic" where
  "connector_to_public c =
     \<lparr>cp_id = conn_id c, cp_name = conn_name c, cp_type = conn_type c,
      cp_provider_label = conn_provider_label c, cp_endpoint_url = conn_endpoint_url c,
      cp_callback_url = conn_callback_url c, cp_auth_type = conn_auth_type c, cp_status = conn_status c,
      cp_health_status = conn_health_status c, cp_allowed_project_ids = conn_allowed_project_ids c,
      cp_allowed_repositories = conn_allowed_repositories c, cp_allowed_actions = conn_allowed_actions c,
      cp_rate_limit_per_minute = conn_rate_limit_per_minute c, cp_secret_configured = secret_configured c,
      cp_last_used_at = conn_last_used_at c, cp_last_health_check_at = conn_last_health_check_at c,
      cp_failed_auth_count = conn_failed_auth_count c, cp_last_error = conn_last_error c,
      cp_config = safe_config (conn_config c), cp_created_at = conn_created_at c,
      cp_updated_at = conn_updated_at c\<rparr>"

definition connector_details :: "AgentConnector \<Rightarrow> jdict" where
  "connector_details c =
     [(''name'', JStr (conn_name c)),
      (''connector_type'', JStr (ConnectorType_value (conn_type c))),
      (''provider_label'', JStr (ConnectorProviderLabel_value (conn_provider_label c))),
      (''auth_type'', JStr (ConnectorAuthType_value (conn_auth_type c))),
      (''status'', JStr (ConnectorStatus_value (conn_status c))),
      (''health_status'', JStr (ConnectorHealthStatus_value (conn_health_status c))),
      (''allowed_project_ids'', json_strs (conn_allowed_project_ids c)),
      (''allowed_repositories'', json_strs (conn_allowed_repositories c)),
      (''allowed_actions'', json_strs (map AgentAction_value (conn_allowed_actions c))),
      (''rate_limit_per_minute'', JInt (conn_rate_limit_per_minute c)),
      (''secret_configured'', JBool (secret_configured c))]"

text \<open>The detail of the 404 also lists the identifiers that are missing.\<close>

definition validate_scopes :: "string list \<Rightarrow> sys \<Rightarrow> pyerror + unit" where
  "validate_scopes project_ids s =
     (if filter (\<lambda>p. dict_get (projects s) p = None) project_ids \<noteq> []
      then Inl (HTTPException 404 ''Project scope not found'') else Inr ())"

definition connector_or_404 :: "string \<Rightarrow> sys \<Rightarrow> AgentConnector result" where
  "connector_or_404 cid s =
     (case dict_get (agent_connectors s) cid of
        None \<Rightarrow> raise (HTTPException 404 ''Connector not found'') s
      | Some c \<Rightarrow> ret c s)"

section \<open>Creating and changing a connector\<close>

definition created_connector :: "env \<Rightarrow> ConnectorCreate \<Rightarrow> AuthUser \<Rightarrow> sys \<Rightarrow> AgentConnector" where
  "created_connector E p user s =
     \<lparr>conn_id = new_id E ''connector'' s, conn_name = cc_name p, conn_type = cc_type p,
      conn_provider_label = cc_provider_label p, conn_endpoint_url = cc_endpoint_url p,
      conn_callback_url = cc_callback_url p, conn_auth_type = cc_auth_type p,
      conn_status = (if cc_enabled p then ConnectorStatus.ENABLED else ConnectorStatus.DISABLED),
      conn_health_status =
        (if cc_enabled p then ConnectorHealthStatus.UNKNOWN else ConnectorHealthStatus.DISABLED),
      conn_allowed_project_ids = cc_allowed_project_ids p,
      conn_allowed_repositories = cc_allowed_repositories p, conn_allowed_actions = cc_allowed_actions p,
      conn_rate_limit_per_minute = cc_rate_limit_per_minute p, conn_secret_ref = None,
      conn_last_used_at = None, conn_last_health_check_at = None, conn_failed_auth_count = 0,
      conn_last_error = None, conn_created_by_user_id = Some (user_id user), conn_config = cc_config p,
      conn_created_at = clock s, conn_updated_at = clock s\<rparr>"

text \<open>The end every route shares: the object is in the store, the audit event written, the store saved.\<close>

definition save_connector ::
    "env \<Rightarrow> string \<Rightarrow> jdict \<Rightarrow> AuthUser \<Rightarrow> AgentConnector \<Rightarrow> sys \<Rightarrow> ConnectorPublic result" where
  "save_connector E event details user c s =
     ret (connector_to_public c)
       (persist (add_audit E event (conn_id c) details (user_email user) (put_connector c s)))"

definition create_connector :: "env \<Rightarrow> ConnectorCreate \<Rightarrow> AuthUser \<Rightarrow> sys \<Rightarrow> ConnectorPublic result" where
  "create_connector E payload user s =
     liftE (validate_scopes (cc_allowed_project_ids payload) s) (\<lambda>_ s.
       let c = created_connector E payload user s
       in save_connector E ''connector.created'' (connector_details c) user c (drawn s)) s"

definition list_connectors :: "sys \<Rightarrow> ConnectorPublic list" where
  "list_connectors s = map connector_to_public (dict_vals (agent_connectors s))"

definition get_connector :: "string \<Rightarrow> sys \<Rightarrow> ConnectorPublic result" where
  "get_connector cid s = bindE (connector_or_404 cid s) (\<lambda>c s. ret (connector_to_public c) s)"

definition with_enabled :: "bool \<Rightarrow> AgentConnector \<Rightarrow> AgentConnector" where
  "with_enabled b c =
     c\<lparr>conn_status := (if b then ConnectorStatus.ENABLED else ConnectorStatus.DISABLED),
       conn_health_status := (if b then ConnectorHealthStatus.UNKNOWN else ConnectorHealthStatus.DISABLED)\<rparr>"

definition opt_update :: "'v option \<Rightarrow> ('v \<Rightarrow> 'c \<Rightarrow> 'c) \<Rightarrow> 'c \<Rightarrow> 'c" where
  "opt_update v f c = (case v of None \<Rightarrow> c | Some v \<Rightarrow> f v c)"

text \<open>The names and addresses of an update are not validated as those of a creation are.\<close>

definition apply_connector_update :: "ConnectorUpdate \<Rightarrow> AgentConnector \<Rightarrow> AgentConnector" where
  "apply_connector_update u c =
     (let c = opt_update (cu_name u) (\<lambda>v c. c\<lparr>conn_name := v\<rparr>) c;
          c = opt_update (cu_type u) (\<lambda>v c. c\<lparr>conn_type := v\<rparr>) c;
          c = opt_update (cu_provider_label u) (\<lambda>v c. c\<lparr>conn_provider_label := v\<rparr>) c;
          c = opt_update (cu_endpoint_url u) (\<lambda>v c. c\<lparr>conn_endpoint_url := v\<rparr>) c;
          c = opt_update (cu_callback_url u) (\<lambda>v c. c\<lparr>conn_callback_url := v\<rparr>) c;
          c = opt_update (cu_auth_type u) (\<lambda>v c. c\<lparr>conn_auth_type := v\<rparr>) c;
          c = opt_update (cu_allowed_project_ids u) (\<lambda>v c. c\<lparr>conn_allowed_project_ids := v\<rparr>) c;
          c = opt_update (cu_allowed_repositories u) (\<lambda>v c. c\<lparr>conn_allowed_repositories := v\<rparr>) c;
          c = opt_update (cu_allowed_actions u) (\<lambda>v c. c\<lparr>conn_allowed_actions := v\<rparr>) c;
          c = opt_update (cu_rate_limit_per_minute u) (\<lambda>v c. c\<lparr>conn_rate_limit_per_minute := v\<rparr>) c;
          c = opt_update (cu_enabled u) (\<lambda>v. with_enabled (v = Some True)) c
      in opt_update (cu_config u) (\<lambda>v c. c\<lparr>conn_config :=
           dict_update (conn_config c) (case v of None \<Rightarrow> [] | Some d \<Rightarrow> d)\<rparr>) c)"

definition update_connector ::
    "env \<Rightarrow> string \<Rightarrow> ConnectorUpdate \<Rightarrow> AuthUser \<Rightarrow> sys \<Rightarrow> ConnectorPublic result" where
  "update_connector E cid payload user s =
     liftE (validate_scopes (case cu_allowed_project_ids payload of None \<Rightarrow> [] | Some ps \<Rightarrow> ps) s) (\<lambda>_ s.
     bindE (connector_or_404 cid s) (\<lambda>c s.
       let previous = conn_status c;
           c = (apply_connector_update payload c)\<lparr>conn_updated_at := clock s\<rparr>
       in save_connector E ''connector.updated''
            [(''previous_status'', JStr (ConnectorStatus_value previous)),
             (''new'', JObj (connector_details c))] user c s)) s"

definition switch_connector ::
    "env \<Rightarrow> bool \<Rightarrow> string \<Rightarrow> AuthUser \<Rightarrow> sys \<Rightarrow> ConnectorPublic result" where
  "switch_connector E b cid user s =
     bindE (connector_or_404 cid s) (\<lambda>c s.
       let previous = conn_status c;
           c = (with_enabled b c)\<lparr>conn_updated_at := clock s\<rparr>
       in save_connector E (if b then ''connector.enabled'' else ''connector.disabled'')
            [(''previous_status'', JStr (ConnectorStatus_value previous)),
             (''new_status'', JStr (ConnectorStatus_value (conn_status c)))] user c s)"

definition disable_connector :: "env \<Rightarrow> string \<Rightarrow> AuthUser \<Rightarrow> sys \<Rightarrow> ConnectorPublic result" where
  "disable_connector E cid user s = switch_connector E False cid user s"

definition enable_connector :: "env \<Rightarrow> string \<Rightarrow> AuthUser \<Rightarrow> sys \<Rightarrow> ConnectorPublic result" where
  "enable_connector E cid user s = switch_connector E True cid user s"

section \<open>Secrets and health\<close>

definition get_connector_credentials :: "string \<Rightarrow> sys \<Rightarrow> ConnectorCredentialStatus result" where
  "get_connector_credentials cid s =
     bindE (connector_or_404 cid s) (\<lambda>c s. ret (connector_credential_status c) s)"

record ConnectorSecretIssueResponse =
  csr_connector :: ConnectorPublic
  csr_secret :: string
  csr_secret_hint :: string

definition new_secret_route ::
    "env \<Rightarrow> string \<Rightarrow> string \<Rightarrow> string \<Rightarrow> AuthUser \<Rightarrow> sys \<Rightarrow> ConnectorSecretIssueResponse result" where
  "new_secret_route E event cid note user s =
     bindE (connector_or_404 cid s) (\<lambda>c s.
       let (((secret, ref, hint), c), s) = issue_connector_secret E c s
       in bindE (save_connector E event
            [(''secret_ref'', JStr ref), (''secret_hint'', JStr hint), (''note'', JStr note)] user c s)
          (\<lambda>public s. ret \<lparr>csr_connector = public, csr_secret = secret, csr_secret_hint = hint\<rparr> s))"

definition issue_connector_secret_route ::
    "env \<Rightarrow> string \<Rightarrow> string \<Rightarrow> AuthUser \<Rightarrow> sys \<Rightarrow> ConnectorSecretIssueResponse result" where
  "issue_connector_secret_route E cid note user s =
     new_secret_route E ''connector.secret_issued'' cid note user s"

definition rotate_connector_secret_route ::
    "env \<Rightarrow> string \<Rightarrow> string \<Rightarrow> AuthUser \<Rightarrow> sys \<Rightarrow> ConnectorSecretIssueResponse result" where
  "rotate_connector_secret_route E cid note user s =
     new_secret_route E ''connector.secret_rotated'' cid note user s"

definition revoke_connector_secret_route ::
    "env \<Rightarrow> string \<Rightarrow> AuthUser \<Rightarrow> sys \<Rightarrow> ConnectorPublic result" where
  "revoke_connector_secret_route E cid user s =
     bindE (connector_or_404 cid s) (\<lambda>c s.
       save_connector E ''connector.secret_revoked'' [(''secret_configured'', JBool False)] user
         (revoke_connector_secret (clock s) c) s)"

definition mark_connector_success :: "env \<Rightarrow> string \<Rightarrow> AuthUser \<Rightarrow> sys \<Rightarrow> ConnectorPublic result" where
  "mark_connector_success E cid user s =
     bindE (connector_or_404 cid s) (\<lambda>c s.
       let c = mark_connector_health_check True [] (clock s) (record_connector_auth_success (clock s) c)
       in save_connector E ''connector.health_success'' (connector_details c) user c s)"

definition mark_connector_failure ::
    "env \<Rightarrow> string \<Rightarrow> string \<Rightarrow> AuthUser \<Rightarrow> sys \<Rightarrow> ConnectorPublic result" where
  "mark_connector_failure E cid note user s =
     bindE (connector_or_404 cid s) (\<lambda>c s.
       let reason = str_or note ''manual health failure'';
           c = mark_connector_health_check False reason (clock s)
                 (record_connector_auth_failure reason (clock s) c)
       in save_connector E ''connector.health_failure''
            (connector_details c @ [(''reason'', JStr reason)]) user c s)"

section \<open>The schema mapper of a connector\<close>

text \<open>
  An exception of the mapper is not caught by the routes: it is an \<open>HTTPException\<close> where metadata are
  not an object, and a \<open>ValueError\<close> (pydantic's or that of an enumeration) elsewhere.
\<close>

definition mapper_result :: "string + 'a \<Rightarrow> pyerror + 'a" where
  "mapper_result r =
     (case r of
        Inl e \<Rightarrow> Inl (if e = ''Connector mapper metadata must resolve to an object''
                        then HTTPException 400 e else ValueError e)
      | Inr a \<Rightarrow> Inr a)"

definition get_connector_mapper :: "string \<Rightarrow> sys \<Rightarrow> ConnectorSchemaMapperStatus result" where
  "get_connector_mapper cid s =
     bindE (connector_or_404 cid s) (\<lambda>c s.
       liftE (mapper_result (get_connector_schema_mapper_status c)) ret s)"

definition update_connector_mapper ::
    "env \<Rightarrow> string \<Rightarrow> ConnectorSchemaMapperConfig \<Rightarrow> AuthUser \<Rightarrow> sys \<Rightarrow> ConnectorSchemaMapperStatus result" where
  "update_connector_mapper E cid payload user s =
     bindE (connector_or_404 cid s) (\<lambda>c s.
       let (status, c) = set_connector_schema_mapper c payload;
           s = put_connector c s
       in liftE (mapper_result status) (\<lambda>status s.
            bindE (save_connector E ''connector.schema_mapper_updated''
              [(''mapper_enabled'', JBool (sms_mapper_enabled status)),
               (''mapped_fields'', json_strs (map fst (sm_field_paths payload)))] user
              (c\<lparr>conn_updated_at := clock s\<rparr>) s)
            (\<lambda>_ s. ret status s)) s)"

definition preview_connector_mapper ::
    "env \<Rightarrow> string \<Rightarrow> jdict \<Rightarrow> ConnectorSchemaMapperConfig option \<Rightarrow> sys \<Rightarrow> (json \<times> bool \<times> string list) result" where
  "preview_connector_mapper E cid sample mapper s =
     bindE (connector_or_404 cid s) (\<lambda>c s.
       liftE (mapper_result (preview_connector_schema_mapping E c sample mapper)) ret s)"

chapter \<open>The simulator\<close>

text \<open>
  \<open>connector_simulator.py\<close>: what a webhook call with a given payload would do, without doing it. The
  simulator repeats the checks of the webhook, collects every error instead of raising the first, and
  shows the task or the event that the call would store.
\<close>

record ConnectorSimulationRequest =
  sim_sample_payload :: jdict
  sim_mapper :: "ConnectorSchemaMapperConfig option"
  sim_validate_secret_configured :: bool

record ConnectorSimulationResponse =
  sr_accepted :: bool
  sr_connector_id :: string
  sr_action :: "AgentAction option"
  sr_normalized_payload :: jdict
  sr_task_preview :: "jdict option"
  sr_event_preview :: "jdict option"
  sr_auth_ready :: bool
  sr_scope_ready :: bool
  sr_errors :: "string list"
  sr_warnings :: "string list"

definition allowed_action :: "AgentConnector \<Rightarrow> AgentAction \<Rightarrow> bool" where
  "allowed_action c action \<longleftrightarrow> AgentAction_value action \<in> set (map AgentAction_value (conn_allowed_actions c))"

definition connector_secret_configured :: "AgentConnector \<Rightarrow> bool" where
  "connector_secret_configured c \<longleftrightarrow>
     truthy (conn_secret_ref c) \<and> json_truthy (config_get c ''secret_hash'')"

definition auth_warnings :: "AgentConnector \<Rightarrow> bool \<Rightarrow> bool \<times> string list" where
  "auth_warnings c validate_secret =
     (conn_status c = ConnectorStatus.ENABLED \<and> (\<not> validate_secret \<or> connector_secret_configured c),
      (if conn_status c \<noteq> ConnectorStatus.ENABLED
       then [''Connector is disabled; live webhook calls will be refused.''] else []) @
      (if validate_secret \<and> \<not> connector_secret_configured c
       then [''Connector secret is not configured; live webhook calls will be refused.''] else []))"

definition scope_errors :: "AgentConnector \<Rightarrow> string option \<Rightarrow> string option \<Rightarrow> string list" where
  "scope_errors c project repository =
     (if truthy project \<and> conn_allowed_project_ids c \<noteq> [] \<and> opt_str project \<notin> set (conn_allowed_project_ids c)
      then [''Connector is not allowed for this project.''] else []) @
     (if truthy repository \<and> conn_allowed_repositories c \<noteq> []
         \<and> opt_str repository \<notin> set (conn_allowed_repositories c)
      then [''Connector is not allowed for this repository.''] else [])"

definition simulation_tags :: "AgentConnector \<Rightarrow> jdict" where
  "simulation_tags c =
     [(''connector_id'', JStr (conn_id c)), (''connector_name'', JStr (conn_name c)),
      (''connector_webhook'', JBool True)]"

definition json_of_opt :: "('a \<Rightarrow> string) \<Rightarrow> 'a option \<Rightarrow> json" where
  "json_of_opt val v = json_opt_str (map_option val v)"

definition create_errors :: "AgentConnector \<Rightarrow> ConnectorWebhookPayload \<Rightarrow> sys \<Rightarrow> string list" where
  "create_errors c p s =
     (if \<not> allowed_action c AgentAction.CREATE_AGENT_TASK
      then [''Connector is not allowed to perform CREATE_AGENT_TASK.''] else []) @
     (if \<not> truthy (wp_project_id p) then [''project_id is required for CREATE_AGENT_TASK.'']
      else if dict_get (projects s) (opt_str (wp_project_id p)) = None then [''Project not found.''] else []) @
     (if \<not> truthy (wp_title p) \<or> \<not> truthy (wp_goal p)
      then [''title and goal are required for CREATE_AGENT_TASK.''] else []) @
     scope_errors c (wp_project_id p) (wp_repository p)"

definition task_preview :: "AgentConnector \<Rightarrow> ConnectorWebhookPayload \<Rightarrow> jdict" where
  "task_preview c p =
     [(''provider'', JStr (ConnectorProviderLabel_value (conn_provider_label c))),
      (''project_id'', json_opt_str (wp_project_id p)), (''title'', json_opt_str (wp_title p)),
      (''goal'', json_opt_str (wp_goal p)), (''context'', JStr (wp_context p)),
      (''requested_action'', JStr (AgentTaskRequestedAction_value (wp_requested_action p))),
      (''repository'', json_opt_str (wp_repository p)),
      (''branch_preference'', json_opt_str (wp_branch_preference p)),
      (''risk_hint'', json_of_opt RiskLevel_value (wp_risk_hint p)),
      (''requires_approval'', JBool (wp_requires_approval p)),
      (''metadata'', JObj (dict_update (wp_metadata p) (simulation_tags c))),
      (''external_agent_id'', JStr (conn_id c)), (''external_agent_name'', JStr (conn_name c))]"

text \<open>The preview, the errors and whether the scope is ready.\<close>

definition simulate_create_task ::
    "AgentConnector \<Rightarrow> ConnectorWebhookPayload \<Rightarrow> sys \<Rightarrow> jdict option \<times> string list \<times> bool" where
  "simulate_create_task c p s =
     (let errors = create_errors c p s
      in if errors \<noteq> [] then (None, errors, False) else (Some (task_preview c p), [], True))"

definition event_preview :: "AgentConnector \<Rightarrow> ConnectorWebhookPayload \<Rightarrow> AgentTask \<Rightarrow> jdict" where
  "event_preview c p task =
     [(''task_id'', JStr (task_id task)),
      (''event_type'', JStr (AgentTaskEventType_value (wp_event_type p))),
      (''message'', JStr (wp_message p)),
      (''status'', json_of_opt AgentTaskStatus_value (wp_status p)),
      (''actor'', JStr (connector_actor c)),
      (''metadata'', JObj (dict_update (wp_metadata p) (simulation_tags c)))]"

definition simulate_append_event ::
    "AgentConnector \<Rightarrow> ConnectorWebhookPayload \<Rightarrow> sys \<Rightarrow> jdict option \<times> string list \<times> bool" where
  "simulate_append_event c p s =
     (let errors = (if \<not> allowed_action c AgentAction.APPEND_AGENT_TASK_EVENT
            then [''Connector is not allowed to perform APPEND_AGENT_TASK_EVENT.''] else [])
      in if \<not> truthy (wp_task_id p) then
           (None, errors @ [''task_id is required for APPEND_AGENT_TASK_EVENT.''], False)
         else case dict_get (agent_tasks s) (opt_str (wp_task_id p)) of
           None \<Rightarrow> (None, errors @ [''Agent task not found.''], False)
         | Some task \<Rightarrow>
             let errors = errors @
                   (if task_external_agent_id task \<noteq> Some (conn_id c)
                      \<and> dict_get (task_metadata task) ''connector_id'' \<noteq> Some (JStr (conn_id c))
                    then [''Connector is not allowed for this task.''] else []) @
                   scope_errors c (task_project_id task) (task_repository task)
             in if errors \<noteq> [] then (None, errors, False) else (Some (event_preview c p task), [], True))"

text \<open>\<open>payload.model_dump(mode="json")\<close>.\<close>

definition payload_json :: "ConnectorWebhookPayload \<Rightarrow> jdict" where
  "payload_json p =
     [(''action'', JStr (AgentAction_value (wp_action p))), (''project_id'', json_opt_str (wp_project_id p)),
      (''title'', json_opt_str (wp_title p)), (''goal'', json_opt_str (wp_goal p)),
      (''context'', JStr (wp_context p)), (''source_url'', json_opt_str (wp_source_url p)),
      (''source_session_id'', json_opt_str (wp_source_session_id p)),
      (''source_task_id'', json_opt_str (wp_source_task_id p)),
      (''requested_action'', JStr (AgentTaskRequestedAction_value (wp_requested_action p))),
      (''repository'', json_opt_str (wp_repository p)),
      (''branch_preference'', json_opt_str (wp_branch_preference p)),
      (''risk_hint'', json_of_opt RiskLevel_value (wp_risk_hint p)),
      (''requires_approval'', JBool (wp_requires_approval p)), (''metadata'', JObj (wp_metadata p)),
      (''task_id'', json_opt_str (wp_task_id p)),
      (''event_type'', JStr (AgentTaskEventType_value (wp_event_type p))), (''message'', JStr (wp_message p)),
      (''status'', json_of_opt AgentTaskStatus_value (wp_status p))]"

definition simulate_action ::
    "AgentConnector \<Rightarrow> ConnectorWebhookPayload \<Rightarrow> sys \<Rightarrow> jdict option \<times> jdict option \<times> string list \<times> bool" where
  "simulate_action c p s =
     (if wp_action p = AgentAction.CREATE_AGENT_TASK then
        (case simulate_create_task c p s of (preview, errors, ready) \<Rightarrow> (preview, None, errors, ready))
      else if wp_action p = AgentAction.APPEND_AGENT_TASK_EVENT then
        (case simulate_append_event c p s of (preview, errors, ready) \<Rightarrow> (None, preview, errors, ready))
      else (None, None,
        [''Connector simulator does not support action: '' @ AgentAction_value (wp_action p)], False))"

text \<open>\<open>error\<close> is the text of the exception that mapping or validating the sample raises, if one does.\<close>

definition simulate_connector_webhook ::
    "env \<Rightarrow> AgentConnector \<Rightarrow> ConnectorSimulationRequest \<Rightarrow> string \<Rightarrow> sys \<Rightarrow> ConnectorSimulationResponse" where
  "simulate_connector_webhook E c request error s =
     (let (auth_ready, warnings) = auth_warnings c (sim_validate_secret_configured request)
      in case sum_then (normalize_connector_payload E c (JObj (sim_sample_payload request)) (sim_mapper request))
           validate_webhook_payload of
        Inl _ \<Rightarrow>
          \<lparr>sr_accepted = False, sr_connector_id = conn_id c, sr_action = None, sr_normalized_payload = [],
           sr_task_preview = None, sr_event_preview = None, sr_auth_ready = auth_ready,
           sr_scope_ready = False, sr_errors = [''Invalid connector webhook payload: '' @ error],
           sr_warnings = warnings\<rparr>
      | Inr p \<Rightarrow>
          (case simulate_action c p s of (task, event, errors, scope_ready) \<Rightarrow>
             \<lparr>sr_accepted = (auth_ready \<and> scope_ready \<and> errors = []), sr_connector_id = conn_id c,
              sr_action = Some (wp_action p), sr_normalized_payload = payload_json p,
              sr_task_preview = task, sr_event_preview = event, sr_auth_ready = auth_ready,
              sr_scope_ready = scope_ready, sr_errors = errors, sr_warnings = warnings\<rparr>))"

definition simulate_connector_webhook_route ::
    "env \<Rightarrow> string \<Rightarrow> ConnectorSimulationRequest \<Rightarrow> string \<Rightarrow> sys \<Rightarrow> ConnectorSimulationResponse result" where
  "simulate_connector_webhook_route E cid request error s =
     bindE (connector_or_404 cid s) (\<lambda>c s. ret (simulate_connector_webhook E c request error s) s)"

section \<open>The simulator and the webhook\<close>

lemma allowed_action_iff: "allowed_action c a \<longleftrightarrow> a \<in> set (conn_allowed_actions c)"
proof -
  have "inj AgentAction_value"
  proof (rule injI)
    fix a b assume "AgentAction_value a = AgentAction_value b"
    then show "a = b" by (cases a; cases b) simp_all
  qed
  then show ?thesis by (simp add: allowed_action_def inj_image_mem_iff)
qed

lemma scope_errors_iff:
  "scope_errors c project repository = [] \<longleftrightarrow> assert_connector_scope c project repository = Inr ()"
  by (auto simp: scope_errors_def assert_connector_scope_def out_of_scope_def)

lemma create_errors_iff:
  "create_errors c p s = [] \<and> length (wp_metadata p) \<le> MAX_WEBHOOK_METADATA_KEYS \<longleftrightarrow>
     (\<exists>r s'. create_task_from_connector E c p s = (Inr r, s'))"
  using scope_errors_iff [of c "wp_project_id p" "wp_repository p"]
  by (cases "assert_connector_scope c (wp_project_id p) (wp_repository p)")
     (auto simp: create_errors_def create_task_from_connector_def assert_connector_action_def allowed_action_iff
       safe_metadata_def Let_def)

lemma simulate_append_iff:
  "snd (simulate_append_event c p s) = ([], True) \<and> length (wp_metadata p) \<le> MAX_WEBHOOK_METADATA_KEYS \<longleftrightarrow>
     (\<exists>r s'. append_task_event_from_connector E c p s = (Inr r, s'))"
proof (cases "dict_get (agent_tasks s) (opt_str (wp_task_id p))")
  case None
  then show ?thesis
    by (auto simp: simulate_append_event_def append_task_event_from_connector_def assert_connector_action_def
        allowed_action_iff liftE_def)
next
  case (Some task)
  with scope_errors_iff [of c "task_project_id task" "task_repository task"] show ?thesis
    by (cases "assert_connector_scope c (task_project_id task) (task_repository task)")
       (auto simp: simulate_append_event_def append_task_event_from_connector_def assert_connector_action_def
         allowed_action_iff safe_metadata_def connector_owns_task_def Let_def split: prod.splits)
qed

end
