(* ===== verification/ConnectorProperties.thy ===== *)
theory ConnectorProperties
  imports WebhookProperties ConnectorRoutes
begin

text \<open>
  The connectors as a whole: what the simulator says of a call is what the webhook does with it, and a
  revoked secret keeps every caller out, whatever the owner and the callers do next.
\<close>

section \<open>The simulator predicts the webhook\<close>

lemma read_payload_grants: "same_grants c c' \<Longrightarrow> read_payload E c' r = read_payload E c r"
  by (simp add: read_payload_def normalize_connector_payload_def mapper_from_connector_def same_grants_def
      split: option.splits)

lemma simulate_action_grants:
  assumes "same_grants c c'" "projects s' = projects s" "agent_tasks s' = agent_tasks s"
  shows "snd (snd (simulate_action c' p s')) = snd (snd (simulate_action c p s))"
proof -
  have "create_errors c' p s' = create_errors c p s" "scope_errors c' v w = scope_errors c v w"
    "allowed_action c' a = allowed_action c a" for v w a
    using assms by (simp_all add: create_errors_def scope_errors_def allowed_action_def same_grants_def)
  with assms show ?thesis
    by (auto simp: simulate_action_def simulate_create_task_def simulate_append_event_def same_grants_def Let_def
        split: option.splits prod.splits)
qed

lemma simulate_action_iff:
  "snd (snd (simulate_action c p s)) = ([], True) \<and> length (wp_metadata p) \<le> MAX_WEBHOOK_METADATA_KEYS \<longleftrightarrow>
     (\<exists>r s'. perform_webhook_action E c p s = (Inr r, s'))"
proof -
  have "snd (simulate_create_task c p s) = ([], True) \<longleftrightarrow> create_errors c p s = []"
    by (simp add: simulate_create_task_def Let_def)
  then show ?thesis
    using create_errors_iff [of c p s E] simulate_append_iff [of c p s E]
    by (auto simp: simulate_action_def perform_webhook_action_def split: prod.splits)
qed

lemma simulate_action_errors:
  "snd (snd (simulate_action c p s)) = (es, b) \<Longrightarrow> b \<longleftrightarrow> es = []"
  by (auto simp: simulate_action_def simulate_create_task_def simulate_append_event_def Let_def
      split: option.splits prod.splits if_splits)

text \<open>
  The simulator tells the truth about the webhook. For a call that authenticates within the rate
  limit and whose metadata have at most 50 keys, the simulation of its JSON is accepted exactly when
  the webhook answers with success.
\<close>

theorem simulation_predicts_webhook:
  assumes "dict_get (agent_connectors s) cid = Some c" "wr_json r = Some (JObj sample)"
    "authenticate_connector E r c s = (Inr c1, s1)" "enforce_connector_rate_limit E c1 s1 = (Inr c2, s2)"
    "read_payload E c r = Inr p" "length (wp_metadata p) \<le> MAX_WEBHOOK_METADATA_KEYS"
  shows "(\<exists>response. fst (connector_webhook E cid r s) = Inr response) \<longleftrightarrow>
    sr_accepted (simulate_connector_webhook E c
      \<lparr>sim_sample_payload = sample, sim_mapper = None, sim_validate_secret_configured = True\<rparr> err s)"
proof -
  have g: "same_grants c c2" and ready: "conn_status c = ConnectorStatus.ENABLED" "secret_configured c"
    and s2: "projects s2 = projects s" "agent_tasks s2 = agent_tasks s"
    using authenticate_returns [OF assms(3)] rate_limit_returns [OF assms(4)] same_grants_trans by auto
  have p: "read_payload E c2 r = Inr p"
    "sum_then (normalize_connector_payload E c (JObj sample) None) validate_webhook_payload = Inr p"
    using assms(2,5) by (simp_all add: read_payload_grants [OF g]) (simp add: read_payload_def)
  have "(\<exists>response. fst (connector_webhook E cid r s) = Inr response) \<longleftrightarrow>
      (\<exists>x s'. perform_webhook_action E c2 p s2 = (Inr x, s'))"
    using assms(1,3,4) p(1)
    by (auto simp: connector_webhook_def handle_connector_webhook_def process_webhook_def refuse_webhook_def
        split: prod.splits sum.splits)
  also have "\<dots> \<longleftrightarrow> snd (snd (simulate_action c p s)) = ([], True)"
    using simulate_action_iff [of c2 p s2 E] simulate_action_grants [OF g s2] assms(6) by simp
  also have "\<dots> \<longleftrightarrow> sr_accepted (simulate_connector_webhook E c
      \<lparr>sim_sample_payload = sample, sim_mapper = None, sim_validate_secret_configured = True\<rparr> err s)"
    using ready p(2) simulate_action_errors [of c p s]
    by (auto simp: simulate_connector_webhook_def auth_warnings_def connector_secret_configured_def
        secret_configured_def split: prod.splits)
  finally show ?thesis .
qed

text \<open>An event of the task \<open>t2\<close> whose status the connector may set.\<close>

definition note_json :: jdict where
  "note_json = [(''action'', JStr ''APPEND_AGENT_TASK_EVENT''), (''task_id'', JStr ''t2'')]"

definition note_request :: WebhookRequest where
  "note_request = signed_request\<lparr>wr_authorization := Some ''Bearer k'', wr_json := Some (JObj note_json)\<rparr>"

definition note_payload :: ConnectorWebhookPayload where
  "note_payload = event_payload\<lparr>wp_metadata := [], wp_status := None\<rparr>"

lemma note_payload_read:
  assumes "config_get c ''schema_mapper'' = JNull"
  shows "read_payload E c note_request = Inr note_payload"
proof -
  have "normalize_connector_payload E c v None = Inr v" for v
    using assms by (simp add: normalize_connector_payload_def mapper_from_connector_def map_payload_def)
  moreover have "enum_of AgentAction_value agent_actions ''APPEND_AGENT_TASK_EVENT'' = Inr AgentAction.APPEND_AGENT_TASK_EVENT"
    by (simp add: enum_of_def agent_actions_def)
  ultimately show ?thesis
    by (simp add: read_payload_def note_request_def note_json_def validate_webhook_payload_def json_object_def
        with_default_def json_enum_def optional_text_def json_optional_def json_string_def sum_map_def
        note_payload_def event_payload_def)
qed

lemma simulation_predicts_webhook_witness:
  "\<exists>response. fst (connector_webhook sample_env ''c1'' note_request webhook_sys) = Inr response"
proof -
  obtain c1 s1 c2 s2 where c: "dict_get (agent_connectors webhook_sys) ''c1'' = Some bearer_connector"
    and a: "authenticate_connector sample_env note_request bearer_connector webhook_sys = (Inr c1, s1)"
    and b: "enforce_connector_rate_limit sample_env c1 s1 = (Inr c2, s2)"
    by (rule bearer_call_admitted [of note_request]) (simp add: note_request_def)
  have j: "wr_json note_request = Some (JObj note_json)" by (simp add: note_request_def)
  have m: "config_get bearer_connector ''schema_mapper'' = JNull"
    by (simp add: config_get_def hmac_connector_def bearer_connector_def)
  have p: "length (wp_metadata note_payload) \<le> MAX_WEBHOOK_METADATA_KEYS"
    by (simp add: note_payload_def)
  let ?t = "sample_task\<lparr>task_id := ''t2'', task_external_agent_id := Some ''c1''\<rparr>"
  have "normalize_connector_payload E bearer_connector v None = Inr v" for E v
    using m by (simp add: normalize_connector_payload_def mapper_from_connector_def map_payload_def)
  then have "sum_then (normalize_connector_payload sample_env bearer_connector (JObj note_json) None)
      validate_webhook_payload = Inr note_payload"
    using note_payload_read [OF m, of sample_env] j by (simp add: read_payload_def)
  moreover have "snd (snd (simulate_action bearer_connector note_payload webhook_sys)) = ([], True)"
  proof -
    have "scope_errors bearer_connector (task_project_id ?t) (task_repository ?t) = []"
      by (simp add: scope_errors_def bearer_connector_def hmac_connector_def)
    then show ?thesis
      by (simp add: simulate_action_def note_payload_def event_payload_def simulate_append_event_def webhook_sys_parts
          allowed_action_iff bearer_connector_def hmac_connector_def)
  qed
  ultimately show ?thesis
    using simulation_predicts_webhook [OF c j a b note_payload_read [OF m] p, of "[]"]
    by (auto simp: simulate_connector_webhook_def auth_warnings_def connector_secret_configured_def config_get_def
        bearer_connector_def hmac_connector_def split: prod.splits)
qed

section \<open>A revoked secret\<close>

text \<open>What an owner, a caller and the clock may do to the connectors.\<close>

datatype connector_op =
    OpCreate ConnectorCreate
  | OpUpdate string ConnectorUpdate
  | OpSwitch bool string
  | OpIssue string string
  | OpRotate string string
  | OpRevoke string
  | OpHealthy string
  | OpUnhealthy string string
  | OpMapper string ConnectorSchemaMapperConfig
  | OpWebhook string WebhookRequest
  | OpWait nat

definition connector_step :: "env \<Rightarrow> AuthUser \<Rightarrow> connector_op \<Rightarrow> sys \<Rightarrow> sys" where
  "connector_step E user op s =
     (case op of
        OpCreate p \<Rightarrow> snd (create_connector E p user s)
      | OpUpdate cid u \<Rightarrow> snd (update_connector E cid u user s)
      | OpSwitch b cid \<Rightarrow> snd (switch_connector E b cid user s)
      | OpIssue cid note \<Rightarrow> snd (issue_connector_secret_route E cid note user s)
      | OpRotate cid note \<Rightarrow> snd (rotate_connector_secret_route E cid note user s)
      | OpRevoke cid \<Rightarrow> snd (revoke_connector_secret_route E cid user s)
      | OpHealthy cid \<Rightarrow> snd (mark_connector_success E cid user s)
      | OpUnhealthy cid note \<Rightarrow> snd (mark_connector_failure E cid note user s)
      | OpMapper cid m \<Rightarrow> snd (update_connector_mapper E cid m user s)
      | OpWebhook cid r \<Rightarrow> snd (connector_webhook E cid r s)
      | OpWait n \<Rightarrow> s\<lparr>clock := clock s + int n\<rparr>)"

definition issues_secret :: "string \<Rightarrow> connector_op \<Rightarrow> bool" where
  "issues_secret cid op \<longleftrightarrow> (case op of OpIssue c _ \<Rightarrow> c = cid | OpRotate c _ \<Rightarrow> c = cid | _ \<Rightarrow> False)"

text \<open>Without a reference to a secret no caller is authenticated, whatever the configuration holds.\<close>

definition without_secret :: "string \<Rightarrow> sys \<Rightarrow> bool" where
  "without_secret cid s \<longleftrightarrow> keyed conn_id (agent_connectors s) \<and>
     (\<exists>c. dict_get (agent_connectors s) cid = Some c \<and> conn_secret_ref c = None)"

lemma keyed_conn: "keyed conn_id (agent_connectors s) \<Longrightarrow> dict_get (agent_connectors s) k = Some c \<Longrightarrow> conn_id c = k"
  by (simp add: keyed_get_iff)

lemma put_connectors: "agent_connectors (put_connector c s) = dict_set (conn_id c) c (agent_connectors s)"
  by (simp add: put_connector_def)

lemma without_secret_put:
  "without_secret cid s \<Longrightarrow> (conn_id c = cid \<Longrightarrow> conn_secret_ref c = None) \<Longrightarrow> without_secret cid (put_connector c s)"
  by (auto simp: without_secret_def put_connectors keyed_set)

lemma without_secret_same: "agent_connectors s' = agent_connectors s \<Longrightarrow> without_secret cid s' \<longleftrightarrow> without_secret cid s"
  by (simp add: without_secret_def)

lemma save_connectors:
  "agent_connectors (snd (save_connector E event details user c s)) = agent_connectors (put_connector c s)"
  by (simp add: save_connector_def ret_def)

lemma kept_fields [simp]:
  "conn_id (apply_connector_update u c) = conn_id c"
  "conn_secret_ref (apply_connector_update u c) = conn_secret_ref c"
  "conn_id (with_enabled b c) = conn_id c" "conn_secret_ref (with_enabled b c) = conn_secret_ref c"
  "conn_id (revoke_connector_secret t c) = conn_id c" "conn_secret_ref (revoke_connector_secret t c) = None"
  "conn_secret_ref (record_connector_auth_success t c) = conn_secret_ref c"
  "conn_secret_ref (record_connector_auth_failure reason t c) = conn_secret_ref c"
  "conn_id (mark_connector_health_check b reason t c) = conn_id c"
  "conn_secret_ref (mark_connector_health_check b reason t c) = conn_secret_ref c"
  by (simp_all add: apply_connector_update_def opt_update_def with_enabled_def revoke_connector_secret_def
      record_connector_auth_success_def record_connector_auth_failure_def mark_connector_health_check_def Let_def
      split: option.splits)

definition shut :: "string \<Rightarrow> AgentConnector \<Rightarrow> bool" where
  "shut cid c \<longleftrightarrow> (conn_id c = cid \<longrightarrow> conn_secret_ref c = None)"

lemma shut_grants: "same_grants c c' \<Longrightarrow> shut cid c' \<longleftrightarrow> shut cid c"
  by (simp add: same_grants_def shut_def)

lemma shut_stored:
  "without_secret cid s \<Longrightarrow> dict_get (agent_connectors s) k = Some c \<Longrightarrow> shut cid c"
  by (auto simp: without_secret_def shut_def keyed_conn)

lemma without_secret_persisted [simp]:
  "without_secret cid (persist s) \<longleftrightarrow> without_secret cid s"
  "without_secret cid (add_audit E event k details actor s) \<longleftrightarrow> without_secret cid s"
  by (simp_all add: without_secret_def)

lemma without_secret_shut: "without_secret cid s \<Longrightarrow> shut cid c \<Longrightarrow> without_secret cid (put_connector c s)"
  by (rule without_secret_put) (simp_all add: shut_def)

lemma shut_failure [simp]: "shut cid (record_connector_auth_failure reason t c) \<longleftrightarrow> shut cid c"
  by (simp add: shut_def)

lemma refuse_shut:
  "without_secret cid s \<Longrightarrow> shut cid c \<Longrightarrow> without_secret cid (snd (refuse_connector reason detail c s))"
  by (simp add: refuse_connector_def raise_def without_secret_shut)

lemma authenticate_shut:
  assumes "without_secret cid s" "shut cid c"
  shows "without_secret cid (snd (authenticate_connector E r c s))"
proof -
  have "authenticate_hmac_v1 E r h c now t = (x, d) \<Longrightarrow> shut cid d" for h now t x d
    using hmac_grants [of c E r h now t] assms(2) shut_grants by simp
  then show ?thesis
    using assms refuse_shut
    by (cases "fst (authenticate_connector E r c s)")
       (fastforce simp: authenticate_connector_def Let_def without_secret_shut ret_def raise_def shut_def
         split: prod.splits sum.splits if_splits)+
qed

lemma rate_limit_shut:
  assumes "without_secret cid s" "shut cid c"
  shows "without_secret cid (snd (enforce_connector_rate_limit E c s))"
proof -
  have "shut cid (set_rate_count n t d) \<longleftrightarrow> shut cid d" "shut cid (config_set k v d) \<longleftrightarrow> shut cid d" for n t d k v
    by (simp_all add: shut_def set_rate_count_def)
  then show ?thesis
    using assms
    by (auto simp: enforce_connector_rate_limit_def liftE_def Let_def without_secret_shut raise_def ret_def
        split: sum.splits)
qed

lemma perform_connectors: "agent_connectors (snd (perform_webhook_action E c p s)) = agent_connectors s"
  by (auto simp: perform_webhook_action_def create_task_from_connector_def append_task_event_from_connector_def
      liftE_def set_task_status_def Let_def ret_def raise_def split: sum.splits option.splits prod.splits)

lemma process_shut:
  assumes "without_secret cid s" "shut cid c"
  shows "without_secret cid (snd (process_webhook E r c s))"
proof -
  have refuse: "without_secret cid t \<Longrightarrow> without_secret cid (snd (refuse_webhook E reason details c e t))"
    for reason details e t
    using assms(2) by (simp add: refuse_webhook_def raise_def without_secret_shut)
  have p: "perform_webhook_action E c p s = (x, t) \<Longrightarrow> without_secret cid t" for p x t
    using assms(1) without_secret_same [OF perform_connectors, of cid E c p s] by simp
  show ?thesis
    using assms(1) refuse p
    by (auto simp: process_webhook_def ret_def split: sum.splits prod.splits)
qed

lemma webhook_shut:
  assumes "without_secret cid s"
  shows "without_secret cid (snd (connector_webhook E k r s))"
proof (cases "dict_get (agent_connectors s) k")
  case (Some c)
  then have c: "shut cid c" using assms by (rule shut_stored [rotated])
  have a: "without_secret cid (snd (authenticate_connector E r c s))" using assms c by (rule authenticate_shut)
  show ?thesis
  proof (cases "authenticate_connector E r c s")
    case (Pair x s1)
    show ?thesis
    proof (cases x)
      case (Inr c1)
      with Pair have c1: "shut cid c1" "without_secret cid s1"
        using authenticate_returns [of E r c s c1 s1] c a shut_grants by auto
      then have b: "without_secret cid (snd (enforce_connector_rate_limit E c1 s1))" by (simp add: rate_limit_shut)
      obtain y s2 where y: "enforce_connector_rate_limit E c1 s1 = (y, s2)" by fastforce
      have "y = Inr c2 \<Longrightarrow> shut cid c2" for c2
        using rate_limit_returns [of E c1 s1 c2 s2] y c1(1) shut_grants by auto
      with b y Some Pair Inr show ?thesis
        by (cases y) (simp_all add: connector_webhook_def handle_connector_webhook_def process_shut)
    qed (use Some Pair a in \<open>simp add: connector_webhook_def handle_connector_webhook_def\<close>)
  qed
qed (simp add: connector_webhook_def raise_def assms)

text \<open>The routes that save a changed connector: it is enough that the change leaves it shut.\<close>

lemma save_shut:
  "without_secret cid s \<Longrightarrow> shut cid c \<Longrightarrow> without_secret cid (snd (save_connector E event details user c s))"
  using without_secret_same [OF save_connectors, of cid E event details user c s] by (simp add: without_secret_shut)

lemma with_connector_shut:
  assumes "without_secret cid s"
    "\<And>c. conn_id c = k \<Longrightarrow> shut cid c \<Longrightarrow> without_secret cid (snd (f c s))"
  shows "without_secret cid (snd (bindE (connector_or_404 k s) f))"
  using assms(1) assms(2) shut_stored [OF assms(1), of k] keyed_conn [of s k]
  by (auto simp: connector_or_404_def without_secret_def raise_def ret_def split: option.splits)

lemma snd_bind_ret [simp]: "snd (bindE x (\<lambda>a. ret (f a))) = snd x"
  by (auto simp: bindE_def ret_def split: prod.splits sum.splits)

lemmas shut_fields =
  shut_def switch_connector_def revoke_connector_secret_route_def mark_connector_success_def mark_connector_failure_def Let_def

lemma new_secret_shut:
  assumes "without_secret cid s" "k \<noteq> cid"
  shows "without_secret cid (snd (new_secret_route E event k remark user s))"
  unfolding new_secret_route_def
proof (rule with_connector_shut [OF assms(1)])
  fix c :: AgentConnector assume "conn_id c = k"
  obtain secret ref hint d t where i: "issue_connector_secret E c s = (((secret, ref, hint), d), t)"
    by (metis surj_pair)
  then have "shut cid d" "without_secret cid t"
    using \<open>conn_id c = k\<close> assms by (auto simp: issue_connector_secret_def shut_def without_secret_def Let_def)
  then show "without_secret cid (snd (let (((secret, ref, hint), c), s) = issue_connector_secret E c s
      in bindE (save_connector E event
            [(''secret_ref'', JStr ref), (''secret_hint'', JStr hint), (''note'', JStr remark)] user c s)
          (\<lambda>public s. ret \<lparr>csr_connector = public, csr_secret = secret, csr_secret_hint = hint\<rparr> s)))"
    using i by (simp add: save_shut)
qed

lemma step_shut:
  assumes "without_secret cid s" "\<not> issues_secret cid op"
  shows "without_secret cid (connector_step E user op s)"
proof (cases op)
  case (OpCreate p)
  have "shut cid (created_connector E p user s)" by (simp add: shut_def created_connector_def)
  with OpCreate assms(1) save_shut [of cid "drawn s"] show ?thesis
    by (simp add: connector_step_def create_connector_def liftE_def raise_def Let_def without_secret_def split: sum.splits)
next
  case (OpUpdate k u)
  with assms(1) show ?thesis
    by (auto simp: connector_step_def update_connector_def liftE_def raise_def Let_def shut_def
        intro!: with_connector_shut save_shut split: sum.splits)
next
  case (OpMapper k m)
  have "without_secret cid (snd (update_connector_mapper E k m user s))"
    unfolding update_connector_mapper_def
  proof (rule with_connector_shut [OF assms(1)])
    fix c :: AgentConnector assume c: "conn_id c = k" "shut cid c"
    then have "shut cid (config_set ''schema_mapper'' j c)" for j by (simp add: shut_def)
    then show "without_secret cid (snd (let (status, c) = set_connector_schema_mapper c m; s = put_connector c s
       in liftE (mapper_result status) (\<lambda>status s.
            bindE (save_connector E ''connector.schema_mapper_updated''
              [(''mapper_enabled'', JBool (sms_mapper_enabled status)),
               (''mapped_fields'', json_strs (map fst (sm_field_paths m)))] user (c\<lparr>conn_updated_at := clock s\<rparr>) s)
            (\<lambda>_ s. ret status s)) s))"
      using assms(1)
      by (auto simp: set_connector_schema_mapper_def liftE_def raise_def Let_def bindE_def ret_def save_connector_def
          without_secret_shut shut_def split: sum.splits)
  qed
  with OpMapper show ?thesis by (simp add: connector_step_def)
next
  case (OpWait n)
  with assms(1) show ?thesis by (simp add: connector_step_def without_secret_def)
next
  case (OpWebhook k r)
  with assms(1) show ?thesis by (simp add: connector_step_def webhook_shut)
qed (use assms in
  \<open>auto simp: connector_step_def shut_fields issue_connector_secret_route_def rotate_connector_secret_route_def
     issues_secret_def intro!: with_connector_shut save_shut new_secret_shut\<close>)

lemma shut_refuses:
  assumes "without_secret cid s" "connector_webhook E cid r s = (x, s')"
  shows "(\<exists>detail. x = Inl (HTTPException 401 detail)) \<and> agent_tasks s' = agent_tasks s \<and>
    agent_task_events s' = agent_task_events s"
proof -
  obtain c where c: "dict_get (agent_connectors s) cid = Some c" "conn_secret_ref c = None"
    using assms(1) by (auto simp: without_secret_def)
  then have "\<not> secret_configured c" by (simp add: secret_configured_def)
  with c assms(2) show ?thesis
    by (auto simp: connector_webhook_def handle_connector_webhook_def authenticate_connector_def refuse_connector_def
        unauthorized_def raise_def split: if_splits)
qed

text \<open>
  A revoked secret keeps every caller out. After the owner revokes the secret of a connector,
  whatever the owner, the callers and the clock do to any connector (changes of the configuration
  included), every webhook call of it is answered 401 and neither a task nor an event is written, until
  the owner issues or rotates the secret of that connector.
\<close>

theorem revoked_connector_is_shut:
  assumes "keyed conn_id (agent_connectors s)" "revoke_connector_secret_route E cid user s = (Inr view, s0)"
    "\<forall>op \<in> set ops. \<not> issues_secret cid op" "s1 = fold (connector_step E user) ops s0"
    "connector_webhook E cid r s1 = (x, s2)"
  shows "(\<exists>detail. x = Inl (HTTPException 401 detail)) \<and> agent_tasks s2 = agent_tasks s1 \<and>
    agent_task_events s2 = agent_task_events s1"
proof -
  have "conn_id c = cid \<Longrightarrow> keyed conn_id (dict_set cid (revoke_connector_secret t c) (agent_connectors s))" for c t
    using keyed_set [OF assms(1), of "revoke_connector_secret t c"] by simp
  then have "without_secret cid s0"
    using assms(1,2) keyed_conn [OF assms(1), of cid]
    by (auto simp: revoke_connector_secret_route_def connector_or_404_def raise_def ret_def save_connector_def
        without_secret_def put_connectors keyed_set split: option.splits)
  with assms(3) have "without_secret cid (fold (connector_step E user) ops s0)"
    by (induction ops arbitrary: s0) (simp_all add: step_shut)
  with assms(4,5) show ?thesis using shut_refuses by blast
qed

definition sample_owner :: AuthUser where
  "sample_owner = \<lparr>user_id = ''u1'', user_email = ''o@x'', user_display_name = ''Owner'', user_role = UserRole.OWNER,
     user_email_verified = True\<rparr>"

definition restoring_update :: ConnectorUpdate where
  "restoring_update =
     \<lparr>cu_name = None, cu_type = None, cu_provider_label = None, cu_endpoint_url = None, cu_callback_url = None,
      cu_auth_type = None, cu_allowed_project_ids = None, cu_allowed_repositories = None, cu_allowed_actions = None,
      cu_rate_limit_per_minute = None, cu_enabled = Some (Some True),
      cu_config = Some (Some [(''secret_hash'', JStr ''k'')])\<rparr>"

text \<open>Writing the hash of the secret back into the configuration does not let the caller in again.\<close>

lemma revoked_connector_is_shut_witness:
  "let s0 = snd (revoke_connector_secret_route sample_env ''c1'' sample_owner webhook_sys);
       s1 = connector_step sample_env sample_owner (OpUpdate ''c1'' restoring_update) s0
   in (\<exists>detail. fst (connector_webhook sample_env ''c1'' note_request s1) = Inl (HTTPException 401 detail))"
proof -
  have k: "keyed conn_id (agent_connectors webhook_sys)"
    by (simp add: webhook_sys_parts keyed_Cons bearer_connector_def hmac_connector_def)
  obtain view s0 where r: "revoke_connector_secret_route sample_env ''c1'' sample_owner webhook_sys = (Inr view, s0)"
    by (simp add: revoke_connector_secret_route_def connector_or_404_def webhook_sys_parts save_connector_def ret_def)
  let ?ops = "[OpUpdate ''c1'' restoring_update]"
  have ops: "\<forall>op \<in> set ?ops. \<not> issues_secret ''c1'' op" by (simp add: issues_secret_def)
  show ?thesis
    using revoked_connector_is_shut [OF k r ops refl surjective_pairing, of note_request] r by (simp add: Let_def)
qed

end
