(* ===== verification/ConnectorTemplates.thy ===== *)
theory ConnectorTemplates
  imports ConnectorRoutes Samples
begin

text \<open>
  \<open>connector_templates.py\<close>: for each kind of agent the fields of a connector to create, a schema mapper and
  a sample of what the agent sends, and the two routes of \<open>connector_routes.py\<close> that hand them out.
\<close>

section \<open>The templates\<close>

record ConnectorTemplate =
  tp_id :: string
  tp_display_name :: string
  tp_description :: string
  tp_provider_label :: ConnectorProviderLabel
  tp_connector_type :: ConnectorType
  tp_auth_type :: ConnectorAuthType
  tp_connector_defaults :: jdict
  tp_mapper :: ConnectorSchemaMapperConfig
  tp_sample_payload :: jdict
  tp_setup_notes :: "string list"
  tp_tags :: "string list"

definition base_defaults ::
    "string \<Rightarrow> ConnectorType \<Rightarrow> ConnectorProviderLabel \<Rightarrow> ConnectorAuthType \<Rightarrow> string \<Rightarrow> AgentAction list option \<Rightarrow> jdict" where
  "base_defaults name connector_type provider_label auth_type profile actions =
     [(''name'', JStr name), (''connector_type'', JStr (ConnectorType_value connector_type)),
      (''provider_label'', JStr (ConnectorProviderLabel_value provider_label)),
      (''auth_type'', JStr (ConnectorAuthType_value auth_type)),
      (''allowed_actions'', json_strs (map AgentAction_value
         (case actions of
            Some (a # as) \<Rightarrow> a # as
          | _ \<Rightarrow> [AgentAction.CREATE_AGENT_TASK, AgentAction.APPEND_AGENT_TASK_EVENT, AgentAction.READ_AGENT_TASK]))),
      (''rate_limit_per_minute'', JInt 60), (''enabled'', JBool True),
      (''config'', JObj [(''profile'', JStr profile), (''mode'', JStr ''approval-gated'')])]"

definition chatgpt_actions_bridge :: ConnectorTemplate where
  "chatgpt_actions_bridge =
     \<lparr>tp_id = ''chatgpt-actions-bridge'', tp_display_name = ''ChatGPT Actions Bridge'',
      tp_description = ''ChatGPT Custom GPT action connector that creates approval-gated AgentTasks.'',
      tp_provider_label = ConnectorProviderLabel.CHATGPT, tp_connector_type = ConnectorType.GPT_ACTIONS,
      tp_auth_type = ConnectorAuthType.BEARER,
      tp_connector_defaults =
        base_defaults ''ChatGPT Actions Bridge'' ConnectorType.GPT_ACTIONS
          ConnectorProviderLabel.CHATGPT ConnectorAuthType.BEARER ''chatgpt-actions'' None,
      tp_mapper =
        \<lparr>sm_enabled = True, sm_default_action = AgentAction.CREATE_AGENT_TASK,
         sm_field_paths =
           [(''title'', ''task.title''), (''goal'', ''task.goal''), (''context'', ''task.context''),
           (''repository'', ''target.repository''), (''branch_preference'', ''target.branch''),
           (''metadata'', ''metadata'')],
         sm_defaults = [(''requested_action'', JStr ''GENERATE_DOCS''), (''requires_approval'', JBool True)]\<rparr>,
      tp_sample_payload =
        [(''task'', JObj [(''title'', JStr ''Review ChatGPT proposed change''),
        (''goal'', JStr ''Create an approval-gated implementation task''),
        (''context'', JStr ''Custom GPT action request'')]),
        (''target'', JObj [(''repository'', JStr ''owner/repo''), (''branch'', JStr ''feature/chatgpt-task'')]),
        (''metadata'', JObj [(''source'', JStr ''chatgpt''), (''channel'', JStr ''custom-gpt-actions'')])],
      tp_setup_notes =
        [(''Use this with the repo'' @ [CHR 0x27] @ ''s GPT Actions OpenAPI contract.''),
         ''Configure bearer auth and a public HTTPS backend before real ChatGPT callbacks.'',
         ''ChatGPT creates tasks only; mobile approval remains the decision authority.''],
      tp_tags = [''chatgpt'', ''gpt-actions'', ''approval-gated'']\<rparr>"

definition codex_agent_bridge :: ConnectorTemplate where
  "codex_agent_bridge =
     \<lparr>tp_id = ''codex-agent-bridge'', tp_display_name = ''Codex Agent Bridge'',
      tp_description = ''Codex-style coding agent connector for branch, patch, validation, and PR task requests.'',
      tp_provider_label = ConnectorProviderLabel.CODEX, tp_connector_type = ConnectorType.WEBHOOK,
      tp_auth_type = ConnectorAuthType.BEARER,
      tp_connector_defaults =
        base_defaults ''Codex Agent Bridge'' ConnectorType.WEBHOOK
          ConnectorProviderLabel.CODEX ConnectorAuthType.BEARER ''codex-agent'' None,
      tp_mapper =
        \<lparr>sm_enabled = True, sm_default_action = AgentAction.CREATE_AGENT_TASK,
         sm_field_paths =
           [(''title'', ''job.title''), (''goal'', ''job.goal''), (''context'', ''job.context''),
           (''repository'', ''git.repository''), (''branch_preference'', ''git.branch''),
           (''metadata'', ''job.metadata'')],
         sm_defaults = [(''requested_action'', JStr ''GENERATE_DOCS''), (''requires_approval'', JBool True)]\<rparr>,
      tp_sample_payload =
        [(''job'', JObj [(''title'', JStr ''Prepare safe patch''),
        (''goal'', JStr ''Draft a code change and evidence plan''), (''context'', JStr ''Codex agent request''),
        (''metadata'', JObj [(''source'', JStr ''codex''), (''risk'', JStr ''medium'')])]),
        (''git'', JObj [(''repository'', JStr ''owner/repo''), (''branch'', JStr ''feature/codex-task'')])],
      tp_setup_notes =
        [''Use this for Codex-style coding agent task callbacks.'',
         ''Keep repositories scoped before enabling live callbacks.'',
         ''Do not let Codex approve its own work; route decisions through mobile approval.''],
      tp_tags = [''codex'', ''coding-agent'', ''approval-gated'']\<rparr>"

definition openclaw_local_bridge :: ConnectorTemplate where
  "openclaw_local_bridge =
     \<lparr>tp_id = ''openclaw-local-bridge'', tp_display_name = ''OpenClaw Local Bridge'',
      tp_description = ''Local OpenClaw-style agent bridge that creates approval-gated AgentTasks.'',
      tp_provider_label = ConnectorProviderLabel.OPENCLAW, tp_connector_type = ConnectorType.LOCAL_BRIDGE,
      tp_auth_type = ConnectorAuthType.HMAC,
      tp_connector_defaults =
        base_defaults ''OpenClaw Local Bridge'' ConnectorType.LOCAL_BRIDGE
          ConnectorProviderLabel.OPENCLAW ConnectorAuthType.HMAC ''openclaw'' None,
      tp_mapper =
        \<lparr>sm_enabled = True, sm_default_action = AgentAction.CREATE_AGENT_TASK,
         sm_field_paths =
           [(''title'', ''task.title''), (''goal'', ''task.goal''), (''context'', ''task.context''),
           (''repository'', ''repo.full_name''), (''branch_preference'', ''repo.branch''),
           (''metadata'', ''metadata'')],
         sm_defaults = [(''requested_action'', JStr ''GENERATE_DOCS''), (''requires_approval'', JBool True)]\<rparr>,
      tp_sample_payload =
        [(''task'', JObj [(''title'', JStr ''Review generated code''),
        (''goal'', JStr ''Prepare a safe implementation plan''), (''context'', JStr ''OpenClaw local run'')]),
        (''repo'', JObj [(''full_name'', JStr ''owner/repo''), (''branch'', JStr ''feature/openclaw-task'')]),
        (''metadata'', JObj [(''source'', JStr ''openclaw'')])],
      tp_setup_notes =
        [''Use HMAC auth for local bridge calls.'',
         ''Keep mutating actions approval-gated.'',
         ''Expose the webhook only through a trusted tunnel or private network until public callback hardening is complete.''],
      tp_tags = [''openclaw'', ''local'', ''bridge'']\<rparr>"

definition antigravity_workspace_bridge :: ConnectorTemplate where
  "antigravity_workspace_bridge =
     \<lparr>tp_id = ''antigravity-workspace-bridge'', tp_display_name = ''Antigravity Workspace Bridge'',
      tp_description = ''Agent-workspace connector for IDE-style planning and artifact handoff.'',
      tp_provider_label = ConnectorProviderLabel.ANTIGRAVITY, tp_connector_type = ConnectorType.WEBHOOK,
      tp_auth_type = ConnectorAuthType.BEARER,
      tp_connector_defaults =
        base_defaults ''Antigravity Workspace Bridge'' ConnectorType.WEBHOOK
          ConnectorProviderLabel.ANTIGRAVITY ConnectorAuthType.BEARER ''antigravity'' None,
      tp_mapper =
        \<lparr>sm_enabled = True, sm_default_action = AgentAction.CREATE_AGENT_TASK,
         sm_field_paths =
           [(''title'', ''workspace.task.title''), (''goal'', ''workspace.task.objective''),
           (''context'', ''workspace.summary''), (''repository'', ''workspace.repository''),
           (''branch_preference'', ''workspace.branch''), (''metadata'', ''artifacts'')],
         sm_defaults = [(''requested_action'', JStr ''GENERATE_DOCS''), (''requires_approval'', JBool True)]\<rparr>,
      tp_sample_payload =
        [(''workspace'', JObj [(''task'', JObj [(''title'', JStr ''Refactor approval screen''),
        (''objective'', JStr ''Prepare implementation plan and evidence'')]),
        (''summary'', JStr ''IDE agent produced planning artifacts.''), (''repository'', JStr ''owner/repo''),
        (''branch'', JStr ''feature/approval-refactor'')]),
        (''artifacts'', JObj [(''plan_url'', JStr ''https://example.com/artifact'')])],
      tp_setup_notes =
        [''Use bearer auth for workspace bridge callbacks.'',
         ''Map artifacts into metadata until artifact storage is implemented.'',
         ''Use schema preview before enabling live webhook traffic.''],
      tp_tags = [''antigravity'', ''ide'', ''workspace'']\<rparr>"

definition gemini_custom_agent :: ConnectorTemplate where
  "gemini_custom_agent =
     \<lparr>tp_id = ''gemini-custom-agent'', tp_display_name = ''Gemini Custom Agent'',
      tp_description = ''Generic Gemini-based agent webhook template for task creation.'',
      tp_provider_label = ConnectorProviderLabel.GEMINI, tp_connector_type = ConnectorType.GENERIC_HTTP,
      tp_auth_type = ConnectorAuthType.BEARER,
      tp_connector_defaults =
        base_defaults ''Gemini Custom Agent'' ConnectorType.GENERIC_HTTP
          ConnectorProviderLabel.GEMINI ConnectorAuthType.BEARER ''gemini-custom'' None,
      tp_mapper =
        \<lparr>sm_enabled = True, sm_default_action = AgentAction.CREATE_AGENT_TASK,
         sm_field_paths =
           [(''title'', ''request.title''), (''goal'', ''request.goal''), (''context'', ''request.context''),
           (''repository'', ''target.repository''), (''metadata'', ''request.metadata'')],
         sm_defaults = [(''requested_action'', JStr ''GENERATE_DOCS''), (''requires_approval'', JBool True)]\<rparr>,
      tp_sample_payload =
        [(''request'', JObj [(''title'', JStr ''Generate test plan''), (''goal'', JStr ''Prepare QA evidence''),
        (''context'', JStr ''Gemini agent request''), (''metadata'', JObj [(''model'', JStr ''gemini'')])]),
        (''target'', JObj [(''repository'', JStr ''owner/repo'')])],
      tp_setup_notes =
        [''Use this for Gemini-backed custom tools that can send HTTP callbacks.'',
         ''Keep project and repository scopes narrow.''],
      tp_tags = [''gemini'', ''custom'', ''http'']\<rparr>"

definition claude_cursor_agent :: ConnectorTemplate where
  "claude_cursor_agent =
     \<lparr>tp_id = ''claude-cursor-agent'', tp_display_name = ''Claude or Cursor Agent'',
      tp_description = ''Claude/Cursor-style coding assistant connector template.'',
      tp_provider_label = ConnectorProviderLabel.CLAUDE, tp_connector_type = ConnectorType.WEBHOOK,
      tp_auth_type = ConnectorAuthType.BEARER,
      tp_connector_defaults =
        base_defaults ''Claude or Cursor Agent'' ConnectorType.WEBHOOK
          ConnectorProviderLabel.CLAUDE ConnectorAuthType.BEARER ''claude-cursor'' None,
      tp_mapper =
        \<lparr>sm_enabled = True, sm_default_action = AgentAction.CREATE_AGENT_TASK,
         sm_field_paths =
           [(''title'', ''job.name''), (''goal'', ''job.instructions''), (''context'', ''job.context''),
           (''repository'', ''git.repo''), (''branch_preference'', ''git.branch''),
           (''metadata'', ''job.artifacts'')],
         sm_defaults = [(''requested_action'', JStr ''GENERATE_DOCS''), (''requires_approval'', JBool True)]\<rparr>,
      tp_sample_payload =
        [(''job'', JObj [(''name'', JStr ''Patch failing test''),
        (''instructions'', JStr ''Find cause and propose fix''), (''context'', JStr ''Coding assistant''),
        (''artifacts'', JObj [(''trace'', JStr ''summary'')])]),
        (''git'', JObj [(''repo'', JStr ''owner/repo''), (''branch'', JStr ''feature/fix-test'')])],
      tp_setup_notes =
        [''Use this as a base for Claude, Cursor, or similar coding-agent callbacks.'',
         ''Change provider label later if a dedicated Cursor profile is needed.''],
      tp_tags = [''claude'', ''cursor'', ''coding-agent'']\<rparr>"

definition local_agent_bridge :: ConnectorTemplate where
  "local_agent_bridge =
     \<lparr>tp_id = ''local-agent-bridge'', tp_display_name = ''Local Agent Bridge'',
      tp_description = ''Generic local process bridge for homegrown agents and scripts.'',
      tp_provider_label = ConnectorProviderLabel.CUSTOM, tp_connector_type = ConnectorType.LOCAL_BRIDGE,
      tp_auth_type = ConnectorAuthType.HMAC,
      tp_connector_defaults =
        base_defaults ''Local Agent Bridge'' ConnectorType.LOCAL_BRIDGE
          ConnectorProviderLabel.CUSTOM ConnectorAuthType.HMAC ''local-bridge'' None,
      tp_mapper =
        \<lparr>sm_enabled = True, sm_default_action = AgentAction.CREATE_AGENT_TASK,
         sm_field_paths =
           [(''title'', ''title''), (''goal'', ''goal''), (''context'', ''context''),
           (''repository'', ''repository''), (''metadata'', ''metadata'')],
         sm_defaults = [(''requested_action'', JStr ''GENERATE_DOCS''), (''requires_approval'', JBool True)]\<rparr>,
      tp_sample_payload =
        [(''title'', JStr ''Local agent task''), (''goal'', JStr ''Submit task from local script''),
        (''context'', JStr ''Local bridge payload''), (''repository'', JStr ''owner/repo''),
        (''metadata'', JObj [(''source'', JStr ''local'')])],
      tp_setup_notes =
        [''Best for scripts running on your own machine.'',
         ''Use HMAC and keep callback surface private.''],
      tp_tags = [''local'', ''custom'', ''bridge'']\<rparr>"

definition connector_templates :: "ConnectorTemplate list" where
  "connector_templates =
     [chatgpt_actions_bridge, codex_agent_bridge, openclaw_local_bridge, antigravity_workspace_bridge,
      gemini_custom_agent, claude_cursor_agent, local_agent_bridge]"

definition get_connector_template :: "string \<Rightarrow> pyerror + ConnectorTemplate" where
  "get_connector_template template_id =
     (case find (\<lambda>t. tp_id t = template_id) connector_templates of
        None \<Rightarrow> Inl (HTTPException 404 ''Connector template not found'')
      | Some t \<Rightarrow> Inr t)"

definition list_connector_templates :: "sys \<Rightarrow> ConnectorTemplate list" where
  "list_connector_templates s = connector_templates"

definition get_connector_template_route :: "string \<Rightarrow> sys \<Rightarrow> ConnectorTemplate result" where
  "get_connector_template_route template_id s = (get_connector_template template_id, s)"

section \<open>A template at work\<close>

text \<open>
  A connector made from a template has the fields of \<open>connector_defaults\<close>; its identifier, its scopes, its
  URLs and what the backend adds are its own.
\<close>

definition made_from :: "ConnectorTemplate \<Rightarrow> AgentConnector \<Rightarrow> bool" where
  "made_from t c \<longleftrightarrow>
     dict_get (tp_connector_defaults t) ''name'' = Some (JStr (conn_name c)) \<and>
     dict_get (tp_connector_defaults t) ''connector_type'' = Some (JStr (ConnectorType_value (conn_type c))) \<and>
     dict_get (tp_connector_defaults t) ''provider_label'' =
       Some (JStr (ConnectorProviderLabel_value (conn_provider_label c))) \<and>
     dict_get (tp_connector_defaults t) ''auth_type'' = Some (JStr (ConnectorAuthType_value (conn_auth_type c))) \<and>
     dict_get (tp_connector_defaults t) ''allowed_actions'' =
       Some (json_strs (map AgentAction_value (conn_allowed_actions c)))"

text \<open>The mapper with the project filled in, as an operator has to before going live.\<close>

definition for_project :: "string \<Rightarrow> ConnectorSchemaMapperConfig \<Rightarrow> ConnectorSchemaMapperConfig" where
  "for_project pid m = m\<lparr>sm_defaults := dict_set ''project_id'' (JStr pid) (sm_defaults m)\<rparr>"

text \<open>What the sample of a template becomes under its mapper.\<close>

definition sample_of :: "env \<Rightarrow> ConnectorSchemaMapperConfig \<Rightarrow> ConnectorTemplate \<Rightarrow> string + ConnectorWebhookPayload" where
  "sample_of E m t = sum_then (map_payload E (Some m) (JObj (tp_sample_payload t))) validate_webhook_payload"

definition creates_task_of :: "string \<Rightarrow> ConnectorTemplate \<Rightarrow> ConnectorWebhookPayload \<Rightarrow> bool" where
  "creates_task_of repository t p \<longleftrightarrow>
     wp_action p = AgentAction.CREATE_AGENT_TASK \<and> truthy (wp_title p) \<and> truthy (wp_goal p) \<and>
     wp_requested_action p = AgentTaskRequestedAction.GENERATE_DOCS \<and> wp_requires_approval p \<and>
     wp_repository p = Some repository \<and> length (wp_metadata p) \<le> 3"

lemmas template_defs = chatgpt_actions_bridge_def codex_agent_bridge_def openclaw_local_bridge_def
  antigravity_workspace_bridge_def gemini_custom_agent_def claude_cursor_agent_def local_agent_bridge_def

definition accepted_mapper :: "ConnectorSchemaMapperConfig \<Rightarrow> bool" where
  "accepted_mapper m \<longleftrightarrow> (case make_mapper m of Inl _ \<Rightarrow> False | Inr m' \<Rightarrow> m' = m)"

definition delivers :: "env \<Rightarrow> string \<Rightarrow> ConnectorTemplate \<Rightarrow> bool" where
  "delivers E pid t \<longleftrightarrow>
     accepted_mapper (tp_mapper t) \<and> accepted_mapper (for_project pid (tp_mapper t)) \<and>
     (case sample_of E (tp_mapper t) t of
        Inl _ \<Rightarrow> False
      | Inr p \<Rightarrow> creates_task_of ''owner/repo'' t p \<and> wp_project_id p = None) \<and>
     (case sample_of E (for_project pid (tp_mapper t)) t of
        Inl _ \<Rightarrow> False
      | Inr p \<Rightarrow> creates_task_of ''owner/repo'' t p \<and> wp_project_id p = Some pid)"

text \<open>Each sample is evaluated under its mapper.\<close>

lemma chatgpt_actions_bridge_delivers: "delivers E pid chatgpt_actions_bridge"
  by code_simp

lemma codex_agent_bridge_delivers: "delivers E pid codex_agent_bridge"
  by code_simp

lemma openclaw_local_bridge_delivers: "delivers E pid openclaw_local_bridge"
  by code_simp

lemma antigravity_workspace_bridge_delivers: "delivers E pid antigravity_workspace_bridge"
  by code_simp

lemma gemini_custom_agent_delivers: "delivers E pid gemini_custom_agent"
  by code_simp

lemma claude_cursor_agent_delivers: "delivers E pid claude_cursor_agent"
  by code_simp

lemma local_agent_bridge_delivers: "delivers E pid local_agent_bridge"
  by code_simp

lemma templates_deliver_samples: "t \<in> set connector_templates \<Longrightarrow> delivers E pid t"
  unfolding connector_templates_def
  by (auto simp: chatgpt_actions_bridge_delivers codex_agent_bridge_delivers openclaw_local_bridge_delivers
      antigravity_workspace_bridge_delivers gemini_custom_agent_delivers claude_cursor_agent_delivers
      local_agent_bridge_delivers)

text \<open>A connector with the actions of a template may create tasks.\<close>

lemma json_strs_inject: "json_strs xs = json_strs ys \<longleftrightarrow> xs = ys"
  by (auto simp: json_strs_def inj_map_eq_map inj_def)

lemma made_from_may_create:
  assumes "t \<in> set connector_templates" "made_from t c"
  shows "AgentAction.CREATE_AGENT_TASK \<in> set (conn_allowed_actions c)"
proof -
  have "dict_get (tp_connector_defaults t) ''allowed_actions'' = Some (json_strs (map AgentAction_value
      [AgentAction.CREATE_AGENT_TASK, AgentAction.APPEND_AGENT_TASK_EVENT, AgentAction.READ_AGENT_TASK]))"
    using assms(1) by (auto simp: connector_templates_def template_defs base_defaults_def)
  with assms(2) have "map AgentAction_value (conn_allowed_actions c) = map AgentAction_value
      [AgentAction.CREATE_AGENT_TASK, AgentAction.APPEND_AGENT_TASK_EVENT, AgentAction.READ_AGENT_TASK]"
    by (simp add: made_from_def json_strs_inject)
  then have "''CREATE_AGENT_TASK'' \<in> set (map AgentAction_value (conn_allowed_actions c))" by simp
  then obtain a where a: "a \<in> set (conn_allowed_actions c)" "AgentAction_value a = ''CREATE_AGENT_TASK''" by auto
  from a(2) have "a = AgentAction.CREATE_AGENT_TASK" by (cases a) simp_all
  with a(1) show ?thesis by simp
qed

text \<open>
  Every template works once a project is filled in, and not before. For a connector made from a template,
  with scopes that admit the project and the repository of the sample, the sample payload that comes with
  the template is mapped by its mapper to a valid request for an approval-gated task. As the template stands
  the webhook refuses it, because no project is given; with the project as a default of the mapper it
  creates the task.
\<close>

theorem templates_need_a_project:
  assumes "t \<in> set connector_templates" "made_from t c" "pid \<noteq> []" "dict_get (projects s) pid \<noteq> None"
    "conn_allowed_project_ids c = [] \<or> pid \<in> set (conn_allowed_project_ids c)"
    "conn_allowed_repositories c = [] \<or> ''owner/repo'' \<in> set (conn_allowed_repositories c)"
  shows "accepted_mapper (tp_mapper t) \<and> accepted_mapper (for_project pid (tp_mapper t)) \<and>
    (\<exists>p. sample_of E (tp_mapper t) t = Inr p \<and>
      perform_webhook_action E c p s = (Inl (HTTPException 400 ''project_id is required for CREATE_AGENT_TASK''), s)) \<and>
    (\<exists>p r s'. sample_of E (for_project pid (tp_mapper t)) t = Inr p \<and> creates_task_of ''owner/repo'' t p \<and>
      perform_webhook_action E c p s = (Inr r, s'))"
proof -
  have a: "assert_connector_action c AgentAction.CREATE_AGENT_TASK = Inr ()"
    using made_from_may_create [OF assms(1,2)] by (simp add: assert_connector_action_def)
  obtain p where p: "sample_of E (tp_mapper t) t = Inr p" "creates_task_of ''owner/repo'' t p" "wp_project_id p = None"
    using templates_deliver_samples [OF assms(1), of E pid] by (auto simp: delivers_def split: sum.splits)
  obtain q where q: "sample_of E (for_project pid (tp_mapper t)) t = Inr q" "creates_task_of ''owner/repo'' t q"
      "wp_project_id q = Some pid"
    using templates_deliver_samples [OF assms(1), of E pid] by (auto simp: delivers_def split: sum.splits)
  have "perform_webhook_action E c p s = (Inl (HTTPException 400 ''project_id is required for CREATE_AGENT_TASK''), s)"
    using p(2,3) a by (simp add: perform_webhook_action_def creates_task_of_def create_task_from_connector_def liftE_def raise_def)
  moreover have "assert_connector_scope c (wp_project_id q) (wp_repository q) = Inr ()"
    using q(2,3) assms(5,6) by (auto simp: assert_connector_scope_def out_of_scope_def creates_task_of_def)
  then have "\<exists>r s'. perform_webhook_action E c q s = (Inr r, s')"
    using q(2,3) a assms(3,4)
    by (auto simp: perform_webhook_action_def creates_task_of_def create_task_from_connector_def liftE_def
        safe_metadata_def MAX_WEBHOOK_METADATA_KEYS_def Let_def ret_def)
  moreover have "accepted_mapper (tp_mapper t) \<and> accepted_mapper (for_project pid (tp_mapper t))"
    using templates_deliver_samples [OF assms(1), of E pid] by (simp add: delivers_def)
  ultimately show ?thesis using p(1) q(1,2) by blast
qed

definition local_connector :: AgentConnector where
  "local_connector =
     \<lparr>conn_id = ''c1'', conn_name = ''Local Agent Bridge'', conn_type = ConnectorType.LOCAL_BRIDGE,
      conn_provider_label = ConnectorProviderLabel.CUSTOM, conn_endpoint_url = None, conn_callback_url = None,
      conn_auth_type = ConnectorAuthType.HMAC, conn_status = ConnectorStatus.ENABLED,
      conn_health_status = ConnectorHealthStatus.UNKNOWN, conn_allowed_project_ids = [''p1''],
      conn_allowed_repositories = [''owner/repo''],
      conn_allowed_actions = [AgentAction.CREATE_AGENT_TASK, AgentAction.APPEND_AGENT_TASK_EVENT, AgentAction.READ_AGENT_TASK],
      conn_rate_limit_per_minute = 60, conn_secret_ref = None, conn_last_used_at = None,
      conn_last_health_check_at = None, conn_failed_auth_count = 0, conn_last_error = None,
      conn_created_by_user_id = None,
      conn_config = [(''profile'', JStr ''local-bridge''), (''mode'', JStr ''approval-gated'')],
      conn_created_at = 0, conn_updated_at = 0\<rparr>"

lemma templates_need_a_project_witness:
  "\<exists>p r s'. sample_of sample_env (for_project ''p1'' (tp_mapper local_agent_bridge)) local_agent_bridge = Inr p \<and>
     perform_webhook_action sample_env local_connector p
       (put_project \<lparr>proj_name = ''P'', proj_description = [], proj_mode = ProjectMode.STRICT, proj_rules = [],
          proj_id = ''p1'', proj_created_at = 0\<rparr> sample_sys) = (Inr r, s')"
proof -
  let ?s = "put_project \<lparr>proj_name = ''P'', proj_description = [], proj_mode = ProjectMode.STRICT, proj_rules = [],
    proj_id = ''p1'', proj_created_at = 0\<rparr> sample_sys"
  have "local_agent_bridge \<in> set connector_templates" by (simp add: connector_templates_def)
  moreover have "made_from local_agent_bridge local_connector"
    by (simp add: made_from_def local_agent_bridge_def base_defaults_def local_connector_def)
  moreover have "dict_get (projects ?s) ''p1'' \<noteq> None" by (simp add: put_project_def)
  ultimately show ?thesis
    using templates_need_a_project [of local_agent_bridge local_connector "''p1''" ?s sample_env]
    by (auto simp: local_connector_def)
qed

end
