(* ===== verification/Evaluation.thy ===== *)
theory Evaluation
  imports RunVerifier
begin

text \<open>
  The evaluation metrics of \<open>agent_run_verifier.py\<close>: how well the predictions of a verifier, each with a
  confidence, agreed with what was the case. Floating point numbers are real numbers.
\<close>

section \<open>Definitions\<close>

record BinaryEvaluationRecord =
  ber_predicted_positive :: bool
  ber_actual_positive :: bool
  ber_confidence :: real

record BinaryEvaluationMetrics =
  bem_count :: nat
  bem_true_positive :: nat
  bem_false_positive :: nat
  bem_true_negative :: nat
  bem_false_negative :: nat
  bem_precision :: real
  bem_recall :: real
  bem_f1 :: real
  bem_brier_score :: real
  bem_expected_calibration_error :: real
  bem_mean_entropy :: real

text \<open>\<open>min(1.0, max(0.0, x))\<close> and \<open>float(b)\<close>.\<close>

definition clipped :: "real \<Rightarrow> real" where
  "clipped x = min 1 (max 0 x)"

definition outcome_value :: "BinaryEvaluationRecord \<Rightarrow> real" where
  "outcome_value row = (if ber_actual_positive row then 1 else 0)"

definition row_confidence :: "BinaryEvaluationRecord \<Rightarrow> real" where
  "row_confidence row = clipped (ber_confidence row)"

definition binary_entropy :: "real \<Rightarrow> real" where
  "binary_entropy probability =
     (let p = clipped probability
      in if p = 0 \<or> p = 1 then 0 else - (p * log 2 p + (1 - p) * log 2 (1 - p)))"

definition divided :: "real \<Rightarrow> real \<Rightarrow> real" where
  "divided a b = (if b = 0 then 0 else a / b)"

text \<open>The mean over a list, 0 for the empty one.\<close>

definition mean :: "(BinaryEvaluationRecord \<Rightarrow> real) \<Rightarrow> BinaryEvaluationRecord list \<Rightarrow> real" where
  "mean f recs = divided (sum_list (map f recs)) (real (length recs))"

definition bin_index :: "nat \<Rightarrow> BinaryEvaluationRecord \<Rightarrow> nat" where
  "bin_index bins row = min (bins - 1) (nat \<lfloor>row_confidence row * real bins\<rfloor>)"

definition into_bin :: "BinaryEvaluationRecord \<Rightarrow> BinaryEvaluationRecord list list \<Rightarrow> BinaryEvaluationRecord list list" where
  "into_bin row bins = (let i = bin_index (length bins) row in bins[i := bins ! i @ [row]])"

definition calibration_buckets :: "int \<Rightarrow> BinaryEvaluationRecord list \<Rightarrow> BinaryEvaluationRecord list list" where
  "calibration_buckets bins recs = fold into_bin recs (replicate (nat (max 1 bins)) [])"

definition bucket_error :: "nat \<Rightarrow> BinaryEvaluationRecord list \<Rightarrow> real" where
  "bucket_error n bucket =
     (if bucket = [] \<or> n = 0 then 0
      else real (length bucket) / real n * \<bar>mean row_confidence bucket - mean outcome_value bucket\<bar>)"

definition rows_with :: "bool \<Rightarrow> bool \<Rightarrow> BinaryEvaluationRecord list \<Rightarrow> nat" where
  "rows_with predicted actual recs =
     length (filter (\<lambda>r. ber_predicted_positive r = predicted \<and> ber_actual_positive r = actual) recs)"

definition squared_error :: "BinaryEvaluationRecord \<Rightarrow> real" where
  "squared_error row = (row_confidence row - outcome_value row)\<^sup>2"

definition compute_binary_evaluation_metrics :: "BinaryEvaluationRecord list \<Rightarrow> int \<Rightarrow> BinaryEvaluationMetrics" where
  "compute_binary_evaluation_metrics recs bins =
     (let tp = rows_with True True recs; fp = rows_with True False recs;
          tn = rows_with False False recs; fn = rows_with False True recs;
          precision = divided (real tp) (real (tp + fp));
          recall = divided (real tp) (real (tp + fn))
      in \<lparr>bem_count = length recs, bem_true_positive = tp, bem_false_positive = fp,
          bem_true_negative = tn, bem_false_negative = fn,
          bem_precision = precision, bem_recall = recall,
          bem_f1 = divided (2 * precision * recall) (precision + recall),
          bem_brier_score = mean squared_error recs,
          bem_expected_calibration_error =
            sum_list (map (bucket_error (length recs)) (calibration_buckets bins recs)),
          bem_mean_entropy = mean (\<lambda>r. binary_entropy (ber_confidence r)) recs\<rparr>)"

section \<open>Single values\<close>

lemma clipped_unit: "0 \<le> clipped x \<and> clipped x \<le> 1"
  by (auto simp: clipped_def)

lemma row_confidence_unit: "0 \<le> row_confidence r" "row_confidence r \<le> 1"
  using clipped_unit by (simp_all add: row_confidence_def)

lemma outcome_value_unit: "0 \<le> outcome_value r" "outcome_value r \<le> 1"
  by (simp_all add: outcome_value_def)

lemma entropy_term: "0 < p \<Longrightarrow> - (p * ln p) \<le> p * ln 2 + 1 / 2 - (p :: real)"
proof -
  assume p: "0 < p"
  have "ln (1 / (2 * p)) \<le> 1 / (2 * p) - 1" by (rule ln_le_minus_one) (simp add: p)
  moreover have "ln (1 / (2 * p)) = - ln 2 - ln p" using p by (simp add: ln_div ln_mult)
  ultimately have "p * (- ln p) \<le> p * (ln 2 + 1 / (2 * p) - 1)" using p by (intro mult_left_mono) auto
  then show ?thesis using p by (simp add: algebra_simps)
qed

lemma binary_entropy_unit: "0 \<le> binary_entropy x \<and> binary_entropy x \<le> 1"
proof (cases "clipped x = 0 \<or> clipped x = 1")
  case True
  then show ?thesis by (auto simp: binary_entropy_def Let_def)
next
  case False
  let ?p = "clipped x"
  have p: "0 < ?p" "?p < 1" using False clipped_unit [of x] by auto
  have H: "binary_entropy x = (- (?p * ln ?p) + - ((1 - ?p) * ln (1 - ?p))) / ln 2"
    using False by (simp add: binary_entropy_def Let_def log_def add_divide_distrib diff_divide_distrib)
  have "ln ?p \<le> 0" "ln (1 - ?p) \<le> 0" using p by (simp_all add: ln_le_zero_iff)
  then have "0 \<le> - (?p * ln ?p)" "0 \<le> - ((1 - ?p) * ln (1 - ?p))"
    using p by (simp_all add: mult_nonneg_nonpos)
  then have low: "0 \<le> binary_entropy x" unfolding H by (intro divide_nonneg_pos) auto
  have "- (?p * ln ?p) + - ((1 - ?p) * ln (1 - ?p)) \<le> ln 2"
    using entropy_term [OF p(1)] entropy_term [of "1 - ?p"] p by (simp add: algebra_simps)
  then have "binary_entropy x \<le> 1" unfolding H by (simp add: divide_le_eq)
  with low show ?thesis by simp
qed

lemma divided_unit: "0 \<le> a \<Longrightarrow> a \<le> b \<Longrightarrow> 0 \<le> divided a b \<and> divided a b \<le> 1"
  by (auto simp: divided_def divide_le_eq)

lemma mean_unit:
  assumes "\<And>r. 0 \<le> f r" "\<And>r. f r \<le> 1"
  shows "0 \<le> mean f recs \<and> mean f recs \<le> 1"
proof -
  have "0 \<le> sum_list (map f recs) \<and> sum_list (map f recs) \<le> real (length recs)"
    using assms by (induction recs) (auto simp: add_nonneg_nonneg intro: add_mono)
  then show ?thesis unfolding mean_def by (blast intro: divided_unit [THEN conjunct1] divided_unit [THEN conjunct2])
qed

text \<open>The harmonic mean lies between the two numbers.\<close>

lemma harmonic_between:
  assumes "0 \<le> a" "0 \<le> (b :: real)"
  shows "min a b \<le> divided (2 * a * b) (a + b) \<and> divided (2 * a * b) (a + b) \<le> max a b"
proof (cases "a + b = 0")
  case True
  then have "a = 0" "b = 0" using assms by linarith+
  then show ?thesis by (simp add: divided_def)
next
  case False
  then have pos: "0 < a + b" using assms by linarith
  have "min a b * (a + b) \<le> 2 * a * b" "2 * a * b \<le> max a b * (a + b)"
    using assms by (cases "a \<le> b"; simp add: algebra_simps mult_left_mono mult_right_mono)+
  then show ?thesis using pos False by (simp add: divided_def pos_le_divide_eq pos_divide_le_eq)
qed

section \<open>Buckets\<close>

lemma bin_index_less: "0 < k \<Longrightarrow> bin_index k r < k"
  by (simp add: bin_index_def)

text \<open>Every row is in the bucket of its confidence, in the order of the rows.\<close>

lemma fold_into_bin:
  assumes "0 < length bs"
  shows "length (fold into_bin recs bs) = length bs \<and>
    (\<forall>i < length bs. fold into_bin recs bs ! i = bs ! i @ filter (\<lambda>r. bin_index (length bs) r = i) recs)"
  using assms
proof (induction recs arbitrary: bs)
  case (Cons r recs)
  let ?bs = "into_bin r bs"
  have l: "length ?bs = length bs" by (simp add: into_bin_def Let_def)
  have "?bs ! i = bs ! i @ filter (\<lambda>r. bin_index (length bs) r = i) [r]" if "i < length bs" for i
    using that by (auto simp: into_bin_def Let_def nth_list_update)
  with Cons.IH [of ?bs] Cons.prems l show ?case by simp
qed simp

lemma calibration_buckets_eq:
  "calibration_buckets bins recs =
    (let k = nat (max 1 bins) in map (\<lambda>i. filter (\<lambda>r. bin_index k r = i) recs) [0..<k])"
  using fold_into_bin [of "replicate (nat (max 1 bins)) []" recs]
  by (auto simp: calibration_buckets_def Let_def list_eq_iff_nth_eq)

lemma sum_over_bins:
  assumes "\<And>r. g r < k"
  shows "sum_list (map (\<lambda>i. sum_list (map f (filter (\<lambda>r. g r = i) recs))) [0..<k]) = (sum_list (map f recs) :: real)"
proof (induction recs)
  case (Cons r recs)
  have "sum_list (map (\<lambda>i. sum_list (map f (filter (\<lambda>r. g r = i) (r # recs)))) [0..<k]) =
      sum_list (map (\<lambda>i. (if g r = i then f r else 0) + sum_list (map f (filter (\<lambda>r. g r = i) recs))) [0..<k])"
    by (rule arg_cong [of _ _ sum_list]) auto
  also have "\<dots> = sum_list (map (\<lambda>i. if g r = i then f r else 0) [0..<k]) + sum_list (map f recs)"
    by (simp add: sum_list_addf Cons.IH)
  also have "sum_list (map (\<lambda>i. if g r = i then f r else 0) [0..<k]) = f r"
    using assms [of r] by (simp add: interv_sum_list_conv_sum_set_nat sum.delta)
  finally show ?case by simp
qed simp

section \<open>Calibration error and Brier score\<close>

definition absolute_error :: "BinaryEvaluationRecord \<Rightarrow> real" where
  "absolute_error row = \<bar>row_confidence row - outcome_value row\<bar>"

lemma absolute_error_unit: "0 \<le> absolute_error r" "absolute_error r \<le> 1"
  using row_confidence_unit [of r] outcome_value_unit [of r] by (auto simp: absolute_error_def)

lemma bucket_error_le:
  "0 \<le> bucket_error n bucket \<and> bucket_error n bucket \<le> divided (sum_list (map absolute_error bucket)) (real n)"
proof (cases "bucket = [] \<or> n = 0")
  case False
  have "sum_list (map row_confidence bucket) - sum_list (map outcome_value bucket) =
      sum_list (map (\<lambda>r. row_confidence r - outcome_value r) bucket)" by (simp add: sum_list_subtractf)
  moreover have "\<bar>sum_list (map (\<lambda>r. row_confidence r - outcome_value r) bucket)\<bar> \<le> sum_list (map absolute_error bucket)"
    by (induction bucket) (auto simp: absolute_error_def)
  ultimately have "\<bar>sum_list (map row_confidence bucket) - sum_list (map outcome_value bucket)\<bar> \<le> sum_list (map absolute_error bucket)"
    by simp
  moreover have "bucket_error n bucket = \<bar>sum_list (map row_confidence bucket) - sum_list (map outcome_value bucket)\<bar> / real n"
    using False by (simp add: bucket_error_def mean_def divided_def diff_divide_distrib [symmetric] abs_divide)
  ultimately show ?thesis using False by (simp add: divided_def divide_right_mono)
qed (auto simp: bucket_error_def divided_def sum_list_nonneg absolute_error_unit)

lemma calibration_error_le:
  "0 \<le> sum_list (map (bucket_error (length recs)) (calibration_buckets bins recs)) \<and>
    sum_list (map (bucket_error (length recs)) (calibration_buckets bins recs)) \<le> mean absolute_error recs"
proof -
  let ?k = "nat (max 1 bins)" let ?n = "real (length recs)"
  let ?b = "\<lambda>i. filter (\<lambda>r. bin_index ?k r = i) recs"
  have "sum_list (map (\<lambda>i. bucket_error (length recs) (?b i)) [0..<?k]) \<le>
      sum_list (map (\<lambda>i. divided (sum_list (map absolute_error (?b i))) ?n) [0..<?k])"
    by (intro sum_list_mono) (simp add: bucket_error_le)
  also have "\<dots> = divided (sum_list (map (\<lambda>i. sum_list (map absolute_error (?b i))) [0..<?k])) ?n"
    by (simp add: divided_def sum_list_const_mult [symmetric] divide_inverse mult.commute)
  also have "\<dots> = mean absolute_error recs"
    by (simp add: mean_def sum_over_bins bin_index_less)
  finally have "sum_list (map (\<lambda>i. bucket_error (length recs) (?b i)) [0..<?k]) \<le> mean absolute_error recs" .
  moreover have "0 \<le> sum_list (map (\<lambda>i. bucket_error (length recs) (?b i)) [0..<?k])"
    by (rule sum_list_nonneg) (auto simp: bucket_error_le)
  ultimately show ?thesis by (simp add: calibration_buckets_eq Let_def comp_def)
qed

text \<open>The mean of the squares is at least the square of the mean.\<close>

lemma square_of_mean: "(mean f recs)\<^sup>2 \<le> mean (\<lambda>r. (f r)\<^sup>2) recs"
proof (cases "recs = []")
  case False
  let ?n = "real (length recs)" let ?m = "mean f recs"
  have n: "0 < ?n" using False by simp
  then have m: "sum_list (map f recs) = ?m * ?n" by (simp add: mean_def divided_def)
  have "0 \<le> sum_list (map (\<lambda>r. (f r - ?m)\<^sup>2) recs)" by (rule sum_list_nonneg) auto
  also have "sum_list (map (\<lambda>r. (f r - c)\<^sup>2) xs) = sum_list (map (\<lambda>r. (f r)\<^sup>2) xs) - 2 * c * sum_list (map f xs) + real (length xs) * c\<^sup>2"
    for c xs by (induction xs) (simp_all add: power2_eq_square algebra_simps)
  finally have "?m\<^sup>2 * ?n \<le> sum_list (map (\<lambda>r. (f r)\<^sup>2) recs)" by (simp add: m power2_eq_square algebra_simps)
  then show ?thesis using n by (simp add: mean_def [of "\<lambda>r. (f r)\<^sup>2"] divided_def pos_le_divide_eq)
qed (simp add: mean_def divided_def)

lemma calibration_error_squared:
  assumes "e = sum_list (map (bucket_error (length recs)) (calibration_buckets bins recs))"
  shows "e\<^sup>2 \<le> mean squared_error recs"
proof -
  have "e\<^sup>2 \<le> (mean absolute_error recs)\<^sup>2"
    using calibration_error_le [of recs bins] unfolding assms by (intro power_mono) auto
  also have "\<dots> \<le> mean (\<lambda>r. (absolute_error r)\<^sup>2) recs" by (rule square_of_mean)
  also have "(\<lambda>r. (absolute_error r)\<^sup>2) = squared_error" by (simp add: absolute_error_def squared_error_def fun_eq_iff)
  finally show ?thesis .
qed

lemma rows_with_sum:
  "rows_with True True recs + rows_with True False recs + rows_with False False recs + rows_with False True recs = length recs"
proof (induction recs)
  case (Cons r recs)
  then show ?case by (cases "ber_predicted_positive r"; cases "ber_actual_positive r") (simp_all add: rows_with_def)
qed (simp add: rows_with_def)


end
