(* ===== verification/WorkerPlans.thy ===== *)
theory WorkerPlans
  imports WorkerCommon PyLib RunExecution
begin

text \<open>
  \<open>agent_worker_dry_run.py\<close>: a worker that takes an approved task through its lifecycle to \<open>DONE\<close>
  without touching a repository.
\<close>

record AgentWorkerDryRunResult =
  dr_success :: bool
  dr_task_id :: "string option"
  dr_worker_id :: string
  dr_lease_token :: "string option"
  dr_started_event_id :: "string option"
  dr_result_event_id :: "string option"
  dr_final_status :: "AgentTaskStatus option"
  dr_reason :: string

definition dry_run_refusal :: "string \<Rightarrow> string \<Rightarrow> AgentWorkerDryRunResult" where
  "dry_run_refusal worker_id reason =
     \<lparr>dr_success = False, dr_task_id = None, dr_worker_id = worker_id, dr_lease_token = None,
      dr_started_event_id = None, dr_result_event_id = None, dr_final_status = None, dr_reason = reason\<rparr>"

text \<open>\<open>AgentWorkerClaimResult.to_metadata\<close>.\<close>

definition claim_metadata :: "AgentWorkerClaimResult \<Rightarrow> jdict" where
  "claim_metadata c =
     [(''success'', JBool (cl_success c)), (''task_id'', json_opt_str (cl_task_id c)),
      (''worker_id'', JStr (cl_worker_id c)), (''lease_token'', json_opt_str (cl_lease_token c)),
      (''reason'', JStr (cl_reason c)), (''lease_expires_at'', json_opt_time (cl_lease_expires_at c)),
      (''generated_at'', JTime (cl_generated_at c))]"

definition append_worker_event ::
    "env \<Rightarrow> AgentTask \<Rightarrow> AgentTaskEventType \<Rightarrow> string \<Rightarrow> AgentTaskStatus \<Rightarrow> string \<Rightarrow> string option \<Rightarrow> jdict \<Rightarrow> sys \<Rightarrow>
     (AgentTaskEvent \<times> AgentTask) \<times> sys" where
  "append_worker_event E task event_type message status worker_id lease_token metadata s =
     (let (task, s) = set_task_status (Some status) task s;
          (ev, s) = worker_note E task event_type message worker_id
            ([(''dry_run'', JBool True)] @ lease_details worker_id lease_token @ metadata) s
      in ((ev, task), s))"

definition dry_run_worker ::
    "env \<Rightarrow> string \<Rightarrow> AgentWorkerClaimResult \<Rightarrow> AgentTask \<Rightarrow> sys \<Rightarrow> AgentWorkerDryRunResult \<times> sys" where
  "dry_run_worker E worker_id claim task s =
     (let lease = cl_lease_token claim;
          approval = (''approval_request_id'', json_opt_str (task_approval_request_id task));
          s = add_audit E ''agent_worker.task_claimed'' (task_id task) (claim_metadata claim) worker_id s;
          ((started, task), s) = append_worker_event E task EXECUTION_STARTED
            ''Dry-run worker transactionally claimed approved task and started lifecycle proof. No repository mutation will be performed.''
            AgentTaskStatus.EXECUTING worker_id lease
            [approval, (''repository'', json_opt_str (task_repository task)),
             (''branch_preference'', json_opt_str (task_branch_preference task)),
             (''event_count_before'', JInt (int (length (task_events (task_id task) s)))),
             (''lease_expires_at'', json_opt_time (task_worker_lease_expires_at task)),
             (''claim_mode'', JStr ''sqlite_begin_immediate'')] s;
          s = add_audit E ''agent_worker.dry_run_started'' (task_id task)
            (approval # lease_details worker_id lease) worker_id s;
          ((result, task), s) = append_worker_event E task RESULT_READY
            ''Dry-run worker completed lifecycle proof without changing files, branches, or pull requests.''
            AgentTaskStatus.DONE worker_id lease
            [approval, (''repository_mutated'', JBool False), (''branch_created'', JBool False),
             (''pull_request_opened'', JBool False),
             (''safe_next_step'', JStr ''Implement real worker mutation behind the same transactional claim guard.'')] s;
          (task, s) = close_worker E ''agent_worker.dry_run_completed''
            (approval # lease_details worker_id lease @ [(''result_event_id'', JStr (te_id result))]) task lease worker_id s
      in (\<lparr>dr_success = True, dr_task_id = Some (task_id task), dr_worker_id = worker_id, dr_lease_token = lease,
            dr_started_event_id = Some (te_id started), dr_result_event_id = Some (te_id result),
            dr_final_status = Some (task_status task), dr_reason = ''Dry-run lifecycle completed.''\<rparr>, s))"

definition run_agent_worker_dry_run ::
    "env \<Rightarrow> string option \<Rightarrow> bool \<Rightarrow> string \<Rightarrow> int \<Rightarrow> sys \<Rightarrow> AgentWorkerDryRunResult \<times> sys" where
  "run_agent_worker_dry_run E tid first_approved worker_id lease_seconds s =
     (if \<not> truthy tid \<and> \<not> first_approved then (dry_run_refusal worker_id PROVIDE_TASK, s)
      else
        let (claim, s) = take_task E tid first_approved worker_id lease_seconds s
        in case (cl_success claim, cl_task claim) of
             (True, Some task) \<Rightarrow> dry_run_worker E worker_id claim task s
           | (_, task) \<Rightarrow>
               ((dry_run_refusal worker_id (cl_reason claim))
                  \<lparr>dr_task_id := cl_task_id claim, dr_lease_token := cl_lease_token claim,
                   dr_final_status := map_option task_status task\<rparr>, s))"

chapter \<open>Branch plans\<close>

text \<open>
  \<open>agent_worker_branch_plan.py\<close>: the name of the branch a worker will create for a task, the checks of
  the repository and of the name, and the dry run that records the plan.
\<close>

definition WORKER_PROTECTED_BRANCHES :: "string list" where
  "WORKER_PROTECTED_BRANCHES = [''main'', ''master'', ''prod'', ''production'', ''release'']"

definition SAFE_BRANCH_PREFIXES :: "string list" where
  "SAFE_BRANCH_PREFIXES = [''feature/'', ''fix/'', ''chore/'', ''docs/'', ''test/'', ''refactor/'']"

section \<open>The patterns\<close>

definition char_in :: "char \<Rightarrow> char \<Rightarrow> char \<Rightarrow> bool" where
  "char_in lo hi c \<longleftrightarrow> lo \<le> c \<and> c \<le> hi"

definition is_slug_char :: "char \<Rightarrow> bool" where
  "is_slug_char c \<longleftrightarrow> char_in (CHR ''a'') (CHR ''z'') c \<or> char_in (CHR ''0'') (CHR ''9'') c"

definition is_name_char :: "char \<Rightarrow> bool" where
  "is_name_char c \<longleftrightarrow>
     is_slug_char c \<or> char_in (CHR ''A'') (CHR ''Z'') c \<or> c = CHR ''_'' \<or> c = CHR ''.'' \<or> c = CHR ''-''"

text \<open>\<open>^[A-Za-z0-9_.-]+/[A-Za-z0-9_.-]+$\<close> and \<open>^[A-Za-z0-9._/-]+$\<close>, as full matches.\<close>

definition REPOSITORY_PATTERN :: "string \<Rightarrow> bool" where
  "REPOSITORY_PATTERN s \<longleftrightarrow>
     (case py_split_char (CHR ''/'') s of
        [owner, name] \<Rightarrow> owner \<noteq> [] \<and> name \<noteq> [] \<and> list_all is_name_char owner \<and> list_all is_name_char name
      | _ \<Rightarrow> False)"

definition BRANCH_PATTERN :: "string \<Rightarrow> bool" where
  "BRANCH_PATTERN s \<longleftrightarrow> s \<noteq> [] \<and> list_all (\<lambda>c. is_name_char c \<or> c = CHR ''/'') s"

section \<open>The planned branch\<close>

text \<open>\<open>re.sub(r"[^a-z0-9]+", "-", s)\<close> and \<open>re.sub(r"-+", "-", s)\<close>; the flag tells a run has begun.\<close>

fun dash_others :: "bool \<Rightarrow> string \<Rightarrow> string" where
  "dash_others run [] = []"
| "dash_others run (c # s) =
     (if is_slug_char c then c # dash_others False s
      else if run then dash_others True s else CHR ''-'' # dash_others True s)"

fun squeeze_dashes :: "bool \<Rightarrow> string \<Rightarrow> string" where
  "squeeze_dashes run [] = []"
| "squeeze_dashes run (c # s) =
     (if c \<noteq> CHR ''-'' then c # squeeze_dashes False s
      else if run then squeeze_dashes True s else CHR ''-'' # squeeze_dashes True s)"

definition slug :: "string \<Rightarrow> string \<Rightarrow> string" where
  "slug value fallback =
     (let slug = squeeze_dashes False (py_strip_char (CHR ''-'') (dash_others False (py_lower value)))
      in str_or (py_strip_char (CHR ''-'') (take 48 (str_or slug fallback))) fallback)"

text \<open>\<open>s.replace(m, "")\<close> for a marker that is not empty.\<close>

fun remove_all :: "string \<Rightarrow> string \<Rightarrow> string" where
  "remove_all m [] = []"
| "remove_all m (c # s) =
     (if m \<noteq> [] \<and> py_startswith (c # s) m then remove_all m (drop (length m - 1) s) else c # remove_all m s)"

definition short_task_id :: "string \<Rightarrow> string" where
  "short_task_id tid = str_or (take 12 (remove_all ''agent_task_'' tid)) (take 12 tid)"

definition is_protected_branch :: "string \<Rightarrow> bool" where
  "is_protected_branch branch \<longleftrightarrow>
     py_lower (py_strip_char (CHR ''/'') (py_strip branch)) \<in> set WORKER_PROTECTED_BRANCHES"

definition is_safe_branch_name :: "string \<Rightarrow> bool" where
  "is_safe_branch_name branch =
     (let clean = py_strip branch in
      if clean = [] then False
      else if py_startswith clean ''/'' \<or> py_endswith clean ''/'' \<or> py_in ''..'' clean \<or> py_in ''//'' clean
        then False
      else if \<not> BRANCH_PATTERN clean then False
      else if is_protected_branch clean then False
      else list_ex (py_startswith clean) SAFE_BRANCH_PREFIXES)"

definition planned_branch_for_task :: "AgentTask \<Rightarrow> string" where
  "planned_branch_for_task task =
     (if truthy (task_branch_preference task) then py_strip (opt_str (task_branch_preference task))
      else ''feature/agent-task-'' @ short_task_id (task_id task) @ ''-'' @ slug (task_title task) ''task'')"

definition validate_branch_plan :: "AgentTask \<Rightarrow> string option" where
  "validate_branch_plan task =
     (let repository = opt_str (task_repository task); planned = planned_branch_for_task task in
      if py_strip repository = [] then Some ''Agent task is missing repository.''
      else if \<not> REPOSITORY_PATTERN (py_strip repository) then
        Some (''Agent task repository is not in owner/repo format: '' @ repository)
      else if \<not> is_safe_branch_name planned then
        Some (''Planned branch is unsafe or protected: '' @ planned)
      else None)"

section \<open>The dry run\<close>

record AgentWorkerBranchPlanResult =
  bpr_success :: bool
  bpr_task_id :: "string option"
  bpr_worker_id :: string
  bpr_lease_token :: "string option"
  bpr_repository :: "string option"
  bpr_planned_branch :: "string option"
  bpr_source_branch :: string
  bpr_event_id :: "string option"
  bpr_final_status :: "AgentTaskStatus option"
  bpr_reason :: string

definition branch_plan_refusal :: "string \<Rightarrow> string \<Rightarrow> string \<Rightarrow> AgentWorkerBranchPlanResult" where
  "branch_plan_refusal worker_id source reason =
     \<lparr>bpr_success = False, bpr_task_id = None, bpr_worker_id = worker_id, bpr_lease_token = None,
      bpr_repository = None, bpr_planned_branch = None, bpr_source_branch = source, bpr_event_id = None,
      bpr_final_status = None, bpr_reason = reason\<rparr>"

definition append_branch_plan_event ::
    "env \<Rightarrow> AgentTask \<Rightarrow> string \<Rightarrow> string option \<Rightarrow> string \<Rightarrow> string \<Rightarrow> sys \<Rightarrow> AgentTaskEvent \<times> sys" where
  "append_branch_plan_event E task worker_id lease_token planned source s =
     worker_note E task AgentTaskEventType.NOTE
       ''Worker dry-run planned a safe feature branch. No repository branch was created.'' worker_id
       ([(''dry_run'', JBool True)] @ lease_details worker_id lease_token @
        [(''repository'', json_opt_str (task_repository task)), (''planned_branch'', JStr planned),
         (''source_branch'', JStr source), (''branch_created'', JBool False),
         (''repository_mutated'', JBool False), (''plan_type'', JStr ''branch_creation_dry_run'')]) s"

definition run_agent_worker_branch_plan_dry_run ::
    "env \<Rightarrow> string option \<Rightarrow> bool \<Rightarrow> string \<Rightarrow> int \<Rightarrow> string \<Rightarrow> sys \<Rightarrow> AgentWorkerBranchPlanResult \<times> sys" where
  "run_agent_worker_branch_plan_dry_run E tid first_approved worker_id lease_seconds source s =
     (if \<not> truthy tid \<and> \<not> first_approved then (branch_plan_refusal worker_id source PROVIDE_TASK, s)
      else
        let (claim, s) = take_task E tid first_approved worker_id lease_seconds s
        in case (cl_success claim, cl_task claim) of
             (True, Some task) \<Rightarrow>
               let lease = cl_lease_token claim;
                   planned = planned_branch_for_task task;
                   result = \<lparr>bpr_success = False, bpr_task_id = Some (task_id task), bpr_worker_id = worker_id,
                     bpr_lease_token = lease, bpr_repository = task_repository task,
                     bpr_planned_branch = Some planned, bpr_source_branch = source, bpr_event_id = None,
                     bpr_final_status = Some (task_status task), bpr_reason = []\<rparr>
               in (case validate_branch_plan task of
                     Some e \<Rightarrow>
                       let (task, s) = close_worker E ''agent_worker.branch_plan_refused''
                             (lease_details worker_id lease @ [(''reason'', JStr e)]) task lease worker_id s
                       in (result\<lparr>bpr_final_status := Some (task_status task), bpr_reason := e\<rparr>, s)
                   | None \<Rightarrow>
                       let (ev, s) = append_branch_plan_event E task worker_id lease planned source s;
                           (task, s) = close_worker E ''agent_worker.branch_plan_dry_run_completed''
                             (lease_details worker_id lease @
                              [(''repository'', json_opt_str (task_repository task)),
                               (''planned_branch'', JStr planned), (''source_branch'', JStr source),
                               (''branch_created'', JBool False), (''repository_mutated'', JBool False)])
                             task lease worker_id s
                       in (result\<lparr>bpr_success := True, bpr_event_id := Some (te_id ev),
                             bpr_final_status := Some (task_status task),
                             bpr_reason := ''Branch creation dry-run plan completed. No repository mutation performed.''\<rparr>,
                           s))
           | (_, task) \<Rightarrow>
               ((branch_plan_refusal worker_id source (cl_reason claim))
                  \<lparr>bpr_task_id := cl_task_id claim, bpr_lease_token := cl_lease_token claim,
                   bpr_final_status := map_option task_status task\<rparr>, s))"

chapter \<open>File plans\<close>

text \<open>
  \<open>agent_worker_file_plan.py\<close>: which file changes of an approval a worker may apply, and the dry run
  that records them. A text has one byte per character, as an ASCII text has in UTF-8.
\<close>

definition ALLOWED_CHANGE_TYPES :: "string list" where
  "ALLOWED_CHANGE_TYPES = [''create'', ''update'', ''delete'']"

definition BLOCKED_PATH_PARTS :: "string list" where
  "BLOCKED_PATH_PARTS =
     [''.git'', ''.github/workflows'', ''node_modules'', ''venv'', ''.venv'', ''__pycache__'']"

definition BLOCKED_FILENAMES :: "string list" where
  "BLOCKED_FILENAMES = [''.env'', ''.env.local'', ''.env.production'', ''credentials.py'', ''secrets.json'']"

definition MAX_FILE_CHANGES :: nat where "MAX_FILE_CHANGES = 25"

definition MAX_NEW_CONTENT_BYTES :: nat where "MAX_NEW_CONTENT_BYTES = 250000"

section \<open>Validation\<close>

definition is_safe_relative_path :: "string \<Rightarrow> bool" where
  "is_safe_relative_path path =
     (let clean = py_strip path; lower = py_lower clean in
      if clean = [] \<or> py_startswith clean ''/'' \<or> CHR 0x00 \<in> set clean then False
      else if list_ex (\<lambda>part. part \<in> set [[], ''.'', ''..'']) (path_parts clean) then False
      else if py_endswith clean ''/'' then False
      else if list_ex (\<lambda>blocked. lower = blocked \<or> py_startswith lower (blocked @ ''/'')) BLOCKED_PATH_PARTS then False
      else path_name lower \<notin> set BLOCKED_FILENAMES)"

definition change_type_of :: "FileChange \<Rightarrow> string" where
  "change_type_of change = py_strip (py_lower (fc_change_type change))"

definition validate_file_change :: "FileChange \<Rightarrow> string option" where
  "validate_file_change change =
     (let kind = change_type_of change in
      if kind \<notin> set ALLOWED_CHANGE_TYPES then
        Some (''Unsupported file change type for '' @ fc_path change @ '': '' @ fc_change_type change)
      else if \<not> is_safe_relative_path (fc_path change) then Some (''Unsafe file path: '' @ fc_path change)
      else if kind \<in> set [''create'', ''update''] \<and> fc_new_content change = None then
        Some (''File change requires new_content for '' @ fc_path change)
      else if kind = ''delete'' \<and> fc_new_content change \<notin> {None, Some []} then
        Some (''Delete change must not include new_content for '' @ fc_path change)
      else if length (opt_str (fc_new_content change)) > MAX_NEW_CONTENT_BYTES then
        Some (''File change is too large for '' @ fc_path change)
      else None)"

fun check_file_changes :: "string list \<Rightarrow> FileChange list \<Rightarrow> string option" where
  "check_file_changes seen [] = None"
| "check_file_changes seen (change # changes) =
     (let path = py_strip (fc_path change) in
      if path \<in> set seen then Some (''Duplicate file change path: '' @ path)
      else case validate_file_change change of
        Some e \<Rightarrow> Some e
      | None \<Rightarrow> check_file_changes (path # seen) changes)"

definition validate_file_patch_plan :: "ApprovalRequest option \<Rightarrow> string option" where
  "validate_file_patch_plan approval =
     (case approval of
        None \<Rightarrow> Some ''Linked approval request not found.''
      | Some a \<Rightarrow>
          if appr_files a = [] then Some ''Linked approval has no file changes.''
          else if length (appr_files a) > MAX_FILE_CHANGES then
            Some (''Too many file changes: '' @ nat_digits (length (appr_files a)) @ '' > '' @ nat_digits MAX_FILE_CHANGES)
          else check_file_changes [] (appr_files a))"

section \<open>The dry run\<close>

record FilePatchPlanItem =
  fpi_path :: string
  fpi_change_type :: string
  fpi_has_new_content :: bool
  fpi_new_content_bytes :: nat

definition file_plan_items :: "ApprovalRequest \<Rightarrow> FilePatchPlanItem list" where
  "file_plan_items approval =
     map (\<lambda>change. \<lparr>fpi_path = py_strip (fc_path change), fpi_change_type = change_type_of change,
        fpi_has_new_content = (fc_new_content change \<noteq> None),
        fpi_new_content_bytes = length (opt_str (fc_new_content change))\<rparr>) (appr_files approval)"

definition file_item_json :: "FilePatchPlanItem \<Rightarrow> json" where
  "file_item_json item =
     JObj [(''path'', JStr (fpi_path item)), (''change_type'', JStr (fpi_change_type item)),
           (''has_new_content'', JBool (fpi_has_new_content item)),
           (''new_content_bytes'', JInt (int (fpi_new_content_bytes item)))]"

record AgentWorkerFilePlanResult =
  fpr_success :: bool
  fpr_task_id :: "string option"
  fpr_approval_request_id :: "string option"
  fpr_worker_id :: string
  fpr_lease_token :: "string option"
  fpr_file_count :: nat
  fpr_files :: "FilePatchPlanItem list"
  fpr_event_id :: "string option"
  fpr_final_status :: "AgentTaskStatus option"
  fpr_reason :: string

definition file_plan_refusal :: "string \<Rightarrow> string \<Rightarrow> AgentWorkerFilePlanResult" where
  "file_plan_refusal worker_id reason =
     \<lparr>fpr_success = False, fpr_task_id = None, fpr_approval_request_id = None, fpr_worker_id = worker_id,
      fpr_lease_token = None, fpr_file_count = 0, fpr_files = [], fpr_event_id = None,
      fpr_final_status = None, fpr_reason = reason\<rparr>"

definition append_file_plan_event ::
    "env \<Rightarrow> AgentTask \<Rightarrow> ApprovalRequest \<Rightarrow> string \<Rightarrow> string option \<Rightarrow> FilePatchPlanItem list \<Rightarrow> sys \<Rightarrow>
     AgentTaskEvent \<times> sys" where
  "append_file_plan_event E task approval worker_id lease_token items s =
     worker_note E task AgentTaskEventType.NOTE
       ''Worker dry-run planned safe file patches. No repository files were changed.'' worker_id
       ([(''dry_run'', JBool True)] @ lease_details worker_id lease_token @
        [(''approval_request_id'', JStr (appr_id approval)), (''file_count'', JInt (int (length items))),
         (''files'', JList (map file_item_json items)), (''repository_mutated'', JBool False),
         (''files_written'', JBool False), (''plan_type'', JStr ''file_patch_dry_run'')]) s"

definition run_agent_worker_file_plan_dry_run ::
    "env \<Rightarrow> string option \<Rightarrow> bool \<Rightarrow> string \<Rightarrow> int \<Rightarrow> sys \<Rightarrow> AgentWorkerFilePlanResult \<times> sys" where
  "run_agent_worker_file_plan_dry_run E tid first_approved worker_id lease_seconds s =
     (if \<not> truthy tid \<and> \<not> first_approved then (file_plan_refusal worker_id PROVIDE_TASK, s)
      else
        let (claim, s) = take_task E tid first_approved worker_id lease_seconds s
        in case (cl_success claim, cl_task claim) of
             (True, Some task) \<Rightarrow>
               let lease = cl_lease_token claim;
                   approval = linked_approval task s;
                   result = (file_plan_refusal worker_id [])\<lparr>fpr_task_id := Some (task_id task),
                     fpr_approval_request_id := task_approval_request_id task, fpr_lease_token := lease\<rparr>
               in (case (validate_file_patch_plan approval, approval) of
                     (None, Some a) \<Rightarrow>
                       let items = file_plan_items a;
                           (ev, s) = append_file_plan_event E task a worker_id lease items s;
                           (task, s) = close_worker E ''agent_worker.file_plan_dry_run_completed''
                             (lease_details worker_id lease @
                              [(''approval_request_id'', JStr (appr_id a)), (''file_count'', JInt (int (length items))),
                               (''repository_mutated'', JBool False), (''files_written'', JBool False)])
                             task lease worker_id s
                       in (result\<lparr>fpr_success := True, fpr_approval_request_id := Some (appr_id a),
                             fpr_file_count := length items, fpr_files := items, fpr_event_id := Some (te_id ev),
                             fpr_final_status := Some (task_status task),
                             fpr_reason := ''File patch dry-run plan completed. No repository mutation performed.''\<rparr>, s)
                   | (e, _) \<Rightarrow>
                       let (task, s) = close_worker E ''agent_worker.file_plan_refused''
                             (lease_details worker_id lease @ [(''reason'', json_opt_str e)]) task lease worker_id s
                       in (result\<lparr>fpr_final_status := Some (task_status task), fpr_reason := opt_str e\<rparr>, s))
           | (_, task) \<Rightarrow>
               ((file_plan_refusal worker_id (cl_reason claim))
                  \<lparr>fpr_task_id := cl_task_id claim, fpr_lease_token := cl_lease_token claim,
                   fpr_final_status := map_option task_status task\<rparr>, s))"

chapter \<open>Validation and container plans\<close>

text \<open>
  \<open>agent_worker_validation_plan.py\<close>: which commands of an approval's test plan a worker may start, and
  the dry run that records them; \<open>agent_worker_container_plan.py\<close>: the checks of the container the
  commands would run in.
\<close>

definition ALLOWED_COMMAND_PREFIXES :: "string list" where
  "ALLOWED_COMMAND_PREFIXES =
     [''python -m pytest'', ''pytest'', ''./gradlew test'', ''./gradlew testDebugUnitTest'',
      ''./gradlew assembleDebug'', ''npm test'', ''npm run test'', ''npm run lint'', ''pnpm test'', ''pnpm lint'',
      ''ruff check'', ''mypy'']"

text \<open>The tokens, sorted as the policy lists them.\<close>

definition DANGEROUS_TOKENS :: "string list" where
  "DANGEROUS_TOKENS = [''&&'', '';'', ''<'', ''>'', ''>>'', [CHR 0x60], ''|'', ''||'']"

definition DANGEROUS_SUBSTRINGS :: "string list" where
  "DANGEROUS_SUBSTRINGS =
     [''$('', ''rm -rf'', ''curl '', ''wget '', ''sudo '', ''ssh '', ''scp '', ''chmod '', ''chown '', ''mkfs'', '':(){'']"

definition MAX_COMMAND_LENGTH :: nat where "MAX_COMMAND_LENGTH = 220"

record ValidationExecutionPolicy =
  vp_policy_version :: string
  vp_allowed_command_prefixes :: "string list"
  vp_dangerous_tokens :: "string list"
  vp_dangerous_substrings :: "string list"
  vp_max_validation_commands :: nat
  vp_max_command_length :: nat
  vp_shell_execution_allowed :: bool
  vp_network_fetch_commands_allowed :: bool

definition get_validation_execution_policy :: ValidationExecutionPolicy where
  "get_validation_execution_policy =
     \<lparr>vp_policy_version = ''aixion-validation-execution-policy-v1'',
      vp_allowed_command_prefixes = ALLOWED_COMMAND_PREFIXES, vp_dangerous_tokens = DANGEROUS_TOKENS,
      vp_dangerous_substrings = DANGEROUS_SUBSTRINGS, vp_max_validation_commands = nat MAX_VALIDATION_COMMANDS,
      vp_max_command_length = MAX_COMMAND_LENGTH, vp_shell_execution_allowed = False,
      vp_network_fetch_commands_allowed = False\<rparr>"

definition validation_policy_metadata :: "ValidationExecutionPolicy \<Rightarrow> jdict" where
  "validation_policy_metadata p =
     [(''policy_version'', JStr (vp_policy_version p)),
      (''allowed_command_prefixes'', json_strs (vp_allowed_command_prefixes p)),
      (''dangerous_tokens'', json_strs (vp_dangerous_tokens p)),
      (''dangerous_substrings'', json_strs (vp_dangerous_substrings p)),
      (''max_validation_commands'', JInt (int (vp_max_validation_commands p))),
      (''max_command_length'', JInt (int (vp_max_command_length p))),
      (''shell_execution_allowed'', JBool (vp_shell_execution_allowed p)),
      (''network_fetch_commands_allowed'', JBool (vp_network_fetch_commands_allowed p))]"

section \<open>Validation\<close>

definition has_prefix :: "string \<Rightarrow> string \<Rightarrow> bool" where
  "has_prefix clean prefix \<longleftrightarrow> clean = prefix \<or> py_startswith clean (prefix @ '' '')"

definition validate_validation_command :: "ValidationExecutionPolicy \<Rightarrow> string \<Rightarrow> string option" where
  "validate_validation_command p command =
     (let clean = py_strip command in
      if clean = [] then Some ''Validation command is empty.''
      else if length clean > vp_max_command_length p then
        Some (''Validation command is too long: '' @ take 80 clean)
      else if contains_any clean (vp_dangerous_substrings p) then
        Some (''Validation command contains dangerous operation: '' @ clean)
      else case shlex_split clean of
        Inr e \<Rightarrow> Some (''Validation command cannot be parsed: '' @ e)
      | Inl tokens \<Rightarrow>
          if list_ex (\<lambda>token. token \<in> set (vp_dangerous_tokens p)) tokens then
            Some (''Validation command contains shell control token: '' @ clean)
          else if list_ex (has_prefix clean) (vp_allowed_command_prefixes p) then None
          else Some (''Validation command is not allowlisted: '' @ clean))"

fun check_commands :: "ValidationExecutionPolicy \<Rightarrow> string list \<Rightarrow> string list \<Rightarrow> string option" where
  "check_commands p seen [] = None"
| "check_commands p seen (command # commands) =
     (let normalized = py_strip command in
      if normalized \<in> set seen then Some (''Duplicate validation command: '' @ normalized)
      else case validate_validation_command p command of
        Some e \<Rightarrow> Some e
      | None \<Rightarrow> check_commands p (normalized # seen) commands)"

definition validate_validation_plan :: "ValidationExecutionPolicy \<Rightarrow> ApprovalRequest option \<Rightarrow> string option" where
  "validate_validation_plan p approval =
     (case approval of
        None \<Rightarrow> Some ''Linked approval request not found.''
      | Some a \<Rightarrow>
          if appr_test_plan a = [] then Some ''Linked approval has no validation commands.''
          else if length (appr_test_plan a) > vp_max_validation_commands p then
            Some (''Too many validation commands: '' @ nat_digits (length (appr_test_plan a)) @ '' > '' @
              nat_digits (vp_max_validation_commands p))
          else check_commands p [] (appr_test_plan a))"

definition allowed_prefix_for :: "ValidationExecutionPolicy \<Rightarrow> string \<Rightarrow> string" where
  "allowed_prefix_for p command =
     (case find (has_prefix (py_strip command)) (vp_allowed_command_prefixes p) of
        None \<Rightarrow> ''UNKNOWN'' | Some prefix \<Rightarrow> prefix)"

definition allowed_prefix_for_command :: "string \<Rightarrow> string" where
  "allowed_prefix_for_command command = allowed_prefix_for get_validation_execution_policy command"

section \<open>The dry run\<close>

record ValidationCommandPlanItem =
  vci_command :: string
  vci_allowed_prefix :: string
  vci_policy_version :: string

definition validation_plan_items ::
    "ValidationExecutionPolicy \<Rightarrow> ApprovalRequest \<Rightarrow> ValidationCommandPlanItem list" where
  "validation_plan_items p approval =
     map (\<lambda>command. \<lparr>vci_command = py_strip command, vci_allowed_prefix = allowed_prefix_for p command,
        vci_policy_version = vp_policy_version p\<rparr>) (appr_test_plan approval)"

definition command_item_json :: "ValidationCommandPlanItem \<Rightarrow> json" where
  "command_item_json item =
     JObj [(''command'', JStr (vci_command item)), (''allowed_prefix'', JStr (vci_allowed_prefix item)),
           (''policy_version'', JStr (vci_policy_version item))]"

record AgentWorkerValidationPlanResult =
  vpr_success :: bool
  vpr_task_id :: "string option"
  vpr_approval_request_id :: "string option"
  vpr_worker_id :: string
  vpr_lease_token :: "string option"
  vpr_command_count :: nat
  vpr_commands :: "ValidationCommandPlanItem list"
  vpr_event_id :: "string option"
  vpr_final_status :: "AgentTaskStatus option"
  vpr_reason :: string

definition validation_plan_refusal :: "string \<Rightarrow> string \<Rightarrow> AgentWorkerValidationPlanResult" where
  "validation_plan_refusal worker_id reason =
     \<lparr>vpr_success = False, vpr_task_id = None, vpr_approval_request_id = None, vpr_worker_id = worker_id,
      vpr_lease_token = None, vpr_command_count = 0, vpr_commands = [], vpr_event_id = None,
      vpr_final_status = None, vpr_reason = reason\<rparr>"

definition append_validation_plan_event ::
    "env \<Rightarrow> AgentTask \<Rightarrow> ApprovalRequest \<Rightarrow> string \<Rightarrow> string option \<Rightarrow> ValidationCommandPlanItem list \<Rightarrow>
     ValidationExecutionPolicy \<Rightarrow> sys \<Rightarrow> AgentTaskEvent \<times> sys" where
  "append_validation_plan_event E task approval worker_id lease_token items p s =
     worker_note E task AgentTaskEventType.TESTS_STARTED
       ''Worker dry-run planned validation commands. No commands were executed.'' worker_id
       ([(''dry_run'', JBool True)] @ lease_details worker_id lease_token @
        [(''approval_request_id'', JStr (appr_id approval)), (''command_count'', JInt (int (length items))),
         (''commands'', JList (map command_item_json items)), (''commands_executed'', JBool False),
         (''plan_type'', JStr ''validation_command_dry_run''),
         (''validation_policy'', JObj (validation_policy_metadata p))]) s"

definition run_agent_worker_validation_plan_dry_run ::
    "env \<Rightarrow> string option \<Rightarrow> bool \<Rightarrow> string \<Rightarrow> int \<Rightarrow> sys \<Rightarrow> AgentWorkerValidationPlanResult \<times> sys" where
  "run_agent_worker_validation_plan_dry_run E tid first_approved worker_id lease_seconds s =
     (if \<not> truthy tid \<and> \<not> first_approved then (validation_plan_refusal worker_id PROVIDE_TASK, s)
      else
        let (claim, s) = take_task E tid first_approved worker_id lease_seconds s
        in case (cl_success claim, cl_task claim) of
             (True, Some task) \<Rightarrow>
               let lease = cl_lease_token claim;
                   approval = linked_approval task s;
                   p = get_validation_execution_policy;
                   policy = (''validation_policy'', JObj (validation_policy_metadata p));
                   result = (validation_plan_refusal worker_id [])\<lparr>vpr_task_id := Some (task_id task),
                     vpr_approval_request_id := task_approval_request_id task, vpr_lease_token := lease\<rparr>
               in (case (validate_validation_plan p approval, approval) of
                     (None, Some a) \<Rightarrow>
                       let items = validation_plan_items p a;
                           (ev, s) = append_validation_plan_event E task a worker_id lease items p s;
                           (task, s) = close_worker E ''agent_worker.validation_plan_dry_run_completed''
                             (lease_details worker_id lease @
                              [(''approval_request_id'', JStr (appr_id a)),
                               (''command_count'', JInt (int (length items))), (''commands_executed'', JBool False),
                               policy]) task lease worker_id s
                       in (result\<lparr>vpr_success := True, vpr_approval_request_id := Some (appr_id a),
                             vpr_command_count := length items, vpr_commands := items,
                             vpr_event_id := Some (te_id ev), vpr_final_status := Some (task_status task),
                             vpr_reason := ''Validation command dry-run plan completed. No commands executed.''\<rparr>, s)
                   | (e, _) \<Rightarrow>
                       let (task, s) = close_worker E ''agent_worker.validation_plan_refused''
                             (lease_details worker_id lease @ [(''reason'', json_opt_str e), policy])
                             task lease worker_id s
                       in (result\<lparr>vpr_final_status := Some (task_status task), vpr_reason := opt_str e\<rparr>, s))
           | (_, task) \<Rightarrow>
               ((validation_plan_refusal worker_id (cl_reason claim))
                  \<lparr>vpr_task_id := cl_task_id claim, vpr_lease_token := cl_lease_token claim,
                   vpr_final_status := map_option task_status task\<rparr>, s))"

section \<open>The container\<close>

record ContainerExecutionPolicy =
  ce_policy_version :: string
  ce_image :: string
  ce_allowed_images :: "string list"
  ce_workdir :: string
  ce_network_mode :: string
  ce_allowed_network_modes :: "string list"
  ce_memory_limit_mb :: int
  ce_min_memory_limit_mb :: int
  ce_max_memory_limit_mb :: int
  ce_cpu_limit :: rat
  ce_min_cpu_limit :: rat
  ce_max_cpu_limit :: rat
  ce_timeout_seconds :: int
  ce_min_timeout_seconds :: int
  ce_max_timeout_seconds :: int
  ce_read_only_rootfs :: bool
  ce_drop_all_capabilities :: bool
  ce_no_new_privileges :: bool
  ce_workspace_mount_mode :: string
  ce_docker_socket_mount_allowed :: bool
  ce_host_network_allowed :: bool
  ce_privileged_allowed :: bool

definition get_default_container_execution_policy :: ContainerExecutionPolicy where
  "get_default_container_execution_policy =
     \<lparr>ce_policy_version = ''aixion-container-execution-policy-v1'', ce_image = ''python:3.12-slim'',
      ce_allowed_images = [''python:3.12-slim'', ''node:20-bookworm-slim'', ''gradle:8.7-jdk17''],
      ce_workdir = ''/workspace/repo'', ce_network_mode = ''none'', ce_allowed_network_modes = [''none''],
      ce_memory_limit_mb = 1024, ce_min_memory_limit_mb = 128, ce_max_memory_limit_mb = 4096,
      ce_cpu_limit = 1, ce_min_cpu_limit = 1 / 4, ce_max_cpu_limit = 4, ce_timeout_seconds = 300,
      ce_min_timeout_seconds = 30, ce_max_timeout_seconds = 1800, ce_read_only_rootfs = True,
      ce_drop_all_capabilities = True, ce_no_new_privileges = True, ce_workspace_mount_mode = ''rw'',
      ce_docker_socket_mount_allowed = False, ce_host_network_allowed = False,
      ce_privileged_allowed = False\<rparr>"

definition container_policy_metadata :: "ContainerExecutionPolicy \<Rightarrow> jdict" where
  "container_policy_metadata p =
     [(''policy_version'', JStr (ce_policy_version p)), (''image'', JStr (ce_image p)),
      (''allowed_images'', json_strs (ce_allowed_images p)), (''workdir'', JStr (ce_workdir p)),
      (''network_mode'', JStr (ce_network_mode p)),
      (''allowed_network_modes'', json_strs (ce_allowed_network_modes p)),
      (''memory_limit_mb'', JInt (ce_memory_limit_mb p)), (''min_memory_limit_mb'', JInt (ce_min_memory_limit_mb p)),
      (''max_memory_limit_mb'', JInt (ce_max_memory_limit_mb p)), (''cpu_limit'', JNum (ce_cpu_limit p)),
      (''min_cpu_limit'', JNum (ce_min_cpu_limit p)), (''max_cpu_limit'', JNum (ce_max_cpu_limit p)),
      (''timeout_seconds'', JInt (ce_timeout_seconds p)),
      (''min_timeout_seconds'', JInt (ce_min_timeout_seconds p)),
      (''max_timeout_seconds'', JInt (ce_max_timeout_seconds p)),
      (''read_only_rootfs'', JBool (ce_read_only_rootfs p)),
      (''drop_all_capabilities'', JBool (ce_drop_all_capabilities p)),
      (''no_new_privileges'', JBool (ce_no_new_privileges p)),
      (''workspace_mount_mode'', JStr (ce_workspace_mount_mode p)),
      (''docker_socket_mount_allowed'', JBool (ce_docker_socket_mount_allowed p)),
      (''host_network_allowed'', JBool (ce_host_network_allowed p)),
      (''privileged_allowed'', JBool (ce_privileged_allowed p))]"

definition validate_container_execution_policy :: "env \<Rightarrow> ContainerExecutionPolicy \<Rightarrow> string option" where
  "validate_container_execution_policy E p =
     (if ce_image p \<notin> set (ce_allowed_images p) then
        Some (''Container image is not allowlisted: '' @ ce_image p)
      else if \<not> py_startswith (ce_workdir p) ''/workspace/'' then
        Some (''Container workdir must stay under /workspace: '' @ ce_workdir p)
      else if ce_network_mode p \<notin> set (ce_allowed_network_modes p) then
        Some (''Container network mode is not allowlisted: '' @ ce_network_mode p)
      else if ce_memory_limit_mb p < ce_min_memory_limit_mb p then
        Some (''Container memory limit too low: '' @ int_str (ce_memory_limit_mb p))
      else if ce_memory_limit_mb p > ce_max_memory_limit_mb p then
        Some (''Container memory limit too high: '' @ int_str (ce_memory_limit_mb p))
      else if ce_cpu_limit p < ce_min_cpu_limit p then
        Some (''Container CPU limit too low: '' @ float_repr E (ce_cpu_limit p))
      else if ce_cpu_limit p > ce_max_cpu_limit p then
        Some (''Container CPU limit too high: '' @ float_repr E (ce_cpu_limit p))
      else if ce_timeout_seconds p < ce_min_timeout_seconds p then
        Some (''Container timeout too low: '' @ int_str (ce_timeout_seconds p))
      else if ce_timeout_seconds p > ce_max_timeout_seconds p then
        Some (''Container timeout too high: '' @ int_str (ce_timeout_seconds p))
      else if \<not> ce_read_only_rootfs p then Some ''Container root filesystem must be read-only.''
      else if \<not> ce_drop_all_capabilities p then Some ''Container must drop all Linux capabilities.''
      else if \<not> ce_no_new_privileges p then Some ''Container must enforce no-new-privileges.''
      else if ce_workspace_mount_mode p \<notin> set [''rw'', ''ro''] then
        Some (''Container workspace mount mode is invalid: '' @ ce_workspace_mount_mode p)
      else if ce_docker_socket_mount_allowed p then Some ''Container policy must not allow Docker socket mounts.''
      else if ce_host_network_allowed p then Some ''Container policy must not allow host networking.''
      else if ce_privileged_allowed p then Some ''Container policy must not allow privileged mode.''
      else None)"

record ContainerExecutionPlanResult =
  cer_success :: bool
  cer_task_id :: "string option"
  cer_worker_id :: string
  cer_lease_token :: "string option"
  cer_policy :: "ContainerExecutionPolicy option"
  cer_event_id :: "string option"
  cer_final_status :: "AgentTaskStatus option"
  cer_reason :: string

definition container_plan_refusal ::
    "string \<Rightarrow> ContainerExecutionPolicy option \<Rightarrow> string \<Rightarrow> ContainerExecutionPlanResult" where
  "container_plan_refusal worker_id policy reason =
     \<lparr>cer_success = False, cer_task_id = None, cer_worker_id = worker_id, cer_lease_token = None,
      cer_policy = policy, cer_event_id = None, cer_final_status = None, cer_reason = reason\<rparr>"

definition append_container_plan_event ::
    "env \<Rightarrow> AgentTask \<Rightarrow> string \<Rightarrow> string option \<Rightarrow> ContainerExecutionPolicy \<Rightarrow> sys \<Rightarrow> AgentTaskEvent \<times> sys" where
  "append_container_plan_event E task worker_id lease_token p s =
     worker_note E task AgentTaskEventType.NOTE
       ''Worker planned container execution policy. No container was started.'' worker_id
       ([(''dry_run'', JBool True)] @ lease_details worker_id lease_token @
        [(''container_execution_planned'', JBool True), (''container_started'', JBool False),
         (''container_policy'', JObj (container_policy_metadata p)),
         (''plan_type'', JStr ''container_execution_policy_dry_run'')]) s"

definition run_agent_worker_container_execution_plan_dry_run ::
    "env \<Rightarrow> string option \<Rightarrow> bool \<Rightarrow> string \<Rightarrow> int \<Rightarrow> ContainerExecutionPolicy option \<Rightarrow> sys \<Rightarrow>
     ContainerExecutionPlanResult \<times> sys" where
  "run_agent_worker_container_execution_plan_dry_run E tid first_approved worker_id lease_seconds policy s =
     (if \<not> truthy tid \<and> \<not> first_approved then (container_plan_refusal worker_id None PROVIDE_TASK, s)
      else
        let p = (case policy of None \<Rightarrow> get_default_container_execution_policy | Some p \<Rightarrow> p)
        in case validate_container_execution_policy E p of
             Some e \<Rightarrow> (container_plan_refusal worker_id (Some p) e, s)
           | None \<Rightarrow>
               let (claim, s) = take_task E tid first_approved worker_id lease_seconds s
               in (case (cl_success claim, cl_task claim) of
                     (True, Some task) \<Rightarrow>
                       let lease = cl_lease_token claim;
                           (ev, s) = append_container_plan_event E task worker_id lease p s;
                           (task, s) = close_worker E ''agent_worker.container_execution_plan_completed''
                             (lease_details worker_id lease @
                              [(''container_started'', JBool False),
                               (''container_policy'', JObj (container_policy_metadata p))]) task lease worker_id s
                       in (\<lparr>cer_success = True, cer_task_id = Some (task_id task), cer_worker_id = worker_id,
                             cer_lease_token = lease, cer_policy = Some p, cer_event_id = Some (te_id ev),
                             cer_final_status = Some (task_status task),
                             cer_reason = ''Container execution dry-run plan completed. No container started.''\<rparr>, s)
                   | (_, task) \<Rightarrow>
                       ((container_plan_refusal worker_id (Some p) (cl_reason claim))
                          \<lparr>cer_task_id := cl_task_id claim, cer_lease_token := cl_lease_token claim,
                           cer_final_status := map_option task_status task\<rparr>, s)))"

end
