(* ===== verification/WorkerGitHub.thy ===== *)
theory WorkerGitHub
  imports WorkerPlans
begin

text \<open>
  \<open>agent_worker_github_branch.py\<close>, \<open>agent_worker_github_files.py\<close> and \<open>agent_worker_github_pr.py\<close>: the
  workers that create the branch of a task, commit the approved files to it and open the pull request,
  with the REST clients they use. Every exception inside the \<open>try\<close> of a worker becomes a failure with
  its text; the clients are made before it, so a missing token raises.
\<close>

definition GITHUB_API_BASE_URL :: string where "GITHUB_API_BASE_URL = ''https://api.github.com''"

section \<open>The REST clients\<close>

definition http_error :: "string \<Rightarrow> HttpReply \<Rightarrow> string" where
  "http_error what r = what @ '': '' @ int_str (hr_status r) @ '' '' @ take 300 (hr_text r)"

definition repo_url :: "string \<Rightarrow> string \<Rightarrow> string" where
  "repo_url repository rest = GITHUB_API_BASE_URL @ ''/repos/'' @ repository @ rest"

definition ref_url :: "string \<Rightarrow> string \<Rightarrow> string" where
  "ref_url repository branch = repo_url repository (''/git/ref/heads/'' @ branch)"

definition http_get :: "string \<Rightarrow> (string, string) dict \<Rightarrow> HttpRequest" where
  "http_get url params = \<lparr>rq_method = ''GET'', rq_url = url, rq_params = params, rq_json = JNull\<rparr>"

definition http_send :: "string \<Rightarrow> string \<Rightarrow> jdict \<Rightarrow> HttpRequest" where
  "http_send verb url body = \<lparr>rq_method = verb, rq_url = url, rq_params = [], rq_json = JObj body\<rparr>"

text \<open>\<open>v.get(k, d)\<close> and \<open>v[k]\<close>: a value that is not an object has no \<open>get\<close>.\<close>

definition json_type_name :: "json \<Rightarrow> string" where
  "json_type_name v =
     (case v of JNull \<Rightarrow> ''NoneType'' | JBool _ \<Rightarrow> ''bool'' | JInt _ \<Rightarrow> ''int'' | JNum _ \<Rightarrow> ''float''
      | JList _ \<Rightarrow> ''list'' | JObj _ \<Rightarrow> ''dict'' | _ \<Rightarrow> ''str'')"

definition quoted :: "string \<Rightarrow> string" where
  "quoted t = [CHR 0x27] @ t @ [CHR 0x27]"

definition payload_get :: "json \<Rightarrow> string \<Rightarrow> json \<Rightarrow> string + json" where
  "payload_get v k d =
     (case v of
        JObj o' \<Rightarrow> Inr (case dict_get o' k of None \<Rightarrow> d | Some x \<Rightarrow> x)
      | _ \<Rightarrow> Inl (quoted (json_type_name v) @ '' object has no attribute '' @ quoted ''get''))"

definition json_index :: "json \<Rightarrow> string \<Rightarrow> string + json" where
  "json_index v k =
     (case v of
        JObj o' \<Rightarrow> (case dict_get o' k of None \<Rightarrow> Inl (quoted k) | Some x \<Rightarrow> Inr x)
      | JList _ \<Rightarrow> Inl ''list indices must be integers or slices, not str''
      | JStr _ \<Rightarrow> Inl ''string indices must be integers, not str''
      | _ \<Rightarrow> Inl (quoted (json_type_name v) @ '' object is not subscriptable''))"

subsection \<open>Branches\<close>

definition github_branch_exists :: "world \<Rightarrow> string \<Rightarrow> string \<Rightarrow> outside list \<Rightarrow> bool asked" where
  "github_branch_exists W repository branch w =
     bindE (ask W (http_get (ref_url repository branch) []) w) (\<lambda>r w.
       if hr_status r = 200 then ret True w
       else if hr_status r = 404 then ret False w
       else raise (http_error ''GitHub branch existence check failed'' r) w)"

definition get_branch_sha :: "env \<Rightarrow> world \<Rightarrow> string \<Rightarrow> string \<Rightarrow> outside list \<Rightarrow> string asked" where
  "get_branch_sha E W repository branch w =
     bindE (ask W (http_get (ref_url repository branch) []) w) (\<lambda>r w.
       if hr_status r \<noteq> 200 then raise (http_error ''GitHub source branch lookup failed'' r) w
       else liftE (sum_then (hr_json r) (\<lambda>payload.
            sum_then (payload_get payload ''object'' (JObj [])) (\<lambda>obj. payload_get obj ''sha'' JNull))) (\<lambda>sha w.
         if \<not> json_truthy sha then raise ''GitHub source branch response did not include object.sha'' w
         else ret (py_str E sha) w) w)"

record GitHubBranchCreateResult =
  gb_repository :: string
  gb_branch :: string
  gb_source_branch :: string
  gb_source_sha :: string
  gb_branch_created :: bool
  gb_html_url :: string

definition create_branch :: "world \<Rightarrow> string \<Rightarrow> string \<Rightarrow> string \<Rightarrow> outside list \<Rightarrow> GitHubBranchCreateResult asked" where
  "create_branch W repository branch sha w =
     bindE (ask W (http_send ''POST'' (repo_url repository ''/git/refs'')
       [(''ref'', JStr (''refs/heads/'' @ branch)), (''sha'', JStr sha)]) w) (\<lambda>r w.
       if hr_status r \<notin> {200, 201} then raise (http_error ''GitHub branch creation failed'' r) w
       else ret \<lparr>gb_repository = repository, gb_branch = branch, gb_source_branch = ''main'',
         gb_source_sha = sha, gb_branch_created = True,
         gb_html_url = ''https://github.com/'' @ repository @ ''/tree/'' @ branch\<rparr> w)"

subsection \<open>Files\<close>

definition contents_url :: "string \<Rightarrow> string \<Rightarrow> string" where
  "contents_url repository path = repo_url repository (''/contents/'' @ path)"

definition get_file_sha ::
    "env \<Rightarrow> world \<Rightarrow> string \<Rightarrow> string \<Rightarrow> string \<Rightarrow> outside list \<Rightarrow> string option asked" where
  "get_file_sha E W repository path branch w =
     bindE (ask W (http_get (contents_url repository path) [(''ref'', branch)]) w) (\<lambda>r w.
       if hr_status r = 404 then ret None w
       else if hr_status r \<noteq> 200 then raise (http_error (''GitHub file lookup failed for '' @ path) r) w
       else liftE (hr_json r) (\<lambda>payload w.
         liftE (payload_get payload ''type'' JNull) (\<lambda>kind w.
           if kind \<noteq> JStr ''file'' then raise (''GitHub path is not a file: '' @ path) w
           else liftE (payload_get payload ''sha'' JNull) (\<lambda>sha w.
             if \<not> json_truthy sha then raise (''GitHub file response missing sha for '' @ path) w
             else ret (Some (py_str E sha)) w) w) w) w)"

text \<open>
  \<open>base64.b64encode\<close>, which the client uses for the content: three bytes become four digits, and the
  last group is filled with equals signs. The characters of a string are the bytes of its UTF-8 form.
\<close>

definition b64_digit :: "nat \<Rightarrow> char" where
  "b64_digit n =
     (if n < 26 then char_of (65 + n) else if n < 52 then char_of (71 + n) else if n < 62 then char_of (n - 4)
      else if n = 62 then CHR ''+'' else CHR ''/'')"

fun b64encode :: "string \<Rightarrow> string" where
  "b64encode [] = []"
| "b64encode [a] =
     (let n = (of_char a :: nat) * 16 in [b64_digit (n div 64), b64_digit (n mod 64), CHR ''='', CHR ''=''])"
| "b64encode [a, b] =
     (let n = ((of_char a :: nat) * 256 + of_char b) * 4
      in [b64_digit (n div 4096), b64_digit (n div 64 mod 64), b64_digit (n mod 64), CHR ''=''])"
| "b64encode (a # b # c # rest) =
     (let n = ((of_char a :: nat) * 256 + of_char b) * 256 + of_char c
      in [b64_digit (n div 262144), b64_digit (n div 4096 mod 64), b64_digit (n div 64 mod 64), b64_digit (n mod 64)] @
         b64encode rest)"

definition commit_sha_of :: "env \<Rightarrow> string \<Rightarrow> HttpReply \<Rightarrow> outside list \<Rightarrow> string asked" where
  "commit_sha_of E missing r w =
     liftE (sum_then (hr_json r) (\<lambda>payload.
         sum_then (payload_get payload ''commit'' (JObj [])) (\<lambda>commit. payload_get commit ''sha'' JNull))) (\<lambda>sha w.
       if \<not> json_truthy sha then raise missing w else ret (py_str E sha) w) w"

definition create_or_update_file ::
    "env \<Rightarrow> world \<Rightarrow> string \<Rightarrow> string \<Rightarrow> string \<Rightarrow> string \<Rightarrow> string \<Rightarrow> string option \<Rightarrow> outside list \<Rightarrow> string asked" where
  "create_or_update_file E W repository path branch content message sha w =
     bindE (ask W (http_send ''PUT'' (contents_url repository path)
       ([(''message'', JStr message), (''content'', JStr (b64encode content)), (''branch'', JStr branch)] @
        (if truthy sha then [(''sha'', JStr (opt_str sha))] else []))) w) (\<lambda>r w.
       if hr_status r \<notin> {200, 201} then raise (http_error (''GitHub file write failed for '' @ path) r) w
       else commit_sha_of E (''GitHub file write response missing commit sha for '' @ path) r w)"

definition delete_file ::
    "env \<Rightarrow> world \<Rightarrow> string \<Rightarrow> string \<Rightarrow> string \<Rightarrow> string \<Rightarrow> string \<Rightarrow> outside list \<Rightarrow> string asked" where
  "delete_file E W repository path branch message sha w =
     bindE (ask W (http_send ''DELETE'' (contents_url repository path)
       [(''message'', JStr message), (''sha'', JStr sha), (''branch'', JStr branch)]) w) (\<lambda>r w.
       if hr_status r \<noteq> 200 then raise (http_error (''GitHub file delete failed for '' @ path) r) w
       else commit_sha_of E (''GitHub file delete response missing commit sha for '' @ path) r w)"

subsection \<open>Pull requests\<close>

record GitHubPullRequestCreateResult =
  gp_repository :: string
  gp_number :: int
  gp_title :: string
  gp_head_branch :: string
  gp_base_branch :: string
  gp_html_url :: string

definition open_pull_request_exists ::
    "world \<Rightarrow> string \<Rightarrow> string \<Rightarrow> string \<Rightarrow> outside list \<Rightarrow> bool asked" where
  "open_pull_request_exists W repository head base w =
     bindE (ask W (http_get (repo_url repository ''/pulls'')
       [(''state'', ''open''), (''head'', takeWhile (\<lambda>c. c \<noteq> CHR ''/'') repository @ '':'' @ head), (''base'', base)]) w)
     (\<lambda>r w.
       if hr_status r \<noteq> 200 then raise (http_error ''GitHub open PR lookup failed'' r) w
       else liftE (hr_json r) (\<lambda>payload. ret (json_truthy payload)) w)"

definition int_of_json :: "json \<Rightarrow> string + int" where
  "int_of_json v =
     (case v of
        JInt i \<Rightarrow> Inr i
      | JBool b \<Rightarrow> Inr (if b then 1 else 0)
      | JNum q \<Rightarrow> Inr (if q < 0 then \<lceil>q\<rceil> else \<lfloor>q\<rfloor>)
      | JStr t \<Rightarrow> Inl (''invalid literal for int() with base 10: '' @ quoted t)
      | _ \<Rightarrow> Inl (''int() argument must be a string, a bytes-like object or a real number, not '' @
               quoted (json_type_name v)))"

definition create_pull_request ::
    "env \<Rightarrow> world \<Rightarrow> string \<Rightarrow> string \<Rightarrow> string \<Rightarrow> string \<Rightarrow> string \<Rightarrow> outside list \<Rightarrow>
     GitHubPullRequestCreateResult asked" where
  "create_pull_request E W repository title body head base w =
     bindE (ask W (http_send ''POST'' (repo_url repository ''/pulls'')
       [(''title'', JStr title), (''body'', JStr body), (''head'', JStr head), (''base'', JStr base)]) w) (\<lambda>r w.
       if hr_status r \<notin> {200, 201} then raise (http_error ''GitHub PR creation failed'' r) w
       else liftE (sum_then (hr_json r) (\<lambda>payload.
           sum_then (sum_then (json_index payload ''number'') int_of_json) (\<lambda>number.
           sum_then (json_index payload ''title'') (\<lambda>title.
           sum_then (json_index payload ''html_url'') (\<lambda>url.
             Inr \<lparr>gp_repository = repository, gp_number = number, gp_title = py_str E title,
               gp_head_branch = head, gp_base_branch = base, gp_html_url = py_str E url\<rparr>))))) ret w)"

section \<open>Creating the branch\<close>

record AgentWorkerGitHubBranchResult =
  wb_success :: bool
  wb_task_id :: "string option"
  wb_worker_id :: string
  wb_lease_token :: "string option"
  wb_repository :: "string option"
  wb_branch :: "string option"
  wb_source_branch :: string
  wb_source_sha :: "string option"
  wb_branch_created :: bool
  wb_branch_url :: "string option"
  wb_event_id :: "string option"
  wb_final_status :: "AgentTaskStatus option"
  wb_reason :: string

definition branch_refusal :: "string \<Rightarrow> string \<Rightarrow> string \<Rightarrow> AgentWorkerGitHubBranchResult" where
  "branch_refusal worker_id source reason =
     \<lparr>wb_success = False, wb_task_id = None, wb_worker_id = worker_id, wb_lease_token = None,
      wb_repository = None, wb_branch = None, wb_source_branch = source, wb_source_sha = None,
      wb_branch_created = False, wb_branch_url = None, wb_event_id = None, wb_final_status = None,
      wb_reason = reason\<rparr>"

definition append_branch_created_event ::
    "env \<Rightarrow> AgentTask \<Rightarrow> string \<Rightarrow> string option \<Rightarrow> GitHubBranchCreateResult \<Rightarrow> sys \<Rightarrow> AgentTaskEvent \<times> sys" where
  "append_branch_created_event E task worker_id lease_token r s =
     worker_note E task AgentTaskEventType.NOTE
       ''Worker created a safe GitHub feature branch. No files, commits, or pull requests were created.'' worker_id
       (lease_details worker_id lease_token @
        [(''repository'', JStr (gb_repository r)), (''branch'', JStr (gb_branch r)),
         (''source_branch'', JStr (gb_source_branch r)), (''source_sha'', JStr (gb_source_sha r)),
         (''branch_created'', JBool (gb_branch_created r)), (''branch_url'', JStr (gb_html_url r)),
         (''repository_mutated'', JBool True), (''files_written'', JBool False),
         (''commits_created'', JBool False), (''pull_request_opened'', JBool False),
         (''operation_type'', JStr ''github_branch_creation'')]) s"

definition require_new_branch ::
    "env \<Rightarrow> world \<Rightarrow> string \<Rightarrow> string \<Rightarrow> string \<Rightarrow> outside list \<Rightarrow> GitHubBranchCreateResult asked" where
  "require_new_branch E W repository branch source w =
     bindE (github_branch_exists W repository branch w) (\<lambda>exists w.
       if exists then raise (''Target branch already exists: '' @ branch) w
       else bindE (get_branch_sha E W repository source w) (\<lambda>sha w.
            bindE (create_branch W repository branch sha w) (\<lambda>created.
              ret (created\<lparr>gb_source_branch := source\<rparr>))))"

definition no_token :: "string \<Rightarrow> pyerror" where
  "no_token what = RuntimeError (''GITHUB_TOKEN is required for GitHub '' @ what)"

definition branch_worker ::
    "env \<Rightarrow> world \<Rightarrow> string \<Rightarrow> string \<Rightarrow> string option \<Rightarrow> AgentTask \<Rightarrow> wsys \<Rightarrow>
     (pyerror, AgentWorkerGitHubBranchResult, wsys) outcome" where
  "branch_worker E W worker_id source lease task st =
     (let (s, w) = st;
          branch = planned_branch_for_task task;
          repository = opt_str (task_repository task);
          result = (branch_refusal worker_id source [])\<lparr>wb_task_id := Some (task_id task),
            wb_lease_token := lease, wb_repository := task_repository task, wb_branch := Some branch\<rparr>
      in case validate_branch_plan task of
           Some e \<Rightarrow>
             let (task, s) = close_worker E ''agent_worker.github_branch_refused''
                   (lease_details worker_id lease @ [(''reason'', JStr e)]) task lease worker_id s
             in ret (result\<lparr>wb_final_status := Some (task_status task), wb_reason := e\<rparr>) (s, w)
         | None \<Rightarrow>
             if py_strip (github_token W) = [] then raise (no_token ''branch creation'') (s, w)
             else (case require_new_branch E W repository branch source w of
               (Inl e, w) \<Rightarrow>
                 let (task, s) = close_worker E ''agent_worker.github_branch_failed''
                       (lease_details worker_id lease @
                        [(''repository'', json_opt_str (task_repository task)), (''branch'', JStr branch),
                         (''source_branch'', JStr source), (''reason'', JStr e)]) task lease worker_id s
                 in ret (result\<lparr>wb_final_status := Some (task_status task), wb_reason := e\<rparr>) (s, w)
             | (Inr created, w) \<Rightarrow>
                 let (ev, s) = append_branch_created_event E task worker_id lease created s;
                     (task, s) = close_worker E ''agent_worker.github_branch_created''
                       (lease_details worker_id lease @
                        [(''repository'', JStr (gb_repository created)), (''branch'', JStr (gb_branch created)),
                         (''source_branch'', JStr (gb_source_branch created)),
                         (''source_sha'', JStr (gb_source_sha created)),
                         (''branch_url'', JStr (gb_html_url created))]) task lease worker_id s
                 in ret (result\<lparr>wb_success := True, wb_repository := Some (gb_repository created),
                      wb_branch := Some (gb_branch created), wb_source_branch := gb_source_branch created,
                      wb_source_sha := Some (gb_source_sha created), wb_branch_created := True,
                      wb_branch_url := Some (gb_html_url created), wb_event_id := Some (te_id ev),
                      wb_final_status := Some (task_status task),
                      wb_reason := ''GitHub feature branch created. No files, commits, or pull requests created.''\<rparr>)
                    (s, w)))"

definition run_agent_worker_github_branch_creation ::
    "env \<Rightarrow> world \<Rightarrow> string option \<Rightarrow> bool \<Rightarrow> string \<Rightarrow> int \<Rightarrow> string \<Rightarrow> wsys \<Rightarrow>
     (pyerror, AgentWorkerGitHubBranchResult, wsys) outcome" where
  "run_agent_worker_github_branch_creation E W tid first_approved worker_id lease_seconds source st =
     (let (s, w) = st in
      if \<not> truthy tid \<and> \<not> first_approved then ret (branch_refusal worker_id source PROVIDE_TASK) (s, w)
      else
        let (claim, s) = take_task E tid first_approved worker_id lease_seconds s
        in case (cl_success claim, cl_task claim) of
             (True, Some task) \<Rightarrow> branch_worker E W worker_id source (cl_lease_token claim) task (s, w)
           | (_, task) \<Rightarrow>
               ret ((branch_refusal worker_id source (cl_reason claim))
                  \<lparr>wb_task_id := cl_task_id claim, wb_lease_token := cl_lease_token claim,
                   wb_final_status := map_option task_status task\<rparr>) (s, w))"

section \<open>Committing the files\<close>

record GitHubFileApplyItem =
  gi_path :: string
  gi_change_type :: string
  gi_commit_sha :: string

record GitHubFileApplyResult =
  ga_repository :: string
  ga_branch :: string
  ga_files_written :: nat
  ga_files_deleted :: nat
  ga_commits_created :: nat
  ga_items :: "GitHubFileApplyItem list"

definition commit_message :: "FileChange \<Rightarrow> AgentTask \<Rightarrow> string" where
  "commit_message change task =
     ''Apply approved AgentTask change: '' @ change_type_of change @ '' '' @ py_strip (fc_path change) @
     '' ('' @ task_id task @ '')''"

text \<open>One change: the file is looked up first, and written or deleted with the digest found.\<close>

definition apply_file_change ::
    "env \<Rightarrow> world \<Rightarrow> AgentTask \<Rightarrow> string \<Rightarrow> FileChange \<Rightarrow> outside list \<Rightarrow> GitHubFileApplyItem asked" where
  "apply_file_change E W task branch change w =
     (let repository = opt_str (task_repository task);
          path = py_strip (fc_path change);
          kind = change_type_of change;
          message = commit_message change task
      in bindE (get_file_sha E W repository path branch w) (\<lambda>sha w.
           if kind = ''create'' \<and> sha \<noteq> None then
             raise (''Create refused because file already exists: '' @ path) w
           else if kind \<in> set [''update'', ''delete''] \<and> sha = None then
             raise (py_title kind @ '' refused because file does not exist: '' @ path) w
           else bindE
             (if kind \<in> set [''create'', ''update''] then
                create_or_update_file E W repository path branch (opt_str (fc_new_content change)) message sha w
              else delete_file E W repository path branch message (opt_str sha) w)
             (\<lambda>commit. ret \<lparr>gi_path = path, gi_change_type = kind, gi_commit_sha = commit\<rparr>)))"

text \<open>The changes are applied in order; the first failure ends the loop and what was committed stays.\<close>

fun apply_changes ::
    "env \<Rightarrow> world \<Rightarrow> AgentTask \<Rightarrow> string \<Rightarrow> FileChange list \<Rightarrow> outside list \<Rightarrow> GitHubFileApplyItem list asked" where
  "apply_changes E W task branch [] w = ret [] w"
| "apply_changes E W task branch (change # changes) w =
     bindE (apply_file_change E W task branch change w) (\<lambda>item w.
     bindE (apply_changes E W task branch changes w) (\<lambda>items. ret (item # items)))"

definition apply_file_changes ::
    "env \<Rightarrow> world \<Rightarrow> AgentTask \<Rightarrow> ApprovalRequest \<Rightarrow> string \<Rightarrow> outside list \<Rightarrow> GitHubFileApplyResult asked" where
  "apply_file_changes E W task approval branch w =
     bindE (github_branch_exists W (opt_str (task_repository task)) branch w) (\<lambda>exists w.
       if \<not> exists then raise (''Target branch does not exist: '' @ branch) w
       else bindE (apply_changes E W task branch (appr_files approval) w) (\<lambda>items.
         ret \<lparr>ga_repository = opt_str (task_repository task), ga_branch = branch,
           ga_files_written = length (filter (\<lambda>i. gi_change_type i \<in> set [''create'', ''update'']) items),
           ga_files_deleted = length (filter (\<lambda>i. gi_change_type i \<notin> set [''create'', ''update'']) items),
           ga_commits_created = length items, ga_items = items\<rparr>))"

record AgentWorkerGitHubFilesResult =
  wf_success :: bool
  wf_task_id :: "string option"
  wf_approval_request_id :: "string option"
  wf_worker_id :: string
  wf_lease_token :: "string option"
  wf_repository :: "string option"
  wf_branch :: "string option"
  wf_files_written :: nat
  wf_files_deleted :: nat
  wf_commits_created :: nat
  wf_items :: "GitHubFileApplyItem list"
  wf_event_id :: "string option"
  wf_final_status :: "AgentTaskStatus option"
  wf_reason :: string

definition files_refusal :: "string \<Rightarrow> string \<Rightarrow> AgentWorkerGitHubFilesResult" where
  "files_refusal worker_id reason =
     \<lparr>wf_success = False, wf_task_id = None, wf_approval_request_id = None, wf_worker_id = worker_id,
      wf_lease_token = None, wf_repository = None, wf_branch = None, wf_files_written = 0,
      wf_files_deleted = 0, wf_commits_created = 0, wf_items = [], wf_event_id = None,
      wf_final_status = None, wf_reason = reason\<rparr>"

definition apply_item_json :: "GitHubFileApplyItem \<Rightarrow> json" where
  "apply_item_json i =
     JObj [(''path'', JStr (gi_path i)), (''change_type'', JStr (gi_change_type i)),
           (''commit_sha'', JStr (gi_commit_sha i))]"

definition applied_counts :: "GitHubFileApplyResult \<Rightarrow> jdict" where
  "applied_counts r =
     [(''files_written'', JInt (int (ga_files_written r))), (''files_deleted'', JInt (int (ga_files_deleted r))),
      (''commits_created'', JInt (int (ga_commits_created r)))]"

definition append_files_applied_event ::
    "env \<Rightarrow> AgentTask \<Rightarrow> ApprovalRequest \<Rightarrow> string \<Rightarrow> string option \<Rightarrow> GitHubFileApplyResult \<Rightarrow> sys \<Rightarrow>
     AgentTaskEvent \<times> sys" where
  "append_files_applied_event E task approval worker_id lease_token r s =
     worker_note E task AgentTaskEventType.NOTE
       ''Worker applied approved file changes to the safe feature branch. No pull request was opened.'' worker_id
       (lease_details worker_id lease_token @
        [(''approval_request_id'', JStr (appr_id approval)), (''repository'', JStr (ga_repository r)),
         (''branch'', JStr (ga_branch r))] @ applied_counts r @
        [(''items'', JList (map apply_item_json (ga_items r))), (''repository_mutated'', JBool True),
         (''pull_request_opened'', JBool False), (''operation_type'', JStr ''github_file_application'')]) s"

definition files_worker ::
    "env \<Rightarrow> world \<Rightarrow> string \<Rightarrow> string option \<Rightarrow> AgentTask \<Rightarrow> wsys \<Rightarrow>
     (pyerror, AgentWorkerGitHubFilesResult, wsys) outcome" where
  "files_worker E W worker_id lease task st =
     (let (s, w) = st;
          branch = planned_branch_for_task task;
          approval = linked_approval task s;
          result = (files_refusal worker_id [])\<lparr>wf_task_id := Some (task_id task),
            wf_approval_request_id := task_approval_request_id task, wf_lease_token := lease,
            wf_repository := task_repository task, wf_branch := Some branch\<rparr>;
          failure = (case validate_branch_plan task of Some e \<Rightarrow> Some e | None \<Rightarrow> validate_file_patch_plan approval)
      in case (failure, approval) of
           (None, Some a) \<Rightarrow>
             if py_strip (github_token W) = [] then raise (no_token ''file application'') (s, w)
             else (case apply_file_changes E W task a branch w of
               (Inl e, w) \<Rightarrow>
                 let (task, s) = close_worker E ''agent_worker.github_files_failed''
                       (lease_details worker_id lease @
                        [(''repository'', json_opt_str (task_repository task)), (''branch'', JStr branch),
                         (''reason'', JStr e)]) task lease worker_id s
                 in ret (result\<lparr>wf_approval_request_id := Some (appr_id a),
                      wf_final_status := Some (task_status task), wf_reason := e\<rparr>) (s, w)
             | (Inr applied, w) \<Rightarrow>
                 let (ev, s) = append_files_applied_event E task a worker_id lease applied s;
                     (task, s) = close_worker E ''agent_worker.github_files_applied''
                       (lease_details worker_id lease @
                        [(''approval_request_id'', JStr (appr_id a)), (''repository'', JStr (ga_repository applied)),
                         (''branch'', JStr (ga_branch applied))] @ applied_counts applied) task lease worker_id s
                 in ret (result\<lparr>wf_success := True, wf_approval_request_id := Some (appr_id a),
                      wf_repository := Some (ga_repository applied), wf_branch := Some (ga_branch applied),
                      wf_files_written := ga_files_written applied, wf_files_deleted := ga_files_deleted applied,
                      wf_commits_created := ga_commits_created applied, wf_items := ga_items applied,
                      wf_event_id := Some (te_id ev), wf_final_status := Some (task_status task),
                      wf_reason := ''Approved file changes applied to feature branch. No pull request opened.''\<rparr>)
                    (s, w))
         | (e, _) \<Rightarrow>
             let (task, s) = close_worker E ''agent_worker.github_files_refused''
                   (lease_details worker_id lease @ [(''reason'', json_opt_str e)]) task lease worker_id s
             in ret (result\<lparr>wf_final_status := Some (task_status task), wf_reason := opt_str e\<rparr>) (s, w))"

definition run_agent_worker_github_file_application ::
    "env \<Rightarrow> world \<Rightarrow> string option \<Rightarrow> bool \<Rightarrow> string \<Rightarrow> int \<Rightarrow> wsys \<Rightarrow>
     (pyerror, AgentWorkerGitHubFilesResult, wsys) outcome" where
  "run_agent_worker_github_file_application E W tid first_approved worker_id lease_seconds st =
     (let (s, w) = st in
      if \<not> truthy tid \<and> \<not> first_approved then ret (files_refusal worker_id PROVIDE_TASK) (s, w)
      else
        let (claim, s) = take_task E tid first_approved worker_id lease_seconds s
        in case (cl_success claim, cl_task claim) of
             (True, Some task) \<Rightarrow> files_worker E W worker_id (cl_lease_token claim) task (s, w)
           | (_, task) \<Rightarrow>
               ret ((files_refusal worker_id (cl_reason claim))
                  \<lparr>wf_task_id := cl_task_id claim, wf_lease_token := cl_lease_token claim,
                   wf_final_status := map_option task_status task\<rparr>) (s, w))"

section \<open>Opening the pull request\<close>

record AgentWorkerGitHubPRResult =
  wp_pr_success :: bool
  wp_pr_task_id :: "string option"
  wp_pr_approval_request_id :: "string option"
  wp_pr_worker_id :: string
  wp_pr_lease_token :: "string option"
  wp_pr_repository :: "string option"
  wp_pr_head_branch :: "string option"
  wp_pr_base_branch :: string
  wp_pr_number :: "int option"
  wp_pr_url :: "string option"
  wp_pr_event_id :: "string option"
  wp_pr_final_status :: "AgentTaskStatus option"
  wp_pr_reason :: string

definition pr_refusal :: "string \<Rightarrow> string \<Rightarrow> string \<Rightarrow> AgentWorkerGitHubPRResult" where
  "pr_refusal worker_id base reason =
     \<lparr>wp_pr_success = False, wp_pr_task_id = None, wp_pr_approval_request_id = None, wp_pr_worker_id = worker_id,
      wp_pr_lease_token = None, wp_pr_repository = None, wp_pr_head_branch = None, wp_pr_base_branch = base,
      wp_pr_number = None, wp_pr_url = None, wp_pr_event_id = None, wp_pr_final_status = None,
      wp_pr_reason = reason\<rparr>"

definition pull_request_title :: "AgentTask \<Rightarrow> ApprovalRequest option \<Rightarrow> string" where
  "pull_request_title task approval =
     (case approval of
        Some a \<Rightarrow> if py_strip (appr_title a) \<noteq> [] then py_strip (appr_title a) else ''AgentTask: '' @ task_title task
      | None \<Rightarrow> ''AgentTask: '' @ task_title task)"

definition pr_approval_id :: "AgentTask \<Rightarrow> ApprovalRequest option \<Rightarrow> string option" where
  "pr_approval_id task approval =
     (case approval of Some a \<Rightarrow> Some (appr_id a) | None \<Rightarrow> task_approval_request_id task)"

definition backticked :: "string \<Rightarrow> string" where
  "backticked t = [CHR 0x60] @ t @ [CHR 0x60]"

definition pull_request_body :: "AgentTask \<Rightarrow> ApprovalRequest option \<Rightarrow> string" where
  "pull_request_body task approval =
     py_join [CHR 0x0A]
       [''## Aixion worker PR'', [],
        ''AgentTask: '' @ backticked (task_id task),
        ''ApprovalRequest: '' @ backticked (case pr_approval_id task approval of None \<Rightarrow> ''None'' | Some i \<Rightarrow> i),
        ''Provider: '' @ backticked (AgentProvider_value (task_provider task)), [],
        ''This PR was opened by the Aixion worker after mobile/operator approval.'', [],
        ''Scope:'', ''- Opens review PR only'', ''- Does not merge'', ''- Does not approve its own work'',
        ''- Keeps audit evidence in the AgentTask timeline'']"

text \<open>The task is ready for review; its event carries the new status.\<close>

definition append_pr_created_event ::
    "env \<Rightarrow> AgentTask \<Rightarrow> ApprovalRequest option \<Rightarrow> string \<Rightarrow> string option \<Rightarrow> GitHubPullRequestCreateResult \<Rightarrow>
     sys \<Rightarrow> (AgentTaskEvent \<times> AgentTask) \<times> sys" where
  "append_pr_created_event E task approval worker_id lease_token pr s =
     (let (task, s) = set_task_status (Some AgentTaskStatus.READY_FOR_PR) task s;
          (ev, s) = worker_note E task AgentTaskEventType.PR_CREATED
            ''Worker opened a GitHub pull request for human review.'' worker_id
            (lease_details worker_id lease_token @
             [(''approval_request_id'', json_opt_str (pr_approval_id task approval)),
              (''repository'', JStr (gp_repository pr)), (''head_branch'', JStr (gp_head_branch pr)),
              (''base_branch'', JStr (gp_base_branch pr)), (''pull_request_number'', JInt (gp_number pr)),
              (''pull_request_url'', JStr (gp_html_url pr)), (''pull_request_opened'', JBool True),
              (''merged'', JBool False), (''operation_type'', JStr ''github_pull_request_creation'')]) s
      in ((ev, task), s))"

definition open_new_pull_request ::
    "env \<Rightarrow> world \<Rightarrow> AgentTask \<Rightarrow> ApprovalRequest option \<Rightarrow> string \<Rightarrow> string \<Rightarrow> outside list \<Rightarrow>
     GitHubPullRequestCreateResult asked" where
  "open_new_pull_request E W task approval head base w =
     (let repository = opt_str (task_repository task)
      in bindE (github_branch_exists W repository head w) (\<lambda>exists w.
           if \<not> exists then raise (''Head branch does not exist: '' @ head) w
           else bindE (open_pull_request_exists W repository head base w) (\<lambda>opened w.
             if opened then raise (''Open pull request already exists for '' @ head @ '' -> '' @ base) w
             else create_pull_request E W repository (pull_request_title task approval)
                    (pull_request_body task approval) head base w)))"

definition pr_worker ::
    "env \<Rightarrow> world \<Rightarrow> string \<Rightarrow> string \<Rightarrow> string option \<Rightarrow> AgentTask \<Rightarrow> wsys \<Rightarrow>
     (pyerror, AgentWorkerGitHubPRResult, wsys) outcome" where
  "pr_worker E W worker_id base lease task st =
     (let (s, w) = st;
          approval = linked_approval task s;
          head = planned_branch_for_task task;
          result = (pr_refusal worker_id base [])\<lparr>wp_pr_task_id := Some (task_id task),
            wp_pr_approval_request_id := task_approval_request_id task, wp_pr_lease_token := lease,
            wp_pr_repository := task_repository task, wp_pr_head_branch := Some head\<rparr>
      in case validate_branch_plan task of
           Some e \<Rightarrow>
             let (task, s) = close_worker E ''agent_worker.github_pr_refused''
                   (lease_details worker_id lease @ [(''reason'', JStr e)]) task lease worker_id s
             in ret (result\<lparr>wp_pr_final_status := Some (task_status task), wp_pr_reason := e\<rparr>) (s, w)
         | None \<Rightarrow>
             if py_strip (github_token W) = [] then raise (no_token ''PR creation'') (s, w)
             else (case open_new_pull_request E W task approval head base w of
               (Inl e, w) \<Rightarrow>
                 let (task, s) = close_worker E ''agent_worker.github_pr_failed''
                       (lease_details worker_id lease @
                        [(''repository'', json_opt_str (task_repository task)), (''head_branch'', JStr head),
                         (''base_branch'', JStr base), (''reason'', JStr e)]) task lease worker_id s
                 in ret (result\<lparr>wp_pr_final_status := Some (task_status task), wp_pr_reason := e\<rparr>) (s, w)
             | (Inr pr, w) \<Rightarrow>
                 let ((ev, task), s) = append_pr_created_event E task approval worker_id lease pr s;
                     (task, s) = close_worker E ''agent_worker.github_pr_created''
                       (lease_details worker_id lease @
                        [(''approval_request_id'', json_opt_str (pr_approval_id task approval)),
                         (''repository'', JStr (gp_repository pr)), (''head_branch'', JStr (gp_head_branch pr)),
                         (''base_branch'', JStr (gp_base_branch pr)), (''pull_request_number'', JInt (gp_number pr)),
                         (''pull_request_url'', JStr (gp_html_url pr))]) task lease worker_id s
                 in ret (result\<lparr>wp_pr_success := True, wp_pr_approval_request_id := pr_approval_id task approval,
                      wp_pr_repository := Some (gp_repository pr), wp_pr_head_branch := Some (gp_head_branch pr),
                      wp_pr_base_branch := gp_base_branch pr, wp_pr_number := Some (gp_number pr),
                      wp_pr_url := Some (gp_html_url pr), wp_pr_event_id := Some (te_id ev),
                      wp_pr_final_status := Some (task_status task),
                      wp_pr_reason := ''GitHub pull request opened for human review. No merge performed.''\<rparr>) (s, w)))"

definition run_agent_worker_github_pr_creation ::
    "env \<Rightarrow> world \<Rightarrow> string option \<Rightarrow> bool \<Rightarrow> string \<Rightarrow> int \<Rightarrow> string \<Rightarrow> wsys \<Rightarrow>
     (pyerror, AgentWorkerGitHubPRResult, wsys) outcome" where
  "run_agent_worker_github_pr_creation E W tid first_approved worker_id lease_seconds base st =
     (let (s, w) = st in
      if \<not> truthy tid \<and> \<not> first_approved then ret (pr_refusal worker_id base PROVIDE_TASK) (s, w)
      else
        let (claim, s) = take_task E tid first_approved worker_id lease_seconds s
        in case (cl_success claim, cl_task claim) of
             (True, Some task) \<Rightarrow> pr_worker E W worker_id base (cl_lease_token claim) task (s, w)
           | (_, task) \<Rightarrow>
               ret ((pr_refusal worker_id base (cl_reason claim))
                  \<lparr>wp_pr_task_id := cl_task_id claim, wp_pr_lease_token := cl_lease_token claim,
                   wp_pr_final_status := map_option task_status task\<rparr>) (s, w))"

section \<open>What GitHub decodes\<close>

text \<open>The decoder of base64, the specification of the encoder: what is written to a file is its content.\<close>

definition b64_value :: "char \<Rightarrow> nat" where
  "b64_value c =
     (let n = of_char c in if 97 \<le> n then n - 71 else if 65 \<le> n then n - 65 else if 48 \<le> n then n + 4
      else if n = 43 then 62 else 63)"

fun b64decode :: "string \<Rightarrow> string" where
  "b64decode (p # q # r # s # rest) =
     (let n = ((b64_value p * 64 + b64_value q) * 64 + (if r = CHR ''='' then 0 else b64_value r)) * 64 +
            (if s = CHR ''='' then 0 else b64_value s);
          bytes = [char_of (n div 65536), char_of (n div 256 mod 256), char_of (n mod 256)]
      in (if r = CHR ''='' then take 1 bytes else if s = CHR ''='' then take 2 bytes else bytes) @ b64decode rest)"
| "b64decode _ = []"

lemma of_char_61: "(of_char CHR ''='' :: nat) = 61" by simp

lemma b64_digit_value:
  assumes "n < 64"
  shows "b64_value (b64_digit n) = n \<and> b64_digit n \<noteq> CHR ''=''"
proof -
  have e: "char_of k \<noteq> CHR ''=''" if "k < 256" "k \<noteq> 61" for k :: nat
    using that by (metis of_char_of mod_less of_char_61)
  consider "n < 26" | "26 \<le> n" "n < 52" | "52 \<le> n" "n < 62" | "n = 62" | "n = 63" using assms by linarith
  then show ?thesis by cases (auto simp: b64_digit_def b64_value_def Let_def e)
qed

lemma byte_lt [simp]: "(of_char c :: nat) < 256"
  using of_char_of [where ?'a = nat, of "of_char c"] by (metis char_of_char mod_less_divisor zero_less_numeral)

lemma b64_sextets:
  fixes n :: nat
  shows "n div 4096 * 64 + n div 64 mod 64 = n div 64" "n div 262144 * 64 + n div 4096 mod 64 = n div 4096"
  using div_mult2_eq [of n 64 64] div_mult2_eq [of n 4096 64] div_mult_mod_eq [of "n div 64" 64]
    div_mult_mod_eq [of "n div 4096" 64]
  by simp_all

lemma b64_two:
  fixes x y :: nat
  assumes "n = (x * 256 + y) * 4" "x < 256" "y < 256"
  shows "n < 262144" "n * 64 div 65536 = x" "n * 64 div 256 mod 256 = y"
proof -
  have "n * 64 = (x * 256 + y) * 256" using assms(1) by simp
  then have "n * 64 div 256 = x * 256 + y" by simp
  then show "n * 64 div 65536 = x" "n * 64 div 256 mod 256 = y"
    using assms(3) div_mult2_eq [of "n * 64" 256 256] by simp_all
  have "n = 1024 * x + 4 * y" using assms(1) by simp
  with assms(2,3) show "n < 262144" by linarith
qed

lemma b64_three:
  fixes x y z :: nat
  assumes "n = (x * 256 + y) * 256 + z" "x < 256" "y < 256" "z < 256"
  shows "n < 16777216" "n div 65536 = x" "n div 256 mod 256 = y" "n mod 256 = z"
proof -
  have "n div 256 = x * 256 + y" using assms(1,4) by simp
  then show "n div 65536 = x" "n div 256 mod 256 = y"
    using assms(3) div_mult2_eq [of n 256 256] by simp_all
  show "n mod 256 = z" using assms(1,4) mod_mult_self3 [of "x * 256 + y" 256 z] by (simp only: mod_less)
  have "n = 65536 * x + 256 * y + z" using assms(1) by simp
  with assms(2-4) show "n < 16777216" by linarith
qed

lemma char_of_byte: "k mod 256 = of_char c \<Longrightarrow> char_of (k :: nat) = c"
  by (metis char_of_char char_of_mod_256)

lemma b64_roundtrip: "b64decode (b64encode s) = s"
proof (induction s rule: b64encode.induct)
  case (2 a)
  define n where "n = (of_char a :: nat) * 16"
  then have "n < 4096" "n * 64 * 64 div 65536 = of_char a" using byte_lt [of a] by simp_all
  moreover have "n div 64 * 64 + n mod 64 = n" by simp
  ultimately show ?case by (simp add: Let_def b64_digit_value n_def [symmetric])
next
  case (3 a b)
  define n where "n = ((of_char a :: nat) * 256 + of_char b) * 4"
  have "((n div 4096 * 64 + n div 64 mod 64) * 64 + n mod 64) = n" by (simp add: b64_sextets)
  with b64_two [OF n_def byte_lt byte_lt] show ?case
    unfolding b64encode.simps Let_def n_def [symmetric] by (simp add: Let_def b64_digit_value char_of_byte)
next
  case (4 a b c rest)
  define n where "n = ((of_char a :: nat) * 256 + of_char b) * 256 + of_char c"
  have "(((n div 262144 * 64 + n div 4096 mod 64) * 64 + n div 64 mod 64) * 64 + n mod 64) = n"
    by (simp add: b64_sextets)
  with b64_three [OF n_def byte_lt byte_lt byte_lt] 4 show ?case
    unfolding b64encode.simps Let_def n_def [symmetric] by (simp add: Let_def b64_digit_value char_of_byte)
qed simp

end
