(* ===== verification/WorkerValidation.thy ===== *)
theory WorkerValidation
  imports WorkerGitHub
begin

text \<open>
  \<open>agent_worker_validation_runner.py\<close>: the commands of an approved test plan are started one by one until
  one fails, and the task is marked by the outcome; \<open>agent_worker_container_validation.py\<close>: the executor
  that starts each of them in a container and fails closed when there is none.
\<close>

definition MAX_OUTPUT_CHARS :: nat where "MAX_OUTPUT_CHARS = 4000"

record CommandExecutionResult =
  cx_command :: string
  cx_exit_code :: int
  cx_timed_out :: bool
  cx_output_summary :: string
  cx_duration_ms :: int
  cx_output_truncated :: bool
  cx_output_chars :: nat
  cx_allowed_prefix :: string

definition command_passed :: "CommandExecutionResult \<Rightarrow> bool" where
  "command_passed r \<longleftrightarrow> cx_exit_code r = 0 \<and> \<not> cx_timed_out r"

section \<open>Executing one command\<close>

definition last_chars :: "nat \<Rightarrow> string \<Rightarrow> string" where
  "last_chars n s = drop (length s - n) s"

definition summarize_output :: "string \<Rightarrow> string \<times> bool \<times> nat" where
  "summarize_output output =
     (let cleaned = py_strip output in
      if length cleaned \<le> MAX_OUTPUT_CHARS then (cleaned, False, length cleaned)
      else (last_chars MAX_OUTPUT_CHARS cleaned, True, length cleaned))"

definition normalize_result_artifact :: "CommandExecutionResult \<Rightarrow> CommandExecutionResult" where
  "normalize_result_artifact r =
     (let r = (if cx_allowed_prefix r = [] \<or> cx_allowed_prefix r = ''UNKNOWN''
               then r\<lparr>cx_allowed_prefix := allowed_prefix_for_command (cx_command r)\<rparr> else r);
          r = (if cx_output_chars r = 0 \<and> cx_output_summary r \<noteq> []
               then r\<lparr>cx_output_chars := length (cx_output_summary r)\<rparr> else r)
      in if length (cx_output_summary r) > MAX_OUTPUT_CHARS
         then r\<lparr>cx_output_summary := last_chars MAX_OUTPUT_CHARS (cx_output_summary r), cx_output_truncated := True\<rparr>
         else r)"

definition joined_output :: "string \<Rightarrow> string \<Rightarrow> string" where
  "joined_output out err = py_join [CHR 0x0A] (filter (\<lambda>part. part \<noteq> []) [out, err])"

definition execution_result :: "string \<Rightarrow> int \<Rightarrow> bool \<Rightarrow> string \<Rightarrow> int \<Rightarrow> CommandExecutionResult" where
  "execution_result command code timed_out output duration =
     (case summarize_output output of (summary, truncated, chars) \<Rightarrow>
        \<lparr>cx_command = command, cx_exit_code = code, cx_timed_out = timed_out, cx_output_summary = summary,
         cx_duration_ms = duration, cx_output_truncated = truncated, cx_output_chars = chars,
         cx_allowed_prefix = allowed_prefix_for_command command\<rparr>)"

text \<open>
  A process is started and its outcome read. A command that cannot be split and a program that cannot be
  started raise.
\<close>

definition execute_process ::
    "world \<Rightarrow> string \<Rightarrow> string list \<Rightarrow> string option \<Rightarrow> int \<Rightarrow> string \<Rightarrow> outside list \<Rightarrow>
     (pyerror, CommandExecutionResult, outside list) outcome" where
  "execute_process W command args cwd timeout expired w =
     (case start_process W args cwd (Some timeout) w of
        (Completed code out err ms, w) \<Rightarrow> ret (execution_result command code False (joined_output out err) ms) w
      | (TimedOut out err ms, w) \<Rightarrow>
          ret (execution_result command 124 True (str_or (joined_output out err) expired) ms) w
      | (NotStarted c e, w) \<Rightarrow> raise (OSError c e) w)"

definition execute_validation_command ::
    "world \<Rightarrow> string option \<Rightarrow> int \<Rightarrow> string \<Rightarrow> outside list \<Rightarrow>
     (pyerror, CommandExecutionResult, outside list) outcome" where
  "execute_validation_command W cwd timeout command w =
     (case shlex_split command of
        Inr e \<Rightarrow> raise (ValueError e) w
      | Inl args \<Rightarrow>
          execute_process W command args cwd timeout
            (''Command timed out after '' @ int_str timeout @ ''s.'') w)"

section \<open>The container\<close>

record ContainerValidationPolicy =
  cv_policy_version :: string
  cv_runtime :: string
  cv_image :: string
  cv_workdir :: string
  cv_workspace_mount_mode :: string
  cv_network_disabled :: bool
  cv_read_only_rootfs :: bool
  cv_tmpfs_tmp :: bool
  cv_fail_closed_on_runtime_unavailable :: bool
  cv_max_output_chars :: nat

definition default_container_validation_policy :: ContainerValidationPolicy where
  "default_container_validation_policy =
     \<lparr>cv_policy_version = ''aixion-container-validation-policy-v1'', cv_runtime = ''docker'',
      cv_image = ''python:3.12-slim'', cv_workdir = ''/workspace'', cv_workspace_mount_mode = ''ro'',
      cv_network_disabled = True, cv_read_only_rootfs = True, cv_tmpfs_tmp = True,
      cv_fail_closed_on_runtime_unavailable = True, cv_max_output_chars = 4000\<rparr>"

definition container_validation_policy_metadata :: "ContainerValidationPolicy \<Rightarrow> jdict" where
  "container_validation_policy_metadata p =
     [(''policy_version'', JStr (cv_policy_version p)), (''runtime'', JStr (cv_runtime p)),
      (''image'', JStr (cv_image p)), (''workdir'', JStr (cv_workdir p)),
      (''workspace_mount_mode'', JStr (cv_workspace_mount_mode p)),
      (''network_disabled'', JBool (cv_network_disabled p)), (''read_only_rootfs'', JBool (cv_read_only_rootfs p)),
      (''tmpfs_tmp'', JBool (cv_tmpfs_tmp p)),
      (''fail_closed_on_runtime_unavailable'', JBool (cv_fail_closed_on_runtime_unavailable p)),
      (''max_output_chars'', JInt (int (cv_max_output_chars p)))]"

definition docker_available :: "world \<Rightarrow> outside list \<Rightarrow> bool \<times> outside list" where
  "docker_available W w =
     (case start_process W [''docker'', ''version'', ''--format'', ''{{.Server.Version}}''] None (Some 10) w of
        (Completed code _ _ _, w) \<Rightarrow> (code = 0, w)
      | (_, w) \<Rightarrow> (False, w))"

definition docker_args :: "world \<Rightarrow> string \<Rightarrow> ContainerValidationPolicy \<Rightarrow> string list" where
  "docker_args W cwd p =
     [''docker'', ''run'', ''--rm'', ''--workdir'', cv_workdir p, ''--volume'',
      resolve_path W cwd @ '':'' @ cv_workdir p @ '':'' @ cv_workspace_mount_mode p] @
     (if cv_network_disabled p then [''--network'', ''none''] else []) @
     (if cv_read_only_rootfs p then [''--read-only''] else []) @
     (if cv_tmpfs_tmp p then [''--tmpfs'', ''/tmp:rw,noexec,nosuid,size=128m''] else []) @ [cv_image p]"

definition docker_run_validation ::
    "world \<Rightarrow> string \<Rightarrow> string \<Rightarrow> ContainerValidationPolicy \<Rightarrow> int \<Rightarrow> outside list \<Rightarrow>
     (pyerror, CommandExecutionResult, outside list) outcome" where
  "docker_run_validation W command cwd p timeout w =
     (case shlex_split command of
        Inr e \<Rightarrow> raise (ValueError e) w
      | Inl args \<Rightarrow>
          execute_process W command (docker_args W cwd p @ args) None timeout
            (''Container validation timed out after '' @ int_str timeout @ ''s.'') w)"

definition fail_closed :: "string \<Rightarrow> string \<Rightarrow> CommandExecutionResult" where
  "fail_closed command reason =
     \<lparr>cx_command = command, cx_exit_code = 127, cx_timed_out = False, cx_output_summary = reason,
      cx_duration_ms = 0, cx_output_truncated = False, cx_output_chars = length reason,
      cx_allowed_prefix = allowed_prefix_for_command command\<rparr>"

text \<open>
  An executor: what starts a command. The container executor asks once whether the runtime is there and
  remembers the answer, so an executor hands a state on.
\<close>

type_synonym command_runner =
  "bool option \<Rightarrow> string \<Rightarrow> outside list \<Rightarrow> (pyerror, CommandExecutionResult \<times> bool option, outside list) outcome"

definition direct_executor :: "world \<Rightarrow> string option \<Rightarrow> int \<Rightarrow> command_runner" where
  "direct_executor W cwd timeout known command w =
     bindE (execute_validation_command W cwd timeout command w) (\<lambda>r. ret (r, known))"

definition container_executor :: "world \<Rightarrow> string \<Rightarrow> int \<Rightarrow> ContainerValidationPolicy \<Rightarrow> command_runner" where
  "container_executor W cwd timeout p known command w =
     (if \<not> directory_exists W w cwd then
        ret (fail_closed command (''Container validation workspace does not exist: '' @ cwd), known) w
      else
        let (available, w) = (case known of Some b \<Rightarrow> (b, w) | None \<Rightarrow> docker_available W w)
        in if \<not> available then
             ret (fail_closed command ''Container runtime unavailable; validation failed closed.'', Some available) w
           else bindE (docker_run_validation W command cwd p timeout w) (\<lambda>r. ret (r, Some available)))"

section \<open>Running the test plan\<close>

record AgentWorkerValidationRunResult =
  vr_success :: bool
  vr_task_id :: "string option"
  vr_approval_request_id :: "string option"
  vr_worker_id :: string
  vr_lease_token :: "string option"
  vr_command_count :: nat
  vr_results :: "CommandExecutionResult list"
  vr_started_event_id :: "string option"
  vr_finished_event_id :: "string option"
  vr_final_status :: "AgentTaskStatus option"
  vr_reason :: string

definition validation_refusal :: "string \<Rightarrow> string \<Rightarrow> AgentWorkerValidationRunResult" where
  "validation_refusal worker_id reason =
     \<lparr>vr_success = False, vr_task_id = None, vr_approval_request_id = None, vr_worker_id = worker_id,
      vr_lease_token = None, vr_command_count = 0, vr_results = [], vr_started_event_id = None,
      vr_finished_event_id = None, vr_final_status = None, vr_reason = reason\<rparr>"

definition artifact_summary :: "CommandExecutionResult list \<Rightarrow> jdict" where
  "artifact_summary rs =
     [(''artifact_type'', JStr ''validation_command_artifact_summary''),
      (''command_count'', JInt (int (length rs))),
      (''passed_count'', JInt (int (length (filter command_passed rs)))),
      (''failed_count'', JInt (int (length (filter (\<lambda>r. \<not> command_passed r) rs)))),
      (''timed_out_count'', JInt (int (length (filter cx_timed_out rs)))),
      (''total_duration_ms'', JInt (sum_list (map (\<lambda>r. max (cx_duration_ms r) 0) rs))),
      (''output_truncated'', JBool (list_ex cx_output_truncated rs)),
      (''max_output_chars'', JInt (int MAX_OUTPUT_CHARS))]"

definition execution_json :: "CommandExecutionResult \<Rightarrow> json" where
  "execution_json r =
     JObj [(''command'', JStr (cx_command r)), (''exit_code'', JInt (cx_exit_code r)),
           (''timed_out'', JBool (cx_timed_out r)), (''output_summary'', JStr (cx_output_summary r)),
           (''duration_ms'', JInt (cx_duration_ms r)), (''output_truncated'', JBool (cx_output_truncated r)),
           (''output_chars'', JInt (int (cx_output_chars r))), (''allowed_prefix'', JStr (cx_allowed_prefix r))]"

definition append_validation_event ::
    "env \<Rightarrow> AgentTask \<Rightarrow> ApprovalRequest \<Rightarrow> string \<Rightarrow> string option \<Rightarrow> AgentTaskEventType \<Rightarrow> AgentTaskStatus \<Rightarrow>
     string \<Rightarrow> CommandExecutionResult list option \<Rightarrow> sys \<Rightarrow> (AgentTaskEvent \<times> AgentTask) \<times> sys" where
  "append_validation_event E task approval worker_id lease_token event_type status message results s =
     (let (task, s) = set_task_status (Some status) task s;
          normalized = (case results of None \<Rightarrow> [] | Some rs \<Rightarrow> map normalize_result_artifact rs);
          (ev, s) = worker_note E task event_type message worker_id
            (lease_details worker_id lease_token @
             [(''approval_request_id'', JStr (appr_id approval)),
              (''command_count'', JInt (int (if results \<noteq> None then length normalized else length (appr_test_plan approval)))),
              (''commands_executed'', JBool (results \<noteq> None)),
              (''results'', JList (map execution_json normalized)),
              (''artifact_summary'', JObj (if results \<noteq> None then artifact_summary normalized else [])),
              (''validation_policy'', JObj (validation_policy_metadata get_validation_execution_policy)),
              (''runner_type'', JStr ''validation_command_runner'')]) s
      in ((ev, task), s))"

text \<open>The commands run until one does not pass.\<close>

fun run_commands ::
    "command_runner \<Rightarrow> bool option \<Rightarrow> string list \<Rightarrow> outside list \<Rightarrow>
     (pyerror, CommandExecutionResult list, outside list) outcome" where
  "run_commands X known [] w = ret [] w"
| "run_commands X known (command # commands) w =
     bindE (X known command w) (\<lambda>(r, known) w.
       let r = normalize_result_artifact r in
       if \<not> command_passed r then ret [r] w
       else bindE (run_commands X known commands w) (\<lambda>rs. ret (r # rs)))"

definition finish_validation ::
    "env \<Rightarrow> AgentTask \<Rightarrow> ApprovalRequest \<Rightarrow> string \<Rightarrow> string option \<Rightarrow> AgentWorkerValidationRunResult \<Rightarrow>
     CommandExecutionResult list \<Rightarrow> sys \<Rightarrow> AgentWorkerValidationRunResult \<times> sys" where
  "finish_validation E task a worker_id lease result rs s =
     (let ok = (list_all command_passed rs \<and> length rs = length (appr_test_plan a));
          ((ev, task), s) = append_validation_event E task a worker_id lease
            (if ok then TESTS_PASSED else TESTS_FAILED)
            (if ok then AgentTaskStatus.APPROVED else AgentTaskStatus.FAILED)
            (if ok then ''Worker validation commands passed.'' else ''Worker validation commands failed.'')
            (Some rs) s;
          (task, s) = close_worker E ''agent_worker.validation_run_completed''
            (lease_details worker_id lease @
             [(''approval_request_id'', JStr (appr_id a)), (''passed'', JBool ok),
              (''command_count'', JInt (int (length rs))), (''artifact_summary'', JObj (artifact_summary rs))])
            task lease worker_id s
      in (result\<lparr>vr_success := ok, vr_approval_request_id := Some (appr_id a), vr_command_count := length rs,
            vr_results := rs, vr_finished_event_id := Some (te_id ev), vr_final_status := Some (task_status task),
            vr_reason := (if ok then ''Validation commands passed.'' else ''Validation commands failed.'')\<rparr>, s))"

definition validation_worker ::
    "env \<Rightarrow> command_runner \<Rightarrow> string \<Rightarrow> string option \<Rightarrow> AgentTask \<Rightarrow> wsys \<Rightarrow>
     (pyerror, AgentWorkerValidationRunResult, wsys) outcome" where
  "validation_worker E X worker_id lease task st =
     (let (s, w) = st;
          approval = linked_approval task s;
          policy = (''validation_policy'', JObj (validation_policy_metadata get_validation_execution_policy));
          result = (validation_refusal worker_id [])\<lparr>vr_task_id := Some (task_id task),
            vr_approval_request_id := task_approval_request_id task, vr_lease_token := lease\<rparr>
      in case (validate_validation_plan get_validation_execution_policy approval, approval) of
           (None, Some a) \<Rightarrow>
             let ((started, task), s) = append_validation_event E task a worker_id lease TESTS_STARTED
                   AgentTaskStatus.TESTING ''Worker started allowlisted validation commands.'' None s;
                 s = add_audit E ''agent_worker.validation_run_started'' (task_id task)
                   (lease_details worker_id lease @ [(''approval_request_id'', JStr (appr_id a)), policy]) worker_id s
             in (case run_commands X None (appr_test_plan a) w of
                   (Inl e, w) \<Rightarrow> raise e (s, w)
                 | (Inr rs, w) \<Rightarrow>
                     let (r, s) = finish_validation E task a worker_id lease
                           (result\<lparr>vr_started_event_id := Some (te_id started)\<rparr>) rs s
                     in ret r (s, w))
         | (e, _) \<Rightarrow>
             let (task, s) = close_worker E ''agent_worker.validation_run_refused''
                   (lease_details worker_id lease @ [(''reason'', json_opt_str e), policy]) task lease worker_id s
             in ret (result\<lparr>vr_final_status := Some (task_status task), vr_reason := opt_str e\<rparr>) (s, w))"

definition run_agent_worker_validation_commands ::
    "env \<Rightarrow> command_runner \<Rightarrow> string option \<Rightarrow> bool \<Rightarrow> string \<Rightarrow> int \<Rightarrow> wsys \<Rightarrow>
     (pyerror, AgentWorkerValidationRunResult, wsys) outcome" where
  "run_agent_worker_validation_commands E X tid first_approved worker_id lease_seconds st =
     (let (s, w) = st in
      if \<not> truthy tid \<and> \<not> first_approved then ret (validation_refusal worker_id PROVIDE_TASK) (s, w)
      else
        let (claim, s) = take_task E tid first_approved worker_id lease_seconds s
        in case (cl_success claim, cl_task claim) of
             (True, Some task) \<Rightarrow> validation_worker E X worker_id (cl_lease_token claim) task (s, w)
           | (_, task) \<Rightarrow>
               ret ((validation_refusal worker_id (cl_reason claim))
                  \<lparr>vr_task_id := cl_task_id claim, vr_lease_token := cl_lease_token claim,
                   vr_final_status := map_option task_status task\<rparr>) (s, w))"

end
