(* ===== verification/WorkerFlow.thy ===== *)
theory WorkerFlow
  imports WorkerValidation
begin

text \<open>
  \<open>agent_worker_workspace.py\<close> and \<open>agent_worker_orchestrator.py\<close>: the whole flow of an approved task.
  Branch, files, an isolated clone, validation in a container and the pull request follow one another;
  the first step that fails ends the flow with a summary event, and the clone is removed in any case.
\<close>

section \<open>The workspace\<close>

record WorkspaceCommandResult =
  wc_command :: "string list"
  wc_exit_code :: int
  wc_output_summary :: string

record AgentWorkerWorkspaceResult =
  ws_success :: bool
  ws_task_id :: "string option"
  ws_repository :: "string option"
  ws_branch :: "string option"
  ws_workspace_root :: "string option"
  ws_repository_path :: "string option"
  ws_cleaned :: bool
  ws_reason :: string
  ws_commands :: "WorkspaceCommandResult list"

definition safe_repo_dir_name :: "string \<Rightarrow> string" where
  "safe_repo_dir_name repository =
     concat (map (\<lambda>c. if c = CHR ''/'' then ''__'' else if c = CHR '':'' then ''_'' else [c]) repository)"

definition redacted_workspace_metadata :: "AgentWorkerWorkspaceResult \<Rightarrow> jdict" where
  "redacted_workspace_metadata r =
     [(''repository'', json_opt_str (ws_repository r)), (''branch'', json_opt_str (ws_branch r)),
      (''workspace_isolated'', JBool True), (''workspace_path_redacted'', JBool (ws_workspace_root r \<noteq> None)),
      (''repository_path_redacted'', JBool (ws_repository_path r \<noteq> None)),
      (''command_count'', JInt (int (length (ws_commands r))))]"

definition cleanup_agent_worker_workspace ::
    "world \<Rightarrow> AgentWorkerWorkspaceResult \<Rightarrow> outside list \<Rightarrow> AgentWorkerWorkspaceResult \<times> outside list" where
  "cleanup_agent_worker_workspace W r w =
     (r\<lparr>ws_cleaned := True\<rparr>,
      (case ws_workspace_root r of
         None \<Rightarrow> w
       | Some dir \<Rightarrow> if directory_exists W w dir then w @ [RemoveTree dir] else w))"

text \<open>A subprocess; the exception of one that cannot be started is its text.\<close>

definition run_workspace_command ::
    "world \<Rightarrow> string list \<Rightarrow> string \<Rightarrow> outside list \<Rightarrow> WorkspaceCommandResult asked" where
  "run_workspace_command W command cwd w =
     (case start_process W command (Some cwd) None w of
        (Completed code out err _, w) \<Rightarrow>
          ret \<lparr>wc_command = command, wc_exit_code = code,
            wc_output_summary = last_chars 4000 (py_strip (joined_output out err))\<rparr> w
      | (TimedOut _ _ _, w) \<Rightarrow> raise ''timed out'' w
      | (NotStarted _ e, w) \<Rightarrow> raise e w)"

definition workspace_refusal :: "AgentTask \<Rightarrow> string \<Rightarrow> AgentWorkerWorkspaceResult" where
  "workspace_refusal task reason =
     \<lparr>ws_success = False, ws_task_id = Some (task_id task), ws_repository = None, ws_branch = None,
      ws_workspace_root = None, ws_repository_path = None, ws_cleaned = False, ws_reason = reason,
      ws_commands = []\<rparr>"

text \<open>A failed preparation is audited and cleaned up.\<close>

definition workspace_failed ::
    "env \<Rightarrow> world \<Rightarrow> string \<Rightarrow> string \<Rightarrow> AgentWorkerWorkspaceResult \<Rightarrow> wsys \<Rightarrow> AgentWorkerWorkspaceResult \<times> wsys" where
  "workspace_failed E W worker_id reason r st =
     (let (s, w) = st;
          r = r\<lparr>ws_reason := reason\<rparr>;
          s = add_audit E ''agent_worker.workspace_prepare_failed'' (opt_str (ws_task_id r))
            (redacted_workspace_metadata r @ [(''reason'', JStr reason)]) worker_id s;
          (r, w) = cleanup_agent_worker_workspace W r w
      in (r, (s, w)))"

text \<open>
  The clone and the checkout: the results of the commands that ran, and the reason if one of them failed
  or could not be started.
\<close>

definition clone_and_checkout ::
    "world \<Rightarrow> string \<Rightarrow> string \<Rightarrow> string \<Rightarrow> string \<Rightarrow> outside list \<Rightarrow>
     (WorkspaceCommandResult list \<times> string option) \<times> outside list" where
  "clone_and_checkout W repository branch dir path w =
     (case run_workspace_command W
         [''git'', ''clone'', ''--depth'', ''1'', ''--branch'', branch,
          ''https://github.com/'' @ repository @ ''.git'', path] dir w of
        (Inl e, w) \<Rightarrow> (([], Some e), w)
      | (Inr clone, w) \<Rightarrow>
          if wc_exit_code clone \<noteq> 0 then
            (([clone], Some (''Workspace clone failed for branch '' @ branch @ ''.'')), w)
          else (case run_workspace_command W [''git'', ''checkout'', branch] path w of
              (Inl e, w) \<Rightarrow> (([clone], Some e), w)
            | (Inr checkout, w) \<Rightarrow>
                (([clone, checkout],
                  if wc_exit_code checkout \<noteq> 0
                  then Some (''Workspace checkout failed for branch '' @ branch @ ''.'') else None), w)))"

definition prepare_agent_worker_workspace ::
    "env \<Rightarrow> world \<Rightarrow> AgentTask \<Rightarrow> string \<Rightarrow> string \<Rightarrow> string option \<Rightarrow> wsys \<Rightarrow> AgentWorkerWorkspaceResult \<times> wsys" where
  "prepare_agent_worker_workspace E W task branch worker_id parent st =
     (let (s, w) = st; repository = opt_str (task_repository task) in
      if \<not> truthy (task_repository task) then
        ((workspace_refusal task ''Agent task repository is required for isolated workspace preparation.'')
           \<lparr>ws_branch := Some branch\<rparr>, (s, w))
      else if branch = [] then
        ((workspace_refusal task ''Agent task branch is required for isolated workspace preparation.'')
           \<lparr>ws_repository := task_repository task\<rparr>, (s, w))
      else
        let dir = new_directory W parent (''aixion-agent-task-'' @ task_id task @ ''-'');
            path = dir @ ''/'' @ safe_repo_dir_name repository;
            ((commands, failure), w) = clone_and_checkout W repository branch dir path w;
            r = (workspace_refusal task [])\<lparr>ws_repository := task_repository task, ws_branch := Some branch,
              ws_workspace_root := Some dir, ws_repository_path := Some path, ws_commands := commands\<rparr>
        in case failure of
             Some e \<Rightarrow> workspace_failed E W worker_id e r (s, w)
           | None \<Rightarrow>
               let r = r\<lparr>ws_success := True,
                     ws_reason := ''Isolated workspace prepared and target branch checked out.''\<rparr>
               in (r, (add_audit E ''agent_worker.workspace_prepared'' (task_id task)
                     (redacted_workspace_metadata r) worker_id s, w)))"

section \<open>The orchestrator\<close>

record AgentWorkerOrchestrationResult =
  wo_success :: bool
  wo_task_id :: "string option"
  wo_worker_id :: string
  wo_branch_result :: "AgentWorkerGitHubBranchResult option"
  wo_file_result :: "AgentWorkerGitHubFilesResult option"
  wo_workspace_result :: "AgentWorkerWorkspaceResult option"
  wo_validation_result :: "AgentWorkerValidationRunResult option"
  wo_pr_result :: "AgentWorkerGitHubPRResult option"
  wo_summary_event_id :: "string option"
  wo_final_status :: "AgentTaskStatus option"
  wo_reason :: string

definition workspace_summary :: "AgentWorkerWorkspaceResult option \<Rightarrow> jdict" where
  "workspace_summary r =
     (case r of
        None \<Rightarrow> [(''workspace_success'', JNull), (''workspace_isolated'', JNull), (''workspace_cleaned'', JNull)]
      | Some r \<Rightarrow>
          [(''workspace_success'', JBool (ws_success r)),
           (''workspace_isolated'', JBool (ws_workspace_root r \<noteq> None)),
           (''workspace_cleaned'', JBool (ws_cleaned r)),
           (''workspace_path_redacted'', JBool (ws_workspace_root r \<noteq> None)),
           (''repository_path_redacted'', JBool (ws_repository_path r \<noteq> None))])"

definition append_summary_event ::
    "env \<Rightarrow> AgentTask \<Rightarrow> string \<Rightarrow> bool \<Rightarrow> string \<Rightarrow> jdict \<Rightarrow> sys \<Rightarrow> AgentTaskEvent \<times> sys" where
  "append_summary_event E task worker_id success reason details s =
     worker_note E task (if success then AgentTaskEventType.DONE else AgentTaskEventType.FAILED) reason worker_id
       ([(''worker_id'', JStr worker_id), (''orchestration_success'', JBool success)] @ details @
        [(''operation_type'', JStr ''approved_agent_task_orchestration'')]) s"

definition step_success :: "('r \<Rightarrow> bool) \<Rightarrow> 'r option \<Rightarrow> json" where
  "step_success success r = (case r of None \<Rightarrow> JNull | Some r \<Rightarrow> JBool (success r))"

text \<open>What a flow has so far: the results of its steps.\<close>

record flow_results =
  fl_branch :: "AgentWorkerGitHubBranchResult option"
  fl_files :: "AgentWorkerGitHubFilesResult option"
  fl_workspace :: "AgentWorkerWorkspaceResult option"
  fl_validation :: "AgentWorkerValidationRunResult option"
  fl_pr :: "AgentWorkerGitHubPRResult option"

definition flow_outcome ::
    "bool \<Rightarrow> string \<Rightarrow> string \<Rightarrow> flow_results \<Rightarrow> string option \<Rightarrow> AgentTaskStatus option \<Rightarrow> string \<Rightarrow>
     AgentWorkerOrchestrationResult" where
  "flow_outcome success tid worker_id f event status reason =
     \<lparr>wo_success = success, wo_task_id = Some tid, wo_worker_id = worker_id, wo_branch_result = fl_branch f,
      wo_file_result = fl_files f, wo_workspace_result = fl_workspace f, wo_validation_result = fl_validation f,
      wo_pr_result = fl_pr f, wo_summary_event_id = event, wo_final_status = status, wo_reason = reason\<rparr>"

definition failure_result ::
    "env \<Rightarrow> string \<Rightarrow> string \<Rightarrow> string \<Rightarrow> flow_results \<Rightarrow> sys \<Rightarrow> AgentWorkerOrchestrationResult \<times> sys" where
  "failure_result E tid worker_id reason f s =
     (case dict_get (agent_tasks s) tid of
        None \<Rightarrow> (flow_outcome False tid worker_id f None None reason, s)
      | Some task \<Rightarrow>
          let (ev, s) = append_summary_event E task worker_id False reason
                ([(''branch_success'', step_success wb_success (fl_branch f)),
                  (''file_success'', step_success wf_success (fl_files f))] @ workspace_summary (fl_workspace f) @
                 [(''validation_success'', step_success vr_success (fl_validation f)),
                  (''pr_success'', step_success wp_pr_success (fl_pr f))]) s;
              s = add_audit E ''agent_worker.orchestration_failed'' (task_id task)
                ([(''worker_id'', JStr worker_id), (''reason'', JStr reason)] @ workspace_summary (fl_workspace f))
                worker_id s
          in (flow_outcome False tid worker_id f (Some (te_id ev)) (Some (task_status task)) reason, persist s))"

text \<open>A flow without injected clients and executors needs the workspace unless it is switched off.\<close>

record flow_options =
  fo_worker_id :: string
  fo_lease_seconds :: int
  fo_source_branch :: string
  fo_base_branch :: string
  fo_cwd :: "string option"
  fo_timeout_seconds :: int
  fo_use_isolated_workspace :: bool
  fo_use_container_validation :: bool

definition build_container_validation_executor ::
    "env \<Rightarrow> world \<Rightarrow> string option \<Rightarrow> int \<Rightarrow> string \<Rightarrow> sys \<Rightarrow> command_runner option \<times> sys" where
  "build_container_validation_executor E W cwd timeout worker_id s =
     (case cwd of
        None \<Rightarrow> (None, s)
      | Some dir \<Rightarrow>
          let p = default_container_validation_policy
          in (Some (container_executor W dir timeout p),
              add_audit E ''agent_worker.container_validation_configured'' dir
                [(''worker_id'', JStr worker_id),
                 (''container_validation_policy'', JObj (container_validation_policy_metadata p))] worker_id s))"

definition FLOW_DONE :: string where
  "FLOW_DONE = ''Approved AgentTask worker flow completed and PR is ready for human review.''"

definition flow_failed ::
    "env \<Rightarrow> string \<Rightarrow> string \<Rightarrow> string \<Rightarrow> flow_results \<Rightarrow> wsys \<Rightarrow>
     (pyerror, AgentWorkerOrchestrationResult, wsys) outcome" where
  "flow_failed E tid worker_id reason f st =
     (let (s, w) = st; (r, s) = failure_result E tid worker_id reason f s in ret r (s, w))"

definition complete_flow ::
    "env \<Rightarrow> flow_options \<Rightarrow> AgentTask \<Rightarrow> flow_results \<Rightarrow> AgentWorkerGitHubBranchResult \<Rightarrow>
     AgentWorkerGitHubFilesResult \<Rightarrow> AgentWorkerValidationRunResult \<Rightarrow> AgentWorkerGitHubPRResult \<Rightarrow> sys \<Rightarrow>
     AgentWorkerOrchestrationResult \<times> sys" where
  "complete_flow E opts task f b fs v pr s =
     (let worker_id = fo_worker_id opts;
          completed = (case dict_get (agent_tasks s) (task_id task) of Some t \<Rightarrow> t | None \<Rightarrow> task);
          pull = [(''pull_request_url'', json_opt_str (wp_pr_url pr)),
                  (''pull_request_number'', case wp_pr_number pr of None \<Rightarrow> JNull | Some n \<Rightarrow> JInt n)];
          container = (''container_validation_required'', JBool (fo_use_container_validation opts));
          (ev, s) = append_summary_event E completed worker_id True FLOW_DONE
            ([(''branch'', json_opt_str (wb_branch b)), (''files_written'', JInt (int (wf_files_written fs))),
              (''files_deleted'', JInt (int (wf_files_deleted fs))),
              (''commits_created'', JInt (int (wf_commits_created fs)))] @ workspace_summary (fl_workspace f) @
             [(''validation_commands'', JInt (int (vr_command_count v))), container] @ pull) s;
          s = add_audit E ''agent_worker.orchestration_completed'' (task_id completed)
            ([(''worker_id'', JStr worker_id)] @ pull @ [container] @ workspace_summary (fl_workspace f)) worker_id s
      in (flow_outcome True (task_id completed) worker_id f (Some (te_id ev)) (Some (task_status completed)) FLOW_DONE,
          persist s))"

text \<open>Validation and the pull request, with the executor chosen.\<close>

definition validate_and_open ::
    "env \<Rightarrow> world \<Rightarrow> flow_options \<Rightarrow> AgentTask \<Rightarrow> command_runner \<Rightarrow> flow_results \<Rightarrow> AgentWorkerGitHubBranchResult \<Rightarrow>
     AgentWorkerGitHubFilesResult \<Rightarrow> wsys \<Rightarrow> (pyerror, AgentWorkerOrchestrationResult, wsys) outcome" where
  "validate_and_open E W opts task X f b fs st =
     (let worker_id = fo_worker_id opts; tid = task_id task in
      bindE (run_agent_worker_validation_commands E X (Some tid) False (worker_id @ '':validation'')
          (fo_lease_seconds opts) st) (\<lambda>v st.
        let f = f\<lparr>fl_validation := Some v\<rparr> in
        if \<not> vr_success v then
          flow_failed E tid worker_id (''Validation step failed: '' @ vr_reason v) f st
        else bindE (run_agent_worker_github_pr_creation E W (Some tid) False (worker_id @ '':pr'')
            (fo_lease_seconds opts) (fo_base_branch opts) st) (\<lambda>pr st.
          let f = f\<lparr>fl_pr := Some pr\<rparr> in
          if \<not> wp_pr_success pr then flow_failed E tid worker_id (''PR step failed: '' @ wp_pr_reason pr) f st
          else let (s, w) = st; (r, s) = complete_flow E opts task f b fs v pr s in ret r (s, w))))"

definition choose_executor_and_validate ::
    "env \<Rightarrow> world \<Rightarrow> flow_options \<Rightarrow> AgentTask \<Rightarrow> string option \<Rightarrow> flow_results \<Rightarrow> AgentWorkerGitHubBranchResult \<Rightarrow>
     AgentWorkerGitHubFilesResult \<Rightarrow> wsys \<Rightarrow> (pyerror, AgentWorkerOrchestrationResult, wsys) outcome" where
  "choose_executor_and_validate E W opts task cwd f b fs st =
     (let (s, w) = st; worker_id = fo_worker_id opts in
      if fo_use_container_validation opts then
        (case build_container_validation_executor E W cwd (fo_timeout_seconds opts) (worker_id @ '':validation'') s of
           (None, s) \<Rightarrow>
             flow_failed E (task_id task) worker_id
               ''Validation step failed: container validation requires an isolated workspace.'' f (s, w)
         | (Some X, s) \<Rightarrow> validate_and_open E W opts task X f b fs (s, w))
      else validate_and_open E W opts task (direct_executor W cwd (fo_timeout_seconds opts)) f b fs (s, w))"

text \<open>The \<open>finally\<close> of the flow removes the clone, also when an exception leaves it.\<close>

definition finally_cleanup ::
    "world \<Rightarrow> AgentWorkerWorkspaceResult \<Rightarrow> (pyerror, AgentWorkerOrchestrationResult, wsys) outcome \<Rightarrow>
     (pyerror, AgentWorkerOrchestrationResult, wsys) outcome" where
  "finally_cleanup W r x =
     (case x of (y, s, w) \<Rightarrow>
        let (r, w) = cleanup_agent_worker_workspace W r w
        in (map_sum id (\<lambda>o'. o'\<lparr>wo_workspace_result := Some r\<rparr>) y, s, w))"

definition workspace_and_validation ::
    "env \<Rightarrow> world \<Rightarrow> flow_options \<Rightarrow> AgentTask \<Rightarrow> flow_results \<Rightarrow> AgentWorkerGitHubBranchResult \<Rightarrow>
     AgentWorkerGitHubFilesResult \<Rightarrow> wsys \<Rightarrow> (pyerror, AgentWorkerOrchestrationResult, wsys) outcome" where
  "workspace_and_validation E W opts task f b fs st =
     (if \<not> fo_use_isolated_workspace opts then
        choose_executor_and_validate E W opts task (fo_cwd opts) f b fs st
      else
        let worker_id = fo_worker_id opts;
            branch = str_or (opt_str (wb_branch b)) (opt_str (task_branch_preference task));
            (r, st) = prepare_agent_worker_workspace E W task branch (worker_id @ '':workspace'') (fo_cwd opts) st;
            f = f\<lparr>fl_workspace := Some r\<rparr>
        in finally_cleanup W r
             (if \<not> ws_success r then
                flow_failed E (task_id task) worker_id (''Workspace step failed: '' @ ws_reason r) f st
              else choose_executor_and_validate E W opts task (ws_repository_path r) f b fs st))"

definition run_approved_agent_task_worker_flow ::
    "env \<Rightarrow> world \<Rightarrow> flow_options \<Rightarrow> string \<Rightarrow> wsys \<Rightarrow>
     (pyerror, AgentWorkerOrchestrationResult, wsys) outcome" where
  "run_approved_agent_task_worker_flow E W opts tid st =
     (let (s, w) = st;
          worker_id = fo_worker_id opts;
          none = \<lparr>fl_branch = None, fl_files = None, fl_workspace = None, fl_validation = None, fl_pr = None\<rparr>
      in case dict_get (agent_tasks s) tid of
           None \<Rightarrow> ret (flow_outcome False tid worker_id none None None ''Agent task not found.'') (s, w)
         | Some task \<Rightarrow>
             let s = add_audit E ''agent_worker.orchestration_started'' (task_id task)
                   [(''worker_id'', JStr worker_id),
                    (''container_validation_required'', JBool (fo_use_container_validation opts))] worker_id s
             in bindE (run_agent_worker_github_branch_creation E W (Some (task_id task)) False
                  (worker_id @ '':branch'') (fo_lease_seconds opts) (fo_source_branch opts) (s, w)) (\<lambda>b st.
                let f = none\<lparr>fl_branch := Some b\<rparr> in
                if \<not> wb_success b then
                  flow_failed E (task_id task) worker_id (''Branch step failed: '' @ wb_reason b) f st
                else bindE (run_agent_worker_github_file_application E W (Some (task_id task)) False
                    (worker_id @ '':files'') (fo_lease_seconds opts) st) (\<lambda>fs st.
                  let f = f\<lparr>fl_files := Some fs\<rparr> in
                  if \<not> wf_success fs then
                    flow_failed E (task_id task) worker_id (''File application step failed: '' @ wf_reason fs) f st
                  else workspace_and_validation E W opts task f b fs st)))"

end
