(* ===== verification/WorkerTrace.thy ===== *)
theory WorkerTrace
  imports WorkerFlow
begin

text \<open>
  What the steps of the worker flow keep and ask: the task a step works on is the one that was approved
  (only its status and its lease change, in memory and in the database alike), the approvals stay as they
  are, and the requests each step sends are the ones its client makes.
\<close>

section \<open>The job of a task\<close>

definition same_job :: "AgentTask \<Rightarrow> AgentTask \<Rightarrow> bool" where
  "same_job t t' \<longleftrightarrow> task_id t' = task_id t \<and> task_title t' = task_title t \<and>
     task_repository t' = task_repository t \<and> task_branch_preference t' = task_branch_preference t \<and>
     task_approval_request_id t' = task_approval_request_id t"

lemma same_job_refl [simp]: "same_job t t"
  by (simp add: same_job_def)

lemma same_job_trans: "same_job t u \<Longrightarrow> same_job u v \<Longrightarrow> same_job t v"
  by (simp add: same_job_def)

lemma same_job_updates [simp]:
  "same_job t (u\<lparr>task_status := st\<rparr>) \<longleftrightarrow> same_job t u"
  "same_job t (u\<lparr>task_updated_at := n\<rparr>) \<longleftrightarrow> same_job t u"
  "same_job t (u\<lparr>task_worker_lease_owner := a\<rparr>) \<longleftrightarrow> same_job t u"
  "same_job t (u\<lparr>task_worker_lease_token := a\<rparr>) \<longleftrightarrow> same_job t u"
  "same_job t (u\<lparr>task_worker_lease_expires_at := e\<rparr>) \<longleftrightarrow> same_job t u"
  by (simp_all add: same_job_def)

lemma same_job_plan:
  "same_job t u \<Longrightarrow> planned_branch_for_task u = planned_branch_for_task t"
  "same_job t u \<Longrightarrow> validate_branch_plan u = validate_branch_plan t"
  "same_job t u \<Longrightarrow> linked_approval u s = linked_approval t s"
  by (simp_all add: same_job_def planned_branch_for_task_def validate_branch_plan_def linked_approval_def Let_def)

text \<open>The database holds the job under the key, and the approvals are those of the start.\<close>

definition holds_job :: "AgentTask \<Rightarrow> (string, ApprovalRequest) dict \<Rightarrow> sys \<Rightarrow> bool" where
  "holds_job t approvals s \<longleftrightarrow> approval_requests s = approvals \<and>
     (\<exists>u. dict_get (agent_tasks (rows (disk s))) (task_id t) = Some u \<and> same_job t u)"

text \<open>Memory holds the very task a worker has in hand.\<close>

definition in_hand :: "AgentTask \<Rightarrow> (string, ApprovalRequest) dict \<Rightarrow> AgentTask \<Rightarrow> sys \<Rightarrow> bool" where
  "in_hand t approvals u s \<longleftrightarrow> same_job t u \<and> dict_get (agent_tasks s) (task_id t) = Some u \<and> holds_job t approvals s"

lemma holds_job_steps [simp]:
  "holds_job t a (add_audit E event k d actor s) \<longleftrightarrow> holds_job t a s"
  "holds_job t a (put_task_event ev s) \<longleftrightarrow> holds_job t a s"
  "holds_job t a (drawn s) \<longleftrightarrow> holds_job t a s"
  "holds_job t a (put_task u s) \<longleftrightarrow> holds_job t a s"
  by (simp_all add: holds_job_def)

lemma in_hand_steps [simp]:
  "in_hand t a u (add_audit E event k d actor s) \<longleftrightarrow> in_hand t a u s"
  "in_hand t a u (put_task_event ev s) \<longleftrightarrow> in_hand t a u s"
  "in_hand t a u (drawn s) \<longleftrightarrow> in_hand t a u s"
  by (simp_all add: in_hand_def)

lemma in_hand_put: "holds_job t a s \<Longrightarrow> same_job t u \<Longrightarrow> in_hand t a u (put_task u s)"
  by (simp add: in_hand_def put_task_def same_job_def holds_job_def)

lemma in_hand_persist: "in_hand t a u s \<Longrightarrow> in_hand t a u (persist s)"
  by (auto simp: in_hand_def holds_job_def)

lemma in_hand_job: "in_hand t a u s \<Longrightarrow> holds_job t a s \<and> same_job t u"
  by (simp add: in_hand_def)

lemma in_hand_status:
  "in_hand t a u s \<Longrightarrow> set_task_status st u s = (u', s') \<Longrightarrow> in_hand t a u' s'"
  by (auto simp: set_task_status_def in_hand_def holds_job_def put_task_def same_job_def Let_def
      split: option.splits)

lemma in_hand_note:
  "in_hand t a u s \<Longrightarrow> worker_note E u' event_type message actor metadata s = (ev, s') \<Longrightarrow> in_hand t a u s'"
  by (auto simp: worker_note_def Let_def)

lemma in_hand_close:
  assumes "in_hand t a u s" "close_worker E event d u lease actor s = (u', s')"
  shows "in_hand t a u' s' \<and> task_status u' = task_status u"
  using assms
  by (auto simp: close_worker_def release_task_def Let_def in_hand_def holds_job_def same_job_def split: if_splits)

text \<open>A claim that succeeds puts the task in hand; one that does not changes nothing.\<close>

lemma take_task_job:
  assumes "holds_job t a s" "truthy (Some (task_id t))"
    "take_task E (Some (task_id t)) False actor n s = (claim, s')"
  shows "holds_job t a s' \<and> (cl_success claim \<longrightarrow> (\<exists>u. cl_task claim = Some u \<and> in_hand t a u s'))"
proof -
  obtain r where r: "dict_get (agent_tasks (rows (disk s))) (task_id t) = Some r" "same_job t r"
    using assms(1) by (auto simp: holds_job_def)
  have "claim_agent_task_for_worker E (task_id t) actor n s = (claim, s')"
    using assms(3) by (simp add: take_task_def)
  then show ?thesis
    using r assms(1)
    by (auto simp: claim_agent_task_for_worker_def claim_loaded_task_def store_claim_def update_task_row_def
        refused_claim_def in_hand_def holds_job_def put_task_def same_job_def Let_def split: option.splits)
qed

chapter \<open>What the workers ask\<close>

text \<open>
  What a step of the worker flow adds to the record of the outside world. Every rule below has the same
  form: from a record \<open>w\<close> the step leads to one that continues \<open>w\<close> with events of a given kind.
\<close>

named_theorems grow_intros \<open>records that grow by events of one kind\<close>

definition grows :: "(outside \<Rightarrow> bool) \<Rightarrow> outside list \<Rightarrow> outside list \<Rightarrow> bool" where
  "grows P w w' \<longleftrightarrow> (\<exists>new. w' = w @ new \<and> list_all P new)"

lemma grows_refl [simp, intro]: "grows P w w"
  by (simp add: grows_def)

lemma grows_trans: "grows P u v \<Longrightarrow> grows P v w \<Longrightarrow> grows P u w"
  by (force simp: grows_def)

lemma grows_mono: "grows P u v \<Longrightarrow> (\<And>e. P e \<Longrightarrow> Q e) \<Longrightarrow> grows Q u v"
  by (auto simp: grows_def list_all_iff)

lemma grows_step [intro]: "P e \<Longrightarrow> grows P w (w @ [e])"
  by (auto simp: grows_def)

text \<open>Sequences of operations on the record.\<close>

definition asks :: "(outside \<Rightarrow> bool) \<Rightarrow> (outside list \<Rightarrow> ('e, 'a, outside list) outcome) \<Rightarrow> bool" where
  "asks P m \<longleftrightarrow> (\<forall>w. grows P w (snd (m w)))"

lemma asksD: "asks P m \<Longrightarrow> m w = (x, w') \<Longrightarrow> grows P w w'"
  by (metis asks_def snd_conv)

lemma asks_ret [grow_intros]: "asks P (ret a)"
  by (simp add: asks_def ret_def)

lemma asks_raise [grow_intros]: "asks P (raise e)"
  by (simp add: asks_def raise_def)

lemma asks_bind [grow_intros]:
  assumes "asks P m" "\<And>a. asks P (k a)"
  shows "asks P (\<lambda>w. bindE (m w) k)"
  unfolding asks_def
proof
  fix w
  obtain x w1 where m: "m w = (x, w1)" by fastforce
  then have g: "grows P w w1" using assms(1) by (rule asksD [rotated])
  show "grows P w (snd (bindE (m w) k))"
  proof (cases x)
    case (Inr a)
    have "grows P w1 (snd (k a w1))" using assms(2) by (simp add: asks_def)
    with Inr m g show ?thesis by (simp add: grows_trans)
  qed (use m g in simp)
qed

lemma asks_liftE [grow_intros]: "(\<And>a. asks P (k a)) \<Longrightarrow> asks P (\<lambda>w. liftE r k w)"
  by (cases r) (simp_all add: asks_def raise_def)

lemma asks_if [grow_intros]: "(b \<Longrightarrow> asks P m) \<Longrightarrow> (\<not> b \<Longrightarrow> asks P n) \<Longrightarrow> asks P (\<lambda>w. if b then m w else n w)"
  by (simp add: asks_def)

lemma asks_ask [grow_intros]: "P (Http q) \<Longrightarrow> asks P (ask W q)"
  by (auto simp: asks_def ask_def)

section \<open>The mutating requests of a job\<close>

text \<open>
  The requests that change the repository of a task: the creation of its planned branch, the change of an
  approved file on that branch with the approved content, and the pull request from that branch.
\<close>

definition creates_branch :: "string \<Rightarrow> string \<Rightarrow> HttpRequest \<Rightarrow> bool" where
  "creates_branch repository branch q \<longleftrightarrow>
     rq_method q = ''POST'' \<and> rq_url q = repo_url repository ''/git/refs'' \<and>
     (\<exists>sha. rq_json q = JObj [(''ref'', JStr (''refs/heads/'' @ branch)), (''sha'', JStr sha)])"

definition json_has :: "json \<Rightarrow> string \<Rightarrow> string \<Rightarrow> bool" where
  "json_has v k text \<longleftrightarrow> (\<exists>d. v = JObj d \<and> dict_get d k = Some (JStr text))"

definition changes_file :: "string \<Rightarrow> string \<Rightarrow> FileChange \<Rightarrow> HttpRequest \<Rightarrow> bool" where
  "changes_file repository branch change q \<longleftrightarrow>
     rq_url q = contents_url repository (py_strip (fc_path change)) \<and> json_has (rq_json q) ''branch'' branch \<and>
     (rq_method q = ''PUT'' \<and> change_type_of change \<in> {''create'', ''update''} \<and>
        (\<exists>text. json_has (rq_json q) ''content'' text \<and> b64decode text = opt_str (fc_new_content change)) \<or>
      rq_method q = ''DELETE'' \<and> change_type_of change \<notin> {''create'', ''update''})"

definition opens_pull_request :: "string \<Rightarrow> string \<Rightarrow> HttpRequest \<Rightarrow> bool" where
  "opens_pull_request repository branch q \<longleftrightarrow>
     rq_method q = ''POST'' \<and> rq_url q = repo_url repository ''/pulls'' \<and> json_has (rq_json q) ''head'' branch"

definition is_get :: "outside \<Rightarrow> bool" where
  "is_get e \<longleftrightarrow> (case e of Http q \<Rightarrow> rq_method q = ''GET'' | _ \<Rightarrow> True)"

definition is_event :: "(HttpRequest \<Rightarrow> bool) \<Rightarrow> outside \<Rightarrow> bool" where
  "is_event P e \<longleftrightarrow> is_get e \<or> (case e of Http q \<Rightarrow> P q | _ \<Rightarrow> True)"

lemma is_event_get [simp]: "is_event P (Http (http_get url params))"
  by (simp add: is_event_def is_get_def http_get_def)

lemma is_event_process [simp]: "is_event P (Process args cwd timeout)" "is_event P (RemoveTree dir)"
  by (simp_all add: is_event_def is_get_def)

lemma asks_branch_exists [grow_intros]: "asks (is_event P) (github_branch_exists W repository branch)"
  unfolding github_branch_exists_def by (intro grow_intros) simp_all

lemma asks_branch_sha [grow_intros]: "asks (is_event P) (get_branch_sha E W repository branch)"
  unfolding get_branch_sha_def by (intro grow_intros) simp_all

lemma asks_create_branch: "asks (is_event (creates_branch repository branch)) (create_branch W repository branch sha)"
  unfolding create_branch_def
  by (intro grow_intros) (simp_all add: is_event_def creates_branch_def http_send_def)

lemma asks_new_branch:
  "asks (is_event (creates_branch repository branch)) (require_new_branch E W repository branch source)"
  unfolding require_new_branch_def by (intro grow_intros asks_create_branch)

lemma asks_file_sha [grow_intros]: "asks (is_event P) (get_file_sha E W repository path branch)"
  unfolding get_file_sha_def by (intro grow_intros) simp_all

lemma asks_commit_sha [grow_intros]: "asks P (commit_sha_of E missing r)"
  unfolding commit_sha_of_def by (intro grow_intros)

lemma asks_change:
  "asks (is_event (changes_file (opt_str (task_repository task)) branch change)) (apply_file_change E W task branch change)"
proof -
  let ?P = "is_event (changes_file (opt_str (task_repository task)) branch change)"
  let ?r = "opt_str (task_repository task)" and ?p = "py_strip (fc_path change)"
  have put: "asks ?P (create_or_update_file E W ?r ?p branch (opt_str (fc_new_content change)) message sha)"
    if "change_type_of change \<in> set [''create'', ''update'']" for message sha
    unfolding create_or_update_file_def using that
    by (intro grow_intros) (auto simp: is_event_def changes_file_def json_has_def http_send_def b64_roundtrip)
  have del: "asks ?P (delete_file E W ?r ?p branch message sha)"
    if "change_type_of change \<notin> set [''create'', ''update'']" for message sha
    unfolding delete_file_def using that
    by (intro grow_intros) (auto simp: is_event_def changes_file_def json_has_def http_send_def)
  show ?thesis
    unfolding apply_file_change_def Let_def by (intro grow_intros put del)
qed

lemma asks_mono: "asks P m \<Longrightarrow> (\<And>e. P e \<Longrightarrow> Q e) \<Longrightarrow> asks Q m"
  unfolding asks_def by (meson grows_mono)

lemma is_event_mono: "is_event P e \<Longrightarrow> (\<And>q. P q \<Longrightarrow> Q q) \<Longrightarrow> is_event Q e"
  by (auto simp: is_event_def split: outside.splits)

lemma asks_changes:
  "asks (is_event (\<lambda>q. \<exists>change \<in> set changes. changes_file (opt_str (task_repository task)) branch change q))
     (apply_changes E W task branch changes)"
proof (induction changes)
  case Nil
  show ?case using asks_ret by (simp add: asks_def)
next
  case (Cons change changes)
  let ?r = "opt_str (task_repository task)"
  have "asks (is_event (\<lambda>q. \<exists>c \<in> set (change # changes). changes_file ?r branch c q)) (apply_file_change E W task branch change)"
    using asks_change by (rule asks_mono) (erule is_event_mono, simp)
  moreover have "asks (is_event (\<lambda>q. \<exists>c \<in> set (change # changes). changes_file ?r branch c q)) (apply_changes E W task branch changes)"
    using Cons.IH by (rule asks_mono) (erule is_event_mono, auto)
  ultimately show ?case
    unfolding apply_changes.simps by (intro grow_intros)
qed

lemma asks_apply:
  "asks (is_event (\<lambda>q. \<exists>change \<in> set (appr_files a). changes_file (opt_str (task_repository task)) branch change q))
     (apply_file_changes E W task a branch)"
  unfolding apply_file_changes_def by (intro grow_intros asks_changes)

lemma asks_open:
  "asks (is_event (opens_pull_request (opt_str (task_repository task)) head)) (open_new_pull_request E W task approval head base)"
proof -
  let ?r = "opt_str (task_repository task)"
  have "asks (is_event (opens_pull_request ?r head)) (open_pull_request_exists W ?r head base)"
    unfolding open_pull_request_exists_def by (intro grow_intros) simp_all
  moreover have "asks (is_event (opens_pull_request ?r head)) (create_pull_request E W ?r title body head base)" for title body
    unfolding create_pull_request_def
    by (intro grow_intros) (simp_all add: is_event_def opens_pull_request_def json_has_def http_send_def)
  ultimately show ?thesis
    unfolding open_new_pull_request_def Let_def by (intro grow_intros)
qed

end
