(* ===== verification/WorkerProperties.thy ===== *)
theory WorkerProperties
  imports WorkerTrace Samples
begin

text \<open>
  What the worker flow guarantees: everything it changes on GitHub is the planned branch of the approved
  task, and a pull request is opened only after every command of the test plan passed. And what it does
  not: a worker without a token keeps its lease, and commits made before a failure are not reported.
\<close>

section \<open>The steps\<close>

text \<open>The approved changes of a job, and the requests that write its branch.\<close>

definition approved_changes :: "AgentTask \<Rightarrow> (string, ApprovalRequest) dict \<Rightarrow> FileChange list" where
  "approved_changes t approvals =
     (case dict_get approvals (opt_str (task_approval_request_id t)) of None \<Rightarrow> [] | Some a \<Rightarrow> appr_files a)"

definition makes_branch :: "AgentTask \<Rightarrow> HttpRequest \<Rightarrow> bool" where
  "makes_branch t q \<longleftrightarrow> validate_branch_plan t = None \<and>
     creates_branch (opt_str (task_repository t)) (planned_branch_for_task t) q"

definition edits_file :: "AgentTask \<Rightarrow> (string, ApprovalRequest) dict \<Rightarrow> HttpRequest \<Rightarrow> bool" where
  "edits_file t approvals q \<longleftrightarrow> validate_branch_plan t = None \<and>
     (\<exists>change \<in> set (approved_changes t approvals). validate_file_change change = None \<and>
        changes_file (opt_str (task_repository t)) (planned_branch_for_task t) change q)"

definition writes_branch :: "AgentTask \<Rightarrow> (string, ApprovalRequest) dict \<Rightarrow> HttpRequest \<Rightarrow> bool" where
  "writes_branch t approvals q \<longleftrightarrow> makes_branch t q \<or> edits_file t approvals q"

definition opens_review :: "AgentTask \<Rightarrow> HttpRequest \<Rightarrow> bool" where
  "opens_review t q \<longleftrightarrow> validate_branch_plan t = None \<and>
     opens_pull_request (opt_str (task_repository t)) (planned_branch_for_task t) q"

text \<open>A step from one state to the next: the job is kept and the record grows.\<close>

definition step_ok :: "AgentTask \<Rightarrow> (string, ApprovalRequest) dict \<Rightarrow> (HttpRequest \<Rightarrow> bool) \<Rightarrow> wsys \<Rightarrow> wsys \<Rightarrow> bool" where
  "step_ok t a P st st' \<longleftrightarrow> holds_job t a (fst st') \<and> grows (is_event P) (snd st) (snd st')"

lemma step_okI: "holds_job t a s' \<Longrightarrow> grows (is_event P) w w' \<Longrightarrow> step_ok t a P (s, w) (s', w')"
  by (simp add: step_ok_def)

lemma step_ok_trans: "step_ok t a P st st' \<Longrightarrow> step_ok t a P st' st'' \<Longrightarrow> step_ok t a P st st''"
  using grows_trans by (auto simp: step_ok_def)

lemma step_ok_mono: "step_ok t a P st st' \<Longrightarrow> (\<And>q. P q \<Longrightarrow> Q q) \<Longrightarrow> step_ok t a Q st st'"
  unfolding step_ok_def by (metis grows_mono is_event_mono)

lemma same_repository: "same_job t u \<Longrightarrow> task_repository u = task_repository t"
  by (simp add: same_job_def)

lemma closed_job:
  "close_worker E event d v lease actor r = (u', s') \<Longrightarrow> in_hand t a v r \<Longrightarrow> holds_job t a s'"
  using in_hand_close in_hand_job by blast

lemma noted_job:
  "worker_note E v ty m actor d r = (ev, r') \<Longrightarrow> in_hand t a v r \<Longrightarrow> in_hand t a v r'"
  using in_hand_note by blast

lemma branch_worker_step:
  assumes "in_hand t a u s" "branch_worker E W actor source lease u (s, w) = (x, st')"
  shows "step_ok t a (makes_branch t) (s, w) st'"
proof -
  have j: "same_job t u" using assms(1) by (simp add: in_hand_def)
  note plan = same_job_plan [OF j] same_repository [OF j]
  have trace: "grows (is_event (makes_branch t)) w w'"
    if "validate_branch_plan t = None"
      "require_new_branch E W (opt_str (task_repository t)) (planned_branch_for_task t) source w = (y, w')" for y w'
    using that(1)
    by (intro grows_mono [OF asksD [OF asks_new_branch that(2)]]) (erule is_event_mono, simp add: makes_branch_def)
  show ?thesis
    using assms closed_job noted_job trace in_hand_job [OF assms(1)]
    by (auto simp: branch_worker_def plan append_branch_created_event_def Let_def
        intro!: step_okI split: option.splits if_splits prod.splits sum.splits)
qed

lemma branch_step:
  assumes "holds_job t a s" "task_id t \<noteq> []"
    "run_agent_worker_github_branch_creation E W (Some (task_id t)) False actor n source (s, w) = (x, st')"
  shows "step_ok t a (makes_branch t) (s, w) st'"
proof -
  obtain claim s1 where c: "take_task E (Some (task_id t)) False actor n s = (claim, s1)" by fastforce
  with assms(1,2) have "holds_job t a s1 \<and> (cl_success claim \<longrightarrow> (\<exists>u. cl_task claim = Some u \<and> in_hand t a u s1))"
    by (intro take_task_job) simp_all
  with assms(2,3) c branch_worker_step [of t a _ s1 E W actor source "cl_lease_token claim" w x st'] show ?thesis
    by (auto simp: run_agent_worker_github_branch_creation_def Let_def step_ok_def split: bool.splits option.splits)
qed

lemma approved_changes_linked:
  assumes "in_hand t a u s" "linked_approval u s = Some ap"
  shows "approved_changes t a = appr_files ap"
  using assms by (auto simp: approved_changes_def linked_approval_def in_hand_def holds_job_def same_job_def
      split: if_splits)

lemma checked_changes: "check_file_changes seen cs = None \<Longrightarrow> change \<in> set cs \<Longrightarrow> validate_file_change change = None"
  by (induction seen cs rule: check_file_changes.induct) (auto simp: Let_def split: if_splits option.splits)

lemma files_worker_step:
  assumes "in_hand t a u s" "files_worker E W actor lease u (s, w) = (x, st')"
  shows "step_ok t a (edits_file t a) (s, w) st'"
proof -
  have j: "same_job t u" using assms(1) by (simp add: in_hand_def)
  note plan = same_job_plan(1,2) [OF j] same_repository [OF j]
  have trace: "grows (is_event (edits_file t a)) w w'"
    if "validate_branch_plan t = None" "linked_approval u s = Some ap" "validate_file_patch_plan (Some ap) = None"
      "apply_file_changes E W u ap (planned_branch_for_task t) w = (y, w')" for ap y w'
  proof -
    have "validate_file_change change = None" if "change \<in> set (appr_files ap)" for change
      using \<open>validate_file_patch_plan (Some ap) = None\<close> that checked_changes
      by (auto simp: validate_file_patch_plan_def split: if_splits)
    then show ?thesis
      using that(1) approved_changes_linked [OF assms(1) that(2)]
      by (intro grows_mono [OF asksD [OF asks_apply that(4)]]) (erule is_event_mono, auto simp: edits_file_def plan)
  qed
  show ?thesis
    using assms closed_job noted_job trace in_hand_job [OF assms(1)]
    by (auto simp: files_worker_def plan append_files_applied_event_def Let_def
        intro!: step_okI split: option.splits if_splits prod.splits sum.splits)
qed

lemma files_step:
  assumes "holds_job t a s" "task_id t \<noteq> []"
    "run_agent_worker_github_file_application E W (Some (task_id t)) False actor n (s, w) = (x, st')"
  shows "step_ok t a (edits_file t a) (s, w) st'"
proof -
  obtain claim s1 where c: "take_task E (Some (task_id t)) False actor n s = (claim, s1)" by fastforce
  with assms(1,2) have "holds_job t a s1 \<and> (cl_success claim \<longrightarrow> (\<exists>u. cl_task claim = Some u \<and> in_hand t a u s1))"
    by (intro take_task_job) simp_all
  with assms(2,3) c files_worker_step [of t a _ s1 E W actor "cl_lease_token claim" w x st'] show ?thesis
    by (auto simp: run_agent_worker_github_file_application_def Let_def step_ok_def split: bool.splits option.splits)
qed

lemma pr_worker_step:
  assumes "in_hand t a u s" "pr_worker E W actor base lease u (s, w) = (x, st')"
  shows "step_ok t a (opens_review t) (s, w) st' \<and> (\<forall>e. x = Inl e \<longrightarrow> snd st' = w)"
proof -
  have j: "same_job t u" using assms(1) by (simp add: in_hand_def)
  note plan = same_job_plan(1,2) [OF j] same_repository [OF j]
  have status: "set_task_status st u s = (v, r) \<Longrightarrow> in_hand t a v r" for st v r
    using in_hand_status [OF assms(1)] by blast
  have trace: "grows (is_event (opens_review t)) w w'"
    if "validate_branch_plan t = None"
      "open_new_pull_request E W u approval (planned_branch_for_task t) base w = (y, w')" for approval y w'
    using that(1)
    by (intro grows_mono [OF asksD [OF asks_open that(2)]]) (erule is_event_mono, simp add: opens_review_def plan)
  show ?thesis
    using assms trace in_hand_job [OF assms(1)]
    by (auto simp: pr_worker_def plan append_pr_created_event_def Let_def
        intro!: step_okI dest: closed_job noted_job status split: option.splits if_splits prod.splits sum.splits)
qed

lemma pr_step:
  assumes "holds_job t a s" "task_id t \<noteq> []"
    "run_agent_worker_github_pr_creation E W (Some (task_id t)) False actor n base (s, w) = (x, st')"
  shows "step_ok t a (opens_review t) (s, w) st' \<and> (\<forall>e. x = Inl e \<longrightarrow> snd st' = w)"
proof -
  obtain claim s1 where c: "take_task E (Some (task_id t)) False actor n s = (claim, s1)" by fastforce
  with assms(1,2) have "holds_job t a s1 \<and> (cl_success claim \<longrightarrow> (\<exists>u. cl_task claim = Some u \<and> in_hand t a u s1))"
    by (intro take_task_job) simp_all
  with assms(2,3) c pr_worker_step [of t a _ s1 E W actor base "cl_lease_token claim" w x st'] show ?thesis
    by (auto simp: run_agent_worker_github_pr_creation_def Let_def step_ok_def split: bool.splits option.splits)
qed

section \<open>The executors\<close>

text \<open>
  What the runner relies on of the executor it is given: the result is that of the command, and nothing
  is written to GitHub.
\<close>

definition no_request :: "HttpRequest \<Rightarrow> bool" where
  "no_request q \<longleftrightarrow> False"

locale command_executor =
  fixes X :: command_runner
  assumes reports: "X known command w = (Inr (r, known'), w') \<Longrightarrow> cx_command r = command"
    and starts: "asks (is_event no_request) (X known command)"
begin

lemma commands_grow: "asks (is_event no_request) (run_commands X known commands)"
proof (induction commands arbitrary: known)
  case Nil
  show ?case using asks_ret by (simp add: asks_def)
next
  case (Cons command commands)
  show ?case
    unfolding run_commands.simps Let_def prod.case_eq_if by (intro grow_intros starts Cons.IH)
qed

text \<open>If as many commands ran as there are and all passed, the results are those of the commands.\<close>

lemma commands_pass:
  assumes "run_commands X known commands w = (Inr rs, w')" "length rs = length commands"
  shows "map cx_command rs = commands"
  using assms
proof (induction commands arbitrary: known w rs)
  case Nil
  then show ?case by simp
next
  case (Cons command commands)
  have norm: "cx_command (normalize_result_artifact r) = cx_command r" for r
    by (simp add: normalize_result_artifact_def Let_def)
  from Cons.prems(1) obtain r known' w1 where x: "X known command w = (Inr (r, known'), w1)"
    and k: "(let r = normalize_result_artifact r in if \<not> command_passed r then ret [r] w1
      else bindE (run_commands X known' commands w1) (\<lambda>rs. ret (r # rs))) = (Inr rs, w')"
    by (auto simp: bindE_Inr_iff)
  from reports [OF x] have c: "cx_command (normalize_result_artifact r) = command" by (simp add: norm)
  show ?case
  proof (cases "command_passed (normalize_result_artifact r)")
    case True
    with k obtain rs' where "run_commands X known' commands w1 = (Inr rs', w')" "rs = normalize_result_artifact r # rs'"
      by (auto simp: Let_def bindE_Inr_iff)
    with Cons c show ?thesis by simp
  next
    case False
    with k c Cons.prems(2) show ?thesis by (auto simp: Let_def)
  qed
qed

end

lemma execute_process_command:
  "execute_process W command args cwd timeout expired w = (Inr r, w') \<Longrightarrow> cx_command r = command"
  by (auto simp: execute_process_def execution_result_def ret_def raise_def split: ProcessReply.splits prod.splits)

lemma asks_process: "asks (is_event P) (execute_process W command args cwd timeout expired)"
  by (auto simp: asks_def execute_process_def start_process_def ret_def raise_def split: ProcessReply.splits)

lemma docker_run_command:
  "docker_run_validation W command cwd p timeout w = (Inr r, w') \<Longrightarrow> cx_command r = command"
  by (auto simp: docker_run_validation_def raise_def dest: execute_process_command split: sum.splits)

interpretation direct: command_executor "direct_executor W cwd timeout"
proof unfold_locales
  fix known command w r known' w'
  assume "direct_executor W cwd timeout known command w = (Inr (r, known'), w')"
  then show "cx_command r = command"
    by (auto simp: direct_executor_def execute_validation_command_def bindE_Inr_iff raise_def
        dest: execute_process_command split: sum.splits)
next
  fix known command
  have "asks (is_event no_request) (execute_validation_command W cwd timeout command)"
    using asks_process by (auto simp: asks_def execute_validation_command_def raise_def split: sum.splits)
  then show "asks (is_event no_request) (direct_executor W cwd timeout known command)"
    unfolding direct_executor_def by (intro grow_intros)
qed

interpretation contained: command_executor "container_executor W cwd timeout p"
proof unfold_locales
  fix known command w r known' w'
  assume "container_executor W cwd timeout p known command w = (Inr (r, known'), w')"
  then show "cx_command r = command"
    by (auto simp: container_executor_def fail_closed_def bindE_Inr_iff ret_def docker_run_command
        split: if_splits prod.splits option.splits)
next
  fix known command
  have run: "grows (is_event no_request) v (snd (docker_run_validation W command cwd p timeout v))" for v
    using asks_process by (auto simp: asks_def docker_run_validation_def raise_def split: sum.splits)
  have start: "grows (is_event no_request) v (snd (docker_available W v))" for v
    by (auto simp: docker_available_def start_process_def split: ProcessReply.splits)
  have ran: "grows (is_event no_request) v (snd (bindE (docker_run_validation W command cwd p timeout u) (\<lambda>r. ret (r, k))))"
    if "grows (is_event no_request) v u" for v u k
    using that run [of u] grows_trans by (auto simp: bindE_def ret_def split: prod.splits sum.splits)
  show "asks (is_event no_request) (container_executor W cwd timeout p known command)"
    unfolding asks_def
  proof
    fix v
    show "grows (is_event no_request) v (snd (container_executor W cwd timeout p known command v))"
      using start [of v] by (auto simp: container_executor_def ret_def ran split: option.splits prod.splits)
  qed
qed

section \<open>The validation step\<close>

text \<open>Every command of the approved test plan is allowlisted, ran, and passed.\<close>

definition validated :: "AgentTask \<Rightarrow> (string, ApprovalRequest) dict \<Rightarrow> AgentWorkerValidationRunResult \<Rightarrow> bool" where
  "validated t approvals v \<longleftrightarrow>
     (\<exists>a. dict_get approvals (opt_str (task_approval_request_id t)) = Some a \<and>
        validate_validation_plan get_validation_execution_policy (Some a) = None \<and>
        map cx_command (vr_results v) = appr_test_plan a \<and> list_all command_passed (vr_results v))"

lemma linked_is_approved:
  "in_hand t a u s \<Longrightarrow> linked_approval u s = Some ap \<Longrightarrow> dict_get a (opt_str (task_approval_request_id t)) = Some ap"
  by (auto simp: linked_approval_def in_hand_def holds_job_def same_job_def split: if_splits)

lemma append_validation_in_hand:
  assumes "in_hand t a u s" "append_validation_event E u ap actor lease ty st m rs s = ((ev, u'), s')"
  shows "in_hand t a u' s'"
  using assms(2) in_hand_status [OF assms(1)]
  by (auto simp: append_validation_event_def Let_def intro: noted_job split: prod.splits)

lemma finish_validation_job:
  assumes "in_hand t a u s" "finish_validation E u ap actor lease result rs s = (v, s')"
  shows "holds_job t a s' \<and> vr_results v = rs \<and> (vr_success v \<longleftrightarrow> list_all command_passed rs \<and> length rs = length (appr_test_plan ap))"
proof -
  have appended: "append_validation_event E u ap actor lease ty st m (Some rs) s = ((ev, u2), r) \<Longrightarrow> in_hand t a u2 r" for ty st m ev u2 r
    using append_validation_in_hand [OF assms(1)] by blast
  show ?thesis
    using assms(2) by (auto simp: finish_validation_def Let_def dest: closed_job appended split: prod.splits)
qed

context command_executor
begin

lemma validation_worker_step:
  assumes "in_hand t a u s" "validation_worker E X actor lease u (s, w) = (x, st')"
  shows "step_ok t a no_request (s, w) st' \<and> (\<forall>v. x = Inr v \<and> vr_success v \<longrightarrow> validated t a v)"
proof (cases "(validate_validation_plan get_validation_execution_policy (linked_approval u s), linked_approval u s)")
  case (Pair e l)
  show ?thesis
  proof (cases "e = None \<and> l \<noteq> None")
    case False
    then show ?thesis
      using assms Pair closed_job [OF _ assms(1)]
      by (auto simp: validation_worker_def validation_refusal_def Let_def step_ok_def split: option.splits prod.splits)
  next
    case True
    then obtain ap where ap: "linked_approval u s = Some ap"
        "validate_validation_plan get_validation_execution_policy (Some ap) = None" using Pair by auto
    obtain ev u1 s1 where e: "append_validation_event E u ap actor lease TESTS_STARTED AgentTaskStatus.TESTING
        ''Worker started allowlisted validation commands.'' None s = ((ev, u1), s1)" by (metis surj_pair)
    obtain y w1 where r: "run_commands X None (appr_test_plan ap) w = (y, w1)" by fastforce
    have i: "in_hand t a u1 s1" using append_validation_in_hand [OF assms(1) e] .
    have g: "grows (is_event no_request) w w1" using asksD [OF commands_grow r] .
    show ?thesis
    proof (cases y)
      case (Inl err)
      with assms(2) ap e r g in_hand_job [OF i] show ?thesis
        by (auto simp: validation_worker_def Let_def step_ok_def)
    next
      case (Inr rs)
      have pass: "length rs = length (appr_test_plan ap) \<Longrightarrow> map cx_command rs = appr_test_plan ap"
        using commands_pass r Inr by blast
      show ?thesis
        using assms(2) ap e r Inr g pass i linked_is_approved [OF assms(1) ap(1)]
        by (auto simp: validation_worker_def Let_def step_ok_def validated_def dest!: finish_validation_job [rotated] split: prod.splits)
    qed
  qed
qed

lemma validation_step:
  assumes "holds_job t a s" "task_id t \<noteq> []"
    "run_agent_worker_validation_commands E X (Some (task_id t)) False actor n (s, w) = (x, st')"
  shows "step_ok t a no_request (s, w) st' \<and> (\<forall>v. x = Inr v \<and> vr_success v \<longrightarrow> validated t a v)"
proof -
  obtain claim s1 where c: "take_task E (Some (task_id t)) False actor n s = (claim, s1)" by fastforce
  with assms(1,2) have "holds_job t a s1 \<and> (cl_success claim \<longrightarrow> (\<exists>u. cl_task claim = Some u \<and> in_hand t a u s1))"
    by (intro take_task_job) simp_all
  with assms(2,3) c validation_worker_step [of t a _ s1 E actor "cl_lease_token claim" w x st'] show ?thesis
    by (auto simp: run_agent_worker_validation_commands_def validation_refusal_def Let_def step_ok_def
        split: bool.splits option.splits)
qed

end

section \<open>The flow\<close>

text \<open>
  The outcome of a flow, or of what is left of it, from a record \<open>w\<close>: first requests that write the branch,
  then requests that open the review; and if there is one of those, the validation had succeeded.
\<close>

definition flow_ok ::
    "AgentTask \<Rightarrow> (string, ApprovalRequest) dict \<Rightarrow> outside list \<Rightarrow>
     (pyerror, AgentWorkerOrchestrationResult, wsys) outcome \<Rightarrow> bool" where
  "flow_ok t a w r \<longleftrightarrow>
     (\<exists>w1. grows (is_event (writes_branch t a)) w w1 \<and> grows (is_event (opens_review t)) w1 (snd (snd r)) \<and>
        (grows (is_event no_request) w1 (snd (snd r)) \<or>
         (\<exists>result v. fst r = Inr result \<and> wo_validation_result result = Some v \<and> validated t a v)))"

lemma flow_ok_stop: "grows (is_event (writes_branch t a)) w (snd (snd r)) \<Longrightarrow> flow_ok t a w r"
  unfolding flow_ok_def by (intro exI [of _ "snd (snd r)"]) simp

lemma flow_ok_after: "grows (is_event (writes_branch t a)) w w1 \<Longrightarrow> flow_ok t a w1 r \<Longrightarrow> flow_ok t a w r"
  unfolding flow_ok_def using grows_trans by blast

lemma no_request_event: "is_event no_request e \<Longrightarrow> is_event P e"
  by (erule is_event_mono) (simp add: no_request_def)

lemma flow_ok_cleanup:
  assumes "flow_ok t a w r"
  shows "flow_ok t a w (finally_cleanup W ws r)"
proof -
  obtain x s1 v where r: "r = (x, s1, v)" by (cases r)
  define v' where "v' = snd (cleanup_agent_worker_workspace W ws v)"
  then have v: "cleanup_agent_worker_workspace W ws v = (ws\<lparr>ws_cleaned := True\<rparr>, v')" "grows (is_event no_request) v v'"
    by (auto simp: cleanup_agent_worker_workspace_def split: option.splits)
  from v(2) have "grows (is_event P) v v'" for P by (rule grows_mono) (rule no_request_event)
  with assms r v show ?thesis
    by (cases x) (auto simp: flow_ok_def finally_cleanup_def intro: grows_trans)
qed

lemma flow_failed_keeps: "snd (snd (flow_failed E tid actor reason f (s, w))) = w"
  by (simp add: flow_failed_def ret_def split: prod.splits)

lemma flow_ok_failed: "flow_ok t a w (flow_failed E tid actor reason f (s, w))"
  by (rule flow_ok_stop) (simp add: flow_failed_keeps)

context command_executor
begin

lemma validate_and_open_ok:
  assumes "holds_job t a s" "task_id t \<noteq> []" "task_id task = task_id t"
  shows "flow_ok t a w (validate_and_open E W opts task X f b fs (s, w))"
proof -
  let ?A = "is_event (writes_branch t a)" and ?n = "fo_lease_seconds opts"
  have none: "grows (is_event no_request) u v \<Longrightarrow> grows ?A u v" for u v
    by (erule grows_mono) (rule no_request_event)
  obtain x s1 w1 where v: "run_agent_worker_validation_commands E X (Some (task_id t)) False
      (fo_worker_id opts @ '':validation'') ?n (s, w) = (x, s1, w1)" by (metis surj_pair)
  note step = validation_step [OF assms(1,2) v]
  then have g: "grows ?A w w1" "holds_job t a s1" using none by (auto simp: step_ok_def)
  show ?thesis
  proof (cases "\<exists>r. x = Inr r \<and> vr_success r")
    case False
    then show ?thesis
      using g(1) v assms(3) by (cases x) (auto intro!: flow_ok_stop simp: validate_and_open_def flow_failed_keeps Let_def)
  next
    case True
    then obtain r where r: "x = Inr r" "vr_success r" "validated t a r" using step by auto
    obtain y s2 w2 where p: "run_agent_worker_github_pr_creation E W (Some (task_id t)) False
        (fo_worker_id opts @ '':pr'') ?n (fo_base_branch opts) (s1, w1) = (y, s2, w2)" by (metis surj_pair)
    note pr = pr_step [OF g(2) assms(2) p]
    have ok: "flow_ok t a w z" if "snd (snd z) = w2"
        "y = Inl e \<or> (\<exists>o'. fst z = Inr o' \<and> wo_validation_result o' = Some r)" for z e
      unfolding flow_ok_def using that pr g(1) r(3) by (intro exI [of _ w1]) (auto simp: step_ok_def)
    have result: "failure_result E tid actor reason h s = (o', s') \<Longrightarrow> wo_validation_result o' = fl_validation h"
      for tid actor reason h s o' s'
      by (auto simp: failure_result_def flow_outcome_def Let_def split: option.splits prod.splits)
    have finished: "complete_flow E opts task h b fs v pr s = (o', s') \<Longrightarrow> wo_validation_result o' = fl_validation h"
      for h v pr s o' s'
      by (auto simp: complete_flow_def flow_outcome_def Let_def split: option.splits prod.splits)
    show ?thesis
    proof (cases y)
      case (Inl e)
      then show ?thesis
        using v p r assms(3) by (intro ok [where e = e]) (simp_all add: validate_and_open_def Let_def)
    next
      case (Inr pull)
      have "\<exists>o'. fst (validate_and_open E W opts task X f b fs (s, w)) = Inr o' \<and> wo_validation_result o' = Some r"
        "snd (snd (validate_and_open E W opts task X f b fs (s, w))) = w2"
        using v p r Inr assms(3)
        by (auto simp: validate_and_open_def flow_failed_def ret_def Let_def dest: result finished split: prod.splits)
      then show ?thesis by (intro ok) auto
    qed
  qed
qed

end

text \<open>The executor the flow chooses is one of the two; both keep the contract.\<close>

lemma choose_and_validate_ok:
  assumes "holds_job t a s" "task_id t \<noteq> []" "task_id task = task_id t"
  shows "flow_ok t a w (choose_executor_and_validate E W opts task cwd f b fs (s, w))"
  using assms
  by (auto simp: choose_executor_and_validate_def build_container_validation_executor_def Let_def
      intro!: flow_ok_failed contained.validate_and_open_ok direct.validate_and_open_ok split: option.splits)

lemma workspace_command_grows: "asks (is_event P) (run_workspace_command W command cwd)"
  by (auto simp: asks_def run_workspace_command_def start_process_def ret_def raise_def split: ProcessReply.splits)

lemma workspace_failed_step:
  assumes "workspace_failed E W actor reason r (s, w) = (r', st')" "holds_job t a s" "grows (is_event P) v w"
  shows "holds_job t a (fst st') \<and> grows (is_event P) v (snd st')"
proof -
  have "grows (is_event P) w (snd (cleanup_agent_worker_workspace W r' w))" for r'
    by (auto simp: cleanup_agent_worker_workspace_def split: option.splits)
  then show ?thesis
    using assms grows_trans [OF assms(3)] by (auto simp: workspace_failed_def Let_def split: prod.splits) (metis snd_conv)
qed

lemma clone_and_checkout_grows:
  assumes "clone_and_checkout W repository branch dir path w = (x, w')"
  shows "grows (is_event P) w w'"
proof -
  have "run_workspace_command W command cwd v = (y, v') \<Longrightarrow> grows (is_event P) v v'" for command cwd v y v'
    using asksD [OF workspace_command_grows] .
  then show ?thesis
    using assms by (auto simp: clone_and_checkout_def split: prod.splits sum.splits if_splits)
      (blast intro: grows_trans)+
qed

lemma prepare_step:
  assumes "holds_job t a s" "prepare_agent_worker_workspace E W task branch actor parent (s, w) = (r, st')"
  shows "step_ok t a P (s, w) st'"
proof -
  have failed: "workspace_failed E W actor reason q (s, v) = (r', st'') \<Longrightarrow> grows (is_event P) w v \<Longrightarrow>
      step_ok t a P (s, w) st''" for reason q v r' st''
    using workspace_failed_step [OF _ assms(1)] by (simp add: step_ok_def)
  show ?thesis
    using assms
    by (auto simp: prepare_agent_worker_workspace_def Let_def split: if_splits prod.splits option.splits
        intro!: step_okI dest: clone_and_checkout_grows failed [OF _ clone_and_checkout_grows])
qed

lemma workspace_and_validation_ok:
  assumes "holds_job t a s" "task_id t \<noteq> []" "task_id task = task_id t"
  shows "flow_ok t a w (workspace_and_validation E W opts task f b fs (s, w))"
proof (cases "fo_use_isolated_workspace opts")
  case True
  obtain r s1 w1 where p: "prepare_agent_worker_workspace E W task
      (str_or (opt_str (wb_branch b)) (opt_str (task_branch_preference task)))
      (fo_worker_id opts @ '':workspace'') (fo_cwd opts) (s, w) = (r, s1, w1)" by (metis surj_pair)
  then have g: "holds_job t a s1" "grows (is_event (writes_branch t a)) w w1"
    using prepare_step [OF assms(1), where P = "writes_branch t a"] by (auto simp: step_ok_def)
  show ?thesis
    using True p g assms(2,3)
    by (auto simp: workspace_and_validation_def Let_def
        intro!: flow_ok_cleanup flow_ok_failed flow_ok_after [OF g(2)] choose_and_validate_ok)
qed (use assms in \<open>simp add: workspace_and_validation_def choose_and_validate_ok\<close>)

lemma worker_flow_ok:
  assumes "holds_job t a s" "task_id t \<noteq> []" "dict_get (agent_tasks s) (task_id t) = Some t"
  shows "flow_ok t a w (run_approved_agent_task_worker_flow E W opts (task_id t) (s, w))"
proof -
  let ?s = "add_audit E ''agent_worker.orchestration_started'' (task_id t)
      [(''worker_id'', JStr (fo_worker_id opts)),
       (''container_validation_required'', JBool (fo_use_container_validation opts))] (fo_worker_id opts) s"
  obtain x s1 w1 where b: "run_agent_worker_github_branch_creation E W (Some (task_id t)) False
      (fo_worker_id opts @ '':branch'') (fo_lease_seconds opts) (fo_source_branch opts) (?s, w) = (x, s1, w1)"
    by (metis surj_pair)
  have "step_ok t a (makes_branch t) (?s, w) (s1, w1)"
    using branch_step [OF _ assms(2) b] assms(1) by simp
  then have "step_ok t a (writes_branch t a) (?s, w) (s1, w1)"
    by (rule step_ok_mono) (simp add: writes_branch_def)
  then have g: "holds_job t a s1" "grows (is_event (writes_branch t a)) w w1" by (simp_all add: step_ok_def)
  obtain y s2 w2 where f: "run_agent_worker_github_file_application E W (Some (task_id t)) False
      (fo_worker_id opts @ '':files'') (fo_lease_seconds opts) (s1, w1) = (y, s2, w2)" by (metis surj_pair)
  have h: "holds_job t a s2" "grows (is_event (writes_branch t a)) w w2"
    using step_ok_mono [OF files_step [OF g(1) assms(2) f], of "writes_branch t a"] g(2) grows_trans
    by (auto simp: step_ok_def writes_branch_def)
  show ?thesis
    using assms(2,3) b f g h
    by (cases x; cases y)
       (auto simp: run_approved_agent_task_worker_flow_def Let_def intro: flow_ok_stop
         flow_ok_after [OF g(2) flow_ok_failed] flow_ok_after [OF h(2) flow_ok_failed]
         flow_ok_after [OF h(2) workspace_and_validation_ok])
qed

lemma review_is_not_writing: "opens_review t q \<Longrightarrow> \<not> writes_branch t a q \<and> rq_method q \<noteq> ''GET''"
  by (auto simp: opens_review_def opens_pull_request_def writes_branch_def makes_branch_def edits_file_def
      creates_branch_def changes_file_def repo_url_def)


text \<open>A GitHub on which the flow goes through.\<close>

definition obliging_http :: "outside list \<Rightarrow> HttpRequest \<Rightarrow> string + HttpReply" where
  "obliging_http w q = Inr
     (let created = list_ex (\<lambda>e. case e of Http p \<Rightarrow> rq_method p = ''POST'' | _ \<Rightarrow> False) w;
          reply = (\<lambda>code v. \<lparr>hr_status = code, hr_text = [], hr_json = Inr v\<rparr>);
          commit = JObj [(''commit'', JObj [(''sha'', JStr ''c1'')])]
      in if rq_method q = ''POST'' \<and> rq_url q = repo_url ''o/r'' ''/pulls'' then
           reply 201 (JObj [(''number'', JInt 7), (''title'', JStr ''T''), (''html_url'', JStr ''u'')])
         else if rq_method q \<noteq> ''GET'' then reply 201 commit
         else if rq_url q = ref_url ''o/r'' ''main'' then reply 200 (JObj [(''object'', JObj [(''sha'', JStr ''m1'')])])
         else if rq_url q = ref_url ''o/r'' ''feature/x'' then reply (if created then 200 else 404) JNull
         else if rq_url q = repo_url ''o/r'' ''/pulls'' then reply 200 (JList [])
         else reply 404 JNull)"

definition obliging_world :: world where
  "obliging_world = \<lparr>http_reply = obliging_http, process_reply = (\<lambda>w args cwd limit. Completed 0 [] [] 1),
     resolve_path = (\<lambda>p. p), directory_exists = (\<lambda>w p. True), new_directory = (\<lambda>p prefix. ''/tmp/'' @ prefix),
     github_token = ''token''\<rparr>"

definition flow_store :: store where
  "flow_store = empty_store\<lparr>agent_tasks := [(''task1'', sample_task)],
     approval_requests := [(''appr1'', sample_approval\<lparr>appr_files :=
       [sample_file\<lparr>fc_change_type := ''create'', fc_new_content := Some ''x''\<rparr>]\<rparr>)]\<rparr>"

definition flow_sys :: sys where
  "flow_sys = sys_of flow_store 1000000 0 flow_store"

definition sample_options :: flow_options where
  "sample_options = \<lparr>fo_worker_id = ''w'', fo_lease_seconds = 300, fo_source_branch = ''main'', fo_base_branch = ''main'',
     fo_cwd = None, fo_timeout_seconds = 120, fo_use_isolated_workspace = True, fo_use_container_validation = True\<rparr>"

lemma flow_sys_parts:
  "dict_get (agent_tasks flow_sys) ''task1'' = Some sample_task" "task_id sample_task = ''task1''" "durable flow_sys"
  by (simp_all add: flow_sys_def flow_store_def sys_of_def empty_store_def sample_task_def durable_def store.defs)


end
