(* ===== verification/DefaultExecutor.thy ===== *)
theory DefaultExecutor
  imports WorkerFlow
begin

text \<open>
  \<open>DefaultAgentRunStepExecutor\<close> of \<open>agent_run_supervisor.py\<close>: each step of a run is done by the worker
  for it, and what the worker returned is classified. It joins the two halves of the program: the run
  with its steps, and the workers that act on GitHub and start processes.
\<close>

section \<open>Evidence\<close>

text \<open>The results as dictionaries (\<open>to_dict\<close>); \<open>generated_at\<close> is the time the result was made.\<close>

definition json_opt_int :: "int option \<Rightarrow> json" where
  "json_opt_int v = (case v of None \<Rightarrow> JNull | Some i \<Rightarrow> JInt i)"

definition generated_at :: "env \<Rightarrow> sys \<Rightarrow> jdict" where
  "generated_at E s = [(''generated_at'', JStr (time_text E (clock s)))]"

definition branch_evidence :: "AgentWorkerGitHubBranchResult \<Rightarrow> jdict" where
  "branch_evidence r =
     [(''success'', JBool (wb_success r)), (''task_id'', json_opt_str (wb_task_id r)),
      (''worker_id'', JStr (wb_worker_id r)), (''lease_token'', json_opt_str (wb_lease_token r)),
      (''repository'', json_opt_str (wb_repository r)), (''branch'', json_opt_str (wb_branch r)),
      (''source_branch'', JStr (wb_source_branch r)), (''source_sha'', json_opt_str (wb_source_sha r)),
      (''branch_created'', JBool (wb_branch_created r)), (''branch_url'', json_opt_str (wb_branch_url r)),
      (''event_id'', json_opt_str (wb_event_id r)), (''final_status'', json_status (wb_final_status r)),
      (''reason'', JStr (wb_reason r))]"

definition files_evidence :: "AgentWorkerGitHubFilesResult \<Rightarrow> jdict" where
  "files_evidence r =
     [(''success'', JBool (wf_success r)), (''task_id'', json_opt_str (wf_task_id r)),
      (''approval_request_id'', json_opt_str (wf_approval_request_id r)),
      (''worker_id'', JStr (wf_worker_id r)), (''lease_token'', json_opt_str (wf_lease_token r)),
      (''repository'', json_opt_str (wf_repository r)), (''branch'', json_opt_str (wf_branch r)),
      (''files_written'', JInt (int (wf_files_written r))), (''files_deleted'', JInt (int (wf_files_deleted r))),
      (''commits_created'', JInt (int (wf_commits_created r))), (''items'', JList (map apply_item_json (wf_items r))),
      (''event_id'', json_opt_str (wf_event_id r)), (''final_status'', json_status (wf_final_status r)),
      (''reason'', JStr (wf_reason r))]"

definition validation_evidence :: "AgentWorkerValidationRunResult \<Rightarrow> jdict" where
  "validation_evidence r =
     [(''success'', JBool (vr_success r)), (''task_id'', json_opt_str (vr_task_id r)),
      (''approval_request_id'', json_opt_str (vr_approval_request_id r)),
      (''worker_id'', JStr (vr_worker_id r)), (''lease_token'', json_opt_str (vr_lease_token r)),
      (''command_count'', JInt (int (vr_command_count r))), (''results'', JList (map execution_json (vr_results r))),
      (''started_event_id'', json_opt_str (vr_started_event_id r)),
      (''finished_event_id'', json_opt_str (vr_finished_event_id r)),
      (''final_status'', json_status (vr_final_status r)), (''reason'', JStr (vr_reason r))]"

definition pr_evidence :: "AgentWorkerGitHubPRResult \<Rightarrow> jdict" where
  "pr_evidence r =
     [(''success'', JBool (wp_pr_success r)), (''task_id'', json_opt_str (wp_pr_task_id r)),
      (''approval_request_id'', json_opt_str (wp_pr_approval_request_id r)),
      (''worker_id'', JStr (wp_pr_worker_id r)), (''lease_token'', json_opt_str (wp_pr_lease_token r)),
      (''repository'', json_opt_str (wp_pr_repository r)), (''head_branch'', json_opt_str (wp_pr_head_branch r)),
      (''base_branch'', JStr (wp_pr_base_branch r)), (''pull_request_number'', json_opt_int (wp_pr_number r)),
      (''pull_request_url'', json_opt_str (wp_pr_url r)), (''event_id'', json_opt_str (wp_pr_event_id r)),
      (''final_status'', json_status (wp_pr_final_status r)), (''reason'', JStr (wp_pr_reason r))]"

section \<open>One step\<close>

type_synonym step_run = "(pyerror, AgentRunStepExecutionResult, wsys) outcome"

definition mission_worker :: "AgentRun \<Rightarrow> string \<Rightarrow> string" where
  "mission_worker run what = ''mission-control:'' @ run_id run @ '':'' @ what"

definition create_branch_step :: "env \<Rightarrow> world \<Rightarrow> AgentRun \<Rightarrow> AgentTask \<Rightarrow> wsys \<Rightarrow> step_run" where
  "create_branch_step E W run task st =
     bindE (run_agent_worker_github_branch_creation E W (Some (task_id task)) False
       (mission_worker run ''branch'') 300 ''main'' st) (\<lambda>r (s, w).
       ret (classify_execution_result (wb_success r) (wb_reason r) (branch_evidence r @ generated_at E s) False) (s, w))"

definition apply_changes_step :: "env \<Rightarrow> world \<Rightarrow> AgentRun \<Rightarrow> AgentTask \<Rightarrow> wsys \<Rightarrow> step_run" where
  "apply_changes_step E W run task st =
     bindE (run_agent_worker_github_file_application E W (Some (task_id task)) False
       (mission_worker run ''files'') 300 st) (\<lambda>r (s, w).
       ret (classify_execution_result (wf_success r) (wf_reason r) (files_evidence r @ generated_at E s) False) (s, w))"

text \<open>The validation runs in a container on a fresh clone, which is removed whatever happens.\<close>

definition contained_validation ::
    "env \<Rightarrow> world \<Rightarrow> string \<Rightarrow> AgentRun \<Rightarrow> AgentTask \<Rightarrow> int \<Rightarrow> wsys \<Rightarrow> step_run" where
  "contained_validation E W path run task timeout st =
     bindE (run_agent_worker_validation_commands E
         (container_executor W path timeout default_container_validation_policy)
         (Some (task_id task)) False (mission_worker run ''validation'') 300 st) (\<lambda>r (s, w).
       ret (classify_execution_result (vr_success r) (vr_reason r)
         (validation_evidence r @ generated_at E s @
          [(''workspace_isolated'', JBool True), (''workspace_path_redacted'', JBool True),
           (''containerized'', JBool True)]) False) (s, w))"

definition unprepared_workspace :: "AgentWorkerWorkspaceResult \<Rightarrow> AgentRunStepExecutionResult" where
  "unprepared_workspace ws =
     classify_execution_result False (ws_reason ws)
       [(''workspace_success'', JBool (ws_success ws)),
        (''workspace_isolated'', JBool (ws_workspace_root ws \<noteq> None)),
        (''workspace_cleaned'', JBool (ws_cleaned ws))] False"

definition run_validation_step ::
    "env \<Rightarrow> world \<Rightarrow> string option \<Rightarrow> AgentRun \<Rightarrow> AgentTask \<Rightarrow> int \<Rightarrow> wsys \<Rightarrow> step_run" where
  "run_validation_step E W parent run task timeout st =
     (let (ws, st) = prepare_agent_worker_workspace E W task (opt_str (task_branch_preference task))
            (mission_worker run ''workspace'') parent st
      in case (ws_success ws, ws_repository_path ws) of
           (True, Some path) \<Rightarrow>
             let (x, s, w) = contained_validation E W path run task timeout st;
                 (ws, w) = cleanup_agent_worker_workspace W ws w
             in (x, s, w)
         | _ \<Rightarrow> ret (unprepared_workspace ws) st)"

definition create_pr_step :: "env \<Rightarrow> world \<Rightarrow> AgentRun \<Rightarrow> AgentTask \<Rightarrow> wsys \<Rightarrow> step_run" where
  "create_pr_step E W run task st =
     bindE (run_agent_worker_github_pr_creation E W (Some (task_id task)) False
       (mission_worker run ''pr'') 300 ''main'' st) (\<lambda>r (s, w).
       ret ((classify_execution_result (wp_pr_success r) (wp_pr_reason r) (pr_evidence r @ generated_at E s) False)
          \<lparr>res_output_reference := wp_pr_url r\<rparr>) (s, w))"

text \<open>The result is verified on the timeline of the task.\<close>

definition pull_request_url_of :: "AgentTaskEvent list \<Rightarrow> json" where
  "pull_request_url_of events =
     (case find json_truthy (map (\<lambda>ev. json_get (te_metadata ev) ''pull_request_url'')
         (rev (sort_key te_created_at events))) of
        None \<Rightarrow> JNull
      | Some url \<Rightarrow> url)"

definition verify_result_step :: "AgentTask \<Rightarrow> sys \<Rightarrow> AgentRunStepExecutionResult" where
  "verify_result_step task s =
     (let events = filter (\<lambda>ev. te_task_id ev = task_id task) (dict_vals (agent_task_events s));
          pr_events = filter (\<lambda>ev. te_event_type ev = AgentTaskEventType.PR_CREATED) events;
          validation_passed = list_ex (\<lambda>ev. te_event_type ev = TESTS_PASSED) events;
          success = (validation_passed \<and> pr_events \<noteq> [] \<and>
            task_status task \<in> set [AgentTaskStatus.READY_FOR_PR, AgentTaskStatus.DONE])
      in classify_execution_result success
           (if success then ''Validation evidence and exactly one pull-request transition are present.''
            else ''Objective incomplete: validation or pull-request evidence is missing.'')
           [(''task_status'', JStr (AgentTaskStatus_value (task_status task))),
            (''validation_passed'', JBool validation_passed), (''pr_event_count'', JInt (int (length pr_events))),
            (''pull_request_url'', pull_request_url_of pr_events)] False)"

definition sealed_step :: "AgentRunStep \<Rightarrow> json" where
  "sealed_step item =
     JObj [(''sequence'', JInt (step_sequence item)), (''step_type'', JStr (AgentRunStepType_value (step_type item))),
           (''status'', JStr (AgentRunStepStatus_value (step_status item))),
           (''decision'', json_opt_str (map_option VerificationDecision_value (step_decision item))),
           (''attempt_count'', JInt (step_attempt_count item)),
           (''evidence_hash'', json_opt_str (step_evidence_hash item)),
           (''output_reference'', json_opt_str (step_output_reference item))]"

definition seal_evidence_step :: "env \<Rightarrow> AgentRun \<Rightarrow> AgentRunStep \<Rightarrow> sys \<Rightarrow> AgentRunStepExecutionResult \<times> sys" where
  "seal_evidence_step E run step s =
     (let prior = filter (\<lambda>item. step_sequence item < step_sequence step) (run_steps (run_id run) s);
          ok = list_all (\<lambda>item. step_status item = AgentRunStepStatus.SUCCEEDED) prior;
          evidence = [(''run_id'', JStr (run_id run)), (''task_id'', JStr (run_task_id run)),
            (''correlation_id'', JStr (run_correlation_id run)), (''steps'', JList (map sealed_step prior)),
            (''event_count'', JInt (int (length (run_events (run_id run) s))))];
          digest = canonical_evidence_hash E (JObj evidence);
          s = put_run ((run_now run s)\<lparr>run_final_evidence_hash := Some digest\<rparr>) s
      in (classify_execution_result ok
            (if ok then ''Mission Control evidence chain sealed.''
             else ''Evidence chain cannot be sealed because a prior step did not pass.'')
            (evidence @ [(''final_evidence_hash'', JStr digest)]) False, s))"

definition default_executor ::
    "env \<Rightarrow> world \<Rightarrow> string option \<Rightarrow> AgentRun \<Rightarrow> AgentRunStep \<Rightarrow> int \<Rightarrow> wsys \<Rightarrow> step_run" where
  "default_executor E W parent run step timeout st =
     (let (s, w) = st in
      case dict_get (agent_tasks s) (run_task_id run) of
        None \<Rightarrow> ret (classify_execution_result False ''Agent task not found during execution.'' [] False) (s, w)
      | Some task \<Rightarrow>
          (case step_type step of
             AgentRunStepType.VALIDATE_SCOPE \<Rightarrow>
               ret (validate_scope_contract task
                 (dict_get (approval_requests s) (opt_str (run_approval_request_id run)))) (s, w)
           | AgentRunStepType.CREATE_BRANCH \<Rightarrow> create_branch_step E W run task (s, w)
           | AgentRunStepType.APPLY_CHANGES \<Rightarrow> apply_changes_step E W run task (s, w)
           | AgentRunStepType.RUN_VALIDATION \<Rightarrow> run_validation_step E W parent run task timeout (s, w)
           | AgentRunStepType.CREATE_PULL_REQUEST \<Rightarrow> create_pr_step E W run task (s, w)
           | AgentRunStepType.VERIFY_RESULT \<Rightarrow> ret (verify_result_step task s) (s, w)
           | AgentRunStepType.SEAL_EVIDENCE \<Rightarrow> let (r, s) = seal_evidence_step E run step s in ret r (s, w)))"

text \<open>
  As the executor of a run: the exception that leaves it is seen with its class and text. The record of
  the outside world is kept apart from the store, so the executor is that of one call.
\<close>

definition executor_at :: "env \<Rightarrow> world \<Rightarrow> string option \<Rightarrow> outside list \<Rightarrow> RunExecution.executor" where
  "executor_at E W parent w run step timeout s =
     (case default_executor E W parent run step timeout (s, w) of
        (Inr r, s, _) \<Rightarrow> (Result r, s)
      | (Inl e, s, _) \<Rightarrow> (Exn (pyerror_class e) (pyerror_message e), s))"

end
