(* ===== verification/MissionOps.thy ===== *)
theory MissionOps
  imports MissionInvariant
begin

text \<open>
  Every operation of Mission Control keeps the invariant of its runs and steps, whether it
  returns or raises: the lease, the choice and start of a step, the application of a result, the
  operator's actions, the watchdog and the creation of a run.
\<close>

lemma minv_keyed:
  "minv F s \<Longrightarrow> keyed step_id (agent_run_steps s)" "minv F s \<Longrightarrow> keyed run_id (agent_runs s)"
  by (auto simp: minv_def mission_inv_def)

lemma cur_stepI: "minv F s \<Longrightarrow> dict_get (agent_run_steps s) k = Some st \<Longrightarrow> cur_step st s"
  using minv_keyed(1) steps.get_key by (fastforce simp: cur_step_def)

lemma cur_runI: "minv F s \<Longrightarrow> dict_get (agent_runs s) k = Some r \<Longrightarrow> cur_run r s \<and> run_id r = k"
  using minv_keyed(2) runs.get_key by (fastforce simp: cur_run_def)

lemma current_step_cur: "minv F s \<Longrightarrow> current_step r s = Some st \<Longrightarrow> cur_step st s"
  unfolding current_step_def by (rule cur_stepI)

lemma run_steps_cur: "minv F s \<Longrightarrow> st \<in> set (run_steps rid s) \<Longrightarrow> cur_step st s \<and> step_run_id st = rid"
  using run_steps_mem minv_keyed(1) by (auto simp: cur_step_def)

text \<open>The same facts in the form the operations use them: the record read is the current one.\<close>

lemma minv_put_run_same':
  "minv F s \<Longrightarrow> cur_run r s \<Longrightarrow> run_id r' = run_id r \<Longrightarrow> run_status r' = run_status r \<Longrightarrow>
     minv F (put_run r' s)"
  by (rule minv_put_run_same) (simp_all add: cur_run_def)

lemma minv_put_run_open':
  "minv F s \<Longrightarrow> cur_run r s \<Longrightarrow> run_id r' = run_id r \<Longrightarrow> \<not> run_terminal (run_status r) \<Longrightarrow>
     \<not> run_terminal (run_status r') \<Longrightarrow> minv F (put_run r' s)"
  by (rule minv_put_run_open) (simp_all add: cur_run_def)

lemma minv_put_same':
  "minv F s \<Longrightarrow> cur_step st s \<Longrightarrow> step_id st' = step_id st \<Longrightarrow> step_run_id st' = step_run_id st \<Longrightarrow>
     step_sequence st' = step_sequence st \<Longrightarrow> step_status st' = step_status st \<Longrightarrow>
     step_attempt_count st' = step_attempt_count st \<Longrightarrow> step_max_attempts st' = step_max_attempts st \<Longrightarrow>
     minv F (put_step st' s)"
  by (rule minv_put_same) (simp_all add: cur_step_def)

lemma minv_put_live':
  "minv F s \<Longrightarrow> cur_step st s \<Longrightarrow> step_id st' = step_id st \<Longrightarrow> step_run_id st' = step_run_id st \<Longrightarrow>
     step_sequence st' = step_sequence st \<Longrightarrow> step_live (step_status st) \<Longrightarrow>
     step_live (step_status st') \<or> step_status st' \<in> {AgentRunStepStatus.BLOCKED, AgentRunStepStatus.FAILED} \<Longrightarrow>
     retry_in_budget st' \<Longrightarrow> minv F (put_step st' s)"
  by (rule minv_put_live) (simp_all add: cur_step_def)

section \<open>The lease\<close>

lemma acquire_run_lease_minv:
  assumes "minv F s" "cur_run r s"
  shows "outcome_ok (minv F)
    (\<lambda>(tok, r') s'. minv F s' \<and> cur_run r' s' \<and> run_id r' = run_id r \<and> run_status r' = run_status r
       \<and> agent_run_steps s' = agent_run_steps s) (acquire_run_lease E r w secs s)"
  using assms
  by (auto simp: acquire_run_lease_def Let_def wp intro!: minv_put_run_same' [where r = r])

lemma heartbeat_run_minv:
  assumes I: "minv F s" and c: "cur_run r s"
  shows "outcome_ok (minv F) (\<lambda>_. minv F) (heartbeat_run E r w tok secs s)"
proof -
  define r' where "r' = r\<lparr>run_heartbeat_at := Some (clock s),
    run_lease_expires_at := Some (clock s + seconds secs), run_updated_at := clock s\<rparr>"
  have I': "minv F (put_run r' s)"
    by (rule minv_put_run_same' [OF I c]) (simp_all add: r'_def)
  have 2: "minv F (put_step (st\<lparr>step_heartbeat_at := h, step_lease_expires_at := e, step_updated_at := u\<rparr>)
      (put_run r' s))" if "current_step r' s = Some st" for st h e u
    using that current_step_cur [OF I', of r' st] by (intro minv_put_same' [OF I', of st]) simp_all
  show ?thesis
    using I I' unfolding heartbeat_run_def Let_def r'_def [symmetric]
    by (auto simp: wp 2 split: option.splits)
qed

lemma release_run_lease_minv:
  assumes "minv F s" "cur_run r s" "release_run_lease E r w tok s = (r', s')"
  shows "minv F s'" "cur_run r' s'" "run_id r' = run_id r" "run_status r' = run_status r"
  using assms
  by (auto simp: release_run_lease_def Let_def split: if_splits intro!: minv_put_run_same' [where r = r])

section \<open>Starting a step\<close>

lemma ready_step_in_minv:
  assumes "minv F s" "\<And>st. st \<in> set L \<Longrightarrow> cur_step st s"
  shows "outcome_ok (minv F)
    (\<lambda>found s'. minv F s' \<and> agent_runs s' = agent_runs s \<and>
       (\<forall>st'. found = Some st' \<longrightarrow> cur_step st' s' \<and> step_status st' = AgentRunStepStatus.READY
          \<and> (\<exists>st \<in> set L. step_id st' = step_id st \<and> step_run_id st' = step_run_id st)))
    (ready_step_in E r now L s)"
  using assms(2)
proof (induction L)
  case Nil
  then show ?case by (simp add: wp assms(1))
next
  case (Cons st L)
  have c: "cur_step st s" by (simp add: Cons.prems)
  show ?case
  proof (cases "retry_due now st")
    case True
    then have W: "step_status st = AgentRunStepStatus.RETRY_WAIT" by (simp add: retry_due_def)
    have "minv F (put_step (enter_step now AgentRunStepStatus.READY ''Retry backoff elapsed.'' st) s)"
      using W by (intro minv_put_live' [OF assms(1) c]) (simp_all add: retry_in_budget_def)
    then show ?thesis
      using True W assms(1) by (auto simp: wp transition_step_cases split: prod.splits)
  next
    case False
    then show ?thesis
      using c assms(1) Cons.IH Cons.prems by (auto simp: wp elim!: outcome_ok_mono)
  qed
qed

lemma begin_attempt_minv:
  assumes I: "minv F s" and r: "cur_run r s" and st: "cur_step st s"
    and own: "step_run_id st = run_id r" and ready: "step_status st = AgentRunStepStatus.READY"
  shows "outcome_ok (minv F)
    (\<lambda>(r', st') s'. minv F s' \<and> cur_run r' s' \<and> cur_step st' s' \<and> run_id r' = run_id r
       \<and> step_id st' = step_id st \<and> step_run_id st' = run_id r \<and> run_status r' \<noteq> AgentRunStatus.PAUSED
       \<and> step_status st' = AgentRunStepStatus.RUNNING)
    (begin_attempt E r st w tok s) \<or> run_status r = AgentRunStatus.PAUSED"
proof (cases "run_status r = AgentRunStatus.PAUSED")
  case False
  let ?x = "enter_step (clock s) AgentRunStepStatus.RUNNING [] st"
  have open': "\<not> run_terminal (run_status r)"
    using minv_live_run [OF I st _ r] own ready by simp
  have 1: "minv F (put_step x s)"
    if "step_id x = step_id st" "step_run_id x = step_run_id st" "step_sequence x = step_sequence st"
      "step_status x = AgentRunStepStatus.RUNNING" for x
    using that ready by (intro minv_put_live' [OF I st]) (simp_all add: retry_in_budget_def)
  have 2: "minv F (put_run q (put_step x s))"
    if "run_id q = run_id r" "\<not> run_terminal (run_status q)" "step_id x = step_id st"
      "step_run_id x = step_run_id st" "step_sequence x = step_sequence st"
      "step_status x = AgentRunStepStatus.RUNNING" for q x
    using that r open' by (intro minv_put_run_open' [OF 1, of x r]) simp_all
  have 3: "minv F (put_run q' (put_run q (put_step x s)))"
    if "run_id q' = run_id r" "\<not> run_terminal (run_status q')" "run_id q = run_id r"
      "\<not> run_terminal (run_status q)" "step_id x = step_id st"
      "step_run_id x = step_run_id st" "step_sequence x = step_sequence st"
      "step_status x = AgentRunStepStatus.RUNNING" for q q' x
    using that by (intro minv_put_run_open' [OF 2, of q x q]) simp_all
  show ?thesis
    using I False own ready open'
    by (auto simp: begin_attempt_def Let_def wp transition_step_cases transition_run_cases
        step_args_def intro!: 1 2 3 split: prod.splits)
qed simp

section \<open>Finishing a step\<close>

text \<open>The step of an execution in flight, when its worker reports back.\<close>

definition in_flight_step :: "AgentRun \<Rightarrow> AgentRunStep \<Rightarrow> sys \<Rightarrow> bool" where
  "in_flight_step r st s \<longleftrightarrow> cur_run r s \<and> cur_step st s \<and> step_run_id st = run_id r
     \<and> step_status st \<noteq> AgentRunStepStatus.PENDING \<and> step_status st \<noteq> AgentRunStepStatus.SUCCEEDED"

definition applied :: "watch \<Rightarrow> AgentRun \<Rightarrow> AgentRunStep \<Rightarrow> AgentRun \<times> AgentRunStep \<Rightarrow> sys \<Rightarrow> bool" where
  "applied F r st = (\<lambda>(r', st') s'. minv F s' \<and> cur_run r' s' \<and> cur_step st' s' \<and> run_id r' = run_id r
     \<and> step_id st' = step_id st \<and> step_run_id st' = step_run_id st)"

lemma run_into_failure:
  assumes I: "minv F s" and r: "cur_run r s" and st: "cur_step st s" "step_run_id st = run_id r"
    and c: "can_transition_run (run_status r) target"
    and t: "target \<in> {AgentRunStatus.RETRY_WAIT, AgentRunStatus.NEEDS_HUMAN} \<or>
      (target \<in> {AgentRunStatus.BLOCKED, AgentRunStatus.FAILED} \<and>
       step_status st \<in> {AgentRunStepStatus.BLOCKED, AgentRunStepStatus.FAILED})"
    and q: "run_id q = run_id r" "run_status q = target"
  shows "minv F (put_run q s)"
proof (cases "run_terminal (run_status r)")
  case True
  then have "target = run_status r" using c terminal_run_stuck by blast
  then show ?thesis using q by (intro minv_put_run_same' [OF I r]) simp_all
next
  case False
  obtain pre post where L: "run_steps (run_id r) s = pre @ st # post" "run_ok (run_status r) (pre @ st # post)"
    using minv_step_run [OF I st(1)] st(2) r by (metis cur_run_def option.inject)
  have "run_ok target (pre @ st # post)"
  proof (cases "run_terminal target")
    case True
    with t have t': "target \<in> {AgentRunStatus.BLOCKED, AgentRunStatus.FAILED}"
      "step_status st \<in> {AgentRunStepStatus.BLOCKED, AgentRunStepStatus.FAILED}" by auto
    then have "list_all (\<lambda>x. \<not> step_live (step_status x)) (pre @ st # post)"
      using L(2) by (intro run_ok_no_live) auto
    then show ?thesis using run_ok_close [OF L(2) t'(1) False] by blast
  next
    case False
    then show ?thesis using run_ok_nonterminal [OF L(2)] \<open>\<not> run_terminal (run_status r)\<close> by blast
  qed
  then show ?thesis using q L r False by (intro minv_put_run [OF I, of q r]) (simp_all add: cur_run_def)
qed

lemma apply_failure_minv:
  assumes I: "minv F s" and fl: "in_flight_step r st s"
    and pair: "(tgt, rt) \<in> {(AgentRunStepStatus.RETRY_WAIT, AgentRunStatus.RETRY_WAIT),
      (AgentRunStepStatus.NEEDS_HUMAN, AgentRunStatus.NEEDS_HUMAN),
      (AgentRunStepStatus.BLOCKED, AgentRunStatus.BLOCKED), (AgentRunStepStatus.FAILED, AgentRunStatus.FAILED)}"
    and sch: "\<And>x. step_id (sch x) = step_id x" "\<And>x. step_run_id (sch x) = step_run_id x"
      "\<And>x. step_sequence (sch x) = step_sequence x" "\<And>x. step_status (sch x) = step_status x"
      "\<And>x. step_attempt_count (sch x) = step_attempt_count x"
      "\<And>x. step_max_attempts (sch x) = step_max_attempts x"
    and budget: "tgt = AgentRunStepStatus.RETRY_WAIT \<longrightarrow> step_attempt_count st < step_max_attempts st"
  shows "outcome_ok (minv F) (applied F r st)
    (apply_failure E r st tgt txt rt reason sch ty msg actor meta h s)"
proof -
  have r: "cur_run r s" and st: "cur_step st s" and own: "step_run_id st = run_id r"
    and np: "step_status st \<noteq> AgentRunStepStatus.PENDING" "step_status st \<noteq> AgentRunStepStatus.SUCCEEDED"
    using fl by (auto simp: in_flight_step_def)
  have put: "minv F (put_step (sch x) s)"
    if c: "can_transition_step (step_status st) tgt"
      and x: "x = (if tgt = step_status st then st else enter_step (clock s) tgt txt st)" for x
  proof (cases "tgt = step_status st")
    case True
    then show ?thesis using x sch by (intro minv_put_same' [OF I st]) simp_all
  next
    case False
    then have "step_live (step_status st)"
      using c np terminal_step_stuck [of "step_status st" tgt]
      by (cases "step_status st") (auto simp: TERMINAL_STEP_STATUSES_def)
    then show ?thesis
      using x False pair sch budget
      by (intro minv_put_live' [OF I st]) (auto simp: retry_in_budget_def)
  qed
  have run: "minv F (put_run q (put_step (sch x) s))"
    if c: "can_transition_step (step_status st) tgt"
      and x: "x = (if tgt = step_status st then st else enter_step (clock s) tgt txt st)"
      and rc: "can_transition_run (run_status r) rt"
      and q: "q = (if rt = run_status r then r else enter_run (clock s) rt reason r)" for x q
    by (rule run_into_failure [OF put [OF c x], of r "sch x" rt])
      (use r own x q rc pair sch in \<open>auto simp: cur_run_def cur_step_def\<close>)
  show ?thesis
    using own sch unfolding apply_failure_def Let_def
    by (auto simp: wp I put run transition_step_cases transition_run_cases applied_def cur_step_def)
qed

lemma find_next:
  assumes "list_all (\<lambda>y. step_status y = AgentRunStepStatus.SUCCEEDED) pre"
    "step_status st' = AgentRunStepStatus.SUCCEEDED"
    "list_all (\<lambda>y. step_status y = AgentRunStepStatus.PENDING) post"
    "list_all (\<lambda>y. step_sequence y > n) post"
  shows "find (\<lambda>y. step_sequence y > n \<and> step_status y = AgentRunStepStatus.PENDING) (pre @ st' # post) =
    (case post of [] \<Rightarrow> None | p # _ \<Rightarrow> Some p)"
  using assms(1) by (induction pre) (use assms(2-4) in \<open>auto split: list.splits\<close>)

lemma run_steps_sorted: "sorted (map step_sequence (run_steps rid s))"
  by (simp add: run_steps_def)

lemma sequences_after:
  assumes "run_ok status (pre @ st # post)" "sorted (map step_sequence (pre @ st # post))"
  shows "list_all (\<lambda>y. step_sequence y > step_sequence st) post"
proof -
  have "step_sequence st \<le> step_sequence y \<and> step_sequence st \<noteq> step_sequence y" if "y \<in> set post" for y
    using assms that by (auto simp: run_ok_def sorted_append)
  then show ?thesis by (auto simp: list_all_iff order_less_le)
qed

lemma run_ok_frontier:
  assumes "run_ok status (pre @ st # post)" "step_live (step_status st)"
  shows "list_all (\<lambda>y. step_status y = AgentRunStepStatus.SUCCEEDED) pre"
    "list_all (\<lambda>y. step_status y = AgentRunStepStatus.PENDING) post"
    "\<not> run_terminal status"
proof -
  have "shape (map step_status pre @ step_status st # map step_status post)"
    and np: "step_status st \<notin> {AgentRunStepStatus.SUCCEEDED, AgentRunStepStatus.PENDING, AgentRunStepStatus.CANCELLED}"
    using assms by (auto simp: run_ok_def)
  then have a: "list_all (\<lambda>y. y = AgentRunStepStatus.SUCCEEDED) (map step_status pre)"
    and b: "homogeneous (map step_status post)"
    using shape_frontier by blast+
  show t: "\<not> run_terminal status" using assms by (auto simp: run_ok_def)
  show "list_all (\<lambda>y. step_status y = AgentRunStepStatus.SUCCEEDED) pre"
    using a by (simp add: list_all_iff)
  have "\<not> list_ex (\<lambda>y. step_status y = AgentRunStepStatus.CANCELLED) post"
    using assms(1) t by (auto simp: run_ok_def)
  then show "list_all (\<lambda>y. step_status y = AgentRunStepStatus.PENDING) post"
    using b by (cases post) (auto simp: homogeneous_def list_all_iff list_ex_iff)
qed

text \<open>A pending step may become ready when all the steps before it have succeeded.\<close>

lemma minv_put_ready:
  assumes I: "minv F s" and L: "run_steps rid s = pre @ p # post"
    and S: "list_all (\<lambda>y. step_status y = AgentRunStepStatus.SUCCEEDED) pre"
    and P: "step_status p = AgentRunStepStatus.PENDING" and r: "cur_run r s" "run_id r = rid"
      "\<not> run_terminal (run_status r)"
    and n: "step_id p' = step_id p" "step_run_id p' = step_run_id p" "step_sequence p' = step_sequence p"
      "step_status p' = AgentRunStepStatus.READY"
  shows "minv F (put_step p' s)"
proof -
  have c: "cur_step p s" "step_run_id p = rid"
    using run_steps_cur [OF I, of p rid] L by auto
  show ?thesis
  proof (rule minv_put_step [OF I, of p' p])
    show "run_ok (run_status r') (pre' @ p' # post')"
      if "dict_get (agent_runs s) (step_run_id p) = Some r'"
        "run_steps (step_run_id p) s = pre' @ p # post'" "run_ok (run_status r') (pre' @ p # post')"
      for r' pre' post'
    proof -
      have r': "r' = r" using that(1) r c by (simp add: cur_run_def)
      have d: "distinct (pre @ p # post)"
        using minv_run_ok [OF I r(1)] L r(2) by (auto simp: run_ok_def distinct_map)
      have "pre' @ p # post' = pre @ p # post" using that(2) L c(2) by simp
      moreover have "p \<notin> set pre" "p \<notin> set post" using d by auto
      ultimately have eq: "pre' = pre \<and> post' = post"
        using d append_Cons_eq_iff [of p pre post pre' post'] by metis
      then have ok: "run_ok (run_status r) (pre @ p # post)" using that(3) r' by simp
      have "shape (map step_status pre @ step_status p # map step_status post)"
        using ok by (simp add: run_ok_def)
      moreover have a: "list_all (\<lambda>y. y = AgentRunStepStatus.SUCCEEDED) (map step_status pre)"
        using S by (simp add: list_all_iff)
      ultimately have "homogeneous (map step_status post)"
        using P by (simp add: shape_all_SUCCEEDED)
      then show ?thesis
        using ok eq r' n r(3) shape_replace [OF a, of "map step_status post" "step_status p'"]
        by (auto simp: run_ok_def retry_in_budget_def)
    qed
  qed (use n c P in \<open>auto simp: cur_step_def TERMINAL_STEP_STATUSES_def\<close>)
qed

lemma minv_put_succeeded:
  assumes I: "minv F s" and st: "cur_step st s" "step_status st = AgentRunStepStatus.RUNNING"
    and n: "step_id x = step_id st" "step_run_id x = step_run_id st"
      "step_sequence x = step_sequence st" "step_status x = AgentRunStepStatus.SUCCEEDED"
    and F: "step_run_id st \<notin> fst ` set (flights F)"
  shows "minv F (put_step x s)"
proof (rule minv_put_step [OF I, of x st])
  show "run_ok (run_status r) (pre @ x # post)"
    if ok: "run_ok (run_status r) (pre @ st # post)" for r pre post
  proof -
    have fr: "list_all (\<lambda>y. step_status y = AgentRunStepStatus.SUCCEEDED) pre"
      "list_all (\<lambda>y. step_status y = AgentRunStepStatus.PENDING) post" "\<not> run_terminal (run_status r)"
      using run_ok_frontier [OF ok] st(2) by simp_all
    then have "shape (map step_status pre @ step_status x # map step_status post)"
      by (intro shape_replace) (auto simp: list_all_iff homogeneous_def)
    then show ?thesis using ok n fr(3) by (auto simp: run_ok_def retry_in_budget_def)
  qed
qed (use n st F in \<open>auto simp: cur_step_def TERMINAL_STEP_STATUSES_def\<close>)

text \<open>
  After a step has succeeded, either it was the last and the run may succeed, or its successor
  becomes ready and the run goes on.
\<close>

lemma after_success:
  assumes I: "minv F s" and r: "cur_run r s" and x: "cur_step x s" "step_run_id x = run_id r"
      "step_status x = AgentRunStepStatus.SUCCEEDED"
    and L: "run_steps (run_id r) s = pre @ x # post"
      "list_all (\<lambda>y. step_status y = AgentRunStepStatus.SUCCEEDED) pre"
      "list_all (\<lambda>y. step_status y = AgentRunStepStatus.PENDING) post"
      "\<not> run_terminal (run_status r)"
  shows "outcome_ok (minv F) (\<lambda>(nxt, q) s'. minv F s' \<and> cur_run q s' \<and> run_id q = run_id r \<and>
      run_status q = run_status r \<and>
      (\<forall>z. cur_step z s \<and> step_status z = AgentRunStepStatus.SUCCEEDED \<longrightarrow> cur_step z s') \<and>
      (nxt = None \<longrightarrow> list_all (\<lambda>y. step_status y = AgentRunStepStatus.SUCCEEDED) (run_steps (run_id r) s')))
    (next_pending_step E r x s)"
proof -
  have ok: "run_ok (run_status r) (pre @ x # post)" using minv_run_ok [OF I r] L(1) by simp
  have seq: "list_all (\<lambda>y. step_sequence y > step_sequence x) post"
    by (rule sequences_after [OF ok]) (metis L(1) run_steps_sorted)
  note F = find_next [OF L(2) x(3) L(3) seq]
  show ?thesis
  proof (cases post)
    case Nil
    then show ?thesis
      using F L I r x by (simp add: next_pending_step_def wp)
  next
    case (Cons p ps)
    have P: "step_status p = AgentRunStepStatus.PENDING" using L(3) Cons by simp
    let ?p = "enter_step (clock s) AgentRunStepStatus.READY [] p"
    have I': "minv F (put_step ?p s)"
      by (rule minv_put_ready [OF I, of "run_id r" "pre @ [x]" p ps r])
        (use L x P r Cons in \<open>auto simp: list_all_iff\<close>)
    then have I2: "minv F (put_run q (put_step ?p s))" if "run_id q = run_id r" "run_status q = run_status r" for q
      using that r by (intro minv_put_run_same' [OF I', of r]) simp_all
    have c2: "cur_step z (put_step ?p s)"
      if "cur_step z s" "step_status z = AgentRunStepStatus.SUCCEEDED" for z
    proof -
      have "cur_step p s" using run_steps_cur [OF I, of p "run_id r"] L(1) Cons by simp
      moreover have "z \<noteq> p" using that P by auto
      ultimately have "step_id z \<noteq> step_id p"
        using that unfolding cur_step_def by (metis option.inject)
      with that(1) show ?thesis by (simp add: cur_step_def)
    qed
    have t: "transition_step (clock s) p AgentRunStepStatus.READY [] =
        Inr ((step_status p, AgentRunStepStatus.READY), ?p)"
      using P by (simp add: transition_step_cases into_READY)
    have "find (\<lambda>y. step_sequence x < step_sequence y \<and> step_status y = AgentRunStepStatus.PENDING)
        (run_steps (run_id r) s) = Some p"
      using F L(1) Cons by simp
    then show ?thesis
      by (simp add: next_pending_step_def t wp Let_def I2 c2)
  qed
qed

lemma apply_pass_minv:
  assumes I: "minv F s" and fl: "in_flight_step r st s" and F: "run_id r \<notin> fst ` set (flights F)"
    and dec: "res_decision res = VerificationDecision.PASS"
  shows "outcome_ok (minv F) (applied F r st) (apply_execution_result E r st res actor s)"
proof -
  have r: "cur_run r s" and st: "cur_step st s" and own: "step_run_id st = run_id r"
    and np: "step_status st \<noteq> AgentRunStepStatus.SUCCEEDED"
    using fl by (auto simp: in_flight_step_def)
  define x0 where "x0 = st\<lparr>step_decision := Some (res_decision res), step_reason := res_reason res,
    step_evidence := res_evidence res,
    step_evidence_hash := Some (canonical_evidence_hash E (JObj (res_evidence res))),
    step_output_reference := res_output_reference res, step_updated_at := clock s\<rparr>"
  define x where "x = enter_step (clock s) AgentRunStepStatus.SUCCEEDED (res_reason res) x0"
  have x0: "step_id x0 = step_id st" "step_run_id x0 = step_run_id st" "step_sequence x0 = step_sequence st"
    "step_status x0 = step_status st" "step_attempt_count x0 = step_attempt_count st"
    "step_max_attempts x0 = step_max_attempts st" by (simp_all add: x0_def)
  have x: "step_id x = step_id st" "step_run_id x = step_run_id st" "step_sequence x = step_sequence st"
    "step_status x = AgentRunStepStatus.SUCCEEDED" by (simp_all add: x_def x0)
  define s0 where "s0 = put_step x0 s"
  have I0: "minv F s0" unfolding s0_def by (rule minv_put_same' [OF I st]) (simp_all add: x0)
  show ?thesis
  proof (cases "step_status st = AgentRunStepStatus.RUNNING")
    case False
    then have "\<not> can_transition_step (step_status x0) AgentRunStepStatus.SUCCEEDED"
      using np x0 by (simp add: into_SUCCEEDED)
    then show ?thesis
      using dec I0 unfolding apply_execution_result_def Let_def x0_def [symmetric] s0_def [symmetric]
      by (simp add: wp transition_step_cases)
  next
    case True
    define s1 where "s1 = append_event E r STEP_SUCCEEDED ((step_args x (step_status x0, AgentRunStepStatus.SUCCEEDED) (res_reason res) [] actor)
        \<lparr>arg_output_hash := step_evidence_hash x,
         arg_metadata := decision_metadata res @
           [(''output_reference'', json_opt_str (res_output_reference res))]\<rparr>) (put_step x s0)"
    have c0: "cur_step x0 s0" and r0: "cur_run r s0" by (simp_all add: s0_def r)
    have Ip: "minv F (put_step x s0)"
      by (rule minv_put_succeeded [OF I0 c0]) (use True x x0 own F in simp_all)
    then have I1: "minv F s1" by (simp add: s1_def)
    have r1: "cur_run r s1" and c1: "cur_step x s1" by (simp_all add: s1_def r0)
    obtain pre post where L: "run_steps (run_id r) s1 = pre @ x # post" "run_ok (run_status r) (pre @ x # post)"
      using minv_step_run [OF I1 c1] x own r1 by (metis cur_run_def option.inject)
    have live0: "\<not> run_terminal (run_status r)"
      by (rule minv_live_run [OF I0 c0 _ r0]) (simp_all add: True x0 own)
    have "list_all (\<lambda>y. step_status y = AgentRunStepStatus.SUCCEEDED) pre \<and>
      list_all (\<lambda>y. step_status y = AgentRunStepStatus.PENDING) post"
    proof -
      have k: "keyed step_id (agent_run_steps s0)" using minv_keyed(1) [OF I0] .
      obtain pre0 post0 where L0: "run_steps (step_run_id x0) s0 = pre0 @ x0 # post0"
        "run_steps (step_run_id x0) (put_step x s0) = pre0 @ x # post0"
        using run_steps_put_split [OF k, of x x0] c0 x x0 minv_run_ok [OF I0 r0] own
        by (auto simp: cur_step_def run_ok_def)
      have a: "list_all (\<lambda>y. step_status y = AgentRunStepStatus.SUCCEEDED) pre0"
        "list_all (\<lambda>y. step_status y = AgentRunStepStatus.PENDING) post0"
        using run_ok_frontier [of "run_status r" pre0 x0 post0] minv_run_ok [OF I0 r0] L0 x0 own True by auto
      have eq: "pre0 @ x # post0 = pre @ x # post" using L(1) L0(2) own x0 by (simp add: s1_def)
      have "distinct (pre @ x # post)" using L(2) by (auto simp: run_ok_def distinct_map)
      then have "pre = pre0 \<and> post = post0"
        using eq append_Cons_eq_iff [of x pre post pre0 post0] by auto
      with a show ?thesis by simp
    qed
    then have N: "outcome_ok (minv F) (\<lambda>(nxt, q) s'. minv F s' \<and> cur_run q s' \<and> run_id q = run_id r \<and>
      run_status q = run_status r \<and>
      (\<forall>z. cur_step z s1 \<and> step_status z = AgentRunStepStatus.SUCCEEDED \<longrightarrow> cur_step z s') \<and>
      (nxt = None \<longrightarrow> list_all (\<lambda>y. step_status y = AgentRunStepStatus.SUCCEEDED) (run_steps (run_id r) s')))
      (next_pending_step E r x s1)"
      using after_success [OF I1 r1 c1 _ x(4) L(1)] own x live0 by simp
    have fin: "minv F (put_run (enter_run n AgentRunStatus.SUCCEEDED [] q) s')"
      if "minv F s'" "cur_run q s'" "run_id q = run_id r" "run_status q = run_status r"
        "list_all (\<lambda>y. step_status y = AgentRunStepStatus.SUCCEEDED) (run_steps (run_id r) s')" for q s' n
      by (rule minv_put_run [OF that(1), of _ q])
        (use that live0 in \<open>auto simp: cur_run_def run_ok_def list_all_iff list_ex_iff\<close>)
    have go_on: "minv F (put_run (q\<lparr>run_status := AgentRunStatus.RUNNING, run_updated_at := u\<rparr>) s')"
      if "minv F s'" "cur_run q s'" "run_status q = run_status r" for q s' u
      using that live0 by (intro minv_put_run_open' [OF that(1,2)]) simp_all
    have t: "transition_step (clock s) x0 AgentRunStepStatus.SUCCEEDED (res_reason res) =
        Inr ((step_status x0, AgentRunStepStatus.SUCCEEDED), x)"
      using True x0 by (simp add: transition_step_cases x_def into_SUCCEEDED)
    have "run_status r \<noteq> AgentRunStatus.SUCCEEDED" using live0 by auto
    then show ?thesis
      using dec unfolding apply_execution_result_def Let_def x0_def [symmetric] s0_def [symmetric]
      by (auto simp: t wp s1_def [symmetric] transition_run_cases applied_def x c1
          intro!: outcome_ok_mono [OF N] fin go_on)
  qed
qed

end
