(* ===== verification/MissionControl.thy ===== *)
theory MissionControl
  imports MissionOps
begin

text \<open>
  The second half of the invariance proofs: applying any classified result, finishing an
  execution, cancelling, pausing, resuming, retrying and recovering, and creating a run.
\<close>

section \<open>Applying and finishing\<close>

lemma apply_execution_result_minv:
  assumes I: "minv F s" and fl: "in_flight_step r st s" and F: "run_id r \<notin> fst ` set (flights F)"
  shows "outcome_ok (minv F) (applied F r st) (apply_execution_result E r st res actor s)"
proof (cases "res_decision res = VerificationDecision.PASS")
  case True
  then show ?thesis by (rule apply_pass_minv [OF I fl F])
next
  case False
  define x0 where "x0 = st\<lparr>step_decision := Some (res_decision res), step_reason := res_reason res,
    step_evidence := res_evidence res,
    step_evidence_hash := Some (canonical_evidence_hash E (JObj (res_evidence res))),
    step_output_reference := res_output_reference res, step_updated_at := clock s\<rparr>"
  have x0: "step_id x0 = step_id st" "step_run_id x0 = step_run_id st" "step_sequence x0 = step_sequence st"
    "step_status x0 = step_status st" "step_attempt_count x0 = step_attempt_count st"
    "step_max_attempts x0 = step_max_attempts st" by (simp_all add: x0_def)
  have I0: "minv F (put_step x0 s)"
    using fl by (intro minv_put_same' [OF I, of st]) (simp_all add: x0 in_flight_step_def)
  have fl0: "in_flight_step r x0 (put_step x0 s)"
    using fl by (simp add: in_flight_step_def x0)
  have e: "applied F r x0 = applied F r st" by (simp add: applied_def x0)
  note A = apply_failure_minv [OF I0 fl0, unfolded e]
  show ?thesis
    using False unfolding apply_execution_result_def Let_def x0_def [symmetric]
    by (cases "res_decision res") (auto simp: x0 intro!: A)
qed

lemma finish_step_minv:
  assumes I: "minv F s" and fl: "in_flight_step (run_now r s) (step_now st s) s"
    and F: "run_id (run_now r s) \<notin> fst ` set (flights F)"
  shows "outcome_ok (minv F) (\<lambda>_. minv F) (finish_step E r st res w s)"
proof -
  have P: "minv F (put_run (q\<lparr>run_lease_owner := a, run_lease_token := b, run_lease_expires_at := c,
        run_updated_at := d\<rparr>) (put_step (x\<lparr>step_lease_owner := a', step_lease_token := b',
        step_lease_expires_at := c'\<rparr>) s'))"
    if "minv F s'" "cur_run q s'" "cur_step x s'" for q x s' a b c d a' b' c'
    by (intro minv_put_run_same' [of _ _ q] minv_put_same' [of _ _ x]) (use that in simp_all)
  show ?thesis
    unfolding finish_step_def Let_def
    by (auto simp: wp applied_def P intro!: outcome_ok_mono [OF apply_execution_result_minv [OF I fl F]])
qed

section \<open>Cancelling\<close>

definition cancelled_step :: "int \<Rightarrow> string \<Rightarrow> AgentRunStep \<Rightarrow> AgentRunStep" where
  "cancelled_step now reason st =
     (if step_status st \<in> set TERMINAL_STEP_STATUSES then st
      else enter_step now AgentRunStepStatus.CANCELLED (str_or reason ''Run cancelled.'') st)"

lemma cancelled_step_simps [simp]:
  "step_id (cancelled_step n reason st) = step_id st"
  "step_run_id (cancelled_step n reason st) = step_run_id st"
  "step_sequence (cancelled_step n reason st) = step_sequence st"
  "step_status (cancelled_step n reason st) =
     (if step_status st \<in> set TERMINAL_STEP_STATUSES then step_status st else AgentRunStepStatus.CANCELLED)"
  by (simp_all add: cancelled_step_def)

lemma cancel_one:
  assumes "step_status st \<notin> set TERMINAL_STEP_STATUSES"
  shows "transition_step n st AgentRunStepStatus.CANCELLED (str_or reason ''Run cancelled.'') =
    Inr ((step_status st, AgentRunStepStatus.CANCELLED), cancelled_step n reason st)"
  using assms
  by (cases "step_status st")
    (auto simp: transition_step_cases cancelled_step_def into_CANCELLED TERMINAL_STEP_STATUSES_def)

text \<open>
  Cancelling the steps of a run never raises; it changes exactly the unfinished ones, and nothing
  of the runs.
\<close>

lemma put_cancelled_id:
  assumes "keyed step_id (agent_run_steps s)" "cur_step st s" "step_status st \<in> set TERMINAL_STEP_STATUSES"
  shows "run_steps rid s = map (\<lambda>y. if step_id y = step_id st then cancelled_step n reason y else y) (run_steps rid s)"
proof -
  have "(if step_id y = step_id st then cancelled_step n reason y else y) = y"
    if "y \<in> set (run_steps rid s)" for y
    using that run_steps_mem [OF assms(1)] assms(2,3) by (auto simp: cur_step_def cancelled_step_def)
  then show ?thesis by (simp add: map_idI)
qed

lemma put_cancelled:
  assumes k: "keyed step_id (agent_run_steps s)" and c: "cur_step st s"
  shows "run_steps rid (put_step (cancelled_step n reason st) s) =
     map (\<lambda>y. if step_id y = step_id st then cancelled_step n reason y else y) (run_steps rid s)"
proof -
  have "run_steps rid (put_step (cancelled_step n reason st) s) =
     map (\<lambda>y. if step_id y = step_id st then cancelled_step n reason st else y) (run_steps rid s)"
    using run_steps_put [OF k, of "cancelled_step n reason st" st rid] c by (simp add: cur_step_def)
  also have "\<dots> = map (\<lambda>y. if step_id y = step_id st then cancelled_step n reason y else y) (run_steps rid s)"
    using run_steps_mem [OF k] c by (auto simp: cur_step_def)
  finally show ?thesis .
qed

lemma cancel_steps_result:
  assumes "keyed step_id (agent_run_steps s)" "\<And>st. st \<in> set L \<Longrightarrow> cur_step st s" "distinct (map step_id L)"
  shows "\<exists>s'. cancel_steps E r actor reason L s = (Inr (), s') \<and> agent_runs s' = agent_runs s
    \<and> clock s' = clock s \<and> keyed step_id (agent_run_steps s')
    \<and> (\<forall>rid. run_steps rid s' = map (\<lambda>y. if step_id y \<in> step_id ` set L
          then cancelled_step (clock s) reason y else y) (run_steps rid s))"
  using assms
proof (induction L arbitrary: s)
  case Nil
  then show ?case by (simp add: ret_def)
next
  case (Cons st L)
  have c: "cur_step st s" using Cons.prems by simp
  have terminal: "set [AgentRunStepStatus.SUCCEEDED, AgentRunStepStatus.BLOCKED, AgentRunStepStatus.FAILED,
      AgentRunStepStatus.CANCELLED, AgentRunStepStatus.SKIPPED] = set TERMINAL_STEP_STATUSES"
    by (auto simp: TERMINAL_STEP_STATUSES_def)
  show ?case
  proof (cases "step_status st \<in> set TERMINAL_STEP_STATUSES")
    case True
    obtain s' where s': "cancel_steps E r actor reason L s = (Inr (), s')" "agent_runs s' = agent_runs s"
      "clock s' = clock s" "keyed step_id (agent_run_steps s')"
      "\<And>rid. run_steps rid s' = map (\<lambda>y. if step_id y \<in> step_id ` set L
          then cancelled_step (clock s) reason y else y) (run_steps rid s)"
      using Cons.IH [of s] Cons.prems by auto
    have "run_steps rid s' = map (\<lambda>y. if step_id y \<in> step_id ` set (st # L)
          then cancelled_step (clock s) reason y else y) (run_steps rid s)" for rid
      using s'(5) [of rid] put_cancelled_id [OF Cons.prems(1) c True, of rid "clock s" reason]
        run_steps_mem [OF Cons.prems(1)] c True
      by (auto simp: cancelled_step_def cur_step_def)
    moreover have "cancel_steps E r actor reason (st # L) s = (Inr (), s')"
      using True s'(1) terminal by (simp only: cancel_steps.simps if_False not_not refl if_True simp_thms)
    ultimately show ?thesis using s' by blast
  next
    case False
    let ?s = "append_event E r STEP_CANCELLED (step_args (cancelled_step (clock s) reason st)
      (step_status st, AgentRunStepStatus.CANCELLED) ''Pending work was cancelled.'' reason actor)
      (put_step (cancelled_step (clock s) reason st) s)"
    have "keyed step_id (agent_run_steps ?s)"
      using steps.wf_put [OF Cons.prems(1), of "cancelled_step (clock s) reason st"] by simp
    moreover have "cur_step x ?s" if "x \<in> set L" for x
    proof -
      have "step_id x \<noteq> step_id st" using that Cons.prems(3) by (auto simp: image_iff)
      then show ?thesis using Cons.prems(2) that by (simp add: cur_step_def)
    qed
    ultimately obtain s' where s': "cancel_steps E r actor reason L ?s = (Inr (), s')"
      "agent_runs s' = agent_runs s" "clock s' = clock s" "keyed step_id (agent_run_steps s')"
      "\<And>rid. run_steps rid s' = map (\<lambda>y. if step_id y \<in> step_id ` set L
          then cancelled_step (clock s) reason y else y) (run_steps rid ?s)"
      using Cons.IH [of ?s] Cons.prems(3) by auto
    have "run_steps rid s' = map (\<lambda>y. if step_id y \<in> step_id ` set (st # L)
          then cancelled_step (clock s) reason y else y) (run_steps rid s)" for rid
      using s'(5) [of rid] put_cancelled [OF Cons.prems(1) c, of rid "clock s" reason] Cons.prems(3)
      by auto
    moreover have "cancel_steps E r actor reason (st # L) s = (Inr (), s')"
      using False s'(1) terminal cancel_one [OF False, of "clock s" reason] by simp
    ultimately show ?thesis using s' by blast
  qed
qed

lemma in_run_steps: "st \<in> set (dict_vals (agent_run_steps s)) \<longleftrightarrow> st \<in> set (run_steps (step_run_id st) s)"
  by (simp add: run_steps_def)

lemma run_ok_cancelled:
  assumes "run_ok status L"
  shows "run_ok AgentRunStatus.CANCELLED (map (cancelled_step n reason) L)"
proof -
  let ?c = "\<lambda>x. if x \<in> set TERMINAL_STEP_STATUSES then x else AgentRunStepStatus.CANCELLED"
  let ?L = "map (cancelled_step n reason) L"
  have "map step_status ?L = map ?c (map step_status L)" by simp
  moreover have "shape (map ?c (map step_status L))"
    using assms by (intro shape_cancel) (simp_all add: run_ok_def)
  ultimately have "shape (map step_status ?L)" by (simp only:)
  moreover have "distinct (map step_sequence ?L)" using assms by (simp add: run_ok_def comp_def)
  moreover have T: "step_status y \<in> set TERMINAL_STEP_STATUSES" if "y \<in> set ?L" for y
    using that by (auto simp: TERMINAL_STEP_STATUSES_def)
  have "\<not> step_live (step_status y) \<and> retry_in_budget y" if "y \<in> set ?L" for y
    using T [OF that] by (auto simp: step_live_def retry_in_budget_def TERMINAL_STEP_STATUSES_def)
  then have "list_all (\<lambda>y. \<not> step_live (step_status y)) ?L" "list_all retry_in_budget ?L"
    unfolding list_all_iff by blast+
  ultimately show ?thesis by (simp add: run_ok_def)
qed

lemma cancel_agent_run_minv:
  assumes I: "minv F s" and r: "cur_run r s"
  shows "outcome_ok (minv F) (\<lambda>_. minv F) (cancel_agent_run E r actor reason s)"
proof (cases "run_terminal (run_status r)")
  case True
  then show ?thesis
    using I by (cases "run_status r") (auto simp: cancel_agent_run_def wp)
next
  case False
  let ?r = "r\<lparr>run_cancel_requested := True\<rparr>"
  define s1 where "s1 = put_run ?r s"
  have I1: "minv F s1" unfolding s1_def by (rule minv_put_run_same' [OF I r]) simp_all
  have r1: "cur_run ?r s1" unfolding s1_def by simp
  let ?L = "run_steps (run_id r) s1"
  have k1: "keyed step_id (agent_run_steps s1)" and kr1: "keyed run_id (agent_runs s1)"
    using minv_keyed [OF I1] by auto
  have d: "distinct (map step_id ?L)"
  proof -
    have "distinct ?L" using minv_run_ok [OF I1 r1] by (auto simp: run_ok_def distinct_map)
    moreover have "inj_on step_id (set ?L)"
      using run_steps_mem [OF k1] by (auto intro!: inj_onI)
    ultimately show ?thesis by (simp add: distinct_map)
  qed
  obtain s2 where c: "cancel_steps E ?r actor reason ?L s1 = (Inr (), s2)"
    and s2: "agent_runs s2 = agent_runs s1" "clock s2 = clock s1" "keyed step_id (agent_run_steps s2)"
      "\<And>rid. run_steps rid s2 = map (\<lambda>y. if step_id y \<in> step_id ` set ?L
          then cancelled_step (clock s1) reason y else y) (run_steps rid s1)"
    using cancel_steps_result [OF k1 _ d, of E ?r actor reason] run_steps_cur [OF I1] by blast
  let ?q = "enter_run (clock s2) AgentRunStatus.CANCELLED reason ?r"
  have mine: "run_steps (run_id r) s2 = map (cancelled_step (clock s1) reason) ?L"
    using s2(4) [of "run_id r"] by auto
  have other: "run_steps rid s2 = run_steps rid s1" if "rid \<noteq> run_id r" for rid
  proof -
    have "step_id y \<notin> step_id ` set ?L" if y: "y \<in> set (run_steps rid s1)" for y
      using y run_steps_mem [OF k1] \<open>rid \<noteq> run_id r\<close> by fastforce
    then show ?thesis using s2(4) [of rid] by (simp add: map_idI)
  qed
  have step2: "\<exists>x. dict_get (agent_run_steps s2) sid = Some x \<and> step_run_id x = step_run_id y \<and>
      (step_status x = step_status y \<or> (step_status x = AgentRunStepStatus.CANCELLED \<and>
         step_status y \<notin> set TERMINAL_STEP_STATUSES))"
    if "dict_get (agent_run_steps s1) sid = Some y" for sid y
  proof -
    have "step_id y = sid" using steps.get_key [OF k1 that] .
    then have "y \<in> set (run_steps (step_run_id y) s1)" using that run_steps_mem [OF k1] by simp
    then have "(if step_id y \<in> step_id ` set ?L then cancelled_step (clock s1) reason y else y)
        \<in> set (run_steps (step_run_id y) s2)" (is "?x \<in> _")
      unfolding s2(4) set_map by (rule image_eqI [OF refl])
    then have "dict_get (agent_run_steps s2) sid = Some ?x"
      using run_steps_mem [OF s2(3)] \<open>step_id y = sid\<close> by auto
    then show ?thesis by (simp del: if_image_distrib)
  qed
  have "mission_inv (put_run ?q s2)"
    unfolding mission_inv_def
  proof (intro conjI ballI)
    show "keyed run_id (agent_runs (put_run ?q s2))"
      using runs.wf_put [OF kr1, of ?q] s2(1) by simp
    show "keyed step_id (agent_run_steps (put_run ?q s2))" using s2(3) by simp
    show "dict_get (agent_runs (put_run ?q s2)) (step_run_id st) \<noteq> None"
      if "st \<in> set (dict_vals (agent_run_steps (put_run ?q s2)))" for st
    proof -
      have "st \<in> set (run_steps (step_run_id st) s2)" using that in_run_steps by simp
      then obtain y where "y \<in> set (run_steps (step_run_id st) s1)"
        using s2(4) [of "step_run_id st"] by auto
      then have "y \<in> set (dict_vals (agent_run_steps s1))" "step_run_id y = step_run_id st"
        by (simp_all add: run_steps_def)
      then show ?thesis using I1 s2(1) by (force simp: minv_def mission_inv_def)
    qed
    show "run_ok (run_status x) (run_steps (run_id x) (put_run ?q s2))"
      if "x \<in> set (dict_vals (agent_runs (put_run ?q s2)))" for x
    proof -
      have "x = ?q \<or> (x \<in> set (dict_vals (agent_runs s1)) \<and> run_id x \<noteq> run_id r)"
        using that runs.in_vals_put [OF kr1, of x ?q] s2(1) by simp
      then show ?thesis
      proof (elim disjE conjE)
        assume "x = ?q"
        then show ?thesis using run_ok_cancelled [OF minv_run_ok [OF I1 r1]] mine by simp
      next
        assume x: "x \<in> set (dict_vals (agent_runs s1))" "run_id x \<noteq> run_id r"
        then show ?thesis using I1 other by (simp add: minv_def mission_inv_def)
      qed
    qed
  qed
  moreover have "flight_ok (flights F) (put_run ?q s2)"
    unfolding flight_ok_def
  proof (intro conjI ballI)
    show "distinct (map fst (flights F))" using I1 by (simp add: minv_def flight_ok_def)
    fix p assume p: "p \<in> set (flights F)"
    obtain rid sid where pe: "p = (rid, sid)" by (cases p)
    obtain y where "dict_get (agent_runs s1) rid \<noteq> None" "dict_get (agent_run_steps s1) sid = Some y"
      "step_run_id y = rid" "step_status y \<noteq> AgentRunStepStatus.PENDING" "step_status y \<noteq> AgentRunStepStatus.SUCCEEDED"
      using I1 p pe by (auto simp: minv_def flight_ok_def)
    with step2 [of sid y] s2(1) show "case p of (rid, sid) \<Rightarrow> dict_get (agent_runs (put_run ?q s2)) rid \<noteq> None \<and>
        (\<exists>x. dict_get (agent_run_steps (put_run ?q s2)) sid = Some x \<and> step_run_id x = rid
           \<and> step_status x \<noteq> AgentRunStepStatus.PENDING \<and> step_status x \<noteq> AgentRunStepStatus.SUCCEEDED)"
      by (auto simp: pe)
  qed
  moreover have "frozen_ok (frozen_runs F) (frozen_steps F) (put_run ?q s2)"
  proof -
    have "\<exists>x. dict_get (agent_run_steps s2) sid = Some x \<and> step_status x = status"
      if noted: "(sid, status) \<in> set (frozen_steps F)" for sid status
    proof -
      obtain y where "dict_get (agent_run_steps s1) sid = Some y" "step_status y = status"
        "status \<in> set TERMINAL_STEP_STATUSES"
        using I1 noted unfolding minv_def frozen_ok_def by fastforce
      with step2 [of sid y] show ?thesis by auto
    qed
    then show ?thesis
      using I1 False r1 s2(1) by (fastforce simp: minv_def frozen_ok_def cur_run_def)
  qed
  ultimately have "minv F (put_run ?q s2)" by (simp add: minv_def)
  moreover have "run_status r \<noteq> AgentRunStatus.CANCELLED" using False by auto
  moreover have e: "run_steps (run_id r) s1 = run_steps (run_id r) s" by (simp add: s1_def)
  note c' = c [unfolded e]
  moreover have "transition_run (clock s2) ?r AgentRunStatus.CANCELLED reason =
      Inr ((run_status r, AgentRunStatus.CANCELLED), ?q)"
    using False run_into_CANCELLED [OF False] by (auto simp: transition_run_cases)
  ultimately show ?thesis
    using False c' by (auto simp: cancel_agent_run_def Let_def s1_def [symmetric] wp)
qed

text \<open>Cancelling an unfinished run always returns, and does exactly this.\<close>

lemma cancel_agent_run_spec:
  assumes I: "minv F s" and r: "cur_run r s" and nt: "\<not> run_terminal (run_status r)"
  shows "\<exists>r' s'. cancel_agent_run E r actor reason s = (Inr r', s') \<and> run_id r' = run_id r \<and>
    run_status r' = AgentRunStatus.CANCELLED \<and> cur_run r' s' \<and>
    run_steps (run_id r) s' = map (cancelled_step (clock s) reason) (run_steps (run_id r) s)"
proof -
  let ?r = "r\<lparr>run_cancel_requested := True\<rparr>"
  let ?s = "put_run ?r s"
  let ?L = "run_steps (run_id r) ?s"
  have I1: "minv F ?s" by (rule minv_put_run_same' [OF I r]) simp_all
  have k1: "keyed step_id (agent_run_steps ?s)" using minv_keyed(1) [OF I1] .
  have "distinct ?L" using minv_run_ok [OF I r] by (auto simp: run_ok_def distinct_map)
  moreover have "inj_on step_id (set ?L)" using run_steps_mem [OF k1] by (auto intro!: inj_onI)
  ultimately have d: "distinct (map step_id ?L)" by (simp add: distinct_map)
  obtain s2 where c: "cancel_steps E ?r actor reason ?L ?s = (Inr (), s2)"
    and s2: "clock s2 = clock s"
      "run_steps (run_id r) s2 = map (\<lambda>y. if step_id y \<in> step_id ` set ?L
          then cancelled_step (clock s) reason y else y) ?L"
    using cancel_steps_result [OF k1 _ d, of E ?r actor reason] run_steps_cur [OF I1] by (auto simp: Let_def)
  have "run_steps (run_id r) s2 = map (cancelled_step (clock s) reason) (run_steps (run_id r) s)"
    unfolding s2(2) minv_frame by (rule map_cong [OF refl]) auto
  moreover have "transition_run (clock s2) ?r AgentRunStatus.CANCELLED reason =
      Inr ((run_status r, AgentRunStatus.CANCELLED), enter_run (clock s2) AgentRunStatus.CANCELLED reason ?r)"
    using nt run_into_CANCELLED [OF nt] by (auto simp: transition_run_cases)
  ultimately show ?thesis
    using nt c by (auto simp: cancel_agent_run_def Let_def)
qed

section \<open>Pausing, resuming, retrying\<close>

lemma minv_enter_run_open:
  "minv F s \<Longrightarrow> cur_run r s \<Longrightarrow> \<not> run_terminal (run_status r) \<Longrightarrow> \<not> run_terminal t \<Longrightarrow>
     minv F (put_run (enter_run n t reason r) s)"
  by (rule minv_put_run_open') simp_all

lemma minv_enter_run_open_iff:
  "minv F s \<Longrightarrow> cur_run r s \<Longrightarrow> can_transition_run (run_status r) t \<Longrightarrow> \<not> run_terminal t \<Longrightarrow>
     t \<noteq> run_status r \<Longrightarrow> minv F (put_run (enter_run n t reason r) s)"
  using terminal_run_stuck by (intro minv_enter_run_open) auto

lemma minv_enter_run_same:
  "minv F s \<Longrightarrow> cur_run r s \<Longrightarrow> minv F (put_run r s)"
  by (rule minv_put_run_same') simp_all

lemma pause_agent_run_minv:
  assumes I: "minv F s" and r: "cur_run r s"
  shows "outcome_ok (minv F) (\<lambda>_. minv F) (pause_agent_run E r actor reason s)"
proof -
  have I1: "minv F (put_run (r\<lparr>run_pause_requested := True\<rparr>) s)"
    by (rule minv_put_run_same' [OF I r]) simp_all
  show ?thesis
    using I I1 minv_enter_run_open_iff [OF I1, of "r\<lparr>run_pause_requested := True\<rparr>" AgentRunStatus.PAUSED]
    by (auto simp: pause_agent_run_def Let_def wp transition_run_cases)
qed

lemma minv_step_ready:
  assumes "minv F s" "cur_step st s" "step_live (step_status st)"
    "x = enter_step n AgentRunStepStatus.READY tx st"
  shows "minv F (put_step (x\<lparr>step_next_retry_at := None\<rparr>) s)" "minv F (put_step x s)"
  using assms(4) by (auto intro!: minv_put_live' [OF assms(1,2)] simp: assms(3) retry_in_budget_def)

lemma resume_agent_run_minv:
  assumes I: "minv F s" and r: "cur_run r s"
  shows "outcome_ok (minv F) (\<lambda>_. minv F) (resume_agent_run E r actor reason s)"
proof -
  let ?r = "r\<lparr>run_pause_requested := False\<rparr>"
  have I1: "minv F (put_run ?r s)" by (rule minv_put_run_same' [OF I r]) simp_all
  have I2: "minv F (put_step ((enter_step n AgentRunStepStatus.READY tx st)\<lparr>step_next_retry_at := None\<rparr>) (put_run ?r s))"
    if "current_step ?r s = Some st" "step_live (step_status st)" for st n tx
    using minv_step_ready(1) [OF I1 _ that(2) refl] current_step_cur [OF I1, of ?r st] that(1) by simp
  have fin: "minv F (put_run (enter_run n AgentRunStatus.SCHEDULED reason ?r) s')"
    if "minv F s'" "cur_run ?r s'" "run_status r \<in> {AgentRunStatus.PAUSED, AgentRunStatus.NEEDS_HUMAN, AgentRunStatus.RETRY_WAIT}" for s' n
    using that by (intro minv_enter_run_open) auto
  show ?thesis
    using I I1
    by (auto simp: resume_agent_run_def Let_def wp transition_run_cases transition_step_cases
        intro!: fin I2 split: option.splits)
qed

lemma retry_agent_run_step_minv:
  assumes I: "minv F s" and r: "cur_run r s" and st: "cur_step st s"
    and nf: "step_status st \<noteq> AgentRunStepStatus.FAILED"
  shows "outcome_ok (minv F) (\<lambda>_. minv F) (retry_agent_run_step E r st actor reason s)"
proof -
  have Is: "minv F (put_step st s)" by (rule minv_put_same' [OF I st]) simp_all
  have I2: "minv F (put_step ((enter_step n AgentRunStepStatus.READY tx st)\<lparr>step_next_retry_at := None\<rparr>) (put_step st s))"
    if "step_live (step_status st)" for n tx
    using minv_step_ready(1) [OF Is _ that refl] by simp
  have I3: "minv F (put_run q (put_step ((enter_step n AgentRunStepStatus.READY tx st)\<lparr>step_next_retry_at := None\<rparr>) (put_step st s)))"
    if "step_live (step_status st)" "run_id q = run_id r" "run_status q = run_status r" for n tx q
    by (rule minv_put_run_same' [OF I2 [OF that(1)], of r]) (use that r in simp_all)
  have I4: "minv F (put_run (enter_run n' AgentRunStatus.SCHEDULED reason q) (put_run q
      (put_step ((enter_step n AgentRunStepStatus.READY tx st)\<lparr>step_next_retry_at := None\<rparr>) (put_step st s))))"
    if "step_live (step_status st)" "run_id q = run_id r" "run_status q = run_status r"
      "run_status r \<in> {AgentRunStatus.NEEDS_HUMAN, AgentRunStatus.RETRY_WAIT}" for n n' tx q
    by (rule minv_enter_run_open [OF I3 [OF that(1-3)]]) (use that in auto)
  show ?thesis
    using I Is nf
    by (auto simp: retry_agent_run_step_def Let_def wp transition_run_cases transition_step_cases
        intro!: I3 I4)
qed

section \<open>The watchdog\<close>

lemma recover_step_minv:
  assumes I: "minv F s" and r: "cur_run r s" and st: "cur_step st s"
    and run: "step_status st = AgentRunStepStatus.RUNNING"
  shows "outcome_ok (minv F) (\<lambda>_ s'. minv F s' \<and> (\<forall>q. run_id q \<noteq> run_id r \<longrightarrow> cur_run q s = cur_run q s'))
    (recover_step E actor owner r st s)"
proof -
  define x where "x = st\<lparr>step_lease_owner := None, step_lease_token := None, step_lease_expires_at := None\<rparr>"
  have x: "step_id x = step_id st" "step_run_id x = step_run_id st" "step_sequence x = step_sequence st"
    "step_status x = step_status st" "step_attempt_count x = step_attempt_count st"
    "step_max_attempts x = step_max_attempts st" by (simp_all add: x_def)
  have I0: "minv F (put_step x s)" by (rule minv_put_same' [OF I st]) (simp_all add: x)
  have I1: "minv F (put_step (y\<lparr>step_next_retry_at := t\<rparr>) (put_step x s))"
    if "y = enter_step n AgentRunStepStatus.RETRY_WAIT tx x" "step_attempt_count st < step_max_attempts st" for y n tx t
    by (rule minv_put_live' [OF I0, of x]) (use that x run in \<open>simp_all add: retry_in_budget_def\<close>)
  have I2: "minv F (put_step (enter_step n AgentRunStepStatus.NEEDS_HUMAN tx x) (put_step x s))" for n tx
    by (rule minv_put_live' [OF I0, of x]) (use x run in \<open>simp_all add: retry_in_budget_def\<close>)
  have I3: "minv F (put_run (enter_run n' t reason r) (put_step ((enter_step n AgentRunStepStatus.RETRY_WAIT tx x)\<lparr>step_next_retry_at := u\<rparr>) (put_step x s)))"
    if "\<not> run_terminal (run_status r)" "\<not> run_terminal t" "step_attempt_count st < step_max_attempts st" for n n' t reason tx u
    by (rule minv_enter_run_open [OF I1 [OF refl]]) (use that r in simp_all)
  have I4: "minv F (put_run (enter_run n' t reason r) (put_step (enter_step n AgentRunStepStatus.NEEDS_HUMAN tx x) (put_step x s)))"
    if "\<not> run_terminal (run_status r)" "\<not> run_terminal t" for n n' t reason tx
    by (rule minv_enter_run_open [OF I2]) (use that r in simp_all)
  show ?thesis
    using I0 run x unfolding recover_step_def Let_def x_def [symmetric]
    by (auto simp: wp transition_run_cases transition_step_cases I1 [OF refl] I2 I3 I4 cur_run_def)
qed

lemma recover_runs_minv:
  assumes "minv F s" "\<And>r. r \<in> set L \<Longrightarrow> cur_run r s" "distinct (map run_id L)"
  shows "outcome_ok (minv F) (\<lambda>_. minv F) (recover_runs E actor L n s)"
  using assms
proof (induction L arbitrary: s n)
  case Nil
  then show ?case by (simp add: wp)
next
  case (Cons r L)
  have r: "cur_run r s" by (simp add: Cons.prems)
  show ?case
  proof (cases "lease_stale (clock s) r")
    case False
    then show ?thesis using Cons by simp
  next
    case True
    let ?r = "r\<lparr>run_lease_owner := None, run_lease_token := None, run_lease_expires_at := None, run_heartbeat_at := None\<rparr>"
    have I1: "minv F (put_run ?r s)" by (rule minv_put_run_same' [OF Cons.prems(1) r]) simp_all
    have o1: "cur_run q (put_run ?r s)" if "q \<in> set L" for q
      using Cons.prems that by (auto simp: cur_run_def image_iff)
    have nxt: "outcome_ok (minv F) (\<lambda>_. minv F) (recover_runs E actor L m s')"
      if "minv F s'" "\<And>q. q \<in> set L \<Longrightarrow> cur_run q s'" for s' m
      using Cons.IH [OF that] Cons.prems(3) by simp
    have rec: "outcome_ok (minv F) (\<lambda>_ s'. outcome_ok (minv F) (\<lambda>_. minv F) (recover_runs E actor L m s'))
        (recover_step E actor owner ?r st (put_run ?r s))"
      if "current_step ?r s = Some st" "step_status st = AgentRunStepStatus.RUNNING" for st owner m
    proof (rule outcome_ok_mono [OF recover_step_minv [OF I1, of ?r st]])
      show "cur_run ?r (put_run ?r s)" by simp
      show "cur_step st (put_run ?r s)" using current_step_cur [OF I1, of ?r st] that(1) by simp
      show "step_status st = AgentRunStepStatus.RUNNING" by (rule that(2))
      fix s' assume s': "minv F s' \<and> (\<forall>q. run_id q \<noteq> run_id ?r \<longrightarrow> cur_run q (put_run ?r s) = cur_run q s')"
      have "cur_run q s'" if "q \<in> set L" for q
        using s' o1 [OF that] Cons.prems(3) that by (auto simp: image_iff)
      then show "outcome_ok (minv F) (\<lambda>_. minv F) (recover_runs E actor L m s')"
        using nxt s' by blast
    qed
    show ?thesis
      using True nxt [OF I1 o1] rec by (simp add: Let_def wp split: option.split)
  qed
qed

lemma recover_stale_leases_minv:
  assumes "minv F s"
  shows "outcome_ok (minv F) (\<lambda>_. minv F) (recover_stale_leases E actor s)"
proof -
  have k: "keyed run_id (agent_runs s)" using minv_keyed(2) [OF assms] .
  have "distinct (map run_id (dict_vals (agent_runs s)))"
  proof -
    have "map run_id (dict_vals (agent_runs s)) = map fst (agent_runs s)"
      using k by (auto simp: keyed_def dict_vals_def list_all_iff)
    then show ?thesis using k by (simp add: keyed_def)
  qed
  then have "outcome_ok (minv F) (\<lambda>_. minv F) (recover_runs E actor (dict_vals (agent_runs s)) 0 s)"
    using runs.get_self [OF k] by (intro recover_runs_minv [OF assms]) (auto simp: cur_run_def)
  then show ?thesis
    unfolding recover_stale_leases_def by (auto simp: wp elim!: outcome_ok_mono)
qed

section \<open>Starting an execution\<close>

lemma ready_step_minv:
  assumes I: "minv F s" and q: "cur_run q s"
  shows "outcome_ok (minv F)
    (\<lambda>found s'. minv F s' \<and> cur_run q s' \<and>
       (\<forall>st. found = Some st \<longrightarrow> cur_step st s' \<and> step_run_id st = run_id q
          \<and> step_status st = AgentRunStepStatus.READY))
    (ready_step E q s)"
  unfolding ready_step_def
proof (rule outcome_ok_mono [OF ready_step_in_minv [OF I]])
  show "cur_step st s" if "st \<in> set (run_steps (run_id q) s)" for st
    using run_steps_cur [OF I that] by simp
  show "minv F s' \<and> cur_run q s' \<and> (\<forall>st. found = Some st \<longrightarrow> cur_step st s' \<and>
      step_run_id st = run_id q \<and> step_status st = AgentRunStepStatus.READY)"
    if "minv F s' \<and> agent_runs s' = agent_runs s \<and> (\<forall>st'. found = Some st' \<longrightarrow> cur_step st' s' \<and>
      step_status st' = AgentRunStepStatus.READY \<and>
      (\<exists>st\<in>set (run_steps (run_id q) s). step_id st' = step_id st \<and> step_run_id st' = step_run_id st))"
    for found s'
    using that q run_steps_cur [OF I] by (auto simp: cur_run_def)
qed

lemma begin_attempt_minv':
  assumes "minv F s" "cur_run r s" "cur_step st s" "step_run_id st = run_id r"
    "step_status st = AgentRunStepStatus.READY" "run_status r \<noteq> AgentRunStatus.PAUSED"
  shows "outcome_ok (minv F)
    (\<lambda>(r', st') s'. minv F s' \<and> run_id r' = run_id r \<and> in_flight_step r' st' s'
       \<and> step_status st' = AgentRunStepStatus.RUNNING) (begin_attempt E r st w tok s)"
proof -
  from begin_attempt_minv [OF assms(1-5), of E w tok] assms(6)
  have "outcome_ok (minv F)
    (\<lambda>(r', st') s'. minv F s' \<and> cur_run r' s' \<and> cur_step st' s' \<and> run_id r' = run_id r
       \<and> step_id st' = step_id st \<and> step_run_id st' = run_id r \<and> run_status r' \<noteq> AgentRunStatus.PAUSED
       \<and> step_status st' = AgentRunStepStatus.RUNNING) (begin_attempt E r st w tok s)" by blast
  then show ?thesis by (rule outcome_ok_mono) (auto simp: in_flight_step_def)
qed

lemma start_step_minv:
  assumes I: "minv F s"
  shows "outcome_ok (minv F)
    (\<lambda>x s'. minv F s' \<and> (\<forall>r st. x = Inr (r, st) \<longrightarrow> run_id r = rid \<and> in_flight_step r st s' \<and>
        step_status st = AgentRunStepStatus.RUNNING))
    (start_step E rid w secs s)"
proof (cases "dict_get (agent_runs s) rid")
  case None
  then show ?thesis using I by (simp add: start_step_def wp)
next
  case (Some r)
  have r: "cur_run r s" "run_id r = rid" using cur_runI [OF I Some] by auto
  have ready: "outcome_ok (minv F)
      (\<lambda>x s'. minv F s' \<and> (\<forall>r st. x = Inr (r, st) \<longrightarrow> run_id r = run_id q \<and> in_flight_step r st s' \<and>
        step_status st = AgentRunStepStatus.RUNNING))
      (bindE (ready_step E q s') K)"
    if "minv F s'" "cur_run q s'"
      and K: "\<And>found s''. minv F s'' \<Longrightarrow> cur_run q s'' \<Longrightarrow>
        (\<And>st. found = Some st \<Longrightarrow> cur_step st s'' \<and> step_run_id st = run_id q \<and> step_status st = AgentRunStepStatus.READY) \<Longrightarrow>
        outcome_ok (minv F) (\<lambda>x s'. minv F s' \<and> (\<forall>r st. x = Inr (r, st) \<longrightarrow> run_id r = run_id q \<and>
           in_flight_step r st s' \<and> step_status st = AgentRunStepStatus.RUNNING)) (K found s'')" for s' q K
    unfolding outcome_ok_bindE
    by (rule outcome_ok_mono [OF ready_step_minv [OF that(1,2)]]) (auto intro: K)
  have attempt: "outcome_ok (minv F)
      (\<lambda>x s'. minv F s' \<and> (\<forall>r st. x = Inr (r, st) \<longrightarrow> run_id r = run_id q \<and> in_flight_step r st s' \<and>
        step_status st = AgentRunStepStatus.RUNNING))
      (bindE (begin_attempt E q st w tok s') (\<lambda>rs s. ret (Inr rs) s))"
    if "minv F s'" "cur_run q s'" "cur_step st s'" "step_run_id st = run_id q" 
    "step_status st = AgentRunStepStatus.READY" "run_status q \<noteq> AgentRunStatus.PAUSED" for s' q st tok
    unfolding outcome_ok_bindE
    by (rule outcome_ok_mono [OF begin_attempt_minv' [OF that(1-6)]]) (auto simp: wp)
  have released: "minv F (snd (release_run_lease E q w tok s'))"
    if "minv F s'" "cur_run q s'" for s' q tok
    using release_run_lease_minv(1) [OF that] by (metis prod.collapse)
  have go: "outcome_ok (minv F)
      (\<lambda>x s'. minv F s' \<and> (\<forall>r st. x = Inr (r, st) \<longrightarrow> run_id r = rid \<and> in_flight_step r st s' \<and>
        step_status st = AgentRunStepStatus.RUNNING))
      (bindE (acquire_run_lease E r w secs s) (K :: _ \<Rightarrow> _ \<Rightarrow>
         (AgentRunStepExecutionResult + AgentRun \<times> AgentRunStep) result))"
    if K: "\<And>tok q s'. minv F s' \<Longrightarrow> cur_run q s' \<Longrightarrow> run_id q = rid \<Longrightarrow> run_status q = run_status r \<Longrightarrow>
        outcome_ok (minv F) (\<lambda>x s'. minv F s' \<and> (\<forall>r st. x = Inr (r, st) \<longrightarrow> run_id r = rid \<and>
           in_flight_step r st s' \<and> step_status st = AgentRunStepStatus.RUNNING)) (K (tok, q) s')" for K
    unfolding outcome_ok_bindE
  proof (rule outcome_ok_mono [OF acquire_run_lease_minv [OF I r(1)]])
    fix x :: "string \<times> AgentRun" and s' :: sys
    assume "(case x of (tok, q) \<Rightarrow> \<lambda>s'. minv F s' \<and> cur_run q s' \<and> run_id q = run_id r \<and>
      run_status q = run_status r \<and> agent_run_steps s' = agent_run_steps s) s'"
    then show "outcome_ok (minv F) (\<lambda>x s'. minv F s' \<and> (\<forall>r st. x = Inr (r, st) \<longrightarrow> run_id r = rid \<and>
           in_flight_step r st s' \<and> step_status st = AgentRunStepStatus.RUNNING)) (K x s')"
      using K [of s' "snd x" "fst x"] r(2) by (cases x) auto
  qed
  have cancel: "outcome_ok (minv F) Q (bindE (cancel_agent_run E r w m s) (\<lambda>_ s. raise e s))" for m Q e
    unfolding wp by (rule cancel_agent_run_minv [OF I r(1)])
  show ?thesis
    using Some I unfolding start_step_def
    by (auto simp: outcome_ok_raise outcome_ok_ret cancel released case_prod_beta Let_def
        intro!: go ready attempt split: option.split)
qed

end
