(* ===== verification/MissionCreate.thy ===== *)
theory MissionCreate
  imports MissionControl
begin

text \<open>
  Creating a run (\<open>create_agent_run\<close>) keeps the invariant and gives the run its seven steps in
  order, the first one ready. The identifiers drawn meanwhile have to be new, which
  \<open>fresh_ids\<close> states for the few draws a creation makes.
\<close>

lemma run_steps_add:
  assumes k: "keyed step_id (agent_run_steps s)" and n: "dict_get (agent_run_steps s) (step_id st) = None"
    and l: "\<And>y. y \<in> set (run_steps (step_run_id st) s) \<Longrightarrow> step_sequence y \<le> step_sequence st"
  shows "run_steps rid (put_step st s) = run_steps rid s @ (if rid = step_run_id st then [st] else [])"
proof -
  have "sort_key step_sequence (filter (\<lambda>y. step_run_id y = step_run_id st) (dict_vals (agent_run_steps s)) @ [st])
      = run_steps (step_run_id st) s @ [st]"
    unfolding run_steps_def by (rule sort_key_snoc) (use l in \<open>simp add: run_steps_def\<close>)
  then show ?thesis
    by (auto simp: run_steps_def steps.vals_put_new [OF k n])
qed

lemma minv_add_step:
  assumes I: "minv F s" and n: "dict_get (agent_run_steps s) (step_id st) = None"
    and r: "cur_run r s" "step_run_id st = run_id r"
    and l: "\<And>y. y \<in> set (run_steps (run_id r) s) \<Longrightarrow> step_sequence y \<le> step_sequence st"
    and ok: "run_ok (run_status r) (run_steps (run_id r) s @ [st])"
  shows "minv F (put_step st s)"
proof -
  have k: "keyed step_id (agent_run_steps s)" and kr: "keyed run_id (agent_runs s)"
    using minv_keyed [OF I] by auto
  have add: "run_steps rid (put_step st s) = run_steps rid s @ (if rid = run_id r then [st] else [])" for rid
    using run_steps_add [OF k n, of rid] l r by simp
  have "run_ok (run_status q) (run_steps (run_id q) (put_step st s))"
    if "q \<in> set (dict_vals (agent_runs s))" for q
  proof (cases "run_id q = run_id r")
    case True
    then have "q = r" using runs.get_self [OF kr that] r(1) by (simp add: cur_run_def)
    then show ?thesis using ok add by simp
  next
    case False
    then show ?thesis using I that add by (simp add: minv_def mission_inv_def)
  qed
  moreover have "dict_get (agent_runs s) (step_run_id x) \<noteq> None"
    if "x \<in> set (dict_vals (dict_set (step_id st) st (agent_run_steps s)))" for x
    using that I r by (auto simp: steps.in_vals_put [OF k] minv_def mission_inv_def cur_run_def)
  ultimately have "mission_inv (put_step st s)"
    using steps.wf_put [OF k] kr by (auto simp: mission_inv_def)
  moreover have "flight_ok (flights F) (put_step st s)"
    unfolding flight_ok_def
  proof (intro conjI ballI)
    show "distinct (map fst (flights F))" using I by (simp add: minv_def flight_ok_def)
    fix p assume "p \<in> set (flights F)"
    with I n show "case p of (rid, sid) \<Rightarrow> dict_get (agent_runs (put_step st s)) rid \<noteq> None \<and>
        (\<exists>x. dict_get (agent_run_steps (put_step st s)) sid = Some x \<and> step_run_id x = rid
           \<and> step_status x \<noteq> AgentRunStepStatus.PENDING \<and> step_status x \<noteq> AgentRunStepStatus.SUCCEEDED)"
      by (cases p) (fastforce simp: minv_def flight_ok_def)
  qed
  moreover have "frozen_ok (frozen_runs F) (frozen_steps F) (put_step st s)"
    using I n by (fastforce simp: minv_def frozen_ok_def)
  ultimately show ?thesis by (simp add: minv_def)
qed

lemma minv_add_run:
  assumes I: "minv F s" and n: "dict_get (agent_runs s) (run_id r) = None"
    and st: "\<not> run_terminal (run_status r)"
  shows "minv F (put_run r s)" "run_steps (run_id r) s = []"
proof -
  have kr: "keyed run_id (agent_runs s)" using minv_keyed(2) [OF I] .
  have "step_run_id y \<noteq> run_id r" if "y \<in> set (dict_vals (agent_run_steps s))" for y
    using I n that by (auto simp: minv_def mission_inv_def)
  then have "filter (\<lambda>y. step_run_id y = run_id r) (dict_vals (agent_run_steps s)) = []"
    by (simp add: filter_empty_conv)
  then show e: "run_steps (run_id r) s = []" by (simp add: run_steps_def)
  have "mission_inv (put_run r s)"
    using I runs.wf_put [OF kr] e st
    by (auto simp: minv_def mission_inv_def runs.in_vals_put [OF kr] run_ok_def)
  moreover have "flight_ok (flights F) (put_run r s)"
    using I by (auto simp: minv_def flight_ok_def)
  moreover have "frozen_ok (frozen_runs F) (frozen_steps F) (put_run r s)"
    using I n by (fastforce simp: minv_def frozen_ok_def)
  ultimately show "minv F (put_run r s)" by (simp add: minv_def)
qed

definition fresh_steps :: "env \<Rightarrow> nat \<Rightarrow> sys \<Rightarrow> bool" where
  "fresh_steps E m s \<longleftrightarrow> distinct (map (uuid_hex12 E) [draws s..<m]) \<and>
     list_all (\<lambda>n. dict_get (agent_run_steps s) (''agent_run_step'' @ ''_'' @ uuid_hex12 E n) = None)
       [draws s..<m]"

lemma fresh_steps_next:
  assumes "fresh_steps E m s" "draws s < m" "step_id st = new_id E ''agent_run_step'' s"
    and "draws s < draws s'" "agent_run_steps s' = dict_set (step_id st) st (agent_run_steps s)"
  shows "fresh_steps E m s'" "dict_get (agent_run_steps s) (step_id st) = None"
proof -
  have d: "inj_on (uuid_hex12 E) {draws s..<m}"
    using assms(1) by (simp add: fresh_steps_def distinct_map)
  have "''agent_run_step'' @ ''_'' @ uuid_hex12 E n \<noteq> step_id st" if "n \<in> {draws s'..<m}" for n
    using inj_onD [OF d, of "draws s" n] that assms(2-4) by (auto simp: new_id_def)
  moreover have "inj_on (uuid_hex12 E) {draws s'..<m}"
    by (rule inj_on_subset [OF d]) (use assms(4) in auto)
  ultimately show "fresh_steps E m s'"
    using assms(1,4,5) by (auto simp: fresh_steps_def distinct_map list_all_iff)
  show "dict_get (agent_run_steps s) (step_id st) = None"
    using assms(1-3) by (auto simp: fresh_steps_def list_all_iff new_id_def)
qed

lemma append_event_draws [simp]: "draws (append_event E r ty a s) = Suc (draws s)"
  by (simp add: append_event_def)

definition first_ready :: "nat \<Rightarrow> AgentRunStepStatus" where
  "first_ready k = (if k = 0 then AgentRunStepStatus.READY else AgentRunStepStatus.PENDING)"

lemma shape_first_ready: "shape (map first_ready [0..<k])"
proof (cases k)
  case (Suc j)
  have "homogeneous (map first_ready [Suc 0..<k])"
    by (auto simp: homogeneous_def first_ready_def list_all_iff)
  moreover have "[0..<k] = 0 # [Suc 0..<k]" using Suc by (simp add: upt_rec)
  ultimately show ?thesis by (simp add: first_ready_def)
qed simp

lemma create_run_steps_spec:
  assumes "minv F s" "cur_run r s" "\<not> run_terminal (run_status r)"
    and "map step_status (run_steps (run_id r) s) = map first_ready [0..<i]"
    and "map step_sequence (run_steps (run_id r) s) = map int [0..<i]"
    and "fresh_steps E m s" "draws s + 2 * length tys \<le> m"
  shows "\<exists>r' s' new. create_run_steps E p actor i tys r s = (r', s') \<and> minv F s' \<and> cur_run r' s' \<and>
    r' = (if i = 0 \<and> tys \<noteq> [] then r\<lparr>run_current_step_id := Some (step_id (hd new))\<rparr> else r) \<and>
    run_steps (run_id r) s' = run_steps (run_id r) s @ new \<and> map step_type new = tys \<and>
    map step_status new = map first_ready [i..<i + length tys] \<and>
    map step_sequence new = map int [i..<i + length tys] \<and>
    list_all (\<lambda>st. step_attempt_count st = 0 \<and> step_max_attempts st = rc_max_attempts_per_step p) new"
  using assms
proof (induction tys arbitrary: i r s)
  case Nil
  then show ?case by simp
next
  case (Cons ty tys)
  define st where "st = \<lparr>step_id = new_id E ''agent_run_step'' s, step_run_id = run_id r,
            step_task_id = run_task_id r, step_sequence = int i, step_type = ty,
            step_status = (if i = 0 then AgentRunStepStatus.READY else AgentRunStepStatus.PENDING),
            step_attempt_count = 0, step_max_attempts = rc_max_attempts_per_step p,
            step_idempotency_key = run_id r @ '':'' @ nat_digits i @ '':'' @
              AgentRunStepType_value ty,
            step_lease_owner = None, step_lease_token = None, step_lease_expires_at = None,
            step_heartbeat_at = None, step_next_retry_at = None, step_started_at = None,
            step_completed_at = None, step_duration_ms = None, step_decision = None,
            step_reason = [], step_last_error = None, step_evidence = [],
            step_evidence_hash = None, step_output_reference = None,
            step_created_at = clock s, step_updated_at = clock s\<rparr>"
  have st: "step_id st = new_id E ''agent_run_step'' s" "step_run_id st = run_id r" "step_sequence st = int i"
    "step_type st = ty" "step_status st = first_ready i" "step_attempt_count st = 0"
    "step_max_attempts st = rc_max_attempts_per_step p"
    by (simp_all add: st_def first_ready_def)
  let ?s1 = "put_step st (drawn s)"
  have new: "dict_get (agent_run_steps (drawn s)) (step_id st) = None"
    using fresh_steps_next(2) [OF Cons.prems(6) _ st(1), of ?s1] Cons.prems(7) by simp
  have seqs: "y \<in> set (run_steps (run_id r) s) \<Longrightarrow> step_sequence y < int i" for y
  proof -
    assume "y \<in> set (run_steps (run_id r) s)"
    then have "step_sequence y \<in> set (map step_sequence (run_steps (run_id r) s))" by simp
    then show ?thesis unfolding Cons.prems(5) by auto
  qed
  have old: "run_ok (run_status r) (run_steps (run_id r) s)"
    using minv_run_ok [OF Cons.prems(1,2)] .
  have "map step_status (run_steps (run_id r) s @ [st]) = map first_ready [0..<Suc i]"
    using Cons.prems(4) st by simp
  then have sh: "shape (map step_status (run_steps (run_id r) s @ [st]))"
    by (simp only: shape_first_ready)
  have ok1: "run_ok (run_status r) (run_steps (run_id r) s @ [st])"
  proof -
    have "int i \<notin> step_sequence ` set (run_steps (run_id r) s)" using seqs by fastforce
    then have "distinct (map step_sequence (run_steps (run_id r) s @ [st]))"
      using old st(3) by (simp add: run_ok_def)
    moreover have "step_status st \<noteq> AgentRunStepStatus.CANCELLED" "retry_in_budget st"
      by (auto simp: st first_ready_def retry_in_budget_def)
    ultimately show ?thesis
      using old sh Cons.prems(3) unfolding run_ok_def by auto
  qed
  have I1: "minv F ?s1"
    by (rule minv_add_step [OF _ new, of F r])
      (use Cons.prems(1,2) st ok1 seqs in \<open>auto simp: order_less_imp_le\<close>)
  have k: "keyed step_id (agent_run_steps (drawn s))" using minv_keyed(1) [OF Cons.prems(1)] by simp
  have L1: "run_steps (run_id r) ?s1 = run_steps (run_id r) s @ [st]"
    using run_steps_add [OF k new, of "run_id r"] seqs st by (simp add: order_less_imp_le)
  have r1: "cur_run r ?s1" using Cons.prems(2) by simp
  show ?case
  proof (cases "i = 0")
    case True
    let ?r = "r\<lparr>run_current_step_id := Some (step_id st)\<rparr>"
    let ?s2 = "append_event E ?r STEP_READY (no_args\<lparr>arg_step := Some st,
                    arg_new := Some (AgentRunStepStatus_value (step_status st)),
                    arg_message := ''First Mission Control step is ready.'',
                    arg_actor := actor\<rparr>) (put_run ?r ?s1)"
    have I2: "minv F (put_run ?r ?s1)" by (rule minv_put_run_same' [OF I1 r1]) simp_all
    have fr: "fresh_steps E m ?s2"
      by (rule fresh_steps_next(1) [OF Cons.prems(6) _ st(1)]) (use Cons.prems(7) in simp_all)
    have hyp: "\<exists>r' s' new. create_run_steps E p actor (Suc i) tys ?r ?s2 = (r', s') \<and> minv F s' \<and> cur_run r' s' \<and>
      r' = (if Suc i = 0 \<and> tys \<noteq> [] then ?r\<lparr>run_current_step_id := Some (step_id (hd new))\<rparr> else ?r) \<and>
      run_steps (run_id ?r) s' = run_steps (run_id ?r) ?s2 @ new \<and> map step_type new = tys \<and>
      map step_status new = map first_ready [Suc i..<Suc i + length tys] \<and>
      map step_sequence new = map int [Suc i..<Suc i + length tys] \<and>
      list_all (\<lambda>st. step_attempt_count st = 0 \<and> step_max_attempts st = rc_max_attempts_per_step p) new"
      by (rule Cons.IH) (use I2 Cons.prems L1 st fr True in \<open>simp_all add: first_ready_def\<close>)
    then obtain s' new where h: "create_run_steps E p actor (Suc i) tys ?r ?s2 = (?r, s')" "minv F s'" "cur_run ?r s'"
      "run_steps (run_id r) s' = (run_steps (run_id r) s @ [st]) @ new" "map step_type new = tys"
      "map step_status new = map first_ready [Suc i..<Suc i + length tys]"
      "map step_sequence new = map int [Suc i..<Suc i + length tys]"
      "list_all (\<lambda>st. step_attempt_count st = 0 \<and> step_max_attempts st = rc_max_attempts_per_step p) new"
      using L1 by auto
    have "create_run_steps E p actor i (ty # tys) r s = (?r, s')"
      using h(1) True unfolding create_run_steps.simps Let_def st_def [symmetric] by simp
    then show ?thesis using h True st by (intro exI [of _ ?r] exI [of _ s'] exI [of _ "st # new"]) (auto simp: upt_rec)
  next
    case False
    have fr: "fresh_steps E m ?s1"
      by (rule fresh_steps_next(1) [OF Cons.prems(6) _ st(1)]) (use Cons.prems(7) in simp_all)
    have hyp: "\<exists>r' s' new. create_run_steps E p actor (Suc i) tys r ?s1 = (r', s') \<and> minv F s' \<and> cur_run r' s' \<and>
      r' = (if Suc i = 0 \<and> tys \<noteq> [] then r\<lparr>run_current_step_id := Some (step_id (hd new))\<rparr> else r) \<and>
      run_steps (run_id r) s' = run_steps (run_id r) ?s1 @ new \<and> map step_type new = tys \<and>
      map step_status new = map first_ready [Suc i..<Suc i + length tys] \<and>
      map step_sequence new = map int [Suc i..<Suc i + length tys] \<and>
      list_all (\<lambda>st. step_attempt_count st = 0 \<and> step_max_attempts st = rc_max_attempts_per_step p) new"
      by (rule Cons.IH) (use I1 r1 Cons.prems L1 st fr in simp_all)
    then obtain s' new where h: "create_run_steps E p actor (Suc i) tys r ?s1 = (r, s')" "minv F s'" "cur_run r s'"
      "run_steps (run_id r) s' = (run_steps (run_id r) s @ [st]) @ new" "map step_type new = tys"
      "map step_status new = map first_ready [Suc i..<Suc i + length tys]"
      "map step_sequence new = map int [Suc i..<Suc i + length tys]"
      "list_all (\<lambda>st. step_attempt_count st = 0 \<and> step_max_attempts st = rc_max_attempts_per_step p) new"
      using L1 by auto
    have "create_run_steps E p actor i (ty # tys) r s = (r, s')"
      using h(1) False unfolding create_run_steps.simps Let_def st_def [symmetric] by simp
    then show ?thesis using h False st by (intro exI [of _ r] exI [of _ s'] exI [of _ "st # new"]) (auto simp: upt_rec)
  qed
qed

definition fresh_ids :: "env \<Rightarrow> sys \<Rightarrow> bool" where
  "fresh_ids E s \<longleftrightarrow> fresh_steps E (draws s + 16) s \<and>
     list_all (\<lambda>n. dict_get (agent_runs s) (''agent_run'' @ ''_'' @ uuid_hex12 E n) = None)
       [draws s..<draws s + 2]"

lemma fresh_steps_mono:
  "fresh_steps E m s \<Longrightarrow> draws s \<le> draws s' \<Longrightarrow> agent_run_steps s' = agent_run_steps s \<Longrightarrow> fresh_steps E m s'"
  by (auto simp: fresh_steps_def list_all_iff distinct_map intro: inj_on_subset)

definition new_run_ok :: "AgentRunCreate \<Rightarrow> AgentRun \<Rightarrow> sys \<Rightarrow> bool" where
  "new_run_ok p r s \<longleftrightarrow>
     run_status r = AgentRunStatus.SCHEDULED \<and> cur_run r s \<and>
     run_lease_owner r = None \<and> run_lease_token r = None \<and>
     map step_type (run_steps (run_id r) s) = DEFAULT_AGENT_RUN_STEPS \<and>
     map step_status (run_steps (run_id r) s) = map first_ready [0..<7] \<and>
     map step_sequence (run_steps (run_id r) s) = map int [0..<7] \<and>
     list_all (\<lambda>st. step_attempt_count st = 0 \<and> step_max_attempts st = rc_max_attempts_per_step p)
       (run_steps (run_id r) s) \<and>
     run_current_step_id r = Some (step_id (hd (run_steps (run_id r) s)))"

lemma new_run_ok_frame [simp]:
  "new_run_ok p r (append_event E q ty a s) = new_run_ok p r s"
  "new_run_ok p r (persist s) = new_run_ok p r s"
  "new_run_ok p r (add_audit E ev ent d ac s) = new_run_ok p r s"
  by (simp_all add: new_run_ok_def cur_run_def run_steps_def)

lemma new_run_steps:
  assumes I: "minv F s" and n: "dict_get (agent_runs s) (run_id r) = None"
    and r: "run_status r = AgentRunStatus.SCHEDULED" "run_lease_owner r = None" "run_lease_token r = None"
    and f: "fresh_steps E m s" "draws s + 15 \<le> m"
    and c: "create_run_steps E p actor 0 DEFAULT_AGENT_RUN_STEPS r (put_run r (drawn s)) = (r', s')"
  shows "minv F s'" "new_run_ok p r' s'" "run_id r' = run_id r"
proof -
  have I1: "minv F (put_run r (drawn s))"
    by (rule minv_add_run) (use I n r in simp_all)
  have e: "run_steps (run_id r) (put_run r (drawn s)) = []"
    using minv_add_run(2) [of F "drawn s" r] I n r by simp
  have f1: "fresh_steps E m (put_run r (drawn s))"
    by (rule fresh_steps_mono [OF f(1)]) simp_all
  let ?D = DEFAULT_AGENT_RUN_STEPS
  have len: "length ?D = 7" "?D \<noteq> []" by (simp_all add: DEFAULT_AGENT_RUN_STEPS_def)
  have nt: "\<not> run_terminal (run_status r)" using r by simp
  have le: "draws (put_run r (drawn s)) + 2 * length ?D \<le> m" using f(2) len by simp
  have st0: "map step_status (run_steps (run_id r) (put_run r (drawn s))) = map first_ready [0..<0]"
    and seq0: "map step_sequence (run_steps (run_id r) (put_run r (drawn s))) = map int [0..<0]"
    using e by simp_all
  obtain r1 s1 new where h: "create_run_steps E p actor 0 ?D r (put_run r (drawn s)) = (r1, s1)"
    "minv F s1" "cur_run r1 s1"
    "r1 = (if 0 = (0::nat) \<and> ?D \<noteq> [] then r\<lparr>run_current_step_id := Some (step_id (hd new))\<rparr> else r)"
    "run_steps (run_id r) s1 = run_steps (run_id r) (put_run r (drawn s)) @ new" "map step_type new = ?D"
    "map step_status new = map first_ready [0..<0 + length ?D]"
    "map step_sequence new = map int [0..<0 + length ?D]"
    "list_all (\<lambda>st. step_attempt_count st = 0 \<and> step_max_attempts st = rc_max_attempts_per_step p) new"
    using create_run_steps_spec [OF I1 cur_put(1) nt st0 seq0 f1 le] by blast
  have eq: "r' = r1" "s' = s1" using h(1) c by simp_all
  have L: "run_steps (run_id r) s' = new" using h(5) e eq by simp
  have r1: "r' = r\<lparr>run_current_step_id := Some (step_id (hd new))\<rparr>"
    using h(4) len(2) eq by simp
  have id: "run_id r' = run_id r" "run_status r' = AgentRunStatus.SCHEDULED"
    "run_current_step_id r' = Some (step_id (hd new))" "run_lease_owner r' = None"
    "run_lease_token r' = None" using r1 r by simp_all
  show "minv F s'" "run_id r' = run_id r" using h(2) eq id by simp_all
  show "new_run_ok p r' s'"
    unfolding new_run_ok_def id(1) L using h(3,6-9) id len(1) eq by simp
qed

lemma new_agent_run_simps [simp]:
  "run_id (new_agent_run E p task ap c s) = new_id E ''agent_run'' s"
  "run_status (new_agent_run E p task ap c s) = AgentRunStatus.SCHEDULED"
  "run_task_id (new_agent_run E p task ap c s) = task_id task"
  "run_lease_owner (new_agent_run E p task ap c s) = None"
  "run_lease_token (new_agent_run E p task ap c s) = None"
  "run_approval_request_id (new_agent_run E p task ap c s) = Some (appr_id ap)"
  "run_max_attempts_per_step (new_agent_run E p task ap c s) = rc_max_attempts_per_step p"
  by (simp_all add: new_agent_run_def)

lemma store_agent_run_minv:
  assumes I: "minv F s" and f: "fresh_ids E s"
    and c: "store_agent_run E p task ap actor s = (r, s')"
  shows "minv F s' \<and> new_run_ok p r s' \<and> dict_get (agent_runs s) (run_id r) = None"
proof -
  have fresh: "fresh_steps E (draws s + 16) s"
    and rn: "\<And>n. n \<in> {draws s, Suc (draws s)} \<Longrightarrow>
      dict_get (agent_runs s) (''agent_run'' @ ''_'' @ uuid_hex12 E n) = None"
    using f by (auto simp: fresh_ids_def)
  define s1 where "s1 = (if truthy (rc_correlation_id p) then s else drawn s)"
  define co where "co = (if truthy (rc_correlation_id p) then opt_str (rc_correlation_id p)
    else ''corr_'' @ token_hex E (draws s))"
  obtain q s2 where q: "create_run_steps E p actor 0 DEFAULT_AGENT_RUN_STEPS (new_agent_run E p task ap co s1)
      (put_run (new_agent_run E p task ap co s1) (drawn s1)) = (q, s2)"
    by fastforce
  have s1: "minv F s1" "agent_runs s1 = agent_runs s" "agent_run_steps s1 = agent_run_steps s"
    "draws s1 \<in> {draws s, Suc (draws s)}"
    using I by (simp_all add: s1_def)
  have f1: "fresh_steps E (draws s + 16) s1"
    by (rule fresh_steps_mono [OF fresh]) (use s1 in auto)
  have n: "dict_get (agent_runs s) (run_id (new_agent_run E p task ap co s1)) = None"
    using rn [OF s1(4)] by (simp add: new_id_def)
  then have n1: "dict_get (agent_runs s1) (run_id (new_agent_run E p task ap co s1)) = None"
    by (simp only: s1(2))
  have le: "draws s1 + 15 \<le> draws s + 16" using s1(4) by auto
  have st: "run_status (new_agent_run E p task ap co s1) = AgentRunStatus.SCHEDULED"
    "run_lease_owner (new_agent_run E p task ap co s1) = None"
    "run_lease_token (new_agent_run E p task ap co s1) = None" by simp_all
  note new = new_run_steps [OF s1(1) n1 st f1 le q]
  have pair: "(if truthy (rc_correlation_id p) then (opt_str (rc_correlation_id p), s)
      else (''corr_'' @ token_hex E (draws s), drawn s)) = (co, s1)"
    by (simp add: co_def s1_def)
  have "r = q" "minv F s' = minv F s2" "new_run_ok p r s' = new_run_ok p q s2"
    using c unfolding store_agent_run_def pair by (auto simp: q)
  then show ?thesis using new n by simp
qed

lemma open_runs_get:
  assumes "minv F s" "open_runs_of tid s \<noteq> []"
  shows "dict_get (agent_runs s) (run_id (last (sort_key run_created_at (open_runs_of tid s)))) \<noteq> None"
proof -
  have "sort_key run_created_at (open_runs_of tid s) \<noteq> []"
    using assms(2) by (metis length_sort length_0_conv)
  then have "last (sort_key run_created_at (open_runs_of tid s)) \<in> set (open_runs_of tid s)"
    by (metis last_in_set set_sort)
  then show ?thesis
    using runs.get_self [OF minv_keyed(2) [OF assms(1)]] by (simp add: open_runs_of_def)
qed

lemma create_agent_run_minv:
  assumes I: "minv F s" and f: "fresh_ids E s"
  shows "outcome_ok (minv F)
    (\<lambda>r s'. minv F s' \<and> (dict_get (agent_runs s) (run_id r) = None \<longrightarrow> new_run_ok p r s'))
    (create_agent_run E p actor s)"
proof -
  have o': "(dict_get (agent_runs s) (run_id (last (sort_key run_created_at (open_runs_of tid s)))) = None)
      = False" if "open_runs_of tid s \<noteq> []" for tid
    using open_runs_get [OF I that] by simp
  show ?thesis
    unfolding create_agent_run_def
    using I store_agent_run_minv [OF I f]
    by (auto simp: wp Let_def o' split: option.split prod.split)
qed

end
