(* ===== verification/TrustRun.thy ===== *)
theory TrustRun
  imports TrustAuthorization TrustScope RunExecution
begin

text \<open>
  The trust plane around a durable run: \<open>agent_run_trust.py\<close> (binding a lease to a run, deriving and
  evaluating the actions of a step, charging them after success), \<open>trust_run_capability.py\<close>
  (deriving the lease from the sealed approval) and the route \<open>execute_run_next_step\<close> that puts
  them around the supervisor.
\<close>

section \<open>Binding a lease to a run\<close>

definition SIDE_EFFECT_STEPS :: "AgentRunStepType list" where
  "SIDE_EFFECT_STEPS =
     [AgentRunStepType.CREATE_BRANCH, AgentRunStepType.APPLY_CHANGES, AgentRunStepType.RUN_VALIDATION,
      AgentRunStepType.CREATE_PULL_REQUEST]"

definition append_run_event ::
    "env \<Rightarrow> AgentRun \<Rightarrow> AgentRunStep option \<Rightarrow> AgentRunEventType \<Rightarrow> string \<Rightarrow> string \<Rightarrow> jdict \<Rightarrow> sys \<Rightarrow> sys" where
  "append_run_event E run step event_type actor message metadata s =
     append_event E run event_type
       (no_args\<lparr>arg_step := step, arg_message := message, arg_actor := actor,
          arg_metadata := metadata\<rparr>) s"

definition run_task :: "AgentRun \<Rightarrow> sys \<Rightarrow> AgentTask option" where
  "run_task run s = dict_get (agent_tasks s) (run_task_id run)"

definition run_approval :: "AgentRun \<Rightarrow> sys \<Rightarrow> ApprovalRequest option" where
  "run_approval run s = dict_get (approval_requests s) (opt_str (run_approval_request_id run))"

definition task_lease_reasons :: "AgentTask \<Rightarrow> CapabilityLease \<Rightarrow> string list" where
  "task_lease_reasons task lease =
     (if lease_provider lease \<noteq> task_provider task
      then [''Capability lease provider does not match the AgentTask provider.''] else [])
   @ (if truthy (lease_agent_id lease) \<and> lease_agent_id lease \<noteq> task_external_agent_id task
      then [''Capability lease agent identity does not match the AgentTask agent.''] else [])
   @ (if Some (scope_branch (lease_scope lease)) \<noteq> task_branch_preference task
      then [''Capability lease branch does not match the AgentTask branch.''] else [])"

definition run_lease_reasons ::
    "AgentRun \<Rightarrow> CapabilityLease \<Rightarrow> AgentTask option \<Rightarrow> ApprovalRequest option \<Rightarrow> string list" where
  "run_lease_reasons run lease task approval =
     (if task = None then [''AgentTask is missing.''] else [])
   @ (if approval = None then [''ApprovalRequest is missing.''] else [])
   @ (if lease_status lease \<noteq> CapabilityLeaseStatus.ACTIVE
      then [''Capability lease is not active: '' @ CapabilityLeaseStatus_value (lease_status lease) @ ''.'']
      else [])
   @ (if Some (lease_approval_request_id lease) \<noteq> run_approval_request_id run
      then [''Capability lease approval does not match the run approval.''] else [])
   @ (if Some (scope_repository (lease_scope lease)) \<noteq> run_repository run
      then [''Capability lease repository does not match the run repository.''] else [])
   @ (if run_max_attempts_per_step run > scope_max_retries (lease_scope lease) + 1
      then [''Run attempt budget exceeds the capability lease retry budget.''] else [])
   @ (case task of None \<Rightarrow> [] | Some t \<Rightarrow> task_lease_reasons t lease)
   @ (case approval of None \<Rightarrow> []
      | Some a \<Rightarrow>
          if Some (lease_approved_payload_hash lease) \<noteq> appr_approved_payload_hash a
          then [''Capability lease is not bound to the current approved payload hash.''] else [])"

definition validate_lease_for_run :: "env \<Rightarrow> AgentRun \<Rightarrow> CapabilityLease \<Rightarrow> sys \<Rightarrow> CapabilityLease result" where
  "validate_lease_for_run E run lease s =
     (let task = run_task run s;
          approval = run_approval run s;
          (lease, s) = refresh_lease_status E lease s;
          reasons = run_lease_reasons run lease task approval
      in if reasons \<noteq> [] then raise (AgentRunTrustConflict (py_join '' '' reasons)) s
         else ret lease s)"

definition side_effect_attempted :: "AgentRun \<Rightarrow> sys \<Rightarrow> bool" where
  "side_effect_attempted run s =
     list_ex (\<lambda>step. step_run_id step = run_id run \<and> step_type step \<in> set SIDE_EFFECT_STEPS \<and>
         step_attempt_count step > 0)
       (dict_vals (agent_run_steps s))"

definition attach_capability_lease :: "env \<Rightarrow> AgentRun \<Rightarrow> string \<Rightarrow> string \<Rightarrow> sys \<Rightarrow> AgentRun result" where
  "attach_capability_lease E run lid actor s =
     (if truthy (run_capability_lease_id run) then
        if run_capability_lease_id run = Some lid then ret run s
        else raise (AgentRunTrustConflict
          ''A durable run cannot be rebound to a different capability lease.'') s
      else if run_status run \<in> set TERMINAL_RUN_STATUSES \<or> run_status run = AgentRunStatus.EVALUATING then
        raise (AgentRunTrustConflict (''Capability lease cannot be attached while run is '' @
          AgentRunStatus_value (run_status run) @ ''.'')) s
      else if truthy (run_lease_owner run) \<or> truthy (run_lease_token run) then
        raise (AgentRunTrustConflict ''Capability lease cannot change while a worker lease is active.'') s
      else if map_option step_status (current_step run s) = Some AgentRunStepStatus.RUNNING then
        raise (AgentRunTrustConflict ''Capability lease cannot change while a step is running.'') s
      else if side_effect_attempted run s then
        raise (AgentRunTrustConflict
          ''Capability lease must be attached before the first side-effect attempt.'') s
      else case dict_get (capability_leases s) lid of
        None \<Rightarrow> raise (ValueError ''Capability lease not found.'') s
      | Some lease \<Rightarrow>
          bindE (validate_lease_for_run E run lease s)
            (\<lambda>lease s.
               let run = run\<lparr>run_capability_lease_id := Some (lease_id lease), run_updated_at := clock s\<rparr>
               in ret run (persist (append_run_event E run None CAPABILITY_LEASE_ATTACHED actor
                    ''Signed capability lease attached to the durable run.''
                    [(''capability_lease_id'', JStr (lease_id lease)),
                     (''mode'', JStr (CapabilityLeaseMode_value (lease_mode lease))),
                     (''expires_at'', JTime (lease_expires_at lease)),
                     (''approved_payload_hash'', JStr (lease_approved_payload_hash lease))]
                    (put_run run s)))))"

section \<open>The actions of a step\<close>

definition run_action_id :: "env \<Rightarrow> AgentRun \<Rightarrow> AgentRunStep \<Rightarrow> string \<Rightarrow> string" where
  "run_action_id E run step suffix =
     ''trust_action_'' @ take 32 (sha256_hex E (JObj
       [(''run_id'', JStr (run_id run)), (''step_id'', JStr (step_id step)),
        (''next_attempt'', JInt (step_attempt_count step + 1)), (''suffix'', JStr suffix),
        (''capability_lease_id'', json_opt_str (run_capability_lease_id run))]))"

definition step_action ::
    "env \<Rightarrow> AgentRun \<Rightarrow> AgentRunStep \<Rightarrow> AgentTask \<Rightarrow> int \<Rightarrow> string \<Rightarrow> CapabilityActionType \<Rightarrow>
      string list \<Rightarrow> string option \<Rightarrow> ProposedAction" where
  "step_action E run step task timeout_seconds suffix ty paths command =
     \<lparr>act_id = run_action_id E run step suffix, act_lease_id = run_capability_lease_id run,
      act_provider = task_provider task, act_agent_id = task_external_agent_id task,
      act_run_id = Some (run_id run), act_task_id = Some (task_id task),
      act_project_id = task_project_id task, act_action_type = ty,
      act_repository = task_repository task, act_branch = task_branch_preference task,
      act_paths = paths, act_command = command, act_network_domains = [],
      act_estimated_runtime_seconds = timeout_seconds, act_estimated_cost_usd = 0,
      act_retry_number = step_attempt_count step,
      act_metadata = [(''step_id'', JStr (step_id step)),
        (''step_type'', JStr (AgentRunStepType_value (step_type step))),
        (''idempotency_key'', JStr (step_idempotency_key step))],
      act_created_at = step_created_at step\<rparr>"

definition command_actions ::
    "env \<Rightarrow> AgentRun \<Rightarrow> AgentRunStep \<Rightarrow> AgentTask \<Rightarrow> int \<Rightarrow> string list \<Rightarrow> ProposedAction list" where
  "command_actions E run step task timeout_seconds commands =
     map (\<lambda>(index, command). step_action E run step task timeout_seconds
         (''command:'' @ nat_digits index) CapabilityActionType.RUN_COMMAND [] (Some command))
       (enumerate 0 commands)"

definition raw_step_actions ::
    "env \<Rightarrow> AgentRun \<Rightarrow> AgentRunStep \<Rightarrow> AgentTask \<Rightarrow> ApprovalRequest \<Rightarrow> int \<Rightarrow> ProposedAction list" where
  "raw_step_actions E run step task approval timeout_seconds =
     (case step_type step of
        AgentRunStepType.CREATE_BRANCH \<Rightarrow>
          [step_action E run step task timeout_seconds ''branch'' CapabilityActionType.CREATE_BRANCH [] None]
      | AgentRunStepType.APPLY_CHANGES \<Rightarrow>
          [step_action E run step task timeout_seconds ''files'' CapabilityActionType.MODIFY_FILES
             (map fc_path (appr_files approval)) None]
      | AgentRunStepType.RUN_VALIDATION \<Rightarrow>
          command_actions E run step task timeout_seconds (appr_test_plan approval)
      | AgentRunStepType.CREATE_PULL_REQUEST \<Rightarrow>
          [step_action E run step task timeout_seconds ''pull-request''
             CapabilityActionType.CREATE_PULL_REQUEST [] None]
      | _ \<Rightarrow> [])"

text \<open>Constructing an action outside the field bounds raises.\<close>

definition step_actions :: "env \<Rightarrow> AgentRun \<Rightarrow> AgentRunStep \<Rightarrow> int \<Rightarrow> sys \<Rightarrow> pyerror + ProposedAction list" where
  "step_actions E run step timeout_seconds s =
     (case (run_task run s, run_approval run s) of
        (Some task, Some approval) \<Rightarrow>
          let actions = raw_step_actions E run step task approval timeout_seconds
          in (case List.find (\<lambda>a. action_bounds a \<noteq> []) actions of
                None \<Rightarrow> Inr actions
              | Some a \<Rightarrow> Inl (ValidationError (py_join '', '' (action_bounds a))))
      | _ \<Rightarrow> Inl (AgentRunTrustConflict ''Run trust evaluation requires task and approval truth.''))"

definition preflight_conflict :: "CapabilityLease \<Rightarrow> ProposedAction list \<Rightarrow> string option" where
  "preflight_conflict lease actions =
     (let scope = lease_scope lease in
      if lease_consumed_runtime_seconds lease + sum_list (map act_estimated_runtime_seconds actions)
           > scope_max_runtime_seconds scope then
        Some ''Trust preflight blocked execution because aggregate runtime exceeds the lease.''
      else if lease_consumed_cost_usd lease + sum_list (map act_estimated_cost_usd actions)
           > scope_max_cost_usd scope then
        Some ''Trust preflight blocked execution because aggregate cost exceeds the lease.''
      else if lease_consumed_pull_requests lease +
           int (length (filter (\<lambda>a. act_action_type a = CapabilityActionType.CREATE_PULL_REQUEST) actions))
           > scope_max_pull_requests scope then
        Some ''Trust preflight blocked execution because the PR budget is exhausted.''
      else None)"

section \<open>Stopping a step\<close>

definition mark_needs_human ::
    "env \<Rightarrow> AgentRun \<Rightarrow> AgentRunStep \<Rightarrow> string \<Rightarrow> string \<Rightarrow> string \<Rightarrow> sys \<Rightarrow> unit result" where
  "mark_needs_human E run step actor reason aid s =
     liftE (transition_step (clock s) step AgentRunStepStatus.NEEDS_HUMAN reason)
       (\<lambda>(pn, step) s. liftE (transition_run (clock s) run AgentRunStatus.NEEDS_HUMAN reason)
          (\<lambda>(rpn, run) s. ret () (append_run_event E run (Some step) STEP_NEEDS_HUMAN actor
             ''Trust policy requires a human decision for the exact action.''
             [(''action_id'', JStr aid), (''reason'', JStr reason)] (put_run run s)))
          (put_step step s)) s"

definition mark_blocked ::
    "env \<Rightarrow> AgentRun \<Rightarrow> AgentRunStep \<Rightarrow> string \<Rightarrow> string \<Rightarrow> string option \<Rightarrow> sys \<Rightarrow> unit result" where
  "mark_blocked E run step actor reason aid s =
     liftE (transition_step (clock s) step AgentRunStepStatus.BLOCKED reason)
       (\<lambda>(pn, step) s. liftE (transition_run (clock s) run AgentRunStatus.BLOCKED reason)
          (\<lambda>(rpn, run) s. ret () (append_run_event E run (Some step) STEP_BLOCKED actor
             ''Trust policy permanently blocked the governed step.''
             [(''action_id'', json_opt_str aid), (''reason'', JStr reason)] (put_run run s)))
          (put_step step s)) s"

text \<open>Mark, commit, and raise the conflict: how every refusal of a governed step ends.\<close>

definition refuse_blocked ::
    "env \<Rightarrow> AgentRun \<Rightarrow> AgentRunStep \<Rightarrow> string \<Rightarrow> string \<Rightarrow> string option \<Rightarrow> sys \<Rightarrow> 'a result" where
  "refuse_blocked E run step actor reason aid s =
     bindE (mark_blocked E run step actor reason aid s)
       (\<lambda>_ s. raise (AgentRunTrustConflict reason) (persist s))"

definition refuse_needs_human ::
    "env \<Rightarrow> AgentRun \<Rightarrow> AgentRunStep \<Rightarrow> string \<Rightarrow> string \<Rightarrow> string \<Rightarrow> sys \<Rightarrow> 'a result" where
  "refuse_needs_human E run step actor reason aid s =
     bindE (mark_needs_human E run step actor reason aid s)
       (\<lambda>_ s. raise (AgentRunTrustConflict reason) (persist s))"

section \<open>Authorizing a step\<close>

definition same_action_payload :: "ProposedAction \<Rightarrow> ProposedAction \<Rightarrow> bool" where
  "same_action_payload a b \<longleftrightarrow>
     json_eq (JObj (dict_pop ''created_at'' (action_payload a)))
             (JObj (dict_pop ''created_at'' (action_payload b)))"

text \<open>The decision for one action: a new one, or the one in force for the stored action.\<close>

definition decide_action ::
    "env \<Rightarrow> AgentRun \<Rightarrow> AgentRunStep \<Rightarrow> string \<Rightarrow> ProposedAction \<Rightarrow> sys \<Rightarrow> PolicyDecision result" where
  "decide_action E run step actor action s =
     (case dict_get (proposed_actions s) (act_id action) of
        None \<Rightarrow>
          let ((decision, lease), s) = evaluate_gateway_action E action actor s in ret decision s
      | Some existing \<Rightarrow>
          if \<not> same_action_payload existing action then
            refuse_blocked E run step actor
              ''Deterministic trust action identifier resolved to a different payload.''
              (Some (act_id action)) s
          else case latest_policy_decision (act_id action) s of
            None \<Rightarrow>
              refuse_blocked E run step actor ''Existing trust action has no policy decision.''
                (Some (act_id action)) s
          | Some decision \<Rightarrow> ret decision s)"

fun authorize_actions ::
    "env \<Rightarrow> AgentRun \<Rightarrow> AgentRunStep \<Rightarrow> string \<Rightarrow> ProposedAction list \<Rightarrow> sys \<Rightarrow> unit result" where
  "authorize_actions E run step actor [] s = ret () s"
| "authorize_actions E run step actor (action # actions) s =
     bindE (decide_action E run step actor action s)
       (\<lambda>decision s.
          let s = append_run_event E run (Some step) TRUST_POLICY_EVALUATED actor
                ''Trust policy evaluated the next governed run step.''
                [(''action_id'', JStr (act_id action)),
                 (''decision_id'', JStr (dec_id decision)),
                 (''decision'', JStr (PolicyDecisionType_value (dec_decision decision))),
                 (''risk_level'', JStr (RiskLevel_value (dec_risk_level decision))),
                 (''reasons'', json_strs (dec_reasons decision))] s
          in case dec_decision decision of
               PolicyDecisionType.BLOCK \<Rightarrow>
                 refuse_blocked E run step actor
                   (''Trust policy blocked execution: '' @ py_join '' '' (dec_reasons decision))
                   (Some (act_id action)) s
             | PolicyDecisionType.REQUIRE_APPROVAL \<Rightarrow>
                 refuse_needs_human E run step actor
                   (''Exact action approval is required before execution: '' @ act_id action)
                   (act_id action) s
             | PolicyDecisionType.ALLOW \<Rightarrow> authorize_actions E run step actor actions s)"

text \<open>After every action is allowed, a step or run that waited for a person is made ready.\<close>

definition clear_needs_human :: "AgentRun \<Rightarrow> AgentRunStep \<Rightarrow> sys \<Rightarrow> unit result" where
  "clear_needs_human run step s =
     bindE
       (if step_status step = AgentRunStepStatus.NEEDS_HUMAN then
          liftE (transition_step (clock s) step AgentRunStepStatus.READY
                  ''Exact trust action approval recorded.'')
            (\<lambda>(pn, step) s. ret () (put_step step s)) s
        else ret () s)
       (\<lambda>_ s.
          if run_status run = AgentRunStatus.NEEDS_HUMAN then
            liftE (transition_run (clock s) run AgentRunStatus.SCHEDULED
                    ''Exact trust action approval recorded.'')
              (\<lambda>(pn, run) s. ret () (put_run run s)) s
          else ret () s)"

definition authorize_run_step ::
    "env \<Rightarrow> AgentRun \<Rightarrow> AgentRunStep \<Rightarrow> string \<Rightarrow> int \<Rightarrow> sys \<Rightarrow> ProposedAction list result" where
  "authorize_run_step E run step actor timeout_seconds s =
     (if \<not> trust_enforcement E \<or> step_type step \<notin> set SIDE_EFFECT_STEPS then ret [] s
      else if \<not> truthy (run_capability_lease_id run) then
        raise (AgentRunTrustConflict
          ''Production trust enforcement requires a signed capability lease before side effects.'') s
      else case dict_get (capability_leases s) (opt_str (run_capability_lease_id run)) of
        None \<Rightarrow> raise (AgentRunTrustConflict ''Run capability lease cannot be found.'') s
      | Some lease \<Rightarrow>
          (case validate_lease_for_run E run lease s of
             (Inl error, s) \<Rightarrow> refuse_blocked E run step actor (pyerror_message error) None s
           | (Inr lease, s) \<Rightarrow>
               liftE (step_actions E run step timeout_seconds s)
                 (\<lambda>actions s.
                    case preflight_conflict lease actions of
                      Some m \<Rightarrow> refuse_blocked E run step actor m None s
                    | None \<Rightarrow>
                        bindE (authorize_actions E run step actor actions s)
                          (\<lambda>_ s. bindE (clear_needs_human run step s)
                             (\<lambda>_ s. ret actions (persist s)))) s))"

section \<open>Charging the step\<close>

definition step_consumption :: "AgentRunStep \<Rightarrow> nat \<Rightarrow> nat \<Rightarrow> ActionConsumption" where
  "step_consumption step count index =
     (let duration_seconds = max 0 ((case step_duration_ms step of None \<Rightarrow> 0 | Some d \<Rightarrow> d) div 1000);
          per_action_runtime = duration_seconds div int count;
          remainder = duration_seconds - per_action_runtime * int count
      in \<lparr>con_actual_runtime_seconds = per_action_runtime + (if int index < remainder then 1 else 0),
          con_actual_cost_usd = 0,
          con_pull_requests_created =
            (if step_type step = AgentRunStepType.CREATE_PULL_REQUEST then 1 else 0),
          con_retry_consumed = (step_attempt_count step > 1 \<and> index = 0),
          con_output_reference = step_output_reference step,
          con_evidence =
            [(''run_id'', JStr (step_run_id step)), (''step_id'', JStr (step_id step)),
             (''step_type'', JStr (AgentRunStepType_value (step_type step))),
             (''step_evidence_hash'', json_opt_str (step_evidence_hash step)),
             (''attempt_count'', JInt (step_attempt_count step))]\<rparr>)"

fun consume_actions ::
    "env \<Rightarrow> AgentRunStep \<Rightarrow> string \<Rightarrow> nat \<Rightarrow> nat \<Rightarrow> ProposedAction list \<Rightarrow> sys \<Rightarrow> unit result" where
  "consume_actions E step actor count index [] s = ret () s"
| "consume_actions E step actor count index (action # actions) s =
     (let consumption = step_consumption step count index
      in if consumption_bounds consumption \<noteq> [] then
           raise (ValidationError (py_join '', '' (consumption_bounds consumption))) s
         else bindE (consume_effective_action E (act_id action) consumption actor s)
                (\<lambda>_ s. consume_actions E step actor count (Suc index) actions s))"

definition consume_run_step_actions ::
    "env \<Rightarrow> ProposedAction list \<Rightarrow> AgentRunStep \<Rightarrow> string \<Rightarrow> sys \<Rightarrow> unit result" where
  "consume_run_step_actions E actions step actor s =
     (if actions = [] \<or> step_status step \<noteq> AgentRunStepStatus.SUCCEEDED then ret () s
      else consume_actions E step actor (length actions) 0 actions s)"

section \<open>Deriving the lease\<close>

definition derived_scope :: "AgentRun \<Rightarrow> AgentTask \<Rightarrow> ApprovalRequest \<Rightarrow> CapabilityScope" where
  "derived_scope run task approval =
     \<lparr>scope_repository = opt_str (task_repository task),
      scope_branch = opt_str (task_branch_preference task),
      scope_allowed_actions = [CapabilityActionType.CREATE_BRANCH, CapabilityActionType.MODIFY_FILES,
        CapabilityActionType.RUN_COMMAND, CapabilityActionType.CREATE_PULL_REQUEST],
      scope_allowed_path_prefixes = map fc_path (appr_files approval),
      scope_allowed_commands = appr_test_plan approval,
      scope_allowed_network_domains = [], scope_max_runtime_seconds = 3600,
      scope_max_cost_usd = 10,
      scope_max_retries = max 0 (min 3 (run_max_attempts_per_step run - 1)),
      scope_max_pull_requests = 1, scope_allow_auto_merge = False,
      scope_metadata = [(''derived_from'', JStr ''sealed_approval''), (''run_id'', JStr (run_id run)),
        (''task_id'', JStr (task_id task)), (''correlation_id'', JStr (run_correlation_id run))]\<rparr>"

definition derived_lease_create ::
    "AgentTask \<Rightarrow> ApprovalRequest \<Rightarrow> CapabilityScope \<Rightarrow> CapabilityLeaseCreate" where
  "derived_lease_create task approval scope =
     \<lparr>lc_approval_request_id = appr_id approval, lc_agent_id = task_external_agent_id task,
      lc_provider = task_provider task, lc_mode = STRICT, lc_scope = scope,
      lc_expires_in_seconds = 3600, lc_required_reviewer_count = 1, lc_prevent_self_approval = True\<rparr>"

text \<open>\<open>ValueError\<close>s (a \<open>ValidationError\<close> is one) and trust-service conflicts are translated.\<close>

definition capability_conflict :: "'a result \<Rightarrow> 'a result" where
  "capability_conflict r =
     (case r of
        (Inl (ValueError m), s) \<Rightarrow> (Inl (RunCapabilityConflict m), s)
      | (Inl (ValidationError m), s) \<Rightarrow> (Inl (RunCapabilityConflict m), s)
      | (Inl (TrustControlConflict m), s) \<Rightarrow> (Inl (RunCapabilityConflict m), s)
      | _ \<Rightarrow> r)"

definition ensure_run_capability :: "env \<Rightarrow> AgentRun \<Rightarrow> AuthUser \<Rightarrow> sys \<Rightarrow> CapabilityLease option result" where
  "ensure_run_capability E run user s =
     (if \<not> trust_enforcement E then ret None s
      else if truthy (run_capability_lease_id run) then
        (case dict_get (capability_leases s) (opt_str (run_capability_lease_id run)) of
           None \<Rightarrow> raise (RunCapabilityConflict ''Run references a missing capability lease.'') s
         | Some lease \<Rightarrow> ret (Some lease) s)
      else case run_task run s of
        None \<Rightarrow> raise (RunCapabilityConflict ''Run cannot receive a capability without its AgentTask.'') s
      | Some task \<Rightarrow>
          (case run_approval run s of
             None \<Rightarrow> raise (RunCapabilityConflict ''Run cannot receive a capability without its approval.'') s
           | Some approval \<Rightarrow>
               if \<not> truthy (appr_approved_payload_hash approval) then
                 raise (RunCapabilityConflict
                   ''Run cannot receive a capability until the approved payload is sealed.'') s
               else if \<not> truthy (task_repository task) \<or> \<not> truthy (task_branch_preference task) then
                 raise (RunCapabilityConflict
                   ''Run capability requires an approved repository and feature branch.'') s
               else case make_scope (derived_scope run task approval) of
                 Inl errors \<Rightarrow> raise (ValidationError (py_join '', '' errors)) s
               | Inr scope \<Rightarrow>
                   capability_conflict
                     (bindE (issue_capability_lease E (derived_lease_create task approval scope) user s)
                       (\<lambda>lease s. bindE (attach_capability_lease E run (lease_id lease) (user_email user) s)
                          (\<lambda>run s. ret (Some lease) s)))))"

section \<open>The execute route\<close>

text \<open>The three conflicts the route translates; every other exception passes (a 500).\<close>

definition route_409 :: "'a result \<Rightarrow> 'a result" where
  "route_409 r =
     (case r of
        (Inl (AgentRunConflict m), s) \<Rightarrow> (Inl (HTTPException 409 m), s)
      | (Inl (AgentRunTrustConflict m), s) \<Rightarrow> (Inl (HTTPException 409 m), s)
      | (Inl (RunCapabilityConflict m), s) \<Rightarrow> (Inl (HTTPException 409 m), s)
      | _ \<Rightarrow> r)"

text \<open>
  The route holds the run and its current step across the calls; their records are read again
  after each call that may have changed them. The per-run execution lock is not in the state.
\<close>

definition execute_run_next_step ::
    "env \<Rightarrow> string \<Rightarrow> AuthUser \<Rightarrow> string \<Rightarrow> int \<Rightarrow> int \<Rightarrow> executor \<Rightarrow> sys \<Rightarrow> AgentRun result" where
  "execute_run_next_step E rid user worker_id lease_seconds timeout_seconds executor s =
     bindE (run_or_404 rid s) (\<lambda>run s.
     bindE (require_step_boundary run ''start another execution'' s) (\<lambda>_ s.
     bindE (safe_lease_seconds lease_seconds timeout_seconds s) (\<lambda>lease_seconds s.
       case current_step run s of
         None \<Rightarrow> raise (HTTPException 409 ''Run has no current step'') s
       | Some current \<Rightarrow>
           bindE (route_409
             (bindE (ensure_run_capability E run user s) (\<lambda>_ s.
              bindE (authorize_run_step E (run_now run s) (step_now current s) (user_email user)
                timeout_seconds s) (\<lambda>trust_actions s.
              bindE (execute_next_step E rid worker_id lease_seconds timeout_seconds executor s) (\<lambda>_ s.
                consume_run_step_actions E trust_actions (step_now current s) (user_email user) s)))))
           (\<lambda>_ s. ret (run_now run s) s))))"

definition bind_run_capability_lease :: "env \<Rightarrow> string \<Rightarrow> string \<Rightarrow> string \<Rightarrow> sys \<Rightarrow> AgentRun result" where
  "bind_run_capability_lease E rid lid actor s =
     bindE (run_or_404 rid s) (\<lambda>run s.
     bindE (require_step_boundary run ''bind a capability lease'' s) (\<lambda>_ s.
       case attach_capability_lease E run lid actor s of
         (Inl (ValueError m), s) \<Rightarrow> (Inl (HTTPException 404 m), s)
       | (Inl (AgentRunTrustConflict m), s) \<Rightarrow> (Inl (HTTPException 409 m), s)
       | r \<Rightarrow> r))"

end
