(* ===== verification/Mission.thy ===== *)
theory Mission
  imports MissionCreate TrustRun
begin

text \<open>
  The trust plane keeps the invariant of Mission Control: evaluating, issuing, binding and charging
  leave runs and steps alone but for the lease a run is bound to; stopping a governed step and
  returning it to the scheduler after a human decision are moves of the frontier step.
\<close>

section \<open>Operations that leave runs and steps alone\<close>

definition same_runs :: "sys \<Rightarrow> sys \<Rightarrow> bool" where
  "same_runs s s' \<longleftrightarrow> agent_runs s' = agent_runs s \<and> agent_run_steps s' = agent_run_steps s"

lemma same_runs_refl [simp]: "same_runs s s"
  by (simp add: same_runs_def)

lemma same_runs_minv: "same_runs s s' \<Longrightarrow> minv F s \<Longrightarrow> minv F s'"
  using minv_cong(1) [of s' s F] by (simp add: same_runs_def)

lemma same_runs_cur:
  assumes "same_runs s s'"
  shows "cur_run r s' \<longleftrightarrow> cur_run r s" "cur_step st s' \<longleftrightarrow> cur_step st s"
    "run_now r s' = run_now r s" "step_now st s' = step_now st s" "current_step r s' = current_step r s"
  using assms by (simp_all add: same_runs_def cur_run_def cur_step_def run_now_def step_now_def current_step_def)

lemma evaluate_gateway_same_runs: "same_runs s (snd (evaluate_gateway_action E action actor s))"
  by (simp add: evaluate_gateway_action_def same_runs_def split_beta Let_def)

lemma validate_lease_same_runs:
  "outcome_ok (same_runs s) (\<lambda>_. same_runs s) (validate_lease_for_run E run lease s)"
  by (simp add: validate_lease_for_run_def same_runs_def split_beta Let_def wp)

lemma store_new_lease_same_runs:
  "outcome_ok (same_runs s) (\<lambda>_. same_runs s) (store_new_lease E payload approval user s)"
  by (simp add: store_new_lease_def same_runs_def Let_def wp)

lemma issue_lease_same_runs:
  "outcome_ok (same_runs s) (\<lambda>_. same_runs s) (issue_capability_lease E payload user s)"
  by (auto simp: issue_capability_lease_def Let_def wp store_new_lease_same_runs split: option.split)

lemma consume_effective_same_runs:
  "outcome_ok (same_runs s) (\<lambda>_. same_runs s) (consume_effective_action E aid c actor s)"
  by (simp add: consume_effective_action_def same_runs_def split_beta Let_def wp split: option.split)

lemma consume_actions_same_runs:
  "outcome_ok (same_runs s0) (\<lambda>_. same_runs s0) (consume_actions E step actor n i actions s)"
  if "same_runs s0 s"
  using that
proof (induction actions arbitrary: i s)
  case Nil
  then show ?case by (simp add: wp)
next
  case (Cons a as)
  have "same_runs s s1 \<Longrightarrow> same_runs s0 s1" for s1 using Cons.prems by (simp add: same_runs_def)
  then show ?case
    using Cons consume_effective_same_runs [of s E "act_id a" "step_consumption step n i" actor]
    by (auto simp: wp Let_def elim!: outcome_ok_mono)
qed

section \<open>Binding a lease\<close>

lemma attach_minv:
  assumes I: "minv F s" and r: "cur_run r s"
  shows "outcome_ok (minv F) (\<lambda>r' s'. minv F s') (attach_capability_lease E r lid actor s)"
proof -
  have put: "minv F (put_run (r\<lparr>run_capability_lease_id := l, run_updated_at := t\<rparr>) s1)"
    if "same_runs s s1" for l t s1
    by (rule minv_put_run_same' [OF same_runs_minv [OF that I], of r])
      (use that r same_runs_cur in simp_all)
  have "outcome_ok (minv F)
      (\<lambda>lease s1. minv F (put_run (r\<lparr>run_capability_lease_id := Some (lease_id lease),
          run_updated_at := clock s1\<rparr>) s1))
      (validate_lease_for_run E r lease s)" for lease
    by (rule outcome_ok_mono [OF validate_lease_same_runs]) (use I put same_runs_minv in auto)
  then show ?thesis
    using I by (simp add: attach_capability_lease_def append_run_event_def Let_def wp split: option.split)
qed

lemma outcome_ok_capability_conflict [wp]:
  "outcome_ok P (\<lambda>_. P) (capability_conflict r) = outcome_ok P (\<lambda>_. P) r"
  by (cases r; cases "fst r"; cases "projl (fst r)") (auto simp: capability_conflict_def outcome_ok_def)

lemma outcome_ok_route_409 [wp]: "outcome_ok P (\<lambda>_. P) (route_409 r) = outcome_ok P (\<lambda>_. P) r"
  by (cases r; cases "fst r"; cases "projl (fst r)") (auto simp: route_409_def outcome_ok_def)

lemma ensure_minv:
  assumes I: "minv F s" and r: "cur_run r s"
  shows "outcome_ok (minv F) (\<lambda>_. minv F) (ensure_run_capability E r user s)"
proof -
  have "outcome_ok (minv F)
      (\<lambda>l s1. outcome_ok (minv F) (\<lambda>_. minv F) (attach_capability_lease E r (lease_id l) a s1))
      (issue_capability_lease E p user s)" for p a
    by (rule outcome_ok_mono [OF issue_lease_same_runs])
      (use I r same_runs_minv same_runs_cur attach_minv in auto)
  then show ?thesis
    using I by (auto simp: ensure_run_capability_def wp split: option.split sum.split)
qed

section \<open>Stopping a step\<close>

text \<open>The step is the run's and is neither waiting for its turn nor already succeeded.\<close>

lemma mark_minv:
  assumes I: "minv F s" and own: "cur_run r s" "cur_step st s" "step_run_id st = run_id r"
    and np: "step_status st \<noteq> AgentRunStepStatus.PENDING"
  shows "outcome_ok (minv F) (\<lambda>_. minv F) (mark_needs_human E r st actor reason aid s)"
    and "outcome_ok (minv F) (\<lambda>_. minv F) (mark_blocked E r st actor reason baid s)"
proof -
  have *: "minv F (put_step x s) \<and>
      (can_transition_run (run_status r) rt \<longrightarrow>
        (\<forall>q. q = (if rt = run_status r then r else enter_run (clock s) rt reason r) \<longrightarrow>
          minv F (put_run q (put_step x s))))"
    if pair: "(t, rt) \<in> {(AgentRunStepStatus.NEEDS_HUMAN, AgentRunStatus.NEEDS_HUMAN),
        (AgentRunStepStatus.BLOCKED, AgentRunStatus.BLOCKED)}"
      and c: "can_transition_step (step_status st) t"
      and x: "x = (if t = step_status st then st else enter_step (clock s) t reason st)" for t rt x
  proof -
    have "step_status st \<noteq> AgentRunStepStatus.SUCCEEDED"
      using c pair by (auto simp: can_transition_step_def)
    then have put: "minv F (put_step x s)"
    proof (cases "t = step_status st")
      case True
      then show ?thesis using x by (intro minv_put_same' [OF I own(2)]) simp_all
    next
      case False
      then have "step_live (step_status st)"
        using c np terminal_step_stuck [of "step_status st" t] pair
        by (cases "step_status st") (auto simp: TERMINAL_STEP_STATUSES_def)
      then show ?thesis
        using x False pair by (intro minv_put_live' [OF I own(2)]) (auto simp: retry_in_budget_def)
    qed
    have "minv F (put_run q (put_step x s))"
      if rc: "can_transition_run (run_status r) rt"
        and q: "q = (if rt = run_status r then r else enter_run (clock s) rt reason r)" for q
      by (rule run_into_failure [OF put, of r x rt])
        (use own x q rc pair in \<open>auto simp: cur_run_def cur_step_def\<close>)
    with put show ?thesis by blast
  qed
  show "outcome_ok (minv F) (\<lambda>_. minv F) (mark_needs_human E r st actor reason aid s)"
    using I * by (auto simp: mark_needs_human_def append_run_event_def wp transition_step_cases
        transition_run_cases)
  show "outcome_ok (minv F) (\<lambda>_. minv F) (mark_blocked E r st actor reason baid s)"
    using I * by (auto simp: mark_blocked_def append_run_event_def wp transition_step_cases
        transition_run_cases)
qed

text \<open>The situation of the route: a run and its current step, which has been made ready before.\<close>

definition governed :: "watch \<Rightarrow> AgentRun \<Rightarrow> AgentRunStep \<Rightarrow> sys \<Rightarrow> bool" where
  "governed F r st s \<longleftrightarrow> minv F s \<and> cur_run r s \<and> cur_step st s \<and> step_run_id st = run_id r \<and>
     step_status st \<noteq> AgentRunStepStatus.PENDING"

lemma governed_same: "governed F r st s \<Longrightarrow> same_runs s s' \<Longrightarrow> governed F r st s'"
  using same_runs_minv same_runs_cur unfolding governed_def by blast

lemma governed_event [simp]: "governed F r st (append_run_event E q x ty a m md s) = governed F r st s"
  by (simp add: governed_def append_run_event_def)

lemma refuse_minv:
  assumes "governed F r st s"
  shows "outcome_ok (minv F) Q (refuse_blocked E r st actor reason aid s)"
    and "outcome_ok (minv F) Q (refuse_needs_human E r st actor reason haid s)"
  using assms mark_minv [of F s r st]
  by (auto simp: governed_def refuse_blocked_def refuse_needs_human_def wp)

lemma decide_action_governed:
  assumes "governed F r st s"
  shows "outcome_ok (minv F) (\<lambda>_. governed F r st) (decide_action E r st actor action s)"
  using assms refuse_minv(1) [OF assms] governed_same [OF assms evaluate_gateway_same_runs, of E action actor]
  by (auto simp: decide_action_def split_beta Let_def wp split: option.split)

lemma authorize_actions_governed:
  "governed F r st s \<Longrightarrow> outcome_ok (minv F) (\<lambda>_. governed F r st) (authorize_actions E r st actor actions s)"
proof (induction actions arbitrary: s)
  case Nil
  then show ?case by (simp add: wp)
next
  case (Cons a as)
  show ?case
    unfolding authorize_actions.simps wp Let_def
    by (rule outcome_ok_mono [OF decide_action_governed [OF Cons.prems]])
      (auto intro: Cons.IH refuse_minv split: PolicyDecisionType.split)
qed

lemma clear_needs_human_minv:
  assumes "governed F r st s"
  shows "outcome_ok (minv F) (\<lambda>_. minv F) (clear_needs_human r st s)"
proof -
  have I: "minv F s" and r: "cur_run r s" and st: "cur_step st s" using assms by (auto simp: governed_def)
  have put: "minv F (put_step (enter_step n AgentRunStepStatus.READY tx st) s)"
    if "step_status st = AgentRunStepStatus.NEEDS_HUMAN" for n tx
    using minv_step_ready(2) [OF I st _ refl] that by simp
  have run: "minv F (put_run (enter_run n AgentRunStatus.SCHEDULED tx r) s')"
    if "minv F s'" "cur_run r s'" "run_status r = AgentRunStatus.NEEDS_HUMAN" for n tx s'
    using that by (intro minv_enter_run_open) simp_all
  show ?thesis
    using I r put
    by (auto simp: clear_needs_human_def wp transition_step_cases transition_run_cases intro!: run)
qed

lemma authorize_minv:
  assumes g: "governed F r st s"
  shows "outcome_ok (minv F) (\<lambda>_. minv F) (authorize_run_step E r st actor timeout s)"
proof -
  have I: "minv F s" using g by (simp add: governed_def)
  have tail: "outcome_ok (minv F) (\<lambda>_. minv F)
      (bindE (authorize_actions E r st actor actions s1)
         (\<lambda>_ s. bindE (clear_needs_human r st s) (\<lambda>_ s. ret actions (persist s))))"
    if "governed F r st s1" for actions s1
    unfolding wp
    by (rule outcome_ok_mono [OF authorize_actions_governed [OF that]])
      (use clear_needs_human_minv in auto)
  have after: "outcome_ok (minv F) (\<lambda>_. minv F)
      (case validate_lease_for_run E r lease s of
         (Inl error, s) \<Rightarrow> refuse_blocked E r st actor (pyerror_message error) None s
       | (Inr lease, s) \<Rightarrow>
           liftE (step_actions E r st timeout s)
             (\<lambda>actions s.
                case preflight_conflict lease actions of
                  Some m \<Rightarrow> refuse_blocked E r st actor m None s
                | None \<Rightarrow> bindE (authorize_actions E r st actor actions s)
                      (\<lambda>_ s. bindE (clear_needs_human r st s) (\<lambda>_ s. ret actions (persist s)))) s)" for lease
  proof -
    obtain x s1 where v: "validate_lease_for_run E r lease s = (x, s1)" by (cases "validate_lease_for_run E r lease s")
    have "same_runs s s1"
      using validate_lease_same_runs [of s E r lease] v by (cases x) (auto simp: outcome_ok_def)
    then have g1: "governed F r st s1" using governed_same [OF g] by blast
    then have "minv F s1" by (simp add: governed_def)
    then show ?thesis
      using v refuse_minv(1) [OF g1] tail [OF g1]
      by (auto simp: outcome_ok_liftE split: sum.split option.split)
  qed
  show ?thesis
    unfolding authorize_run_step_def using I after by (auto simp: wp split: option.split)
qed

section \<open>Human decisions\<close>

lemma governed_step_same: "same_runs s s' \<Longrightarrow> governed_step E a s' = governed_step E a s"
  unfolding same_runs_def governed_step_def by (erule conjE) (simp only:)

text \<open>
  A decision concerns the frontier when the step its action names is the one that waits. The
  endpoint takes the step from the action's own metadata, so this is a hypothesis on the action.
\<close>

definition names_waiting_step :: "env \<Rightarrow> ProposedAction \<Rightarrow> sys \<Rightarrow> bool" where
  "names_waiting_step E action s \<longleftrightarrow>
     (case governed_step E action s of
        None \<Rightarrow> True
      | Some (run, step) \<Rightarrow> step_status step = AgentRunStepStatus.NEEDS_HUMAN)"

lemma apply_decision_minv:
  assumes I: "minv F s"
    and n: "\<And>a. dict_get (proposed_actions s) aid = Some a \<Longrightarrow> names_waiting_step E a s"
  shows "outcome_ok (minv F) (\<lambda>_. minv F) (apply_durable_run_decision E aid d actor reason s)"
proof (cases "dict_get (proposed_actions s) aid")
  case None
  then show ?thesis using I by (simp add: apply_durable_run_decision_def wp)
next
  case (Some a)
  show ?thesis
  proof (cases "governed_step E a s")
    case None
    then show ?thesis using I Some by (simp add: apply_durable_run_decision_def wp)
  next
    case g: (Some rs)
    obtain r st where rs: "rs = (r, st)" by (cases rs)
    have r: "cur_run r s" and st: "cur_step st s" and own: "step_run_id st = run_id r"
      using g rs cur_runI [OF I] cur_stepI [OF I]
      by (auto simp: governed_step_def split: if_splits option.splits)
    have w: "step_status st = AgentRunStepStatus.NEEDS_HUMAN"
      using n [OF Some] g rs by (simp add: names_waiting_step_def)
    have ready: "minv F (put_step (enter_step m t tx st) s)"
      if "t \<in> {AgentRunStepStatus.READY, AgentRunStepStatus.BLOCKED}" for m t tx
      by (rule minv_put_live' [OF I st]) (use w that in \<open>auto simp: retry_in_budget_def\<close>)
    have open_run: "minv F (put_run (enter_run n' AgentRunStatus.SCHEDULED rx r)
        (put_step (enter_step m t tx st) s))"
      if "t \<in> {AgentRunStepStatus.READY, AgentRunStepStatus.BLOCKED}" "\<not> run_terminal (run_status r)"
      for m n' t tx rx
      by (rule minv_enter_run_open [OF ready [OF that(1)]]) (use r that in simp_all)
    have same: "minv F (put_run r (put_step (enter_step m t tx st) s))"
      if "t \<in> {AgentRunStepStatus.READY, AgentRunStepStatus.BLOCKED}" for m t tx
      by (rule minv_enter_run_same [OF ready [OF that]]) (use r in simp)
    have block: "minv F (put_run (enter_run n' AgentRunStatus.BLOCKED rx r)
        (put_step (enter_step m AgentRunStepStatus.BLOCKED tx st) s))"
      if "run_status r = AgentRunStatus.NEEDS_HUMAN" for m n' tx rx
      by (rule run_into_failure [where r = r and target = AgentRunStatus.BLOCKED
            and st = "enter_step m AgentRunStepStatus.BLOCKED tx st"])
        (use r own that ready in \<open>auto simp: cur_run_def cur_step_def can_transition_run_def\<close>)
    show ?thesis
      unfolding apply_durable_run_decision_def Some g rs option.case prod.case
      using w I ready open_run same block
      by (cases d) (auto simp: wp decide_step_def decide_run_def decision_event_def transition_step_def
          transition_run_def can_transition_step_def can_transition_run_def Let_def)
  qed
qed

lemma record_authorization_minv:
  assumes I: "minv F s"
    and n: "\<And>a. dict_get (proposed_actions s) aid = Some a \<Longrightarrow> names_waiting_step E a s"
  shows "outcome_ok (minv F) (\<lambda>_. minv F) (record_action_authorization E aid payload user s)"
proof -
  have apply_dec: "outcome_ok (minv F) (\<lambda>_. minv F) (apply_durable_run_decision E aid d actor reason s1)"
    if "same_runs s s1" "proposed_actions s1 = proposed_actions s" for d actor reason s1
  proof (rule apply_decision_minv [OF same_runs_minv [OF that(1) I]])
    fix a assume "dict_get (proposed_actions s1) aid = Some a"
    then have "names_waiting_step E a s" using n that(2) by simp
    then show "names_waiting_step E a s1"
      using that(1) by (simp add: names_waiting_step_def governed_step_same)
  qed
  have replay: "outcome_ok (minv F) (\<lambda>_. minv F) (replay_authorization E aid ex a user s)" for ex a
    using I apply_dec [of s] by (simp add: replay_authorization_def wp)
  have fresh: "outcome_ok (minv F) (\<lambda>_. minv F) (store_authorization E aid a cur payload user s)" for a cur
    unfolding store_authorization_def Let_def wp
    by (rule outcome_ok_mono [OF apply_dec]) (simp_all add: same_runs_def)
  show ?thesis
    using I by (auto simp: record_action_authorization_def wp replay fresh split: option.split)
qed

chapter \<open>The step relation\<close>

text \<open>
  Mission Control as a state machine: the operations the HTTP routes offer, interleaved in any
  order, together with the effects of an executor while a step is in flight. Operations of the trust
  plane that leave runs and steps alone (evaluating, issuing, charging) are instances of
  \<open>other\<close>; the authorization of a step applies to a current step that has been made ready, and a
  human decision to an action that names the waiting step. The second component
  of a state lists the executions in flight, each a run and its step. The relation admits one per run,
  which the route's execution lock is there to ensure; theory \<open>RunRoutes\<close> has the lock, and shows where it fails.
\<close>

section \<open>The step relation\<close>

inductive mission_step ::
    "env \<Rightarrow> sys \<times> (string \<times> string) list \<Rightarrow> sys \<times> (string \<times> string) list \<Rightarrow> bool" for E where
  other: "agent_runs s' = agent_runs s \<Longrightarrow> agent_run_steps s' = agent_run_steps s \<Longrightarrow>
    mission_step E (s, F) (s', F)"
| create: "fresh_ids E s \<Longrightarrow> create_agent_run E payload actor s = (x, s') \<Longrightarrow>
    mission_step E (s, F) (s', F)"
| start: "rid \<notin> fst ` set F \<Longrightarrow> start_step E rid w secs s = (Inr (Inr (run, st)), s') \<Longrightarrow>
    mission_step E (s, F) (s', (rid, step_id st) # F)"
| not_started: "start_step E rid w secs s = (x, s') \<Longrightarrow> (\<And>y. x \<noteq> Inr (Inr y)) \<Longrightarrow>
    mission_step E (s, F) (s', F)"
| seal: "dict_get (agent_runs s) rid = Some run \<Longrightarrow>
    mission_step E (s, F) (put_run (run\<lparr>run_final_evidence_hash := h\<rparr>) s, F)"
| bind_lease: "dict_get (agent_runs s) rid = Some run \<Longrightarrow>
    attach_capability_lease E run lid actor s = (x, s') \<Longrightarrow> mission_step E (s, F) (s', F)"
| capability: "dict_get (agent_runs s) rid = Some run \<Longrightarrow>
    ensure_run_capability E run user s = (oc, s') \<Longrightarrow> mission_step E (s, F) (s', F)"
| authorize: "dict_get (agent_runs s) rid = Some run \<Longrightarrow> current_step run s = Some st \<Longrightarrow>
    step_run_id st = rid \<Longrightarrow> step_status st \<noteq> AgentRunStepStatus.PENDING \<Longrightarrow>
    authorize_run_step E run st actor timeout s = (acts, s') \<Longrightarrow> mission_step E (s, F) (s', F)"
| decide: "(\<And>a. dict_get (proposed_actions s) aid = Some a \<Longrightarrow> names_waiting_step E a s) \<Longrightarrow>
    record_action_authorization E aid decision reviewer s = (au, s') \<Longrightarrow> mission_step E (s, F) (s', F)"
| finish: "(run_id run, step_id st) \<in> set F \<Longrightarrow> finish_step E run st res w s = (x, s') \<Longrightarrow>
    mission_step E (s, F) (s', filter (\<lambda>p. fst p \<noteq> run_id run) F)"
| heartbeat: "heartbeat_agent_run E rid w tok secs s = (x, s') \<Longrightarrow> mission_step E (s, F) (s', F)"
| pause: "pause_run E rid actor reason s = (x, s') \<Longrightarrow> mission_step E (s, F) (s', F)"
| resume: "resume_run E rid actor reason s = (x, s') \<Longrightarrow> mission_step E (s, F) (s', F)"
| cancel: "cancel_run E rid actor reason s = (x, s') \<Longrightarrow> mission_step E (s, F) (s', F)"
| retry: "retry_run E rid sid actor reason s = (y, s') \<Longrightarrow> mission_step E (s, F) (s', F)"
| recover: "recover_stale_leases E actor s = (n, s') \<Longrightarrow> mission_step E (s, F) (s', F)"

text \<open>Reachable: from a store without runs, by any sequence of these steps.\<close>

definition mission_init :: "sys \<Rightarrow> bool" where
  "mission_init s \<longleftrightarrow> agent_runs s = [] \<and> agent_run_steps s = []"

definition mission_reachable :: "env \<Rightarrow> sys \<Rightarrow> (string \<times> string) list \<Rightarrow> bool" where
  "mission_reachable E s F \<longleftrightarrow>
     (\<exists>s0. mission_init s0 \<and> (mission_step E)\<^sup>*\<^sup>* (s0, []) (s, F))"

section \<open>The invariant holds in every reachable state\<close>

abbreviation watching ::
    "(string \<times> string) list \<Rightarrow> (string \<times> AgentRunStatus) list \<Rightarrow> (string \<times> AgentRunStepStatus) list \<Rightarrow> watch" where
  "watching F R S \<equiv> \<lparr>flights = F, frozen_runs = R, frozen_steps = S\<rparr>"

lemma outcome_ok_conflict_409 [wp]: "outcome_ok P (\<lambda>_. P) (conflict_409 r) = outcome_ok P (\<lambda>_. P) r"
  by (cases r; cases "fst r"; cases "projl (fst r)") (auto simp: conflict_409_def outcome_ok_def)

lemma run_or_404_get:
  "run_or_404 rid s = (case dict_get (agent_runs s) rid of
     None \<Rightarrow> (Inl (HTTPException 404 ''Agent run not found''), s) | Some r \<Rightarrow> (Inr r, s))"
  by (simp add: run_or_404_def raise_def ret_def split: option.split)

lemma routes_minv:
  assumes I: "minv W s"
  shows "outcome_ok (minv W) (\<lambda>_. minv W) (heartbeat_agent_run E rid w tok secs s)"
    "outcome_ok (minv W) (\<lambda>_. minv W) (pause_run E rid actor reason s)"
    "outcome_ok (minv W) (\<lambda>_. minv W) (resume_run E rid actor reason s)"
    "outcome_ok (minv W) (\<lambda>_. minv W) (cancel_run E rid actor reason s)"
proof -
  note r = cur_runI [OF I, THEN conjunct1]
  show "outcome_ok (minv W) (\<lambda>_. minv W) (heartbeat_agent_run E rid w tok secs s)"
    using I heartbeat_run_minv [OF I r]
    by (simp add: heartbeat_agent_run_def run_or_404_get wp split: option.split)
  show "outcome_ok (minv W) (\<lambda>_. minv W) (pause_run E rid actor reason s)"
    using I pause_agent_run_minv [OF I r]
    by (simp add: pause_run_def run_or_404_get require_step_boundary_def wp split: option.split)
  show "outcome_ok (minv W) (\<lambda>_. minv W) (resume_run E rid actor reason s)"
    using I resume_agent_run_minv [OF I r]
    by (simp add: resume_run_def run_or_404_get wp split: option.split)
  show "outcome_ok (minv W) (\<lambda>_. minv W) (cancel_run E rid actor reason s)"
    using I cancel_agent_run_minv [OF I r]
    by (simp add: cancel_run_def run_or_404_get require_step_boundary_def wp split: option.split)
qed

lemma retry_run_minv:
  assumes I: "minv W s"
  shows "outcome_ok (minv W) (\<lambda>_. minv W) (retry_run E rid sid actor reason s)"
proof -
  note r = cur_runI [OF I, THEN conjunct1]
  have "outcome_ok (minv W) (\<lambda>_. minv W) (retry_agent_run_step E q st actor reason s)"
    if "dict_get (agent_runs s) rid = Some q" "cur_step st s"
      "step_status st \<noteq> AgentRunStepStatus.FAILED" for q st
    by (rule retry_agent_run_step_minv [OF I r [OF that(1)] that(2,3)])
  then show ?thesis
    using I cur_stepI [OF I] current_step_cur [OF I]
    by (auto simp: retry_run_def run_or_404_get wp split: option.split)
qed

lemma flight_add:
  assumes "minv (watching F R S) s" "in_flight_step r st s" "run_id r \<notin> fst ` set F"
  shows "minv (watching ((run_id r, step_id st) # F) R S) s"
  using assms by (auto simp: minv_def flight_ok_def in_flight_step_def cur_run_def cur_step_def)

lemma flight_drop: "minv (watching F R S) s \<Longrightarrow> minv (watching (filter P F) R S) s"
  by (auto simp: minv_def flight_ok_def distinct_map_filter)

lemma flight_now:
  assumes "minv (watching F R S) s" "(run_id r, step_id st) \<in> set F"
  shows "in_flight_step (run_now r s) (step_now st s) s" "run_id (run_now r s) = run_id r"
proof -
  obtain q x where g: "dict_get (agent_runs s) (run_id r) = Some q"
    "dict_get (agent_run_steps s) (step_id st) = Some x" "step_run_id x = run_id r"
    "step_status x \<noteq> AgentRunStepStatus.PENDING" "step_status x \<noteq> AgentRunStepStatus.SUCCEEDED"
    using assms by (fastforce simp: minv_def flight_ok_def)
  have "cur_run q s" "run_id q = run_id r" using cur_runI [OF assms(1) g(1)] by auto
  moreover have "cur_step x s" using cur_stepI [OF assms(1) g(2)] .
  ultimately show "in_flight_step (run_now r s) (step_now st s) s" "run_id (run_now r s) = run_id r"
    using g by (simp_all add: run_now_def step_now_def in_flight_step_def)
qed

lemma snd_ok: "outcome_ok P (\<lambda>_. P) r \<Longrightarrow> r = (x, s') \<Longrightarrow> P s'"
  by (cases x) (auto simp: outcome_ok_def)

lemma mission_step_minv:
  assumes st: "mission_step E (s, F) (s', F')" and I: "minv (watching F R S) s"
  shows "minv (watching F' R S) s'"
  using st
proof cases
  case other
  show ?thesis using I minv_cong(1) [OF other(2,3)] unfolding other(1) by blast
next
  case (create payload actor x)
  have "outcome_ok (minv (watching F R S)) (\<lambda>_. minv (watching F R S)) (create_agent_run E payload actor s)"
    by (rule outcome_ok_mono [OF create_agent_run_minv [OF I create(2)]]) (assumption, erule conjunct1)
  from snd_ok [OF this create(3)] show ?thesis unfolding create(1) .
next
  case (start rid w secs run st)
  have "outcome_ok (minv (watching F R S))
    (\<lambda>x s'. minv (watching F R S) s' \<and> (\<forall>r st. x = Inr (r, st) \<longrightarrow> run_id r = rid \<and> in_flight_step r st s' \<and>
        step_status st = AgentRunStepStatus.RUNNING)) (start_step E rid w secs s)"
    by (rule start_step_minv [OF I])
  then have "minv (watching F R S) s' \<and> run_id run = rid \<and> in_flight_step run st s'"
    using start by (auto simp: outcome_ok_def)
  then show ?thesis using start flight_add by auto
next
  case (not_started rid w secs x)
  have "outcome_ok (minv (watching F R S)) (\<lambda>_. minv (watching F R S)) (start_step E rid w secs s)"
    by (rule outcome_ok_mono [OF start_step_minv [OF I]]) (assumption, erule conjunct1)
  from snd_ok [OF this not_started(2)] show ?thesis unfolding not_started(1) .
next
  case (seal rid run h)
  then show ?thesis
    using cur_runI [OF I seal(3)] by (auto intro!: minv_put_run_same' [OF I, of run])
next
  case (bind_lease rid run)
  have "cur_run run s" using cur_runI [OF I bind_lease(2)] by simp
  from snd_ok [OF attach_minv [OF I this] bind_lease(3)] show ?thesis unfolding bind_lease(1) .
next
  case (capability rid run)
  have "cur_run run s" using cur_runI [OF I capability(2)] by simp
  from snd_ok [OF ensure_minv [OF I this] capability(3)] show ?thesis unfolding capability(1) .
next
  case (authorize rid run st)
  have "governed (watching F R S) run st s"
    using I cur_runI [OF I authorize(2)] current_step_cur [OF I authorize(3)] authorize(4,5)
    by (simp add: governed_def)
  from snd_ok [OF authorize_minv [OF this] authorize(6)] show ?thesis unfolding authorize(1) .
next
  case decide
  from snd_ok [OF record_authorization_minv [OF I decide(2)] decide(3)] show ?thesis unfolding decide(1) .
next
  case (finish run st res w x)
  let ?F = "filter (\<lambda>p. fst p \<noteq> run_id run) F"
  have I': "minv (watching ?F R S) s" using flight_drop [OF I] .
  have "in_flight_step (run_now run s) (step_now st s) s" "run_id (run_now run s) = run_id run"
    using flight_now [OF I finish(2)] by auto
  then have "outcome_ok (minv (watching ?F R S)) (\<lambda>_. minv (watching ?F R S)) (finish_step E run st res w s)"
    by (intro finish_step_minv [OF I']) auto
  from snd_ok [OF this finish(3)] show ?thesis unfolding finish(1) .
next
  case heartbeat
  from snd_ok [OF routes_minv(1) [OF I] heartbeat(2)] show ?thesis unfolding heartbeat(1) .
next
  case pause
  from snd_ok [OF routes_minv(2) [OF I] pause(2)] show ?thesis unfolding pause(1) .
next
  case resume
  from snd_ok [OF routes_minv(3) [OF I] resume(2)] show ?thesis unfolding resume(1) .
next
  case cancel
  from snd_ok [OF routes_minv(4) [OF I] cancel(2)] show ?thesis unfolding cancel(1) .
next
  case retry
  from snd_ok [OF retry_run_minv [OF I] retry(2)] show ?thesis unfolding retry(1) .
next
  case recover
  from snd_ok [OF recover_stale_leases_minv [OF I] recover(2)] show ?thesis unfolding recover(1) .
qed

lemma mission_steps_minv:
  "(mission_step E)\<^sup>*\<^sup>* (s, F) (s', F') \<Longrightarrow> minv (watching F R S) s \<Longrightarrow> minv (watching F' R S) s'"
proof (induction "(s', F')" arbitrary: s' F' rule: rtranclp_induct)
  case base
  then show ?case by simp
next
  case (step y)
  then show ?case by (cases y) (auto intro: mission_step_minv)
qed

lemma mission_init_minv: "mission_init s \<Longrightarrow> minv (watching [] [] []) s"
  by (simp add: mission_init_def minv_def mission_inv_def flight_ok_def frozen_ok_def dict_vals_def)

lemma reachable_minv: "mission_reachable E s F \<Longrightarrow> minv (watching F [] []) s"
  unfolding mission_reachable_def using mission_init_minv mission_steps_minv by blast

end
