(* ===== verification/MissionProperties.thy ===== *)
theory MissionProperties
  imports Mission Samples
begin

text \<open>
  What Mission Control promises, over every sequence of its operations and every interleaving
  with a worker's execution: the order of the steps, the finality of terminal states, the
  meaning of success, and what each operation does to the lease, the retry schedule and the
  attempt budget.
\<close>

section \<open>A reachable sample\<close>

lemma sample_created:
  "\<exists>r s'. create_agent_run sample_env sample_run_create ''op'' sample_sys = (Inr r, s') \<and>
     new_run_ok sample_run_create r s' \<and> mission_reachable sample_env s' []"
proof -
  have I: "minv (watching [] [] []) sample_sys"
    by (rule mission_init_minv) (simp add: mission_init_def)
  have f: "fresh_ids sample_env sample_sys" by code_simp
  obtain r s' where c: "store_agent_run sample_env sample_run_create sample_task sample_approval ''op'' sample_sys = (r, s')"
    by fastforce
  have cr: "create_agent_run sample_env sample_run_create ''op'' sample_sys = (Inr r, s')"
    using c by (simp add: create_agent_run_def sample_run_create_def sample_sys_def sys_of_def
        sample_store_def empty_store_def store.defs sample_task_def sample_approval_def
        open_runs_of_def dict_vals_def)
  have "mission_step sample_env (sample_sys, []) (s', [])"
    by (rule mission_step.create [OF f cr])
  moreover have "mission_init sample_sys" by (simp add: mission_init_def)
  ultimately have "mission_reachable sample_env s' []"
    unfolding mission_reachable_def by blast
  then show ?thesis using cr store_agent_run_minv [OF I f c] by blast
qed

lemma new_run_first:
  assumes "new_run_ok p r s"
  obtains st rest where "run_steps (run_id r) s = st # rest" "step_status st = AgentRunStepStatus.READY"
    "run_current_step_id r = Some (step_id st)"
proof -
  have m: "map step_status (run_steps (run_id r) s) = map first_ready [0..<7]"
    using assms by (simp add: new_run_ok_def)
  have "[0..<7::nat] = 0 # [1..<7]" by (simp add: upt_rec)
  with m obtain st rest where L: "run_steps (run_id r) s = st # rest" "step_status st = first_ready 0"
    by (auto simp: map_eq_Cons_conv)
  then show ?thesis using that assms by (simp add: new_run_ok_def first_ready_def)
qed

section \<open>Order and finality\<close>




lemma sample_cancelled:
  "\<exists>s r. mission_reachable sample_env s [] \<and> dict_get (agent_runs s) (run_id r) = Some r \<and>
     run_status r = AgentRunStatus.CANCELLED \<and>
     (\<exists>st \<in> set (run_steps (run_id r) s). step_status st = AgentRunStepStatus.CANCELLED)"
proof -
  obtain r s where h: "new_run_ok sample_run_create r s" "mission_reachable sample_env s []"
    using sample_created by blast
  have I: "minv (watching [] [] []) s" by (rule reachable_minv [OF h(2)])
  have r: "cur_run r s" "run_status r = AgentRunStatus.SCHEDULED" using h(1) by (simp_all add: new_run_ok_def)
  obtain st rest where st: "run_steps (run_id r) s = st # rest" "step_status st = AgentRunStepStatus.READY"
      "run_current_step_id r = Some (step_id st)"
    by (rule new_run_first [OF h(1)])
  obtain r' s' where c: "cancel_agent_run sample_env r ''op'' [] s = (Inr r', s')" "run_id r' = run_id r"
    "run_status r' = AgentRunStatus.CANCELLED" "cur_run r' s'"
    "run_steps (run_id r) s' = map (cancelled_step (clock s) []) (run_steps (run_id r) s)"
    using cancel_agent_run_spec [OF I r(1), of sample_env "''op''" "[]"] r(2) by auto
  have "current_step r s = Some st"
    using run_steps_cur [OF I, of st "run_id r"] st(1,3) by (simp add: current_step_def cur_step_def)
  then have "at_step_boundary r s"
    using st(2) h(1) by (simp add: at_step_boundary_def new_run_ok_def)
  then have "cancel_run sample_env (run_id r) ''op'' [] s = (Inr r', s')"
    using c(1) r(1) by (simp add: cancel_run_def run_or_404_get cur_run_def require_step_boundary_def conflict_409_def)
  then have "mission_step sample_env (s, []) (s', [])" by (rule mission_step.cancel)
  then have "mission_reachable sample_env s' []"
    using h(2) unfolding mission_reachable_def by (meson rtranclp.rtrancl_into_rtrancl)
  moreover have "step_status (cancelled_step (clock s) [] st) = AgentRunStepStatus.CANCELLED"
    using st(2) by (simp add: TERMINAL_STEP_STATUSES_def)
  ultimately show ?thesis
    using c st by (intro exI [of _ s'] exI [of _ r']) (auto simp: cur_run_def)
qed


text \<open>
  A step that succeeded, was blocked, failed, cancelled or skipped keeps that status for ever:
  in particular a verified step is never executed again.
\<close>

theorem terminal_step_final:
  assumes "mission_reachable E s F" "(mission_step E)\<^sup>*\<^sup>* (s, F) (s', F')"
    "dict_get (agent_run_steps s) sid = Some st" "step_status st \<in> set TERMINAL_STEP_STATUSES"
  shows "\<exists>st'. dict_get (agent_run_steps s') sid = Some st' \<and> step_status st' = step_status st"
proof -
  have "minv (watching F [] [(sid, step_status st)]) s"
    using reachable_minv [OF assms(1)] assms(3,4) by (simp add: minv_def frozen_ok_def)
  from mission_steps_minv [OF assms(2) this] show ?thesis by (simp add: minv_def frozen_ok_def)
qed

lemma terminal_step_final_witness:
  "\<exists>s s' sid st. (mission_step sample_env)\<^sup>*\<^sup>* (s, []) (s', []) \<and> dict_get (agent_run_steps s) sid = Some st \<and>
     step_status st = AgentRunStepStatus.CANCELLED \<and>
     (\<exists>st'. dict_get (agent_run_steps s') sid = Some st' \<and> step_status st' = AgentRunStepStatus.CANCELLED)"
proof -
  obtain s and r :: AgentRun and st where h: "mission_reachable sample_env s []" "st \<in> set (run_steps (run_id r) s)"
    "step_status st = AgentRunStepStatus.CANCELLED"
    using sample_cancelled by fastforce
  have m: "(mission_step sample_env)\<^sup>*\<^sup>* (s, []) (snd (recover_stale_leases sample_env ''op'' s), [])"
    by (intro r_into_rtranclp mission_step.recover) (rule surjective_pairing)
  have g: "dict_get (agent_run_steps s) (step_id st) = Some st"
    using run_steps_cur [OF reachable_minv [OF h(1)] h(2)] by (simp add: cur_step_def)
  have "step_status st \<in> set TERMINAL_STEP_STATUSES" using h(3) by (simp add: TERMINAL_STEP_STATUSES_def)
  from terminal_step_final [OF h(1) m g this] m g h(3) show ?thesis by metis
qed

text \<open>
  A run that still has a step which has not succeeded is not reported as succeeded, in any
  reachable state.
\<close>

theorem success_needs_every_step:
  assumes "mission_reachable E s F" "dict_get (agent_runs s) rid = Some r"
    "st \<in> set (run_steps rid s)" "step_status st \<noteq> AgentRunStepStatus.SUCCEEDED"
  shows "run_status r \<noteq> AgentRunStatus.SUCCEEDED"
proof -
  have I: "minv (watching F [] []) s" by (rule reachable_minv [OF assms(1)])
  have "cur_run r s" "run_id r = rid" using cur_runI [OF I assms(2)] by auto
  then have "run_ok (run_status r) (run_steps rid s)" using minv_run_ok [OF I] by blast
  then show ?thesis using assms(3,4) by (auto simp: run_ok_def list_all_iff)
qed

lemma success_needs_every_step_witness:
  "\<exists>s r st. mission_reachable sample_env s [] \<and> dict_get (agent_runs s) (run_id r) = Some r \<and>
     st \<in> set (run_steps (run_id r) s) \<and>
     step_status st = AgentRunStepStatus.CANCELLED \<and> run_status r \<noteq> AgentRunStatus.SUCCEEDED"
proof -
  obtain s r st where h: "mission_reachable sample_env s []" "dict_get (agent_runs s) (run_id r) = Some r"
    "st \<in> set (run_steps (run_id r) s)" "step_status st = AgentRunStepStatus.CANCELLED"
    using sample_cancelled by fastforce
  have "step_status st \<noteq> AgentRunStepStatus.SUCCEEDED" using h(4) by simp
  from success_needs_every_step [OF h(1-3) this] show ?thesis
    using h by (intro exI [of _ s] exI [of _ r] exI [of _ st]) simp
qed

section \<open>The lease\<close>

text \<open>
  The run lease excludes a second worker: taking it fails exactly while another named owner
  holds it unexpired, and then nothing changes; otherwise the caller is the owner afterwards, the
  token it gets is the run's, and the lease it takes anew expires after the requested time.
\<close>

theorem acquire_run_lease_exclusive:
  "case acquire_run_lease E r w secs s of
     (Inl e, s') \<Rightarrow> s' = s \<and> (\<exists>v t. run_lease_owner r = Some v \<and> v \<noteq> [] \<and> v \<noteq> w \<and>
        run_lease_expires_at r = Some t \<and> clock s < t)
   | (Inr (tok, r'), s') \<Rightarrow> run_lease_owner r' = Some w \<and> run_lease_token r' = Some tok \<and>
        (r' = r \<and> s' = s \<or> run_lease_expires_at r' = Some (clock s + seconds secs)
           \<and> dict_get (agent_runs s') (run_id r) = Some r' \<and> durable s') \<and>
        \<not> (\<exists>v t. run_lease_owner r = Some v \<and> v \<noteq> [] \<and> v \<noteq> w \<and>
             run_lease_expires_at r = Some t \<and> clock s < t)"
  by (cases "run_lease_owner r"; cases "run_lease_expires_at r"; cases "run_lease_token r")
    (auto simp: acquire_run_lease_def Let_def raise_def ret_def)

section \<open>Retries\<close>

text \<open>
  A transient failure of a running step with attempts left schedules exactly one retry, after
  two to three hundred seconds, doubling with each attempt; without attempts left the step and
  its run wait for a person, and no retry is scheduled.
\<close>

theorem transient_failure_schedules_retry:
  assumes "res_decision res = VerificationDecision.RETRY_TRANSIENT"
    "step_status st = AgentRunStepStatus.RUNNING" "run_status r = AgentRunStatus.RUNNING"
  shows "\<exists>r' st' s'. apply_execution_result E r st res actor s = (Inr (r', st'), s') \<and>
    dict_get (agent_run_steps s') (step_id st) = Some st' \<and>
    (if step_attempt_count st < step_max_attempts st then
       step_status st' = AgentRunStepStatus.RETRY_WAIT \<and> run_status r' = AgentRunStatus.RETRY_WAIT \<and>
       (\<exists>d. step_next_retry_at st' = Some (clock s + seconds d) \<and> 2 \<le> d \<and> d \<le> 300 \<and>
            d = min 300 (2 ^ nat (max 1 (step_attempt_count st))))
     else step_status st' = AgentRunStepStatus.NEEDS_HUMAN \<and> run_status r' = AgentRunStatus.NEEDS_HUMAN \<and>
       step_next_retry_at st' = step_next_retry_at st)"
proof -
  have p: "(2::int) \<le> 2 ^ nat (max 1 n)" for n :: int
  proof -
    have "(2::int) ^ 1 \<le> 2 ^ nat (max 1 n)" by (rule power_increasing) auto
    then show ?thesis by simp
  qed
  show ?thesis
    using assms p [of "step_attempt_count st"]
    by (auto simp: apply_execution_result_def apply_failure_def Let_def transition_step_def
        transition_run_def can_transition_step_def can_transition_run_def retry_delay_seconds_def ret_def)
qed

lemma transient_failure_schedules_retry_witness:
  "\<exists>r' st' s'. apply_execution_result sample_env (sample_run AgentRunStatus.RUNNING)
      (sample_step AgentRunStepStatus.RUNNING 2) (sample_result VerificationDecision.RETRY_TRANSIENT) ''w''
      (sample_run_sys AgentRunStatus.RUNNING AgentRunStepStatus.RUNNING 2) = (Inr (r', st'), s') \<and>
    step_status st' = AgentRunStepStatus.RETRY_WAIT \<and> step_next_retry_at st' = Some (1000000 + 4000000)"
  using transient_failure_schedules_retry [of "sample_result VerificationDecision.RETRY_TRANSIENT"
      "sample_step AgentRunStepStatus.RUNNING 2" "sample_run AgentRunStatus.RUNNING" sample_env "''w''"
      "sample_run_sys AgentRunStatus.RUNNING AgentRunStepStatus.RUNNING 2"]
  by (auto simp: sample_run_sys_def seconds_def)

text \<open>
  A success reported for a step that is no longer running, because the watchdog recovered its
  lease, an operator cancelled it or it was returned to another state, is refused: the report
  raises an illegal transition, the run is left as it was and the step keeps its status.
\<close>

theorem late_success_is_refused:
  assumes "res_decision res = VerificationDecision.PASS"
    "step_status st \<notin> {AgentRunStepStatus.RUNNING, AgentRunStepStatus.SUCCEEDED}"
  shows "\<exists>m st'. apply_execution_result E r st res actor s = (Inl (InvalidAgentRunTransition m), put_step st' s) \<and>
    step_id st' = step_id st \<and> step_status st' = step_status st"
  using assms into_SUCCEEDED [of "step_status st"]
  by (auto simp: apply_execution_result_def Let_def transition_step_def raise_def)

lemma late_success_is_refused_witness:
  "\<exists>m st'. apply_execution_result sample_env (sample_run AgentRunStatus.RETRY_WAIT)
      (sample_step AgentRunStepStatus.RETRY_WAIT 1) (sample_result VerificationDecision.PASS) ''w''
      (sample_run_sys AgentRunStatus.RETRY_WAIT AgentRunStepStatus.RETRY_WAIT 1) =
      (Inl (InvalidAgentRunTransition m),
       put_step st' (sample_run_sys AgentRunStatus.RETRY_WAIT AgentRunStepStatus.RETRY_WAIT 1)) \<and>
    step_status st' = AgentRunStepStatus.RETRY_WAIT"
  using late_success_is_refused [of "sample_result VerificationDecision.PASS"
      "sample_step AgentRunStepStatus.RETRY_WAIT 1" sample_env "sample_run AgentRunStatus.RETRY_WAIT" "''w''"
      "sample_run_sys AgentRunStatus.RETRY_WAIT AgentRunStepStatus.RETRY_WAIT 1"]
  by auto

section \<open>The watchdog\<close>

definition adds_no_success :: "sys \<Rightarrow> sys \<Rightarrow> bool" where
  "adds_no_success s0 s \<longleftrightarrow> (\<forall>k x. dict_get (agent_run_steps s) k = Some x \<and>
     step_status x = AgentRunStepStatus.SUCCEEDED \<longrightarrow> dict_get (agent_run_steps s0) k = Some x)"

lemma recover_step_succeeded:
  assumes "adds_no_success s0 s" "step_status st = AgentRunStepStatus.RUNNING"
  shows "outcome_ok (adds_no_success s0) (\<lambda>_. adds_no_success s0) (recover_step E actor owner r st s)"
  using assms unfolding adds_no_success_def
  by (auto simp: recover_step_def Let_def wp transition_step_cases transition_run_cases split: if_splits)

lemma recover_runs_succeeded:
  "adds_no_success s0 s \<Longrightarrow>
     outcome_ok (adds_no_success s0) (\<lambda>_. adds_no_success s0) (recover_runs E actor L n s)"
proof (induction L arbitrary: n s)
  case Nil
  then show ?case by (simp add: wp)
next
  case (Cons r L)
  have put: "adds_no_success s0 (put_run q s)" for q
    using Cons.prems by (simp add: adds_no_success_def)
  have nxt: "outcome_ok (adds_no_success s0) (\<lambda>_ s'. outcome_ok (adds_no_success s0)
      (\<lambda>_. adds_no_success s0) (recover_runs E actor L m s')) (recover_step E actor owner q st (put_run q s))"
    if "step_status st = AgentRunStepStatus.RUNNING" for m owner q st
    by (rule outcome_ok_mono [OF recover_step_succeeded [OF put that]]) (auto intro: Cons.IH)
  show ?case
    using Cons.IH [OF put] Cons.IH [OF Cons.prems] nxt by (simp add: Let_def wp split: option.split)
qed

text \<open>
  C3. The watchdog never completes work: every step that counts as succeeded after it ran is a
  step that had succeeded before, unchanged.
\<close>

theorem watchdog_completes_nothing:
  "{(k, x). dict_get (agent_run_steps (snd (recover_stale_leases E actor s))) k = Some x \<and>
      step_status x = AgentRunStepStatus.SUCCEEDED}
   \<subseteq> {(k, x). dict_get (agent_run_steps s) k = Some x}"
proof -
  have "adds_no_success s s" by (simp add: adds_no_success_def)
  then have "outcome_ok (adds_no_success s) (\<lambda>_. adds_no_success s) (recover_stale_leases E actor s)"
    unfolding recover_stale_leases_def
    by (auto simp: wp adds_no_success_def [of s "persist s'" for s']
        intro!: outcome_ok_mono [OF recover_runs_succeeded]) (simp add: adds_no_success_def)
  then show ?thesis unfolding outcome_ok_snd by (auto simp: adds_no_success_def)
qed

text \<open>
  A running step whose lease expired goes back to the queue, due at once, while it has
  attempts left, and to a person otherwise; its lease is cleared either way.
\<close>

theorem watchdog_requeues_step:
  assumes "step_status st = AgentRunStepStatus.RUNNING" "run_status r = AgentRunStatus.RUNNING"
  shows "\<exists>s' st' r'. recover_step E actor owner r st s = (Inr (), s') \<and>
    dict_get (agent_run_steps s') (step_id st) = Some st' \<and>
    dict_get (agent_runs s') (run_id r) = Some r' \<and> step_lease_owner st' = None \<and>
    step_attempt_count st' = step_attempt_count st \<and>
    (if step_attempt_count st < step_max_attempts st
     then step_status st' = AgentRunStepStatus.RETRY_WAIT \<and> step_next_retry_at st' = Some (clock s) \<and>
       run_status r' = AgentRunStatus.RETRY_WAIT
     else step_status st' = AgentRunStepStatus.NEEDS_HUMAN \<and> run_status r' = AgentRunStatus.NEEDS_HUMAN)"
  using assms
  by (auto simp: recover_step_def Let_def transition_step_def transition_run_def enter_step_def
      can_transition_step_def can_transition_run_def TERMINAL_STEP_STATUSES_def ret_def)

lemma watchdog_requeues_step_witness:
  "\<exists>s' st'. recover_step sample_env ''dog'' None (sample_run AgentRunStatus.RUNNING)
      (sample_step AgentRunStepStatus.RUNNING 3)
      (sample_run_sys AgentRunStatus.RUNNING AgentRunStepStatus.RUNNING 3) = (Inr (), s') \<and>
    dict_get (agent_run_steps s') ''s1'' = Some st' \<and> step_status st' = AgentRunStepStatus.NEEDS_HUMAN"
  using watchdog_requeues_step [of "sample_step AgentRunStepStatus.RUNNING 3"
      "sample_run AgentRunStatus.RUNNING" sample_env "''dog''" None
      "sample_run_sys AgentRunStatus.RUNNING AgentRunStepStatus.RUNNING 3"]
  by auto

section \<open>Creating a run\<close>

text \<open>
  A run exists only for an approved task with an approved approval. Asking again while the
  task has an open run returns that run and changes nothing; otherwise the new run is stored
  durably, scheduled, with the seven steps in their order, the first one ready and the others
  pending, none of them attempted.
\<close>

theorem create_run_contract:
  assumes "mission_reachable E s F" "fresh_ids E s"
    "create_agent_run E payload actor s = (Inr r, s')"
  shows "\<exists>task ap. dict_get (agent_tasks s) (rc_task_id payload) = Some task \<and>
    task_status task = AgentTaskStatus.APPROVED \<and>
    dict_get (approval_requests s) (opt_str (task_approval_request_id task)) = Some ap \<and>
    appr_status ap = ApprovalStatus.APPROVED \<and>
    (if open_runs_of (task_id task) s \<noteq> [] then s' = s \<and> r \<in> set (open_runs_of (task_id task) s)
     else dict_get (agent_runs s) (run_id r) = None \<and> durable s' \<and>
       run_status r = AgentRunStatus.SCHEDULED \<and> dict_get (agent_runs s') (run_id r) = Some r \<and>
       map step_type (run_steps (run_id r) s') = DEFAULT_AGENT_RUN_STEPS \<and>
       map step_status (run_steps (run_id r) s') =
         AgentRunStepStatus.READY # replicate 6 AgentRunStepStatus.PENDING \<and>
       list_all (\<lambda>st. step_attempt_count st = 0 \<and> step_max_attempts st = rc_max_attempts_per_step payload)
         (run_steps (run_id r) s'))"
proof -
  have I: "minv (watching F [] []) s" by (rule reachable_minv [OF assms(1)])
  obtain task ap where t: "dict_get (agent_tasks s) (rc_task_id payload) = Some task"
    "task_status task = AgentTaskStatus.APPROVED"
    "dict_get (approval_requests s) (opt_str (task_approval_request_id task)) = Some ap"
    "appr_status ap = ApprovalStatus.APPROVED"
    and c: "open_runs_of (task_id task) s \<noteq> [] \<Longrightarrow>
        r = last (sort_key run_created_at (open_runs_of (task_id task) s)) \<and> s' = s"
      "open_runs_of (task_id task) s = [] \<Longrightarrow> store_agent_run E payload task ap actor s = (r, s')"
    using assms(3) by (auto simp: create_agent_run_def Let_def split: option.splits if_splits prod.splits)
  show ?thesis
  proof (cases "open_runs_of (task_id task) s = []")
    case True
    then have st: "store_agent_run E payload task ap actor s = (r, s')" by (rule c(2))
    then have "durable s'" by (auto simp: store_agent_run_def Let_def split: prod.splits if_splits)
    moreover have "map first_ready [0..<7] = AgentRunStepStatus.READY # replicate 6 AgentRunStepStatus.PENDING"
      by (simp add: first_ready_def upt_rec numeral_eq_Suc)
    ultimately show ?thesis
      using store_agent_run_minv [OF I assms(2) st] True t
      by (auto simp: new_run_ok_def cur_run_def)
  next
    case False
    then have "sort_key run_created_at (open_runs_of (task_id task) s) \<noteq> []"
      by (metis length_sort length_0_conv)
    then have "last (sort_key run_created_at (open_runs_of (task_id task) s)) \<in> set (open_runs_of (task_id task) s)"
      by (metis last_in_set set_sort)
    then show ?thesis using c(1) False t by auto
  qed
qed

lemma create_run_contract_witness:
  "\<exists>r s'. create_agent_run sample_env sample_run_create ''op'' sample_sys = (Inr r, s') \<and> durable s' \<and>
     map step_type (run_steps (run_id r) s') = DEFAULT_AGENT_RUN_STEPS"
proof -
  obtain r s' where c: "create_agent_run sample_env sample_run_create ''op'' sample_sys = (Inr r, s')"
    using sample_created by blast
  have "mission_reachable sample_env sample_sys []"
    unfolding mission_reachable_def mission_init_def by (intro exI [of _ sample_sys]) simp
  moreover have "fresh_ids sample_env sample_sys" by code_simp
  ultimately show ?thesis
    using create_run_contract [OF _ _ c] c by (auto simp: open_runs_of_def dict_vals_def)
qed

section \<open>Judging a result\<close>

text \<open>
  The reason of a failed execution is judged by its markers in a fixed order: a policy marker
  anywhere in it blocks the run whatever surrounds it, and only a reason without any marker of the
  first three kinds can be retried automatically.
\<close>

theorem failure_classification:
  "res_decision (classify_execution_result False reason ev False) =
     (if \<exists>u m v. py_lower reason = u @ m @ v \<and> m \<in> set POLICY_BLOCK_MARKERS then VerificationDecision.BLOCK_POLICY
      else if \<exists>u m v. py_lower reason = u @ m @ v \<and> m \<in> set REVISION_MARKERS then VerificationDecision.NEEDS_REVISION
      else if \<exists>u m v. py_lower reason = u @ m @ v \<and> m \<in> set HUMAN_MARKERS then VerificationDecision.NEEDS_HUMAN
      else if \<exists>u m v. py_lower reason = u @ m @ v \<and> m \<in> set TRANSIENT_MARKERS then VerificationDecision.RETRY_TRANSIENT
      else VerificationDecision.FAIL_PERMANENT)"
proof -
  have "v_contains_any reason ms \<longleftrightarrow> (\<exists>u m v. py_lower reason = u @ m @ v \<and> m \<in> set ms)" for ms
    by (auto simp: v_contains_any_def contains_any_def list_ex_iff py_in_iff)
  then show ?thesis by (simp only: classify_failed_decision)
qed

lemma protected_branch_marker:
  "v_contains_any (u @ ''Protected branch policy: branch must not be main or master.'' @ v) POLICY_BLOCK_MARKERS"
  by (intro v_contains_any_append) code_simp

lemma in_joined: "m \<in> set ms \<Longrightarrow> \<exists>u v. py_join sep ms = u @ m @ v"
proof (induction sep ms rule: py_join.induct)
  case (3 sep w v ws)
  show ?case
  proof (cases "m = w")
    case False
    then obtain x y where "py_join sep (v # ws) = x @ m @ y" using 3 by auto
    then have "py_join sep (w # v # ws) = (w @ sep @ x) @ m @ y" by simp
    then show ?thesis by blast
  qed (metis append_Nil py_join.simps(3))
qed (auto intro: exI [of _ "[]"])

text \<open>
  The first step passes exactly for an approved approval with at least one file and one test,
  a repository of the form owner/name and a feature branch other than main and master; for a plan
  on main or master the decision is a policy block, whatever else is wrong with it.
\<close>

theorem scope_contract_decision:
  "(res_decision (validate_scope_contract task approval) = VerificationDecision.PASS) =
     ((\<exists>a. approval = Some a \<and> appr_status a = ApprovalStatus.APPROVED \<and>
         appr_files a \<noteq> [] \<and> appr_test_plan a \<noteq> []) \<and>
      CHR ''/'' \<in> set (py_strip (opt_str (task_repository task))) \<and>
      py_strip (opt_str (task_branch_preference task)) \<notin> {[], ''main'', ''master''}) \<and>
   (res_decision (validate_scope_contract task approval) = VerificationDecision.BLOCK_POLICY \<or>
    py_strip (opt_str (task_branch_preference task)) \<notin> {''main'', ''master''})"
proof
  have "py_in ''/'' s \<longleftrightarrow> CHR ''/'' \<in> set s" for s
    by (auto simp: py_in_iff in_set_conv_decomp)
  then show "(res_decision (validate_scope_contract task approval) = VerificationDecision.PASS) =
     ((\<exists>a. approval = Some a \<and> appr_status a = ApprovalStatus.APPROVED \<and>
         appr_files a \<noteq> [] \<and> appr_test_plan a \<noteq> []) \<and>
      CHR ''/'' \<in> set (py_strip (opt_str (task_repository task))) \<and>
      py_strip (opt_str (task_branch_preference task)) \<notin> {[], ''main'', ''master''})"
    using scope_contract_reasons_Nil_iff [of task approval]
    by (auto simp: validate_scope_contract_def Let_def classify_PASS_iff)
  show "res_decision (validate_scope_contract task approval) = VerificationDecision.BLOCK_POLICY \<or>
    py_strip (opt_str (task_branch_preference task)) \<notin> {''main'', ''master''}"
  proof (rule disjCI, simp)
    assume "py_strip (opt_str (task_branch_preference task)) = ''main'' \<or>
      py_strip (opt_str (task_branch_preference task)) = ''master''"
    then have m: "''Protected branch policy: branch must not be main or master.''
        \<in> set (scope_contract_reasons task approval)"
      by (auto simp: scope_contract_reasons_def Let_def)
    then obtain u v where "py_join '' '' (scope_contract_reasons task approval) =
        u @ ''Protected branch policy: branch must not be main or master.'' @ v"
      using in_joined by blast
    moreover have "scope_contract_reasons task approval \<noteq> []" using m by auto
    ultimately show "res_decision (validate_scope_contract task approval) = VerificationDecision.BLOCK_POLICY"
      using protected_branch_marker [of u v]
      by (simp add: validate_scope_contract_def Let_def classify_failed_decision)
  qed
qed

lemma scope_contract_decision_witness:
  "res_decision (validate_scope_contract (sample_task\<lparr>task_branch_preference := Some '' main ''\<rparr>) None) =
     VerificationDecision.BLOCK_POLICY \<and>
   res_decision (validate_scope_contract sample_task (Some sample_approval)) = VerificationDecision.PASS"
proof -
  have "py_strip '' main '' = ''main''" by (simp add: py_strip_def py_lstrip_def py_rstrip_def py_isspace_def)
  moreover have "py_strip ''o/r'' = ''o/r''" "py_strip ''feature/x'' = ''feature/x''"
    by (simp_all add: py_strip_def py_lstrip_def py_rstrip_def py_isspace_def)
  ultimately show ?thesis
    using scope_contract_decision [of "sample_task\<lparr>task_branch_preference := Some '' main ''\<rparr>" None]
      scope_contract_decision [of sample_task "Some sample_approval"]
    by (simp add: sample_task_def sample_approval_def)
qed

section \<open>Operator actions on a run that needs a person\<close>

text \<open>
  Pausing a run that waits for a person is an illegal transition, but the pause flag has been
  set in memory by then: the operator gets an error, the database is unchanged, and the run in
  memory refuses every later execution until it is resumed.
\<close>

theorem pause_while_needs_human:
  assumes "run_status r = AgentRunStatus.NEEDS_HUMAN"
  shows "\<exists>m. pause_agent_run E r actor reason s =
      (Inl (InvalidAgentRunTransition m), put_run (r\<lparr>run_pause_requested := True\<rparr>) s)"
  using assms by (auto simp: pause_agent_run_def Let_def transition_run_def can_transition_run_def raise_def)

lemma pause_while_needs_human_witness:
  "\<exists>m. pause_agent_run sample_env (sample_run AgentRunStatus.NEEDS_HUMAN) ''op'' [] sample_sys =
      (Inl (InvalidAgentRunTransition m),
       put_run ((sample_run AgentRunStatus.NEEDS_HUMAN)\<lparr>run_pause_requested := True\<rparr>) sample_sys)"
  using pause_while_needs_human [of "sample_run AgentRunStatus.NEEDS_HUMAN" sample_env "''op''" "[]" sample_sys]
  by simp

text \<open>
  Resuming a run that waits for a person makes its current step ready again whatever its
  attempt count, while the bounded retry of the same step is refused once its attempts are used
  up: the budget binds \<open>retry\<close> but not \<open>resume\<close>.
\<close>

theorem resume_ignores_budget:
  assumes "run_status r = AgentRunStatus.NEEDS_HUMAN" "current_step r s = Some st"
    "step_status st = AgentRunStepStatus.NEEDS_HUMAN" "step_max_attempts st \<le> step_attempt_count st"
    "step_run_id st = run_id r"
  shows "(\<exists>r' s' st'. resume_agent_run E r actor reason s = (Inr r', s') \<and>
        run_status r' = AgentRunStatus.SCHEDULED \<and>
        dict_get (agent_run_steps s') (step_id st) = Some st' \<and> step_status st' = AgentRunStepStatus.READY \<and>
        step_attempt_count st' = step_attempt_count st) \<and>
      retry_agent_run_step E r st actor reason s =
        (Inl (AgentRunConflict ''Step retry budget is exhausted.''), s)"
proof (rule conjI)
  have "current_step (r\<lparr>run_pause_requested := False\<rparr>) s = Some st"
    using assms(2) by (simp add: current_step_def)
  then show "\<exists>r' s' st'. resume_agent_run E r actor reason s = (Inr r', s') \<and>
      run_status r' = AgentRunStatus.SCHEDULED \<and>
      dict_get (agent_run_steps s') (step_id st) = Some st' \<and> step_status st' = AgentRunStepStatus.READY \<and>
      step_attempt_count st' = step_attempt_count st"
    using assms by (auto simp: resume_agent_run_def Let_def transition_step_def transition_run_def
        can_transition_step_def can_transition_run_def ret_def)
qed (use assms in \<open>simp add: retry_agent_run_step_def raise_def\<close>)

lemma resume_ignores_budget_witness:
  "(\<exists>r' s' st'. resume_agent_run sample_env (sample_run AgentRunStatus.NEEDS_HUMAN) ''op'' []
       (sample_run_sys AgentRunStatus.NEEDS_HUMAN AgentRunStepStatus.NEEDS_HUMAN 3) = (Inr r', s') \<and>
       dict_get (agent_run_steps s') ''s1'' = Some st' \<and> step_status st' = AgentRunStepStatus.READY) \<and>
     retry_agent_run_step sample_env (sample_run AgentRunStatus.NEEDS_HUMAN)
       (sample_step AgentRunStepStatus.NEEDS_HUMAN 3) ''op'' []
       (sample_run_sys AgentRunStatus.NEEDS_HUMAN AgentRunStepStatus.NEEDS_HUMAN 3) =
     (Inl (AgentRunConflict ''Step retry budget is exhausted.''),
      sample_run_sys AgentRunStatus.NEEDS_HUMAN AgentRunStepStatus.NEEDS_HUMAN 3)"
proof -
  let ?r = "sample_run AgentRunStatus.NEEDS_HUMAN" and ?st = "sample_step AgentRunStepStatus.NEEDS_HUMAN 3"
  let ?s = "sample_run_sys AgentRunStatus.NEEDS_HUMAN AgentRunStepStatus.NEEDS_HUMAN 3"
  have "current_step ?r ?s = Some ?st" by (simp add: current_step_def sample_run_sys_def)
  from resume_ignores_budget [OF _ this, of sample_env "''op''" "[]"] show ?thesis by auto
qed

end
