(* ===== verification/ExecutorProperties.thy ===== *)
theory ExecutorProperties
  imports WorkerProperties DefaultExecutor MissionProperties
begin

text \<open>
  What the default executor guarantees of a run's steps: each step sends GitHub only the requests of its own
  kind, the approvals stay as they are, and a step that passes stands for what its name says.
\<close>

section \<open>The requests of a step\<close>

definition step_sends ::
    "AgentRunStepType \<Rightarrow> AgentTask \<Rightarrow> (string, ApprovalRequest) dict \<Rightarrow> HttpRequest \<Rightarrow> bool" where
  "step_sends ty t approvals q \<longleftrightarrow>
     ty = AgentRunStepType.CREATE_BRANCH \<and> makes_branch t q \<or>
     ty = AgentRunStepType.APPLY_CHANGES \<and> edits_file t approvals q \<or>
     ty = AgentRunStepType.CREATE_PULL_REQUEST \<and> opens_review t q"

text \<open>What the passing of a step says, in the state it started in.\<close>

definition stands_for ::
    "AgentRunStep \<Rightarrow> AgentRun \<Rightarrow> AgentTask \<Rightarrow> sys \<Rightarrow> bool" where
  "stands_for step run t s \<longleftrightarrow>
     (case step_type step of
        AgentRunStepType.RUN_VALIDATION \<Rightarrow> \<exists>v. validated t (approval_requests s) v
      | AgentRunStepType.VERIFY_RESULT \<Rightarrow>
          list_ex (\<lambda>ev. te_task_id ev = task_id t \<and> te_event_type ev = TESTS_PASSED) (dict_vals (agent_task_events s)) \<and>
          list_ex (\<lambda>ev. te_task_id ev = task_id t \<and> te_event_type ev = AgentTaskEventType.PR_CREATED) (dict_vals (agent_task_events s))
      | AgentRunStepType.SEAL_EVIDENCE \<Rightarrow>
          list_all (\<lambda>i. step_sequence i < step_sequence step \<longrightarrow> step_status i = AgentRunStepStatus.SUCCEEDED)
            (run_steps (run_id run) s)
      | _ \<Rightarrow> True)"

text \<open>The outcome of a step.\<close>

definition within_step ::
    "AgentRunStep \<Rightarrow> AgentRun \<Rightarrow> AgentTask \<Rightarrow> wsys \<Rightarrow> step_run \<Rightarrow> bool" where
  "within_step step run t st r \<longleftrightarrow>
     approval_requests (fst (snd r)) = approval_requests (fst st) \<and>
     grows (is_event (step_sends (step_type step) t (approval_requests (fst st)))) (snd st) (snd (snd r)) \<and>
     (\<forall>result. fst r = Inr result \<and> res_decision result = VerificationDecision.PASS \<longrightarrow>
        stands_for step run t (fst st))"

lemma pass_iff: "res_decision (classify_execution_result ok reason ev False) = VerificationDecision.PASS \<longleftrightarrow> ok"
  by (simp add: classify_PASS_iff)

text \<open>A worker's step keeps the job; its requests are of the kind its type stands for.\<close>

lemma worker_within:
  assumes "step_ok t (approval_requests s) P (s, w) st'" "\<And>q. P q \<Longrightarrow> step_sends (step_type step) t (approval_requests s) q"
  shows "approval_requests (fst st') = approval_requests s \<and>
    grows (is_event (step_sends (step_type step) t (approval_requests s))) w (snd st')"
proof -
  have "step_ok t (approval_requests s) (step_sends (step_type step) t (approval_requests s)) (s, w) st'"
    using assms by (rule step_ok_mono)
  then show ?thesis by (simp add: step_ok_def holds_job_def)
qed

lemma create_branch_within:
  assumes "holds_job t (approval_requests s) s" "task_id t \<noteq> []" "step_type step = AgentRunStepType.CREATE_BRANCH"
  shows "within_step step run t (s, w) (create_branch_step E W run t (s, w))"
proof -
  obtain x st' where r: "run_agent_worker_github_branch_creation E W (Some (task_id t)) False
      (mission_worker run ''branch'') 300 ''main'' (s, w) = (x, st')" by (metis surj_pair)
  from worker_within [OF branch_step [OF assms(1,2) r], of step] assms(3) r show ?thesis
    by (cases x; cases st') (auto simp: create_branch_step_def within_step_def stands_for_def step_sends_def ret_def)
qed

lemma apply_changes_within:
  assumes "holds_job t (approval_requests s) s" "task_id t \<noteq> []" "step_type step = AgentRunStepType.APPLY_CHANGES"
  shows "within_step step run t (s, w) (apply_changes_step E W run t (s, w))"
proof -
  obtain x st' where r: "run_agent_worker_github_file_application E W (Some (task_id t)) False
      (mission_worker run ''files'') 300 (s, w) = (x, st')" by (metis surj_pair)
  from worker_within [OF files_step [OF assms(1,2) r], of step] assms(3) r show ?thesis
    by (cases x; cases st') (auto simp: apply_changes_step_def within_step_def stands_for_def step_sends_def ret_def)
qed

lemma create_pr_within:
  assumes "holds_job t (approval_requests s) s" "task_id t \<noteq> []" "step_type step = AgentRunStepType.CREATE_PULL_REQUEST"
  shows "within_step step run t (s, w) (create_pr_step E W run t (s, w))"
proof -
  obtain x st' where r: "run_agent_worker_github_pr_creation E W (Some (task_id t)) False
      (mission_worker run ''pr'') 300 ''main'' (s, w) = (x, st')" by (metis surj_pair)
  note pr = pr_step [OF assms(1,2) r, THEN conjunct1]
  from worker_within [OF pr, of step] assms(3) r show ?thesis
    by (cases x; cases st') (auto simp: create_pr_step_def within_step_def stands_for_def step_sends_def ret_def)
qed

lemma cleanup_grows: "cleanup_agent_worker_workspace W ws w = (ws', w') \<Longrightarrow> grows (is_event P) w w'"
  by (auto simp: cleanup_agent_worker_workspace_def intro!: grows_step split: option.splits)

lemma contained_validation_cases:
  assumes "contained_validation E W path run t timeout st = (x, s', w')"
  shows "\<exists>y. run_agent_worker_validation_commands E
      (container_executor W path timeout default_container_validation_policy)
      (Some (task_id t)) False (mission_worker run ''validation'') 300 st = (y, s', w') \<and>
    (\<forall>r. x = Inr r \<and> res_decision r = VerificationDecision.PASS \<longrightarrow> (\<exists>v. y = Inr v \<and> vr_success v))"
proof -
  obtain y s1 w1 where v: "run_agent_worker_validation_commands E
      (container_executor W path timeout default_container_validation_policy)
      (Some (task_id t)) False (mission_worker run ''validation'') 300 st = (y, s1, w1)" by (rule prod_cases3)
  show ?thesis
  proof (cases y)
    case (Inl e)
    with assms v have "x = Inl e \<and> s' = s1 \<and> w' = w1" by (simp add: contained_validation_def)
    with Inl v show ?thesis by simp
  next
    case (Inr r)
    obtain z where "x = Inr (classify_execution_result (vr_success r) (vr_reason r) z False) \<and> s' = s1 \<and> w' = w1"
      using assms v Inr by (auto simp: contained_validation_def ret_def intro: that)
    with Inr v show ?thesis by (auto simp: pass_iff)
  qed
qed

lemma contained_validation_within:
  assumes "holds_job t a s" "task_id t \<noteq> []" "contained_validation E W path run t timeout (s, w) = (x, s', w')"
  shows "holds_job t a s' \<and> grows (is_event no_request) w w' \<and>
    (\<forall>r. x = Inr r \<and> res_decision r = VerificationDecision.PASS \<longrightarrow> (\<exists>v. validated t a v))"
proof -
  obtain y where v: "run_agent_worker_validation_commands E
      (container_executor W path timeout default_container_validation_policy)
      (Some (task_id t)) False (mission_worker run ''validation'') 300 (s, w) = (y, s', w')"
    and pass: "\<forall>r. x = Inr r \<and> res_decision r = VerificationDecision.PASS \<longrightarrow> (\<exists>v. y = Inr v \<and> vr_success v)"
    using contained_validation_cases [OF assms(3)] by (elim exE conjE) (rule that)
  have step: "holds_job t a s'" "grows (is_event no_request) w w'" "\<forall>v. y = Inr v \<and> vr_success v \<longrightarrow> validated t a v"
    using contained.validation_step [OF assms(1,2) v] by (simp_all add: step_ok_def)
  have "\<exists>v. validated t a v" if "x = Inr r \<and> res_decision r = VerificationDecision.PASS" for r
    using pass [rule_format, OF that] step(3) by auto
  with step(1,2) show ?thesis by (intro conjI allI impI)
qed

lemma run_validation_within:
  assumes "holds_job t (approval_requests s) s" "task_id t \<noteq> []" "step_type step = AgentRunStepType.RUN_VALIDATION"
  shows "within_step step run t (s, w) (run_validation_step E W parent run t timeout (s, w))"
proof -
  let ?P = "is_event (step_sends (step_type step) t (approval_requests s))"
  obtain ws s1 w1 where p: "prepare_agent_worker_workspace E W t (opt_str (task_branch_preference t))
      (mission_worker run ''workspace'') parent (s, w) = (ws, s1, w1)" by (metis surj_pair)
  note pre = prepare_step [OF assms(1) p, of "step_sends (step_type step) t (approval_requests s)"]
  then have h: "holds_job t (approval_requests s) s1" and g: "grows ?P w w1" by (simp_all add: step_ok_def)
  show ?thesis
  proof (cases "ws_success ws \<and> ws_repository_path ws \<noteq> None")
    case False
    then have "run_validation_step E W parent run t timeout (s, w) = ret (unprepared_workspace ws) (s1, w1)"
      by (cases "ws_success ws"; cases "ws_repository_path ws") (simp_all add: run_validation_step_def p)
    with g h show ?thesis by (simp add: within_step_def unprepared_workspace_def pass_iff holds_job_def ret_def)
  next
    case True
    then obtain path where path: "ws_success ws" "ws_repository_path ws = Some path" by blast
    obtain x s2 w2 where v: "contained_validation E W path run t timeout (s1, w1) = (x, s2, w2)" by (metis surj_pair)
    obtain ws' w3 where c: "cleanup_agent_worker_workspace W ws w2 = (ws', w3)" by fastforce
    have r: "run_validation_step E W parent run t timeout (s, w) = (x, s2, w3)"
      by (simp add: run_validation_step_def p path v c)
    note val = contained_validation_within [OF h assms(2) v]
    from val have "grows ?P w1 w2" by (elim conjE grows_mono no_request_event)
    from grows_trans [OF grows_trans [OF g this] cleanup_grows [OF c]] have "grows ?P w w3" .
    with val show ?thesis by (simp add: r within_step_def stands_for_def holds_job_def assms(3))
  qed
qed

text \<open>Looking a task's timeline over, and sealing.\<close>

lemma verify_result_within:
  assumes "step_type step = AgentRunStepType.VERIFY_RESULT"
  shows "within_step step run t (s, w) (ret (verify_result_step t s) (s, w))"
  using assms
  by (auto simp: within_step_def verify_result_step_def stands_for_def pass_iff ret_def Let_def list_ex_iff filter_empty_conv)

lemma seal_evidence_within:
  assumes "step_type step = AgentRunStepType.SEAL_EVIDENCE" "seal_evidence_step E run step s = (r, s')"
  shows "within_step step run t (s, w) (ret r (s', w))"
  using assms
  by (auto simp: within_step_def seal_evidence_step_def stands_for_def pass_iff ret_def Let_def list_all_iff put_run_def)



chapter \<open>The executor in Mission Control\<close>

text \<open>
  The default executor as part of Mission Control: what it does to the store while a step is in flight are
  steps of the state machine of theory \<open>Mission\<close>, so that whatever holds in every reachable state holds with
  the real executor too.
\<close>

section \<open>The workers leave runs and steps alone\<close>

definition keeps_runs :: "sys \<Rightarrow> sys \<Rightarrow> bool" where
  "keeps_runs s s' \<longleftrightarrow> agent_runs s' = agent_runs s \<and> agent_run_steps s' = agent_run_steps s"

named_theorems keeps \<open>operations that leave the runs alone\<close>

lemma keeps_refl [simp, keeps]: "keeps_runs s s"
  by (simp add: keeps_runs_def)

lemma keeps_trans: "keeps_runs s r \<Longrightarrow> keeps_runs r t \<Longrightarrow> keeps_runs s t"
  by (simp add: keeps_runs_def)

lemma keeps_puts [simp]:
  "keeps_runs s (put_task t r) \<longleftrightarrow> keeps_runs s r"
  "keeps_runs s (put_task_event ev r) \<longleftrightarrow> keeps_runs s r"
  "keeps_runs s (drawn r) \<longleftrightarrow> keeps_runs s r"
  "keeps_runs s (persist r) \<longleftrightarrow> keeps_runs s r"
  "keeps_runs s (add_audit E event k d actor r) \<longleftrightarrow> keeps_runs s r"
  "keeps_runs s (update_task_row t r) \<longleftrightarrow> keeps_runs s r"
  by (simp_all add: keeps_runs_def put_task_def put_task_event_def drawn_def persist_def add_audit_def update_task_row_def)

lemma keeps_store_claim [simp]: "keeps_runs s (store_claim c r) \<longleftrightarrow> keeps_runs s r"
  by (simp add: store_claim_def split: option.split)

lemma keeps_claim_loaded: "claim_loaded_task E t w n s = (c, s') \<Longrightarrow> keeps_runs s s'"
  by (auto simp: claim_loaded_task_def Let_def)

lemma keeps_take_task: "take_task E tid b w n s = (c, s') \<Longrightarrow> keeps_runs s s'"
  by (auto simp: take_task_def claim_agent_task_for_worker_def claim_first_approved_agent_task_for_worker_def Let_def
      dest: keeps_claim_loaded split: if_splits option.splits list.splits prod.splits)

lemma keeps_release: "release_task E t lease w s = (t', s') \<Longrightarrow> keeps_runs r s \<Longrightarrow> keeps_runs r s'"
  by (auto simp: release_task_def Let_def split: if_splits)

lemma keeps_close: "close_worker E event d t lease w s = (t', s') \<Longrightarrow> keeps_runs r s \<Longrightarrow> keeps_runs r s'"
  using keeps_release [where r = r] by (auto simp: close_worker_def Let_def split: prod.splits)

lemma keeps_note: "worker_note E t ty m w d s = (ev, s') \<Longrightarrow> keeps_runs r s \<Longrightarrow> keeps_runs r s'"
  by (auto simp: worker_note_def Let_def)

lemma keeps_status: "set_task_status st t s = (t', s') \<Longrightarrow> keeps_runs r s \<Longrightarrow> keeps_runs r s'"
  by (auto simp: set_task_status_def Let_def split: option.splits)

lemmas keeps_dests = keeps_close keeps_note keeps_status

lemma keeps_branch_worker: "branch_worker E W w source lease t (s, o1) = (x, s', o2) \<Longrightarrow> keeps_runs s s'"
  by (auto simp: branch_worker_def append_branch_created_event_def Let_def
      dest!: keeps_dests [where r = s] split: option.splits if_splits prod.splits sum.splits)

lemma keeps_files_worker: "files_worker E W w lease t (s, o1) = (x, s', o2) \<Longrightarrow> keeps_runs s s'"
  by (auto simp: files_worker_def append_files_applied_event_def Let_def
      dest!: keeps_dests [where r = s] split: option.splits if_splits prod.splits sum.splits)

lemma keeps_pr_worker: "pr_worker E W w base lease t (s, o1) = (x, s', o2) \<Longrightarrow> keeps_runs s s'"
  by (auto simp: pr_worker_def append_pr_created_event_def Let_def
      dest!: keeps_dests [where r = s] split: option.splits if_splits prod.splits sum.splits)

lemma keeps_validation_event:
  "append_validation_event E t a w lease ty st m rs s = ((ev, t'), s') \<Longrightarrow> keeps_runs r s \<Longrightarrow> keeps_runs r s'"
  by (auto simp: append_validation_event_def Let_def dest!: keeps_dests [where r = r] split: prod.splits)

lemma keeps_finish_validation:
  "finish_validation E t a w lease result rs s = (v, s') \<Longrightarrow> keeps_runs r s \<Longrightarrow> keeps_runs r s'"
  by (auto simp: finish_validation_def Let_def dest!: keeps_dests [where r = r] keeps_validation_event [where r = r]
      split: prod.splits)

lemma keeps_validation_worker: "validation_worker E X w lease t (s, o1) = (x, s', o2) \<Longrightarrow> keeps_runs s s'"
  by (auto simp: validation_worker_def Let_def dest!: keeps_dests [where r = s] keeps_validation_event [where r = s]
      keeps_finish_validation [where r = s] split: option.splits prod.splits sum.splits)

section \<open>The workers' entry points\<close>

lemma keeps_branch_creation:
  assumes "run_agent_worker_github_branch_creation E W tid b w n source (s, o1) = (x, s', o2)"
  shows "keeps_runs s s'"
proof -
  obtain c r where "take_task E tid b w n s = (c, r)" by fastforce
  with assms keeps_take_task keeps_branch_worker show ?thesis
    by (fastforce simp: run_agent_worker_github_branch_creation_def Let_def intro: keeps_trans
        split: if_splits bool.splits option.splits)
qed

lemma keeps_file_application:
  assumes "run_agent_worker_github_file_application E W tid b w n (s, o1) = (x, s', o2)"
  shows "keeps_runs s s'"
proof -
  obtain c r where "take_task E tid b w n s = (c, r)" by fastforce
  with assms keeps_take_task keeps_files_worker show ?thesis
    by (fastforce simp: run_agent_worker_github_file_application_def Let_def intro: keeps_trans
        split: if_splits bool.splits option.splits)
qed

lemma keeps_pr_creation:
  assumes "run_agent_worker_github_pr_creation E W tid b w n base (s, o1) = (x, s', o2)"
  shows "keeps_runs s s'"
proof -
  obtain c r where "take_task E tid b w n s = (c, r)" by fastforce
  with assms keeps_take_task keeps_pr_worker show ?thesis
    by (fastforce simp: run_agent_worker_github_pr_creation_def Let_def intro: keeps_trans
        split: if_splits bool.splits option.splits)
qed

lemma keeps_validation_run:
  assumes "run_agent_worker_validation_commands E X tid b w n (s, o1) = (x, s', o2)"
  shows "keeps_runs s s'"
proof -
  obtain c r where "take_task E tid b w n s = (c, r)" by fastforce
  with assms keeps_take_task keeps_validation_worker show ?thesis
    by (fastforce simp: run_agent_worker_validation_commands_def Let_def intro: keeps_trans
        split: if_splits bool.splits option.splits)
qed

lemma keeps_workspace_failed:
  "workspace_failed E W w reason r (s, o1) = (r', s', o2) \<Longrightarrow> keeps_runs s s'"
  by (auto simp: workspace_failed_def Let_def split: prod.splits)

lemma keeps_prepare:
  "prepare_agent_worker_workspace E W t branch w parent (s, o1) = (r, s', o2) \<Longrightarrow> keeps_runs s s'"
  by (auto simp: prepare_agent_worker_workspace_def Let_def dest: keeps_workspace_failed
      split: if_splits prod.splits option.splits)

section \<open>The executor\<close>

lemma keeps_run_validation:
  assumes "run_validation_step E W parent run t timeout (s, o1) = (x, s', o2)"
  shows "keeps_runs s s'"
proof -
  obtain ws s1 w1 where p: "prepare_agent_worker_workspace E W t (opt_str (task_branch_preference t))
      (mission_worker run ''workspace'') parent (s, o1) = (ws, s1, w1)" by (rule prod_cases3)
  have k: "keeps_runs s1 r" if "contained_validation E W path run t timeout (s1, w1) = (y, r, w2)" for path y r w2
    using contained_validation_cases [OF that] keeps_validation_run by (elim exE conjE)
  from assms have "s' = s1 \<or> (\<exists>path y w2. contained_validation E W path run t timeout (s1, w1) = (y, s', w2))"
    by (cases "ws_success ws"; cases "ws_repository_path ws")
      (auto simp: run_validation_step_def p ret_def split: prod.splits)
  then have "keeps_runs s1 s'" using k by (elim disjE exE) simp_all
  with keeps_prepare [OF p] show ?thesis by (rule keeps_trans)
qed

text \<open>A worker's result is classified without touching the state.\<close>

lemma keeps_bind:
  assumes "bindE m k = (x, s', o2)" "\<And>y r w. m = (y, r, w) \<Longrightarrow> keeps_runs s r" "\<And>a st. snd (k a st) = st"
  shows "keeps_runs s s'"
proof -
  obtain y r w where m: "m = (y, r, w)" by (rule prod_cases3)
  have "(s', o2) = (r, w)"
  proof (cases y)
    case (Inl e)
    with assms(1) m show ?thesis by simp
  next
    case (Inr a)
    with assms(1) m have "k a (r, w) = (x, s', o2)" by simp
    with assms(3) [of a "(r, w)"] show ?thesis by simp
  qed
  with assms(2) [OF m] show ?thesis by simp
qed

lemma keeps_worker_steps:
  "create_branch_step E W run t (s, o1) = (x, s', o2) \<Longrightarrow> keeps_runs s s'"
  "apply_changes_step E W run t (s, o1) = (x, s', o2) \<Longrightarrow> keeps_runs s s'"
  "create_pr_step E W run t (s, o1) = (x, s', o2) \<Longrightarrow> keeps_runs s s'"
  unfolding create_branch_step_def apply_changes_step_def create_pr_step_def
  by (erule keeps_bind, erule keeps_branch_creation keeps_file_application keeps_pr_creation, simp add: ret_def split: prod.splits)+

text \<open>Every step of the executor is a step of Mission Control.\<close>

lemma executor_steps:
  assumes "default_executor E W parent run step timeout (s, o1) = (x, s', o2)"
    "\<exists>r. dict_get (agent_runs s) (run_id run) = Some r"
  shows "mission_step E (s, F) (s', F)"
proof -
  have quiet: "keeps_runs s s' \<Longrightarrow> mission_step E (s, F) (s', F)"
    by (rule mission_step.other) (simp_all add: keeps_runs_def)
  show ?thesis
  proof (cases "step_type step = AgentRunStepType.SEAL_EVIDENCE \<and> (\<exists>t. dict_get (agent_tasks s) (run_task_id run) = Some t)")
    case True
    obtain r where r: "dict_get (agent_runs s) (run_id run) = Some r" using assms(2) by blast
    then have "run_now run s = r" by (simp add: run_now_def)
    with True assms(1) obtain h where "s' = put_run (r\<lparr>run_final_evidence_hash := h\<rparr>) s"
      by (auto simp: default_executor_def seal_evidence_step_def ret_def Let_def)
    with mission_step.seal [OF r] show ?thesis by simp
  next
    case False
    have "keeps_runs s s'"
    proof (cases "dict_get (agent_tasks s) (run_task_id run)")
      case None
      with assms(1) show ?thesis by (simp add: default_executor_def ret_def)
    next
      case (Some t)
      with assms(1) False show ?thesis
        by (cases "step_type step")
          (auto simp: default_executor_def ret_def intro: keeps_worker_steps keeps_run_validation)
    qed
    then show ?thesis by (rule quiet)
  qed
qed

text \<open>The whole call: a configured fault, the executor, and the event of an injected fault.\<close>

lemma run_executor_steps:
  assumes "run_executor E run step worker timeout (executor_at E W parent w) s = (res, s')"
    "\<exists>r. dict_get (agent_runs s) (run_id run) = Some r"
  shows "(mission_step E)\<^sup>*\<^sup>* (s, F) (s', F)"
proof -
  obtain fault s1 where c: "consume_fault (run_id run) (step_type step) s = (fault, s1)" by fastforce
  have k: "agent_runs s1 = agent_runs s" "agent_run_steps s1 = agent_run_steps s"
    using consume_fault_frame [OF c] by simp_all
  then have first: "mission_step E (s, F) (s1, F)" by (rule mission_step.other)
  show ?thesis
  proof (cases fault)
    case (Some f)
    with assms(1) c have "agent_runs s' = agent_runs s1" "agent_run_steps s' = agent_run_steps s1"
      by (auto simp: run_executor_def append_event_def put_run_event_def drawn_def)
    then have "mission_step E (s1, F) (s', F)" by (rule mission_step.other)
    with first show ?thesis by (meson converse_rtranclp_into_rtranclp r_into_rtranclp)
  next
    case None
    obtain x s2 w2 where d: "default_executor E W parent run step timeout (s1, w) = (x, s2, w2)" by (rule prod_cases3)
    with assms(1) c None have "s' = s2" by (cases x) (auto simp: run_executor_def executor_at_def)
    with executor_steps [OF d] k(1) assms(2) have "mission_step E (s1, F) (s', F)" by simp
    with first show ?thesis by (meson converse_rtranclp_into_rtranclp r_into_rtranclp)
  qed
qed



end
