(* ===== verification/GitHubRunner.thy ===== *)
theory GitHubRunner
  imports WorkerTrace Samples
begin

text \<open>
  \<open>github_runner.py\<close>: the route by which a maintainer has an approved request applied to a repository.
  Unlike the workers it goes by the approval alone: no task, no lease and no plan is looked at. The
  approval is set to \<open>EXECUTING\<close> before the first request and to \<open>READY_FOR_PR\<close> or \<open>FAILED\<close> after the last.
\<close>

section \<open>The plan\<close>

definition RUNNER_PROTECTED_BRANCHES :: "string list" where
  "RUNNER_PROTECTED_BRANCHES = [''main'', ''master'', ''production'', ''release'']"

record PatchPlanRequest =
  pp_approval_request_id :: string
  pp_repository_full_name :: string
  pp_base_branch :: string
  pp_feature_branch :: string

record PatchPlanResponse =
  pr_ready :: bool
  pr_approval_request_id :: string
  pr_repository_full_name :: string
  pr_base_branch :: string
  pr_feature_branch :: string
  pr_files :: "string list"
  pr_blockers :: "string list"
  pr_next_steps :: "string list"

record ExecuteGitHubRequest = PatchPlanRequest +
  xg_commit_message :: string
  xg_pr_title :: "string option"
  xg_pr_body :: "string option"
  xg_run_tests :: bool

record ExecuteGitHubResponse =
  xr_approval_request_id :: string
  xr_repository_full_name :: string
  xr_branch :: string
  xr_commit_sha :: string
  xr_pull_request_url :: string
  xr_changed_files :: "string list"
  xr_test_status :: string

definition hash_blockers :: "env \<Rightarrow> ApprovalRequest \<Rightarrow> string list" where
  "hash_blockers E approval =
     (if \<not> truthy (appr_approved_payload_hash approval) then
        [''Approval request is missing approved payload hash; re-approval is required.'']
      else if Some (compute_approval_payload_hash E approval) \<noteq> appr_approved_payload_hash approval then
        [''Approval payload changed after approval; re-approval is required before execution.'']
      else [])"

definition branch_blockers :: "'a PatchPlanRequest_scheme \<Rightarrow> string list" where
  "branch_blockers payload =
     (if py_lower (pp_base_branch payload) \<in> set RUNNER_PROTECTED_BRANCHES \<and> pp_feature_branch payload = [] then
        [''A feature branch is required; direct protected branch patching is not allowed.''] else []) @
     (if py_lower (pp_feature_branch payload) \<in> set RUNNER_PROTECTED_BRANCHES then
        [''Feature branch cannot be a protected branch.''] else []) @
     (if pp_feature_branch payload = pp_base_branch payload then
        [''Feature branch must be different from base branch.''] else [])"

definition patch_blockers :: "env \<Rightarrow> 'a PatchPlanRequest_scheme \<Rightarrow> ApprovalRequest \<Rightarrow> string list" where
  "patch_blockers E payload approval =
     (if appr_status approval \<noteq> ApprovalStatus.APPROVED then
        [''Approval request must be APPROVED before GitHub execution.''] else []) @
     (if ra_blocked (appr_risk approval) then
        [''Blocked approval requests cannot be sent to GitHub runner.''] else []) @
     hash_blockers E approval @ branch_blockers payload @
     (if appr_files approval = [] then [''Approval request has no file changes.''] else []) @
     (if list_ex (\<lambda>f. \<not> truthy (fc_new_content f)) (appr_files approval) then
        [''Every file change must include new_content for deterministic GitHub execution.''] else [])"

definition validate_execution ::
    "env \<Rightarrow> 'a PatchPlanRequest_scheme \<Rightarrow> sys \<Rightarrow> PatchPlanResponse result" where
  "validate_execution E payload s =
     (case dict_get (approval_requests s) (pp_approval_request_id payload) of
        None \<Rightarrow> raise (HTTPException 404 ''Approval request not found'') s
      | Some approval \<Rightarrow>
          let blockers = patch_blockers E payload approval in
          ret \<lparr>pr_ready = (blockers = []), pr_approval_request_id = appr_id approval,
            pr_repository_full_name = pp_repository_full_name payload,
            pr_base_branch = pp_base_branch payload, pr_feature_branch = pp_feature_branch payload,
            pr_files = map fc_path (appr_files approval), pr_blockers = blockers,
            pr_next_steps =
              [''Create feature branch from base branch.'',
               ''Apply approved full-file content only to listed files.'',
               ''Commit with approval id in message.'',
               ''Optionally record test command status back to /test-runs.'',
               ''Open pull request; never auto-merge in MVP.'']\<rparr> s)"

definition create_patch_plan :: "env \<Rightarrow> PatchPlanRequest \<Rightarrow> sys \<Rightarrow> PatchPlanResponse result" where
  "create_patch_plan E payload s = validate_execution E payload s"

section \<open>The requests\<close>

text \<open>
  A refused request is an \<open>HTTPException\<close> with the status of the answer, which the callers look at; any
  other exception only has its text.
\<close>

datatype github_error = Answered int string | Uncaught string

type_synonym 'a runner = "outside list \<Rightarrow> (github_error, 'a, outside list) outcome"

definition uncaught :: "string + 'a \<Rightarrow> github_error + 'a" where
  "uncaught r = (case r of Inl e \<Rightarrow> Inl (Uncaught e) | Inr a \<Rightarrow> Inr a)"

definition github :: "world \<Rightarrow> HttpRequest \<Rightarrow> json runner" where
  "github W q w =
     (if py_strip (github_token W) = [] then
        raise (Answered 500 ''GITHUB_TOKEN is not configured for GitHub execution'') w
      else let (r, w) = ask W q w in
        liftE (uncaught r) (\<lambda>reply.
          if 400 \<le> hr_status reply then raise (Answered (hr_status reply) (hr_text reply))
          else if hr_text reply = [] then ret (JObj [])
          else liftE (uncaught (hr_json reply)) ret) w)"

text \<open>A 404 is an answer where the callers expect it; every other error goes on.\<close>

definition unless_missing :: "'a \<Rightarrow> 'a runner \<Rightarrow> 'a runner" where
  "unless_missing d m w =
     (case m w of
        (Inl (Answered code detail), w) \<Rightarrow> if code = 404 then ret d w else raise (Answered code detail) w
      | r \<Rightarrow> r)"

definition runner_branch_exists :: "world \<Rightarrow> string \<Rightarrow> string \<Rightarrow> bool runner" where
  "runner_branch_exists W repo branch =
     unless_missing False (\<lambda>w. bindE (github W (http_get (ref_url repo branch) []) w) (\<lambda>v. ret True))"

definition ensure_branch :: "world \<Rightarrow> string \<Rightarrow> string \<Rightarrow> json \<Rightarrow> unit runner" where
  "ensure_branch W repo branch sha w =
     bindE (runner_branch_exists W repo branch w) (\<lambda>exists w.
       if exists then ret () w
       else bindE (github W (http_send ''POST'' (repo_url repo ''/git/refs'')
              [(''ref'', JStr (''refs/heads/'' @ branch)), (''sha'', sha)]) w) (\<lambda>v. ret ()))"

definition existing_file_sha :: "world \<Rightarrow> string \<Rightarrow> string \<Rightarrow> string \<Rightarrow> json runner" where
  "existing_file_sha W repo branch path =
     unless_missing JNull (\<lambda>w. bindE (github W (http_get (contents_url repo path) [(''ref'', branch)]) w) (\<lambda>v.
       liftE (uncaught (payload_get v ''sha'' JNull)) ret))"

definition write_file ::
    "world \<Rightarrow> 'a ExecuteGitHubRequest_scheme \<Rightarrow> ApprovalRequest \<Rightarrow> FileChange \<Rightarrow> json runner" where
  "write_file W payload approval change w =
     (let repo = pp_repository_full_name payload; branch = pp_feature_branch payload in
      bindE (existing_file_sha W repo branch (fc_path change) w) (\<lambda>sha w.
        github W (http_send ''PUT'' (contents_url repo (fc_path change))
          ([(''message'', JStr (xg_commit_message payload @ [CHR 0x0A, CHR 0x0A] @ ''Approval: '' @ appr_id approval)),
            (''content'', JStr (b64encode (opt_str (fc_new_content change)))),
            (''branch'', JStr branch)] @
           (if json_truthy sha then [(''sha'', sha)] else []))) w))"

text \<open>The answers to the last commit and the paths written, in the order of the approval.\<close>

fun write_files ::
    "world \<Rightarrow> 'a ExecuteGitHubRequest_scheme \<Rightarrow> ApprovalRequest \<Rightarrow> json option \<Rightarrow> FileChange list \<Rightarrow> json option runner" where
  "write_files W payload approval latest [] w = ret latest w"
| "write_files W payload approval latest (change # changes) w =
     bindE (write_file W payload approval change w) (\<lambda>commit. write_files W payload approval (Some commit) changes)"

definition runner_pull_request_body :: "'a ExecuteGitHubRequest_scheme \<Rightarrow> ApprovalRequest \<Rightarrow> string" where
  "runner_pull_request_body payload approval =
     str_or (opt_str (xg_pr_body payload))
       (''Aixion approved change.'' @ [CHR 0x0A, CHR 0x0A] @
        ''Approval: '' @ [CHR 0x60] @ appr_id approval @ [CHR 0x60, CHR 0x0A] @
        ''Approved Payload: '' @ [CHR 0x60] @ opt_str (appr_approved_payload_hash approval) @ [CHR 0x60, CHR 0x0A] @
        ''Risk: '' @ [CHR 0x60] @ RiskLevel_value (ra_level (appr_risk approval)) @ [CHR 0x60, CHR 0x0A, CHR 0x0A] @
        ''No auto-merge. Review required.'')"

definition open_review :: "world \<Rightarrow> 'a ExecuteGitHubRequest_scheme \<Rightarrow> ApprovalRequest \<Rightarrow> json runner" where
  "open_review W payload approval =
     github W (http_send ''POST'' (repo_url (pp_repository_full_name payload) ''/pulls'')
       [(''title'', JStr (str_or (opt_str (xg_pr_title payload)) (appr_title approval))),
        (''body'', JStr (runner_pull_request_body payload approval)),
        (''head'', JStr (pp_feature_branch payload)), (''base'', JStr (pp_base_branch payload))])"

definition apply_on_github ::
    "world \<Rightarrow> 'a ExecuteGitHubRequest_scheme \<Rightarrow> ApprovalRequest \<Rightarrow> (json option \<times> json) runner" where
  "apply_on_github W payload approval w =
     (let repo = pp_repository_full_name payload in
      bindE (github W (http_get (ref_url repo (pp_base_branch payload)) []) w) (\<lambda>base.
      liftE (uncaught (sum_then (json_index base ''object'') (\<lambda>v. json_index v ''sha''))) (\<lambda>sha w.
      bindE (ensure_branch W repo (pp_feature_branch payload) sha w) (\<lambda>_ w.
      bindE (write_files W payload approval None (appr_files approval) w) (\<lambda>commit w.
      bindE (open_review W payload approval w) (\<lambda>pull. ret (commit, pull)))))))"

section \<open>The execution\<close>

definition set_approval_status :: "ApprovalStatus \<Rightarrow> ApprovalRequest \<Rightarrow> sys \<Rightarrow> ApprovalRequest \<times> sys" where
  "set_approval_status st approval s =
     (let approval = approval\<lparr>appr_status := st, appr_updated_at := clock s\<rparr>
      in (approval, put_approval approval s))"

definition record_external_ci :: "env \<Rightarrow> ApprovalRequest \<Rightarrow> sys \<Rightarrow> sys" where
  "record_external_ci E approval s =
     put_test_run \<lparr>tr_approval_request_id = appr_id approval, tr_command = ''GitHub Actions / external CI'',
       tr_status = ''PENDING_EXTERNAL_CI'',
       tr_output_summary = ''PR opened. CI must be verified before merge.'',
       tr_id = new_id E ''test'' s, tr_created_at = clock s\<rparr> (drawn s)"

definition github_pyerror :: "github_error \<Rightarrow> pyerror" where
  "github_pyerror e = (case e of Answered code detail \<Rightarrow> HTTPException code detail | Uncaught text \<Rightarrow> RuntimeError text)"

text \<open>The response; its model accepts strings only.\<close>

definition json_text :: "json \<Rightarrow> pyerror + string" where
  "json_text v = (case v of JStr t \<Rightarrow> Inr t | _ \<Rightarrow> Inl (ValidationError []))"

definition execution_response ::
    "'a ExecuteGitHubRequest_scheme \<Rightarrow> ApprovalRequest \<Rightarrow> json option \<Rightarrow> json \<Rightarrow> pyerror + ExecuteGitHubResponse" where
  "execution_response payload approval commit pull =
     (case commit of
        None \<Rightarrow> Inl (HTTPException 500 ''No commit was created during GitHub execution'')
      | Some c \<Rightarrow>
          (case sum_then (json_index c ''commit'') (\<lambda>v. json_index v ''sha'') of
             Inl e \<Rightarrow> Inl (RuntimeError e)
           | Inr sha \<Rightarrow>
               (case json_index pull ''html_url'' of
                  Inl e \<Rightarrow> Inl (RuntimeError e)
                | Inr url \<Rightarrow>
                    sum_then (json_text sha) (\<lambda>sha. sum_then (json_text url) (\<lambda>url.
                      Inr \<lparr>xr_approval_request_id = appr_id approval,
                        xr_repository_full_name = pp_repository_full_name payload,
                        xr_branch = pp_feature_branch payload, xr_commit_sha = sha,
                        xr_pull_request_url = url, xr_changed_files = map fc_path (appr_files approval),
                        xr_test_status = (if xg_run_tests payload then ''PENDING_EXTERNAL_CI'' else ''NOT_RUN'')\<rparr>)))))"

text \<open>
  An execution once the plan is ready. The approval is the same object from beginning to end, and no other
  operation runs in between here.
\<close>

definition run_execution ::
    "env \<Rightarrow> world \<Rightarrow> 'a ExecuteGitHubRequest_scheme \<Rightarrow> ApprovalRequest \<Rightarrow> wsys \<Rightarrow>
     (pyerror, ExecuteGitHubResponse, wsys) outcome" where
  "run_execution E W payload approval st =
     (let (s, w) = st;
          (approval, s) = set_approval_status ApprovalStatus.EXECUTING approval s;
          s = persist s
      in case apply_on_github W payload approval w of
           (Inl e, w) \<Rightarrow>
             let (approval, s) = set_approval_status ApprovalStatus.FAILED approval s
             in raise (github_pyerror e) (persist s, w)
         | (Inr (commit, pull), w) \<Rightarrow>
             let (approval, s) = set_approval_status ApprovalStatus.READY_FOR_PR approval s;
                 s = (if xg_run_tests payload then record_external_ci E approval s else s)
             in (execution_response payload approval commit pull, persist s, w))"

text \<open>The detail of a refusal is the list of blockers, written here as one text.\<close>

definition execute_github_change ::
    "env \<Rightarrow> world \<Rightarrow> 'a ExecuteGitHubRequest_scheme \<Rightarrow> wsys \<Rightarrow> (pyerror, ExecuteGitHubResponse, wsys) outcome" where
  "execute_github_change E W payload st =
     (let (s, w) = st in
      case (fst (validate_execution E payload s), dict_get (approval_requests s) (pp_approval_request_id payload)) of
        (Inl e, _) \<Rightarrow> raise e (s, w)
      | (Inr plan, None) \<Rightarrow> raise (KeyError (pp_approval_request_id payload)) (s, w)
      | (Inr plan, Some approval) \<Rightarrow>
          if pr_ready plan then run_execution E W payload approval (s, w)
          else raise (HTTPException 409 (py_join '' '' (pr_blockers plan))) (s, w))"

chapter \<open>Properties of the runner\<close>

text \<open>
  What the GitHub runner guarantees: nothing leaves for GitHub unless the approval stands and its content is
  the sealed one, and everything sent writes that content to the one branch named. And what it does not: the
  branch is the one the request names, not the one that was approved, and an execution that opened its pull
  request can still answer with an error.
\<close>

section \<open>The requests\<close>

text \<open>The requests of an execution that change the repository.\<close>

definition names_branch :: "'a PatchPlanRequest_scheme \<Rightarrow> HttpRequest \<Rightarrow> bool" where
  "names_branch payload q \<longleftrightarrow>
     rq_method q = ''POST'' \<and> rq_url q = repo_url (pp_repository_full_name payload) ''/git/refs'' \<and>
     json_has (rq_json q) ''ref'' (''refs/heads/'' @ pp_feature_branch payload)"

definition writes_approved :: "'a PatchPlanRequest_scheme \<Rightarrow> ApprovalRequest \<Rightarrow> HttpRequest \<Rightarrow> bool" where
  "writes_approved payload approval q \<longleftrightarrow>
     (\<exists>change \<in> set (appr_files approval).
        rq_method q = ''PUT'' \<and> rq_url q = contents_url (pp_repository_full_name payload) (fc_path change) \<and>
        json_has (rq_json q) ''branch'' (pp_feature_branch payload) \<and>
        (\<exists>text. json_has (rq_json q) ''content'' text \<and> b64decode text = opt_str (fc_new_content change)))"

definition proposes :: "'a PatchPlanRequest_scheme \<Rightarrow> HttpRequest \<Rightarrow> bool" where
  "proposes payload q \<longleftrightarrow>
     rq_method q = ''POST'' \<and> rq_url q = repo_url (pp_repository_full_name payload) ''/pulls'' \<and>
     json_has (rq_json q) ''head'' (pp_feature_branch payload) \<and>
     json_has (rq_json q) ''base'' (pp_base_branch payload)"

definition runner_sends :: "'a PatchPlanRequest_scheme \<Rightarrow> ApprovalRequest \<Rightarrow> HttpRequest \<Rightarrow> bool" where
  "runner_sends payload approval q \<longleftrightarrow>
     names_branch payload q \<or> writes_approved payload approval q \<or> proposes payload q"

lemma asks_github [grow_intros]: "P (Http q) \<Longrightarrow> asks P (github W q)"
  unfolding asks_def github_def
  by (auto simp: ask_def Let_def uncaught_def raise_def ret_def liftE_def split: sum.splits)

lemma asks_unless_missing [grow_intros]:
  assumes "asks P m"
  shows "asks P (unless_missing d m)"
  unfolding asks_def
proof
  fix w
  obtain x w' where m: "m w = (x, w')" by fastforce
  with assms have "grows P w w'" by (rule asksD)
  with m show "grows P w (snd (unless_missing d m w))"
    by (auto simp: unless_missing_def ret_def raise_def split: sum.splits github_error.splits)
qed

lemma asks_runner_branch_exists [grow_intros]: "asks (is_event P) (runner_branch_exists W repo branch)"
  unfolding runner_branch_exists_def by (intro grow_intros) simp

lemma asks_existing_file_sha [grow_intros]: "asks (is_event P) (existing_file_sha W repo branch path)"
  unfolding existing_file_sha_def by (intro grow_intros) simp

lemma asks_ensure_branch:
  "asks (is_event (names_branch payload)) (ensure_branch W (pp_repository_full_name payload) (pp_feature_branch payload) sha)"
  unfolding ensure_branch_def
  by (intro grow_intros) (simp add: is_event_def names_branch_def http_send_def json_has_def)

lemma asks_write_file:
  assumes "change \<in> set (appr_files approval)"
  shows "asks (is_event (writes_approved payload approval)) (write_file W payload approval change)"
  unfolding write_file_def Let_def using assms
  by (intro grow_intros)
    (auto simp: is_event_def writes_approved_def http_send_def json_has_def b64_roundtrip intro!: bexI [OF _ assms])

lemma asks_write_files:
  "set changes \<subseteq> set (appr_files approval) \<Longrightarrow>
    asks (is_event (writes_approved payload approval)) (write_files W payload approval latest changes)"
proof (induction changes arbitrary: latest)
  case Nil
  then show ?case using asks_ret by (simp add: asks_def)
next
  case (Cons change changes)
  then show ?case
    unfolding write_files.simps by (intro grow_intros asks_write_file) simp_all
qed

lemma asks_open_review: "asks (is_event (proposes payload)) (open_review W payload approval)"
  unfolding open_review_def
  by (intro grow_intros) (simp add: is_event_def proposes_def http_send_def json_has_def)

lemma asks_apply_on_github: "asks (is_event (runner_sends payload approval)) (apply_on_github W payload approval)"
proof -
  have "asks (is_event (runner_sends payload approval))
      (ensure_branch W (pp_repository_full_name payload) (pp_feature_branch payload) sha)" for sha
    using asks_ensure_branch by (rule asks_mono) (erule is_event_mono, simp add: runner_sends_def)
  moreover have "asks (is_event (runner_sends payload approval))
      (write_files W payload approval None (appr_files approval))"
    using asks_write_files [OF subset_refl] by (rule asks_mono) (erule is_event_mono, simp add: runner_sends_def)
  moreover have "asks (is_event (runner_sends payload approval)) (open_review W payload approval)"
    using asks_open_review by (rule asks_mono) (erule is_event_mono, simp add: runner_sends_def)
  ultimately show ?thesis
    unfolding apply_on_github_def Let_def by (intro grow_intros) simp_all
qed

section \<open>The execution\<close>

text \<open>An approval that may be executed: it stands, is not blocked and is unchanged since it was sealed.\<close>

definition executable_approval :: "env \<Rightarrow> ApprovalRequest \<Rightarrow> bool" where
  "executable_approval E a \<longleftrightarrow>
     appr_status a = ApprovalStatus.APPROVED \<and> \<not> ra_blocked (appr_risk a) \<and>
     appr_approved_payload_hash a = Some (compute_approval_payload_hash E a) \<and>
     appr_files a \<noteq> [] \<and> list_all (\<lambda>f. truthy (fc_new_content f)) (appr_files a)"

definition admissible_branch :: "'a PatchPlanRequest_scheme \<Rightarrow> bool" where
  "admissible_branch payload \<longleftrightarrow>
     py_lower (pp_feature_branch payload) \<notin> set RUNNER_PROTECTED_BRANCHES \<and>
     pp_feature_branch payload \<noteq> pp_base_branch payload \<and>
     (pp_feature_branch payload = [] \<longrightarrow> py_lower (pp_base_branch payload) \<notin> set RUNNER_PROTECTED_BRANCHES)"

lemma hash_truthy [simp]: "compute_approval_payload_hash E a \<noteq> []"
  by (simp add: compute_approval_payload_hash_def)

lemma hash_blockers_none:
  "hash_blockers E a = [] \<longleftrightarrow> appr_approved_payload_hash a = Some (compute_approval_payload_hash E a)"
  by (cases "appr_approved_payload_hash a = Some (compute_approval_payload_hash E a)") (auto simp: hash_blockers_def)

lemma patch_blockers_none:
  "patch_blockers E payload a = [] \<longleftrightarrow> executable_approval E a \<and> admissible_branch payload"
  by (auto simp: patch_blockers_def hash_blockers_none branch_blockers_def executable_approval_def
      admissible_branch_def list_ex_iff list_all_iff)

lemma validate_execution_iff:
  "validate_execution E payload s = (Inr plan, s') \<and> pr_ready plan \<longleftrightarrow>
     s' = s \<and> (\<exists>a. dict_get (approval_requests s) (pp_approval_request_id payload) = Some a \<and>
       executable_approval E a \<and> admissible_branch payload \<and>
       validate_execution E payload s = (Inr plan, s))"
  by (auto simp: validate_execution_def ret_def raise_def Let_def patch_blockers_none split: option.splits)

lemma execute_cases:
  "execute_github_change E W payload (s, w) =
     (case dict_get (approval_requests s) (pp_approval_request_id payload) of
        None \<Rightarrow> (Inl (HTTPException 404 ''Approval request not found''), s, w)
      | Some a \<Rightarrow>
          if executable_approval E a \<and> admissible_branch payload then run_execution E W payload a (s, w)
          else (Inl (HTTPException 409 (py_join '' '' (patch_blockers E payload a))), s, w))"
  by (auto simp: execute_github_change_def validate_execution_def ret_def raise_def Let_def patch_blockers_none
      split: option.splits)

text \<open>The statuses an execution passes through.\<close>

lemma record_external_ci_approvals [simp]:
  "approval_requests (record_external_ci E a s) = approval_requests s"
  by (simp add: record_external_ci_def put_test_run_def drawn_def)

lemma run_execution_ends:
  assumes "run_execution E W payload a (s, w) = (x, s', w')" "appr_id a = i"
  shows "grows (is_event (runner_sends payload a)) w w' \<and> (\<exists>b. dict_get (approval_requests s') i = Some b \<and>
    dict_get (approval_requests (rows (disk s'))) i = Some b \<and>
    approval_payload_snapshot b = approval_payload_snapshot a \<and>
    (appr_status b = ApprovalStatus.READY_FOR_PR \<or> appr_status b = ApprovalStatus.FAILED \<and> (\<exists>e. x = Inl e)))"
proof -
  let ?a = "a\<lparr>appr_status := ApprovalStatus.EXECUTING, appr_updated_at := clock s\<rparr>"
  obtain y w1 where g: "apply_on_github W payload ?a w = (y, w1)" by fastforce
  have "grows (is_event (runner_sends payload ?a)) w w1" using asksD [OF asks_apply_on_github g] .
  then have "grows (is_event (runner_sends payload a)) w w1"
    by (rule grows_mono) (erule is_event_mono, simp add: runner_sends_def writes_approved_def)
  then show ?thesis
    using assms g
    by (cases y) (auto simp: run_execution_def set_approval_status_def put_approval_def Let_def raise_def
        approval_payload_snapshot_def split: prod.splits)
qed

text \<open>
  C34. The GitHub runner sends what was approved, or nothing. However GitHub answers, an execution sends a
  request only for an approval that stands, is not blocked and still hashes to the value sealed at its
  approval, and only to a feature branch that is not protected and not the base; each request then reads,
  creates that branch, writes an approved file on it with the approved content, or opens the pull request
  from it to the base. Afterwards the approval is READY_FOR_PR or FAILED, in memory and in the database,
  with the content it had, and READY_FOR_PR whenever the route answers.
\<close>

theorem runner_sends_what_was_approved:
  assumes "execute_github_change E W payload (s, w) = (x, s', w')" "keyed appr_id (approval_requests s)"
  shows "(w' = w \<and> s' = s \<and> (\<exists>e. x = Inl e)) \<or>
    (\<exists>a b new. dict_get (approval_requests s) (pp_approval_request_id payload) = Some a \<and>
      executable_approval E a \<and> admissible_branch payload \<and> w' = w @ new \<and>
      (\<forall>q. Http q \<in> set new \<longrightarrow> rq_method q = ''GET'' \<or> runner_sends payload a q) \<and>
      dict_get (approval_requests s') (pp_approval_request_id payload) = Some b \<and>
      dict_get (approval_requests (rows (disk s'))) (pp_approval_request_id payload) = Some b \<and>
      approval_payload_snapshot b = approval_payload_snapshot a \<and>
      appr_status b \<in> set [ApprovalStatus.READY_FOR_PR, ApprovalStatus.FAILED] \<and>
      ((\<exists>r. x = Inr r) \<longrightarrow> appr_status b = ApprovalStatus.READY_FOR_PR))"
proof (cases "\<exists>a. dict_get (approval_requests s) (pp_approval_request_id payload) = Some a \<and>
    executable_approval E a \<and> admissible_branch payload")
  case False
  then show ?thesis using assms(1) by (auto simp: execute_cases split: option.splits if_splits)
next
  case True
  then obtain a where a: "dict_get (approval_requests s) (pp_approval_request_id payload) = Some a"
      "executable_approval E a" "admissible_branch payload" by blast
  then have r: "run_execution E W payload a (s, w) = (x, s', w')" using assms(1) by (simp add: execute_cases)
  have i: "appr_id a = pp_approval_request_id payload" using assms(2) a(1) by (auto simp: keyed_get_iff)
  from run_execution_ends [OF r i] obtain b where g: "grows (is_event (runner_sends payload a)) w w'"
    and b: "dict_get (approval_requests s') (pp_approval_request_id payload) = Some b"
      "dict_get (approval_requests (rows (disk s'))) (pp_approval_request_id payload) = Some b"
      "approval_payload_snapshot b = approval_payload_snapshot a"
    and st: "appr_status b = ApprovalStatus.READY_FOR_PR \<or> appr_status b = ApprovalStatus.FAILED \<and> (\<exists>e. x = Inl e)"
    by blast
  from g obtain new where new: "w' = w @ new" "list_all (is_event (runner_sends payload a)) new"
    by (auto simp: grows_def)
  have "\<forall>q. Http q \<in> set new \<longrightarrow> rq_method q = ''GET'' \<or> runner_sends payload a q"
    using new(2) by (auto simp: list_all_iff is_event_def is_get_def)
  moreover have "appr_status b \<in> set [ApprovalStatus.READY_FOR_PR, ApprovalStatus.FAILED]"
    "(\<exists>r. x = Inr r) \<longrightarrow> appr_status b = ApprovalStatus.READY_FOR_PR" using st by auto
  ultimately show ?thesis using a b new(1) by blast
qed

text \<open>
  The approval binds neither the repository nor the branch. Its target branch is part of the sealed
  content, but the runner goes by the branches and the repository of the request: when an approval may be
  executed at all, it may be executed on every repository and from every base to every unprotected branch.
\<close>

theorem runner_ignores_approved_branch:
  assumes "validate_execution E payload s = (Inr plan, s)" "pr_ready plan"
    "pp_approval_request_id elsewhere = pp_approval_request_id payload" "admissible_branch elsewhere"
  shows "\<exists>plan'. validate_execution E elsewhere s = (Inr plan', s) \<and> pr_ready plan' \<and>
    pr_repository_full_name plan' = pp_repository_full_name elsewhere \<and>
    pr_feature_branch plan' = pp_feature_branch elsewhere \<and> pr_files plan' = pr_files plan"
  using assms
  by (auto simp: validate_execution_def ret_def raise_def Let_def patch_blockers_none split: option.splits)

section \<open>Instances\<close>

text \<open>A sealed approval, and a GitHub that accepts everything but knows neither the branch nor the file.\<close>

definition sealed_file :: FileChange where
  "sealed_file = sample_file\<lparr>fc_new_content := Some ''x''\<rparr>"

definition sealed_approval :: ApprovalRequest where
  "sealed_approval = (let a = sample_approval\<lparr>appr_files := [sealed_file]\<rparr>
     in a\<lparr>appr_approved_payload_hash := Some (compute_approval_payload_hash sample_env a)\<rparr>)"

definition runner_sys :: sys where
  "runner_sys = sys_of (empty_store\<lparr>approval_requests := [(''appr1'', sealed_approval)]\<rparr>) 1000000 0 empty_store"

definition runner_payload :: "string \<Rightarrow> string \<Rightarrow> ExecuteGitHubRequest" where
  "runner_payload repo branch = \<lparr>pp_approval_request_id = ''appr1'', pp_repository_full_name = repo,
     pp_base_branch = ''main'', pp_feature_branch = branch, xg_commit_message = ''Apply'',
     xg_pr_title = None, xg_pr_body = None, xg_run_tests = False\<rparr>"

definition runner_world :: world where
  "runner_world = \<lparr>http_reply = (\<lambda>w q. Inr
       (if rq_method q = ''GET'' then
          (if w = [] then \<lparr>hr_status = 200, hr_text = ''x'', hr_json = Inr (JObj [(''object'', JObj [(''sha'', JStr ''m1'')])])\<rparr>
           else \<lparr>hr_status = 404, hr_text = ''no'', hr_json = Inr JNull\<rparr>)
        else \<lparr>hr_status = 201, hr_text = ''x'',
          hr_json = Inr (JObj [(''commit'', JObj [(''sha'', JStr ''c1'')]), (''html_url'', JStr ''u'')])\<rparr>)),
     process_reply = (\<lambda>w args cwd limit. Completed 0 [] [] 1), resolve_path = (\<lambda>p. p),
     directory_exists = (\<lambda>w p. True), new_directory = (\<lambda>p prefix. prefix), github_token = ''token''\<rparr>"

lemma runner_sys_parts:
  "dict_get (approval_requests runner_sys) ''appr1'' = Some sealed_approval" "keyed appr_id (approval_requests runner_sys)"
  by (simp_all add: runner_sys_def sys_of_def empty_store_def store.defs keyed_Cons sealed_approval_def Let_def
      sample_approval_def)

lemma sealed_executable: "executable_approval sample_env sealed_approval"
proof -
  let ?a = "sample_approval\<lparr>appr_files := [sealed_file]\<rparr>"
  have "approval_payload_snapshot sealed_approval = approval_payload_snapshot ?a"
    by (simp add: sealed_approval_def approval_payload_snapshot_def Let_def)
  then have "compute_approval_payload_hash sample_env sealed_approval = compute_approval_payload_hash sample_env ?a"
    by (simp add: compute_approval_payload_hash_def)
  then show ?thesis
    by (simp add: executable_approval_def sealed_approval_def Let_def sample_approval_def sealed_file_def)
qed

lemma runner_sends_what_was_approved_witness:
  "rq_method (http_send ''PUT'' (contents_url ''o/r'' ''x'') []) \<noteq> ''GET'' \<and>
    list_all (\<lambda>e. case e of Http q \<Rightarrow> rq_method q = ''GET'' \<or> runner_sends (runner_payload ''o/r'' ''feature/x'') sealed_approval q | _ \<Rightarrow> True)
     (snd (snd (execute_github_change sample_env runner_world (runner_payload ''o/r'' ''feature/x'') (runner_sys, []))))"
proof -
  obtain x s' w' where r: "execute_github_change sample_env runner_world (runner_payload ''o/r'' ''feature/x'')
      (runner_sys, []) = (x, s', w')" by (metis surj_pair)
  have "pp_approval_request_id (runner_payload ''o/r'' ''feature/x'') = ''appr1''" by (simp add: runner_payload_def)
  then show ?thesis
    using runner_sends_what_was_approved [OF r runner_sys_parts(2)] runner_sys_parts(1) r
    by (auto simp: list_all_iff http_send_def split: outside.splits)
qed

lemma runner_ignores_approved_branch_witness:
  "appr_target_branch sealed_approval = ''feature/x'' \<and>
    (\<exists>plan'. validate_execution sample_env (runner_payload ''other/repo'' ''anything'') runner_sys = (Inr plan', runner_sys) \<and>
       pr_ready plan' \<and> pr_feature_branch plan' = ''anything'')"
proof -
  have adm: "admissible_branch (runner_payload r ''anything'')" "admissible_branch (runner_payload r ''feature/x'')" for r
    by (simp_all add: admissible_branch_def runner_payload_def RUNNER_PROTECTED_BRANCHES_def py_lower_def lower_char_def)
  have id: "pp_approval_request_id (runner_payload r b) = ''appr1''" for r b by (simp add: runner_payload_def)
  have "\<exists>plan. validate_execution sample_env (runner_payload ''o/r'' ''feature/x'') runner_sys = (Inr plan, runner_sys) \<and> pr_ready plan"
    using sealed_executable adm(2)
    by (simp add: validate_execution_def id runner_sys_parts(1) ret_def Let_def patch_blockers_none)
  then obtain plan where "validate_execution sample_env (runner_payload ''o/r'' ''feature/x'') runner_sys = (Inr plan, runner_sys)"
      "pr_ready plan" by blast
  from runner_ignores_approved_branch [OF this, of "runner_payload ''other/repo'' ''anything''"] adm(1) show ?thesis
    by (auto simp: id sealed_approval_def sample_approval_def Let_def runner_payload_def)
qed

end
