(* ===== verification/McpGateway.thy ===== *)
theory McpGateway
  imports ApprovalRoutes
begin

text \<open>
  \<open>child_mcp_test_server.py\<close> and \<open>mcp_child_router.py\<close>: the servers behind the gateway. A call
  goes to the first enabled server of that name, over its transport: the in-memory test servers, which
  keep what they received, or an HTTP endpoint. The HTTP exchange is a parameter: \<open>post n endpoint
  body\<close> is what the n-th request of the process meets, as \<open>json.loads\<close> reads the answer.
\<close>

record ChildMCPToolCall =
  cc_server_name :: string
  cc_tool_name :: string
  cc_arguments :: jdict
  cc_session_id :: "string option"
  cc_requested_by :: string

record MCPGatewayToolCall =
  mc_server_name :: string
  mc_tool_name :: string
  mc_arguments :: jdict
  mc_session_id :: "string option"
  mc_requested_by :: string
  mc_mutating :: "bool option"

datatype http_reply =
    UrlFailure string
  | EmptyReply
  | TextReply string
  | JsonReply json
  | Fails pyerror

type_synonym http = "nat \<Rightarrow> string \<Rightarrow> json \<Rightarrow> http_reply"

text \<open>
  The state of the process for the gateway: the store, what the test servers and the endpoints have
  received, and the calls each project's gateway holds in memory (\<open>_gateways\<close>, \<open>_pending_calls\<close>).
\<close>

record mcp =
  base :: sys
  default_test_server :: "ChildMCPToolCall list"
  test_servers_by_name :: "(string, ChildMCPToolCall list) dict"
  posted :: "(string \<times> json) list"
  gateways :: "(string, (string, MCPGatewayToolCall) dict) dict"

type_synonym 'a mcp_result = "(pyerror, 'a, mcp) outcome"

definition on_base :: "(sys \<Rightarrow> sys) \<Rightarrow> mcp \<Rightarrow> mcp" where
  "on_base f m = m\<lparr>base := f (base m)\<rparr>"

section \<open>The in-memory test server\<close>

definition test_reply :: "ChildMCPToolCall \<Rightarrow> nat \<Rightarrow> jdict" where
  "test_reply call received =
     [(''ok'', JBool True), (''server_name'', JStr (cc_server_name call)),
      (''tool_name'', JStr (cc_tool_name call)), (''received_count'', JInt (int received))]"

definition test_server_call_tool ::
    "ChildMCPToolCall \<Rightarrow> ChildMCPToolCall list \<Rightarrow> jdict \<times> ChildMCPToolCall list" where
  "test_server_call_tool call received =
     (test_reply call (length received + 1), received @ [call])"

section \<open>The router\<close>

definition find_registered_server :: "string \<Rightarrow> sys \<Rightarrow> MCPChildServer option" where
  "find_registered_server name s =
     find (\<lambda>server. srv_name server = name \<and> srv_enabled server) (dict_vals (mcp_child_servers s))"

definition failed_call :: "string \<Rightarrow> ChildMCPToolCall \<Rightarrow> string \<Rightarrow> jdict" where
  "failed_call server call error =
     [(''ok'', JBool False), (''server_name'', JStr server), (''tool_name'', JStr (cc_tool_name call)),
      (''error'', JStr error)]"

definition call_test_server :: "MCPChildServer \<Rightarrow> ChildMCPToolCall \<Rightarrow> mcp \<Rightarrow> jdict mcp_result" where
  "call_test_server server call m =
     (let received = (case dict_get (test_servers_by_name m) (srv_name server) of None \<Rightarrow> [] | Some r \<Rightarrow> r);
          (reply, received) = test_server_call_tool call received
      in ret reply (m\<lparr>test_servers_by_name :=
           dict_set (srv_name server) received (test_servers_by_name m)\<rparr>))"

definition post_json ::
    "http \<Rightarrow> MCPChildServer \<Rightarrow> ChildMCPToolCall \<Rightarrow> json \<Rightarrow> mcp \<Rightarrow> jdict mcp_result" where
  "post_json http server call payload m =
     (let reply = http (length (posted m)) (srv_endpoint server) payload;
          m = m\<lparr>posted := posted m @ [(srv_endpoint server, payload)]\<rparr>
      in case reply of
           UrlFailure e \<Rightarrow> ret (failed_call (srv_name server) call e) m
         | EmptyReply \<Rightarrow>
             ret [(''ok'', JBool True), (''server_name'', JStr (srv_name server)),
                  (''tool_name'', JStr (cc_tool_name call))] m
         | TextReply t \<Rightarrow>
             ret [(''ok'', JBool True), (''server_name'', JStr (srv_name server)),
                  (''tool_name'', JStr (cc_tool_name call)), (''raw_response'', JStr t)] m
         | JsonReply (JObj d) \<Rightarrow> ret d m
         | JsonReply v \<Rightarrow> ret [(''ok'', JBool True), (''response'', v)] m
         | Fails e \<Rightarrow> raise e m)"

definition child_call_json :: "ChildMCPToolCall \<Rightarrow> json" where
  "child_call_json call =
     JObj [(''server_name'', JStr (cc_server_name call)), (''tool_name'', JStr (cc_tool_name call)),
           (''arguments'', JObj (cc_arguments call)), (''session_id'', json_opt_str (cc_session_id call)),
           (''requested_by'', JStr (cc_requested_by call))]"

definition call_http_server ::
    "http \<Rightarrow> MCPChildServer \<Rightarrow> ChildMCPToolCall \<Rightarrow> mcp \<Rightarrow> jdict mcp_result" where
  "call_http_server http server call m =
     (if srv_endpoint server = [] then
        ret (failed_call (srv_name server) call ''HTTP MCP child server endpoint is not configured.'') m
      else post_json http server call (child_call_json call) m)"

definition jsonrpc_request :: "MCPChildServer \<Rightarrow> ChildMCPToolCall \<Rightarrow> json" where
  "jsonrpc_request server call =
     JObj [(''jsonrpc'', JStr ''2.0''),
           (''id'', JStr (str_or (opt_str (cc_session_id call))
              (''aixion-'' @ srv_name server @ ''-'' @ cc_tool_name call))),
           (''method'', JStr ''tools/call''),
           (''params'', JObj [(''name'', JStr (cc_tool_name call)), (''arguments'', JObj (cc_arguments call))])]"

definition jsonrpc_reply :: "MCPChildServer \<Rightarrow> ChildMCPToolCall \<Rightarrow> jdict \<Rightarrow> jdict" where
  "jsonrpc_reply server call response =
     (if dict_get response ''error'' \<noteq> None \<and> dict_get response ''result'' = None then response
      else
        [(''ok'', JBool (case dict_get response ''error'' of None \<Rightarrow> True | Some v \<Rightarrow> v = JNull)),
         (''server_name'', JStr (srv_name server)), (''tool_name'', JStr (cc_tool_name call)),
         (''jsonrpc_response'', JObj response)])"

definition call_http_jsonrpc_server ::
    "http \<Rightarrow> MCPChildServer \<Rightarrow> ChildMCPToolCall \<Rightarrow> mcp \<Rightarrow> jdict mcp_result" where
  "call_http_jsonrpc_server http server call m =
     (if srv_endpoint server = [] then
        ret (failed_call (srv_name server) call
          ''HTTP JSON-RPC MCP child server endpoint is not configured.'') m
      else
        bindE (post_json http server call (jsonrpc_request server call) m)
          (\<lambda>response m. ret (jsonrpc_reply server call response) m))"

definition call_tool :: "http \<Rightarrow> ChildMCPToolCall \<Rightarrow> mcp \<Rightarrow> jdict mcp_result" where
  "call_tool http call m =
     (case find_registered_server (cc_server_name call) (base m) of
        None \<Rightarrow>
          let (reply, received) = test_server_call_tool call (default_test_server m)
          in ret reply (m\<lparr>default_test_server := received\<rparr>)
      | Some server \<Rightarrow>
          if srv_transport server = ''test'' then call_test_server server call m
          else if srv_transport server = ''http'' then call_http_server http server call m
          else if srv_transport server = ''http-jsonrpc'' then call_http_jsonrpc_server http server call m
          else ret (failed_call (srv_name server) call
                 (''Unsupported MCP child server transport: '' @ srv_transport server)) m)"

section \<open>What a call changes\<close>

text \<open>Everything the servers behind the gateway have been given.\<close>

definition received ::
    "mcp \<Rightarrow> ChildMCPToolCall list \<times> (string, ChildMCPToolCall list) dict \<times> (string \<times> json) list" where
  "received m = (default_test_server m, test_servers_by_name m, posted m)"

text \<open>\<open>received_count_for_test\<close> and \<open>received_count_for_server_for_test\<close>.\<close>

definition received_count :: "mcp \<Rightarrow> nat" where
  "received_count m = length (default_test_server m) + (\<Sum>r\<leftarrow>dict_vals (test_servers_by_name m). length r)"

definition received_count_for_server :: "string \<Rightarrow> mcp \<Rightarrow> nat" where
  "received_count_for_server name m =
     (if name = ''child-test-server'' then length (default_test_server m)
      else case dict_get (test_servers_by_name m) name of None \<Rightarrow> 0 | Some r \<Rightarrow> length r)"

lemma on_base_simps [simp]:
  "base (on_base f m) = f (base m)" "received (on_base f m) = received m"
  "gateways (on_base f m) = gateways m" "on_base f (on_base g m) = on_base (f \<circ> g) m"
  "default_test_server (on_base f m) = default_test_server m"
  "test_servers_by_name (on_base f m) = test_servers_by_name m" "posted (on_base f m) = posted m"
  by (simp_all add: on_base_def received_def)

lemma received_gateways [simp]: "received (m\<lparr>gateways := g\<rparr>) = received m"
  by (simp add: received_def)

lemma post_json_keeps [simp]:
  "base (snd (post_json http server call p m)) = base m"
  "gateways (snd (post_json http server call p m)) = gateways m"
  by (auto simp: post_json_def Let_def split: http_reply.splits json.splits)

lemma snd_bindE_ret: "snd (bindE r (\<lambda>a s. ret (f a) s)) = snd r"
  by (cases r; cases "fst r") (auto simp: bindE_def ret_def)

text \<open>A call changes neither the store nor the calls that wait.\<close>

lemma call_tool_keeps [simp]:
  "base (snd (call_tool http call m)) = base m"
  "gateways (snd (call_tool http call m)) = gateways m"
  by (auto simp: call_tool_def call_test_server_def call_http_server_def call_http_jsonrpc_server_def
      snd_bindE_ret Let_def split: option.splits prod.splits)

text \<open>Without a registered server the call reaches the default test server, exactly once.\<close>

lemma call_tool_default:
  "find_registered_server (cc_server_name call) (base m) = None \<Longrightarrow>
    call_tool http call m =
      (Inr (test_reply call (length (default_test_server m) + 1)),
       m\<lparr>default_test_server := default_test_server m @ [call]\<rparr>)"
  by (simp add: call_tool_def test_server_call_tool_def ret_def)

chapter \<open>The gateway\<close>

text \<open>
  \<open>mcp_gateway.py\<close>: the approval gate in front of the child servers. A mutating call becomes an
  approval request and a pending request, and reaches its server when it is resolved under an
  approved request whose content is unchanged. The pending request is an object of the store,
  read again where the code looks it up again. The \<open>threading.Event\<close> of a waiting caller is left out:
  the routes resolve without a timeout, so nothing waits on it.
\<close>

record MCPGatewayDecision =
  gd_forwarded :: bool
  gd_approval_required :: bool
  gd_approval_request_id :: "string option"
  gd_status :: "ApprovalStatus option"
  gd_result :: "jdict option"
  gd_reason :: string

definition MCP_MUTATING_TOOL_NAMES :: "string list" where
  "MCP_MUTATING_TOOL_NAMES = [''write_file'', ''edit_file'', ''apply_patch'', ''github_create_pr'']"

definition FINAL_PENDING_STATUSES :: "MCPPendingStatus list" where
  "FINAL_PENDING_STATUSES = [FORWARDED, BLOCKED_BY_DECISION, ORPHANED, DEAD_LETTER]"

definition LEASE_SECONDS :: int where
  "LEASE_SECONDS = 30"

definition is_mutating :: "MCPGatewayToolCall \<Rightarrow> bool" where
  "is_mutating call =
     (case mc_mutating call of
        Some b \<Rightarrow> b
      | None \<Rightarrow> mc_tool_name call \<in> set MCP_MUTATING_TOOL_NAMES)"

definition child_call :: "MCPGatewayToolCall \<Rightarrow> ChildMCPToolCall" where
  "child_call call =
     \<lparr>cc_server_name = mc_server_name call, cc_tool_name = mc_tool_name call,
      cc_arguments = mc_arguments call, cc_session_id = mc_session_id call,
      cc_requested_by = mc_requested_by call\<rparr>"

definition forward :: "http \<Rightarrow> MCPGatewayToolCall \<Rightarrow> mcp \<Rightarrow> jdict mcp_result" where
  "forward http call m = call_tool http (child_call call) m"

section \<open>The calls a gateway holds in memory\<close>

definition pending_calls :: "string \<Rightarrow> mcp \<Rightarrow> (string, MCPGatewayToolCall) dict" where
  "pending_calls pid m = (case dict_get (gateways m) pid of None \<Rightarrow> [] | Some calls \<Rightarrow> calls)"

definition hold_call :: "string \<Rightarrow> string \<Rightarrow> MCPGatewayToolCall \<Rightarrow> mcp \<Rightarrow> mcp" where
  "hold_call pid aid call m =
     m\<lparr>gateways := dict_set pid (dict_set aid call (pending_calls pid m)) (gateways m)\<rparr>"

definition drop_call :: "string \<Rightarrow> string \<Rightarrow> mcp \<Rightarrow> mcp" where
  "drop_call pid aid m =
     m\<lparr>gateways := dict_set pid (dict_pop aid (pending_calls pid m)) (gateways m)\<rparr>"

section \<open>Pending requests\<close>

definition pending_for_approval :: "string \<Rightarrow> sys \<Rightarrow> MCPPendingRequest option" where
  "pending_for_approval aid s =
     find (\<lambda>p. mp_approval_request_id p = aid) (dict_vals (mcp_pending_requests s))"

definition final_pending :: "MCPPendingRequest \<Rightarrow> bool" where
  "final_pending p \<longleftrightarrow> mp_status p \<in> set FINAL_PENDING_STATUSES"

definition mark_pending_status :: "string \<Rightarrow> MCPPendingStatus \<Rightarrow> sys \<Rightarrow> sys" where
  "mark_pending_status aid status s =
     (case pending_for_approval aid s of
        None \<Rightarrow> s
      | Some p \<Rightarrow>
          if final_pending p then s
          else
            let p = p\<lparr>mp_status := status\<rparr>;
                p = (if status \<in> set FINAL_PENDING_STATUSES
                     then p\<lparr>mp_lease_owner := None, mp_lease_expires_at := None\<rparr> else p)
            in persist (put_pending (p\<lparr>mp_updated_at := clock s\<rparr>) s))"

text \<open>A lease that has not expired; a missing end is no lease.\<close>

definition lease_runs :: "MCPPendingRequest \<Rightarrow> int \<Rightarrow> bool" where
  "lease_runs p now = (case mp_lease_expires_at p of None \<Rightarrow> False | Some t \<Rightarrow> now < t)"

definition acquire_pending_lease :: "MCPPendingRequest \<Rightarrow> sys \<Rightarrow> bool \<times> sys" where
  "acquire_pending_lease p s =
     (if mp_status p = FORWARDING \<and> lease_runs p (clock s) then (False, s)
      else if mp_status p \<notin> {MCPPendingStatus.WAITING_FOR_APPROVAL, FORWARDING} then (False, s)
      else
        (True, persist (put_pending
           (p\<lparr>mp_status := FORWARDING, mp_attempts := mp_attempts p + 1,
              mp_lease_owner := Some ''mcp-gateway-resolver'',
              mp_lease_expires_at := Some (clock s + seconds LEASE_SECONDS),
              mp_updated_at := clock s\<rparr>) s)))"

definition release_stale_lease :: "MCPPendingRequest \<Rightarrow> sys \<Rightarrow> sys" where
  "release_stale_lease p s =
     persist (put_pending
       (p\<lparr>mp_status := MCPPendingStatus.WAITING_FOR_APPROVAL, mp_lease_owner := None,
          mp_lease_expires_at := None, mp_updated_at := clock s\<rparr>) s)"

definition recover_pending_call :: "string \<Rightarrow> sys \<Rightarrow> MCPGatewayToolCall option" where
  "recover_pending_call aid s =
     (case pending_for_approval aid s of
        None \<Rightarrow> None
      | Some p \<Rightarrow>
          if mp_status p \<noteq> MCPPendingStatus.WAITING_FOR_APPROVAL then None
          else Some \<lparr>mc_server_name = mp_server_name p, mc_tool_name = mp_tool_name p,
            mc_arguments = mp_arguments p, mc_session_id = mp_session_id p,
            mc_requested_by = mp_requested_by p, mc_mutating = Some True\<rparr>)"

text \<open>\<open>str(result.get("error") or result)\<close>\<close>

definition forward_error :: "env \<Rightarrow> jdict \<Rightarrow> string" where
  "forward_error E result =
     (case dict_get result ''error'' of
        None \<Rightarrow> py_str E (JObj result)
      | Some v \<Rightarrow> if json_truthy v then py_str E v else py_str E (JObj result))"

definition json_opt_int :: "int option \<Rightarrow> json" where
  "json_opt_int x = (case x of None \<Rightarrow> JNull | Some i \<Rightarrow> JInt i)"

definition handle_forward_failure ::
    "env \<Rightarrow> ApprovalRequest \<Rightarrow> MCPGatewayToolCall \<Rightarrow> jdict \<Rightarrow> sys \<Rightarrow> sys" where
  "handle_forward_failure E approval call result s =
     (let error = forward_error E result;
          failed = map_option (\<lambda>p. p\<lparr>mp_last_error := Some error, mp_lease_owner := None,
              mp_lease_expires_at := None,
              mp_status := (if mp_attempts p \<ge> mp_max_attempts p then DEAD_LETTER
                            else MCPPendingStatus.WAITING_FOR_APPROVAL),
              mp_updated_at := clock s\<rparr>) (pending_for_approval (appr_id approval) s);
          s = (case failed of None \<Rightarrow> s | Some p \<Rightarrow> put_pending p s);
          dead = (case failed of None \<Rightarrow> False | Some p \<Rightarrow> mp_status p = DEAD_LETTER)
      in persist (add_audit E (if dead then ''MCP_PENDING_DEAD_LETTERED'' else ''MCP_PENDING_FORWARD_FAILED'')
           (appr_id approval)
           [(''server_name'', JStr (mc_server_name call)), (''tool_name'', JStr (mc_tool_name call)),
            (''attempts'', json_opt_int (map_option mp_attempts failed)),
            (''max_attempts'', json_opt_int (map_option mp_max_attempts failed)),
            (''mcp_pending_request_id'', json_opt_str (map_option mp_id failed)),
            (''error'', JStr error)]
           ''mcp-gateway'' s))"

definition audit_forwarded_after_approval ::
    "env \<Rightarrow> ApprovalRequest \<Rightarrow> MCPGatewayToolCall \<Rightarrow> sys \<Rightarrow> sys" where
  "audit_forwarded_after_approval E approval call s =
     (let p = pending_for_approval (appr_id approval) s
      in persist (add_audit E ''FORWARDED_AFTER_APPROVAL'' (appr_id approval)
           [(''server_name'', JStr (mc_server_name call)), (''tool_name'', JStr (mc_tool_name call)),
            (''approved_payload_hash'', json_opt_str (appr_approved_payload_hash approval)),
            (''mcp_pending_request_id'', json_opt_str (map_option mp_id p)),
            (''attempts'', json_opt_int (map_option mp_attempts p))]
           ''mcp-gateway'' s))"

section \<open>Submitting a call\<close>

definition call_dump :: "MCPGatewayToolCall \<Rightarrow> json" where
  "call_dump call =
     JObj [(''server_name'', JStr (mc_server_name call)), (''tool_name'', JStr (mc_tool_name call)),
           (''arguments'', JObj (mc_arguments call)), (''session_id'', json_opt_str (mc_session_id call)),
           (''requested_by'', JStr (mc_requested_by call)),
           (''mutating'', case mc_mutating call of None \<Rightarrow> JNull | Some b \<Rightarrow> JBool b)]"

definition gateway_request :: "env \<Rightarrow> string \<Rightarrow> MCPGatewayToolCall \<Rightarrow> ApprovalRequestCreate" where
  "gateway_request E pid call =
     \<lparr>appr_project_id = pid, appr_work_order_id = None,
      appr_title = ''Approve MCP tool call: '' @ mc_tool_name call,
      appr_summary = ''Gateway intercepted mutating MCP call for '' @ mc_server_name call @ ''.'' @
        mc_tool_name call,
      appr_agent_name = ''mcp-gateway'', appr_target_branch = ''mcp-gateway/'' @ mc_tool_name call,
      appr_files =
        [\<lparr>fc_path = ''mcp://'' @ mc_server_name call @ ''/'' @ mc_tool_name call,
          fc_change_type = ''mcp_tool_call'',
          fc_diff = ''MCP mutating tool call requires approval: '' @ py_str E (call_dump call),
          fc_new_content = Some (py_str E (call_dump call))\<rparr>],
      appr_test_plan = [''MCP gateway must forward only after approval.''],
      appr_rollback_plan = ''Deny or expire the approval; the child MCP server receives nothing.'',
      appr_source_provider = Some AgentProvider.OTHER, appr_source_agent_id = None,
      appr_source_agent_name = Some ''mcp-gateway'', appr_source_session_id = mc_session_id call,
      appr_source_task_url = None\<rparr>"

definition gateway_risk :: RiskAssessment where
  "gateway_risk =
     \<lparr>ra_level = RiskLevel.HIGH, ra_reasons = [''Mutating MCP tool call intercepted by gateway.''],
      ra_blocked = False, ra_required_actions = []\<rparr>"

definition new_pending ::
    "env \<Rightarrow> string \<Rightarrow> string \<Rightarrow> MCPGatewayToolCall \<Rightarrow> sys \<Rightarrow> MCPPendingRequest" where
  "new_pending E pid aid call s =
     \<lparr>mp_id = new_id E ''mcp_pending'' s, mp_project_id = pid, mp_approval_request_id = aid,
      mp_server_name = mc_server_name call, mp_tool_name = mc_tool_name call,
      mp_arguments = mc_arguments call, mp_session_id = mc_session_id call,
      mp_requested_by = mc_requested_by call, mp_status = MCPPendingStatus.WAITING_FOR_APPROVAL,
      mp_attempts = 0, mp_max_attempts = 3, mp_lease_owner = None, mp_lease_expires_at = None,
      mp_last_error = None, mp_created_at = clock s, mp_updated_at = clock s\<rparr>"

definition gateway_create_approval ::
    "env \<Rightarrow> string \<Rightarrow> MCPGatewayToolCall \<Rightarrow> sys \<Rightarrow> ApprovalRequest \<times> sys" where
  "gateway_create_approval E pid call s =
     (let approval = new_approval_request E (gateway_request E pid call) ApprovalStatus.REQUESTED
            gateway_risk None True s;
          pending = new_pending E pid (appr_id approval) call (drawn s);
          s = put_pending pending (put_approval approval (drawn (drawn s)));
          s = add_audit E ''mcp.approval_requested'' (appr_id approval)
            [(''server_name'', JStr (mc_server_name call)), (''tool_name'', JStr (mc_tool_name call)),
             (''mutating'', JBool True), (''mcp_pending_request_id'', JStr (mp_id pending))]
            (mc_requested_by call) s
      in (approval, persist s))"

definition submit_tool_call ::
    "env \<Rightarrow> http \<Rightarrow> string \<Rightarrow> MCPGatewayToolCall \<Rightarrow> mcp \<Rightarrow> MCPGatewayDecision mcp_result" where
  "submit_tool_call E http pid call m =
     (if \<not> is_mutating call then
        bindE (forward http call m) (\<lambda>result m.
          ret \<lparr>gd_forwarded = True, gd_approval_required = False, gd_approval_request_id = None,
               gd_status = None, gd_result = Some result, gd_reason = []\<rparr> m)
      else
        let (approval, s) = gateway_create_approval E pid call (base m);
            m = hold_call pid (appr_id approval) call (m\<lparr>base := s\<rparr>)
        in ret \<lparr>gd_forwarded = False, gd_approval_required = True,
             gd_approval_request_id = Some (appr_id approval), gd_status = Some (appr_status approval),
             gd_result = None,
             gd_reason = ''Mutating MCP tool call is waiting for mobile approval.''\<rparr> m)"

section \<open>Resolving a call\<close>

definition not_forwarded ::
    "string option \<Rightarrow> ApprovalStatus option \<Rightarrow> jdict option \<Rightarrow> string \<Rightarrow> MCPGatewayDecision" where
  "not_forwarded aid status result reason =
     \<lparr>gd_forwarded = False, gd_approval_required = True, gd_approval_request_id = aid,
      gd_status = status, gd_result = result, gd_reason = reason\<rparr>"

definition none_text :: "string option \<Rightarrow> string" where
  "none_text x = (case x of None \<Rightarrow> ''None'' | Some v \<Rightarrow> v)"

definition leased_reason :: "MCPPendingRequest \<Rightarrow> string" where
  "leased_reason p =
     ''MCP pending request is already leased by '' @ none_text (mp_lease_owner p) @ ''.''"

text \<open>The last part: the call is sent and its outcome recorded.\<close>

definition send_approved_call ::
    "env \<Rightarrow> http \<Rightarrow> ApprovalRequest \<Rightarrow> MCPGatewayToolCall \<Rightarrow> mcp \<Rightarrow> MCPGatewayDecision mcp_result" where
  "send_approved_call E http approval call m =
     bindE (forward http call m) (\<lambda>result m.
       if dict_get result ''ok'' = Some (JBool False) then
         ret (not_forwarded (Some (appr_id approval)) (Some (appr_status approval)) (Some result)
                ''MCP child forwarding failed; pending request was retained or dead-lettered.'')
           (on_base (handle_forward_failure E approval call result) m)
       else
         ret \<lparr>gd_forwarded = True, gd_approval_required = True,
              gd_approval_request_id = Some (appr_id approval), gd_status = Some (appr_status approval),
              gd_result = Some result,
              gd_reason = ''Mutating MCP tool call forwarded after approval.''\<rparr>
           (on_base (\<lambda>s. audit_forwarded_after_approval E approval call
              (mark_pending_status (appr_id approval) FORWARDED s)) m))"

text \<open>The middle part: the call is taken and the pending request leased.\<close>

definition take_approved_call ::
    "env \<Rightarrow> http \<Rightarrow> string \<Rightarrow> ApprovalRequest \<Rightarrow> mcp \<Rightarrow> MCPGatewayDecision mcp_result" where
  "take_approved_call E http pid approval m =
     (let aid = appr_id approval;
          held = dict_get (pending_calls pid m) aid;
          m = drop_call pid aid m
      in case (case held of Some call \<Rightarrow> Some call | None \<Rightarrow> recover_pending_call aid (base m)) of
           None \<Rightarrow>
             ret (not_forwarded (Some aid) (Some (appr_status approval)) None
                    ''No pending MCP tool call is linked to this approval.'')
               (on_base (mark_pending_status aid ORPHANED) m)
         | Some call \<Rightarrow>
             (case pending_for_approval aid (base m) of
                None \<Rightarrow> send_approved_call E http approval call m
              | Some p \<Rightarrow>
                  let (acquired, s) = acquire_pending_lease p (base m); m = m\<lparr>base := s\<rparr>
                  in if acquired then send_approved_call E http approval call m
                     else ret (not_forwarded (Some aid) (Some (appr_status approval)) None
                            (leased_reason p)) m))"

text \<open>The decision on a request, once its pending request is open and not leased.\<close>

definition resolve_open ::
    "env \<Rightarrow> http \<Rightarrow> string \<Rightarrow> string \<Rightarrow> mcp \<Rightarrow> MCPGatewayDecision mcp_result" where
  "resolve_open E http pid aid m =
     (case dict_get (approval_requests (base m)) aid of
        None \<Rightarrow>
          ret (not_forwarded None None None ''Approval request no longer exists; request was not forwarded.'')
            (on_base (mark_pending_status aid ORPHANED) m)
      | Some approval \<Rightarrow>
          if appr_status approval \<noteq> ApprovalStatus.APPROVED then
            ret (not_forwarded (Some (appr_id approval)) (Some (appr_status approval)) None
                   (''Approval status is '' @ ApprovalStatus_value (appr_status approval) @
                    ''; request was not forwarded.''))
              (on_base (mark_pending_status (appr_id approval) BLOCKED_BY_DECISION) m)
          else if \<not> truthy (appr_approved_payload_hash approval) then
            ret (not_forwarded (Some (appr_id approval)) (Some (appr_status approval)) None
                   ''Approved payload hash is missing; request was not forwarded.'') m
          else if Some (compute_approval_payload_hash E approval) \<noteq> appr_approved_payload_hash approval then
            ret (not_forwarded (Some (appr_id approval)) (Some (appr_status approval)) None
                   ''Approval payload changed after approval; request was not forwarded.'') m
          else take_approved_call E http pid approval m)"

definition resolve_after_side_channel_decision ::
    "env \<Rightarrow> http \<Rightarrow> string \<Rightarrow> string \<Rightarrow> mcp \<Rightarrow> MCPGatewayDecision mcp_result" where
  "resolve_after_side_channel_decision E http pid aid m =
     (let s = base m; status = map_option appr_status (dict_get (approval_requests s) aid)
      in case pending_for_approval aid s of
           None \<Rightarrow> resolve_open E http pid aid m
         | Some p \<Rightarrow>
             if final_pending p then
               ret (not_forwarded (Some aid) status None
                      (''MCP pending request is already final: '' @ MCPPendingStatus_value (mp_status p) @ ''.''))
                 (drop_call pid aid m)
             else if mp_status p = FORWARDING then
               (if lease_runs p (clock s) then ret (not_forwarded (Some aid) status None (leased_reason p)) m
                else resolve_open E http pid aid (on_base (release_stale_lease p) m))
             else resolve_open E http pid aid m)"

end
