(* ===== verification/McpRoutes.thy ===== *)
theory McpRoutes
  imports McpGateway
begin

text \<open>
  \<open>mcp_registry_routes.py\<close>, \<open>mcp_gateway_routes.py\<close> and \<open>mcp_transport_routes.py\<close>: registering child
  servers and their tools, the pending requests an operator sees and retries, resolving a decided
  request, and the JSON-RPC door through which an MCP client lists and calls tools. The role checks
  are outside; the user is the one they return.
\<close>

section \<open>The registry\<close>

definition register_child_server ::
    "env \<Rightarrow> MCPChildServerCreate \<Rightarrow> AuthUser \<Rightarrow> sys \<Rightarrow> MCPChildServer result" where
  "register_child_server E payload user s =
     (if dict_get (projects s) (srv_project_id payload) = None then
        raise (HTTPException 404 ''Project not found'') s
      else if list_ex (\<lambda>server. srv_project_id server = srv_project_id payload \<and> srv_name server = srv_name payload)
          (dict_vals (mcp_child_servers s)) then
        raise (HTTPException 409 ''MCP child server name already exists for project'') s
      else
        let server = MCPChildServerCreate.extend payload
              \<lparr>srv_id = new_id E ''mcp_server'' s, srv_created_at = clock s, srv_updated_at = clock s\<rparr>;
            s = add_audit E ''mcp.child_server.registered'' (srv_id server)
              [(''project_id'', JStr (srv_project_id server)), (''name'', JStr (srv_name server)),
               (''tools'', json_strs (map tool_name (srv_tools server)))]
              (user_email user) (put_server server (drawn s))
        in ret server (persist s))"

definition list_child_servers :: "string option \<Rightarrow> bool option \<Rightarrow> sys \<Rightarrow> MCPChildServer list" where
  "list_child_servers pid enabled s =
     rev (sort_key srv_created_at (rev (filter (\<lambda>server.
       (case pid of None \<Rightarrow> True | Some p \<Rightarrow> srv_project_id server = p) \<and>
       (case enabled of None \<Rightarrow> True | Some b \<Rightarrow> srv_enabled server = b))
       (dict_vals (mcp_child_servers s)))))"

definition set_server_enabled ::
    "env \<Rightarrow> bool \<Rightarrow> string \<Rightarrow> AuthUser \<Rightarrow> sys \<Rightarrow> MCPChildServer result" where
  "set_server_enabled E enabled sid user s =
     (case dict_get (mcp_child_servers s) sid of
        None \<Rightarrow> raise (HTTPException 404 ''MCP child server not found'') s
      | Some server \<Rightarrow>
          let server = server\<lparr>srv_enabled := enabled, srv_updated_at := clock s\<rparr>;
              s = add_audit E
                (if enabled then ''mcp.child_server.enabled'' else ''mcp.child_server.disabled'')
                (srv_id server)
                [(''project_id'', JStr (srv_project_id server)), (''name'', JStr (srv_name server))]
                (user_email user) (put_server server s)
          in ret server (persist s))"

definition enable_child_server :: "env \<Rightarrow> string \<Rightarrow> AuthUser \<Rightarrow> sys \<Rightarrow> MCPChildServer result" where
  "enable_child_server E sid user s = set_server_enabled E True sid user s"

definition disable_child_server :: "env \<Rightarrow> string \<Rightarrow> AuthUser \<Rightarrow> sys \<Rightarrow> MCPChildServer result" where
  "disable_child_server E sid user s = set_server_enabled E False sid user s"

section \<open>The gateway's routes\<close>

definition gateway_for_project :: "string \<Rightarrow> mcp \<Rightarrow> unit mcp_result" where
  "gateway_for_project pid m =
     (if dict_get (projects (base m)) pid = None then raise (HTTPException 404 ''Project not found'') m
      else ret () (if dict_get (gateways m) pid = None
                   then m\<lparr>gateways := dict_set pid [] (gateways m)\<rparr> else m))"

definition submit_gateway_request ::
    "env \<Rightarrow> http \<Rightarrow> string \<Rightarrow> MCPGatewayToolCall \<Rightarrow> mcp \<Rightarrow> MCPGatewayDecision mcp_result" where
  "submit_gateway_request E http pid call m =
     bindE (gateway_for_project pid m) (\<lambda>_ m. submit_tool_call E http pid call m)"

definition resolve_gateway_request ::
    "env \<Rightarrow> http \<Rightarrow> string \<Rightarrow> mcp \<Rightarrow> MCPGatewayDecision mcp_result" where
  "resolve_gateway_request E http aid m =
     (case dict_get (approval_requests (base m)) aid of
        None \<Rightarrow> raise (HTTPException 404 ''Approval request not found'') m
      | Some approval \<Rightarrow>
          bindE (gateway_for_project (appr_project_id approval) m)
            (\<lambda>_ m. resolve_after_side_channel_decision E http (appr_project_id approval) aid m))"

record PendingRetryRequest =
  pr_reason :: string
  pr_reset_attempts :: bool

definition active_lease_exists :: "MCPPendingRequest \<Rightarrow> int \<Rightarrow> bool" where
  "active_lease_exists p now \<longleftrightarrow> mp_status p = FORWARDING \<and> lease_runs p now"

definition expired_lease_exists :: "MCPPendingRequest \<Rightarrow> int \<Rightarrow> bool" where
  "expired_lease_exists p now \<longleftrightarrow>
     mp_status p = FORWARDING \<and> (case mp_lease_expires_at p of None \<Rightarrow> False | Some t \<Rightarrow> t \<le> now)"

definition audit_pending_recovery ::
    "env \<Rightarrow> string \<Rightarrow> MCPPendingRequest \<Rightarrow> jdict \<Rightarrow> string \<Rightarrow> sys \<Rightarrow> sys" where
  "audit_pending_recovery E event_type p details actor s =
     add_audit E event_type (mp_approval_request_id p)
       ([(''mcp_pending_request_id'', JStr (mp_id p)), (''project_id'', JStr (mp_project_id p)),
         (''server_name'', JStr (mp_server_name p)), (''tool_name'', JStr (mp_tool_name p))] @ details)
       actor s"

definition get_pending_gateway_request :: "string \<Rightarrow> sys \<Rightarrow> MCPPendingRequest result" where
  "get_pending_gateway_request mid s =
     (case dict_get (mcp_pending_requests s) mid of
        None \<Rightarrow> raise (HTTPException 404 ''MCP pending request not found'') s
      | Some p \<Rightarrow> ret p s)"

definition retry_pending_gateway_request ::
    "env \<Rightarrow> string \<Rightarrow> PendingRetryRequest option \<Rightarrow> AuthUser \<Rightarrow> sys \<Rightarrow> MCPPendingRequest result" where
  "retry_pending_gateway_request E mid payload user s =
     bindE (get_pending_gateway_request mid s) (\<lambda>p s.
       let payload = (case payload of None \<Rightarrow> \<lparr>pr_reason = [], pr_reset_attempts = True\<rparr> | Some r \<Rightarrow> r);
           previous = mp_status p
       in if previous \<in> {FORWARDED, BLOCKED_BY_DECISION, ORPHANED} then
            raise (HTTPException 409
              (''MCP pending request cannot be retried from '' @ MCPPendingStatus_value previous)) s
          else if active_lease_exists p (clock s) then
            raise (HTTPException 409 ''MCP pending request has an active lease'') s
          else
            let s = (if previous = FORWARDING then
                  audit_pending_recovery E ''MCP_PENDING_LEASE_RELEASED'' p
                    [(''reason'', JStr (pr_reason payload)),
                     (''previous_status'', JStr (MCPPendingStatus_value previous)),
                     (''previous_lease_owner'', json_opt_str (mp_lease_owner p)),
                     (''previous_lease_expires_at'', json_opt_time (mp_lease_expires_at p))]
                    (user_email user) s else s);
                p = p\<lparr>mp_status := MCPPendingStatus.WAITING_FOR_APPROVAL,
                  mp_attempts := (if pr_reset_attempts payload then 0 else mp_attempts p),
                  mp_lease_owner := None, mp_lease_expires_at := None, mp_last_error := None,
                  mp_updated_at := clock s\<rparr>;
                s = audit_pending_recovery E ''MCP_PENDING_RETRIED'' p
                  [(''reason'', JStr (pr_reason payload)),
                   (''previous_status'', JStr (MCPPendingStatus_value previous)),
                   (''reset_attempts'', JBool (pr_reset_attempts payload)),
                   (''attempts'', JInt (mp_attempts p))] (user_email user) (put_pending p s)
            in ret p (persist s))"

definition pending_requests_for_project :: "string option \<Rightarrow> sys \<Rightarrow> MCPPendingRequest list" where
  "pending_requests_for_project pid s =
     (case pid of
        None \<Rightarrow> dict_vals (mcp_pending_requests s)
      | Some p \<Rightarrow> filter (\<lambda>r. mp_project_id r = p) (dict_vals (mcp_pending_requests s)))"

definition list_pending_gateway_requests ::
    "string option \<Rightarrow> MCPPendingStatus option \<Rightarrow> string option \<Rightarrow> sys \<Rightarrow> MCPPendingRequest list" where
  "list_pending_gateway_requests pid status aid s =
     rev (sort_key mp_created_at (rev (filter (\<lambda>r.
       (case status of None \<Rightarrow> True | Some st \<Rightarrow> mp_status r = st) \<and>
       (case aid of None \<Rightarrow> True | Some a \<Rightarrow> mp_approval_request_id r = a))
       (pending_requests_for_project pid s))))"

section \<open>Health of the queue\<close>

record MCPPendingHealthSummary =
  ph_total :: nat
  ph_by_status :: "(string, nat) dict"
  ph_waiting_for_approval :: nat
  ph_forwarding :: nat
  ph_active_leases :: nat
  ph_expired_leases :: nat
  ph_retryable :: nat
  ph_dead_letter :: nat
  ph_terminal :: nat
  ph_attention_required :: nat
  ph_oldest_waiting_created_at :: "int option"
  ph_oldest_dead_letter_created_at :: "int option"

definition count_if :: "('a \<Rightarrow> bool) \<Rightarrow> 'a list \<Rightarrow> nat" where
  "count_if P xs = length (filter P xs)"

definition oldest :: "MCPPendingRequest list \<Rightarrow> int option" where
  "oldest ps = (if ps = [] then None else Some (Min (set (map mp_created_at ps))))"

definition pending_statuses :: "MCPPendingStatus list" where
  "pending_statuses = [MCPPendingStatus.WAITING_FOR_APPROVAL, FORWARDING, FORWARDED, BLOCKED_BY_DECISION,
     ORPHANED, DEAD_LETTER]"

definition is_retryable :: "MCPPendingRequest \<Rightarrow> int \<Rightarrow> bool" where
  "is_retryable p now \<longleftrightarrow>
     mp_status p \<in> {MCPPendingStatus.WAITING_FOR_APPROVAL, DEAD_LETTER} \<or> expired_lease_exists p now"

definition pending_health_summary :: "MCPPendingRequest list \<Rightarrow> int \<Rightarrow> MCPPendingHealthSummary" where
  "pending_health_summary ps now =
     (let waiting = filter (\<lambda>p. mp_status p = MCPPendingStatus.WAITING_FOR_APPROVAL) ps;
          dead = filter (\<lambda>p. mp_status p = DEAD_LETTER) ps;
          expired = count_if (\<lambda>p. expired_lease_exists p now) ps
      in \<lparr>ph_total = length ps,
          ph_by_status = map (\<lambda>st. (MCPPendingStatus_value st, count_if (\<lambda>p. mp_status p = st) ps)) pending_statuses,
          ph_waiting_for_approval = length waiting,
          ph_forwarding = count_if (\<lambda>p. mp_status p = FORWARDING) ps,
          ph_active_leases = count_if (\<lambda>p. active_lease_exists p now) ps,
          ph_expired_leases = expired,
          ph_retryable = count_if (\<lambda>p. is_retryable p now) ps,
          ph_dead_letter = length dead,
          ph_terminal = count_if (\<lambda>p. mp_status p \<in> {FORWARDED, BLOCKED_BY_DECISION, ORPHANED}) ps,
          ph_attention_required = length dead + expired,
          ph_oldest_waiting_created_at = oldest waiting,
          ph_oldest_dead_letter_created_at = oldest dead\<rparr>)"

definition pending_gateway_health :: "string option \<Rightarrow> sys \<Rightarrow> MCPPendingHealthSummary result" where
  "pending_gateway_health pid s =
     (if (case pid of None \<Rightarrow> False | Some p \<Rightarrow> dict_get (projects s) p = None) then
        raise (HTTPException 404 ''Project not found'') s
      else ret (pending_health_summary (pending_requests_for_project pid s) (clock s)) s)"

end
