(* ===== verification/McpTransport.thy ===== *)
theory McpTransport
  imports McpRoutes
begin

text \<open>
  \<open>mcp_transport_routes.py\<close>: the JSON-RPC endpoint of a project. A tool call is checked against the
  tools registered for the project, whose declaration decides whether the tool is mutating; without
  registered servers the client's own declaration is taken. A request's parameters are JSON; a
  \<open>ValueError\<close> is a text on the left.
\<close>

definition SUPPORTED_METHODS :: "string list" where
  "SUPPORTED_METHODS = [''initialize'', ''tools/list'', ''tools/call'']"

record MCPJsonRpcRequest =
  rpc_version :: string
  rpc_id :: json
  rpc_method :: string
  rpc_params :: jdict

datatype rpc_outcome = RpcResult json | RpcError int string

definition project_child_servers :: "string \<Rightarrow> sys \<Rightarrow> MCPChildServer list" where
  "project_child_servers pid s =
     filter (\<lambda>server. srv_project_id server = pid) (dict_vals (mcp_child_servers s))"

definition enabled_child_servers :: "string \<Rightarrow> sys \<Rightarrow> MCPChildServer list" where
  "enabled_child_servers pid s = filter srv_enabled (project_child_servers pid s)"

section \<open>Listing tools\<close>

definition tool_json :: "MCPChildServer \<Rightarrow> MCPToolDefinition \<Rightarrow> json" where
  "tool_json server tool =
     JObj [(''name'', JStr (tool_name tool)), (''description'', JStr (tool_description tool)),
           (''inputSchema'', JObj (tool_input_schema tool)),
           (''annotations'', JObj [(''server_name'', JStr (srv_name server)),
              (''server_id'', JStr (srv_id server)), (''mutating'', JBool (tool_mutating tool))])]"

definition string_property :: "string \<Rightarrow> string \<times> json" where
  "string_property name = (name, JObj [(''type'', JStr ''string'')])"

definition demo_tools :: "json list" where
  "demo_tools =
     [JObj [(''name'', JStr ''update_config''),
            (''description'', JStr ''Demo mutating tool routed through Aixion approval wait mode.''),
            (''inputSchema'', JObj [(''type'', JStr ''object''),
               (''properties'', JObj [string_property ''key'', string_property ''value''])]),
            (''annotations'', JObj [(''server_name'', JStr ''child-test-server''), (''mutating'', JBool True)])],
      JObj [(''name'', JStr ''read_status''),
            (''description'', JStr ''Demo read-only tool that may pass without approval.''),
            (''inputSchema'', JObj [(''type'', JStr ''object''),
               (''properties'', JObj [string_property ''key''])]),
            (''annotations'', JObj [(''server_name'', JStr ''child-test-server''), (''mutating'', JBool False)])]]"

definition registered_tools :: "string \<Rightarrow> sys \<Rightarrow> json list" where
  "registered_tools pid s =
     (let tools = concat (map (\<lambda>server. map (tool_json server) (srv_tools server)) (enabled_child_servers pid s))
      in if tools \<noteq> [] then tools else demo_tools)"

section \<open>The registered policy of a tool\<close>

definition tool_matches ::
    "string \<Rightarrow> string \<Rightarrow> string option \<Rightarrow> sys \<Rightarrow> (MCPChildServer \<times> MCPToolDefinition) list" where
  "tool_matches pid name server_name s =
     concat (map (\<lambda>server. map (Pair server) (filter (\<lambda>tool. tool_name tool = name) (srv_tools server)))
       (filter (\<lambda>server. (server_name = None \<or> server_name = Some (srv_name server)) \<and> srv_enabled server)
         (project_child_servers pid s)))"

definition registered_tool_policy ::
    "string \<Rightarrow> string \<Rightarrow> string option \<Rightarrow> sys \<Rightarrow> string + (string \<times> bool \<times> jdict) option" where
  "registered_tool_policy pid name server_name s =
     (if project_child_servers pid s = [] then Inr None
      else case tool_matches pid name server_name s of
        [] \<Rightarrow> Inl ''tools/call references an unknown or disabled registered tool''
      | [(server, tool)] \<Rightarrow> Inr (Some (srv_name server, tool_mutating tool, tool_input_schema tool))
      | _ \<Rightarrow> Inl ''tools/call is ambiguous; provide server_name'')"

section \<open>Arguments\<close>

definition value_has_type :: "json \<Rightarrow> json \<Rightarrow> bool" where
  "value_has_type v item =
     (case v of
        JStr _ \<Rightarrow> item = JStr ''string''
      | JTime _ \<Rightarrow> item = JStr ''string''
      | JInt _ \<Rightarrow> item \<in> {JStr ''number'', JStr ''integer''}
      | JNum _ \<Rightarrow> item = JStr ''number''
      | JBool _ \<Rightarrow> item = JStr ''boolean''
      | JObj _ \<Rightarrow> item = JStr ''object''
      | JList _ \<Rightarrow> item = JStr ''array''
      | JNull \<Rightarrow> item = JStr ''null'')"

definition value_matches_json_type :: "json \<Rightarrow> json \<Rightarrow> bool" where
  "value_matches_json_type v expected =
     list_ex (value_has_type v) (case expected of JList items \<Rightarrow> items | _ \<Rightarrow> [expected])"

fun check_required :: "json list \<Rightarrow> jdict \<Rightarrow> string option" where
  "check_required [] args = None"
| "check_required (JStr name # names) args =
     (if dict_get args name = None then Some (''tools/call arguments missing required field: '' @ name)
      else check_required names args)"
| "check_required (_ # names) args =
     Some ''registered tool input_schema required entries must be strings''"

definition extra_fields :: "jdict \<Rightarrow> jdict \<Rightarrow> string list" where
  "extra_fields properties args = sort (filter (\<lambda>k. k \<notin> set (map fst properties)) (map fst args))"

fun check_types :: "env \<Rightarrow> jdict \<Rightarrow> jdict \<Rightarrow> string option" where
  "check_types E properties [] = None"
| "check_types E properties ((name, v) # args) =
     (case dict_get properties name of
        None \<Rightarrow> check_types E properties args
      | Some JNull \<Rightarrow> check_types E properties args
      | Some (JObj property) \<Rightarrow>
          (case dict_get property ''type'' of
             None \<Rightarrow> check_types E properties args
           | Some JNull \<Rightarrow> check_types E properties args
           | Some expected \<Rightarrow>
               if value_matches_json_type v expected then check_types E properties args
               else Some (''tools/call argument has wrong type: '' @ name @ '' must be '' @ py_str E expected))
      | Some _ \<Rightarrow> Some (''registered tool input_schema property is invalid: '' @ name))"

definition check_properties :: "env \<Rightarrow> jdict \<Rightarrow> jdict \<Rightarrow> string option" where
  "check_properties E args schema =
     (case (case dict_get schema ''properties'' of None \<Rightarrow> JObj [] | Some p \<Rightarrow> p) of
        JObj properties \<Rightarrow>
          if dict_get schema ''additionalProperties'' = Some (JBool False) \<and> extra_fields properties args \<noteq> [] then
            Some (''tools/call arguments include unsupported field: '' @ hd (extra_fields properties args))
          else check_types E properties args
      | _ \<Rightarrow> Some ''registered tool input_schema properties must be an object'')"

text \<open>The first violation of the schema, if any.\<close>

definition validate_arguments_against_schema :: "env \<Rightarrow> jdict \<Rightarrow> jdict \<Rightarrow> string option" where
  "validate_arguments_against_schema E args schema =
     (if (case dict_get schema ''type'' of None \<Rightarrow> JStr ''object'' | Some v \<Rightarrow> v) \<noteq> JStr ''object'' then
        Some ''registered tool input_schema must be an object schema''
      else case (case dict_get schema ''required'' of None \<Rightarrow> JList [] | Some v \<Rightarrow> v) of
        JList names \<Rightarrow>
          (case check_required names args of
             Some e \<Rightarrow> Some e
           | None \<Rightarrow> check_properties E args schema)
      | _ \<Rightarrow> Some ''registered tool input_schema required must be a list'')"

section \<open>Calling a tool\<close>

text \<open>An optional parameter that has to be a string: absent and \<open>null\<close> are the same.\<close>

definition optional_str :: "jdict \<Rightarrow> string \<Rightarrow> string \<Rightarrow> string + string option" where
  "optional_str params k error =
     (case dict_get params k of
        None \<Rightarrow> Inr None
      | Some JNull \<Rightarrow> Inr None
      | Some (JStr v) \<Rightarrow> Inr (Some v)
      | Some _ \<Rightarrow> Inl error)"

definition params_tool_name :: "jdict \<Rightarrow> string + string" where
  "params_tool_name params =
     (case dict_get params ''name'' of
        Some (JStr name) \<Rightarrow>
          if py_strip name = [] then Inl ''tools/call params must include non-empty name'' else Inr name
      | _ \<Rightarrow> Inl ''tools/call params must include non-empty name'')"

definition params_arguments :: "jdict \<Rightarrow> string + jdict" where
  "params_arguments params =
     (case dict_get params ''arguments'' of
        None \<Rightarrow> Inr []
      | Some (JObj d) \<Rightarrow> Inr d
      | Some _ \<Rightarrow> Inl ''tools/call arguments must be an object'')"

definition params_requested_by :: "jdict \<Rightarrow> string + string" where
  "params_requested_by params =
     (case dict_get params ''requested_by'' of
        Some v \<Rightarrow>
          if \<not> json_truthy v then Inr ''mcp-jsonrpc-client''
          else (case v of JStr t \<Rightarrow> Inr t | _ \<Rightarrow> Inl ''requested_by must be a string'')
      | None \<Rightarrow> Inr ''mcp-jsonrpc-client'')"

definition params_mutating :: "jdict \<Rightarrow> string + bool option" where
  "params_mutating params =
     (case dict_get params ''mutating'' of
        None \<Rightarrow> Inr None
      | Some JNull \<Rightarrow> Inr None
      | Some (JBool b) \<Rightarrow> Inr (Some b)
      | Some _ \<Rightarrow> Inl ''mutating must be a boolean when provided'')"

definition policy_of_call ::
    "env \<Rightarrow> string \<Rightarrow> string \<Rightarrow> string option \<Rightarrow> jdict \<Rightarrow> bool option \<Rightarrow> sys \<Rightarrow> string + (string \<times> bool option)" where
  "policy_of_call E pid name server args mutating s =
     sum_then (registered_tool_policy pid name server s) (\<lambda>policy.
       case policy of
         None \<Rightarrow> Inr (str_or (opt_str server) ''child-test-server'', mutating)
       | Some (server, registered_mutating, schema) \<Rightarrow>
           (case validate_arguments_against_schema E args schema of
              Some e \<Rightarrow> Inl e
            | None \<Rightarrow> Inr (server, Some registered_mutating)))"

definition tool_call_from_params :: "env \<Rightarrow> string \<Rightarrow> jdict \<Rightarrow> sys \<Rightarrow> string + MCPGatewayToolCall" where
  "tool_call_from_params E pid params s =
     sum_then (params_tool_name params) (\<lambda>name.
     sum_then (params_arguments params) (\<lambda>args.
     sum_then (optional_str params ''server_name'' ''server_name must be a string'') (\<lambda>server.
     sum_then (optional_str params ''session_id'' ''session_id must be a string'') (\<lambda>session.
     sum_then (params_requested_by params) (\<lambda>requested_by.
     sum_then (params_mutating params) (\<lambda>mutating.
     sum_then (policy_of_call E pid name server args mutating s) (\<lambda>(server, mutating).
       Inr \<lparr>mc_server_name = server, mc_tool_name = name, mc_arguments = args, mc_session_id = session,
            mc_requested_by = requested_by, mc_mutating = mutating\<rparr>)))))))"

definition json_opt_dict :: "jdict option \<Rightarrow> json" where
  "json_opt_dict x = (case x of None \<Rightarrow> JNull | Some d \<Rightarrow> JObj d)"

definition gateway_decision_to_mcp_result :: "MCPGatewayDecision \<Rightarrow> json" where
  "gateway_decision_to_mcp_result d =
     JObj [(''content'', JList [JObj [(''type'', JStr ''text''),
              (''text'', JStr (str_or (gd_reason d) ''MCP gateway decision recorded.''))]]),
           (''isError'', JBool False),
           (''structuredContent'', JObj [(''forwarded'', JBool (gd_forwarded d)),
              (''approval_required'', JBool (gd_approval_required d)),
              (''approval_request_id'', json_opt_str (gd_approval_request_id d)),
              (''status'', json_opt_str (map_option ApprovalStatus_value (gd_status d))),
              (''result'', json_opt_dict (gd_result d)), (''reason'', JStr (gd_reason d))])]"

definition initialize_result :: json where
  "initialize_result =
     JObj [(''protocolVersion'', JStr ''2024-11-05''),
           (''serverInfo'', JObj [(''name'', JStr ''aixion-control-tower-mcp-gateway''),
              (''version'', JStr ''0.1.0'')]),
           (''capabilities'', JObj [(''tools'', JObj [(''listChanged'', JBool False)])])]"

definition handle_mcp_jsonrpc ::
    "env \<Rightarrow> http \<Rightarrow> string \<Rightarrow> MCPJsonRpcRequest \<Rightarrow> mcp \<Rightarrow> rpc_outcome mcp_result" where
  "handle_mcp_jsonrpc E http pid payload m =
     (if dict_get (projects (base m)) pid = None then raise (HTTPException 404 ''Project not found'') m
      else if rpc_version payload \<noteq> ''2.0'' then ret (RpcError (-32600) ''Only JSON-RPC 2.0 is supported'') m
      else if rpc_method payload \<notin> set SUPPORTED_METHODS then ret (RpcError (-32601) ''Unsupported MCP method'') m
      else if rpc_method payload = ''initialize'' then ret (RpcResult initialize_result) m
      else if rpc_method payload = ''tools/list'' then
        ret (RpcResult (JObj [(''tools'', JList (registered_tools pid (base m)))])) m
      else case tool_call_from_params E pid (rpc_params payload) (base m) of
        Inl e \<Rightarrow> ret (RpcError (-32602) e) m
      | Inr call \<Rightarrow>
          bindE (gateway_for_project pid m) (\<lambda>_ m.
          bindE (submit_tool_call E http pid call m) (\<lambda>d m.
            ret (RpcResult (gateway_decision_to_mcp_result d)) m)))"

section \<open>Lemmas\<close>

text \<open>With registered servers the registered declaration decides, whatever the client declares.\<close>

lemma policy_registered:
  assumes "policy_of_call E pid name server args mutating s = Inr (srv, mut)"
    "project_child_servers pid s \<noteq> []"
  shows "\<exists>server tool. server \<in> set (project_child_servers pid s) \<and> srv_enabled server \<and>
    tool \<in> set (srv_tools server) \<and> tool_name tool = name \<and> srv = srv_name server \<and>
    mut = Some (tool_mutating tool) \<and> validate_arguments_against_schema E args (tool_input_schema tool) = None"
proof -
  obtain p where p: "registered_tool_policy pid name server s = Inr p"
    using assms(1) by (auto simp: policy_of_call_def sum_then_Inr_iff)
  then obtain v t where vt: "tool_matches pid name server s = [(v, t)]"
      "p = Some (srv_name v, tool_mutating t, tool_input_schema t)"
    using assms(2) by (auto simp: registered_tool_policy_def split: list.splits prod.splits)
  have "(v, t) \<in> set (tool_matches pid name server s)" using vt(1) by simp
  then have "v \<in> set (project_child_servers pid s) \<and> srv_enabled v \<and> t \<in> set (srv_tools v) \<and> tool_name t = name"
    by (auto simp: tool_matches_def)
  moreover have "srv = srv_name v \<and> mut = Some (tool_mutating t) \<and>
      validate_arguments_against_schema E args (tool_input_schema t) = None"
    using assms(1) p vt(2) by (auto simp: policy_of_call_def sum_then_def split: option.splits)
  ultimately show ?thesis by blast
qed

text \<open>A call that passes the JSON-RPC door has every required argument of its tool.\<close>

lemma check_required_None:
  "check_required names args = None \<longleftrightarrow>
     (\<forall>f \<in> set names. \<exists>name. f = JStr name \<and> dict_get args name \<noteq> None)"
  by (induction names args rule: check_required.induct) auto

end
