(* ===== verification/StoreProperties.thy ===== *)
theory StoreProperties
  imports Samples "HOL-Library.Multiset"
begin

text \<open>
  What a restart of the process keeps: \<open>load\<close> after \<open>persist\<close> gives back every entity under its
  key, in the order of the keys.
\<close>

section \<open>Dictionaries in another order\<close>

lemma dict_get_map_of: "dict_get d = map_of d"
proof
  show "dict_get d k = map_of d k" for k by (induction d) auto
qed

lemma by_key_distinct: "distinct (map fst d) \<Longrightarrow> distinct (map fst (by_key d))"
  by (simp add: by_key_def distinct_map)

lemma dict_get_by_key: "distinct (map fst d) \<Longrightarrow> dict_get (by_key d) = dict_get d"
  unfolding dict_get_map_of
  by (subst map_of_inject_set) (simp_all only: by_key_distinct, simp add: by_key_def)

lemma by_key_idem: "by_key (by_key d) = by_key d"
  by (simp add: by_key_def sort_key_id_if_sorted)

lemma by_key_sorted: "sorted (map fst (by_key d))"
  by (simp add: by_key_def)

text \<open>Writing an entity keeps the keys distinct, so every state the operations reach has distinct keys.\<close>

lemma distinct_dict_set: "distinct (map fst d) \<Longrightarrow> distinct (map fst (dict_set k v d))"
  by (simp add: fst_dict_set dict_get_None_iff)

section \<open>The store\<close>

definition keys_distinct :: "'a store_scheme \<Rightarrow> bool" where
  "keys_distinct s \<longleftrightarrow>
     distinct (map fst (agent_tasks s)) \<and>
     distinct (map fst (agent_task_events s)) \<and>
     distinct (map fst (agent_runs s)) \<and>
     distinct (map fst (agent_run_steps s)) \<and>
     distinct (map fst (agent_run_events s)) \<and>
     distinct (map fst (agent_run_faults s)) \<and>
     distinct (map fst (capability_leases s)) \<and>
     distinct (map fst (reviewer_attestations s)) \<and>
     distinct (map fst (proposed_actions s)) \<and>
     distinct (map fst (policy_decisions s)) \<and>
     distinct (map fst (action_authorizations s)) \<and>
     distinct (map fst (action_consumptions s)) \<and>
     distinct (map fst (credential_grants s)) \<and>
     distinct (map fst (trust_events s)) \<and>
     distinct (map fst (approval_requests s)) \<and>
     distinct (map fst (mcp_pending_requests s)) \<and>
     distinct (map fst (external_agents s)) \<and>
     distinct (map fst (agent_connectors s)) \<and>
     distinct (map fst (users s)) \<and>
     distinct (map fst (sessions s)) \<and>
     distinct (map fst (invites s)) \<and>
     distinct (map fst (external_agent_credentials s)) \<and>
     distinct (map fst (device_registrations s)) \<and>
     distinct (map fst (projects s)) \<and>
     distinct (map fst (mcp_child_servers s)) \<and>
     distinct (map fst (ideas s)) \<and>
     distinct (map fst (work_orders s)) \<and>
     distinct (map fst (test_runs s)) \<and>
     distinct (map fst (notifications s))"

definition same_entities :: "'a store_scheme \<Rightarrow> 'b store_scheme \<Rightarrow> bool" where
  "same_entities s t \<longleftrightarrow>
     dict_get (agent_tasks t) = dict_get (agent_tasks s) \<and>
     dict_get (agent_task_events t) = dict_get (agent_task_events s) \<and>
     dict_get (agent_runs t) = dict_get (agent_runs s) \<and>
     dict_get (agent_run_steps t) = dict_get (agent_run_steps s) \<and>
     dict_get (agent_run_events t) = dict_get (agent_run_events s) \<and>
     dict_get (agent_run_faults t) = dict_get (agent_run_faults s) \<and>
     dict_get (capability_leases t) = dict_get (capability_leases s) \<and>
     dict_get (reviewer_attestations t) = dict_get (reviewer_attestations s) \<and>
     dict_get (proposed_actions t) = dict_get (proposed_actions s) \<and>
     dict_get (policy_decisions t) = dict_get (policy_decisions s) \<and>
     dict_get (action_authorizations t) = dict_get (action_authorizations s) \<and>
     dict_get (action_consumptions t) = dict_get (action_consumptions s) \<and>
     dict_get (credential_grants t) = dict_get (credential_grants s) \<and>
     dict_get (trust_events t) = dict_get (trust_events s) \<and>
     dict_get (approval_requests t) = dict_get (approval_requests s) \<and>
     dict_get (mcp_pending_requests t) = dict_get (mcp_pending_requests s) \<and>
     dict_get (external_agents t) = dict_get (external_agents s) \<and>
     dict_get (agent_connectors t) = dict_get (agent_connectors s) \<and>
     dict_get (users t) = dict_get (users s) \<and>
     dict_get (sessions t) = dict_get (sessions s) \<and>
     dict_get (invites t) = dict_get (invites s) \<and>
     dict_get (external_agent_credentials t) = dict_get (external_agent_credentials s) \<and>
     dict_get (device_registrations t) = dict_get (device_registrations s) \<and>
     dict_get (projects t) = dict_get (projects s) \<and>
     dict_get (mcp_child_servers t) = dict_get (mcp_child_servers s) \<and>
     dict_get (ideas t) = dict_get (ideas s) \<and>
     dict_get (work_orders t) = dict_get (work_orders s) \<and>
     dict_get (test_runs t) = dict_get (test_runs s) \<and>
     dict_get (notifications t) = dict_get (notifications s) \<and>
     mset (audit_events t) = mset (audit_events s)"

lemma load_store_same: "keys_distinct s \<Longrightarrow> same_entities s (load_store s)"
  by (simp add: same_entities_def load_store_def keys_distinct_def dict_get_by_key)

lemma load_store_idem: "load_store (load_store s) = load_store s"
  by (simp add: load_store_def by_key_idem sort_key_id_if_sorted)

lemma keys_distinct_truncate: "keys_distinct (store.truncate s) = keys_distinct s"
  by (simp add: keys_distinct_def store.defs)

lemma same_entities_truncate: "same_entities (store.truncate s) t = same_entities s t"
  by (simp add: same_entities_def store.defs)

lemma same_entities_sys_of: "same_entities s (sys_of m t n d) = same_entities s m"
  by (simp add: same_entities_def sys_of_def store.defs)

lemma truncate_sys_of: "store.truncate (sys_of m t n d) = m"
  by (cases m) (simp add: sys_of_def store.defs)



end
