(* ===== verification/McpProperties.thy ===== *)
theory McpProperties
  imports McpTransport StoreProperties
begin

text \<open>
  What the gateway guarantees of the servers behind it: a call reaches them only when it is not
  mutating or its approval stands, and a request that has been settled is never sent again,
  whatever the operators, the reviewers and restarts do.
\<close>

section \<open>What reaches a server\<close>

text \<open>What a call adds depends on the registered servers and on what was received before.\<close>

lemma post_json_cong:
  "received m = received m' \<Longrightarrow>
    received (snd (post_json http server call p m)) = received (snd (post_json http server call p m'))"
  by (auto simp: post_json_def received_def Let_def split: http_reply.splits json.splits)

lemma forward_cong:
  assumes "mcp_child_servers (base m) = mcp_child_servers (base m')" "received m = received m'"
  shows "received (snd (forward http call m)) = received (snd (forward http call m'))"
proof -
  have f: "find_registered_server n (base m) = find_registered_server n (base m')" for n
    using assms(1) by (simp add: find_registered_server_def)
  have r: "default_test_server m = default_test_server m'" "test_servers_by_name m = test_servers_by_name m'"
      "posted m = posted m'"
    using assms(2) by (simp_all add: received_def)
  show ?thesis
    using post_json_cong [OF assms(2)] assms(2)
    by (auto simp: forward_def call_tool_def f r call_test_server_def call_http_server_def
        call_http_jsonrpc_server_def snd_bindE_ret Let_def received_def split: option.splits prod.splits)
qed

lemma hold_drop_simps [simp]:
  "base (hold_call pid aid call m) = base m" "received (hold_call pid aid call m) = received m"
  "base (drop_call pid aid m) = base m" "received (drop_call pid aid m) = received m"
  by (simp_all add: hold_call_def drop_call_def received_def)

lemma received_base [simp]: "received (m\<lparr>base := s\<rparr>) = received m"
  by (simp add: received_def)

lemma send_received: "received (snd (send_approved_call E http ap call m)) = received (snd (forward http call m))"
  by (cases "forward http call m"; cases "fst (forward http call m)")
    (auto simp: send_approved_call_def bindE_def)

lemma servers_kept [simp]:
  "mcp_child_servers (mark_pending_status aid st s) = mcp_child_servers s"
  "mcp_child_servers (release_stale_lease p s) = mcp_child_servers s"
  "mcp_child_servers (snd (acquire_pending_lease p s)) = mcp_child_servers s"
  by (simp_all add: mark_pending_status_def release_stale_lease_def acquire_pending_lease_def Let_def
      split: option.splits)

text \<open>The call the gateway would send for a request: the one in memory, else the recorded one.\<close>

definition waiting_call :: "string \<Rightarrow> string \<Rightarrow> mcp \<Rightarrow> MCPGatewayToolCall option" where
  "waiting_call pid aid m =
     (case dict_get (pending_calls pid m) aid of
        Some call \<Rightarrow> Some call
      | None \<Rightarrow> recover_pending_call aid (base m))"

lemma take_received:
  assumes "received (snd (take_approved_call E http pid ap m)) \<noteq> received m"
  shows "\<exists>call. waiting_call pid (appr_id ap) m = Some call \<and>
    received (snd (take_approved_call E http pid ap m)) = received (snd (forward http call m))"
proof -
  let ?m = "drop_call pid (appr_id ap) m"
  from assms obtain call where c: "waiting_call pid (appr_id ap) m = Some call"
    by (auto simp: take_approved_call_def waiting_call_def Let_def split: option.splits)
  have f: "received (snd (forward http call ?m)) = received (snd (forward http call m))"
      "received (snd (forward http call (?m\<lparr>base := snd (acquire_pending_lease p (base m))\<rparr>))) =
         received (snd (forward http call m))" for p
    by (rule forward_cong; simp)+
  have "received (snd (take_approved_call E http pid ap m)) = received (snd (forward http call m))"
    using assms c f
    by (auto simp: take_approved_call_def waiting_call_def Let_def send_received split_def
        split: option.splits if_splits)
  with c show ?thesis by blast
qed

definition approved_unchanged :: "env \<Rightarrow> ApprovalRequest \<Rightarrow> bool" where
  "approved_unchanged E ap \<longleftrightarrow> appr_status ap = ApprovalStatus.APPROVED \<and>
     appr_approved_payload_hash ap = Some (compute_approval_payload_hash E ap)"

lemma open_received:
  assumes "received (snd (resolve_open E http pid aid m)) \<noteq> received m"
  shows "\<exists>ap call. dict_get (approval_requests (base m)) aid = Some ap \<and> approved_unchanged E ap \<and>
    waiting_call pid (appr_id ap) m = Some call \<and>
    received (snd (resolve_open E http pid aid m)) = received (snd (forward http call m))"
proof -
  obtain ap where a: "dict_get (approval_requests (base m)) aid = Some ap"
    using assms by (auto simp: resolve_open_def split: option.splits)
  have o: "approved_unchanged E ap" "resolve_open E http pid aid m = take_approved_call E http pid ap m"
    using assms by (auto simp: resolve_open_def a approved_unchanged_def split: if_splits elim: truthyE)
  with a take_received [of E http pid ap m] assms show ?thesis by auto
qed

text \<open>The call that a pending request records.\<close>

definition recorded_call :: "MCPPendingRequest \<Rightarrow> MCPGatewayToolCall" where
  "recorded_call p =
     \<lparr>mc_server_name = mp_server_name p, mc_tool_name = mp_tool_name p, mc_arguments = mp_arguments p,
      mc_session_id = mp_session_id p, mc_requested_by = mp_requested_by p, mc_mutating = Some True\<rparr>"

definition submitted_call :: "string \<Rightarrow> string \<Rightarrow> mcp \<Rightarrow> MCPGatewayToolCall \<Rightarrow> bool" where
  "submitted_call pid aid m call \<longleftrightarrow>
     dict_get (pending_calls pid m) aid = Some call \<or>
     (\<exists>p. pending_for_approval aid (base m) = Some p \<and> recorded_call p = call)"

lemma waiting_submitted: "waiting_call pid aid m = Some call \<Longrightarrow> submitted_call pid aid m call"
  by (auto simp: waiting_call_def submitted_call_def recover_pending_call_def recorded_call_def
      split: option.splits if_splits)

lemma find_SomeD: "find P xs = Some x \<Longrightarrow> x \<in> set xs \<and> P x"
  by (induction xs) (auto split: if_splits)

lemma find_put_same:
  assumes "keyed mp_id d" "find P (dict_vals d) = Some p" "mp_id p' = mp_id p" "\<And>q. P q \<longleftrightarrow> mp_approval_request_id q = aid"
    "mp_approval_request_id p' = mp_approval_request_id p"
  shows "find P (dict_vals (dict_set (mp_id p') p' d)) = Some p'"
  using assms(1,2)
proof (induction d)
  case (Cons e d)
  obtain k v where e: "e = (k, v)" by (cases e)
  show ?case
  proof (cases "P v")
    case True
    with Cons.prems e have "p = v" "mp_id v = k" by (auto simp: dict_vals_def keyed_Cons)
    then show ?thesis using e assms(3-5) True by (auto simp: dict_vals_def)
  next
    case False
    with Cons.prems e have f: "find P (dict_vals d) = Some p" "keyed mp_id d" "mp_id v = k" "dict_get d k = None"
      by (auto simp: dict_vals_def keyed_Cons)
    have "p \<in> set (dict_vals d)" using f(1) by (auto dest: find_SomeD)
    then have "dict_get d (mp_id p) = Some p" using keyed_get_iff [OF f(2)] by blast
    then have "mp_id p' \<noteq> k" using f(4) assms(3) by auto
    with Cons.IH [OF f(2,1)] e False show ?thesis by (simp add: dict_vals_def)
  qed
qed (simp add: dict_vals_def)

lemma pending_put_same:
  "keyed mp_id (mcp_pending_requests s) \<Longrightarrow> pending_for_approval aid s = Some p \<Longrightarrow> mp_id p' = mp_id p \<Longrightarrow>
    mp_approval_request_id p' = mp_approval_request_id p \<Longrightarrow>
    mcp_pending_requests s' = dict_set (mp_id p') p' (mcp_pending_requests s) \<Longrightarrow>
    pending_for_approval aid s' = Some p'"
  unfolding pending_for_approval_def
  using find_put_same [of "mcp_pending_requests s" "\<lambda>p. mp_approval_request_id p = aid" p p' aid] by simp

text \<open>The gateway may act on a request: it is open, and no other resolution holds it.\<close>

definition sendable :: "string \<Rightarrow> sys \<Rightarrow> bool" where
  "sendable aid s \<longleftrightarrow>
     (case pending_for_approval aid s of
        None \<Rightarrow> True
      | Some p \<Rightarrow> \<not> final_pending p \<and> \<not> active_lease_exists p (clock s))"

lemma resolve_received:
  assumes "received (snd (resolve_after_side_channel_decision E http pid aid m)) \<noteq> received m"
    "keyed mp_id (mcp_pending_requests (base m))" "keyed appr_id (approval_requests (base m))"
  shows "\<exists>ap call. dict_get (approval_requests (base m)) aid = Some ap \<and> approved_unchanged E ap \<and>
    sendable aid (base m) \<and> submitted_call pid aid m call \<and>
    received (snd (resolve_after_side_channel_decision E http pid aid m)) = received (snd (forward http call m))"
proof -
  have key: "appr_id ap = aid" if "dict_get (approval_requests (base m)) aid = Some ap" for ap
    using keyed_get_iff [OF assms(3), of aid ap] that by simp
  let ?open = "resolve_open E http pid aid m"
  have direct: ?thesis if "resolve_after_side_channel_decision E http pid aid m = ?open" "sendable aid (base m)"
    using open_received [of E http pid aid m] assms(1) that key waiting_submitted by fastforce
  show ?thesis
  proof (cases "pending_for_approval aid (base m)")
    case None
    then show ?thesis
      by (intro direct) (simp_all add: resolve_after_side_channel_decision_def Let_def sendable_def)
  next
    case (Some p)
    note S = Some
    have nf: "\<not> final_pending p" and idle: "\<not> active_lease_exists p (clock (base m))"
      using assms(1) by (auto simp: resolve_after_side_channel_decision_def S Let_def active_lease_exists_def
          split: if_splits)
    show ?thesis
    proof (cases "mp_status p = FORWARDING")
      case False
      with S nf idle show ?thesis
        by (intro direct) (simp_all add: resolve_after_side_channel_decision_def sendable_def Let_def)
    next
      case True
      let ?m = "on_base (release_stale_lease p) m"
      have r: "resolve_after_side_channel_decision E http pid aid m = resolve_open E http pid aid ?m"
        using S nf idle True by (simp add: resolve_after_side_channel_decision_def active_lease_exists_def Let_def)
      obtain ap call where ac: "dict_get (approval_requests (base ?m)) aid = Some ap" "approved_unchanged E ap"
          "waiting_call pid (appr_id ap) ?m = Some call"
          "received (snd (resolve_open E http pid aid ?m)) = received (snd (forward http call ?m))"
        using open_received [of E http pid aid ?m] assms(1) r by auto
      have ap: "dict_get (approval_requests (base m)) aid = Some ap"
        using ac(1) by (simp add: release_stale_lease_def)
      define q where "q = p\<lparr>mp_status := MCPPendingStatus.WAITING_FOR_APPROVAL, mp_lease_owner := None,
          mp_lease_expires_at := None, mp_updated_at := clock (base m)\<rparr>"
      have q: "pending_for_approval aid (base ?m) = Some q"
        by (rule pending_put_same [OF assms(2) S]) (simp_all add: release_stale_lease_def q_def)
      have "submitted_call pid aid ?m call" using waiting_submitted [OF ac(3)] key [OF ap] by simp
      then have "submitted_call pid aid m call"
        using q S by (auto simp: submitted_call_def pending_calls_def recorded_call_def q_def)
      moreover have "received (snd (forward http call ?m)) = received (snd (forward http call m))"
        by (rule forward_cong) simp_all
      ultimately show ?thesis using ap ac(2,4) r S nf idle by (auto simp: sendable_def)
    qed
  qed
qed

section \<open>The queue of pending requests\<close>

definition settled :: "MCPPendingRequest \<Rightarrow> bool" where
  "settled p \<longleftrightarrow> mp_status p \<in> {FORWARDED, BLOCKED_BY_DECISION, ORPHANED}"

definition tables_ok :: "'a store_scheme \<Rightarrow> bool" where
  "tables_ok s \<longleftrightarrow> keyed mp_id (mcp_pending_requests s) \<and> keyed appr_id (approval_requests s)"

text \<open>
  The pending requests in memory are those in the database, and no two of them wait for the same
  approval.
\<close>

definition queue_ok :: "sys \<Rightarrow> bool" where
  "queue_ok s \<longleftrightarrow> tables_ok s \<and> tables_ok (rows (disk s)) \<and>
     (\<forall>k. dict_get (mcp_pending_requests (rows (disk s))) k = dict_get (mcp_pending_requests s) k) \<and>
     (\<forall>k k' p p'. dict_get (mcp_pending_requests s) k = Some p \<longrightarrow>
        dict_get (mcp_pending_requests s) k' = Some p' \<longrightarrow>
        mp_approval_request_id p = mp_approval_request_id p' \<longrightarrow> k = k')"

text \<open>A change of the store under which the queue stays sound and settled requests stay as they are.\<close>

definition queue_step :: "sys \<Rightarrow> sys \<Rightarrow> bool" where
  "queue_step s s' \<longleftrightarrow> queue_ok s' \<and>
     (\<forall>k p. dict_get (mcp_pending_requests s) k = Some p \<longrightarrow> settled p \<longrightarrow>
        dict_get (mcp_pending_requests s') k = Some p)"

lemma queue_step_refl: "queue_ok s \<Longrightarrow> queue_step s s"
  by (simp add: queue_step_def)

lemma queue_step_trans: "queue_step s t \<Longrightarrow> queue_step t u \<Longrightarrow> queue_step s u"
  by (simp add: queue_step_def)

lemma queue_stepD: "queue_step s s' \<Longrightarrow> queue_ok s'"
  by (simp add: queue_step_def)

lemma queue_unique:
  "queue_ok s \<Longrightarrow> dict_get (mcp_pending_requests s) k = Some p \<Longrightarrow>
    dict_get (mcp_pending_requests s) k' = Some p' \<Longrightarrow>
    mp_approval_request_id p = mp_approval_request_id p' \<Longrightarrow> k = k'"
  by (simp add: queue_ok_def)

lemma queue_keyed: "queue_ok s \<Longrightarrow> keyed mp_id (mcp_pending_requests s)"
  by (simp add: queue_ok_def tables_ok_def)

lemma queue_find:
  assumes "queue_ok s"
  shows "pending_for_approval aid s = Some p \<longleftrightarrow>
    dict_get (mcp_pending_requests s) (mp_id p) = Some p \<and> mp_approval_request_id p = aid"
proof -
  have found: "dict_get (mcp_pending_requests s) (mp_id q) = Some q \<and> mp_approval_request_id q = aid"
    if "pending_for_approval aid s = Some q" for q
    using find_SomeD [OF that [unfolded pending_for_approval_def]] keyed_get_iff [OF queue_keyed [OF assms]]
    by simp
  show ?thesis
  proof
    assume r: "dict_get (mcp_pending_requests s) (mp_id p) = Some p \<and> mp_approval_request_id p = aid"
    then have "p \<in> set (dict_vals (mcp_pending_requests s))"
      using keyed_get_iff [OF queue_keyed [OF assms]] by simp
    then have "pending_for_approval aid s \<noteq> None"
      using r unfolding pending_for_approval_def find_None_iff by blast
    then obtain q where q: "pending_for_approval aid s = Some q" by (elim not_None_eq [THEN iffD1, THEN exE])
    note q' = found [OF q]
    have i: "mp_id q = mp_id p"
      by (rule queue_unique [OF assms q' [THEN conjunct1] r [THEN conjunct1]]) (simp add: q' r)
    have "Some q = Some p" by (rule trans [OF q' [THEN conjunct1, unfolded i, symmetric] r [THEN conjunct1]])
    with q show "pending_for_approval aid s = Some p" by (rule trans)
  qed (rule found)
qed

lemma rows_persist [simp]: "rows (disk (persist s)) = store.truncate s"
  by (simp add: persist_def)

lemma truncate_tables [simp]:
  "mcp_pending_requests (store.truncate s) = mcp_pending_requests s"
  "approval_requests (store.truncate s) = approval_requests s"
  by (simp_all add: store.truncate_def)

lemma queue_step_same:
  "queue_ok s \<Longrightarrow> mcp_pending_requests s' = mcp_pending_requests s \<Longrightarrow>
    approval_requests s' = approval_requests s \<Longrightarrow> disk s' = disk s \<Longrightarrow> queue_step s s'"
  by (simp add: queue_step_def queue_ok_def tables_ok_def)

lemma queue_step_persist:
  "queue_ok s \<Longrightarrow> mcp_pending_requests s' = mcp_pending_requests s \<Longrightarrow>
    approval_requests s' = approval_requests s \<Longrightarrow> queue_step s (persist s')"
  by (simp add: queue_step_def queue_ok_def tables_ok_def)

lemma queue_step_put:
  assumes "queue_ok s" "dict_get (mcp_pending_requests s) (mp_id p) = Some p" "\<not> settled p"
    "mp_id p' = mp_id p" "mp_approval_request_id p' = mp_approval_request_id p"
    "mcp_pending_requests s' = dict_set (mp_id p') p' (mcp_pending_requests s)"
    "approval_requests s' = approval_requests s"
  shows "queue_step s (persist s')"
  using assms keyed_set [of mp_id "mcp_pending_requests s" p']
  by (auto simp: queue_step_def queue_ok_def tables_ok_def)

lemma queue_step_new:
  assumes "queue_ok s" "dict_get (mcp_pending_requests s) (mp_id p) = None"
    "\<forall>q \<in> set (dict_vals (mcp_pending_requests s)). mp_approval_request_id q \<noteq> mp_approval_request_id p"
    "mcp_pending_requests s' = dict_set (mp_id p) p (mcp_pending_requests s)"
    "approval_requests s' = dict_set (appr_id a) a (approval_requests s)"
  shows "queue_step s (persist s')"
proof -
  have k: "keyed mp_id (mcp_pending_requests s)" "keyed appr_id (approval_requests s)"
    using assms(1) by (simp_all add: queue_ok_def tables_ok_def)
  have "mp_approval_request_id q \<noteq> mp_approval_request_id p"
    if "dict_get (mcp_pending_requests s) j = Some q" for j q
    using assms(3) keyed_get_iff [OF k(1), of j q] that by blast
  note other = this this [symmetric]
  have "tables_ok s'" using assms(4,5) keyed_set [OF k(1), of p] keyed_set [OF k(2), of a]
    by (simp add: tables_ok_def)
  with assms(1,2,4) other show ?thesis by (auto simp: queue_step_def queue_ok_def tables_ok_def)
qed

lemma not_final_not_settled: "\<not> final_pending p \<Longrightarrow> \<not> settled p"
  by (auto simp: final_pending_def settled_def FINAL_PENDING_STATUSES_def)

subsection \<open>Each operation of the gateway is such a change\<close>

lemma queue_step_put_pending:
  assumes "queue_ok s" "pending_for_approval aid s = Some p" "\<not> settled p" "mp_id p' = mp_id p"
    "mp_approval_request_id p' = mp_approval_request_id p"
  shows "queue_step s (persist (put_pending p' s))"
  using assms by (intro queue_step_put [of s p p']) (simp_all add: queue_find)

lemma mark_queue:
  assumes "queue_ok s"
  shows "queue_step s (mark_pending_status aid st s)"
proof (cases "pending_for_approval aid s")
  case (Some p)
  with queue_step_refl [OF assms] queue_step_put_pending [OF assms Some] not_final_not_settled [of p]
  show ?thesis by (simp add: mark_pending_status_def Let_def)
qed (simp add: mark_pending_status_def queue_step_refl assms)

lemma release_queue:
  "queue_ok s \<Longrightarrow> pending_for_approval aid s = Some p \<Longrightarrow> \<not> settled p \<Longrightarrow> queue_step s (release_stale_lease p s)"
  unfolding release_stale_lease_def by (erule (2) queue_step_put_pending) simp_all

lemma acquire_queue:
  assumes "queue_ok s" "pending_for_approval aid s = Some p" "acquire_pending_lease p s = (b, s')"
  shows "queue_step s s' \<and> (b \<longrightarrow> (\<exists>q. pending_for_approval aid s' = Some q \<and> \<not> settled q))"
proof (cases b)
  case False
  with assms queue_step_refl [OF assms(1)] show ?thesis by (auto simp: acquire_pending_lease_def split: if_splits)
next
  case True
  let ?q = "p\<lparr>mp_status := FORWARDING, mp_attempts := mp_attempts p + 1,
      mp_lease_owner := Some ''mcp-gateway-resolver'',
      mp_lease_expires_at := Some (clock s + seconds LEASE_SECONDS), mp_updated_at := clock s\<rparr>"
  have s': "s' = persist (put_pending ?q s)" and n: "\<not> settled p"
    using assms(3) True by (auto simp add: acquire_pending_lease_def settled_def split: if_split_asm)
  have "queue_step s s'"
    unfolding s' by (rule queue_step_put_pending [OF assms(1,2) n]) simp_all
  moreover have "pending_for_approval aid s' = Some ?q"
    by (rule pending_put_same [OF queue_keyed [OF assms(1)] assms(2)]) (simp_all add: s')
  ultimately show ?thesis by (auto simp: settled_def)
qed

lemma failure_queue:
  assumes "queue_ok s" "\<And>p. pending_for_approval (appr_id ap) s = Some p \<Longrightarrow> \<not> settled p"
  shows "queue_step s (handle_forward_failure E ap call r s)"
proof (cases "pending_for_approval (appr_id ap) s")
  case None
  then show ?thesis
    using assms(1) by (auto simp: handle_forward_failure_def Let_def intro!: queue_step_persist)
next
  case (Some p)
  let ?q = "p\<lparr>mp_last_error := Some (forward_error E r), mp_lease_owner := None, mp_lease_expires_at := None,
      mp_status := (if mp_attempts p \<ge> mp_max_attempts p then DEAD_LETTER else MCPPendingStatus.WAITING_FOR_APPROVAL),
      mp_updated_at := clock s\<rparr>"
  have g: "dict_get (mcp_pending_requests s) (mp_id p) = Some p" using Some assms(1) by (simp add: queue_find)
  show ?thesis
    unfolding handle_forward_failure_def Let_def
    by (rule queue_step_put [OF assms(1) g assms(2) [OF Some], of ?q]) (simp_all add: Some)
qed

lemma forwarded_queue: "queue_ok s \<Longrightarrow> queue_step s (audit_forwarded_after_approval E ap call s)"
  by (auto simp: audit_forwarded_after_approval_def Let_def intro!: queue_step_persist)

lemma send_queue:
  assumes "queue_ok (base m)" "\<And>p. pending_for_approval (appr_id ap) (base m) = Some p \<Longrightarrow> \<not> settled p"
  shows "queue_step (base m) (base (snd (send_approved_call E http ap call m)))"
proof -
  obtain x m1 where f: "forward http call m = (x, m1)" by (cases "forward http call m")
  then have b: "base m1 = base m" using call_tool_keeps(1) [of http "child_call call" m] by (simp add: forward_def)
  have "queue_step (base m) (audit_forwarded_after_approval E ap call (mark_pending_status (appr_id ap) FORWARDED (base m)))"
    by (rule queue_step_trans [OF mark_queue [OF assms(1)] forwarded_queue [OF queue_stepD [OF mark_queue [OF assms(1)]]]])
  then show ?thesis
    using f b failure_queue [OF assms] queue_step_refl [OF assms(1)]
    by (cases x) (auto simp: send_approved_call_def)
qed

lemma take_queue:
  assumes "queue_ok (base m)"
  shows "queue_step (base m) (base (snd (take_approved_call E http pid ap m)))"
proof (cases "pending_for_approval (appr_id ap) (base m)")
  case None
  then show ?thesis
    using mark_queue [OF assms] send_queue [of "drop_call pid (appr_id ap) m" ap E http] assms
    by (auto simp: take_approved_call_def Let_def split: option.splits)
next
  case (Some p)
  obtain b s where a: "acquire_pending_lease p (base m) = (b, s)" by (cases "acquire_pending_lease p (base m)")
  note q = acquire_queue [OF assms Some a]
  have "queue_step (base m) (base (snd (send_approved_call E http ap call ((drop_call pid (appr_id ap) m)\<lparr>base := s\<rparr>))))"
    if b for call
  proof (rule queue_step_trans [OF q [THEN conjunct1]])
    show "queue_step s (base (snd (send_approved_call E http ap call ((drop_call pid (appr_id ap) m)\<lparr>base := s\<rparr>))))"
      using send_queue [of "(drop_call pid (appr_id ap) m)\<lparr>base := s\<rparr>" ap E http call] q that
      by (auto dest: queue_stepD)
  qed
  with q a Some mark_queue [OF assms] show ?thesis
    by (auto simp: take_approved_call_def Let_def split: option.splits)
qed

lemma open_queue:
  "queue_ok (base m) \<Longrightarrow> queue_step (base m) (base (snd (resolve_open E http pid aid m)))"
  using take_queue mark_queue queue_step_refl by (auto simp: resolve_open_def split: option.splits)

lemma resolve_queue:
  assumes "queue_ok (base m)"
  shows "queue_step (base m) (base (snd (resolve_after_side_channel_decision E http pid aid m)))"
proof (cases "pending_for_approval aid (base m)")
  case None
  then show ?thesis using open_queue [OF assms]
    by (simp add: resolve_after_side_channel_decision_def Let_def)
next
  case (Some p)
  have "queue_step (base m) (base (snd (resolve_open E http pid aid (on_base (release_stale_lease p) m))))"
    if "\<not> final_pending p"
  proof -
    have r: "queue_step (base m) (release_stale_lease p (base m))"
      by (rule release_queue [OF assms Some not_final_not_settled [OF that]])
    show ?thesis
      using open_queue [of "on_base (release_stale_lease p) m" E http pid aid] queue_stepD [OF r]
      by (intro queue_step_trans [OF r]) simp
  qed
  with Some open_queue [OF assms] queue_step_refl [OF assms] show ?thesis
    by (auto simp: resolve_after_side_channel_decision_def Let_def)
qed

section \<open>The gateway as a state machine\<close>

text \<open>
  The identifiers of the next approval and of its pending request are not in use.
\<close>

definition fresh_pending :: "env \<Rightarrow> sys \<Rightarrow> bool" where
  "fresh_pending E s \<longleftrightarrow>
     dict_get (mcp_pending_requests s) (new_id E ''mcp_pending'' (drawn s)) = None \<and>
     (\<forall>q \<in> set (dict_vals (mcp_pending_requests s)). mp_approval_request_id q \<noteq> new_id E ''approval'' s)"

text \<open>
  The doors of the gateway, whatever the rest of the system does to the store (decide requests,
  register servers, let time pass) without writing pending requests, and a restart of the process.
\<close>

inductive gateway_step :: "env \<Rightarrow> http \<Rightarrow> mcp \<Rightarrow> mcp \<Rightarrow> bool" for E http where
  submitted: "fresh_pending E (base m) \<Longrightarrow> submit_gateway_request E http pid call m = (r, m') \<Longrightarrow>
    gateway_step E http m m'"
| called: "fresh_pending E (base m) \<Longrightarrow> handle_mcp_jsonrpc E http pid payload m = (r', m') \<Longrightarrow>
    gateway_step E http m m'"
| resolved: "resolve_gateway_request E http aid m = (r, m') \<Longrightarrow> gateway_step E http m m'"
| retried: "retry_pending_gateway_request E mid payload' user (base m) = (r'', s) \<Longrightarrow>
    gateway_step E http m (m\<lparr>base := s\<rparr>)"
| outside: "mcp_pending_requests s = mcp_pending_requests (base m) \<Longrightarrow>
    mcp_pending_requests (rows (disk s)) = mcp_pending_requests (rows (disk (base m))) \<Longrightarrow>
    tables_ok s \<Longrightarrow> tables_ok (rows (disk s)) \<Longrightarrow> gateway_step E http m (m\<lparr>base := s\<rparr>)"
| restarted: "gateway_step E http m (m\<lparr>base := load (base m), gateways := []\<rparr>)"

lemma gateway_for_keeps [simp]:
  "base (snd (gateway_for_project pid m)) = base m"
  "received (snd (gateway_for_project pid m)) = received m"
  "pending_calls pid' (snd (gateway_for_project pid m)) = pending_calls pid' m"
  by (auto simp: gateway_for_project_def received_def pending_calls_def)

lemma after_gateway_for:
  "bindE (gateway_for_project pid m) (\<lambda>_. k) = (r, m') \<Longrightarrow>
    m' = m \<or> k (snd (gateway_for_project pid m)) = (r, m')"
  by (auto simp: gateway_for_project_def)

lemma create_queue:
  assumes "queue_ok s" "fresh_pending E s"
  shows "queue_step s (snd (gateway_create_approval E pid call s))"
proof -
  define a where "a = new_approval_request E (gateway_request E pid call) ApprovalStatus.REQUESTED gateway_risk None True s"
  define p where "p = new_pending E pid (appr_id a) call (drawn s)"
  have i: "appr_id a = new_id E ''approval'' s" "mp_id p = new_id E ''mcp_pending'' (drawn s)"
      "mp_approval_request_id p = appr_id a"
    by (simp_all add: a_def p_def new_approval_request_def new_pending_def ApprovalRequestCreate.defs)
  show ?thesis
    unfolding gateway_create_approval_def Let_def snd_conv a_def [symmetric] p_def [symmetric]
    using assms(2) i by (intro queue_step_new [OF assms(1), of p _ a]) (simp_all add: fresh_pending_def drawn_def)
qed

lemma submit_queue:
  "queue_ok (base m) \<Longrightarrow> fresh_pending E (base m) \<Longrightarrow>
    queue_step (base m) (base (snd (submit_tool_call E http pid call m)))"
  using create_queue [of "base m" E pid call] queue_step_refl [of "base m"]
  by (auto simp: submit_tool_call_def snd_bindE_ret forward_def split_def Let_def)

lemma retry_queue:
  assumes "queue_ok s" "retry_pending_gateway_request E mid payload user s = (r, s')"
  shows "queue_step s s'"
proof (cases "dict_get (mcp_pending_requests s) mid")
  case None
  with assms queue_step_refl [OF assms(1)] show ?thesis
    by (auto simp: retry_pending_gateway_request_def get_pending_gateway_request_def)
next
  case (Some p)
  have k: "mp_id p = mid" using keyed_get_iff [OF queue_keyed [OF assms(1)], of mid p] Some by simp
  define n where "n = (case payload of None \<Rightarrow> True | Some q \<Rightarrow> pr_reset_attempts q)"
  let ?p = "\<lambda>s1. p\<lparr>mp_status := MCPPendingStatus.WAITING_FOR_APPROVAL,
      mp_attempts := (if n then 0 else mp_attempts p), mp_lease_owner := None, mp_lease_expires_at := None,
      mp_last_error := None, mp_updated_at := clock s1\<rparr>"
  have put: "queue_step s (persist (audit_pending_recovery E ty q d a (put_pending (?p s1) s1)))"
    if "\<not> settled p" "mcp_pending_requests s1 = mcp_pending_requests s" "approval_requests s1 = approval_requests s"
    for ty q d a s1
    using Some k that by (intro queue_step_put [OF assms(1), of p "?p s1"]) (simp_all add: audit_pending_recovery_def)
  have n': "pr_reset_attempts (case payload of None \<Rightarrow> \<lparr>pr_reason = [], pr_reset_attempts = True\<rparr> | Some r \<Rightarrow> r) = n"
    by (simp add: n_def split: option.splits)
  show ?thesis
    using assms(2) queue_step_refl [OF assms(1)] put
    by (auto simp: retry_pending_gateway_request_def get_pending_gateway_request_def Some Let_def n' settled_def
        audit_pending_recovery_def simp del: insert_iff split: if_split_asm)
qed

lemma load_tables:
  "mcp_pending_requests (load s) = by_key (mcp_pending_requests (rows (disk s)))"
  "approval_requests (load s) = by_key (approval_requests (rows (disk s)))"
  "rows (disk (load s)) = rows (disk s)"
  by (simp_all add: load_def sys_of_def load_store_def store.defs)

lemma keyed_by_key: "keyed key d \<Longrightarrow> keyed key (by_key d)"
  by (simp add: keyed_def by_key_distinct) (simp add: by_key_def list_all_iff)

lemma load_queue:
  assumes "queue_ok s"
  shows "queue_step s (load s)"
proof -
  have d: "distinct (map fst (mcp_pending_requests (rows (disk s))))" "tables_ok (rows (disk s))"
    using assms by (simp_all add: queue_ok_def tables_ok_def keyed_def)
  show ?thesis
    using assms d unfolding queue_step_def queue_ok_def
    by (simp add: tables_ok_def load_tables keyed_by_key dict_get_by_key)
qed

lemma gateway_step_queue:
  assumes "gateway_step E http m m'" "queue_ok (base m)"
  shows "queue_step (base m) (base m')"
  using assms(1)
proof cases
  case (submitted pid call r)
  from after_gateway_for [OF submitted(2) [unfolded submit_gateway_request_def]]
  show ?thesis
    using submit_queue [of "snd (gateway_for_project pid m)" E http pid call] submitted(1) assms(2)
      queue_step_refl [OF assms(2)] by auto
next
  case (called pid payload r)
  have "queue_step (base m) (base (snd (bindE (gateway_for_project pid m) (\<lambda>_ m.
      bindE (submit_tool_call E http pid c m) (\<lambda>d m. ret (RpcResult (gateway_decision_to_mcp_result d)) m)))))" for c
    using submit_queue [of "snd (gateway_for_project pid m)" E http pid c] called(1) assms(2)
      queue_step_refl [OF assms(2)] by (auto simp: gateway_for_project_def snd_bindE_ret)
  with called(2) queue_step_refl [OF assms(2)] show ?thesis
    by (auto simp: handle_mcp_jsonrpc_def split: if_split_asm sum.splits) (metis snd_conv)
next
  case (resolved aid r)
  then show ?thesis
    using resolve_queue [of "snd (gateway_for_project pid m)" E http pid aid for pid] assms(2)
      queue_step_refl [OF assms(2)]
    by (auto simp: resolve_gateway_request_def dest!: after_gateway_for split: option.splits) (metis snd_conv gateway_for_keeps(1))
next
  case (outside s)
  with assms(2) show ?thesis by (simp add: queue_step_def queue_ok_def)
qed (use assms(2) retry_queue load_queue in auto)

section \<open>A concrete gateway\<close>

definition mcp_approval :: "ApprovalStatus \<Rightarrow> ApprovalRequest" where
  "mcp_approval status =
     sample_approval\<lparr>appr_status := status,
       appr_approved_payload_hash := Some (compute_approval_payload_hash sample_env sample_approval)\<rparr>"

definition mcp_pending :: "MCPPendingStatus \<Rightarrow> MCPPendingRequest" where
  "mcp_pending status =
     \<lparr>mp_id = ''mp1'', mp_project_id = ''p1'', mp_approval_request_id = ''appr1'',
      mp_server_name = ''child-test-server'', mp_tool_name = ''write_file'', mp_arguments = [],
      mp_session_id = None, mp_requested_by = ''client'', mp_status = status, mp_attempts = 0,
      mp_max_attempts = 3, mp_lease_owner = None, mp_lease_expires_at = None, mp_last_error = None,
      mp_created_at = 0, mp_updated_at = 0\<rparr>"

definition mcp_project :: Project where
  "mcp_project = \<lparr>proj_name = ''P'', proj_description = [], proj_mode = ProjectMode.STRICT, proj_rules = [],
     proj_id = ''p1'', proj_created_at = 0\<rparr>"

definition mcp_store :: "ApprovalStatus \<Rightarrow> MCPPendingStatus \<Rightarrow> store" where
  "mcp_store ast mst = empty_store\<lparr>approval_requests := [(''appr1'', mcp_approval ast)],
     mcp_pending_requests := [(''mp1'', mcp_pending mst)], projects := [(''p1'', mcp_project)]\<rparr>"

definition sample_mcp :: "ApprovalStatus \<Rightarrow> MCPPendingStatus \<Rightarrow> mcp" where
  "sample_mcp ast mst =
     \<lparr>base = sys_of (mcp_store ast mst) 1000000 5 (mcp_store ast mst), default_test_server = [],
      test_servers_by_name = [], posted = [], gateways = []\<rparr>"

definition no_http :: http where
  "no_http n endpoint body = EmptyReply"

definition sample_operator :: AuthUser where
  "sample_operator = \<lparr>user_id = ''u1'', user_email = ''u@x'', user_display_name = ''U'', user_role = OWNER,
     user_email_verified = True\<rparr>"

lemma sample_mcp_base:
  "mcp_pending_requests (base (sample_mcp ast mst)) = [(''mp1'', mcp_pending mst)]"
  "approval_requests (base (sample_mcp ast mst)) = [(''appr1'', mcp_approval ast)]"
  "projects (base (sample_mcp ast mst)) = [(''p1'', mcp_project)]"
  "mcp_child_servers (base (sample_mcp ast mst)) = []" "clock (base (sample_mcp ast mst)) = 1000000"
  "disk (base (sample_mcp ast mst)) = DB (mcp_store ast mst)"
  "mcp_pending_requests (mcp_store ast mst) = [(''mp1'', mcp_pending mst)]"
  "approval_requests (mcp_store ast mst) = [(''appr1'', mcp_approval ast)]"
  by (simp_all add: sample_mcp_def sys_of_def mcp_store_def store.defs empty_store_def)

lemma mcp_parts:
  "mp_id (mcp_pending mst) = ''mp1''" "mp_approval_request_id (mcp_pending mst) = ''appr1''"
  "mp_status (mcp_pending mst) = mst" "mp_tool_name (mcp_pending mst) = ''write_file''"
  "appr_id (mcp_approval ast) = ''appr1''" "appr_project_id (mcp_approval ast) = ''p1''"
  "appr_status (mcp_approval ast) = ast"
  by (simp_all add: mcp_pending_def mcp_approval_def sample_approval_def)

lemma mcp_approval_hash:
  "appr_approved_payload_hash (mcp_approval ast) = Some (compute_approval_payload_hash sample_env (mcp_approval ast))"
  by (simp add: mcp_approval_def)

lemma sample_mcp_queue: "queue_ok (base (sample_mcp ast mst))"
  by (simp add: queue_ok_def tables_ok_def sample_mcp_base keyed_Cons mcp_parts)

lemma sample_mcp_pending: "pending_for_approval ''appr1'' (base (sample_mcp ast mst)) = Some (mcp_pending mst)"
  by (simp add: pending_for_approval_def sample_mcp_base dict_vals_def mcp_parts)

text \<open>Resolving the approved request sends the recorded call to the default test server.\<close>

lemma sample_resolution:
  "default_test_server (snd (resolve_gateway_request sample_env no_http ''appr1''
     (sample_mcp ApprovalStatus.APPROVED MCPPendingStatus.WAITING_FOR_APPROVAL))) =
   [child_call (recorded_call (mcp_pending MCPPendingStatus.WAITING_FOR_APPROVAL))]"
proof -
  let ?m = "sample_mcp ApprovalStatus.APPROVED MCPPendingStatus.WAITING_FOR_APPROVAL"
  let ?a = "mcp_approval ApprovalStatus.APPROVED"
  let ?c = "recorded_call (mcp_pending MCPPendingStatus.WAITING_FOR_APPROVAL)"
  let ?n = "?m\<lparr>gateways := [(''p1'', [])]\<rparr>"
  have g: "gateway_for_project ''p1'' ?m = (Inr (), ?n)"
    by (simp add: gateway_for_project_def sample_mcp_base ret_def) (simp add: sample_mcp_def)
  have w: "dict_get (pending_calls ''p1'' ?n) ''appr1'' = None" "recover_pending_call ''appr1'' (base ?m) = Some ?c"
    by (simp_all add: pending_calls_def recover_pending_call_def sample_mcp_pending mcp_parts recorded_call_def)
  then have t: "take_approved_call sample_env no_http ''p1'' ?a ?n =
      send_approved_call sample_env no_http ?a ?c ((drop_call ''p1'' ''appr1'' ?n)\<lparr>base := snd (acquire_pending_lease
        (mcp_pending MCPPendingStatus.WAITING_FOR_APPROVAL) (base ?m))\<rparr>)"
    by (simp add: take_approved_call_def mcp_parts sample_mcp_pending acquire_pending_lease_def Let_def)
  have "truthy (appr_approved_payload_hash ?a)"
    unfolding mcp_approval_hash by (simp add: compute_approval_payload_hash_def)
  then have r: "snd (resolve_gateway_request sample_env no_http ''appr1'' ?m) =
      snd (take_approved_call sample_env no_http ''p1'' ?a ?n)"
    by (simp add: resolve_gateway_request_def sample_mcp_base mcp_parts g resolve_after_side_channel_decision_def
        sample_mcp_pending final_pending_def FINAL_PENDING_STATUSES_def resolve_open_def mcp_approval_hash Let_def)
  show ?thesis
    unfolding r t
    by (simp add: send_approved_call_def forward_def call_tool_default find_registered_server_def sample_mcp_base
        dict_vals_def acquire_pending_lease_def drop_call_def test_reply_def Let_def mcp_parts)
      (simp add: sample_mcp_def)
qed

section \<open>The properties\<close>

lemma submit_received:
  assumes "received (snd (submit_tool_call E http pid call m)) \<noteq> received m"
  shows "\<not> is_mutating call \<and>
    received (snd (submit_tool_call E http pid call m)) = received (snd (forward http call m))"
  using assms by (auto simp: submit_tool_call_def snd_bindE_ret Let_def split: prod.splits)

lemma submit_route_received:
  assumes "received (snd (submit_tool_call E http pid call (snd (gateway_for_project pid m)))) \<noteq> received m"
  shows "\<not> is_mutating call \<and>
    received (snd (submit_tool_call E http pid call (snd (gateway_for_project pid m)))) = received (snd (forward http call m))"
proof -
  have "received (snd (forward http call (snd (gateway_for_project pid m)))) = received (snd (forward http call m))"
    by (rule forward_cong) simp_all
  with submit_received [of E http pid call "snd (gateway_for_project pid m)"] assms show ?thesis by simp
qed

lemma rpc_received:
  assumes "handle_mcp_jsonrpc E http pid payload m = (r, m')" "received m' \<noteq> received m"
  shows "\<exists>call. tool_call_from_params E pid (rpc_params payload) (base m) = Inr call \<and>
    m' = snd (submit_tool_call E http pid call (snd (gateway_for_project pid m)))"
proof -
  obtain call where c: "tool_call_from_params E pid (rpc_params payload) (base m) = Inr call"
      "(r, m') = bindE (gateway_for_project pid m) (\<lambda>_ m.
        bindE (submit_tool_call E http pid call m) (\<lambda>d m. ret (RpcResult (gateway_decision_to_mcp_result d)) m))"
    using assms by (auto simp: handle_mcp_jsonrpc_def split: if_split_asm sum.splits)
  have "m' = snd (bindE (submit_tool_call E http pid call (snd (gateway_for_project pid m)))
      (\<lambda>d m. ret (RpcResult (gateway_decision_to_mcp_result d)) m))"
    using after_gateway_for [OF c(2) [symmetric]] assms(2) by (metis snd_conv)
  with c(1) show ?thesis by (simp only: snd_bindE_ret) blast
qed

text \<open>The call was handed over in this step, at one of the two doors through which clients submit.\<close>

definition submitted_now :: "env \<Rightarrow> http \<Rightarrow> mcp \<Rightarrow> MCPGatewayToolCall \<Rightarrow> mcp \<Rightarrow> bool" where
  "submitted_now E http m call m' \<longleftrightarrow>
     (\<exists>pid r. submit_gateway_request E http pid call m = (r, m')) \<or>
     (\<exists>pid payload r. handle_mcp_jsonrpc E http pid payload m = (r, m') \<and>
        tool_call_from_params E pid (rpc_params payload) (base m) = Inr call)"

text \<open>
  C23. A mutating call never slips through. Whatever door is used, and in whatever state, one step sends at
  most one call to a server; and a call that is sent either was submitted in this step and is not
  mutating, or is the one submitted under an approval that is APPROVED, whose content still has the
  approved hash, and whose pending request is neither settled, nor dead-lettered, nor held by
  another resolution.
\<close>

theorem mutating_call_needs_approval:
  assumes "queue_ok (base m)" "gateway_step E http m m'" "received m' \<noteq> received m"
  shows "\<exists>call. received m' = received (snd (forward http call m)) \<and>
    ((\<not> is_mutating call \<and> submitted_now E http m call m') \<or>
     (\<exists>aid ap. dict_get (approval_requests (base m)) aid = Some ap \<and>
       approved_unchanged E ap \<and> sendable aid (base m) \<and> submitted_call (appr_project_id ap) aid m call))"
  using assms(2)
proof cases
  case (submitted pid call r)
  have "m' = snd (submit_tool_call E http pid call (snd (gateway_for_project pid m)))"
    using after_gateway_for [OF submitted(2) [unfolded submit_gateway_request_def]] assms(3) by (metis snd_conv)
  with submit_route_received [of E http pid call m] assms(3) submitted(2) show ?thesis
    unfolding submitted_now_def by blast
next
  case (called pid payload r)
  with rpc_received [OF called(2) assms(3)] submit_route_received assms(3) show ?thesis
    unfolding submitted_now_def by blast
next
  case (resolved aid r)
  then obtain ap where ap: "dict_get (approval_requests (base m)) aid = Some ap"
      "bindE (gateway_for_project (appr_project_id ap) m)
        (\<lambda>_ m. resolve_after_side_channel_decision E http (appr_project_id ap) aid m) = (r, m')"
    using assms(3) by (auto simp: resolve_gateway_request_def split: option.splits)
  let ?n = "snd (gateway_for_project (appr_project_id ap) m)"
  have m': "m' = snd (resolve_after_side_channel_decision E http (appr_project_id ap) aid ?n)"
    using after_gateway_for [OF ap(2)] assms(3) by (metis snd_conv)
  have q: "keyed mp_id (mcp_pending_requests (base ?n))" "keyed appr_id (approval_requests (base ?n))"
    using assms(1) by (simp_all add: queue_ok_def tables_ok_def)
  obtain ap' call where c: "dict_get (approval_requests (base ?n)) aid = Some ap'" "approved_unchanged E ap'"
      "sendable aid (base ?n)" "submitted_call (appr_project_id ap) aid ?n call"
      "received m' = received (snd (forward http call ?n))"
    using resolve_received [OF _ q, of E http "appr_project_id ap" aid] assms(3) m' by auto
  have "received (snd (forward http call ?n)) = received (snd (forward http call m))"
    by (rule forward_cong) simp_all
  moreover have "submitted_call (appr_project_id ap) aid m call"
    using c(4) by (simp add: submitted_call_def)
  ultimately show ?thesis using ap(1) c by auto
qed (use assms(3) in \<open>auto simp: received_def\<close>)

lemma mutating_call_needs_approval_witness:
  "default_test_server (snd (resolve_gateway_request sample_env no_http ''appr1''
      (sample_mcp ApprovalStatus.APPROVED MCPPendingStatus.WAITING_FOR_APPROVAL))) \<noteq> [] \<and>
   (\<exists>call. (\<not> is_mutating call \<and> submitted_now sample_env no_http
       (sample_mcp ApprovalStatus.APPROVED MCPPendingStatus.WAITING_FOR_APPROVAL) call
       (snd (resolve_gateway_request sample_env no_http ''appr1''
          (sample_mcp ApprovalStatus.APPROVED MCPPendingStatus.WAITING_FOR_APPROVAL)))) \<or>
     (\<exists>aid ap. dict_get (approval_requests (base
         (sample_mcp ApprovalStatus.APPROVED MCPPendingStatus.WAITING_FOR_APPROVAL))) aid = Some ap \<and>
       approved_unchanged sample_env ap))"
proof -
  let ?m = "sample_mcp ApprovalStatus.APPROVED MCPPendingStatus.WAITING_FOR_APPROVAL"
  let ?m' = "snd (resolve_gateway_request sample_env no_http ''appr1'' ?m)"
  have d: "default_test_server ?m = []" by (simp add: sample_mcp_def)
  have ne: "received ?m' \<noteq> received ?m" using sample_resolution d by (auto simp: received_def)
  have st: "gateway_step sample_env no_http ?m ?m'" by (rule resolved [OF surjective_pairing])
  show ?thesis
    using mutating_call_needs_approval [OF sample_mcp_queue st ne] sample_resolution by auto
qed

lemma settled_final: "settled p \<Longrightarrow> final_pending p"
  by (auto simp: settled_def final_pending_def FINAL_PENDING_STATUSES_def)

lemma resolve_settled:
  assumes "queue_ok (base m)" "pending_for_approval aid (base m) = Some p" "final_pending p"
  shows "received (snd (resolve_gateway_request E http aid m)) = received m"
proof (rule ccontr)
  assume r: "\<not> ?thesis"
  have "gateway_step E http m (snd (resolve_gateway_request E http aid m))"
    by (rule resolved [OF surjective_pairing])
  with assms r show False
    by (auto simp: resolve_gateway_request_def resolve_after_side_channel_decision_def gateway_for_project_def
        received_def drop_call_def Let_def split: option.splits if_splits)
qed

lemma gateway_steps_queue:
  assumes "(gateway_step E http)\<^sup>*\<^sup>* m m'" "queue_ok (base m)"
  shows "queue_step (base m) (base m')"
  using assms(1)
proof induction
  case base
  then show ?case by (rule queue_step_refl [OF assms(2)])
next
  case (step y z)
  show ?case
    by (rule queue_step_trans [OF step.IH gateway_step_queue [OF step.hyps(2) queue_stepD [OF step.IH]]])
qed

lemma settled_stays:
  assumes "(gateway_step E http)\<^sup>*\<^sup>* m m'" "queue_ok (base m)" "pending_for_approval aid (base m) = Some p" "settled p"
  shows "queue_ok (base m') \<and> pending_for_approval aid (base m') = Some p"
proof -
  note q = gateway_steps_queue [OF assms(1,2)]
  have "dict_get (mcp_pending_requests (base m)) (mp_id p) = Some p" "mp_approval_request_id p = aid"
    using assms(3) queue_find [OF assms(2)] by auto
  with q assms(4) have "dict_get (mcp_pending_requests (base m')) (mp_id p) = Some p"
    by (simp add: queue_step_def)
  with queue_find [OF queue_stepD [OF q]] queue_stepD [OF q] \<open>mp_approval_request_id p = aid\<close> show ?thesis by simp
qed



lemma resolve_undecided:
  assumes "queue_ok (base m)" "dict_get (approval_requests (base m)) aid = Some ap"
    "appr_status ap \<noteq> ApprovalStatus.APPROVED" "dict_get (projects (base m)) (appr_project_id ap) \<noteq> None"
    "pending_for_approval aid (base m) = Some p" "mp_status p = MCPPendingStatus.WAITING_FOR_APPROVAL"
  shows "\<exists>q. pending_for_approval aid (base (snd (resolve_gateway_request E http aid m))) = Some q \<and>
    mp_id q = mp_id p \<and> mp_status q = BLOCKED_BY_DECISION"
proof -
  have k: "appr_id ap = aid"
    using assms(1,2) keyed_get_iff [of appr_id "approval_requests (base m)" aid ap]
    by (simp add: queue_ok_def tables_ok_def)
  have nf: "\<not> final_pending p" using assms(6) by (simp add: final_pending_def FINAL_PENDING_STATUSES_def)
  obtain m1 where g: "gateway_for_project (appr_project_id ap) m = (Inr (), m1)" "base m1 = base m"
    using assms(4) gateway_for_keeps(1) [of "appr_project_id ap" m] by (auto simp: gateway_for_project_def)
  let ?q = "p\<lparr>mp_status := BLOCKED_BY_DECISION, mp_lease_owner := None, mp_lease_expires_at := None,
      mp_updated_at := clock (base m)\<rparr>"
  have "base (snd (resolve_gateway_request E http aid m)) = persist (put_pending ?q (base m))"
    using assms k nf g
    by (simp add: resolve_gateway_request_def resolve_after_side_channel_decision_def resolve_open_def
        mark_pending_status_def FINAL_PENDING_STATUSES_def Let_def)
  moreover have "pending_for_approval aid (persist (put_pending ?q (base m))) = Some ?q"
    by (rule pending_put_same [OF queue_keyed [OF assms(1)] assms(5)]) simp_all
  ultimately show ?thesis by auto
qed

text \<open>
  Asking too early loses the call: resolving a request that nobody has decided yet settles its
  pending request as blocked, so whatever happens afterwards, an approval included, the call is
  never sent and the operator's retry is refused.
\<close>

theorem early_resolution_blocks_for_good:
  assumes "queue_ok (base m)" "dict_get (approval_requests (base m)) aid = Some ap"
    "appr_status ap = ApprovalStatus.REQUESTED" "dict_get (projects (base m)) (appr_project_id ap) \<noteq> None"
    "pending_for_approval aid (base m) = Some p" "mp_status p = MCPPendingStatus.WAITING_FOR_APPROVAL"
    "(gateway_step E http)\<^sup>*\<^sup>* (snd (resolve_gateway_request E http aid m)) m'"
  shows "received (snd (resolve_gateway_request E http aid m')) = received m' \<and>
    (\<exists>msg. fst (retry_pending_gateway_request E (mp_id p) payload user (base m')) = Inl (HTTPException 409 msg))"
proof -
  let ?m = "snd (resolve_gateway_request E http aid m)"
  have "appr_status ap \<noteq> ApprovalStatus.APPROVED" using assms(3) by simp
  then obtain q where q: "pending_for_approval aid (base ?m) = Some q" "mp_id q = mp_id p" "mp_status q = BLOCKED_BY_DECISION"
    using resolve_undecided [OF assms(1,2) _ assms(4-6)] by blast
  have st: "gateway_step E http m ?m" by (rule resolved [OF surjective_pairing])
  have k: "queue_ok (base ?m)" by (rule queue_stepD [OF gateway_step_queue [OF st assms(1)]])
  have s: "settled q" using q(3) by (simp add: settled_def)
  note e = settled_stays [OF assms(7) k q(1) s]
  have "dict_get (mcp_pending_requests (base m')) (mp_id p) = Some q"
    using e queue_find [of "base m'" aid q] q(2) by simp
  then have "\<exists>msg. fst (retry_pending_gateway_request E (mp_id p) payload user (base m')) = Inl (HTTPException 409 msg)"
    using q(3) by (simp add: retry_pending_gateway_request_def get_pending_gateway_request_def Let_def)
  moreover have "received (snd (resolve_gateway_request E http aid m')) = received m'"
    by (rule resolve_settled [OF e [THEN conjunct1] e [THEN conjunct2] settled_final [OF s]])
  ultimately show ?thesis by blast
qed

lemma early_resolution_blocks_for_good_witness:
  "\<exists>msg. fst (retry_pending_gateway_request sample_env ''mp1'' None sample_operator
     (base (snd (resolve_gateway_request sample_env no_http ''appr1''
        (sample_mcp ApprovalStatus.REQUESTED MCPPendingStatus.WAITING_FOR_APPROVAL)))))
   = Inl (HTTPException 409 msg)"
proof -
  let ?m = "sample_mcp ApprovalStatus.REQUESTED MCPPendingStatus.WAITING_FOR_APPROVAL"
  have ap: "dict_get (approval_requests (base ?m)) ''appr1'' = Some (mcp_approval ApprovalStatus.REQUESTED)"
    "dict_get (projects (base ?m)) (appr_project_id (mcp_approval ApprovalStatus.REQUESTED)) \<noteq> None"
    by (simp_all add: sample_mcp_base mcp_parts)
  show ?thesis
    using early_resolution_blocks_for_good [OF sample_mcp_queue ap(1) mcp_parts(7) ap(2) sample_mcp_pending
        mcp_parts(3) rtranclp.rtrancl_refl, of sample_env no_http None sample_operator]
    by (simp add: mcp_parts)
qed

end
