(* ===== verification/MissionProgress.thy ===== *)
theory MissionProgress
  imports MissionProperties
begin

text \<open>
  Progress: a run whose steps pass reaches SUCCEEDED. The state of a run is viewed as its record and
  the list of its steps; each phase of an execution (lease, choice of the step, attempt, executor,
  application of the result) is followed on this view, without any exception on the way.
\<close>

section \<open>The view of a run\<close>

definition view :: "AgentRun \<Rightarrow> AgentRunStep list \<Rightarrow> sys \<Rightarrow> bool" where
  "view r L s \<longleftrightarrow> keyed step_id (agent_run_steps s) \<and> cur_run r s \<and> run_steps (run_id r) s = L \<and>
     distinct (map step_sequence L) \<and> agent_run_faults s = []"

lemma view_frame [simp]:
  "view r L (append_event E q ty a s) = view r L s"
  "view r L (persist s) = view r L s"
  "view r L (drawn s) = view r L s"
  "view r L (add_audit E aty i d ac s) = view r L s"
  by (simp_all add: view_def cur_run_def run_steps_def drawn_def)

lemma view_put_run: "view r L s \<Longrightarrow> run_id q = run_id r \<Longrightarrow> view q L (put_run q s)"
  by (simp add: view_def cur_run_def)

lemma view_mem:
  "view r L s \<Longrightarrow> st \<in> set L \<Longrightarrow> dict_get (agent_run_steps s) (step_id st) = Some st \<and> step_run_id st = run_id r"
  by (auto simp: view_def run_steps_mem)

lemma view_put_step:
  assumes v: "view r (pre @ st # post) s"
    and e: "step_id x = step_id st" "step_run_id x = step_run_id st" "step_sequence x = step_sequence st"
  shows "view r (pre @ x # post) (put_step x s)"
proof -
  have g: "dict_get (agent_run_steps s) (step_id x) = Some st" "step_run_id st = run_id r"
    using view_mem [OF v, of st] e by auto
  have k: "keyed step_id (agent_run_steps s)" using v by (simp add: view_def)
  have "step_id y \<noteq> step_id x" if "y \<in> set pre \<union> set post" for y
  proof
    assume y: "step_id y = step_id x"
    have "dict_get (agent_run_steps s) (step_id y) = Some y" using that view_mem [OF v, of y] by auto
    then have "y = st" using y g(1) by simp
    then show False using that v by (auto simp: view_def)
  qed
  then have "map (\<lambda>y. if step_id y = step_id x then x else y) (pre @ st # post) = pre @ x # post"
    using e(1) by (simp add: map_idI)
  then have "run_steps (run_id r) (put_step x s) = pre @ x # post"
    using run_steps_put [OF k g(1) e(2,3), of "run_id r"] v by (simp add: view_def)
  then show ?thesis using v e k steps.wf_put [of "agent_run_steps s" x] by (simp add: view_def cur_run_def)
qed

text \<open>A run on its way: open, not stopped by anyone, and free.\<close>

definition on_its_way :: "AgentRun \<Rightarrow> bool" where
  "on_its_way r \<longleftrightarrow> run_status r \<in> {AgentRunStatus.SCHEDULED, AgentRunStatus.RUNNING} \<and>
     \<not> run_pause_requested r \<and> \<not> run_cancel_requested r"

definition passed :: "AgentRunStep list \<Rightarrow> bool" where
  "passed L \<longleftrightarrow> list_all (\<lambda>st. step_status st = AgentRunStepStatus.SUCCEEDED) L"

definition waiting :: "AgentRunStep list \<Rightarrow> bool" where
  "waiting L \<longleftrightarrow> list_all (\<lambda>st. step_status st = AgentRunStepStatus.PENDING) L"

definition ready_at :: "AgentRunStep list \<Rightarrow> AgentRunStep \<Rightarrow> AgentRunStep list \<Rightarrow> AgentRun \<Rightarrow> sys \<Rightarrow> bool" where
  "ready_at pre st post r s \<longleftrightarrow> view r (pre @ st # post) s \<and> on_its_way r \<and> run_lease_owner r = None \<and>
     passed pre \<and> step_status st = AgentRunStepStatus.READY \<and> waiting post"

section \<open>The phases\<close>

abbreviation "returns \<equiv> outcome_ok (\<lambda>s. False)"

lemma acquire_returns:
  assumes "view r L s" "run_lease_owner r = None" "on_its_way r"
  shows "returns (\<lambda>(tok, q) s'. view q L s' \<and> run_id q = run_id r \<and> on_its_way q) (acquire_run_lease E r w n s)"
  using assms by (auto simp: acquire_run_lease_def wp Let_def on_its_way_def view_put_run split: option.splits)

lemma ready_step_in_passed:
  "passed pre \<Longrightarrow> step_status st = AgentRunStepStatus.READY \<Longrightarrow>
    ready_step_in E r now (pre @ st # post) s = ret (Some st) s"
  by (induction pre) (auto simp: passed_def retry_due_def)

lemma begin_returns:
  assumes v: "view r (pre @ st # post) s" and r: "on_its_way r" and st: "step_status st = AgentRunStepStatus.READY"
  shows "returns (\<lambda>(q, x) s'. view q (pre @ x # post) s' \<and> run_id q = run_id r \<and> on_its_way q \<and>
      run_status q = AgentRunStatus.RUNNING \<and> step_id x = step_id st \<and> step_status x = AgentRunStepStatus.RUNNING \<and>
      step_attempt_count x = step_attempt_count st + 1)
    (begin_attempt E r st w tok s)"
proof -
  have t: "can_transition_step AgentRunStepStatus.READY AgentRunStepStatus.RUNNING" by code_simp
  have t': "can_transition_run AgentRunStatus.SCHEDULED AgentRunStatus.RUNNING" by code_simp
  have p: "view q (pre @ x # post) (put_run q (put_step x s))"
    if "run_id q = run_id r" "step_id x = step_id st" "step_run_id x = step_run_id st"
      "step_sequence x = step_sequence st" for q x
    by (rule view_put_run [OF view_put_step [OF v]]) (use that in auto)
  have p2: "view q' (pre @ x # post) (put_run q' (put_run q (put_step x s)))"
    if "run_id q' = run_id r" "run_id q = run_id r" "step_id x = step_id st" "step_run_id x = step_run_id st"
      "step_sequence x = step_sequence st" for q q' x
    by (rule view_put_run [OF p]) (use that in auto)
  show ?thesis
    using r st unfolding begin_attempt_def
    by (auto simp: wp Let_def transition_step_def transition_run_def t t' on_its_way_def TERMINAL_RUN_STATUSES_def
        intro!: p p2)
qed

text \<open>After the step in hand passed: the list of steps that the view then shows.\<close>

definition passed_on :: "AgentRunStep \<Rightarrow> AgentRunStep list \<Rightarrow> AgentRun \<Rightarrow> AgentRunStep list \<Rightarrow> AgentRunStep \<Rightarrow>
    AgentRun \<Rightarrow> sys \<Rightarrow> bool" where
  "passed_on st pre r post x q s \<longleftrightarrow>
     step_id x = step_id st \<and> step_status x = AgentRunStepStatus.SUCCEEDED \<and> run_id q = run_id r \<and>
     step_attempt_count x = step_attempt_count st \<and>
     (case post of
        [] \<Rightarrow> view q (pre @ [x]) s \<and> run_status q = AgentRunStatus.SUCCEEDED
      | p # ps \<Rightarrow> on_its_way q \<and>
          (\<exists>p'. view q (pre @ x # p' # ps) s \<and> step_status p' = AgentRunStepStatus.READY \<and>
             step_attempt_count p' = step_attempt_count p))"

lemma passed_on_frame [simp]:
  "passed_on st pre r post x q (append_event E q' ty a s) = passed_on st pre r post x q s"
  "passed_on st pre r post x q (persist s) = passed_on st pre r post x q s"
  "passed_on st pre r post x q (add_audit E aty i d ac s) = passed_on st pre r post x q s"
  by (simp_all add: passed_on_def split: list.splits)

lemma next_pending_returns:
  assumes v: "view r (pre @ x # post) s" and c: "passed pre" "step_status x = AgentRunStepStatus.SUCCEEDED" "waiting post"
    and r: "on_its_way r"
  shows "returns (\<lambda>(nxt, q) s'. run_id q = run_id r \<and> (nxt = None \<longleftrightarrow> post = []) \<and> run_status q = run_status r \<and>
      on_its_way q \<and>
      (case post of [] \<Rightarrow> view q (pre @ [x]) s'
       | p # ps \<Rightarrow> (\<exists>p'. view q (pre @ x # p' # ps) s' \<and> step_status p' = AgentRunStepStatus.READY \<and>
           step_attempt_count p' = step_attempt_count p)))
    (next_pending_step E r x s)"
proof -
  have L: "run_steps (run_id r) s = pre @ x # post" and d: "distinct (map step_sequence (pre @ x # post))"
    using v by (simp_all add: view_def)
  have "sorted (map step_sequence (pre @ x # post))" using run_steps_sorted [of "run_id r" s] L by simp
  then have "step_sequence x \<le> step_sequence y \<and> step_sequence x \<noteq> step_sequence y" if "y \<in> set post" for y
    using d that by (auto simp: sorted_append)
  then have seq: "list_all (\<lambda>y. step_sequence y > step_sequence x) post"
    by (auto simp: list_all_iff order_less_le)
  note F = find_next [OF c(1)[unfolded passed_def] c(2) c(3)[unfolded waiting_def] seq]
  show ?thesis
  proof (cases post)
    case Nil
    then show ?thesis using F L v r by (simp add: next_pending_step_def wp)
  next
    case (Cons p ps)
    let ?p = "enter_step (clock s) AgentRunStepStatus.READY [] p"
    have P: "step_status p = AgentRunStepStatus.PENDING" using c(3) Cons by (simp add: waiting_def)
    have t: "transition_step (clock s) p AgentRunStepStatus.READY [] =
        Inr ((step_status p, AgentRunStepStatus.READY), ?p)"
      using P by (simp add: transition_step_cases into_READY)
    have "view r ((pre @ [x]) @ ?p # ps) (put_step ?p s)"
      by (rule view_put_step [of r "pre @ [x]" p ps]) (use v Cons in auto)
    then have w: "\<exists>p'. view q (pre @ x # p' # ps) (put_run q (put_step ?p s)) \<and>
        step_status p' = AgentRunStepStatus.READY \<and> step_attempt_count p' = step_attempt_count p"
      if "run_id q = run_id r" for q
      using view_put_run [of r "pre @ x # ?p # ps" _ q] that by (intro exI [of _ ?p]) simp
    show ?thesis
      using F L Cons t r w by (auto simp: next_pending_step_def wp Let_def on_its_way_def)
  qed
qed

lemma apply_pass_returns:
  assumes v: "view r (pre @ st # post) s" and c: "passed pre" "step_status st = AgentRunStepStatus.RUNNING" "waiting post"
    and r: "on_its_way r" "run_status r = AgentRunStatus.RUNNING" and res: "res_decision res = VerificationDecision.PASS"
  shows "returns (\<lambda>(q, x) s'. passed_on st pre r post x q s') (apply_execution_result E r st res actor s)"
proof -
  define x0 where "x0 = st\<lparr>step_decision := Some (res_decision res), step_reason := res_reason res,
    step_evidence := res_evidence res,
    step_evidence_hash := Some (canonical_evidence_hash E (JObj (res_evidence res))),
    step_output_reference := res_output_reference res, step_updated_at := clock s\<rparr>"
  define x where "x = enter_step (clock s) AgentRunStepStatus.SUCCEEDED (res_reason res) x0"
  have x0: "step_id x0 = step_id st" "step_run_id x0 = step_run_id st" "step_sequence x0 = step_sequence st"
    "step_status x0 = AgentRunStepStatus.RUNNING" "step_attempt_count x0 = step_attempt_count st"
    by (simp_all add: x0_def c)
  have x: "step_id x = step_id st" "step_run_id x = step_run_id st" "step_sequence x = step_sequence st"
    "step_status x = AgentRunStepStatus.SUCCEEDED" "step_attempt_count x = step_attempt_count st"
    by (simp_all add: x_def x0)
  have t: "transition_step (clock s) x0 AgentRunStepStatus.SUCCEEDED (res_reason res) =
      Inr ((AgentRunStepStatus.RUNNING, AgentRunStepStatus.SUCCEEDED), x)"
    by (simp add: transition_step_cases into_SUCCEEDED x0 x_def)
  have tr: "can_transition_run AgentRunStatus.RUNNING AgentRunStatus.SUCCEEDED" by code_simp
  define s1 where "s1 = append_event E r STEP_SUCCEEDED
      ((step_args x (AgentRunStepStatus.RUNNING, AgentRunStepStatus.SUCCEEDED) (res_reason res) [] actor)
        \<lparr>arg_output_hash := step_evidence_hash x,
         arg_metadata := decision_metadata res @
           [(''output_reference'', json_opt_str (res_output_reference res))]\<rparr>) (put_step x (put_step x0 s))"
  have "view r (pre @ x # post) (put_step x (put_step x0 s))"
    by (rule view_put_step [OF view_put_step [OF v]]) (simp_all add: x x0)
  then have v1: "view r (pre @ x # post) s1" by (simp add: s1_def)
  note N = next_pending_returns [OF v1 c(1) x(4) c(3) r(1), of E]
  have fin: "passed_on st pre r post x q' (put_run q' s')"
    if "view q (pre @ [x]) s'" "run_id q = run_id r" "post = []" "run_id q' = run_id q"
      "run_status q' = AgentRunStatus.SUCCEEDED" for q q' s'
    using that x view_put_run [of q "pre @ [x]" s' q'] by (simp add: passed_on_def)
  have on: "passed_on st pre r post x q' (put_run q' s')"
    if "post = p # ps" "view q (pre @ x # p' # ps) s'" "run_id q = run_id r" "run_id q' = run_id q"
      "on_its_way q'" "step_status p' = AgentRunStepStatus.READY" "step_attempt_count p' = step_attempt_count p"
    for p ps q q' s' p'
    using that x view_put_run [of q "pre @ x # p' # ps" s' q'] by (auto simp: passed_on_def)
  have "returns (\<lambda>(nxt, q) s'.
      returns (\<lambda>(q, x) s'. passed_on st pre r post x q s')
        (if nxt = None then
           liftE (transition_run (clock s) q AgentRunStatus.SUCCEEDED [])
             (\<lambda>(rpn, q) s'. ret (q, x) (append_event E q RUN_STATE_CHANGED
                (run_args rpn ''Every Mission Control step passed.'' [] actor) (put_run q s'))) s'
         else ret (q\<lparr>run_status := AgentRunStatus.RUNNING, run_updated_at := clock s\<rparr>, x)
                (put_run (q\<lparr>run_status := AgentRunStatus.RUNNING, run_updated_at := clock s\<rparr>) s')))
    (next_pending_step E r x s1)"
  proof (cases post)
    case Nil
    show ?thesis
      by (rule outcome_ok_mono [OF N])
        (auto simp: wp r(2) Nil transition_run_def tr intro!: fin [OF _ _ Nil, unfolded Nil])
  next
    case (Cons p ps)
    show ?thesis
      by (rule outcome_ok_mono [OF N])
        (auto simp: wp r(2) Cons on_its_way_def intro!: on [OF Cons, unfolded Cons])
  qed
  then show ?thesis
    using res t unfolding apply_execution_result_def Let_def x0_def [symmetric]
    by (simp add: wp s1_def [symmetric] split_def if_bool_eq_conj cong: if_cong)
qed

section \<open>One execution\<close>

text \<open>An executor that passes every step and leaves the run, its steps and the fault plan alone.\<close>

definition passing :: "executor \<Rightarrow> bool" where
  "passing executor \<longleftrightarrow> (\<forall>run step timeout s. \<exists>res s'. executor run step timeout s = (Result res, s') \<and>
     res_decision res = VerificationDecision.PASS \<and> agent_runs s' = agent_runs s \<and>
     agent_run_steps s' = agent_run_steps s \<and> agent_run_faults s' = agent_run_faults s)"

lemma run_executor_passing:
  assumes "passing executor" "view r L s"
  shows "\<exists>res s'. run_executor E r st w n executor s = (res, s') \<and> res_decision res = VerificationDecision.PASS \<and>
    view r L s'"
proof -
  obtain res s' where x: "executor r st n s = (Result res, s')" "res_decision res = VerificationDecision.PASS"
      "agent_runs s' = agent_runs s" "agent_run_steps s' = agent_run_steps s" "agent_run_faults s' = agent_run_faults s"
    using assms(1) unfolding passing_def by blast
  have "consume_fault (run_id r) (step_type st) s = (None, s)"
    using assms(2) by (simp add: consume_fault_def matching_fault_def view_def dict_vals_def)
  then have "run_executor E r st w n executor s = (res, s')" using x(1) by (simp add: run_executor_def)
  moreover have "view r L s'" using assms(2) x(3-5) by (simp add: view_def cur_run_def run_steps_def)
  ultimately show ?thesis using x(2) by blast
qed

text \<open>
  Where an execution of a ready step leads: the step has succeeded, and either it was the last one
  and the run has succeeded, or the next one is ready.
\<close>

definition advanced :: "AgentRunStep list \<Rightarrow> AgentRunStep \<Rightarrow> AgentRunStep list \<Rightarrow> AgentRun \<Rightarrow> sys \<Rightarrow> bool" where
  "advanced pre st post r s \<longleftrightarrow> (\<exists>q x.
     step_status x = AgentRunStepStatus.SUCCEEDED \<and> step_attempt_count x = step_attempt_count st + 1 \<and>
     run_id q = run_id r \<and>
     (case post of
        [] \<Rightarrow> view q (pre @ [x]) s \<and> run_status q = AgentRunStatus.SUCCEEDED
      | p # ps \<Rightarrow> (\<exists>p'. ready_at (pre @ [x]) p' ps q s \<and> step_attempt_count p' = step_attempt_count p)))"

lemma finish_returns:
  assumes v: "view r (pre @ x # post) s" and c: "passed pre" "step_status x = AgentRunStepStatus.RUNNING" "waiting post"
    and r: "on_its_way r" "run_status r = AgentRunStatus.RUNNING" and res: "res_decision res = VerificationDecision.PASS"
    and n: "step_attempt_count x = step_attempt_count st + 1" "run_id r = run_id r0"
  shows "returns (\<lambda>_ s'. advanced pre st post r0 s') (finish_step E r x res w s)"
proof -
  have now: "run_now r s = r" "step_now x s = x"
    using v view_mem [OF v, of x] by (simp_all add: run_now_def step_now_def view_def cur_run_def)
  let ?q = "\<lambda>q t. q\<lparr>run_lease_owner := None, run_lease_token := None, run_lease_expires_at := None, run_updated_at := t\<rparr>"
  let ?y = "\<lambda>y. y\<lparr>step_lease_owner := None, step_lease_token := None, step_lease_expires_at := None\<rparr>"
  have A: "advanced pre st post r0 (put_run (?q q t) (put_step (?y y) s'))"
    if P: "passed_on x pre r post y q s'" for q y s' t
  proof (cases post)
    case Nil
    have "view q (pre @ [y]) s'" using P Nil by (simp add: passed_on_def)
    then have "view (?q q t) (pre @ [?y y]) (put_run (?q q t) (put_step (?y y) s'))"
      using view_put_run [OF view_put_step [of q pre y "[]" s' "?y y"], of "?q q t"] by simp
    then show ?thesis
      unfolding advanced_def using P Nil n by (intro exI [of _ "?q q t"] exI [of _ "?y y"]) (simp add: passed_on_def)
  next
    case (Cons p ps)
    obtain p' where p': "view q (pre @ y # p' # ps) s'" "step_status p' = AgentRunStepStatus.READY"
        "step_attempt_count p' = step_attempt_count p" "on_its_way q"
      using P Cons by (auto simp: passed_on_def)
    have "view (?q q t) (pre @ ?y y # p' # ps) (put_run (?q q t) (put_step (?y y) s'))"
      using view_put_run [OF view_put_step [of q pre y "p' # ps" s' "?y y"], of "?q q t"] p'(1) by simp
    then have "ready_at (pre @ [?y y]) p' ps (?q q t) (put_run (?q q t) (put_step (?y y) s'))"
      using p' P Cons c by (simp add: ready_at_def passed_on_def passed_def waiting_def on_its_way_def)
    then show ?thesis
      unfolding advanced_def using P Cons n p'(3)
      by (intro exI [of _ "?q q t"] exI [of _ "?y y"]) (auto simp: passed_on_def)
  qed
  have fr: "advanced pre st post r0 (add_audit E ty i d a s') = advanced pre st post r0 s'"
    "advanced pre st post r0 (persist s') = advanced pre st post r0 s'" for ty i d a s'
    by (simp_all add: advanced_def ready_at_def split: list.splits)
  show ?thesis
    unfolding finish_step_def now outcome_ok_bindE
    by (rule outcome_ok_mono [OF apply_pass_returns [OF v c r res]]) (auto simp: wp Let_def fr A)
qed

lemma execute_advances:
  assumes R: "ready_at pre st post r s" and p: "passing executor"
  shows "returns (\<lambda>_ s'. advanced pre st post r s') (execute_next_step E (run_id r) w n t executor s)"
proof -
  have v: "view r (pre @ st # post) s" and o': "on_its_way r" and l: "run_lease_owner r = None"
    and c: "passed pre" "step_status st = AgentRunStepStatus.READY" "waiting post"
    using R by (simp_all add: ready_at_def)
  have g: "dict_get (agent_runs s) (run_id r) = Some r" using v by (simp add: view_def cur_run_def)
  have rs: "ready_step E q s' = ret (Some st) s'" if "view q (pre @ st # post) s'" for q s'
    using that ready_step_in_passed [OF c(1,2)] by (simp add: ready_step_def view_def)
  have fin: "returns (\<lambda>_ s'. advanced pre st post r s')
      (case run_executor E q x w t executor s' of (res, s') \<Rightarrow> finish_step E q x res w s')"
    if v': "view q (pre @ x # post) s'" and q: "run_id q = run_id r" "on_its_way q" "run_status q = AgentRunStatus.RUNNING"
      and x: "step_status x = AgentRunStepStatus.RUNNING" "step_attempt_count x = step_attempt_count st + 1" for q x s'
  proof -
    obtain res s2 where e: "run_executor E q x w t executor s' = (res, s2)"
        "res_decision res = VerificationDecision.PASS" "view q (pre @ x # post) s2"
      using run_executor_passing [OF p v'] by blast
    show ?thesis using finish_returns [OF e(3) c(1) x(1) c(3) q(2,3) e(2) x(2) q(1)] e(1) by simp
  qed
  have beg: "returns (\<lambda>(q, x) s'. view q (pre @ x # post) s' \<and> run_id q = run_id r \<and> on_its_way q \<and>
      run_status q = AgentRunStatus.RUNNING \<and> step_status x = AgentRunStepStatus.RUNNING \<and>
      step_attempt_count x = step_attempt_count st + 1) (begin_attempt E q st w tok s')"
    if "view q (pre @ st # post) s'" "run_id q = run_id r" "on_its_way q" for q s' tok
    by (rule outcome_ok_mono [OF begin_returns [OF that(1,3) c(2)]]) (use that(2) in auto)
  have "returns (\<lambda>x s'. \<exists>q y. x = Inr (q, y) \<and> view q (pre @ y # post) s' \<and> run_id q = run_id r \<and> on_its_way q \<and>
      run_status q = AgentRunStatus.RUNNING \<and> step_status y = AgentRunStepStatus.RUNNING \<and>
      step_attempt_count y = step_attempt_count st + 1) (start_step E (run_id r) w n s)"
  proof -
    have open': "run_status r \<notin> set [AgentRunStatus.BLOCKED, AgentRunStatus.SUCCEEDED, AgentRunStatus.FAILED, AgentRunStatus.CANCELLED]"
      "\<not> (run_pause_requested r \<or> run_status r = AgentRunStatus.PAUSED)" "\<not> run_cancel_requested r"
      using o' by (auto simp: on_its_way_def)
    have st: "step_status st \<noteq> AgentRunStepStatus.SUCCEEDED" using c(2) by simp
    show ?thesis
      unfolding start_step_def g option.case using open' st
      by (simp only: if_False if_not_P outcome_ok_bindE simp_thms)
        (rule outcome_ok_mono [OF acquire_returns [OF v l o']],
          auto simp: wp rs intro!: outcome_ok_mono [OF beg])
  qed
  then have "returns (\<lambda>x s'. returns (\<lambda>_ s'. advanced pre st post r s')
      (case x of Inl res \<Rightarrow> ret res s' | Inr (q, y) \<Rightarrow>
         (case run_executor E q y w t executor s' of (res, s') \<Rightarrow> finish_step E q y res w s')))
    (start_step E (run_id r) w n s)"
    by (rule outcome_ok_mono) (auto intro!: fin)
  then show ?thesis unfolding execute_next_step_def Let_def outcome_ok_bindE .
qed

section \<open>Running to the end\<close>

fun execute_times :: "env \<Rightarrow> string \<Rightarrow> string \<Rightarrow> int \<Rightarrow> int \<Rightarrow> executor \<Rightarrow> nat \<Rightarrow> sys \<Rightarrow> unit result" where
  "execute_times E rid w n t executor 0 s = ret () s"
| "execute_times E rid w n t executor (Suc k) s =
     bindE (execute_next_step E rid w n t executor s) (\<lambda>_ s. execute_times E rid w n t executor k s)"

definition completed :: "string \<Rightarrow> nat \<Rightarrow> sys \<Rightarrow> bool" where
  "completed rid k s \<longleftrightarrow> (\<exists>r L. dict_get (agent_runs s) rid = Some r \<and> run_status r = AgentRunStatus.SUCCEEDED \<and>
     run_steps rid s = L \<and> passed L \<and> length L = k \<and> list_all (\<lambda>st. step_attempt_count st = 1) L)"

lemma run_to_the_end:
  assumes "passing executor" "ready_at pre st post r s" "run_id r = rid"
    "list_all (\<lambda>y. step_attempt_count y = 1) pre" "list_all (\<lambda>y. step_attempt_count y = 0) (st # post)"
  shows "returns (\<lambda>_ s'. completed rid (length (pre @ st # post)) s')
    (execute_times E rid w n t executor (Suc (length post)) s)"
  using assms(2-5)
proof (induction post arbitrary: pre st r s)
  case Nil
  have ex: "returns (\<lambda>_ s'. advanced pre st [] r s') (execute_next_step E rid w n t executor s)"
    using execute_advances [OF Nil.prems(1) assms(1), of E w n t] Nil.prems(2) by simp
  have pp: "passed pre" using Nil.prems(1) by (simp add: ready_at_def)
  have fin: "completed rid (length (pre @ [st])) s'" if adv: "advanced pre st [] r s'" for s'
  proof -
    obtain q x where q: "view q (pre @ [x]) s'" "run_id q = run_id r" "run_status q = AgentRunStatus.SUCCEEDED"
        "step_status x = AgentRunStepStatus.SUCCEEDED" "step_attempt_count x = step_attempt_count st + 1"
      using adv by (auto simp: advanced_def)
    then show ?thesis
      using pp Nil.prems(2-4) by (auto simp: completed_def view_def cur_run_def passed_def)
  qed
  have "returns (\<lambda>_ s'. returns (\<lambda>_ s'. completed rid (length (pre @ [st])) s') (ret () s'))
      (execute_next_step E rid w n t executor s)"
    by (rule outcome_ok_mono [OF ex]) (simp_all add: wp fin [simplified])
  then show ?case by (simp add: wp)
next
  case (Cons p ps)
  have ex: "returns (\<lambda>_ s'. advanced pre st (p # ps) r s') (execute_next_step E rid w n t executor s)"
    using execute_advances [OF Cons.prems(1) assms(1), of E w n t] Cons.prems(2) by simp
  have fin: "returns (\<lambda>_ s'. completed rid (length (pre @ st # p # ps)) s')
      (execute_times E rid w n t executor (Suc (length ps)) s')" if adv: "advanced pre st (p # ps) r s'" for s'
  proof -
    obtain q x p' where q: "ready_at (pre @ [x]) p' ps q s'" "run_id q = run_id r"
        "step_attempt_count x = step_attempt_count st + 1" "step_attempt_count p' = step_attempt_count p"
      using adv by (auto simp: advanced_def)
    show ?thesis using Cons.IH [OF q(1)] q(2-4) Cons.prems(2-4) by simp
  qed
  have "returns (\<lambda>_ s'. returns (\<lambda>_ s'. completed rid (length (pre @ st # p # ps)) s')
        (execute_times E rid w n t executor (Suc (length ps)) s'))
      (execute_next_step E rid w n t executor s)"
    by (rule outcome_ok_mono [OF ex]) (simp_all only: fin)
  then show ?case by (simp only: execute_times.simps(2) [of _ _ _ _ _ _ "Suc (length ps)"] list.size add_0_right
        add_Suc_right outcome_ok_bindE)
qed

section \<open>A new run\<close>

lemma create_run_steps_flags:
  "create_run_steps E p actor i tys r s = (r', s') \<Longrightarrow>
     run_pause_requested r' = run_pause_requested r \<and> run_cancel_requested r' = run_cancel_requested r \<and>
     agent_run_faults s' = agent_run_faults s"
proof (induction tys arbitrary: i r s)
  case (Cons ty tys)
  then show ?case by (cases "i = 0") (auto simp: Let_def dest!: Cons.IH)
qed simp

lemma store_agent_run_flags:
  assumes "store_agent_run E p task ap actor s = (r, s')"
  shows "\<not> run_pause_requested r" "\<not> run_cancel_requested r" "agent_run_faults s' = agent_run_faults s"
proof -
  have "\<not> run_pause_requested (new_agent_run E p task ap c t)" "\<not> run_cancel_requested (new_agent_run E p task ap c t)"
    for c t by (simp_all add: new_agent_run_def)
  then show "\<not> run_pause_requested r" "\<not> run_cancel_requested r" "agent_run_faults s' = agent_run_faults s"
    using assms by (auto simp: store_agent_run_def Let_def split: prod.splits if_splits dest!: create_run_steps_flags)
qed

lemma new_run_ready:
  assumes N: "new_run_ok p r s" and k: "keyed step_id (agent_run_steps s)" and f: "agent_run_faults s = []"
    and r: "\<not> run_pause_requested r" "\<not> run_cancel_requested r"
  obtains st post where "ready_at [] st post r s" "length post = 6"
    "list_all (\<lambda>y. step_attempt_count y = 0) (st # post)"
proof -
  let ?L = "run_steps (run_id r) s"
  have m: "map step_status ?L = map first_ready [0..<7]" "map step_sequence ?L = map int [0..<7]"
    and a: "list_all (\<lambda>st. step_attempt_count st = 0) ?L"
    using N by (auto simp: new_run_ok_def list_all_iff)
  have len: "length ?L = 7" using m(1) by (metis length_map length_upt diff_zero)
  then obtain st post where L: "?L = st # post" by (cases ?L) auto
  have s7: "map first_ready [0..<7] = AgentRunStepStatus.READY # replicate 6 AgentRunStepStatus.PENDING"
    by (simp add: first_ready_def upt_rec numeral_eq_Suc)
  have st: "step_status st = AgentRunStepStatus.READY" "map step_status post = replicate 6 AgentRunStepStatus.PENDING"
    using m(1) unfolding s7 L by simp_all
  have "list_all (\<lambda>y. y = AgentRunStepStatus.PENDING) (map step_status post)"
    unfolding st(2) by (simp add: list_all_iff)
  then have "waiting post" by (simp add: waiting_def list_all_iff)
  moreover have "distinct (map step_sequence (st # post))" using m(2) L by (simp add: distinct_map)
  moreover have "run_status r = AgentRunStatus.SCHEDULED" "cur_run r s" "run_lease_owner r = None"
    using N by (simp_all add: new_run_ok_def)
  ultimately have "ready_at [] st post r s"
    using k f r st(1) L by (simp add: ready_at_def view_def on_its_way_def passed_def)
  with that L len a show ?thesis by auto
qed

text \<open>
  C19. Every new run can be carried to its end: seven executions, by any worker, whose executor passes
  each step, never raise and leave the run SUCCEEDED with its seven steps succeeded, each of them
  executed exactly once.
\<close>

theorem passing_run_succeeds:
  assumes "mission_reachable E s F" "fresh_ids E s" "create_agent_run E payload actor s = (Inr r, s1)"
    "dict_get (agent_runs s) (run_id r) = None" "agent_run_faults s = []" "passing executor"
  shows "\<exists>s2. execute_times E (run_id r) w n t executor 7 s1 = (Inr (), s2) \<and> completed (run_id r) 7 s2"
proof -
  have I: "minv (watching F [] []) s" by (rule reachable_minv [OF assms(1)])
  obtain task ap where c: "open_runs_of (task_id task) s \<noteq> [] \<Longrightarrow>
        r = last (sort_key run_created_at (open_runs_of (task_id task) s)) \<and> s1 = s"
      "open_runs_of (task_id task) s = [] \<Longrightarrow> store_agent_run E payload task ap actor s = (r, s1)"
    using assms(3) by (auto simp: create_agent_run_def Let_def split: option.splits if_splits prod.splits)
  have "open_runs_of (task_id task) s = []"
  proof (rule ccontr)
    assume n: "open_runs_of (task_id task) s \<noteq> []"
    then show False using c(1) [OF n] open_runs_get [OF I n] assms(4) by simp
  qed
  then have st: "store_agent_run E payload task ap actor s = (r, s1)" by (rule c(2))
  note fl = store_agent_run_flags [OF st]
  have N: "minv (watching F [] []) s1" "new_run_ok payload r s1"
    using store_agent_run_minv [OF I assms(2) st] by simp_all
  obtain st post where R: "ready_at [] st post r s1" "length post = 6"
      "list_all (\<lambda>y. step_attempt_count y = 0) (st # post)"
    using new_run_ready [OF N(2) minv_keyed(1) [OF N(1)]] fl assms(5) by auto
  have "returns (\<lambda>_ s'. completed (run_id r) 7 s') (execute_times E (run_id r) w n t executor 7 s1)"
    using run_to_the_end [OF assms(6) R(1) refl, of E w n t] R(2,3) by (simp add: numeral_eq_Suc)
  then show ?thesis
    by (cases "execute_times E (run_id r) w n t executor 7 s1"; cases "fst (execute_times E (run_id r) w n t executor 7 s1)")
      (auto simp: outcome_ok_def)
qed

definition sample_executor :: executor where
  "sample_executor run st timeout s = (Result (sample_result VerificationDecision.PASS), s)"

lemma passing_run_succeeds_witness:
  "\<exists>r s1 s2. create_agent_run sample_env sample_run_create ''op'' sample_sys = (Inr r, s1) \<and>
     execute_times sample_env (run_id r) ''w1'' 60 30 sample_executor 7 s1 = (Inr (), s2) \<and> completed (run_id r) 7 s2"
proof -
  obtain r s1 where c: "create_agent_run sample_env sample_run_create ''op'' sample_sys = (Inr r, s1)"
    using sample_created by blast
  have m: "mission_reachable sample_env sample_sys []"
    unfolding mission_reachable_def mission_init_def by (intro exI [of _ sample_sys]) simp
  have f: "fresh_ids sample_env sample_sys" by code_simp
  have n: "dict_get (agent_runs sample_sys) (run_id r) = None" by simp
  have e: "agent_run_faults sample_sys = []"
    by (simp add: sample_sys_def sys_of_def sample_store_def empty_store_def store.defs)
  have p: "passing sample_executor"
    by (simp add: passing_def sample_executor_def sample_result_def)
  show ?thesis using passing_run_succeeds [OF m f c n e p] c by blast
qed

end
