(* ===== verification/Reporting.thy ===== *)
theory Reporting
  imports TrustAuthorization TrustCredentials
begin

text \<open>
  \<open>trust_reporting.py\<close>: the reliability scorecard of every agent and the queue of exceptions for the
  operator. Both only read. The rates are exact rationals instead of floating point.
\<close>

section \<open>Providers in order\<close>

text \<open>The scorecards are sorted by the value of the provider, so providers are ordered by it.\<close>

lemma AgentProvider_value_inject [simp]: "AgentProvider_value p = AgentProvider_value q \<longleftrightarrow> p = q"
  by (cases p; cases q) simp_all

instantiation AgentProvider :: linorder
begin

definition less_eq_AgentProvider :: "AgentProvider \<Rightarrow> AgentProvider \<Rightarrow> bool" where
  "p \<le> q \<longleftrightarrow> AgentProvider_value p \<le> AgentProvider_value q"

definition less_AgentProvider :: "AgentProvider \<Rightarrow> AgentProvider \<Rightarrow> bool" where
  "p < q \<longleftrightarrow> AgentProvider_value p < AgentProvider_value q"

instance
  by standard (auto simp: less_eq_AgentProvider_def less_AgentProvider_def order.strict_iff_order)

end

section \<open>Scorecards\<close>

record AgentReliabilityScorecard =
  sc_provider :: AgentProvider
  sc_agent_id :: "string option"
  sc_evaluated_actions :: nat
  sc_allowed_actions :: nat
  sc_blocked_actions :: nat
  sc_approval_escalations :: nat
  sc_scope_adherence_rate :: rat
  sc_first_attempt_success_rate :: rat
  sc_recovery_success_rate :: rat
  sc_human_intervention_rate :: rat
  sc_policy_block_rate :: rat
  sc_evidence_completion_rate :: rat
  sc_average_runtime_seconds :: rat
  sc_total_cost_usd :: rat
  sc_confidence :: rat
  sc_generated_at :: int

type_synonym agent_key = "AgentProvider \<times> string option"

definition action_agent :: "ProposedAction \<Rightarrow> agent_key" where
  "action_agent a = (act_provider a, act_agent_id a)"

definition task_agent :: "AgentTask \<Rightarrow> agent_key" where
  "task_agent t = (task_provider t, task_external_agent_id t)"

definition effective_decisions :: "sys \<Rightarrow> PolicyDecision list" where
  "effective_decisions s =
     concat (map (\<lambda>a. case latest_policy_decision (act_id a) s of None \<Rightarrow> [] | Some d \<Rightarrow> [d])
       (dict_vals (proposed_actions s)))"

text \<open>
  The agents that proposed an action or have a task. They are collected in a set and sorted by provider and
  identifier, a missing identifier counting as the empty one.
\<close>

definition scorecard_keys :: "sys \<Rightarrow> agent_key list" where
  "scorecard_keys s =
     sort_key (\<lambda>(p, agent). (p, opt_str agent))
       (remdups (map action_agent (dict_vals (proposed_actions s)) @ map task_agent (dict_vals (agent_tasks s))))"

definition ratio :: "nat \<Rightarrow> nat \<Rightarrow> rat" where
  "ratio a b = (if b = 0 then 0 else of_nat a / of_nat b)"

definition decided_as :: "PolicyDecisionType \<Rightarrow> PolicyDecision list \<Rightarrow> nat" where
  "decided_as ty ds = length (filter (\<lambda>d. dec_decision d = ty) ds)"

definition decisions_of :: "agent_key \<Rightarrow> sys \<Rightarrow> PolicyDecision list" where
  "decisions_of key s =
     (let action_ids = map act_id (filter (\<lambda>a. action_agent a = key) (dict_vals (proposed_actions s)))
      in filter (\<lambda>d. dec_proposed_action_id d \<in> set action_ids) (effective_decisions s))"

definition runs_of_agent :: "agent_key \<Rightarrow> sys \<Rightarrow> AgentRun list" where
  "runs_of_agent key s =
     (let task_ids = map task_id (filter (\<lambda>t. task_agent t = key) (dict_vals (agent_tasks s)))
      in filter (\<lambda>r. run_task_id r \<in> set task_ids) (dict_vals (agent_runs s)))"

definition first_attempt_success :: "sys \<Rightarrow> AgentRun \<Rightarrow> bool" where
  "first_attempt_success s r \<longleftrightarrow>
     (let steps = filter (\<lambda>st. step_run_id st = run_id r) (dict_vals (agent_run_steps s))
      in run_status r = AgentRunStatus.SUCCEEDED \<and> steps \<noteq> [] \<and> list_all (\<lambda>st. step_attempt_count st \<le> 1) steps)"

definition recovered_runs :: "AgentRun list \<Rightarrow> sys \<Rightarrow> string list" where
  "recovered_runs runs s =
     remdups (map ev_run_id (filter (\<lambda>ev. ev_event_type ev = STALE_LEASE_RECOVERED \<and>
       ev_run_id ev \<in> set (map run_id runs)) (dict_vals (agent_run_events s))))"

definition run_seconds :: "AgentRun \<Rightarrow> rat list" where
  "run_seconds r =
     (case (run_started_at r, run_completed_at r) of
        (Some a, Some b) \<Rightarrow> [of_int (b - a) / 1000000]
      | _ \<Rightarrow> [])"

definition total_cost :: "agent_key \<Rightarrow> sys \<Rightarrow> rat" where
  "total_cost key s =
     (let action_ids = map act_id (filter (\<lambda>a. action_agent a = key) (dict_vals (proposed_actions s)))
      in sum_list (map (\<lambda>(aid, c). con_actual_cost_usd c) (filter (\<lambda>(aid, c). aid \<in> set action_ids) (action_consumptions s))))"

definition scorecard :: "sys \<Rightarrow> agent_key \<Rightarrow> AgentReliabilityScorecard" where
  "scorecard s key =
     (let decisions = decisions_of key s;
          evaluated = length decisions;
          allowed = decided_as PolicyDecisionType.ALLOW decisions;
          blocked = decided_as PolicyDecisionType.BLOCK decisions;
          runs = runs_of_agent key s;
          recovered = recovered_runs runs s;
          durations = concat (map run_seconds runs)
      in \<lparr>sc_provider = fst key, sc_agent_id = snd key, sc_evaluated_actions = evaluated,
          sc_allowed_actions = allowed, sc_blocked_actions = blocked,
          sc_approval_escalations = decided_as PolicyDecisionType.REQUIRE_APPROVAL decisions,
          sc_scope_adherence_rate = ratio allowed evaluated,
          sc_first_attempt_success_rate = ratio (length (filter (first_attempt_success s) runs)) (length runs),
          sc_recovery_success_rate =
            ratio (length (filter (\<lambda>r. run_id r \<in> set recovered \<and> run_status r = AgentRunStatus.SUCCEEDED) runs))
              (length recovered),
          sc_human_intervention_rate =
            ratio (length (filter (\<lambda>r. run_status r = AgentRunStatus.NEEDS_HUMAN) runs)) (length runs),
          sc_policy_block_rate = ratio blocked evaluated,
          sc_evidence_completion_rate = ratio (length (filter (\<lambda>r. truthy (run_final_evidence_hash r)) runs)) (length runs),
          sc_average_runtime_seconds = (if durations = [] then 0 else sum_list durations / of_nat (length durations)),
          sc_total_cost_usd = total_cost key s,
          sc_confidence = min 1 (of_nat (evaluated + length runs) / 30),
          sc_generated_at = clock s\<rparr>)"

definition build_reliability_scorecards :: "sys \<Rightarrow> AgentReliabilityScorecard list" where
  "build_reliability_scorecards s = map (scorecard s) (scorecard_keys s)"

section \<open>The exception queue\<close>

record ExceptionQueueItem =
  xq_id :: string
  xq_category :: string
  xq_severity :: RiskLevel
  xq_title :: string
  xq_summary :: string
  xq_run_id :: "string option"
  xq_task_id :: "string option"
  xq_action_id :: "string option"
  xq_lease_id :: "string option"
  xq_created_at :: int
  xq_requires_human :: bool

definition run_exception :: "AgentRun \<Rightarrow> ExceptionQueueItem list" where
  "run_exception r =
     (let value = AgentRunStatus_value (run_status r) in
      if run_status r \<notin> set [AgentRunStatus.NEEDS_HUMAN, AgentRunStatus.BLOCKED, AgentRunStatus.FAILED] then []
      else [\<lparr>xq_id = ''run:'' @ run_id r, xq_category = value,
        xq_severity = (if run_status r = AgentRunStatus.BLOCKED then RiskLevel.CRITICAL else RiskLevel.HIGH),
        xq_title = ''Agent run '' @ py_lower (py_replace_char CHR ''_'' CHR '' '' value),
        xq_summary = str_or (opt_str (run_last_error r)) (str_or (run_objective r) ''Operator review is required.''),
        xq_run_id = Some (run_id r), xq_task_id = Some (run_task_id r), xq_action_id = None, xq_lease_id = None,
        xq_created_at = run_updated_at r, xq_requires_human = True\<rparr>])"

definition action_exception :: "sys \<Rightarrow> ProposedAction \<Rightarrow> ExceptionQueueItem list" where
  "action_exception s a =
     (case latest_policy_decision (act_id a) s of
        None \<Rightarrow> []
      | Some d \<Rightarrow>
          if dec_decision d = PolicyDecisionType.ALLOW then []
          else [\<lparr>xq_id = ''action:'' @ act_id a, xq_category = PolicyDecisionType_value (dec_decision d),
            xq_severity = dec_risk_level d,
            xq_title = (if dec_decision d = PolicyDecisionType.BLOCK then ''Agent action blocked''
              else ''Agent action needs exact approval''),
            xq_summary = py_join '' '' (dec_reasons d), xq_run_id = act_run_id a, xq_task_id = act_task_id a,
            xq_action_id = Some (act_id a), xq_lease_id = act_lease_id a,
            xq_created_at = dec_evaluated_at d, xq_requires_human = True\<rparr>])"

definition build_exception_queue :: "sys \<Rightarrow> ExceptionQueueItem list" where
  "build_exception_queue s =
     rev (sort_key xq_created_at (rev
       (concat (map run_exception (dict_vals (agent_runs s))) @
        concat (map (action_exception s) (dict_vals (proposed_actions s))))))"

chapter \<open>Metrics\<close>

text \<open>
  \<open>agent_run_metrics.py\<close> and \<open>trust_metrics.py\<close>: the summary of the runs and the metrics in the text format
  of Prometheus. The text of a float is a parameter of the environment.
\<close>

section \<open>Enumerations\<close>

text \<open>The metrics iterate over the members of three enumerations, in the order of their classes.\<close>

lemma AgentRunStatus_UNIV: "(UNIV :: AgentRunStatus set) =
     {AgentRunStatus.SCHEDULED, AgentRunStatus.RUNNING, AgentRunStatus.EVALUATING,
      AgentRunStatus.RETRY_WAIT, AgentRunStatus.PAUSED, AgentRunStatus.NEEDS_HUMAN, AgentRunStatus.BLOCKED,
      AgentRunStatus.SUCCEEDED, AgentRunStatus.FAILED, AgentRunStatus.CANCELLED}"
  by (auto intro: AgentRunStatus.exhaust)

instantiation AgentRunStatus :: enum
begin

definition enum_AgentRunStatus :: "AgentRunStatus list" where
  "enum_AgentRunStatus =
     [AgentRunStatus.SCHEDULED, AgentRunStatus.RUNNING, AgentRunStatus.EVALUATING,
      AgentRunStatus.RETRY_WAIT, AgentRunStatus.PAUSED, AgentRunStatus.NEEDS_HUMAN, AgentRunStatus.BLOCKED,
      AgentRunStatus.SUCCEEDED, AgentRunStatus.FAILED, AgentRunStatus.CANCELLED]"

definition enum_all_AgentRunStatus :: "(AgentRunStatus \<Rightarrow> bool) \<Rightarrow> bool" where
  "enum_all_AgentRunStatus P = list_all P enum_class.enum"

definition enum_ex_AgentRunStatus :: "(AgentRunStatus \<Rightarrow> bool) \<Rightarrow> bool" where
  "enum_ex_AgentRunStatus P = list_ex P enum_class.enum"

instance
  by standard (simp_all add: enum_AgentRunStatus_def enum_all_AgentRunStatus_def enum_ex_AgentRunStatus_def AgentRunStatus_UNIV)

end

lemma CapabilityLeaseStatus_UNIV: "(UNIV :: CapabilityLeaseStatus set) =
     {CapabilityLeaseStatus.ACTIVE, CapabilityLeaseStatus.EXPIRED, CapabilityLeaseStatus.REVOKED,
      CapabilityLeaseStatus.CONSUMED}"
  by (auto intro: CapabilityLeaseStatus.exhaust)

instantiation CapabilityLeaseStatus :: enum
begin

definition enum_CapabilityLeaseStatus :: "CapabilityLeaseStatus list" where
  "enum_CapabilityLeaseStatus =
     [CapabilityLeaseStatus.ACTIVE, CapabilityLeaseStatus.EXPIRED, CapabilityLeaseStatus.REVOKED,
      CapabilityLeaseStatus.CONSUMED]"

definition enum_all_CapabilityLeaseStatus :: "(CapabilityLeaseStatus \<Rightarrow> bool) \<Rightarrow> bool" where
  "enum_all_CapabilityLeaseStatus P = list_all P enum_class.enum"

definition enum_ex_CapabilityLeaseStatus :: "(CapabilityLeaseStatus \<Rightarrow> bool) \<Rightarrow> bool" where
  "enum_ex_CapabilityLeaseStatus P = list_ex P enum_class.enum"

instance
  by standard (simp_all add: enum_CapabilityLeaseStatus_def enum_all_CapabilityLeaseStatus_def enum_ex_CapabilityLeaseStatus_def CapabilityLeaseStatus_UNIV)

end

lemma PolicyDecisionType_UNIV: "(UNIV :: PolicyDecisionType set) =
     {PolicyDecisionType.ALLOW, PolicyDecisionType.REQUIRE_APPROVAL, PolicyDecisionType.BLOCK}"
  by (auto intro: PolicyDecisionType.exhaust)

instantiation PolicyDecisionType :: enum
begin

definition enum_PolicyDecisionType :: "PolicyDecisionType list" where
  "enum_PolicyDecisionType =
     [PolicyDecisionType.ALLOW, PolicyDecisionType.REQUIRE_APPROVAL, PolicyDecisionType.BLOCK]"

definition enum_all_PolicyDecisionType :: "(PolicyDecisionType \<Rightarrow> bool) \<Rightarrow> bool" where
  "enum_all_PolicyDecisionType P = list_all P enum_class.enum"

definition enum_ex_PolicyDecisionType :: "(PolicyDecisionType \<Rightarrow> bool) \<Rightarrow> bool" where
  "enum_ex_PolicyDecisionType P = list_ex P enum_class.enum"

instance
  by standard (simp_all add: enum_PolicyDecisionType_def enum_all_PolicyDecisionType_def enum_ex_PolicyDecisionType_def PolicyDecisionType_UNIV)

end

section \<open>Lines\<close>

definition escape_quotes :: "string \<Rightarrow> string" where
  "escape_quotes v = concat (map (\<lambda>c. if c = CHR 0x22 then [CHR 0x5C, CHR 0x22] else [c]) v)"

text \<open>The labels are sorted by name; no two have the same.\<close>

definition metric_line :: "string \<Rightarrow> string \<Rightarrow> (string, string) dict \<Rightarrow> string" where
  "metric_line name value labels =
     name @
     (if labels = [] then []
      else [CHR 0x7B] @ py_join '','' (map (\<lambda>(k, v). k @ [CHR ''='', CHR 0x22] @ escape_quotes v @ [CHR 0x22])
             (sort labels)) @ [CHR 0x7D]) @
     '' '' @ value"

definition count_line :: "string \<Rightarrow> nat \<Rightarrow> (string, string) dict \<Rightarrow> string" where
  "count_line name n labels = metric_line name (int_str (int n)) labels"

definition gauge_header :: "string \<Rightarrow> string \<Rightarrow> string \<Rightarrow> string list" where
  "gauge_header name text kind = [''# HELP '' @ name @ '' '' @ text, ''# TYPE '' @ name @ '' '' @ kind]"

text \<open>\<open>Counter(xs)[x]\<close>, and \<open>sorted(Counter(xs).items())\<close>.\<close>

definition counted :: "'a list \<Rightarrow> 'a \<Rightarrow> nat" where
  "counted xs x = length (filter (\<lambda>y. y = x) xs)"

definition sorted_counts :: "('a::linorder) list \<Rightarrow> ('a \<times> nat) list" where
  "sorted_counts xs = map (\<lambda>x. (x, counted xs x)) (sort (remdups xs))"

definition text_lines :: "string list \<Rightarrow> string" where
  "text_lines lines = py_join [CHR 0x0A] lines @ [CHR 0x0A]"

section \<open>The trust plane\<close>

definition effective_lease_status :: "int \<Rightarrow> CapabilityLease \<Rightarrow> CapabilityLeaseStatus" where
  "effective_lease_status now lease =
     (if lease_status lease = CapabilityLeaseStatus.ACTIVE \<and> lease_expires_at lease \<le> now
      then CapabilityLeaseStatus.EXPIRED else lease_status lease)"

definition provider_decisions :: "sys \<Rightarrow> (string \<times> string) list" where
  "provider_decisions s =
     concat (map (\<lambda>d. case dict_get (proposed_actions s) (dec_proposed_action_id d) of
         None \<Rightarrow> []
       | Some a \<Rightarrow> [(AgentProvider_value (act_provider a), PolicyDecisionType_value (dec_decision d))])
       (dict_vals (policy_decisions s)))"

definition lease_metrics :: "sys \<Rightarrow> string list" where
  "lease_metrics s =
     gauge_header ''aixion_capability_leases_total'' ''Capability leases by effective state.'' ''gauge'' @
     map (\<lambda>st. count_line ''aixion_capability_leases_total''
         (counted (map (effective_lease_status (clock s)) (dict_vals (capability_leases s))) st)
         [(''status'', CapabilityLeaseStatus_value st)]) enum_class.enum"

definition decision_metrics :: "sys \<Rightarrow> string list" where
  "decision_metrics s =
     gauge_header ''aixion_policy_decisions_total'' ''Trust policy decisions.'' ''counter'' @
     map (\<lambda>d. count_line ''aixion_policy_decisions_total''
         (counted (map dec_decision (dict_vals (policy_decisions s))) d)
         [(''decision'', PolicyDecisionType_value d)]) enum_class.enum @
     map (\<lambda>((provider, decision), n). count_line ''aixion_policy_decisions_by_provider_total'' n
         [(''provider'', provider), (''decision'', decision)]) (sorted_counts (provider_decisions s))"

definition single_metric :: "string \<Rightarrow> string \<Rightarrow> string \<Rightarrow> nat \<Rightarrow> string list" where
  "single_metric name text kind n = gauge_header name text kind @ [count_line name n []]"

definition active_credentials :: "sys \<Rightarrow> CredentialGrant list" where
  "active_credentials s =
     filter (\<lambda>g. \<not> grant_revoked g \<and> grant_expires_at g > clock s) (dict_vals (credential_grants s))"

definition prometheus_trust_metrics :: "env \<Rightarrow> sys \<Rightarrow> string" where
  "prometheus_trust_metrics E s =
     (let verification = verify_flight_recorder E s in
      text_lines
        (lease_metrics s @ decision_metrics s @
         single_metric ''aixion_action_authorizations_total'' ''Exact human action decisions.'' ''counter''
           (length (action_authorizations s)) @
         single_metric ''aixion_action_consumptions_total'' ''Allowed actions with sealed consumption.'' ''counter''
           (length (action_consumptions s)) @
         single_metric ''aixion_credential_grants_active'' ''Active short-lived credentials.'' ''gauge''
           (length (active_credentials s)) @
         single_metric ''aixion_credential_grants_revoked_total'' ''Revoked credentials.'' ''counter''
           (length (filter grant_revoked (dict_vals (credential_grants s)))) @
         single_metric ''aixion_trust_flight_recorder_valid'' ''Hash-chain verification state.'' ''gauge''
           (if frv_valid verification then 1 else 0) @
         single_metric ''aixion_trust_flight_recorder_events_total'' ''Recorded trust events.'' ''gauge''
           (nat (frv_event_count verification))))"

section \<open>The runs\<close>

record AgentRunSummary =
  sum_total :: nat
  sum_active :: nat
  sum_retry_wait :: nat
  sum_needs_human :: nat
  sum_blocked :: nat
  sum_failed :: nat
  sum_succeeded :: nat
  sum_cancelled :: nat
  sum_queue_depth :: nat

definition ACTIVE_RUN_STATUSES :: "AgentRunStatus list" where
  "ACTIVE_RUN_STATUSES =
     [AgentRunStatus.SCHEDULED, AgentRunStatus.RUNNING, AgentRunStatus.EVALUATING, AgentRunStatus.RETRY_WAIT,
      AgentRunStatus.PAUSED, AgentRunStatus.NEEDS_HUMAN]"

definition queue_depth :: "sys \<Rightarrow> nat" where
  "queue_depth s =
     length (filter (\<lambda>st. step_status st \<in> set [AgentRunStepStatus.PENDING, AgentRunStepStatus.READY,
       AgentRunStepStatus.RETRY_WAIT]) (dict_vals (agent_run_steps s)))"

definition build_agent_run_summary :: "sys \<Rightarrow> AgentRunSummary" where
  "build_agent_run_summary s =
     (let statuses = map run_status (dict_vals (agent_runs s)) in
      \<lparr>sum_total = length (agent_runs s),
       sum_active = length (filter (\<lambda>st. st \<in> set ACTIVE_RUN_STATUSES) statuses),
       sum_retry_wait = counted statuses AgentRunStatus.RETRY_WAIT,
       sum_needs_human = counted statuses AgentRunStatus.NEEDS_HUMAN,
       sum_blocked = counted statuses AgentRunStatus.BLOCKED,
       sum_failed = counted statuses AgentRunStatus.FAILED,
       sum_succeeded = counted statuses AgentRunStatus.SUCCEEDED,
       sum_cancelled = counted statuses AgentRunStatus.CANCELLED,
       sum_queue_depth = queue_depth s\<rparr>)"

definition run_status_metrics :: "sys \<Rightarrow> string list" where
  "run_status_metrics s =
     gauge_header ''aixion_agent_runs_total'' ''Durable agent runs by state.'' ''gauge'' @
     map (\<lambda>st. count_line ''aixion_agent_runs_total''
         (counted (map run_status (dict_vals (agent_runs s))) st)
         [(''status'', AgentRunStatus_value st)]) enum_class.enum"

definition step_status_metrics :: "sys \<Rightarrow> string list" where
  "step_status_metrics s =
     gauge_header ''aixion_agent_run_steps_total'' ''Durable run steps by state and type.'' ''gauge'' @
     map (\<lambda>((ty, st), n). count_line ''aixion_agent_run_steps_total'' n [(''step_type'', ty), (''status'', st)])
       (sorted_counts (map (\<lambda>st. (AgentRunStepType_value (step_type st), AgentRunStepStatus_value (step_status st)))
         (dict_vals (agent_run_steps s))))"

definition retry_attempts :: "sys \<Rightarrow> int" where
  "retry_attempts s = sum_list (map (\<lambda>st. max 0 (step_attempt_count st - 1)) (dict_vals (agent_run_steps s)))"

definition events_of_type :: "AgentRunEventType \<Rightarrow> sys \<Rightarrow> nat" where
  "events_of_type ty s = length (filter (\<lambda>ev. ev_event_type ev = ty) (dict_vals (agent_run_events s)))"

definition duration_metrics :: "env \<Rightarrow> sys \<Rightarrow> string list" where
  "duration_metrics E s =
     gauge_header ''aixion_agent_run_step_duration_seconds'' ''Completed step duration.'' ''summary'' @
     concat (map (\<lambda>st. case step_duration_ms st of
         None \<Rightarrow> []
       | Some ms \<Rightarrow> [metric_line ''aixion_agent_run_step_duration_seconds'' (float_repr E (of_int ms / 1000))
           [(''run_id'', step_run_id st), (''step_type'', AgentRunStepType_value (step_type st))]])
       (sort_key (\<lambda>st. (step_run_id st, step_sequence st)) (dict_vals (agent_run_steps s))))"

definition expired_run_leases :: "sys \<Rightarrow> AgentRun list" where
  "expired_run_leases s =
     filter (\<lambda>r. case run_lease_expires_at r of None \<Rightarrow> False | Some t \<Rightarrow> t \<le> clock s) (dict_vals (agent_runs s))"

definition prometheus_agent_run_metrics :: "env \<Rightarrow> sys \<Rightarrow> string" where
  "prometheus_agent_run_metrics E s =
     text_lines
       (run_status_metrics s @ step_status_metrics s @
        single_metric ''aixion_agent_run_queue_depth'' ''Steps waiting for execution or retry.'' ''gauge''
          (sum_queue_depth (build_agent_run_summary s)) @
        single_metric ''aixion_agent_run_retry_attempts_total'' ''Total attempts beyond the first.'' ''counter''
          (nat (retry_attempts s)) @
        single_metric ''aixion_agent_run_duplicate_deliveries_total'' ''Duplicate callbacks ignored.'' ''counter''
          (events_of_type DUPLICATE_DELIVERY_IGNORED s) @
        single_metric ''aixion_agent_run_stale_lease_recoveries_total'' ''Expired leases recovered.'' ''counter''
          (events_of_type STALE_LEASE_RECOVERED s) @
        duration_metrics E s @
        single_metric ''aixion_agent_run_expired_leases'' ''Current expired run leases.'' ''gauge''
          (length (expired_run_leases s))) @
     prometheus_trust_metrics E s"

section \<open>Lemmas\<close>

text \<open>Counting the elements of a list by a key counts each of them once.\<close>

lemma sum_by_key:
  assumes "distinct keys" "\<And>x. x \<in> set xs \<Longrightarrow> f x \<in> set keys"
  shows "sum_list (map (\<lambda>k. length (filter (\<lambda>x. f x = k) xs)) keys) = length xs"
  using assms(2)
proof (induction xs)
  case Nil
  then show ?case by simp
next
  case (Cons x xs)
  have one: "sum_list (map (\<lambda>k. if f x = k then 1 else 0) keys) = (1::nat)"
    using assms(1) Cons.prems [of x] by (induction keys) auto
  have "sum_list (map (\<lambda>k. length (filter (\<lambda>x. f x = k) (x # xs))) keys) =
      sum_list (map (\<lambda>k. (if f x = k then 1 else 0) + length (filter (\<lambda>x. f x = k) xs)) keys)"
    by (intro arg_cong [where f = sum_list] map_cong) auto
  also have "\<dots> = 1 + length xs" using Cons one by (simp add: sum_list_addf)
  finally show ?case by simp
qed

lemma counted_sum: "distinct ys \<Longrightarrow> set xs \<subseteq> set ys \<Longrightarrow> sum_list (map (counted xs) ys) = length xs"
  using sum_by_key [of ys xs "\<lambda>x. x"] by (auto simp: counted_def [abs_def])

lemma run_gauges_total:
  "sum_list (map (counted (map run_status (dict_vals (agent_runs s)))) enum_class.enum) = length (agent_runs s)"
  by (subst counted_sum) (simp_all add: enum_distinct UNIV_enum [symmetric] dict_vals_def)

text \<open>Every run is active or over in exactly one way.\<close>

lemma run_summary_adds_up:
  "sum_total r = sum_active r + sum_blocked r + sum_failed r + sum_succeeded r + sum_cancelled r \<and>
    sum_retry_wait r + sum_needs_human r \<le> sum_active r" if "r = build_agent_run_summary s"
proof -
  have "length xs = length (filter (\<lambda>st. st \<in> set ACTIVE_RUN_STATUSES) xs) + counted xs AgentRunStatus.BLOCKED +
      counted xs AgentRunStatus.FAILED + counted xs AgentRunStatus.SUCCEEDED + counted xs AgentRunStatus.CANCELLED \<and>
    counted xs AgentRunStatus.RETRY_WAIT + counted xs AgentRunStatus.NEEDS_HUMAN \<le>
      length (filter (\<lambda>st. st \<in> set ACTIVE_RUN_STATUSES) xs)" for xs
  proof (induction xs)
    case (Cons x xs)
    then show ?case by (cases x) (simp_all add: counted_def ACTIVE_RUN_STATUSES_def)
  qed (simp add: counted_def)
  from this [of "map run_status (dict_vals (agent_runs s))"] show ?thesis
    by (simp add: that build_agent_run_summary_def Let_def dict_vals_def)
qed

end
