(* ===== verification/ReportingProperties.thy ===== *)
theory ReportingProperties
  imports Reporting TrustProperties
begin

text \<open>
  What the reports can be relied on for: the rates of a scorecard are proportions and its counts add up,
  every decided action is counted on exactly one card, and the queue of exceptions misses nothing that waits
  for a person and lists nothing else.
\<close>

section \<open>Proportions\<close>

lemma ratio_unit: "a \<le> b \<Longrightarrow> 0 \<le> ratio a b \<and> ratio a b \<le> 1"
  by (auto simp: ratio_def divide_le_eq)

lemma ratio_filter: "0 \<le> ratio (length (filter P xs)) (length xs) \<and> ratio (length (filter P xs)) (length xs) \<le> 1"
  by (rule ratio_unit) simp

lemma decided_as_sum:
  "decided_as PolicyDecisionType.ALLOW ds + decided_as PolicyDecisionType.BLOCK ds +
     decided_as PolicyDecisionType.REQUIRE_APPROVAL ds = length ds"
proof (induction ds)
  case (Cons d ds)
  then show ?case by (cases "dec_decision d") (simp_all add: decided_as_def)
qed (simp add: decided_as_def)

lemma decided_as_le: "decided_as ty ds \<le> length ds"
  by (simp add: decided_as_def)

lemma recovered_le:
  assumes "distinct (map run_id runs)"
  shows "length (filter (\<lambda>r. run_id r \<in> set (recovered_runs runs s) \<and> P r) runs) \<le> length (recovered_runs runs s)"
proof -
  let ?rs = "filter (\<lambda>r. run_id r \<in> set (recovered_runs runs s) \<and> P r) runs"
  have "distinct (map run_id ?rs)" using assms by (simp add: distinct_map_filter)
  moreover have "set (map run_id ?rs) \<subseteq> set (recovered_runs runs s)" by auto
  ultimately have "length (map run_id ?rs) \<le> card (set (recovered_runs runs s))"
    by (metis card_mono distinct_card finite_set)
  also have "\<dots> = length (recovered_runs runs s)" by (simp add: recovered_runs_def length_remdups_card_conv)
  finally show ?thesis by simp
qed

lemma runs_of_agent_distinct: "keyed run_id (agent_runs s) \<Longrightarrow> distinct (map run_id (runs_of_agent key s))"
proof -
  assume k: "keyed run_id (agent_runs s)"
  then have "map run_id (dict_vals (agent_runs s)) = map fst (agent_runs s)"
    by (auto simp: keyed_def dict_vals_def list_all_iff)
  then have "distinct (map run_id (dict_vals (agent_runs s)))" using k by (simp add: keyed_def)
  then show ?thesis by (simp add: runs_of_agent_def Let_def distinct_map_filter)
qed

section \<open>Every decision on one card\<close>

definition decisions_on :: "sys \<Rightarrow> ProposedAction \<Rightarrow> PolicyDecision list" where
  "decisions_on s a = (case latest_policy_decision (act_id a) s of None \<Rightarrow> [] | Some d \<Rightarrow> [d])"

lemma py_max_in: "py_max f xs = Some x \<Longrightarrow> x \<in> set xs"
  by (induction xs arbitrary: x) (auto split: option.splits if_splits)

lemma decisions_on_names: "d \<in> set (decisions_on s a) \<Longrightarrow> dec_proposed_action_id d = act_id a"
  by (auto simp: decisions_on_def latest_policy_decision_def dest!: py_max_in [OF sym] split: option.splits)

lemma decisions_of_actions:
  assumes "keyed act_id (proposed_actions s)"
  shows "decisions_of key s =
    concat (map (decisions_on s) (filter (\<lambda>a. action_agent a = key) (dict_vals (proposed_actions s))))"
proof -
  let ?as = "dict_vals (proposed_actions s)"
  have inj: "a = b" if "a \<in> set ?as" "b \<in> set ?as" "act_id a = act_id b" for a b
    using that keyed_get_iff [OF assms] by (metis option.inject)
  have "filter (\<lambda>d. dec_proposed_action_id d \<in> set (map act_id (filter (\<lambda>a. action_agent a = key) ?as)))
      (concat (map (decisions_on s) as)) =
    concat (map (decisions_on s) (filter (\<lambda>a. action_agent a = key) as))" if "set as \<subseteq> set ?as" for as
    using that
  proof (induction as)
    case (Cons a as)
    have "filter (\<lambda>d. dec_proposed_action_id d \<in> set (map act_id (filter (\<lambda>a. action_agent a = key) ?as))) (decisions_on s a)
        = (if action_agent a = key then decisions_on s a else [])"
      using Cons.prems by (auto simp: filter_id_conv filter_empty_conv dest!: decisions_on_names dest: inj [of _ a])
    with Cons show ?case by simp
  qed simp
  then show ?thesis by (simp add: decisions_of_def effective_decisions_def decisions_on_def [abs_def] Let_def)
qed

lemma scorecard_keys_distinct: "distinct (scorecard_keys s)"
  by (simp add: scorecard_keys_def)

lemma scorecard_keys_actions: "a \<in> set (dict_vals (proposed_actions s)) \<Longrightarrow> action_agent a \<in> set (scorecard_keys s)"
  by (simp add: scorecard_keys_def)

lemma evaluated_counts:
  assumes "keyed act_id (proposed_actions s)"
  shows "length (decisions_of key s) =
    length (filter (\<lambda>a. action_agent a = key) (filter (\<lambda>a. latest_policy_decision (act_id a) s \<noteq> None)
      (dict_vals (proposed_actions s))))"
proof -
  have "length (concat (map (decisions_on s) as)) = length (filter (\<lambda>a. latest_policy_decision (act_id a) s \<noteq> None) as)" for as
    by (induction as) (auto simp: decisions_on_def split: option.splits)
  then show ?thesis by (simp add: decisions_of_actions [OF assms] conj_commute)
qed

text \<open>
  C35. The scorecards are a fair account. On every card the allowed, blocked and escalated actions add up to
  the evaluated ones, and every rate and the confidence lie between 0 and 1; and over all cards the evaluated
  actions are exactly the proposed actions that have a decision, each counted once.
\<close>

theorem scorecards_are_fair:
  assumes "keyed run_id (agent_runs s)" "keyed act_id (proposed_actions s)"
  shows "list_all (\<lambda>c.
      sc_allowed_actions c + sc_blocked_actions c + sc_approval_escalations c = sc_evaluated_actions c \<and>
      list_all (\<lambda>x. 0 \<le> x \<and> x \<le> 1)
        [sc_scope_adherence_rate c, sc_first_attempt_success_rate c, sc_recovery_success_rate c,
         sc_human_intervention_rate c, sc_policy_block_rate c, sc_evidence_completion_rate c, sc_confidence c])
      (build_reliability_scorecards s) \<and>
    sum_list (map sc_evaluated_actions (build_reliability_scorecards s)) =
      length (filter (\<lambda>a. latest_policy_decision (act_id a) s \<noteq> None) (dict_vals (proposed_actions s)))"
proof
  note unit_rates = ratio_filter [THEN conjunct1] ratio_filter [THEN conjunct2]
    ratio_unit [OF decided_as_le, THEN conjunct1] ratio_unit [OF decided_as_le, THEN conjunct2]
  note recovered = ratio_unit [OF recovered_le [OF runs_of_agent_distinct [OF assms(1)]], THEN conjunct1]
    ratio_unit [OF recovered_le [OF runs_of_agent_distinct [OF assms(1)]], THEN conjunct2]
  have "sc_allowed_actions c + sc_blocked_actions c + sc_approval_escalations c = sc_evaluated_actions c \<and>
      list_all (\<lambda>x. 0 \<le> x \<and> x \<le> 1)
        [sc_scope_adherence_rate c, sc_first_attempt_success_rate c, sc_recovery_success_rate c,
         sc_human_intervention_rate c, sc_policy_block_rate c, sc_evidence_completion_rate c, sc_confidence c]"
    if "c = scorecard s key" for c key
    unfolding that scorecard_def Let_def
    by (simp add: decided_as_sum unit_rates recovered)
  then show "list_all (\<lambda>c.
      sc_allowed_actions c + sc_blocked_actions c + sc_approval_escalations c = sc_evaluated_actions c \<and>
      list_all (\<lambda>x. 0 \<le> x \<and> x \<le> 1)
        [sc_scope_adherence_rate c, sc_first_attempt_success_rate c, sc_recovery_success_rate c,
         sc_human_intervention_rate c, sc_policy_block_rate c, sc_evidence_completion_rate c, sc_confidence c])
      (build_reliability_scorecards s)"
    unfolding build_reliability_scorecards_def list_all_iff by auto
  have "map sc_evaluated_actions (build_reliability_scorecards s) = map (\<lambda>key. length (decisions_of key s)) (scorecard_keys s)"
    by (simp add: build_reliability_scorecards_def scorecard_def Let_def)
  then show "sum_list (map sc_evaluated_actions (build_reliability_scorecards s)) =
      length (filter (\<lambda>a. latest_policy_decision (act_id a) s \<noteq> None) (dict_vals (proposed_actions s)))"
    by (simp only: evaluated_counts [OF assms(2)])
      (rule sum_by_key [OF scorecard_keys_distinct], simp add: scorecard_keys_actions)
qed

text \<open>The queue lists the runs that need a person and the actions not allowed, the newest first.\<close>

definition waits :: "AgentRun \<Rightarrow> bool" where
  "waits r \<longleftrightarrow> run_status r \<in> set [AgentRunStatus.NEEDS_HUMAN, AgentRunStatus.BLOCKED, AgentRunStatus.FAILED]"

definition refused :: "sys \<Rightarrow> ProposedAction \<Rightarrow> bool" where
  "refused s a \<longleftrightarrow>
     (\<exists>d. latest_policy_decision (act_id a) s = Some d \<and> dec_decision d \<noteq> PolicyDecisionType.ALLOW)"

lemma run_exception_ids: "map xq_id (run_exception r) = (if waits r then [''run:'' @ run_id r] else [])"
  by (simp add: run_exception_def waits_def Let_def)

lemma action_exception_ids: "map xq_id (action_exception s a) = (if refused s a then [''action:'' @ act_id a] else [])"
  by (simp add: action_exception_def refused_def split: option.split)

lemma exception_queue_exact:
  "set (map xq_id (build_exception_queue s)) =
     (\<lambda>r. ''run:'' @ run_id r) ` set (filter waits (dict_vals (agent_runs s))) \<union>
     (\<lambda>a. ''action:'' @ act_id a) ` set (filter (refused s) (dict_vals (proposed_actions s)))"
proof -
  have "set (map xq_id (build_exception_queue s)) =
      set (concat (map (map xq_id \<circ> run_exception) (dict_vals (agent_runs s)))) \<union>
      set (concat (map (map xq_id \<circ> action_exception s) (dict_vals (proposed_actions s))))"
    by (simp add: build_exception_queue_def image_Un Un_commute map_concat image_UN)
  moreover have "set (concat (map (map xq_id \<circ> run_exception) rs)) = (\<lambda>r. ''run:'' @ run_id r) ` set (filter waits rs)" for rs
    unfolding o_def run_exception_ids by (induction rs) simp_all
  moreover have "set (concat (map (map xq_id \<circ> action_exception s) as)) = (\<lambda>a. ''action:'' @ act_id a) ` set (filter (refused s) as)" for as
    unfolding o_def action_exception_ids by (induction as) simp_all
  ultimately show ?thesis by simp
qed

lemma exception_queue_sorted:
  "sorted_wrt (\<lambda>x y. xq_created_at y \<le> xq_created_at x) (build_exception_queue s)"
  unfolding build_exception_queue_def sorted_wrt_rev
  using sorted_sort_key [of xq_created_at] by (simp add: sorted_map)

text \<open>An action that was blocked, on the card of its agent.\<close>

definition reported_sys :: sys where
  "reported_sys = put_decision (sample_decision PolicyDecisionType.BLOCK) (put_action sample_action sample_sys)"

lemma scorecards_are_fair_witness:
  "sum_list (map sc_evaluated_actions (build_reliability_scorecards reported_sys)) = 1"
proof -
  have t: "agent_runs reported_sys = []" "proposed_actions reported_sys = [(act_id sample_action, sample_action)]"
    "policy_decisions reported_sys = [(dec_id (sample_decision PolicyDecisionType.BLOCK), sample_decision PolicyDecisionType.BLOCK)]"
    by (simp_all add: reported_sys_def put_decision_def put_action_def sample_sys_tables)
  have "latest_policy_decision (act_id sample_action) reported_sys = Some (sample_decision PolicyDecisionType.BLOCK)"
    by (simp add: latest_policy_decision_def t dict_vals_def sample_decision_def sample_action_def)
  with scorecards_are_fair [of reported_sys] show ?thesis by (simp add: t keyed_Cons dict_vals_def)
qed

end
