(* ===== verification/RunRoutes.thy ===== *)
theory RunRoutes
  imports TrustRun
begin

text \<open>
  The execution locks of \<open>agent_run_routes.py\<close>: a table with a lock object per run, a guard around each
  access to the table, and a request that takes the lock of its run without waiting. The requests run on
  threads of their own, so the model is a step relation with one step for each part that is atomic: the
  guarded accesses of the table, \<open>acquire(blocking=False)\<close> and \<open>release()\<close>.
\<close>

section \<open>The steps\<close>

text \<open>Where a request is: a lock object is known by a number.\<close>

datatype request_phase =
    Outside
  | Chosen string nat
  | Inside string nat
  | Leaving string nat
  | Refused

record lock_state =
  lock_table :: "(string, nat) dict"
  locked :: "nat list"
  lock_count :: nat
  phases :: "nat \<Rightarrow> request_phase"

definition no_locks :: lock_state where
  "no_locks = \<lparr>lock_table = [], locked = [], lock_count = 0, phases = (\<lambda>_. Outside)\<rparr>"

definition set_phase :: "nat \<Rightarrow> request_phase \<Rightarrow> lock_state \<Rightarrow> lock_state" where
  "set_phase i p \<sigma> = \<sigma>\<lparr>phases := (phases \<sigma>)(i := p)\<rparr>"

text \<open>\<open>_EXECUTION_LOCKS.setdefault(run_id, Lock())\<close>, under the guard.\<close>

definition choose_lock :: "nat \<Rightarrow> string \<Rightarrow> lock_state \<Rightarrow> lock_state" where
  "choose_lock i rid \<sigma> =
     (case dict_get (lock_table \<sigma>) rid of
        Some l \<Rightarrow> set_phase i (Chosen rid l) \<sigma>
      | None \<Rightarrow> set_phase i (Chosen rid (lock_count \<sigma>))
          (\<sigma>\<lparr>lock_table := dict_set rid (lock_count \<sigma>) (lock_table \<sigma>), lock_count := lock_count \<sigma> + 1\<rparr>))"

text \<open>\<open>lock.acquire(blocking=False)\<close>, outside of the guard: a lock that is held refuses the request.\<close>

definition acquire_execution_lock :: "nat \<Rightarrow> string \<Rightarrow> nat \<Rightarrow> lock_state \<Rightarrow> lock_state" where
  "acquire_execution_lock i rid l \<sigma> =
     (if l \<in> set (locked \<sigma>) then set_phase i Refused \<sigma>
      else set_phase i (Inside rid l) (\<sigma>\<lparr>locked := l # locked \<sigma>\<rparr>))"

text \<open>\<open>lock.release()\<close>, and then the entry is dropped, under the guard, if nobody holds the lock.\<close>

definition release_execution_lock :: "nat \<Rightarrow> string \<Rightarrow> nat \<Rightarrow> lock_state \<Rightarrow> lock_state" where
  "release_execution_lock i rid l \<sigma> = set_phase i (Leaving rid l) (\<sigma>\<lparr>locked := removeAll l (locked \<sigma>)\<rparr>)"

definition drop_lock_entry :: "nat \<Rightarrow> string \<Rightarrow> nat \<Rightarrow> lock_state \<Rightarrow> lock_state" where
  "drop_lock_entry i rid l \<sigma> =
     set_phase i Outside
       (if l \<in> set (locked \<sigma>) then \<sigma> else \<sigma>\<lparr>lock_table := dict_pop rid (lock_table \<sigma>)\<rparr>)"

inductive lock_step :: "lock_state \<Rightarrow> lock_state \<Rightarrow> bool" where
  choose: "phases \<sigma> i = Outside \<Longrightarrow> lock_step \<sigma> (choose_lock i rid \<sigma>)"
| acquire: "phases \<sigma> i = Chosen rid l \<Longrightarrow> lock_step \<sigma> (acquire_execution_lock i rid l \<sigma>)"
| release: "phases \<sigma> i = Inside rid l \<Longrightarrow> lock_step \<sigma> (release_execution_lock i rid l \<sigma>)"
| drop: "phases \<sigma> i = Leaving rid l \<Longrightarrow> lock_step \<sigma> (drop_lock_entry i rid l \<sigma>)"

section \<open>A lock object admits one request\<close>

definition lock_inv :: "lock_state \<Rightarrow> bool" where
  "lock_inv \<sigma> \<longleftrightarrow>
     (\<forall>i rid l. phases \<sigma> i = Inside rid l \<longrightarrow> l \<in> set (locked \<sigma>)) \<and>
     (\<forall>i j rid rid' l. phases \<sigma> i = Inside rid l \<longrightarrow> phases \<sigma> j = Inside rid' l \<longrightarrow> i = j) \<and>
     (\<forall>i rid l. phases \<sigma> i \<in> {Chosen rid l, Inside rid l, Leaving rid l} \<longrightarrow> l < lock_count \<sigma>) \<and>
     (\<forall>rid l. dict_get (lock_table \<sigma>) rid = Some l \<longrightarrow> l < lock_count \<sigma>)"

lemma lock_inv_init: "lock_inv no_locks"
  by (simp add: lock_inv_def no_locks_def)

lemma phases_set_phase [simp]: "phases (set_phase i p \<sigma>) j = (if j = i then p else phases \<sigma> j)"
  "locked (set_phase i p \<sigma>) = locked \<sigma>" "lock_table (set_phase i p \<sigma>) = lock_table \<sigma>"
  "lock_count (set_phase i p \<sigma>) = lock_count \<sigma>"
  by (simp_all add: set_phase_def)

lemma lock_inv_step:
  assumes "lock_step \<sigma> \<sigma>'" "lock_inv \<sigma>"
  shows "lock_inv \<sigma>'"
  using assms
proof cases
  case (choose i rid)
  then show ?thesis using assms(2)
    by (cases "dict_get (lock_table \<sigma>) rid") (fastforce simp: lock_inv_def choose_lock_def less_Suc_eq)+
next
  case (acquire i rid l)
  then show ?thesis using assms(2)
    by (cases "l \<in> set (locked \<sigma>)") (fastforce simp: lock_inv_def acquire_execution_lock_def)+
next
  case (release i rid l)
  then show ?thesis using assms(2)
    by (fastforce simp: lock_inv_def release_execution_lock_def)
next
  case (drop i rid l)
  then show ?thesis using assms(2)
    by (cases "l \<in> set (locked \<sigma>)") (fastforce simp: lock_inv_def drop_lock_entry_def split: if_splits)+
qed

lemma lock_inv_steps: "lock_step\<^sup>*\<^sup>* no_locks \<sigma> \<Longrightarrow> lock_inv \<sigma>"
  by (induction rule: rtranclp_induct) (auto intro: lock_inv_init lock_inv_step)

section \<open>A run admits two\<close>

text \<open>
  The race, for the requests 0, 1 and 2 on one run: 0 is inside and 1 has chosen the same lock object; 0
  releases it and drops the entry, 1 acquires the object it holds in hand, and 2 finds no entry and gets a
  new object.
\<close>

definition race :: "string \<Rightarrow> lock_state" where
  "race rid =
     acquire_execution_lock 2 rid 1 (choose_lock 2 rid
       (acquire_execution_lock 1 rid 0
         (drop_lock_entry 0 rid 0 (release_execution_lock 0 rid 0
           (choose_lock 1 rid
             (acquire_execution_lock 0 rid 0 (choose_lock 0 rid no_locks)))))))"

lemmas lock_ops = choose_lock_def acquire_execution_lock_def release_execution_lock_def drop_lock_entry_def no_locks_def

lemma race_possible: "lock_step\<^sup>*\<^sup>* no_locks (race rid)"
  unfolding race_def
  by (rule rtranclp.rtrancl_into_rtrancl [OF rtranclp.rtrancl_into_rtrancl [OF rtranclp.rtrancl_into_rtrancl
        [OF rtranclp.rtrancl_into_rtrancl [OF rtranclp.rtrancl_into_rtrancl [OF rtranclp.rtrancl_into_rtrancl
        [OF rtranclp.rtrancl_into_rtrancl [OF rtranclp.rtrancl_into_rtrancl [OF rtranclp.rtrancl_refl]]]]]]]];
      rule lock_step.intros; simp add: lock_ops)

text \<open>
  C37. The execution lock of a run does not keep executions apart. A lock object admits one request at a
  time, but the table can lose the entry of an object that a request has already been given: for every run
  there is an interleaving of three requests after which two of them are inside the run's section at once,
  each under a lock object of its own.
\<close>

theorem execution_lock_admits_two:
  "\<exists>\<sigma> l l'. lock_step\<^sup>*\<^sup>* no_locks \<sigma> \<and> phases \<sigma> 1 = Inside rid l \<and> phases \<sigma> 2 = Inside rid l' \<and> l \<noteq> l'"
  using race_possible [of rid]
  by (intro exI [of _ "race rid"] exI [of _ 0] exI [of _ 1]) (simp add: race_def lock_ops)

chapter \<open>Routes\<close>

text \<open>
  The rest of \<open>agent_run_routes.py\<close>: creating a run, optionally under a capability lease, the listings, the
  watchdog's route, and the administration of injected faults. The operator's routes on one run are in
  theory \<open>RunExecution\<close>, the execute route in \<open>TrustRun\<close>, its lock in \<open>RunRoutes\<close>.
\<close>

section \<open>Runs\<close>

record AgentRunDetail =
  detail_run :: AgentRun
  detail_steps :: "AgentRunStep list"
  detail_events :: "AgentRunEvent list"

definition run_detail :: "AgentRun \<Rightarrow> sys \<Rightarrow> AgentRunDetail" where
  "run_detail run s =
     \<lparr>detail_run = run, detail_steps = run_steps (run_id run) s, detail_events = run_events (run_id run) s\<rparr>"

text \<open>
  A \<open>ValueError\<close> and its subclasses are answered with 404, the two conflicts with 409; any other exception
  passes. When binding the lease fails, the run that was created stays.
\<close>

definition run_creation_error :: "'a result \<Rightarrow> 'a result" where
  "run_creation_error r =
     (case r of
        (Inl (ValueError m), s) \<Rightarrow> (Inl (HTTPException 404 m), s)
      | (Inl (InvalidAgentRunTransition m), s) \<Rightarrow> (Inl (HTTPException 404 m), s)
      | (Inl (ValidationError m), s) \<Rightarrow> (Inl (HTTPException 404 m), s)
      | (Inl (AgentRunConflict m), s) \<Rightarrow> (Inl (HTTPException 409 m), s)
      | (Inl (AgentRunTrustConflict m), s) \<Rightarrow> (Inl (HTTPException 409 m), s)
      | _ \<Rightarrow> r)"

definition create_run :: "env \<Rightarrow> AgentRunCreate \<Rightarrow> string \<Rightarrow> sys \<Rightarrow> AgentRunDetail result" where
  "create_run E payload actor s =
     bindE (run_creation_error
       (bindE (create_agent_run E payload actor s) (\<lambda>run s.
          if truthy (rc_capability_lease_id payload)
          then attach_capability_lease E run (opt_str (rc_capability_lease_id payload)) actor s
          else ret run s)))
       (\<lambda>run s. ret (run_detail run s) s)"

definition list_runs :: "AgentRunStatus option \<Rightarrow> string option \<Rightarrow> nat \<Rightarrow> sys \<Rightarrow> AgentRun list" where
  "list_runs st tid limit s =
     take limit (rev (sort_key run_updated_at (rev (filter
       (\<lambda>run. (st = None \<or> st = Some (run_status run)) \<and> (tid = None \<or> tid = Some (run_task_id run)))
       (dict_vals (agent_runs s))))))"

definition get_run :: "string \<Rightarrow> sys \<Rightarrow> AgentRunDetail result" where
  "get_run rid s = bindE (run_or_404 rid s) (\<lambda>run s. ret (run_detail run s) s)"

definition list_run_steps :: "string \<Rightarrow> sys \<Rightarrow> AgentRunStep list result" where
  "list_run_steps rid s = bindE (run_or_404 rid s) (\<lambda>run s. ret (run_steps rid s) s)"

definition list_run_events :: "string \<Rightarrow> sys \<Rightarrow> AgentRunEvent list result" where
  "list_run_events rid s = bindE (run_or_404 rid s) (\<lambda>run s. ret (run_events rid s) s)"

definition recover_stale_run_leases :: "env \<Rightarrow> AuthUser \<Rightarrow> sys \<Rightarrow> nat result" where
  "recover_stale_run_leases E user s = recover_stale_leases E (user_email user) s"

section \<open>Injected faults\<close>

record AgentRunFaultCreate =
  fcr_run_id :: "string option"
  fcr_step_type :: "AgentRunStepType option"
  fcr_fault_kind :: AgentRunFaultKind
  fcr_remaining_uses :: int
  fcr_message :: string

definition valid_fault_create :: "AgentRunFaultCreate \<Rightarrow> bool" where
  "valid_fault_create p \<longleftrightarrow> 1 \<le> fcr_remaining_uses p \<and> fcr_remaining_uses p \<le> 100"

definition json_step_type :: "AgentRunStepType option \<Rightarrow> json" where
  "json_step_type ty = json_opt_str (map_option AgentRunStepType_value ty)"

definition list_faults :: "sys \<Rightarrow> AgentRunFaultConfig list" where
  "list_faults s = rev (sort_key fault_created_at (rev (dict_vals (agent_run_faults s))))"

definition create_fault :: "env \<Rightarrow> AgentRunFaultCreate \<Rightarrow> AuthUser \<Rightarrow> sys \<Rightarrow> AgentRunFaultConfig result" where
  "create_fault E payload user s =
     (if \<not> valid_fault_create payload then raise (HTTPException 422 []) s
      else if truthy (fcr_run_id payload) \<and> dict_get (agent_runs s) (opt_str (fcr_run_id payload)) = None then
        raise (HTTPException 404 ''Agent run not found'') s
      else
        let fault = \<lparr>fault_id = new_id E ''agent_run_fault'' s, fault_run_id = fcr_run_id payload,
              fault_step_type = fcr_step_type payload, fault_kind = fcr_fault_kind payload,
              fault_enabled = True, fault_remaining_uses = fcr_remaining_uses payload,
              fault_message = str_or (fcr_message payload) (default_fault_reason (fcr_fault_kind payload)),
              fault_created_by = user_email user, fault_created_at = clock s\<rparr>;
            s = add_audit E ''agent_run.fault_configured'' (fault_id fault)
              [(''run_id'', json_opt_str (fault_run_id fault)),
               (''step_type'', json_step_type (fault_step_type fault)),
               (''fault_kind'', JStr (AgentRunFaultKind_value (fault_kind fault))),
               (''remaining_uses'', JInt (fault_remaining_uses fault))]
              (user_email user) (put_fault fault (drawn s))
        in ret fault (persist s))"

definition disable_fault :: "env \<Rightarrow> string \<Rightarrow> AuthUser \<Rightarrow> sys \<Rightarrow> AgentRunFaultConfig result" where
  "disable_fault E fid user s =
     (case dict_get (agent_run_faults s) fid of
        None \<Rightarrow> raise (HTTPException 404 ''Fault configuration not found'') s
      | Some fault \<Rightarrow>
          let fault = fault\<lparr>fault_enabled := False\<rparr>;
              s = add_audit E ''agent_run.fault_disabled'' (fault_id fault)
                [(''fault_kind'', JStr (AgentRunFaultKind_value (fault_kind fault)))]
                (user_email user) (put_fault fault s)
          in ret fault (persist s))"

section \<open>Lemmas\<close>

text \<open>A disabled fault is never injected again, and a listing never shows more than asked for.\<close>

lemma disabled_fault_never_matches:
  assumes "disable_fault E fid user s = (Inr f, s')"
  shows "matching_fault rid ty s'' \<noteq> Some f"
proof -
  have "\<not> fault_matches rid ty f"
    using assms by (auto simp: disable_fault_def ret_def raise_def Let_def fault_matches_def split: option.splits)
  then show ?thesis using matching_fault_Some(2) by blast
qed

lemma list_runs_sound:
  "run \<in> set (list_runs st tid limit s) \<Longrightarrow> run \<in> set (dict_vals (agent_runs s)) \<and>
    (st = None \<or> st = Some (run_status run)) \<and> length (list_runs st tid limit s) \<le> limit"
  by (auto simp: list_runs_def dest: in_set_takeD)

end
