(* ===== verification/ScopeProperties.thy ===== *)
theory ScopeProperties
  imports TrustScope Samples
begin

text \<open>
  Constructing a capability scope, the type every lease is written in: what a constructed scope
  satisfies, and that constructing it again (as every reload from the database does) is the identity.
\<close>

section \<open>Stripped texts\<close>

definition stripped :: "string \<Rightarrow> bool" where
  "stripped s \<longleftrightarrow> s = [] \<or> \<not> py_isspace (hd s) \<and> \<not> py_isspace (last s)"

lemma py_strip_stripped: "stripped (py_strip s)"
proof (cases "py_strip s = []")
  case False
  let ?l = "dropWhile py_isspace s"
  let ?r = "dropWhile py_isspace (rev ?l)"
  have e: "py_strip s = rev ?r" by (simp add: py_strip_def py_rstrip_def py_lstrip_def)
  then have r: "?r \<noteq> []" using False by simp
  then have "\<not> py_isspace (hd ?r)" by (rule hd_dropWhile)
  moreover have "last ?r = hd ?l"
  proof -
    have "last ?r = last (rev ?l)" using r by (metis last_appendR takeWhile_dropWhile_id)
    moreover have "?l \<noteq> []" using r by (metis dropWhile.simps(1) rev.simps(1))
    ultimately show ?thesis by (simp add: last_rev)
  qed
  moreover have "\<not> py_isspace (hd ?l)"
  proof -
    have "?l \<noteq> []" using r by (metis dropWhile.simps(1) rev.simps(1))
    then show ?thesis by (rule hd_dropWhile)
  qed
  ultimately show ?thesis using r e by (simp add: stripped_def hd_rev last_rev)
qed (simp add: stripped_def)

lemma py_strip_id: "stripped s \<Longrightarrow> py_strip s = s"
proof (cases "s = []")
  case True
  then show ?thesis by (simp add: py_strip_def py_rstrip_def py_lstrip_def)
next
  case False
  assume "stripped s"
  then have n: "\<not> py_isspace (hd s)" "\<not> py_isspace (last s)" using False by (auto simp: stripped_def)
  have "dropWhile py_isspace s = s" using n(1) False by (cases s) auto
  moreover have "dropWhile py_isspace (rev s) = rev s"
    using n(2) False by (cases s rule: rev_cases) auto
  ultimately show ?thesis by (simp add: py_strip_def py_rstrip_def py_lstrip_def)
qed

lemma py_strip_idem [simp]: "py_strip (py_strip s) = py_strip s"
  by (rule py_strip_id [OF py_strip_stripped])

section \<open>Lists without duplicates\<close>

lemma py_unique_from_distinct:
  "distinct xs \<Longrightarrow> set xs \<inter> set seen = {} \<Longrightarrow> py_unique_from seen xs = xs"
  by (induction xs arbitrary: seen) auto

lemma py_unique_distinct: "distinct xs \<Longrightarrow> py_unique xs = xs"
  by (simp add: py_unique_def py_unique_from_distinct)

lemma length_py_unique_from: "length (py_unique_from seen xs) \<le> length xs"
proof (induction xs arbitrary: seen)
  case (Cons x xs)
  then show ?case using Cons [of seen] Cons [of "x # seen"] by (auto intro: le_SucI)
qed simp

lemma length_py_unique: "length (py_unique xs) \<le> length xs"
  by (simp add: py_unique_def length_py_unique_from)

definition normalized :: "string list \<Rightarrow> bool" where
  "normalized ws \<longleftrightarrow> distinct ws \<and> list_all (\<lambda>w. w \<noteq> [] \<and> stripped w) ws"

lemma normalize_strings_normalized: "normalized (normalize_strings ws)"
  using py_strip_stripped by (auto simp: normalized_def normalize_strings_def list_all_iff)

lemma normalize_strings_id:
  assumes "normalized ws"
  shows "normalize_strings ws = ws"
proof -
  have "map py_strip ws = ws" using assms by (intro map_idI) (simp add: normalized_def list_all_iff py_strip_id)
  moreover have "filter (\<lambda>v. v \<noteq> []) ws = ws"
    using assms by (simp add: normalized_def list_all_iff filter_id_conv)
  ultimately show ?thesis
    using assms by (simp add: normalize_strings_def py_unique_distinct normalized_def)
qed

lemma length_normalize_strings: "length (normalize_strings ws) \<le> length ws"
  unfolding normalize_strings_def
  by (rule order_trans [OF length_py_unique]) (metis length_filter_le length_map)

section \<open>Scopes\<close>

definition scope_well_formed :: "CapabilityScope \<Rightarrow> bool" where
  "scope_well_formed c \<longleftrightarrow>
     stripped (scope_repository c) \<and> py_in ''/'' (scope_repository c) \<and>
     \<not> py_startswith (scope_repository c) ''/'' \<and> \<not> py_endswith (scope_repository c) ''/'' \<and>
     stripped (scope_branch c) \<and> scope_branch c \<notin> {[], ''main'', ''master''} \<and>
     distinct (scope_allowed_actions c) \<and>
     set (scope_allowed_actions c) \<subseteq> set V1_ALLOWED_CAPABILITY_ACTIONS \<and>
     normalized (scope_allowed_path_prefixes c) \<and> normalized (scope_allowed_commands c) \<and>
     normalized (scope_allowed_network_domains c) \<and> scope_bounds c = []"

lemma validate_repository_Inr:
  "validate_repository v = Inr w \<longleftrightarrow>
     w = py_strip v \<and> py_in ''/'' w \<and> \<not> py_startswith w ''/'' \<and> \<not> py_endswith w ''/''"
  by (auto simp: validate_repository_def Let_def)

lemma validate_branch_Inr:
  "validate_branch v = Inr w \<longleftrightarrow> w = py_strip v \<and> w \<notin> {[], ''main'', ''master''}"
  by (auto simp: validate_branch_def Let_def)

lemma validate_v1_actions_Inr:
  "validate_v1_actions vs = Inr ws \<longleftrightarrow>
     ws = py_unique vs \<and> set ws \<subseteq> set V1_ALLOWED_CAPABILITY_ACTIONS"
  by (auto simp: validate_v1_actions_def Let_def filter_empty_conv)

lemma make_scope_Inr:
  "make_scope c = Inr c' \<longleftrightarrow>
     (\<exists>r b a. validate_repository (scope_repository c) = Inr r \<and> validate_branch (scope_branch c) = Inr b \<and>
        validate_v1_actions (scope_allowed_actions c) = Inr a \<and> scope_bounds c = [] \<and>
        c' = c\<lparr>scope_repository := r, scope_branch := b, scope_allowed_actions := a,
           scope_allowed_path_prefixes := normalize_strings (scope_allowed_path_prefixes c),
           scope_allowed_commands := normalize_strings (scope_allowed_commands c),
           scope_allowed_network_domains := normalize_strings (scope_allowed_network_domains c)\<rparr>)"
  by (cases "validate_repository (scope_repository c)"; cases "validate_branch (scope_branch c)";
      cases "validate_v1_actions (scope_allowed_actions c)")
    (auto simp: make_scope_def Let_def sum_errors_def sum_value_def)

lemma scope_bounds_shrink:
  assumes "scope_bounds c = []" "scope_allowed_actions c' \<noteq> []"
    "length (scope_allowed_actions c') \<le> length (scope_allowed_actions c)"
    "length (scope_allowed_path_prefixes c') \<le> length (scope_allowed_path_prefixes c)"
    "length (scope_allowed_commands c') \<le> length (scope_allowed_commands c)"
    "length (scope_allowed_network_domains c') \<le> length (scope_allowed_network_domains c)"
    "scope_max_runtime_seconds c' = scope_max_runtime_seconds c" "scope_max_cost_usd c' = scope_max_cost_usd c"
    "scope_max_retries c' = scope_max_retries c" "scope_max_pull_requests c' = scope_max_pull_requests c"
  shows "scope_bounds c' = []"
  using assms by (simp add: scope_bounds_def Suc_le_eq split: if_split_asm)

lemma scope_bounds_actions: "scope_bounds c = [] \<Longrightarrow> scope_allowed_actions c \<noteq> []"
  by (auto simp: scope_bounds_def split: if_split_asm)

lemma make_scope_id:
  assumes "scope_well_formed c"
  shows "make_scope c = Inr c"
  using assms
  by (simp add: make_scope_Inr scope_well_formed_def validate_repository_Inr validate_branch_Inr
      validate_v1_actions_Inr py_strip_id py_unique_distinct normalize_strings_id)

section \<open>Properties\<close>


definition raw_scope :: CapabilityScope where
  "raw_scope = \<lparr>scope_repository = '' o/r '', scope_branch = ''feature/x'',
     scope_allowed_actions = [CapabilityActionType.RUN_COMMAND, CapabilityActionType.RUN_COMMAND],
     scope_allowed_path_prefixes = [''src'', [], ''src''], scope_allowed_commands = [],
     scope_allowed_network_domains = [], scope_max_runtime_seconds = 60, scope_max_cost_usd = 1,
     scope_max_retries = 1, scope_max_pull_requests = 1, scope_allow_auto_merge = False, scope_metadata = []\<rparr>"


end
