(* ===== verification/UserAuth.thy ===== *)
theory UserAuth
  imports Settings RunSupervisor
begin

text \<open>
  \<open>email_policy.py\<close> and \<open>password_policy.py\<close>: what an address and a password must satisfy before a
  user is registered. The lookup of the mail domain is a parameter, as in the source.
\<close>

section \<open>Addresses\<close>

definition LOCAL_OR_RESERVED_DOMAINS :: "string list" where
  "LOCAL_OR_RESERVED_DOMAINS = [''localhost'', ''local'', ''invalid'', ''test'']"

definition LOCAL_OR_RESERVED_SUFFIXES :: "string list" where
  "LOCAL_OR_RESERVED_SUFFIXES = [''.localhost'', ''.local'', ''.invalid'', ''.test'']"

text \<open>\<open>rsplit("@", 1)\<close> of a text with an at sign.\<close>

definition split_address :: "string \<Rightarrow> string \<times> string" where
  "split_address email =
     (let domain = rev (takeWhile (\<lambda>c. c \<noteq> CHR ''@'') (rev email))
      in (take (length email - length domain - 1) email, domain))"

definition validate_registration_email_deliverability ::
    "(string \<Rightarrow> bool) \<Rightarrow> string \<Rightarrow> pyerror + string" where
  "validate_registration_email_deliverability resolver email =
     (let normalized = py_strip (py_lower email) in
      if CHR ''@'' \<notin> set normalized then Inl (ValueError ''Email address is invalid'')
      else
        let (local_part, domain) = split_address normalized in
        if local_part = [] \<or> domain = [] then Inl (ValueError ''Email address is invalid'')
        else if domain \<in> set LOCAL_OR_RESERVED_DOMAINS \<or>
            list_ex (py_endswith domain) LOCAL_OR_RESERVED_SUFFIXES
        then Inl (ValueError ''Email domain must be publicly deliverable'')
        else if CHR ''.'' \<notin> set domain then Inl (ValueError ''Email domain must include a public suffix'')
        else if \<not> resolver domain then Inl (ValueError ''Email domain does not appear to receive mail'')
        else Inr normalized)"

section \<open>Passwords\<close>

definition PASSWORD_MIN_LENGTH :: nat where "PASSWORD_MIN_LENGTH = 12"

definition PASSWORD_MAX_LENGTH :: nat where "PASSWORD_MAX_LENGTH = 128"

definition char_between :: "char \<Rightarrow> char \<Rightarrow> char \<Rightarrow> bool" where
  "char_between lo hi c \<longleftrightarrow> (of_char lo :: nat) \<le> of_char c \<and> (of_char c :: nat) \<le> of_char hi"

definition is_lower :: "char \<Rightarrow> bool" where "is_lower = char_between (CHR ''a'') (CHR ''z'')"

definition is_upper :: "char \<Rightarrow> bool" where "is_upper = char_between (CHR ''A'') (CHR ''Z'')"

definition is_digit :: "char \<Rightarrow> bool" where "is_digit = char_between (CHR ''0'') (CHR ''9'')"

definition is_alnum :: "char \<Rightarrow> bool" where
  "is_alnum c \<longleftrightarrow> is_lower c \<or> is_upper c \<or> is_digit c"

text \<open>\<open>string.punctuation\<close>: the other printable characters.\<close>

definition is_punctuation :: "char \<Rightarrow> bool" where
  "is_punctuation c \<longleftrightarrow> char_between (CHR 0x21) (CHR 0x7E) c \<and> \<not> is_alnum c"

definition climbs :: "int \<Rightarrow> string \<Rightarrow> bool" where
  "climbs d chunk \<longleftrightarrow>
     list_all (\<lambda>(left, right). (of_char right :: int) - of_char left = d) (zip chunk (drop 1 chunk))"

definition contains_obvious_sequence :: "string \<Rightarrow> nat \<Rightarrow> bool" where
  "contains_obvious_sequence value window =
     (let compact = filter is_alnum value in
      if length compact < window then False
      else list_ex (\<lambda>i. let chunk = take window (drop i compact) in climbs 1 chunk \<or> climbs (- 1) chunk)
             [0..<length compact - window + 1])"

definition contains_product_word :: "string \<Rightarrow> bool" where
  "contains_product_word value =
     contains_any (filter is_alnum value) [''aixion'', ''controltower'', ''approval'', ''account'']"

definition contains_username :: "string option \<Rightarrow> string \<Rightarrow> bool" where
  "contains_username email lowered \<longleftrightarrow>
     truthy email \<and>
     (let local_part = py_strip (takeWhile (\<lambda>c. c \<noteq> CHR ''@'') (py_lower (opt_str email)))
      in length local_part \<ge> 4 \<and> py_in local_part lowered)"

definition validate_password_policy :: "string \<Rightarrow> string option \<Rightarrow> pyerror + string" where
  "validate_password_policy password email =
     (let lowered = py_lower password in
      if length password < PASSWORD_MIN_LENGTH then
        Inl (ValueError ''Password must be at least 12 characters long'')
      else if length password > PASSWORD_MAX_LENGTH then
        Inl (ValueError ''Password must be at most 128 characters long'')
      else if password \<noteq> py_strip password then
        Inl (ValueError ''Password must not start or end with whitespace'')
      else if list_ex py_isspace password then Inl (ValueError ''Password must not contain whitespace'')
      else if length (remdups lowered) < 5 then
        Inl (ValueError ''Password must not rely on repeated characters'')
      else if contains_username email lowered then
        Inl (ValueError ''Password must not contain the email username'')
      else if \<not> list_ex is_lower password \<or> \<not> list_ex is_upper password \<or> \<not> list_ex is_digit password \<or>
          \<not> list_ex is_punctuation password then
        Inl (ValueError ''Password must include lowercase, uppercase, number, and symbol'')
      else if contains_obvious_sequence lowered 6 then
        Inl (ValueError ''Password must not contain obvious keyboard or numeric sequences'')
      else if contains_product_word lowered then
        Inl (ValueError ''Password must not contain obvious product or account words'')
      else Inr password)"

section \<open>Laws\<close>

lemma valid_email_normalized:
  "validate_registration_email_deliverability resolver email = Inr e \<Longrightarrow> e = py_strip (py_lower email) \<and> e \<noteq> []"
  by (auto simp: validate_registration_email_deliverability_def Let_def split: if_splits prod.splits)

lemma valid_password_strong:
  "validate_password_policy password email = Inr p \<Longrightarrow>
     p = password \<and> 12 \<le> length password \<and> length password \<le> 128 \<and> \<not> list_ex py_isspace password \<and>
     list_ex is_lower password \<and> list_ex is_upper password \<and> list_ex is_digit password"
  by (auto simp: validate_password_policy_def Let_def PASSWORD_MIN_LENGTH_def PASSWORD_MAX_LENGTH_def split: if_splits)

chapter \<open>Accounts and sessions\<close>

text \<open>
  \<open>auth.py\<close>: users, the verification of their address, passwords, session tokens and the roles a route
  asks for. The slow password hash, the random verification code, the lookup of mail domains and the
  settings are parameters. An \<open>EmailStr\<close> is any text here: the checks of the e-mail library are not
  modelled, and nothing below relies on them.
\<close>

record auth_env =
  pbkdf2_hmac :: "string \<Rightarrow> string \<Rightarrow> string"
  randbelow :: "nat \<Rightarrow> nat \<Rightarrow> nat"
  domain_has_dns_records :: "string \<Rightarrow> bool"
  settings :: Settings

definition SESSION_DAYS :: int where "SESSION_DAYS = 30"

definition VERIFICATION_MINUTES :: int where "VERIFICATION_MINUTES = 30"

record RegistrationResponse =
  rr_user :: AuthUser
  rr_verification_required :: bool
  rr_message :: string
  rr_dev_verification_code :: "string option"

record AuthResponse =
  ar_access_token :: string
  ar_user :: AuthUser

definition hash_secret :: "auth_env \<Rightarrow> string \<Rightarrow> string \<Rightarrow> string" where
  "hash_secret A secret salt = pbkdf2_hmac A secret salt"

definition default_role_for_new_user :: "sys \<Rightarrow> UserRole" where
  "default_role_for_new_user s = (if users s = [] then UserRole.OWNER else UserRole.REVIEWER)"

definition to_auth_user :: "User \<Rightarrow> AuthUser" where
  "to_auth_user u =
     \<lparr>user_id = usr_id u, user_email = usr_email u, user_display_name = usr_display_name u,
      user_role = usr_role u, user_email_verified = usr_email_verified u\<rparr>"

section \<open>Registration and verification\<close>

text \<open>\<open>f"{n:06d}"\<close>\<close>

definition six_digits :: "nat \<Rightarrow> string" where
  "six_digits n = replicate (6 - length (nat_digits n)) (CHR ''0'') @ nat_digits n"

definition issue_email_verification :: "auth_env \<Rightarrow> env \<Rightarrow> User \<Rightarrow> sys \<Rightarrow> (string \<times> User) \<times> sys" where
  "issue_email_verification A E user s =
     (let code = six_digits (randbelow A (draws s) 1000000); s = drawn s;
          salt = token_hex E (draws s); s = drawn s;
          user = user\<lparr>usr_email_verification_salt := Some salt,
            usr_email_verification_hash := Some (hash_secret A code salt),
            usr_email_verification_expires_at := Some (clock s + seconds (VERIFICATION_MINUTES * 60)),
            usr_email_verification_sent_at := Some (clock s), usr_updated_at := clock s\<rparr>
      in ((code, user), persist (put_user user s)))"

definition dev_verification_code :: "auth_env \<Rightarrow> string \<Rightarrow> string option" where
  "dev_verification_code A code =
     (if cfg_profile (settings A) \<in> set [''local'', ''demo'', ''test''] then Some code else None)"

definition email_taken :: "string \<Rightarrow> sys \<Rightarrow> bool" where
  "email_taken normalized s \<longleftrightarrow> list_ex (\<lambda>u. py_lower (usr_email u) = normalized) (dict_vals (users s))"

definition create_user ::
    "auth_env \<Rightarrow> env \<Rightarrow> string \<Rightarrow> string \<Rightarrow> string \<Rightarrow> UserRole option \<Rightarrow> bool \<Rightarrow> sys \<Rightarrow> User result" where
  "create_user A E email password display_name role email_verified s =
     (let normalized = py_strip (py_lower email) in
      if email_taken normalized s then raise (HTTPException 409 ''User already exists'') s
      else
        let salt = token_hex E (draws s); s = drawn s;
            user = \<lparr>usr_id = new_id E ''user'' s, usr_email = normalized,
              usr_display_name = str_or (py_strip display_name) normalized,
              usr_role = (case role of Some r \<Rightarrow> r | None \<Rightarrow> default_role_for_new_user s),
              usr_password_hash = hash_secret A password salt, usr_password_salt = salt,
              usr_disabled = False, usr_email_verified = email_verified,
              usr_email_verification_hash = None, usr_email_verification_salt = None,
              usr_email_verification_expires_at = None, usr_email_verification_sent_at = None,
              usr_created_at = clock s, usr_updated_at = clock s\<rparr>
        in ret user (persist (put_user user (drawn s))))"

definition create_registration_response ::
    "auth_env \<Rightarrow> env \<Rightarrow> User \<Rightarrow> sys \<Rightarrow> RegistrationResponse result" where
  "create_registration_response A E user s =
     (let ((code, user), s) = issue_email_verification A E user s
      in ret \<lparr>rr_user = to_auth_user user, rr_verification_required = True,
           rr_message = ''Registration created. Verify your email before logging in.'',
           rr_dev_verification_code = dev_verification_code A code\<rparr> s)"

definition user_by_email :: "string \<Rightarrow> sys \<Rightarrow> User option" where
  "user_by_email email s =
     find (\<lambda>u. py_lower (usr_email u) = py_strip (py_lower email)) (dict_vals (users s))"

definition resend_verification :: "auth_env \<Rightarrow> env \<Rightarrow> string \<Rightarrow> sys \<Rightarrow> RegistrationResponse result" where
  "resend_verification A E email s =
     (case user_by_email email s of
        None \<Rightarrow> raise (HTTPException 404 ''User not found'') s
      | Some user \<Rightarrow>
          if usr_disabled user then raise (HTTPException 404 ''User not found'') s
          else if usr_email_verified user then
            ret \<lparr>rr_user = to_auth_user user, rr_verification_required = False,
              rr_message = ''Email is already verified.'', rr_dev_verification_code = None\<rparr> s
          else create_registration_response A E user s)"

text \<open>The answer to a verification: the user and the message.\<close>

definition verify_email :: "auth_env \<Rightarrow> string \<Rightarrow> string \<Rightarrow> sys \<Rightarrow> (AuthUser \<times> string) result" where
  "verify_email A email code s =
     (case user_by_email email s of
        None \<Rightarrow> raise (HTTPException 404 ''User not found'') s
      | Some user \<Rightarrow>
          if usr_disabled user then raise (HTTPException 404 ''User not found'') s
          else if usr_email_verified user then ret (to_auth_user user, ''Email already verified.'') s
          else
            (case (usr_email_verification_hash user, usr_email_verification_salt user,
                   usr_email_verification_expires_at user) of
               (Some h, Some salt, Some expires) \<Rightarrow>
                 if h = [] \<or> salt = [] then raise (HTTPException 400 ''No active verification code'') s
                 else if expires \<le> clock s then raise (HTTPException 400 ''Verification code expired'') s
                 else if hash_secret A (py_strip code) salt \<noteq> h then
                   raise (HTTPException 400 ''Invalid verification code'') s
                 else
                   let user = user\<lparr>usr_email_verified := True, usr_email_verification_hash := None,
                         usr_email_verification_salt := None, usr_email_verification_expires_at := None,
                         usr_updated_at := clock s\<rparr>
                   in ret (to_auth_user user, ''Email verified. You can now log in.'') (persist (put_user user s))
             | _ \<Rightarrow> raise (HTTPException 400 ''No active verification code'') s))"

section \<open>Sessions\<close>

definition authenticate_user :: "auth_env \<Rightarrow> string \<Rightarrow> string \<Rightarrow> sys \<Rightarrow> User result" where
  "authenticate_user A email password s =
     (case user_by_email email s of
        None \<Rightarrow> raise (HTTPException 401 ''Invalid credentials'') s
      | Some user \<Rightarrow>
          if usr_disabled user then raise (HTTPException 401 ''Invalid credentials'') s
          else if hash_secret A password (usr_password_salt user) \<noteq> usr_password_hash user then
            raise (HTTPException 401 ''Invalid credentials'') s
          else if \<not> usr_email_verified user then raise (HTTPException 403 ''Email verification required'') s
          else ret user s)"

definition create_session :: "env \<Rightarrow> User \<Rightarrow> sys \<Rightarrow> AuthResponse result" where
  "create_session E user s =
     (let token = token_urlsafe E (draws s); s = drawn s;
          session = \<lparr>ses_id = new_id E ''session'' s, ses_user_id = usr_id user, ses_token_hash = sha256 E token,
            ses_created_at = clock s, ses_expires_at = clock s + seconds (SESSION_DAYS * 86400), ses_revoked = False\<rparr>
      in ret \<lparr>ar_access_token = token, ar_user = to_auth_user user\<rparr> (persist (put_session session (drawn s))))"

text \<open>The token after the scheme of an \<open>Authorization\<close> header, and the session it belongs to.\<close>

definition bearer_token :: "string option \<Rightarrow> string option" where
  "bearer_token authorization =
     (if truthy authorization \<and> py_startswith (py_lower (opt_str authorization)) ''bearer ''
      then Some (py_strip (drop 1 (dropWhile (\<lambda>c. c \<noteq> CHR '' '') (opt_str authorization))))
      else None)"

definition live_session :: "env \<Rightarrow> string \<Rightarrow> sys \<Rightarrow> SessionToken option" where
  "live_session E token s =
     find (\<lambda>x. ses_token_hash x = sha256 E token \<and> \<not> ses_revoked x \<and> clock s < ses_expires_at x)
       (dict_vals (sessions s))"

definition dev_user :: AuthUser where
  "dev_user = \<lparr>user_id = ''dev_user'', user_email = ''dev@local'', user_display_name = ''Local Dev'',
     user_role = UserRole.OWNER, user_email_verified = True\<rparr>"

definition require_user :: "auth_env \<Rightarrow> env \<Rightarrow> string option \<Rightarrow> sys \<Rightarrow> AuthUser result" where
  "require_user A E authorization s =
     (if \<not> cfg_auth_enabled (settings A) then ret dev_user s
      else (case bearer_token authorization of
          None \<Rightarrow> raise (HTTPException 401 ''Missing bearer token'') s
        | Some token \<Rightarrow>
            (case live_session E token s of
               None \<Rightarrow> raise (HTTPException 401 ''Invalid or expired session'') s
             | Some session \<Rightarrow>
                 (case dict_get (users s) (ses_user_id session) of
                    None \<Rightarrow> raise (HTTPException 401 ''User not active'') s
                  | Some user \<Rightarrow>
                      if usr_disabled user then raise (HTTPException 401 ''User not active'') s
                      else if \<not> usr_email_verified user then
                        raise (HTTPException 401 ''Email verification required'') s
                      else ret (to_auth_user user) s))))"

definition require_roles ::
    "auth_env \<Rightarrow> env \<Rightarrow> UserRole list \<Rightarrow> string option \<Rightarrow> sys \<Rightarrow> AuthUser result" where
  "require_roles A E allowed authorization s =
     bindE (require_user A E authorization s) (\<lambda>user s.
       if user_role user \<notin> set allowed then
         raise (HTTPException 403 (''Requires one of roles: '' @
           py_join '', '' (sort (remdups (map UserRole_value allowed))))) s
       else ret user s)"

definition require_owner :: "auth_env \<Rightarrow> env \<Rightarrow> string option \<Rightarrow> sys \<Rightarrow> AuthUser result" where
  "require_owner A E = require_roles A E [UserRole.OWNER]"

definition require_maintainer :: "auth_env \<Rightarrow> env \<Rightarrow> string option \<Rightarrow> sys \<Rightarrow> AuthUser result" where
  "require_maintainer A E = require_roles A E [UserRole.OWNER, UserRole.MAINTAINER]"

definition require_reviewer :: "auth_env \<Rightarrow> env \<Rightarrow> string option \<Rightarrow> sys \<Rightarrow> AuthUser result" where
  "require_reviewer A E = require_roles A E [UserRole.OWNER, UserRole.MAINTAINER, UserRole.REVIEWER]"

text \<open>Finding the caller changes nothing.\<close>

lemma require_user_state: "snd (require_user A E auth s) = s"
  by (auto simp: require_user_def ret_def raise_def split: option.splits)

end
