(* ===== verification/TrustRoutes.thy ===== *)
theory TrustRoutes
  imports Reporting ExternalAgents UserAuth TrustProperties
begin

text \<open>
  \<open>trust_routes.py\<close>: the trust plane over HTTP. Every route but the introspection of a credential asks for a
  person with a role or for an external agent; the operations are those of the trust theories, with their
  exceptions turned into statuses.
\<close>

section \<open>Errors and public views\<close>

text \<open>
  \<open>_trust_error\<close>: a \<open>ValueError\<close> (and its subclasses) is answered with 404, \<open>NotImplementedError\<close> with 501 and
  what else the route catches with 409. Which exceptions a route catches is its first argument.
\<close>

definition is_value_error :: "pyerror \<Rightarrow> bool" where
  "is_value_error e \<longleftrightarrow>
     (case e of ValueError _ \<Rightarrow> True | ValidationError _ \<Rightarrow> True | InvalidAgentRunTransition _ \<Rightarrow> True | _ \<Rightarrow> False)"

definition is_conflict :: "pyerror \<Rightarrow> bool" where
  "is_conflict e \<longleftrightarrow> (case e of TrustControlConflict _ \<Rightarrow> True | _ \<Rightarrow> False)"

definition is_authorization_conflict :: "pyerror \<Rightarrow> bool" where
  "is_authorization_conflict e \<longleftrightarrow> (case e of ActionAuthorizationConflict _ \<Rightarrow> True | _ \<Rightarrow> False)"

definition is_not_implemented :: "pyerror \<Rightarrow> bool" where
  "is_not_implemented e \<longleftrightarrow> (case e of NotImplementedError _ \<Rightarrow> True | _ \<Rightarrow> False)"

definition trust_error :: "pyerror \<Rightarrow> pyerror" where
  "trust_error e =
     (if is_value_error e then HTTPException 404 (pyerror_message e)
      else if is_not_implemented e then HTTPException 501 (pyerror_message e)
      else HTTPException 409 (pyerror_message e))"

definition trust_caught :: "(pyerror \<Rightarrow> bool) \<Rightarrow> 'a result \<Rightarrow> 'a result" where
  "trust_caught caught r =
     (case r of (Inl e, s) \<Rightarrow> (Inl (if caught e then trust_error e else e), s) | (Inr a, s) \<Rightarrow> (Inr a, s))"

record CapabilityLeasePublic =
  lp_id :: string
  lp_approval_request_id :: string
  lp_agent_id :: "string option"
  lp_provider :: AgentProvider
  lp_mode :: CapabilityLeaseMode
  lp_scope :: CapabilityScope
  lp_issued_by_user_id :: string
  lp_status :: CapabilityLeaseStatus
  lp_issued_at :: int
  lp_expires_at :: int
  lp_revoked_at :: "int option"
  lp_revocation_reason :: string
  lp_consumed_pull_requests :: int
  lp_consumed_retries :: int
  lp_consumed_runtime_seconds :: int
  lp_consumed_cost_usd :: rat
  lp_receipt_signature :: string

definition public_lease :: "CapabilityLease \<Rightarrow> CapabilityLeasePublic" where
  "public_lease l =
     \<lparr>lp_id = lease_id l, lp_approval_request_id = lease_approval_request_id l, lp_agent_id = lease_agent_id l,
      lp_provider = lease_provider l, lp_mode = lease_mode l, lp_scope = lease_scope l,
      lp_issued_by_user_id = lease_issued_by_user_id l, lp_status = lease_status l,
      lp_issued_at = lease_issued_at l, lp_expires_at = lease_expires_at l, lp_revoked_at = lease_revoked_at l,
      lp_revocation_reason = lease_revocation_reason l,
      lp_consumed_pull_requests = lease_consumed_pull_requests l, lp_consumed_retries = lease_consumed_retries l,
      lp_consumed_runtime_seconds = lease_consumed_runtime_seconds l,
      lp_consumed_cost_usd = lease_consumed_cost_usd l, lp_receipt_signature = lease_receipt_signature l\<rparr>"

record CredentialGrantPublic =
  gp_id :: string
  gp_lease_id :: string
  gp_grant_type :: CredentialGrantType
  gp_audience :: string
  gp_subject :: string
  gp_scope :: "string list"
  gp_issued_at :: int
  gp_expires_at :: int
  gp_revoked :: bool
  gp_revoked_at :: "int option"
  gp_metadata :: jdict

definition credential_public :: "CredentialGrant \<Rightarrow> CredentialGrantPublic" where
  "credential_public g =
     \<lparr>gp_id = grant_id g, gp_lease_id = grant_lease_id g, gp_grant_type = grant_type g,
      gp_audience = grant_audience g, gp_subject = grant_subject g, gp_scope = grant_scope g,
      gp_issued_at = grant_issued_at g, gp_expires_at = grant_expires_at g, gp_revoked = grant_revoked g,
      gp_revoked_at = grant_revoked_at g, gp_metadata = grant_metadata g\<rparr>"

definition lease_or_404 :: "env \<Rightarrow> string \<Rightarrow> sys \<Rightarrow> CapabilityLease result" where
  "lease_or_404 E lid s =
     (case dict_get (capability_leases s) lid of
        None \<Rightarrow> raise (HTTPException 404 ''Capability lease not found'') s
      | Some lease \<Rightarrow> let (lease, s) = refresh_lease_status E lease s in ret lease s)"

definition credential_or_404 :: "string \<Rightarrow> sys \<Rightarrow> CredentialGrant result" where
  "credential_or_404 gid s =
     (case dict_get (credential_grants s) gid of
        None \<Rightarrow> raise (HTTPException 404 ''Credential grant not found'') s
      | Some g \<Rightarrow> ret g s)"

section \<open>Attestations and leases\<close>

definition create_attestation ::
    "env \<Rightarrow> ReviewerAttestationCreate \<Rightarrow> AuthUser \<Rightarrow> sys \<Rightarrow> ReviewerAttestation result" where
  "create_attestation E payload user s =
     trust_caught (\<lambda>e. is_value_error e \<or> is_conflict e) (record_reviewer_attestation E payload user s)"

definition list_attestations :: "string option \<Rightarrow> sys \<Rightarrow> ReviewerAttestation list" where
  "list_attestations aid s =
     rev (sort_key att_created_at (rev (filter
       (\<lambda>x. truthy aid \<longrightarrow> att_approval_request_id x = opt_str aid) (dict_vals (reviewer_attestations s)))))"

definition create_lease :: "env \<Rightarrow> CapabilityLeaseCreate \<Rightarrow> AuthUser \<Rightarrow> sys \<Rightarrow> CapabilityLeasePublic result" where
  "create_lease E payload user s =
     bindE (trust_caught (\<lambda>e. is_value_error e \<or> is_conflict e) (issue_capability_lease E payload user s))
       (\<lambda>lease. ret (public_lease lease))"

text \<open>Listing the leases refreshes each of them.\<close>

fun refresh_leases :: "env \<Rightarrow> CapabilityLease list \<Rightarrow> sys \<Rightarrow> CapabilityLease list \<times> sys" where
  "refresh_leases E [] s = ([], s)"
| "refresh_leases E (lease # leases) s =
     (let (lease, s) = refresh_lease_status E lease s;
          (leases, s) = refresh_leases E leases s
      in (lease # leases, s))"

definition list_leases ::
    "env \<Rightarrow> CapabilityLeaseStatus option \<Rightarrow> string option \<Rightarrow> string option \<Rightarrow> sys \<Rightarrow> CapabilityLeasePublic list result" where
  "list_leases E st approval agent s =
     (let (leases, s) = refresh_leases E (dict_vals (capability_leases s)) s;
          shown = filter (\<lambda>l. (st = None \<or> st = Some (lease_status l)) \<and>
            (truthy approval \<longrightarrow> lease_approval_request_id l = opt_str approval) \<and>
            (truthy agent \<longrightarrow> lease_agent_id l = agent)) leases
      in ret (map public_lease (rev (sort_key lease_created_at (rev shown)))) s)"

definition get_lease :: "env \<Rightarrow> string \<Rightarrow> sys \<Rightarrow> CapabilityLeasePublic result" where
  "get_lease E lid s = bindE (lease_or_404 E lid s) (\<lambda>lease. ret (public_lease lease))"

definition revoke_lease :: "env \<Rightarrow> string \<Rightarrow> string \<Rightarrow> AuthUser \<Rightarrow> sys \<Rightarrow> CapabilityLeasePublic result" where
  "revoke_lease E lid reason user s =
     bindE (trust_caught is_conflict
       (bindE (lease_or_404 E lid s) (\<lambda>lease. revoke_capability_lease E lease user reason)))
       (\<lambda>lease. ret (public_lease lease))"

section \<open>The agent gateway\<close>

text \<open>The subject of an agent's action is the agent that sends it, whatever the payload says.\<close>

definition normalized_action :: "ProposedAction \<Rightarrow> ExternalAgent \<Rightarrow> ProposedAction" where
  "normalized_action payload agent =
     payload\<lparr>act_provider := xa_provider agent, act_agent_id := Some (xa_id agent)\<rparr>"

definition evaluate_external_agent_action ::
    "env \<Rightarrow> ProposedAction \<Rightarrow> ExternalAgent \<Rightarrow> sys \<Rightarrow> (PolicyDecision \<times> CapabilityLease option) result" where
  "evaluate_external_agent_action E payload agent s =
     bindE (assert_agent_can agent AgentAction.EXECUTE_GITHUB (act_project_id payload) (act_repository payload) s)
       (\<lambda>_ s.
         let action = normalized_action payload agent in
         if (case lease_of_action action s of
               None \<Rightarrow> False
             | Some lease \<Rightarrow> truthy (lease_agent_id lease) \<and> lease_agent_id lease \<noteq> Some (xa_id agent))
         then raise (HTTPException 403 ''Capability lease belongs to another agent'') s
         else let (r, s) = evaluate_gateway_action E action (''agent:'' @ xa_id agent) s in ret r s)"

definition evaluate_manual_action ::
    "env \<Rightarrow> ProposedAction \<Rightarrow> AuthUser \<Rightarrow> sys \<Rightarrow> (PolicyDecision \<times> CapabilityLease option) result" where
  "evaluate_manual_action E payload user s =
     (let (r, s) = evaluate_gateway_action E payload (user_email user) s in ret r s)"

definition decide_exact_action ::
    "env \<Rightarrow> string \<Rightarrow> ActionAuthorizationCreate \<Rightarrow> AuthUser \<Rightarrow> sys \<Rightarrow> ActionAuthorization result" where
  "decide_exact_action E aid payload user s =
     trust_caught (\<lambda>e. is_value_error e \<or> is_authorization_conflict e) (record_action_authorization E aid payload user s)"

definition get_exact_action_decision :: "string \<Rightarrow> sys \<Rightarrow> ActionAuthorization option result" where
  "get_exact_action_decision aid s =
     (if dict_get (proposed_actions s) aid = None then raise (HTTPException 404 ''Proposed action not found'') s
      else ret (authorization_of aid s) s)"

definition consume_external_agent_action ::
    "env \<Rightarrow> string \<Rightarrow> ActionConsumption \<Rightarrow> ExternalAgent \<Rightarrow> sys \<Rightarrow> ActionConsumption result" where
  "consume_external_agent_action E aid payload agent s =
     (case dict_get (proposed_actions s) aid of
        None \<Rightarrow> raise (HTTPException 404 ''Proposed action not found'') s
      | Some action \<Rightarrow>
          if act_agent_id action \<noteq> Some (xa_id agent) then
            raise (HTTPException 403 ''Agent does not own this action'') s
          else bindE (assert_agent_can agent AgentAction.EXECUTE_GITHUB (act_project_id action) (act_repository action) s)
            (\<lambda>_ s. trust_caught (\<lambda>e. is_value_error e \<or> is_conflict e)
               (consume_effective_action E aid payload (''agent:'' @ xa_id agent) s)))"

definition consume_manual_action ::
    "env \<Rightarrow> string \<Rightarrow> ActionConsumption \<Rightarrow> AuthUser \<Rightarrow> sys \<Rightarrow> ActionConsumption result" where
  "consume_manual_action E aid payload user s =
     trust_caught (\<lambda>e. is_value_error e \<or> is_conflict e) (consume_effective_action E aid payload (user_email user) s)"

section \<open>Credentials and the flight recorder\<close>

definition create_credential_grant ::
    "env \<Rightarrow> CredentialGrantCreate \<Rightarrow> AuthUser \<Rightarrow> sys \<Rightarrow> (CredentialGrantPublic \<times> string) result" where
  "create_credential_grant E payload user s =
     bindE (trust_caught (\<lambda>e. is_value_error e \<or> is_conflict e \<or> is_not_implemented e)
         (issue_credential_grant E payload user s))
       (\<lambda>(g, token). ret (credential_public g, token))"

definition revoke_capability_credential ::
    "env \<Rightarrow> string \<Rightarrow> string \<Rightarrow> AuthUser \<Rightarrow> sys \<Rightarrow> CredentialGrantPublic result" where
  "revoke_capability_credential E gid reason user s =
     bindE (bindE (credential_or_404 gid s) (\<lambda>g. revoke_credential_grant E (grant_id g) user reason))
       (\<lambda>g. ret (credential_public g))"

definition list_flight_recorder_events ::
    "string option \<Rightarrow> string option \<Rightarrow> string option \<Rightarrow> nat \<Rightarrow> sys \<Rightarrow> TrustEvent list" where
  "list_flight_recorder_events ty entity correlation limit s =
     take limit (sort_key tev_sequence (filter
       (\<lambda>ev. (truthy ty \<longrightarrow> tev_entity_type ev = opt_str ty) \<and>
          (truthy entity \<longrightarrow> tev_entity_id ev = opt_str entity) \<and>
          (truthy correlation \<longrightarrow> tev_correlation_id ev = correlation)) (dict_vals (trust_events s))))"

definition verify_flight_recorder_chain :: "env \<Rightarrow> sys \<Rightarrow> FlightRecorderVerification result" where
  "verify_flight_recorder_chain E s = ret (verify_flight_recorder E s) s"

section \<open>Who may call\<close>

text \<open>The routes a person calls, with the roles each depends on, and the call with the bearer token checked first.\<close>

datatype trust_request =
    CreateAttestation ReviewerAttestationCreate
  | ListAttestations "string option"
  | CreateLease CapabilityLeaseCreate
  | ListLeases "CapabilityLeaseStatus option" "string option" "string option"
  | GetLease string
  | RevokeLease string string
  | EvaluateManually ProposedAction
  | DecideAction string ActionAuthorizationCreate
  | GetActionDecision string
  | ConsumeManually string ActionConsumption
  | CreateGrant CredentialGrantCreate
  | RevokeGrant string string
  | ListScorecards
  | ListExceptions
  | ListTrustEvents "string option" "string option" "string option" nat
  | VerifyTrustEvents

definition REVIEWERS :: "UserRole list" where "REVIEWERS = [OWNER, MAINTAINER, REVIEWER]"
definition MAINTAINERS :: "UserRole list" where "MAINTAINERS = [OWNER, MAINTAINER]"

fun trust_roles :: "trust_request \<Rightarrow> UserRole list" where
  "trust_roles (CreateLease p) = MAINTAINERS"
| "trust_roles (RevokeLease lid reason) = MAINTAINERS"
| "trust_roles (EvaluateManually a) = MAINTAINERS"
| "trust_roles (ConsumeManually aid c) = MAINTAINERS"
| "trust_roles (CreateGrant p) = [OWNER]"
| "trust_roles (RevokeGrant gid reason) = [OWNER]"
| "trust_roles _ = REVIEWERS"

definition forget :: "'a result \<Rightarrow> unit result" where
  "forget r = (case r of (Inl e, s) \<Rightarrow> (Inl e, s) | (Inr _, s) \<Rightarrow> (Inr (), s))"

fun trust_handler :: "env \<Rightarrow> trust_request \<Rightarrow> AuthUser \<Rightarrow> sys \<Rightarrow> unit result" where
  "trust_handler E (CreateAttestation p) user s = forget (create_attestation E p user s)"
| "trust_handler E (ListAttestations aid) user s = forget (ret (list_attestations aid s) s)"
| "trust_handler E (CreateLease p) user s = forget (create_lease E p user s)"
| "trust_handler E (ListLeases st approval agent) user s = forget (list_leases E st approval agent s)"
| "trust_handler E (GetLease lid) user s = forget (get_lease E lid s)"
| "trust_handler E (RevokeLease lid reason) user s = forget (revoke_lease E lid reason user s)"
| "trust_handler E (EvaluateManually a) user s = forget (evaluate_manual_action E a user s)"
| "trust_handler E (DecideAction aid p) user s = forget (decide_exact_action E aid p user s)"
| "trust_handler E (GetActionDecision aid) user s = forget (get_exact_action_decision aid s)"
| "trust_handler E (ConsumeManually aid c) user s = forget (consume_manual_action E aid c user s)"
| "trust_handler E (CreateGrant p) user s = forget (create_credential_grant E p user s)"
| "trust_handler E (RevokeGrant gid reason) user s = forget (revoke_capability_credential E gid reason user s)"
| "trust_handler E ListScorecards user s = forget (ret (build_reliability_scorecards s) s)"
| "trust_handler E ListExceptions user s = forget (ret (build_exception_queue s) s)"
| "trust_handler E (ListTrustEvents ty entity correlation limit) user s =
     forget (ret (list_flight_recorder_events ty entity correlation limit s) s)"
| "trust_handler E VerifyTrustEvents user s = forget (verify_flight_recorder_chain E s)"

definition trust_route :: "auth_env \<Rightarrow> env \<Rightarrow> string option \<Rightarrow> trust_request \<Rightarrow> sys \<Rightarrow> unit result" where
  "trust_route A E authorization req s =
     bindE (require_roles A E (trust_roles req) authorization s) (\<lambda>user. trust_handler E req user)"

chapter \<open>Properties of the routes\<close>

text \<open>
  The trust plane as its callers meet it: who gets to change it, and what one external agent can do to the
  actions of another.
\<close>

section \<open>People\<close>

lemma require_roles_cases:
  "(\<exists>user. require_roles A E roles auth s = (Inr user, s) \<and> require_user A E auth s = (Inr user, s) \<and> user_role user \<in> set roles) \<or>
   (\<exists>e. require_roles A E roles auth s = (Inl e, s))"
proof -
  obtain x where u: "require_user A E auth s = (x, s)" using require_user_state by (metis surjective_pairing)
  then show ?thesis by (cases x) (auto simp: require_roles_def ret_def raise_def)
qed

text \<open>A route that answers or changes anything was called by an authenticated user with one of its roles.\<close>

lemma trust_plane_needs_its_role:
  assumes "trust_route A E auth req s = (x, s')" "s' \<noteq> s \<or> (\<exists>u. x = Inr u)"
  shows "\<exists>user. require_user A E auth s = (Inr user, s) \<and> user_role user \<in> set (trust_roles req)"
  using require_roles_cases [of A E "trust_roles req" auth s] assms by (auto simp: trust_route_def)

section \<open>Agents\<close>

lemma record_trust_event_actions [simp]:
  "proposed_actions (record_trust_event E ty et eid actor c d s) = proposed_actions s"
  by (simp add: record_trust_event_def append_trust_event_def put_trust_event_def Let_def drawn_def)

lemma evaluated_action_stored:
  assumes "evaluate_gateway_action E a actor s = (r, s')"
  shows "dict_get (proposed_actions s') (act_id a) = Some a"
proof -
  have "dict_get (proposed_actions (snd (evaluate_gateway_action E a actor s))) (act_id a) = Some a"
    by (simp add: evaluate_gateway_action_def receive_action_def record_decision_def put_action_def put_decision_def
        drawn_def Let_def split: prod.splits)
  with assms show ?thesis by simp
qed

lemma assert_agent_can_state: "snd (assert_agent_can agent action project repository s) = s"
  by (simp add: assert_agent_can_def ret_def raise_def)

lemma evaluated_agent_action:
  assumes "evaluate_external_agent_action E a agent s = (Inr r, s')"
  shows "dict_get (proposed_actions s') (act_id a) = Some (normalized_action a agent)"
proof -
  obtain x where c: "assert_agent_can agent AgentAction.EXECUTE_GITHUB (act_project_id a) (act_repository a) s = (x, s)"
    using assert_agent_can_state by (metis surjective_pairing)
  have "evaluate_gateway_action E (normalized_action a agent) (''agent:'' @ xa_id agent) s = (r, s')"
    using assms c
    by (cases x) (auto simp: evaluate_external_agent_action_def Let_def ret_def raise_def split: if_splits prod.splits)
  from evaluated_action_stored [OF this] show ?thesis by (simp add: normalized_action_def)
qed

text \<open>
  C36. One agent can take over an action of another. The gateway looks at the agent, at its permissions and at
  the lease, but not at whose action the identifier already names: when an agent sends an action under the
  identifier of another agent's, the stored action is its own from then on, and the other agent's report of
  consumption is refused as not its own.
\<close>

theorem agent_takes_over_action:
  assumes "dict_get (proposed_actions s) (act_id a) = Some theirs" "act_agent_id theirs = Some (xa_id owner)"
    "xa_id agent \<noteq> xa_id owner" "evaluate_external_agent_action E a agent s = (Inr r, s')"
  shows "(\<exists>mine. dict_get (proposed_actions s') (act_id a) = Some mine \<and> act_agent_id mine = Some (xa_id agent)) \<and>
    consume_external_agent_action E (act_id a) c owner s' =
      (Inl (HTTPException 403 ''Agent does not own this action''), s')"
  using evaluated_agent_action [OF assms(4)] assms(3)
  by (simp add: consume_external_agent_action_def normalized_action_def raise_def)

definition agent_named :: "string \<Rightarrow> ExternalAgent" where
  "agent_named i = \<lparr>xa_id = i, xa_provider = AgentProvider.CODEX, xa_display_name = i,
     xa_auth_type = AgentAuthType.API_KEY, xa_allowed_project_ids = [], xa_allowed_repositories = [],
     xa_allowed_actions = [AgentAction.EXECUTE_GITHUB], xa_created_by_user_id = None, xa_enabled = True,
     xa_secret_hash = None, xa_created_at = 0, xa_updated_at = 0\<rparr>"

lemma agent_takes_over_action_witness:
  "\<exists>s r s'. evaluate_external_agent_action sample_env sample_action (agent_named ''B'') s = (Inr r, s') \<and>
     consume_external_agent_action sample_env ''a1'' sample_consumption (agent_named ''A'') s' =
       (Inl (HTTPException 403 ''Agent does not own this action''), s')"
proof -
  let ?theirs = "sample_action\<lparr>act_agent_id := Some ''A''\<rparr>"
  let ?s = "put_action ?theirs sample_sys"
  have id: "act_id sample_action = ''a1''" by (simp add: sample_action_def)
  have get: "dict_get (proposed_actions ?s) (act_id sample_action) = Some ?theirs" by (simp add: put_action_def)
  have "assert_agent_can (agent_named ''B'') AgentAction.EXECUTE_GITHUB p q ?s = (Inr (), ?s)" for p q
    by (simp add: assert_agent_can_def agent_named_def ret_def)
  moreover have "lease_of_action (normalized_action sample_action (agent_named ''B'')) ?s = None"
    by (simp add: lease_of_action_def put_action_def sample_sys_tables)
  moreover obtain r s' where "evaluate_gateway_action sample_env (normalized_action sample_action (agent_named ''B''))
      (''agent:'' @ xa_id (agent_named ''B'')) ?s = (r, s')" by (metis surj_pair)
  ultimately have e: "evaluate_external_agent_action sample_env sample_action (agent_named ''B'') ?s = (Inr r, s')"
    by (simp add: evaluate_external_agent_action_def Let_def ret_def)
  have "consume_external_agent_action sample_env (act_id sample_action) sample_consumption (agent_named ''A'') s' =
      (Inl (HTTPException 403 ''Agent does not own this action''), s')"
    using agent_takes_over_action [OF get, of "agent_named ''A''" "agent_named ''B''" sample_env r s' sample_consumption] e
    by (simp add: agent_named_def)
  with e show ?thesis unfolding id by blast
qed

end
