(* ===== verification/TrustRunProperties.thy ===== *)
theory TrustRunProperties
  imports TrustProperties TrustRun
begin

text \<open>
  The properties of the trust gate around a run: nothing is executed before the gate has allowed
  it, every authorized action has an ALLOW decision on record, and what modelling the gate showed
  about its corner cases.
\<close>

section \<open>The gate comes before the execution\<close>

text \<open>
  C5. When the gate refuses a step, nothing of it is executed: if ensuring the capability or
  authorizing the current step raises, the outcome of the execute route does not depend on what
  the executor would have done.
\<close>

theorem gate_precedes_execution:
  assumes "dict_get (agent_runs s) rid = Some run" "current_step run s = Some current"
    and refused: "\<And>c s1. ensure_run_capability E run user s = (Inr c, s1) \<Longrightarrow>
      \<exists>e s2. authorize_run_step E (run_now run s1) (step_now current s1) (user_email user) timeout s1 =
        (Inl e, s2)"
  shows "execute_run_next_step E rid user w secs timeout ex1 s =
    execute_run_next_step E rid user w secs timeout ex2 s"
proof -
  have gate: "bindE (ensure_run_capability E run user s) (\<lambda>_ s.
        bindE (authorize_run_step E (run_now run s) (step_now current s) (user_email user) timeout s)
          (\<lambda>acts s. bindE (execute_next_step E rid w k timeout ex1 s) (\<lambda>_ s. c acts s))) =
      bindE (ensure_run_capability E run user s) (\<lambda>_ s.
        bindE (authorize_run_step E (run_now run s) (step_now current s) (user_email user) timeout s)
          (\<lambda>acts s. bindE (execute_next_step E rid w k timeout ex2 s) (\<lambda>_ s. c acts s)))"
    for k c
    using refused by (cases "ensure_run_capability E run user s"; cases "fst (ensure_run_capability E run user s)")
      (fastforce simp: bindE_def)+
  note prefix = execute_run_next_step_def run_or_404_def require_step_boundary_def safe_lease_seconds_def
    assms(1,2)
  show ?thesis
    by (cases "at_step_boundary run s"; cases "timeout * MAX_VALIDATION_COMMANDS + 60 > 3600")
      (simp_all add: prefix Let_def gate)
qed

text \<open>A run bound to a lease that is not stored, with its step ready.\<close>

definition orphan_run :: AgentRun where
  "orphan_run = (sample_run AgentRunStatus.SCHEDULED)\<lparr>run_capability_lease_id := Some ''gone''\<rparr>"

definition orphan_sys :: sys where
  "orphan_sys = put_step (sample_step AgentRunStepStatus.READY 0) (put_run orphan_run sample_lease_sys)"

lemma orphan_sys_simps [simp]:
  "dict_get (agent_runs orphan_sys) ''r1'' = Some orphan_run"
  "current_step orphan_run orphan_sys = Some (sample_step AgentRunStepStatus.READY 0)"
  "dict_get (capability_leases orphan_sys) ''gone'' = None"
  by (simp_all add: orphan_sys_def orphan_run_def current_step_def sample_issue)

lemma gate_precedes_execution_witness:
  "\<forall>ex1 ex2. execute_run_next_step sample_env ''r1'' sample_user ''w'' 60 60 ex1 orphan_sys =
     execute_run_next_step sample_env ''r1'' sample_user ''w'' 60 60 ex2 orphan_sys"
  by (intro allI, rule gate_precedes_execution [OF orphan_sys_simps(1,2)])
    (simp add: ensure_run_capability_def orphan_run_def raise_def sample_env_def)

section \<open>Authorized actions are allowed on record\<close>

text \<open>No decision is stored under an identifier still to be drawn.\<close>

definition fresh_decisions :: "env \<Rightarrow> sys \<Rightarrow> bool" where
  "fresh_decisions E s \<longleftrightarrow>
     (\<forall>n \<ge> draws s. dict_get (policy_decisions s) (''decision'' @ ''_'' @ uuid_hex12 E n) = None)"

definition allowed_on_record :: "string \<Rightarrow> sys \<Rightarrow> bool" where
  "allowed_on_record aid s \<longleftrightarrow>
     (\<exists>d \<in> set (dict_vals (policy_decisions s)).
        dec_proposed_action_id d = aid \<and> dec_decision d = PolicyDecisionType.ALLOW)"

lemma allowed_cong: "policy_decisions s' = policy_decisions s \<Longrightarrow> allowed_on_record aid s' = allowed_on_record aid s"
  by (simp add: allowed_on_record_def)

lemma fresh_decisions_mono:
  "fresh_decisions E s \<Longrightarrow> policy_decisions s' = policy_decisions s \<Longrightarrow> draws s \<le> draws s' \<Longrightarrow> fresh_decisions E s'"
  by (simp add: fresh_decisions_def)

lemma put_decision_new:
  assumes "dict_get (policy_decisions s) (dec_id d) = None"
  shows "dict_vals (policy_decisions (put_decision d s)) = dict_vals (policy_decisions s) @ [d]"
  using assms by (simp add: dict_set_new dict_vals_def)

lemma evaluate_decisions:
  assumes "fresh_decisions E s"
  shows "dict_vals (policy_decisions (snd (evaluate_gateway_action E a actor s))) =
      dict_vals (policy_decisions s) @ [fst (fst (evaluate_gateway_action E a actor s))]"
    and "dec_proposed_action_id (fst (fst (evaluate_gateway_action E a actor s))) = act_id a"
    and "inj (uuid_hex12 E) \<Longrightarrow> fresh_decisions E (snd (evaluate_gateway_action E a actor s))"
proof -
  let ?r = "refreshed_lease E a s" let ?s = "receive_action E a actor (snd ?r)"
  let ?d = "evaluate_proposed_action E a (fst ?r) ?s"
  have e: "evaluate_gateway_action E a actor s = ((?d, fst ?r), record_decision E a ?d actor ?s)"
    by (simp add: evaluate_gateway_action_def split_beta Let_def)
  have p: "policy_decisions ?s = policy_decisions s" "draws s \<le> draws ?s"
    by (auto simp: receive_action_def refreshed_lease_def split_beta refresh_lease_status_eq split: option.split)
  have f: "fresh_decisions E ?s" using fresh_decisions_mono [OF assms p] .
  then have n: "dict_get (policy_decisions (drawn ?s)) (dec_id ?d) = None"
    by (simp add: fresh_decisions_def new_id_def)
  have q: "policy_decisions (record_decision E a ?d actor ?s) = policy_decisions (put_decision ?d (drawn ?s))"
    "draws (record_decision E a ?d actor ?s) = Suc (Suc (draws ?s))"
    by (simp_all add: record_decision_def)
  show "dict_vals (policy_decisions (snd (evaluate_gateway_action E a actor s))) =
      dict_vals (policy_decisions s) @ [fst (fst (evaluate_gateway_action E a actor s))]"
    using put_decision_new [OF n] p(1) by (simp only: e fst_conv snd_conv q drawn_simps)
  show "dec_proposed_action_id (fst (fst (evaluate_gateway_action E a actor s))) = act_id a" by (simp add: e)
  assume "inj (uuid_hex12 E)"
  then have "uuid_hex12 E k \<noteq> uuid_hex12 E (draws ?s)" if "Suc (Suc (draws ?s)) \<le> k" for k
    using that by (auto simp: inj_eq)
  then show "fresh_decisions E (snd (evaluate_gateway_action E a actor s))"
    using f by (auto simp: e fresh_decisions_def q new_id_def)
qed

lemma refuse_never_returns [simp]:
  "refuse_blocked E run step actor reason aid s \<noteq> (Inr x, s')"
  "refuse_needs_human E run step actor reason k s \<noteq> (Inr x, s')"
  by (auto simp: refuse_blocked_def refuse_needs_human_def bindE_Inr_iff raise_def)

lemma py_max_mem: "py_max f xs = Some x \<Longrightarrow> x \<in> set xs"
  by (induction f xs arbitrary: x rule: py_max.induct) (auto split: if_splits option.splits)

lemma latest_decision_mem:
  "latest_policy_decision aid s = Some d \<Longrightarrow>
     d \<in> set (dict_vals (policy_decisions s)) \<and> dec_proposed_action_id d = aid"
  using py_max_mem by (fastforce simp: latest_policy_decision_def split: if_splits)

lemma decide_action_record:
  assumes "decide_action E run step actor a s = (Inr d, s')" "fresh_decisions E s" "inj (uuid_hex12 E)"
  shows "d \<in> set (dict_vals (policy_decisions s')) \<and> dec_proposed_action_id d = act_id a \<and>
    set (dict_vals (policy_decisions s)) \<subseteq> set (dict_vals (policy_decisions s')) \<and> fresh_decisions E s'"
proof (cases "dict_get (proposed_actions s) (act_id a)")
  case None
  then show ?thesis
    using assms evaluate_decisions [OF assms(2), of a actor]
    by (auto simp: decide_action_def split_beta ret_def)
next
  case (Some q)
  then have "latest_policy_decision (act_id a) s = Some d" "s' = s"
    using assms(1)
    by (auto simp: decide_action_def ret_def split: if_splits option.splits)
  then show ?thesis using latest_decision_mem assms(2) by auto
qed

lemma authorize_actions_record:
  assumes "authorize_actions E run step actor as s = (Inr (), s')" "fresh_decisions E s" "inj (uuid_hex12 E)"
  shows "(\<forall>a \<in> set as. allowed_on_record (act_id a) s') \<and>
    set (dict_vals (policy_decisions s)) \<subseteq> set (dict_vals (policy_decisions s')) \<and> fresh_decisions E s'"
  using assms(1,2)
proof (induction as arbitrary: s)
  case Nil
  then show ?case by (simp add: ret_def)
next
  case (Cons a as)
  obtain d s1 where d: "decide_action E run step actor a s = (Inr d, s1)"
    using Cons.prems(1) by (auto simp: bindE_Inr_iff)
  let ?s2 = "append_run_event E run (Some step) TRUST_POLICY_EVALUATED actor
       ''Trust policy evaluated the next governed run step.''
       [(''action_id'', JStr (act_id a)), (''decision_id'', JStr (dec_id d)),
        (''decision'', JStr (PolicyDecisionType_value (dec_decision d))),
        (''risk_level'', JStr (RiskLevel_value (dec_risk_level d))), (''reasons'', json_strs (dec_reasons d))] s1"
  have r: "authorize_actions E run step actor as ?s2 = (Inr (), s')" "dec_decision d = PolicyDecisionType.ALLOW"
    using Cons.prems(1) d
    by (auto simp: bindE_def Let_def split: PolicyDecisionType.splits)
  note m = decide_action_record [OF d Cons.prems(2) assms(3)]
  have p: "policy_decisions ?s2 = policy_decisions s1" "draws s1 \<le> draws ?s2"
    by (simp_all add: append_run_event_def append_event_def)
  have "fresh_decisions E ?s2" using fresh_decisions_mono [OF _ p] m by blast
  from Cons.IH [OF r(1) this] m r(2) show ?case
    unfolding p(1) by (auto simp: allowed_on_record_def)
qed

text \<open>
  C6. Under trust enforcement a side-effect step is authorized only when its run has a stored
  capability lease that fits it, the lease can carry the estimated use, and every action of the
  step has an ALLOW decision on record.
\<close>

theorem authorized_actions_are_allowed:
  assumes "authorize_run_step E run step actor timeout s = (Inr acts, s')"
    "trust_enforcement E" "step_type step \<in> set SIDE_EFFECT_STEPS"
    "fresh_decisions E s" "inj (uuid_hex12 E)"
  shows "\<exists>lease. dict_get (capability_leases s) (opt_str (run_capability_lease_id run)) = Some lease \<and>
    run_lease_reasons run (refreshed (clock s) lease) (run_task run s) (run_approval run s) = [] \<and>
    preflight_conflict (refreshed (clock s) lease) acts = None \<and>
    (\<forall>a \<in> set acts. allowed_on_record (act_id a) s')"
proof -
  obtain lease where l: "dict_get (capability_leases s) (opt_str (run_capability_lease_id run)) = Some lease"
    using assms(1-3) by (auto simp: authorize_run_step_def raise_def split: if_splits option.splits)
  let ?s = "snd (refresh_lease_status E lease s)" let ?l = "refreshed (clock s) lease"
  have v: "run_lease_reasons run ?l (run_task run s) (run_approval run s) = []"
    using assms(1-3) l
    by (auto simp: authorize_run_step_def validate_lease_for_run_def split_beta Let_def raise_def split: if_splits)
  have e: "authorize_run_step E run step actor timeout s =
      liftE (step_actions E run step timeout ?s)
        (\<lambda>actions s. case preflight_conflict ?l actions of
           Some m \<Rightarrow> refuse_blocked E run step actor m None s
         | None \<Rightarrow> bindE (authorize_actions E run step actor actions s)
             (\<lambda>_ s. bindE (clear_needs_human run step s) (\<lambda>_ s. ret actions (persist s)))) ?s"
    if "truthy (run_capability_lease_id run)"
    using assms(2,3) l v that
    by (simp add: authorize_run_step_def validate_lease_for_run_def split_beta Let_def ret_def)
  have t: "truthy (run_capability_lease_id run)"
    using assms(1-3) by (auto simp: authorize_run_step_def raise_def split: if_splits)
  have "step_actions E run step timeout ?s = Inr acts \<and> preflight_conflict ?l acts = None \<and>
      (\<exists>s1 s2. authorize_actions E run step actor acts ?s = (Inr (), s1) \<and>
        clear_needs_human run step s1 = (Inr (), s2) \<and> s' = persist s2)"
    using assms(1) e [OF t]
    by (auto simp: liftE_def ret_def bindE_Inr_iff split: sum.splits option.splits)
  then obtain s1 s2 where a: "preflight_conflict ?l acts = None"
    "authorize_actions E run step actor acts ?s = (Inr (), s1)"
    "clear_needs_human run step s1 = (Inr (), s2)" "s' = persist s2" by blast
  have "policy_decisions ?s = policy_decisions s" "draws s \<le> draws ?s" by (auto simp: refresh_lease_status_eq)
  from authorize_actions_record [OF a(2) fresh_decisions_mono [OF assms(4) this] assms(5)]
  have "\<forall>a \<in> set acts. allowed_on_record (act_id a) s1" by blast
  moreover have "policy_decisions s' = policy_decisions s1"
    using a(3,4) by (auto simp: clear_needs_human_def bindE_def liftE_def ret_def split: if_splits sum.splits prod.splits)
  ultimately show ?thesis using l v a(1) allowed_cong by blast
qed

text \<open>A run bound to the sample lease, about to create its branch.\<close>

definition gate_run :: AgentRun where
  "gate_run = (sample_run AgentRunStatus.SCHEDULED)\<lparr>run_capability_lease_id := Some ''lease_1''\<rparr>"

definition gate_step :: AgentRunStep where
  "gate_step = (sample_step AgentRunStepStatus.READY 0)\<lparr>step_type := AgentRunStepType.CREATE_BRANCH\<rparr>"

definition gate_sys :: sys where
  "gate_sys = put_step gate_step (put_run gate_run sample_lease_sys)"

definition gate_action :: ProposedAction where
  "gate_action = step_action sample_env gate_run gate_step sample_task 60 ''branch''
     CapabilityActionType.CREATE_BRANCH [] None"

lemma gate_sys_simps:
  "capability_leases gate_sys = [(''lease_1'', sample_lease)]" "clock gate_sys = 1000000"
  "proposed_actions gate_sys = []" "policy_decisions gate_sys = []"
  "run_task gate_run gate_sys = Some sample_task" "run_approval gate_run gate_sys = Some sample_approval"
  by (simp_all add: gate_sys_def sample_issue run_task_def run_approval_def gate_run_def sample_run_def)

lemma gate_within: "within_lease sample_env 1000000 gate_action sample_lease"
proof -
  have "new_id sample_env ''lease'' (drawn sample_sys) = ''lease_1''"
    using sample_issue(8) by (simp add: sample_lease_def)
  then show ?thesis
    by (simp add: within_lease_def binds_subject_def targets_scope_def content_covered_def within_budget_def
      sample_lease_def new_lease_def Let_def gate_action_def step_action_def sample_lease_create_def sample_scope_def
      fingerprinted_scope_def lease_receipt_payload_def seconds_us_def PROTECTED_BRANCHES_def
      py_lower_def json_or_str_def gate_run_def gate_step_def sample_run_def sample_step_def sample_task_def)
qed

lemma gate_authorized:
  "\<exists>s'. authorize_run_step sample_env gate_run gate_step ''m'' 60 gate_sys = (Inr [gate_action], s')"
proof -
  note g = gate_sys_simps
  have r: "refresh_lease_status sample_env sample_lease gate_sys = (sample_lease, gate_sys)"
    using sample_lease_stored(2) by (simp add: refresh_lease_status_def g lease_live_def not_le [symmetric])
  have reasons: "run_lease_reasons gate_run sample_lease (Some sample_task) (Some sample_approval) = []"
    by (simp add: run_lease_reasons_def task_lease_reasons_def sample_lease_def sample_lease_create_def
        sample_scope_def gate_run_def sample_run_def sample_task_def sample_approval_def)
  have acts: "step_actions sample_env gate_run gate_step 60 gate_sys = Inr [gate_action]"
    by (simp add: step_actions_def g raw_step_actions_def gate_step_def)
      (simp add: gate_action_def gate_step_def action_bounds_def step_action_def)
  have pre: "preflight_conflict sample_lease [gate_action] = None"
    by (simp add: preflight_conflict_def sample_lease_def new_lease_def sample_lease_create_def sample_scope_def
        fingerprinted_scope_def gate_action_def step_action_def)
  have lease: "lease_of_action gate_action gate_sys = Some sample_lease"
    by (simp add: lease_of_action_def g gate_action_def step_action_def gate_run_def)
  have verdict: "policy_verdict sample_env 1000000 gate_action sample_lease = PolicyDecisionType.ALLOW"
    using gate_within by (simp add: policy_verdict_def sample_lease_def sample_lease_create_def)
  have dec: "dec_decision (fst (fst (evaluate_gateway_action sample_env gate_action ''m'' gate_sys))) =
      PolicyDecisionType.ALLOW"
    by (simp add: evaluate_gateway_action_def refreshed_lease_def lease r Let_def evaluate_with_lease
        receive_action_def g verdict)
  have "\<exists>s1. authorize_actions sample_env gate_run gate_step ''m'' [gate_action] gate_sys = (Inr (), s1)"
    using dec by (auto simp: decide_action_def g split_beta Let_def ret_def bindE_def)
  then obtain s1 where a: "authorize_actions sample_env gate_run gate_step ''m'' [gate_action] gate_sys = (Inr (), s1)"
    by blast
  have "clear_needs_human gate_run gate_step s1 = (Inr (), s1)"
    by (simp add: clear_needs_human_def gate_run_def gate_step_def ret_def bindE_def)
  moreover have "run_capability_lease_id gate_run = Some ''lease_1''" "trust_enforcement sample_env"
    "step_type gate_step \<in> set SIDE_EFFECT_STEPS"
    by (simp_all add: gate_run_def gate_step_def sample_env_def SIDE_EFFECT_STEPS_def)
  ultimately show ?thesis
    using a by (simp add: authorize_run_step_def g r reasons acts pre validate_lease_for_run_def ret_def
        bindE_def liftE_def del: authorize_actions.simps)
qed

lemma authorized_actions_are_allowed_witness:
  "\<exists>s'. authorize_run_step sample_env gate_run gate_step ''m'' 60 gate_sys = (Inr [gate_action], s') \<and>
     allowed_on_record (act_id gate_action) s'"
proof -
  obtain s' where s': "authorize_run_step sample_env gate_run gate_step ''m'' 60 gate_sys = (Inr [gate_action], s')"
    using gate_authorized by blast
  have "trust_enforcement sample_env" "step_type gate_step \<in> set SIDE_EFFECT_STEPS"
    "fresh_decisions sample_env gate_sys"
    by (simp_all add: sample_env_def gate_step_def SIDE_EFFECT_STEPS_def fresh_decisions_def gate_sys_simps)
  from authorized_actions_are_allowed [OF s' this sample_env_inj] s' show ?thesis by auto
qed

section \<open>Corner cases\<close>

text \<open>A lease that allows at most three retries does not fit a run with more than four attempts.\<close>

lemma attach_never_returns:
  assumes "\<not> truthy (run_capability_lease_id run)" "run_max_attempts_per_step run > 4"
    "\<And>l. dict_get (capability_leases s) lid = Some l \<Longrightarrow> scope_max_retries (lease_scope l) \<le> 3"
  shows "attach_capability_lease E run lid actor s \<noteq> (Inr r, s')"
proof -
  have "validate_lease_for_run E run l s1 \<noteq> (Inr q, s2)" if "scope_max_retries (lease_scope l) \<le> 3" for l s1 q s2
    using that assms(2)
    by (auto simp: validate_lease_for_run_def split_beta Let_def raise_def ret_def run_lease_reasons_def)
  then show ?thesis
    using assms by (auto simp: attach_capability_lease_def raise_def bindE_Inr_iff split: option.splits)
qed

lemma issued_from_store:
  assumes "issue_capability_lease E p user s = (Inr l, s')"
  shows "\<And>q. dict_get (capability_leases s') (lease_id l) = Some q \<Longrightarrow>
      q \<in> set (dict_vals (capability_leases s)) \<or> lease_scope q = fingerprinted_scope E p"
proof -
  fix q assume q: "dict_get (capability_leases s') (lease_id l) = Some q"
  have mem: "dict_get d k = Some v \<Longrightarrow> v \<in> set (dict_vals d)" for d :: "(string, CapabilityLease) dict" and k v
    by (induction d) (auto simp: dict_vals_def split: if_splits)
  obtain a where a: "(s' = s) \<or> store_new_lease E p a user s = (Inr l, s')"
    using assms by (auto simp: issue_capability_lease_def Let_def raise_def ret_def liftE_def
        split: option.splits if_splits sum.splits)
  then show "q \<in> set (dict_vals (capability_leases s)) \<or> lease_scope q = fingerprinted_scope E p"
  proof
    assume "s' = s"
    then show ?thesis using q mem by blast
  next
    assume "store_new_lease E p a user s = (Inr l, s')"
    then have "lease_scope l = fingerprinted_scope E p"
      "capability_leases s' = dict_set (lease_id l) l (capability_leases s)"
      by (auto simp: store_new_lease_def Let_def liftE_def ret_def split: sum.splits)
    then show ?thesis using q by simp
  qed
qed

text \<open>
  Under trust enforcement a run that may make five or more attempts per step can never get its
  capability lease, although such runs are accepted: the derived lease allows at most three
  retries and the run wants four, so ensuring the capability always raises.
\<close>

theorem five_attempts_get_no_capability:
  assumes "trust_enforcement E" "\<not> truthy (run_capability_lease_id run)" "run_max_attempts_per_step run > 4"
    "\<forall>l \<in> set (dict_vals (capability_leases s)). scope_max_retries (lease_scope l) \<le> 3"
  shows "\<exists>e s'. ensure_run_capability E run user s = (Inl e, s')"
proof (rule ccontr)
  assume "\<not> ?thesis"
  then obtain oc s' where r: "ensure_run_capability E run user s = (Inr oc, s')"
    by (metis old.sum.exhaust surj_pair)
  have conflict: "capability_conflict x = (Inr y, z) \<longleftrightarrow> x = (Inr y, z)" for x :: "CapabilityLease option result" and y z
    by (cases x; cases "fst x"; cases "projl (fst x)") (auto simp: capability_conflict_def)
  obtain task approval scope lease s1 r' s2 where i:
    "make_scope (derived_scope run task approval) = Inr scope"
    "issue_capability_lease E (derived_lease_create task approval scope) user s = (Inr lease, s1)"
    "attach_capability_lease E run (lease_id lease) (user_email user) s1 = (Inr r', s2)"
    using r assms(1,2) by (auto simp: ensure_run_capability_def raise_def ret_def conflict bindE_Inr_iff
        split: option.splits if_splits sum.splits)
  have "scope_max_retries scope \<le> 3"
    using i(1) by (auto simp: make_scope_def derived_scope_def Let_def split: if_splits)
  then have "scope_max_retries (lease_scope q) \<le> 3" if "dict_get (capability_leases s1) (lease_id lease) = Some q" for q
    using issued_from_store [OF i(2) that] assms(4) by (auto simp: derived_lease_create_def)
  from attach_never_returns [OF assms(2,3) this] i(3) show False by blast
qed

lemma five_attempts_get_no_capability_witness:
  "\<exists>e s'. ensure_run_capability sample_env
     ((sample_run AgentRunStatus.SCHEDULED)\<lparr>run_max_attempts_per_step := 5\<rparr>) sample_user sample_lease_sys = (Inl e, s')"
  by (rule five_attempts_get_no_capability)
    (simp_all add: sample_issue dict_vals_def sample_env_def sample_run_def sample_lease_def
      sample_lease_create_def sample_scope_def)

text \<open>
  A lease request whose metadata carries a correlation identifier that is not a string is
  answered with an error after the lease has been put in the store: the lease is live and usable
  in memory, but the flight recorder has no event of it and the database no copy.
\<close>

theorem refused_issue_leaves_live_lease:
  assumes "issue_capability_lease E p user s = (Inl (ValidationError m), s')" "0 < lc_expires_in_seconds p"
  shows "\<exists>l. dict_get (capability_leases s') (lease_id l) = Some l \<and> lease_live l (clock s') \<and>
    lease_scope l = fingerprinted_scope E p \<and> trust_events s' = trust_events s \<and> disk s' = disk s"
proof -
  have v: "validate_scope_against_approval scope a s \<noteq> Inl (ValidationError m)" for scope a
    by (auto simp: validate_scope_against_approval_def split: option.splits)
  obtain a where "store_new_lease E p a user s = (Inl (ValidationError m), s')"
    using assms(1) v by (auto simp: issue_capability_lease_def Let_def raise_def ret_def liftE_def
        split: option.splits if_splits sum.splits)
  then have "s' = put_lease (new_lease E p a user s) (drawn (drawn s))"
    by (auto simp: store_new_lease_def Let_def liftE_def ret_def raise_def split: sum.splits)
  then show ?thesis
    using assms(2) by (intro exI [of _ "new_lease E p a user s"]) (simp add: lease_live_def seconds_us_def)
qed

definition odd_lease_create :: CapabilityLeaseCreate where
  "odd_lease_create =
     (sample_lease_create BOUNDED)\<lparr>lc_scope := sample_scope\<lparr>scope_metadata := [(''correlation_id'', JInt 5)]\<rparr>\<rparr>"

lemma refused_issue_leaves_live_lease_witness:
  "\<exists>l m s'. issue_capability_lease sample_env odd_lease_create sample_user sample_sys = (Inl (ValidationError m), s') \<and>
     dict_get (capability_leases s') (lease_id l) = Some l \<and> lease_live l (clock s') \<and> trust_events s' = []"
proof -
  obtain m s' where r: "issue_capability_lease sample_env odd_lease_create sample_user sample_sys =
      (Inl (ValidationError m), s')"
    unfolding odd_lease_create_def sample_issue_stores
    by (simp add: store_new_lease_def liftE_def raise_def metadata_correlation_def fingerprinted_scope_def)
  have "0 < lc_expires_in_seconds odd_lease_create" by (simp add: odd_lease_create_def sample_lease_create_def)
  from refused_issue_leaves_live_lease [OF r this] r show ?thesis
    by (auto simp: sample_sys_tables)
qed

lemma py_max_snoc: "(\<forall>y \<in> set xs. f y < f x) \<Longrightarrow> py_max f (xs @ [x]) = Some x"
  by (induction xs) auto

text \<open>
  An action identifier is chosen by the caller and a second proposal under it replaces the
  first: a blocked action becomes allowed when another payload is proposed under its identifier,
  without a new action. The documentation promises immutable actions and asks for a new one.
\<close>

theorem resubmission_replaces_blocked_action:
  assumes "latest_policy_decision aid s = Some d" "dec_decision d = PolicyDecisionType.BLOCK"
    "\<forall>x \<in> set (dict_vals (policy_decisions s)). dec_evaluated_at x < clock s" "fresh_decisions E s"
    "act_id a = aid" "lease_of_action a s = Some l" "policy_verdict E (clock s) a l = PolicyDecisionType.ALLOW"
    "evaluate_gateway_action E a actor s = (r, s')"
  shows "dict_get (proposed_actions s') aid = Some a \<and>
    (\<exists>d'. latest_policy_decision aid s' = Some d' \<and> dec_decision d' = PolicyDecisionType.ALLOW)"
proof -
  have live: "lease_live l (clock s)"
    using assms(7) by (auto simp: policy_verdict_def within_lease_def binds_subject_def lease_live_def split: if_splits)
  then have r: "refresh_lease_status E l s = (l, s)"
    by (simp add: refresh_lease_status_def lease_live_def not_le [symmetric])
  let ?d = "fst r"
  have s': "s' = snd (evaluate_gateway_action E a actor s)" "r = fst (evaluate_gateway_action E a actor s)"
    using assms(8) by simp_all
  have d: "dec_decision (fst r) = PolicyDecisionType.ALLOW" "dec_evaluated_at (fst r) = clock s"
    "dict_get (proposed_actions s') aid = Some a"
    unfolding s' using assms(5-7) r
    by (simp_all add: evaluate_gateway_action_def refreshed_lease_def Let_def evaluate_with_lease receive_action_def
        record_decision_def)
  have v: "dict_vals (policy_decisions s') = dict_vals (policy_decisions s) @ [fst r]"
    "dec_proposed_action_id (fst r) = aid"
    unfolding s' using evaluate_decisions [OF assms(4), of a actor] assms(5) by simp_all
  have "latest_policy_decision aid s' = Some (fst r)"
    using assms(3) d(2) v
    by (auto simp: latest_policy_decision_def decision_key_def intro!: py_max_snoc)
  with d show ?thesis by blast
qed

lemma resubmission_replaces_blocked_action_witness:
  "\<exists>r s'. evaluate_gateway_action sample_env sample_action ''agent'' (sample_decided_sys PolicyDecisionType.BLOCK) = (r, s') \<and>
     (\<exists>d'. latest_policy_decision ''a1'' s' = Some d' \<and> dec_decision d' = PolicyDecisionType.ALLOW)"
proof -
  let ?s = "sample_decided_sys PolicyDecisionType.BLOCK"
  obtain r s' where e: "evaluate_gateway_action sample_env sample_action ''agent'' ?s = (r, s')"
    by (cases "evaluate_gateway_action sample_env sample_action ''agent'' ?s")
  have p: "policy_decisions ?s = [(''d1'', sample_decision PolicyDecisionType.BLOCK)]"
    by (simp add: sample_decided_sys_def sample_issue) (simp add: sample_decision_def)
  have t: "\<forall>x \<in> set (dict_vals (policy_decisions ?s)). dec_evaluated_at x < clock ?s"
    by (simp add: p dict_vals_def sample_decided(6)) (simp add: sample_decision_def)
  have f: "fresh_decisions sample_env ?s" by (simp add: fresh_decisions_def p)
  have v: "policy_verdict sample_env (clock ?s) sample_action sample_lease = PolicyDecisionType.ALLOW"
    using sample_within by (simp add: policy_verdict_def sample_decided(6) sample_lease_def sample_lease_create_def)
  from resubmission_replaces_blocked_action [OF sample_decided(1,4) t f sample_decided(3,7) v e] e
  show ?thesis by blast
qed

end
