(* ===== verification/UserRoutes.thy ===== *)
theory UserRoutes
  imports UserAuth
begin

text \<open>
  \<open>auth_routes.py\<close>, \<open>invite_routes.py\<close>, \<open>session_routes.py\<close> and \<open>role_routes.py\<close>: registration by
  invitation, login, account deletion, sessions and roles. A route that depends on the caller takes the
  \<open>AuthUser\<close> its guard returned.
\<close>

section \<open>Invitations\<close>

fun InviteStatus_value :: "InviteStatus \<Rightarrow> string" where
  "InviteStatus_value InviteStatus.PENDING = ''PENDING''"
| "InviteStatus_value InviteStatus.ACCEPTED = ''ACCEPTED''"
| "InviteStatus_value InviteStatus.EXPIRED = ''EXPIRED''"
| "InviteStatus_value InviteStatus.REVOKED = ''REVOKED''"

definition INVITE_DAYS :: int where "INVITE_DAYS = 7"

record InviteResponse =
  ir_id :: string
  ir_email :: string
  ir_role :: UserRole
  ir_status :: InviteStatus
  ir_expires_at :: int
  ir_created_by_user_id :: string
  ir_accepted_by_user_id :: "string option"
  ir_created_at :: int
  ir_updated_at :: int

record InviteCreateRequest =
  ic_email :: string
  ic_role :: UserRole
  ic_expires_in_days :: int

definition valid_invite_request :: "InviteCreateRequest \<Rightarrow> bool" where
  "valid_invite_request p \<longleftrightarrow> 1 \<le> ic_expires_in_days p \<and> ic_expires_in_days p \<le> 30"

definition hash_invite_token :: "env \<Rightarrow> string \<Rightarrow> string" where
  "hash_invite_token E token = sha256 E token"

definition normalize_email :: "string \<Rightarrow> string" where
  "normalize_email email = py_strip (py_lower email)"

definition effective_invite_status :: "Invite \<Rightarrow> int \<Rightarrow> InviteStatus" where
  "effective_invite_status i now =
     (if inv_status i = InviteStatus.PENDING \<and> inv_expires_at i \<le> now then InviteStatus.EXPIRED
      else inv_status i)"

definition public_invite :: "Invite \<Rightarrow> int \<Rightarrow> InviteResponse" where
  "public_invite i now =
     \<lparr>ir_id = inv_id i, ir_email = inv_email i, ir_role = inv_role i, ir_status = effective_invite_status i now,
      ir_expires_at = inv_expires_at i, ir_created_by_user_id = inv_created_by_user_id i,
      ir_accepted_by_user_id = inv_accepted_by_user_id i, ir_created_at = inv_created_at i,
      ir_updated_at = inv_updated_at i\<rparr>"

definition ensure_no_pending_invite :: "string \<Rightarrow> sys \<Rightarrow> unit result" where
  "ensure_no_pending_invite email s =
     (if list_ex (\<lambda>i. inv_email i = email \<and> effective_invite_status i (clock s) = InviteStatus.PENDING)
           (dict_vals (invites s))
      then raise (HTTPException 409 ''Pending invite already exists'') s else ret () s)"

definition record_invite_event :: "env \<Rightarrow> string \<Rightarrow> AuthUser \<Rightarrow> Invite \<Rightarrow> sys \<Rightarrow> sys" where
  "record_invite_event E event_type actor i s =
     add_audit E event_type (inv_id i)
       [(''invite_id'', JStr (inv_id i)), (''email'', JStr (inv_email i)),
        (''role'', JStr (UserRole_value (inv_role i))), (''status'', JStr (InviteStatus_value (inv_status i))),
        (''expires_at'', JStr (time_text E (inv_expires_at i)))] (user_email actor) s"

text \<open>An invitation that has run out is marked so in memory when its token is presented.\<close>

definition validate_invite_token :: "env \<Rightarrow> string \<Rightarrow> sys \<Rightarrow> Invite result" where
  "validate_invite_token E token s =
     (case find (\<lambda>i. inv_token_hash i = hash_invite_token E token) (dict_vals (invites s)) of
        None \<Rightarrow> raise (HTTPException 404 ''Invite not found'') s
      | Some i \<Rightarrow>
          let i = i\<lparr>inv_status := effective_invite_status i (clock s)\<rparr>; s = put_invite i s in
          if inv_status i \<noteq> InviteStatus.PENDING then
            raise (HTTPException 409 (''Invite is '' @ InviteStatus_value (inv_status i))) s
          else ret i s)"

definition new_invite :: "env \<Rightarrow> InviteCreateRequest \<Rightarrow> string \<Rightarrow> AuthUser \<Rightarrow> sys \<Rightarrow> Invite" where
  "new_invite E p token actor s =
     \<lparr>inv_id = new_id E ''invite'' s, inv_email = normalize_email (ic_email p), inv_role = ic_role p,
      inv_token_hash = hash_invite_token E token, inv_status = InviteStatus.PENDING,
      inv_expires_at = clock s + seconds (ic_expires_in_days p * 86400),
      inv_created_by_user_id = user_id actor, inv_accepted_by_user_id = None,
      inv_created_at = clock s, inv_updated_at = clock s\<rparr>"

definition create_invite ::
    "env \<Rightarrow> InviteCreateRequest \<Rightarrow> AuthUser \<Rightarrow> sys \<Rightarrow> (InviteResponse \<times> string) result" where
  "create_invite E p actor s =
     bindE (ensure_no_pending_invite (normalize_email (ic_email p)) s) (\<lambda>_ s.
       let token = token_urlsafe E (draws s); s = drawn s;
           i = new_invite E p token actor s;
           s = record_invite_event E ''auth.invite_created'' actor i (put_invite i (drawn s))
       in ret (public_invite i (clock s), token) (persist s))"

definition refresh_invite :: "int \<Rightarrow> Invite \<Rightarrow> Invite" where
  "refresh_invite now i =
     (if effective_invite_status i now \<noteq> inv_status i
      then i\<lparr>inv_status := effective_invite_status i now, inv_updated_at := now\<rparr> else i)"

definition list_invites :: "sys \<Rightarrow> InviteResponse list result" where
  "list_invites s =
     (let now = clock s;
          changed = list_ex (\<lambda>i. effective_invite_status i now \<noteq> inv_status i) (dict_vals (invites s));
          s = s\<lparr>invites := map (\<lambda>(k, i). (k, refresh_invite now i)) (invites s)\<rparr>;
          s = (if changed then persist s else s)
      in ret (map (\<lambda>i. public_invite i now) (rev (sort_key inv_created_at (rev (dict_vals (invites s)))))) s)"

definition revoke_invite :: "env \<Rightarrow> string \<Rightarrow> AuthUser \<Rightarrow> sys \<Rightarrow> InviteResponse result" where
  "revoke_invite E iid actor s =
     (case dict_get (invites s) iid of
        None \<Rightarrow> raise (HTTPException 404 ''Invite not found'') s
      | Some i \<Rightarrow>
          let i = i\<lparr>inv_status := effective_invite_status i (clock s)\<rparr>; s = put_invite i s in
          (case inv_status i of
             InviteStatus.ACCEPTED \<Rightarrow> raise (HTTPException 409 ''Accepted invites cannot be revoked'') s
           | InviteStatus.REVOKED \<Rightarrow> ret (public_invite i (clock s)) s
           | InviteStatus.EXPIRED \<Rightarrow> raise (HTTPException 409 ''Expired invites cannot be revoked'') s
           | InviteStatus.PENDING \<Rightarrow>
               let i = i\<lparr>inv_status := InviteStatus.REVOKED, inv_updated_at := clock s\<rparr>;
                   s = record_invite_event E ''auth.invite_revoked'' actor i (put_invite i s)
               in ret (public_invite i (clock s)) (persist s)))"

section \<open>Registration and login\<close>

record RegisterRequest =
  rg_email :: string
  rg_password :: string
  rg_display_name :: string
  rg_invite_token :: "string option"

definition validate_registration_payload :: "auth_env \<Rightarrow> RegisterRequest \<Rightarrow> sys \<Rightarrow> unit result" where
  "validate_registration_payload A p s =
     (case sum_then (validate_registration_email_deliverability (domain_has_dns_records A) (rg_email p)) (\<lambda>_.
           validate_password_policy (rg_password p) (Some (rg_email p))) of
        Inl e \<Rightarrow> raise (HTTPException 422 (pyerror_message e)) s
      | Inr _ \<Rightarrow> ret () s)"

definition accept_invite :: "env \<Rightarrow> Invite \<Rightarrow> User \<Rightarrow> sys \<Rightarrow> sys" where
  "accept_invite E i user s =
     (let i = i\<lparr>inv_status := InviteStatus.ACCEPTED, inv_accepted_by_user_id := Some (usr_id user),
            inv_updated_at := clock s\<rparr>
      in persist (record_invite_event E ''auth.invite_accepted''
           \<lparr>user_id = usr_id user, user_email = usr_email user, user_display_name = usr_display_name user,
            user_role = usr_role user, user_email_verified = False\<rparr> i (put_invite i s)))"

definition register_with_invite ::
    "auth_env \<Rightarrow> env \<Rightarrow> RegisterRequest \<Rightarrow> sys \<Rightarrow> RegistrationResponse result" where
  "register_with_invite A E p s =
     bindE (validate_registration_payload A p s) (\<lambda>_ s.
     bindE (validate_invite_token E (opt_str (rg_invite_token p)) s) (\<lambda>i s.
       if inv_email i \<noteq> normalize_email (rg_email p) then
         raise (HTTPException 403 ''Invite email does not match registration email'') s
       else
         bindE (create_user A E (rg_email p) (rg_password p) (rg_display_name p) (Some (inv_role i)) False s)
           (\<lambda>user s. create_registration_response A E user (accept_invite E i user s))))"

definition register_user :: "auth_env \<Rightarrow> env \<Rightarrow> RegisterRequest \<Rightarrow> sys \<Rightarrow> RegistrationResponse result" where
  "register_user A E p s =
     bindE (validate_registration_payload A p s) (\<lambda>_ s.
       if users s = [] then
         bindE (create_user A E (rg_email p) (rg_password p) (rg_display_name p) None False s)
           (create_registration_response A E)
       else if \<not> truthy (rg_invite_token p) then
         raise (HTTPException 403 ''Invite token is required after bootstrap owner registration'') s
       else register_with_invite A E p s)"

definition login :: "auth_env \<Rightarrow> env \<Rightarrow> string \<Rightarrow> string \<Rightarrow> sys \<Rightarrow> AuthResponse result" where
  "login A E email password s = bindE (authenticate_user A email password s) (create_session E)"

section \<open>Sessions\<close>

definition session_is_active :: "SessionToken \<Rightarrow> int \<Rightarrow> bool" where
  "session_is_active x now \<longleftrightarrow> \<not> ses_revoked x \<and> now < ses_expires_at x"

definition user_sessions :: "string \<Rightarrow> sys \<Rightarrow> SessionToken list" where
  "user_sessions uid s =
     filter (\<lambda>x. ses_user_id x = uid \<and> session_is_active x (clock s)) (dict_vals (sessions s))"

definition revoke_sessions :: "string \<Rightarrow> sys \<Rightarrow> sys" where
  "revoke_sessions uid s =
     s\<lparr>sessions := map (\<lambda>(k, x). (k, if ses_user_id x = uid \<and> session_is_active x (clock s)
          then x\<lparr>ses_revoked := True\<rparr> else x)) (sessions s)\<rparr>"

record SessionResponse =
  sr_id :: string
  sr_user_id :: string
  sr_user_email :: string
  sr_user_role :: UserRole
  sr_created_at :: int
  sr_expires_at :: int
  sr_revoked :: bool
  sr_active :: bool

definition to_session_response :: "SessionToken \<Rightarrow> sys \<Rightarrow> SessionResponse" where
  "to_session_response x s =
     (let user = dict_get (users s) (ses_user_id x)
      in \<lparr>sr_id = ses_id x, sr_user_id = ses_user_id x,
          sr_user_email = (case user of Some u \<Rightarrow> usr_email u | None \<Rightarrow> ''unknown''),
          sr_user_role = (case user of Some u \<Rightarrow> usr_role u | None \<Rightarrow> UserRole.REVIEWER),
          sr_created_at = ses_created_at x, sr_expires_at = ses_expires_at x, sr_revoked = ses_revoked x,
          sr_active = session_is_active x (clock s)\<rparr>)"

definition list_sessions :: "sys \<Rightarrow> SessionResponse list result" where
  "list_sessions s =
     ret (map (\<lambda>x. to_session_response x s) (rev (sort_key ses_created_at (rev (dict_vals (sessions s)))))) s"

definition record_session_revocation :: "env \<Rightarrow> AuthUser \<Rightarrow> string \<Rightarrow> string \<Rightarrow> nat \<Rightarrow> sys \<Rightarrow> sys" where
  "record_session_revocation E actor uid email count s =
     add_audit E ''auth.sessions_revoked'' uid
       [(''target_user_id'', JStr uid), (''target_email'', JStr email),
        (''revoked_sessions_count'', JInt (int count))] (user_email actor) s"

text \<open>The answer: the user, the address and how many sessions were revoked.\<close>

definition revoke_user_sessions ::
    "env \<Rightarrow> string \<Rightarrow> AuthUser \<Rightarrow> sys \<Rightarrow> (string \<times> string \<times> nat) result" where
  "revoke_user_sessions E uid actor s =
     (case dict_get (users s) uid of
        None \<Rightarrow> raise (HTTPException 404 ''User not found'') s
      | Some target \<Rightarrow>
          if usr_id target = user_id actor then
            raise (HTTPException 409 ''Owners cannot revoke their own sessions through this endpoint.'') s
          else
            let count = length (user_sessions (usr_id target) s);
                s = record_session_revocation E actor (usr_id target) (usr_email target) count
                      (revoke_sessions (usr_id target) s)
            in ret (usr_id target, usr_email target, count) (persist s))"

section \<open>Leaving\<close>

record AccountDeletionRequestResponse =
  dr_user_id :: string
  dr_email :: string
  dr_status :: string
  dr_requested_at :: int
  dr_active_sessions_revoked :: nat
  dr_message :: string

definition record_account_deletion_request ::
    "env \<Rightarrow> AuthUser \<Rightarrow> string \<Rightarrow> string \<Rightarrow> nat \<Rightarrow> string \<Rightarrow> sys \<Rightarrow> sys" where
  "record_account_deletion_request E actor uid email count reason s =
     add_audit E ''auth.account_deletion_requested'' uid
       [(''target_user_id'', JStr uid), (''target_email'', JStr email),
        (''active_sessions_revoked'', JInt (int count)), (''status'', JStr ''RECEIVED''),
        (''reason_provided'', JBool (py_strip reason \<noteq> []))] (user_email actor) s"

definition request_account_deletion ::
    "env \<Rightarrow> string \<Rightarrow> AuthUser \<Rightarrow> sys \<Rightarrow> AccountDeletionRequestResponse result" where
  "request_account_deletion E reason actor s =
     (case dict_get (users s) (user_id actor) of
        None \<Rightarrow> raise (HTTPException 404 ''Authenticated user not found'') s
      | Some target \<Rightarrow>
          if usr_disabled target then raise (HTTPException 409 ''Account is already disabled'') s
          else
            let count = length (user_sessions (usr_id target) s);
                s = revoke_sessions (usr_id target) s;
                target = target\<lparr>usr_disabled := True, usr_updated_at := clock s\<rparr>;
                s = record_account_deletion_request E actor (usr_id target) (usr_email target) count reason
                      (put_user target s)
            in ret \<lparr>dr_user_id = usr_id target, dr_email = usr_email target, dr_status = ''RECEIVED'',
                 dr_requested_at = clock s, dr_active_sessions_revoked = count,
                 dr_message = ''Account deletion request received. Account access has been disabled while '' @
                   ''retention/anonymization is processed.''\<rparr> (persist s))"

section \<open>Roles\<close>

definition to_public_user :: "User \<Rightarrow> AuthUser" where
  "to_public_user u =
     \<lparr>user_id = usr_id u, user_email = usr_email u, user_display_name = usr_display_name u,
      user_role = usr_role u, user_email_verified = False\<rparr>"

definition is_active_owner :: "User \<Rightarrow> bool" where
  "is_active_owner u \<longleftrightarrow> usr_role u = UserRole.OWNER \<and> \<not> usr_disabled u"

definition active_owner_count :: "sys \<Rightarrow> nat" where
  "active_owner_count s = length (filter is_active_owner (dict_vals (users s)))"

definition record_role_update :: "env \<Rightarrow> AuthUser \<Rightarrow> User \<Rightarrow> UserRole \<Rightarrow> sys \<Rightarrow> sys" where
  "record_role_update E actor target previous s =
     add_audit E ''auth.role_updated'' (usr_id target)
       [(''target_user_id'', JStr (usr_id target)), (''target_email'', JStr (usr_email target)),
        (''previous_role'', JStr (UserRole_value previous)),
        (''new_role'', JStr (UserRole_value (usr_role target)))] (user_email actor) s"

definition available_roles :: "UserRole list" where
  "available_roles = [UserRole.OWNER, UserRole.MAINTAINER, UserRole.REVIEWER]"

definition list_users :: "sys \<Rightarrow> AuthUser list result" where
  "list_users s = ret (map to_public_user (sort_key usr_email (dict_vals (users s)))) s"

definition update_user_role :: "env \<Rightarrow> string \<Rightarrow> UserRole \<Rightarrow> AuthUser \<Rightarrow> sys \<Rightarrow> AuthUser result" where
  "update_user_role E uid role actor s =
     (case dict_get (users s) uid of
        None \<Rightarrow> raise (HTTPException 404 ''User not found'') s
      | Some target \<Rightarrow>
          let previous = usr_role target in
          if previous = role then ret (to_public_user target) s
          else if previous = UserRole.OWNER \<and> role \<noteq> UserRole.OWNER \<and> active_owner_count s \<le> 1 then
            raise (HTTPException 409 ''Cannot remove the last active OWNER.'') s
          else
            let target = target\<lparr>usr_role := role, usr_updated_at := clock s\<rparr>;
                s = record_role_update E actor target previous (put_user target s)
            in ret (to_public_user target) (persist s))"

end
