(* ===== verification/UserHistory.thy ===== *)
theory UserHistory
  imports UserRoutes StoreProperties
begin

text \<open>
  The accounts under every sequence of requests: what a request can do to the users and invitations, and
  the interface by which an invariant of the accounts carries over to all histories, restarts and the
  database included.
\<close>

section \<open>Requests and histories\<close>

text \<open>The requests that change accounts, each with its \<open>Authorization\<close> header where the route has a guard.\<close>

datatype user_request =
    Register RegisterRequest
  | Resend string
  | VerifyEmail string string
  | Login string string
  | DeleteAccount "string option" string
  | RevokeSessions "string option" string
  | CreateInvite "string option" InviteCreateRequest
  | ListInvites "string option"
  | RevokeInvite "string option" string
  | UpdateRole "string option" string UserRole

definition void :: "'a result \<Rightarrow> unit result" where
  "void m = bindE m (\<lambda>_. ret ())"

fun serve :: "auth_env \<Rightarrow> env \<Rightarrow> user_request \<Rightarrow> sys \<Rightarrow> unit result" where
  "serve A E (Register p) s = void (register_user A E p s)"
| "serve A E (Resend email) s = void (resend_verification A E email s)"
| "serve A E (VerifyEmail email code) s = void (verify_email A email code s)"
| "serve A E (Login email password) s = void (login A E email password s)"
| "serve A E (DeleteAccount auth reason) s =
     void (bindE (require_user A E auth s) (request_account_deletion E reason))"
| "serve A E (RevokeSessions auth uid) s =
     void (bindE (require_owner A E auth s) (revoke_user_sessions E uid))"
| "serve A E (CreateInvite auth p) s = void (bindE (require_owner A E auth s) (create_invite E p))"
| "serve A E (ListInvites auth) s = void (bindE (require_owner A E auth s) (\<lambda>_. list_invites))"
| "serve A E (RevokeInvite auth iid) s = void (bindE (require_owner A E auth s) (revoke_invite E iid))"
| "serve A E (UpdateRole auth uid role) s = void (bindE (require_owner A E auth s) (update_user_role E uid role))"

text \<open>
  A history: requests, the passing of time, a restart, and whatever the rest of the backend does, which
  may change everything but the accounts, draw identifiers and save the store.
\<close>

datatype user_event =
    Request user_request
  | Later nat
  | Restart
  | Elsewhere store nat bool

fun happens :: "auth_env \<Rightarrow> env \<Rightarrow> user_event \<Rightarrow> sys \<Rightarrow> sys" where
  "happens A E (Request q) s = snd (serve A E q s)"
| "happens A E (Later d) s = s\<lparr>clock := clock s + int d\<rparr>"
| "happens A E Restart s = load s"
| "happens A E (Elsewhere m n saves) s =
     (let s' = sys_of (m\<lparr>users := users s, sessions := sessions s, invites := invites s\<rparr>)
            (clock s) (draws s + n) (rows (disk s))
      in if saves then persist s' else s')"

definition history :: "auth_env \<Rightarrow> env \<Rightarrow> user_event list \<Rightarrow> sys \<Rightarrow> sys" where
  "history A E es s = fold (happens A E) es s"

section \<open>Who is asking\<close>

lemma require_owner_state: "snd (require_owner A E auth s) = s"
  using require_user_state [of A E auth s]
  by (cases "require_user A E auth s") (auto simp: require_owner_def require_roles_def bindE_def split: sum.splits)

lemma dict_get_val: "dict_get d k = Some x \<Longrightarrow> x \<in> set (dict_vals d)"
  by (induction d) (auto simp: dict_vals_def split: if_splits)

lemma require_user_someone:
  assumes "require_user A E auth s = (Inr actor, s')" "cfg_auth_enabled (settings A)"
  shows "\<exists>x \<in> set (dict_vals (users s)). actor = to_auth_user x \<and> \<not> usr_disabled x \<and> usr_email_verified x"
  using assms by (auto simp: require_user_def dest: dict_get_val split: option.splits if_splits)

lemma require_owner_owner:
  assumes "require_owner A E auth s = (Inr actor, s')" "cfg_auth_enabled (settings A)"
  shows "\<exists>x \<in> set (dict_vals (users s)). actor = to_auth_user x \<and> is_active_owner x"
proof -
  have "require_user A E auth s = (Inr actor, s') \<and> user_role actor = UserRole.OWNER"
    using assms(1) by (auto simp: require_owner_def require_roles_def bindE_Inr_iff split: if_splits)
  with require_user_someone assms(2) show ?thesis by (fastforce simp: is_active_owner_def to_auth_user_def)
qed

section \<open>What a request does to the accounts\<close>

text \<open>Two states of one account, when only its verification changed.\<close>

definition same_account :: "User \<Rightarrow> User \<Rightarrow> bool" where
  "same_account x y \<longleftrightarrow> usr_id y = usr_id x \<and> usr_email y = usr_email x \<and> usr_role y = usr_role x \<and>
     usr_disabled y = usr_disabled x \<and> usr_password_hash y = usr_password_hash x"

definition new_account :: "env \<Rightarrow> sys \<Rightarrow> User \<Rightarrow> bool" where
  "new_account E s u \<longleftrightarrow> usr_id u = ''user_'' @ uuid_hex12 E (Suc (draws s)) \<and> \<not> usr_disabled u \<and>
     \<not> email_taken (usr_email u) s \<and> py_lower (usr_email u) = usr_email u"

definition owner_present :: "sys \<Rightarrow> bool" where
  "owner_present s \<longleftrightarrow> list_ex is_active_owner (dict_vals (users s))"

inductive effect :: "env \<Rightarrow> sys \<Rightarrow> bool \<Rightarrow> sys \<Rightarrow> bool" for E s leaving s' where
  unchanged: "users s' = users s \<Longrightarrow> invites s' = invites s \<Longrightarrow> effect E s leaving s'"
| noticed: "users s' = users s \<Longrightarrow> i \<in> set (dict_vals (invites s)) \<Longrightarrow>
    invites s' = dict_set (inv_id i) (i\<lparr>inv_status := effective_invite_status i (clock s)\<rparr>) (invites s) \<Longrightarrow>
    effect E s leaving s'"
| bootstrap: "users s = [] \<Longrightarrow> new_account E s u \<Longrightarrow> usr_role u = UserRole.OWNER \<Longrightarrow> Suc (draws s) < draws s' \<Longrightarrow>
    users s' = dict_set (usr_id u) u (users s) \<Longrightarrow> invites s' = invites s \<Longrightarrow> effect E s leaving s'"
| joined: "i \<in> set (dict_vals (invites s)) \<Longrightarrow> effective_invite_status i (clock s) = InviteStatus.PENDING \<Longrightarrow>
    new_account E s u \<Longrightarrow> usr_role u = inv_role i \<Longrightarrow> usr_email u = inv_email i \<Longrightarrow> Suc (draws s) < draws s' \<Longrightarrow>
    users s' = dict_set (usr_id u) u (users s) \<Longrightarrow>
    invites s' = dict_set (inv_id i) (i\<lparr>inv_status := InviteStatus.ACCEPTED, inv_accepted_by_user_id := Some (usr_id u),
      inv_updated_at := clock s\<rparr>) (invites s) \<Longrightarrow> effect E s leaving s'"
| verification: "x \<in> set (dict_vals (users s)) \<Longrightarrow> same_account x y \<Longrightarrow>
    users s' = dict_set (usr_id x) y (users s) \<Longrightarrow> invites s' = invites s \<Longrightarrow> effect E s leaving s'"
| left: "leaving \<Longrightarrow> x \<in> set (dict_vals (users s)) \<Longrightarrow>
    users s' = dict_set (usr_id x) (x\<lparr>usr_disabled := True, usr_updated_at := clock s\<rparr>) (users s) \<Longrightarrow>
    invites s' = invites s \<Longrightarrow> effect E s leaving s'"
| role: "owner_present s \<Longrightarrow> x \<in> set (dict_vals (users s)) \<Longrightarrow>
    usr_role x = UserRole.OWNER \<Longrightarrow> 2 \<le> active_owner_count s \<Longrightarrow>
    users s' = dict_set (usr_id x) (x\<lparr>usr_role := r, usr_updated_at := clock s\<rparr>) (users s) \<Longrightarrow>
    invites s' = invites s \<Longrightarrow> effect E s leaving s'"
| promotion: "owner_present s \<Longrightarrow> x \<in> set (dict_vals (users s)) \<Longrightarrow> usr_role x \<noteq> UserRole.OWNER \<Longrightarrow>
    users s' = dict_set (usr_id x) (x\<lparr>usr_role := r, usr_updated_at := clock s\<rparr>) (users s) \<Longrightarrow>
    invites s' = invites s \<Longrightarrow> effect E s leaving s'"
| invited: "owner_present s \<Longrightarrow> users s' = users s \<Longrightarrow> inv_id i = ''invite_'' @ uuid_hex12 E (Suc (draws s)) \<Longrightarrow>
    Suc (draws s) < draws s' \<Longrightarrow>
    invites s' = dict_set (inv_id i) i (invites s) \<Longrightarrow> effect E s leaving s'"
| listed: "users s' = users s \<Longrightarrow> invites s' = map (\<lambda>(k, i). (k, refresh_invite (clock s) i)) (invites s) \<Longrightarrow>
    effect E s leaving s'"
| revoked: "owner_present s \<Longrightarrow> users s' = users s \<Longrightarrow> i \<in> set (dict_vals (invites s)) \<Longrightarrow>
    effective_invite_status i (clock s) = InviteStatus.PENDING \<Longrightarrow>
    invites s' = dict_set (inv_id i) (i\<lparr>inv_status := InviteStatus.REVOKED, inv_updated_at := clock s\<rparr>) (invites s) \<Longrightarrow>
    effect E s leaving s'"

text \<open>The clock stands during a request, identifiers are only drawn, and what is saved is saved whole.\<close>

definition saved :: "sys \<Rightarrow> sys \<Rightarrow> bool" where
  "saved s s' \<longleftrightarrow> clock s' = clock s \<and> draws s \<le> draws s' \<and>
     (disk s' = disk s \<or> users (rows (disk s')) = users s' \<and> invites (rows (disk s')) = invites s')"

lemma saved_refl: "clock s' = clock s \<Longrightarrow> draws s \<le> draws s' \<Longrightarrow> disk s' = disk s \<Longrightarrow> saved s s'"
  by (simp add: saved_def)

lemma saved_rows_accounts [simp]:
  "users (rows (disk (persist s))) = users s" "invites (rows (disk (persist s))) = invites s"
  "sessions (rows (disk (persist s))) = sessions s"
  by (simp_all add: persist_def store.truncate_def)

lemma lower_char_idem [simp]: "lower_char (lower_char c) = lower_char c"
proof -
  have "of_char c < (256 :: nat)" by (metis of_char_of char_of_char mod_less_divisor zero_less_numeral)
  then show ?thesis by (auto simp: lower_char_def)
qed

lemma lower_chars: "list_all (\<lambda>c. lower_char c = c) s \<Longrightarrow> py_lower s = s"
  by (induction s) (simp_all add: py_lower_def)

lemma list_all_strip: "list_all P s \<Longrightarrow> list_all P (py_strip s)"
  by (auto simp: py_strip_def py_rstrip_def py_lstrip_def list_all_iff dest!: set_dropWhileD)

lemma normalized_lower [simp]: "py_lower (py_strip (py_lower s)) = py_strip (py_lower s)"
  by (intro lower_chars list_all_strip) (simp add: py_lower_def list_all_iff)

lemma create_user_spec:
  assumes "create_user A E email password name role verified s = (x, s')"
  shows "(\<exists>e. x = Inl e \<and> s' = s) \<or>
    (\<exists>u. x = Inr u \<and> new_account E s u \<and> users s' = dict_set (usr_id u) u (users s) \<and> invites s' = invites s \<and>
      usr_role u = (case role of Some r \<Rightarrow> r | None \<Rightarrow> default_role_for_new_user s) \<and>
      usr_email u = normalize_email email \<and> clock s' = clock s \<and> draws s' = draws s + 2 \<and>
      users (rows (disk s')) = users s' \<and> invites (rows (disk s')) = invites s')"
  using assms
  by (auto simp: create_user_def new_account_def new_id_def normalize_email_def default_role_for_new_user_def
      drawn_def put_user_def persist_def store.truncate_def Let_def split: if_splits option.splits)

lemma registration_spec:
  assumes "create_registration_response A E u s = (x, s')"
  shows "\<exists>y. same_account u y \<and> users s' = dict_set (usr_id u) y (users s) \<and> invites s' = invites s \<and> clock s' = clock s \<and>
    draws s' = draws s + 2 \<and> users (rows (disk s')) = users s' \<and> invites (rows (disk s')) = invites s'"
  using assms
  by (intro exI [of _ "snd (fst (issue_email_verification A E u s))"])
     (auto simp: create_registration_response_def issue_email_verification_def same_account_def
      drawn_def put_user_def persist_def store.truncate_def Let_def)

text \<open>A request is served well when its effect is one of those above and the rest is kept.\<close>

definition well_served :: "env \<Rightarrow> bool \<Rightarrow> sys \<Rightarrow> sys \<Rightarrow> bool" where
  "well_served E leaving s s' \<longleftrightarrow> effect E s leaving s' \<and> saved s s'"

lemma well_served_same [simp]: "well_served E leaving s s"
  by (simp add: well_served_def saved_def effect.unchanged)

lemma served_register_bootstrap:
  assumes "users s = []" "create_user A E email password name None False s = (Inr u, s1)"
    "create_registration_response A E u s1 = (x, s')"
  shows "well_served E leaving s s'"
proof -
  from create_user_spec [OF assms(2)] assms(1)
  have u: "new_account E s u" "users s1 = dict_set (usr_id u) u (users s)" "invites s1 = invites s"
      "usr_role u = UserRole.OWNER" "clock s1 = clock s" "draws s1 = draws s + 2"
    by (auto simp: default_role_for_new_user_def)
  from registration_spec [OF assms(3)] obtain y where y: "same_account u y"
      "users s' = dict_set (usr_id u) y (users s1)" "invites s' = invites s1" "clock s' = clock s1"
      "draws s' = draws s1 + 2" "users (rows (disk s')) = users s'" "invites (rows (disk s')) = invites s'" by blast
  have "new_account E s y" "usr_id y = usr_id u" "usr_role y = UserRole.OWNER"
    using y(1) u(1,4) by (auto simp: new_account_def same_account_def)
  then have "effect E s leaving s'"
    using assms(1) u y by (intro effect.bootstrap [of s E y]) (simp_all add: dict_set_set)
  with u y show ?thesis by (simp add: well_served_def saved_def)
qed

lemma found: "find P xs = Some x \<Longrightarrow> x \<in> set xs \<and> P x"
  by (induction xs) (auto split: if_splits)

lemma invite_checked:
  assumes "validate_invite_token E token s = (x, s1)"
  shows "(\<exists>e. x = Inl e \<and> (s1 = s \<or> (\<exists>i \<in> set (dict_vals (invites s)).
      s1 = put_invite (i\<lparr>inv_status := effective_invite_status i (clock s)\<rparr>) s))) \<or>
    (\<exists>i \<in> set (dict_vals (invites s)). effective_invite_status i (clock s) = InviteStatus.PENDING \<and>
      inv_token_hash i = hash_invite_token E token \<and>
      x = Inr (i\<lparr>inv_status := InviteStatus.PENDING\<rparr>) \<and> s1 = put_invite (i\<lparr>inv_status := InviteStatus.PENDING\<rparr>) s)"
  using assms
  by (auto simp: validate_invite_token_def Let_def split: option.splits if_splits dest!: found)

lemma noticed_served:
  "i \<in> set (dict_vals (invites s)) \<Longrightarrow>
   well_served E leaving s (put_invite (i\<lparr>inv_status := effective_invite_status i (clock s)\<rparr>) s)"
  unfolding well_served_def
  by (intro conjI effect.noticed [of _ _ i]) (simp_all add: put_invite_def saved_def)

lemma payload_checked: "validate_registration_payload A p s = (x, s') \<Longrightarrow> s' = s"
  by (auto simp: validate_registration_payload_def split: sum.splits)

text \<open>Registration by an invitation: a refusal marks at most the invitation as expired.\<close>

lemma served_joining:
  assumes i: "i \<in> set (dict_vals (invites s))" "effective_invite_status i (clock s) = InviteStatus.PENDING"
    and u: "create_user A E email password name (Some (inv_role i)) False
      (put_invite (i\<lparr>inv_status := InviteStatus.PENDING\<rparr>) s) = (Inr u, s1)" "inv_email i = normalize_email email"
    and r: "create_registration_response A E u (accept_invite E (i\<lparr>inv_status := InviteStatus.PENDING\<rparr>) u s1) = (x, s')"
  shows "well_served E leaving s s'"
proof -
  from create_user_spec [OF u(1)]
  have c: "new_account E s u" "users s1 = dict_set (usr_id u) u (users s)" "usr_role u = inv_role i"
      "invites s1 = dict_set (inv_id i) (i\<lparr>inv_status := InviteStatus.PENDING\<rparr>) (invites s)"
      "usr_email u = inv_email i" "clock s1 = clock s" "draws s1 = draws s + 2"
    using u(2) by (auto simp: put_invite_def new_account_def email_taken_def)
  from registration_spec [OF r] obtain y where y: "same_account u y"
      "users s' = dict_set (usr_id u) y (users s1)" "clock s' = clock s1" "draws s1 \<le> draws s'"
      "invites s' = dict_set (inv_id i) (i\<lparr>inv_status := InviteStatus.ACCEPTED,
         inv_accepted_by_user_id := Some (usr_id u), inv_updated_at := clock s1\<rparr>) (invites s1)"
      "users (rows (disk s')) = users s'" "invites (rows (disk s')) = invites s'"
    by (auto simp: accept_invite_def record_invite_event_def add_audit_def drawn_def put_invite_def persist_def Let_def)
  have n: "new_account E s y" "usr_id y = usr_id u" "usr_role y = inv_role i" "usr_email y = inv_email i"
    using y(1) c by (auto simp: new_account_def same_account_def)
  have "effect E s leaving s'"
    using i c y n by (intro effect.joined [of i s E y]) (simp_all add: dict_set_set)
  with c y show ?thesis by (simp add: well_served_def saved_def)
qed

lemma served_register_invite:
  assumes "register_with_invite A E p s = (x, s')"
  shows "well_served E leaving s s'"
proof -
  obtain v where v: "validate_registration_payload A p s = (v, s)"
    using payload_checked by (cases "validate_registration_payload A p s") auto
  obtain t s1 where t: "validate_invite_token E (opt_str (rg_invite_token p)) s = (t, s1)" by fastforce
  show ?thesis
  proof (cases v)
    case (Inl e)
    then show ?thesis using assms v by (simp add: register_with_invite_def)
  next
    case v': (Inr _)
    show ?thesis
    proof (cases t)
      case (Inl e)
      then have "s' = s1" using assms v v' t by (simp add: register_with_invite_def)
      with Inl invite_checked [OF t] show ?thesis by (auto intro: noticed_served)
    next
      case (Inr j)
      then obtain i where i: "i \<in> set (dict_vals (invites s))" "effective_invite_status i (clock s) = InviteStatus.PENDING"
          "j = i\<lparr>inv_status := InviteStatus.PENDING\<rparr>" "s1 = put_invite j s"
        using invite_checked [OF t] by auto
      have n: "well_served E leaving s s1" using noticed_served [OF i(1)] i(2-4) by simp
      obtain u s2 where u: "create_user A E (rg_email p) (rg_password p) (rg_display_name p) (Some (inv_role j)) False s1 =
          (u, s2)" by fastforce
      consider "inv_email j \<noteq> normalize_email (rg_email p)" | e where "inv_email j = normalize_email (rg_email p)" "u = Inl e"
        | w where "inv_email j = normalize_email (rg_email p)" "u = Inr w" by (cases u) auto
      then show ?thesis
      proof cases
        case 1
        then have "s' = s1" using assms v v' t Inr by (simp add: register_with_invite_def)
        with n show ?thesis by simp
      next
        case 2
        then have "s' = s1" using assms v v' t Inr u create_user_spec [OF u] by (simp add: register_with_invite_def)
        with n show ?thesis by simp
      next
        case 3
        then have "create_registration_response A E w (accept_invite E j w s2) = (x, s')"
          using assms v v' t Inr u by (simp add: register_with_invite_def)
        with 3 u i show ?thesis by (intro served_joining [of i s A E "rg_email p"]) simp_all
      qed
    qed
  qed
qed

lemma served_register: "register_user A E p s = (x, s') \<Longrightarrow> well_served E leaving s s'"
  using payload_checked [of A p s] served_register_invite [of A E p s x s' leaving]
    create_user_spec [of A E "rg_email p" "rg_password p" "rg_display_name p" None False s]
    served_register_bootstrap [of s A E "rg_email p" "rg_password p" "rg_display_name p" _ _ x s' leaving]
  by (cases "validate_registration_payload A p s"; cases "fst (validate_registration_payload A p s)";
      cases "create_user A E (rg_email p) (rg_password p) (rg_display_name p) None False s";
      cases "fst (create_user A E (rg_email p) (rg_password p) (rg_display_name p) None False s)")
     (auto simp: register_user_def split: if_splits)

lemma user_by_email_val: "user_by_email email s = Some x \<Longrightarrow> x \<in> set (dict_vals (users s))"
  by (auto simp: user_by_email_def dest: found)

lemma served_response:
  assumes "u \<in> set (dict_vals (users s))" "create_registration_response A E u s = (x, s')"
  shows "well_served E leaving s s'"
proof -
  from registration_spec [OF assms(2)] obtain y where y: "same_account u y"
      "users s' = dict_set (usr_id u) y (users s)" "invites s' = invites s" "clock s' = clock s"
      "draws s' = draws s + 2" "users (rows (disk s')) = users s'" "invites (rows (disk s')) = invites s'" by blast
  then show ?thesis using assms(1) by (auto simp: well_served_def saved_def intro: effect.verification)
qed

lemma served_resend: "resend_verification A E email s = (x, s') \<Longrightarrow> well_served E leaving s s'"
  by (auto simp: resend_verification_def split: option.splits if_splits
      intro: served_response dest: user_by_email_val)

lemma served_verification:
  assumes "u \<in> set (dict_vals (users s))" "same_account u y"
  shows "well_served E leaving s (persist (put_user y s))"
proof -
  have "usr_id y = usr_id u" using assms(2) by (simp add: same_account_def)
  with assms show ?thesis unfolding well_served_def
    by (intro conjI effect.verification [of u _ y]) (simp_all add: put_user_def saved_def persist_def store.truncate_def)
qed

lemma served_verify: "verify_email A email code s = (x, s') \<Longrightarrow> well_served E leaving s s'"
  by (auto simp: verify_email_def Let_def same_account_def split: option.splits if_splits
      intro!: served_verification dest: user_by_email_val)

lemma served_login: "login A E email password s = (x, s') \<Longrightarrow> well_served E leaving s s'"
  by (auto simp: login_def authenticate_user_def create_session_def Let_def drawn_def put_session_def persist_def
      store.truncate_def well_served_def saved_def split: option.splits if_splits intro!: effect.unchanged)

lemma audit_accounts [simp]:
  "users (add_audit E ty i d a s) = users s" "invites (add_audit E ty i d a s) = invites s"
  "clock (add_audit E ty i d a s) = clock s" "disk (add_audit E ty i d a s) = disk s"
  "draws (add_audit E ty i d a s) = Suc (draws s)"
  by (simp_all add: add_audit_def drawn_def)

lemma saved_persist [simp]:
  "users (persist s) = users s" "invites (persist s) = invites s" "sessions (persist s) = sessions s"
  "clock (persist s) = clock s" "draws (persist s) = draws s"
  by (simp_all add: persist_def)

lemma left_served:
  "x \<in> set (dict_vals (users s)) \<Longrightarrow>
   users s' = dict_set (usr_id x) (x\<lparr>usr_disabled := True, usr_updated_at := clock s\<rparr>) (users s) \<Longrightarrow>
   invites s' = invites s \<Longrightarrow> saved s s' \<Longrightarrow> well_served E True s s'"
  by (simp add: well_served_def effect.left)

lemma served_deletion:
  "request_account_deletion E reason actor s = (x, s') \<Longrightarrow> well_served E True s s'"
  by (auto simp: request_account_deletion_def Let_def revoke_sessions_def record_account_deletion_request_def
      put_user_def saved_def split: option.splits if_splits intro!: left_served dest!: dict_get_val)

lemma served_revoke_sessions:
  "revoke_user_sessions E uid actor s = (x, s') \<Longrightarrow> well_served E leaving s s'"
  by (auto simp: revoke_user_sessions_def Let_def revoke_sessions_def record_session_revocation_def
      well_served_def saved_def split: option.splits if_splits intro!: effect.unchanged)

lemma invited_served:
  "owner_present s \<Longrightarrow> users s' = users s \<Longrightarrow> inv_id i = ''invite_'' @ uuid_hex12 E (Suc (draws s)) \<Longrightarrow>
   Suc (draws s) < draws s' \<Longrightarrow> invites s' = dict_set (inv_id i) i (invites s) \<Longrightarrow> saved s s' \<Longrightarrow>
   well_served E leaving s s'"
  by (simp add: well_served_def effect.invited)

lemma served_create_invite:
  assumes "owner_present s" "create_invite E p actor s = (x, s')"
  shows "well_served E leaving s s'"
proof -
  let ?i = "new_invite E p (token_urlsafe E (draws s)) actor (drawn s)"
  have i: "inv_id ?i = ''invite_'' @ uuid_hex12 E (Suc (draws s))" by (simp add: new_invite_def new_id_def drawn_def)
  have "s' = s \<or> users s' = users s \<and> invites s' = dict_set (inv_id ?i) ?i (invites s) \<and> saved s s' \<and> Suc (draws s) < draws s'"
    using assms(2)
    by (auto simp: create_invite_def ensure_no_pending_invite_def Let_def record_invite_event_def put_invite_def
        saved_def drawn_def [of "drawn s"] split: if_splits)
  with assms(1) i show ?thesis by (auto intro: invited_served)
qed

lemma served_list_invites: "list_invites s = (x, s') \<Longrightarrow> well_served E leaving s s'"
  by (auto simp: list_invites_def Let_def well_served_def saved_def split: if_splits intro!: effect.listed)

lemma revoked_served:
  "owner_present s \<Longrightarrow> i \<in> set (dict_vals (invites s)) \<Longrightarrow>
   effective_invite_status i (clock s) = InviteStatus.PENDING \<Longrightarrow> users s' = users s \<Longrightarrow>
   invites s' = dict_set (inv_id i) (i\<lparr>inv_status := InviteStatus.REVOKED, inv_updated_at := clock s\<rparr>) (invites s) \<Longrightarrow>
   saved s s' \<Longrightarrow> well_served E leaving s s'"
  by (simp add: well_served_def effect.revoked)

lemma noticed_as:
  "i \<in> set (dict_vals (invites s)) \<Longrightarrow> effective_invite_status i (clock s) = st \<Longrightarrow>
   well_served E leaving s (put_invite (i\<lparr>inv_status := st\<rparr>) s)"
  using noticed_served by blast

lemma served_revoke_invite:
  "owner_present s \<Longrightarrow> revoke_invite E iid actor s = (x, s') \<Longrightarrow> well_served E leaving s s'"
  by (auto simp: revoke_invite_def Let_def record_invite_event_def put_invite_def [of "_ :: Invite" "put_invite _ s"]
      dict_set_set split: option.splits InviteStatus.splits intro: noticed_as dest!: dict_get_val)
     (auto simp: put_invite_def saved_def dict_set_set intro: revoked_served)

lemma role_served:
  "owner_present s \<Longrightarrow> x \<in> set (dict_vals (users s)) \<Longrightarrow>
   (usr_role x = UserRole.OWNER \<Longrightarrow> 2 \<le> active_owner_count s) \<Longrightarrow>
   users s' = dict_set (usr_id x) (x\<lparr>usr_role := r, usr_updated_at := clock s\<rparr>) (users s) \<Longrightarrow>
   invites s' = invites s \<Longrightarrow> saved s s' \<Longrightarrow> well_served E leaving s s'"
  by (cases "usr_role x = UserRole.OWNER") (simp_all add: well_served_def effect.role effect.promotion)

lemma served_update_role:
  "owner_present s \<Longrightarrow> update_user_role E uid r actor s = (x, s') \<Longrightarrow> well_served E leaving s s'"
  by (auto simp: update_user_role_def Let_def record_role_update_def put_user_def saved_def
      split: option.splits if_splits intro!: role_served dest!: dict_get_val)

lemma void_state [simp]: "snd (void m) = snd m"
  by (cases m; cases "fst m") (simp_all add: void_def)

lemma guarded_owner:
  assumes "cfg_auth_enabled (settings A)" "\<And>actor x s'. owner_present s \<Longrightarrow> k actor s = (x, s') \<Longrightarrow> well_served E leaving s s'"
  shows "well_served E leaving s (snd (bindE (require_owner A E auth s) k))"
proof -
  obtain y where y: "require_owner A E auth s = (y, s)" using require_owner_state by (metis surjective_pairing)
  show ?thesis
  proof (cases y)
    case (Inr actor)
    with y require_owner_owner assms(1) have "owner_present s" by (fastforce simp: owner_present_def list_ex_iff)
    with assms(2) y Inr show ?thesis by (cases "k actor s") auto
  qed (use y in simp)
qed

text \<open>Every request has one of the effects; only a deletion lets an account leave.\<close>

fun is_deletion :: "user_request \<Rightarrow> bool" where
  "is_deletion (DeleteAccount auth reason) = True"
| "is_deletion _ = False"

lemma served_by: "(\<And>x s'. m = (x, s') \<Longrightarrow> well_served E leaving s s') \<Longrightarrow> well_served E leaving s (snd m)"
  by (cases m) simp

lemma serve_effect:
  assumes "cfg_auth_enabled (settings A)"
  shows "well_served E (is_deletion q) s (snd (serve A E q s))"
proof (cases q)
  case (Register p)
  then show ?thesis by (simp add: served_by [OF served_register])
next
  case (Resend email)
  then show ?thesis by (simp add: served_by [OF served_resend])
next
  case (VerifyEmail email code)
  then show ?thesis by (simp add: served_by [OF served_verify])
next
  case (Login email password)
  then show ?thesis by (simp add: served_by [OF served_login])
next
  case (DeleteAccount auth reason)
  obtain y where y: "require_user A E auth s = (y, s)" using require_user_state by (metis surjective_pairing)
  show ?thesis using y DeleteAccount by (cases y) (simp_all add: served_by [OF served_deletion])
next
  case (RevokeSessions auth uid)
  then show ?thesis using guarded_owner [OF assms served_revoke_sessions] by simp
next
  case (CreateInvite auth p)
  then show ?thesis using guarded_owner [OF assms served_create_invite] by simp
next
  case (ListInvites auth)
  then show ?thesis using guarded_owner [OF assms served_list_invites] by simp
next
  case (RevokeInvite auth iid)
  then show ?thesis using guarded_owner [OF assms served_revoke_invite] by simp
next
  case (UpdateRole auth uid r)
  then show ?thesis using guarded_owner [OF assms served_update_role] by simp
qed

section \<open>Invariants of the accounts\<close>

text \<open>
  An invariant is a predicate on the time, the identifiers drawn so far, the users and the invitations.
  What a request may do to them is all it has to keep; the interface gives it for every history, in memory
  and in the database a restart reads.
\<close>

type_synonym account_predicate = "int \<Rightarrow> nat \<Rightarrow> (string, User) dict \<Rightarrow> (string, Invite) dict \<Rightarrow> bool"

definition here_and_saved :: "account_predicate \<Rightarrow> sys \<Rightarrow> bool" where
  "here_and_saved P s \<longleftrightarrow>
     P (clock s) (draws s) (users s) (invites s) \<and>
     P (clock s) (draws s) (users (rows (disk s))) (invites (rows (disk s)))"

fun leaves :: "user_event \<Rightarrow> bool" where
  "leaves (Request q) = is_deletion q"
| "leaves _ = False"

locale account_invariant =
  fixes E :: env and may_leave :: bool and P :: account_predicate
  assumes later: "P t n U I \<Longrightarrow> t \<le> t' \<Longrightarrow> n \<le> n' \<Longrightarrow> P t' n' U I"
    and reordered: "P t n U I \<Longrightarrow> P t n (by_key U) (by_key I)"
    and kept: "P (clock s) (draws s) (users s) (invites s) \<Longrightarrow> effect E s leaving s' \<Longrightarrow> saved s s' \<Longrightarrow>
      (leaving \<Longrightarrow> may_leave) \<Longrightarrow> P (clock s') (draws s') (users s') (invites s')"
begin

lemma request_keeps:
  assumes "cfg_auth_enabled (settings A)" "here_and_saved P s" "is_deletion q \<Longrightarrow> may_leave"
  shows "here_and_saved P (snd (serve A E q s))"
proof -
  let ?s = "snd (serve A E q s)"
  have e: "effect E s (is_deletion q) ?s" "saved s ?s"
    using serve_effect [OF assms(1), of E q s] by (simp_all add: well_served_def)
  have p: "P (clock s) (draws s) (users s) (invites s)"
    and d: "P (clock s) (draws s) (users (rows (disk s))) (invites (rows (disk s)))"
    using assms(2) by (simp_all add: here_and_saved_def)
  have p': "P (clock ?s) (draws ?s) (users ?s) (invites ?s)" using kept [OF p e] assms(3) by simp
  have "P (clock ?s) (draws ?s) (users (rows (disk s))) (invites (rows (disk s)))"
    using e(2) by (intro later [OF d]) (simp_all add: saved_def)
  with p' e(2) show ?thesis by (auto simp: here_and_saved_def saved_def)
qed

lemma event_keeps:
  assumes "cfg_auth_enabled (settings A)" "here_and_saved P s" "leaves ev \<Longrightarrow> may_leave"
  shows "here_and_saved P (happens A E ev s)"
proof (cases ev)
  case (Request q)
  with assms request_keeps show ?thesis by simp
next
  case (Later d)
  with assms(2) show ?thesis by (auto simp: here_and_saved_def intro: later)
next
  case Restart
  with assms(2) show ?thesis by (auto simp: here_and_saved_def load_def load_store_def sys_of_def store.defs intro: reordered)
next
  case (Elsewhere m n saves)
  with assms(2) show ?thesis
    by (auto simp: here_and_saved_def Let_def sys_of_def store.defs persist_def intro: later)
qed

lemma history_keeps:
  assumes "cfg_auth_enabled (settings A)" "here_and_saved P s" "list_ex leaves es \<Longrightarrow> may_leave"
  shows "here_and_saved P (history A E es s)"
  using assms(2,3)
proof (induction es arbitrary: s)
  case (Cons ev es)
  then have "here_and_saved P (happens A E ev s)" using event_keeps [OF assms(1)] by auto
  with Cons show ?case by (simp add: history_def)
qed (simp add: history_def)

end

end
