(* ===== verification/UserProperties.thy ===== *)
theory UserProperties
  imports UserHistory
begin

text \<open>
  What holds of the accounts in every history: addresses stay distinct and normalized, an owner remains
  unless owners delete their accounts, a deleted account never acts again, a spent invitation stays spent.
  And what does not: the last owner can delete the account and nobody can ever become owner again.
\<close>

interpretation accounts: entity_table usr_id dict_get "\<lambda>x. dict_set (usr_id x) x" dict_vals "keyed usr_id"
  by (rule dict_entity_table)

interpretation invitations: entity_table inv_id dict_get "\<lambda>x. dict_set (inv_id x) x" dict_vals "keyed inv_id"
  by (rule dict_entity_table)

section \<open>Well-formed accounts\<close>

lemma by_key_mset: "mset (by_key d) = mset d"
  by (simp add: by_key_def)

lemma by_key_vals: "set (dict_vals (by_key d)) = set (dict_vals d)" "mset (dict_vals (by_key d)) = mset (dict_vals d)"
  by (simp_all add: dict_vals_def by_key_def)

lemma by_key_keyed: "keyed key d \<Longrightarrow> keyed key (by_key d)"
  by (simp add: keyed_def by_key_distinct) (simp add: by_key_def list_all_iff)

lemma by_key_get: "keyed key d \<Longrightarrow> dict_get (by_key d) = dict_get d"
  by (simp add: keyed_def dict_get_by_key)

lemma distinct_by_key: "distinct (map f (dict_vals (by_key d))) = distinct (map f (dict_vals d))"
  by (metis by_key_vals(2) mset_eq_imp_distinct_iff mset_map)

text \<open>
  The table of users: every user under the identifier drawn for it, with an address in normal form that no
  other user has. Identifiers do not repeat.
\<close>

definition drawn_id :: "env \<Rightarrow> string \<Rightarrow> nat \<Rightarrow> string \<Rightarrow> bool" where
  "drawn_id E prefix n i \<longleftrightarrow> (\<exists>m < n. i = prefix @ uuid_hex12 E m)"

definition wf_accounts :: "env \<Rightarrow> account_predicate" where
  "wf_accounts E t n U I \<longleftrightarrow>
     inj (uuid_hex12 E) \<and> keyed usr_id U \<and> keyed inv_id I \<and>
     (\<forall>x \<in> set (dict_vals U). drawn_id E ''user_'' n (usr_id x) \<and> py_lower (usr_email x) = usr_email x) \<and>
     (\<forall>i \<in> set (dict_vals I). drawn_id E ''invite_'' n (inv_id i)) \<and>
     distinct (map usr_email (dict_vals U))"

lemma drawn_id_mono: "drawn_id E prefix n i \<Longrightarrow> n \<le> n' \<Longrightarrow> drawn_id E prefix n' i"
  unfolding drawn_id_def using less_le_trans by blast

lemma undrawn: "inj (uuid_hex12 E) \<Longrightarrow> n \<le> m \<Longrightarrow> \<not> drawn_id E prefix n (prefix @ uuid_hex12 E m)"
  by (auto simp: drawn_id_def dest: injD)

lemma fresh_user:
  assumes "wf_accounts E t (draws s) (users s) I" "new_account E s u"
  shows "dict_get (users s) (usr_id u) = None"
proof (rule ccontr)
  assume "\<not> ?thesis"
  then obtain x where "dict_get (users s) (usr_id u) = Some x" by auto
  then have "drawn_id E ''user_'' (draws s) (usr_id u)"
    using assms(1) keyed_get_iff [of usr_id "users s" "usr_id u" x] by (auto simp: wf_accounts_def)
  moreover have "\<not> drawn_id E ''user_'' (draws s) (usr_id u)"
    using assms undrawn [of E "draws s" "Suc (draws s)" "''user_''"] by (auto simp: wf_accounts_def new_account_def)
  ultimately show False by simp
qed

text \<open>An account that only its own record changes, and a new one.\<close>

lemma wf_change:
  assumes "wf_accounts E t n U I" "x \<in> set (dict_vals U)" "usr_id y = usr_id x" "usr_email y = usr_email x"
  shows "wf_accounts E t n (dict_set (usr_id x) y U) I"
proof -
  have k: "keyed usr_id U" "dict_get U (usr_id y) \<noteq> None"
    using assms accounts.get_self [of U x] by (auto simp: wf_accounts_def)
  have v: "dict_vals (dict_set (usr_id y) y U) = map (\<lambda>z. if usr_id z = usr_id y then y else z) (dict_vals U)"
    using k by (rule accounts.vals_put_old)
  have e: "usr_email (if usr_id z = usr_id y then y else z) = usr_email z" if "z \<in> set (dict_vals U)" for z
    using that assms accounts.vals_unique [OF k(1) that assms(2)] by auto
  then have "map usr_email (dict_vals (dict_set (usr_id y) y U)) = map usr_email (dict_vals U)"
    unfolding v by simp
  then show ?thesis
    using assms accounts.in_vals_put [OF k(1), of _ y] accounts.wf_put [OF k(1), of y] by (auto simp: wf_accounts_def)
qed

lemma wf_new:
  assumes "wf_accounts E t (draws s) (users s) I" "new_account E s u" "Suc (draws s) < n"
  shows "wf_accounts E t n (dict_set (usr_id u) u (users s)) I"
proof -
  have k: "keyed usr_id (users s)" using assms(1) by (simp add: wf_accounts_def)
  have v: "dict_vals (dict_set (usr_id u) u (users s)) = dict_vals (users s) @ [u]"
    using k fresh_user [OF assms(1,2)] by (rule accounts.vals_put_new)
  have "drawn_id E ''user_'' n (usr_id u)" using assms(2,3) by (auto simp: new_account_def drawn_id_def)
  moreover have l: "py_lower (usr_email u) = usr_email u" using assms(2) by (simp add: new_account_def)
  moreover have "usr_email u \<notin> usr_email ` set (dict_vals (users s))"
    using assms(1,2) by (fastforce simp: new_account_def email_taken_def list_ex_iff wf_accounts_def)
  ultimately show ?thesis
    using assms(1,3) accounts.wf_put [OF k, of u] drawn_id_mono [of E _ "draws s" _ n] l
    by (auto simp: wf_accounts_def v)
qed

lemma wf_invite:
  assumes "wf_accounts E t n U I" "drawn_id E ''invite_'' n (inv_id i)"
  shows "wf_accounts E t n U (dict_set (inv_id i) i I)"
  using assms invitations.wf_put [of I i] invitations.in_vals_put [of I _ i] by (auto simp: wf_accounts_def)

lemma wf_old_invite: "wf_accounts E t n U I \<Longrightarrow> i \<in> set (dict_vals I) \<Longrightarrow> inv_id j = inv_id i \<Longrightarrow>
    wf_accounts E t n U (dict_set (inv_id i) j I)"
  using wf_invite [of E t n U I j] by (auto simp: wf_accounts_def)

lemma refresh_id [simp]: "inv_id (refresh_invite t i) = inv_id i"
  by (simp add: refresh_invite_def)

lemma wf_listed:
  "wf_accounts E t n U I \<Longrightarrow> wf_accounts E t n U (map (\<lambda>(k, i). (k, refresh_invite t' i)) I)"
proof -
  have "map fst (map (\<lambda>(k, i). (k, refresh_invite t' i)) I) = map fst I"
    "dict_vals (map (\<lambda>(k, i). (k, refresh_invite t' i)) I) = map (refresh_invite t') (dict_vals I)"
    by (simp_all add: dict_vals_def comp_def case_prod_unfold)
  then show "wf_accounts E t n U I \<Longrightarrow> ?thesis"
    unfolding wf_accounts_def keyed_def by (simp only: list_all_iff) auto
qed

lemma wf_later: "wf_accounts E t n U I \<Longrightarrow> n \<le> n' \<Longrightarrow> wf_accounts E t' n' U I"
  using drawn_id_mono by (fastforce simp: wf_accounts_def)

lemma wf_kept:
  assumes "wf_accounts E (clock s) (draws s) (users s) (invites s)" "effect E s leaving s'" "saved s s'"
  shows "wf_accounts E (clock s') (draws s') (users s') (invites s')"
proof -
  have n: "draws s \<le> draws s'" "clock s' = clock s" using assms(3) by (simp_all add: saved_def)
  note w = wf_later [OF assms(1) n(1), of "clock s"]
  show ?thesis using assms(2)
  proof cases
    case (bootstrap u)
    then show ?thesis using wf_new [OF assms(1)] n by simp
  next
    case (joined i u)
    then show ?thesis using wf_old_invite [OF wf_new [OF assms(1)], of u "draws s'" i] n by simp
  next
    case (invited i)
    then have "drawn_id E ''invite_'' (draws s') (inv_id i)" by (auto simp: drawn_id_def)
    from wf_invite [OF w this] show ?thesis by (simp only: invited(2,5) n(2))
  next
    case (verification x y)
    with w n show ?thesis using wf_change by (simp add: same_account_def)
  qed (use w n in \<open>simp_all add: wf_change wf_old_invite wf_listed\<close>)
qed

interpretation wf: account_invariant E True "wf_accounts E"
proof
  show "wf_accounts E t n (by_key U) (by_key I)" if "wf_accounts E t n U I" for t n U I
    using that by (simp add: wf_accounts_def by_key_keyed by_key_vals distinct_by_key)
qed (auto intro: wf_later wf_kept)

section \<open>An owner remains\<close>

definition owned :: "env \<Rightarrow> account_predicate" where
  "owned E t n U I \<longleftrightarrow> wf_accounts E t n U I \<and> list_ex is_active_owner (dict_vals U)"

lemma active_owner_ex: "owner_present s \<longleftrightarrow> active_owner_count s \<noteq> 0"
  by (simp add: owner_present_def active_owner_count_def list_ex_iff filter_empty_conv)

lemma owner_stays:
  assumes "keyed usr_id U" "z \<in> set (dict_vals U)" "is_active_owner z" "usr_id z = usr_id x \<Longrightarrow> is_active_owner y"
    "usr_id y = usr_id x"
  shows "list_ex is_active_owner (dict_vals (dict_set (usr_id x) y U))"
proof (cases "usr_id z = usr_id x")
  case True
  have "y \<in> set (dict_vals (dict_set (usr_id y) y U))" using accounts.in_vals_put [OF assms(1), of y y] by simp
  with True assms(4,5) show ?thesis by (auto simp: list_ex_iff)
next
  case False
  then have "z \<in> set (dict_vals (dict_set (usr_id y) y U))"
    using accounts.in_vals_put [OF assms(1), of z y] assms(2,5) by simp
  with assms(3,5) show ?thesis by (auto simp: list_ex_iff)
qed

text \<open>With two active owners there is another than a given user.\<close>

lemma other_owner:
  assumes "keyed usr_id (users s)" "2 \<le> active_owner_count s"
  shows "\<exists>z \<in> set (dict_vals (users s)). is_active_owner z \<and> usr_id z \<noteq> k"
proof -
  obtain a b r where l: "filter is_active_owner (dict_vals (users s)) = a # b # r"
    using assms(2) by (auto simp: active_owner_count_def Suc_le_length_iff numeral_2_eq_2)
  then have "distinct (a # b # r)" "a \<in> set (filter is_active_owner (dict_vals (users s)))"
      "b \<in> set (filter is_active_owner (dict_vals (users s)))"
    using keyed_distinct_vals [OF assms(1)] by (metis distinct_filter) (simp_all add: l)
  then have "a \<noteq> b" "a \<in> set (dict_vals (users s))" "b \<in> set (dict_vals (users s))"
      "is_active_owner a" "is_active_owner b" by auto
  then show ?thesis using accounts.vals_unique [OF assms(1), of a b] by metis
qed

lemma owned_kept:
  assumes "owned E (clock s) (draws s) (users s) (invites s)" "effect E s leaving s'" "saved s s'" "\<not> leaving"
  shows "owned E (clock s') (draws s') (users s') (invites s')"
proof -
  have w: "wf_accounts E (clock s) (draws s) (users s) (invites s)" using assms(1) by (simp add: owned_def)
  then have k: "keyed usr_id (users s)" by (simp add: wf_accounts_def)
  obtain z where z: "z \<in> set (dict_vals (users s))" "is_active_owner z"
    using assms(1) by (auto simp: owned_def list_ex_iff)
  note stays = owner_stays [OF k z]
  have fresh: "new_account E s u \<Longrightarrow> usr_id z \<noteq> usr_id u" for u
    using fresh_user [OF w, of u] accounts.get_self [OF k z(1)] by auto
  have "list_ex is_active_owner (dict_vals (users s'))" using assms(2)
  proof cases
    case (bootstrap u)
    with z show ?thesis by (simp add: dict_vals_def)
  next
    case (verification x y)
    then have "usr_id z = usr_id x \<Longrightarrow> is_active_owner y"
      using z accounts.vals_unique [OF k z(1), of x] by (auto simp: same_account_def is_active_owner_def)
    with verification show ?thesis by (auto simp: same_account_def intro: stays)
  next
    case (role x r)
    obtain o' where o': "o' \<in> set (dict_vals (users s))" "is_active_owner o'" "usr_id o' \<noteq> usr_id x"
      using other_owner [OF k role(4)] by blast
    then show ?thesis unfolding role(5) by (intro owner_stays [OF k o'(1,2)]) simp_all
  next
    case (promotion x r)
    then have "usr_id z \<noteq> usr_id x" using z accounts.vals_unique [OF k z(1), of x] by (auto simp: is_active_owner_def)
    then show ?thesis unfolding promotion(4) by (intro stays) simp_all
  qed (use assms(1,4) fresh in \<open>auto simp: owned_def intro: stays\<close>)
  with wf_kept [OF w assms(2,3)] show ?thesis by (simp add: owned_def)
qed

interpretation owned: account_invariant E False "owned E"
proof
  show "owned E t n (by_key U) (by_key I)" if "owned E t n U I" for t n U I
    using that wf.reordered by (auto simp: owned_def by_key_vals list_ex_iff)
  show "owned E t' n' U I" if "owned E t n U I" "t \<le> t'" "n \<le> n'" for t n U I t' n'
    using that by (auto simp: owned_def intro: wf_later)
qed (auto intro: owned_kept)

text \<open>
  C28. The backend keeps an owner. If there is an active owner, then after every history of registrations,
  verifications, logins, invitations, session revocations and role changes, by whoever, with the clock
  moving, restarts in between and the rest of the backend at work, there is one still; only a request to
  delete an account can end that.
\<close>

theorem owner_remains:
  assumes "cfg_auth_enabled (settings A)" "here_and_saved (owned E) s" "\<not> list_ex leaves es"
  shows "1 \<le> active_owner_count (history A E es s)"
  using owned.history_keeps [OF assms(1,2)] assms(3) active_owner_ex [of "history A E es s"]
  by (auto simp: here_and_saved_def owned_def owner_present_def)

section \<open>A backend without owner stays without\<close>

text \<open>Nobody is an active owner, and no invitation that is still open gives the role.\<close>

definition invites_owner :: "int \<Rightarrow> Invite \<Rightarrow> bool" where
  "invites_owner t i \<longleftrightarrow> inv_role i = UserRole.OWNER \<and> effective_invite_status i t = InviteStatus.PENDING"

definition locked :: "env \<Rightarrow> account_predicate" where
  "locked E t n U I \<longleftrightarrow> wf_accounts E t n U I \<and> U \<noteq> [] \<and> \<not> list_ex is_active_owner (dict_vals U) \<and>
     \<not> list_ex (invites_owner t) (dict_vals I)"

lemma effective_later: "effective_invite_status i t' = InviteStatus.PENDING \<Longrightarrow> t \<le> t' \<Longrightarrow>
    effective_invite_status i t = InviteStatus.PENDING"
  by (auto simp: effective_invite_status_def split: if_splits)

lemma effective_idem [simp]:
  "effective_invite_status (i\<lparr>inv_status := effective_invite_status i t\<rparr>) t = effective_invite_status i t"
  by (auto simp: effective_invite_status_def)

lemma effective_refresh [simp]: "effective_invite_status (refresh_invite t i) t = effective_invite_status i t"
  by (auto simp: effective_invite_status_def refresh_invite_def)

lemma role_refresh [simp]: "inv_role (refresh_invite t i) = inv_role i"
  by (simp add: refresh_invite_def)

lemma dict_set_nonempty [simp]: "dict_set k v d \<noteq> []"
  by (cases d) (auto split: prod.splits if_splits)

lemma none_owner:
  assumes "keyed usr_id U" "\<not> list_ex is_active_owner (dict_vals U)" "\<not> is_active_owner x"
  shows "\<not> list_ex is_active_owner (dict_vals (dict_set (usr_id x) x U))"
  using assms accounts.in_vals_put [OF assms(1), of _ x] by (auto simp: list_ex_iff)

lemma none_invites:
  assumes "keyed inv_id I" "\<not> list_ex (invites_owner t) (dict_vals I)" "\<not> invites_owner t i"
  shows "\<not> list_ex (invites_owner t) (dict_vals (dict_set (inv_id i) i I))"
  using assms invitations.in_vals_put [OF assms(1), of _ i] by (auto simp: list_ex_iff)

lemma locked_kept:
  assumes "locked E (clock s) (draws s) (users s) (invites s)" "effect E s leaving s'" "saved s s'"
  shows "locked E (clock s') (draws s') (users s') (invites s')"
proof -
  have w: "wf_accounts E (clock s) (draws s) (users s) (invites s)" and U: "users s \<noteq> []"
    and o': "\<not> list_ex is_active_owner (dict_vals (users s))" "\<not> owner_present s"
    and i: "\<not> list_ex (invites_owner (clock s)) (dict_vals (invites s))"
    using assms(1) by (simp_all add: locked_def owner_present_def)
  then have k: "keyed usr_id (users s)" "keyed inv_id (invites s)" by (simp_all add: wf_accounts_def)
  have c: "clock s' = clock s" using assms(3) by (simp add: saved_def)
  have "users s' \<noteq> [] \<and> \<not> list_ex is_active_owner (dict_vals (users s')) \<and>
      \<not> list_ex (invites_owner (clock s)) (dict_vals (invites s'))" using assms(2)
  proof cases
    case (noticed j)
    then have "\<not> invites_owner (clock s) (j\<lparr>inv_status := effective_invite_status j (clock s)\<rparr>)"
      using i by (auto simp: invites_owner_def list_ex_iff)
    with none_invites [OF k(2) i this] noticed U o' show ?thesis by simp
  next
    case (joined j u)
    then have "\<not> is_active_owner u" using i by (auto simp: is_active_owner_def invites_owner_def list_ex_iff)
    with none_owner [OF k(1) o'(1) this] joined show ?thesis
      using none_invites [OF k(2) i, of "j\<lparr>inv_status := ACCEPTED, inv_accepted_by_user_id := Some (usr_id u),
        inv_updated_at := clock s\<rparr>"]
      by (simp add: invites_owner_def effective_invite_status_def)
  next
    case (verification x y)
    then have "\<not> is_active_owner y" using o' by (auto simp: same_account_def is_active_owner_def list_ex_iff)
    with none_owner [OF k(1) o'(1) this] verification i show ?thesis by (simp add: same_account_def)
  next
    case (left x)
    then have "\<not> is_active_owner (x\<lparr>usr_disabled := True, usr_updated_at := clock s\<rparr>)" by (simp add: is_active_owner_def)
    with none_owner [OF k(1) o'(1) this] left i show ?thesis by simp
  next
    case listed
    have "dict_vals (map (\<lambda>(k, j). (k, refresh_invite (clock s) j)) (invites s)) =
        map (refresh_invite (clock s)) (dict_vals (invites s))"
      by (simp add: dict_vals_def comp_def case_prod_unfold)
    with listed U o' i show ?thesis by (simp add: list_ex_iff invites_owner_def)
  qed (use U o' i in auto)
  with wf_kept [OF w assms(2,3)] c show ?thesis by (simp add: locked_def)
qed

interpretation locked: account_invariant E True "locked E"
proof
  show "locked E t n (by_key U) (by_key I)" if "locked E t n U I" for t n U I
  proof -
    have "U \<noteq> [] \<longleftrightarrow> by_key U \<noteq> []" by (metis by_key_mset mset_zero_iff)
    with that wf.reordered show ?thesis by (auto simp: locked_def by_key_vals list_ex_iff)
  qed
  show "locked E t' n' U I" if "locked E t n U I" "t \<le> t'" "n \<le> n'" for t n U I t' n'
    using that effective_later by (auto simp: locked_def list_ex_iff invites_owner_def intro: wf_later)
qed (auto intro: locked_kept)

lemma deletion_done:
  assumes "request_account_deletion E reason actor s = (Inr r, s1)" "keyed usr_id (users s)"
  shows "\<exists>x. dict_get (users s) (user_id actor) = Some x \<and> usr_id x = user_id actor \<and>
    users s1 = dict_set (usr_id x) (x\<lparr>usr_disabled := True, usr_updated_at := clock s\<rparr>) (users s) \<and>
    invites s1 = invites s \<and> users (rows (disk s1)) = users s1 \<and> invites (rows (disk s1)) = invites s1 \<and>
    clock s1 = clock s \<and> draws s \<le> draws s1"
  using assms accounts.get_key [OF assms(2)]
  by (auto simp: request_account_deletion_def Let_def revoke_sessions_def record_account_deletion_request_def
      put_user_def split: option.splits if_splits)

lemma deletion_wf:
  assumes "request_account_deletion E reason actor s = (Inr r, s1)" "here_and_saved (wf_accounts E) s"
  shows "wf_accounts E (clock s1) (draws s1) (users s1) (invites s1)"
  using wf_kept [of E s True s1] served_deletion [OF assms(1)] assms(2)
  by (simp add: here_and_saved_def well_served_def)

text \<open>
  The last owner can leave, and then nobody is owner ever again. A role change refuses to demote the
  last active owner, but the request to delete an account does not look: when it is made by the only active
  owner and no invitation to the role is open, no later history (registrations, invitations, role changes,
  restarts) has an active owner, and everything an owner decides is shut for good.
\<close>

theorem last_owner_locks_out:
  assumes "cfg_auth_enabled (settings A)" "here_and_saved (wf_accounts E) s"
    "request_account_deletion E reason actor s = (Inr r, s1)"
    "list_all (\<lambda>x. is_active_owner x \<longrightarrow> usr_id x = user_id actor) (dict_vals (users s))"
    "\<not> list_ex (invites_owner (clock s)) (dict_vals (invites s))"
  shows "active_owner_count (history A E es s1) = 0"
proof -
  have k: "keyed usr_id (users s)" using assms(2) by (simp add: here_and_saved_def wf_accounts_def)
  from deletion_done [OF assms(3) k] obtain x where x: "usr_id x = user_id actor"
      "users s1 = dict_set (usr_id x) (x\<lparr>usr_disabled := True, usr_updated_at := clock s\<rparr>) (users s)"
      "invites s1 = invites s" "users (rows (disk s1)) = users s1" "invites (rows (disk s1)) = invites s1"
      "clock s1 = clock s" by blast
  have "\<not> list_ex is_active_owner (dict_vals (users s1))"
    using assms(4) x accounts.in_vals_put [OF k, of _ "x\<lparr>usr_disabled := True, usr_updated_at := clock s\<rparr>"]
    by (auto simp: list_all_iff list_ex_iff is_active_owner_def)
  then have "here_and_saved (locked E) s1"
    using deletion_wf [OF assms(3,2)] assms(5) x by (simp add: here_and_saved_def locked_def)
  from locked.history_keeps [OF assms(1) this] active_owner_ex [of "history A E es s1"] show ?thesis
    by (simp add: here_and_saved_def locked_def owner_present_def)
qed

section \<open>A deleted account\<close>

definition gone :: "env \<Rightarrow> string \<Rightarrow> account_predicate" where
  "gone E uid t n U I \<longleftrightarrow> wf_accounts E t n U I \<and> (\<exists>x. dict_get U uid = Some x \<and> usr_disabled x)"

lemma gone_kept:
  assumes "gone E uid (clock s) (draws s) (users s) (invites s)" "effect E s leaving s'" "saved s s'"
  shows "gone E uid (clock s') (draws s') (users s') (invites s')"
proof -
  have w: "wf_accounts E (clock s) (draws s) (users s) (invites s)" using assms(1) by (simp add: gone_def)
  then have k: "keyed usr_id (users s)" by (simp add: wf_accounts_def)
  obtain z where z: "dict_get (users s) uid = Some z" "usr_disabled z" using assms(1) by (auto simp: gone_def)
  have fresh: "new_account E s u \<Longrightarrow> usr_id u \<noteq> uid" for u using fresh_user [OF w, of u] z(1) by auto
  have same: "x \<in> set (dict_vals (users s)) \<Longrightarrow> usr_id x = uid \<Longrightarrow> usr_disabled x" for x
    using accounts.get_self [OF k, of x] z by auto
  have "\<exists>x. dict_get (users s') uid = Some x \<and> usr_disabled x"
    using assms(2) by cases (use z fresh same in \<open>auto simp: same_account_def\<close>)
  with wf_kept [OF w assms(2,3)] show ?thesis by (simp add: gone_def)
qed

interpretation gone: account_invariant E True "gone E uid"
proof
  show "gone E uid t n (by_key U) (by_key I)" if "gone E uid t n U I" for t n U I
  proof -
    have "keyed usr_id U" using that by (simp add: gone_def wf_accounts_def)
    with that wf.reordered [of E t n U I] show ?thesis by (simp add: gone_def by_key_get)
  qed
  show "gone E uid t' n' U I" if "gone E uid t n U I" "t \<le> t'" "n \<le> n'" for t n U I t' n'
    using that by (auto simp: gone_def intro: wf_later)
qed (auto intro: gone_kept)

text \<open>
  C29. A deleted account never acts again. After its deletion request, in every later history no bearer token
  authenticates as it, whatever sessions it had, and no address and password log it in; nothing, not even a
  restart, enables it again.
\<close>

theorem deleted_account_is_out:
  assumes "cfg_auth_enabled (settings A)" "here_and_saved (wf_accounts E) s"
    "request_account_deletion E reason actor s = (Inr r, s1)"
  shows "\<not> (\<exists>auth u. fst (require_user A E auth (history A E es s1)) = Inr u \<and> user_id u = user_id actor) \<and>
    \<not> (\<exists>email password x. fst (login A E email password (history A E es s1)) = Inr x \<and>
       user_id (ar_user x) = user_id actor)"
proof -
  let ?s = "history A E es s1"
  have k: "keyed usr_id (users s)" using assms(2) by (simp add: here_and_saved_def wf_accounts_def)
  from deletion_done [OF assms(3) k] deletion_wf [OF assms(3,2)]
  have "here_and_saved (gone E (user_id actor)) s1" by (auto simp: here_and_saved_def gone_def)
  then have "here_and_saved (gone E (user_id actor)) ?s" using gone.history_keeps [OF assms(1)] by simp
  then obtain z where w: "wf_accounts E (clock ?s) (draws ?s) (users ?s) (invites ?s)"
      and z: "dict_get (users ?s) (user_id actor) = Some z" "usr_disabled z"
    unfolding here_and_saved_def gone_def by blast
  from w have k': "keyed usr_id (users ?s)" by (simp add: wf_accounts_def)
  have out: "usr_disabled x" if "x \<in> set (dict_vals (users ?s))" "usr_id x = user_id actor" for x
    using that accounts.get_self [OF k' that(1)] z by simp
  have a: "user_id u \<noteq> user_id actor" if "fst (require_user A E auth ?s) = Inr u" for auth u
    using require_user_someone [of A E auth ?s u "snd (require_user A E auth ?s)"] that assms(1) out
    by (auto simp: to_auth_user_def prod_eq_iff)
  have b: "user_id (ar_user x) \<noteq> user_id actor" if "fst (login A E email password ?s) = Inr x" for email password x
    using that out
    by (auto simp: login_def authenticate_user_def create_session_def Let_def to_auth_user_def
        dest!: user_by_email_val split: option.splits if_splits)
  from a b show ?thesis by blast
qed

section \<open>Every account was invited\<close>

text \<open>Every account but the first has an accepted invitation of its own, to its address.\<close>

definition admitted_by :: "User \<Rightarrow> Invite \<Rightarrow> bool" where
  "admitted_by x i \<longleftrightarrow> inv_status i = InviteStatus.ACCEPTED \<and> inv_accepted_by_user_id i = Some (usr_id x) \<and>
     inv_email i = usr_email x"

definition admitted :: "env \<Rightarrow> account_predicate" where
  "admitted E t n U I \<longleftrightarrow> wf_accounts E t n U I \<and>
     (\<exists>first. \<forall>x \<in> set (dict_vals U). usr_id x = first \<or> list_ex (admitted_by x) (dict_vals I))"

lemma admitted_stays:
  assumes "keyed inv_id I" "list_ex (admitted_by x) (dict_vals I)" "j \<in> set (dict_vals I)" "inv_id i = inv_id j"
    "inv_status j \<noteq> InviteStatus.ACCEPTED \<or> (\<forall>y. admitted_by y j \<longrightarrow> admitted_by y i)"
  shows "list_ex (admitted_by x) (dict_vals (dict_set (inv_id i) i I))"
proof -
  obtain l where l: "l \<in> set (dict_vals I)" "admitted_by x l" using assms(2) by (auto simp: list_ex_iff)
  have "inv_id l = inv_id j \<Longrightarrow> l = j" using invitations.vals_unique [OF assms(1) l(1) assms(3)] by simp
  then show ?thesis
    using l assms(3-5) invitations.in_vals_put [OF assms(1), of _ i]
    by (cases "inv_id l = inv_id j") (auto simp: list_ex_iff admitted_by_def)
qed

lemma admitted_fresh:
  assumes "wf_accounts E t (draws s) U (invites s)" "list_ex (admitted_by x) (dict_vals (invites s))"
    "inv_id i = ''invite_'' @ uuid_hex12 E (Suc (draws s))"
  shows "list_ex (admitted_by x) (dict_vals (dict_set (inv_id i) i (invites s)))"
proof -
  have "inv_id l \<noteq> inv_id i" if "l \<in> set (dict_vals (invites s))" for l
    using that assms(1,3) undrawn [of E "draws s" "Suc (draws s)" "''invite_''"] by (auto simp: wf_accounts_def)
  then show ?thesis
    using assms(1,2) invitations.in_vals_put [of "invites s" _ i] by (auto simp: list_ex_iff wf_accounts_def)
qed

lemma admitted_kept:
  assumes "admitted E (clock s) (draws s) (users s) (invites s)" "effect E s leaving s'" "saved s s'"
  shows "admitted E (clock s') (draws s') (users s') (invites s')"
proof -
  have w: "wf_accounts E (clock s) (draws s) (users s) (invites s)" using assms(1) by (simp add: admitted_def)
  then have k: "keyed usr_id (users s)" "keyed inv_id (invites s)" by (simp_all add: wf_accounts_def)
  obtain b where b: "\<And>x. x \<in> set (dict_vals (users s)) \<Longrightarrow> usr_id x = b \<or> list_ex (admitted_by x) (dict_vals (invites s))"
    using assms(1) by (auto simp: admitted_def)
  note stays = admitted_stays [OF k(2)]
  have one: "\<forall>z \<in> set (dict_vals (dict_set (usr_id y) y (users s))).
      usr_id z = b \<or> list_ex (admitted_by z) (dict_vals (invites s))"
    if "x \<in> set (dict_vals (users s))" "usr_id y = usr_id x" "usr_email y = usr_email x" for x y
  proof -
    have "admitted_by y = admitted_by x" using that(2,3) by (auto simp: admitted_by_def)
    with that b accounts.in_vals_put [OF k(1), of _ y] show ?thesis by metis
  qed
  have "\<exists>first. \<forall>x \<in> set (dict_vals (users s')). usr_id x = first \<or> list_ex (admitted_by x) (dict_vals (invites s'))"
    using assms(2)
  proof cases
    case (noticed j)
    let ?j = "j\<lparr>inv_status := effective_invite_status j (clock s)\<rparr>"
    have "inv_status j \<noteq> InviteStatus.ACCEPTED \<or> (\<forall>y. admitted_by y j \<longrightarrow> admitted_by y ?j)"
      by (auto simp: admitted_by_def effective_invite_status_def)
    with noticed b stays [of _ j ?j] show ?thesis by (intro exI [of _ b]) auto
  next
    case (bootstrap u)
    then show ?thesis by (auto simp: dict_vals_def)
  next
    case (joined j u)
    let ?j = "j\<lparr>inv_status := InviteStatus.ACCEPTED, inv_accepted_by_user_id := Some (usr_id u), inv_updated_at := clock s\<rparr>"
    have "inv_status j \<noteq> InviteStatus.ACCEPTED" using joined(2) by (auto simp: effective_invite_status_def)
    with joined(1) have "list_ex (admitted_by x) (dict_vals (invites s)) \<Longrightarrow>
        list_ex (admitted_by x) (dict_vals (dict_set (inv_id ?j) ?j (invites s)))" for x
      using stays [of x j ?j] by simp
    moreover have "list_ex (admitted_by u) (dict_vals (dict_set (inv_id ?j) ?j (invites s)))"
      using invitations.in_vals_put [OF k(2), of ?j ?j] joined(5)
      unfolding list_ex_iff by (intro bexI [of _ ?j]) (simp_all add: admitted_by_def)
    ultimately show ?thesis
      using joined(7,8) accounts.in_vals_put [OF k(1), of _ u] by (intro exI [of _ b]) (auto dest!: b)
  next
    case (verification x y)
    with one [of x y] show ?thesis by (auto simp: same_account_def)
  next
    case (invited i)
    with b admitted_fresh [OF w _ invited(3)] show ?thesis by (intro exI [of _ b]) auto
  next
    case listed
    have v: "dict_vals (map (\<lambda>(k, j). (k, refresh_invite (clock s) j)) (invites s)) =
        map (refresh_invite (clock s)) (dict_vals (invites s))"
      by (simp add: dict_vals_def comp_def case_prod_unfold)
    have "admitted_by x i \<Longrightarrow> refresh_invite (clock s) i = i" for x i
      by (simp add: admitted_by_def refresh_invite_def effective_invite_status_def)
    then have "list_ex (admitted_by x) (dict_vals (invites s)) \<Longrightarrow> list_ex (admitted_by x) (dict_vals (invites s'))" for x
      unfolding listed(2) v by (auto simp: list_ex_iff) metis
    with b listed(1) show ?thesis by (intro exI [of _ b]) auto
  next
    case (revoked j)
    let ?j = "j\<lparr>inv_status := InviteStatus.REVOKED, inv_updated_at := clock s\<rparr>"
    have "inv_status j \<noteq> InviteStatus.ACCEPTED" using revoked(4) by (auto simp: effective_invite_status_def)
    with revoked b stays [of _ j ?j] show ?thesis by (intro exI [of _ b]) auto
  next
    case unchanged
    with b show ?thesis by (intro exI [of _ b]) auto
  next
    case (left x)
    with one [of x "x\<lparr>usr_disabled := True, usr_updated_at := clock s\<rparr>"] show ?thesis by auto
  next
    case (role x r)
    with one [of x "x\<lparr>usr_role := r, usr_updated_at := clock s\<rparr>"] show ?thesis by auto
  next
    case (promotion x r)
    with one [of x "x\<lparr>usr_role := r, usr_updated_at := clock s\<rparr>"] show ?thesis by auto
  qed
  with wf_kept [OF w assms(2,3)] show ?thesis by (simp add: admitted_def)
qed

interpretation admitted: account_invariant E True "admitted E"
proof
  show "admitted E t n (by_key U) (by_key I)" if "admitted E t n U I" for t n U I
    using that wf.reordered [of E t n U I] by (simp add: admitted_def by_key_vals list_ex_iff)
  show "admitted E t' n' U I" if "admitted E t n U I" "t \<le> t'" "n \<le> n'" for t n U I t' n'
    using that wf_later [of E t n U I n' t'] by (simp add: admitted_def)
qed (auto intro: admitted_kept)

text \<open>
  C30. Nobody gets in uninvited. From an empty backend on, after every history, every account except one
  (the bootstrap owner) has an accepted invitation to its own address that names it; since an invitation
  names one account, it lets in one. And no two accounts have the same address.
\<close>

theorem accounts_are_invited:
  assumes "cfg_auth_enabled (settings A)" "inj (uuid_hex12 E)"
    "users s = []" "invites s = []" "users (rows (disk s)) = []" "invites (rows (disk s)) = []"
  shows "(\<exists>first. \<forall>x \<in> set (dict_vals (users (history A E es s))).
      usr_id x = first \<or> list_ex (admitted_by x) (dict_vals (invites (history A E es s)))) \<and>
    distinct (map usr_email (dict_vals (users (history A E es s))))"
proof -
  have "here_and_saved (admitted E) s"
    using assms(2-6) by (simp add: here_and_saved_def admitted_def wf_accounts_def dict_vals_def)
  from admitted.history_keeps [OF assms(1) this, of es]
  have "admitted E (clock (history A E es s)) (draws (history A E es s)) (users (history A E es s)) (invites (history A E es s))"
    by (simp add: here_and_saved_def)
  then show ?thesis by (simp add: admitted_def wf_accounts_def)
qed

section \<open>Instances\<close>

definition sample_auth :: auth_env where
  "sample_auth = \<lparr>pbkdf2_hmac = (\<lambda>secret salt. secret @ salt), randbelow = (\<lambda>n m. n mod m),
     domain_has_dns_records = (\<lambda>d. True),
     settings = \<lparr>cfg_profile = ''production'', cfg_auth_enabled = True, cfg_db_path = ''/data/tower.sqlite3'',
       cfg_trust_enforcement = True, cfg_github_token_configured = True, cfg_github_app_configured = False,
       cfg_fcm_server_key_configured = True, cfg_lease_signing_key_configured = True, cfg_public_base_url = None,
       cfg_allow_unauthenticated_external_agent_demo = False, cfg_validation_errors = []\<rparr>\<rparr>"

definition sample_owner :: User where
  "sample_owner = \<lparr>usr_id = ''user_'' @ nat_digits 0, usr_email = ''o@x.org'', usr_display_name = ''O'',
     usr_role = UserRole.OWNER, usr_password_hash = ''p'', usr_password_salt = [], usr_disabled = False,
     usr_email_verified = True, usr_email_verification_hash = None, usr_email_verification_salt = None,
     usr_email_verification_expires_at = None, usr_email_verification_sent_at = None, usr_created_at = 0,
     usr_updated_at = 0\<rparr>"

definition owner_store :: store where
  "owner_store = empty_store\<lparr>users := [(usr_id sample_owner, sample_owner)]\<rparr>"

definition owner_sys :: sys where
  "owner_sys = sys_of owner_store 1000000 1 owner_store"

lemma auth_on: "cfg_auth_enabled (settings sample_auth)"
  by (simp add: sample_auth_def)

lemma owner_parts:
  "users owner_sys = [(usr_id sample_owner, sample_owner)]" "invites owner_sys = []" "clock owner_sys = 1000000"
  "users (rows (disk owner_sys)) = [(usr_id sample_owner, sample_owner)]" "invites (rows (disk owner_sys)) = []"
  "draws owner_sys = 1" "usr_disabled sample_owner = False" "is_active_owner sample_owner"
  by (simp_all add: owner_sys_def owner_store_def sys_of_def empty_store_def store.defs sample_owner_def is_active_owner_def)

lemma owner_sys_wf: "here_and_saved (wf_accounts sample_env) owner_sys"
proof -
  have "drawn_id sample_env ''user_'' 1 (usr_id sample_owner)" "py_lower (usr_email sample_owner) = usr_email sample_owner"
    by (simp_all add: drawn_id_def sample_env_def sample_owner_def py_lower_def lower_char_def)
  then show ?thesis
    using sample_env_inj by (simp add: here_and_saved_def wf_accounts_def owner_parts keyed_def dict_vals_def)
qed

lemma owner_sys_owned: "here_and_saved (owned sample_env) owner_sys"
  using owner_sys_wf by (simp add: here_and_saved_def owned_def owner_parts dict_vals_def)

lemma owner_remains_witness:
  "1 \<le> active_owner_count (history sample_auth sample_env
     [Request (Register \<lparr>rg_email = ''a@x.org'', rg_password = ''p'', rg_display_name = [], rg_invite_token = None\<rparr>),
      Later 5, Restart, Request (UpdateRole (Some ''Bearer t'') (usr_id sample_owner) UserRole.REVIEWER)] owner_sys)"
  by (rule owner_remains [OF auth_on owner_sys_owned]) simp

lemma owner_leaves:
  "\<exists>r s1. request_account_deletion sample_env [] (to_auth_user sample_owner) owner_sys = (Inr r, s1)"
  by (simp add: request_account_deletion_def owner_parts to_auth_user_def Let_def ret_def)

lemma last_owner_locks_out_witness:
  "\<exists>r s1. request_account_deletion sample_env [] (to_auth_user sample_owner) owner_sys = (Inr r, s1) \<and>
     active_owner_count (history sample_auth sample_env
       [Request (Register \<lparr>rg_email = ''a@x.org'', rg_password = ''Xk9!vTq2#rLm'', rg_display_name = [],
          rg_invite_token = Some ''t''\<rparr>), Later 9, Restart] s1) = 0"
proof -
  obtain r s1 where d: "request_account_deletion sample_env [] (to_auth_user sample_owner) owner_sys = (Inr r, s1)"
    using owner_leaves by blast
  show ?thesis
    by (intro exI conjI, rule d, rule last_owner_locks_out [OF auth_on owner_sys_wf d])
       (simp_all add: owner_parts dict_vals_def to_auth_user_def)
qed

lemma deleted_account_is_out_witness:
  "\<exists>r s1. request_account_deletion sample_env [] (to_auth_user sample_owner) owner_sys = (Inr r, s1) \<and>
     \<not> (\<exists>email password x. fst (login sample_auth sample_env email password
         (history sample_auth sample_env [Restart] s1)) = Inr x \<and> user_id (ar_user x) = usr_id sample_owner)"
proof -
  obtain r s1 where d: "request_account_deletion sample_env [] (to_auth_user sample_owner) owner_sys = (Inr r, s1)"
    using owner_leaves by blast
  have "user_id (to_auth_user sample_owner) = usr_id sample_owner" by (simp add: to_auth_user_def)
  with deleted_account_is_out [OF auth_on owner_sys_wf d, of "[Restart]"] d show ?thesis by auto
qed

lemma accounts_are_invited_witness:
  "distinct (map usr_email (dict_vals (users (history sample_auth sample_env
     [Request (Register \<lparr>rg_email = ''a@x.org'', rg_password = ''Xk9!vTq2#rLm'', rg_display_name = [],
        rg_invite_token = None\<rparr>), Later 9, Restart] (sys_of empty_store 1000000 0 empty_store)))))"
  using accounts_are_invited [OF auth_on sample_env_inj, of "sys_of empty_store 1000000 0 empty_store"]
  by (simp add: sys_of_def store.defs empty_store_def)

end
